(* ===== verification/Prelude.thy ===== *)
theory Prelude
  imports Complex_Main "HOL-Library.AList" "HOL-Library.Sublist" "HOL-Library.Product_Lexorder"
begin

text \<open>
  Shared vocabulary of the development: identifiers, time, JSON values, errors, the outcome of a
  fallible stateful call, Python dictionaries with insertion order, and the generic lemmas on them.

  \<^item> A \<^verbatim>\<open>UUID\<close> is its 128-bit number (the order of \<^verbatim>\<open>UUID.hex\<close> is the order of the numbers).
  \<^item> An aware \<^verbatim>\<open>datetime\<close> is the number of microseconds of its instant since the epoch, in UTC.
  \<^item> A \<^verbatim>\<open>dict\<close> is an association list in insertion order: \<open>AList.update\<close> replaces the value of a
    present key in place and appends a new key at the end, \<open>AList.delete\<close> drops a key, \<open>map_of\<close>
    looks one up, and \<open>map snd\<close> is \<^verbatim>\<open>dict.values()\<close>.
  \<^item> A call that may raise returns \<open>Inl\<close> of the exception or \<open>Inr\<close> of the value, together with the
    state left behind: Python keeps the mutations made before an exception.
\<close>

named_theorems store_ops \<open>definitions of the operations of the runtime store\<close>
named_theorems frame \<open>which tables an operation leaves alone\<close>

type_synonym uuid = nat
type_synonym datetime = int
type_synonym ('k, 'v) dict = "('k \<times> 'v) list"

text \<open>\<open>timedelta(minutes=n)\<close> and \<open>timedelta(seconds=n)\<close> in microseconds.\<close>

definition seconds :: "int \<Rightarrow> int" where
  "seconds n = n * 1000000"

definition minutes :: "int \<Rightarrow> int" where
  "minutes n = seconds (60 * n)"

text \<open>
  JSON values of payloads, checkpoints and tool arguments. \<open>JId u\<close> stands for the string
  \<^verbatim>\<open>str(u)\<close> of a UUID and \<open>JTime t\<close> for the \<^verbatim>\<open>isoformat()\<close> string of an instant: both renderings
  are injective, so they are kept symbolic.
\<close>

datatype json =
    JNull
  | JBool bool
  | JInt int
  | JFloat rat
  | JStr string
  | JId uuid
  | JTime datetime
  | JList "json list"
  | JObj "(string \<times> json) list"

text \<open>The exceptions the modelled code raises.\<close>

datatype error =
    LifecycleNotFoundError string
  | LifecycleConflictError string
  | ValidationError string
  | KeyError
  | IndexError
  | ValueError string
  | ModelProviderError string
  | TypeError string
  | IntegrityError
  | OSError string
  | RuntimeError string
  | HTTPStatusError
  | AttributeError
  | HTTPException int string
  | PermissionError string
  | FileNotFoundError string
  | TransportError
  | InvalidTokenError string
  | CancelledError

type_synonym ('a, 's) outcome = "(error + 'a) \<times> 's"

text \<open>An internal lookup (\<^verbatim>\<open>d[k]\<close>, \<^verbatim>\<open>xs[-1]\<close>) that failed, as opposed to a lifecycle error.\<close>

fun internal_failure :: "error + 'a \<Rightarrow> bool" where
  "internal_failure (Inl KeyError) = True"
| "internal_failure (Inl IndexError) = True"
| "internal_failure _ = False"

text \<open>Sequencing of steps that may raise, and a constructor that validates its argument.\<close>

definition ebind :: "error + 'a \<Rightarrow> ('a \<Rightarrow> error + 'b) \<Rightarrow> error + 'b" where
  "ebind r f = (case r of Inl err \<Rightarrow> Inl err | Inr x \<Rightarrow> f x)"

definition checked :: "('a \<Rightarrow> bool) \<Rightarrow> 'a \<Rightarrow> error + 'a" where
  "checked ok x = (if ok x then Inr x else Inl (ValidationError ''invalid field''))"

fun emap :: "('a \<Rightarrow> error + 'b) \<Rightarrow> 'a list \<Rightarrow> error + 'b list" where
  "emap f [] = Inr []"
| "emap f (x # xs) = ebind (f x) (\<lambda>y. ebind (emap f xs) (\<lambda>ys. Inr (y # ys)))"

lemma ebind_simps [simp]:
  "ebind (Inl err) f = Inl err" "ebind (Inr x) f = f x"
  by (simp_all add: ebind_def)

lemma ebind_Inr_iff: "ebind r f = Inr y \<longleftrightarrow> (\<exists>x. r = Inr x \<and> f x = Inr y)"
  by (cases r) simp_all

lemma checked_valid [simp]: "ok x \<Longrightarrow> checked ok x = Inr x"
  by (simp add: checked_def)

lemma checked_Inr [simp]: "checked ok x = Inr y \<longleftrightarrow> ok x \<and> y = x"
  by (auto simp: checked_def)

lemma emap_all [simp]: "(\<And>x. x \<in> set xs \<Longrightarrow> f (g x) = Inr x) \<Longrightarrow> emap f (map g xs) = Inr xs"
  by (induction xs) simp_all

lemma emap_Inr_length: "emap f xs = Inr ys \<Longrightarrow> length ys = length xs"
  by (induction xs arbitrary: ys) (auto simp: ebind_Inr_iff)

text \<open>\<^verbatim>\<open>x = d.get(k); x is None or x.tenant_id != tenant_id\<close>: the row a tenant may see.\<close>

definition scoped :: "('a \<Rightarrow> uuid) \<Rightarrow> (uuid, 'a) dict \<Rightarrow> uuid \<Rightarrow> uuid \<Rightarrow> 'a option" where
  "scoped tenant_of tbl tenant k =
     (case map_of tbl k of
        None \<Rightarrow> None
      | Some x \<Rightarrow> if tenant_of x = tenant then Some x else None)"

lemma scoped_Some_iff [simp]:
  "scoped f tbl t k = Some x \<longleftrightarrow> map_of tbl k = Some x \<and> f x = t"
  by (auto simp: scoped_def split: option.splits)

lemma scoped_None_iff:
  "scoped f tbl t k = None \<longleftrightarrow> (\<forall>x. map_of tbl k = Some x \<longrightarrow> f x \<noteq> t)"
  by (auto simp: scoped_def split: option.splits)

text \<open>A dictionary whose rows carry their own key: \<open>d[x.id] = x\<close> at every store.\<close>

definition keyed :: "('a \<Rightarrow> uuid) \<Rightarrow> (uuid, 'a) dict \<Rightarrow> bool" where
  "keyed idf tbl \<longleftrightarrow> distinct (map fst tbl) \<and> (\<forall>(k, x) \<in> set tbl. idf x = k)"

lemma keyed_Nil [simp]: "keyed f []"
  by (simp add: keyed_def)

lemma set_AList_update:
  "set (AList.update k v tbl) \<subseteq> insert (k, v) (set tbl)"
  by (induction tbl) auto

lemma keyed_update [intro]:
  assumes "keyed f tbl" and "f x = k"
  shows "keyed f (AList.update k x tbl)"
  using assms set_AList_update[of k x tbl]
  unfolding keyed_def by (auto intro: distinct_update)

lemma keyed_mapof: "keyed f tbl \<Longrightarrow> map_of tbl k = Some x \<Longrightarrow> f x = k"
  unfolding keyed_def by (auto dest!: map_of_SomeD)

lemma keyed_values:
  "keyed f tbl \<Longrightarrow> x \<in> set (map snd tbl) \<longleftrightarrow> map_of tbl (f x) = Some x"
  unfolding keyed_def by (force dest: map_of_SomeD simp: map_of_eq_Some_iff)

text \<open>A search over sorted values stops at a least element among those it looks for.\<close>

lemma find_sort_key_least:
  assumes "find P (sort_key g xs) = Some x"
  shows "x \<in> set xs \<and> P x \<and> (\<forall>y \<in> set xs. P y \<longrightarrow> g x \<le> g y)"
proof -
  have "find P ys = Some x \<Longrightarrow> sorted (map g ys) \<Longrightarrow> x \<in> set ys \<and> P x \<and> (\<forall>y \<in> set ys. P y \<longrightarrow> g x \<le> g y)" for ys
    by (induction ys) (auto split: if_splits)
  from this[OF assms] show ?thesis by simp
qed

lemma find_sort_key_None: "find P (sort_key g xs) = None \<longleftrightarrow> (\<forall>x \<in> set xs. \<not> P x)"
  by (auto simp: find_None_iff)

lemma update_value_mem [simp]: "x \<in> snd ` set (AList.update k x tbl)"
  by (induction tbl) auto

end
