(* ===== verification/Domain.thy ===== *)
theory Domain
  imports Prelude
begin

text \<open>
  The domain models of \<^verbatim>\<open>packages/domain/src/astra_domain/models.py\<close>: the enumerations with their
  string values, one record per frozen pydantic model, and the constraints their constructors
  check (\<^verbatim>\<open>Field\<close> bounds and \<^verbatim>\<open>model_validator\<close>s) as the bool-valued \<open>valid_...\<close> predicates.
  A field \<^verbatim>\<open>x\<close> of a model is the record field \<open>pr_x\<close> with a two-letter prefix of the model
  (\<open>tk_\<close> task, \<open>ls_\<close> lease, \<open>tn_\<close> turn, \<open>iv_\<close> tool invocation, \<open>ap_\<close> approval, \<open>af_\<close> artifact,
  \<open>ra_\<close> remote agent, \<open>mr_\<close> memory record, \<open>mb_\<close> migration batch, \<open>jb_\<close> job, \<open>at_\<close> job attempt,
  \<open>cv_\<close> conversation, \<open>ms_\<close> message, \<open>pc_\<close> and \<open>pp_\<close> persona core and profile, \<open>la_\<close> learned
  adaptation, \<open>ev_\<close> audit event). \<^verbatim>\<open>model_copy(update=...)\<close> is a record update: it does not validate.
  Memory, migration and adaptation states carry the order of their life cycle.
\<close>

section \<open>Enumerations\<close>

datatype capability_kind =
    FILE_READ
  | FILE_WRITE
  | COMMAND_EXECUTE
  | COMMAND_EXECUTE_HOST
  | NETWORK_ACCESS
  | CREDENTIAL_ACCESS
  | EXTERNAL_MESSAGE

primrec capability_kind_value :: "capability_kind \<Rightarrow> string" where
  "capability_kind_value FILE_READ = ''file.read''"
| "capability_kind_value FILE_WRITE = ''file.write''"
| "capability_kind_value COMMAND_EXECUTE = ''command.execute''"
| "capability_kind_value COMMAND_EXECUTE_HOST = ''command.execute:host''"
| "capability_kind_value NETWORK_ACCESS = ''network.access''"
| "capability_kind_value CREDENTIAL_ACCESS = ''credential.access''"
| "capability_kind_value EXTERNAL_MESSAGE = ''external.message''"

datatype remote_agent_status =
    Ara_ACTIVE
  | Ara_OFFLINE
  | Ara_REVOKED

primrec remote_agent_status_value :: "remote_agent_status \<Rightarrow> string" where
  "remote_agent_status_value Ara_ACTIVE = ''active''"
| "remote_agent_status_value Ara_OFFLINE = ''offline''"
| "remote_agent_status_value Ara_REVOKED = ''revoked''"

datatype task_state =
    Task_PENDING
  | Task_LEASED
  | Task_COMPLETED
  | Task_FAILED
  | Task_CANCELLED
  | Task_CANCELLING

primrec task_state_value :: "task_state \<Rightarrow> string" where
  "task_state_value Task_PENDING = ''pending''"
| "task_state_value Task_LEASED = ''leased''"
| "task_state_value Task_COMPLETED = ''completed''"
| "task_state_value Task_FAILED = ''failed''"
| "task_state_value Task_CANCELLED = ''cancelled''"
| "task_state_value Task_CANCELLING = ''cancelling''"

datatype conversation_turn_state =
    Turn_PENDING
  | Turn_RUNNING
  | Turn_PAUSED
  | Turn_COMPLETED
  | Turn_FAILED

primrec conversation_turn_state_value :: "conversation_turn_state \<Rightarrow> string" where
  "conversation_turn_state_value Turn_PENDING = ''pending''"
| "conversation_turn_state_value Turn_RUNNING = ''running''"
| "conversation_turn_state_value Turn_PAUSED = ''paused''"
| "conversation_turn_state_value Turn_COMPLETED = ''completed''"
| "conversation_turn_state_value Turn_FAILED = ''failed''"

datatype tool_invocation_target =
    Target_LOCAL
  | Target_ARA

primrec tool_invocation_target_value :: "tool_invocation_target \<Rightarrow> string" where
  "tool_invocation_target_value Target_LOCAL = ''local''"
| "tool_invocation_target_value Target_ARA = ''ara''"

datatype tool_invocation_state =
    Inv_PENDING
  | Inv_AWAITING_APPROVAL
  | Inv_RUNNING
  | Inv_COMPLETED
  | Inv_FAILED
  | Inv_DENIED

primrec tool_invocation_state_value :: "tool_invocation_state \<Rightarrow> string" where
  "tool_invocation_state_value Inv_PENDING = ''pending''"
| "tool_invocation_state_value Inv_AWAITING_APPROVAL = ''awaiting_approval''"
| "tool_invocation_state_value Inv_RUNNING = ''running''"
| "tool_invocation_state_value Inv_COMPLETED = ''completed''"
| "tool_invocation_state_value Inv_FAILED = ''failed''"
| "tool_invocation_state_value Inv_DENIED = ''denied''"

datatype approval_state =
    Appr_PENDING
  | Appr_GRANTED
  | Appr_DENIED

primrec approval_state_value :: "approval_state \<Rightarrow> string" where
  "approval_state_value Appr_PENDING = ''pending''"
| "approval_state_value Appr_GRANTED = ''granted''"
| "approval_state_value Appr_DENIED = ''denied''"

datatype actor_type =
    Actor_USER
  | Actor_COORDINATOR
  | Actor_ARA

primrec actor_type_value :: "actor_type \<Rightarrow> string" where
  "actor_type_value Actor_USER = ''user''"
| "actor_type_value Actor_COORDINATOR = ''coordinator''"
| "actor_type_value Actor_ARA = ''ara''"

datatype event_type =
    CONVERSATION_CREATED
  | CONVERSATION_RECEIVED
  | CONTEXT_COMPILED
  | MODEL_REQUEST
  | MODEL_RESPONSE
  | MODEL_FAILED
  | PIPELINE_FAILED
  | PIPELINE_RECOVERED
  | JOB_REQUEUED
  | ARA_TRUST_UPDATED
  | ARA_REVOKED
  | MEMORY_CANDIDATE_CREATED
  | MEMORY_PROMOTED
  | MEMORY_REJECTED
  | MEMORY_CONTRADICTION_RESOLVED
  | MEMORY_DELETED
  | MEMORY_PINNED
  | MEMORY_UNPINNED
  | TASK_CREATED
  | ARA_REGISTERED
  | TASK_LEASED
  | LEASE_RENEWED
  | ARA_PROGRESS
  | APPROVAL_REQUESTED
  | APPROVAL_GRANTED
  | APPROVAL_DENIED
  | TASK_COMPLETED
  | TASK_FAILED
  | TASK_CANCELLED
  | ARTIFACT_PRODUCED
  | ARTIFACT_DOWNLOADED
  | ARTIFACT_DELETED
  | ARA_HEARTBEAT
  | CONVERSATION_TURN_CREATED
  | CONVERSATION_TURN_RUNNING
  | CONVERSATION_TURN_PAUSED
  | CONVERSATION_TURN_COMPLETED
  | CONVERSATION_TURN_FAILED
  | TOOL_INVOCATION_REQUESTED
  | TOOL_INVOCATION_COMPLETED
  | TOOL_INVOCATION_FAILED
  | TOOL_INVOCATION_DENIED
  | PERSONA_CREATED
  | PERSONA_ACTIVATED
  | PERSONA_REVERTED
  | PLANNER_DENIED
  | MIGRATION_STAGED
  | MIGRATION_ACTIVATED
  | MIGRATION_ROLLED_BACK

primrec event_type_value :: "event_type \<Rightarrow> string" where
  "event_type_value CONVERSATION_CREATED = ''conversation.created''"
| "event_type_value CONVERSATION_RECEIVED = ''conversation.received''"
| "event_type_value CONTEXT_COMPILED = ''context.compiled''"
| "event_type_value MODEL_REQUEST = ''model.request''"
| "event_type_value MODEL_RESPONSE = ''model.response''"
| "event_type_value MODEL_FAILED = ''model.failed''"
| "event_type_value PIPELINE_FAILED = ''pipeline.failed''"
| "event_type_value PIPELINE_RECOVERED = ''pipeline.recovered''"
| "event_type_value JOB_REQUEUED = ''job.requeued''"
| "event_type_value ARA_TRUST_UPDATED = ''ara.trust_updated''"
| "event_type_value ARA_REVOKED = ''ara.revoked''"
| "event_type_value MEMORY_CANDIDATE_CREATED = ''memory.candidate_created''"
| "event_type_value MEMORY_PROMOTED = ''memory.promoted''"
| "event_type_value MEMORY_REJECTED = ''memory.rejected''"
| "event_type_value MEMORY_CONTRADICTION_RESOLVED = ''memory.contradiction_resolved''"
| "event_type_value MEMORY_DELETED = ''memory.deleted''"
| "event_type_value MEMORY_PINNED = ''memory.pinned''"
| "event_type_value MEMORY_UNPINNED = ''memory.unpinned''"
| "event_type_value TASK_CREATED = ''task.created''"
| "event_type_value ARA_REGISTERED = ''ara.registered''"
| "event_type_value TASK_LEASED = ''task.leased''"
| "event_type_value LEASE_RENEWED = ''lease.renewed''"
| "event_type_value ARA_PROGRESS = ''ara.progress''"
| "event_type_value APPROVAL_REQUESTED = ''approval.requested''"
| "event_type_value APPROVAL_GRANTED = ''approval.granted''"
| "event_type_value APPROVAL_DENIED = ''approval.denied''"
| "event_type_value TASK_COMPLETED = ''task.completed''"
| "event_type_value TASK_FAILED = ''task.failed''"
| "event_type_value TASK_CANCELLED = ''task.cancelled''"
| "event_type_value ARTIFACT_PRODUCED = ''artifact.produced''"
| "event_type_value ARTIFACT_DOWNLOADED = ''artifact.downloaded''"
| "event_type_value ARTIFACT_DELETED = ''artifact.deleted''"
| "event_type_value ARA_HEARTBEAT = ''ara.heartbeat''"
| "event_type_value CONVERSATION_TURN_CREATED = ''conversation_turn.created''"
| "event_type_value CONVERSATION_TURN_RUNNING = ''conversation_turn.running''"
| "event_type_value CONVERSATION_TURN_PAUSED = ''conversation_turn.paused''"
| "event_type_value CONVERSATION_TURN_COMPLETED = ''conversation_turn.completed''"
| "event_type_value CONVERSATION_TURN_FAILED = ''conversation_turn.failed''"
| "event_type_value TOOL_INVOCATION_REQUESTED = ''tool_invocation.requested''"
| "event_type_value TOOL_INVOCATION_COMPLETED = ''tool_invocation.completed''"
| "event_type_value TOOL_INVOCATION_FAILED = ''tool_invocation.failed''"
| "event_type_value TOOL_INVOCATION_DENIED = ''tool_invocation.denied''"
| "event_type_value PERSONA_CREATED = ''persona.created''"
| "event_type_value PERSONA_ACTIVATED = ''persona.activated''"
| "event_type_value PERSONA_REVERTED = ''persona.reverted''"
| "event_type_value PLANNER_DENIED = ''planner.denied''"
| "event_type_value MIGRATION_STAGED = ''migration.staged''"
| "event_type_value MIGRATION_ACTIVATED = ''migration.activated''"
| "event_type_value MIGRATION_ROLLED_BACK = ''migration.rolled_back''"

datatype memory_kind =
    Mem_FACT
  | Mem_PREFERENCE
  | Mem_PROJECT
  | Mem_DECISION
  | Mem_COMMITMENT

primrec memory_kind_value :: "memory_kind \<Rightarrow> string" where
  "memory_kind_value Mem_FACT = ''fact''"
| "memory_kind_value Mem_PREFERENCE = ''preference''"
| "memory_kind_value Mem_PROJECT = ''project''"
| "memory_kind_value Mem_DECISION = ''decision''"
| "memory_kind_value Mem_COMMITMENT = ''commitment''"

datatype memory_state =
    Mem_CANDIDATE
  | Mem_PROMOTED
  | Mem_REJECTED
  | Mem_DELETED

primrec memory_state_value :: "memory_state \<Rightarrow> string" where
  "memory_state_value Mem_CANDIDATE = ''candidate''"
| "memory_state_value Mem_PROMOTED = ''promoted''"
| "memory_state_value Mem_REJECTED = ''rejected''"
| "memory_state_value Mem_DELETED = ''deleted''"

datatype migration_batch_state =
    Batch_STAGED
  | Batch_ACTIVE
  | Batch_ROLLED_BACK

primrec migration_batch_state_value :: "migration_batch_state \<Rightarrow> string" where
  "migration_batch_state_value Batch_STAGED = ''staged''"
| "migration_batch_state_value Batch_ACTIVE = ''active''"
| "migration_batch_state_value Batch_ROLLED_BACK = ''rolled_back''"

datatype background_job_kind =
    Job_MEMORY_EXTRACTION
  | Job_VECTOR_SYNC

primrec background_job_kind_value :: "background_job_kind \<Rightarrow> string" where
  "background_job_kind_value Job_MEMORY_EXTRACTION = ''memory_extraction''"
| "background_job_kind_value Job_VECTOR_SYNC = ''vector_sync''"

datatype background_job_state =
    Job_PENDING
  | Job_RUNNING
  | Job_RETRY
  | Job_COMPLETED
  | Job_FAILED

primrec background_job_state_value :: "background_job_state \<Rightarrow> string" where
  "background_job_state_value Job_PENDING = ''pending''"
| "background_job_state_value Job_RUNNING = ''running''"
| "background_job_state_value Job_RETRY = ''retry''"
| "background_job_state_value Job_COMPLETED = ''completed''"
| "background_job_state_value Job_FAILED = ''failed''"

datatype message_role =
    Role_USER
  | Role_ASSISTANT

primrec message_role_value :: "message_role \<Rightarrow> string" where
  "message_role_value Role_USER = ''user''"
| "message_role_value Role_ASSISTANT = ''assistant''"

datatype learned_adaptation_state =
    Adapt_ACTIVE
  | Adapt_REVERSED

primrec learned_adaptation_state_value :: "learned_adaptation_state \<Rightarrow> string" where
  "learned_adaptation_state_value Adapt_ACTIVE = ''active''"
| "learned_adaptation_state_value Adapt_REVERSED = ''reversed''"

section \<open>Field constraints\<close>

definition str_between :: "nat \<Rightarrow> nat \<Rightarrow> string \<Rightarrow> bool" where
  "str_between lo hi s \<longleftrightarrow> lo \<le> length s \<and> length s \<le> hi"

definition is_sha256_hex :: "string \<Rightarrow> bool" where
  "is_sha256_hex s \<longleftrightarrow> length s = 64 \<and> list_all (\<lambda>c. c \<in> set ''0123456789abcdef'') s"

text \<open>
  A \<^verbatim>\<open>datetime\<close> argument may lack a time zone; the validators that look at \<^verbatim>\<open>tzinfo\<close> take one of
  these, every stored instant is aware.
\<close>

datatype pydatetime = Naive int | Aware datetime

section \<open>Models\<close>

record capability =
  cap_kind :: capability_kind
  cap_scope :: string

definition valid_capability :: "capability \<Rightarrow> bool" where
  "valid_capability c \<longleftrightarrow> str_between 1 500 (cap_scope c)"

record tenant =
  te_id :: uuid
  te_name :: string
  te_created_at :: datetime

record conversation =
  cv_id :: uuid
  cv_tenant_id :: uuid
  cv_user_id :: uuid
  cv_title :: string
  cv_created_at :: datetime
  cv_updated_at :: datetime

definition valid_conversation :: "conversation \<Rightarrow> bool" where
  "valid_conversation c \<longleftrightarrow> str_between 1 200 (cv_title c)"

record conversation_message =
  ms_id :: uuid
  ms_tenant_id :: uuid
  ms_conversation_id :: uuid
  ms_role :: message_role
  ms_content :: string
  ms_created_at :: datetime

definition valid_message :: "conversation_message \<Rightarrow> bool" where
  "valid_message m \<longleftrightarrow> str_between 1 50000 (ms_content m)"

record conversation_turn =
  tn_id :: uuid
  tn_tenant_id :: uuid
  tn_conversation_id :: uuid
  tn_user_message_id :: uuid
  tn_client_request_id :: uuid
  tn_state :: conversation_turn_state
  tn_checkpoint :: "(string, json) dict"
  tn_run_lease_id :: "uuid option"
  tn_run_lease_expires_at :: "datetime option"
  tn_created_at :: datetime
  tn_updated_at :: datetime
  tn_completed_at :: "datetime option"

text \<open>\<^verbatim>\<open>ConversationTurn.validate_run_lease\<close> on the two lease fields as they are supplied.\<close>

definition validate_run_lease ::
  "uuid option \<Rightarrow> pydatetime option \<Rightarrow> error + (uuid option \<times> datetime option)" where
  "validate_run_lease lease_id expires_at =
     (if (lease_id = None) \<noteq> (expires_at = None)
      then Inl (ValidationError ''run lease id and expiry must be provided together'')
      else case expires_at of
             None \<Rightarrow> Inr (lease_id, None)
           | Some (Naive _) \<Rightarrow> Inl (ValidationError ''run_lease_expires_at must be timezone-aware'')
           | Some (Aware t) \<Rightarrow> Inr (lease_id, Some t))"

definition valid_turn :: "conversation_turn \<Rightarrow> bool" where
  "valid_turn t \<longleftrightarrow> (tn_run_lease_id t = None) = (tn_run_lease_expires_at t = None)"

record tool_invocation =
  iv_id :: uuid
  iv_tenant_id :: uuid
  iv_turn_id :: uuid
  iv_task_id :: "uuid option"
  iv_tool_call_id :: string
  iv_tool_name :: string
  iv_target :: tool_invocation_target
  iv_state :: tool_invocation_state
  iv_arguments :: "(string, json) dict"
  iv_arguments_sha256 :: string
  iv_created_at :: datetime
  iv_updated_at :: datetime
  iv_completed_at :: "datetime option"

definition valid_invocation :: "tool_invocation \<Rightarrow> bool" where
  "valid_invocation i \<longleftrightarrow>
     str_between 1 200 (iv_tool_call_id i) \<and> str_between 1 200 (iv_tool_name i) \<and>
     is_sha256_hex (iv_arguments_sha256 i)"

record remote_agent =
  ra_id :: uuid
  ra_tenant_id :: uuid
  ra_name :: string
  ra_capabilities :: "capability list"
  ra_runtime_version :: string
  ra_status :: remote_agent_status
  ra_trust_level :: int
  ra_registered_at :: datetime
  ra_last_seen_at :: datetime

definition valid_remote_agent :: "remote_agent \<Rightarrow> bool" where
  "valid_remote_agent a \<longleftrightarrow>
     str_between 1 200 (ra_name a) \<and> list_all valid_capability (ra_capabilities a) \<and>
     str_between 1 100 (ra_runtime_version a) \<and> 0 \<le> ra_trust_level a \<and> ra_trust_level a \<le> 100"

record task =
  tk_id :: uuid
  tk_tenant_id :: uuid
  tk_objective :: string
  tk_context :: string
  tk_required_capabilities :: "capability list"
  tk_deliverable_contract :: string
  tk_state :: task_state
  tk_created_at :: datetime
  tk_deadline :: "datetime option"
  tk_result :: "string option"
  tk_completed_at :: "datetime option"
  tk_target_ara_id :: "uuid option"
  tk_completed_by_ara_id :: "uuid option"

definition validate_deadline :: "pydatetime option \<Rightarrow> error + datetime option" where
  "validate_deadline d =
     (case d of
        None \<Rightarrow> Inr None
      | Some (Naive _) \<Rightarrow> Inl (ValidationError ''deadline must be timezone-aware'')
      | Some (Aware t) \<Rightarrow> Inr (Some t))"

definition valid_task :: "task \<Rightarrow> bool" where
  "valid_task t \<longleftrightarrow>
     str_between 1 10000 (tk_objective t) \<and> str_between 0 50000 (tk_context t) \<and>
     list_all valid_capability (tk_required_capabilities t) \<and>
     str_between 1 5000 (tk_deliverable_contract t) \<and>
     (case tk_result t of None \<Rightarrow> True | Some r \<Rightarrow> str_between 0 50000 r)"

record lease =
  ls_id :: uuid
  ls_tenant_id :: uuid
  ls_task_id :: uuid
  ls_ara_id :: uuid
  ls_acquired_at :: datetime
  ls_expires_at :: datetime

text \<open>The constructor of \<^verbatim>\<open>Lease\<close> with its \<^verbatim>\<open>validate_window\<close>.\<close>

definition mk_lease ::
  "uuid \<Rightarrow> uuid \<Rightarrow> uuid \<Rightarrow> uuid \<Rightarrow> datetime \<Rightarrow> pydatetime \<Rightarrow> error + lease" where
  "mk_lease i tenant_id task_id ara_id acquired_at expires_at =
     (case expires_at of
        Naive _ \<Rightarrow> Inl (ValidationError ''expires_at must be timezone-aware'')
      | Aware t \<Rightarrow>
          if t \<le> acquired_at
          then Inl (ValidationError ''expires_at must be after acquired_at'')
          else Inr \<lparr>ls_id = i, ls_tenant_id = tenant_id, ls_task_id = task_id,
                    ls_ara_id = ara_id, ls_acquired_at = acquired_at, ls_expires_at = t\<rparr>)"

record approval =
  ap_id :: uuid
  ap_tenant_id :: uuid
  ap_task_id :: "uuid option"
  ap_tool_invocation_id :: "uuid option"
  ap_capability :: capability
  ap_requested_by :: "uuid option"
  ap_requestor_type :: actor_type
  ap_state :: approval_state
  ap_reason :: string
  ap_created_at :: datetime
  ap_decided_at :: "datetime option"
  ap_decided_by :: "uuid option"

text \<open>\<^verbatim>\<open>Approval.validate_subject_and_requestor\<close> and the bounds of the fields.\<close>

definition valid_approval :: "approval \<Rightarrow> bool" where
  "valid_approval a \<longleftrightarrow>
     valid_capability (ap_capability a) \<and> str_between 1 2000 (ap_reason a) \<and>
     (ap_task_id a = None) \<noteq> (ap_tool_invocation_id a = None) \<and>
     ap_requestor_type a \<in> {Actor_COORDINATOR, Actor_ARA} \<and>
     \<not> (ap_requestor_type a = Actor_ARA \<and> ap_requested_by a = None)"

record artifact =
  af_id :: uuid
  af_tenant_id :: uuid
  af_task_id :: uuid
  af_name :: string
  af_media_type :: string
  af_object_key :: string
  af_size_bytes :: int
  af_sha256 :: string
  af_created_at :: datetime
  af_deleted_at :: "datetime option"
  af_retention_until :: "datetime option"

definition valid_artifact :: "artifact \<Rightarrow> bool" where
  "valid_artifact a \<longleftrightarrow>
     str_between 1 500 (af_name a) \<and> str_between 1 200 (af_media_type a) \<and>
     str_between 1 1000 (af_object_key a) \<and> 0 \<le> af_size_bytes a \<and> is_sha256_hex (af_sha256 a)"

record audit_event =
  ev_id :: uuid
  ev_tenant_id :: uuid
  ev_event_type :: event_type
  ev_actor_type :: actor_type
  ev_actor_id :: "uuid option"
  ev_task_id :: "uuid option"
  ev_payload :: "(string, json) dict"
  ev_occurred_at :: datetime

record job_error =
  je_type :: string
  je_message :: string

definition valid_job_error :: "job_error \<Rightarrow> bool" where
  "valid_job_error e \<longleftrightarrow> str_between 1 200 (je_type e) \<and> str_between 1 4000 (je_message e)"

record background_job =
  jb_id :: uuid
  jb_tenant_id :: uuid
  jb_kind :: background_job_kind
  jb_source_id :: uuid
  jb_payload :: "(string, json) dict"
  jb_state :: background_job_state
  jb_attempt_count :: int
  jb_max_attempts :: int
  jb_available_at :: datetime
  jb_lease_id :: "uuid option"
  jb_lease_expires_at :: "datetime option"
  jb_last_error :: "job_error option"
  jb_created_at :: datetime
  jb_updated_at :: datetime
  jb_completed_at :: "datetime option"

definition valid_job :: "background_job \<Rightarrow> bool" where
  "valid_job j \<longleftrightarrow>
     0 \<le> jb_attempt_count j \<and> 1 \<le> jb_max_attempts j \<and> jb_max_attempts j \<le> 100 \<and>
     (jb_lease_id j = None) = (jb_lease_expires_at j = None)"

record job_attempt =
  at_id :: uuid
  at_tenant_id :: uuid
  at_job_id :: uuid
  at_attempt :: int
  at_started_at :: datetime
  at_finished_at :: "datetime option"
  at_error :: "job_error option"

definition valid_attempt :: "job_attempt \<Rightarrow> bool" where
  "valid_attempt a \<longleftrightarrow> 1 \<le> at_attempt a \<and> pred_option valid_job_error (at_error a)"

record persona_core =
  pc_identity :: string
  pc_values :: string
  pc_boundaries :: string
  pc_tone :: string
  pc_initiative :: string
  pc_emotional_range :: string
  pc_disagreement :: string

definition valid_persona_core :: "persona_core \<Rightarrow> bool" where
  "valid_persona_core c \<longleftrightarrow>
     str_between 1 200 (pc_identity c) \<and> str_between 1 4000 (pc_values c) \<and>
     str_between 1 4000 (pc_boundaries c) \<and> str_between 1 2000 (pc_tone c) \<and>
     str_between 1 2000 (pc_initiative c) \<and> str_between 1 2000 (pc_emotional_range c) \<and>
     str_between 1 2000 (pc_disagreement c)"

record persona_profile =
  pp_id :: uuid
  pp_tenant_id :: uuid
  pp_version :: int
  pp_authored_core :: persona_core
  pp_created_at :: datetime

definition valid_persona_profile :: "persona_profile \<Rightarrow> bool" where
  "valid_persona_profile p \<longleftrightarrow> 1 \<le> pp_version p \<and> valid_persona_core (pp_authored_core p)"

record learned_persona_adaptation =
  la_id :: uuid
  la_tenant_id :: uuid
  la_profile_id :: uuid
  la_content :: string
  la_state :: learned_adaptation_state
  la_source :: string
  la_created_at :: datetime
  la_reversed_at :: "datetime option"

definition valid_adaptation :: "learned_persona_adaptation \<Rightarrow> bool" where
  "valid_adaptation a \<longleftrightarrow> str_between 1 4000 (la_content a) \<and> str_between 1 200 (la_source a)"

record memory_record =
  mr_id :: uuid
  mr_tenant_id :: uuid
  mr_kind :: memory_kind
  mr_content :: string
  mr_normalized_content :: string
  mr_source_event_id :: uuid
  mr_source_message_id :: uuid
  mr_confidence :: rat
  mr_confirmed :: bool
  mr_pinned :: bool
  mr_state :: memory_state
  mr_sensitivity :: string
  mr_visibility :: string
  mr_retention :: string
  mr_contradiction_of :: "uuid option"
  mr_created_at :: datetime
  mr_updated_at :: datetime
  mr_reviewed_at :: "datetime option"
  mr_reviewed_by :: "uuid option"
  mr_deleted_at :: "datetime option"
  mr_import_batch_id :: "uuid option"
  mr_source_system :: "string option"
  mr_source_database_fingerprint :: "string option"
  mr_source_external_id :: "string option"
  mr_source_metadata :: "(string, json) dict"

definition valid_memory :: "memory_record \<Rightarrow> bool" where
  "valid_memory m \<longleftrightarrow>
     str_between 1 50000 (mr_content m) \<and> str_between 1 50000 (mr_normalized_content m) \<and>
     0 \<le> mr_confidence m \<and> mr_confidence m \<le> 1 \<and>
     str_between 1 100 (mr_sensitivity m) \<and> str_between 1 100 (mr_visibility m) \<and>
     str_between 1 100 (mr_retention m) \<and>
     pred_option (str_between 0 100) (mr_source_system m) \<and>
     pred_option (str_between 0 64) (mr_source_database_fingerprint m) \<and>
     pred_option (str_between 0 500) (mr_source_external_id m)"

record migration_batch =
  mb_id :: uuid
  mb_tenant_id :: uuid
  mb_source_system :: string
  mb_source_database_fingerprint :: string
  mb_state :: migration_batch_state
  mb_source_metadata :: "(string, json) dict"
  mb_persona_draft :: "persona_core option"
  mb_persona_profile_id :: "uuid option"
  mb_created_at :: datetime
  mb_activated_at :: "datetime option"
  mb_rolled_back_at :: "datetime option"

definition valid_migration_batch :: "migration_batch \<Rightarrow> bool" where
  "valid_migration_batch b \<longleftrightarrow>
     str_between 1 100 (mb_source_system b) \<and> is_sha256_hex (mb_source_database_fingerprint b) \<and>
     pred_option valid_persona_core (mb_persona_draft b)"

section \<open>Life cycles as orders\<close>

text \<open>
  \<open>a \<le> b\<close> on memory states says that a memory in state \<open>a\<close> may be in state \<open>b\<close> later:
  candidates are promoted or rejected, everything can be deleted, nothing comes back.
\<close>

instantiation memory_state :: order
begin

definition less_eq_memory_state :: "memory_state \<Rightarrow> memory_state \<Rightarrow> bool" where
  "a \<le> b \<longleftrightarrow> a = b \<or> a = Mem_CANDIDATE \<or> b = Mem_DELETED"

definition less_memory_state :: "memory_state \<Rightarrow> memory_state \<Rightarrow> bool" where
  "a < b \<longleftrightarrow> a \<le> b \<and> a \<noteq> (b :: memory_state)"

instance
  by standard (auto simp: less_eq_memory_state_def less_memory_state_def)

end

primrec batch_rank :: "migration_batch_state \<Rightarrow> nat" where
  "batch_rank Batch_STAGED = 0"
| "batch_rank Batch_ACTIVE = 1"
| "batch_rank Batch_ROLLED_BACK = 2"

instantiation migration_batch_state :: linorder
begin

definition less_eq_migration_batch_state ::
  "migration_batch_state \<Rightarrow> migration_batch_state \<Rightarrow> bool" where
  "a \<le> b \<longleftrightarrow> batch_rank a \<le> batch_rank b"

definition less_migration_batch_state ::
  "migration_batch_state \<Rightarrow> migration_batch_state \<Rightarrow> bool" where
  "a < b \<longleftrightarrow> batch_rank a < batch_rank b"

instance
proof
  fix a b :: migration_batch_state
  show "a \<le> b \<Longrightarrow> b \<le> a \<Longrightarrow> a = b"
    by (cases a; cases b) (simp_all add: less_eq_migration_batch_state_def)
qed (auto simp: less_eq_migration_batch_state_def less_migration_batch_state_def)

end

lemma memory_state_simps [simp]:
  "Mem_CANDIDATE \<le> s" "s \<le> Mem_DELETED"
  "Mem_DELETED \<le> s \<longleftrightarrow> s = Mem_DELETED"
  "Mem_PROMOTED \<le> s \<longleftrightarrow> s = Mem_PROMOTED \<or> s = Mem_DELETED"
  "Mem_REJECTED \<le> s \<longleftrightarrow> s = Mem_REJECTED \<or> s = Mem_DELETED"
  by (auto simp: less_eq_memory_state_def)

lemma batch_state_simps [simp]:
  "Batch_STAGED \<le> s" "s \<le> Batch_ROLLED_BACK"
  "Batch_ACTIVE \<le> Batch_ACTIVE"
  by (auto simp: less_eq_migration_batch_state_def) (cases s; simp)+

end
