(* ===== verification/PyString.thy ===== *)
theory PyString
  imports Prelude
begin

text \<open>
  The methods of Python's \<^verbatim>\<open>str\<close> and \<^verbatim>\<open>list\<close> that the program uses. A \<^verbatim>\<open>str\<close> is a HOL \<open>string\<close> with one
  \<open>char\<close> per code point, so texts range over the code points below 256; white space, line
  boundaries and case folding follow Python on that range, the micro sign apart, which \<^verbatim>\<open>casefold\<close>
  maps out of the range and the model keeps.
\<close>

definition is_space :: "char \<Rightarrow> bool" where
  "is_space c \<longleftrightarrow> (let n = (of_char c :: nat) in
     (9 \<le> n \<and> n \<le> 13) \<or> (28 \<le> n \<and> n \<le> 32) \<or> n = 133 \<or> n = 160)"

definition lstrip :: "string \<Rightarrow> string" where
  "lstrip s = dropWhile is_space s"

definition rstrip :: "string \<Rightarrow> string" where
  "rstrip s = rev (dropWhile is_space (rev s))"

definition strip :: "string \<Rightarrow> string" where
  "strip s = rstrip (lstrip s)"

text \<open>\<^verbatim>\<open>s.rstrip(chars)\<close>.\<close>

definition rstrip_chars :: "string \<Rightarrow> string \<Rightarrow> string" where
  "rstrip_chars cs s = rev (dropWhile (\<lambda>c. c \<in> set cs) (rev s))"

text \<open>\<^verbatim>\<open>s[:n]\<close> and \<^verbatim>\<open>s[n:]\<close>: a negative bound counts from the end.\<close>

definition slice_to :: "int \<Rightarrow> 'a list \<Rightarrow> 'a list" where
  "slice_to n s = (if 0 \<le> n then take (nat n) s else take (length s - nat (- n)) s)"

definition slice_from :: "int \<Rightarrow> 'a list \<Rightarrow> 'a list" where
  "slice_from n s = (if 0 \<le> n then drop (nat n) s else drop (length s - nat (- n)) s)"

text \<open>\<^verbatim>\<open>x in s\<close> on strings and \<^verbatim>\<open>sep.join(xs)\<close>.\<close>

fun contains :: "string \<Rightarrow> string \<Rightarrow> bool" where
  "contains x [] = (x = [])"
| "contains x (c # s) = (prefix x (c # s) \<or> contains x s)"

fun join :: "string \<Rightarrow> string list \<Rightarrow> string" where
  "join sep [] = []"
| "join sep [x] = x"
| "join sep (x # y # xs) = x @ sep @ join sep (y # xs)"

text \<open>\<^verbatim>\<open>s.split()\<close>: the maximal runs of characters that are not white space.\<close>

fun split_acc :: "string \<Rightarrow> string \<Rightarrow> string list" where
  "split_acc acc [] = (if acc = [] then [] else [rev acc])"
| "split_acc acc (c # s) =
     (if is_space c then (if acc = [] then [] else [rev acc]) @ split_acc [] s
      else split_acc (c # acc) s)"

definition split :: "string \<Rightarrow> string list" where
  "split s = split_acc [] s"

text \<open>\<^verbatim>\<open>s.splitlines()\<close>: a carriage return and a following newline are one boundary.\<close>

definition is_line_break :: "char \<Rightarrow> bool" where
  "is_line_break c \<longleftrightarrow> (let n = (of_char c :: nat) in
     (10 \<le> n \<and> n \<le> 13) \<or> (28 \<le> n \<and> n \<le> 30) \<or> n = 133)"

fun splitlines_acc :: "string \<Rightarrow> string \<Rightarrow> string list" where
  "splitlines_acc acc [] = (if acc = [] then [] else [rev acc])"
| "splitlines_acc acc [c] = (if is_line_break c then [rev acc] else [rev (c # acc)])"
| "splitlines_acc acc (c # d # s) =
     (if c = CHR 0x0D \<and> d = CHR 0x0A then rev acc # splitlines_acc [] s
      else if is_line_break c then rev acc # splitlines_acc [] (d # s)
      else splitlines_acc (c # acc) (d # s))"

definition splitlines :: "string \<Rightarrow> string list" where
  "splitlines s = splitlines_acc [] s"

definition casefold_char :: "char \<Rightarrow> char" where
  "casefold_char c = (let n = (of_char c :: nat) in
     if (65 \<le> n \<and> n \<le> 90) \<or> (192 \<le> n \<and> n \<le> 222 \<and> n \<noteq> 215) then char_of (n + 32) else c)"

definition casefold :: "string \<Rightarrow> string" where
  "casefold s = concat (map (\<lambda>c. if (of_char c :: nat) = 223 then ''ss'' else [casefold_char c]) s)"

section \<open>Facts\<close>

lemma length_dropWhile_le' [simp]: "length (dropWhile P xs) \<le> length xs"
  by (rule length_dropWhile_le)

lemma length_rstrip: "length (rstrip s) \<le> length s"
  unfolding rstrip_def using length_dropWhile_le[of is_space "rev s"] by simp

lemma length_strip: "length (strip s) \<le> length s"
  unfolding strip_def lstrip_def
  using length_rstrip[of "dropWhile is_space s"] length_dropWhile_le[of is_space s] by linarith

lemma rstrip_prefix: "prefix (rstrip s) s"
proof -
  have "rev s = takeWhile is_space (rev s) @ dropWhile is_space (rev s)" by simp
  then have "s = rev (dropWhile is_space (rev s)) @ rev (takeWhile is_space (rev s))"
    by (metis rev_append rev_rev_ident)
  then show ?thesis unfolding rstrip_def prefix_def by blast
qed

lemma length_slice_to: "0 \<le> n \<Longrightarrow> length (slice_to n s) = min (nat n) (length s)"
  by (simp add: slice_to_def)

lemma slice_to_prefix: "prefix (slice_to n s) s"
  by (simp add: slice_to_def take_is_prefix)

lemma contains_iff: "contains x s \<longleftrightarrow> (\<exists>u v. s = u @ x @ v)"
proof (induction s)
  case Nil
  then show ?case by auto
next
  case (Cons c s)
  note IH = Cons.IH
  show ?case
  proof
    assume "contains x (c # s)"
    then consider "prefix x (c # s)" | "contains x s" by auto
    then show "\<exists>u v. c # s = u @ x @ v"
      by cases (auto simp: prefix_def IH, metis append_Nil, metis append_Cons)
  next
    assume "\<exists>u v. c # s = u @ x @ v"
    then obtain u v where *: "c # s = u @ x @ v" by blast
    show "contains x (c # s)"
    proof (cases u)
      case Nil
      with * have "prefix x (c # s)" by (metis append_Nil prefixI)
      then show ?thesis by simp
    next
      case (Cons d u')
      with * have "s = u' @ x @ v" by simp
      then have "contains x s" using IH by blast
      then show ?thesis by simp
    qed
  qed
qed

lemma contains_refl [simp]: "contains x x"
  unfolding contains_iff by (rule exI[of _ "[]"], rule exI[of _ "[]"]) simp

lemma contains_append: "contains x y \<Longrightarrow> contains x (u @ y @ v)"
proof -
  assume "contains x y"
  then obtain a b where "y = a @ x @ b" unfolding contains_iff by (elim exE)
  then have "u @ y @ v = (u @ a) @ x @ (b @ v)" by simp
  then show ?thesis unfolding contains_iff by (intro exI)
qed

lemma split_acc_no_space:
  "list_all (\<lambda>c. \<not> is_space c) acc \<Longrightarrow> w \<in> set (split_acc acc s) \<Longrightarrow>
     w \<noteq> [] \<and> list_all (\<lambda>c. \<not> is_space c) w"
proof (induction acc s rule: split_acc.induct)
  case (1 acc)
  then show ?case by (cases "acc = []") (simp_all add: list_all_iff)
next
  case (2 acc c s)
  show ?case
  proof (cases "is_space c")
    case True
    with "2.prems"(2) consider "w = rev acc" "acc \<noteq> []" | "w \<in> set (split_acc [] s)"
      by (cases "acc = []") auto
    then show ?thesis
    proof cases
      case 1
      with "2.prems"(1) show ?thesis by (simp add: list_all_iff)
    next
      case 2
      with "2.IH"(1) True show ?thesis by simp
    qed
  next
    case False
    with "2.prems" "2.IH"(2) show ?thesis by simp
  qed
qed

lemma split_words: "w \<in> set (split s) \<Longrightarrow> w \<noteq> [] \<and> list_all (\<lambda>c. \<not> is_space c) w"
  unfolding split_def by (rule split_acc_no_space[where acc = "[]"]) simp_all

lemma split_acc_word:
  "list_all (\<lambda>c. \<not> is_space c) w \<Longrightarrow>
     split_acc acc (w @ s) = split_acc (rev w @ acc) s"
  by (induction w arbitrary: acc) auto

text \<open>Joining words with one blank and splitting again gives the same words.\<close>

lemma split_join:
  "(\<And>w. w \<in> set ws \<Longrightarrow> w \<noteq> [] \<and> list_all (\<lambda>c. \<not> is_space c) w) \<Longrightarrow> split (join '' '' ws) = ws"
proof (induction ws rule: induct_list012)
  case 1
  then show ?case by (simp add: split_def)
next
  case (2 x)
  then have "x \<noteq> []" "list_all (\<lambda>c. \<not> is_space c) x" by simp_all
  then show ?case using split_acc_word[of x "[]" "[]"] by (simp add: split_def)
next
  case (3 x y xs)
  then have x: "x \<noteq> []" "list_all (\<lambda>c. \<not> is_space c) x" by simp_all
  have IH: "split_acc [] (join '' '' (y # xs)) = y # xs"
    using "3.IH"(2) "3.prems" by (simp add: split_def)
  have sp: "is_space (CHR '' '')" by (simp add: is_space_def)
  have "split_acc [] (x @ '' '' @ join '' '' (y # xs)) = rev (rev x) # split_acc [] (join '' '' (y # xs))"
    using split_acc_word[OF x(2), of "[]"] x(1) sp by simp
  then show ?case using IH by (simp add: split_def)
qed

text \<open>\<^verbatim>\<open>content[:n].rstrip() + "..."\<close> for a longer text: what cutting a text to a budget leaves.\<close>

definition truncate_text :: "int \<Rightarrow> string \<Rightarrow> string" where
  "truncate_text maximum s =
     (if int (length s) > maximum then rstrip (slice_to (maximum - 3) s) @ ''...'' else s)"

lemma length_truncate_text: "3 \<le> maximum \<Longrightarrow> int (length (truncate_text maximum s)) \<le> maximum"
  using length_rstrip[of "slice_to (maximum - 3) s"] length_slice_to[of "maximum - 3" s]
  by (auto simp: truncate_text_def)

text \<open>A cut text is a beginning of the text, up to the dots.\<close>

lemma truncate_text_prefix:
  "truncate_text maximum s = s \<or> (\<exists>p. prefix p s \<and> truncate_text maximum s = p @ ''...'')"
  using prefix_order.trans[OF rstrip_prefix slice_to_prefix] unfolding truncate_text_def by auto

text \<open>\<^verbatim>\<open>re.findall(r"[a-z0-9_]+", s)\<close>: the maximal runs of these characters.\<close>

definition is_word_char :: "char \<Rightarrow> bool" where
  "is_word_char c \<longleftrightarrow> c \<in> set ''abcdefghijklmnopqrstuvwxyz0123456789_''"

fun word_runs_acc :: "string \<Rightarrow> string \<Rightarrow> string list" where
  "word_runs_acc acc [] = (if acc = [] then [] else [rev acc])"
| "word_runs_acc acc (c # s) =
     (if is_word_char c then word_runs_acc (c # acc) s
      else (if acc = [] then [] else [rev acc]) @ word_runs_acc [] s)"

definition word_runs :: "string \<Rightarrow> string list" where
  "word_runs s = word_runs_acc [] s"

end
