(* ===== verification/Policy.thy ===== *)
theory Policy
  imports Domain PyString
begin

text \<open>
  \<^verbatim>\<open>packages/policy/src/astra_policy/engine.py\<close>: the default-deny decision on one capability and the
  admission check on a delegation plan, with the plan's data model from
  \<^verbatim>\<open>packages/model-providers/src/astra_model_providers/interfaces.py\<close>.
\<close>

record policy_decision =
  allowed :: bool
  requires_approval :: bool
  reason :: string

definition PolicyDecision :: "bool \<Rightarrow> bool \<Rightarrow> string \<Rightarrow> policy_decision" where
  "PolicyDecision a r w = \<lparr>allowed = a, requires_approval = r, reason = w\<rparr>"

lemma PolicyDecision_simps [simp]:
  "allowed (PolicyDecision a r w) = a"
  "requires_approval (PolicyDecision a r w) = r"
  "reason (PolicyDecision a r w) = w"
  by (simp_all add: PolicyDecision_def)

definition evaluate_capability ::
  "capability \<Rightarrow> capability list \<Rightarrow> approval_state option \<Rightarrow> policy_decision" where
  "evaluate_capability requested granted approval_state =
     (if requested \<notin> set granted
      then PolicyDecision False False ''capability is not explicitly granted''
      else if cap_kind requested = FILE_READ
      then PolicyDecision True False ''explicitly scoped read access''
      else if approval_state = Some Appr_GRANTED
      then PolicyDecision True False ''impactful capability approved''
      else PolicyDecision False True ''impactful capability requires approval'')"

record planner_task =
  pt_objective :: string
  pt_context :: string
  pt_required_capabilities :: "(string, string) dict list"
  pt_deliverable_contract :: string

type_synonym planner_decision = "planner_task list"

definition repository_contract :: string where
  "repository_contract = ''Return bounded repository findings with file and line evidence.''"

definition expected_capabilities :: "capability list" where
  "expected_capabilities = [\<lparr>cap_kind = FILE_READ, cap_scope = ''repository''\<rparr>]"

text \<open>\<^verbatim>\<open>Capability.model_validate(item)\<close>: exactly the two keys, a known kind, a bounded scope.\<close>

definition all_capability_kinds :: "capability_kind list" where
  "all_capability_kinds = [FILE_READ, FILE_WRITE, COMMAND_EXECUTE, COMMAND_EXECUTE_HOST,
     NETWORK_ACCESS, CREDENTIAL_ACCESS, EXTERNAL_MESSAGE]"

definition capability_kind_of :: "string \<Rightarrow> capability_kind option" where
  "capability_kind_of v = find (\<lambda>k. capability_kind_value k = v) all_capability_kinds"

definition capability_model_validate :: "(string, string) dict \<Rightarrow> capability option" where
  "capability_model_validate item =
     (if \<not> list_all (\<lambda>k. k = ''kind'' \<or> k = ''scope'') (map fst item) then None
      else case (map_of item ''kind'', map_of item ''scope'') of
             (Some kv, Some sc) \<Rightarrow>
               (case capability_kind_of kv of
                  None \<Rightarrow> None
                | Some k \<Rightarrow> if str_between 1 500 sc then Some \<lparr>cap_kind = k, cap_scope = sc\<rparr> else None)
           | _ \<Rightarrow> None)"

text \<open>The loop over the tasks with the set of objectives seen so far.\<close>

fun validate_planner_tasks :: "string set \<Rightarrow> planner_task list \<Rightarrow> policy_decision" where
  "validate_planner_tasks objectives [] =
     PolicyDecision True False ''bounded read-only repository inspection''"
| "validate_planner_tasks objectives (t # ts) =
     (if length (pt_objective t) > 10000 \<or> length (pt_context t) > 12000
      then PolicyDecision False False ''planner task exceeds bounded input''
      else if strip (pt_objective t) \<in> objectives
      then PolicyDecision False False ''planner contains duplicate sibling objectives''
      else case those (map capability_model_validate (pt_required_capabilities t)) of
             None \<Rightarrow> PolicyDecision False False ''planner requested an invalid capability''
           | Some capabilities \<Rightarrow>
               if capabilities \<noteq> expected_capabilities
               then PolicyDecision False False ''planner requested a non-read-only capability''
               else if pt_deliverable_contract t \<noteq> repository_contract
               then PolicyDecision False False ''planner deliverable contract is not permitted''
               else validate_planner_tasks (insert (strip (pt_objective t)) objectives) ts)"

definition validate_planner_decision :: "planner_decision \<Rightarrow> int \<Rightarrow> policy_decision" where
  "validate_planner_decision tasks max_siblings =
     (if tasks = [] then PolicyDecision True False ''no delegation requested''
      else if int (length tasks) > max_siblings
      then PolicyDecision False False ''planner exceeded sibling limit''
      else validate_planner_tasks {} tasks)"

section \<open>Facts\<close>

lemma capability_kind_of_value [simp]: "capability_kind_of (capability_kind_value k) = Some k"
  by (cases k) (simp_all add: capability_kind_of_def all_capability_kinds_def)

lemma capability_kind_of_Some: "capability_kind_of v = Some k \<Longrightarrow> capability_kind_value k = v"
  unfolding capability_kind_of_def by (metis (mono_tags, lifting) find_Some_iff)

lemma capability_model_validate_valid:
  "capability_model_validate item = Some c \<Longrightarrow>
     valid_capability c \<and> map_of item ''kind'' = Some (capability_kind_value (cap_kind c)) \<and>
     map_of item ''scope'' = Some (cap_scope c)"
  unfolding capability_model_validate_def valid_capability_def
  by (auto split: if_splits option.splits dest: capability_kind_of_Some)

text \<open>A task the loop lets through, given the objectives already taken.\<close>

definition bounded_read_task :: "planner_task \<Rightarrow> bool" where
  "bounded_read_task t \<longleftrightarrow>
     length (pt_objective t) \<le> 10000 \<and> length (pt_context t) \<le> 12000 \<and>
     those (map capability_model_validate (pt_required_capabilities t)) = Some expected_capabilities \<and>
     pt_deliverable_contract t = repository_contract"

lemma validate_planner_tasks_allowed:
  "allowed (validate_planner_tasks objs ts) \<longleftrightarrow>
     list_all bounded_read_task ts \<and> distinct (map (strip \<circ> pt_objective) ts) \<and>
     objs \<inter> set (map (strip \<circ> pt_objective) ts) = {}"
  by (induction objs ts rule: validate_planner_tasks.induct)
     (auto simp: bounded_read_task_def split: option.splits if_splits)

lemma validate_planner_tasks_no_approval:
  "\<not> requires_approval (validate_planner_tasks objs ts)"
  by (induction objs ts rule: validate_planner_tasks.induct) (auto split: option.splits)

section \<open>Properties\<close>

text \<open>
  Default deny: a capability is allowed exactly when it was explicitly granted, with the same
  scope, and is a read or carries a granted approval; an approval is asked for exactly when it was
  granted, is not a read and no granted approval is at hand; no decision does both.
\<close>

theorem evaluate_capability_default_deny:
  "(allowed (evaluate_capability c granted a) \<longleftrightarrow>
      c \<in> set granted \<and> (cap_kind c = FILE_READ \<or> a = Some Appr_GRANTED)) \<and>
   (requires_approval (evaluate_capability c granted a) \<longleftrightarrow>
      c \<in> set granted \<and> cap_kind c \<noteq> FILE_READ \<and> a \<noteq> Some Appr_GRANTED)"
  by (auto simp: evaluate_capability_def)

text \<open>
  A delegation plan is admitted exactly when it is empty, or it has at most the sibling limit
  of tasks, every task is within its text bounds, asks for repository reading and nothing else
  under the fixed deliverable contract, and no two tasks have the same objective up to surrounding
  white space.
\<close>

theorem planner_admission:
  "allowed (validate_planner_decision tasks max_siblings) \<longleftrightarrow>
     tasks = [] \<or>
     (int (length tasks) \<le> max_siblings \<and> list_all bounded_read_task tasks \<and>
      distinct (map (strip \<circ> pt_objective) tasks))"
  by (auto simp: validate_planner_decision_def validate_planner_tasks_allowed)

end
