(* ===== verification/Store.thy ===== *)
theory Store
  imports Domain
begin

text \<open>
  The state of \<^verbatim>\<open>InMemoryRuntimeStore\<close> (\<^verbatim>\<open>packages/runtime/src/astra_runtime/memory.py\<close>): one
  dictionary per kind of row and the audit log. Every public method takes the store's
  \<^verbatim>\<open>asyncio.Lock\<close> for its whole body, so a call is one atomic step on this record and a run of the
  system is a sequence of calls.

  What a call reads from its environment is an argument: \<open>clk e i\<close> is the clock reading at the
  \<open>i\<close>-th program point of the method that reads the clock (in a loop, each pass counts on), \<open>gen e i\<close>
  the \<open>i\<close>-th \<^verbatim>\<open>uuid4()\<close> drawn for a row, \<open>ev_uuid e n\<close> and \<open>ev_clock e n\<close> the identifier and the
  time stamp of the \<open>n\<close>-th audit event it creates. The readings of one call need not agree.
\<close>

record env =
  clk :: "nat \<Rightarrow> datetime"
  gen :: "nat \<Rightarrow> uuid"
  ev_uuid :: "nat \<Rightarrow> uuid"
  ev_clock :: "nat \<Rightarrow> datetime"

record store =
  st_remote_agents :: "(uuid, remote_agent) dict"
  st_conversations :: "(uuid, conversation) dict"
  st_messages :: "(uuid, conversation_message) dict"
  st_turns :: "(uuid, conversation_turn) dict"
  st_tool_invocations :: "(uuid, tool_invocation) dict"
  st_memories :: "(uuid, memory_record) dict"
  st_migration_batches :: "(uuid, migration_batch) dict"
  st_personas :: "(uuid, persona_profile) dict"
  st_active_persona_ids :: "(uuid, uuid) dict"
  st_learned_adaptations :: "(uuid, learned_persona_adaptation) dict"
  st_tasks :: "(uuid, task) dict"
  st_leases :: "(uuid, lease) dict"
  st_events :: "audit_event list"
  st_jobs :: "(uuid, background_job) dict"
  st_job_attempts :: "(uuid, job_attempt list) dict"
  st_approvals :: "(uuid, approval) dict"
  st_artifacts :: "(uuid, artifact) dict"

definition empty_store :: store where
  "empty_store =
     \<lparr>st_remote_agents = [], st_conversations = [], st_messages = [], st_turns = [],
      st_tool_invocations = [], st_memories = [], st_migration_batches = [], st_personas = [],
      st_active_persona_ids = [], st_learned_adaptations = [], st_tasks = [], st_leases = [],
      st_events = [], st_jobs = [], st_job_attempts = [], st_approvals = [], st_artifacts = []\<rparr>"

type_synonym 'a result = "('a, store) outcome"

abbreviation dict_values :: "('k, 'v) dict \<Rightarrow> 'v list" where
  "dict_values tbl \<equiv> map snd tbl"

text \<open>\<^verbatim>\<open>AuditEvent(...)\<close>, the \<open>n\<close>-th of the call.\<close>

definition AuditEvent ::
  "env \<Rightarrow> nat \<Rightarrow> uuid \<Rightarrow> event_type \<Rightarrow> actor_type \<Rightarrow> uuid option \<Rightarrow> uuid option \<Rightarrow>
   (string, json) dict \<Rightarrow> audit_event" where
  "AuditEvent e n tenant_id event_type actor_type actor_id task_id payload =
     \<lparr>ev_id = ev_uuid e n, ev_tenant_id = tenant_id, ev_event_type = event_type,
      ev_actor_type = actor_type, ev_actor_id = actor_id, ev_task_id = task_id,
      ev_payload = payload, ev_occurred_at = ev_clock e n\<rparr>"

lemma AuditEvent_simps [simp]:
  "ev_id (AuditEvent e n t et ac a k p) = ev_uuid e n"
  "ev_tenant_id (AuditEvent e n t et ac a k p) = t"
  "ev_event_type (AuditEvent e n t et ac a k p) = et"
  "ev_actor_type (AuditEvent e n t et ac a k p) = ac"
  "ev_actor_id (AuditEvent e n t et ac a k p) = a"
  "ev_task_id (AuditEvent e n t et ac a k p) = k"
  "ev_payload (AuditEvent e n t et ac a k p) = p"
  by (simp_all add: AuditEvent_def)

section \<open>The audit log\<close>

definition append_event :: "audit_event \<Rightarrow> store \<Rightarrow> unit result" where
  [store_ops]: "append_event event s = (Inr (), s\<lparr>st_events := st_events s @ [event]\<rparr>)"

definition list_events :: "uuid \<Rightarrow> store \<Rightarrow> audit_event list" where
  "list_events tenant_id s = filter (\<lambda>ev. ev_tenant_id ev = tenant_id) (st_events s)"

section \<open>Rows of a tenant\<close>

text \<open>
  What of a dictionary a tenant owns. Writing a row of another tenant, in a place that was free or
  held a row of that other tenant, does not change it.
\<close>

definition rows_of :: "('a \<Rightarrow> uuid) \<Rightarrow> uuid \<Rightarrow> (uuid, 'a) dict \<Rightarrow> (uuid, 'a) dict" where
  "rows_of tenant_of u tbl = filter (\<lambda>p. tenant_of (snd p) = u) tbl"

lemma rows_of_update:
  assumes "tenant_of x \<noteq> u" and "\<And>y. map_of tbl k = Some y \<Longrightarrow> tenant_of y \<noteq> u"
  shows "rows_of tenant_of u (AList.update k x tbl) = rows_of tenant_of u tbl"
  using assms unfolding rows_of_def
  by (induction tbl) (auto split: if_splits)

lemma scoped_rows_of:
  "distinct (map fst tbl) \<Longrightarrow> scoped f tbl t k = map_of (rows_of f t tbl) k"
proof (induction tbl)
  case Nil
  then show ?case by (simp add: scoped_def rows_of_def)
next
  case (Cons p tbl)
  obtain k' x where p: "p = (k', x)" by (cases p)
  have *: "map_of (rows_of f t tbl) k' = None"
    using Cons.prems p by (auto simp: rows_of_def map_of_eq_None_iff image_iff)
  show ?case
    using Cons p * by (auto simp: scoped_def rows_of_def split: option.splits)
qed

text \<open>
  \<open>evolves\<close>: the rows of the first dictionary are still there in the second, under the same key and
  for the same tenant (their other fields may have changed).
\<close>

definition evolves :: "('a \<Rightarrow> uuid) \<Rightarrow> (uuid, 'a) dict \<Rightarrow> (uuid, 'a) dict \<Rightarrow> bool" where
  "evolves tenant_of t1 t2 \<longleftrightarrow>
     (\<forall>k x. map_of t1 k = Some x \<longrightarrow> (\<exists>y. map_of t2 k = Some y \<and> tenant_of y = tenant_of x))"

lemma evolves_refl [simp, intro]: "evolves f t t"
  by (simp add: evolves_def)

lemma evolves_trans: "evolves f a b \<Longrightarrow> evolves f b c \<Longrightarrow> evolves f a c"
  unfolding evolves_def by metis

lemma evolves_update [intro]:
  "(\<And>y. map_of t k = Some y \<Longrightarrow> f y = f x) \<Longrightarrow> evolves f t (AList.update k x t)"
  unfolding evolves_def by (auto simp: update_conv')

lemma evolvesD:
  "evolves f t1 t2 \<Longrightarrow> map_of t1 k = Some x \<Longrightarrow> \<exists>y. map_of t2 k = Some y \<and> f y = f x"
  by (simp add: evolves_def)

end
