(* ===== verification/RowSpec.thy ===== *)
theory RowSpec
  imports Store
begin

text \<open>
  The abstract specification of the runtime store: what may happen to the rows. A row step, on behalf
  of one tenant, files one new row of that tenant, moves one of its rows along the life cycle of its
  kind, or appends audit events of the tenant. The operations of the store refine it (theory
  \<open>StoreRefinement\<close>), so what is proved here of every row step holds of every call.
\<close>

section \<open>Tables and their life cycles\<close>

text \<open>
  Storing row \<open>x\<close> at \<open>k\<close> on behalf of tenant \<open>u\<close>: the key is the row's own identifier, the row is the
  tenant's, and it is a new row or a legal successor of the tenant's row at that key.
\<close>

definition writes ::
  "('a \<Rightarrow> uuid) \<Rightarrow> ('a \<Rightarrow> uuid) \<Rightarrow> ('a \<Rightarrow> bool) \<Rightarrow> ('a \<Rightarrow> 'a \<Rightarrow> bool) \<Rightarrow>
   uuid \<Rightarrow> uuid \<Rightarrow> 'a \<Rightarrow> (uuid, 'a) dict \<Rightarrow> bool" where
  "writes idf tenf new move u k x tbl \<longleftrightarrow>
     idf x = k \<and> tenf x = u \<and>
     (case map_of tbl k of None \<Rightarrow> new x | Some y \<Rightarrow> tenf y = u \<and> move y x)"

locale row_table =
  fixes idf :: "'a \<Rightarrow> uuid"
    and tenf :: "'a \<Rightarrow> uuid"
    and new :: "'a \<Rightarrow> bool"
    and move :: "'a \<Rightarrow> 'a \<Rightarrow> bool"
  assumes move_id: "move y x \<Longrightarrow> idf x = idf y"
    and move_tenant: "move y x \<Longrightarrow> tenf x = tenf y"
begin

lemma writes_keyed:
  "writes idf tenf new move u k x tbl \<Longrightarrow> keyed idf tbl \<Longrightarrow> keyed idf (AList.update k x tbl)"
  unfolding writes_def by blast

lemma writes_evolves:
  "writes idf tenf new move u k x tbl \<Longrightarrow> evolves tenf tbl (AList.update k x tbl)"
  unfolding writes_def by (rule evolves_update) (auto split: option.splits)

lemma writes_isolated:
  "writes idf tenf new move u k x tbl \<Longrightarrow> v \<noteq> u \<Longrightarrow>
     rows_of tenf v (AList.update k x tbl) = rows_of tenf v tbl"
  unfolding writes_def by (rule rows_of_update) (auto split: option.splits)

text \<open>A row is kept or moved, never dropped.\<close>

lemma writes_kept:
  "writes idf tenf new move u k x tbl \<Longrightarrow> map_of tbl j = Some y \<Longrightarrow>
     \<exists>z. map_of (AList.update k x tbl) j = Some z \<and> move\<^sup>*\<^sup>* y z"
  unfolding writes_def by (auto simp: update_conv' split: option.splits)

text \<open>What holds of new rows and is kept by every move holds of all rows.\<close>

lemma writes_all:
  assumes "writes idf tenf new move u k x tbl" and "\<forall>y \<in> ran (map_of tbl). P y"
    and "new x \<Longrightarrow> P x" and "\<And>y. move y x \<Longrightarrow> P y \<Longrightarrow> P x"
  shows "\<forall>y \<in> ran (map_of (AList.update k x tbl)). P y"
proof
  fix y assume "y \<in> ran (map_of (AList.update k x tbl))"
  then obtain j where j: "map_of (AList.update k x tbl) j = Some y" by (auto simp: ran_def)
  show "P y"
  proof (cases "j = k")
    case False
    with j assms(2) show ?thesis by (auto simp: update_conv' ran_def)
  next
    case True
    with j have y: "y = x" by (simp add: update_conv')
    show ?thesis
    proof (cases "map_of tbl k")
      case None
      with assms(1,3) y show ?thesis by (simp add: writes_def)
    next
      case (Some z)
      with assms(2) have "P z" by (auto simp: ran_def)
      moreover from Some assms(1) y have "move z y" by (simp add: writes_def)
      ultimately show ?thesis using assms(4) y by blast
    qed
  qed
qed

end

text \<open>The row a search over the values finds sits at its own identifier.\<close>

lemma find_mem: "find P xs = Some x \<Longrightarrow> x \<in> set xs \<and> P x"
  by (induction xs) (auto split: if_splits)

lemma find_values:
  assumes "keyed f tbl" and "find P (dict_values tbl) = Some x"
  shows "map_of tbl (f x) = Some x \<and> P x"
  using find_mem[OF assms(2)] keyed_values[OF assms(1)] by blast

lemma find_sorted_values:
  assumes "keyed f tbl" and "find P (sort_key g (dict_values tbl)) = Some x"
  shows "map_of tbl (f x) = Some x \<and> P x"
  using find_mem[OF assms(2)] keyed_values[OF assms(1)] by simp

text \<open>A row filed because a search failed is what the next search finds.\<close>

lemma find_update:
  "find P (dict_values tbl) = None \<Longrightarrow> P x \<Longrightarrow> find P (dict_values (AList.update k x tbl)) = Some x"
  by (induction tbl) (auto split: if_splits)

text \<open>
  The life cycles, one \<open>move\<close> per kind of row: which fields are fixed when the row is filed and how
  its state may change.
\<close>

definition any_row :: "'a \<Rightarrow> bool" where
  "any_row x = True"

definition no_move :: "'a \<Rightarrow> 'a \<Rightarrow> bool" where
  "no_move y x = False"

definition conversation_move :: "conversation \<Rightarrow> conversation \<Rightarrow> bool" where
  "conversation_move c c' \<longleftrightarrow> (\<exists>t. c' = c\<lparr>cv_updated_at := t\<rparr>)"

definition turn_new :: "conversation_turn \<Rightarrow> bool" where
  "turn_new t \<longleftrightarrow> tn_state t = Turn_PENDING \<and>
     tn_run_lease_id t = None \<and> tn_run_lease_expires_at t = None"

definition same_turn :: "conversation_turn \<Rightarrow> conversation_turn \<Rightarrow> bool" where
  "same_turn t t' \<longleftrightarrow> tn_id t' = tn_id t \<and> tn_tenant_id t' = tn_tenant_id t \<and>
     tn_conversation_id t' = tn_conversation_id t \<and>
     tn_user_message_id t' = tn_user_message_id t \<and>
     tn_client_request_id t' = tn_client_request_id t \<and> tn_created_at t' = tn_created_at t"

text \<open>
  The state machine of a turn: a checkpoint; a claim, from pending or running, which installs a
  lease; the completion by the running claim, which drops it; a pause, which drops it; the return to
  pending of a turn that waited.
\<close>

definition turn_move :: "conversation_turn \<Rightarrow> conversation_turn \<Rightarrow> bool" where
  "turn_move t t' \<longleftrightarrow> same_turn t t' \<and>
     ((tn_state t' = tn_state t \<and> tn_run_lease_id t' = tn_run_lease_id t \<and>
       tn_run_lease_expires_at t' = tn_run_lease_expires_at t) \<or>
      (tn_state t \<in> {Turn_PENDING, Turn_RUNNING} \<and> tn_state t' = Turn_RUNNING \<and>
       tn_run_lease_id t' \<noteq> None \<and> tn_run_lease_expires_at t' \<noteq> None) \<or>
      (tn_state t = Turn_RUNNING \<and> tn_state t' = Turn_COMPLETED \<and>
       tn_run_lease_id t' = None \<and> tn_run_lease_expires_at t' = None) \<or>
      (tn_state t' = Turn_PAUSED \<and> tn_run_lease_id t' = None \<and> tn_run_lease_expires_at t' = None) \<or>
      (tn_state t' = Turn_PENDING \<and> tn_run_lease_id t' = tn_run_lease_id t \<and>
       tn_run_lease_expires_at t' = tn_run_lease_expires_at t))"

definition invocation_move :: "tool_invocation \<Rightarrow> tool_invocation \<Rightarrow> bool" where
  "invocation_move i i' \<longleftrightarrow>
     (\<exists>st u c. i' = i\<lparr>iv_state := st, iv_updated_at := u, iv_completed_at := c\<rparr>)"

definition memory_move :: "memory_record \<Rightarrow> memory_record \<Rightarrow> bool" where
  "memory_move m m' \<longleftrightarrow> mr_state m \<le> mr_state m' \<and>
     mr_id m' = mr_id m \<and> mr_tenant_id m' = mr_tenant_id m \<and> mr_kind m' = mr_kind m \<and>
     mr_content m' = mr_content m \<and> mr_normalized_content m' = mr_normalized_content m \<and>
     mr_source_event_id m' = mr_source_event_id m \<and>
     mr_source_message_id m' = mr_source_message_id m \<and>
     mr_confidence m' = mr_confidence m \<and> mr_visibility m' = mr_visibility m \<and>
     mr_created_at m' = mr_created_at m \<and> mr_import_batch_id m' = mr_import_batch_id m"

definition batch_new :: "migration_batch \<Rightarrow> bool" where
  "batch_new b \<longleftrightarrow> mb_state b = Batch_STAGED"

definition batch_move :: "migration_batch \<Rightarrow> migration_batch \<Rightarrow> bool" where
  "batch_move b b' \<longleftrightarrow> mb_state b < mb_state b' \<and> mb_id b' = mb_id b \<and>
     mb_tenant_id b' = mb_tenant_id b \<and> mb_source_system b' = mb_source_system b \<and>
     mb_source_database_fingerprint b' = mb_source_database_fingerprint b"

definition adaptation_move ::
  "learned_persona_adaptation \<Rightarrow> learned_persona_adaptation \<Rightarrow> bool" where
  "adaptation_move a a' \<longleftrightarrow> la_state a = Adapt_ACTIVE \<and>
     (\<exists>t. a' = a\<lparr>la_state := Adapt_REVERSED, la_reversed_at := t\<rparr>)"

definition ara_move :: "remote_agent \<Rightarrow> remote_agent \<Rightarrow> bool" where
  "ara_move a a' \<longleftrightarrow> ra_id a' = ra_id a \<and> ra_tenant_id a' = ra_tenant_id a \<and>
     (ra_status a = Ara_REVOKED \<longrightarrow>
        ra_status a' = Ara_REVOKED \<and> ra_trust_level a' \<in> {0, ra_trust_level a})"

definition task_new :: "task \<Rightarrow> bool" where
  "task_new t \<longleftrightarrow> tk_state t = Task_PENDING"

definition terminal_task :: "task_state \<Rightarrow> bool" where
  "terminal_task st \<longleftrightarrow> st \<in> {Task_COMPLETED, Task_FAILED, Task_CANCELLED}"

definition same_task :: "task \<Rightarrow> task \<Rightarrow> bool" where
  "same_task t t' \<longleftrightarrow> tk_id t' = tk_id t \<and> tk_tenant_id t' = tk_tenant_id t \<and>
     tk_objective t' = tk_objective t \<and> tk_context t' = tk_context t \<and>
     tk_required_capabilities t' = tk_required_capabilities t \<and>
     tk_deliverable_contract t' = tk_deliverable_contract t \<and>
     tk_created_at t' = tk_created_at t \<and> tk_target_ara_id t' = tk_target_ara_id t"

text \<open>
  A task is leased (also again, once a lease on it has expired), its cancellation is requested while
  it is leased, and an agent that holds it ends it.
\<close>

definition task_move :: "task \<Rightarrow> task \<Rightarrow> bool" where
  "task_move t t' \<longleftrightarrow> same_task t t' \<and>
     (tk_state t' = Task_LEASED \<or>
      (tk_state t = Task_LEASED \<and> tk_state t' = Task_CANCELLING) \<or>
      (tk_state t \<in> {Task_LEASED, Task_CANCELLING} \<and> terminal_task (tk_state t') \<and>
       tk_result t' \<noteq> None \<and> tk_completed_at t' \<noteq> None \<and> tk_completed_by_ara_id t' \<noteq> None))"

definition approval_new :: "approval \<Rightarrow> bool" where
  "approval_new a \<longleftrightarrow> valid_approval a \<and> ap_state a = Appr_PENDING"

definition approval_move :: "approval \<Rightarrow> approval \<Rightarrow> bool" where
  "approval_move a a' \<longleftrightarrow> ap_state a = Appr_PENDING \<and>
     (\<exists>st t w. st \<in> {Appr_GRANTED, Appr_DENIED} \<and>
        a' = a\<lparr>ap_state := st, ap_decided_at := Some t, ap_decided_by := Some w\<rparr>)"

definition artifact_move :: "artifact \<Rightarrow> artifact \<Rightarrow> bool" where
  "artifact_move a a' \<longleftrightarrow> af_deleted_at a = None \<and>
     (\<exists>t r. a' = a\<lparr>af_deleted_at := Some t, af_retention_until := r\<rparr>)"

definition job_new :: "background_job \<Rightarrow> bool" where
  "job_new j \<longleftrightarrow> valid_job j \<and> jb_state j = Job_PENDING \<and> jb_attempt_count j = 0 \<and>
     jb_lease_id j = None \<and> jb_lease_expires_at j = None"

definition same_job :: "background_job \<Rightarrow> background_job \<Rightarrow> bool" where
  "same_job j j' \<longleftrightarrow> jb_id j' = jb_id j \<and> jb_tenant_id j' = jb_tenant_id j \<and>
     jb_kind j' = jb_kind j \<and> jb_source_id j' = jb_source_id j \<and> jb_payload j' = jb_payload j \<and>
     jb_max_attempts j' = jb_max_attempts j \<and> jb_created_at j' = jb_created_at j"

text \<open>A claim takes one more attempt; the end of an attempt completes, retries or fails the job.\<close>

definition job_claim :: "background_job \<Rightarrow> background_job \<Rightarrow> bool" where
  "job_claim j j' \<longleftrightarrow> same_job j j' \<and> jb_state j \<in> {Job_PENDING, Job_RETRY, Job_RUNNING} \<and>
     jb_state j' = Job_RUNNING \<and> jb_attempt_count j' = jb_attempt_count j + 1 \<and>
     jb_lease_id j' \<noteq> None \<and> jb_lease_expires_at j' \<noteq> None"

definition job_end :: "background_job \<Rightarrow> background_job \<Rightarrow> bool" where
  "job_end j j' \<longleftrightarrow> same_job j j' \<and> jb_state j = Job_RUNNING \<and>
     jb_attempt_count j' = jb_attempt_count j \<and>
     jb_lease_id j' = None \<and> jb_lease_expires_at j' = None \<and>
     (jb_state j' = Job_COMPLETED \<or>
      (jb_state j' = Job_RETRY \<and> jb_attempt_count j < jb_max_attempts j) \<or>
      (jb_state j' = Job_FAILED \<and> jb_max_attempts j \<le> jb_attempt_count j))"

definition job_requeue :: "background_job \<Rightarrow> background_job \<Rightarrow> bool" where
  "job_requeue j j' \<longleftrightarrow> same_job j j' \<and> jb_state j = Job_FAILED \<and> jb_state j' = Job_PENDING \<and>
     jb_attempt_count j' = 0 \<and> jb_lease_id j' = None \<and> jb_lease_expires_at j' = None"

definition job_move :: "background_job \<Rightarrow> background_job \<Rightarrow> bool" where
  "job_move j j' \<longleftrightarrow> job_claim j j' \<or> job_end j j' \<or> job_requeue j j'"

lemmas move_defs =
  conversation_move_def turn_move_def same_turn_def invocation_move_def memory_move_def batch_move_def
  adaptation_move_def ara_move_def task_move_def same_task_def approval_move_def artifact_move_def
  job_move_def job_claim_def job_end_def job_requeue_def same_job_def no_move_def

interpretation conv_rows: row_table cv_id cv_tenant_id any_row conversation_move
  by unfold_locales (auto simp: move_defs)

interpretation message_rows: row_table ms_id ms_tenant_id any_row no_move
  by unfold_locales (auto simp: move_defs)

interpretation turn_rows: row_table tn_id tn_tenant_id turn_new turn_move
  by unfold_locales (auto simp: move_defs)

interpretation invocation_rows: row_table iv_id iv_tenant_id any_row invocation_move
  by unfold_locales (auto simp: move_defs)

interpretation memory_rows: row_table mr_id mr_tenant_id any_row memory_move
  by unfold_locales (auto simp: move_defs)

interpretation batch_rows: row_table mb_id mb_tenant_id batch_new batch_move
  by unfold_locales (auto simp: move_defs)

interpretation persona_rows: row_table pp_id pp_tenant_id any_row no_move
  by unfold_locales (auto simp: move_defs)

interpretation adaptation_rows: row_table la_id la_tenant_id any_row adaptation_move
  by unfold_locales (auto simp: move_defs)

interpretation ara_rows: row_table ra_id ra_tenant_id any_row ara_move
  by unfold_locales (auto simp: move_defs)

interpretation task_rows: row_table tk_id tk_tenant_id task_new task_move
  by unfold_locales (auto simp: move_defs)

interpretation approval_rows: row_table ap_id ap_tenant_id approval_new approval_move
  by unfold_locales (auto simp: move_defs)

interpretation artifact_rows: row_table af_id af_tenant_id any_row artifact_move
  by unfold_locales (auto simp: move_defs)

interpretation job_rows: row_table jb_id jb_tenant_id job_new job_move
  by unfold_locales (auto simp: move_defs)

end
