(* ===== verification/StoreJobs.thy ===== *)
theory StoreJobs
  imports Store
begin

text \<open>
  Background jobs of the in-memory store: enqueueing, claiming under a lease, completion, retry with
  a bounded number of attempts, and the operator's requeue. Every claim opens a \<^verbatim>\<open>JobAttempt\<close>, the
  completion or the retry of the job closes the last one.
\<close>

definition enqueue_job :: "background_job \<Rightarrow> store \<Rightarrow> background_job result" where
  [store_ops]: "enqueue_job job s =
     (case find (\<lambda>j. jb_tenant_id j = jb_tenant_id job \<and> jb_kind j = jb_kind job \<and>
                     jb_source_id j = jb_source_id job) (dict_values (st_jobs s)) of
        Some existing \<Rightarrow> (Inr existing, s)
      | None \<Rightarrow> (Inr job, s\<lparr>st_jobs := AList.update (jb_id job) job (st_jobs s)\<rparr>))"

definition claimable_job :: "datetime \<Rightarrow> background_job \<Rightarrow> bool" where
  "claimable_job now j \<longleftrightarrow>
     (jb_state j \<in> {Job_PENDING, Job_RETRY} \<and> jb_available_at j \<le> now) \<or>
     (jb_state j = Job_RUNNING \<and>
      (case jb_lease_expires_at j of None \<Rightarrow> False | Some x \<Rightarrow> x \<le> now))"

text \<open>\<^verbatim>\<open>_job_attempts.setdefault(k, []).append(a)\<close>.\<close>

definition append_attempt ::
  "uuid \<Rightarrow> job_attempt \<Rightarrow> (uuid, job_attempt list) dict \<Rightarrow> (uuid, job_attempt list) dict" where
  "append_attempt k a tbl =
     AList.update k ((case map_of tbl k of None \<Rightarrow> [] | Some xs \<Rightarrow> xs) @ [a]) tbl"

definition claim_job :: "env \<Rightarrow> uuid \<Rightarrow> datetime \<Rightarrow> store \<Rightarrow> background_job option result" where
  [store_ops]: "claim_job e lease_id lease_expires_at s =
     (let now = clk e 0 in
      case find (claimable_job now) (sort_key jb_created_at (dict_values (st_jobs s))) of
        None \<Rightarrow> (Inr None, s)
      | Some job \<Rightarrow>
          let claimed = job\<lparr>jb_state := Job_RUNNING, jb_attempt_count := jb_attempt_count job + 1,
                jb_lease_id := Some lease_id, jb_lease_expires_at := Some lease_expires_at,
                jb_updated_at := now\<rparr>;
              attempt = \<lparr>at_id = gen e 0, at_tenant_id = jb_tenant_id job, at_job_id = jb_id job,
                at_attempt = jb_attempt_count claimed, at_started_at = clk e 1,
                at_finished_at = None, at_error = None\<rparr>
          in (Inr (Some claimed),
              s\<lparr>st_jobs := AList.update (jb_id job) claimed (st_jobs s),
                st_job_attempts := append_attempt (jb_id job) attempt (st_job_attempts s)\<rparr>))"

definition active_job :: "store \<Rightarrow> uuid \<Rightarrow> uuid \<Rightarrow> uuid \<Rightarrow> error + background_job" where
  "active_job s tenant_id job_id lease_id =
     (case scoped jb_tenant_id (st_jobs s) tenant_id job_id of
        None \<Rightarrow> Inl (LifecycleNotFoundError ''job not found'')
      | Some job \<Rightarrow>
          if jb_state job \<noteq> Job_RUNNING \<or> jb_lease_id job \<noteq> Some lease_id
          then Inl (LifecycleConflictError ''job is not actively claimed'')
          else Inr job)"

text \<open>
  \<^verbatim>\<open>_job_attempts[k][-1] = f(_job_attempts[k][-1])\<close>: a missing key and an empty list raise.
\<close>

definition update_last_attempt ::
  "uuid \<Rightarrow> (job_attempt \<Rightarrow> job_attempt) \<Rightarrow> (uuid, job_attempt list) dict \<Rightarrow>
   error + (uuid, job_attempt list) dict" where
  "update_last_attempt k f tbl =
     (case map_of tbl k of
        None \<Rightarrow> Inl KeyError
      | Some xs \<Rightarrow> if xs = [] then Inl IndexError
                   else Inr (AList.update k (butlast xs @ [f (last xs)]) tbl))"

definition complete_job :: "env \<Rightarrow> uuid \<Rightarrow> uuid \<Rightarrow> uuid \<Rightarrow> store \<Rightarrow> background_job result" where
  [store_ops]: "complete_job e tenant_id job_id lease_id s =
     (case active_job s tenant_id job_id lease_id of
        Inl err \<Rightarrow> (Inl err, s)
      | Inr job \<Rightarrow>
          let now = clk e 0;
              completed = job\<lparr>jb_state := Job_COMPLETED, jb_lease_id := None,
                jb_lease_expires_at := None, jb_completed_at := Some now, jb_updated_at := now\<rparr>;
              s1 = s\<lparr>st_jobs := AList.update job_id completed (st_jobs s)\<rparr>
          in (case update_last_attempt job_id (\<lambda>a. a\<lparr>at_finished_at := Some now\<rparr>)
                     (st_job_attempts s1) of
                Inl err \<Rightarrow> (Inl err, s1)
              | Inr attempts \<Rightarrow> (Inr completed, s1\<lparr>st_job_attempts := attempts\<rparr>)))"

definition retry_job ::
  "env \<Rightarrow> uuid \<Rightarrow> uuid \<Rightarrow> uuid \<Rightarrow> job_error \<Rightarrow> datetime \<Rightarrow> store \<Rightarrow> background_job result" where
  [store_ops]: "retry_job e tenant_id job_id lease_id error available_at s =
     (case active_job s tenant_id job_id lease_id of
        Inl err \<Rightarrow> (Inl err, s)
      | Inr job \<Rightarrow>
          let now = clk e 0;
              state = (if jb_attempt_count job \<ge> jb_max_attempts job then Job_FAILED else Job_RETRY);
              retried = job\<lparr>jb_state := state, jb_lease_id := None, jb_lease_expires_at := None,
                jb_last_error := Some error, jb_available_at := available_at,
                jb_completed_at := (if state = Job_FAILED then Some now else None),
                jb_updated_at := now\<rparr>;
              s1 = s\<lparr>st_jobs := AList.update job_id retried (st_jobs s)\<rparr>
          in (case update_last_attempt job_id
                     (\<lambda>a. a\<lparr>at_finished_at := Some now, at_error := Some error\<rparr>)
                     (st_job_attempts s1) of
                Inl err \<Rightarrow> (Inl err, s1)
              | Inr attempts \<Rightarrow> (Inr retried, s1\<lparr>st_job_attempts := attempts\<rparr>)))"

definition list_jobs :: "uuid \<Rightarrow> store \<Rightarrow> background_job list" where
  "list_jobs tenant_id s =
     filter (\<lambda>j. jb_tenant_id j = tenant_id)
       (sort_key (\<lambda>j. - jb_created_at j) (dict_values (st_jobs s)))"

definition list_job_attempts :: "uuid \<Rightarrow> uuid \<Rightarrow> store \<Rightarrow> job_attempt list" where
  "list_job_attempts tenant_id job_id s =
     (case scoped jb_tenant_id (st_jobs s) tenant_id job_id of
        None \<Rightarrow> []
      | Some _ \<Rightarrow> (case map_of (st_job_attempts s) job_id of None \<Rightarrow> [] | Some xs \<Rightarrow> xs))"

definition requeue_job :: "env \<Rightarrow> uuid \<Rightarrow> uuid \<Rightarrow> uuid \<Rightarrow> store \<Rightarrow> background_job result" where
  [store_ops]: "requeue_job e tenant_id job_id actor_id s =
     (case scoped jb_tenant_id (st_jobs s) tenant_id job_id of
        None \<Rightarrow> (Inl (LifecycleNotFoundError ''job not found''), s)
      | Some job \<Rightarrow>
          if jb_state job \<noteq> Job_FAILED
          then (Inl (LifecycleConflictError ''only failed jobs can be requeued''), s)
          else
            let now = clk e 0;
                requeued = job\<lparr>jb_state := Job_PENDING, jb_attempt_count := 0,
                  jb_available_at := now, jb_lease_id := None, jb_lease_expires_at := None,
                  jb_last_error := None, jb_completed_at := None, jb_updated_at := now\<rparr>
            in (Inr requeued,
                s\<lparr>st_jobs := AList.update job_id requeued (st_jobs s),
                  st_events := st_events s @
                    [AuditEvent e 0 tenant_id JOB_REQUEUED Actor_USER (Some actor_id) None
                       [(''job_id'', JId job_id)]]\<rparr>))"

end
