(* ===== verification/RowSteps.thy ===== *)
theory RowSteps
  imports RowSpec StoreJobs
begin

text \<open>
  The row steps of the store as a transition relation labelled with the tenant they are made for, and
  what every row step keeps: the keys and owners of the rows, the references between them, the shape
  of turns, jobs and leases, and everything another tenant owns.
\<close>

section \<open>References and well-formedness\<close>

text \<open>
  \<open>refers\<close>: where a row of the first table names a row of the second, that row exists and belongs to
  the same tenant.
\<close>

definition refers ::
  "('a \<Rightarrow> uuid) \<Rightarrow> ('a \<Rightarrow> uuid option) \<Rightarrow> ('b \<Rightarrow> uuid) \<Rightarrow> (uuid, 'a) dict \<Rightarrow> (uuid, 'b) dict \<Rightarrow> bool" where
  "refers tenf ref tenf' src tgt \<longleftrightarrow>
     (\<forall>k x r. map_of src k = Some x \<longrightarrow> ref x = Some r \<longrightarrow>
        (\<exists>y. map_of tgt r = Some y \<and> tenf' y = tenf x))"

definition has_row :: "('b \<Rightarrow> uuid) \<Rightarrow> uuid \<Rightarrow> uuid \<Rightarrow> (uuid, 'b) dict \<Rightarrow> bool" where
  "has_row tenf u k tbl \<longleftrightarrow> (\<exists>y. map_of tbl k = Some y \<and> tenf y = u)"

lemma refers_evolves: "refers f ref g src tgt \<Longrightarrow> evolves g tgt tgt' \<Longrightarrow> refers f ref g src tgt'"
  unfolding refers_def evolves_def by metis

lemma refers_update:
  "refers f ref g src tgt \<Longrightarrow> (\<And>r. ref x = Some r \<Longrightarrow> has_row g (f x) r tgt) \<Longrightarrow>
     refers f ref g (AList.update k x src) tgt"
  unfolding refers_def has_row_def by (auto simp: update_conv')

lemma refersD:
  "refers f ref g src tgt \<Longrightarrow> map_of src k = Some x \<Longrightarrow> ref x = Some r \<Longrightarrow> has_row g (f x) r tgt"
  unfolding refers_def has_row_def by blast

lemma has_row_evolves: "has_row f u k t \<Longrightarrow> evolves f t t' \<Longrightarrow> has_row f u k t'"
  unfolding has_row_def evolves_def by metis

lemma refers_Nil [simp]: "refers f ref g [] tgt"
  by (simp add: refers_def)

text \<open>A lease is stored under its own identifier, or (by a revocation) under its task's.\<close>

definition lease_ok :: "(uuid, task) dict \<Rightarrow> uuid \<Rightarrow> lease \<Rightarrow> bool" where
  "lease_ok tasks k l \<longleftrightarrow> has_row tk_tenant_id (ls_tenant_id l) (ls_task_id l) tasks \<and>
     (k = ls_task_id l \<or> k = ls_id l \<and> map_of tasks k = None)"

definition leases_ok :: "store \<Rightarrow> bool" where
  "leases_ok s \<longleftrightarrow> distinct (map fst (st_leases s)) \<and>
     (\<forall>k l. map_of (st_leases s) k = Some l \<longrightarrow> lease_ok (st_tasks s) k l) \<and>
     (\<forall>k l k' l'. map_of (st_leases s) k = Some l \<longrightarrow> map_of (st_leases s) k' = Some l' \<longrightarrow>
        ls_task_id l = ls_task_id l' \<longrightarrow> k \<noteq> ls_task_id l \<longrightarrow> k' \<noteq> ls_task_id l \<longrightarrow> k = k')"

definition turn_ok :: "conversation_turn \<Rightarrow> bool" where
  "turn_ok t \<longleftrightarrow> valid_turn t \<and> tn_state t \<noteq> Turn_FAILED \<and>
     (tn_state t = Turn_RUNNING \<longrightarrow> tn_run_lease_id t \<noteq> None) \<and>
     (tn_state t \<in> {Turn_PAUSED, Turn_COMPLETED} \<longrightarrow> tn_run_lease_id t = None)"

text \<open>
  The attempts of a job: a running job has an open last attempt that carries its attempt count.
\<close>

definition job_ok :: "background_job \<Rightarrow> bool" where
  "job_ok j \<longleftrightarrow> valid_job j \<and> (jb_state j = Job_RUNNING) = (jb_lease_id j \<noteq> None) \<and>
     (jb_state j = Job_PENDING \<longrightarrow> jb_attempt_count j = 0) \<and>
     (jb_state j = Job_RUNNING \<longrightarrow> 1 \<le> jb_attempt_count j) \<and>
     (jb_state j = Job_RETRY \<longrightarrow> jb_attempt_count j < jb_max_attempts j) \<and>
     (jb_state j = Job_FAILED \<longrightarrow> jb_max_attempts j \<le> jb_attempt_count j)"

definition attempts_ok :: "(uuid, background_job) dict \<Rightarrow> (uuid, job_attempt list) dict \<Rightarrow> bool" where
  "attempts_ok jobs atts \<longleftrightarrow>
     (\<forall>k j. map_of jobs k = Some j \<longrightarrow> jb_state j = Job_RUNNING \<longrightarrow>
        (\<exists>xs. map_of atts k = Some xs \<and> xs \<noteq> [] \<and> at_finished_at (last xs) = None \<and>
           at_attempt (last xs) = jb_attempt_count j))"

definition keys_ok :: "store \<Rightarrow> bool" where
  "keys_ok s \<longleftrightarrow>
     keyed ra_id (st_remote_agents s) \<and> keyed cv_id (st_conversations s) \<and>
     keyed ms_id (st_messages s) \<and> keyed tn_id (st_turns s) \<and>
     keyed iv_id (st_tool_invocations s) \<and> keyed mr_id (st_memories s) \<and>
     keyed mb_id (st_migration_batches s) \<and> keyed pp_id (st_personas s) \<and>
     keyed la_id (st_learned_adaptations s) \<and> keyed tk_id (st_tasks s) \<and>
     keyed jb_id (st_jobs s) \<and> keyed ap_id (st_approvals s) \<and> keyed af_id (st_artifacts s)"

definition refs_ok :: "store \<Rightarrow> bool" where
  "refs_ok s \<longleftrightarrow>
     refers ms_tenant_id (\<lambda>m. Some (ms_conversation_id m)) cv_tenant_id (st_messages s) (st_conversations s) \<and>
     refers tn_tenant_id (\<lambda>t. Some (tn_conversation_id t)) cv_tenant_id (st_turns s) (st_conversations s) \<and>
     refers iv_tenant_id (\<lambda>i. Some (iv_turn_id i)) tn_tenant_id (st_tool_invocations s) (st_turns s) \<and>
     refers iv_tenant_id iv_task_id tk_tenant_id (st_tool_invocations s) (st_tasks s) \<and>
     refers ap_tenant_id ap_tool_invocation_id iv_tenant_id (st_approvals s) (st_tool_invocations s) \<and>
     refers ap_tenant_id ap_task_id tk_tenant_id (st_approvals s) (st_tasks s) \<and>
     refers af_tenant_id (\<lambda>f. Some (af_task_id f)) tk_tenant_id (st_artifacts s) (st_tasks s) \<and>
     refers la_tenant_id (\<lambda>a. Some (la_profile_id a)) pp_tenant_id (st_learned_adaptations s) (st_personas s) \<and>
     refers mr_tenant_id mr_import_batch_id mb_tenant_id (st_memories s) (st_migration_batches s) \<and>
     (\<forall>u p. map_of (st_active_persona_ids s) u = Some p \<longrightarrow> has_row pp_tenant_id u p (st_personas s))"

definition store_ok :: "store \<Rightarrow> bool" where
  "store_ok s \<longleftrightarrow> keys_ok s \<and> refs_ok s \<and> leases_ok s \<and>
     (\<forall>t \<in> ran (map_of (st_turns s)). turn_ok t) \<and>
     (\<forall>j \<in> ran (map_of (st_jobs s)). job_ok j) \<and>
     (\<forall>a \<in> ran (map_of (st_approvals s)). valid_approval a) \<and>
     attempts_ok (st_jobs s) (st_job_attempts s)"

section \<open>Row steps\<close>

inductive row_step :: "uuid \<Rightarrow> store \<Rightarrow> store \<Rightarrow> bool" where
  row_event:
    "(\<And>ev. ev \<in> set evs \<Longrightarrow> ev_tenant_id ev = u) \<Longrightarrow>
     row_step u s (s\<lparr>st_events := st_events s @ evs\<rparr>)"
| row_conversation:
    "writes cv_id cv_tenant_id any_row conversation_move u k c (st_conversations s) \<Longrightarrow>
     row_step u s (s\<lparr>st_conversations := AList.update k c (st_conversations s)\<rparr>)"
| row_message:
    "writes ms_id ms_tenant_id any_row no_move u k m (st_messages s) \<Longrightarrow>
     has_row cv_tenant_id u (ms_conversation_id m) (st_conversations s) \<Longrightarrow>
     row_step u s (s\<lparr>st_messages := AList.update k m (st_messages s)\<rparr>)"
| row_turn:
    "writes tn_id tn_tenant_id turn_new turn_move u k t (st_turns s) \<Longrightarrow>
     has_row cv_tenant_id u (tn_conversation_id t) (st_conversations s) \<Longrightarrow>
     row_step u s (s\<lparr>st_turns := AList.update k t (st_turns s)\<rparr>)"
| row_invocation:
    "writes iv_id iv_tenant_id any_row invocation_move u k i (st_tool_invocations s) \<Longrightarrow>
     has_row tn_tenant_id u (iv_turn_id i) (st_turns s) \<Longrightarrow>
     (\<And>t. iv_task_id i = Some t \<Longrightarrow> has_row tk_tenant_id u t (st_tasks s)) \<Longrightarrow>
     row_step u s (s\<lparr>st_tool_invocations := AList.update k i (st_tool_invocations s)\<rparr>)"
| row_memory:
    "writes mr_id mr_tenant_id any_row memory_move u k m (st_memories s) \<Longrightarrow>
     (\<And>b. mr_import_batch_id m = Some b \<Longrightarrow> has_row mb_tenant_id u b (st_migration_batches s)) \<Longrightarrow>
     row_step u s (s\<lparr>st_memories := AList.update k m (st_memories s)\<rparr>)"
| row_batch:
    "writes mb_id mb_tenant_id batch_new batch_move u k b (st_migration_batches s) \<Longrightarrow>
     row_step u s (s\<lparr>st_migration_batches := AList.update k b (st_migration_batches s)\<rparr>)"
| row_persona:
    "writes pp_id pp_tenant_id any_row no_move u k p (st_personas s) \<Longrightarrow>
     row_step u s (s\<lparr>st_personas := AList.update k p (st_personas s)\<rparr>)"
| row_active_persona:
    "has_row pp_tenant_id u p (st_personas s) \<Longrightarrow>
     row_step u s (s\<lparr>st_active_persona_ids := AList.update u p (st_active_persona_ids s)\<rparr>)"
| row_adaptation:
    "writes la_id la_tenant_id any_row adaptation_move u k a (st_learned_adaptations s) \<Longrightarrow>
     has_row pp_tenant_id u (la_profile_id a) (st_personas s) \<Longrightarrow>
     row_step u s (s\<lparr>st_learned_adaptations := AList.update k a (st_learned_adaptations s)\<rparr>)"
| row_ara:
    "writes ra_id ra_tenant_id any_row ara_move u k a (st_remote_agents s) \<Longrightarrow>
     row_step u s (s\<lparr>st_remote_agents := AList.update k a (st_remote_agents s)\<rparr>)"
| row_task:
    "writes tk_id tk_tenant_id task_new task_move u k t (st_tasks s) \<Longrightarrow>
     map_of (st_leases s) k = None \<or> map_of (st_tasks s) k \<noteq> None \<Longrightarrow>
     row_step u s (s\<lparr>st_tasks := AList.update k t (st_tasks s)\<rparr>)"
| row_approval:
    "writes ap_id ap_tenant_id approval_new approval_move u k a (st_approvals s) \<Longrightarrow>
     (\<And>i. ap_tool_invocation_id a = Some i \<Longrightarrow> has_row iv_tenant_id u i (st_tool_invocations s)) \<Longrightarrow>
     (\<And>t. ap_task_id a = Some t \<Longrightarrow> has_row tk_tenant_id u t (st_tasks s)) \<Longrightarrow>
     row_step u s (s\<lparr>st_approvals := AList.update k a (st_approvals s)\<rparr>)"
| row_artifact:
    "writes af_id af_tenant_id any_row artifact_move u k f (st_artifacts s) \<Longrightarrow>
     has_row tk_tenant_id u (af_task_id f) (st_tasks s) \<Longrightarrow>
     row_step u s (s\<lparr>st_artifacts := AList.update k f (st_artifacts s)\<rparr>)"
| row_new_lease:
    "ls_id l = k \<Longrightarrow> ls_tenant_id l = u \<Longrightarrow> map_of (st_leases s) k = None \<Longrightarrow>
     map_of (st_tasks s) k = None \<Longrightarrow>
     has_row tk_tenant_id u (ls_task_id l) (st_tasks s) \<Longrightarrow>
     row_step u s (s\<lparr>st_leases := AList.update k l
       (filter (\<lambda>(k', l'). ls_task_id l' \<noteq> ls_task_id l) (st_leases s))\<rparr>)"
| row_renew_lease:
    "map_of (st_leases s) k = Some l \<Longrightarrow> ls_tenant_id l = u \<Longrightarrow>
     row_step u s (s\<lparr>st_leases := AList.update k (l\<lparr>ls_expires_at := x\<rparr>) (st_leases s)\<rparr>)"
| row_expire_lease:
    "ls_task_id l = k \<Longrightarrow> ls_tenant_id l = u \<Longrightarrow> has_row tk_tenant_id u k (st_tasks s) \<Longrightarrow>
     row_step u s (s\<lparr>st_leases := AList.update k l (st_leases s)\<rparr>)"
| row_new_job:
    "jb_id j = k \<Longrightarrow> jb_tenant_id j = u \<Longrightarrow> map_of (st_jobs s) k = None \<Longrightarrow> job_new j \<Longrightarrow>
     row_step u s (s\<lparr>st_jobs := AList.update k j (st_jobs s)\<rparr>)"
| row_claim_job:
    "map_of (st_jobs s) k = Some j \<Longrightarrow> jb_id j = k \<Longrightarrow> jb_tenant_id j = u \<Longrightarrow> job_claim j j' \<Longrightarrow>
     at_attempt a = jb_attempt_count j' \<Longrightarrow> at_finished_at a = None \<Longrightarrow>
     row_step u s (s\<lparr>st_jobs := AList.update k j' (st_jobs s),
                     st_job_attempts := append_attempt k a (st_job_attempts s)\<rparr>)"
| row_end_job:
    "map_of (st_jobs s) k = Some j \<Longrightarrow> jb_id j = k \<Longrightarrow> jb_tenant_id j = u \<Longrightarrow> job_end j j' \<Longrightarrow>
     update_last_attempt k f (st_job_attempts s) = Inr atts \<Longrightarrow>
     row_step u s (s\<lparr>st_jobs := AList.update k j' (st_jobs s), st_job_attempts := atts\<rparr>)"
| row_requeue_job:
    "map_of (st_jobs s) k = Some j \<Longrightarrow> jb_id j = k \<Longrightarrow> jb_tenant_id j = u \<Longrightarrow> job_requeue j j' \<Longrightarrow>
     row_step u s (s\<lparr>st_jobs := AList.update k j' (st_jobs s)\<rparr>)"

text \<open>The steps of one call.\<close>

abbreviation row_steps :: "uuid \<Rightarrow> store \<Rightarrow> store \<Rightarrow> bool" where
  "row_steps u \<equiv> (row_step u)\<^sup>*\<^sup>*"

section \<open>What every row step keeps\<close>

lemmas table_writes_keyed =
  conv_rows.writes_keyed message_rows.writes_keyed turn_rows.writes_keyed
  invocation_rows.writes_keyed memory_rows.writes_keyed batch_rows.writes_keyed
  persona_rows.writes_keyed adaptation_rows.writes_keyed ara_rows.writes_keyed
  task_rows.writes_keyed approval_rows.writes_keyed artifact_rows.writes_keyed
  job_rows.writes_keyed

lemmas table_writes_evolves =
  conv_rows.writes_evolves message_rows.writes_evolves turn_rows.writes_evolves
  invocation_rows.writes_evolves memory_rows.writes_evolves batch_rows.writes_evolves
  persona_rows.writes_evolves adaptation_rows.writes_evolves ara_rows.writes_evolves
  task_rows.writes_evolves approval_rows.writes_evolves artifact_rows.writes_evolves
  job_rows.writes_evolves

lemmas table_writes_isolated =
  conv_rows.writes_isolated message_rows.writes_isolated turn_rows.writes_isolated
  invocation_rows.writes_isolated memory_rows.writes_isolated batch_rows.writes_isolated
  persona_rows.writes_isolated adaptation_rows.writes_isolated ara_rows.writes_isolated
  task_rows.writes_isolated approval_rows.writes_isolated artifact_rows.writes_isolated
  job_rows.writes_isolated

text \<open>The three job steps are writes of the job table.\<close>

lemma job_claim_writes:
  "map_of tbl k = Some j \<Longrightarrow> jb_id j = k \<Longrightarrow> jb_tenant_id j = u \<Longrightarrow> job_move j j' \<Longrightarrow>
     writes jb_id jb_tenant_id job_new job_move u k j' tbl"
  by (auto simp: writes_def move_defs)

lemma job_new_writes:
  "jb_id j = k \<Longrightarrow> jb_tenant_id j = u \<Longrightarrow> map_of tbl k = None \<Longrightarrow> job_new j \<Longrightarrow>
     writes jb_id jb_tenant_id job_new job_move u k j tbl"
  by (auto simp: writes_def)

lemma row_step_keys: "row_step u s s' \<Longrightarrow> keys_ok s \<Longrightarrow> keys_ok s'"
  by (erule row_step.cases)
     (auto simp: keys_ok_def job_move_def intro: table_writes_keyed
       job_rows.writes_keyed[OF job_claim_writes] job_rows.writes_keyed[OF job_new_writes])

text \<open>Rows stay, with their owner.\<close>

definition store_evolves :: "store \<Rightarrow> store \<Rightarrow> bool" where
  "store_evolves s s' \<longleftrightarrow>
     evolves ra_tenant_id (st_remote_agents s) (st_remote_agents s') \<and>
     evolves cv_tenant_id (st_conversations s) (st_conversations s') \<and>
     evolves ms_tenant_id (st_messages s) (st_messages s') \<and>
     evolves tn_tenant_id (st_turns s) (st_turns s') \<and>
     evolves iv_tenant_id (st_tool_invocations s) (st_tool_invocations s') \<and>
     evolves mr_tenant_id (st_memories s) (st_memories s') \<and>
     evolves mb_tenant_id (st_migration_batches s) (st_migration_batches s') \<and>
     evolves pp_tenant_id (st_personas s) (st_personas s') \<and>
     evolves la_tenant_id (st_learned_adaptations s) (st_learned_adaptations s') \<and>
     evolves tk_tenant_id (st_tasks s) (st_tasks s') \<and>
     evolves jb_tenant_id (st_jobs s) (st_jobs s') \<and>
     evolves ap_tenant_id (st_approvals s) (st_approvals s') \<and>
     evolves af_tenant_id (st_artifacts s) (st_artifacts s')"

lemma store_evolves_refl [simp]: "store_evolves s s"
  by (simp add: store_evolves_def)

lemma store_evolves_trans: "store_evolves a b \<Longrightarrow> store_evolves b c \<Longrightarrow> store_evolves a c"
  unfolding store_evolves_def by (auto intro: evolves_trans)

lemma row_step_evolves: "row_step u s s' \<Longrightarrow> store_evolves s s'"
  by (erule row_step.cases)
     (auto simp: store_evolves_def job_move_def intro: table_writes_evolves
       job_rows.writes_evolves[OF job_claim_writes] job_rows.writes_evolves[OF job_new_writes])

lemma row_step_refs:
  assumes "row_step u s s'" and "refs_ok s"
  shows "refs_ok s'"
proof -
  have ev: "store_evolves s s'" using assms(1) by (rule row_step_evolves)
  show ?thesis
    using assms ev unfolding refs_ok_def store_evolves_def
    by (cases rule: row_step.cases)
       (auto simp: writes_def update_conv' intro: refers_evolves has_row_evolves intro!: refers_update)
qed

lemma leases_ok_relabel:
  assumes ok: "leases_ok s" and l: "map_of (st_leases s) k = Some l"
    and same: "ls_task_id l' = ls_task_id l" "ls_id l' = ls_id l" "ls_tenant_id l' = ls_tenant_id l"
  shows "leases_ok (s\<lparr>st_leases := AList.update k l' (st_leases s)\<rparr>)"
proof -
  let ?new = "AList.update k l' (st_leases s)"
  have old: "\<exists>y0. map_of (st_leases s) j = Some y0 \<and> ls_task_id y0 = ls_task_id y \<and>
      ls_id y0 = ls_id y \<and> ls_tenant_id y0 = ls_tenant_id y"
    if "map_of ?new j = Some y" for j y
    using that l same by (cases "j = k") (auto simp: update_conv' simp del: map_of_eq_Some_iff)
  have "distinct (map fst ?new)" using ok by (simp add: leases_ok_def distinct_update)
  moreover have "lease_ok (st_tasks s) j y" if "map_of ?new j = Some y" for j y
    using old[OF that] ok unfolding leases_ok_def lease_ok_def by metis
  moreover have "j = j'"
    if "map_of ?new j = Some y" "map_of ?new j' = Some y'" "ls_task_id y = ls_task_id y'"
      "j \<noteq> ls_task_id y" "j' \<noteq> ls_task_id y" for j y j' y'
    using old[OF that(1)] old[OF that(2)] that(3-5) ok unfolding leases_ok_def by metis
  ultimately show ?thesis unfolding leases_ok_def by simp
qed

lemma row_step_leases:
  assumes "row_step u s s'" and "leases_ok s"
  shows "leases_ok s'"
  using assms(1)
proof cases
  case (row_task k t)
  have ev: "evolves tk_tenant_id (st_tasks s) (st_tasks s')"
    using row_step_evolves[OF assms(1)] by (simp add: store_evolves_def)
  have "lease_ok (st_tasks s') j l" if "map_of (st_leases s) j = Some l" for j l
  proof -
    from that assms(2) have "lease_ok (st_tasks s) j l" by (simp add: leases_ok_def)
    moreover have "map_of (st_tasks s) j = None \<longrightarrow> map_of (st_tasks s') j = None"
      using row_task that by (auto simp: update_conv')
    ultimately show ?thesis
      unfolding lease_ok_def by (auto intro: has_row_evolves[OF _ ev])
  qed
  then show ?thesis using assms(2) row_task(1) by (simp add: leases_ok_def)
next
  case (row_new_lease l k)
  let ?rest = "filter (\<lambda>(k', l'). ls_task_id l' \<noteq> ls_task_id l) (st_leases s)"
  have d: "distinct (map fst (st_leases s))" using assms(2) by (simp add: leases_ok_def)
  have rest: "map_of ?rest j = Some y \<longleftrightarrow> map_of (st_leases s) j = Some y \<and> ls_task_id y \<noteq> ls_task_id l"
    for j y using d by (auto simp: map_of_eq_Some_iff distinct_map_filter)
  have "distinct (map fst ?rest)" using d by (simp add: distinct_map_filter)
  moreover have "map_of (AList.update k l ?rest) j = Some y \<longleftrightarrow>
      (if j = k then y = l else map_of (st_leases s) j = Some y \<and> ls_task_id y \<noteq> ls_task_id l)" for j y
    using rest by (auto simp: update_conv' simp del: map_of_eq_Some_iff)
  ultimately show ?thesis
    using assms(2) row_new_lease
    by (simp add: leases_ok_def distinct_update lease_ok_def split: if_splits
          del: map_of_eq_Some_iff) blast
next
  case (row_renew_lease k l x)
  with leases_ok_relabel[OF assms(2), of k l "l\<lparr>ls_expires_at := x\<rparr>"] show ?thesis by simp
next
  case (row_expire_lease l k)
  have new: "map_of (AList.update k l (st_leases s)) j = Some y \<longleftrightarrow>
      (if j = k then y = l else map_of (st_leases s) j = Some y)" for j y
    by (auto simp: update_conv')
  have "distinct (map fst (AList.update k l (st_leases s)))"
    using assms(2) by (simp add: leases_ok_def distinct_update)
  moreover have "lease_ok (st_tasks s) j y" if "map_of (AList.update k l (st_leases s)) j = Some y" for j y
  proof (cases "j = k")
    case True
    with that row_expire_lease show ?thesis by (simp add: lease_ok_def update_conv')
  next
    case False
    with that assms(2) show ?thesis by (auto simp: leases_ok_def update_conv' simp del: map_of_eq_Some_iff)
  qed
  moreover have "j = j'"
    if "map_of (AList.update k l (st_leases s)) j = Some y"
      "map_of (AList.update k l (st_leases s)) j' = Some y'"
      "ls_task_id y = ls_task_id y'" "j \<noteq> ls_task_id y" "j' \<noteq> ls_task_id y" for j y j' y'
  proof -
    have "map_of (st_leases s) j = Some y" "map_of (st_leases s) j' = Some y'"
      using that(1) that(2) that(3-5) row_expire_lease(2) unfolding new by (auto split: if_splits)
    with that(3-5) assms(2) show ?thesis unfolding leases_ok_def by blast
  qed
  ultimately show ?thesis using row_expire_lease(1) unfolding leases_ok_def by simp
qed (use assms(2) in \<open>simp_all add: leases_ok_def\<close>)

lemma turn_move_ok: "turn_move t t' \<Longrightarrow> turn_ok t \<Longrightarrow> turn_ok t'"
  unfolding turn_move_def turn_ok_def valid_turn_def
  by (elim conjE disjE; auto simp del: not_None_eq)

lemma turn_new_ok: "turn_new t \<Longrightarrow> turn_ok t"
  by (simp add: turn_new_def turn_ok_def valid_turn_def)

lemma approval_move_ok: "approval_move a a' \<Longrightarrow> valid_approval a \<Longrightarrow> valid_approval a'"
  by (auto simp: approval_move_def valid_approval_def)

lemma approval_new_ok: "approval_new a \<Longrightarrow> valid_approval a"
  by (simp add: approval_new_def)

lemma row_step_turns:
  assumes "row_step u s s'" and "\<forall>t \<in> ran (map_of (st_turns s)). turn_ok t"
  shows "\<forall>t \<in> ran (map_of (st_turns s')). turn_ok t"
  using assms(1)
proof cases
  case (row_turn k t)
  with assms(2) show ?thesis
    using turn_rows.writes_all[OF row_turn(2) _ turn_new_ok turn_move_ok] by simp
qed (use assms(2) in simp_all)

lemma row_step_approvals:
  assumes "row_step u s s'" and "\<forall>a \<in> ran (map_of (st_approvals s)). valid_approval a"
  shows "\<forall>a \<in> ran (map_of (st_approvals s')). valid_approval a"
  using assms(1)
proof cases
  case (row_approval k a)
  with assms(2) show ?thesis
    using approval_rows.writes_all[OF row_approval(2) _ approval_new_ok approval_move_ok] by simp
qed (use assms(2) in simp_all)

lemma job_claim_ok: "job_claim j j' \<Longrightarrow> job_ok j \<Longrightarrow> job_ok j'"
  unfolding job_claim_def same_job_def job_ok_def valid_job_def
  by (elim conjE, intro conjI; auto simp del: not_None_eq)

lemma job_end_ok: "job_end j j' \<Longrightarrow> job_ok j \<Longrightarrow> job_ok j'"
  unfolding job_end_def same_job_def job_ok_def valid_job_def
  by (elim conjE, intro conjI; auto simp del: not_None_eq)

lemma job_requeue_ok: "job_requeue j j' \<Longrightarrow> job_ok j \<Longrightarrow> job_ok j'"
  unfolding job_requeue_def same_job_def job_ok_def valid_job_def
  by (elim conjE, intro conjI; auto simp del: not_None_eq)

lemma job_move_ok: "job_move j j' \<Longrightarrow> job_ok j \<Longrightarrow> job_ok j'"
  unfolding job_move_def by (blast intro: job_claim_ok job_end_ok job_requeue_ok)

lemma job_new_ok: "job_new j \<Longrightarrow> job_ok j"
  by (auto simp: job_new_def job_ok_def valid_job_def)

lemma row_step_jobs:
  assumes "row_step u s s'" and "\<forall>j \<in> ran (map_of (st_jobs s)). job_ok j"
  shows "\<forall>j \<in> ran (map_of (st_jobs s')). job_ok j"
  using assms(1)
proof cases
  case (row_new_job j k)
  with assms(2) show ?thesis
    using job_rows.writes_all[OF job_new_writes _ job_new_ok job_move_ok] by simp
next
  case (row_claim_job k j j' a)
  with assms(2) show ?thesis
    using job_rows.writes_all[OF job_claim_writes _ job_new_ok job_move_ok, of "st_jobs s" k j u j']
    by (simp add: job_move_def)
next
  case (row_end_job k j j' f atts)
  with assms(2) show ?thesis
    using job_rows.writes_all[OF job_claim_writes _ job_new_ok job_move_ok, of "st_jobs s" k j u j']
    by (simp add: job_move_def)
next
  case (row_requeue_job k j j')
  with assms(2) show ?thesis
    using job_rows.writes_all[OF job_claim_writes _ job_new_ok job_move_ok, of "st_jobs s" k j u j']
    by (simp add: job_move_def)
qed (use assms(2) in simp_all)

lemma row_step_attempts:
  "row_step u s s' \<Longrightarrow> attempts_ok (st_jobs s) (st_job_attempts s) \<Longrightarrow>
     attempts_ok (st_jobs s') (st_job_attempts s')"
  by (erule row_step.cases)
     (auto simp: attempts_ok_def update_conv' append_attempt_def update_last_attempt_def
        job_new_def job_end_def job_requeue_def split: option.splits if_splits)

text \<open>The invariant of the store.\<close>

lemma row_step_store_ok: "row_step u s s' \<Longrightarrow> store_ok s \<Longrightarrow> store_ok s'"
  unfolding store_ok_def
  by (elim conjE, intro conjI;
      (rule row_step_keys row_step_refs row_step_leases row_step_turns row_step_jobs
        row_step_approvals row_step_attempts; assumption))

lemma row_steps_store_ok: "row_steps u s s' \<Longrightarrow> store_ok s \<Longrightarrow> store_ok s'"
  by (induction rule: rtranclp_induct) (auto intro: row_step_store_ok)

lemma row_steps_evolves: "row_steps u s s' \<Longrightarrow> store_evolves s s'"
  by (induction rule: rtranclp_induct) (auto intro: row_step_evolves store_evolves_trans)

section \<open>Isolation\<close>

text \<open>What the store holds of a tenant: its rows of every table and its audit events.\<close>

definition same_tenant_view :: "uuid \<Rightarrow> store \<Rightarrow> store \<Rightarrow> bool" where
  "same_tenant_view v s s' \<longleftrightarrow>
     rows_of ra_tenant_id v (st_remote_agents s') = rows_of ra_tenant_id v (st_remote_agents s) \<and>
     rows_of cv_tenant_id v (st_conversations s') = rows_of cv_tenant_id v (st_conversations s) \<and>
     rows_of ms_tenant_id v (st_messages s') = rows_of ms_tenant_id v (st_messages s) \<and>
     rows_of tn_tenant_id v (st_turns s') = rows_of tn_tenant_id v (st_turns s) \<and>
     rows_of iv_tenant_id v (st_tool_invocations s') = rows_of iv_tenant_id v (st_tool_invocations s) \<and>
     rows_of mr_tenant_id v (st_memories s') = rows_of mr_tenant_id v (st_memories s) \<and>
     rows_of mb_tenant_id v (st_migration_batches s') = rows_of mb_tenant_id v (st_migration_batches s) \<and>
     rows_of pp_tenant_id v (st_personas s') = rows_of pp_tenant_id v (st_personas s) \<and>
     map_of (st_active_persona_ids s') v = map_of (st_active_persona_ids s) v \<and>
     rows_of la_tenant_id v (st_learned_adaptations s') = rows_of la_tenant_id v (st_learned_adaptations s) \<and>
     rows_of tk_tenant_id v (st_tasks s') = rows_of tk_tenant_id v (st_tasks s) \<and>
     rows_of ls_tenant_id v (st_leases s') = rows_of ls_tenant_id v (st_leases s) \<and>
     rows_of jb_tenant_id v (st_jobs s') = rows_of jb_tenant_id v (st_jobs s) \<and>
     rows_of ap_tenant_id v (st_approvals s') = rows_of ap_tenant_id v (st_approvals s) \<and>
     rows_of af_tenant_id v (st_artifacts s') = rows_of af_tenant_id v (st_artifacts s) \<and>
     list_events v s' = list_events v s"

lemma same_tenant_view_refl [simp]: "same_tenant_view v s s"
  by (simp add: same_tenant_view_def)

lemma same_tenant_view_trans:
  "same_tenant_view v a b \<Longrightarrow> same_tenant_view v b c \<Longrightarrow> same_tenant_view v a c"
  by (simp add: same_tenant_view_def)

lemma list_events_append:
  "(\<And>ev. ev \<in> set evs \<Longrightarrow> ev_tenant_id ev = u) \<Longrightarrow> v \<noteq> u \<Longrightarrow>
     list_events v (s\<lparr>st_events := st_events s @ evs\<rparr>) = list_events v s"
  by (auto simp: list_events_def filter_empty_conv)

lemma list_events_cong: "st_events s' = st_events s \<Longrightarrow> list_events v s' = list_events v s"
  by (simp add: list_events_def)

lemma lease_tenant:
  assumes "leases_ok s" and "map_of (st_leases s) k = Some l"
    and "has_row tk_tenant_id u k (st_tasks s)"
  shows "ls_tenant_id l = u"
proof -
  from assms(1,2) have "lease_ok (st_tasks s) k l" by (simp add: leases_ok_def)
  with assms(3) show ?thesis by (auto simp: lease_ok_def has_row_def)
qed

lemma rows_of_drop_task:
  assumes "leases_ok s" and "has_row tk_tenant_id u t (st_tasks s)" and "v \<noteq> u"
  shows "rows_of ls_tenant_id v (filter (\<lambda>(k, l). ls_task_id l \<noteq> t) (st_leases s)) =
    rows_of ls_tenant_id v (st_leases s)"
proof -
  have "ls_task_id l \<noteq> t" if "(k, l) \<in> set (st_leases s)" and "ls_tenant_id l = v" for k l
  proof -
    from assms(1) that(1) have "map_of (st_leases s) k = Some l" by (simp add: leases_ok_def)
    with assms(1) have "lease_ok (st_tasks s) k l" unfolding leases_ok_def by blast
    with assms(2,3) that(2) show ?thesis by (auto simp: lease_ok_def has_row_def)
  qed
  then have "(case p of (k, l) \<Rightarrow> ls_task_id l \<noteq> t) \<and> ls_tenant_id (snd p) = v \<longleftrightarrow>
      ls_tenant_id (snd p) = v" if "p \<in> set (st_leases s)" for p
    using that by (cases p) auto
  then show ?thesis unfolding rows_of_def filter_filter
    by (intro filter_cong) (auto simp: conj_commute)
qed

lemma row_step_isolated:
  assumes "row_step u s s'" and "store_ok s" and "v \<noteq> u"
  shows "same_tenant_view v s s'"
proof -
  have lok: "leases_ok s" using assms(2) by (simp add: store_ok_def)
  show ?thesis using assms(1)
  proof cases
    case (row_event evs)
    then show ?thesis
      using list_events_append[of evs u v s] assms(3) by (simp add: same_tenant_view_def)
  next
    case (row_new_lease l k)
    let ?rest = "filter (\<lambda>(k', l'). ls_task_id l' \<noteq> ls_task_id l) (st_leases s)"
    have none: "map_of ?rest k = None"
      using row_new_lease by (auto simp: map_of_eq_None_iff)
    have "rows_of ls_tenant_id v (AList.update k l ?rest) = rows_of ls_tenant_id v ?rest"
    proof (rule rows_of_update)
      show "ls_tenant_id l \<noteq> v" using row_new_lease assms(3) by simp
    next
      fix y assume "map_of ?rest k = Some y"
      with none show "ls_tenant_id y \<noteq> v" by (simp only: option.distinct)
    qed
    then have "rows_of ls_tenant_id v (st_leases s') = rows_of ls_tenant_id v ?rest"
      using row_new_lease(1) by simp
    also have "\<dots> = rows_of ls_tenant_id v (st_leases s)"
      using row_new_lease lok assms(3) by (intro rows_of_drop_task) auto
    finally show ?thesis
      using row_new_lease(1) by (simp add: same_tenant_view_def list_events_def)
  next
    case (row_renew_lease k l x)
    then show ?thesis using assms(3)
      by (auto simp: same_tenant_view_def list_events_def intro!: rows_of_update)
  next
    case (row_expire_lease l k)
    then show ?thesis using assms(3) lease_tenant[OF lok]
      by (auto simp: same_tenant_view_def list_events_def intro!: rows_of_update)
  qed (use assms(3) in \<open>auto simp: same_tenant_view_def list_events_def job_move_def update_conv'
      intro: table_writes_isolated job_rows.writes_isolated[OF job_claim_writes]
        job_rows.writes_isolated[OF job_new_writes]\<close>)
qed

lemma row_steps_isolated:
  "row_steps u s s' \<Longrightarrow> store_ok s \<Longrightarrow> v \<noteq> u \<Longrightarrow> same_tenant_view v s s'"
proof (induction rule: rtranclp_induct)
  case base
  then show ?case by simp
next
  case (step s1 s2)
  then have "store_ok s1" by (blast intro: row_steps_store_ok)
  with step show ?case by (blast intro: same_tenant_view_trans row_step_isolated)
qed

text \<open>The audit log is only appended to.\<close>

lemma row_step_log: "row_step u s s' \<Longrightarrow> prefix (st_events s) (st_events s')"
  by (erule row_step.cases) auto

lemma row_steps_log: "row_steps u s s' \<Longrightarrow> prefix (st_events s) (st_events s')"
  by (induction rule: rtranclp_induct) (auto intro: row_step_log prefix_order.trans)

end
