(* ===== verification/StoreConversations.thy ===== *)
theory StoreConversations
  imports Store PyString
begin

text \<open>
  Conversations, messages and conversation turns of the in-memory store: creation, the run lease of
  a turn (claim, check, checkpoint, pause, completion) and the reads.
\<close>

definition create_conversation :: "conversation \<Rightarrow> audit_event \<Rightarrow> store \<Rightarrow> conversation result" where
  [store_ops]: "create_conversation conversation event s =
     (Inr conversation,
      s\<lparr>st_conversations := AList.update (cv_id conversation) conversation (st_conversations s),
        st_events := st_events s @ [event]\<rparr>)"

definition get_conversation :: "uuid \<Rightarrow> uuid \<Rightarrow> store \<Rightarrow> conversation option" where
  "get_conversation tenant_id conversation_id s =
     scoped cv_tenant_id (st_conversations s) tenant_id conversation_id"

definition list_conversations :: "uuid \<Rightarrow> store \<Rightarrow> conversation list" where
  "list_conversations tenant_id s =
     filter (\<lambda>c. cv_tenant_id c = tenant_id)
       (sort_key (\<lambda>c. - cv_updated_at c) (dict_values (st_conversations s)))"

definition append_message ::
  "conversation_message \<Rightarrow> audit_event list \<Rightarrow> store \<Rightarrow> conversation_message result" where
  [store_ops]: "append_message message events s =
     (case scoped cv_tenant_id (st_conversations s) (ms_tenant_id message) (ms_conversation_id message) of
        None \<Rightarrow> (Inl (LifecycleNotFoundError ''conversation not found''), s)
      | Some conversation \<Rightarrow>
          (Inr message,
           s\<lparr>st_messages := AList.update (ms_id message) message (st_messages s),
             st_conversations := AList.update (cv_id conversation)
               (conversation\<lparr>cv_updated_at := ms_created_at message\<rparr>) (st_conversations s),
             st_events := st_events s @ events\<rparr>))"

definition list_messages ::
  "uuid \<Rightarrow> uuid \<Rightarrow> int \<Rightarrow> store \<Rightarrow> error + conversation_message list" where
  "list_messages tenant_id conversation_id limit s =
     (case scoped cv_tenant_id (st_conversations s) tenant_id conversation_id of
        None \<Rightarrow> Inl (LifecycleNotFoundError ''conversation not found'')
      | Some _ \<Rightarrow>
          Inr (slice_from (- limit)
            (sort_key ms_created_at
              (filter (\<lambda>m. ms_tenant_id m = tenant_id \<and> ms_conversation_id m = conversation_id)
                (dict_values (st_messages s))))))"

definition create_turn ::
  "conversation_message \<Rightarrow> conversation_turn \<Rightarrow> audit_event list \<Rightarrow> background_job \<Rightarrow> store \<Rightarrow>
   conversation_turn result" where
  [store_ops]: "create_turn user_message turn events extraction_job s =
     (case find (\<lambda>t. tn_tenant_id t = tn_tenant_id turn \<and>
                     tn_client_request_id t = tn_client_request_id turn) (dict_values (st_turns s)) of
        Some existing \<Rightarrow> (Inr existing, s)
      | None \<Rightarrow>
          (case map_of (st_conversations s) (tn_conversation_id turn) of
             None \<Rightarrow> (Inl (LifecycleNotFoundError ''conversation not found''), s)
           | Some conversation \<Rightarrow>
               if cv_tenant_id conversation \<noteq> tn_tenant_id turn \<or>
                  ms_tenant_id user_message \<noteq> tn_tenant_id turn \<or>
                  ms_conversation_id user_message \<noteq> tn_conversation_id turn \<or>
                  ms_id user_message \<noteq> tn_user_message_id turn \<or>
                  ms_role user_message \<noteq> Role_USER
               then (Inl (LifecycleNotFoundError ''conversation not found''), s)
               else (Inr turn,
                 s\<lparr>st_messages := AList.update (ms_id user_message) user_message (st_messages s),
                   st_turns := AList.update (tn_id turn) turn (st_turns s),
                   st_conversations := AList.update (cv_id conversation)
                     (conversation\<lparr>cv_updated_at := ms_created_at user_message\<rparr>)
                     (st_conversations s),
                   st_events := st_events s @ events,
                   st_jobs := AList.update (jb_id extraction_job) extraction_job (st_jobs s)\<rparr>)))"

definition get_turn :: "uuid \<Rightarrow> uuid \<Rightarrow> store \<Rightarrow> conversation_turn option" where
  "get_turn tenant_id turn_id s = scoped tn_tenant_id (st_turns s) tenant_id turn_id"

definition list_conversation_turns :: "uuid \<Rightarrow> uuid \<Rightarrow> store \<Rightarrow> conversation_turn list" where
  "list_conversation_turns tenant_id conversation_id s =
     filter (\<lambda>t. tn_tenant_id t = tenant_id \<and> tn_conversation_id t = conversation_id)
       (sort_key tn_created_at (dict_values (st_turns s)))"

section \<open>The run lease of a turn\<close>

text \<open>\<^verbatim>\<open>now.replace(microsecond=0)\<close> drops the fraction of a second.\<close>

definition validate_run_lease_expiry :: "datetime \<Rightarrow> datetime \<Rightarrow> error option" where
  "validate_run_lease_expiry now expires_at =
     (if expires_at \<le> now \<or> expires_at > (now - now mod 1000000) + minutes 15
      then Some (LifecycleConflictError ''run lease must expire within 15 minutes'') else None)"

definition active_turn ::
  "datetime \<Rightarrow> store \<Rightarrow> uuid \<Rightarrow> uuid \<Rightarrow> uuid \<Rightarrow> error + conversation_turn" where
  "active_turn now s tenant_id turn_id run_lease_id =
     (case scoped tn_tenant_id (st_turns s) tenant_id turn_id of
        None \<Rightarrow> Inl (LifecycleNotFoundError ''turn not found'')
      | Some turn \<Rightarrow>
          if tn_state turn \<noteq> Turn_RUNNING \<or> tn_run_lease_id turn \<noteq> Some run_lease_id
          then Inl (LifecycleConflictError ''turn is not actively claimed'')
          else (case tn_run_lease_expires_at turn of
                  None \<Rightarrow> Inl (LifecycleConflictError ''turn is not actively claimed'')
                | Some x \<Rightarrow> if x \<le> now
                            then Inl (LifecycleConflictError ''turn is not actively claimed'')
                            else Inr turn))"

text \<open>Which turns a claim may take: pending ones, and running ones whose run lease has expired.\<close>

definition claimable_turn :: "datetime \<Rightarrow> uuid \<Rightarrow> conversation_turn \<Rightarrow> bool" where
  "claimable_turn now tenant_id t \<longleftrightarrow>
     tn_tenant_id t = tenant_id \<and>
     (tn_state t = Turn_PENDING \<or>
      (tn_state t = Turn_RUNNING \<and>
       (case tn_run_lease_expires_at t of None \<Rightarrow> False | Some x \<Rightarrow> x \<le> now)))"

definition claim_pending_turn ::
  "env \<Rightarrow> uuid \<Rightarrow> uuid \<Rightarrow> datetime \<Rightarrow> store \<Rightarrow> conversation_turn option result" where
  [store_ops]: "claim_pending_turn e tenant_id run_lease_id run_lease_expires_at s =
     (case validate_run_lease_expiry (clk e 0) run_lease_expires_at of
        Some err \<Rightarrow> (Inl err, s)
      | None \<Rightarrow>
          (case find (claimable_turn (clk e 1) tenant_id) (sort_key tn_created_at (dict_values (st_turns s))) of
             None \<Rightarrow> (Inr None, s)
           | Some turn \<Rightarrow>
               let claimed = turn\<lparr>tn_state := Turn_RUNNING, tn_run_lease_id := Some run_lease_id,
                     tn_run_lease_expires_at := Some run_lease_expires_at,
                     tn_updated_at := clk e 1\<rparr>
               in (Inr (Some claimed),
                   s\<lparr>st_turns := AList.update (tn_id turn) claimed (st_turns s),
                     st_events := st_events s @
                       [AuditEvent e 0 tenant_id CONVERSATION_TURN_RUNNING Actor_COORDINATOR None None
                          [(''turn_id'', JId (tn_id turn))]]\<rparr>)))"

definition claim_turn ::
  "env \<Rightarrow> uuid \<Rightarrow> uuid \<Rightarrow> uuid \<Rightarrow> datetime \<Rightarrow> store \<Rightarrow> conversation_turn option result" where
  [store_ops]: "claim_turn e tenant_id turn_id run_lease_id run_lease_expires_at s =
     (case validate_run_lease_expiry (clk e 0) run_lease_expires_at of
        Some err \<Rightarrow> (Inl err, s)
      | None \<Rightarrow>
          (case scoped tn_tenant_id (st_turns s) tenant_id turn_id of
             None \<Rightarrow> (Inr None, s)
           | Some turn \<Rightarrow>
               if tn_state turn \<noteq> Turn_PENDING then (Inr None, s)
               else
                 let claimed = turn\<lparr>tn_state := Turn_RUNNING, tn_run_lease_id := Some run_lease_id,
                       tn_run_lease_expires_at := Some run_lease_expires_at,
                       tn_updated_at := clk e 1\<rparr>
                 in (Inr (Some claimed),
                     s\<lparr>st_turns := AList.update (tn_id turn) claimed (st_turns s),
                       st_events := st_events s @
                         [AuditEvent e 0 tenant_id CONVERSATION_TURN_RUNNING Actor_COORDINATOR None None
                            [(''turn_id'', JId (tn_id turn))]]\<rparr>)))"

definition checkpoint_turn ::
  "env \<Rightarrow> uuid \<Rightarrow> uuid \<Rightarrow> uuid \<Rightarrow> (string, json) dict \<Rightarrow> store \<Rightarrow> conversation_turn result" where
  [store_ops]: "checkpoint_turn e tenant_id turn_id run_lease_id checkpoint s =
     (case active_turn (clk e 0) s tenant_id turn_id run_lease_id of
        Inl err \<Rightarrow> (Inl err, s)
      | Inr turn \<Rightarrow>
          let updated = turn\<lparr>tn_checkpoint := checkpoint, tn_updated_at := clk e 1\<rparr>
          in (Inr updated, s\<lparr>st_turns := AList.update turn_id updated (st_turns s)\<rparr>))"

definition pause_turn ::
  "env \<Rightarrow> uuid \<Rightarrow> uuid \<Rightarrow> uuid \<Rightarrow> (string, json) dict \<Rightarrow> store \<Rightarrow> conversation_turn result" where
  [store_ops]: "pause_turn e tenant_id turn_id run_lease_id checkpoint s =
     (case active_turn (clk e 0) s tenant_id turn_id run_lease_id of
        Inl err \<Rightarrow> (Inl err, s)
      | Inr turn \<Rightarrow>
          let paused = turn\<lparr>tn_state := Turn_PAUSED, tn_checkpoint := checkpoint,
                tn_run_lease_id := None, tn_run_lease_expires_at := None,
                tn_updated_at := clk e 1\<rparr>
          in (Inr paused,
              s\<lparr>st_turns := AList.update turn_id paused (st_turns s),
                st_events := st_events s @
                  [AuditEvent e 0 tenant_id CONVERSATION_TURN_PAUSED Actor_COORDINATOR None None
                     [(''turn_id'', JId turn_id)]]\<rparr>))"

definition complete_turn ::
  "env \<Rightarrow> uuid \<Rightarrow> uuid \<Rightarrow> uuid \<Rightarrow> conversation_message \<Rightarrow> store \<Rightarrow> conversation_turn result" where
  [store_ops]: "complete_turn e tenant_id turn_id run_lease_id assistant_message s =
     (case active_turn (clk e 0) s tenant_id turn_id run_lease_id of
        Inl err \<Rightarrow> (Inl err, s)
      | Inr turn \<Rightarrow>
          if ms_tenant_id assistant_message \<noteq> tenant_id \<or>
             ms_conversation_id assistant_message \<noteq> tn_conversation_id turn \<or>
             ms_role assistant_message \<noteq> Role_ASSISTANT
          then (Inl (LifecycleConflictError ''assistant message ownership mismatch''), s)
          else
            let completed = turn\<lparr>tn_state := Turn_COMPLETED, tn_run_lease_id := None,
                  tn_run_lease_expires_at := None, tn_updated_at := clk e 1,
                  tn_completed_at := Some (clk e 1)\<rparr>;
                s1 = s\<lparr>st_turns := AList.update turn_id completed (st_turns s),
                       st_messages := AList.update (ms_id assistant_message) assistant_message
                         (st_messages s)\<rparr>
            in (case map_of (st_conversations s1) (tn_conversation_id turn) of
                  None \<Rightarrow> (Inl KeyError, s1)
                | Some conversation \<Rightarrow>
                    (Inr completed,
                     s1\<lparr>st_conversations := AList.update (cv_id conversation)
                          (conversation\<lparr>cv_updated_at := ms_created_at assistant_message\<rparr>)
                          (st_conversations s1),
                        st_events := st_events s1 @
                          [AuditEvent e 0 tenant_id CONVERSATION_TURN_COMPLETED Actor_COORDINATOR
                             None None [(''turn_id'', JId turn_id)]]\<rparr>)))"

end
