(* ===== verification/StoreMemories.thy ===== *)
theory StoreMemories
  imports Store
begin

text \<open>
  Durable memories, persona profiles, learned adaptations and migration batches of the in-memory
  store, with the reviews that move a memory along its life cycle.
\<close>

section \<open>Memories\<close>

definition upsert_memory :: "memory_record \<Rightarrow> audit_event list \<Rightarrow> store \<Rightarrow> memory_record result" where
  [store_ops]: "upsert_memory memory events s =
     (case find (\<lambda>m. mr_tenant_id m = mr_tenant_id memory \<and>
                     mr_normalized_content m = mr_normalized_content memory \<and>
                     mr_state m \<noteq> Mem_DELETED) (dict_values (st_memories s)) of
        Some duplicate \<Rightarrow> (Inr duplicate, s)
      | None \<Rightarrow> (Inr memory,
          s\<lparr>st_memories := AList.update (mr_id memory) memory (st_memories s),
            st_events := st_events s @ events\<rparr>))"

definition get_memory :: "uuid \<Rightarrow> uuid \<Rightarrow> store \<Rightarrow> memory_record option" where
  "get_memory tenant_id memory_id s = scoped mr_tenant_id (st_memories s) tenant_id memory_id"

definition list_memories :: "uuid \<Rightarrow> bool \<Rightarrow> store \<Rightarrow> memory_record list" where
  "list_memories tenant_id include_candidates s =
     filter (\<lambda>m. mr_tenant_id m = tenant_id \<and> mr_state m \<noteq> Mem_DELETED \<and>
                 (include_candidates \<or> mr_state m = Mem_PROMOTED))
       (sort_key mr_updated_at (dict_values (st_memories s)))"

definition delete_memory :: "env \<Rightarrow> uuid \<Rightarrow> uuid \<Rightarrow> uuid \<Rightarrow> store \<Rightarrow> memory_record result" where
  [store_ops]: "delete_memory e tenant_id memory_id actor_id s =
     (case scoped mr_tenant_id (st_memories s) tenant_id memory_id of
        None \<Rightarrow> (Inl (LifecycleNotFoundError ''memory not found''), s)
      | Some memory \<Rightarrow>
          if mr_state memory = Mem_DELETED
          then (Inl (LifecycleConflictError ''memory is already deleted''), s)
          else
            let now = clk e 0;
                deleted = memory\<lparr>mr_state := Mem_DELETED, mr_deleted_at := Some now,
                  mr_updated_at := now\<rparr>
            in (Inr deleted,
                s\<lparr>st_memories := AList.update memory_id deleted (st_memories s),
                  st_events := st_events s @
                    [AuditEvent e 0 tenant_id MEMORY_DELETED Actor_USER (Some actor_id) None
                       [(''memory_id'', JId memory_id)]]\<rparr>))"

text \<open>
  \<^verbatim>\<open>review_memory\<close>: the check of the memory it replaces comes before the check that a rejection
  replaces nothing.
\<close>

definition check_replacement ::
  "store \<Rightarrow> uuid \<Rightarrow> bool \<Rightarrow> uuid option \<Rightarrow> error + memory_record option" where
  "check_replacement s tenant_id promote replaces_memory_id =
     (case replaces_memory_id of
        None \<Rightarrow> Inr None
      | Some rid \<Rightarrow>
          (case scoped mr_tenant_id (st_memories s) tenant_id rid of
             None \<Rightarrow> Inl (LifecycleNotFoundError ''replacement memory not found'')
           | Some r \<Rightarrow>
               if mr_state r \<noteq> Mem_PROMOTED
               then Inl (LifecycleNotFoundError ''replacement memory not found'')
               else if \<not> promote
               then Inl (LifecycleConflictError ''rejection cannot replace a memory'')
               else Inr (Some r)))"

definition review_memory ::
  "env \<Rightarrow> uuid \<Rightarrow> uuid \<Rightarrow> bool \<Rightarrow> uuid \<Rightarrow> uuid option \<Rightarrow> store \<Rightarrow> memory_record result" where
  [store_ops]: "review_memory e tenant_id memory_id promote actor_id replaces_memory_id s =
     (case scoped mr_tenant_id (st_memories s) tenant_id memory_id of
        None \<Rightarrow> (Inl (LifecycleNotFoundError ''memory not found''), s)
      | Some memory \<Rightarrow>
          if mr_state memory \<noteq> Mem_CANDIDATE
          then (Inl (LifecycleConflictError ''only candidate memories can be reviewed''), s)
          else
            (case check_replacement s tenant_id promote replaces_memory_id of
               Inl err \<Rightarrow> (Inl err, s)
             | Inr replacement \<Rightarrow>
                 let now = clk e 0;
                     reviewed = memory\<lparr>mr_state := (if promote then Mem_PROMOTED else Mem_REJECTED),
                       mr_confirmed := promote, mr_contradiction_of := replaces_memory_id,
                       mr_reviewed_at := Some now, mr_reviewed_by := Some actor_id,
                       mr_updated_at := now\<rparr>;
                     s1 = s\<lparr>st_memories := AList.update memory_id reviewed (st_memories s),
                            st_events := st_events s @
                              [AuditEvent e 0 tenant_id
                                 (if promote then MEMORY_PROMOTED else MEMORY_REJECTED)
                                 Actor_USER (Some actor_id) None [(''memory_id'', JId memory_id)]]\<rparr>
                 in (case replacement of
                       None \<Rightarrow> (Inr reviewed, s1)
                     | Some r \<Rightarrow>
                         (Inr reviewed,
                          s1\<lparr>st_memories := AList.update (mr_id r)
                               (r\<lparr>mr_state := Mem_DELETED, mr_deleted_at := Some now,
                                  mr_updated_at := now\<rparr>) (st_memories s1),
                             st_events := st_events s1 @
                               [AuditEvent e 1 tenant_id MEMORY_CONTRADICTION_RESOLVED Actor_USER
                                  (Some actor_id) None
                                  [(''memory_id'', JId memory_id),
                                   (''replaced_memory_id'', JId (mr_id r))]]\<rparr>))))"

definition pin_memory :: "env \<Rightarrow> uuid \<Rightarrow> uuid \<Rightarrow> bool \<Rightarrow> uuid \<Rightarrow> store \<Rightarrow> memory_record result" where
  [store_ops]: "pin_memory e tenant_id memory_id pinned actor_id s =
     (case scoped mr_tenant_id (st_memories s) tenant_id memory_id of
        None \<Rightarrow> (Inl (LifecycleNotFoundError ''promoted memory not found''), s)
      | Some memory \<Rightarrow>
          if mr_state memory \<noteq> Mem_PROMOTED
          then (Inl (LifecycleNotFoundError ''promoted memory not found''), s)
          else
            let updated = memory\<lparr>mr_pinned := pinned, mr_updated_at := clk e 0\<rparr>
            in (Inr updated,
                s\<lparr>st_memories := AList.update memory_id updated (st_memories s),
                  st_events := st_events s @
                    [AuditEvent e 0 tenant_id (if pinned then MEMORY_PINNED else MEMORY_UNPINNED)
                       Actor_USER (Some actor_id) None [(''memory_id'', JId memory_id)]]\<rparr>))"

section \<open>Personas\<close>

definition get_active_persona :: "uuid \<Rightarrow> store \<Rightarrow> persona_profile option" where
  "get_active_persona tenant_id s =
     (case map_of (st_active_persona_ids s) tenant_id of
        None \<Rightarrow> None
      | Some profile_id \<Rightarrow> map_of (st_personas s) profile_id)"

text \<open>\<^verbatim>\<open>max(versions of the tenant, default=0) + 1\<close>.\<close>

definition next_persona_version :: "uuid \<Rightarrow> store \<Rightarrow> int" where
  "next_persona_version tenant_id s =
     (case map pp_version (filter (\<lambda>p. pp_tenant_id p = tenant_id) (dict_values (st_personas s))) of
        [] \<Rightarrow> 0
      | v # vs \<Rightarrow> fold max vs v) + 1"

definition create_persona_profile :: "env \<Rightarrow> persona_profile \<Rightarrow> uuid \<Rightarrow> store \<Rightarrow> persona_profile result" where
  [store_ops]: "create_persona_profile e profile actor_id s =
     (if pp_version profile \<noteq> next_persona_version (pp_tenant_id profile) s
      then (Inl (LifecycleConflictError ''persona version is not next for tenant''), s)
      else (Inr profile,
        s\<lparr>st_personas := AList.update (pp_id profile) profile (st_personas s),
          st_active_persona_ids :=
            AList.update (pp_tenant_id profile) (pp_id profile) (st_active_persona_ids s),
          st_events := st_events s @
            [AuditEvent e 0 (pp_tenant_id profile) PERSONA_CREATED Actor_USER (Some actor_id) None
               [(''persona_id'', JId (pp_id profile)), (''version'', JInt (pp_version profile))],
             AuditEvent e 1 (pp_tenant_id profile) PERSONA_ACTIVATED Actor_USER (Some actor_id) None
               [(''persona_id'', JId (pp_id profile)), (''version'', JInt (pp_version profile))]]\<rparr>))"

definition revert_persona_profile :: "env \<Rightarrow> uuid \<Rightarrow> int \<Rightarrow> uuid \<Rightarrow> store \<Rightarrow> persona_profile result" where
  [store_ops]: "revert_persona_profile e tenant_id version actor_id s =
     (case find (\<lambda>p. pp_tenant_id p = tenant_id \<and> pp_version p = version)
             (dict_values (st_personas s)) of
        None \<Rightarrow> (Inl (LifecycleNotFoundError ''persona version not found''), s)
      | Some profile \<Rightarrow>
          (Inr profile,
           s\<lparr>st_active_persona_ids := AList.update tenant_id (pp_id profile) (st_active_persona_ids s),
             st_events := st_events s @
               [AuditEvent e 0 tenant_id PERSONA_REVERTED Actor_USER (Some actor_id) None
                  [(''persona_id'', JId (pp_id profile)), (''version'', JInt version)]]\<rparr>))"

definition create_learned_persona_adaptation ::
  "learned_persona_adaptation \<Rightarrow> store \<Rightarrow> learned_persona_adaptation result" where
  [store_ops]: "create_learned_persona_adaptation adaptation s =
     (case scoped pp_tenant_id (st_personas s) (la_tenant_id adaptation) (la_profile_id adaptation) of
        None \<Rightarrow> (Inl (LifecycleNotFoundError ''persona profile not found''), s)
      | Some _ \<Rightarrow>
          (Inr adaptation,
           s\<lparr>st_learned_adaptations :=
               AList.update (la_id adaptation) adaptation (st_learned_adaptations s)\<rparr>))"

definition reverse_learned_persona_adaptation ::
  "env \<Rightarrow> uuid \<Rightarrow> uuid \<Rightarrow> store \<Rightarrow> learned_persona_adaptation result" where
  [store_ops]: "reverse_learned_persona_adaptation e tenant_id adaptation_id s =
     (case scoped la_tenant_id (st_learned_adaptations s) tenant_id adaptation_id of
        None \<Rightarrow> (Inl (LifecycleNotFoundError ''learned persona adaptation not found''), s)
      | Some adaptation \<Rightarrow>
          if la_state adaptation = Adapt_REVERSED
          then (Inl (LifecycleConflictError ''learned persona adaptation is already reversed''), s)
          else
            let reversed_adaptation = adaptation\<lparr>la_state := Adapt_REVERSED,
                  la_reversed_at := Some (clk e 0)\<rparr>
            in (Inr reversed_adaptation,
                s\<lparr>st_learned_adaptations :=
                    AList.update adaptation_id reversed_adaptation (st_learned_adaptations s)\<rparr>))"

section \<open>Migration batches\<close>

text \<open>
  The loop of \<^verbatim>\<open>stage_migration_batch\<close> over the imported memories; \<open>n\<close> counts the audit events of
  the call.
\<close>

fun stage_memories ::
  "env \<Rightarrow> migration_batch \<Rightarrow> uuid \<Rightarrow> uuid \<Rightarrow> nat \<Rightarrow> memory_record list \<Rightarrow> store \<Rightarrow> nat \<times> store" where
  "stage_memories e batch message_id actor_id n [] s = (n, s)"
| "stage_memories e batch message_id actor_id n (memory # memories) s =
     (case find (\<lambda>m. mr_tenant_id m = mb_tenant_id batch \<and>
                     mr_source_system m = mr_source_system memory \<and>
                     mr_source_database_fingerprint m = mr_source_database_fingerprint memory \<and>
                     mr_source_external_id m = mr_source_external_id memory)
             (dict_values (st_memories s)) of
        Some _ \<Rightarrow> stage_memories e batch message_id actor_id n memories s
      | None \<Rightarrow>
          let stored = memory\<lparr>mr_source_message_id := message_id\<rparr>
          in stage_memories e batch message_id actor_id (Suc n) memories
               (s\<lparr>st_memories := AList.update (mr_id stored) stored (st_memories s),
                  st_events := st_events s @
                    [AuditEvent e n (mb_tenant_id batch) MEMORY_CANDIDATE_CREATED Actor_USER
                       (Some actor_id) None
                       [(''memory_id'', JId (mr_id stored)), (''import_batch_id'', JId (mb_id batch))]]\<rparr>))"

definition stage_migration_batch ::
  "env \<Rightarrow> migration_batch \<Rightarrow> memory_record list \<Rightarrow> uuid \<Rightarrow> store \<Rightarrow> migration_batch result" where
  [store_ops]: "stage_migration_batch e batch memories actor_id s =
     (case find (\<lambda>b. mb_tenant_id b = mb_tenant_id batch \<and>
                     mb_source_system b = mb_source_system batch \<and>
                     mb_source_database_fingerprint b = mb_source_database_fingerprint batch)
             (dict_values (st_migration_batches s)) of
        Some existing \<Rightarrow> (Inr existing, s)
      | None \<Rightarrow>
          let conversation = \<lparr>cv_id = gen e 0, cv_tenant_id = mb_tenant_id batch,
                cv_user_id = actor_id,
                cv_title = ''Imported '' @ mb_source_system batch @ '' migration'',
                cv_created_at = clk e 0, cv_updated_at = clk e 1\<rparr>;
              message = \<lparr>ms_id = gen e 1, ms_tenant_id = mb_tenant_id batch,
                ms_conversation_id = cv_id conversation, ms_role = Role_USER,
                ms_content = ''Imported source provenance'', ms_created_at = clk e 2\<rparr>;
              s1 = s\<lparr>st_conversations :=
                       AList.update (cv_id conversation) conversation (st_conversations s),
                     st_messages := AList.update (ms_id message) message (st_messages s),
                     st_migration_batches :=
                       AList.update (mb_id batch) batch (st_migration_batches s)\<rparr>;
              (n, s2) = stage_memories e batch (ms_id message) actor_id 0 memories s1
          in (Inr batch,
              s2\<lparr>st_events := st_events s2 @
                   [AuditEvent e n (mb_tenant_id batch) MIGRATION_STAGED Actor_USER (Some actor_id)
                      None [(''batch_id'', JId (mb_id batch))]]\<rparr>))"

definition get_migration_batch :: "uuid \<Rightarrow> uuid \<Rightarrow> store \<Rightarrow> migration_batch option" where
  "get_migration_batch tenant_id batch_id s =
     scoped mb_tenant_id (st_migration_batches s) tenant_id batch_id"

definition list_migration_batches :: "uuid \<Rightarrow> store \<Rightarrow> migration_batch list" where
  "list_migration_batches tenant_id s =
     filter (\<lambda>b. mb_tenant_id b = tenant_id) (dict_values (st_migration_batches s))"

definition promote_imported :: "datetime \<Rightarrow> uuid \<Rightarrow> memory_record \<Rightarrow> memory_record" where
  "promote_imported now actor_id m =
     m\<lparr>mr_state := Mem_PROMOTED, mr_confirmed := True, mr_reviewed_at := Some now,
       mr_reviewed_by := Some actor_id, mr_updated_at := now\<rparr>"

definition delete_imported :: "datetime \<Rightarrow> memory_record \<Rightarrow> memory_record" where
  "delete_imported now m =
     m\<lparr>mr_state := Mem_DELETED, mr_deleted_at := Some now, mr_updated_at := now\<rparr>"

text \<open>\<^verbatim>\<open>for item in items: self._memories[item.id] = item\<close>.\<close>

definition write_memories ::
  "memory_record list \<Rightarrow> (uuid, memory_record) dict \<Rightarrow> (uuid, memory_record) dict" where
  "write_memories items tbl = fold (\<lambda>m. AList.update (mr_id m) m) items tbl"

text \<open>
  \<^verbatim>\<open>authored_core\<close> is untyped in the source: \<open>None\<close> stands for a value that is not a
  \<^verbatim>\<open>PersonaCore\<close>.
\<close>

definition activate_migration_batch ::
  "env \<Rightarrow> uuid \<Rightarrow> uuid \<Rightarrow> uuid \<Rightarrow> persona_core option \<Rightarrow> store \<Rightarrow> migration_batch result" where
  [store_ops]: "activate_migration_batch e tenant_id batch_id actor_id authored_core s =
     (case authored_core of
        None \<Rightarrow> (Inl (LifecycleConflictError ''authored persona core is required''), s)
      | Some core \<Rightarrow>
          (case scoped mb_tenant_id (st_migration_batches s) tenant_id batch_id of
             None \<Rightarrow> (Inl (LifecycleNotFoundError ''migration batch not found''), s)
           | Some batch \<Rightarrow>
               if mb_state batch \<noteq> Batch_STAGED
               then (Inl (LifecycleConflictError ''migration batch is not staged''), s)
               else
                 let memories = filter (\<lambda>m. mr_tenant_id m = tenant_id \<and>
                       mr_import_batch_id m = Some batch_id) (dict_values (st_memories s))
                 in if \<not> list_ex (\<lambda>m. mr_state m \<in> {Mem_CANDIDATE, Mem_PROMOTED}) memories
                    then (Inl (LifecycleConflictError ''an approved imported fact is required''), s)
                    else
                      let now = clk e 0;
                          promoted = filter (\<lambda>m. mr_state m = Mem_CANDIDATE) memories;
                          profile = \<lparr>pp_id = gen e 0, pp_tenant_id = tenant_id,
                            pp_version = next_persona_version tenant_id s,
                            pp_authored_core = core, pp_created_at = clk e 1\<rparr>;
                          active = batch\<lparr>mb_state := Batch_ACTIVE,
                            mb_persona_profile_id := Some (pp_id profile),
                            mb_activated_at := Some now\<rparr>
                      in (Inr active,
                          s\<lparr>st_memories :=
                              write_memories (map (promote_imported now actor_id) promoted) (st_memories s),
                            st_personas := AList.update (pp_id profile) profile (st_personas s),
                            st_active_persona_ids :=
                              AList.update tenant_id (pp_id profile) (st_active_persona_ids s),
                            st_migration_batches :=
                              AList.update batch_id active (st_migration_batches s),
                            st_events := st_events s @
                              map (\<lambda>(n, m). AuditEvent e n tenant_id MEMORY_PROMOTED Actor_USER
                                     (Some actor_id) None
                                     [(''memory_id'', JId (mr_id m)), (''import_batch_id'', JId batch_id)])
                                (enumerate 0 promoted) @
                              [AuditEvent e (length promoted) tenant_id MIGRATION_ACTIVATED Actor_USER
                                 (Some actor_id) None [(''batch_id'', JId batch_id)]]\<rparr>)))"

definition rollback_migration_batch ::
  "env \<Rightarrow> uuid \<Rightarrow> uuid \<Rightarrow> uuid \<Rightarrow> store \<Rightarrow> (migration_batch \<times> memory_record list) result" where
  [store_ops]: "rollback_migration_batch e tenant_id batch_id actor_id s =
     (case scoped mb_tenant_id (st_migration_batches s) tenant_id batch_id of
        None \<Rightarrow> (Inl (LifecycleNotFoundError ''migration batch not found''), s)
      | Some batch \<Rightarrow>
          if mb_state batch = Batch_ROLLED_BACK
          then (Inl (LifecycleConflictError ''migration batch is already rolled back''), s)
          else
            let now = clk e 0;
                deleted = map (delete_imported now)
                  (filter (\<lambda>m. mr_import_batch_id m = Some batch_id \<and> mr_state m \<noteq> Mem_DELETED)
                    (dict_values (st_memories s)));
                rolled = batch\<lparr>mb_state := Batch_ROLLED_BACK, mb_rolled_back_at := Some now\<rparr>
            in (Inr (rolled, deleted),
                s\<lparr>st_memories := write_memories deleted (st_memories s),
                  st_migration_batches := AList.update batch_id rolled (st_migration_batches s),
                  st_events := st_events s @
                    [AuditEvent e 0 tenant_id MIGRATION_ROLLED_BACK Actor_USER (Some actor_id) None
                       [(''batch_id'', JId batch_id)]]\<rparr>))"

end
