(* ===== verification/StoreRefinement.thy ===== *)
theory StoreRefinement
  imports RowSteps StoreConversations StoreMemories
begin

text \<open>
  The operations of the in-memory store refine the abstract specification: on a well-formed store and
  under the contract of its callers (new identifiers for new rows, events filed under the tenant),
  every operation is a sequence of row steps for the tenant it is called for, whatever it returns.
\<close>

section \<open>Chaining row steps\<close>

named_theorems row_chain \<open>one more row step at the end of a sequence\<close>
named_theorems row_keys \<open>the row found at a key carries that key\<close>

lemma row_done [row_chain]: "row_steps u s s"
  by simp

lemma chain_event [row_chain]:
  "T = st_events s1 \<Longrightarrow> (\<And>ev. ev \<in> set evs \<Longrightarrow> ev_tenant_id ev = u) \<Longrightarrow> row_steps u s s1 \<Longrightarrow>
     row_steps u s (s1\<lparr>st_events := T @ evs\<rparr>)"
  by (auto intro: rtranclp.rtrancl_into_rtrancl row_event)

lemma chain_conversation [row_chain]:
  "T = st_conversations s1 \<Longrightarrow> writes cv_id cv_tenant_id any_row conversation_move u k x (st_conversations s1) \<Longrightarrow>
     row_steps u s s1 \<Longrightarrow> row_steps u s (s1\<lparr>st_conversations := AList.update k x T\<rparr>)"
  by (auto intro: rtranclp.rtrancl_into_rtrancl row_conversation)

lemma chain_message [row_chain]:
  "T = st_messages s1 \<Longrightarrow> writes ms_id ms_tenant_id any_row no_move u k x (st_messages s1) \<Longrightarrow>
     has_row cv_tenant_id u (ms_conversation_id x) (st_conversations s1) \<Longrightarrow>
     row_steps u s s1 \<Longrightarrow> row_steps u s (s1\<lparr>st_messages := AList.update k x T\<rparr>)"
  by (auto intro: rtranclp.rtrancl_into_rtrancl row_message)

lemma chain_turn [row_chain]:
  "T = st_turns s1 \<Longrightarrow> writes tn_id tn_tenant_id turn_new turn_move u k x (st_turns s1) \<Longrightarrow>
     has_row cv_tenant_id u (tn_conversation_id x) (st_conversations s1) \<Longrightarrow>
     row_steps u s s1 \<Longrightarrow> row_steps u s (s1\<lparr>st_turns := AList.update k x T\<rparr>)"
  by (auto intro: rtranclp.rtrancl_into_rtrancl row_turn)

lemma chain_invocation [row_chain]:
  "T = st_tool_invocations s1 \<Longrightarrow> writes iv_id iv_tenant_id any_row invocation_move u k x (st_tool_invocations s1) \<Longrightarrow>
     has_row tn_tenant_id u (iv_turn_id x) (st_turns s1) \<Longrightarrow>
     (\<And>t. iv_task_id x = Some t \<Longrightarrow> has_row tk_tenant_id u t (st_tasks s1)) \<Longrightarrow>
     row_steps u s s1 \<Longrightarrow> row_steps u s (s1\<lparr>st_tool_invocations := AList.update k x T\<rparr>)"
  by (auto intro: rtranclp.rtrancl_into_rtrancl row_invocation)

lemma chain_memory [row_chain]:
  "T = st_memories s1 \<Longrightarrow> writes mr_id mr_tenant_id any_row memory_move u k x (st_memories s1) \<Longrightarrow>
     (\<And>b. mr_import_batch_id x = Some b \<Longrightarrow> has_row mb_tenant_id u b (st_migration_batches s1)) \<Longrightarrow>
     row_steps u s s1 \<Longrightarrow> row_steps u s (s1\<lparr>st_memories := AList.update k x T\<rparr>)"
  by (auto intro: rtranclp.rtrancl_into_rtrancl row_memory)

lemma chain_batch [row_chain]:
  "T = st_migration_batches s1 \<Longrightarrow> writes mb_id mb_tenant_id batch_new batch_move u k x (st_migration_batches s1) \<Longrightarrow>
     row_steps u s s1 \<Longrightarrow> row_steps u s (s1\<lparr>st_migration_batches := AList.update k x T\<rparr>)"
  by (auto intro: rtranclp.rtrancl_into_rtrancl row_batch)

lemma chain_persona [row_chain]:
  "T = st_personas s1 \<Longrightarrow> writes pp_id pp_tenant_id any_row no_move u k x (st_personas s1) \<Longrightarrow>
     row_steps u s s1 \<Longrightarrow> row_steps u s (s1\<lparr>st_personas := AList.update k x T\<rparr>)"
  by (auto intro: rtranclp.rtrancl_into_rtrancl row_persona)

lemma chain_adaptation [row_chain]:
  "T = st_learned_adaptations s1 \<Longrightarrow> writes la_id la_tenant_id any_row adaptation_move u k x (st_learned_adaptations s1) \<Longrightarrow>
     has_row pp_tenant_id u (la_profile_id x) (st_personas s1) \<Longrightarrow>
     row_steps u s s1 \<Longrightarrow> row_steps u s (s1\<lparr>st_learned_adaptations := AList.update k x T\<rparr>)"
  by (auto intro: rtranclp.rtrancl_into_rtrancl row_adaptation)

lemma chain_ara [row_chain]:
  "T = st_remote_agents s1 \<Longrightarrow> writes ra_id ra_tenant_id any_row ara_move u k x (st_remote_agents s1) \<Longrightarrow>
     row_steps u s s1 \<Longrightarrow> row_steps u s (s1\<lparr>st_remote_agents := AList.update k x T\<rparr>)"
  by (auto intro: rtranclp.rtrancl_into_rtrancl row_ara)

lemma chain_task [row_chain]:
  "T = st_tasks s1 \<Longrightarrow> writes tk_id tk_tenant_id task_new task_move u k x (st_tasks s1) \<Longrightarrow>
     (map_of (st_tasks s1) k = None \<Longrightarrow> map_of (st_leases s1) k = None) \<Longrightarrow>
     row_steps u s s1 \<Longrightarrow> row_steps u s (s1\<lparr>st_tasks := AList.update k x T\<rparr>)"
  by (auto intro: rtranclp.rtrancl_into_rtrancl row_task)

lemma chain_approval [row_chain]:
  "T = st_approvals s1 \<Longrightarrow> writes ap_id ap_tenant_id approval_new approval_move u k x (st_approvals s1) \<Longrightarrow>
     (\<And>i. ap_tool_invocation_id x = Some i \<Longrightarrow> has_row iv_tenant_id u i (st_tool_invocations s1)) \<Longrightarrow>
     (\<And>t. ap_task_id x = Some t \<Longrightarrow> has_row tk_tenant_id u t (st_tasks s1)) \<Longrightarrow>
     row_steps u s s1 \<Longrightarrow> row_steps u s (s1\<lparr>st_approvals := AList.update k x T\<rparr>)"
  by (auto intro: rtranclp.rtrancl_into_rtrancl row_approval)

lemma chain_artifact [row_chain]:
  "T = st_artifacts s1 \<Longrightarrow> writes af_id af_tenant_id any_row artifact_move u k x (st_artifacts s1) \<Longrightarrow>
     has_row tk_tenant_id u (af_task_id x) (st_tasks s1) \<Longrightarrow>
     row_steps u s s1 \<Longrightarrow> row_steps u s (s1\<lparr>st_artifacts := AList.update k x T\<rparr>)"
  by (auto intro: rtranclp.rtrancl_into_rtrancl row_artifact)

lemma chain_active_persona [row_chain]:
  "T = st_active_persona_ids s1 \<Longrightarrow> has_row pp_tenant_id u p (st_personas s1) \<Longrightarrow>
     row_steps u s s1 \<Longrightarrow> row_steps u s (s1\<lparr>st_active_persona_ids := AList.update u p T\<rparr>)"
  by (auto intro: rtranclp.rtrancl_into_rtrancl row_active_persona)

lemma chain_new_job [row_chain]:
  "T = st_jobs s1 \<Longrightarrow> jb_id j = k \<Longrightarrow> jb_tenant_id j = u \<Longrightarrow> map_of (st_jobs s1) k = None \<Longrightarrow>
     job_new j \<Longrightarrow> row_steps u s s1 \<Longrightarrow> row_steps u s (s1\<lparr>st_jobs := AList.update k j T\<rparr>)"
  by (auto intro: rtranclp.rtrancl_into_rtrancl row_new_job)

lemma chain_new_lease [row_chain]:
  "T = filter (\<lambda>(k', l'). ls_task_id l' \<noteq> ls_task_id l) (st_leases s1) \<Longrightarrow> ls_id l = k \<Longrightarrow>
     ls_tenant_id l = u \<Longrightarrow> map_of (st_leases s1) k = None \<Longrightarrow> map_of (st_tasks s1) k = None \<Longrightarrow>
     has_row tk_tenant_id u (ls_task_id l) (st_tasks s1) \<Longrightarrow> row_steps u s s1 \<Longrightarrow>
     row_steps u s (s1\<lparr>st_leases := AList.update k l T\<rparr>)"
  by (auto intro: rtranclp.rtrancl_into_rtrancl row_new_lease)

text \<open>The rows of a well-formed store sit at their own identifiers.\<close>

lemma ara_keyed: "store_ok s \<Longrightarrow> keyed ra_id (st_remote_agents s)"
  by (simp add: store_ok_def keys_ok_def)

lemma ara_key [row_keys]: "store_ok s \<Longrightarrow> map_of (st_remote_agents s) k = Some x \<Longrightarrow> ra_id x = k"
  by (rule keyed_mapof[OF ara_keyed])

lemma conversation_keyed: "store_ok s \<Longrightarrow> keyed cv_id (st_conversations s)"
  by (simp add: store_ok_def keys_ok_def)

lemma conversation_key [row_keys]: "store_ok s \<Longrightarrow> map_of (st_conversations s) k = Some x \<Longrightarrow> cv_id x = k"
  by (rule keyed_mapof[OF conversation_keyed])

lemma message_keyed: "store_ok s \<Longrightarrow> keyed ms_id (st_messages s)"
  by (simp add: store_ok_def keys_ok_def)

lemma message_key [row_keys]: "store_ok s \<Longrightarrow> map_of (st_messages s) k = Some x \<Longrightarrow> ms_id x = k"
  by (rule keyed_mapof[OF message_keyed])

lemma turn_keyed: "store_ok s \<Longrightarrow> keyed tn_id (st_turns s)"
  by (simp add: store_ok_def keys_ok_def)

lemma turn_key [row_keys]: "store_ok s \<Longrightarrow> map_of (st_turns s) k = Some x \<Longrightarrow> tn_id x = k"
  by (rule keyed_mapof[OF turn_keyed])

lemma invocation_keyed: "store_ok s \<Longrightarrow> keyed iv_id (st_tool_invocations s)"
  by (simp add: store_ok_def keys_ok_def)

lemma invocation_key [row_keys]: "store_ok s \<Longrightarrow> map_of (st_tool_invocations s) k = Some x \<Longrightarrow> iv_id x = k"
  by (rule keyed_mapof[OF invocation_keyed])

lemma memory_keyed: "store_ok s \<Longrightarrow> keyed mr_id (st_memories s)"
  by (simp add: store_ok_def keys_ok_def)

lemma memory_key [row_keys]: "store_ok s \<Longrightarrow> map_of (st_memories s) k = Some x \<Longrightarrow> mr_id x = k"
  by (rule keyed_mapof[OF memory_keyed])

lemma batch_keyed: "store_ok s \<Longrightarrow> keyed mb_id (st_migration_batches s)"
  by (simp add: store_ok_def keys_ok_def)

lemma batch_key [row_keys]: "store_ok s \<Longrightarrow> map_of (st_migration_batches s) k = Some x \<Longrightarrow> mb_id x = k"
  by (rule keyed_mapof[OF batch_keyed])

lemma persona_keyed: "store_ok s \<Longrightarrow> keyed pp_id (st_personas s)"
  by (simp add: store_ok_def keys_ok_def)

lemma persona_key [row_keys]: "store_ok s \<Longrightarrow> map_of (st_personas s) k = Some x \<Longrightarrow> pp_id x = k"
  by (rule keyed_mapof[OF persona_keyed])

lemma adaptation_keyed: "store_ok s \<Longrightarrow> keyed la_id (st_learned_adaptations s)"
  by (simp add: store_ok_def keys_ok_def)

lemma adaptation_key [row_keys]: "store_ok s \<Longrightarrow> map_of (st_learned_adaptations s) k = Some x \<Longrightarrow> la_id x = k"
  by (rule keyed_mapof[OF adaptation_keyed])

lemma task_keyed: "store_ok s \<Longrightarrow> keyed tk_id (st_tasks s)"
  by (simp add: store_ok_def keys_ok_def)

lemma task_key [row_keys]: "store_ok s \<Longrightarrow> map_of (st_tasks s) k = Some x \<Longrightarrow> tk_id x = k"
  by (rule keyed_mapof[OF task_keyed])

lemma job_keyed: "store_ok s \<Longrightarrow> keyed jb_id (st_jobs s)"
  by (simp add: store_ok_def keys_ok_def)

lemma job_key [row_keys]: "store_ok s \<Longrightarrow> map_of (st_jobs s) k = Some x \<Longrightarrow> jb_id x = k"
  by (rule keyed_mapof[OF job_keyed])

lemma approval_keyed: "store_ok s \<Longrightarrow> keyed ap_id (st_approvals s)"
  by (simp add: store_ok_def keys_ok_def)

lemma approval_key [row_keys]: "store_ok s \<Longrightarrow> map_of (st_approvals s) k = Some x \<Longrightarrow> ap_id x = k"
  by (rule keyed_mapof[OF approval_keyed])

lemma artifact_keyed: "store_ok s \<Longrightarrow> keyed af_id (st_artifacts s)"
  by (simp add: store_ok_def keys_ok_def)

lemma artifact_key [row_keys]: "store_ok s \<Longrightarrow> map_of (st_artifacts s) k = Some x \<Longrightarrow> af_id x = k"
  by (rule keyed_mapof[OF artifact_keyed])

lemma turn_conversation:
  "store_ok s \<Longrightarrow> map_of (st_turns s) k = Some t \<Longrightarrow>
     has_row cv_tenant_id (tn_tenant_id t) (tn_conversation_id t) (st_conversations s)"
  unfolding store_ok_def refs_ok_def by (blast dest: refersD)

lemma invocation_turn:
  "store_ok s \<Longrightarrow> map_of (st_tool_invocations s) k = Some i \<Longrightarrow>
     has_row tn_tenant_id (iv_tenant_id i) (iv_turn_id i) (st_turns s)"
  unfolding store_ok_def refs_ok_def by (blast dest: refersD)

lemma invocation_task:
  "store_ok s \<Longrightarrow> map_of (st_tool_invocations s) k = Some i \<Longrightarrow> iv_task_id i = Some t \<Longrightarrow>
     has_row tk_tenant_id (iv_tenant_id i) t (st_tasks s)"
  unfolding store_ok_def refs_ok_def by (blast dest: refersD)

lemma memory_batch:
  "store_ok s \<Longrightarrow> map_of (st_memories s) k = Some m \<Longrightarrow> mr_import_batch_id m = Some b \<Longrightarrow>
     has_row mb_tenant_id (mr_tenant_id m) b (st_migration_batches s)"
  unfolding store_ok_def refs_ok_def by (blast dest: refersD)

section \<open>Conversations and turns\<close>

lemma append_event_rows:
  "ev_tenant_id ev = u \<Longrightarrow> row_steps u s (snd (append_event ev s))"
  by (auto simp: append_event_def intro!: row_chain)

lemma create_conversation_rows:
  "map_of (st_conversations s) (cv_id c) = None \<Longrightarrow> ev_tenant_id ev = cv_tenant_id c \<Longrightarrow>
     row_steps (cv_tenant_id c) s (snd (create_conversation c ev s))"
  by (auto simp: create_conversation_def writes_def any_row_def intro!: row_chain)

lemma append_message_rows:
  assumes "store_ok s" and "map_of (st_messages s) (ms_id m) = None"
    and "\<And>ev. ev \<in> set evs \<Longrightarrow> ev_tenant_id ev = ms_tenant_id m"
  shows "row_steps (ms_tenant_id m) s (snd (append_message m evs s))"
  using assms conversation_key[OF assms(1)]
  by (auto simp: append_message_def writes_def any_row_def has_row_def conversation_move_def
      split: option.splits intro!: row_chain)

lemma create_turn_rows:
  assumes "store_ok s" and "map_of (st_messages s) (ms_id m) = None"
    and "map_of (st_turns s) (tn_id t) = None" and "turn_new t"
    and "map_of (st_jobs s) (jb_id j) = None" and "job_new j" and "jb_tenant_id j = tn_tenant_id t"
    and "\<And>ev. ev \<in> set evs \<Longrightarrow> ev_tenant_id ev = tn_tenant_id t"
  shows "row_steps (tn_tenant_id t) s (snd (create_turn m t evs j s))"
  using assms conversation_key[OF assms(1)]
  by (auto simp: create_turn_def writes_def any_row_def has_row_def conversation_move_def
      split: option.splits intro!: row_chain)

lemma active_turnE:
  assumes "active_turn now s tenant_id turn_id run_lease_id = Inr t"
  shows "map_of (st_turns s) turn_id = Some t" "tn_tenant_id t = tenant_id"
    "tn_state t = Turn_RUNNING" "tn_run_lease_id t = Some run_lease_id"
  using assms by (auto simp: active_turn_def split: option.splits if_splits)

text \<open>A move of a stored turn is a row step of its tenant.\<close>

lemma turn_write:
  assumes "store_ok s" and "map_of (st_turns s) k = Some t" and "turn_move t t'"
  shows "writes tn_id tn_tenant_id turn_new turn_move (tn_tenant_id t) k t' (st_turns s)"
    and "has_row cv_tenant_id (tn_tenant_id t) (tn_conversation_id t') (st_conversations s)"
  using assms turn_conversation[OF assms(1,2)] turn_key[OF assms(1,2)]
  by (auto simp: writes_def turn_move_def same_turn_def)

lemma claim_pending_turn_rows:
  assumes ok: "store_ok s"
  shows "row_steps tenant_id s (snd (claim_pending_turn e tenant_id run_lease_id x s))"
proof (cases "validate_run_lease_expiry (clk e 0) x = None \<and>
    find (claimable_turn (clk e 1) tenant_id) (sort_key tn_created_at (dict_values (st_turns s))) \<noteq> None")
  case False
  then show ?thesis by (auto simp: claim_pending_turn_def split: option.splits)
next
  case True
  then obtain t where v: "validate_run_lease_expiry (clk e 0) x = None"
    and f: "find (claimable_turn (clk e 1) tenant_id) (sort_key tn_created_at (dict_values (st_turns s))) = Some t"
    by auto
  note t = find_sorted_values[OF turn_keyed[OF ok] f]
  let ?t = "t\<lparr>tn_state := Turn_RUNNING, tn_run_lease_id := Some run_lease_id,
    tn_run_lease_expires_at := Some x, tn_updated_at := clk e 1\<rparr>"
  have "turn_move t ?t" using t by (auto simp: claimable_turn_def turn_move_def same_turn_def)
  with turn_write[OF ok, of "tn_id t" t ?t] t v f show ?thesis
    by (auto simp: claim_pending_turn_def Let_def claimable_turn_def intro!: row_chain)
qed

lemma claim_turn_rows:
  assumes ok: "store_ok s"
  shows "row_steps tenant_id s (snd (claim_turn e tenant_id turn_id run_lease_id x s))"
proof (cases "validate_run_lease_expiry (clk e 0) x = None \<and>
    (\<exists>t. scoped tn_tenant_id (st_turns s) tenant_id turn_id = Some t \<and> tn_state t = Turn_PENDING)")
  case False
  then show ?thesis by (auto simp: claim_turn_def split: option.splits)
next
  case True
  then obtain t where v: "validate_run_lease_expiry (clk e 0) x = None"
    and t: "map_of (st_turns s) turn_id = Some t" "tn_tenant_id t = tenant_id" "tn_state t = Turn_PENDING"
    by auto
  let ?t = "t\<lparr>tn_state := Turn_RUNNING, tn_run_lease_id := Some run_lease_id,
    tn_run_lease_expires_at := Some x, tn_updated_at := clk e 1\<rparr>"
  have "turn_move t ?t" using t by (auto simp: turn_move_def same_turn_def)
  with turn_write[OF ok t(1) this] turn_key[OF ok t(1)] t v show ?thesis
    by (auto simp: claim_turn_def Let_def scoped_def intro!: row_chain)
qed

lemma checkpoint_turn_rows:
  assumes ok: "store_ok s"
  shows "row_steps tenant_id s (snd (checkpoint_turn e tenant_id turn_id run_lease_id cp s))"
proof (cases "active_turn (clk e 0) s tenant_id turn_id run_lease_id")
  case (Inl err)
  then show ?thesis by (simp add: checkpoint_turn_def)
next
  case (Inr t)
  note t = active_turnE[OF Inr]
  let ?t = "t\<lparr>tn_checkpoint := cp, tn_updated_at := clk e 1\<rparr>"
  have "turn_move t ?t" by (auto simp: turn_move_def same_turn_def)
  with turn_write[OF ok t(1) this] t Inr show ?thesis
    by (auto simp: checkpoint_turn_def Let_def intro!: row_chain)
qed

lemma pause_turn_rows:
  assumes ok: "store_ok s"
  shows "row_steps tenant_id s (snd (pause_turn e tenant_id turn_id run_lease_id cp s))"
proof (cases "active_turn (clk e 0) s tenant_id turn_id run_lease_id")
  case (Inl err)
  then show ?thesis by (simp add: pause_turn_def)
next
  case (Inr t)
  note t = active_turnE[OF Inr]
  let ?t = "t\<lparr>tn_state := Turn_PAUSED, tn_checkpoint := cp, tn_run_lease_id := None,
    tn_run_lease_expires_at := None, tn_updated_at := clk e 1\<rparr>"
  have "turn_move t ?t" by (auto simp: turn_move_def same_turn_def)
  with turn_write[OF ok t(1) this] t Inr show ?thesis
    by (auto simp: pause_turn_def Let_def intro!: row_chain)
qed

lemma complete_turn_rows:
  assumes ok: "store_ok s" and fresh: "map_of (st_messages s) (ms_id m) = None"
  shows "row_steps tenant_id s (snd (complete_turn e tenant_id turn_id run_lease_id m s))"
proof (cases "active_turn (clk e 0) s tenant_id turn_id run_lease_id")
  case (Inl err)
  then show ?thesis by (simp add: complete_turn_def)
next
  case (Inr t)
  note t = active_turnE[OF Inr]
  let ?t = "t\<lparr>tn_state := Turn_COMPLETED, tn_run_lease_id := None,
    tn_run_lease_expires_at := None, tn_updated_at := clk e 1, tn_completed_at := Some (clk e 1)\<rparr>"
  have "turn_move t ?t" using t by (auto simp: turn_move_def same_turn_def)
  note w = turn_write[OF ok t(1) this]
  from turn_conversation[OF ok t(1)] t obtain c where
    c: "map_of (st_conversations s) (tn_conversation_id t) = Some c" "cv_tenant_id c = tenant_id"
    by (auto simp: has_row_def)
  show ?thesis
    using Inr t w c fresh conversation_key[OF ok c(1)]
    by (auto simp: complete_turn_def Let_def writes_def any_row_def has_row_def conversation_move_def
        intro!: row_chain)
qed

section \<open>Jobs\<close>

lemma enqueue_job_rows:
  assumes "map_of (st_jobs s) (jb_id j) = None" and "job_new j"
  shows "row_steps (jb_tenant_id j) s (snd (enqueue_job j s))"
  using assms by (auto simp: enqueue_job_def split: option.splits intro!: row_chain)

text \<open>A worker claims for whichever tenant the job belongs to.\<close>

definition claimed_tenant :: "env \<Rightarrow> store \<Rightarrow> uuid option" where
  "claimed_tenant e s =
     map_option jb_tenant_id (find (claimable_job (clk e 0)) (sort_key jb_created_at (dict_values (st_jobs s))))"

lemma claim_job_rows:
  assumes ok: "store_ok s" and u: "claimed_tenant e s \<in> {None, Some u}"
  shows "row_steps u s (snd (claim_job e lease_id x s))"
proof (cases "find (claimable_job (clk e 0)) (sort_key jb_created_at (dict_values (st_jobs s)))")
  case None
  then show ?thesis by (simp add: claim_job_def)
next
  case (Some j)
  note j = find_sorted_values[OF job_keyed[OF ok] Some]
  let ?j = "j\<lparr>jb_state := Job_RUNNING, jb_attempt_count := jb_attempt_count j + 1,
    jb_lease_id := Some lease_id, jb_lease_expires_at := Some x, jb_updated_at := clk e 0\<rparr>"
  have "job_claim j ?j" using j by (auto simp: claimable_job_def job_claim_def same_job_def)
  from row_claim_job[OF _ _ _ this, of s "jb_id j" u
      "\<lparr>at_id = gen e 0, at_tenant_id = jb_tenant_id j, at_job_id = jb_id j,
        at_attempt = jb_attempt_count ?j, at_started_at = clk e 1, at_finished_at = None, at_error = None\<rparr>"]
  show ?thesis using j u Some
    by (simp add: claim_job_def Let_def claimed_tenant_def r_into_rtranclp)
qed

lemma active_jobE:
  assumes "active_job s tenant_id job_id lease_id = Inr j"
  shows "map_of (st_jobs s) job_id = Some j" "jb_tenant_id j = tenant_id" "jb_state j = Job_RUNNING"
    "jb_lease_id j = Some lease_id"
  using assms by (auto simp: active_job_def split: option.splits if_splits)

text \<open>The last attempt of a running job exists.\<close>

lemma running_attempt:
  assumes "store_ok s" and "map_of (st_jobs s) k = Some j" and "jb_state j = Job_RUNNING"
  obtains atts where "update_last_attempt k f (st_job_attempts s) = Inr atts"
  using assms by (force simp: store_ok_def attempts_ok_def update_last_attempt_def)

lemma complete_job_rows:
  assumes ok: "store_ok s"
  shows "row_steps tenant_id s (snd (complete_job e tenant_id job_id lease_id s))"
proof (cases "active_job s tenant_id job_id lease_id")
  case (Inl err)
  then show ?thesis by (simp add: complete_job_def)
next
  case (Inr j)
  note j = active_jobE[OF Inr]
  obtain atts where a: "update_last_attempt job_id (\<lambda>a. a\<lparr>at_finished_at := Some (clk e 0)\<rparr>)
      (st_job_attempts s) = Inr atts"
    using running_attempt[OF ok j(1) j(3)] .
  let ?j = "j\<lparr>jb_state := Job_COMPLETED, jb_lease_id := None, jb_lease_expires_at := None,
    jb_completed_at := Some (clk e 0), jb_updated_at := clk e 0\<rparr>"
  have "job_end j ?j" using j by (auto simp: job_end_def same_job_def)
  from row_end_job[OF j(1) job_key[OF ok j(1)] j(2) this a] show ?thesis
    using Inr a by (simp add: complete_job_def Let_def r_into_rtranclp)
qed

lemma retry_job_rows:
  assumes ok: "store_ok s"
  shows "row_steps tenant_id s (snd (retry_job e tenant_id job_id lease_id err x s))"
proof (cases "active_job s tenant_id job_id lease_id")
  case (Inl err)
  then show ?thesis by (simp add: retry_job_def)
next
  case (Inr j)
  note j = active_jobE[OF Inr]
  obtain atts where a: "update_last_attempt job_id
      (\<lambda>a. a\<lparr>at_finished_at := Some (clk e 0), at_error := Some err\<rparr>) (st_job_attempts s) = Inr atts"
    using running_attempt[OF ok j(1) j(3)] .
  let ?st = "if jb_attempt_count j \<ge> jb_max_attempts j then Job_FAILED else Job_RETRY"
  let ?j = "j\<lparr>jb_state := ?st, jb_lease_id := None, jb_lease_expires_at := None,
    jb_last_error := Some err, jb_available_at := x,
    jb_completed_at := (if ?st = Job_FAILED then Some (clk e 0) else None), jb_updated_at := clk e 0\<rparr>"
  have "job_end j ?j" using j by (auto simp: job_end_def same_job_def)
  from row_end_job[OF j(1) job_key[OF ok j(1)] j(2) this a] show ?thesis
    using Inr a by (simp add: retry_job_def Let_def r_into_rtranclp)
qed

lemma requeue_job_rows:
  assumes ok: "store_ok s"
  shows "row_steps tenant_id s (snd (requeue_job e tenant_id job_id actor_id s))"
proof (cases "\<exists>j. scoped jb_tenant_id (st_jobs s) tenant_id job_id = Some j \<and> jb_state j = Job_FAILED")
  case False
  then show ?thesis by (auto simp: requeue_job_def split: option.splits)
next
  case True
  then obtain j where j: "map_of (st_jobs s) job_id = Some j" "jb_tenant_id j = tenant_id"
    "jb_state j = Job_FAILED" by auto
  let ?j = "j\<lparr>jb_state := Job_PENDING, jb_attempt_count := 0, jb_available_at := clk e 0,
    jb_lease_id := None, jb_lease_expires_at := None, jb_last_error := None, jb_completed_at := None,
    jb_updated_at := clk e 0\<rparr>"
  have "job_requeue j ?j" using j by (auto simp: job_requeue_def same_job_def)
  from row_requeue_job[OF j(1) job_key[OF ok j(1)] j(2) this]
  have "row_steps tenant_id s (s\<lparr>st_jobs := AList.update job_id ?j (st_jobs s)\<rparr>)" by blast
  then show ?thesis using j
    by (auto simp: requeue_job_def Let_def scoped_def intro!: row_chain)
qed

section \<open>Memories, personas and migrations\<close>

lemma upsert_memory_rows:
  assumes "map_of (st_memories s) (mr_id m) = None" and "mr_import_batch_id m = None"
    and "\<And>ev. ev \<in> set evs \<Longrightarrow> ev_tenant_id ev = mr_tenant_id m"
  shows "row_steps (mr_tenant_id m) s (snd (upsert_memory m evs s))"
  using assms by (auto simp: upsert_memory_def writes_def any_row_def split: option.splits intro!: row_chain)

text \<open>A move of a stored memory is a row step of its tenant.\<close>

lemma memory_write:
  assumes "store_ok s" and "map_of (st_memories s) k = Some m" and "memory_move m m'"
  shows "writes mr_id mr_tenant_id any_row memory_move (mr_tenant_id m) k m' (st_memories s)"
    and "mr_import_batch_id m' = Some b \<Longrightarrow> has_row mb_tenant_id (mr_tenant_id m) b (st_migration_batches s)"
  using assms memory_batch[OF assms(1,2)] memory_key[OF assms(1,2)]
  by (auto simp: writes_def memory_move_def)

lemma delete_memory_rows:
  assumes ok: "store_ok s"
  shows "row_steps tenant_id s (snd (delete_memory e tenant_id memory_id actor_id s))"
proof (cases "scoped mr_tenant_id (st_memories s) tenant_id memory_id")
  case None
  then show ?thesis by (simp add: delete_memory_def)
next
  case (Some m)
  then have m: "map_of (st_memories s) memory_id = Some m" "mr_tenant_id m = tenant_id" by auto
  have "memory_move m (m\<lparr>mr_state := Mem_DELETED, mr_deleted_at := Some (clk e 0), mr_updated_at := clk e 0\<rparr>)"
    by (simp add: memory_move_def)
  with memory_write[OF ok m(1) this] m Some show ?thesis
    by (auto simp: delete_memory_def Let_def scoped_def intro!: row_chain)
qed

lemma pin_memory_rows:
  assumes ok: "store_ok s"
  shows "row_steps tenant_id s (snd (pin_memory e tenant_id memory_id pinned actor_id s))"
proof (cases "scoped mr_tenant_id (st_memories s) tenant_id memory_id")
  case None
  then show ?thesis by (simp add: pin_memory_def)
next
  case (Some m)
  then have m: "map_of (st_memories s) memory_id = Some m" "mr_tenant_id m = tenant_id" by auto
  have "memory_move m (m\<lparr>mr_pinned := pinned, mr_updated_at := clk e 0\<rparr>)"
    by (simp add: memory_move_def)
  with memory_write[OF ok m(1) this] m Some show ?thesis
    by (auto simp: pin_memory_def Let_def scoped_def intro!: row_chain)
qed

text \<open>Several moves of memories, as a batch or a review writes them.\<close>

definition memory_moves :: "uuid \<Rightarrow> (uuid, memory_record) dict \<Rightarrow> memory_record list \<Rightarrow> bool" where
  "memory_moves u tbl ms \<longleftrightarrow> distinct (map mr_id ms) \<and>
     (\<forall>m \<in> set ms. \<exists>y. map_of tbl (mr_id m) = Some y \<and> mr_tenant_id y = u \<and> memory_move y m)"

lemma write_memories_simps:
  "write_memories [] tbl = tbl"
  "write_memories (m # ms) tbl = write_memories ms (AList.update (mr_id m) m tbl)"
  by (simp_all add: write_memories_def)

lemma write_memories_rows:
  "store_ok s \<Longrightarrow> memory_moves u (st_memories s) ms \<Longrightarrow>
     row_steps u s (s\<lparr>st_memories := write_memories ms (st_memories s)\<rparr>)"
proof (induction ms arbitrary: s)
  case Nil
  then show ?case by (simp add: write_memories_simps)
next
  case (Cons m ms)
  from Cons.prems obtain y where
    y: "map_of (st_memories s) (mr_id m) = Some y" "mr_tenant_id y = u" "memory_move y m"
    by (auto simp: memory_moves_def)
  let ?s = "s\<lparr>st_memories := AList.update (mr_id m) m (st_memories s)\<rparr>"
  from memory_write[OF Cons.prems(1) y(1,3)] y(2) have step: "row_steps u s ?s"
    by (auto intro: row_memory)
  with Cons.prems have "store_ok ?s" by (blast intro: row_steps_store_ok)
  moreover have "memory_moves u (st_memories ?s) ms"
    using Cons.prems(2) unfolding memory_moves_def by (auto simp: update_conv' image_iff)
  ultimately have "row_steps u ?s (?s\<lparr>st_memories := write_memories ms (st_memories ?s)\<rparr>)"
    by (rule Cons.IH)
  with step show ?case by (simp add: write_memories_simps)
qed

lemma chain_write_memories [row_chain]:
  "T = st_memories s1 \<Longrightarrow> store_ok s \<Longrightarrow> memory_moves u (st_memories s1) ms \<Longrightarrow> row_steps u s s1 \<Longrightarrow>
     row_steps u s (s1\<lparr>st_memories := write_memories ms T\<rparr>)"
  using row_steps_store_ok write_memories_rows[of s1 u ms] by (auto intro: rtranclp_trans)

lemma check_replacementE:
  assumes "check_replacement s tenant_id promote rid = Inr (Some r)"
  shows "map_of (st_memories s) (the rid) = Some r" "mr_tenant_id r = tenant_id"
    "mr_state r = Mem_PROMOTED"
  using assms by (auto simp: check_replacement_def split: option.splits if_splits)

lemma review_memory_rows:
  assumes ok: "store_ok s"
  shows "row_steps tenant_id s (snd (review_memory e tenant_id memory_id promote actor_id rid s))"
proof (cases "\<exists>m r. scoped mr_tenant_id (st_memories s) tenant_id memory_id = Some m \<and>
    mr_state m = Mem_CANDIDATE \<and> check_replacement s tenant_id promote rid = Inr r")
  case False
  then have "snd (review_memory e tenant_id memory_id promote actor_id rid s) = s"
    by (cases "scoped mr_tenant_id (st_memories s) tenant_id memory_id";
        cases "check_replacement s tenant_id promote rid") (simp_all add: review_memory_def del: scoped_Some_iff)
  then show ?thesis by simp
next
  case True
  then obtain m r where m: "map_of (st_memories s) memory_id = Some m" "mr_tenant_id m = tenant_id"
    "mr_state m = Mem_CANDIDATE" and r: "check_replacement s tenant_id promote rid = Inr r"
    by auto
  let ?m = "m\<lparr>mr_state := (if promote then Mem_PROMOTED else Mem_REJECTED), mr_confirmed := promote,
    mr_contradiction_of := rid, mr_reviewed_at := Some (clk e 0), mr_reviewed_by := Some actor_id,
    mr_updated_at := clk e 0\<rparr>"
  have mv: "memory_move m ?m" using m by (simp add: memory_move_def)
  show ?thesis
  proof (cases r)
    case None
    have "row_steps tenant_id s (s\<lparr>st_memories := AList.update memory_id ?m (st_memories s)\<rparr>)"
      using row_memory[OF memory_write[OF ok m(1) mv]] m(2) by auto
    with None m r show ?thesis
      by (cases promote) (simp_all add: review_memory_def Let_def scoped_def, (rule chain_event; auto)+)
  next
    case (Some x)
    note x = check_replacementE[OF r[unfolded Some]]
    let ?x = "x\<lparr>mr_state := Mem_DELETED, mr_deleted_at := Some (clk e 0), mr_updated_at := clk e 0\<rparr>"
    have "memory_moves tenant_id (st_memories s) [?m, ?x]"
      using m x mv memory_key[OF ok m(1)] memory_key[OF ok x(1)]
      by (auto simp: memory_moves_def memory_move_def)
    then have "row_steps tenant_id s
        (s\<lparr>st_memories := AList.update (mr_id x) ?x (AList.update memory_id ?m (st_memories s))\<rparr>)"
      using write_memories_rows[OF ok, of tenant_id "[?m, ?x]"] memory_key[OF ok m(1)]
      by (simp add: write_memories_simps)
    with Some m r show ?thesis
      by (cases promote) (simp_all add: review_memory_def Let_def scoped_def, (rule chain_event; auto)+)
  qed
qed

lemma create_persona_profile_rows:
  assumes "map_of (st_personas s) (pp_id p) = None"
  shows "row_steps (pp_tenant_id p) s (snd (create_persona_profile e p actor_id s))"
  using assms by (auto simp: create_persona_profile_def writes_def any_row_def has_row_def update_conv'
      intro!: row_chain)

lemma revert_persona_profile_rows:
  assumes ok: "store_ok s"
  shows "row_steps tenant_id s (snd (revert_persona_profile e tenant_id v actor_id s))"
  by (auto simp: revert_persona_profile_def has_row_def split: option.splits intro!: row_chain
      dest!: find_values[OF persona_keyed[OF ok]])

lemma create_learned_persona_adaptation_rows:
  assumes "map_of (st_learned_adaptations s) (la_id a) = None"
  shows "row_steps (la_tenant_id a) s (snd (create_learned_persona_adaptation a s))"
  using assms by (auto simp: create_learned_persona_adaptation_def writes_def any_row_def has_row_def
      split: option.splits intro!: row_chain)

lemma adaptation_profile:
  "store_ok s \<Longrightarrow> map_of (st_learned_adaptations s) k = Some a \<Longrightarrow>
     has_row pp_tenant_id (la_tenant_id a) (la_profile_id a) (st_personas s)"
  unfolding store_ok_def refs_ok_def by (blast dest: refersD)

lemma reverse_learned_persona_adaptation_rows:
  assumes ok: "store_ok s"
  shows "row_steps tenant_id s (snd (reverse_learned_persona_adaptation e tenant_id adaptation_id s))"
proof (cases "scoped la_tenant_id (st_learned_adaptations s) tenant_id adaptation_id")
  case None
  then show ?thesis by (simp add: reverse_learned_persona_adaptation_def)
next
  case (Some a)
  then have a: "map_of (st_learned_adaptations s) adaptation_id = Some a" "la_tenant_id a = tenant_id"
    by auto
  have "adaptation_move a (a\<lparr>la_state := Adapt_REVERSED, la_reversed_at := Some (clk e 0)\<rparr>)"
    if "la_state a \<noteq> Adapt_REVERSED"
    using that by (cases "la_state a") (auto simp: adaptation_move_def)
  with a adaptation_profile[OF ok a(1)] adaptation_key[OF ok a(1)] show ?thesis
    by (auto simp: reverse_learned_persona_adaptation_def Let_def scoped_def writes_def intro!: row_chain)
qed

text \<open>The imported memories a batch may be staged with.\<close>

definition staged_memories :: "store \<Rightarrow> migration_batch \<Rightarrow> memory_record list \<Rightarrow> bool" where
  "staged_memories s b ms \<longleftrightarrow> distinct (map mr_id ms) \<and>
     (\<forall>m \<in> set ms. map_of (st_memories s) (mr_id m) = None \<and> mr_tenant_id m = mb_tenant_id b \<and>
        mr_import_batch_id m = Some (mb_id b))"

lemma stage_memories_rows:
  "has_row mb_tenant_id (mb_tenant_id b) (mb_id b) (st_migration_batches s) \<Longrightarrow> staged_memories s b ms \<Longrightarrow>
     row_steps (mb_tenant_id b) s (snd (stage_memories e b mid actor_id n ms s))"
proof (induction ms arbitrary: n s)
  case Nil
  then show ?case by simp
next
  case (Cons m ms)
  from Cons.prems have tail: "staged_memories s b ms" by (simp add: staged_memories_def)
  let ?m = "m\<lparr>mr_source_message_id := mid\<rparr>"
  let ?s = "s\<lparr>st_memories := AList.update (mr_id ?m) ?m (st_memories s),
    st_events := st_events s @ [AuditEvent e n (mb_tenant_id b) MEMORY_CANDIDATE_CREATED Actor_USER
      (Some actor_id) None [(''memory_id'', JId (mr_id ?m)), (''import_batch_id'', JId (mb_id b))]]\<rparr>"
  have "row_steps (mb_tenant_id b) s ?s"
    using Cons.prems by (auto simp: staged_memories_def writes_def any_row_def intro!: row_chain)
  moreover have "staged_memories ?s b ms"
    using Cons.prems(2) by (auto simp: staged_memories_def update_conv' image_iff)
  then have "row_steps (mb_tenant_id b) ?s (snd (stage_memories e b mid actor_id (Suc n) ms ?s))"
    using Cons.prems(1) by (intro Cons.IH) simp_all
  ultimately show ?case
    using Cons.IH[OF Cons.prems(1) tail, of n] by (auto simp: Let_def split: option.splits)
qed

lemma stage_migration_batch_rows:
  assumes "map_of (st_conversations s) (gen e 0) = None" and "map_of (st_messages s) (gen e 1) = None"
    and "map_of (st_migration_batches s) (mb_id b) = None" and "batch_new b"
    and "staged_memories s b ms"
  shows "row_steps (mb_tenant_id b) s (snd (stage_migration_batch e b ms actor_id s))"
proof (cases "find (\<lambda>x. mb_tenant_id x = mb_tenant_id b \<and> mb_source_system x = mb_source_system b \<and>
    mb_source_database_fingerprint x = mb_source_database_fingerprint b)
    (dict_values (st_migration_batches s))")
  case (Some x)
  then show ?thesis by (simp add: stage_migration_batch_def)
next
  case None
  let ?c = "\<lparr>cv_id = gen e 0, cv_tenant_id = mb_tenant_id b, cv_user_id = actor_id,
    cv_title = ''Imported '' @ mb_source_system b @ '' migration'',
    cv_created_at = clk e 0, cv_updated_at = clk e 1\<rparr>"
  let ?m = "\<lparr>ms_id = gen e 1, ms_tenant_id = mb_tenant_id b, ms_conversation_id = gen e 0,
    ms_role = Role_USER, ms_content = ''Imported source provenance'', ms_created_at = clk e 2\<rparr>"
  let ?s = "s\<lparr>st_conversations := AList.update (gen e 0) ?c (st_conversations s),
    st_messages := AList.update (gen e 1) ?m (st_messages s),
    st_migration_batches := AList.update (mb_id b) b (st_migration_batches s)\<rparr>"
  let ?l = "stage_memories e b (gen e 1) actor_id 0 ms ?s"
  have 1: "row_steps (mb_tenant_id b) s ?s"
    using assms by (auto simp: writes_def any_row_def has_row_def update_conv' intro!: row_chain)
  have "row_steps (mb_tenant_id b) ?s (snd ?l)"
    using assms(5) by (intro stage_memories_rows) (auto simp: staged_memories_def has_row_def update_conv')
  from rtranclp_trans[OF 1 this] have "row_steps (mb_tenant_id b) s (snd ?l)" .
  with None show ?thesis
    by (cases ?l) (auto simp: stage_migration_batch_def intro!: row_chain)
qed

lemma batch_memory_tenant:
  "store_ok s \<Longrightarrow> map_of (st_memories s) k = Some m \<Longrightarrow> mr_import_batch_id m = Some b \<Longrightarrow>
     map_of (st_migration_batches s) b = Some x \<Longrightarrow> mr_tenant_id m = mb_tenant_id x"
  using memory_batch[of s k m b] by (auto simp: has_row_def)

lemma keyed_distinct_values:
  "keyed f tbl \<Longrightarrow> distinct (map f (dict_values tbl))"
proof -
  assume k: "keyed f tbl"
  then have "map (f \<circ> snd) tbl = map fst tbl" by (auto simp: keyed_def)
  with k show ?thesis unfolding keyed_def map_map by metis
qed

text \<open>A loop over some rows of a batch moves memories of the batch's tenant.\<close>

lemma memory_moves_filter:
  assumes ok: "store_ok s" and id: "\<And>m. mr_id (f m) = mr_id m"
    and mv: "\<And>m. map_of (st_memories s) (mr_id m) = Some m \<Longrightarrow> P m \<Longrightarrow> mr_tenant_id m = u \<and> memory_move m (f m)"
  shows "memory_moves u (st_memories s) (map f (filter P (dict_values (st_memories s))))"
proof -
  have "distinct (map mr_id (filter P (dict_values (st_memories s))))"
    using keyed_distinct_values[OF memory_keyed[OF ok]] by (rule distinct_map_filter)
  then have "distinct (map mr_id (map f (filter P (dict_values (st_memories s)))))"
    using id by (simp add: comp_def)
  moreover have "\<exists>y. map_of (st_memories s) (mr_id m) = Some y \<and> mr_tenant_id y = u \<and> memory_move y m"
    if "m \<in> set (map f (filter P (dict_values (st_memories s))))" for m
  proof -
    from that obtain x where x: "m = f x" "x \<in> set (dict_values (st_memories s))" "P x" by auto
    from x(2) keyed_values[OF memory_keyed[OF ok]] have "map_of (st_memories s) (mr_id x) = Some x" by blast
    with mv x id show ?thesis by auto
  qed
  ultimately show ?thesis by (simp add: memory_moves_def)
qed

lemma activate_migration_batch_rows:
  assumes ok: "store_ok s" and fresh: "map_of (st_personas s) (gen e 0) = None"
  shows "row_steps tenant_id s (snd (activate_migration_batch e tenant_id batch_id actor_id core s))"
proof (cases "snd (activate_migration_batch e tenant_id batch_id actor_id core s) = s")
  case True
  then show ?thesis by simp
next
  case False
  then obtain c b where core: "core = Some c"
    and sc: "scoped mb_tenant_id (st_migration_batches s) tenant_id batch_id = Some b"
    and st: "mb_state b = Batch_STAGED"
    and ex: "list_ex (\<lambda>m. mr_state m \<in> {Mem_CANDIDATE, Mem_PROMOTED})
      (filter (\<lambda>m. mr_tenant_id m = tenant_id \<and> mr_import_batch_id m = Some batch_id) (dict_values (st_memories s)))"
    unfolding activate_migration_batch_def Let_def
    by (auto split: option.splits if_splits simp del: list_ex_iff)
  let ?ms = "filter (\<lambda>m. mr_state m = Mem_CANDIDATE) (filter (\<lambda>m. mr_tenant_id m = tenant_id \<and>
    mr_import_batch_id m = Some batch_id) (dict_values (st_memories s)))"
  have "memory_moves tenant_id (st_memories s) (map (promote_imported (clk e 0) actor_id)
      (filter (\<lambda>m. mr_state m = Mem_CANDIDATE \<and> mr_tenant_id m = tenant_id \<and>
        mr_import_batch_id m = Some batch_id) (dict_values (st_memories s))))"
    using ok by (rule memory_moves_filter) (auto simp: promote_imported_def memory_move_def)
  then have "memory_moves tenant_id (st_memories s) (map (promote_imported (clk e 0) actor_id) ?ms)"
    by (simp add: conj_commute conj_left_commute)
  then have 1: "row_steps tenant_id s (s\<lparr>st_memories :=
      write_memories (map (promote_imported (clk e 0) actor_id) ?ms) (st_memories s)\<rparr>)"
    by (rule write_memories_rows[OF ok])
  from sc have b: "map_of (st_migration_batches s) batch_id = Some b" "mb_tenant_id b = tenant_id" by auto
  show ?thesis unfolding activate_migration_batch_def Let_def
    using 1 core sc st ex b batch_key[OF ok b(1)] fresh
    by (auto simp: writes_def any_row_def batch_move_def less_migration_batch_state_def has_row_def
        update_conv' simp del: list_ex_iff filter_filter scoped_Some_iff intro!: row_chain)
qed

lemma rollback_migration_batch_rows:
  assumes ok: "store_ok s"
  shows "row_steps tenant_id s (snd (rollback_migration_batch e tenant_id batch_id actor_id s))"
proof (cases "snd (rollback_migration_batch e tenant_id batch_id actor_id s) = s")
  case True
  then show ?thesis by simp
next
  case False
  then obtain b where sc: "scoped mb_tenant_id (st_migration_batches s) tenant_id batch_id = Some b"
    and st: "mb_state b \<noteq> Batch_ROLLED_BACK"
    unfolding rollback_migration_batch_def Let_def by (auto split: option.splits if_splits)
  from sc have b: "map_of (st_migration_batches s) batch_id = Some b" "mb_tenant_id b = tenant_id" by auto
  have "memory_moves tenant_id (st_memories s) (map (delete_imported (clk e 0))
      (filter (\<lambda>m. mr_import_batch_id m = Some batch_id \<and> mr_state m \<noteq> Mem_DELETED)
        (dict_values (st_memories s))))"
    using ok batch_memory_tenant[OF ok _ _ b(1)] b(2)
    by (intro memory_moves_filter) (auto simp: delete_imported_def memory_move_def)
  moreover have "batch_move b (b\<lparr>mb_state := Batch_ROLLED_BACK, mb_rolled_back_at := Some (clk e 0)\<rparr>)"
    using st by (cases "mb_state b") (auto simp: batch_move_def less_migration_batch_state_def)
  ultimately show ?thesis unfolding rollback_migration_batch_def Let_def
    using sc st b batch_key[OF ok b(1)] ok
    by (auto simp: writes_def simp del: scoped_Some_iff intro!: row_chain)
qed

end
