(* ===== verification/StoreTasks.thy ===== *)
theory StoreTasks
  imports StoreConversations Policy
begin

text \<open>
  Remote agents, tasks, task leases, tool invocations, approvals and artifacts of the in-memory
  store: registration and trust, leasing, the lease check every agent call passes, progress,
  completion with its approval gate and the resumption of the paused turn, delegation, approvals.
\<close>

section \<open>Remote agents\<close>

definition register_ara :: "remote_agent \<Rightarrow> audit_event \<Rightarrow> store \<Rightarrow> remote_agent result" where
  [store_ops]: "register_ara remote_agent event s =
     (let stored = (case scoped ra_tenant_id (st_remote_agents s) (ra_tenant_id remote_agent)
                           (ra_id remote_agent) of
                      None \<Rightarrow> remote_agent
                    | Some existing \<Rightarrow>
                        remote_agent\<lparr>ra_status := ra_status existing,
                          ra_trust_level := ra_trust_level existing\<rparr>)
      in (Inr stored,
          s\<lparr>st_remote_agents := AList.update (ra_id stored) stored (st_remote_agents s),
            st_events := st_events s @ [event]\<rparr>))"

definition list_remote_agents :: "env \<Rightarrow> uuid \<Rightarrow> store \<Rightarrow> remote_agent list" where
  "list_remote_agents e tenant_id s =
     map (\<lambda>a. if ra_status a = Ara_ACTIVE \<and> clk e 0 - ra_last_seen_at a > minutes 2
              then a\<lparr>ra_status := Ara_OFFLINE\<rparr> else a)
       (filter (\<lambda>a. ra_tenant_id a = tenant_id) (dict_values (st_remote_agents s)))"

definition set_remote_agent_trust ::
  "env \<Rightarrow> uuid \<Rightarrow> uuid \<Rightarrow> int \<Rightarrow> uuid \<Rightarrow> store \<Rightarrow> remote_agent result" where
  [store_ops]: "set_remote_agent_trust e tenant_id ara_id trust_level actor_id s =
     (case scoped ra_tenant_id (st_remote_agents s) tenant_id ara_id of
        None \<Rightarrow> (Inl (LifecycleNotFoundError ''ARA not found''), s)
      | Some ara \<Rightarrow>
          if ra_status ara = Ara_REVOKED
          then (Inl (LifecycleConflictError ''revoked ARA cannot regain trust''), s)
          else
            let updated = ara\<lparr>ra_trust_level := trust_level\<rparr>
            in (Inr updated,
                s\<lparr>st_remote_agents := AList.update ara_id updated (st_remote_agents s),
                  st_events := st_events s @
                    [AuditEvent e 0 tenant_id ARA_TRUST_UPDATED Actor_USER (Some actor_id) None
                       [(''ara_id'', JId ara_id), (''trust_level'', JInt trust_level)]]\<rparr>))"

text \<open>
  The loop of \<^verbatim>\<open>revoke_remote_agent\<close> over a copy of the leases. The expired copy is stored under
  the lease's \<^verbatim>\<open>task_id\<close>, although the dictionary is keyed by the lease's \<^verbatim>\<open>id\<close>. The \<open>n\<close>-th lease it
  touches reads the clock at point \<open>n\<close>.
\<close>

fun expire_leases ::
  "env \<Rightarrow> uuid \<Rightarrow> uuid \<Rightarrow> nat \<Rightarrow> lease list \<Rightarrow> (uuid, lease) dict \<Rightarrow> (uuid, lease) dict" where
  "expire_leases e tenant_id ara_id n [] tbl = tbl"
| "expire_leases e tenant_id ara_id n (l # ls) tbl =
     (if ls_tenant_id l = tenant_id \<and> ls_ara_id l = ara_id
      then expire_leases e tenant_id ara_id (Suc n) ls
             (AList.update (ls_task_id l) (l\<lparr>ls_expires_at := clk e n\<rparr>) tbl)
      else expire_leases e tenant_id ara_id n ls tbl)"

definition revoke_remote_agent :: "env \<Rightarrow> uuid \<Rightarrow> uuid \<Rightarrow> uuid \<Rightarrow> store \<Rightarrow> remote_agent result" where
  [store_ops]: "revoke_remote_agent e tenant_id ara_id actor_id s =
     (case scoped ra_tenant_id (st_remote_agents s) tenant_id ara_id of
        None \<Rightarrow> (Inl (LifecycleNotFoundError ''ARA not found''), s)
      | Some ara \<Rightarrow>
          let revoked = ara\<lparr>ra_status := Ara_REVOKED, ra_trust_level := 0\<rparr>
          in (Inr revoked,
              s\<lparr>st_remote_agents := AList.update ara_id revoked (st_remote_agents s),
                st_leases := expire_leases e tenant_id ara_id 0 (dict_values (st_leases s)) (st_leases s),
                st_events := st_events s @
                  [AuditEvent e 0 tenant_id ARA_REVOKED Actor_USER (Some actor_id) None
                     [(''ara_id'', JId ara_id)]]\<rparr>))"

section \<open>Tasks and leases\<close>

definition add_task :: "task \<Rightarrow> audit_event \<Rightarrow> store \<Rightarrow> task result" where
  [store_ops]: "add_task task event s =
     (Inr task, s\<lparr>st_tasks := AList.update (tk_id task) task (st_tasks s),
                  st_events := st_events s @ [event]\<rparr>)"

definition get_task :: "uuid \<Rightarrow> uuid \<Rightarrow> store \<Rightarrow> task option" where
  "get_task tenant_id task_id s = scoped tk_tenant_id (st_tasks s) tenant_id task_id"

definition list_tasks :: "uuid \<Rightarrow> store \<Rightarrow> task list" where
  "list_tasks tenant_id s = filter (\<lambda>t. tk_tenant_id t = tenant_id) (dict_values (st_tasks s))"

definition request_task_cancellation :: "env \<Rightarrow> uuid \<Rightarrow> uuid \<Rightarrow> uuid \<Rightarrow> store \<Rightarrow> task result" where
  [store_ops]: "request_task_cancellation e tenant_id task_id actor_id s =
     (case scoped tk_tenant_id (st_tasks s) tenant_id task_id of
        None \<Rightarrow> (Inl (LifecycleNotFoundError ''task not found''), s)
      | Some task \<Rightarrow>
          if tk_state task \<noteq> Task_LEASED
          then (Inl (LifecycleConflictError ''task is not leased''), s)
          else
            let requested = task\<lparr>tk_state := Task_CANCELLING\<rparr>
            in (Inr requested,
                s\<lparr>st_tasks := AList.update task_id requested (st_tasks s),
                  st_events := st_events s @
                    [AuditEvent e 0 tenant_id TASK_CANCELLED Actor_USER (Some actor_id) (Some task_id)
                       [(''requested'', JBool True)]]\<rparr>))"

text \<open>Whether the loop of \<^verbatim>\<open>lease_task\<close> stops at a task.\<close>

definition has_capabilities :: "remote_agent \<Rightarrow> task \<Rightarrow> bool" where
  "has_capabilities ara task \<longleftrightarrow>
     list_all (\<lambda>c. c \<in> set (ra_capabilities ara)) (tk_required_capabilities task)"

definition leasable :: "datetime \<Rightarrow> uuid \<Rightarrow> uuid \<Rightarrow> remote_agent \<Rightarrow> uuid set \<Rightarrow> task \<Rightarrow> bool" where
  "leasable now tenant_id ara_id remote_agent expired_task_ids task \<longleftrightarrow>
     tk_tenant_id task = tenant_id \<and>
     (tk_state task = Task_PENDING \<or> tk_id task \<in> expired_task_ids) \<and>
     (case tk_target_ara_id task of
        None \<Rightarrow> True
      | Some target \<Rightarrow> target = ara_id \<and> ra_status remote_agent = Ara_ACTIVE \<and>
          ra_trust_level remote_agent > 0 \<and>
          now - ra_last_seen_at remote_agent \<le> minutes 2) \<and>
     has_capabilities remote_agent task"

definition expired_task_ids :: "datetime \<Rightarrow> store \<Rightarrow> uuid set" where
  "expired_task_ids now s =
     set (map ls_task_id (filter (\<lambda>l. ls_expires_at l \<le> now) (dict_values (st_leases s))))"

definition lease_task ::
  "env \<Rightarrow> uuid \<Rightarrow> uuid \<Rightarrow> datetime \<Rightarrow> store \<Rightarrow> (task \<times> lease) option result" where
  [store_ops]: "lease_task e tenant_id ara_id expires_at s =
     (case scoped ra_tenant_id (st_remote_agents s) tenant_id ara_id of
        None \<Rightarrow> (Inr None, s)
      | Some remote_agent \<Rightarrow>
          let now = clk e 0;
              s1 = s\<lparr>st_remote_agents := AList.update ara_id (remote_agent\<lparr>ra_last_seen_at := now\<rparr>)
                       (st_remote_agents s)\<rparr>
          in (case find (leasable now tenant_id ara_id remote_agent (expired_task_ids now s1))
                     (sort_key tk_created_at (dict_values (st_tasks s1))) of
                None \<Rightarrow> (Inr None, s1)
              | Some task \<Rightarrow>
                  (case mk_lease (gen e 0) tenant_id (tk_id task) ara_id (clk e 1) (Aware expires_at) of
                     Inl err \<Rightarrow> (Inl err, s1)
                   | Inr lease \<Rightarrow>
                       let leased_task = task\<lparr>tk_state := Task_LEASED\<rparr>
                       in (Inr (Some (leased_task, lease)),
                           s1\<lparr>st_tasks := AList.update (tk_id task) leased_task (st_tasks s1),
                              st_leases := AList.update (ls_id lease) lease
                                (filter (\<lambda>(k, l). ls_task_id l \<noteq> tk_id task) (st_leases s1)),
                              st_events := st_events s1 @
                                [AuditEvent e 0 tenant_id TASK_LEASED Actor_ARA (Some ara_id)
                                   (Some (tk_id task))
                                   [(''lease_id'', JId (ls_id lease)),
                                    (''expires_at'', JTime expires_at)]]\<rparr>))))"

definition active_lease ::
  "datetime \<Rightarrow> store \<Rightarrow> uuid \<Rightarrow> uuid \<Rightarrow> uuid \<Rightarrow> uuid \<Rightarrow> error + (task \<times> lease)" where
  "active_lease now s tenant_id ara_id task_id lease_id =
     (case (scoped tk_tenant_id (st_tasks s) tenant_id task_id, map_of (st_leases s) lease_id) of
        (Some task, Some lease) \<Rightarrow>
          if ls_tenant_id lease \<noteq> tenant_id \<or> ls_ara_id lease \<noteq> ara_id \<or> ls_task_id lease \<noteq> task_id
          then Inl (LifecycleNotFoundError ''task or lease not found'')
          else if tk_state task \<notin> {Task_LEASED, Task_CANCELLING}
          then Inl (LifecycleConflictError ''task is not leased'')
          else if ls_expires_at lease \<le> now
          then Inl (LifecycleConflictError ''lease has expired'')
          else Inr (task, lease)
      | _ \<Rightarrow> Inl (LifecycleNotFoundError ''task or lease not found''))"

text \<open>\<^verbatim>\<open>heartbeat\<close>: the agent's \<^verbatim>\<open>last_seen_at\<close> is written before the lease is looked at.\<close>

definition heartbeat ::
  "env \<Rightarrow> uuid \<Rightarrow> uuid \<Rightarrow> uuid option \<Rightarrow> uuid option \<Rightarrow> store \<Rightarrow> task option result" where
  [store_ops]: "heartbeat e tenant_id ara_id task_id lease_id s =
     (case scoped ra_tenant_id (st_remote_agents s) tenant_id ara_id of
        None \<Rightarrow> (Inl (LifecycleNotFoundError ''ARA not found''), s)
      | Some ara \<Rightarrow>
          let s1 = s\<lparr>st_remote_agents :=
                AList.update ara_id (ara\<lparr>ra_last_seen_at := clk e 0\<rparr>) (st_remote_agents s)\<rparr>;
              beat = (\<lambda>task. s1\<lparr>st_events := st_events s1 @
                [AuditEvent e 0 tenant_id ARA_HEARTBEAT Actor_ARA (Some ara_id)
                   (map_option tk_id task)
                   [(''lease_id'', case lease_id of None \<Rightarrow> JNull | Some l \<Rightarrow> JId l)]]\<rparr>)
          in (case (task_id, lease_id) of
                (None, None) \<Rightarrow> (Inr None, beat None)
              | (Some tid, Some lid) \<Rightarrow>
                  (case active_lease (clk e 1) s1 tenant_id ara_id tid lid of
                     Inl err \<Rightarrow> (Inl err, s1)
                   | Inr (task, _) \<Rightarrow>
                       if tk_state task \<notin> {Task_LEASED, Task_CANCELLING}
                       then (Inl (LifecycleConflictError ''task is not active''), s1)
                       else (Inr (Some task), beat (Some task)))
              | _ \<Rightarrow> (Inl (LifecycleConflictError ''task and lease are required together''), s1)))"

definition record_progress ::
  "env \<Rightarrow> uuid \<Rightarrow> uuid \<Rightarrow> uuid \<Rightarrow> uuid \<Rightarrow> string \<Rightarrow> int option \<Rightarrow> store \<Rightarrow> unit result" where
  [store_ops]: "record_progress e tenant_id ara_id task_id lease_id message progress_percent s =
     (case active_lease (clk e 0) s tenant_id ara_id task_id lease_id of
        Inl err \<Rightarrow> (Inl err, s)
      | Inr _ \<Rightarrow>
          (Inr (), s\<lparr>st_events := st_events s @
             [AuditEvent e 0 tenant_id ARA_PROGRESS Actor_ARA (Some ara_id) (Some task_id)
                [(''message'', JStr message),
                 (''progress_percent'', case progress_percent of None \<Rightarrow> JNull | Some p \<Rightarrow> JInt p)]]\<rparr>))"

definition renew_lease ::
  "env \<Rightarrow> uuid \<Rightarrow> uuid \<Rightarrow> uuid \<Rightarrow> uuid \<Rightarrow> datetime \<Rightarrow> store \<Rightarrow> lease result" where
  [store_ops]: "renew_lease e tenant_id ara_id task_id lease_id expires_at s =
     (case active_lease (clk e 0) s tenant_id ara_id task_id lease_id of
        Inl err \<Rightarrow> (Inl err, s)
      | Inr (_, lease) \<Rightarrow>
          let renewed = lease\<lparr>ls_expires_at := expires_at\<rparr>
          in (Inr renewed,
              s\<lparr>st_leases := AList.update lease_id renewed (st_leases s),
                st_events := st_events s @
                  [AuditEvent e 0 tenant_id LEASE_RENEWED Actor_ARA (Some ara_id) (Some task_id)
                     [(''lease_id'', JId lease_id), (''expires_at'', JTime expires_at)]]\<rparr>))"

section \<open>Finishing a task\<close>

definition terminal_invocation :: "tool_invocation_state \<Rightarrow> bool" where
  "terminal_invocation st \<longleftrightarrow> st \<in> {Inv_COMPLETED, Inv_FAILED, Inv_DENIED}"

text \<open>The granted approvals of a task: its own, then those of its tool invocations.\<close>

definition granted_approvals :: "store \<Rightarrow> uuid \<Rightarrow> uuid \<Rightarrow> approval list" where
  "granted_approvals s tenant_id task_id =
     filter (\<lambda>a. ap_task_id a = Some task_id \<and> ap_state a = Appr_GRANTED)
       (dict_values (st_approvals s)) @
     concat (map (\<lambda>inv. filter (\<lambda>a. ap_tool_invocation_id a = Some (iv_id inv) \<and>
                                    ap_state a = Appr_GRANTED) (dict_values (st_approvals s)))
       (filter (\<lambda>inv. iv_tenant_id inv = tenant_id \<and> iv_task_id inv = Some task_id)
         (dict_values (st_tool_invocations s))))"

text \<open>The loop over the required capabilities: the reason of the first one that is not allowed.\<close>

fun approval_gate :: "capability list \<Rightarrow> approval list \<Rightarrow> capability list \<Rightarrow> string option" where
  "approval_gate required approvals [] = None"
| "approval_gate required approvals (c # cs) =
     (let approval_state = map_option ap_state (find (\<lambda>a. ap_capability a = c) approvals);
          decision = evaluate_capability c required approval_state
      in if \<not> allowed decision then Some (reason decision)
         else approval_gate required approvals cs)"

text \<open>
  The invocation of the finished task is closed, and its turn goes back to pending once every
  invocation of the turn that was sent to an agent is terminal.
\<close>

definition close_invocation ::
  "env \<Rightarrow> task_state \<Rightarrow> tool_invocation \<Rightarrow> store \<Rightarrow> error option \<times> store" where
  "close_invocation e state invocation s =
     (let closed = invocation\<lparr>
            iv_state := (if state = Task_COMPLETED then Inv_COMPLETED else Inv_FAILED),
            iv_updated_at := clk e 2, iv_completed_at := Some (clk e 3)\<rparr>;
          s1 = s\<lparr>st_tool_invocations :=
                AList.update (iv_id invocation) closed (st_tool_invocations s)\<rparr>
      in (case map_of (st_turns s1) (iv_turn_id invocation) of
            None \<Rightarrow> (Some KeyError, s1)
          | Some turn \<Rightarrow>
              let siblings = filter (\<lambda>i. iv_turn_id i = tn_id turn \<and> iv_target i = Target_ARA)
                    (dict_values (st_tool_invocations s1))
              in if siblings \<noteq> [] \<and> list_all (\<lambda>i. terminal_invocation (iv_state i)) siblings
                 then (None, s1\<lparr>st_turns := AList.update (tn_id turn)
                        (turn\<lparr>tn_state := Turn_PENDING, tn_updated_at := clk e 4\<rparr>) (st_turns s1)\<rparr>)
                 else (None, s1)))"

fun task_event_type :: "task_state \<Rightarrow> event_type" where
  "task_event_type Task_COMPLETED = TASK_COMPLETED"
| "task_event_type Task_FAILED = TASK_FAILED"
| "task_event_type _ = TASK_CANCELLED"

definition artifact_events :: "env \<Rightarrow> uuid \<Rightarrow> uuid \<Rightarrow> uuid \<Rightarrow> artifact list \<Rightarrow> audit_event list" where
  "artifact_events e tenant_id ara_id task_id artifacts =
     map (\<lambda>(n, a). AuditEvent e n tenant_id ARTIFACT_PRODUCED Actor_ARA (Some ara_id) (Some task_id)
            [(''artifact_id'', JId (af_id a)), (''object_key'', JStr (af_object_key a))])
       (enumerate 1 artifacts)"

definition finish_task ::
  "env \<Rightarrow> uuid \<Rightarrow> uuid \<Rightarrow> uuid \<Rightarrow> uuid \<Rightarrow> task_state \<Rightarrow> string \<Rightarrow> artifact list \<Rightarrow> store \<Rightarrow> task result" where
  [store_ops]: "finish_task e tenant_id ara_id task_id lease_id state detail artifacts s =
     (if state \<notin> {Task_COMPLETED, Task_FAILED, Task_CANCELLED}
      then (Inl (LifecycleConflictError ''invalid terminal task state''), s)
      else case active_lease (clk e 0) s tenant_id ara_id task_id lease_id of
        Inl err \<Rightarrow> (Inl err, s)
      | Inr (task, _) \<Rightarrow>
          (case (if state = Task_COMPLETED
                 then approval_gate (tk_required_capabilities task)
                        (granted_approvals s tenant_id task_id) (tk_required_capabilities task)
                 else None) of
             Some why \<Rightarrow> (Inl (LifecycleConflictError why), s)
           | None \<Rightarrow>
               if \<not> list_all (\<lambda>a. af_tenant_id a = tenant_id \<and> af_task_id a = task_id) artifacts
               then (Inl (LifecycleConflictError ''artifact ownership mismatch''), s)
               else
                 let finished = task\<lparr>tk_state := state, tk_result := Some detail,
                       tk_completed_at := Some (clk e 1), tk_completed_by_ara_id := Some ara_id\<rparr>;
                     s1 = s\<lparr>st_tasks := AList.update task_id finished (st_tasks s)\<rparr>;
                     (failed, s2) =
                       (case find (\<lambda>i. iv_task_id i = Some task_id)
                               (dict_values (st_tool_invocations s1)) of
                          None \<Rightarrow> (None, s1)
                        | Some invocation \<Rightarrow> close_invocation e state invocation s1)
                 in (case failed of
                       Some err \<Rightarrow> (Inl err, s2)
                     | None \<Rightarrow>
                         (Inr finished,
                          s2\<lparr>st_artifacts := fold (\<lambda>a. AList.update (af_id a) a) artifacts (st_artifacts s2),
                             st_events := st_events s2 @
                               [AuditEvent e 0 tenant_id (task_event_type state) Actor_ARA (Some ara_id)
                                  (Some task_id) [(''detail'', JStr detail)]] @
                               artifact_events e tenant_id ara_id task_id artifacts\<rparr>))))"

end
