(* ===== verification/StoreApprovals.thy ===== *)
theory StoreApprovals
  imports StoreTasks
begin

text \<open>
  Tool invocations, delegation of planned tasks, approvals and artifacts of the in-memory store.
\<close>

section \<open>Tool invocations\<close>

definition create_tool_invocation ::
  "env \<Rightarrow> tool_invocation \<Rightarrow> store \<Rightarrow> tool_invocation result" where
  [store_ops]: "create_tool_invocation e invocation s =
     (case find (\<lambda>i. iv_turn_id i = iv_turn_id invocation \<and>
                     iv_tool_call_id i = iv_tool_call_id invocation)
             (dict_values (st_tool_invocations s)) of
        Some existing \<Rightarrow> (Inr existing, s)
      | None \<Rightarrow>
          (case scoped tn_tenant_id (st_turns s) (iv_tenant_id invocation) (iv_turn_id invocation) of
             None \<Rightarrow> (Inl (LifecycleNotFoundError ''turn not found''), s)
           | Some _ \<Rightarrow>
               (Inr invocation,
                s\<lparr>st_tool_invocations :=
                    AList.update (iv_id invocation) invocation (st_tool_invocations s),
                  st_events := st_events s @
                    [AuditEvent e 0 (iv_tenant_id invocation) TOOL_INVOCATION_REQUESTED
                       Actor_COORDINATOR None None [(''invocation_id'', JId (iv_id invocation))]]\<rparr>)))"

definition get_tool_invocation :: "uuid \<Rightarrow> uuid \<Rightarrow> string \<Rightarrow> store \<Rightarrow> tool_invocation option" where
  "get_tool_invocation tenant_id turn_id tool_call_id s =
     find (\<lambda>i. iv_tenant_id i = tenant_id \<and> iv_turn_id i = turn_id \<and>
               iv_tool_call_id i = tool_call_id) (dict_values (st_tool_invocations s))"

definition finish_tool_invocation ::
  "env \<Rightarrow> uuid \<Rightarrow> uuid \<Rightarrow> tool_invocation_state \<Rightarrow> store \<Rightarrow> tool_invocation result" where
  [store_ops]: "finish_tool_invocation e tenant_id invocation_id state s =
     (case scoped iv_tenant_id (st_tool_invocations s) tenant_id invocation_id of
        None \<Rightarrow> (Inl (LifecycleNotFoundError ''tool invocation not found''), s)
      | Some invocation \<Rightarrow>
          if terminal_invocation (iv_state invocation)
          then (if iv_state invocation = state then (Inr invocation, s)
                else (Inl (LifecycleConflictError ''tool invocation is already finished''), s))
          else
            let completed = invocation\<lparr>iv_state := state, iv_updated_at := clk e 0,
                  iv_completed_at := Some (clk e 1)\<rparr>
            in (Inr completed,
                s\<lparr>st_tool_invocations :=
                    AList.update invocation_id completed (st_tool_invocations s),
                  st_events := st_events s @
                    [AuditEvent e 0 tenant_id
                       (if state = Inv_COMPLETED then TOOL_INVOCATION_COMPLETED
                        else TOOL_INVOCATION_FAILED)
                       Actor_COORDINATOR None None [(''invocation_id'', JId invocation_id)]]\<rparr>))"

definition complete_tool_invocation :: "env \<Rightarrow> uuid \<Rightarrow> uuid \<Rightarrow> store \<Rightarrow> tool_invocation result" where
  "complete_tool_invocation e tenant_id invocation_id s =
     finish_tool_invocation e tenant_id invocation_id Inv_COMPLETED s"

definition fail_tool_invocation :: "env \<Rightarrow> uuid \<Rightarrow> uuid \<Rightarrow> store \<Rightarrow> tool_invocation result" where
  "fail_tool_invocation e tenant_id invocation_id s =
     finish_tool_invocation e tenant_id invocation_id Inv_FAILED s"

section \<open>Delegation\<close>

text \<open>
  \<^verbatim>\<open>_eligible_aras\<close>: active, trusted, recently seen agents of the tenant with all the required
  capabilities and no unexpired lease, the most trusted first and by identifier among equals.
\<close>

definition eligible_aras :: "datetime \<Rightarrow> uuid \<Rightarrow> task \<Rightarrow> store \<Rightarrow> remote_agent list" where
  "eligible_aras now tenant_id task s =
     (let busy = set (map ls_ara_id (filter (\<lambda>l. ls_expires_at l > now) (dict_values (st_leases s))))
      in sort_key (\<lambda>a. (- ra_trust_level a, ra_id a))
           (filter (\<lambda>a. ra_tenant_id a = tenant_id \<and> ra_status a = Ara_ACTIVE \<and>
                        ra_trust_level a > 0 \<and> now - ra_last_seen_at a \<le> minutes 2 \<and>
                        ra_id a \<notin> busy \<and> has_capabilities a task)
             (dict_values (st_remote_agents s))))"

text \<open>The first loop: one agent per task, none twice. Task \<open>i\<close> reads the clock at point \<open>i + 1\<close>.\<close>

fun assign_aras ::
  "env \<Rightarrow> uuid \<Rightarrow> store \<Rightarrow> nat \<Rightarrow> uuid set \<Rightarrow> task list \<Rightarrow> error + task list" where
  "assign_aras e tenant_id s i selected [] = Inr []"
| "assign_aras e tenant_id s i selected (task # tasks) =
     (case filter (\<lambda>a. ra_id a \<notin> selected) (eligible_aras (clk e i) tenant_id task s) of
        [] \<Rightarrow> Inl (LifecycleConflictError ''no eligible trusted ARA for planned task'')
      | ara # _ \<Rightarrow>
          (case assign_aras e tenant_id s (Suc i) (insert (ra_id ara) selected) tasks of
             Inl err \<Rightarrow> Inl err
           | Inr assigned \<Rightarrow> Inr (task\<lparr>tk_target_ara_id := Some (ra_id ara)\<rparr> # assigned)))"

text \<open>The second loop: an ownership mismatch stops it and keeps what was written before.\<close>

fun store_delegations ::
  "env \<Rightarrow> uuid \<Rightarrow> uuid \<Rightarrow> nat \<Rightarrow> (task \<times> tool_invocation) list \<Rightarrow> store \<Rightarrow> error option \<times> store" where
  "store_delegations e tenant_id turn_id n [] s = (None, s)"
| "store_delegations e tenant_id turn_id n ((task, invocation) # rest) s =
     (if iv_task_id invocation \<noteq> Some (tk_id task) \<or> iv_turn_id invocation \<noteq> turn_id
      then (Some (LifecycleConflictError ''delegation invocation ownership mismatch''), s)
      else store_delegations e tenant_id turn_id (n + 2) rest
        (s\<lparr>st_tasks := AList.update (tk_id task) task (st_tasks s),
           st_tool_invocations :=
             AList.update (iv_id invocation) invocation (st_tool_invocations s),
           st_events := st_events s @
             [AuditEvent e n tenant_id TASK_CREATED Actor_COORDINATOR None (Some (tk_id task))
                [(''turn_id'', JId turn_id),
                 (''target_ara_id'', case tk_target_ara_id task of None \<Rightarrow> JStr ''None''
                                     | Some a \<Rightarrow> JId a)],
              AuditEvent e (n + 1) tenant_id TOOL_INVOCATION_REQUESTED Actor_COORDINATOR None None
                [(''invocation_id'', JId (iv_id invocation))]]\<rparr>))"

definition create_delegated_tasks ::
  "env \<Rightarrow> uuid \<Rightarrow> uuid \<Rightarrow> uuid \<Rightarrow> task list \<Rightarrow> tool_invocation list \<Rightarrow> (string, json) dict \<Rightarrow> store \<Rightarrow>
   task list result" where
  [store_ops]: "create_delegated_tasks e tenant_id turn_id run_lease_id tasks invocations checkpoint s =
     (if length tasks \<noteq> length invocations \<or> tasks = []
      then (Inl (LifecycleConflictError ''delegation tasks and invocations must match''), s)
      else case active_turn (clk e 0) s tenant_id turn_id run_lease_id of
        Inl err \<Rightarrow> (Inl err, s)
      | Inr _ \<Rightarrow>
          (case assign_aras e tenant_id s 1 {} tasks of
             Inl err \<Rightarrow> (Inl err, s)
           | Inr assigned \<Rightarrow>
               (case store_delegations e tenant_id turn_id 0 (zip assigned invocations) s of
                  (Some err, s1) \<Rightarrow> (Inl err, s1)
                | (None, s1) \<Rightarrow>
                    (case map_of (st_turns s1) turn_id of
                       None \<Rightarrow> (Inl KeyError, s1)
                     | Some turn \<Rightarrow>
                         (Inr assigned,
                          s1\<lparr>st_turns := AList.update turn_id
                               (turn\<lparr>tn_state := Turn_PAUSED, tn_checkpoint := checkpoint,
                                  tn_run_lease_id := None, tn_run_lease_expires_at := None,
                                  tn_updated_at := clk e (Suc (length tasks))\<rparr>) (st_turns s1),
                             st_events := st_events s1 @
                               [AuditEvent e (2 * length tasks) tenant_id CONVERSATION_TURN_PAUSED
                                  Actor_COORDINATOR None None [(''turn_id'', JId turn_id)]]\<rparr>)))))"

section \<open>Approvals\<close>

definition create_coordinator_approval :: "env \<Rightarrow> approval \<Rightarrow> store \<Rightarrow> approval result" where
  [store_ops]: "create_coordinator_approval e approval s =
     (case (ap_requestor_type approval, ap_tool_invocation_id approval) of
        (Actor_COORDINATOR, Some invocation_id) \<Rightarrow>
          (case scoped iv_tenant_id (st_tool_invocations s) (ap_tenant_id approval) invocation_id of
             None \<Rightarrow> (Inl (LifecycleNotFoundError ''tool invocation not found''), s)
           | Some invocation \<Rightarrow>
               if iv_state invocation \<noteq> Inv_PENDING
               then (Inl (LifecycleConflictError ''tool invocation cannot await approval''), s)
               else (case map_of (st_turns s) (iv_turn_id invocation) of
                       None \<Rightarrow> (Inl KeyError, s)
                     | Some turn \<Rightarrow>
                         (Inr approval,
                          s\<lparr>st_approvals := AList.update (ap_id approval) approval (st_approvals s),
                            st_tool_invocations := AList.update (iv_id invocation)
                              (invocation\<lparr>iv_state := Inv_AWAITING_APPROVAL, iv_updated_at := clk e 0\<rparr>)
                              (st_tool_invocations s),
                            st_turns := AList.update (tn_id turn)
                              (turn\<lparr>tn_state := Turn_PAUSED, tn_run_lease_id := None,
                                 tn_run_lease_expires_at := None, tn_updated_at := clk e 1\<rparr>)
                              (st_turns s),
                            st_events := st_events s @
                              [AuditEvent e 0 (ap_tenant_id approval) APPROVAL_REQUESTED
                                 Actor_COORDINATOR None None
                                 [(''approval_id'', JId (ap_id approval))]]\<rparr>)))
      | _ \<Rightarrow> (Inl (LifecycleConflictError ''coordinator approval must reference a tool invocation''), s))"

definition request_approval ::
  "env \<Rightarrow> uuid \<Rightarrow> uuid \<Rightarrow> uuid \<Rightarrow> uuid \<Rightarrow> approval \<Rightarrow> store \<Rightarrow> approval result" where
  [store_ops]: "request_approval e tenant_id ara_id task_id lease_id approval s =
     (case active_lease (clk e 0) s tenant_id ara_id task_id lease_id of
        Inl err \<Rightarrow> (Inl err, s)
      | Inr (task, _) \<Rightarrow>
          if ap_tenant_id approval \<noteq> tenant_id \<or> ap_task_id approval \<noteq> Some (tk_id task) \<or>
             ap_requested_by approval \<noteq> Some ara_id \<or> ap_requestor_type approval \<noteq> Actor_ARA
          then (Inl (LifecycleConflictError ''approval ownership mismatch''), s)
          else if ap_capability approval \<notin> set (tk_required_capabilities task)
          then (Inl (LifecycleConflictError ''capability is not part of the task''), s)
          else (Inr approval,
            s\<lparr>st_approvals := AList.update (ap_id approval) approval (st_approvals s),
              st_events := st_events s @
                [AuditEvent e 0 tenant_id APPROVAL_REQUESTED Actor_ARA (Some ara_id) (Some task_id)
                   [(''approval_id'', JId (ap_id approval)), (''reason'', JStr (ap_reason approval))]]\<rparr>))"

text \<open>
  The part of \<^verbatim>\<open>decide_approval\<close> for an approval of a tool invocation: a grant returns the invocation
  to pending, a denial closes it, both return the turn to pending.
\<close>

definition decide_invocation ::
  "env \<Rightarrow> uuid \<Rightarrow> approval_state \<Rightarrow> uuid \<Rightarrow> uuid \<Rightarrow> store \<Rightarrow> error option \<times> store" where
  "decide_invocation e tenant_id state actor_id invocation_id s =
     (case map_of (st_tool_invocations s) invocation_id of
        None \<Rightarrow> (Some KeyError, s)
      | Some invocation \<Rightarrow>
          let invocation_state = (if state = Appr_GRANTED then Inv_PENDING else Inv_DENIED);
              s1 = s\<lparr>st_tool_invocations := AList.update (iv_id invocation)
                     (invocation\<lparr>iv_state := invocation_state, iv_updated_at := clk e 1,
                        iv_completed_at :=
                          (if invocation_state = Inv_DENIED then Some (clk e 2) else None)\<rparr>)
                     (st_tool_invocations s)\<rparr>
          in (case map_of (st_turns s1) (iv_turn_id invocation) of
                None \<Rightarrow> (Some KeyError, s1)
              | Some turn \<Rightarrow>
                  let s2 = s1\<lparr>st_turns := AList.update (tn_id turn)
                        (turn\<lparr>tn_state := Turn_PENDING, tn_updated_at := clk e 3\<rparr>) (st_turns s1)\<rparr>
                  in (None,
                      if state = Appr_DENIED
                      then s2\<lparr>st_events := st_events s2 @
                             [AuditEvent e 0 tenant_id TOOL_INVOCATION_DENIED Actor_USER (Some actor_id)
                                None [(''invocation_id'', JId (iv_id invocation))]]\<rparr>
                      else s2)))"

definition decide_approval ::
  "env \<Rightarrow> uuid \<Rightarrow> uuid \<Rightarrow> approval_state \<Rightarrow> uuid \<Rightarrow> store \<Rightarrow> approval result" where
  [store_ops]: "decide_approval e tenant_id approval_id state actor_id s =
     (if state \<notin> {Appr_GRANTED, Appr_DENIED}
      then (Inl (LifecycleConflictError ''invalid approval decision''), s)
      else case scoped ap_tenant_id (st_approvals s) tenant_id approval_id of
        None \<Rightarrow> (Inl (LifecycleNotFoundError ''approval not found''), s)
      | Some approval \<Rightarrow>
          if ap_state approval = state then (Inr approval, s)
          else if ap_state approval \<noteq> Appr_PENDING
          then (Inl (LifecycleConflictError ''approval is already decided''), s)
          else
            let decided = approval\<lparr>ap_state := state, ap_decided_at := Some (clk e 0),
                  ap_decided_by := Some actor_id\<rparr>;
                s1 = s\<lparr>st_approvals := AList.update approval_id decided (st_approvals s)\<rparr>;
                (failed, s2) = (case ap_tool_invocation_id approval of
                  None \<Rightarrow> (None, s1)
                | Some invocation_id \<Rightarrow>
                    decide_invocation e tenant_id state actor_id invocation_id s1)
            in (case failed of
                  Some err \<Rightarrow> (Inl err, s2)
                | None \<Rightarrow>
                    (Inr decided,
                     s2\<lparr>st_events := st_events s2 @
                       [AuditEvent e 1 tenant_id
                          (if state = Appr_GRANTED then APPROVAL_GRANTED else APPROVAL_DENIED)
                          Actor_USER (Some actor_id) (ap_task_id approval)
                          [(''approval_id'', JId approval_id)]]\<rparr>)))"

definition list_approvals :: "uuid \<Rightarrow> store \<Rightarrow> approval list" where
  "list_approvals tenant_id s =
     filter (\<lambda>a. ap_tenant_id a = tenant_id) (dict_values (st_approvals s))"

section \<open>Artifacts\<close>

definition get_artifact :: "uuid \<Rightarrow> uuid \<Rightarrow> store \<Rightarrow> artifact option" where
  "get_artifact tenant_id artifact_id s = scoped af_tenant_id (st_artifacts s) tenant_id artifact_id"

definition list_artifacts :: "uuid \<Rightarrow> store \<Rightarrow> artifact list" where
  "list_artifacts tenant_id s =
     filter (\<lambda>a. af_tenant_id a = tenant_id \<and> af_deleted_at a = None) (dict_values (st_artifacts s))"

definition delete_artifact ::
  "env \<Rightarrow> uuid \<Rightarrow> uuid \<Rightarrow> uuid \<Rightarrow> datetime \<Rightarrow> store \<Rightarrow> artifact result" where
  [store_ops]: "delete_artifact e tenant_id artifact_id actor_id retention_until s =
     (case scoped af_tenant_id (st_artifacts s) tenant_id artifact_id of
        None \<Rightarrow> (Inl (LifecycleNotFoundError ''artifact not found''), s)
      | Some artifact \<Rightarrow>
          if af_deleted_at artifact \<noteq> None
          then (Inl (LifecycleNotFoundError ''artifact not found''), s)
          else
            let deleted = artifact\<lparr>af_deleted_at := Some (clk e 0),
                  af_retention_until := Some retention_until\<rparr>
            in (Inr deleted,
                s\<lparr>st_artifacts := AList.update artifact_id deleted (st_artifacts s),
                  st_events := st_events s @
                    [AuditEvent e 0 tenant_id ARTIFACT_DELETED Actor_USER (Some actor_id)
                       (Some (af_task_id artifact))
                       [(''artifact_id'', JId artifact_id),
                        (''retention_until'', JTime retention_until)]]\<rparr>))"

end
