(* ===== verification/TaskRefinement.thy ===== *)
theory TaskRefinement
  imports StoreRefinement StoreApprovals
begin

text \<open>
  The operations on remote agents, tasks, leases, tool invocations, approvals and artifacts refine the
  abstract specification of the store.
\<close>

section \<open>Remote agents and tasks\<close>

lemma ara_write:
  assumes "store_ok s" and "map_of (st_remote_agents s) k = Some a" and "ara_move a a'"
  shows "writes ra_id ra_tenant_id any_row ara_move (ra_tenant_id a) k a' (st_remote_agents s)"
  using assms ara_key[OF assms(1,2)] by (auto simp: writes_def ara_move_def)

lemma register_ara_rows:
  assumes "map_of (st_remote_agents s) (ra_id a) = None \<or>
      (\<exists>b. map_of (st_remote_agents s) (ra_id a) = Some b \<and> ra_tenant_id b = ra_tenant_id a)"
    and "ev_tenant_id ev = ra_tenant_id a" and ok: "store_ok s"
  shows "row_steps (ra_tenant_id a) s (snd (register_ara a ev s))"
  using assms(1)
proof
  assume "map_of (st_remote_agents s) (ra_id a) = None"
  with assms(2) show ?thesis
    by (auto simp: register_ara_def scoped_def writes_def any_row_def intro!: row_chain)
next
  assume "\<exists>b. map_of (st_remote_agents s) (ra_id a) = Some b \<and> ra_tenant_id b = ra_tenant_id a"
  then obtain b where b: "map_of (st_remote_agents s) (ra_id a) = Some b" "ra_tenant_id b = ra_tenant_id a"
    by blast
  then have "ara_move b (a\<lparr>ra_status := ra_status b, ra_trust_level := ra_trust_level b\<rparr>)"
    using ara_key[OF ok b(1)] by (auto simp: ara_move_def)
  with ara_write[OF ok b(1) this] b assms(2) show ?thesis
    by (auto simp: register_ara_def scoped_def Let_def intro!: row_chain)
qed

lemma set_remote_agent_trust_rows:
  assumes ok: "store_ok s"
  shows "row_steps tenant_id s (snd (set_remote_agent_trust e tenant_id ara_id lvl actor_id s))"
proof (cases "scoped ra_tenant_id (st_remote_agents s) tenant_id ara_id")
  case None
  then show ?thesis by (simp add: set_remote_agent_trust_def)
next
  case (Some a)
  then have a: "map_of (st_remote_agents s) ara_id = Some a" "ra_tenant_id a = tenant_id" by auto
  show ?thesis
  proof (cases "ra_status a = Ara_REVOKED")
    case True
    with Some show ?thesis by (auto simp: set_remote_agent_trust_def simp del: scoped_Some_iff)
  next
    case False
    then have "ara_move a (a\<lparr>ra_trust_level := lvl\<rparr>)" by (simp add: ara_move_def)
    with ara_write[OF ok a(1) this] a False show ?thesis
      by (auto simp: set_remote_agent_trust_def Let_def scoped_def intro!: row_chain)
  qed
qed

lemma stored_lease_ok:
  assumes "store_ok s" and "l \<in> set (dict_values (st_leases s))"
  shows "has_row tk_tenant_id (ls_tenant_id l) (ls_task_id l) (st_tasks s)"
proof -
  from assms(1) have lok: "leases_ok s" by (simp add: store_ok_def)
  from assms(2) obtain k where "(k, l) \<in> set (st_leases s)" by auto
  with lok have "map_of (st_leases s) k = Some l" by (simp add: leases_ok_def)
  with lok show ?thesis unfolding leases_ok_def lease_ok_def by blast
qed

lemma expire_leases_rows:
  "(\<And>l. l \<in> set ls \<Longrightarrow> has_row tk_tenant_id (ls_tenant_id l) (ls_task_id l) (st_tasks s)) \<Longrightarrow>
     row_steps u s (s\<lparr>st_leases := expire_leases e u ara_id n ls (st_leases s)\<rparr>)"
proof (induction ls arbitrary: n s)
  case Nil
  then show ?case by simp
next
  case (Cons l ls)
  let ?s = "s\<lparr>st_leases := AList.update (ls_task_id l) (l\<lparr>ls_expires_at := clk e n\<rparr>) (st_leases s)\<rparr>"
  have step: "row_step u s ?s" if "ls_tenant_id l = u"
    using Cons.prems that by (auto intro!: row_expire_lease)
  have "row_steps u ?s (?s\<lparr>st_leases := expire_leases e u ara_id (Suc n) ls (st_leases ?s)\<rparr>)"
    using Cons.prems by (intro Cons.IH) simp
  moreover have "row_steps u s (s\<lparr>st_leases := expire_leases e u ara_id n ls (st_leases s)\<rparr>)"
    using Cons.prems by (intro Cons.IH) simp
  ultimately show ?case using step by (auto intro: converse_rtranclp_into_rtranclp)
qed

lemma revoke_remote_agent_rows:
  assumes ok: "store_ok s"
  shows "row_steps tenant_id s (snd (revoke_remote_agent e tenant_id ara_id actor_id s))"
proof (cases "scoped ra_tenant_id (st_remote_agents s) tenant_id ara_id")
  case None
  then show ?thesis by (simp add: revoke_remote_agent_def)
next
  case (Some a)
  then have a: "map_of (st_remote_agents s) ara_id = Some a" "ra_tenant_id a = tenant_id" by auto
  let ?a = "a\<lparr>ra_status := Ara_REVOKED, ra_trust_level := 0\<rparr>"
  let ?s = "s\<lparr>st_remote_agents := AList.update ara_id ?a (st_remote_agents s)\<rparr>"
  have "ara_move a ?a" by (simp add: ara_move_def)
  with ara_write[OF ok a(1) this] a(2) have 1: "row_steps tenant_id s ?s" by (auto intro: row_ara)
  have "row_steps tenant_id ?s (?s\<lparr>st_leases :=
      expire_leases e tenant_id ara_id 0 (dict_values (st_leases s)) (st_leases ?s)\<rparr>)"
    using stored_lease_ok[OF ok] by (intro expire_leases_rows) simp
  from rtranclp_trans[OF 1 this] show ?thesis using a
    by (auto simp: revoke_remote_agent_def Let_def scoped_def intro!: chain_event)
qed

lemma task_write:
  assumes "store_ok s" and "map_of (st_tasks s) k = Some t" and "task_move t t'"
  shows "writes tk_id tk_tenant_id task_new task_move (tk_tenant_id t) k t' (st_tasks s)"
  using assms task_key[OF assms(1,2)] by (auto simp: writes_def task_move_def same_task_def)

lemma add_task_rows:
  assumes "map_of (st_tasks s) (tk_id t) = None" and "map_of (st_leases s) (tk_id t) = None"
    and "task_new t" and "ev_tenant_id ev = tk_tenant_id t"
  shows "row_steps (tk_tenant_id t) s (snd (add_task t ev s))"
  using assms by (auto simp: add_task_def writes_def intro!: row_chain)

lemma request_task_cancellation_rows:
  assumes ok: "store_ok s"
  shows "row_steps tenant_id s (snd (request_task_cancellation e tenant_id task_id actor_id s))"
proof (cases "\<exists>t. scoped tk_tenant_id (st_tasks s) tenant_id task_id = Some t \<and> tk_state t = Task_LEASED")
  case False
  then show ?thesis by (auto simp: request_task_cancellation_def split: option.splits)
next
  case True
  then obtain t where t: "map_of (st_tasks s) task_id = Some t" "tk_tenant_id t = tenant_id"
    "tk_state t = Task_LEASED" by auto
  then have "task_move t (t\<lparr>tk_state := Task_CANCELLING\<rparr>)" by (simp add: task_move_def same_task_def)
  with task_write[OF ok t(1) this] t show ?thesis
    by (auto simp: request_task_cancellation_def Let_def scoped_def intro!: row_chain)
qed

lemma lease_task_rows:
  assumes ok: "store_ok s" and fresh: "map_of (st_leases s) (gen e 0) = None" "map_of (st_tasks s) (gen e 0) = None"
  shows "row_steps tenant_id s (snd (lease_task e tenant_id ara_id x s))"
proof (cases "scoped ra_tenant_id (st_remote_agents s) tenant_id ara_id")
  case None
  then show ?thesis by (simp add: lease_task_def)
next
  case (Some a)
  then have a: "map_of (st_remote_agents s) ara_id = Some a" "ra_tenant_id a = tenant_id" by auto
  let ?s = "s\<lparr>st_remote_agents := AList.update ara_id (a\<lparr>ra_last_seen_at := clk e 0\<rparr>) (st_remote_agents s)\<rparr>"
  let ?find = "find (leasable (clk e 0) tenant_id ara_id a (expired_task_ids (clk e 0) ?s))
    (sort_key tk_created_at (dict_values (st_tasks s)))"
  have "ara_move a (a\<lparr>ra_last_seen_at := clk e 0\<rparr>)" by (simp add: ara_move_def)
  with ara_write[OF ok a(1) this] a(2) have 1: "row_steps tenant_id s ?s" by (auto intro: row_ara)
  show ?thesis
  proof (cases ?find)
    case None
    with 1 Some show ?thesis by (simp add: lease_task_def Let_def del: scoped_Some_iff)
  next
    case (Some t)
    note f = find_sorted_values[OF task_keyed[OF ok] Some]
    then have t: "map_of (st_tasks s) (tk_id t) = Some t" "tk_tenant_id t = tenant_id"
      by (auto simp: leasable_def)
    show ?thesis
    proof (cases "mk_lease (gen e 0) tenant_id (tk_id t) ara_id (clk e 1) (Aware x)")
      case (Inl err)
      with 1 a Some show ?thesis by (simp add: lease_task_def Let_def scoped_def)
    next
      case (Inr l)
      then have l: "ls_id l = gen e 0" "ls_tenant_id l = tenant_id" "ls_task_id l = tk_id t"
        by (auto simp: mk_lease_def split: if_splits)
      have "task_move t (t\<lparr>tk_state := Task_LEASED\<rparr>)" by (simp add: task_move_def same_task_def)
      with task_write[OF ok t(1) this] t(2)
      have "row_step tenant_id ?s (?s\<lparr>st_tasks := AList.update (tk_id t) (t\<lparr>tk_state := Task_LEASED\<rparr>) (st_tasks ?s)\<rparr>)"
        using t(1) by (intro row_task) auto
      from rtranclp.rtrancl_into_rtrancl[OF 1 this] show ?thesis
        using Inr l a Some fresh t
        by (auto simp: lease_task_def Let_def scoped_def has_row_def update_conv' intro!: chain_event chain_new_lease)
    qed
  qed
qed

lemma active_leaseE:
  assumes "active_lease now s tenant_id ara_id task_id lease_id = Inr (t, l)"
  shows "map_of (st_tasks s) task_id = Some t" "tk_tenant_id t = tenant_id"
    "map_of (st_leases s) lease_id = Some l" "ls_tenant_id l = tenant_id" "ls_ara_id l = ara_id"
    "ls_task_id l = task_id" "tk_state t \<in> {Task_LEASED, Task_CANCELLING}" "now < ls_expires_at l"
  using assms by (auto simp: active_lease_def split: option.splits if_splits)

lemma heartbeat_rows:
  assumes ok: "store_ok s"
  shows "row_steps tenant_id s (snd (heartbeat e tenant_id ara_id task_id lease_id s))"
proof (cases "scoped ra_tenant_id (st_remote_agents s) tenant_id ara_id")
  case None
  then show ?thesis by (simp add: heartbeat_def)
next
  case (Some a)
  then have a: "map_of (st_remote_agents s) ara_id = Some a" "ra_tenant_id a = tenant_id" by auto
  let ?s = "s\<lparr>st_remote_agents := AList.update ara_id (a\<lparr>ra_last_seen_at := clk e 0\<rparr>) (st_remote_agents s)\<rparr>"
  have "ara_move a (a\<lparr>ra_last_seen_at := clk e 0\<rparr>)" by (simp add: ara_move_def)
  with ara_write[OF ok a(1) this] a(2) have "row_steps tenant_id s ?s" by (auto intro: row_ara)
  with Some show ?thesis
    by (auto simp: heartbeat_def Let_def simp del: scoped_Some_iff split: option.splits sum.splits
        intro!: chain_event)
qed

lemma record_progress_rows:
  "row_steps tenant_id s (snd (record_progress e tenant_id ara_id task_id lease_id msg pct s))"
  by (auto simp: record_progress_def split: sum.splits intro!: row_chain)

lemma renew_lease_rows:
  "row_steps tenant_id s (snd (renew_lease e tenant_id ara_id task_id lease_id x s))"
proof (cases "active_lease (clk e 0) s tenant_id ara_id task_id lease_id")
  case (Inl err)
  then show ?thesis by (simp add: renew_lease_def)
next
  case (Inr p)
  obtain t l where p: "p = (t, l)" by (cases p)
  note l = active_leaseE[OF Inr[unfolded p]]
  from row_renew_lease[OF l(3) l(4), of x]
  have "row_steps tenant_id s (s\<lparr>st_leases := AList.update lease_id (l\<lparr>ls_expires_at := x\<rparr>) (st_leases s)\<rparr>)"
    by blast
  then show ?thesis using Inr p
    by (auto simp: renew_lease_def Let_def intro!: chain_event)
qed

lemma invocation_write:
  assumes "store_ok s" and "map_of (st_tool_invocations s) k = Some i" and "invocation_move i i'"
  shows "writes iv_id iv_tenant_id any_row invocation_move (iv_tenant_id i) k i' (st_tool_invocations s)"
    and "has_row tn_tenant_id (iv_tenant_id i) (iv_turn_id i') (st_turns s)"
    and "iv_task_id i' = Some t \<Longrightarrow> has_row tk_tenant_id (iv_tenant_id i) t (st_tasks s)"
  using assms invocation_turn[OF assms(1,2)] invocation_key[OF assms(1,2)]
    invocation_task[OF assms(1,2)]
  by (auto simp: writes_def invocation_move_def)

lemma invocation_move_updates [simp, intro]:
  "invocation_move i (i\<lparr>iv_state := st, iv_updated_at := t\<rparr>)"
  "invocation_move i (i\<lparr>iv_state := st, iv_updated_at := t, iv_completed_at := c\<rparr>)"
proof -
  show "invocation_move i (i\<lparr>iv_state := st, iv_updated_at := t\<rparr>)"
    unfolding invocation_move_def
    by (rule exI[of _ st], rule exI[of _ t], rule exI[of _ "iv_completed_at i"]) simp
  show "invocation_move i (i\<lparr>iv_state := st, iv_updated_at := t, iv_completed_at := c\<rparr>)"
    unfolding invocation_move_def by blast
qed

text \<open>The turn of a stored invocation returns to pending.\<close>

lemma turn_pending_step:
  assumes "store_ok s" and "map_of (st_turns s) k = Some t"
  shows "row_steps (tn_tenant_id t) s
    (s\<lparr>st_turns := AList.update (tn_id t) (t\<lparr>tn_state := Turn_PENDING, tn_updated_at := x\<rparr>) (st_turns s)\<rparr>)"
proof -
  have "turn_move t (t\<lparr>tn_state := Turn_PENDING, tn_updated_at := x\<rparr>)"
    by (simp add: turn_move_def same_turn_def)
  with turn_write[OF assms this] turn_key[OF assms] show ?thesis by (auto intro!: row_chain)
qed

lemma invocation_turn_row:
  assumes "store_ok s" and "map_of (st_tool_invocations s) k = Some i"
  obtains t where "map_of (st_turns s) (iv_turn_id i) = Some t" "tn_tenant_id t = iv_tenant_id i"
  using invocation_turn[OF assms] by (auto simp: has_row_def)

lemma close_invocation_rows:
  assumes ok: "store_ok s" and i: "map_of (st_tool_invocations s) (iv_id i) = Some i"
  shows "row_steps (iv_tenant_id i) s (snd (close_invocation e st i s))"
    and "fst (close_invocation e st i s) = None"
proof -
  let ?i = "i\<lparr>iv_state := (if st = Task_COMPLETED then Inv_COMPLETED else Inv_FAILED),
    iv_updated_at := clk e 2, iv_completed_at := Some (clk e 3)\<rparr>"
  let ?s = "s\<lparr>st_tool_invocations := AList.update (iv_id i) ?i (st_tool_invocations s)\<rparr>"
  have "invocation_move i ?i" by blast
  from invocation_write[OF ok i this] have 1: "row_steps (iv_tenant_id i) s ?s"
    by (auto intro!: row_chain)
  then have "store_ok ?s" using ok by (rule row_steps_store_ok)
  moreover obtain t where t: "map_of (st_turns s) (iv_turn_id i) = Some t" "tn_tenant_id t = iv_tenant_id i"
    using invocation_turn_row[OF ok i] .
  ultimately have "row_steps (iv_tenant_id i) ?s
      (?s\<lparr>st_turns := AList.update (tn_id t) (t\<lparr>tn_state := Turn_PENDING, tn_updated_at := clk e 4\<rparr>) (st_turns ?s)\<rparr>)"
    using turn_pending_step[of ?s "iv_turn_id i" t] by simp
  from rtranclp_trans[OF 1 this] 1 t
  show "row_steps (iv_tenant_id i) s (snd (close_invocation e st i s))"
    and "fst (close_invocation e st i s) = None"
    by (auto simp: close_invocation_def Let_def)
qed

lemma artifact_task:
  "store_ok s \<Longrightarrow> map_of (st_artifacts s) k = Some f \<Longrightarrow>
     has_row tk_tenant_id (af_tenant_id f) (af_task_id f) (st_tasks s)"
  unfolding store_ok_def refs_ok_def by (blast dest: refersD)

text \<open>The new artifacts of a finished task.\<close>

definition new_artifacts :: "store \<Rightarrow> artifact list \<Rightarrow> bool" where
  "new_artifacts s fs \<longleftrightarrow> distinct (map af_id fs) \<and> (\<forall>f \<in> set fs. map_of (st_artifacts s) (af_id f) = None)"

lemma store_artifacts_rows:
  "new_artifacts s fs \<Longrightarrow> (\<And>f. f \<in> set fs \<Longrightarrow> af_tenant_id f = u \<and> af_task_id f = k) \<Longrightarrow>
     has_row tk_tenant_id u k (st_tasks s) \<Longrightarrow>
     row_steps u s (s\<lparr>st_artifacts := fold (\<lambda>a. AList.update (af_id a) a) fs (st_artifacts s)\<rparr>)"
proof (induction fs arbitrary: s)
  case Nil
  then show ?case by simp
next
  case (Cons f fs)
  let ?s = "s\<lparr>st_artifacts := AList.update (af_id f) f (st_artifacts s)\<rparr>"
  have "row_step u s ?s"
    using Cons.prems by (intro row_artifact) (auto simp: writes_def any_row_def new_artifacts_def)
  moreover have "new_artifacts ?s fs"
    using Cons.prems(1) by (auto simp: new_artifacts_def update_conv' image_iff)
  then have "row_steps u ?s (?s\<lparr>st_artifacts := fold (\<lambda>a. AList.update (af_id a) a) fs (st_artifacts ?s)\<rparr>)"
    using Cons.prems(2,3) by (intro Cons.IH) simp_all
  ultimately show ?case by (auto intro: converse_rtranclp_into_rtranclp)
qed

lemma close_invocation_artifacts:
  "st_artifacts (snd (close_invocation e st i s)) = st_artifacts s"
  "st_tasks (snd (close_invocation e st i s)) = st_tasks s"
  by (auto simp: close_invocation_def Let_def split: option.splits)

lemma close_invocation_turn:
  "map_of (st_turns s) (iv_turn_id i) = Some t \<Longrightarrow> fst (close_invocation e st i s) = None"
  by (simp add: close_invocation_def Let_def)

lemma finish_task_rows:
  assumes ok: "store_ok s" and fresh: "new_artifacts s artifacts"
  shows "row_steps tenant_id s (snd (finish_task e tenant_id ara_id task_id lease_id state detail artifacts s))"
proof (cases "snd (finish_task e tenant_id ara_id task_id lease_id state detail artifacts s) = s")
  case True
  then show ?thesis by simp
next
  case False
  then obtain t l where st: "state \<in> {Task_COMPLETED, Task_FAILED, Task_CANCELLED}"
    and lease: "active_lease (clk e 0) s tenant_id ara_id task_id lease_id = Inr (t, l)"
    and gate: "(if state = Task_COMPLETED
                 then approval_gate (tk_required_capabilities t)
                        (granted_approvals s tenant_id task_id) (tk_required_capabilities t)
                 else None) = None"
    and own: "list_all (\<lambda>a. af_tenant_id a = tenant_id \<and> af_task_id a = task_id) artifacts"
    unfolding finish_task_def Let_def by (auto split: sum.splits option.splits if_splits)
  note t = active_leaseE[OF lease]
  let ?t = "t\<lparr>tk_state := state, tk_result := Some detail, tk_completed_at := Some (clk e 1),
    tk_completed_by_ara_id := Some ara_id\<rparr>"
  let ?s = "s\<lparr>st_tasks := AList.update task_id ?t (st_tasks s)\<rparr>"
  have "task_move t ?t" using st t by (auto simp: task_move_def same_task_def terminal_task_def)
  with task_write[OF ok t(1) this] t(1,2) have 1: "row_steps tenant_id s ?s" by (auto intro!: row_chain)
  then have ok1: "store_ok ?s" using ok by (rule row_steps_store_ok)
  let ?p = "case find (\<lambda>i. iv_task_id i = Some task_id) (dict_values (st_tool_invocations ?s)) of
      None \<Rightarrow> (None, ?s) | Some i \<Rightarrow> close_invocation e state i ?s"
  have p: "row_steps tenant_id ?s (snd ?p) \<and> fst ?p = None"
  proof (cases "find (\<lambda>i. iv_task_id i = Some task_id) (dict_values (st_tool_invocations ?s))")
    case None
    then show ?thesis by simp
  next
    case (Some i)
    note i = find_values[OF invocation_keyed[OF ok1] Some]
    then have "iv_tenant_id i = tenant_id"
      using invocation_task[OF ok, of "iv_id i" i task_id] t(1,2) by (auto simp: has_row_def)
    with Some close_invocation_rows[OF ok1] i show ?thesis by fastforce
  qed
  then obtain sf where sf: "?p = (None, sf)" by (metis prod.collapse)
  have "st_artifacts (snd ?p) = st_artifacts s" "st_tasks (snd ?p) = st_tasks ?s"
    by (simp_all add: close_invocation_artifacts split: option.split)
  then have art: "st_artifacts sf = st_artifacts s" "st_tasks sf = st_tasks ?s"
    unfolding sf snd_conv by blast+
  let ?a = "sf\<lparr>st_artifacts := fold (\<lambda>a. AList.update (af_id a) a) artifacts (st_artifacts sf)\<rparr>"
  have "row_steps tenant_id sf ?a"
  proof (rule store_artifacts_rows)
    show "new_artifacts sf artifacts" using fresh by (simp add: new_artifacts_def art)
    show "af_tenant_id f = tenant_id \<and> af_task_id f = task_id" if "f \<in> set artifacts" for f
      using own that by (simp add: list_all_iff)
    show "has_row tk_tenant_id tenant_id task_id (st_tasks sf)"
      unfolding art using t(2) by (auto simp: has_row_def update_conv')
  qed
  then have 2: "row_steps tenant_id s ?a"
    using 1 p unfolding sf by (auto intro: rtranclp_trans)
  let ?evs = "[AuditEvent e 0 tenant_id (task_event_type state) Actor_ARA (Some ara_id) (Some task_id)
      [(''detail'', JStr detail)]] @ artifact_events e tenant_id ara_id task_id artifacts"
  have "row_steps tenant_id s (?a\<lparr>st_events := st_events ?a @ ?evs\<rparr>)"
    using 2 by (intro chain_event) (auto simp: artifact_events_def)
  moreover have "state \<notin> {Task_COMPLETED, Task_FAILED, Task_CANCELLED} \<longleftrightarrow> False" using st by simp
  ultimately show ?thesis
    unfolding finish_task_def Let_def using lease gate own sf by (simp split del: if_split)
qed

section \<open>Tool invocations, delegation and approvals\<close>

lemma create_tool_invocation_rows:
  assumes "map_of (st_tool_invocations s) (iv_id i) = None"
    and "\<And>t. iv_task_id i = Some t \<Longrightarrow> has_row tk_tenant_id (iv_tenant_id i) t (st_tasks s)"
  shows "row_steps (iv_tenant_id i) s (snd (create_tool_invocation e i s))"
  using assms by (auto simp: create_tool_invocation_def writes_def any_row_def has_row_def
      split: option.splits intro!: row_chain)

lemma finish_tool_invocation_rows:
  assumes ok: "store_ok s"
  shows "row_steps tenant_id s (snd (finish_tool_invocation e tenant_id invocation_id st s))"
proof (cases "scoped iv_tenant_id (st_tool_invocations s) tenant_id invocation_id")
  case None
  then show ?thesis by (simp add: finish_tool_invocation_def)
next
  case (Some i)
  then have i: "map_of (st_tool_invocations s) invocation_id = Some i" "iv_tenant_id i = tenant_id" by auto
  let ?i = "i\<lparr>iv_state := st, iv_updated_at := clk e 0, iv_completed_at := Some (clk e 1)\<rparr>"
  have "invocation_move i ?i" by blast
  from invocation_write[OF ok i(1) this] i(2)
  have "row_steps tenant_id s (s\<lparr>st_tool_invocations := AList.update invocation_id ?i (st_tool_invocations s)\<rparr>)"
    by (auto intro!: row_chain)
  with Some show ?thesis
    by (auto simp: finish_tool_invocation_def Let_def simp del: scoped_Some_iff intro!: chain_event)
qed

text \<open>Planned tasks and their invocations before they are filed.\<close>

definition new_tasks :: "store \<Rightarrow> uuid \<Rightarrow> task list \<Rightarrow> bool" where
  "new_tasks s u ts \<longleftrightarrow> distinct (map tk_id ts) \<and>
     (\<forall>t \<in> set ts. map_of (st_tasks s) (tk_id t) = None \<and> map_of (st_leases s) (tk_id t) = None \<and>
        task_new t \<and> tk_tenant_id t = u)"

definition new_invocations :: "store \<Rightarrow> uuid \<Rightarrow> tool_invocation list \<Rightarrow> bool" where
  "new_invocations s u invs \<longleftrightarrow> distinct (map iv_id invs) \<and>
     (\<forall>i \<in> set invs. map_of (st_tool_invocations s) (iv_id i) = None \<and> iv_tenant_id i = u)"

lemma assign_aras_targets:
  "assign_aras e tenant_id s i selected ts = Inr ts' \<Longrightarrow>
     list_all2 (\<lambda>t t'. \<exists>a. t' = t\<lparr>tk_target_ara_id := Some a\<rparr>) ts ts'"
  by (induction ts arbitrary: i selected ts') (auto split: list.splits sum.splits)

lemma new_tasks_assigned:
  assumes "new_tasks s u ts" and "list_all2 (\<lambda>t t'. \<exists>a. t' = t\<lparr>tk_target_ara_id := Some a\<rparr>) ts ts'"
  shows "new_tasks s u ts'"
proof -
  from assms(2) have "map tk_id ts' = map tk_id ts"
    by (induction rule: list_all2_induct) auto
  moreover have "\<exists>t \<in> set ts. \<exists>a. t' = t\<lparr>tk_target_ara_id := Some a\<rparr>" if "t' \<in> set ts'" for t'
    using assms(2) that by (induction rule: list_all2_induct) auto
  ultimately show ?thesis
    using assms(1) unfolding new_tasks_def task_new_def by fastforce
qed

lemma store_delegations_rows:
  "has_row tn_tenant_id u turn_id (st_turns s) \<Longrightarrow> new_tasks s u (map fst ps) \<Longrightarrow>
     new_invocations s u (map snd ps) \<Longrightarrow>
     row_steps u s (snd (store_delegations e u turn_id n ps s))"
proof (induction ps arbitrary: n s)
  case Nil
  then show ?case by simp
next
  case (Cons p ps)
  obtain t i where p: "p = (t, i)" by (cases p)
  show ?case
  proof (cases "iv_task_id i = Some (tk_id t) \<and> iv_turn_id i = turn_id")
    case False
    then show ?thesis by (auto simp: p)
  next
    case True
    let ?evs = "[AuditEvent e n u TASK_CREATED Actor_COORDINATOR None (Some (tk_id t))
        [(''turn_id'', JId turn_id),
         (''target_ara_id'', case tk_target_ara_id t of None \<Rightarrow> JStr ''None'' | Some a \<Rightarrow> JId a)],
       AuditEvent e (n + 1) u TOOL_INVOCATION_REQUESTED Actor_COORDINATOR None None
        [(''invocation_id'', JId (iv_id i))]]"
    let ?s = "s\<lparr>st_tasks := AList.update (tk_id t) t (st_tasks s),
      st_tool_invocations := AList.update (iv_id i) i (st_tool_invocations s),
      st_events := st_events s @ ?evs\<rparr>"
    have "row_steps u s ?s"
      using Cons.prems True by (auto simp: p new_tasks_def new_invocations_def writes_def any_row_def
          has_row_def update_conv' intro!: row_chain)
    moreover have "new_tasks ?s u (map fst ps)"
      using Cons.prems(2) by (auto simp: p new_tasks_def update_conv' image_iff)
    moreover have "new_invocations ?s u (map snd ps)"
      using Cons.prems(3) by (auto simp: p new_invocations_def update_conv' image_iff)
    ultimately have "row_steps u s (snd (store_delegations e u turn_id (n + 2) ps ?s))"
      using Cons.prems(1) by (intro rtranclp_trans[OF _ Cons.IH]) simp_all
    with True show ?thesis by (simp add: p)
  qed
qed

lemma store_delegations_turns:
  "st_turns (snd (store_delegations e u turn_id n ps s)) = st_turns s"
  by (induction e u turn_id n ps s rule: store_delegations.induct) auto

lemma create_delegated_tasks_rows:
  assumes ok: "store_ok s" and nt: "new_tasks s tenant_id tasks" and ni: "new_invocations s tenant_id invs"
  shows "row_steps tenant_id s
    (snd (create_delegated_tasks e tenant_id turn_id run_lease_id tasks invs cp s))"
proof (cases "\<exists>t ts. length tasks = length invs \<and> tasks \<noteq> [] \<and>
    active_turn (clk e 0) s tenant_id turn_id run_lease_id = Inr t \<and>
    assign_aras e tenant_id s 1 {} tasks = Inr ts")
  case False
  then show ?thesis by (auto simp: create_delegated_tasks_def split: sum.splits)
next
  case True
  then obtain t ts where len: "length tasks = length invs" "tasks \<noteq> []"
    and act: "active_turn (clk e 0) s tenant_id turn_id run_lease_id = Inr t"
    and ts: "assign_aras e tenant_id s 1 {} tasks = Inr ts" by blast
  note t = active_turnE[OF act]
  let ?p = "store_delegations e tenant_id turn_id 0 (zip ts invs) s"
  from assign_aras_targets[OF ts] have l: "length ts = length invs" 
    using len(1) by (simp add: list_all2_lengthD)
  have 1: "row_steps tenant_id s (snd ?p)"
    using t(1,2) ni l new_tasks_assigned[OF nt assign_aras_targets[OF ts]]
    by (intro store_delegations_rows) (simp_all add: has_row_def)
  then have ok1: "store_ok (snd ?p)" using ok by (rule row_steps_store_ok)
  have tr: "map_of (st_turns (snd ?p)) turn_id = Some t" using t(1) by (simp add: store_delegations_turns)
  let ?t = "t\<lparr>tn_state := Turn_PAUSED, tn_checkpoint := cp, tn_run_lease_id := None,
    tn_run_lease_expires_at := None, tn_updated_at := clk e (Suc (length tasks))\<rparr>"
  have "turn_move t ?t" by (simp add: turn_move_def same_turn_def)
  note w = turn_write[OF ok1 tr this]
  show ?thesis
  proof (cases ?p)
    case (Pair err s1)
    with 1 w t(2) tr len act ts show ?thesis
      by (cases err) (auto simp: create_delegated_tasks_def intro!: row_chain)
  qed
qed

lemma create_coordinator_approval_rows:
  assumes ok: "store_ok s" and fresh: "map_of (st_approvals s) (ap_id a) = None" and new: "approval_new a"
  shows "row_steps (ap_tenant_id a) s (snd (create_coordinator_approval e a s))"
proof (cases "\<exists>k i. ap_requestor_type a = Actor_COORDINATOR \<and> ap_tool_invocation_id a = Some k \<and>
    scoped iv_tenant_id (st_tool_invocations s) (ap_tenant_id a) k = Some i \<and> iv_state i = Inv_PENDING")
  case False
  then show ?thesis
    by (auto simp: create_coordinator_approval_def split: option.splits actor_type.splits)
next
  case True
  then obtain k i where a: "ap_requestor_type a = Actor_COORDINATOR" "ap_tool_invocation_id a = Some k"
    and i: "map_of (st_tool_invocations s) k = Some i" "iv_tenant_id i = ap_tenant_id a" "iv_state i = Inv_PENDING"
    by auto
  obtain t where t: "map_of (st_turns s) (iv_turn_id i) = Some t" "tn_tenant_id t = iv_tenant_id i"
    using invocation_turn_row[OF ok i(1)] .
  let ?i = "i\<lparr>iv_state := Inv_AWAITING_APPROVAL, iv_updated_at := clk e 0\<rparr>"
  let ?t = "t\<lparr>tn_state := Turn_PAUSED, tn_run_lease_id := None, tn_run_lease_expires_at := None,
    tn_updated_at := clk e 1\<rparr>"
  have tm: "turn_move t ?t" by (simp add: turn_move_def same_turn_def)
  have im: "invocation_move i ?i" by blast
  have no_task: "ap_task_id a = None" using new a by (auto simp: approval_new_def valid_approval_def)
  have sc: "scoped iv_tenant_id (st_tool_invocations s) (ap_tenant_id a) k = Some i" using i by simp
  let ?s = "s\<lparr>st_approvals := AList.update (ap_id a) a (st_approvals s)\<rparr>"
  have "row_steps (ap_tenant_id a) s ?s"
    using a i fresh new no_task by (auto simp: writes_def has_row_def intro!: row_chain)
  then show ?thesis
    using invocation_write[OF ok i(1) im] turn_write[OF ok t(1) tm] a i t sc
      invocation_key[OF ok i(1)] turn_key[OF ok t(1)]
    by (auto simp: create_coordinator_approval_def simp del: scoped_Some_iff
        intro!: chain_event chain_turn chain_invocation)
qed

lemma request_approval_rows:
  assumes ok: "store_ok s" and fresh: "map_of (st_approvals s) (ap_id a) = None" and new: "approval_new a"
  shows "row_steps tenant_id s (snd (request_approval e tenant_id ara_id task_id lease_id a s))"
proof (cases "active_lease (clk e 0) s tenant_id ara_id task_id lease_id")
  case (Inl err)
  then show ?thesis by (simp add: request_approval_def)
next
  case (Inr p)
  obtain t l where p: "p = (t, l)" by (cases p)
  note l = active_leaseE[OF Inr[unfolded p]]
  have "ap_tool_invocation_id a = None" if "ap_task_id a = Some (tk_id t)"
    using new that by (auto simp: approval_new_def valid_approval_def)
  with Inr p l fresh new task_key[OF ok l(1)] show ?thesis
    by (auto simp: request_approval_def writes_def has_row_def intro!: row_chain)
qed

lemma decide_invocation_rows:
  assumes ok: "store_ok s" and i: "map_of (st_tool_invocations s) k = Some i"
  shows "row_steps (iv_tenant_id i) s (snd (decide_invocation e (iv_tenant_id i) st actor_id k s))"
    and "fst (decide_invocation e (iv_tenant_id i) st actor_id k s) = None"
proof -
  let ?st = "if st = Appr_GRANTED then Inv_PENDING else Inv_DENIED"
  let ?i = "i\<lparr>iv_state := ?st, iv_updated_at := clk e 1,
    iv_completed_at := (if ?st = Inv_DENIED then Some (clk e 2) else None)\<rparr>"
  let ?s = "s\<lparr>st_tool_invocations := AList.update (iv_id i) ?i (st_tool_invocations s)\<rparr>"
  have "invocation_move i ?i" by blast
  from invocation_write[OF ok i this] invocation_key[OF ok i] have 1: "row_steps (iv_tenant_id i) s ?s"
    by (auto intro!: row_chain)
  then have "store_ok ?s" using ok by (rule row_steps_store_ok)
  moreover obtain t where t: "map_of (st_turns s) (iv_turn_id i) = Some t" "tn_tenant_id t = iv_tenant_id i"
    using invocation_turn_row[OF ok i] .
  ultimately have "row_steps (iv_tenant_id i) ?s
      (?s\<lparr>st_turns := AList.update (tn_id t) (t\<lparr>tn_state := Turn_PENDING, tn_updated_at := clk e 3\<rparr>) (st_turns ?s)\<rparr>)"
    using turn_pending_step[of ?s "iv_turn_id i" t] by simp
  from rtranclp_trans[OF 1 this] t i
  show "row_steps (iv_tenant_id i) s (snd (decide_invocation e (iv_tenant_id i) st actor_id k s))"
    and "fst (decide_invocation e (iv_tenant_id i) st actor_id k s) = None"
    by (simp_all add: decide_invocation_def Let_def split del: if_split)
       (auto intro!: chain_event)
qed

lemma approval_refs:
  assumes "store_ok s" and "map_of (st_approvals s) k = Some a"
  shows "ap_tool_invocation_id a = Some i \<Longrightarrow> has_row iv_tenant_id (ap_tenant_id a) i (st_tool_invocations s)"
    and "ap_task_id a = Some t \<Longrightarrow> has_row tk_tenant_id (ap_tenant_id a) t (st_tasks s)"
  using assms unfolding store_ok_def refs_ok_def by (blast dest: refersD)+

lemma decide_approval_rows:
  assumes ok: "store_ok s"
  shows "row_steps tenant_id s (snd (decide_approval e tenant_id approval_id st actor_id s))"
proof (cases "snd (decide_approval e tenant_id approval_id st actor_id s) = s")
  case True
  then show ?thesis by simp
next
  case False
  then obtain a where st: "st \<in> {Appr_GRANTED, Appr_DENIED}"
    and sc: "scoped ap_tenant_id (st_approvals s) tenant_id approval_id = Some a"
    and pend: "ap_state a \<noteq> st" "ap_state a = Appr_PENDING"
    unfolding decide_approval_def by (simp split: option.splits if_splits)
  from sc have a: "map_of (st_approvals s) approval_id = Some a" "ap_tenant_id a = tenant_id" by auto
  let ?a = "a\<lparr>ap_state := st, ap_decided_at := Some (clk e 0), ap_decided_by := Some actor_id\<rparr>"
  let ?s = "s\<lparr>st_approvals := AList.update approval_id ?a (st_approvals s)\<rparr>"
  have "approval_move a ?a" unfolding approval_move_def using st pend by blast
  then have 1: "row_steps tenant_id s ?s"
    using a approval_refs[OF ok a(1)] approval_key[OF ok a(1)]
    by (auto simp: writes_def intro!: row_chain)
  then have ok1: "store_ok ?s" using ok by (rule row_steps_store_ok)
  let ?p = "case ap_tool_invocation_id a of None \<Rightarrow> (None, ?s)
    | Some k \<Rightarrow> decide_invocation e tenant_id st actor_id k ?s"
  have "row_steps tenant_id ?s (snd ?p) \<and> fst ?p = None"
  proof (cases "ap_tool_invocation_id a")
    case None
    then show ?thesis by simp
  next
    case (Some k)
    with approval_refs(1)[OF ok a(1)] a(2) obtain i where
      i: "map_of (st_tool_invocations ?s) k = Some i" "iv_tenant_id i = tenant_id"
      by (auto simp: has_row_def)
    from decide_invocation_rows[OF ok1 i(1), of e st actor_id] Some i(2) show ?thesis by simp
  qed
  then obtain sf where sf: "?p = (None, sf)" and 2: "row_steps tenant_id ?s sf"
    by (cases ?p) auto
  from rtranclp_trans[OF 1 2] have "row_steps tenant_id s sf" .
  moreover have "st \<notin> {Appr_GRANTED, Appr_DENIED} \<longleftrightarrow> False" using st by simp
  moreover have "Appr_PENDING \<noteq> st" using pend by metis
  ultimately show ?thesis
    unfolding decide_approval_def Let_def using sc pend sf
    by (simp split del: if_split del: scoped_Some_iff) (auto intro!: chain_event)
qed

lemma delete_artifact_rows:
  assumes ok: "store_ok s"
  shows "row_steps tenant_id s (snd (delete_artifact e tenant_id artifact_id actor_id x s))"
proof (cases "scoped af_tenant_id (st_artifacts s) tenant_id artifact_id")
  case None
  then show ?thesis by (simp add: delete_artifact_def)
next
  case (Some f)
  then have f: "map_of (st_artifacts s) artifact_id = Some f" "af_tenant_id f = tenant_id" by auto
  have "artifact_move f (f\<lparr>af_deleted_at := Some (clk e 0), af_retention_until := Some x\<rparr>)"
    if "af_deleted_at f = None" using that unfolding artifact_move_def by blast
  with f artifact_key[OF ok f(1)] artifact_task[OF ok f(1)] show ?thesis
    by (auto simp: delete_artifact_def Let_def scoped_def writes_def simp del: not_None_eq intro!: row_chain)
qed

text \<open>
  Runs of the store: sequences of calls, each made for a tenant and under the contract of its callers.
  The contract is what the API layer, the orchestrator and the workers guarantee: the identifiers of
  new rows come from \<^verbatim>\<open>uuid4()\<close> and are new, new rows are in the initial state of their kind and
  carry the caller's tenant, and the audit events handed to a call are filed under that tenant.
  Every guarantee about reachable stores follows from the refinement of each call into row steps.
\<close>

section \<open>Calls\<close>

inductive store_step :: "uuid \<Rightarrow> store \<Rightarrow> store \<Rightarrow> bool" where
  step_append_event:
    "ev_tenant_id ev = u \<Longrightarrow> store_step u s (snd (append_event ev s))"
| step_create_conversation:
    "cv_tenant_id c = u \<Longrightarrow> map_of (st_conversations s) (cv_id c) = None \<Longrightarrow> ev_tenant_id ev = u \<Longrightarrow>
     store_step u s (snd (create_conversation c ev s))"
| step_append_message:
    "ms_tenant_id m = u \<Longrightarrow> map_of (st_messages s) (ms_id m) = None \<Longrightarrow>
     (\<And>ev. ev \<in> set evs \<Longrightarrow> ev_tenant_id ev = u) \<Longrightarrow>
     store_step u s (snd (append_message m evs s))"
| step_create_turn:
    "tn_tenant_id t = u \<Longrightarrow> map_of (st_messages s) (ms_id m) = None \<Longrightarrow>
     map_of (st_turns s) (tn_id t) = None \<Longrightarrow> turn_new t \<Longrightarrow>
     map_of (st_jobs s) (jb_id j) = None \<Longrightarrow> job_new j \<Longrightarrow> jb_tenant_id j = u \<Longrightarrow>
     (\<And>ev. ev \<in> set evs \<Longrightarrow> ev_tenant_id ev = u) \<Longrightarrow>
     store_step u s (snd (create_turn m t evs j s))"
| step_claim_pending_turn:
    "store_step u s (snd (claim_pending_turn e u run_lease_id x s))"
| step_claim_turn:
    "store_step u s (snd (claim_turn e u turn_id run_lease_id x s))"
| step_checkpoint_turn:
    "store_step u s (snd (checkpoint_turn e u turn_id run_lease_id cp s))"
| step_pause_turn:
    "store_step u s (snd (pause_turn e u turn_id run_lease_id cp s))"
| step_complete_turn:
    "map_of (st_messages s) (ms_id m) = None \<Longrightarrow>
     store_step u s (snd (complete_turn e u turn_id run_lease_id m s))"
| step_enqueue_job:
    "jb_tenant_id j = u \<Longrightarrow> map_of (st_jobs s) (jb_id j) = None \<Longrightarrow> job_new j \<Longrightarrow>
     store_step u s (snd (enqueue_job j s))"
| step_claim_job:
    "claimed_tenant e s \<in> {None, Some u} \<Longrightarrow> store_step u s (snd (claim_job e lease_id x s))"
| step_complete_job:
    "store_step u s (snd (complete_job e u job_id lease_id s))"
| step_retry_job:
    "store_step u s (snd (retry_job e u job_id lease_id err x s))"
| step_requeue_job:
    "store_step u s (snd (requeue_job e u job_id actor_id s))"
| step_upsert_memory:
    "mr_tenant_id mem = u \<Longrightarrow> map_of (st_memories s) (mr_id mem) = None \<Longrightarrow>
     mr_import_batch_id mem = None \<Longrightarrow> (\<And>ev. ev \<in> set evs \<Longrightarrow> ev_tenant_id ev = u) \<Longrightarrow>
     store_step u s (snd (upsert_memory mem evs s))"
| step_delete_memory:
    "store_step u s (snd (delete_memory e u memory_id actor_id s))"
| step_review_memory:
    "store_step u s (snd (review_memory e u memory_id promote actor_id rid s))"
| step_pin_memory:
    "store_step u s (snd (pin_memory e u memory_id pinned actor_id s))"
| step_create_persona:
    "pp_tenant_id p = u \<Longrightarrow> map_of (st_personas s) (pp_id p) = None \<Longrightarrow>
     store_step u s (snd (create_persona_profile e p actor_id s))"
| step_revert_persona:
    "store_step u s (snd (revert_persona_profile e u v actor_id s))"
| step_create_adaptation:
    "la_tenant_id a = u \<Longrightarrow> map_of (st_learned_adaptations s) (la_id a) = None \<Longrightarrow>
     store_step u s (snd (create_learned_persona_adaptation a s))"
| step_reverse_adaptation:
    "store_step u s (snd (reverse_learned_persona_adaptation e u adaptation_id s))"
| step_stage_batch:
    "mb_tenant_id b = u \<Longrightarrow> map_of (st_conversations s) (gen e 0) = None \<Longrightarrow>
     map_of (st_messages s) (gen e 1) = None \<Longrightarrow> map_of (st_migration_batches s) (mb_id b) = None \<Longrightarrow>
     batch_new b \<Longrightarrow> staged_memories s b ms \<Longrightarrow>
     store_step u s (snd (stage_migration_batch e b ms actor_id s))"
| step_activate_batch:
    "map_of (st_personas s) (gen e 0) = None \<Longrightarrow>
     store_step u s (snd (activate_migration_batch e u batch_id actor_id core s))"
| step_rollback_batch:
    "store_step u s (snd (rollback_migration_batch e u batch_id actor_id s))"
| step_register_ara:
    "ra_tenant_id a = u \<Longrightarrow> map_of (st_remote_agents s) (ra_id a) = None \<or>
       (\<exists>b. map_of (st_remote_agents s) (ra_id a) = Some b \<and> ra_tenant_id b = u) \<Longrightarrow>
     ev_tenant_id ev = u \<Longrightarrow> store_step u s (snd (register_ara a ev s))"
| step_set_trust:
    "store_step u s (snd (set_remote_agent_trust e u ara_id lvl actor_id s))"
| step_revoke_ara:
    "store_step u s (snd (revoke_remote_agent e u ara_id actor_id s))"
| step_add_task:
    "tk_tenant_id tk = u \<Longrightarrow> map_of (st_tasks s) (tk_id tk) = None \<Longrightarrow>
     map_of (st_leases s) (tk_id tk) = None \<Longrightarrow> task_new tk \<Longrightarrow> ev_tenant_id ev = u \<Longrightarrow>
     store_step u s (snd (add_task tk ev s))"
| step_request_cancellation:
    "store_step u s (snd (request_task_cancellation e u task_id actor_id s))"
| step_lease_task:
    "map_of (st_leases s) (gen e 0) = None \<Longrightarrow> map_of (st_tasks s) (gen e 0) = None \<Longrightarrow>
     store_step u s (snd (lease_task e u ara_id x s))"
| step_heartbeat:
    "store_step u s (snd (heartbeat e u ara_id hb_task hb_lease s))"
| step_record_progress:
    "store_step u s (snd (record_progress e u ara_id task_id lease_id msg pct s))"
| step_renew_lease:
    "store_step u s (snd (renew_lease e u ara_id task_id lease_id x s))"
| step_finish_task:
    "new_artifacts s artifacts \<Longrightarrow>
     store_step u s (snd (finish_task e u ara_id task_id lease_id st detail artifacts s))"
| step_create_invocation:
    "iv_tenant_id i = u \<Longrightarrow> map_of (st_tool_invocations s) (iv_id i) = None \<Longrightarrow>
     (\<And>t. iv_task_id i = Some t \<Longrightarrow> has_row tk_tenant_id u t (st_tasks s)) \<Longrightarrow>
     store_step u s (snd (create_tool_invocation e i s))"
| step_complete_invocation:
    "store_step u s (snd (complete_tool_invocation e u invocation_id s))"
| step_fail_invocation:
    "store_step u s (snd (fail_tool_invocation e u invocation_id s))"
| step_delegate:
    "new_tasks s u tasks \<Longrightarrow> new_invocations s u invs \<Longrightarrow>
     store_step u s (snd (create_delegated_tasks e u turn_id run_lease_id tasks invs cp s))"
| step_coordinator_approval:
    "ap_tenant_id ap = u \<Longrightarrow> map_of (st_approvals s) (ap_id ap) = None \<Longrightarrow> approval_new ap \<Longrightarrow>
     store_step u s (snd (create_coordinator_approval e ap s))"
| step_request_approval:
    "map_of (st_approvals s) (ap_id ap) = None \<Longrightarrow> approval_new ap \<Longrightarrow>
     store_step u s (snd (request_approval e u ara_id task_id lease_id ap s))"
| step_decide_approval:
    "store_step u s (snd (decide_approval e u approval_id ast actor_id s))"
| step_delete_artifact:
    "store_step u s (snd (delete_artifact e u artifact_id actor_id x s))"

lemmas op_rows =
  append_event_rows create_conversation_rows append_message_rows create_turn_rows
  claim_pending_turn_rows claim_turn_rows checkpoint_turn_rows pause_turn_rows complete_turn_rows
  enqueue_job_rows claim_job_rows complete_job_rows retry_job_rows requeue_job_rows
  upsert_memory_rows delete_memory_rows review_memory_rows pin_memory_rows
  create_persona_profile_rows revert_persona_profile_rows create_learned_persona_adaptation_rows
  reverse_learned_persona_adaptation_rows stage_migration_batch_rows activate_migration_batch_rows
  rollback_migration_batch_rows register_ara_rows set_remote_agent_trust_rows
  revoke_remote_agent_rows add_task_rows request_task_cancellation_rows lease_task_rows
  heartbeat_rows record_progress_rows renew_lease_rows finish_task_rows create_tool_invocation_rows
  finish_tool_invocation_rows create_delegated_tasks_rows create_coordinator_approval_rows
  request_approval_rows decide_approval_rows delete_artifact_rows

text \<open>Every call refines the abstract specification.\<close>

lemma store_step_rows: "store_step u s s' \<Longrightarrow> store_ok s \<Longrightarrow> row_steps u s s'"
  by (erule store_step.cases;
      (auto simp only: complete_tool_invocation_def fail_tool_invocation_def intro!: op_rows))

section \<open>Reachable stores\<close>

inductive reachable :: "store \<Rightarrow> bool" where
  reachable_empty: "reachable empty_store"
| reachable_step: "reachable s \<Longrightarrow> store_step u s s' \<Longrightarrow> reachable s'"

lemma empty_store_ok: "store_ok empty_store"
  by (simp add: empty_store_def store_ok_def keys_ok_def refs_ok_def leases_ok_def attempts_ok_def)

lemma reachable_ok: "reachable s \<Longrightarrow> store_ok s"
  by (induction rule: reachable.induct)
     (blast intro: empty_store_ok row_steps_store_ok store_step_rows)+

text \<open>A run: calls of any tenants.\<close>

definition run :: "store \<Rightarrow> store \<Rightarrow> bool" where
  "run = (\<lambda>s s'. \<exists>u. store_step u s s')\<^sup>*\<^sup>*"

text \<open>A relation on well-formed stores that holds of row steps and composes holds of runs.\<close>

lemma run_rows:
  assumes "run s s'" and "store_ok s"
    and refl: "\<And>a. P a a" and trans: "\<And>a b c. P a b \<Longrightarrow> P b c \<Longrightarrow> P a c"
    and step: "\<And>u a b. row_step u a b \<Longrightarrow> store_ok a \<Longrightarrow> P a b"
  shows "P s s' \<and> store_ok s'"
proof -
  have rows: "row_steps u a b \<Longrightarrow> store_ok a \<Longrightarrow> P a b" for u a b
    by (induction rule: rtranclp_induct) (blast intro: refl trans step row_steps_store_ok)+
  show ?thesis
    using assms(1,2) unfolding run_def
    by (induction rule: rtranclp_induct)
       (blast intro: refl trans rows row_steps_store_ok store_step_rows)+
qed

end
