(* ===== verification/Samples.thy ===== *)
theory Samples
  imports TaskRefinement
begin

text \<open>
  Concrete rows of one tenant, on which the properties with hypotheses are instantiated.
\<close>

named_theorems samples \<open>definitions of the sample rows\<close>

definition sample_env :: env where
  [samples]: "sample_env = \<lparr>clk = (\<lambda>_. 100), gen = (\<lambda>i. 900 + i), ev_uuid = (\<lambda>n. 800 + n), ev_clock = (\<lambda>_. 100)\<rparr>"

text \<open>The same environment at another time.\<close>

definition env_at :: "datetime \<Rightarrow> env" where
  [samples]: "env_at t = sample_env\<lparr>clk := (\<lambda>_. t)\<rparr>"

definition sample_event :: audit_event where
  [samples]: "sample_event =
     \<lparr>ev_id = 7, ev_tenant_id = 1, ev_event_type = CONVERSATION_CREATED, ev_actor_type = Actor_USER,
      ev_actor_id = Some 2, ev_task_id = None, ev_payload = [], ev_occurred_at = 5\<rparr>"

definition sample_conversation :: conversation where
  [samples]: "sample_conversation =
     \<lparr>cv_id = 10, cv_tenant_id = 1, cv_user_id = 2, cv_title = ''t'', cv_created_at = 1, cv_updated_at = 1\<rparr>"

definition sample_message :: conversation_message where
  [samples]: "sample_message =
     \<lparr>ms_id = 20, ms_tenant_id = 1, ms_conversation_id = 10, ms_role = Role_USER,
      ms_content = ''hello'', ms_created_at = 2\<rparr>"

definition sample_turn :: conversation_turn where
  [samples]: "sample_turn =
     \<lparr>tn_id = 30, tn_tenant_id = 1, tn_conversation_id = 10, tn_user_message_id = 20,
      tn_client_request_id = 31, tn_state = Turn_PENDING, tn_checkpoint = [],
      tn_run_lease_id = None, tn_run_lease_expires_at = None, tn_created_at = 3, tn_updated_at = 3,
      tn_completed_at = None\<rparr>"

definition sample_running_turn :: conversation_turn where
  [samples]: "sample_running_turn =
     sample_turn\<lparr>tn_state := Turn_RUNNING, tn_run_lease_id := Some 33, tn_run_lease_expires_at := Some 500\<rparr>"

definition sample_invocation :: tool_invocation where
  [samples]: "sample_invocation =
     \<lparr>iv_id = 35, iv_tenant_id = 1, iv_turn_id = 30, iv_task_id = None, iv_tool_call_id = ''c'',
      iv_tool_name = ''host_command'', iv_target = Target_ARA, iv_state = Inv_PENDING,
      iv_arguments = [], iv_arguments_sha256 = replicate 64 CHR ''0'', iv_created_at = 4,
      iv_updated_at = 4, iv_completed_at = None\<rparr>"

definition sample_job :: background_job where
  [samples]: "sample_job =
     \<lparr>jb_id = 40, jb_tenant_id = 1, jb_kind = Job_MEMORY_EXTRACTION, jb_source_id = 20, jb_payload = [],
      jb_state = Job_PENDING, jb_attempt_count = 0, jb_max_attempts = 3, jb_available_at = 3,
      jb_lease_id = None, jb_lease_expires_at = None, jb_last_error = None, jb_created_at = 3,
      jb_updated_at = 3, jb_completed_at = None\<rparr>"

definition sample_memory :: memory_record where
  [samples]: "sample_memory =
     \<lparr>mr_id = 50, mr_tenant_id = 1, mr_kind = Mem_PREFERENCE, mr_content = ''Likes tea'',
      mr_normalized_content = ''likes tea'', mr_source_event_id = 7, mr_source_message_id = 20,
      mr_confidence = 1, mr_confirmed = False, mr_pinned = False, mr_state = Mem_CANDIDATE,
      mr_sensitivity = ''normal'', mr_visibility = ''private'', mr_retention = ''durable'',
      mr_contradiction_of = None, mr_created_at = 6, mr_updated_at = 6, mr_reviewed_at = None,
      mr_reviewed_by = None, mr_deleted_at = None, mr_import_batch_id = None, mr_source_system = None,
      mr_source_database_fingerprint = None, mr_source_external_id = None, mr_source_metadata = []\<rparr>"

definition sample_core :: persona_core where
  [samples]: "sample_core =
     \<lparr>pc_identity = ''Astra'', pc_values = ''v'', pc_boundaries = ''b'', pc_tone = ''t'',
      pc_initiative = ''i'', pc_emotional_range = ''e'', pc_disagreement = ''d''\<rparr>"

definition sample_persona :: persona_profile where
  [samples]: "sample_persona =
     \<lparr>pp_id = 65, pp_tenant_id = 1, pp_version = 1, pp_authored_core = sample_core, pp_created_at = 5\<rparr>"

definition sample_batch :: migration_batch where
  [samples]: "sample_batch =
     \<lparr>mb_id = 55, mb_tenant_id = 1, mb_source_system = ''old'',
      mb_source_database_fingerprint = replicate 64 CHR ''0'', mb_state = Batch_STAGED,
      mb_source_metadata = [], mb_persona_draft = None, mb_persona_profile_id = None,
      mb_created_at = 5, mb_activated_at = None, mb_rolled_back_at = None\<rparr>"

definition sample_capability :: capability where
  [samples]: "sample_capability = \<lparr>cap_kind = COMMAND_EXECUTE_HOST, cap_scope = ''host''\<rparr>"

definition sample_ara :: remote_agent where
  [samples]: "sample_ara =
     \<lparr>ra_id = 60, ra_tenant_id = 1, ra_name = ''a'', ra_capabilities = [sample_capability],
      ra_runtime_version = ''1'', ra_status = Ara_ACTIVE, ra_trust_level = 5, ra_registered_at = 1,
      ra_last_seen_at = 90\<rparr>"

definition sample_task :: task where
  [samples]: "sample_task =
     \<lparr>tk_id = 70, tk_tenant_id = 1, tk_objective = ''o'', tk_context = '''',
      tk_required_capabilities = [sample_capability], tk_deliverable_contract = ''d'',
      tk_state = Task_PENDING, tk_created_at = 3, tk_deadline = None, tk_result = None,
      tk_completed_at = None, tk_target_ara_id = None, tk_completed_by_ara_id = None\<rparr>"

definition sample_lease :: lease where
  [samples]: "sample_lease =
     \<lparr>ls_id = 80, ls_tenant_id = 1, ls_task_id = 70, ls_ara_id = 60, ls_acquired_at = 50,
      ls_expires_at = 500\<rparr>"

definition sample_approval :: approval where
  [samples]: "sample_approval =
     \<lparr>ap_id = 90, ap_tenant_id = 1, ap_task_id = Some 70, ap_tool_invocation_id = None,
      ap_capability = sample_capability, ap_requested_by = Some 60, ap_requestor_type = Actor_ARA,
      ap_state = Appr_PENDING, ap_reason = ''r'', ap_created_at = 60, ap_decided_at = None,
      ap_decided_by = None\<rparr>"

text \<open>A store in the middle of a turn with a leased task that awaits an approval.\<close>

definition sample_store :: store where
  [samples]: "sample_store = empty_store\<lparr>
     st_conversations := [(10, sample_conversation)],
     st_messages := [(20, sample_message)],
     st_turns := [(30, sample_running_turn)],
     st_tool_invocations := [(35, sample_invocation\<lparr>iv_task_id := Some 70\<rparr>)],
     st_memories := [(50, sample_memory)],
     st_personas := [(65, sample_persona)],
     st_active_persona_ids := [(1, 65)],
     st_remote_agents := [(60, sample_ara)],
     st_tasks := [(70, sample_task\<lparr>tk_state := Task_LEASED\<rparr>)],
     st_leases := [(80, sample_lease)],
     st_approvals := [(90, sample_approval)],
     st_jobs := [(40, sample_job)]\<rparr>"

text \<open>Rows of a table with one entry.\<close>

lemma ran_single [simp]: "ran (\<lambda>j. if j = k then Some x else None) = {x}"
  by (auto simp: ran_def)

lemma sample_store_ok: "store_ok sample_store"
  by (simp add: samples empty_store_def store_ok_def keys_ok_def refs_ok_def refers_def has_row_def
      leases_ok_def lease_ok_def keyed_def turn_ok_def valid_turn_def job_ok_def valid_job_def
      valid_approval_def valid_capability_def str_between_def attempts_ok_def ran_def)

end
