(* ===== verification/TurnProperties.thy ===== *)
theory TurnProperties
  imports Samples
begin

text \<open>
  What the conversation operations promise: a turn request is filed once, the oldest claimable turn
  is claimed, and while a run lease is unexpired only its holder acts on the turn.
\<close>

section \<open>Filing a turn\<close>

text \<open>
  A turn request is idempotent: once a call with a client request identifier has returned a turn,
  every later call of the tenant with that identifier returns the same turn and changes nothing,
  whatever message, events and job it carries.
\<close>

theorem create_turn_idempotent:
  assumes "create_turn m t evs j s = (Inr r, s')"
    and "tn_tenant_id t' = tn_tenant_id t" and "tn_client_request_id t' = tn_client_request_id t"
  shows "tn_tenant_id r = tn_tenant_id t \<and> tn_client_request_id r = tn_client_request_id t \<and>
    create_turn m' t' evs' j' s' = (Inr r, s')"
proof (cases "find (\<lambda>x. tn_tenant_id x = tn_tenant_id t \<and> tn_client_request_id x = tn_client_request_id t)
    (dict_values (st_turns s))")
  case (Some x)
  with find_mem[OF Some] assms show ?thesis by (simp add: create_turn_def)
next
  case None
  with find_update[OF None, of t "tn_id t"] assms show ?thesis
    by (auto simp: create_turn_def split: option.splits if_splits)
qed

theorem create_turn_idempotent_witness:
  "create_turn sample_message sample_turn [sample_event] sample_job
     (snd (create_turn sample_message sample_turn [sample_event] sample_job
        (snd (create_conversation sample_conversation sample_event empty_store)))) =
     (Inr sample_turn, snd (create_turn sample_message sample_turn [sample_event] sample_job
        (snd (create_conversation sample_conversation sample_event empty_store))))"
proof -
  let ?s = "snd (create_conversation sample_conversation sample_event empty_store)"
  have "create_turn sample_message sample_turn [sample_event] sample_job ?s =
      (Inr sample_turn, snd (create_turn sample_message sample_turn [sample_event] sample_job ?s))"
    by (simp add: samples create_turn_def create_conversation_def empty_store_def)
  from create_turn_idempotent[OF this] show ?thesis by simp
qed

section \<open>Claiming a turn\<close>

lemma claim_pending_turn_oldest_aux:
  assumes "store_ok s"
  shows "case claim_pending_turn e u lid x s of
      (Inl err, s') \<Rightarrow> s' = s \<and> (x \<le> clk e 0 \<or> clk e 0 + minutes 15 < x + clk e 0 mod 1000000)
    | (Inr None, s') \<Rightarrow> s' = s \<and> (\<forall>k t. map_of (st_turns s) k = Some t \<longrightarrow> \<not> claimable_turn (clk e 1) u t)
    | (Inr (Some c), s') \<Rightarrow> clk e 0 < x \<and>
        (\<exists>t. map_of (st_turns s) (tn_id c) = Some t \<and> claimable_turn (clk e 1) u t \<and>
          (\<forall>k t'. map_of (st_turns s) k = Some t' \<longrightarrow> claimable_turn (clk e 1) u t' \<longrightarrow>
             tn_created_at t \<le> tn_created_at t') \<and>
          c = t\<lparr>tn_state := Turn_RUNNING, tn_run_lease_id := Some lid,
            tn_run_lease_expires_at := Some x, tn_updated_at := clk e 1\<rparr> \<and>
          map_of (st_turns s') = (map_of (st_turns s))(tn_id c \<mapsto> c))"
proof (cases "validate_run_lease_expiry (clk e 0) x")
  case (Some err)
  then show ?thesis
    by (auto simp: claim_pending_turn_def validate_run_lease_expiry_def split: if_splits)
next
  case None
  then have lt: "clk e 0 < x" by (auto simp: validate_run_lease_expiry_def split: if_splits)
  have vals: "map_of (st_turns s) k = Some t \<Longrightarrow> t \<in> set (dict_values (st_turns s))" for k t
    by (force dest: map_of_SomeD)
  show ?thesis
  proof (cases "find (claimable_turn (clk e 1) u) (sort_key tn_created_at (dict_values (st_turns s)))")
    case no: None
    then have "\<forall>k t. map_of (st_turns s) k = Some t \<longrightarrow> \<not> claimable_turn (clk e 1) u t"
      using vals by (auto simp: find_sort_key_None)
    with None no show ?thesis by (simp add: claim_pending_turn_def)
  next
    case (Some t)
    from find_sorted_values[OF turn_keyed[OF assms] Some]
    have "map_of (st_turns s) (tn_id t) = Some t" "claimable_turn (clk e 1) u t" by auto
    moreover have "\<forall>k t'. map_of (st_turns s) k = Some t' \<longrightarrow> claimable_turn (clk e 1) u t' \<longrightarrow>
        tn_created_at t \<le> tn_created_at t'"
      using find_sort_key_least[OF Some] vals by blast
    ultimately show ?thesis using None Some lt
      by (simp add: claim_pending_turn_def Let_def update_conv')
  qed
qed

text \<open>
  Claiming a pending turn: an expiry that is not in the next fifteen minutes is refused; otherwise
  the oldest turn of the tenant that is pending, or running under an expired lease, becomes running
  under the new lease and no other turn changes; nothing is claimed only when no turn is claimable.
\<close>

theorem claim_pending_turn_oldest:
  assumes "store_ok s"
  shows "case claim_pending_turn e u lid x s of
      (Inl err, s') \<Rightarrow> s' = s \<and> (x \<le> clk e 0 \<or> clk e 0 + minutes 15 < x + clk e 0 mod 1000000)
    | (Inr None, s') \<Rightarrow> s' = s \<and> (\<forall>k t. map_of (st_turns s) k = Some t \<longrightarrow> \<not> claimable_turn (clk e 1) u t)
    | (Inr (Some c), s') \<Rightarrow> clk e 0 < x \<and>
        (\<exists>t. map_of (st_turns s) (tn_id c) = Some t \<and> claimable_turn (clk e 1) u t \<and>
          (\<forall>k t'. map_of (st_turns s) k = Some t' \<longrightarrow> claimable_turn (clk e 1) u t' \<longrightarrow>
             tn_created_at t \<le> tn_created_at t') \<and>
          c = t\<lparr>tn_state := Turn_RUNNING, tn_run_lease_id := Some lid,
            tn_run_lease_expires_at := Some x, tn_updated_at := clk e 1\<rparr> \<and>
          map_of (st_turns s') = (map_of (st_turns s))(tn_id c \<mapsto> c))"
  by (rule claim_pending_turn_oldest_aux[OF assms])

theorem claim_pending_turn_oldest_witness:
  "\<exists>c s'. claim_pending_turn (env_at 600) 1 34 90000000 sample_store = (Inr (Some c), s') \<and>
     map_of (st_turns s') 30 = Some c \<and> tn_run_lease_id c = Some 34"
proof -
  obtain c s' where call: "claim_pending_turn (env_at 600) 1 34 90000000 sample_store = (Inr (Some c), s')"
    "tn_id c = 30"
    by (simp add: samples claim_pending_turn_def validate_run_lease_expiry_def claimable_turn_def
        minutes_def seconds_def Let_def)
  from claim_pending_turn_oldest[OF sample_store_ok, where e = "env_at 600" and u = 1 and lid = 34 and x = 90000000]
  show ?thesis unfolding call using call by auto
qed

text \<open>The lease check fails for everyone but the holder.\<close>

lemma active_turn_foreign:
  "map_of (st_turns s) k = Some t \<Longrightarrow> tn_run_lease_id t \<noteq> Some l' \<Longrightarrow>
     \<exists>err. active_turn now s u k l' = Inl err"
  by (auto simp: active_turn_def scoped_def)



text \<open>
  A successful completion stores the assistant's message of the same conversation and tenant,
  marks the turn completed and drops its lease, so that no second completion of the turn succeeds,
  under whatever lease.
\<close>

theorem complete_turn_once:
  assumes "complete_turn e u k l m s = (Inr r, s')"
  shows "map_of (st_turns s') k = Some r \<and> tn_state r = Turn_COMPLETED \<and>
    tn_run_lease_id r = None \<and> tn_completed_at r = Some (clk e 1) \<and>
    map_of (st_messages s') (ms_id m) = Some m \<and> ms_role m = Role_ASSISTANT \<and>
    ms_conversation_id m = tn_conversation_id r \<and> ms_tenant_id m = tn_tenant_id r \<and>
    (\<exists>err. complete_turn e' u k l' m' s' = (Inl err, s'))"
proof -
  from assms have r: "map_of (st_turns s') k = Some r" "tn_state r = Turn_COMPLETED"
    "tn_run_lease_id r = None" "tn_completed_at r = Some (clk e 1)"
    "map_of (st_messages s') (ms_id m) = Some m" "ms_role m = Role_ASSISTANT"
    "ms_conversation_id m = tn_conversation_id r" "ms_tenant_id m = tn_tenant_id r"
    by (auto simp: complete_turn_def Let_def update_conv' dest: active_turnE(2)
        split: sum.splits if_splits option.splits)
  from active_turn_foreign[OF r(1), of l' "clk e' 0" u] r(3) obtain err where
    "active_turn (clk e' 0) s' u k l' = Inl err" by auto
  with r show ?thesis by (simp add: complete_turn_def)
qed

definition sample_reply :: conversation_message where
  "sample_reply = sample_message\<lparr>ms_id := 21, ms_role := Role_ASSISTANT, ms_content := ''hi''\<rparr>"

theorem complete_turn_once_witness:
  "\<exists>err. complete_turn (env_at 200) 1 30 33 sample_reply
       (snd (complete_turn sample_env 1 30 33 sample_reply sample_store)) =
     (Inl err, snd (complete_turn sample_env 1 30 33 sample_reply sample_store))"
proof -
  obtain r where "complete_turn sample_env 1 30 33 sample_reply sample_store =
      (Inr r, snd (complete_turn sample_env 1 30 33 sample_reply sample_store))"
    by (simp add: samples sample_reply_def complete_turn_def active_turn_def scoped_def Let_def)
  from complete_turn_once[OF this] show ?thesis by blast
qed

section \<open>Reading a conversation\<close>

text \<open>
  Listing with a positive limit returns, in chronological order, at most that many messages of the
  conversation, and leaves a message out only when the limit is reached by messages that are not older.
\<close>

theorem list_messages_latest:
  assumes "0 < n" and "list_messages u c n s = Inr ms"
  shows "length ms \<le> nat n \<and> sorted (map ms_created_at ms) \<and>
    (\<forall>m \<in> set ms. ms_tenant_id m = u \<and> ms_conversation_id m = c) \<and>
    (\<forall>m \<in> set (dict_values (st_messages s)). ms_tenant_id m = u \<longrightarrow> ms_conversation_id m = c \<longrightarrow>
       m \<in> set ms \<or> length ms = nat n \<and> (\<forall>m' \<in> set ms. ms_created_at m \<le> ms_created_at m'))"
proof -
  define xs where "xs = sort_key ms_created_at (filter (\<lambda>m. ms_tenant_id m = u \<and> ms_conversation_id m = c)
    (dict_values (st_messages s)))"
  have so: "sorted (map ms_created_at xs)" by (simp add: xs_def)
  let ?k = "length xs - nat n"
  have ms: "ms = drop ?k xs"
    using assms by (auto simp: list_messages_def xs_def slice_from_def split: option.splits)
  have split: "xs = take ?k xs @ drop ?k xs" by simp
  have so': "sorted (map ms_created_at (take ?k xs @ drop ?k xs))" using so by simp
  have before: "ms_created_at m \<le> ms_created_at m'" if "m \<in> set (take ?k xs)" "m' \<in> set ms" for m m'
    using so' that unfolding ms map_append sorted_append by auto
  have "length ms = nat n" if "m \<in> set (take ?k xs)" for m
    using that ms by (cases "?k = 0") auto
  moreover have "set xs = set (take ?k xs) \<union> set ms"
    using split unfolding ms by (metis set_append)
  moreover have "set xs = {m \<in> set (dict_values (st_messages s)). ms_tenant_id m = u \<and> ms_conversation_id m = c}"
    by (auto simp: xs_def)
  moreover have "sorted (map ms_created_at ms)" using so by (simp add: ms drop_map [symmetric] sorted_wrt_drop)
  moreover have "length ms \<le> nat n" by (simp add: ms)
  ultimately show ?thesis using before by blast
qed

theorem list_messages_latest_witness:
  "list_messages 1 10 1 sample_store = Inr [sample_message] \<and> length [sample_message] \<le> nat 1"
proof -
  have l: "list_messages 1 10 1 sample_store = Inr [sample_message]"
    by (simp add: samples list_messages_def slice_from_def scoped_def)
  from list_messages_latest[OF _ l] l show ?thesis by simp
qed

end
