(* ===== verification/JobProperties.thy ===== *)
theory JobProperties
  imports Samples
begin

text \<open>
  What the job operations promise: one job per source, the oldest available job first, a bounded
  number of retries, and where the bound is not checked.
\<close>

text \<open>
  Enqueueing is idempotent per tenant, kind and source: whatever call filed or found the job, a
  later call for the same source, with a job of any other identifier, returns that job and leaves the
  store as it is.
\<close>

theorem enqueue_job_idempotent:
  assumes "enqueue_job j s = (Inr r, s')" and "jb_tenant_id j' = jb_tenant_id j"
    and "jb_kind j' = jb_kind j" and "jb_source_id j' = jb_source_id j"
  shows "jb_tenant_id r = jb_tenant_id j \<and> jb_kind r = jb_kind j \<and> jb_source_id r = jb_source_id j \<and>
    enqueue_job j' s' = (Inr r, s')"
proof (cases "find (\<lambda>x. jb_tenant_id x = jb_tenant_id j \<and> jb_kind x = jb_kind j \<and>
    jb_source_id x = jb_source_id j) (dict_values (st_jobs s))")
  case (Some x)
  with find_mem[OF Some] assms show ?thesis by (simp add: enqueue_job_def)
next
  case None
  with find_update[OF None, of j "jb_id j"] assms show ?thesis by (auto simp: enqueue_job_def)
qed

theorem enqueue_job_idempotent_witness:
  "enqueue_job (sample_job\<lparr>jb_id := 41\<rparr>) (snd (enqueue_job sample_job empty_store)) =
     (Inr sample_job, snd (enqueue_job sample_job empty_store))"
proof -
  have "enqueue_job sample_job empty_store = (Inr sample_job, snd (enqueue_job sample_job empty_store))"
    by (simp add: enqueue_job_def empty_store_def)
  from enqueue_job_idempotent[OF this, of "sample_job\<lparr>jb_id := 41\<rparr>"] show ?thesis
    by (simp add: sample_job_def)
qed

text \<open>
  A claim takes the oldest job that is available or whose lease has expired, counts one attempt,
  installs the lease and opens an attempt record; it returns nothing, and changes nothing, only when
  no job can be claimed, and it never fails.
\<close>

theorem claim_job_oldest:
  assumes "store_ok s"
  shows "case claim_job e lid x s of
      (Inl err, s') \<Rightarrow> False
    | (Inr None, s') \<Rightarrow> s' = s \<and> (\<forall>k j. map_of (st_jobs s) k = Some j \<longrightarrow> \<not> claimable_job (clk e 0) j)
    | (Inr (Some c), s') \<Rightarrow>
        (\<exists>j. map_of (st_jobs s) (jb_id c) = Some j \<and> claimable_job (clk e 0) j \<and>
          (\<forall>k j'. map_of (st_jobs s) k = Some j' \<longrightarrow> claimable_job (clk e 0) j' \<longrightarrow>
             jb_created_at j \<le> jb_created_at j') \<and>
          c = j\<lparr>jb_state := Job_RUNNING, jb_attempt_count := jb_attempt_count j + 1,
            jb_lease_id := Some lid, jb_lease_expires_at := Some x, jb_updated_at := clk e 0\<rparr> \<and>
          map_of (st_jobs s') = (map_of (st_jobs s))(jb_id c \<mapsto> c) \<and>
          list_job_attempts (jb_tenant_id c) (jb_id c) s' =
            list_job_attempts (jb_tenant_id c) (jb_id c) s @
              [\<lparr>at_id = gen e 0, at_tenant_id = jb_tenant_id c, at_job_id = jb_id c,
                at_attempt = jb_attempt_count c, at_started_at = clk e 1, at_finished_at = None,
                at_error = None\<rparr>])"
proof (cases "find (claimable_job (clk e 0)) (sort_key jb_created_at (dict_values (st_jobs s)))")
  case None
  have "map_of (st_jobs s) k = Some j \<Longrightarrow> j \<in> set (dict_values (st_jobs s))" for k j
    by (force dest: map_of_SomeD)
  with None have "\<forall>k j. map_of (st_jobs s) k = Some j \<longrightarrow> \<not> claimable_job (clk e 0) j"
    by (auto simp: find_sort_key_None)
  with None show ?thesis by (simp add: claim_job_def)
next
  case (Some j)
  have vals: "map_of (st_jobs s) k = Some j \<Longrightarrow> j \<in> set (dict_values (st_jobs s))" for k j
    by (force dest: map_of_SomeD)
  from find_sorted_values[OF job_keyed[OF assms] Some]
  have "map_of (st_jobs s) (jb_id j) = Some j" "claimable_job (clk e 0) j" by auto
  moreover have "\<forall>k j'. map_of (st_jobs s) k = Some j' \<longrightarrow> claimable_job (clk e 0) j' \<longrightarrow>
      jb_created_at j \<le> jb_created_at j'"
    using find_sort_key_least[OF Some] vals by blast
  ultimately show ?thesis using Some
    by (simp add: claim_job_def Let_def update_conv' list_job_attempts_def append_attempt_def scoped_def)
qed

theorem claim_job_oldest_witness:
  "\<exists>c. fst (claim_job sample_env 44 300 sample_store) = Inr (Some c) \<and> jb_attempt_count c = 1"
proof -
  obtain c s' where c: "claim_job sample_env 44 300 sample_store = (Inr (Some c), s')" "jb_id c = 40"
    by (simp add: samples claim_job_def claimable_job_def Let_def)
  from claim_job_oldest[OF sample_store_ok, where e = sample_env and lid = 44 and x = 300]
  show ?thesis unfolding c using c(2) by (auto simp: samples)
qed

text \<open>
  C36: A failed attempt of a claimed job is retried while attempts are left and fails the job when
  they are used up: the lease is dropped, the error is kept with the job and with its last attempt
  record, a job to retry is claimable again exactly from the given time on, a failed one never.
\<close>

theorem retry_job_bounded:
  assumes "store_ok s" and "active_job s u k lid = Inr j"
  shows "\<exists>r s'. retry_job e u k lid err x s = (Inr r, s') \<and> map_of (st_jobs s') k = Some r \<and>
    jb_lease_id r = None \<and> jb_last_error r = Some err \<and> jb_attempt_count r = jb_attempt_count j \<and>
    (if jb_max_attempts j \<le> jb_attempt_count j
     then jb_state r = Job_FAILED \<and> (\<forall>now. \<not> claimable_job now r)
     else jb_state r = Job_RETRY \<and> (\<forall>now. claimable_job now r \<longleftrightarrow> x \<le> now)) \<and>
    (\<exists>as a. list_job_attempts u k s = as @ [a] \<and>
       list_job_attempts u k s' = as @ [a\<lparr>at_finished_at := Some (clk e 0), at_error := Some err\<rparr>])"
proof -
  note j = active_jobE[OF assms(2)]
  from assms(1) j(1,3) obtain xs where xs: "map_of (st_job_attempts s) k = Some xs" "xs \<noteq> []"
    unfolding store_ok_def attempts_ok_def by blast
  have u: "update_last_attempt k f (st_job_attempts s) = Inr (AList.update k (butlast xs @ [f (last xs)]) (st_job_attempts s))" for f
    using xs by (simp add: update_last_attempt_def)
  have "list_job_attempts u k s = butlast xs @ [last xs]"
    using j xs by (simp add: list_job_attempts_def scoped_def)
  with assms(2) j u show ?thesis
    by (auto simp: retry_job_def Let_def update_conv' claimable_job_def list_job_attempts_def scoped_def)
qed

definition sample_attempt :: job_attempt where
  "sample_attempt = \<lparr>at_id = 45, at_tenant_id = 1, at_job_id = 40, at_attempt = 3, at_started_at = 8,
     at_finished_at = None, at_error = None\<rparr>"

text \<open>The job of the sample store in its third and last attempt.\<close>

definition last_attempt_store :: store where
  "last_attempt_store = sample_store\<lparr>
     st_jobs := [(40, sample_job\<lparr>jb_state := Job_RUNNING, jb_attempt_count := 3,
       jb_lease_id := Some 44, jb_lease_expires_at := Some 50\<rparr>)],
     st_job_attempts := [(40, [sample_attempt])]\<rparr>"

lemma last_attempt_store_ok: "store_ok last_attempt_store"
  by (simp add: last_attempt_store_def sample_attempt_def
      samples empty_store_def store_ok_def keys_ok_def refs_ok_def refers_def has_row_def
      leases_ok_def lease_ok_def keyed_def turn_ok_def valid_turn_def job_ok_def valid_job_def
      valid_approval_def valid_capability_def str_between_def attempts_ok_def ran_def)

theorem retry_job_bounded_witness:
  "\<exists>r s'. retry_job sample_env 1 40 44 \<lparr>je_type = ''E'', je_message = ''m''\<rparr> 200 last_attempt_store = (Inr r, s') \<and>
     jb_state r = Job_FAILED"
proof -
  obtain j where j: "active_job last_attempt_store 1 40 44 = Inr j" "jb_max_attempts j \<le> jb_attempt_count j"
    by (simp add: last_attempt_store_def samples active_job_def scoped_def)
  from retry_job_bounded[OF last_attempt_store_ok j(1), of sample_env "\<lparr>je_type = ''E'', je_message = ''m''\<rparr>" 200]
  show ?thesis using j(2) by fastforce
qed

text \<open>
  The bound is only looked at by a retry: when the oldest claimable job is a running one with an
  expired lease, which a worker that died leaves behind, a claim takes an attempt beyond the limit.
\<close>

theorem claim_job_ignores_limit:
  assumes "find (claimable_job (clk e 0)) (sort_key jb_created_at (dict_values (st_jobs s))) = Some j"
    and "jb_state j = Job_RUNNING" and "jb_max_attempts j \<le> jb_attempt_count j"
  shows "\<exists>c s'. claim_job e lid x s = (Inr (Some c), s') \<and> map_of (st_jobs s') (jb_id j) = Some c \<and>
    jb_state c = Job_RUNNING \<and> jb_max_attempts c < jb_attempt_count c"
  using assms by (simp add: claim_job_def Let_def update_conv')

theorem claim_job_ignores_limit_witness:
  "\<exists>c s'. claim_job sample_env 46 300 last_attempt_store = (Inr (Some c), s') \<and>
     jb_max_attempts c < jb_attempt_count c"
proof -
  let ?j = "sample_job\<lparr>jb_state := Job_RUNNING, jb_attempt_count := 3,
       jb_lease_id := Some 44, jb_lease_expires_at := Some 50\<rparr>"
  have "find (claimable_job (clk sample_env 0)) (sort_key jb_created_at (dict_values (st_jobs last_attempt_store))) = Some ?j"
    by (simp add: last_attempt_store_def samples claimable_job_def)
  moreover have "jb_state ?j = Job_RUNNING" "jb_max_attempts ?j \<le> jb_attempt_count ?j"
    by (simp_all add: sample_job_def)
  ultimately show ?thesis using claim_job_ignores_limit by blast
qed

end
