(* ===== verification/MemoryProperties.thy ===== *)
theory MemoryProperties
  imports Samples
begin

text \<open>
  What the memory, persona and migration operations promise: no duplicate of a live memory, reviews
  that move a memory once, reads that hide what is deleted or unreviewed, persona versions without
  gaps, and a rollback that removes everything a batch imported.
\<close>

section \<open>Memories\<close>

text \<open>
  A memory is filed once per normalized content: a call returns the live memory of the tenant with
  that content, new or old, and a later call with the same content returns the same one and changes
  nothing.
\<close>

theorem upsert_memory_idempotent:
  assumes "upsert_memory m evs s = (Inr r, s')" and "mr_state m \<noteq> Mem_DELETED"
    and "mr_tenant_id m' = mr_tenant_id m" and "mr_normalized_content m' = mr_normalized_content m"
  shows "mr_tenant_id r = mr_tenant_id m \<and> mr_normalized_content r = mr_normalized_content m \<and>
    mr_state r \<noteq> Mem_DELETED \<and> upsert_memory m' evs' s' = (Inr r, s')"
proof (cases "find (\<lambda>x. mr_tenant_id x = mr_tenant_id m \<and> mr_normalized_content x = mr_normalized_content m \<and>
    mr_state x \<noteq> Mem_DELETED) (dict_values (st_memories s))")
  case (Some x)
  with find_mem[OF Some] assms show ?thesis by (simp add: upsert_memory_def)
next
  case None
  with find_update[OF None, of m "mr_id m"] assms show ?thesis by (auto simp: upsert_memory_def)
qed

theorem upsert_memory_idempotent_witness:
  "upsert_memory (sample_memory\<lparr>mr_id := 51\<rparr>) [] (snd (upsert_memory sample_memory [] empty_store)) =
     (Inr sample_memory, snd (upsert_memory sample_memory [] empty_store))"
proof -
  have "upsert_memory sample_memory [] empty_store = (Inr sample_memory, snd (upsert_memory sample_memory [] empty_store))"
    by (simp add: upsert_memory_def empty_store_def)
  from upsert_memory_idempotent[OF this, of "sample_memory\<lparr>mr_id := 51\<rparr>"] show ?thesis
    by (simp add: sample_memory_def)
qed

text \<open>
  A deleted memory is gone for its tenant: after a successful deletion no listing shows it, a
  second deletion, a review and a pin fail, and its content can be filed again as a new memory.
\<close>

theorem delete_memory_hides:
  assumes "delete_memory e u k actor s = (Inr r, s')" and "keyed mr_id (st_memories s)"
  shows "mr_state r = Mem_DELETED \<and> mr_id r = k \<and> map_of (st_memories s') k = Some r \<and>
    (\<forall>m \<in> set (list_memories u b s'). mr_id m \<noteq> k) \<and>
    (\<exists>err. delete_memory e' u k actor' s' = (Inl err, s')) \<and>
    (\<exists>err. review_memory e' u k p actor' rid s' = (Inl err, s')) \<and>
    (\<exists>err. pin_memory e' u k pinned actor' s' = (Inl err, s'))"
proof -
  from assms(1) obtain m where m: "map_of (st_memories s) k = Some m" "mr_tenant_id m = u"
    and r: "r = m\<lparr>mr_state := Mem_DELETED, mr_deleted_at := Some (clk e 0), mr_updated_at := clk e 0\<rparr>"
    and s': "st_memories s' = AList.update k r (st_memories s)"
    by (auto simp: delete_memory_def Let_def split: option.splits if_splits)
  from m assms(2) have id: "mr_id m = k" by (auto dest: keyed_mapof)
  then have k': "keyed mr_id (st_memories s')" using assms(2) r s' by auto
  have r': "map_of (st_memories s') k = Some r" by (simp add: s' update_conv')
  have "mr_id x \<noteq> k" if "x \<in> set (list_memories u b s')" for x
  proof
    assume "mr_id x = k"
    moreover from that have "x \<in> set (dict_values (st_memories s'))" "mr_state x \<noteq> Mem_DELETED"
      by (auto simp: list_memories_def)
    ultimately have "x = r" using r' keyed_values[OF k', of x] by simp
    with \<open>mr_state x \<noteq> Mem_DELETED\<close> r show False by simp
  qed
  then show ?thesis using r r' id m(2)
    by (simp add: delete_memory_def review_memory_def pin_memory_def scoped_def)
qed

theorem delete_memory_hides_witness:
  "list_memories 1 True (snd (delete_memory sample_env 1 50 2 sample_store)) = [] \<and>
   (\<exists>err. fst (delete_memory (env_at 200) 1 50 2 (snd (delete_memory sample_env 1 50 2 sample_store))) = Inl err)"
proof -
  obtain r where r: "delete_memory sample_env 1 50 2 sample_store =
      (Inr r, snd (delete_memory sample_env 1 50 2 sample_store))"
    by (simp add: samples delete_memory_def scoped_def Let_def)
  have k: "keyed mr_id (st_memories sample_store)" by (simp add: samples keyed_def)
  from delete_memory_hides[OF r k] have "\<exists>err. delete_memory (env_at 200) 1 50 2
      (snd (delete_memory sample_env 1 50 2 sample_store)) = (Inl err, snd (delete_memory sample_env 1 50 2 sample_store))"
    by blast
  moreover have "list_memories 1 True (snd (delete_memory sample_env 1 50 2 sample_store)) = []"
    by (simp add: samples delete_memory_def scoped_def Let_def list_memories_def)
  ultimately show ?thesis by auto
qed

text \<open>
  A listing shows exactly the tenant's memories that are not deleted, only the promoted ones
  unless candidates are asked for, the least recently updated first.
\<close>

theorem list_memories_visible:
  "set (list_memories u b s) = {m \<in> set (dict_values (st_memories s)). mr_tenant_id m = u \<and>
      (mr_state m = Mem_PROMOTED \<or> b \<and> mr_state m \<in> {Mem_CANDIDATE, Mem_REJECTED})} \<and>
   sorted (map mr_updated_at (list_memories u b s))"
proof
  have "mr_state m \<noteq> Mem_DELETED \<longleftrightarrow> mr_state m \<in> {Mem_PROMOTED, Mem_CANDIDATE, Mem_REJECTED}" for m
    by (cases "mr_state m") auto
  then show "set (list_memories u b s) = {m \<in> set (dict_values (st_memories s)). mr_tenant_id m = u \<and>
      (mr_state m = Mem_PROMOTED \<or> b \<and> mr_state m \<in> {Mem_CANDIDATE, Mem_REJECTED})}"
    unfolding list_memories_def by auto
  have "sorted (map mr_updated_at (filter P (sort_key mr_updated_at xs)))" for P and xs :: "memory_record list"
    by (rule sorted_filter) simp
  then show "sorted (map mr_updated_at (list_memories u b s))" unfolding list_memories_def .
qed

text \<open>
  A review moves a candidate once: it becomes promoted and confirmed or rejected, under the
  reviewer's name; a promotion that replaces a promoted memory deletes that one; a second review of the
  same memory fails; no other memory changes.
\<close>

theorem review_memory_once:
  assumes "store_ok s" and "review_memory e u k promote actor rid s = (Inr r, s')"
  shows "map_of (st_memories s') k = Some r \<and>
    mr_state r = (if promote then Mem_PROMOTED else Mem_REJECTED) \<and> mr_confirmed r = promote \<and>
    mr_reviewed_by r = Some actor \<and>
    (\<forall>x. rid = Some x \<longrightarrow> promote \<and> x \<noteq> k \<and>
       (\<exists>old. map_of (st_memories s) x = Some old \<and> mr_state old = Mem_PROMOTED \<and> mr_tenant_id old = u \<and>
          map_of (st_memories s') x = Some (old\<lparr>mr_state := Mem_DELETED,
            mr_deleted_at := Some (clk e 0), mr_updated_at := clk e 0\<rparr>))) \<and>
    (\<forall>j. j \<noteq> k \<longrightarrow> Some j \<noteq> rid \<longrightarrow> map_of (st_memories s') j = map_of (st_memories s) j) \<and>
    (\<exists>err. review_memory e' u k promote' actor' rid' s' = (Inl err, s'))"
proof -
  from assms(2) obtain m rep where m: "map_of (st_memories s) k = Some m" "mr_tenant_id m = u"
    "mr_state m = Mem_CANDIDATE" and rep: "check_replacement s u promote rid = Inr rep"
    by (auto simp: review_memory_def split: option.splits if_splits sum.splits)
  have sc: "scoped mr_tenant_id (st_memories s) u k = Some m" using m by simp
  define r' where "r' = m\<lparr>mr_state := (if promote then Mem_PROMOTED else Mem_REJECTED),
    mr_confirmed := promote, mr_contradiction_of := rid, mr_reviewed_at := Some (clk e 0),
    mr_reviewed_by := Some actor, mr_updated_at := clk e 0\<rparr>"
  note eq = assms(2)[unfolded review_memory_def sc rep Let_def option.case sum.case m(3) r'_def[symmetric]]
  show ?thesis
  proof (cases rep)
    case None
    then have "rid = None" using rep by (auto simp: check_replacement_def split: option.splits if_splits)
    moreover have "r = r'" "st_memories s' = AList.update k r' (st_memories s)"
      using eq None by auto
    ultimately show ?thesis using m
      by (auto simp: update_conv' r'_def review_memory_def scoped_def)
  next
    case (Some x)
    note x = check_replacementE[OF rep[unfolded Some]]
    obtain y where y: "rid = Some y" "promote"
      using rep Some by (auto simp: check_replacement_def split: option.splits if_splits)
    with x have xy: "map_of (st_memories s) y = Some x" by simp
    from memory_key[OF assms(1) this] have id: "mr_id x = y" .
    have "y \<noteq> k" using xy m x(3) by auto
    moreover have "r = r'" "st_memories s' = AList.update y (x\<lparr>mr_state := Mem_DELETED,
        mr_deleted_at := Some (clk e 0), mr_updated_at := clk e 0\<rparr>) (AList.update k r' (st_memories s))"
      using eq Some id by auto
    ultimately show ?thesis using m y x xy
      by (auto simp: update_conv' r'_def review_memory_def scoped_def)
  qed
qed

theorem review_memory_once_witness:
  "\<exists>err. fst (review_memory (env_at 200) 1 50 False 2 None
     (snd (review_memory sample_env 1 50 True 2 None sample_store))) = Inl err"
proof -
  obtain r where r: "review_memory sample_env 1 50 True 2 None sample_store =
      (Inr r, snd (review_memory sample_env 1 50 True 2 None sample_store))"
    by (simp add: samples review_memory_def check_replacement_def scoped_def Let_def)
  from review_memory_once[OF sample_store_ok r, of "env_at 200" False 2 None]
  show ?thesis by (metis fst_conv)
qed

section \<open>Migration batches\<close>

text \<open>The rows a loop of writes leaves.\<close>

lemma write_memories_lookup:
  assumes "distinct (map mr_id ms)"
  shows "map_of (write_memories ms tbl) j =
    (case find (\<lambda>m. mr_id m = j) ms of Some m \<Rightarrow> Some m | None \<Rightarrow> map_of tbl j)"
  using assms
proof (induction ms arbitrary: tbl)
  case Nil
  then show ?case by (simp add: write_memories_simps)
next
  case (Cons m ms)
  have "find (\<lambda>x. mr_id x = mr_id m) ms = None" using Cons.prems by (simp add: find_None_iff image_iff) metis
  with Cons show ?case by (auto simp: write_memories_simps update_conv' split: option.split)
qed

text \<open>The loop over the memories of a batch rewrites each of them and no other.\<close>

lemma write_filtered_lookup:
  assumes k: "keyed mr_id tbl" and id: "\<And>m. mr_id (f m) = mr_id m"
  shows "map_of (write_memories (map f (filter P (dict_values tbl))) tbl) j =
    map_option (\<lambda>m. if P m then f m else m) (map_of tbl j)"
proof -
  let ?ms = "map f (filter P (dict_values tbl))"
  have mid: "map mr_id ?ms = map mr_id (filter P (dict_values tbl))" using id by simp
  have d: "distinct (map mr_id ?ms)"
    unfolding mid by (rule distinct_map_filter[OF keyed_distinct_values[OF k]])
  have inj: "m = m'" if "m \<in> set (dict_values tbl)" "m' \<in> set (dict_values tbl)" "mr_id m = mr_id m'" for m m'
    using that keyed_values[OF k] by (metis option.inject)
  show ?thesis
  proof (cases "\<exists>m \<in> set (dict_values tbl). P m \<and> mr_id m = j")
    case True
    then obtain m where m: "m \<in> set (dict_values tbl)" "P m" "mr_id m = j" by blast
    have "find (\<lambda>x. mr_id x = j) ?ms \<noteq> None" using m id by (auto simp: find_None_iff)
    then obtain x where x: "find (\<lambda>x. mr_id x = j) ?ms = Some x" by blast
    from find_mem[OF x] obtain m' where m': "m' \<in> set (dict_values tbl)" "x = f m'" "mr_id (f m') = j" by auto
    with inj[OF m(1) m'(1)] m(3) id have "x = f m" by simp
    moreover have "map_of tbl j = Some m" using m keyed_values[OF k, of m] by simp
    ultimately show ?thesis using x m(2) write_memories_lookup[OF d, of tbl j] by simp
  next
    case False
    then have "find (\<lambda>x. mr_id x = j) ?ms = None" using id by (auto simp: find_None_iff)
    moreover have "\<not> P m" if "map_of tbl j = Some m" for m
      using False that keyed_mapof[OF k that] map_of_SomeD[OF that] by force
    ultimately show ?thesis using write_memories_lookup[OF d, of tbl j]
      by (cases "map_of tbl j") simp_all
  qed
qed

text \<open>
  A rollback deletes exactly the live memories of the batch: no memory of the batch is live
  afterwards, every other memory is as before, the deleted ones are returned, and the batch can be
  neither activated nor rolled back again.
\<close>

theorem rollback_removes_import:
  assumes "store_ok s" and "rollback_migration_batch e u k actor s = (Inr (b, ds), s')"
  shows "(\<forall>j m. map_of (st_memories s') j = Some m \<longrightarrow> mr_import_batch_id m = Some k \<longrightarrow> mr_state m = Mem_DELETED) \<and>
    (\<forall>j m. map_of (st_memories s) j = Some m \<longrightarrow> mr_import_batch_id m \<noteq> Some k \<longrightarrow>
       map_of (st_memories s') j = Some m) \<and>
    (\<forall>d. d \<in> set ds \<longleftrightarrow> (\<exists>m \<in> set (dict_values (st_memories s)). mr_import_batch_id m = Some k \<and>
       mr_state m \<noteq> Mem_DELETED \<and> d = delete_imported (clk e 0) m)) \<and>
    map_of (st_migration_batches s') k = Some b \<and> mb_state b = Batch_ROLLED_BACK \<and>
    (\<exists>err. rollback_migration_batch e' u k actor' s' = (Inl err, s')) \<and>
    (\<exists>err. activate_migration_batch e' u k actor' core s' = (Inl err, s'))"
proof -
  let ?P = "\<lambda>m. mr_import_batch_id m = Some k \<and> mr_state m \<noteq> Mem_DELETED"
  from assms(2) have ds: "ds = map (delete_imported (clk e 0)) (filter ?P (dict_values (st_memories s)))"
    and mem: "st_memories s' = write_memories ds (st_memories s)"
    and b: "map_of (st_migration_batches s') k = Some b" "mb_state b = Batch_ROLLED_BACK" "mb_tenant_id b = u"
    by (auto simp: rollback_migration_batch_def Let_def update_conv' split: option.splits if_splits)
  have lk: "map_of (st_memories s') j =
      map_option (\<lambda>m. if ?P m then delete_imported (clk e 0) m else m) (map_of (st_memories s) j)" for j
    unfolding mem ds by (rule write_filtered_lookup[OF memory_keyed[OF assms(1)]]) (simp add: delete_imported_def)
  have "mr_state m = Mem_DELETED" if "map_of (st_memories s') j = Some m" "mr_import_batch_id m = Some k" for j m
  proof -
    from that(1) obtain m0 where "m = (if ?P m0 then delete_imported (clk e 0) m0 else m0)" unfolding lk by auto
    with that(2) show ?thesis by (cases "?P m0") (simp_all add: delete_imported_def)
  qed
  moreover have "map_of (st_memories s') j = Some m"
    if "map_of (st_memories s) j = Some m" "mr_import_batch_id m \<noteq> Some k" for j m
    using that unfolding lk by simp
  moreover have "d \<in> set ds \<longleftrightarrow> (\<exists>m \<in> set (dict_values (st_memories s)). ?P m \<and> d = delete_imported (clk e 0) m)" for d
    unfolding ds by auto
  moreover have "\<exists>err. rollback_migration_batch e' u k actor' s' = (Inl err, s')"
    using b by (simp add: rollback_migration_batch_def scoped_def)
  moreover have "\<exists>err. activate_migration_batch e' u k actor' core s' = (Inl err, s')"
    using b by (cases core) (simp_all add: activate_migration_batch_def scoped_def)
  ultimately show ?thesis using b by blast
qed

text \<open>The sample memory as the import of a staged batch.\<close>

definition import_store :: store where
  "import_store = sample_store\<lparr>st_migration_batches := [(55, sample_batch)],
     st_memories := [(50, sample_memory\<lparr>mr_import_batch_id := Some 55\<rparr>)]\<rparr>"

lemma import_store_ok: "store_ok import_store"
  by (simp add: import_store_def
      samples empty_store_def store_ok_def keys_ok_def refs_ok_def refers_def has_row_def
      leases_ok_def lease_ok_def keyed_def turn_ok_def valid_turn_def job_ok_def valid_job_def
      valid_approval_def valid_capability_def str_between_def attempts_ok_def ran_def)

theorem rollback_removes_import_witness:
  "\<exists>b d s'. rollback_migration_batch sample_env 1 55 2 import_store = (Inr (b, [d]), s') \<and>
     mr_state d = Mem_DELETED \<and> mb_state b = Batch_ROLLED_BACK"
proof -
  obtain b d s' where r: "rollback_migration_batch sample_env 1 55 2 import_store = (Inr (b, [d]), s')"
    by (simp add: import_store_def samples rollback_migration_batch_def scoped_def Let_def)
  from rollback_removes_import[OF import_store_ok r] have b: "mb_state b = Batch_ROLLED_BACK"
    and ds: "\<forall>x. x \<in> set [d] \<longleftrightarrow> (\<exists>m \<in> set (dict_values (st_memories import_store)). mr_import_batch_id m = Some 55 \<and>
       mr_state m \<noteq> Mem_DELETED \<and> x = delete_imported (clk sample_env 0) m)" by blast+
  from ds[THEN spec, of d] obtain m where "d = delete_imported (clk sample_env 0) m" by auto
  with r b show ?thesis by (auto simp: delete_imported_def)
qed

lemma next_persona_version:
  "p \<in> set (dict_values (st_personas s)) \<Longrightarrow> pp_tenant_id p = u \<Longrightarrow> pp_version p < next_persona_version u s"
proof -
  assume p: "p \<in> set (dict_values (st_personas s))" "pp_tenant_id p = u"
  let ?vs = "map pp_version (filter (\<lambda>p. pp_tenant_id p = u) (dict_values (st_personas s)))"
  from p have mem: "pp_version p \<in> set ?vs" by auto
  show ?thesis
  proof (cases ?vs)
    case Nil
    with mem show ?thesis by simp
  next
    case (Cons v vs)
    with mem have "pp_version p \<le> Max (set (v # vs))" by simp
    also have "\<dots> = fold max vs v" by (rule Max.set_eq_fold)
    finally show ?thesis using Cons unfolding next_persona_version_def by simp
  qed
qed

text \<open>
  Activating a staged batch promotes and confirms every candidate it imported and no other
  memory, makes the authored persona the tenant's active one under the next version number, and
  cannot be repeated.
\<close>

theorem activate_promotes_import:
  assumes "store_ok s" and "activate_migration_batch e u k actor (Some core) s = (Inr b, s')"
  shows "(\<forall>j. map_of (st_memories s') j =
      map_option (\<lambda>m. if mr_tenant_id m = u \<and> mr_import_batch_id m = Some k \<and> mr_state m = Mem_CANDIDATE
        then promote_imported (clk e 0) actor m else m) (map_of (st_memories s) j)) \<and>
    (\<exists>m \<in> set (dict_values (st_memories s')). mr_import_batch_id m = Some k \<and> mr_state m = Mem_PROMOTED) \<and>
    (\<exists>p. get_active_persona u s' = Some p \<and> pp_tenant_id p = u \<and> pp_authored_core p = core \<and>
       mb_persona_profile_id b = Some (pp_id p) \<and>
       (\<forall>q \<in> set (dict_values (st_personas s)). pp_tenant_id q = u \<longrightarrow> pp_version q < pp_version p)) \<and>
    map_of (st_migration_batches s') k = Some b \<and> mb_state b = Batch_ACTIVE \<and>
    (\<exists>err. activate_migration_batch e' u k actor' core' s' = (Inl err, s'))"
proof -
  let ?M = "\<lambda>m. mr_tenant_id m = u \<and> mr_import_batch_id m = Some k"
  let ?P = "\<lambda>m. ?M m \<and> mr_state m = Mem_CANDIDATE"
  let ?f = "promote_imported (clk e 0) actor"
  have ff: "filter (\<lambda>m. mr_state m = Mem_CANDIDATE) (filter ?M xs) = filter ?P xs" for xs
    by (simp add: conj_commute conj_left_commute)
  from assms(2) obtain m0 where m0: "m0 \<in> set (dict_values (st_memories s))" "?M m0"
    "mr_state m0 = Mem_CANDIDATE \<or> mr_state m0 = Mem_PROMOTED"
    unfolding activate_migration_batch_def Let_def by (auto simp: list_ex_iff split: option.splits if_splits)
  from assms(2) have mem: "st_memories s' = write_memories (map ?f (filter ?P (dict_values (st_memories s)))) (st_memories s)"
    and b: "map_of (st_migration_batches s') k = Some b" "mb_state b = Batch_ACTIVE" "mb_tenant_id b = u"
    and per: "\<exists>p. get_active_persona u s' = Some p \<and> pp_tenant_id p = u \<and> pp_authored_core p = core \<and>
       mb_persona_profile_id b = Some (pp_id p) \<and> pp_version p = next_persona_version u s"
    unfolding activate_migration_batch_def Let_def ff
    by (auto simp: update_conv' get_active_persona_def split: option.splits if_splits simp del: list_ex_iff)
  have lk: "map_of (st_memories s') j = map_option (\<lambda>m. if ?P m then ?f m else m) (map_of (st_memories s) j)" for j
    unfolding mem by (rule write_filtered_lookup[OF memory_keyed[OF assms(1)]]) (simp add: promote_imported_def)
  have "map_of (st_memories s) (mr_id m0) = Some m0"
    using m0(1) keyed_values[OF memory_keyed[OF assms(1)], of m0] by simp
  with lk[of "mr_id m0"] m0(2,3) obtain m1 where "map_of (st_memories s') (mr_id m0) = Some m1"
    "mr_import_batch_id m1 = Some k" "mr_state m1 = Mem_PROMOTED"
    by (auto simp: promote_imported_def)
  then have "\<exists>m \<in> set (dict_values (st_memories s')). mr_import_batch_id m = Some k \<and> mr_state m = Mem_PROMOTED"
    by (force dest: map_of_SomeD)
  moreover have "\<exists>err. activate_migration_batch e' u k actor' core' s' = (Inl err, s')"
    using b by (cases core') (simp_all add: activate_migration_batch_def scoped_def)
  ultimately show ?thesis using b lk per next_persona_version[of _ s u] by auto
qed

theorem activate_promotes_import_witness:
  "\<exists>b s' m. activate_migration_batch sample_env 1 55 2 (Some sample_core) import_store = (Inr b, s') \<and>
     m \<in> set (dict_values (st_memories s')) \<and> mr_import_batch_id m = Some 55 \<and> mr_state m = Mem_PROMOTED"
proof -
  obtain b s' where r: "activate_migration_batch sample_env 1 55 2 (Some sample_core) import_store = (Inr b, s')"
    by (simp add: import_store_def samples activate_migration_batch_def scoped_def Let_def)
  from activate_promotes_import[OF import_store_ok r] r show ?thesis by blast
qed

section \<open>Personas\<close>

text \<open>
  A new persona profile is accepted only under the version number that follows all versions of
  its tenant, and then it is the active one; going back to a version the tenant has makes that one
  active again and drops no profile.
\<close>

theorem persona_versions:
  assumes "store_ok s" and "map_of (st_personas s) (pp_id p) = None"
    and "create_persona_profile e p actor s = (Inr r, s')" and "q \<in> set (dict_values (st_personas s))"
    and "pp_tenant_id q = pp_tenant_id p"
  shows "pp_version q < pp_version p \<and> get_active_persona (pp_tenant_id p) s' = Some p \<and>
    (\<exists>q' s''. revert_persona_profile e' (pp_tenant_id p) (pp_version q) actor' s' = (Inr q', s'') \<and>
       pp_version q' = pp_version q \<and> st_personas s'' = st_personas s' \<and>
       get_active_persona (pp_tenant_id p) s'' = Some q')"
proof -
  from assms(3) have v: "pp_version p = next_persona_version (pp_tenant_id p) s"
    and s': "st_personas s' = AList.update (pp_id p) p (st_personas s)"
    "get_active_persona (pp_tenant_id p) s' = Some p"
    by (auto simp: create_persona_profile_def get_active_persona_def update_conv' split: if_splits)
  have k: "keyed pp_id (st_personas s')" using persona_keyed[OF assms(1)] s' by auto
  from assms(4) keyed_values[OF persona_keyed[OF assms(1)], of q]
  have q: "map_of (st_personas s) (pp_id q) = Some q" by simp
  then have "map_of (st_personas s') (pp_id q) = Some q" using assms(2) s' by (auto simp: update_conv')
  then have mem: "q \<in> set (dict_values (st_personas s'))" using keyed_values[OF k, of q] by simp
  let ?P = "\<lambda>x. pp_tenant_id x = pp_tenant_id p \<and> pp_version x = pp_version q"
  obtain q' where q': "find ?P (dict_values (st_personas s')) = Some q'"
    using mem assms(5) by (cases "find ?P (dict_values (st_personas s'))") (auto simp: find_None_iff)
  from find_values[OF k q'] have "map_of (st_personas s') (pp_id q') = Some q'" "?P q'" by auto
  with q' have "\<exists>s''. revert_persona_profile e' (pp_tenant_id p) (pp_version q) actor' s' = (Inr q', s'') \<and>
      pp_version q' = pp_version q \<and> st_personas s'' = st_personas s' \<and>
      get_active_persona (pp_tenant_id p) s'' = Some q'"
    by (simp add: revert_persona_profile_def get_active_persona_def update_conv')
  then show ?thesis
    using v s'(2) next_persona_version[OF assms(4,5)] by auto
qed

theorem persona_versions_witness:
  "\<exists>r s'. create_persona_profile sample_env (sample_persona\<lparr>pp_id := 66, pp_version := 2\<rparr>) 2 sample_store = (Inr r, s') \<and>
     get_active_persona 1 s' = Some (sample_persona\<lparr>pp_id := 66, pp_version := 2\<rparr>)"
proof -
  let ?p = "sample_persona\<lparr>pp_id := 66, pp_version := 2\<rparr>"
  obtain r s' where r: "create_persona_profile sample_env ?p 2 sample_store = (Inr r, s')"
    by (simp add: samples create_persona_profile_def next_persona_version_def)
  have "map_of (st_personas sample_store) (pp_id ?p) = None"
    "sample_persona \<in> set (dict_values (st_personas sample_store))" "pp_tenant_id sample_persona = pp_tenant_id ?p"
    by (simp_all add: samples)
  from persona_versions[OF sample_store_ok this(1) r this(2,3)] r
  show ?thesis by (auto simp: sample_persona_def)
qed

end
