(* ===== verification/TaskProperties.thy ===== *)
theory TaskProperties
  imports Samples
begin

text \<open>
  What the operations on agents, tasks, leases and approvals promise: the right task goes to the right
  agent, one agent holds a task, a completion needs its approvals, a paused turn resumes when its
  delegated work is over, decisions are final; and what a revocation leaves open.
\<close>

section \<open>Leasing\<close>

text \<open>
  C29: A lease is granted on the oldest task of the tenant the agent may take: one that is pending or
  whose lease has expired, that is not meant for another agent, and all of whose capabilities the
  agent has; a task meant for the agent also needs it to be active, trusted and seen within two
  minutes. Afterwards the task is leased, the new lease is the only one on it, and it is valid for the
  agent until it expires.
\<close>

theorem lease_task_eligible:
  assumes "store_ok s" and "map_of (st_leases s) (gen e 0) = None"
    and "lease_task e u a x s = (Inr (Some (t', l)), s')"
  shows "\<exists>t ara. map_of (st_tasks s) (tk_id t) = Some t \<and> t' = t\<lparr>tk_state := Task_LEASED\<rparr> \<and>
    map_of (st_remote_agents s) a = Some ara \<and> ra_tenant_id ara = u \<and>
    leasable (clk e 0) u a ara (expired_task_ids (clk e 0) s) t \<and>
    (\<forall>k q. map_of (st_tasks s) k = Some q \<longrightarrow>
       leasable (clk e 0) u a ara (expired_task_ids (clk e 0) s) q \<longrightarrow> tk_created_at t \<le> tk_created_at q) \<and>
    (\<forall>k l'. map_of (st_leases s') k = Some l' \<longrightarrow> ls_task_id l' = tk_id t \<longrightarrow> l' = l) \<and>
    (\<forall>now < x. active_lease now s' u a (tk_id t) (ls_id l) = Inr (t', l))"
proof -
  from assms(3) obtain ara where ara: "scoped ra_tenant_id (st_remote_agents s) u a = Some ara"
    by (auto simp: lease_task_def split: option.splits)
  then have ara': "map_of (st_remote_agents s) a = Some ara" "ra_tenant_id ara = u" by auto
  let ?s1 = "s\<lparr>st_remote_agents := AList.update a (ara\<lparr>ra_last_seen_at := clk e 0\<rparr>) (st_remote_agents s)\<rparr>"
  have ex: "expired_task_ids now ?s1 = expired_task_ids now s" for now by (simp add: expired_task_ids_def)
  let ?P = "leasable (clk e 0) u a ara (expired_task_ids (clk e 0) s)"
  from assms(3) ara obtain t where t: "find ?P (sort_key tk_created_at (dict_values (st_tasks s))) = Some t"
    by (auto simp: lease_task_def Let_def ex simp del: scoped_Some_iff split: option.splits)
  from assms(3) ara t have l: "mk_lease (gen e 0) u (tk_id t) a (clk e 1) (Aware x) = Inr l"
    "t' = t\<lparr>tk_state := Task_LEASED\<rparr>"
    and s': "st_tasks s' = AList.update (tk_id t) t' (st_tasks s)"
    "st_leases s' = AList.update (ls_id l) l (filter (\<lambda>(k, l). ls_task_id l \<noteq> tk_id t) (st_leases s))"
    by (auto simp: lease_task_def Let_def ex simp del: scoped_Some_iff split: sum.splits)
  from l(1) have lf: "ls_id l = gen e 0" "ls_tenant_id l = u" "ls_task_id l = tk_id t" "ls_ara_id l = a"
    "ls_expires_at l = x" by (auto simp: mk_lease_def split: if_splits)
  have mem: "map_of (st_tasks s) k = Some q \<Longrightarrow> q \<in> set (dict_values (st_tasks s))" for k q
    by (force dest: map_of_SomeD)
  note f = find_sorted_values[OF task_keyed[OF assms(1)] t]
  have d: "distinct (map fst (st_leases s))" using assms(1) by (simp add: store_ok_def leases_ok_def)
  have "l' = l" if "map_of (st_leases s') k = Some l'" "ls_task_id l' = tk_id t" for k l'
  proof (cases "k = ls_id l")
    case False
    with that(1) have "map_of (filter (\<lambda>(k, l). ls_task_id l \<noteq> tk_id t) (st_leases s)) k = Some l'"
      by (simp add: s' update_conv')
    from map_of_SomeD[OF this] that(2) show ?thesis by simp
  qed (use that in \<open>simp add: s' update_conv'\<close>)
  moreover have "active_lease now s' u a (tk_id t) (ls_id l) = Inr (t', l)" if "now < x" for now
    using that f lf l(2) by (simp add: active_lease_def s' update_conv' scoped_def leasable_def)
  moreover have "\<forall>k q. map_of (st_tasks s) k = Some q \<longrightarrow> ?P q \<longrightarrow> tk_created_at t \<le> tk_created_at q"
    using find_sort_key_least[OF t] mem by blast
  ultimately show ?thesis using f ara' l(2) by blast
qed

text \<open>The sample task before it was leased.\<close>

definition open_task_store :: store where
  "open_task_store = sample_store\<lparr>st_tasks := [(70, sample_task)], st_leases := []\<rparr>"

lemma open_task_store_ok: "store_ok open_task_store"
  by (simp add: open_task_store_def
      samples empty_store_def store_ok_def keys_ok_def refs_ok_def refers_def has_row_def
      leases_ok_def lease_ok_def keyed_def turn_ok_def valid_turn_def job_ok_def valid_job_def
      valid_approval_def valid_capability_def str_between_def attempts_ok_def ran_def)

theorem lease_task_eligible_witness:
  "\<exists>t l s'. lease_task sample_env 1 60 400 open_task_store = (Inr (Some (t, l)), s') \<and>
     active_lease 399 s' 1 60 70 900 = Inr (t, l)"
proof -
  obtain t l s' where r: "lease_task sample_env 1 60 400 open_task_store = (Inr (Some (t, l)), s')"
    "tk_id t = 70" "ls_id l = 900"
    by (simp add: open_task_store_def samples lease_task_def scoped_def leasable_def has_capabilities_def
        mk_lease_def Let_def)
  have "map_of (st_leases open_task_store) (gen sample_env 0) = None"
    by (simp add: open_task_store_def)
  from lease_task_eligible[OF open_task_store_ok this r(1)] r show ?thesis by force
qed

text \<open>
  One agent at a time holds a task: two leases that both pass the lease check for the same task
  are the same lease, of the same agent.
\<close>

theorem one_active_lease:
  assumes "store_ok s" and "active_lease now s u a k lid = Inr (t, l)"
    and "active_lease now' s u' a' k lid' = Inr (t', l')" and "lid \<noteq> k" and "lid' \<noteq> k"
  shows "lid = lid' \<and> a = a' \<and> u = u'"
proof -
  note 1 = active_leaseE[OF assms(2)] and 2 = active_leaseE[OF assms(3)]
  from assms(1) 1(3,6) 2(3,6) assms(4,5) have "lid = lid'"
    unfolding store_ok_def leases_ok_def by metis
  with 1 2 show ?thesis by auto
qed

theorem one_active_lease_witness:
  "\<exists>t l. active_lease 100 sample_store 1 60 70 80 = Inr (t, l) \<and> (80 :: uuid) = 80"
proof -
  obtain t l where r: "active_lease 100 sample_store 1 60 70 80 = Inr (t, l)"
    by (simp add: samples active_lease_def scoped_def)
  from one_active_lease[OF sample_store_ok r r] r show ?thesis by auto
qed

section \<open>Revocation\<close>

text \<open>The loop of a revocation only writes at task identifiers.\<close>

lemma expire_leases_other:
  "(\<forall>l \<in> set ls. ls_task_id l \<noteq> k) \<Longrightarrow> map_of (expire_leases e u a n ls tbl) k = map_of tbl k"
  by (induction e u a n ls tbl rule: expire_leases.induct) (auto simp: update_conv')

lemma expire_leases_at:
  "map_of (expire_leases e u a n ls tbl) k = Some l \<Longrightarrow>
     \<forall>l. map_of tbl k = Some l \<longrightarrow> ls_task_id l = k \<Longrightarrow> ls_task_id l = k"
proof (induction ls arbitrary: n tbl)
  case Nil
  then show ?case by simp
next
  case (Cons x ls)
  have "\<forall>l. map_of (AList.update (ls_task_id x) (x\<lparr>ls_expires_at := t\<rparr>) tbl) k = Some l \<longrightarrow> ls_task_id l = k" for t
    using Cons.prems(2) by (simp add: update_conv')
  from Cons.IH[OF _ this] Cons.IH[OF _ Cons.prems(2)] Cons.prems(1) show ?case
    by (simp split: if_splits)
qed

lemma active_lease_wrong_task:
  "(\<And>l. map_of (st_leases s) lid = Some l \<Longrightarrow> ls_task_id l \<noteq> k) \<Longrightarrow>
     active_lease now s u a k lid = Inl (LifecycleNotFoundError ''task or lease not found'')"
  by (auto simp: active_lease_def split: option.split)

text \<open>A lease stored under its own identifier passes the check after the loop as before.\<close>

lemma expired_lease_check:
  assumes "store_ok s" and "lid \<noteq> k" and s': "st_tasks s' = st_tasks s"
    "st_leases s' = expire_leases e u a 0 (dict_values (st_leases s)) (st_leases s)"
  shows "active_lease now s' v b k lid = active_lease now s v b k lid"
proof (cases "\<exists>l \<in> set (dict_values (st_leases s)). ls_task_id l = lid")
  case False
  then have "map_of (st_leases s') lid = map_of (st_leases s) lid"
    unfolding s' by (intro expire_leases_other) auto
  then show ?thesis by (simp add: active_lease_def s')
next
  case True
  then have task: "map_of (st_tasks s) lid \<noteq> None"
    using stored_lease_ok[OF assms(1)] by (auto simp: has_row_def)
  have at: "ls_task_id l = lid" if "map_of (st_leases s) lid = Some l" for l
  proof -
    from assms(1) that have "lease_ok (st_tasks s) lid l" by (simp add: store_ok_def leases_ok_def)
    with task show ?thesis by (auto simp: lease_ok_def)
  qed
  have "ls_task_id l = lid" if "map_of (st_leases s') lid = Some l" for l
    using expire_leases_at[OF that[unfolded s']] at by blast
  with at assms(2) show ?thesis by (simp add: active_lease_wrong_task)
qed

text \<open>
  A revocation takes the agent's status and trust for good, and no task meant for it is leased to
  it any more; but every lease it holds, stored under the lease's own identifier, passes the lease
  check as before, so the revoked agent still reports progress and finishes its tasks.
\<close>

theorem revocation_keeps_leases:
  assumes "store_ok s" and "revoke_remote_agent e u a actor s = (Inr r, s')"
  shows "map_of (st_remote_agents s') a = Some r \<and> ra_status r = Ara_REVOKED \<and> ra_trust_level r = 0 \<and>
    (\<forall>now ids t. tk_target_ara_id t = Some a \<longrightarrow> \<not> leasable now u a r ids t) \<and>
    (\<exists>err. set_remote_agent_trust e' u a lvl actor' s' = (Inl err, s')) \<and>
    (\<forall>now k lid. lid \<noteq> k \<longrightarrow> active_lease now s' u a k lid = active_lease now s u a k lid)"
proof -
  from assms(2) have r: "map_of (st_remote_agents s') a = Some r" "ra_status r = Ara_REVOKED"
    "ra_trust_level r = 0" "ra_tenant_id r = u"
    and s': "st_tasks s' = st_tasks s"
      "st_leases s' = expire_leases e u a 0 (dict_values (st_leases s)) (st_leases s)"
    by (auto simp: revoke_remote_agent_def Let_def update_conv' split: option.splits)
  then show ?thesis using expired_lease_check[OF assms(1) _ s']
    by (simp add: leasable_def set_remote_agent_trust_def scoped_def)
qed

theorem revocation_keeps_leases_witness:
  "\<exists>r s'. revoke_remote_agent sample_env 1 60 2 sample_store = (Inr r, s') \<and>
     (\<exists>t l. active_lease 200 s' 1 60 70 80 = Inr (t, l))"
proof -
  obtain r s' where r: "revoke_remote_agent sample_env 1 60 2 sample_store = (Inr r, s')"
    by (simp add: samples revoke_remote_agent_def scoped_def Let_def)
  obtain t l where l: "active_lease 200 sample_store 1 60 70 80 = Inr (t, l)"
    by (simp add: samples active_lease_def scoped_def)
  from revocation_keeps_leases[OF sample_store_ok r]
  have "active_lease 200 s' 1 60 70 80 = active_lease 200 sample_store 1 60 70 80" by simp
  with r l show ?thesis by auto
qed

section \<open>Finishing a task\<close>

lemma approval_gate_None:
  "approval_gate req aps cs = None \<longleftrightarrow>
     (\<forall>c \<in> set cs. allowed (evaluate_capability c req (map_option ap_state (find (\<lambda>a. ap_capability a = c) aps))))"
  by (induction req aps cs rule: approval_gate.induct) (auto simp: Let_def)

lemma granted_approvals_mem:
  "p \<in> set (granted_approvals s u k) \<longleftrightarrow> p \<in> set (dict_values (st_approvals s)) \<and> ap_state p = Appr_GRANTED \<and>
     (ap_task_id p = Some k \<or>
      (\<exists>i \<in> set (dict_values (st_tool_invocations s)). iv_tenant_id i = u \<and> iv_task_id i = Some k \<and>
         ap_tool_invocation_id p = Some (iv_id i)))"
  unfolding granted_approvals_def by auto

lemma finish_taskE:
  assumes "finish_task e u a k lid st d arts s = (Inr r, s')"
  obtains t l where "active_lease (clk e 0) s u a k lid = Inr (t, l)"
    "st = Task_COMPLETED \<Longrightarrow> approval_gate (tk_required_capabilities t) (granted_approvals s u k)
       (tk_required_capabilities t) = None"
    "r = t\<lparr>tk_state := st, tk_result := Some d, tk_completed_at := Some (clk e 1),
       tk_completed_by_ara_id := Some a\<rparr>"
    "\<And>f. f \<in> set arts \<Longrightarrow> af_tenant_id f = u \<and> af_task_id f = k"
proof -
  from assms obtain t l where 1: "active_lease (clk e 0) s u a k lid = Inr (t, l)"
    and 2: "(if st = Task_COMPLETED then approval_gate (tk_required_capabilities t) (granted_approvals s u k)
       (tk_required_capabilities t) else None) = None"
    and 3: "list_all (\<lambda>a. af_tenant_id a = u \<and> af_task_id a = k) arts"
    unfolding finish_task_def Let_def by (auto split: sum.splits if_splits option.splits)
  moreover have "r = t\<lparr>tk_state := st, tk_result := Some d, tk_completed_at := Some (clk e 1),
       tk_completed_by_ara_id := Some a\<rparr>"
    using assms unfolding finish_task_def Let_def 1 using 2 3
    by (auto split: prod.splits option.splits if_splits)
  ultimately show ?thesis using that[OF 1] by (cases "st = Task_COMPLETED") (simp_all add: list_all_iff)
qed

text \<open>
  C19: A task is completed only by the agent that holds an unexpired lease on it, with artifacts of that
  task, and only when every capability it requires beyond reading files carries a granted approval of
  the task or of one of its tool invocations.
\<close>

theorem completion_needs_approvals:
  assumes "finish_task e u a k lid Task_COMPLETED d arts s = (Inr r, s')"
  shows "(\<exists>t l. active_lease (clk e 0) s u a k lid = Inr (t, l) \<and>
       tk_required_capabilities t = tk_required_capabilities r) \<and>
    tk_state r = Task_COMPLETED \<and> tk_completed_by_ara_id r = Some a \<and>
    (\<forall>f \<in> set arts. af_tenant_id f = u \<and> af_task_id f = k) \<and>
    (\<forall>c \<in> set (tk_required_capabilities r). cap_kind c \<noteq> FILE_READ \<longrightarrow>
       (\<exists>p \<in> set (dict_values (st_approvals s)). ap_capability p = c \<and> ap_state p = Appr_GRANTED \<and>
          (ap_task_id p = Some k \<or>
           (\<exists>i \<in> set (dict_values (st_tool_invocations s)). iv_tenant_id i = u \<and> iv_task_id i = Some k \<and>
              ap_tool_invocation_id p = Some (iv_id i)))))"
proof -
  obtain t l where l: "active_lease (clk e 0) s u a k lid = Inr (t, l)"
    and gate: "approval_gate (tk_required_capabilities t) (granted_approvals s u k)
       (tk_required_capabilities t) = None"
    and r: "r = t\<lparr>tk_state := Task_COMPLETED, tk_result := Some d, tk_completed_at := Some (clk e 1),
       tk_completed_by_ara_id := Some a\<rparr>"
    and own: "\<And>f. f \<in> set arts \<Longrightarrow> af_tenant_id f = u \<and> af_task_id f = k"
    using finish_taskE[OF assms] by metis
  have "\<exists>p \<in> set (granted_approvals s u k). ap_capability p = c"
    if "c \<in> set (tk_required_capabilities t)" "cap_kind c \<noteq> FILE_READ" for c
  proof -
    from gate that have "map_option ap_state (find (\<lambda>a. ap_capability a = c) (granted_approvals s u k)) = Some Appr_GRANTED"
      by (fastforce simp: approval_gate_None evaluate_capability_def split: if_splits)
    then obtain p where "find (\<lambda>a. ap_capability a = c) (granted_approvals s u k) = Some p" by auto
    with find_mem[OF this] show ?thesis by blast
  qed
  with l r own show ?thesis by (fastforce simp: granted_approvals_mem)
qed

text \<open>The sample store once the approval has been granted.\<close>

definition granted_store :: store where
  "granted_store = snd (decide_approval sample_env 1 90 Appr_GRANTED 2 sample_store)"

lemma granted_store_ok: "store_ok granted_store"
  unfolding granted_store_def using decide_approval_rows[OF sample_store_ok] sample_store_ok
  by (rule row_steps_store_ok)

lemma granted_store_finish:
  obtains r s' where "finish_task sample_env 1 60 70 80 Task_COMPLETED ''done'' [] granted_store = (Inr r, s')"
    "tk_required_capabilities r = [sample_capability]" "tk_target_ara_id r = None"
    "finish_task sample_env 1 60 70 80 Task_COMPLETED ''done'' [] sample_store =
       (Inl (LifecycleConflictError ''impactful capability requires approval''), sample_store)"
proof -
  have "\<exists>r s'. finish_task sample_env 1 60 70 80 Task_COMPLETED ''done'' [] granted_store = (Inr r, s') \<and>
      tk_required_capabilities r = [sample_capability] \<and> tk_target_ara_id r = None"
    by (simp add: granted_store_def samples decide_approval_def scoped_def Let_def finish_task_def
        active_lease_def granted_approvals_def evaluate_capability_def close_invocation_def)
  moreover have "finish_task sample_env 1 60 70 80 Task_COMPLETED ''done'' [] sample_store =
       (Inl (LifecycleConflictError ''impactful capability requires approval''), sample_store)"
    by (simp add: samples scoped_def Let_def finish_task_def active_lease_def granted_approvals_def
        evaluate_capability_def)
  ultimately show ?thesis using that by blast
qed

theorem completion_needs_approvals_witness:
  "\<exists>p \<in> set (dict_values (st_approvals granted_store)).
     ap_capability p = sample_capability \<and> ap_state p = Appr_GRANTED"
proof -
  obtain r s' where r: "finish_task sample_env 1 60 70 80 Task_COMPLETED ''done'' [] granted_store = (Inr r, s')"
    "tk_required_capabilities r = [sample_capability]" using granted_store_finish by metis
  have "cap_kind sample_capability \<noteq> FILE_READ" by (simp add: samples)
  with completion_needs_approvals[OF r(1)] r(2) show ?thesis by fastforce
qed

definition agents_done :: "(uuid, tool_invocation) dict \<Rightarrow> uuid \<Rightarrow> bool" where
  "agents_done invs turn_id \<longleftrightarrow>
     (\<exists>j \<in> set (dict_values invs). iv_turn_id j = turn_id \<and> iv_target j = Target_ARA) \<and>
     (\<forall>j \<in> set (dict_values invs). iv_turn_id j = turn_id \<longrightarrow> iv_target j = Target_ARA \<longrightarrow>
        terminal_invocation (iv_state j))"

lemma agents_done_filter:
  "(let sib = filter (\<lambda>j. iv_turn_id j = k \<and> iv_target j = Target_ARA) (dict_values invs)
    in sib \<noteq> [] \<and> list_all (\<lambda>j. terminal_invocation (iv_state j)) sib) = agents_done invs k"
  by (auto simp: agents_done_def filter_empty_conv list_all_iff)

definition closed_invocation :: "env \<Rightarrow> task_state \<Rightarrow> tool_invocation \<Rightarrow> tool_invocation" where
  "closed_invocation e st i = i\<lparr>iv_state := (if st = Task_COMPLETED then Inv_COMPLETED else Inv_FAILED),
     iv_updated_at := clk e 2, iv_completed_at := Some (clk e 3)\<rparr>"

lemma close_invocation_result:
  fixes e s i st
  defines "invs \<equiv> AList.update (iv_id i) (closed_invocation e st i) (st_tool_invocations s)"
  assumes "map_of (st_turns s) (iv_turn_id i) = Some t"
  shows "close_invocation e st i s = (None, s\<lparr>st_tool_invocations := invs,
    st_turns := (if agents_done invs (tn_id t)
      then AList.update (tn_id t) (t\<lparr>tn_state := Turn_PENDING, tn_updated_at := clk e 4\<rparr>) (st_turns s)
      else st_turns s)\<rparr>)"
  using assms(2) agents_done_filter[of "tn_id t" invs]
  unfolding close_invocation_def Let_def closed_invocation_def[symmetric] invs_def
  by (cases "agents_done invs (tn_id t)") (simp_all add: invs_def, auto)

text \<open>
  C34: When an agent finishes a task that was delegated from a turn, the task's invocation is closed,
  completed or failed, and the turn goes back to pending exactly when every invocation of the turn that
  was sent to an agent is terminal; otherwise the turn waits unchanged.
\<close>

theorem finish_task_resumes_turn:
  assumes ok: "store_ok s" and fin: "finish_task e u a k lid st d arts s = (Inr r, s')"
    and i: "find (\<lambda>i. iv_task_id i = Some k) (dict_values (st_tool_invocations s)) = Some i"
    and t: "map_of (st_turns s) (iv_turn_id i) = Some t"
  shows "map_of (st_tool_invocations s') (iv_id i) = Some (closed_invocation e st i) \<and>
    map_of (st_turns s') (iv_turn_id i) = Some
      (if agents_done (st_tool_invocations s') (iv_turn_id i)
       then t\<lparr>tn_state := Turn_PENDING, tn_updated_at := clk e 4\<rparr> else t)"
proof -
  have id: "tn_id t = iv_turn_id i" by (rule turn_key[OF ok t])
  obtain q l where 1: "active_lease (clk e 0) s u a k lid = Inr (q, l)"
    and 2: "(if st = Task_COMPLETED then approval_gate (tk_required_capabilities q) (granted_approvals s u k)
       (tk_required_capabilities q) else None) = None"
    and 3: "list_all (\<lambda>a. af_tenant_id a = u \<and> af_task_id a = k) arts"
    using finish_taskE[OF fin] by (metis (mono_tags, lifting) list_all_iff)
  have st: "(st \<notin> {Task_COMPLETED, Task_FAILED, Task_CANCELLED}) = False"
  proof (rule ccontr)
    assume "(st \<notin> {Task_COMPLETED, Task_FAILED, Task_CANCELLED}) \<noteq> False"
    then have "st \<notin> {Task_COMPLETED, Task_FAILED, Task_CANCELLED}" by blast
    with fin show False unfolding finish_task_def by (simp only: if_True not_False_eq_True) simp
  qed
  let ?q = "q\<lparr>tk_state := st, tk_result := Some d, tk_completed_at := Some (clk e 1),
    tk_completed_by_ara_id := Some a\<rparr>"
  let ?s = "s\<lparr>st_tasks := AList.update k ?q (st_tasks s)\<rparr>"
  have i': "find (\<lambda>i. iv_task_id i = Some k) (dict_values (st_tool_invocations ?s)) = Some i" using i by simp
  have t': "map_of (st_turns ?s) (iv_turn_id i) = Some t" using t by simp
  note c = close_invocation_result[OF t', of e st]
  show ?thesis
    using fin unfolding finish_task_def Let_def 1 sum.case prod.case 2 option.case i' c st if_False
    using 3 t id by (auto simp: update_conv' split: if_splits)
qed

theorem finish_task_resumes_turn_witness:
  "\<exists>r s' t. finish_task sample_env 1 60 70 80 Task_COMPLETED ''done'' [] granted_store = (Inr r, s') \<and>
     map_of (st_turns s') 30 = Some t \<and> tn_state t = Turn_PENDING"
proof -
  obtain r s' where r: "finish_task sample_env 1 60 70 80 Task_COMPLETED ''done'' [] granted_store = (Inr r, s')"
    using granted_store_finish by metis
  let ?i = "sample_invocation\<lparr>iv_task_id := Some 70\<rparr>"
  have i: "find (\<lambda>i. iv_task_id i = Some 70) (dict_values (st_tool_invocations granted_store)) = Some ?i"
    and t: "map_of (st_turns granted_store) (iv_turn_id ?i) = Some sample_running_turn"
    and inv: "st_tool_invocations granted_store = [(35, ?i)]"
    by (simp_all add: granted_store_def samples decide_approval_def scoped_def Let_def)
  have "st_tool_invocations (snd (finish_task sample_env 1 60 70 80 Task_COMPLETED ''done'' [] granted_store)) =
      [(35, ?i\<lparr>iv_state := Inv_COMPLETED, iv_updated_at := 100, iv_completed_at := Some 100\<rparr>)]"
    by (simp add: granted_store_def samples decide_approval_def scoped_def Let_def finish_task_def
        active_lease_def granted_approvals_def evaluate_capability_def close_invocation_def
        terminal_invocation_def)
  then have "st_tool_invocations s' = [(35, ?i\<lparr>iv_state := Inv_COMPLETED, iv_updated_at := 100, iv_completed_at := Some 100\<rparr>)]"
    unfolding r snd_conv .
  with finish_task_resumes_turn[OF granted_store_ok r i t] r show ?thesis
    by (simp add: agents_done_def sample_invocation_def terminal_invocation_def)
qed

text \<open>
  A finished task does not stay finished: its lease stays in the store, and from the lease's expiry
  on every agent of the tenant that has the capabilities of the task, when the task is not meant for one
  agent, is offered it again, whatever terminal state it is in; its result can be overwritten.
\<close>

theorem finished_task_available_again:
  assumes "store_ok s" and "finish_task e u a k lid st d arts s = (Inr r, s')"
    and "map_of (st_leases s) lid = Some l" and "ls_expires_at l \<le> now"
    and "tk_target_ara_id r = None" and "has_capabilities ara r"
  shows "tk_state r \<in> {Task_COMPLETED, Task_FAILED, Task_CANCELLED} \<and> map_of (st_tasks s') k = Some r \<and>
    leasable now u b ara (expired_task_ids now s') r"
proof -
  obtain t l' where act: "active_lease (clk e 0) s u a k lid = Inr (t, l')"
    and r: "r = t\<lparr>tk_state := st, tk_result := Some d, tk_completed_at := Some (clk e 1),
       tk_completed_by_ara_id := Some a\<rparr>"
    using finish_taskE[OF assms(2)] by metis
  note t = active_leaseE[OF act]
  have st: "st \<in> {Task_COMPLETED, Task_FAILED, Task_CANCELLED}"
  proof (rule ccontr)
    assume "st \<notin> {Task_COMPLETED, Task_FAILED, Task_CANCELLED}"
    with assms(2) show False unfolding finish_task_def by (simp only: if_True not_False_eq_True) simp
  qed
  from assms(2) have tables: "st_leases s' = st_leases s" "map_of (st_tasks s') k = Some r"
    unfolding finish_task_def Let_def close_invocation_def
    by (auto simp: update_conv' split: sum.splits option.splits if_splits)
  from assms(3) have "l \<in> set (dict_values (st_leases s))" by (force dest: map_of_SomeD)
  then have "ls_task_id l \<in> expired_task_ids now s'"
    using assms(4) unfolding expired_task_ids_def tables by auto
  then have "tk_id r \<in> expired_task_ids now s'"
    using t assms(3) task_key[OF assms(1) t(1)] r by simp
  then show ?thesis using tables(2) assms(5,6) st r t(2) by (auto simp: leasable_def)
qed

theorem finished_task_available_again_witness:
  "\<exists>r s'. finish_task sample_env 1 60 70 80 Task_COMPLETED ''done'' [] granted_store = (Inr r, s') \<and>
     leasable 600 1 60 sample_ara (expired_task_ids 600 s') r"
proof -
  obtain r s' where r: "finish_task sample_env 1 60 70 80 Task_COMPLETED ''done'' [] granted_store = (Inr r, s')"
    "tk_required_capabilities r = [sample_capability]" "tk_target_ara_id r = None"
    using granted_store_finish by metis
  have l: "map_of (st_leases granted_store) 80 = Some sample_lease"
    by (simp add: granted_store_def samples decide_approval_def scoped_def Let_def)
  have "ls_expires_at sample_lease \<le> 600" "has_capabilities sample_ara r"
    using r(2) by (simp_all add: samples has_capabilities_def)
  from finished_task_available_again[OF granted_store_ok r(1) l this(1) r(3) this(2)] r(1)
  show ?thesis by blast
qed

section \<open>Delegation\<close>

lemma eligible_aras_mem:
  "a \<in> set (eligible_aras now u t s) \<longleftrightarrow> a \<in> set (dict_values (st_remote_agents s)) \<and>
     ra_tenant_id a = u \<and> ra_status a = Ara_ACTIVE \<and> 0 < ra_trust_level a \<and>
     now - ra_last_seen_at a \<le> minutes 2 \<and> has_capabilities a t \<and>
     (\<forall>l \<in> set (dict_values (st_leases s)). ls_ara_id l = ra_id a \<longrightarrow> ls_expires_at l \<le> now)"
  unfolding eligible_aras_def Let_def set_sort set_filter set_map by (auto simp: not_less image_iff)

lemma eligible_aras_target: "eligible_aras now u (t\<lparr>tk_target_ara_id := x\<rparr>) s = eligible_aras now u t s"
  by (simp add: eligible_aras_def has_capabilities_def)

text \<open>The order of preference: the most trusted agent, the least identifier among equals.\<close>

definition preferred :: "remote_agent \<Rightarrow> remote_agent \<Rightarrow> bool" where
  "preferred a b \<longleftrightarrow> (- ra_trust_level a, ra_id a) \<le> (- ra_trust_level b, ra_id b)"

text \<open>
  The agent of the \<open>n\<close>-th task: it is eligible when it is looked for, and preferred to every eligible
  agent that is not taken.
\<close>

definition suited :: "env \<Rightarrow> uuid \<Rightarrow> store \<Rightarrow> uuid set \<Rightarrow> task \<Rightarrow> bool" where
  "suited e u s taken t \<longleftrightarrow> (\<exists>a i. tk_target_ara_id t = Some (ra_id a) \<and> ra_id a \<notin> taken \<and>
     a \<in> set (eligible_aras (clk e i) u t s) \<and>
     (\<forall>b \<in> set (eligible_aras (clk e i) u t s). ra_id b \<notin> taken \<longrightarrow> preferred a b))"

definition targets :: "task list \<Rightarrow> uuid set" where
  "targets ts = {a. Some a \<in> tk_target_ara_id ` set ts}"

lemma assign_step_suited:
  assumes a: "filter (\<lambda>a. ra_id a \<notin> taken) (eligible_aras (clk e i) u t s) = a # as"
  shows "suited e u s taken (t\<lparr>tk_target_ara_id := Some (ra_id a)\<rparr>)"
proof -
  have mem: "a \<in> set (eligible_aras (clk e i) u t s)" "ra_id a \<notin> taken"
    using a by (auto simp: filter_eq_Cons_iff)
  have "sorted (map (\<lambda>a. (- ra_trust_level a, ra_id a)) (filter (\<lambda>a. ra_id a \<notin> taken) (eligible_aras (clk e i) u t s)))"
    unfolding eligible_aras_def Let_def by (rule sorted_filter) (rule sorted_sort_key)
  with a have "\<forall>b \<in> set (filter (\<lambda>a. ra_id a \<notin> taken) (eligible_aras (clk e i) u t s)). preferred a b"
    by (auto simp: preferred_def)
  with mem show ?thesis
    unfolding suited_def eligible_aras_target by (intro exI[of _ a] exI[of _ i]) simp
qed

lemma assign_aras_suited:
  "assign_aras e u s i taken ts = Inr ts' \<Longrightarrow>
     (\<forall>n < length ts'. suited e u s (taken \<union> targets (take n ts')) (ts' ! n))"
proof (induction ts arbitrary: i taken ts')
  case Nil
  then show ?case by simp
next
  case (Cons t ts)
  from Cons.prems obtain a as rest where
    a: "filter (\<lambda>a. ra_id a \<notin> taken) (eligible_aras (clk e i) u t s) = a # as"
    and rest: "assign_aras e u s (Suc i) (insert (ra_id a) taken) ts = Inr rest"
    and ts': "ts' = t\<lparr>tk_target_ara_id := Some (ra_id a)\<rparr> # rest"
    by (auto split: list.splits sum.splits)
  have "suited e u s (taken \<union> targets (take n ts')) (ts' ! n)" if n: "n < length ts'" for n
  proof (cases n)
    case 0
    with assign_step_suited[OF a] show ?thesis by (simp add: ts' targets_def)
  next
    case (Suc m)
    have "targets (take n ts') = insert (ra_id a) (targets (take m rest))"
      by (auto simp: ts' Suc targets_def)
    with Cons.IH[OF rest] n Suc show ?thesis by (simp add: ts')
  qed
  then show ?case by blast
qed

lemma suited_distinct:
  "(\<forall>n < length ts. suited e u s (targets (take n ts)) (ts ! n)) \<Longrightarrow> distinct (map tk_target_ara_id ts)"
proof (induction ts rule: rev_induct)
  case Nil
  then show ?case by simp
next
  case (snoc t ts)
  have "\<forall>n < length ts. suited e u s (targets (take n ts)) (ts ! n)"
  proof (intro allI impI)
    fix n assume n: "n < length ts"
    with snoc.prems have "suited e u s (targets (take n (ts @ [t]))) ((ts @ [t]) ! n)" by simp
    with n show "suited e u s (targets (take n ts)) (ts ! n)" by (simp add: nth_append)
  qed
  moreover from snoc.prems have "suited e u s (targets ts) t" by (auto dest: spec[of _ "length ts"])
  then have "tk_target_ara_id t \<notin> tk_target_ara_id ` set ts"
    unfolding suited_def targets_def by (metis (mono_tags, lifting) mem_Collect_eq)
  ultimately show ?case using snoc.IH by simp
qed

lemma store_delegations_tasks:
  "store_delegations e u k n ps s = (None, s1) \<Longrightarrow> distinct (map (tk_id \<circ> fst) ps) \<Longrightarrow>
     (\<forall>p \<in> set ps. map_of (st_tasks s1) (tk_id (fst p)) = Some (fst p) \<and>
        iv_task_id (snd p) = Some (tk_id (fst p)) \<and> iv_turn_id (snd p) = k) \<and>
     (\<forall>j. j \<notin> (tk_id \<circ> fst) ` set ps \<longrightarrow> map_of (st_tasks s1) j = map_of (st_tasks s) j)"
proof (induction ps arbitrary: n s)
  case Nil
  then show ?case by simp
next
  case (Cons p ps)
  obtain t i where p: "p = (t, i)" by (cases p)
  from Cons.prems(1) have own: "iv_task_id i = Some (tk_id t)" "iv_turn_id i = k"
    by (auto simp: p split: if_splits)
  from Cons.prems(1) own have "\<exists>s2. st_tasks s2 = AList.update (tk_id t) t (st_tasks s) \<and>
      store_delegations e u k (n + 2) ps s2 = (None, s1)"
    by (simp add: p) (rule exI, rule conjI[rotated], assumption, simp)
  then obtain s2 where s2: "st_tasks s2 = AList.update (tk_id t) t (st_tasks s)"
    "store_delegations e u k (n + 2) ps s2 = (None, s1)" by blast
  from Cons.IH[OF s2(2)] Cons.prems(2) have *: "\<forall>p \<in> set ps. map_of (st_tasks s1) (tk_id (fst p)) = Some (fst p) \<and>
        iv_task_id (snd p) = Some (tk_id (fst p)) \<and> iv_turn_id (snd p) = k"
    "\<forall>j. j \<notin> (tk_id \<circ> fst) ` set ps \<longrightarrow> map_of (st_tasks s1) j = map_of (st_tasks s2) j" by simp_all
  have "tk_id t \<notin> (tk_id \<circ> fst) ` set ps" using Cons.prems(2) by (simp add: p)
  with *(2) s2(1) have "map_of (st_tasks s1) (tk_id t) = Some t" by (simp add: update_conv')
  with * own s2(1) show ?case by (auto simp: p update_conv')
qed

text \<open>
  C31: A delegation of several tasks gives each task to a different agent: to the most trusted active,
  trusted, recently seen, free and capable agent of the tenant that no earlier task of the plan took.
  The tasks are filed with their targets, each linked to its invocation of the turn, and the turn is
  paused without its lease.
\<close>

theorem delegation_assigns_distinct_agents:
  assumes "create_delegated_tasks e u k lid tasks invs cp s = (Inr ts, s')"
    and "distinct (map tk_id tasks)"
  shows "list_all2 (\<lambda>t t'. \<exists>a. t' = t\<lparr>tk_target_ara_id := Some a\<rparr>) tasks ts \<and>
    distinct (map tk_target_ara_id ts) \<and>
    (\<forall>n < length ts. suited e u s (targets (take n ts)) (ts ! n)) \<and>
    (\<forall>t \<in> set ts. map_of (st_tasks s') (tk_id t) = Some t) \<and>
    list_all2 (\<lambda>t i. iv_task_id i = Some (tk_id t) \<and> iv_turn_id i = k) ts invs \<and>
    (\<exists>t. map_of (st_turns s') k = Some t \<and> tn_state t = Turn_PAUSED \<and> tn_run_lease_id t = None \<and>
       tn_checkpoint t = cp)"
proof -
  from assms(1) obtain s1 where len: "length tasks = length invs"
    and as: "assign_aras e u s 1 {} tasks = Inr ts"
    and st: "store_delegations e u k 0 (zip ts invs) s = (None, s1)"
    and s': "st_tasks s' = st_tasks s1" "\<exists>t. map_of (st_turns s') k = Some t \<and> tn_state t = Turn_PAUSED \<and>
       tn_run_lease_id t = None \<and> tn_checkpoint t = cp"
    unfolding create_delegated_tasks_def
    by (auto simp: update_conv' split: sum.splits prod.splits option.splits if_splits)
  note tg = assign_aras_targets[OF as]
  have len': "length ts = length invs" using tg len by (simp add: list_all2_lengthD)
  have "map tk_id ts = map tk_id tasks" using tg by (induction rule: list_all2_induct) auto
  then have d: "distinct (map (tk_id \<circ> fst) (zip ts invs))"
    using assms(2) len' by (simp flip: map_map)
  note f = store_delegations_tasks[OF st d]
  have "list_all2 (\<lambda>t i. iv_task_id i = Some (tk_id t) \<and> iv_turn_id i = k) ts invs"
    using f len' by (auto simp: list_all2_iff)
  moreover have "map_of (st_tasks s1) (tk_id t) = Some t" if "t \<in> set ts" for t
  proof -
    from that len' obtain i where "(t, i) \<in> set (zip ts invs)" by (metis in_set_impl_in_set_zip1)
    with f show ?thesis by fastforce
  qed
  ultimately show ?thesis
    using assign_aras_suited[OF as] suited_distinct[of ts e u s] tg s' by simp
qed

theorem delegation_assigns_distinct_agents_witness:
  "\<exists>ts s'. create_delegated_tasks sample_env 1 30 33 [sample_task\<lparr>tk_id := 71\<rparr>]
       [sample_invocation\<lparr>iv_id := 36, iv_task_id := Some 71\<rparr>] [] (sample_store\<lparr>st_leases := []\<rparr>) = (Inr ts, s') \<and>
     map tk_target_ara_id ts = [Some 60] \<and> map_of (st_tasks s') 71 = Some (hd ts)"
proof -
  obtain ts s' where r: "create_delegated_tasks sample_env 1 30 33 [sample_task\<lparr>tk_id := 71\<rparr>]
       [sample_invocation\<lparr>iv_id := 36, iv_task_id := Some 71\<rparr>] [] (sample_store\<lparr>st_leases := []\<rparr>) = (Inr ts, s')"
    and ts: "map tk_target_ara_id ts = [Some 60]" "map tk_id ts = [71]"
    by (simp add: samples create_delegated_tasks_def active_turn_def scoped_def eligible_aras_def
        has_capabilities_def minutes_def seconds_def)
  from ts have "hd ts \<in> set ts" "tk_id (hd ts) = 71" by (cases ts; simp)+
  with delegation_assigns_distinct_agents[OF r] r ts(1) show ?thesis by auto
qed

section \<open>Decisions\<close>

lemma decide_invocation_result:
  assumes "map_of (st_tool_invocations s) k = Some i" and "map_of (st_turns s) (iv_turn_id i) = Some t"
    and "iv_id i = k" and "tn_id t = iv_turn_id i"
  shows "\<exists>s2 i' t'. decide_invocation e u st actor k s = (None, s2) \<and>
    map_of (st_tool_invocations s2) k = Some i' \<and> iv_turn_id i' = iv_turn_id i \<and>
    iv_state i' = (if st = Appr_GRANTED then Inv_PENDING else Inv_DENIED) \<and>
    map_of (st_turns s2) (iv_turn_id i) = Some t' \<and> tn_state t' = Turn_PENDING \<and>
    tn_tenant_id t' = tn_tenant_id t \<and> st_approvals s2 = st_approvals s"
  using assms by (simp add: decide_invocation_def Let_def update_conv')

text \<open>
  C35: A decision on an approval is final: the approval carries the decision, the same decision again
  returns it and changes nothing, the opposite one fails. When the approval was pending and belongs to
  a tool invocation, a grant returns the invocation to pending, a denial closes it, and the paused turn
  can be claimed again.
\<close>

theorem decide_approval_final:
  assumes "store_ok s" and dec: "decide_approval e u k st actor s = (Inr r, s')"
    and "map_of (st_approvals s) k = Some a"
  shows "map_of (st_approvals s') k = Some r \<and> ap_state r = st \<and>
    decide_approval e' u k st actor' s' = (Inr r, s') \<and>
    (\<forall>st'. st' \<noteq> st \<longrightarrow> (\<exists>err. decide_approval e' u k st' actor' s' = (Inl err, s'))) \<and>
    (\<forall>q. ap_state a = Appr_PENDING \<longrightarrow> ap_tool_invocation_id a = Some q \<longrightarrow>
       (\<exists>i t. map_of (st_tool_invocations s') q = Some i \<and>
          iv_state i = (if st = Appr_GRANTED then Inv_PENDING else Inv_DENIED) \<and>
          map_of (st_turns s') (iv_turn_id i) = Some t \<and> claimable_turn now u t))"
proof -
  from dec have st: "st \<in> {Appr_GRANTED, Appr_DENIED}"
    by (auto simp: decide_approval_def split: if_splits)
  from dec assms(3) have a: "ap_tenant_id a = u" by (auto simp: decide_approval_def scoped_def split: if_splits)
  have sc: "scoped ap_tenant_id (st_approvals s) u k = Some a" using assms(3) a by simp
  show ?thesis
  proof (cases "ap_state a = st")
    case True
    with dec sc st have "r = a" "s' = s" by (auto simp: decide_approval_def simp del: scoped_Some_iff)
    with True st sc assms(3) show ?thesis by (auto simp: decide_approval_def simp del: scoped_Some_iff)
  next
    case False
    let ?a = "a\<lparr>ap_state := st, ap_decided_at := Some (clk e 0), ap_decided_by := Some actor\<rparr>"
    let ?s = "s\<lparr>st_approvals := AList.update k ?a (st_approvals s)\<rparr>"
    from dec sc st False have pend: "ap_state a = Appr_PENDING"
      by (auto simp: decide_approval_def split: if_splits simp del: scoped_Some_iff)
    obtain sf where sf: "(case ap_tool_invocation_id a of None \<Rightarrow> (None, ?s)
        | Some q \<Rightarrow> decide_invocation e u st actor q ?s) = (None, sf)"
      and app: "st_approvals sf = st_approvals ?s"
      and inv: "\<forall>q. ap_tool_invocation_id a = Some q \<longrightarrow>
       (\<exists>i t. map_of (st_tool_invocations sf) q = Some i \<and>
          iv_state i = (if st = Appr_GRANTED then Inv_PENDING else Inv_DENIED) \<and>
          map_of (st_turns sf) (iv_turn_id i) = Some t \<and> claimable_turn now u t)"
    proof (cases "ap_tool_invocation_id a")
      case None
      then show ?thesis using that by simp
    next
      case (Some q)
      with approval_refs(1)[OF assms(1,3)] a obtain i where
        i: "map_of (st_tool_invocations s) q = Some i" "iv_tenant_id i = u" by (auto simp: has_row_def)
      obtain t where t: "map_of (st_turns s) (iv_turn_id i) = Some t" "tn_tenant_id t = iv_tenant_id i"
        using invocation_turn_row[OF assms(1) i(1)] .
      from decide_invocation_result[where s = ?s and k = q and i = i and t = t and st = st and e = e and u = u and actor = actor]
        i t invocation_key[OF assms(1) i(1)] turn_key[OF assms(1) t(1)] st Some
      show ?thesis using that by (fastforce simp: claimable_turn_def)
    qed
    have "(st \<notin> {Appr_GRANTED, Appr_DENIED}) = False" using st by blast
    then have "r = ?a \<and> st_approvals s' = st_approvals sf \<and> st_tool_invocations s' = st_tool_invocations sf \<and>
        st_turns s' = st_turns sf"
      using dec unfolding decide_approval_def Let_def
      using sc False pend sf by (auto split del: if_split simp del: scoped_Some_iff split: prod.splits)
    then show ?thesis using inv app st a pend
      by (auto simp: update_conv' decide_approval_def scoped_def)
  qed
qed

theorem decide_approval_final_witness:
  "decide_approval (env_at 200) 1 90 Appr_GRANTED 3 granted_store = (Inr (the (map_of (st_approvals granted_store) 90)), granted_store) \<and>
   (\<exists>err. decide_approval (env_at 200) 1 90 Appr_DENIED 3 granted_store = (Inl err, granted_store))"
proof -
  obtain r where r: "decide_approval sample_env 1 90 Appr_GRANTED 2 sample_store = (Inr r, granted_store)"
    by (simp add: granted_store_def samples decide_approval_def scoped_def Let_def)
  have a: "map_of (st_approvals sample_store) 90 = Some sample_approval" by (simp add: sample_store_def)
  from decide_approval_final[OF sample_store_ok r a, of "env_at 200" 3] show ?thesis by simp
qed

end
