(* ===== verification/RunProperties.thy ===== *)
theory RunProperties
  imports Samples
begin

text \<open>
  What holds of every run of the store, whatever calls of whatever tenants it consists of: the
  invariant, the isolation of tenants, the append-only audit log, the finality of what is decided,
  reversed, deleted or revoked, and the absence of internal lookup failures.
\<close>







text \<open>
  The audit log is append-only and rows are never dropped: along every run the earlier log is a
  prefix of the later one, and every row stays, at its key and with its tenant.
\<close>

theorem run_keeps_history:
  assumes "store_ok s" and "run s s'"
  shows "prefix (st_events s) (st_events s') \<and> store_evolves s s'"
proof (rule run_rows[OF assms(2,1), THEN conjunct1])
  fix a b c
  show "prefix (st_events a) (st_events a) \<and> store_evolves a a" by simp
  show "prefix (st_events a) (st_events c) \<and> store_evolves a c"
    if "prefix (st_events a) (st_events b) \<and> store_evolves a b"
      "prefix (st_events b) (st_events c) \<and> store_evolves b c"
    using that prefix_order.trans store_evolves_trans by blast
  show "prefix (st_events a) (st_events b) \<and> store_evolves a b" if "row_step u a b" for u
    using that row_step_log row_step_evolves by blast
qed

lemma run_call: "store_step u s s' \<Longrightarrow> run s s'"
  unfolding run_def by blast

theorem run_keeps_history_witness:
  "prefix (st_events sample_store) (st_events (snd (pause_turn sample_env 1 30 33 [] sample_store)))"
  using run_keeps_history[OF sample_store_ok run_call[OF step_pause_turn]] by blast

text \<open>The sample store once the approval has been denied.\<close>

definition decided_sample :: store where
  "decided_sample = snd (decide_approval sample_env 1 90 Appr_DENIED 2 sample_store)"

lemma final_rows_step:
  assumes "row_step u s s'"
  shows "(map_of (st_approvals s) k = Some a \<longrightarrow> ap_state a \<noteq> Appr_PENDING \<longrightarrow> map_of (st_approvals s') k = Some a) \<and>
    (map_of (st_learned_adaptations s) k = Some b \<longrightarrow> la_state b = Adapt_REVERSED \<longrightarrow>
       map_of (st_learned_adaptations s') k = Some b) \<and>
    (map_of (st_artifacts s) k = Some f \<longrightarrow> af_deleted_at f \<noteq> None \<longrightarrow> map_of (st_artifacts s') k = Some f)"
  using assms
  by (cases rule: row_step.cases)
     (auto simp: writes_def update_conv' approval_move_def adaptation_move_def artifact_move_def simp del: not_None_eq)

text \<open>
  What is decided stays decided: along every run an approval that was granted or denied, an
  adaptation that was reversed and an artifact that was deleted are the same rows for good.
\<close>

theorem decided_rows_final:
  assumes "store_ok s" and "run s s'"
  shows "(\<forall>k a. map_of (st_approvals s) k = Some a \<longrightarrow> ap_state a \<noteq> Appr_PENDING \<longrightarrow>
      map_of (st_approvals s') k = Some a) \<and>
    (\<forall>k b. map_of (st_learned_adaptations s) k = Some b \<longrightarrow> la_state b = Adapt_REVERSED \<longrightarrow>
      map_of (st_learned_adaptations s') k = Some b) \<and>
    (\<forall>k f. map_of (st_artifacts s) k = Some f \<longrightarrow> af_deleted_at f \<noteq> None \<longrightarrow>
      map_of (st_artifacts s') k = Some f)"
  by (rule run_rows[OF assms(2,1), THEN conjunct1]) (use final_rows_step in blast)+

theorem decided_rows_final_witness:
  "\<exists>a. map_of (st_approvals (snd (decide_approval sample_env 1 90 Appr_GRANTED 2 (decided_sample)))) 90 = Some a \<and>
     ap_state a = Appr_DENIED"
proof -
  have "store_ok decided_sample"
    unfolding decided_sample_def using decide_approval_rows[OF sample_store_ok] sample_store_ok
    by (rule row_steps_store_ok)
  from decided_rows_final[OF this run_call[OF step_decide_approval]]
  have "map_of (st_approvals decided_sample) 90 = Some a \<longrightarrow> ap_state a \<noteq> Appr_PENDING \<longrightarrow>
      map_of (st_approvals (snd (decide_approval sample_env 1 90 Appr_GRANTED 2 decided_sample))) 90 = Some a" for a
    by blast
  moreover have "\<exists>a. map_of (st_approvals decided_sample) 90 = Some a \<and> ap_state a = Appr_DENIED"
    by (simp add: decided_sample_def samples decide_approval_def scoped_def Let_def)
  ultimately show ?thesis by fastforce
qed

definition advanced :: "store \<Rightarrow> store \<Rightarrow> bool" where
  "advanced s s' \<longleftrightarrow>
    (\<forall>k m. map_of (st_memories s) k = Some m \<longrightarrow> (\<exists>m'. map_of (st_memories s') k = Some m' \<and>
      mr_state m \<le> mr_state m' \<and> mr_content m' = mr_content m \<and>
      mr_source_message_id m' = mr_source_message_id m)) \<and>
    (\<forall>k b. map_of (st_migration_batches s) k = Some b \<longrightarrow> (\<exists>b'. map_of (st_migration_batches s') k = Some b' \<and>
      mb_state b \<le> mb_state b')) \<and>
    (\<forall>k a. map_of (st_remote_agents s) k = Some a \<longrightarrow> ra_status a = Ara_REVOKED \<longrightarrow> ra_trust_level a = 0 \<longrightarrow>
      (\<exists>a'. map_of (st_remote_agents s') k = Some a' \<and> ra_status a' = Ara_REVOKED \<and> ra_trust_level a' = 0))"

lemma advanced_refl: "advanced s s"
  by (simp add: advanced_def)

lemma advanced_trans:
  assumes 1: "advanced a b" and 2: "advanced b c"
  shows "advanced a c"
  unfolding advanced_def
proof (intro conjI allI impI)
  fix k m assume "map_of (st_memories a) k = Some m"
  with 1 obtain m1 where "map_of (st_memories b) k = Some m1" "mr_state m \<le> mr_state m1"
    "mr_content m1 = mr_content m" "mr_source_message_id m1 = mr_source_message_id m"
    unfolding advanced_def by blast
  moreover from this(1) 2 obtain m2 where "map_of (st_memories c) k = Some m2" "mr_state m1 \<le> mr_state m2"
    "mr_content m2 = mr_content m1" "mr_source_message_id m2 = mr_source_message_id m1"
    unfolding advanced_def by blast
  ultimately show "\<exists>m'. map_of (st_memories c) k = Some m' \<and> mr_state m \<le> mr_state m' \<and>
      mr_content m' = mr_content m \<and> mr_source_message_id m' = mr_source_message_id m"
    by (auto intro: order.trans)
next
  fix k m assume "map_of (st_migration_batches a) k = Some m"
  with 1 2 show "\<exists>b'. map_of (st_migration_batches c) k = Some b' \<and> mb_state m \<le> mb_state b'"
    unfolding advanced_def by (meson order.trans)
next
  fix k m assume "map_of (st_remote_agents a) k = Some m" "ra_status m = Ara_REVOKED" "ra_trust_level m = 0"
  with 1 2 show "\<exists>a'. map_of (st_remote_agents c) k = Some a' \<and> ra_status a' = Ara_REVOKED \<and> ra_trust_level a' = 0"
    unfolding advanced_def by meson
qed

lemma writes_step:
  assumes "writes idf tenf new move u k x tbl" and "map_of tbl j = Some y"
    and "\<And>y. P y y" and "\<And>y. move y x \<Longrightarrow> P y x"
  shows "\<exists>z. map_of (AList.update k x tbl) j = Some z \<and> P y z"
  using assms by (cases "j = k") (auto simp: writes_def update_conv')

lemma advanced_step:
  assumes "row_step u s s'"
  shows "advanced s s'"
  using assms
proof cases
  case (row_memory k m)
  then show ?thesis
    using writes_step[OF row_memory(2), where P = "\<lambda>m m'. mr_state m \<le> mr_state m' \<and> mr_content m' = mr_content m \<and>
        mr_source_message_id m' = mr_source_message_id m"]
    by (simp add: advanced_def memory_move_def)
next
  case (row_batch k b)
  then show ?thesis
    using writes_step[OF row_batch(2), where P = "\<lambda>b b'. mb_state b \<le> mb_state b'"]
    by (simp add: advanced_def batch_move_def less_imp_le)
next
  case (row_ara k a)
  let ?P = "\<lambda>a a'. ra_status a = Ara_REVOKED \<longrightarrow> ra_trust_level a = 0 \<longrightarrow>
    ra_status a' = Ara_REVOKED \<and> ra_trust_level a' = 0"
  have mv: "?P y a" if "ara_move y a" for y using that by (auto simp: ara_move_def)
  have "\<exists>z. map_of (AList.update k a (st_remote_agents s)) j = Some z \<and> ?P y z"
    if "map_of (st_remote_agents s) j = Some y" for j y
    by (rule writes_step[OF row_ara(2) that]) (simp, rule mv)
  then show ?thesis using row_ara(1) unfolding advanced_def by fastforce
qed (auto simp: advanced_def)

text \<open>
  Life cycles only move forward along every run: a memory keeps its content and provenance and its
  state only advances, so a deleted or rejected memory never returns; a migration batch only advances;
  a revoked agent stays revoked without trust, also when it registers again.
\<close>

theorem life_cycles_advance:
  assumes "store_ok s" and "run s s'"
  shows "(\<forall>k m. map_of (st_memories s) k = Some m \<longrightarrow> (\<exists>m'. map_of (st_memories s') k = Some m' \<and>
      mr_state m \<le> mr_state m' \<and> mr_content m' = mr_content m \<and>
      mr_source_message_id m' = mr_source_message_id m)) \<and>
    (\<forall>k b. map_of (st_migration_batches s) k = Some b \<longrightarrow> (\<exists>b'. map_of (st_migration_batches s') k = Some b' \<and>
      mb_state b \<le> mb_state b')) \<and>
    (\<forall>k a. map_of (st_remote_agents s) k = Some a \<longrightarrow> ra_status a = Ara_REVOKED \<longrightarrow> ra_trust_level a = 0 \<longrightarrow>
      (\<exists>a'. map_of (st_remote_agents s') k = Some a' \<and> ra_status a' = Ara_REVOKED \<and> ra_trust_level a' = 0))"
proof -
  have "advanced s s'"
    by (rule run_rows[OF assms(2,1), THEN conjunct1])
       (rule advanced_refl, erule (1) advanced_trans, erule advanced_step)
  then show ?thesis unfolding advanced_def .
qed

theorem life_cycles_advance_witness:
  "\<exists>m. map_of (st_memories (snd (delete_memory sample_env 1 50 2 sample_store))) 50 = Some m \<and>
     Mem_CANDIDATE \<le> mr_state m \<and> mr_content m = ''Likes tea''"
proof -
  have "map_of (st_memories sample_store) 50 = Some sample_memory" by (simp add: sample_store_def)
  with life_cycles_advance[OF sample_store_ok run_call[OF step_delete_memory[where e = sample_env and u = 1 and memory_id = 50 and actor_id = 2]]]
  show ?thesis by (fastforce simp: sample_memory_def)
qed

section \<open>No internal failure\<close>

lemma internal_failure_iff: "internal_failure x \<longleftrightarrow> x = Inl KeyError \<or> x = Inl IndexError"
  by (cases x rule: internal_failure.cases) auto

lemma active_turn_error: "active_turn now s u k l = Inl err \<Longrightarrow> err \<noteq> KeyError \<and> err \<noteq> IndexError"
  by (auto simp: active_turn_def split: option.splits if_splits)

lemma active_job_error: "active_job s u k l = Inl err \<Longrightarrow> err \<noteq> KeyError \<and> err \<noteq> IndexError"
  by (auto simp: active_job_def split: option.splits if_splits)

lemma active_lease_error: "active_lease now s u a k l = Inl err \<Longrightarrow> err \<noteq> KeyError \<and> err \<noteq> IndexError"
  by (auto simp: active_lease_def split: option.splits if_splits)

lemma complete_turn_no_failure:
  assumes ok: "store_ok s"
  shows "\<not> internal_failure (fst (complete_turn e u k l m s))"
proof (cases "active_turn (clk e 0) s u k l")
  case (Inl err)
  then show ?thesis by (auto simp: complete_turn_def internal_failure_iff dest: active_turn_error)
next
  case (Inr t)
  from turn_conversation[OF ok active_turnE(1)[OF Inr]] obtain c where
    "map_of (st_conversations s) (tn_conversation_id t) = Some c" by (auto simp: has_row_def)
  with Inr show ?thesis by (auto simp: complete_turn_def Let_def internal_failure_iff)
qed

lemma job_end_no_failure:
  assumes ok: "store_ok s"
  shows "\<not> internal_failure (fst (complete_job e u k l s))"
    and "\<not> internal_failure (fst (retry_job e u k l err x s))"
proof -
  have u: "\<exists>atts. update_last_attempt k f (st_job_attempts s) = Inr atts"
    if "active_job s u k l = Inr j" for j f
    using running_attempt[OF ok active_jobE(1)[OF that] active_jobE(3)[OF that]] by blast
  show "\<not> internal_failure (fst (complete_job e u k l s))"
  proof (cases "active_job s u k l")
    case (Inr j)
    with u[OF Inr, of "\<lambda>a. a\<lparr>at_finished_at := Some (clk e 0)\<rparr>"] show ?thesis
      by (auto simp: complete_job_def Let_def internal_failure_iff)
  qed (auto simp: complete_job_def internal_failure_iff dest: active_job_error)
  show "\<not> internal_failure (fst (retry_job e u k l err x s))"
  proof (cases "active_job s u k l")
    case (Inr j)
    with u[OF Inr, of "\<lambda>a. a\<lparr>at_finished_at := Some (clk e 0), at_error := Some err\<rparr>"] show ?thesis
      by (auto simp: retry_job_def Let_def internal_failure_iff)
  qed (auto simp: retry_job_def internal_failure_iff dest: active_job_error)
qed

lemma finish_task_no_failure:
  assumes ok: "store_ok s"
  shows "\<not> internal_failure (fst (finish_task e u a k lid st d arts s))"
proof (cases "active_lease (clk e 0) s u a k lid")
  case (Inl err)
  then show ?thesis by (auto simp: finish_task_def internal_failure_iff dest: active_lease_error)
next
  case (Inr p)
  have *: "fst (close_invocation e st i (s\<lparr>st_tasks := T\<rparr>)) = None"
    if "find (\<lambda>i. iv_task_id i = Some k) (dict_values (st_tool_invocations s)) = Some i" for i T
  proof -
    from find_values[OF invocation_keyed[OF ok] that]
    have "map_of (st_tool_invocations s) (iv_id i) = Some i" by blast
    from invocation_turn_row[OF ok this] obtain t where "map_of (st_turns s) (iv_turn_id i) = Some t" by blast
    with close_invocation_turn[of "s\<lparr>st_tasks := T\<rparr>" i t e st] show ?thesis by simp
  qed
  then have "False" if "find (\<lambda>i. iv_task_id i = Some k) (dict_values (st_tool_invocations s)) = Some i"
    "close_invocation e st i (s\<lparr>st_tasks := T\<rparr>) = (Some err, s1)" for i T err s1
    using *[OF that(1), of T] that(2) by simp
  with Inr show ?thesis
    unfolding finish_task_def Let_def
    by (auto simp: internal_failure_iff split: prod.splits option.splits if_splits)
qed

lemma create_delegated_tasks_no_failure:
  assumes ok: "store_ok s"
  shows "\<not> internal_failure (fst (create_delegated_tasks e u k l tasks invs cp s))"
proof -
  have a: "err \<noteq> KeyError \<and> err \<noteq> IndexError" if "assign_aras e u s i sel ts = Inl err" for i sel ts err
    using that by (induction ts arbitrary: i sel) (auto split: list.splits sum.splits)
  have d: "err \<noteq> KeyError \<and> err \<noteq> IndexError" if "store_delegations e u k n ps s0 = (Some err, s1)" for n ps s0 s1 err
    using that by (induction e u k n ps s0 rule: store_delegations.induct) (auto split: if_splits)
  have t: "map_of (st_turns s1) k \<noteq> None"
    if "store_delegations e u k n ps s = (r, s1)" "active_turn (clk e 0) s u k l = Inr t" for n ps r s1 t
    using store_delegations_turns[of e u k n ps s] active_turnE(1)[OF that(2)] that(1) by simp
  show ?thesis
    unfolding create_delegated_tasks_def
    by (auto simp: internal_failure_iff dest: active_turn_error a d t split: sum.splits prod.splits option.splits)
qed

lemma approval_no_failure:
  assumes ok: "store_ok s"
  shows "\<not> internal_failure (fst (create_coordinator_approval e ap s))"
    and "\<not> internal_failure (fst (decide_approval e u k st actor s))"
proof -
  have "False" if "map_of (st_tool_invocations s) j = Some i" "map_of (st_turns s) (iv_turn_id i) = None" for i j
    using invocation_turn_row[OF ok that(1)] that(2) by fastforce
  then show "\<not> internal_failure (fst (create_coordinator_approval e ap s))"
    unfolding create_coordinator_approval_def
    by (auto simp: internal_failure_iff simp del: not_None_eq split: actor_type.splits option.splits)
  have *: "fst (decide_invocation e u st' actor j (s\<lparr>st_approvals := A\<rparr>)) = None"
    if "scoped ap_tenant_id (st_approvals s) u k = Some a" "ap_tool_invocation_id a = Some j" for a j A st'
  proof -
    from approval_refs(1)[OF ok _ that(2)] that(1) obtain i where
      i: "map_of (st_tool_invocations s) j = Some i" by (auto simp: has_row_def)
    from invocation_turn_row[OF ok i] obtain t where "map_of (st_turns s) (iv_turn_id i) = Some t" by blast
    with i show ?thesis by (simp add: decide_invocation_def Let_def)
  qed
  have no: "False" if "scoped ap_tenant_id (st_approvals s) u k = Some a" "ap_tool_invocation_id a = Some j"
    "decide_invocation e u st' actor j (s\<lparr>st_approvals := A\<rparr>) = (Some err, s1)" for a j A err s1 st'
    using *[OF that(1,2), of st' A] that(3) by simp
  show "\<not> internal_failure (fst (decide_approval e u k st actor s))"
    unfolding decide_approval_def Let_def
    by (auto simp: internal_failure_iff simp del: scoped_Some_iff dest: no split: prod.splits option.splits)
qed

text \<open>
  No call runs into an internal failure: on a well-formed store the lookups the code does without
  a check (the conversation of a turn, the turn of an invocation, the invocation of an approval, the
  last attempt of a job) succeed, so every error a caller sees is a lifecycle or validation error.
\<close>

theorem no_internal_failure:
  assumes "store_ok s"
  shows "\<not> internal_failure (fst (complete_turn e u k l m s)) \<and>
    \<not> internal_failure (fst (complete_job e u k l s)) \<and>
    \<not> internal_failure (fst (retry_job e u k l err x s)) \<and>
    \<not> internal_failure (fst (finish_task e u a k l tst d arts s)) \<and>
    \<not> internal_failure (fst (create_delegated_tasks e u k l tasks invs cp s)) \<and>
    \<not> internal_failure (fst (create_coordinator_approval e ap s)) \<and>
    \<not> internal_failure (fst (decide_approval e u k ast actor s))"
  using complete_turn_no_failure[OF assms] job_end_no_failure[OF assms] finish_task_no_failure[OF assms]
    create_delegated_tasks_no_failure[OF assms] approval_no_failure[OF assms] by simp

theorem no_internal_failure_witness:
  "\<not> internal_failure (fst (decide_approval sample_env 1 90 Appr_GRANTED 2 sample_store))"
  using no_internal_failure[OF sample_store_ok] by blast

end
