(* ===== verification/Context.thy ===== *)
theory Context
  imports Samples PyString
begin

text \<open>
  The context compilers of \<^verbatim>\<open>packages/memory/src/astra_memory/compiler.py\<close> and the memory-backed one of
  \<^verbatim>\<open>pipeline.py\<close>: the bounded briefing a model request starts with, the lexical recall of approved
  memories, and the optional compression by a local model. The interface \<^verbatim>\<open>ContextCompiler\<close> is the
  locale \<open>context_compiler\<close>, interpreted by all three.
\<close>

section \<open>The identity prefix\<close>

definition DEFAULT_PERSONA_IDENTITY :: string where
  "DEFAULT_PERSONA_IDENTITY = ''You are Astra.''"

definition IDENTITY_INVARIANT :: string where
  "IDENTITY_INVARIANT =
     ''Never claim to be Claude, Anthropic, OpenAI, or any underlying model or provider; '' @
     ''the provider is an implementation detail.''"

definition newline :: string where
  "newline = [CHR 0x0A]"

definition persona_identity_prefix :: "string \<Rightarrow> string" where
  "persona_identity_prefix identity =
     ''Identity: '' @ strip identity @ newline @ ''Identity invariant: '' @ IDENTITY_INVARIANT"

definition identity_prefix_from :: "string \<Rightarrow> string" where
  "identity_prefix_from content =
     (case splitlines content of
        [] \<Rightarrow> persona_identity_prefix DEFAULT_PERSONA_IDENTITY
      | line0 # lines \<Rightarrow>
          if \<not> prefix ''Identity: '' line0 then persona_identity_prefix DEFAULT_PERSONA_IDENTITY
          else (case lines of
                  line1 # _ \<Rightarrow>
                    if prefix ''Identity invariant: '' line1 then line0 @ newline @ line1
                    else line0 @ newline @ ''Identity invariant: '' @ IDENTITY_INVARIANT
                | [] \<Rightarrow> line0 @ newline @ ''Identity invariant: '' @ IDENTITY_INVARIANT))"

record context_briefing =
  cb_tenant_id :: uuid
  cb_content :: string
  cb_source_memory_ids :: "uuid list"
  cb_estimated_tokens :: int

definition estimate_tokens :: "string \<Rightarrow> int" where
  "estimate_tokens content = (int (length content) + 3) div 4"

section \<open>The interface of the compilers\<close>

text \<open>
  \<^verbatim>\<open>ContextCompiler\<close>: a briefing belongs to the tenant it was asked for, counts its tokens at four
  characters each, and within a positive budget its text has at most four characters per token.
\<close>

locale context_compiler =
  fixes compile :: "uuid \<Rightarrow> string \<Rightarrow> context_briefing"
    and max_tokens :: int
  assumes briefing_tenant: "cb_tenant_id (compile u objective) = u"
    and briefing_tokens: "cb_estimated_tokens (compile u objective) = estimate_tokens (cb_content (compile u objective))"
    and briefing_length: "0 < max_tokens \<Longrightarrow> int (length (cb_content (compile u objective))) \<le> 4 * max_tokens"
begin

lemma within_budget:
  "0 < max_tokens \<Longrightarrow> 0 \<le> cb_estimated_tokens (compile u objective) \<and>
     cb_estimated_tokens (compile u objective) \<le> max_tokens"
  using briefing_length[of u objective] unfolding briefing_tokens estimate_tokens_def by presburger

end

section \<open>The plain compiler\<close>

definition bounded_compile :: "string \<Rightarrow> int \<Rightarrow> uuid \<Rightarrow> string \<Rightarrow> context_briefing" where
  "bounded_compile persona_kernel max_tokens tenant_id objective =
     (let content = truncate_text (max_tokens * 4)
            (persona_identity_prefix DEFAULT_PERSONA_IDENTITY @ newline @
             ''Persona guidance: '' @ strip persona_kernel @ newline @ newline @
             ''Current objective:'' @ newline @ strip objective)
      in \<lparr>cb_tenant_id = tenant_id, cb_content = content, cb_source_memory_ids = [],
          cb_estimated_tokens = estimate_tokens content\<rparr>)"

interpretation bounded: context_compiler "bounded_compile persona_kernel max_tokens" max_tokens
  for persona_kernel max_tokens
  by unfold_locales (auto simp: bounded_compile_def Let_def
      intro: order.trans[OF length_truncate_text])

section \<open>Recall\<close>

text \<open>
  \<^verbatim>\<open>{item.id: item for item in authorized if item.visibility == "private"}\<close>.
\<close>

definition private_by_id :: "memory_record list \<Rightarrow> (uuid, memory_record) dict" where
  "private_by_id authorized =
     fold (\<lambda>m. AList.update (mr_id m) m) (filter (\<lambda>m. mr_visibility m = ''private'') authorized) []"

definition lexical_overlap :: "string \<Rightarrow> memory_record \<Rightarrow> nat" where
  "lexical_overlap objective m =
     card (set (word_runs (casefold objective)) \<inter> set (word_runs (casefold (mr_content m))))"

definition recall_key :: "string \<Rightarrow> memory_record \<Rightarrow> int \<times> uuid" where
  "recall_key objective m = (- int (lexical_overlap objective m), mr_id m)"

text \<open>
  The vector index only feeds the audit record: \<open>vector_ids\<close> is \<open>None\<close> when its call raised. The result is
  the recalled memories and the payload of the audit call.
\<close>

definition recall ::
  "int \<Rightarrow> uuid list option \<Rightarrow> string \<Rightarrow> memory_record list \<Rightarrow> memory_record list \<times> (string, json) dict" where
  "recall memory_limit vector_ids objective authorized =
     (let by_id = private_by_id authorized;
          ranked0 = sort_key (recall_key objective) (dict_values by_id);
          pinned = filter mr_pinned ranked0;
          ranked = slice_to memory_limit (pinned @ filter (\<lambda>m. \<not> mr_pinned m) ranked0)
      in (ranked,
          [(''objective'', JStr objective), (''strategy'', JStr ''lexical''),
           (''qdrant_available'', JBool (vector_ids \<noteq> None)),
           (''authorized_memory_ids'', JList (map JId (map fst by_id))),
           (''qdrant_ranked_memory_ids'', JList (map JId (case vector_ids of None \<Rightarrow> [] | Some ids \<Rightarrow> ids))),
           (''selected_memory_ids'', JList (map (JId \<circ> mr_id) ranked)),
           (''pinned_memory_ids'', JList (map (JId \<circ> mr_id) pinned))]))"

section \<open>The memory-backed compiler\<close>

definition persona_section :: "string \<Rightarrow> persona_profile option \<Rightarrow> string" where
  "persona_section persona_kernel profile =
     (case profile of
        None \<Rightarrow> persona_identity_prefix DEFAULT_PERSONA_IDENTITY @ newline @
                ''Persona guidance: '' @ strip persona_kernel
      | Some p \<Rightarrow> join newline
          [persona_identity_prefix (pc_identity (pp_authored_core p)),
           ''Values: '' @ pc_values (pp_authored_core p),
           ''Boundaries: '' @ pc_boundaries (pp_authored_core p),
           ''Tone: '' @ pc_tone (pp_authored_core p),
           ''Initiative: '' @ pc_initiative (pp_authored_core p),
           ''Emotional range: '' @ pc_emotional_range (pp_authored_core p),
           ''Disagreement: '' @ pc_disagreement (pp_authored_core p)])"

definition memory_line :: "memory_record \<Rightarrow> string" where
  "memory_line m = ''- ['' @ memory_kind_value (mr_kind m) @ ''] '' @ mr_content m"

definition compile_sections ::
  "string \<Rightarrow> persona_profile option \<Rightarrow> memory_record list \<Rightarrow> string \<Rightarrow> string" where
  "compile_sections persona_kernel profile ranked objective =
     join (newline @ newline)
       ([persona_section persona_kernel profile] @
        (if ranked \<noteq> [] then [''Relevant approved memory:'' @ newline @ join newline (map memory_line ranked)]
         else []) @
        [''Current objective:'' @ newline @ strip objective])"

text \<open>\<^verbatim>\<open>MemoryContextCompiler.compile\<close> on the store it reads its memories and its persona from.\<close>

definition memory_compile ::
  "string \<Rightarrow> int \<Rightarrow> int \<Rightarrow> uuid list option \<Rightarrow> store \<Rightarrow> uuid \<Rightarrow> string \<Rightarrow> context_briefing" where
  "memory_compile persona_kernel max_tokens memory_limit vector_ids s tenant_id objective =
     (let ranked = fst (recall memory_limit vector_ids objective (list_memories tenant_id False s));
          content = truncate_text (max_tokens * 4)
            (compile_sections persona_kernel (get_active_persona tenant_id s) ranked objective)
      in \<lparr>cb_tenant_id = tenant_id, cb_content = content,
          cb_source_memory_ids = map mr_id (filter (\<lambda>m. contains (mr_content m) content) ranked),
          cb_estimated_tokens = estimate_tokens content\<rparr>)"

interpretation memory_backed: context_compiler
  "memory_compile persona_kernel max_tokens memory_limit vector_ids s" max_tokens
  for persona_kernel max_tokens memory_limit vector_ids s
  by unfold_locales (auto simp: memory_compile_def Let_def
      intro: order.trans[OF length_truncate_text])

section \<open>Compression by a local model\<close>

text \<open>
  \<open>process instruction content\<close> is the local model, \<open>None\<close> when it raises. The result keeps the identity
  lines of the briefing it compressed.
\<close>

definition compression_instruction :: string where
  "compression_instruction =
     ''Compress this context for a language model. Preserve persona boundaries, '' @
     ''relevant facts, and the current objective. Return context only.''"

definition bound_text :: "int \<Rightarrow> string \<Rightarrow> string" where
  "bound_text max_tokens content = truncate_text (max_tokens * 4) (strip content)"

definition compressed_compile ::
  "(uuid \<Rightarrow> string \<Rightarrow> context_briefing) \<Rightarrow> (string \<Rightarrow> string \<Rightarrow> string option) \<Rightarrow> int \<Rightarrow> uuid \<Rightarrow> string \<Rightarrow>
   context_briefing" where
  "compressed_compile fallback process max_tokens tenant_id objective =
     (let briefing = fallback tenant_id objective in
      case process compression_instruction (cb_content briefing) of
        None \<Rightarrow> briefing
      | Some raw \<Rightarrow>
          if strip raw = [] then briefing
          else
            let identity_prefix = identity_prefix_from (cb_content briefing);
                compressed = strip raw;
                content = (if prefix identity_prefix compressed then bound_text max_tokens compressed
                           else bound_text max_tokens (identity_prefix @ newline @ compressed))
            in \<lparr>cb_tenant_id = tenant_id, cb_content = content,
                cb_source_memory_ids = cb_source_memory_ids briefing,
                cb_estimated_tokens = estimate_tokens content\<rparr>)"

lemma length_bound_text: "0 < max_tokens \<Longrightarrow> int (length (bound_text max_tokens s)) \<le> 4 * max_tokens"
  unfolding bound_text_def by (rule order.trans[OF length_truncate_text]) auto

context context_compiler
begin

lemma compressed: "context_compiler (compressed_compile compile process max_tokens) max_tokens"
  by unfold_locales
     (auto simp: compressed_compile_def Let_def briefing_tenant briefing_tokens briefing_length
        length_bound_text split: option.splits)

end

interpretation compressed_memory: context_compiler
  "compressed_compile (memory_compile persona_kernel max_tokens memory_limit vector_ids s) process max_tokens" max_tokens
  for persona_kernel max_tokens memory_limit vector_ids s process
  by (rule memory_backed.compressed)

section \<open>Properties\<close>

text \<open>
  Every compiled context, plain, memory-backed or compressed by a local model that returns anything
  at all, stays within a positive token budget, at four characters per token, and is the asking
  tenant's.
\<close>

theorem context_within_budget:
  assumes "0 < max_tokens"
    and "b = bounded_compile persona_kernel max_tokens u objective \<or>
      b = memory_compile persona_kernel max_tokens limit vector_ids s u objective \<or>
      b = compressed_compile (memory_compile persona_kernel max_tokens limit vector_ids s) process max_tokens u objective"
  shows "cb_tenant_id b = u \<and> int (length (cb_content b)) \<le> 4 * max_tokens \<and>
    0 \<le> cb_estimated_tokens b \<and> cb_estimated_tokens b \<le> max_tokens"
  using assms(2)
  by (elim disjE)
     (simp_all only: bounded.briefing_tenant bounded.briefing_length[OF assms(1)] bounded.within_budget[OF assms(1)]
        memory_backed.briefing_tenant memory_backed.briefing_length[OF assms(1)] memory_backed.within_budget[OF assms(1)]
        compressed_memory.briefing_tenant compressed_memory.briefing_length[OF assms(1)]
        compressed_memory.within_budget[OF assms(1)] simp_thms)

theorem context_within_budget_witness:
  "int (length (cb_content (bounded_compile ''Be kind.'' 20 1 ''Plan the week''))) \<le> 80"
  using context_within_budget[of 20 "bounded_compile ''Be kind.'' 20 1 ''Plan the week''" "''Be kind.''" 1 "''Plan the week''"]
  by simp

lemma update_new: "k \<notin> fst ` set tbl \<Longrightarrow> AList.update k v tbl = tbl @ [(k, v)]"
  by (induction tbl) auto

lemma fold_update_values:
  "distinct (map mr_id ms) \<Longrightarrow> (\<And>m. m \<in> set ms \<Longrightarrow> mr_id m \<notin> fst ` set tbl) \<Longrightarrow>
     fold (\<lambda>m. AList.update (mr_id m) m) ms tbl = tbl @ map (\<lambda>m. (mr_id m, m)) ms"
proof (induction ms arbitrary: tbl)
  case Nil
  then show ?case by simp
next
  case (Cons m ms)
  have new: "AList.update (mr_id m) m tbl = tbl @ [(mr_id m, m)]"
    using Cons.prems(2)[of m] by (simp add: update_new)
  have "fold (\<lambda>m. AList.update (mr_id m) m) ms (tbl @ [(mr_id m, m)]) =
      (tbl @ [(mr_id m, m)]) @ map (\<lambda>m. (mr_id m, m)) ms"
  proof (rule Cons.IH)
    show "distinct (map mr_id ms)" using Cons.prems(1) by simp
    fix x assume x: "x \<in> set ms"
    with Cons.prems(1) have "mr_id x \<noteq> mr_id m" by (simp add: image_iff) metis
    with Cons.prems(2)[of x] x show "mr_id x \<notin> fst ` set (tbl @ [(mr_id m, m)])" by simp
  qed
  with new show ?case by simp
qed

lemma private_by_id_values:
  "distinct (map mr_id ms) \<Longrightarrow>
     dict_values (private_by_id ms) = filter (\<lambda>m. mr_visibility m = ''private'') ms"
  unfolding private_by_id_def by (subst fold_update_values) (auto simp: distinct_map_filter comp_def)

text \<open>The order of the recalled memories: pinned ones first, then by overlap and identifier.\<close>

definition recalled_before :: "string \<Rightarrow> memory_record \<Rightarrow> memory_record \<Rightarrow> bool" where
  "recalled_before objective m m' \<longleftrightarrow> mr_pinned m \<and> \<not> mr_pinned m' \<or>
     mr_pinned m = mr_pinned m' \<and> recall_key objective m \<le> recall_key objective m'"

lemma pinned_first_sorted:
  "sorted_wrt (recalled_before objective)
     (filter mr_pinned (sort_key (recall_key objective) ms) @
      filter (\<lambda>m. \<not> mr_pinned m) (sort_key (recall_key objective) ms))"
proof -
  have "sorted_wrt (recalled_before objective) (filter P (sort_key (recall_key objective) ms))"
    if "\<And>m m'. P m \<Longrightarrow> P m' \<Longrightarrow> mr_pinned m = mr_pinned m'" for P
  proof -
    have "sorted (map (recall_key objective) (filter P (sort_key (recall_key objective) ms)))"
      by (rule sorted_filter) simp
    then have "sorted_wrt (\<lambda>m m'. recall_key objective m \<le> recall_key objective m')
        (filter P (sort_key (recall_key objective) ms))" by (simp add: sorted_map)
    then show ?thesis by (rule sorted_wrt_mono_rel[rotated]) (use that in \<open>auto simp: recalled_before_def\<close>)
  qed
  from this[of mr_pinned] this[of "\<lambda>m. \<not> mr_pinned m"] show ?thesis
    by (auto simp: sorted_wrt_append recalled_before_def)
qed

text \<open>
  Recall picks, from memories with distinct identifiers, private ones and no others, as many as the
  limit allows; a private memory is left out only when the limit is reached by memories that come before
  it: pinned ones first, then those sharing more words with the objective, then by identifier. What the
  vector index answers, or that it fails, makes no difference.
\<close>

theorem recall_selection:
  assumes "0 \<le> limit" and "distinct (map mr_id authorized)"
  shows "set (fst (recall limit v objective authorized)) \<subseteq>
      {m \<in> set authorized. mr_visibility m = ''private''} \<and>
    length (fst (recall limit v objective authorized)) =
      min (nat limit) (length (filter (\<lambda>m. mr_visibility m = ''private'') authorized)) \<and>
    sorted_wrt (recalled_before objective) (fst (recall limit v objective authorized)) \<and>
    (\<forall>m \<in> set authorized. mr_visibility m = ''private'' \<longrightarrow> m \<notin> set (fst (recall limit v objective authorized)) \<longrightarrow>
       (\<forall>x \<in> set (fst (recall limit v objective authorized)). recalled_before objective x m)) \<and>
    fst (recall limit v' objective authorized) = fst (recall limit v objective authorized)"
proof -
  define pr where "pr = filter (\<lambda>m. mr_visibility m = ''private'') authorized"
  define xs where "xs = filter mr_pinned (sort_key (recall_key objective) pr) @
    filter (\<lambda>m. \<not> mr_pinned m) (sort_key (recall_key objective) pr)"
  have r: "fst (recall limit v objective authorized) = take (nat limit) xs" for v
    using assms by (simp add: recall_def Let_def private_by_id_values pr_def xs_def slice_to_def)
  have sets: "set xs = set pr" by (auto simp: xs_def)
  have len: "length xs = length pr"
    unfolding xs_def length_append by (simp add: sum_length_filter_compl)
  have so: "sorted_wrt (recalled_before objective) xs" unfolding xs_def by (rule pinned_first_sorted)
  then have split: "sorted_wrt (recalled_before objective) (take (nat limit) xs @ drop (nat limit) xs)" by simp
  have "recalled_before objective x m" if "m \<in> set pr" "m \<notin> set (take (nat limit) xs)" "x \<in> set (take (nat limit) xs)" for m x
  proof -
    have "m \<in> set (take (nat limit) xs) \<union> set (drop (nat limit) xs)"
      using that(1) sets by (metis append_take_drop_id set_append)
    with that(2) have "m \<in> set (drop (nat limit) xs)" by blast
    with split that(3) show ?thesis unfolding sorted_wrt_append by blast
  qed
  moreover have "set (take (nat limit) xs) \<subseteq> set pr" using sets by (metis set_take_subset)
  moreover have "sorted_wrt (recalled_before objective) (take (nat limit) xs)"
    using split unfolding sorted_wrt_append by blast
  ultimately show ?thesis unfolding r by (auto simp: len pr_def min.commute)
qed

text \<open>Three memories of a tenant, one of them pinned and one shared.\<close>

definition recall_sample :: "memory_record list" where
  "recall_sample =
     (let m = \<lparr>mr_id = 1, mr_tenant_id = 1, mr_kind = Mem_FACT, mr_content = ''tea'',
            mr_normalized_content = ''tea'', mr_source_event_id = 2, mr_source_message_id = 3,
            mr_confidence = 1, mr_confirmed = True, mr_pinned = False, mr_state = Mem_PROMOTED,
            mr_sensitivity = ''normal'', mr_visibility = ''private'', mr_retention = ''durable'',
            mr_contradiction_of = None, mr_created_at = 1, mr_updated_at = 1, mr_reviewed_at = None,
            mr_reviewed_by = None, mr_deleted_at = None, mr_import_batch_id = None, mr_source_system = None,
            mr_source_database_fingerprint = None, mr_source_external_id = None, mr_source_metadata = []\<rparr>
      in [m, m\<lparr>mr_id := 2, mr_content := ''coffee''\<rparr>, m\<lparr>mr_id := 3, mr_visibility := ''shared''\<rparr>])"

theorem recall_selection_witness:
  "length (fst (recall 1 None ''Tea'' recall_sample)) = 1 \<and>
   fst (recall 1 None ''Tea'' recall_sample) = fst (recall 1 (Some [9]) ''Tea'' recall_sample)"
proof -
  have d: "distinct (map mr_id recall_sample)" by (simp add: recall_sample_def Let_def)
  have "length (filter (\<lambda>m. mr_visibility m = ''private'') recall_sample) = 2"
    by (simp add: recall_sample_def Let_def)
  with recall_selection[of 1 recall_sample None "''Tea''" "Some [9]"] d show ?thesis by simp
qed

lemma distinct_map_sort: "distinct (map f xs) \<Longrightarrow> distinct (map f (sort_key g xs))"
  by (simp add: distinct_map)

text \<open>
  The sources a memory-backed context names are promoted private memories of the tenant, at most as
  many as the limit, and each one's content is in the text.
\<close>

theorem context_sources:
  assumes "store_ok s" and "0 \<le> limit" and "k \<in> set (cb_source_memory_ids
      (memory_compile persona_kernel max_tokens limit vector_ids s u objective))"
  shows "(\<exists>m. map_of (st_memories s) k = Some m \<and> mr_tenant_id m = u \<and> mr_state m = Mem_PROMOTED \<and>
      mr_visibility m = ''private'' \<and>
      contains (mr_content m) (cb_content (memory_compile persona_kernel max_tokens limit vector_ids s u objective))) \<and>
    length (cb_source_memory_ids (memory_compile persona_kernel max_tokens limit vector_ids s u objective)) \<le> nat limit"
proof -
  let ?auth = "list_memories u False s"
  have keyed: "keyed mr_id (st_memories s)" using assms(1) by (rule memory_keyed)
  have auth: "m \<in> set ?auth \<Longrightarrow> map_of (st_memories s) (mr_id m) = Some m \<and> mr_tenant_id m = u \<and> mr_state m = Mem_PROMOTED" for m
    using keyed_values[OF keyed] by (auto simp: list_memories_def)
  have "distinct (map mr_id (sort_key mr_updated_at (dict_values (st_memories s))))"
    by (rule distinct_map_sort[OF keyed_distinct_values[OF keyed]])
  then have d: "distinct (map mr_id ?auth)" unfolding list_memories_def by (rule distinct_map_filter)
  note r = recall_selection[OF assms(2) d, of vector_ids objective]
  from assms(3) obtain m where m: "m \<in> set (fst (recall limit vector_ids objective ?auth))" "k = mr_id m"
    "contains (mr_content m) (cb_content (memory_compile persona_kernel max_tokens limit vector_ids s u objective))"
    by (auto simp: memory_compile_def Let_def)
  have "length (cb_source_memory_ids (memory_compile persona_kernel max_tokens limit vector_ids s u objective)) \<le>
      length (fst (recall limit vector_ids objective ?auth))"
    by (simp add: memory_compile_def Let_def)
  then show ?thesis using r m auth by fastforce
qed

definition recalled_sample :: memory_record where
  "recalled_sample = sample_memory\<lparr>mr_state := Mem_PROMOTED\<rparr>"

theorem context_sources_witness:
  "\<exists>m. map_of (st_memories (sample_store\<lparr>st_memories := [(50, recalled_sample)]\<rparr>)) 50 = Some m \<and>
     contains (mr_content m) (cb_content (memory_compile ''k'' 400 8 None
       (sample_store\<lparr>st_memories := [(50, recalled_sample)]\<rparr>) 1 ''tea''))"
proof -
  let ?s = "sample_store\<lparr>st_memories := [(50, recalled_sample)]\<rparr>"
  have ok: "store_ok ?s"
    by (simp add: recalled_sample_def
        samples empty_store_def store_ok_def keys_ok_def refs_ok_def refers_def has_row_def
        leases_ok_def lease_ok_def keyed_def turn_ok_def valid_turn_def job_ok_def valid_job_def
        valid_approval_def valid_capability_def str_between_def attempts_ok_def ran_def)
  have "50 \<in> set (cb_source_memory_ids (memory_compile ''k'' 400 8 None ?s 1 ''tea''))"
  proof -
    have l: "list_memories 1 False ?s = [recalled_sample]"
      by (simp add: list_memories_def recalled_sample_def sample_memory_def)
    have r: "fst (recall 8 None ''tea'' [recalled_sample]) = [recalled_sample]"
      by (simp add: recall_def Let_def private_by_id_def slice_to_def recalled_sample_def sample_memory_def)
    have p: "get_active_persona 1 ?s = Some sample_persona"
      by (simp add: samples get_active_persona_def)
    have "contains ''Likes tea'' (truncate_text 1600 (compile_sections ''k'' (Some sample_persona) [recalled_sample] ''tea''))"
      by (simp add: compile_sections_def persona_section_def persona_identity_prefix_def memory_line_def
          recalled_sample_def samples newline_def IDENTITY_INVARIANT_def strip_def lstrip_def rstrip_def
          is_space_def truncate_text_def)
    with l r p show ?thesis
      by (simp add: memory_compile_def Let_def recalled_sample_def sample_memory_def)
  qed
  from context_sources[OF ok _ this] show ?thesis by auto
qed

section \<open>What compression keeps\<close>

lemma splitlines_first:
  assumes "\<forall>c \<in> set a. \<not> is_line_break c"
  shows "splitlines (a @ newline @ b) = a # splitlines b"
proof -
  have lf: "is_line_break (CHR 0x0A)" by (simp add: is_line_break_def)
  have cr: "is_line_break (CHR 0x0D)" by (simp add: is_line_break_def)
  have "splitlines_acc acc (a @ CHR 0x0A # b) = (rev acc @ a) # splitlines_acc [] b" for acc
    using assms
  proof (induction a arbitrary: acc)
    case Nil
    then show ?case using lf by (cases b) simp_all
  next
    case (Cons c a)
    then have c: "\<not> is_line_break c" "c \<noteq> CHR 0x0D" using cr by auto
    have "a @ CHR 0x0A # b = hd (a @ CHR 0x0A # b) # tl (a @ CHR 0x0A # b)" by (cases a) simp_all
    then have "splitlines_acc acc (c # a @ CHR 0x0A # b) = splitlines_acc (c # acc) (a @ CHR 0x0A # b)"
      using c by (metis splitlines_acc.simps(3))
    with Cons show ?case by simp
  qed
  then show ?thesis by (simp add: splitlines_def newline_def)
qed

lemma invariant_one_line: "\<forall>c \<in> set (''Identity invariant: '' @ IDENTITY_INVARIANT). \<not> is_line_break c"
  by (simp add: IDENTITY_INVARIANT_def is_line_break_def)

lemma identity_prefix_from_persona:
  assumes "\<forall>c \<in> set (strip identity). \<not> is_line_break c"
    and "prefix (persona_identity_prefix identity @ newline) content"
  shows "identity_prefix_from content = persona_identity_prefix identity"
proof -
  obtain rest where c: "content = (''Identity: '' @ strip identity) @ newline @
      (''Identity invariant: '' @ IDENTITY_INVARIANT) @ newline @ rest"
    using assms(2) by (auto simp: persona_identity_prefix_def prefix_def)
  have "\<forall>c \<in> set (''Identity: '' @ strip identity). \<not> is_line_break c"
    using assms(1) by (simp add: is_line_break_def)
  note lines = splitlines_first[OF this] splitlines_first[OF invariant_one_line]
  have "splitlines content = (''Identity: '' @ strip identity) #
      (''Identity invariant: '' @ IDENTITY_INVARIANT) # splitlines rest"
    unfolding c lines ..
  then show ?thesis by (simp add: identity_prefix_from_def persona_identity_prefix_def)
qed

lemma dropWhile_id: "xs = [] \<or> \<not> P (hd xs) \<Longrightarrow> dropWhile P xs = xs"
  by (cases xs) auto

lemma strip_id: "xs \<noteq> [] \<Longrightarrow> \<not> is_space (hd xs) \<Longrightarrow> \<not> is_space (last xs) \<Longrightarrow> strip xs = xs"
  by (simp add: strip_def lstrip_def rstrip_def dropWhile_id hd_rev)

lemma last_strip: "strip xs \<noteq> [] \<Longrightarrow> \<not> is_space (last (strip xs))"
  unfolding strip_def rstrip_def using hd_dropWhile[of is_space] by (force simp: last_rev)

lemma hd_identity_prefix: "persona_identity_prefix identity \<noteq> []" "hd (persona_identity_prefix identity) = CHR ''I''"
  by (simp_all add: persona_identity_prefix_def)

text \<open>
  Compression cannot drop the persona: when the briefing starts with the identity lines of a persona
  whose name is one line, the result is the briefing itself or a text that starts with the same identity
  lines, cut to the budget at its end only.
\<close>

theorem compression_keeps_identity:
  assumes "\<forall>c \<in> set (strip identity). \<not> is_line_break c"
    and "prefix (persona_identity_prefix identity @ newline) (cb_content (fallback u objective))"
  shows "compressed_compile fallback process max_tokens u objective = fallback u objective \<or>
    (\<exists>x. prefix (persona_identity_prefix identity) x \<and>
       cb_content (compressed_compile fallback process max_tokens u objective) = truncate_text (max_tokens * 4) x \<and>
       cb_source_memory_ids (compressed_compile fallback process max_tokens u objective) =
         cb_source_memory_ids (fallback u objective))"
proof (cases "process compression_instruction (cb_content (fallback u objective))")
  case None
  then show ?thesis by (simp add: compressed_compile_def)
next
  case (Some raw)
  show ?thesis
  proof (cases "strip raw = []")
    case True
    with Some show ?thesis by (simp add: compressed_compile_def)
  next
    case False
    let ?p = "persona_identity_prefix identity"
    define x where "x = (if prefix ?p (strip raw) then strip raw else ?p @ newline @ strip raw)"
    have px: "prefix ?p x" by (simp add: x_def)
    then have "hd x = CHR ''I''" "x \<noteq> []" using hd_identity_prefix by (auto simp: prefix_def)
    moreover have "\<not> is_space (last x)" using last_strip[OF False] False by (simp add: x_def newline_def)
    ultimately have "strip x = x" by (intro strip_id) (simp_all add: is_space_def)
    then have "cb_content (compressed_compile fallback process max_tokens u objective) = truncate_text (max_tokens * 4) x"
      using Some False identity_prefix_from_persona[OF assms]
      by (auto simp: compressed_compile_def Let_def bound_text_def x_def)
    moreover have "cb_source_memory_ids (compressed_compile fallback process max_tokens u objective) =
        cb_source_memory_ids (fallback u objective)"
      using Some False by (simp add: compressed_compile_def Let_def)
    ultimately show ?thesis using px by blast
  qed
qed

theorem compression_keeps_identity_witness:
  "\<exists>x. prefix (persona_identity_prefix ''Astra'') x \<and>
     cb_content (compressed_compile (\<lambda>u obj. \<lparr>cb_tenant_id = u,
       cb_content = persona_identity_prefix ''Astra'' @ newline @ obj, cb_source_memory_ids = [],
       cb_estimated_tokens = 0\<rparr>) (\<lambda>_ _. Some ''short'') 400 1 ''plan'') = truncate_text 1600 x"
proof -
  let ?f = "\<lambda>u obj. \<lparr>cb_tenant_id = u, cb_content = persona_identity_prefix ''Astra'' @ newline @ obj,
    cb_source_memory_ids = [], cb_estimated_tokens = 0\<rparr>"
  let ?c = "compressed_compile ?f (\<lambda>_ _. Some ''short'') 400 1 ''plan''"
  have "\<forall>c \<in> set (strip ''Astra''). \<not> is_line_break c"
    by (simp add: strip_def lstrip_def rstrip_def is_space_def is_line_break_def)
  moreover have "prefix (persona_identity_prefix ''Astra'' @ newline) (cb_content (?f 1 ''plan''))"
    by (simp add: prefix_def)
  moreover have "cb_estimated_tokens ?c \<noteq> 0"
    by (simp add: compressed_compile_def Let_def strip_def lstrip_def rstrip_def is_space_def
        estimate_tokens_def bound_text_def truncate_text_def identity_prefix_from_def splitlines_def
        persona_identity_prefix_def newline_def IDENTITY_INVARIANT_def is_line_break_def)
  then have "?c \<noteq> ?f 1 ''plan''" by auto
  ultimately show ?thesis
    using compression_keeps_identity[of "''Astra''" ?f 1 "''plan''" "\<lambda>_ _. Some ''short''" 400] by auto
qed

end
