(* ===== verification/Uuid.thy ===== *)
theory Uuid
  imports PyString
begin

text \<open>
  Python's \<^verbatim>\<open>uuid.UUID\<close> and its texts: \<^verbatim>\<open>str(u)\<close> is the canonical rendering, \<^verbatim>\<open>UUID(text)\<close> reads it
  and the usual variants (braces, a \<^verbatim>\<open>urn:uuid:\<close> prefix, other hyphens, capitals). Texts in which only
  Python's \<^verbatim>\<open>int(text, 16)\<close> would see a number (underscores, a sign, surrounding white space) are
  refused.
\<close>

definition is_uuid :: "uuid \<Rightarrow> bool" where
  "is_uuid u \<longleftrightarrow> u < 2 ^ 128"

definition hex_digit :: "nat \<Rightarrow> char" where
  "hex_digit d = ''0123456789abcdef'' ! d"

fun hex_text :: "nat \<Rightarrow> nat \<Rightarrow> string" where
  "hex_text 0 n = []"
| "hex_text (Suc k) n = hex_text k (n div 16) @ [hex_digit (n mod 16)]"

definition uuid_text :: "uuid \<Rightarrow> string" where
  "uuid_text u =
     hex_text 8 (u div 16 ^ 24) @ ''-'' @ hex_text 4 (u div 16 ^ 20) @ ''-'' @ hex_text 4 (u div 16 ^ 16) @
     ''-'' @ hex_text 4 (u div 16 ^ 12) @ ''-'' @ hex_text 12 u"

text \<open>\<^verbatim>\<open>s.replace(old, "")\<close>, a non-empty text removed from the left.\<close>

function remove_all :: "string \<Rightarrow> string \<Rightarrow> string" where
  "remove_all old [] = []"
| "remove_all old (c # s) =
     (if old \<noteq> [] \<and> prefix old (c # s) then remove_all old (drop (length old) (c # s))
      else c # remove_all old s)"
  by pat_completeness auto
termination
  by (relation "measure (\<lambda>(old, s). length s)") auto

definition strip_chars :: "string \<Rightarrow> string \<Rightarrow> string" where
  "strip_chars cs s = rstrip_chars cs (dropWhile (\<lambda>c. c \<in> set cs) s)"

definition hex_value :: "char \<Rightarrow> nat option" where
  "hex_value c = (let n = of_char c :: nat in
     if 48 \<le> n \<and> n \<le> 57 then Some (n - 48)
     else if 97 \<le> n \<and> n \<le> 102 then Some (n - 87)
     else if 65 \<le> n \<and> n \<le> 70 then Some (n - 55) else None)"

definition digits_value :: "nat list \<Rightarrow> nat" where
  "digits_value ds = foldl (\<lambda>a d. 16 * a + d) 0 ds"

definition parse_uuid :: "string \<Rightarrow> uuid option" where
  "parse_uuid s =
     (let h = filter (\<lambda>c. c \<noteq> CHR ''-'')
                (strip_chars ''{}'' (remove_all ''uuid:'' (remove_all ''urn:'' s))) in
      if length h \<noteq> 32 then None else map_option digits_value (those (map hex_value h)))"

section \<open>Facts\<close>

lemma length_hex_text [simp]: "length (hex_text k n) = k"
  by (induction k arbitrary: n) auto

lemma hex_value_digit [simp]: "d < 16 \<Longrightarrow> hex_value (hex_digit d) = Some d"
proof -
  have "list_all (\<lambda>d. hex_value (hex_digit d) = Some d) [0..<16]"
    by (simp add: upt_rec hex_digit_def hex_value_def)
  then show "d < 16 \<Longrightarrow> hex_value (hex_digit d) = Some d" by (simp add: list_all_iff)
qed

lemma hex_digit_set: "d < 16 \<Longrightarrow> hex_digit d \<in> set ''0123456789abcdef''"
  unfolding hex_digit_def by (rule nth_mem) simp

lemma set_hex_text: "set (hex_text k n) \<subseteq> set ''0123456789abcdef''"
proof (induction k arbitrary: n)
  case 0
  then show ?case by simp
next
  case (Suc k)
  have "hex_digit (n mod 16) \<in> set ''0123456789abcdef''" by (rule hex_digit_set) simp
  then show ?case using Suc[of "n div 16"] by simp
qed

lemma hex_text_split: "hex_text (j + k) n = hex_text j (n div 16 ^ k) @ hex_text k n"
proof (induction k arbitrary: n)
  case 0
  then show ?case by simp
next
  case (Suc k)
  then show ?case by (simp add: div_mult2_eq)
qed

lemma those_snoc: "those xs = Some us \<Longrightarrow> those (xs @ [Some v]) = Some (us @ [v])"
  by (induction xs arbitrary: us) (auto split: option.splits)

lemma those_hex_text: "\<exists>ds. those (map hex_value (hex_text k n)) = Some ds \<and> digits_value ds = n mod 16 ^ k"
proof (induction k arbitrary: n)
  case 0
  then show ?case by (simp add: digits_value_def)
next
  case (Suc k)
  from Suc[of "n div 16"] obtain ds where ds: "those (map hex_value (hex_text k (n div 16))) = Some ds"
    "digits_value ds = n div 16 mod 16 ^ k" by blast
  have "digits_value (ds @ [n mod 16]) = 16 * (n div 16 mod 16 ^ k) + n mod 16"
    using ds(2) by (simp add: digits_value_def)
  also have "\<dots> = n mod 16 ^ Suc k" by (simp add: mod_mult2_eq)
  finally show ?case using those_snoc[OF ds(1), of "n mod 16"] by simp
qed

lemma remove_all_id: "c \<notin> set s \<Longrightarrow> remove_all (c # old) s = s"
  by (induction s) auto

lemma strip_chars_id: "set cs \<inter> set s = {} \<Longrightarrow> strip_chars cs s = s"
proof -
  assume "set cs \<inter> set s = {}"
  then have "\<And>x. x \<in> set s \<Longrightarrow> x \<notin> set cs" by auto
  then have "dropWhile (\<lambda>c. c \<in> set cs) s = s" "dropWhile (\<lambda>c. c \<in> set cs) (rev s) = rev s"
    by (auto simp: dropWhile_eq_self_iff hd_rev)
  then show ?thesis by (simp add: strip_chars_def rstrip_chars_def)
qed

lemma set_uuid_text: "set (uuid_text u) \<subseteq> set ''-0123456789abcdef''"
  using set_hex_text unfolding uuid_text_def by (simp only: set_append) force

lemma filter_hex_text [simp]: "filter (\<lambda>c. c \<noteq> CHR ''-'') (hex_text k n) = hex_text k n"
  by (rule filter_True) (use set_hex_text[of k n] in auto)

lemma uuid_text_digits: "filter (\<lambda>c. c \<noteq> CHR ''-'') (uuid_text u) = hex_text 32 u"
proof -
  have "hex_text 32 u = hex_text 8 (u div 16 ^ 24) @ hex_text 4 (u div 16 ^ 20) @ hex_text 4 (u div 16 ^ 16) @
      hex_text 4 (u div 16 ^ 12) @ hex_text 12 u"
    using hex_text_split[of 8 24 u] hex_text_split[of 4 20 u] hex_text_split[of 4 16 u]
      hex_text_split[of 4 12 u] by simp
  then show ?thesis by (simp add: uuid_text_def)
qed

lemma length_uuid_text [simp]: "length (uuid_text u) = 36"
  by (simp add: uuid_text_def)

lemma uuid_text_nonempty [simp]: "uuid_text u \<noteq> []"
  by (metis length_uuid_text list.size(3) zero_neq_numeral)

text \<open>Reading the canonical text of a UUID gives it back.\<close>

lemma parse_uuid_text [simp]:
  assumes "is_uuid u" shows "parse_uuid (uuid_text u) = Some u"
proof -
  have s: "set (uuid_text u) \<subseteq> set ''-0123456789abcdef''" by (rule set_uuid_text)
  then have "remove_all ''urn:'' (uuid_text u) = uuid_text u" "remove_all ''uuid:'' (uuid_text u) = uuid_text u"
    by (auto intro!: remove_all_id)
  moreover have "strip_chars ''{}'' (uuid_text u) = uuid_text u"
    by (rule strip_chars_id) (use s in auto)
  moreover obtain ds where "those (map hex_value (hex_text 32 u)) = Some ds" "digits_value ds = u mod 16 ^ 32"
    using those_hex_text by blast
  moreover have "u mod 16 ^ 32 = u" using assms by (simp add: is_uuid_def)
  ultimately show ?thesis by (simp add: parse_uuid_def uuid_text_digits Let_def)
qed

lemma uuid_text_inj: "is_uuid u \<Longrightarrow> is_uuid v \<Longrightarrow> uuid_text u = uuid_text v \<longleftrightarrow> u = v"
  by (metis option.inject parse_uuid_text)

end
