(* ===== verification/Pipeline.thy ===== *)
theory Pipeline
  imports Samples Uuid
begin

text \<open>
  The memory pipeline of \<^verbatim>\<open>packages/memory/src/astra_memory/pipeline.py\<close>: the deterministic extractor, the
  filing of extracted memories through the interface \<^verbatim>\<open>MemoryRepository\<close> (the locale
  \<open>memory_repository\<close>, interpreted by the in-memory store), and what a memory's state makes of its
  vector.
\<close>

section \<open>The deterministic extractor\<close>

record extracted_memory =
  em_kind :: memory_kind
  em_content :: string
  em_confidence :: rat
  em_promoted :: bool

text \<open>
  \<^verbatim>\<open>re.split(r"(?<=[.!?])\s+|\n+", s)\<close>, scanning from the left with the previous character: a run of white
  space after a sentence mark, or else a run of newlines, separates two pieces.
\<close>

definition is_mark :: "char \<Rightarrow> bool" where
  "is_mark c \<longleftrightarrow> c \<in> set ''.!?''"

function split_sentences_from :: "char option \<Rightarrow> string \<Rightarrow> string \<Rightarrow> string list" where
  "split_sentences_from prev acc [] = [rev acc]"
| "split_sentences_from prev acc (c # s) =
     (if is_space c \<and> (case prev of Some p \<Rightarrow> is_mark p | None \<Rightarrow> False)
      then rev acc # split_sentences_from (Some c) [] (dropWhile is_space s)
      else if c = CHR 0x0A
      then rev acc # split_sentences_from (Some c) [] (dropWhile (\<lambda>d. d = CHR 0x0A) s)
      else split_sentences_from (Some c) (c # acc) s)"
  by pat_completeness auto
termination
  by (relation "measure (\<lambda>(_, _, s). length s)") (auto simp: le_imp_less_Suc length_dropWhile_le)

definition split_sentences :: "string \<Rightarrow> string list" where
  "split_sentences s = split_sentences_from None [] s"

text \<open>
  The patterns \<^verbatim>\<open>^words\s+(.+)$\<close> on a text without white space at its ends: the words in any case, white
  space, and the rest as the group.
\<close>

definition match_words :: "string \<Rightarrow> string \<Rightarrow> string option" where
  "match_words words cleaned =
     (if length words < length cleaned \<and>
         map casefold_char (take (length words) cleaned) = words \<and>
         is_space (cleaned ! length words)
      then Some (lstrip (drop (length words) cleaned)) else None)"

definition extraction_patterns :: "(string \<times> memory_kind \<times> rat \<times> bool) list" where
  "extraction_patterns =
     [(''remember that'', Mem_FACT, 99/100, True), (''i prefer'', Mem_PREFERENCE, 95/100, True),
      (''my project is'', Mem_PROJECT, 95/100, True), (''i use'', Mem_FACT, 75/100, False)]"

fun first_match ::
  "(string \<times> memory_kind \<times> rat \<times> bool) list \<Rightarrow> string \<Rightarrow> extracted_memory option" where
  "first_match [] cleaned = None"
| "first_match ((words, kind, confidence, promoted) # patterns) cleaned =
     (case match_words words cleaned of
        Some found \<Rightarrow> Some \<lparr>em_kind = kind, em_content = strip found, em_confidence = confidence,
                            em_promoted = promoted\<rparr>
      | None \<Rightarrow> first_match patterns cleaned)"

definition clean_sentence :: "string \<Rightarrow> string" where
  "clean_sentence sentence = strip (rstrip_chars ''.!?'' (strip sentence))"

definition deterministic_extract :: "string \<Rightarrow> extracted_memory list" where
  "deterministic_extract content =
     List.map_filter (\<lambda>sentence. first_match extraction_patterns (clean_sentence sentence))
       (split_sentences (strip content))"

section \<open>The model-backed extractor\<close>

text \<open>
  \<^verbatim>\<open>loads\<close> is \<^verbatim>\<open>json.loads\<close> (\<open>None\<close> when it raises), \<open>repr_json\<close> is \<^verbatim>\<open>str\<close> of a value that is not a
  text, \<open>float_text\<close> is \<^verbatim>\<open>float\<close> of a text, \<open>process\<close> the local model. Every exception of the attempt is
  caught and answered by the fallback, so a failed step is \<open>None\<close>.
\<close>

definition py_str :: "(json \<Rightarrow> string) \<Rightarrow> json \<Rightarrow> string" where
  "py_str repr_json j = (case j of JStr s \<Rightarrow> s | JId u \<Rightarrow> uuid_text u | _ \<Rightarrow> repr_json j)"

definition py_float :: "(string \<Rightarrow> rat option) \<Rightarrow> json \<Rightarrow> rat option" where
  "py_float float_text j = (case j of
     JFloat r \<Rightarrow> Some r | JInt i \<Rightarrow> Some (of_int i) | JBool b \<Rightarrow> Some (if b then 1 else 0)
   | JStr s \<Rightarrow> float_text s | _ \<Rightarrow> None)"

definition py_bool :: "json \<Rightarrow> bool" where
  "py_bool j = (case j of
     JNull \<Rightarrow> False | JBool b \<Rightarrow> b | JInt i \<Rightarrow> i \<noteq> 0 | JFloat r \<Rightarrow> r \<noteq> 0 | JStr s \<Rightarrow> s \<noteq> []
   | JId _ \<Rightarrow> True | JTime _ \<Rightarrow> True | JList xs \<Rightarrow> xs \<noteq> [] | JObj kvs \<Rightarrow> kvs \<noteq> [])"

definition all_memory_kinds :: "memory_kind list" where
  "all_memory_kinds = [Mem_FACT, Mem_PREFERENCE, Mem_PROJECT, Mem_DECISION, Mem_COMMITMENT]"

definition memory_kind_of :: "json \<Rightarrow> memory_kind option" where
  "memory_kind_of j = (case j of
     JStr s \<Rightarrow> find (\<lambda>k. memory_kind_value k = s) all_memory_kinds | _ \<Rightarrow> None)"

definition parse_candidate ::
  "(json \<Rightarrow> string) \<Rightarrow> (string \<Rightarrow> rat option) \<Rightarrow> json \<Rightarrow> extracted_memory option" where
  "parse_candidate repr_json float_text item = (case item of
     JObj kvs \<Rightarrow>
       (case (map_of kvs ''kind'', map_of kvs ''content'', map_of kvs ''confidence'', map_of kvs ''promoted'') of
          (Some k, Some c, Some f, Some p) \<Rightarrow>
            (case (memory_kind_of k, py_float float_text f) of
               (Some kind, Some confidence) \<Rightarrow>
                 Some \<lparr>em_kind = kind, em_content = strip (py_str repr_json c), em_confidence = confidence,
                       em_promoted = py_bool p\<rparr>
             | _ \<Rightarrow> None)
        | _ \<Rightarrow> None)
   | _ \<Rightarrow> None)"

text \<open>\<^verbatim>\<open>raw[raw.find("["):raw.rfind("]") + 1]\<close>, \<open>None\<close> when there is no such slice.\<close>

fun find_char :: "char \<Rightarrow> string \<Rightarrow> nat option" where
  "find_char c [] = None"
| "find_char c (d # s) = (if c = d then Some 0 else map_option Suc (find_char c s))"

definition rfind_char :: "char \<Rightarrow> string \<Rightarrow> nat option" where
  "rfind_char c s = map_option (\<lambda>i. length s - 1 - i) (find_char c (rev s))"

definition json_array_text :: "string \<Rightarrow> string option" where
  "json_array_text raw = (case (find_char (CHR ''['') raw, rfind_char (CHR '']'') raw) of
     (Some start, Some end') \<Rightarrow> if end' < start then None else Some (drop start (take (end' + 1) raw))
   | _ \<Rightarrow> None)"

definition valid_candidate :: "extracted_memory \<Rightarrow> bool" where
  "valid_candidate c \<longleftrightarrow> em_content c \<noteq> [] \<and> 0 \<le> em_confidence c \<and> em_confidence c \<le> 1"

definition parse_extraction ::
  "(string \<Rightarrow> json option) \<Rightarrow> (json \<Rightarrow> string) \<Rightarrow> (string \<Rightarrow> rat option) \<Rightarrow> string \<Rightarrow>
   extracted_memory list option" where
  "parse_extraction loads repr_json float_text raw =
     (case json_array_text raw of None \<Rightarrow> None | Some text \<Rightarrow>
      (case loads text of
         Some (JList items) \<Rightarrow>
           (case those (map (parse_candidate repr_json float_text) (take 10 items)) of
              None \<Rightarrow> None
            | Some results \<Rightarrow> if list_all valid_candidate results then Some results else None)
       | _ \<Rightarrow> None))"

definition extraction_instruction :: string where
  "extraction_instruction = join [CHR 0x0A]
     [''Extract durable user memory as strict JSON only.'',
      ''Return a JSON array of objects with keys: kind, content, confidence, promoted.'',
      ''kind must be fact, preference, project, decision, or commitment.'',
      ''Only promote explicit user requests or unambiguous preferences/project facts.'',
      ''Do not infer sensitive facts. Return [] when nothing should be remembered.'']"

definition model_backed_extract ::
  "(string \<Rightarrow> json option) \<Rightarrow> (json \<Rightarrow> string) \<Rightarrow> (string \<Rightarrow> rat option) \<Rightarrow> (string \<Rightarrow> string \<Rightarrow> error + string) \<Rightarrow>
   (string \<Rightarrow> extracted_memory list) \<Rightarrow> string \<Rightarrow> extracted_memory list" where
  "model_backed_extract loads repr_json float_text process fallback content =
     (case process extraction_instruction content of
        Inl _ \<Rightarrow> fallback content
      | Inr raw \<Rightarrow> (case parse_extraction loads repr_json float_text raw of
                     None \<Rightarrow> fallback content | Some results \<Rightarrow> results))"

section \<open>Filing extracted memories\<close>

definition normalize_memory :: "string \<Rightarrow> string" where
  "normalize_memory content = join '' '' (split (casefold content))"

text \<open>The record built for the \<open>i\<close>-th candidate of a call.\<close>

definition candidate_record ::
  "env \<Rightarrow> uuid \<Rightarrow> uuid \<Rightarrow> uuid \<Rightarrow> bool \<Rightarrow> nat \<Rightarrow> extracted_memory \<Rightarrow> memory_record" where
  "candidate_record e tenant_id source_event_id source_message_id promote_all i candidate =
     (let promoted = em_promoted candidate \<or> promote_all in
      \<lparr>mr_id = gen e i, mr_tenant_id = tenant_id, mr_kind = em_kind candidate,
       mr_content = em_content candidate,
       mr_normalized_content = normalize_memory (em_content candidate),
       mr_source_event_id = source_event_id, mr_source_message_id = source_message_id,
       mr_confidence = em_confidence candidate, mr_confirmed = promoted, mr_pinned = False,
       mr_state = (if promoted then Mem_PROMOTED else Mem_CANDIDATE),
       mr_sensitivity = ''normal'', mr_visibility = ''private'', mr_retention = ''durable'',
       mr_contradiction_of = None, mr_created_at = clk e (2 * i), mr_updated_at = clk e (2 * i + 1),
       mr_reviewed_at = None, mr_reviewed_by = None, mr_deleted_at = None, mr_import_batch_id = None,
       mr_source_system = None, mr_source_database_fingerprint = None, mr_source_external_id = None,
       mr_source_metadata = []\<rparr>)"

definition candidate_events :: "env \<Rightarrow> nat \<Rightarrow> memory_record \<Rightarrow> audit_event list" where
  "candidate_events e n memory =
     AuditEvent e n (mr_tenant_id memory) MEMORY_CANDIDATE_CREATED Actor_COORDINATOR None None
       [(''memory_id'', JId (mr_id memory)), (''source_message_id'', JId (mr_source_message_id memory))] #
     (if mr_state memory = Mem_PROMOTED
      then [AuditEvent e (n + 1) (mr_tenant_id memory) MEMORY_PROMOTED Actor_COORDINATOR None None
              [(''memory_id'', JId (mr_id memory))]]
      else [])"

text \<open>
  The loop of \<^verbatim>\<open>extract_content\<close> over the candidates; building a record outside its field bounds raises.
\<close>

fun file_candidates ::
  "(memory_record \<Rightarrow> audit_event list \<Rightarrow> 's \<Rightarrow> (error + memory_record) \<times> 's) \<Rightarrow> env \<Rightarrow> uuid \<Rightarrow> uuid \<Rightarrow> uuid \<Rightarrow>
   bool \<Rightarrow> nat \<Rightarrow> nat \<Rightarrow> extracted_memory list \<Rightarrow> 's \<Rightarrow> (error + memory_record list) \<times> 's" where
  "file_candidates upsert e tenant_id source_event_id source_message_id promote_all i n [] s = (Inr [], s)"
| "file_candidates upsert e tenant_id source_event_id source_message_id promote_all i n (c # cs) s =
     (let memory = candidate_record e tenant_id source_event_id source_message_id promote_all i c in
      if \<not> valid_memory memory then (Inl (ValidationError ''memory record''), s)
      else
        let events = candidate_events e n memory in
        case upsert memory events s of
          (Inl err, s1) \<Rightarrow> (Inl err, s1)
        | (Inr stored, s1) \<Rightarrow>
            (case file_candidates upsert e tenant_id source_event_id source_message_id promote_all
                    (i + 1) (n + length events) cs s1 of
               (Inl err, s2) \<Rightarrow> (Inl err, s2)
             | (Inr records, s2) \<Rightarrow> (Inr (stored # records), s2)))"

definition extract_content ::
  "(memory_record \<Rightarrow> audit_event list \<Rightarrow> 's \<Rightarrow> (error + memory_record) \<times> 's) \<Rightarrow>
   (string \<Rightarrow> extracted_memory list) \<Rightarrow> env \<Rightarrow> uuid \<Rightarrow> uuid \<Rightarrow> uuid \<Rightarrow> string \<Rightarrow> bool \<Rightarrow> 's \<Rightarrow>
   (error + memory_record list) \<times> 's" where
  "extract_content upsert extract e tenant_id source_event_id source_message_id content promote_all s =
     file_candidates upsert e tenant_id source_event_id source_message_id promote_all 0 0 (extract content) s"

definition extract_message ::
  "(memory_record \<Rightarrow> audit_event list \<Rightarrow> 's \<Rightarrow> (error + memory_record) \<times> 's) \<Rightarrow>
   (string \<Rightarrow> extracted_memory list) \<Rightarrow> env \<Rightarrow> uuid \<Rightarrow> uuid \<Rightarrow> uuid \<Rightarrow> string \<Rightarrow> 's \<Rightarrow>
   (error + memory_record list) \<times> 's" where
  "extract_message upsert extract e tenant_id source_event_id source_message_id content s =
     extract_content upsert extract e tenant_id source_event_id source_message_id content False s"

section \<open>Vectors\<close>

text \<open>\<open>sha256\<close> is the digest of the UTF-8 bytes of a text, as numbers below 256.\<close>

definition deterministic_embedding :: "(string \<Rightarrow> nat list) \<Rightarrow> string \<Rightarrow> nat \<Rightarrow> rat list" where
  "deterministic_embedding sha256 content dimensions =
     (let digest = sha256 (casefold content) in
      map (\<lambda>i. of_nat (digest ! (i mod length digest)) / (1275/10) - 1) [0..<dimensions])"

datatype vector_call = Vector_upsert memory_record "rat list" | Vector_delete uuid

text \<open>\<^verbatim>\<open>sync_memory\<close>: the call it makes to the vector index.\<close>

definition sync_memory :: "(string \<Rightarrow> nat list) \<Rightarrow> memory_record \<Rightarrow> vector_call option" where
  "sync_memory sha256 memory =
     (case mr_state memory of
        Mem_PROMOTED \<Rightarrow> Some (Vector_upsert memory (deterministic_embedding sha256 (mr_content memory) 32))
      | Mem_DELETED \<Rightarrow> Some (Vector_delete (mr_id memory))
      | _ \<Rightarrow> None)"

section \<open>The vector indexes\<close>

text \<open>\<^verbatim>\<open>NullVectorIndex\<close> keeps nothing and ranks nothing.\<close>

definition null_upsert :: "memory_record \<Rightarrow> rat list \<Rightarrow> error + unit" where
  "null_upsert memory vector = Inr ()"

definition null_rank :: "uuid \<Rightarrow> string \<Rightarrow> uuid list \<Rightarrow> rat list \<Rightarrow> int \<Rightarrow> error + uuid list" where
  "null_rank tenant_id visibility allowed_ids vector limit = Inr []"

definition null_delete :: "uuid \<Rightarrow> error + unit" where
  "null_delete memory_id = Inr ()"

text \<open>
  \<^verbatim>\<open>QdrantVectorIndex\<close>: \<open>http m p b\<close> is the answer of the server to the request, its status and its JSON
  body, or the transport error; a status outside 200--299 makes \<^verbatim>\<open>raise_for_status\<close> raise.
\<close>

type_synonym http = "string \<Rightarrow> string \<Rightarrow> json \<Rightarrow> error + (int \<times> json)"

definition raise_for_status :: "int \<times> json \<Rightarrow> error + json" where
  "raise_for_status r = (if 200 \<le> fst r \<and> fst r < 300 then Inr (snd r) else Inl (HTTPStatusError))"

text \<open>\<^verbatim>\<open>j.get(k, default)\<close>, which only a dictionary has.\<close>

definition json_get :: "json \<Rightarrow> string \<Rightarrow> json \<Rightarrow> error + json" where
  "json_get j k otherwise = (case j of
     JObj kvs \<Rightarrow> Inr (case map_of kvs k of None \<Rightarrow> otherwise | Some v \<Rightarrow> v)
   | _ \<Rightarrow> Inl AttributeError)"

text \<open>The items of a value that a loop runs over, as far as they can be dictionaries.\<close>

definition json_items :: "json \<Rightarrow> error + json list" where
  "json_items j = (case j of
     JList xs \<Rightarrow> Inr xs | JObj _ \<Rightarrow> Inr [] | JStr _ \<Rightarrow> Inr [] | JId _ \<Rightarrow> Inr [] | JTime _ \<Rightarrow> Inr []
   | _ \<Rightarrow> Inl (TypeError ''not iterable''))"

definition collection_path :: "string \<Rightarrow> string \<Rightarrow> string" where
  "collection_path collection rest = ''/collections/'' @ collection @ rest"

definition qdrant_ensure_ready :: "http \<Rightarrow> string \<Rightarrow> error + unit" where
  "qdrant_ensure_ready http collection =
     ebind (http ''GET'' (collection_path collection []) JNull) (\<lambda>response.
     if fst response = 404
     then ebind (http ''PUT'' (collection_path collection [])
                   (JObj [(''vectors'', JObj [(''size'', JInt 32), (''distance'', JStr ''Cosine'')])]))
            (\<lambda>created. ebind (raise_for_status created) (\<lambda>_. Inr ()))
     else
       ebind (raise_for_status response) (\<lambda>body.
       ebind (json_get body ''result'' (JObj [])) (\<lambda>r.
       ebind (json_get r ''config'' (JObj [])) (\<lambda>c.
       ebind (json_get c ''params'' (JObj [])) (\<lambda>p.
       ebind (json_get p ''vectors'' JNull) (\<lambda>vectors.
       case vectors of
         JObj kvs \<Rightarrow>
           if map_of kvs ''size'' = Some (JInt 32) \<or> map_of kvs ''size'' = Some (JFloat 32) then Inr ()
           else Inl (RuntimeError ''Qdrant collection has an incompatible vector schema'')
       | _ \<Rightarrow> Inl (RuntimeError ''Qdrant collection has an incompatible vector schema'')))))))"

definition qdrant_upsert :: "http \<Rightarrow> string \<Rightarrow> memory_record \<Rightarrow> rat list \<Rightarrow> error + unit" where
  "qdrant_upsert http collection memory vector =
     ebind (http ''PUT'' (collection_path collection ''/points'')
       (JObj [(''points'', JList [JObj
          [(''id'', JId (mr_id memory)), (''vector'', JList (map JFloat vector)),
           (''payload'', JObj [(''tenant_id'', JId (mr_tenant_id memory)),
                               (''visibility'', JStr (mr_visibility memory))])]])]))
       (\<lambda>response. ebind (raise_for_status response) (\<lambda>_. Inr ()))"

definition uuid_or_none :: "(json \<Rightarrow> string) \<Rightarrow> json \<Rightarrow> uuid option" where
  "uuid_or_none repr_json v = parse_uuid (py_str repr_json v)"

definition point_id :: "(json \<Rightarrow> string) \<Rightarrow> uuid list \<Rightarrow> json \<Rightarrow> uuid option" where
  "point_id repr_json permitted item = (case item of
     JObj kvs \<Rightarrow>
       (case uuid_or_none repr_json (case map_of kvs ''id'' of None \<Rightarrow> JNull | Some v \<Rightarrow> v) of
          None \<Rightarrow> None
        | Some u \<Rightarrow> if u \<in> set permitted then Some u else None)
   | _ \<Rightarrow> None)"

definition qdrant_rank ::
  "(json \<Rightarrow> string) \<Rightarrow> http \<Rightarrow> string \<Rightarrow> uuid \<Rightarrow> string \<Rightarrow> uuid list \<Rightarrow> rat list \<Rightarrow> int \<Rightarrow> error + uuid list" where
  "qdrant_rank repr_json http collection tenant_id visibility allowed_ids vector limit =
     (if allowed_ids = [] then Inr []
      else
        ebind (http ''POST'' (collection_path collection ''/points/query'')
          (JObj [(''query'', JList (map JFloat vector)),
                 (''filter'', JObj [(''must'', JList
                    [JObj [(''key'', JStr ''tenant_id''), (''match'', JObj [(''value'', JId tenant_id)])],
                     JObj [(''key'', JStr ''visibility''), (''match'', JObj [(''value'', JStr visibility)])],
                     JObj [(''has_id'', JList (map JId allowed_ids))]])]),
                 (''limit'', JInt limit), (''with_payload'', JBool False)])) (\<lambda>response.
        ebind (raise_for_status response) (\<lambda>body.
        ebind (json_get body ''result'' (JObj [])) (\<lambda>r.
        ebind (json_get r ''points'' (JList [])) (\<lambda>points.
        ebind (json_items points) (\<lambda>items.
        Inr (List.map_filter (point_id repr_json allowed_ids) items)))))))"

definition qdrant_delete :: "http \<Rightarrow> string \<Rightarrow> uuid \<Rightarrow> error + unit" where
  "qdrant_delete http collection memory_id =
     ebind (http ''POST'' (collection_path collection ''/points/delete'')
       (JObj [(''points'', JList [JId memory_id])]))
       (\<lambda>response. ebind (raise_for_status response) (\<lambda>_. Inr ()))"

section \<open>The repository the pipeline relies on\<close>

text \<open>
  What the pipeline relies on: a live memory of the tenant with the same normalized content is returned
  as it is, another memory is filed and found from then on.
\<close>

locale memory_repository =
  fixes upsert :: "memory_record \<Rightarrow> audit_event list \<Rightarrow> 's \<Rightarrow> (error + memory_record) \<times> 's"
    and live :: "'s \<Rightarrow> uuid \<Rightarrow> string \<Rightarrow> memory_record option"
    and fresh :: "'s \<Rightarrow> uuid \<Rightarrow> bool"
  assumes upsert_found:
      "live s (mr_tenant_id m) (mr_normalized_content m) = Some r \<Longrightarrow> upsert m evs s = (Inr r, s)"
    and upsert_new:
      "live s (mr_tenant_id m) (mr_normalized_content m) = None \<Longrightarrow> fst (upsert m evs s) = Inr m"
    and upsert_live:
      "live s (mr_tenant_id m) (mr_normalized_content m) = None \<Longrightarrow> mr_state m \<noteq> Mem_DELETED \<Longrightarrow>
       fresh s (mr_id m) \<Longrightarrow>
       live (snd (upsert m evs s)) u n =
         (if u = mr_tenant_id m \<and> n = mr_normalized_content m then Some m else live s u n)"
    and upsert_fresh:
      "fresh s i \<Longrightarrow> i \<noteq> mr_id m \<Longrightarrow> fresh (snd (upsert m evs s)) i"
    and live_content: "live s u n = Some r \<Longrightarrow> mr_tenant_id r = u \<and> mr_normalized_content r = n"
begin

lemma upsert_then_live:
  assumes m: "mr_state m \<noteq> Mem_DELETED" "fresh s (mr_id m)" and up: "upsert m evs s = (Inr r, s')"
  shows "live s' (mr_tenant_id m) (mr_normalized_content m) = Some r"
    and "live s u n = Some x \<Longrightarrow> live s' u n = Some x"
proof -
  show "live s' (mr_tenant_id m) (mr_normalized_content m) = Some r"
    using upsert_found[of s m _ evs] upsert_new[of s m evs] upsert_live[of s m evs] m up
    by (cases "live s (mr_tenant_id m) (mr_normalized_content m)") simp_all
  show "live s' u n = Some x" if "live s u n = Some x"
    using upsert_found[of s m _ evs] upsert_live[of s m evs u n] m up that
    by (cases "live s (mr_tenant_id m) (mr_normalized_content m)") (auto split: if_splits)
qed

text \<open>
  What a successful loop leaves: every candidate's normalized content has the returned record as its live
  memory, and what was live before still is.
\<close>

lemma file_candidates_live:
  assumes "file_candidates upsert e u ev msg p i n cs s = (Inr rs, s')"
    and "inj (gen e)" and "\<And>j. i \<le> j \<Longrightarrow> fresh s (gen e j)"
  shows "list_all2 (\<lambda>c r. live s' u (normalize_memory (em_content c)) = Some r) cs rs \<and>
    (\<forall>v w x. live s v w = Some x \<longrightarrow> live s' v w = Some x)"
  using assms
proof (induction cs arbitrary: i n s rs)
  case Nil
  then show ?case by simp
next
  case (Cons c cs)
  let ?m = "candidate_record e u ev msg p i c"
  let ?evs = "candidate_events e n ?m"
  obtain x s1 where up0: "upsert ?m ?evs s = (x, s1)" by (cases "upsert ?m ?evs s")
  obtain y s2 where rest0: "file_candidates upsert e u ev msg p (i + 1) (n + length ?evs) cs s1 = (y, s2)"
    by (cases "file_candidates upsert e u ev msg p (i + 1) (n + length ?evs) cs s1")
  have valid: "valid_memory ?m" using Cons.prems(1) by (simp add: Let_def split: if_splits)
  then obtain r rs' where up: "upsert ?m ?evs s = (Inr r, s1)" and rs: "rs = r # rs'"
    and rest: "file_candidates upsert e u ev msg p (i + 1) (n + length ?evs) cs s1 = (Inr rs', s')"
    using Cons.prems(1) up0 rest0 by (cases x; cases y; auto simp: Let_def)
  have m: "mr_state ?m \<noteq> Mem_DELETED" "mr_id ?m = gen e i" "mr_tenant_id ?m = u"
    "mr_normalized_content ?m = normalize_memory (em_content c)"
    by (auto simp: candidate_record_def Let_def)
  have f: "fresh s (mr_id ?m)" using Cons.prems(3)[of i] m(2) by simp
  note live = upsert_then_live[OF m(1) f up]
  have fr: "fresh s1 (gen e j)" if "i + 1 \<le> j" for j
  proof -
    have "gen e j \<noteq> mr_id ?m" using that Cons.prems(2) m(2) by (simp add: inj_eq)
    from upsert_fresh[OF Cons.prems(3)[of j] this, of "candidate_events e n ?m"] that up show ?thesis by simp
  qed
  note IH = Cons.IH[OF rest Cons.prems(2) fr]
  have "live s' u (normalize_memory (em_content c)) = Some r"
    using live(1) IH m(3,4) by simp
  moreover have "live s' v w = Some y" if "live s v w = Some y" for v w y
    using live(2)[OF that] IH by blast
  ultimately show ?case using IH unfolding rs by simp
qed

text \<open>Filing the same candidates again finds them and changes nothing.\<close>

lemma file_candidates_found:
  assumes "list_all2 (\<lambda>c r. live s u (normalize_memory (em_content c)) = Some r) cs rs"
    and "\<And>c j. c \<in> set cs \<Longrightarrow> valid_memory (candidate_record e u ev msg p j c)"
  shows "file_candidates upsert e u ev msg p i n cs s = (Inr rs, s)"
  using assms
proof (induction cs rs arbitrary: i n rule: list_all2_induct)
  case Nil
  then show ?case by simp
next
  case (Cons c cs r rs)
  have "mr_tenant_id (candidate_record e u ev msg p i c) = u"
    "mr_normalized_content (candidate_record e u ev msg p i c) = normalize_memory (em_content c)"
    by (simp_all add: candidate_record_def Let_def)
  with Cons.hyps(1) have "upsert (candidate_record e u ev msg p i c) evs s = (Inr r, s)" for evs
    by (simp add: upsert_found)
  with Cons.IH Cons.prems show ?case by (simp add: Let_def)
qed

end

section \<open>The in-memory store as the repository\<close>

definition live_memory :: "store \<Rightarrow> uuid \<Rightarrow> string \<Rightarrow> memory_record option" where
  "live_memory s u n =
     find (\<lambda>m. mr_tenant_id m = u \<and> mr_normalized_content m = n \<and> mr_state m \<noteq> Mem_DELETED)
       (dict_values (st_memories s))"

definition fresh_memory :: "store \<Rightarrow> uuid \<Rightarrow> bool" where
  "fresh_memory s i \<longleftrightarrow> i \<notin> fst ` set (st_memories s)"

lemma find_append: "find P (xs @ ys) = (case find P xs of None \<Rightarrow> find P ys | Some x \<Rightarrow> Some x)"
  by (induction xs) auto

lemma update_fresh: "k \<notin> fst ` set xs \<Longrightarrow> AList.update k v xs = xs @ [(k, v)]"
  by (induction xs) auto

lemma fst_set_update: "fst ` set (AList.update k v xs) = insert k (fst ` set xs)"
  by (induction xs) auto

interpretation store_memories: memory_repository upsert_memory live_memory fresh_memory
proof
  fix s and m :: memory_record and evs r
  assume "live_memory s (mr_tenant_id m) (mr_normalized_content m) = Some r"
  then show "upsert_memory m evs s = (Inr r, s)"
    by (simp add: live_memory_def upsert_memory_def)
next
  fix s and m :: memory_record and evs
  assume "live_memory s (mr_tenant_id m) (mr_normalized_content m) = None"
  then show "fst (upsert_memory m evs s) = Inr m"
    by (simp add: live_memory_def upsert_memory_def)
next
  fix s and m :: memory_record and evs u n
  assume *: "live_memory s (mr_tenant_id m) (mr_normalized_content m) = None"
    "mr_state m \<noteq> Mem_DELETED" "fresh_memory s (mr_id m)"
  have up: "snd (upsert_memory m evs s) =
      s\<lparr>st_memories := st_memories s @ [(mr_id m, m)], st_events := st_events s @ evs\<rparr>"
    using * by (simp add: live_memory_def upsert_memory_def fresh_memory_def update_fresh)
  show "live_memory (snd (upsert_memory m evs s)) u n =
      (if u = mr_tenant_id m \<and> n = mr_normalized_content m then Some m else live_memory s u n)"
    using * unfolding up by (auto simp: live_memory_def find_append split: option.split)
next
  fix s i and m :: memory_record and evs
  assume "fresh_memory s i" "i \<noteq> mr_id m"
  then show "fresh_memory (snd (upsert_memory m evs s)) i"
    by (auto simp: fresh_memory_def upsert_memory_def fst_set_update split: option.split)
next
  fix s u n r
  assume "live_memory s u n = Some r"
  then show "mr_tenant_id r = u \<and> mr_normalized_content r = n"
    by (auto simp: live_memory_def find_Some_iff)
qed

end
