(* ===== verification/PipelineProperties.thy ===== *)
theory PipelineProperties
  imports Pipeline
begin

text \<open>
  What the memory pipeline guarantees: extraction is grounded in the message and can be repeated, a
  model's answer is taken only when it is well formed, and a vector index cannot name a memory
  that was not offered to it.
\<close>

section \<open>Pieces of a text\<close>

lemma sublist_strip: "sublist (strip s) s"
proof -
  have "suffix (lstrip s) s" unfolding lstrip_def by (rule suffix_dropWhile)
  moreover have "prefix (strip s) (lstrip s)" unfolding strip_def by (rule rstrip_prefix)
  ultimately show ?thesis by (meson prefix_imp_sublist sublist_order.order.trans suffix_imp_sublist)
qed

lemma sublist_rstrip_chars: "sublist (rstrip_chars cs s) s"
proof -
  have "sublist (dropWhile (\<lambda>c. c \<in> set cs) (rev s)) (rev s)"
    by (simp add: suffix_dropWhile suffix_imp_sublist)
  then show ?thesis unfolding rstrip_chars_def by (simp add: sublist_rev_right)
qed

lemma sublist_contains: "sublist x s \<longleftrightarrow> contains x s"
  by (simp add: contains_iff sublist_def)

lemma split_sentences_sublist:
  "piece \<in> set (split_sentences_from prev acc s) \<Longrightarrow> sublist piece (rev acc @ s)"
proof (induction prev acc s rule: split_sentences_from.induct)
  case (1 prev acc)
  then show ?case by simp
next
  case (2 prev acc c s)
  have rest: "sublist piece (rev acc @ c # s)" if "sublist piece (dropWhile P s)" for P
    using that suffix_dropWhile[of P s]
    by (meson sublist_appendI sublist_Cons_right sublist_append_leftI sublist_order.order.trans suffix_imp_sublist)
  have here: "sublist (rev acc) (rev acc @ c # s)" by simp
  from 2 show ?case
    using rest[of is_space] rest[of "\<lambda>d. d = CHR 0x0A"] by (auto simp: here split: if_splits)
qed

lemma clean_sentence_sublist: "sublist (clean_sentence s) s"
  unfolding clean_sentence_def by (meson sublist_order.order.trans sublist_rstrip_chars sublist_strip)

lemma strip_last: "strip s \<noteq> [] \<Longrightarrow> \<not> is_space (last (strip s))"
  unfolding strip_def rstrip_def using hd_dropWhile[of is_space "rev (lstrip s)"] by (simp add: last_rev)

lemma strip_nonempty: "c \<in> set s \<Longrightarrow> \<not> is_space c \<Longrightarrow> strip s \<noteq> []"
proof -
  assume c: "c \<in> set s" "\<not> is_space c"
  then have "c \<in> set (lstrip s)"
    unfolding lstrip_def by (metis Un_iff set_append set_takeWhileD takeWhile_dropWhile_id)
  then have "c \<in> set (rev (lstrip s))" by simp
  with c show ?thesis unfolding strip_def rstrip_def
    by (metis dropWhile_eq_Nil_conv rev_is_Nil_conv)
qed

text \<open>The group of a pattern is a part of the cleaned sentence that is not blank.\<close>

lemma match_words_part:
  assumes "match_words words (clean_sentence x) = Some g"
  shows "sublist (strip g) (clean_sentence x) \<and> strip g \<noteq> []"
proof -
  let ?c = "clean_sentence x"
  from assms have g: "g = lstrip (drop (length words) ?c)" and len: "length words < length ?c"
    by (auto simp: match_words_def split: if_splits)
  have "suffix g ?c" unfolding g lstrip_def by (meson suffix_dropWhile suffix_drop suffix_order.trans)
  then have "sublist (strip g) ?c" by (meson sublist_order.order.trans sublist_strip suffix_imp_sublist)
  moreover have "strip g \<noteq> []"
  proof -
    have "?c \<noteq> []" using len by auto
    then have "\<not> is_space (last ?c)"
      using strip_last[of "rstrip_chars ''.!?'' (strip x)"] by (simp add: clean_sentence_def)
    moreover have "last ?c \<in> set (drop (length words) ?c)"
      using len by (metis drop_eq_Nil last_drop last_in_set leD)
    ultimately have "strip (drop (length words) ?c) \<noteq> []" by (metis strip_nonempty)
    moreover have "strip g = strip (drop (length words) ?c)"
      unfolding g strip_def lstrip_def by (simp add: dropWhile_idem)
    ultimately show ?thesis by simp
  qed
  ultimately show ?thesis by blast
qed

lemma first_match_part:
  "first_match ps (clean_sentence x) = Some c \<Longrightarrow>
     sublist (em_content c) (clean_sentence x) \<and> em_content c \<noteq> [] \<and>
     (\<exists>(w, k, f, p) \<in> set ps. em_kind c = k \<and> em_confidence c = f \<and> em_promoted c = p)"
proof (induction ps)
  case Nil
  then show ?case by simp
next
  case (Cons q ps)
  obtain w k f p where q: "q = (w, k, f, p)" by (cases q)
  show ?case
  proof (cases "match_words w (clean_sentence x)")
    case None
    with Cons q show ?thesis by auto
  next
    case (Some g)
    with Cons.prems q match_words_part[OF Some] show ?thesis by auto
  qed
qed

section \<open>Properties\<close>

text \<open>
  The deterministic extractor invents nothing: every memory it extracts quotes a non-empty part
  of the message, is a fact, a preference or a project, has a confidence between three quarters and
  one, and is promoted at once only when the user stated it outright.
\<close>

theorem deterministic_extract_grounded:
  assumes "c \<in> set (deterministic_extract content)"
  shows "contains (em_content c) content \<and> em_content c \<noteq> [] \<and>
    em_kind c \<in> {Mem_FACT, Mem_PREFERENCE, Mem_PROJECT} \<and>
    3/4 \<le> em_confidence c \<and> em_confidence c \<le> 1 \<and> (em_promoted c \<longleftrightarrow> 95/100 \<le> em_confidence c)"
proof -
  from assms obtain x where x: "x \<in> set (split_sentences (strip content))"
    and m: "first_match extraction_patterns (clean_sentence x) = Some c"
    by (auto simp: deterministic_extract_def map_filter_def)
  have "sublist x (strip content)"
    using split_sentences_sublist[of x None "[]" "strip content"] x by (simp add: split_sentences_def)
  then have "sublist (em_content c) content"
    using first_match_part[OF m] clean_sentence_sublist[of x] sublist_strip[of content]
    by (meson sublist_order.order.trans)
  then show ?thesis
    using first_match_part[OF m] by (auto simp: extraction_patterns_def sublist_contains)
qed

definition sample_extract :: "extracted_memory" where
  "sample_extract = \<lparr>em_kind = Mem_PREFERENCE, em_content = ''tea'', em_confidence = 95/100, em_promoted = True\<rparr>"

lemma sample_extract_in: "sample_extract \<in> set (deterministic_extract ''Hi! I prefer  tea.'')"
  by code_simp

theorem deterministic_extract_grounded_witness:
  "contains (em_content sample_extract) ''Hi! I prefer  tea.''"
  using deterministic_extract_grounded[OF sample_extract_in] by blast

text \<open>Whether a candidate makes a valid record depends on its content alone.\<close>

lemma valid_candidate_record:
  "valid_memory (candidate_record e u ev msg p i c) \<longleftrightarrow>
     str_between 1 50000 (em_content c) \<and> str_between 1 50000 (normalize_memory (em_content c)) \<and>
     0 \<le> em_confidence c \<and> em_confidence c \<le> 1"
  by (simp add: valid_memory_def candidate_record_def Let_def str_between_def)

lemma file_candidates_valid:
  assumes "file_candidates upsert e u ev msg p i n cs s = (Inr rs, s')" and "c \<in> set cs"
  shows "valid_memory (candidate_record e' u' ev' msg' p' j c)"
  using assms
proof (induction cs arbitrary: i n s rs)
  case Nil
  then show ?case by simp
next
  case (Cons d cs)
  let ?m = "candidate_record e u ev msg p i d"
  have valid: "valid_memory ?m" using Cons.prems(1) by (simp add: Let_def split: if_splits)
  obtain x s1 where up: "upsert ?m (candidate_events e n ?m) s = (x, s1)" by fastforce
  obtain y s2 where rest:
    "file_candidates upsert e u ev msg p (i + 1) (n + length (candidate_events e n ?m)) cs s1 = (y, s2)"
    by fastforce
  obtain rs' where "y = Inr rs'" "s2 = s'"
    using Cons.prems(1) valid up rest by (cases x; cases y) (simp_all add: Let_def)
  with rest Cons.IH Cons.prems(2) valid show ?case
    by (auto simp: valid_candidate_record)
qed

text \<open>
  Extracting a message twice is the same as extracting it once: after a successful extraction any
  later one of the same content for the same tenant, at another time, from another event or message,
  returns the very records the first one returned and leaves the store as it is.
\<close>

theorem extraction_idempotent:
  assumes "extract_content upsert_memory extract e tenant_id ev msg content promote s = (Inr rs, s')"
    and "inj (gen e)" and "\<And>i. fresh_memory s (gen e i)"
  shows "extract_content upsert_memory extract e' tenant_id ev' msg' content promote s' = (Inr rs, s')"
proof -
  have run: "file_candidates upsert_memory e tenant_id ev msg promote 0 0 (extract content) s = (Inr rs, s')"
    using assms(1) by (simp add: extract_content_def)
  then have "list_all2 (\<lambda>c r. live_memory s' tenant_id (normalize_memory (em_content c)) = Some r)
      (extract content) rs"
    using store_memories.file_candidates_live[OF run assms(2)] assms(3) by blast
  from store_memories.file_candidates_found[OF this file_candidates_valid[OF run]] show ?thesis
    by (simp add: extract_content_def)
qed

definition sample_content :: string where
  "sample_content = ''I prefer tea. I use vim.''"

lemma sample_extraction:
  "deterministic_extract sample_content =
     [sample_extract, \<lparr>em_kind = Mem_FACT, em_content = ''vim'', em_confidence = 3/4, em_promoted = False\<rparr>]"
  "normalize_memory ''tea'' = ''tea''" "normalize_memory ''vim'' = ''vim''"
  by code_simp+

lemma sample_extraction_succeeds:
  "\<not> isl (fst (extract_content upsert_memory deterministic_extract sample_env 1 7 20 sample_content False
                 sample_store))"
  by (simp add: extract_content_def sample_extraction sample_extract_def valid_candidate_record str_between_def
      Let_def upsert_memory_def split: option.split)

theorem extraction_idempotent_witness:
  "let first = extract_content upsert_memory deterministic_extract sample_env 1 7 20 sample_content False
                 sample_store
   in extract_content upsert_memory deterministic_extract (env_at 700) 1 8 21 sample_content False
        (snd first) = first"
proof -
  let ?run = "extract_content upsert_memory deterministic_extract sample_env 1 7 20 sample_content False
    sample_store"
  obtain rs s' where first: "?run = (Inr rs, s')"
    using sample_extraction_succeeds by (cases ?run; cases "fst ?run") auto
  have "inj (gen sample_env)" by (simp add: samples inj_def)
  moreover have "fresh_memory sample_store (gen sample_env i)" for i
    by (simp add: fresh_memory_def samples empty_store_def)
  ultimately show ?thesis
    using extraction_idempotent[OF first] unfolding first Let_def snd_conv by blast
qed

text \<open>
  The model-backed extractor never fails and never passes on a malformed answer: its result is the
  fallback's, or at most ten candidates, each with content and a confidence between zero and one; a
  provider error and an answer without a JSON array give the fallback's.
\<close>

theorem model_backed_extract_checked:
  "(model_backed_extract loads repr_json float_text process fallback content = fallback content \<or>
    length (model_backed_extract loads repr_json float_text process fallback content) \<le> 10 \<and>
    list_all valid_candidate (model_backed_extract loads repr_json float_text process fallback content)) \<and>
   (isl (process extraction_instruction content) \<longrightarrow>
      model_backed_extract loads repr_json float_text process fallback content = fallback content) \<and>
   (process extraction_instruction content = Inr raw \<and> json_array_text raw = None \<longrightarrow>
      model_backed_extract loads repr_json float_text process fallback content = fallback content)"
proof -
  have those_length: "those xs = Some ys \<Longrightarrow> length ys = length xs" for xs :: "extracted_memory option list" and ys
    by (induction xs arbitrary: ys) (auto split: option.splits)
  show ?thesis
    unfolding model_backed_extract_def parse_extraction_def
    by (auto split: sum.splits option.splits json.splits if_splits dest!: those_length)
qed

definition broken_model :: "string \<Rightarrow> string \<Rightarrow> error + string" where
  "broken_model instruction content = Inr ''no memories here''"

theorem model_backed_extract_checked_witness:
  "model_backed_extract (\<lambda>_. None) (\<lambda>_. []) (\<lambda>_. None) broken_model deterministic_extract ''I prefer tea.'' =
     deterministic_extract ''I prefer tea.''"
proof -
  have "json_array_text ''no memories here'' = None" by code_simp
  then show ?thesis
    using model_backed_extract_checked[of "\<lambda>_. None" "\<lambda>_. []" "\<lambda>_. None" broken_model deterministic_extract
        "''I prefer tea.''" "''no memories here''"]
    by (simp add: broken_model_def)
qed

text \<open>
  A vector index ranks only what it was offered: whatever the server answers, the identifiers that
  come back are among the allowed ones, so a memory the recall excluded cannot return through the
  index; an empty offer makes no request at all.
\<close>

theorem rank_within_allowed:
  assumes "qdrant_rank repr_json http collection tenant_id visibility allowed_ids vector limit = Inr ids"
  shows "set ids \<subseteq> set allowed_ids"
proof -
  have "u \<in> set allowed_ids" if "point_id repr_json allowed_ids item = Some u" for item u
    using that by (auto simp: point_id_def split: json.splits option.splits if_splits)
  then show ?thesis
    using assms by (auto simp: qdrant_rank_def ebind_Inr_iff map_filter_def split: if_splits)
qed

text \<open>A server that answers with a point of another tenant and one it was asked for.\<close>

definition sample_server :: http where
  "sample_server m p b =
     Inr (200, JObj [(''result'', JObj [(''points'', JList
        [JObj [(''id'', JId 51)], JObj [(''id'', JId 50)], JObj [(''score'', JFloat 1)]])])])"

lemma sample_server_rank:
  "qdrant_rank (\<lambda>_. ''None'') sample_server ''m'' 1 ''private'' [50, 52] [] 3 = Inr [50]"
proof -
  have "parse_uuid ''None'' = None" by code_simp
  then show ?thesis
    by (simp add: qdrant_rank_def sample_server_def raise_for_status_def json_get_def json_items_def
        point_id_def uuid_or_none_def py_str_def is_uuid_def map_filter_simps)
qed

theorem rank_within_allowed_witness: "set [50 :: uuid] \<subseteq> set [50, 52 :: uuid]"
  using rank_within_allowed[OF sample_server_rank] by simp

text \<open>
  The embedding of a text has the asked dimension, every component lies between minus one and one,
  and texts that differ in case only have the same embedding.
\<close>

theorem embedding_bounds:
  assumes "sha256 (casefold content) \<noteq> []" and "list_all (\<lambda>b. b < 256) (sha256 (casefold content))"
  shows "length (deterministic_embedding sha256 content dimensions) = dimensions \<and>
    list_all (\<lambda>x. - 1 \<le> x \<and> x \<le> 1) (deterministic_embedding sha256 content dimensions) \<and>
    (casefold content' = casefold content \<longrightarrow>
       deterministic_embedding sha256 content' dimensions = deterministic_embedding sha256 content dimensions)"
proof -
  let ?d = "sha256 (casefold content)"
  have bound: "?d ! (i mod length ?d) \<le> 255" for i
    using assms by (auto simp: list_all_length dest!: spec[of _ "i mod length ?d"])
  have "- 1 \<le> (of_nat b :: rat) / (1275/10) - 1 \<and> (of_nat b :: rat) / (1275/10) - 1 \<le> 1" if "b \<le> 255" for b :: nat
    using that by (simp add: field_simps)
  with bound show ?thesis
    by (auto simp: deterministic_embedding_def list_all_iff Let_def)
qed

theorem embedding_bounds_witness:
  "length (deterministic_embedding (\<lambda>_. [0, 255]) ''Tea'' 32) = 32 \<and>
   deterministic_embedding (\<lambda>_. [0, 255]) ''tEA'' 32 = deterministic_embedding (\<lambda>_. [0, 255]) ''Tea'' 32"
proof -
  have "casefold ''tEA'' = casefold ''Tea''" by code_simp
  then show ?thesis
    using embedding_bounds[of "\<lambda>_. [0, 255]" "''Tea''" 32 "''tEA''"] by simp
qed

end
