(* ===== verification/SqlRows.thy ===== *)
theory SqlRows
  imports Policy Uuid
begin

text \<open>
  The tables of \<^verbatim>\<open>packages/runtime/src/astra_runtime/sql.py\<close>: one record per row class, the
  conversions between rows and domain values, and what the column types can hold. A UUID is stored
  as its text, an instant as a naive UTC time, a nested model as JSON; an enumeration column keeps
  the member, a nullable column is an option and a nullable JSON column holds \<open>JNull\<close>. The
  database returns the values it was given; the driver and the engine are not modelled.
\<close>

named_theorems rows \<open>definitions of the row conversions\<close>
named_theorems columns \<open>what the columns of a table can hold\<close>

section \<open>Column values\<close>

definition naive_utc :: "datetime \<Rightarrow> pydatetime" where
  "naive_utc t = Naive t"

definition aware_utc :: "pydatetime \<Rightarrow> datetime" where
  "aware_utc v = (case v of Naive t \<Rightarrow> t | Aware t \<Rightarrow> t)"

text \<open>\<^verbatim>\<open>UUID(row.x)\<close>, and \<^verbatim>\<open>UUID(row.x) if row.x else None\<close>: an empty text counts as none.\<close>

definition parse_id :: "string \<Rightarrow> error + uuid" where
  "parse_id s = (case parse_uuid s of None \<Rightarrow> Inl (ValueError ''badly formed hexadecimal UUID string'')
                                    | Some u \<Rightarrow> Inr u)"

definition optional_id :: "string option \<Rightarrow> error + uuid option" where
  "optional_id v = (case v of None \<Rightarrow> Inr None
     | Some s \<Rightarrow> if s = [] then Inr None else ebind (parse_id s) (\<lambda>u. Inr (Some u)))"

text \<open>\<^verbatim>\<open>model_dump\<close> and \<^verbatim>\<open>model_validate\<close> of the nested models.\<close>

definition capability_dump :: "capability \<Rightarrow> json" where
  "capability_dump c =
     JObj [(''kind'', JStr (capability_kind_value (cap_kind c))), (''scope'', JStr (cap_scope c))]"

definition job_error_dump :: "job_error \<Rightarrow> json" where
  "job_error_dump e = JObj [(''type'', JStr (je_type e)), (''message'', JStr (je_message e))]"

definition core_dump :: "persona_core \<Rightarrow> json" where
  "core_dump c = JObj [(''identity'', JStr (pc_identity c)), (''values'', JStr (pc_values c)),
     (''boundaries'', JStr (pc_boundaries c)), (''tone'', JStr (pc_tone c)),
     (''initiative'', JStr (pc_initiative c)), (''emotional_range'', JStr (pc_emotional_range c)),
     (''disagreement'', JStr (pc_disagreement c))]"

definition optional_dump :: "('a \<Rightarrow> json) \<Rightarrow> 'a option \<Rightarrow> json" where
  "optional_dump dump v = (case v of None \<Rightarrow> JNull | Some x \<Rightarrow> dump x)"

definition string_fields :: "json \<Rightarrow> (string, string) dict option" where
  "string_fields j = (case j of
     JObj kvs \<Rightarrow> those (map (\<lambda>(k, v). case v of JStr s \<Rightarrow> Some (k, s) | _ \<Rightarrow> None) kvs)
   | _ \<Rightarrow> None)"

definition validation_error :: error where
  "validation_error = ValidationError ''invalid field''"

definition capability_of_json :: "json \<Rightarrow> error + capability" where
  "capability_of_json j = (case string_fields j of
     None \<Rightarrow> Inl validation_error
   | Some d \<Rightarrow> (case capability_model_validate d of None \<Rightarrow> Inl validation_error | Some c \<Rightarrow> Inr c))"

definition capabilities_of_json :: "json \<Rightarrow> error + capability list" where
  "capabilities_of_json j = (case j of JList js \<Rightarrow> emap capability_of_json js | _ \<Rightarrow> Inl (TypeError ''not iterable''))"

definition job_error_of_json :: "json \<Rightarrow> error + job_error" where
  "job_error_of_json j = (case string_fields j of
     None \<Rightarrow> Inl validation_error
   | Some d \<Rightarrow>
       if \<not> list_all (\<lambda>k. k = ''type'' \<or> k = ''message'') (map fst d) then Inl validation_error
       else case (map_of d ''type'', map_of d ''message'') of
              (Some t, Some m) \<Rightarrow> checked valid_job_error \<lparr>je_type = t, je_message = m\<rparr>
            | _ \<Rightarrow> Inl validation_error)"

definition core_of_json :: "json \<Rightarrow> error + persona_core" where
  "core_of_json j = (case string_fields j of
     None \<Rightarrow> Inl validation_error
   | Some d \<Rightarrow>
       if \<not> set (map fst d) \<subseteq> {''identity'', ''values'', ''boundaries'', ''tone'', ''initiative'',
                               ''emotional_range'', ''disagreement''}
       then Inl validation_error
       else case those (map (map_of d) [''values'', ''boundaries'', ''tone'', ''initiative'',
                          ''emotional_range'', ''disagreement'']) of
              Some [v, b, t, i, e, g] \<Rightarrow>
                checked valid_persona_core
                  \<lparr>pc_identity = (case map_of d ''identity'' of None \<Rightarrow> ''You are Astra.'' | Some n \<Rightarrow> n),
                   pc_values = v, pc_boundaries = b, pc_tone = t, pc_initiative = i,
                   pc_emotional_range = e, pc_disagreement = g\<rparr>
            | _ \<Rightarrow> Inl validation_error)"

text \<open>\<^verbatim>\<open>X.model_validate(row.x) if row.x else None\<close>: an empty object counts as none.\<close>

definition optional_load :: "(json \<Rightarrow> error + 'a) \<Rightarrow> json \<Rightarrow> error + 'a option" where
  "optional_load load j =
     (if j = JNull \<or> j = JObj [] then Inr None else ebind (load j) (\<lambda>x. Inr (Some x)))"

definition dict_of_json :: "json \<Rightarrow> error + (string, json) dict" where
  "dict_of_json j = (case j of JObj d \<Rightarrow> Inr d | _ \<Rightarrow> Inl validation_error)"

text \<open>
  \<^verbatim>\<open>CHAR(n)\<close> and \<^verbatim>\<open>String(n)\<close> count characters, \<^verbatim>\<open>Text\<close> holds 65535 bytes of UTF-8, an integer column is
  a signed 32-bit number.
\<close>

definition char_column :: "nat \<Rightarrow> string \<Rightarrow> bool" where
  "char_column n s \<longleftrightarrow> length s \<le> n"

definition utf8_length :: "string \<Rightarrow> nat" where
  "utf8_length s = sum_list (map (\<lambda>c. if (of_char c :: nat) < 128 then 1 else 2) s)"

definition text_column :: "string \<Rightarrow> bool" where
  "text_column s \<longleftrightarrow> utf8_length s \<le> 65535"

definition int_column :: "int \<Rightarrow> bool" where
  "int_column i \<longleftrightarrow> - (2 ^ 31) \<le> i \<and> i < 2 ^ 31"

section \<open>Row classes\<close>

record conversation_row =
  rcv_id :: string
  rcv_tenant_id :: string
  rcv_user_id :: string
  rcv_title :: string
  rcv_created_at :: pydatetime
  rcv_updated_at :: pydatetime

definition conversation_row_fits :: "conversation_row \<Rightarrow> bool" where
  [columns]: "conversation_row_fits r \<longleftrightarrow>
     char_column 36 (rcv_id r) \<and> char_column 36 (rcv_tenant_id r) \<and>
     char_column 36 (rcv_user_id r) \<and> char_column 200 (rcv_title r)"

record conversation_message_row =
  rms_id :: string
  rms_tenant_id :: string
  rms_conversation_id :: string
  rms_role :: message_role
  rms_content :: string
  rms_created_at :: pydatetime

definition conversation_message_row_fits :: "conversation_message_row \<Rightarrow> bool" where
  [columns]: "conversation_message_row_fits r \<longleftrightarrow>
     char_column 36 (rms_id r) \<and> char_column 36 (rms_tenant_id r) \<and>
     char_column 36 (rms_conversation_id r) \<and> text_column (rms_content r)"

record conversation_turn_row =
  rtn_id :: string
  rtn_tenant_id :: string
  rtn_conversation_id :: string
  rtn_user_message_id :: string
  rtn_client_request_id :: string
  rtn_state :: conversation_turn_state
  rtn_checkpoint :: json
  rtn_run_lease_id :: "string option"
  rtn_run_lease_expires_at :: "pydatetime option"
  rtn_created_at :: pydatetime
  rtn_updated_at :: pydatetime
  rtn_completed_at :: "pydatetime option"

definition conversation_turn_row_fits :: "conversation_turn_row \<Rightarrow> bool" where
  [columns]: "conversation_turn_row_fits r \<longleftrightarrow>
     char_column 36 (rtn_id r) \<and> char_column 36 (rtn_tenant_id r) \<and>
     char_column 36 (rtn_conversation_id r) \<and> char_column 36 (rtn_user_message_id r) \<and>
     char_column 36 (rtn_client_request_id r) \<and> pred_option (char_column 36) (rtn_run_lease_id r)"

record tool_invocation_row =
  riv_id :: string
  riv_tenant_id :: string
  riv_turn_id :: string
  riv_task_id :: "string option"
  riv_tool_call_id :: string
  riv_tool_name :: string
  riv_target :: tool_invocation_target
  riv_state :: tool_invocation_state
  riv_arguments :: json
  riv_arguments_sha256 :: string
  riv_created_at :: pydatetime
  riv_updated_at :: pydatetime
  riv_completed_at :: "pydatetime option"

definition tool_invocation_row_fits :: "tool_invocation_row \<Rightarrow> bool" where
  [columns]: "tool_invocation_row_fits r \<longleftrightarrow>
     char_column 36 (riv_id r) \<and> char_column 36 (riv_tenant_id r) \<and>
     char_column 36 (riv_turn_id r) \<and> pred_option (char_column 36) (riv_task_id r) \<and>
     char_column 200 (riv_tool_call_id r) \<and> char_column 200 (riv_tool_name r) \<and>
     char_column 64 (riv_arguments_sha256 r)"

record remote_agent_row =
  rra_id :: string
  rra_tenant_id :: string
  rra_name :: string
  rra_capabilities :: json
  rra_runtime_version :: string
  rra_status :: remote_agent_status
  rra_trust_level :: int
  rra_registered_at :: pydatetime
  rra_last_seen_at :: pydatetime

definition remote_agent_row_fits :: "remote_agent_row \<Rightarrow> bool" where
  [columns]: "remote_agent_row_fits r \<longleftrightarrow>
     char_column 36 (rra_id r) \<and> char_column 36 (rra_tenant_id r) \<and>
     char_column 200 (rra_name r) \<and> char_column 100 (rra_runtime_version r) \<and>
     int_column (rra_trust_level r)"

record task_row =
  rtk_id :: string
  rtk_tenant_id :: string
  rtk_objective :: string
  rtk_context :: string
  rtk_required_capabilities :: json
  rtk_deliverable_contract :: string
  rtk_state :: task_state
  rtk_created_at :: pydatetime
  rtk_deadline :: "pydatetime option"
  rtk_result :: "string option"
  rtk_completed_at :: "pydatetime option"
  rtk_target_ara_id :: "string option"
  rtk_completed_by_ara_id :: "string option"

definition task_row_fits :: "task_row \<Rightarrow> bool" where
  [columns]: "task_row_fits r \<longleftrightarrow>
     char_column 36 (rtk_id r) \<and> char_column 36 (rtk_tenant_id r) \<and>
     text_column (rtk_objective r) \<and> text_column (rtk_context r) \<and>
     text_column (rtk_deliverable_contract r) \<and> pred_option text_column (rtk_result r) \<and>
     pred_option (char_column 36) (rtk_target_ara_id r) \<and>
     pred_option (char_column 36) (rtk_completed_by_ara_id r)"

record lease_row =
  rls_id :: string
  rls_tenant_id :: string
  rls_task_id :: string
  rls_ara_id :: string
  rls_acquired_at :: pydatetime
  rls_expires_at :: pydatetime

definition lease_row_fits :: "lease_row \<Rightarrow> bool" where
  [columns]: "lease_row_fits r \<longleftrightarrow>
     char_column 36 (rls_id r) \<and> char_column 36 (rls_tenant_id r) \<and>
     char_column 36 (rls_task_id r) \<and> char_column 36 (rls_ara_id r)"

record approval_row =
  rap_id :: string
  rap_tenant_id :: string
  rap_task_id :: "string option"
  rap_tool_invocation_id :: "string option"
  rap_capability :: json
  rap_requested_by :: "string option"
  rap_requestor_type :: actor_type
  rap_state :: approval_state
  rap_reason :: string
  rap_created_at :: pydatetime
  rap_decided_at :: "pydatetime option"
  rap_decided_by :: "string option"

definition approval_row_fits :: "approval_row \<Rightarrow> bool" where
  [columns]: "approval_row_fits r \<longleftrightarrow>
     char_column 36 (rap_id r) \<and> char_column 36 (rap_tenant_id r) \<and>
     pred_option (char_column 36) (rap_task_id r) \<and>
     pred_option (char_column 36) (rap_tool_invocation_id r) \<and>
     pred_option (char_column 36) (rap_requested_by r) \<and> text_column (rap_reason r) \<and>
     pred_option (char_column 36) (rap_decided_by r)"

record artifact_row =
  raf_id :: string
  raf_tenant_id :: string
  raf_task_id :: string
  raf_name :: string
  raf_media_type :: string
  raf_object_key :: string
  raf_size_bytes :: int
  raf_sha256 :: string
  raf_created_at :: pydatetime
  raf_deleted_at :: "pydatetime option"
  raf_retention_until :: "pydatetime option"

definition artifact_row_fits :: "artifact_row \<Rightarrow> bool" where
  [columns]: "artifact_row_fits r \<longleftrightarrow>
     char_column 36 (raf_id r) \<and> char_column 36 (raf_tenant_id r) \<and>
     char_column 36 (raf_task_id r) \<and> char_column 500 (raf_name r) \<and>
     char_column 200 (raf_media_type r) \<and> char_column 1000 (raf_object_key r) \<and>
     int_column (raf_size_bytes r) \<and> char_column 64 (raf_sha256 r)"

record audit_event_row =
  rev_id :: string
  rev_tenant_id :: string
  rev_event_type :: event_type
  rev_actor_type :: actor_type
  rev_actor_id :: "string option"
  rev_task_id :: "string option"
  rev_payload :: json
  rev_occurred_at :: pydatetime

definition audit_event_row_fits :: "audit_event_row \<Rightarrow> bool" where
  [columns]: "audit_event_row_fits r \<longleftrightarrow>
     char_column 36 (rev_id r) \<and> char_column 36 (rev_tenant_id r) \<and>
     pred_option (char_column 36) (rev_actor_id r) \<and> pred_option (char_column 36) (rev_task_id r)"

record background_job_row =
  rjb_id :: string
  rjb_tenant_id :: string
  rjb_kind :: background_job_kind
  rjb_source_id :: string
  rjb_payload :: json
  rjb_state :: background_job_state
  rjb_attempt_count :: int
  rjb_max_attempts :: int
  rjb_available_at :: pydatetime
  rjb_lease_id :: "string option"
  rjb_lease_expires_at :: "pydatetime option"
  rjb_last_error :: json
  rjb_created_at :: pydatetime
  rjb_updated_at :: pydatetime
  rjb_completed_at :: "pydatetime option"

definition background_job_row_fits :: "background_job_row \<Rightarrow> bool" where
  [columns]: "background_job_row_fits r \<longleftrightarrow>
     char_column 36 (rjb_id r) \<and> char_column 36 (rjb_tenant_id r) \<and>
     char_column 36 (rjb_source_id r) \<and> int_column (rjb_attempt_count r) \<and>
     int_column (rjb_max_attempts r) \<and> pred_option (char_column 36) (rjb_lease_id r)"

record job_attempt_row =
  rat_id :: string
  rat_tenant_id :: string
  rat_job_id :: string
  rat_attempt :: int
  rat_started_at :: pydatetime
  rat_finished_at :: "pydatetime option"
  rat_error :: json

definition job_attempt_row_fits :: "job_attempt_row \<Rightarrow> bool" where
  [columns]: "job_attempt_row_fits r \<longleftrightarrow>
     char_column 36 (rat_id r) \<and> char_column 36 (rat_tenant_id r) \<and>
     char_column 36 (rat_job_id r) \<and> int_column (rat_attempt r)"

record persona_profile_row =
  rpp_id :: string
  rpp_tenant_id :: string
  rpp_version :: int
  rpp_authored_core :: json
  rpp_created_at :: pydatetime

definition persona_profile_row_fits :: "persona_profile_row \<Rightarrow> bool" where
  [columns]: "persona_profile_row_fits r \<longleftrightarrow>
     char_column 36 (rpp_id r) \<and> char_column 36 (rpp_tenant_id r) \<and> int_column (rpp_version r)"

record learned_persona_adaptation_row =
  rla_id :: string
  rla_tenant_id :: string
  rla_profile_id :: string
  rla_content :: string
  rla_state :: learned_adaptation_state
  rla_source :: string
  rla_created_at :: pydatetime
  rla_reversed_at :: "pydatetime option"

definition learned_persona_adaptation_row_fits :: "learned_persona_adaptation_row \<Rightarrow> bool" where
  [columns]: "learned_persona_adaptation_row_fits r \<longleftrightarrow>
     char_column 36 (rla_id r) \<and> char_column 36 (rla_tenant_id r) \<and>
     char_column 36 (rla_profile_id r) \<and> text_column (rla_content r) \<and>
     char_column 200 (rla_source r)"

record memory_row =
  rmr_id :: string
  rmr_tenant_id :: string
  rmr_kind :: memory_kind
  rmr_content :: string
  rmr_normalized_content :: string
  rmr_source_event_id :: string
  rmr_source_message_id :: string
  rmr_confidence :: rat
  rmr_confirmed :: bool
  rmr_pinned :: bool
  rmr_state :: memory_state
  rmr_sensitivity :: string
  rmr_visibility :: string
  rmr_retention :: string
  rmr_contradiction_of :: "string option"
  rmr_created_at :: pydatetime
  rmr_updated_at :: pydatetime
  rmr_reviewed_at :: "pydatetime option"
  rmr_reviewed_by :: "string option"
  rmr_deleted_at :: "pydatetime option"
  rmr_import_batch_id :: "string option"
  rmr_source_system :: "string option"
  rmr_source_database_fingerprint :: "string option"
  rmr_source_external_id :: "string option"
  rmr_source_metadata :: json

definition memory_row_fits :: "memory_row \<Rightarrow> bool" where
  [columns]: "memory_row_fits r \<longleftrightarrow>
     char_column 36 (rmr_id r) \<and> char_column 36 (rmr_tenant_id r) \<and>
     text_column (rmr_content r) \<and> text_column (rmr_normalized_content r) \<and>
     char_column 36 (rmr_source_event_id r) \<and> char_column 36 (rmr_source_message_id r) \<and>
     char_column 100 (rmr_sensitivity r) \<and> char_column 100 (rmr_visibility r) \<and>
     char_column 100 (rmr_retention r) \<and>
     pred_option (char_column 36) (rmr_contradiction_of r) \<and>
     pred_option (char_column 36) (rmr_reviewed_by r) \<and>
     pred_option (char_column 36) (rmr_import_batch_id r) \<and>
     pred_option (char_column 100) (rmr_source_system r) \<and>
     pred_option (char_column 64) (rmr_source_database_fingerprint r) \<and>
     pred_option (char_column 500) (rmr_source_external_id r)"

record migration_batch_row =
  rmb_id :: string
  rmb_tenant_id :: string
  rmb_source_system :: string
  rmb_source_database_fingerprint :: string
  rmb_state :: migration_batch_state
  rmb_source_metadata :: json
  rmb_persona_draft :: json
  rmb_persona_profile_id :: "string option"
  rmb_created_at :: pydatetime
  rmb_activated_at :: "pydatetime option"
  rmb_rolled_back_at :: "pydatetime option"

definition migration_batch_row_fits :: "migration_batch_row \<Rightarrow> bool" where
  [columns]: "migration_batch_row_fits r \<longleftrightarrow>
     char_column 36 (rmb_id r) \<and> char_column 36 (rmb_tenant_id r) \<and>
     char_column 100 (rmb_source_system r) \<and>
     char_column 64 (rmb_source_database_fingerprint r) \<and>
     pred_option (char_column 36) (rmb_persona_profile_id r)"

section \<open>Facts on column values\<close>

lemma aware_naive [simp]: "aware_utc (naive_utc t) = t"
  by (simp add: aware_utc_def naive_utc_def)

lemma aware_naive_option [simp]: "map_option aware_utc (map_option naive_utc v) = v"
  by (simp add: option.map_comp comp_def option.map_ident)

lemma parse_id_text [simp]: "is_uuid u \<Longrightarrow> parse_id (uuid_text u) = Inr u"
  by (simp add: parse_id_def)

lemma optional_id_text [simp]: "pred_option is_uuid v \<Longrightarrow> optional_id (map_option uuid_text v) = Inr v"
  by (cases v) (simp_all add: optional_id_def)

lemma optional_id_None [simp]: "optional_id None = Inr None"
  by (simp add: optional_id_def)

lemma capability_of_dump [simp]: "valid_capability c \<Longrightarrow> capability_of_json (capability_dump c) = Inr c"
  by (cases c) (simp add: capability_of_json_def capability_dump_def string_fields_def
      capability_model_validate_def valid_capability_def)

lemma capabilities_of_dump [simp]:
  "list_all valid_capability cs \<Longrightarrow> capabilities_of_json (JList (map capability_dump cs)) = Inr cs"
  by (simp add: capabilities_of_json_def list_all_iff)

lemma job_error_of_dump [simp]: "valid_job_error e \<Longrightarrow> job_error_of_json (job_error_dump e) = Inr e"
  by (cases e) (simp add: job_error_of_json_def job_error_dump_def string_fields_def)

lemma core_of_dump [simp]: "valid_persona_core c \<Longrightarrow> core_of_json (core_dump c) = Inr c"
  by (cases c) (simp add: core_of_json_def core_dump_def string_fields_def)

lemma dumps_not_empty:
  "job_error_dump e \<noteq> JNull" "job_error_dump e \<noteq> JObj []" "core_dump c \<noteq> JNull" "core_dump c \<noteq> JObj []"
  by (simp_all add: job_error_dump_def core_dump_def)

lemma optional_null [simp]: "optional_load load JNull = Inr None"
  by (simp add: optional_load_def)

lemma optional_job_error [simp]:
  "pred_option valid_job_error v \<Longrightarrow> optional_load job_error_of_json (optional_dump job_error_dump v) = Inr v"
  by (cases v) (simp_all add: optional_load_def optional_dump_def dumps_not_empty)

lemma optional_core [simp]:
  "pred_option valid_persona_core v \<Longrightarrow> optional_load core_of_json (optional_dump core_dump v) = Inr v"
  by (cases v) (simp_all add: optional_load_def optional_dump_def dumps_not_empty)

lemma dict_of_obj [simp]: "dict_of_json (JObj d) = Inr d"
  by (simp add: dict_of_json_def)

text \<open>\<^verbatim>\<open>Lease\<close> as a value: its window.\<close>

definition valid_lease :: "lease \<Rightarrow> bool" where
  "valid_lease l \<longleftrightarrow> ls_acquired_at l < ls_expires_at l"

section \<open>Conversions\<close>

definition row_of_conversation :: "conversation \<Rightarrow> conversation_row" where
  [rows]: "row_of_conversation x =
     \<lparr>rcv_id = uuid_text (cv_id x), rcv_tenant_id = uuid_text (cv_tenant_id x),
     rcv_user_id = uuid_text (cv_user_id x), rcv_title = cv_title x,
     rcv_created_at = naive_utc (cv_created_at x), rcv_updated_at = naive_utc (cv_updated_at x)\<rparr>"

definition conversation_of_row :: "conversation_row \<Rightarrow> error + conversation" where
  [rows]: "conversation_of_row r =
     ebind (parse_id (rcv_id r)) (\<lambda>x0. ebind (parse_id (rcv_tenant_id r)) (\<lambda>x1.
     ebind (parse_id (rcv_user_id r)) (\<lambda>x2.
     checked valid_conversation
       \<lparr>cv_id = x0, cv_tenant_id = x1, cv_user_id = x2, cv_title = rcv_title r,
       cv_created_at = aware_utc (rcv_created_at r), cv_updated_at = aware_utc (rcv_updated_at r)\<rparr>)))"

definition row_of_conversation_message :: "conversation_message \<Rightarrow> conversation_message_row" where
  [rows]: "row_of_conversation_message x =
     \<lparr>rms_id = uuid_text (ms_id x), rms_tenant_id = uuid_text (ms_tenant_id x),
     rms_conversation_id = uuid_text (ms_conversation_id x), rms_role = ms_role x,
     rms_content = ms_content x, rms_created_at = naive_utc (ms_created_at x)\<rparr>"

definition conversation_message_of_row :: "conversation_message_row \<Rightarrow> error + conversation_message" where
  [rows]: "conversation_message_of_row r =
     ebind (parse_id (rms_id r)) (\<lambda>x0. ebind (parse_id (rms_tenant_id r)) (\<lambda>x1.
     ebind (parse_id (rms_conversation_id r)) (\<lambda>x2.
     checked valid_message
       \<lparr>ms_id = x0, ms_tenant_id = x1, ms_conversation_id = x2, ms_role = rms_role r,
       ms_content = rms_content r, ms_created_at = aware_utc (rms_created_at r)\<rparr>)))"

definition row_of_conversation_turn :: "conversation_turn \<Rightarrow> conversation_turn_row" where
  [rows]: "row_of_conversation_turn x =
     \<lparr>rtn_id = uuid_text (tn_id x), rtn_tenant_id = uuid_text (tn_tenant_id x),
     rtn_conversation_id = uuid_text (tn_conversation_id x),
     rtn_user_message_id = uuid_text (tn_user_message_id x),
     rtn_client_request_id = uuid_text (tn_client_request_id x), rtn_state = tn_state x,
     rtn_checkpoint = JObj (tn_checkpoint x),
     rtn_run_lease_id = map_option uuid_text (tn_run_lease_id x),
     rtn_run_lease_expires_at = map_option naive_utc (tn_run_lease_expires_at x),
     rtn_created_at = naive_utc (tn_created_at x), rtn_updated_at = naive_utc (tn_updated_at x),
     rtn_completed_at = map_option naive_utc (tn_completed_at x)\<rparr>"

definition conversation_turn_of_row :: "conversation_turn_row \<Rightarrow> error + conversation_turn" where
  [rows]: "conversation_turn_of_row r =
     ebind (parse_id (rtn_id r)) (\<lambda>x0. ebind (parse_id (rtn_tenant_id r)) (\<lambda>x1.
     ebind (parse_id (rtn_conversation_id r)) (\<lambda>x2.
     ebind (parse_id (rtn_user_message_id r)) (\<lambda>x3.
     ebind (parse_id (rtn_client_request_id r)) (\<lambda>x4.
     ebind (dict_of_json (rtn_checkpoint r)) (\<lambda>x5.
     ebind (optional_id (rtn_run_lease_id r)) (\<lambda>x6.
     checked valid_turn
       \<lparr>tn_id = x0, tn_tenant_id = x1, tn_conversation_id = x2, tn_user_message_id = x3,
       tn_client_request_id = x4, tn_state = rtn_state r, tn_checkpoint = x5, tn_run_lease_id = x6,
       tn_run_lease_expires_at = map_option aware_utc (rtn_run_lease_expires_at r),
       tn_created_at = aware_utc (rtn_created_at r), tn_updated_at = aware_utc (rtn_updated_at r),
       tn_completed_at = map_option aware_utc (rtn_completed_at r)\<rparr>)))))))"

definition row_of_tool_invocation :: "tool_invocation \<Rightarrow> tool_invocation_row" where
  [rows]: "row_of_tool_invocation x =
     \<lparr>riv_id = uuid_text (iv_id x), riv_tenant_id = uuid_text (iv_tenant_id x),
     riv_turn_id = uuid_text (iv_turn_id x), riv_task_id = map_option uuid_text (iv_task_id x),
     riv_tool_call_id = iv_tool_call_id x, riv_tool_name = iv_tool_name x, riv_target = iv_target x,
     riv_state = iv_state x, riv_arguments = JObj (iv_arguments x),
     riv_arguments_sha256 = iv_arguments_sha256 x, riv_created_at = naive_utc (iv_created_at x),
     riv_updated_at = naive_utc (iv_updated_at x),
     riv_completed_at = map_option naive_utc (iv_completed_at x)\<rparr>"

definition tool_invocation_of_row :: "tool_invocation_row \<Rightarrow> error + tool_invocation" where
  [rows]: "tool_invocation_of_row r =
     ebind (parse_id (riv_id r)) (\<lambda>x0. ebind (parse_id (riv_tenant_id r)) (\<lambda>x1.
     ebind (parse_id (riv_turn_id r)) (\<lambda>x2. ebind (optional_id (riv_task_id r)) (\<lambda>x3.
     ebind (dict_of_json (riv_arguments r)) (\<lambda>x4.
     checked valid_invocation
       \<lparr>iv_id = x0, iv_tenant_id = x1, iv_turn_id = x2, iv_task_id = x3,
       iv_tool_call_id = riv_tool_call_id r, iv_tool_name = riv_tool_name r, iv_target = riv_target r,
       iv_state = riv_state r, iv_arguments = x4, iv_arguments_sha256 = riv_arguments_sha256 r,
       iv_created_at = aware_utc (riv_created_at r), iv_updated_at = aware_utc (riv_updated_at r),
       iv_completed_at = map_option aware_utc (riv_completed_at r)\<rparr>)))))"

definition row_of_remote_agent :: "remote_agent \<Rightarrow> remote_agent_row" where
  [rows]: "row_of_remote_agent x =
     \<lparr>rra_id = uuid_text (ra_id x), rra_tenant_id = uuid_text (ra_tenant_id x),
     rra_name = ra_name x, rra_capabilities = JList (map capability_dump (ra_capabilities x)),
     rra_runtime_version = ra_runtime_version x, rra_status = ra_status x,
     rra_trust_level = ra_trust_level x, rra_registered_at = naive_utc (ra_registered_at x),
     rra_last_seen_at = naive_utc (ra_last_seen_at x)\<rparr>"

definition remote_agent_of_row :: "remote_agent_row \<Rightarrow> error + remote_agent" where
  [rows]: "remote_agent_of_row r =
     ebind (parse_id (rra_id r)) (\<lambda>x0. ebind (parse_id (rra_tenant_id r)) (\<lambda>x1.
     ebind (capabilities_of_json (rra_capabilities r)) (\<lambda>x2.
     checked valid_remote_agent
       \<lparr>ra_id = x0, ra_tenant_id = x1, ra_name = rra_name r, ra_capabilities = x2,
       ra_runtime_version = rra_runtime_version r, ra_status = rra_status r,
       ra_trust_level = rra_trust_level r, ra_registered_at = aware_utc (rra_registered_at r),
       ra_last_seen_at = aware_utc (rra_last_seen_at r)\<rparr>)))"

definition row_of_task :: "task \<Rightarrow> task_row" where
  [rows]: "row_of_task x =
     \<lparr>rtk_id = uuid_text (tk_id x), rtk_tenant_id = uuid_text (tk_tenant_id x),
     rtk_objective = tk_objective x, rtk_context = tk_context x,
     rtk_required_capabilities = JList (map capability_dump (tk_required_capabilities x)),
     rtk_deliverable_contract = tk_deliverable_contract x, rtk_state = tk_state x,
     rtk_created_at = naive_utc (tk_created_at x), rtk_deadline = map_option naive_utc (tk_deadline x),
     rtk_result = tk_result x, rtk_completed_at = map_option naive_utc (tk_completed_at x),
     rtk_target_ara_id = map_option uuid_text (tk_target_ara_id x),
     rtk_completed_by_ara_id = map_option uuid_text (tk_completed_by_ara_id x)\<rparr>"

definition task_of_row :: "task_row \<Rightarrow> error + task" where
  [rows]: "task_of_row r =
     ebind (parse_id (rtk_id r)) (\<lambda>x0. ebind (parse_id (rtk_tenant_id r)) (\<lambda>x1.
     ebind (capabilities_of_json (rtk_required_capabilities r)) (\<lambda>x2.
     ebind (optional_id (rtk_target_ara_id r)) (\<lambda>x3.
     ebind (optional_id (rtk_completed_by_ara_id r)) (\<lambda>x4.
     checked valid_task
       \<lparr>tk_id = x0, tk_tenant_id = x1, tk_objective = rtk_objective r,
       tk_context = rtk_context r, tk_required_capabilities = x2,
       tk_deliverable_contract = rtk_deliverable_contract r, tk_state = rtk_state r,
       tk_created_at = aware_utc (rtk_created_at r),
       tk_deadline = map_option aware_utc (rtk_deadline r), tk_result = rtk_result r,
       tk_completed_at = map_option aware_utc (rtk_completed_at r), tk_target_ara_id = x3,
       tk_completed_by_ara_id = x4\<rparr>)))))"

definition row_of_lease :: "lease \<Rightarrow> lease_row" where
  [rows]: "row_of_lease x =
     \<lparr>rls_id = uuid_text (ls_id x), rls_tenant_id = uuid_text (ls_tenant_id x),
     rls_task_id = uuid_text (ls_task_id x), rls_ara_id = uuid_text (ls_ara_id x),
     rls_acquired_at = naive_utc (ls_acquired_at x), rls_expires_at = naive_utc (ls_expires_at x)\<rparr>"

definition lease_of_row :: "lease_row \<Rightarrow> error + lease" where
  [rows]: "lease_of_row r =
     ebind (parse_id (rls_id r)) (\<lambda>x0. ebind (parse_id (rls_tenant_id r)) (\<lambda>x1.
     ebind (parse_id (rls_task_id r)) (\<lambda>x2. ebind (parse_id (rls_ara_id r)) (\<lambda>x3.
     checked valid_lease
       \<lparr>ls_id = x0, ls_tenant_id = x1, ls_task_id = x2, ls_ara_id = x3,
       ls_acquired_at = aware_utc (rls_acquired_at r), ls_expires_at = aware_utc (rls_expires_at r)\<rparr>))))"

definition row_of_approval :: "approval \<Rightarrow> approval_row" where
  [rows]: "row_of_approval x =
     \<lparr>rap_id = uuid_text (ap_id x), rap_tenant_id = uuid_text (ap_tenant_id x),
     rap_task_id = map_option uuid_text (ap_task_id x),
     rap_tool_invocation_id = map_option uuid_text (ap_tool_invocation_id x),
     rap_capability = capability_dump (ap_capability x),
     rap_requested_by = map_option uuid_text (ap_requested_by x),
     rap_requestor_type = ap_requestor_type x, rap_state = ap_state x, rap_reason = ap_reason x,
     rap_created_at = naive_utc (ap_created_at x),
     rap_decided_at = map_option naive_utc (ap_decided_at x),
     rap_decided_by = map_option uuid_text (ap_decided_by x)\<rparr>"

definition approval_of_row :: "approval_row \<Rightarrow> error + approval" where
  [rows]: "approval_of_row r =
     ebind (parse_id (rap_id r)) (\<lambda>x0. ebind (parse_id (rap_tenant_id r)) (\<lambda>x1.
     ebind (optional_id (rap_task_id r)) (\<lambda>x2.
     ebind (optional_id (rap_tool_invocation_id r)) (\<lambda>x3.
     ebind (capability_of_json (rap_capability r)) (\<lambda>x4.
     ebind (optional_id (rap_requested_by r)) (\<lambda>x5.
     ebind (optional_id (rap_decided_by r)) (\<lambda>x6.
     checked valid_approval
       \<lparr>ap_id = x0, ap_tenant_id = x1, ap_task_id = x2, ap_tool_invocation_id = x3,
       ap_capability = x4, ap_requested_by = x5, ap_requestor_type = rap_requestor_type r,
       ap_state = rap_state r, ap_reason = rap_reason r, ap_created_at = aware_utc (rap_created_at r),
       ap_decided_at = map_option aware_utc (rap_decided_at r), ap_decided_by = x6\<rparr>)))))))"

definition row_of_artifact :: "artifact \<Rightarrow> artifact_row" where
  [rows]: "row_of_artifact x =
     \<lparr>raf_id = uuid_text (af_id x), raf_tenant_id = uuid_text (af_tenant_id x),
     raf_task_id = uuid_text (af_task_id x), raf_name = af_name x, raf_media_type = af_media_type x,
     raf_object_key = af_object_key x, raf_size_bytes = af_size_bytes x, raf_sha256 = af_sha256 x,
     raf_created_at = naive_utc (af_created_at x),
     raf_deleted_at = map_option naive_utc (af_deleted_at x),
     raf_retention_until = map_option naive_utc (af_retention_until x)\<rparr>"

definition artifact_of_row :: "artifact_row \<Rightarrow> error + artifact" where
  [rows]: "artifact_of_row r =
     ebind (parse_id (raf_id r)) (\<lambda>x0. ebind (parse_id (raf_tenant_id r)) (\<lambda>x1.
     ebind (parse_id (raf_task_id r)) (\<lambda>x2.
     checked valid_artifact
       \<lparr>af_id = x0, af_tenant_id = x1, af_task_id = x2, af_name = raf_name r,
       af_media_type = raf_media_type r, af_object_key = raf_object_key r,
       af_size_bytes = raf_size_bytes r, af_sha256 = raf_sha256 r,
       af_created_at = aware_utc (raf_created_at r),
       af_deleted_at = map_option aware_utc (raf_deleted_at r),
       af_retention_until = map_option aware_utc (raf_retention_until r)\<rparr>)))"

definition row_of_audit_event :: "audit_event \<Rightarrow> audit_event_row" where
  [rows]: "row_of_audit_event x =
     \<lparr>rev_id = uuid_text (ev_id x), rev_tenant_id = uuid_text (ev_tenant_id x),
     rev_event_type = ev_event_type x, rev_actor_type = ev_actor_type x,
     rev_actor_id = map_option uuid_text (ev_actor_id x),
     rev_task_id = map_option uuid_text (ev_task_id x), rev_payload = JObj (ev_payload x),
     rev_occurred_at = naive_utc (ev_occurred_at x)\<rparr>"

definition audit_event_of_row :: "audit_event_row \<Rightarrow> error + audit_event" where
  [rows]: "audit_event_of_row r =
     ebind (parse_id (rev_id r)) (\<lambda>x0. ebind (parse_id (rev_tenant_id r)) (\<lambda>x1.
     ebind (optional_id (rev_actor_id r)) (\<lambda>x2.
     ebind (optional_id (rev_task_id r)) (\<lambda>x3.
     ebind (dict_of_json (rev_payload r)) (\<lambda>x4.
     checked (\<lambda>_. True)
       \<lparr>ev_id = x0, ev_tenant_id = x1, ev_event_type = rev_event_type r,
       ev_actor_type = rev_actor_type r, ev_actor_id = x2, ev_task_id = x3, ev_payload = x4,
       ev_occurred_at = aware_utc (rev_occurred_at r)\<rparr>)))))"

definition row_of_background_job :: "background_job \<Rightarrow> background_job_row" where
  [rows]: "row_of_background_job x =
     \<lparr>rjb_id = uuid_text (jb_id x), rjb_tenant_id = uuid_text (jb_tenant_id x),
     rjb_kind = jb_kind x, rjb_source_id = uuid_text (jb_source_id x),
     rjb_payload = JObj (jb_payload x), rjb_state = jb_state x, rjb_attempt_count = jb_attempt_count x,
     rjb_max_attempts = jb_max_attempts x, rjb_available_at = naive_utc (jb_available_at x),
     rjb_lease_id = map_option uuid_text (jb_lease_id x),
     rjb_lease_expires_at = map_option naive_utc (jb_lease_expires_at x),
     rjb_last_error = optional_dump job_error_dump (jb_last_error x),
     rjb_created_at = naive_utc (jb_created_at x), rjb_updated_at = naive_utc (jb_updated_at x),
     rjb_completed_at = map_option naive_utc (jb_completed_at x)\<rparr>"

definition background_job_of_row :: "background_job_row \<Rightarrow> error + background_job" where
  [rows]: "background_job_of_row r =
     ebind (parse_id (rjb_id r)) (\<lambda>x0. ebind (parse_id (rjb_tenant_id r)) (\<lambda>x1.
     ebind (parse_id (rjb_source_id r)) (\<lambda>x2. ebind (dict_of_json (rjb_payload r)) (\<lambda>x3.
     ebind (optional_id (rjb_lease_id r)) (\<lambda>x4.
     ebind (optional_load job_error_of_json (rjb_last_error r)) (\<lambda>x5.
     checked valid_job
       \<lparr>jb_id = x0, jb_tenant_id = x1, jb_kind = rjb_kind r, jb_source_id = x2, jb_payload = x3,
       jb_state = rjb_state r, jb_attempt_count = rjb_attempt_count r,
       jb_max_attempts = rjb_max_attempts r, jb_available_at = aware_utc (rjb_available_at r),
       jb_lease_id = x4, jb_lease_expires_at = map_option aware_utc (rjb_lease_expires_at r),
       jb_last_error = x5, jb_created_at = aware_utc (rjb_created_at r),
       jb_updated_at = aware_utc (rjb_updated_at r),
       jb_completed_at = map_option aware_utc (rjb_completed_at r)\<rparr>))))))"

definition row_of_job_attempt :: "job_attempt \<Rightarrow> job_attempt_row" where
  [rows]: "row_of_job_attempt x =
     \<lparr>rat_id = uuid_text (at_id x), rat_tenant_id = uuid_text (at_tenant_id x),
     rat_job_id = uuid_text (at_job_id x), rat_attempt = at_attempt x,
     rat_started_at = naive_utc (at_started_at x), rat_finished_at = None, rat_error = JNull\<rparr>"

definition job_attempt_of_row :: "job_attempt_row \<Rightarrow> error + job_attempt" where
  [rows]: "job_attempt_of_row r =
     ebind (parse_id (rat_id r)) (\<lambda>x0. ebind (parse_id (rat_tenant_id r)) (\<lambda>x1.
     ebind (parse_id (rat_job_id r)) (\<lambda>x2.
     ebind (optional_load job_error_of_json (rat_error r)) (\<lambda>x3.
     checked valid_attempt
       \<lparr>at_id = x0, at_tenant_id = x1, at_job_id = x2, at_attempt = rat_attempt r,
       at_started_at = aware_utc (rat_started_at r),
       at_finished_at = map_option aware_utc (rat_finished_at r), at_error = x3\<rparr>))))"

definition row_of_persona_profile :: "persona_profile \<Rightarrow> persona_profile_row" where
  [rows]: "row_of_persona_profile x =
     \<lparr>rpp_id = uuid_text (pp_id x), rpp_tenant_id = uuid_text (pp_tenant_id x),
     rpp_version = pp_version x, rpp_authored_core = core_dump (pp_authored_core x),
     rpp_created_at = naive_utc (pp_created_at x)\<rparr>"

definition persona_profile_of_row :: "persona_profile_row \<Rightarrow> error + persona_profile" where
  [rows]: "persona_profile_of_row r =
     ebind (parse_id (rpp_id r)) (\<lambda>x0. ebind (parse_id (rpp_tenant_id r)) (\<lambda>x1.
     ebind (core_of_json (rpp_authored_core r)) (\<lambda>x2.
     checked valid_persona_profile
       \<lparr>pp_id = x0, pp_tenant_id = x1, pp_version = rpp_version r, pp_authored_core = x2,
       pp_created_at = aware_utc (rpp_created_at r)\<rparr>)))"

definition row_of_learned_persona_adaptation :: "learned_persona_adaptation \<Rightarrow> learned_persona_adaptation_row" where
  [rows]: "row_of_learned_persona_adaptation x =
     \<lparr>rla_id = uuid_text (la_id x), rla_tenant_id = uuid_text (la_tenant_id x),
     rla_profile_id = uuid_text (la_profile_id x), rla_content = la_content x, rla_state = la_state x,
     rla_source = la_source x, rla_created_at = naive_utc (la_created_at x),
     rla_reversed_at = map_option naive_utc (la_reversed_at x)\<rparr>"

definition learned_persona_adaptation_of_row :: "learned_persona_adaptation_row \<Rightarrow> error + learned_persona_adaptation" where
  [rows]: "learned_persona_adaptation_of_row r =
     ebind (parse_id (rla_id r)) (\<lambda>x0. ebind (parse_id (rla_tenant_id r)) (\<lambda>x1.
     ebind (parse_id (rla_profile_id r)) (\<lambda>x2.
     checked valid_adaptation
       \<lparr>la_id = x0, la_tenant_id = x1, la_profile_id = x2, la_content = rla_content r,
       la_state = rla_state r, la_source = rla_source r, la_created_at = aware_utc (rla_created_at r),
       la_reversed_at = map_option aware_utc (rla_reversed_at r)\<rparr>)))"

definition row_of_memory :: "memory_record \<Rightarrow> memory_row" where
  [rows]: "row_of_memory x =
     \<lparr>rmr_id = uuid_text (mr_id x), rmr_tenant_id = uuid_text (mr_tenant_id x),
     rmr_kind = mr_kind x, rmr_content = mr_content x, rmr_normalized_content = mr_normalized_content x,
     rmr_source_event_id = uuid_text (mr_source_event_id x),
     rmr_source_message_id = uuid_text (mr_source_message_id x), rmr_confidence = mr_confidence x,
     rmr_confirmed = mr_confirmed x, rmr_pinned = mr_pinned x, rmr_state = mr_state x,
     rmr_sensitivity = mr_sensitivity x, rmr_visibility = mr_visibility x,
     rmr_retention = mr_retention x,
     rmr_contradiction_of = map_option uuid_text (mr_contradiction_of x),
     rmr_created_at = naive_utc (mr_created_at x), rmr_updated_at = naive_utc (mr_updated_at x),
     rmr_reviewed_at = map_option naive_utc (mr_reviewed_at x),
     rmr_reviewed_by = map_option uuid_text (mr_reviewed_by x),
     rmr_deleted_at = map_option naive_utc (mr_deleted_at x),
     rmr_import_batch_id = map_option uuid_text (mr_import_batch_id x),
     rmr_source_system = mr_source_system x,
     rmr_source_database_fingerprint = mr_source_database_fingerprint x,
     rmr_source_external_id = mr_source_external_id x, rmr_source_metadata = JObj (mr_source_metadata x)\<rparr>"

definition memory_of_row :: "memory_row \<Rightarrow> error + memory_record" where
  [rows]: "memory_of_row r =
     ebind (parse_id (rmr_id r)) (\<lambda>x0. ebind (parse_id (rmr_tenant_id r)) (\<lambda>x1.
     ebind (parse_id (rmr_source_event_id r)) (\<lambda>x2.
     ebind (parse_id (rmr_source_message_id r)) (\<lambda>x3.
     ebind (optional_id (rmr_contradiction_of r)) (\<lambda>x4.
     ebind (optional_id (rmr_reviewed_by r)) (\<lambda>x5.
     ebind (optional_id (rmr_import_batch_id r)) (\<lambda>x6.
     ebind (dict_of_json (rmr_source_metadata r)) (\<lambda>x7.
     checked valid_memory
       \<lparr>mr_id = x0, mr_tenant_id = x1, mr_kind = rmr_kind r, mr_content = rmr_content r,
       mr_normalized_content = rmr_normalized_content r, mr_source_event_id = x2,
       mr_source_message_id = x3, mr_confidence = rmr_confidence r, mr_confirmed = rmr_confirmed r,
       mr_pinned = rmr_pinned r, mr_state = rmr_state r, mr_sensitivity = rmr_sensitivity r,
       mr_visibility = rmr_visibility r, mr_retention = rmr_retention r, mr_contradiction_of = x4,
       mr_created_at = aware_utc (rmr_created_at r), mr_updated_at = aware_utc (rmr_updated_at r),
       mr_reviewed_at = map_option aware_utc (rmr_reviewed_at r), mr_reviewed_by = x5,
       mr_deleted_at = map_option aware_utc (rmr_deleted_at r), mr_import_batch_id = x6,
       mr_source_system = rmr_source_system r,
       mr_source_database_fingerprint = rmr_source_database_fingerprint r,
       mr_source_external_id = rmr_source_external_id r, mr_source_metadata = x7\<rparr>))))))))"

definition row_of_migration_batch :: "migration_batch \<Rightarrow> migration_batch_row" where
  [rows]: "row_of_migration_batch x =
     \<lparr>rmb_id = uuid_text (mb_id x), rmb_tenant_id = uuid_text (mb_tenant_id x),
     rmb_source_system = mb_source_system x,
     rmb_source_database_fingerprint = mb_source_database_fingerprint x, rmb_state = mb_state x,
     rmb_source_metadata = JObj (mb_source_metadata x),
     rmb_persona_draft = optional_dump core_dump (mb_persona_draft x), rmb_persona_profile_id = None,
     rmb_created_at = naive_utc (mb_created_at x), rmb_activated_at = None, rmb_rolled_back_at = None\<rparr>"

definition migration_batch_of_row :: "migration_batch_row \<Rightarrow> error + migration_batch" where
  [rows]: "migration_batch_of_row r =
     ebind (parse_id (rmb_id r)) (\<lambda>x0. ebind (parse_id (rmb_tenant_id r)) (\<lambda>x1.
     ebind (dict_of_json (rmb_source_metadata r)) (\<lambda>x2.
     ebind (optional_load core_of_json (rmb_persona_draft r)) (\<lambda>x3.
     ebind (optional_id (rmb_persona_profile_id r)) (\<lambda>x4.
     checked valid_migration_batch
       \<lparr>mb_id = x0, mb_tenant_id = x1, mb_source_system = rmb_source_system r,
       mb_source_database_fingerprint = rmb_source_database_fingerprint r, mb_state = rmb_state r,
       mb_source_metadata = x2, mb_persona_draft = x3, mb_persona_profile_id = x4,
       mb_created_at = aware_utc (rmb_created_at r),
       mb_activated_at = map_option aware_utc (rmb_activated_at r),
       mb_rolled_back_at = map_option aware_utc (rmb_rolled_back_at r)\<rparr>)))))"

section \<open>Round trips\<close>

definition storable_conversation :: "conversation \<Rightarrow> bool" where
  [rows]: "storable_conversation x \<longleftrightarrow>
     valid_conversation x \<and> is_uuid (cv_id x) \<and> is_uuid (cv_tenant_id x) \<and>
     is_uuid (cv_user_id x)"

lemma conversation_roundtrip:
  "storable_conversation x \<Longrightarrow> conversation_of_row (row_of_conversation x) = Inr x"
  by (cases x) (simp add: rows)

definition storable_conversation_message :: "conversation_message \<Rightarrow> bool" where
  [rows]: "storable_conversation_message x \<longleftrightarrow>
     valid_message x \<and> is_uuid (ms_id x) \<and> is_uuid (ms_tenant_id x) \<and>
     is_uuid (ms_conversation_id x)"

lemma conversation_message_roundtrip:
  "storable_conversation_message x \<Longrightarrow> conversation_message_of_row (row_of_conversation_message x) = Inr x"
  by (cases x) (simp add: rows)

definition storable_conversation_turn :: "conversation_turn \<Rightarrow> bool" where
  [rows]: "storable_conversation_turn x \<longleftrightarrow>
     valid_turn x \<and> is_uuid (tn_id x) \<and> is_uuid (tn_tenant_id x) \<and>
     is_uuid (tn_conversation_id x) \<and> is_uuid (tn_user_message_id x) \<and>
     is_uuid (tn_client_request_id x) \<and> pred_option is_uuid (tn_run_lease_id x)"

lemma conversation_turn_roundtrip:
  "storable_conversation_turn x \<Longrightarrow> conversation_turn_of_row (row_of_conversation_turn x) = Inr x"
  by (cases x) (simp add: rows)

definition storable_tool_invocation :: "tool_invocation \<Rightarrow> bool" where
  [rows]: "storable_tool_invocation x \<longleftrightarrow>
     valid_invocation x \<and> is_uuid (iv_id x) \<and> is_uuid (iv_tenant_id x) \<and>
     is_uuid (iv_turn_id x) \<and> pred_option is_uuid (iv_task_id x)"

lemma tool_invocation_roundtrip:
  "storable_tool_invocation x \<Longrightarrow> tool_invocation_of_row (row_of_tool_invocation x) = Inr x"
  by (cases x) (simp add: rows)

definition storable_remote_agent :: "remote_agent \<Rightarrow> bool" where
  [rows]: "storable_remote_agent x \<longleftrightarrow>
     valid_remote_agent x \<and> is_uuid (ra_id x) \<and> is_uuid (ra_tenant_id x) \<and>
     list_all valid_capability (ra_capabilities x)"

lemma remote_agent_roundtrip:
  "storable_remote_agent x \<Longrightarrow> remote_agent_of_row (row_of_remote_agent x) = Inr x"
  by (cases x) (simp add: rows)

definition storable_task :: "task \<Rightarrow> bool" where
  [rows]: "storable_task x \<longleftrightarrow>
     valid_task x \<and> is_uuid (tk_id x) \<and> is_uuid (tk_tenant_id x) \<and>
     pred_option is_uuid (tk_target_ara_id x) \<and>
     pred_option is_uuid (tk_completed_by_ara_id x) \<and>
     list_all valid_capability (tk_required_capabilities x)"

lemma task_roundtrip:
  "storable_task x \<Longrightarrow> task_of_row (row_of_task x) = Inr x"
  by (cases x) (simp add: rows)

definition storable_lease :: "lease \<Rightarrow> bool" where
  [rows]: "storable_lease x \<longleftrightarrow>
     valid_lease x \<and> is_uuid (ls_id x) \<and> is_uuid (ls_tenant_id x) \<and>
     is_uuid (ls_task_id x) \<and> is_uuid (ls_ara_id x)"

lemma lease_roundtrip:
  "storable_lease x \<Longrightarrow> lease_of_row (row_of_lease x) = Inr x"
  by (cases x) (simp add: rows)

definition storable_approval :: "approval \<Rightarrow> bool" where
  [rows]: "storable_approval x \<longleftrightarrow>
     valid_approval x \<and> is_uuid (ap_id x) \<and> is_uuid (ap_tenant_id x) \<and>
     pred_option is_uuid (ap_task_id x) \<and> pred_option is_uuid (ap_tool_invocation_id x) \<and>
     pred_option is_uuid (ap_requested_by x) \<and> pred_option is_uuid (ap_decided_by x) \<and>
     valid_capability (ap_capability x)"

lemma approval_roundtrip:
  "storable_approval x \<Longrightarrow> approval_of_row (row_of_approval x) = Inr x"
  by (cases x) (simp add: rows)

definition storable_artifact :: "artifact \<Rightarrow> bool" where
  [rows]: "storable_artifact x \<longleftrightarrow>
     valid_artifact x \<and> is_uuid (af_id x) \<and> is_uuid (af_tenant_id x) \<and>
     is_uuid (af_task_id x)"

lemma artifact_roundtrip:
  "storable_artifact x \<Longrightarrow> artifact_of_row (row_of_artifact x) = Inr x"
  by (cases x) (simp add: rows)

definition storable_audit_event :: "audit_event \<Rightarrow> bool" where
  [rows]: "storable_audit_event x \<longleftrightarrow>
     is_uuid (ev_id x) \<and> is_uuid (ev_tenant_id x) \<and> pred_option is_uuid (ev_actor_id x) \<and>
     pred_option is_uuid (ev_task_id x)"

lemma audit_event_roundtrip:
  "storable_audit_event x \<Longrightarrow> audit_event_of_row (row_of_audit_event x) = Inr x"
  by (cases x) (simp add: rows)

definition storable_background_job :: "background_job \<Rightarrow> bool" where
  [rows]: "storable_background_job x \<longleftrightarrow>
     valid_job x \<and> is_uuid (jb_id x) \<and> is_uuid (jb_tenant_id x) \<and>
     is_uuid (jb_source_id x) \<and> pred_option is_uuid (jb_lease_id x) \<and>
     pred_option valid_job_error (jb_last_error x)"

lemma background_job_roundtrip:
  "storable_background_job x \<Longrightarrow> background_job_of_row (row_of_background_job x) = Inr x"
  by (cases x) (simp add: rows)

definition storable_job_attempt :: "job_attempt \<Rightarrow> bool" where
  [rows]: "storable_job_attempt x \<longleftrightarrow>
     valid_attempt x \<and> is_uuid (at_id x) \<and> is_uuid (at_tenant_id x) \<and>
     is_uuid (at_job_id x) \<and> at_finished_at x = None \<and> at_error x = None"

lemma job_attempt_roundtrip:
  "storable_job_attempt x \<Longrightarrow> job_attempt_of_row (row_of_job_attempt x) = Inr x"
  by (cases x) (simp add: rows)

definition storable_persona_profile :: "persona_profile \<Rightarrow> bool" where
  [rows]: "storable_persona_profile x \<longleftrightarrow>
     valid_persona_profile x \<and> is_uuid (pp_id x) \<and> is_uuid (pp_tenant_id x) \<and>
     valid_persona_core (pp_authored_core x)"

lemma persona_profile_roundtrip:
  "storable_persona_profile x \<Longrightarrow> persona_profile_of_row (row_of_persona_profile x) = Inr x"
  by (cases x) (simp add: rows)

definition storable_learned_persona_adaptation :: "learned_persona_adaptation \<Rightarrow> bool" where
  [rows]: "storable_learned_persona_adaptation x \<longleftrightarrow>
     valid_adaptation x \<and> is_uuid (la_id x) \<and> is_uuid (la_tenant_id x) \<and>
     is_uuid (la_profile_id x)"

lemma learned_persona_adaptation_roundtrip:
  "storable_learned_persona_adaptation x \<Longrightarrow> learned_persona_adaptation_of_row (row_of_learned_persona_adaptation x) = Inr x"
  by (cases x) (simp add: rows)

definition storable_memory :: "memory_record \<Rightarrow> bool" where
  [rows]: "storable_memory x \<longleftrightarrow>
     valid_memory x \<and> is_uuid (mr_id x) \<and> is_uuid (mr_tenant_id x) \<and>
     is_uuid (mr_source_event_id x) \<and> is_uuid (mr_source_message_id x) \<and>
     pred_option is_uuid (mr_contradiction_of x) \<and> pred_option is_uuid (mr_reviewed_by x) \<and>
     pred_option is_uuid (mr_import_batch_id x)"

lemma memory_roundtrip:
  "storable_memory x \<Longrightarrow> memory_of_row (row_of_memory x) = Inr x"
  by (cases x) (simp add: rows)

definition storable_migration_batch :: "migration_batch \<Rightarrow> bool" where
  [rows]: "storable_migration_batch x \<longleftrightarrow>
     valid_migration_batch x \<and> is_uuid (mb_id x) \<and> is_uuid (mb_tenant_id x) \<and>
     pred_option is_uuid (mb_persona_profile_id x) \<and> mb_persona_profile_id x = None \<and>
     mb_activated_at x = None \<and> mb_rolled_back_at x = None \<and>
     pred_option valid_persona_core (mb_persona_draft x)"

lemma migration_batch_roundtrip:
  "storable_migration_batch x \<Longrightarrow> migration_batch_of_row (row_of_migration_batch x) = Inr x"
  by (cases x) (simp add: rows)

section \<open>All tables\<close>

text \<open>A value of any of the stored kinds, and a row of any table.\<close>

datatype entity =
    E_conversation conversation
  | E_conversation_message conversation_message
  | E_conversation_turn conversation_turn
  | E_tool_invocation tool_invocation
  | E_remote_agent remote_agent
  | E_task task
  | E_lease lease
  | E_approval approval
  | E_artifact artifact
  | E_audit_event audit_event
  | E_background_job background_job
  | E_job_attempt job_attempt
  | E_persona_profile persona_profile
  | E_learned_persona_adaptation learned_persona_adaptation
  | E_memory memory_record
  | E_migration_batch migration_batch

datatype any_row =
    R_conversation conversation_row
  | R_conversation_message conversation_message_row
  | R_conversation_turn conversation_turn_row
  | R_tool_invocation tool_invocation_row
  | R_remote_agent remote_agent_row
  | R_task task_row
  | R_lease lease_row
  | R_approval approval_row
  | R_artifact artifact_row
  | R_audit_event audit_event_row
  | R_background_job background_job_row
  | R_job_attempt job_attempt_row
  | R_persona_profile persona_profile_row
  | R_learned_persona_adaptation learned_persona_adaptation_row
  | R_memory memory_row
  | R_migration_batch migration_batch_row

fun store_row :: "entity \<Rightarrow> any_row" where
  "store_row (E_conversation x) = R_conversation (row_of_conversation x)"
| "store_row (E_conversation_message x) = R_conversation_message (row_of_conversation_message x)"
| "store_row (E_conversation_turn x) = R_conversation_turn (row_of_conversation_turn x)"
| "store_row (E_tool_invocation x) = R_tool_invocation (row_of_tool_invocation x)"
| "store_row (E_remote_agent x) = R_remote_agent (row_of_remote_agent x)"
| "store_row (E_task x) = R_task (row_of_task x)"
| "store_row (E_lease x) = R_lease (row_of_lease x)"
| "store_row (E_approval x) = R_approval (row_of_approval x)"
| "store_row (E_artifact x) = R_artifact (row_of_artifact x)"
| "store_row (E_audit_event x) = R_audit_event (row_of_audit_event x)"
| "store_row (E_background_job x) = R_background_job (row_of_background_job x)"
| "store_row (E_job_attempt x) = R_job_attempt (row_of_job_attempt x)"
| "store_row (E_persona_profile x) = R_persona_profile (row_of_persona_profile x)"
| "store_row (E_learned_persona_adaptation x) = R_learned_persona_adaptation (row_of_learned_persona_adaptation x)"
| "store_row (E_memory x) = R_memory (row_of_memory x)"
| "store_row (E_migration_batch x) = R_migration_batch (row_of_migration_batch x)"

fun load_row :: "any_row \<Rightarrow> error + entity" where
  "load_row (R_conversation r) = map_sum id E_conversation (conversation_of_row r)"
| "load_row (R_conversation_message r) = map_sum id E_conversation_message (conversation_message_of_row r)"
| "load_row (R_conversation_turn r) = map_sum id E_conversation_turn (conversation_turn_of_row r)"
| "load_row (R_tool_invocation r) = map_sum id E_tool_invocation (tool_invocation_of_row r)"
| "load_row (R_remote_agent r) = map_sum id E_remote_agent (remote_agent_of_row r)"
| "load_row (R_task r) = map_sum id E_task (task_of_row r)"
| "load_row (R_lease r) = map_sum id E_lease (lease_of_row r)"
| "load_row (R_approval r) = map_sum id E_approval (approval_of_row r)"
| "load_row (R_artifact r) = map_sum id E_artifact (artifact_of_row r)"
| "load_row (R_audit_event r) = map_sum id E_audit_event (audit_event_of_row r)"
| "load_row (R_background_job r) = map_sum id E_background_job (background_job_of_row r)"
| "load_row (R_job_attempt r) = map_sum id E_job_attempt (job_attempt_of_row r)"
| "load_row (R_persona_profile r) = map_sum id E_persona_profile (persona_profile_of_row r)"
| "load_row (R_learned_persona_adaptation r) = map_sum id E_learned_persona_adaptation (learned_persona_adaptation_of_row r)"
| "load_row (R_memory r) = map_sum id E_memory (memory_of_row r)"
| "load_row (R_migration_batch r) = map_sum id E_migration_batch (migration_batch_of_row r)"

fun storable :: "entity \<Rightarrow> bool" where
  "storable (E_conversation x) = storable_conversation x"
| "storable (E_conversation_message x) = storable_conversation_message x"
| "storable (E_conversation_turn x) = storable_conversation_turn x"
| "storable (E_tool_invocation x) = storable_tool_invocation x"
| "storable (E_remote_agent x) = storable_remote_agent x"
| "storable (E_task x) = storable_task x"
| "storable (E_lease x) = storable_lease x"
| "storable (E_approval x) = storable_approval x"
| "storable (E_artifact x) = storable_artifact x"
| "storable (E_audit_event x) = storable_audit_event x"
| "storable (E_background_job x) = storable_background_job x"
| "storable (E_job_attempt x) = storable_job_attempt x"
| "storable (E_persona_profile x) = storable_persona_profile x"
| "storable (E_learned_persona_adaptation x) = storable_learned_persona_adaptation x"
| "storable (E_memory x) = storable_memory x"
| "storable (E_migration_batch x) = storable_migration_batch x"

fun row_fits :: "any_row \<Rightarrow> bool" where
  "row_fits (R_conversation r) = conversation_row_fits r"
| "row_fits (R_conversation_message r) = conversation_message_row_fits r"
| "row_fits (R_conversation_turn r) = conversation_turn_row_fits r"
| "row_fits (R_tool_invocation r) = tool_invocation_row_fits r"
| "row_fits (R_remote_agent r) = remote_agent_row_fits r"
| "row_fits (R_task r) = task_row_fits r"
| "row_fits (R_lease r) = lease_row_fits r"
| "row_fits (R_approval r) = approval_row_fits r"
| "row_fits (R_artifact r) = artifact_row_fits r"
| "row_fits (R_audit_event r) = audit_event_row_fits r"
| "row_fits (R_background_job r) = background_job_row_fits r"
| "row_fits (R_job_attempt r) = job_attempt_row_fits r"
| "row_fits (R_persona_profile r) = persona_profile_row_fits r"
| "row_fits (R_learned_persona_adaptation r) = learned_persona_adaptation_row_fits r"
| "row_fits (R_memory r) = memory_row_fits r"
| "row_fits (R_migration_batch r) = migration_batch_row_fits r"

text \<open>ASCII text, and counters within 32 bits.\<close>

definition is_ascii :: "char \<Rightarrow> bool" where
  "is_ascii c \<longleftrightarrow> (of_char c :: nat) < 128"

fun ascii_and_small :: "entity \<Rightarrow> bool" where
  "ascii_and_small (E_conversation x) \<longleftrightarrow>
     True"
| "ascii_and_small (E_conversation_message x) \<longleftrightarrow>
     list_all is_ascii (ms_content x)"
| "ascii_and_small (E_conversation_turn x) \<longleftrightarrow>
     True"
| "ascii_and_small (E_tool_invocation x) \<longleftrightarrow>
     True"
| "ascii_and_small (E_remote_agent x) \<longleftrightarrow>
     True"
| "ascii_and_small (E_task x) \<longleftrightarrow>
     list_all is_ascii (tk_objective x) \<and> list_all is_ascii (tk_context x) \<and> list_all is_ascii (tk_deliverable_contract x) \<and> pred_option (list_all is_ascii) (tk_result x)"
| "ascii_and_small (E_lease x) \<longleftrightarrow>
     True"
| "ascii_and_small (E_approval x) \<longleftrightarrow>
     list_all is_ascii (ap_reason x)"
| "ascii_and_small (E_artifact x) \<longleftrightarrow>
     af_size_bytes x < 2 ^ 31"
| "ascii_and_small (E_audit_event x) \<longleftrightarrow>
     True"
| "ascii_and_small (E_background_job x) \<longleftrightarrow>
     jb_attempt_count x < 2 ^ 31"
| "ascii_and_small (E_job_attempt x) \<longleftrightarrow>
     at_attempt x < 2 ^ 31"
| "ascii_and_small (E_persona_profile x) \<longleftrightarrow>
     pp_version x < 2 ^ 31"
| "ascii_and_small (E_learned_persona_adaptation x) \<longleftrightarrow>
     list_all is_ascii (la_content x)"
| "ascii_and_small (E_memory x) \<longleftrightarrow>
     list_all is_ascii (mr_content x) \<and> list_all is_ascii (mr_normalized_content x)"
| "ascii_and_small (E_migration_batch x) \<longleftrightarrow>
     True"

lemmas roundtrips =
  conversation_roundtrip conversation_message_roundtrip conversation_turn_roundtrip
  tool_invocation_roundtrip remote_agent_roundtrip task_roundtrip lease_roundtrip approval_roundtrip
  artifact_roundtrip audit_event_roundtrip background_job_roundtrip job_attempt_roundtrip
  persona_profile_roundtrip learned_persona_adaptation_roundtrip memory_roundtrip
  migration_batch_roundtrip

end
