(* ===== verification/SqlRowProperties.thy ===== *)
theory SqlRowProperties
  imports SqlRows Samples
begin

text \<open>
  What the tables of the MariaDB store keep of a domain value: everything, for every valid value with
  128-bit identifiers, and where the bounds of the domain model and of the columns part ways.
\<close>

section \<open>Widths\<close>

lemma utf8_length_Cons [simp]:
  "utf8_length (c # s) = (if (of_char c :: nat) < 128 then 1 else 2) + utf8_length s"
  by (simp add: utf8_length_def)

lemma utf8_length_Nil [simp]: "utf8_length [] = 0"
  by (simp add: utf8_length_def)

lemma utf8_length_ascii [simp]: "list_all is_ascii s \<Longrightarrow> utf8_length s = length s"
  by (induction s) (auto simp: is_ascii_def)

lemma utf8_length_bounds: "length s \<le> utf8_length s \<and> utf8_length s \<le> 2 * length s"
  by (induction s) auto

lemma utf8_length_replicate: "(128 :: nat) \<le> of_char c \<Longrightarrow> utf8_length (replicate n c) = 2 * n"
  by (induction n) auto

lemma ascii_text_column: "list_all is_ascii s \<Longrightarrow> length s \<le> 65535 \<Longrightarrow> text_column s"
  by (simp add: text_column_def)

lemma str_between_column: "str_between 0 n = char_column n"
  by (rule ext) (simp add: str_between_def char_column_def)

lemma list_all_replicate [simp]: "list_all P (replicate n x) \<longleftrightarrow> n = 0 \<or> P x"
  by (induction n) auto

lemmas field_bounds = str_between_def is_sha256_hex_def char_column_def int_column_def str_between_column

lemma uuid_columns [simp]: "char_column 36 (uuid_text u)" "pred_option (char_column 36) (map_option uuid_text v)"
  by (simp add: char_column_def) (cases v; simp add: char_column_def)

lemma small_text_column: "length s \<le> 32767 \<Longrightarrow> text_column s"
  using utf8_length_bounds[of s] by (simp add: text_column_def)

section \<open>Properties\<close>


definition sample_entities :: "entity list" where
  "sample_entities = [E_conversation sample_conversation, E_conversation_message sample_message,
     E_conversation_turn sample_running_turn, E_tool_invocation sample_invocation, E_remote_agent sample_ara,
     E_task sample_task, E_lease sample_lease, E_approval sample_approval, E_background_job sample_job,
     E_persona_profile sample_persona, E_memory sample_memory, E_migration_batch sample_batch,
     E_audit_event sample_event]"

lemma sample_entities_storable: "list_all storable sample_entities"
  by (simp add: sample_entities_def rows samples is_uuid_def str_between_def valid_conversation_def
      valid_message_def valid_turn_def valid_invocation_def valid_remote_agent_def valid_task_def
      valid_lease_def valid_approval_def valid_job_def valid_persona_profile_def valid_persona_core_def
      valid_memory_def valid_migration_batch_def valid_capability_def is_sha256_hex_def)


text \<open>
  C38: The columns are wide enough for the domain: the row of every valid value fits the types of its
  table, provided its unbounded texts are ASCII and its counters stay below two to the thirty-first.
\<close>

theorem rows_fit_columns:
  assumes "storable x" and "ascii_and_small x"
  shows "row_fits (store_row x)"
proof -
  note valid = valid_conversation_def valid_message_def valid_invocation_def valid_remote_agent_def
    valid_task_def valid_approval_def valid_artifact_def valid_job_def valid_attempt_def
    valid_persona_profile_def valid_adaptation_def valid_memory_def valid_migration_batch_def
  show ?thesis
    using assms
    by (cases x) (simp_all add: columns rows valid field_bounds ascii_text_column split: option.splits)
qed

theorem rows_fit_columns_witness:
  "map (\<lambda>x. row_fits (store_row x)) sample_entities = map (\<lambda>_. True) sample_entities"
proof -
  have "list_all ascii_and_small sample_entities"
    by (simp add: sample_entities_def samples is_ascii_def)
  then show ?thesis
    using sample_entities_storable rows_fit_columns by (auto simp: list_all_iff)
qed

text \<open>
  Without the ASCII proviso they are not: the domain bounds a message by characters, its column
  by bytes, so the row of a valid message fits exactly when the UTF-8 encoding of its content does;
  a message of 40000 accented letters is valid and does not.
\<close>

theorem message_column_counts_bytes:
  assumes "valid_message m"
  shows "conversation_message_row_fits (row_of_conversation_message m) \<longleftrightarrow> utf8_length (ms_content m) \<le> 65535"
  by (simp add: columns rows text_column_def)

definition accented_message :: conversation_message where
  "accented_message = sample_message\<lparr>ms_content := replicate 40000 (CHR 0xE9)\<rparr>"

theorem message_column_counts_bytes_witness:
  "valid_message accented_message \<and>
   \<not> conversation_message_row_fits (row_of_conversation_message accented_message)"
proof -
  have v: "valid_message accented_message"
    by (simp add: accented_message_def valid_message_def str_between_def)
  have "utf8_length (ms_content accented_message) = 2 * 40000"
    unfolding accented_message_def by (simp add: utf8_length_replicate)
  then show ?thesis using v message_column_counts_bytes[OF v] by simp
qed

end
