(* ===== verification/SqlTable.thy ===== *)
theory SqlTable
  imports SqlRows StoreJobs
begin

text \<open>
  The tables of \<^verbatim>\<open>MariaDBRuntimeStore\<close> and the statements its methods are made of.

  A method is one transaction: it reads and changes the tables and commits, or it raises and leaves
  them as they were. A row that breaks a primary key or a unique constraint raises \<open>IntegrityError\<close>
  when it is flushed. Where a query's \<^verbatim>\<open>ORDER BY\<close> leaves rows tied the table's order decides; row locks only
  delay concurrent transactions and are not modelled.
\<close>

named_theorems sql_ops \<open>definitions of the operations on the tables\<close>

record active_persona_row =
  rac_tenant_id :: string
  rac_profile_id :: string

record db =
  db_remote_agents :: "remote_agent_row list"
  db_conversations :: "conversation_row list"
  db_messages :: "conversation_message_row list"
  db_turns :: "conversation_turn_row list"
  db_tool_invocations :: "tool_invocation_row list"
  db_memories :: "memory_row list"
  db_migration_batches :: "migration_batch_row list"
  db_personas :: "persona_profile_row list"
  db_active_personas :: "active_persona_row list"
  db_adaptations :: "learned_persona_adaptation_row list"
  db_tasks :: "task_row list"
  db_leases :: "lease_row list"
  db_events :: "audit_event_row list"
  db_jobs :: "background_job_row list"
  db_attempts :: "job_attempt_row list"
  db_approvals :: "approval_row list"
  db_artifacts :: "artifact_row list"

definition empty_db :: db where
  "empty_db = \<lparr>db_remote_agents = [], db_conversations = [], db_messages = [], db_turns = [],
     db_tool_invocations = [], db_memories = [], db_migration_batches = [], db_personas = [],
     db_active_personas = [], db_adaptations = [], db_tasks = [], db_leases = [], db_events = [],
     db_jobs = [], db_attempts = [], db_approvals = [], db_artifacts = []\<rparr>"

section \<open>Statements\<close>

type_synonym 'a transaction = "(error + 'a) \<times> db"

definition transact :: "db \<Rightarrow> error + 'a \<times> db \<Rightarrow> 'a transaction" where
  "transact d r = (case r of Inl err \<Rightarrow> (Inl err, d) | Inr (x, d') \<Rightarrow> (Inr x, d'))"

text \<open>An insertion fails on a row that clashes with it.\<close>

definition insert_row :: "('r \<Rightarrow> bool) \<Rightarrow> 'r \<Rightarrow> 'r list \<Rightarrow> error + 'r list" where
  "insert_row clash row rows = (if list_ex clash rows then Inl IntegrityError else Inr (rows @ [row]))"

definition update_rows :: "('r \<Rightarrow> bool) \<Rightarrow> ('r \<Rightarrow> 'r) \<Rightarrow> 'r list \<Rightarrow> 'r list" where
  "update_rows P f rows = map (\<lambda>r. if P r then f r else r) rows"

definition insert_event :: "audit_event \<Rightarrow> db \<Rightarrow> error + db" where
  "insert_event ev d =
     ebind (insert_row (\<lambda>r. rev_id r = uuid_text (ev_id ev)) (row_of_audit_event ev) (db_events d))
       (\<lambda>rows. Inr (d\<lparr>db_events := rows\<rparr>))"

fun insert_events :: "audit_event list \<Rightarrow> db \<Rightarrow> error + db" where
  "insert_events [] d = Inr d"
| "insert_events (ev # evs) d = ebind (insert_event ev d) (insert_events evs)"

text \<open>Comparison of a nullable instant column with a time: no row passes on a null.\<close>

definition null_or :: "('a \<Rightarrow> bool) \<Rightarrow> 'a option \<Rightarrow> bool" where
  "null_or P v = (case v of None \<Rightarrow> False | Some x \<Rightarrow> P x)"

definition sql_append_event :: "audit_event \<Rightarrow> db \<Rightarrow> unit transaction" where
  [sql_ops]: "sql_append_event event d = transact d (ebind (insert_event event d) (\<lambda>d'. Inr ((), d')))"

definition sql_list_events :: "uuid \<Rightarrow> db \<Rightarrow> error + audit_event list" where
  "sql_list_events tenant_id d =
     emap audit_event_of_row
       (filter (\<lambda>r. rev_tenant_id r = uuid_text tenant_id)
          (sort_key (\<lambda>r. aware_utc (rev_occurred_at r)) (db_events d)))"

lemma transact_simps [simp]:
  "transact d (Inl err) = (Inl err, d)" "transact d (Inr (x, d')) = (Inr x, d')"
  by (simp_all add: transact_def)

lemma insert_row_fresh [simp]: "\<not> list_ex clash rows \<Longrightarrow> insert_row clash row rows = Inr (rows @ [row])"
  by (simp add: insert_row_def)

lemma insert_row_clash [simp]: "list_ex clash rows \<Longrightarrow> insert_row clash row rows = Inl IntegrityError"
  by (simp add: insert_row_def)

lemma update_rows_same: "(\<And>r. r \<in> set rows \<Longrightarrow> P r \<Longrightarrow> f r = r) \<Longrightarrow> update_rows P f rows = rows"
  unfolding update_rows_def by (rule map_idI) auto

section \<open>Tables that hold a dictionary\<close>

lemma insort_key_map: "insort_key f (g x) (map g ys) = map g (insort_key (\<lambda>x. f (g x)) x ys)"
  by (induction ys) auto

lemma sort_key_map: "sort_key f (map g xs) = map g (sort_key (\<lambda>x. f (g x)) xs)"
  by (induction xs) (simp_all add: insort_key_map)

lemma update_as_map:
  "distinct (map fst tbl) \<Longrightarrow> k \<in> fst ` set tbl \<Longrightarrow>
     AList.update k y tbl = map (\<lambda>(j, w). (j, if j = k then y else w)) tbl"
proof (induction tbl)
  case Nil
  then show ?case by simp
next
  case (Cons jw tbl)
  obtain j w where jw: "jw = (j, w)" by (cases jw)
  show ?case
  proof (cases "j = k")
    case True
    with Cons.prems have "\<And>i v. (i, v) \<in> set tbl \<Longrightarrow> i \<noteq> k" unfolding jw by force
    then have "map (\<lambda>(j, w). (j, if j = k then y else w)) tbl = tbl" by (intro map_idI) auto
    with True show ?thesis by (simp add: jw)
  next
    case False
    with Cons show ?thesis by (auto simp: jw)
  qed
qed

text \<open>
  The contract between a dictionary of the in-memory store and a table: rows are the images of the
  values, in order, with the identifiers as texts. What a statement does to the table is then what the
  operation does to the dictionary.
\<close>

locale sql_table =
  fixes key :: "'a \<Rightarrow> uuid" and tenant :: "'a \<Rightarrow> uuid"
    and row_of :: "'a \<Rightarrow> 'r" and of_row :: "'r \<Rightarrow> error + 'a"
    and row_key :: "'r \<Rightarrow> string" and row_tenant :: "'r \<Rightarrow> string"
    and storable :: "'a \<Rightarrow> bool"
  assumes row_key_of [simp]: "row_key (row_of x) = uuid_text (key x)"
    and row_tenant_of [simp]: "row_tenant (row_of x) = uuid_text (tenant x)"
    and of_row_of [simp]: "storable x \<Longrightarrow> of_row (row_of x) = Inr x"
    and storable_ids: "storable x \<Longrightarrow> is_uuid (key x) \<and> is_uuid (tenant x)"
begin

definition holds :: "'r list \<Rightarrow> (uuid, 'a) dict \<Rightarrow> bool" where
  "holds rows tbl \<longleftrightarrow> rows = map (row_of \<circ> snd) tbl \<and> keyed key tbl \<and> list_all (storable \<circ> snd) tbl"

lemma holds_Nil: "holds [] []"
  by (simp add: holds_def)

lemma holds_tl: "holds rows ((k, x) # tbl) \<Longrightarrow> k = key x \<and> storable x \<and> holds (tl rows) tbl"
  by (auto simp: holds_def keyed_def)

lemma find_row:
  "holds rows tbl \<Longrightarrow> is_uuid k \<Longrightarrow> is_uuid t \<Longrightarrow>
     find (\<lambda>r. row_key r = uuid_text k \<and> row_tenant r = uuid_text t) rows = map_option row_of (scoped tenant tbl t k)"
proof (induction tbl arbitrary: rows)
  case Nil
  then show ?case by (simp add: holds_def scoped_def)
next
  case (Cons kx tbl)
  obtain i x where kx: "kx = (i, x)" by (cases kx)
  from Cons.prems(1) kx have x: "i = key x" "storable x" and tl: "holds (map (row_of \<circ> snd) tbl) tbl"
    and rows: "rows = row_of x # map (row_of \<circ> snd) tbl" and new: "key x \<notin> fst ` set tbl"
    by (auto simp: holds_def keyed_def)
  have ids: "uuid_text (key x) = uuid_text k \<longleftrightarrow> key x = k" "uuid_text (tenant x) = uuid_text t \<longleftrightarrow> tenant x = t"
    using storable_ids[OF x(2)] Cons.prems(2,3) by (simp_all add: uuid_text_inj)
  have "map_of tbl k = None" if "key x = k" using new that by (simp add: map_of_eq_None_iff)
  then have "scoped tenant tbl t k = None" if "key x = k" using that by (simp add: scoped_def)
  with Cons.IH[OF tl Cons.prems(2,3)] show ?case
    unfolding rows kx using x(1) by (auto simp: ids scoped_def)
qed

lemma update_row:
  assumes h: "holds rows tbl" and x: "map_of tbl k = Some x" and y: "key y = k" "storable y"
    and f: "f (row_of x) = row_of y"
  shows "holds (update_rows (\<lambda>r. row_key r = uuid_text k) f rows) (AList.update k y tbl)"
proof -
  have rows: "rows = map (row_of \<circ> snd) tbl" and tbl: "keyed key tbl" "list_all (storable \<circ> snd) tbl"
    using h by (auto simp: holds_def)
  have "update_rows (\<lambda>r. row_key r = uuid_text k) f rows =
      map (row_of \<circ> snd \<circ> (\<lambda>(j, w). (j, if j = k then y else w))) tbl"
    unfolding rows update_rows_def map_map
  proof (rule map_cong[OF refl])
    fix jw assume mem: "jw \<in> set tbl"
    obtain j w where jw: "jw = (j, w)" by (cases jw)
    have w: "key w = j" "storable w" "map_of tbl j = Some w"
      using mem tbl unfolding jw by (auto simp: keyed_def list_all_iff map_of_eq_Some_iff)
    have "uuid_text j = uuid_text k \<longleftrightarrow> j = k"
      using storable_ids[OF w(2)] storable_ids[OF y(2)] w(1) y(1) by (simp add: uuid_text_inj)
    with w x f show "((\<lambda>r. if row_key r = uuid_text k then f r else r) \<circ> (row_of \<circ> snd)) jw =
        (row_of \<circ> snd \<circ> (\<lambda>(j, w). (j, if j = k then y else w))) jw"
      unfolding jw by auto
  qed
  moreover have "AList.update k y tbl = map (\<lambda>(j, w). (j, if j = k then y else w)) tbl"
    using tbl x by (intro update_as_map) (auto simp: keyed_def dest: map_of_SomeD intro: rev_image_eqI)
  moreover have "keyed key (AList.update k y tbl)" using tbl y by blast
  moreover have "list_all (storable \<circ> snd) (AList.update k y tbl)"
    using tbl(2) y(2) set_AList_update[of k y tbl] by (auto simp: list_all_iff)
  ultimately show ?thesis by (simp add: holds_def)
qed

lemma append_row:
  assumes "holds rows tbl" and "storable x" and "key x \<notin> fst ` set tbl"
  shows "holds (rows @ [row_of x]) (AList.update (key x) x tbl)"
proof -
  have "AList.update (key x) x tbl = tbl @ [(key x, x)]"
    using assms(3) by (induction tbl) auto
  with assms show ?thesis by (auto simp: holds_def keyed_def)
qed

lemma holds_storable: "holds rows tbl \<Longrightarrow> map_of tbl k = Some x \<Longrightarrow> storable x \<and> key x = k"
  by (auto simp: holds_def list_all_iff keyed_def dest!: map_of_SomeD)

text \<open>Queries on rows that correspond to conditions on values.\<close>

lemma find_image:
  assumes "holds rows tbl" and "\<And>x. storable x \<Longrightarrow> P (row_of x) = Q x"
  shows "find P rows = map_option row_of (find Q (map snd tbl))"
proof -
  have "list_all storable (map snd tbl)" and rows: "rows = map row_of (map snd tbl)"
    using assms(1) by (simp_all add: holds_def list_all_iff)
  then show ?thesis unfolding rows by (induction tbl) (auto simp: assms(2))
qed

lemma select_image:
  assumes "holds rows tbl" and "\<And>x. storable x \<Longrightarrow> P (row_of x) = Q x" and "\<And>x. f (row_of x) = g x"
  shows "emap of_row (filter P (sort_key f rows)) = Inr (filter Q (sort_key g (map snd tbl)))"
proof -
  have ok: "\<And>x. x \<in> set (sort_key g (map snd tbl)) \<Longrightarrow> storable x" and rows: "rows = map row_of (map snd tbl)"
    using assms(1) by (auto simp: holds_def list_all_iff)
  have "filter P (sort_key f rows) = map row_of (filter (P \<circ> row_of) (sort_key g (map snd tbl)))"
    unfolding rows sort_key_map assms(3) filter_map ..
  moreover have "filter (P \<circ> row_of) (sort_key g (map snd tbl)) = filter Q (sort_key g (map snd tbl))"
    using ok by (auto intro!: filter_cong simp: assms(2))
  moreover have "emap of_row (map row_of (filter Q (sort_key g (map snd tbl)))) = Inr (filter Q (sort_key g (map snd tbl)))"
    by (rule emap_all) (use ok in auto)
  ultimately show ?thesis by simp
qed

lemma load_rows: "holds rows tbl \<Longrightarrow> emap of_row rows = Inr (map snd tbl)"
proof (induction tbl arbitrary: rows)
  case Nil
  then show ?case by (simp add: holds_def)
next
  case (Cons kx tbl)
  obtain k x where kx: "kx = (k, x)" by (cases kx)
  have rows: "rows = row_of x # tl rows" using Cons.prems unfolding kx by (simp add: holds_def)
  from holds_tl[OF Cons.prems[unfolded kx]] Cons.IH have "emap of_row (tl rows) = Inr (map snd tbl)" "storable x" by auto
  then show ?case by (subst rows) (simp add: kx)
qed

end

interpretation job_table: sql_table jb_id jb_tenant_id row_of_background_job background_job_of_row
  rjb_id rjb_tenant_id storable_background_job
  by unfold_locales (simp_all add: background_job_roundtrip, simp_all add: row_of_background_job_def
      storable_background_job_def)

interpretation memory_table: sql_table mr_id mr_tenant_id row_of_memory memory_of_row
  rmr_id rmr_tenant_id storable_memory
  by unfold_locales (simp_all add: memory_roundtrip, simp_all add: row_of_memory_def storable_memory_def)

interpretation conversation_table: sql_table cv_id cv_tenant_id row_of_conversation conversation_of_row
  rcv_id rcv_tenant_id storable_conversation
  by unfold_locales (simp_all add: conversation_roundtrip, simp_all add: row_of_conversation_def
      storable_conversation_def)

section \<open>Background jobs\<close>

text \<open>
  The background jobs of \<^verbatim>\<open>MariaDBRuntimeStore\<close>, each method a transaction on the tables of jobs,
  attempts and events.
\<close>

text \<open>The unique constraints of the two tables.\<close>

definition insert_job :: "background_job_row \<Rightarrow> db \<Rightarrow> error + db" where
  "insert_job row d =
     ebind (insert_row (\<lambda>r. rjb_id r = rjb_id row \<or>
              (rjb_tenant_id r = rjb_tenant_id row \<and> rjb_kind r = rjb_kind row \<and>
               rjb_source_id r = rjb_source_id row)) row (db_jobs d))
       (\<lambda>rows. Inr (d\<lparr>db_jobs := rows\<rparr>))"

definition insert_attempt :: "job_attempt_row \<Rightarrow> db \<Rightarrow> error + db" where
  "insert_attempt row d =
     ebind (insert_row (\<lambda>r. rat_id r = rat_id row \<or>
              (rat_job_id r = rat_job_id row \<and> rat_attempt r = rat_attempt row)) row (db_attempts d))
       (\<lambda>rows. Inr (d\<lparr>db_attempts := rows\<rparr>))"

definition set_job :: "background_job_row \<Rightarrow> db \<Rightarrow> db" where
  "set_job row d = d\<lparr>db_jobs := update_rows (\<lambda>r. rjb_id r = rjb_id row) (\<lambda>_. row) (db_jobs d)\<rparr>"

text \<open>The attempt of the job's current count; the unique constraint leaves at most one.\<close>

definition update_attempt ::
  "background_job_row \<Rightarrow> (job_attempt_row \<Rightarrow> job_attempt_row) \<Rightarrow> db \<Rightarrow> db" where
  "update_attempt row f d = d\<lparr>db_attempts := update_rows
     (\<lambda>a. rat_job_id a = rjb_id row \<and> rat_attempt a = rjb_attempt_count row) f (db_attempts d)\<rparr>"

text \<open>\<^verbatim>\<open>enqueue_job\<close>: a row that clashes on insertion is looked up again.\<close>

definition sql_enqueue_job :: "background_job \<Rightarrow> db \<Rightarrow> background_job transaction" where
  [sql_ops]: "sql_enqueue_job job d =
     (let same = (\<lambda>r. rjb_tenant_id r = uuid_text (jb_tenant_id job) \<and> rjb_kind r = jb_kind job \<and>
                      rjb_source_id r = uuid_text (jb_source_id job));
          row = row_of_background_job job
      in case find same (db_jobs d) of
           Some existing \<Rightarrow> transact d (ebind (background_job_of_row existing) (\<lambda>j. Inr (j, d)))
         | None \<Rightarrow>
             (case insert_job row d of
                Inr d' \<Rightarrow> transact d (ebind (background_job_of_row row) (\<lambda>j. Inr (j, d')))
              | Inl _ \<Rightarrow>
                  (case find same (db_jobs d) of
                     None \<Rightarrow> (Inl (LifecycleConflictError ''job enqueue conflict''), d)
                   | Some existing \<Rightarrow> transact d (ebind (background_job_of_row existing) (\<lambda>j. Inr (j, d))))))"

definition claimable_job_row :: "pydatetime \<Rightarrow> background_job_row \<Rightarrow> bool" where
  "claimable_job_row now r \<longleftrightarrow>
     (rjb_state r \<in> {Job_PENDING, Job_RETRY} \<and> aware_utc (rjb_available_at r) \<le> aware_utc now) \<or>
     (rjb_state r = Job_RUNNING \<and> null_or (\<lambda>t. aware_utc t \<le> aware_utc now) (rjb_lease_expires_at r))"

definition claim_order :: "background_job_row \<Rightarrow> datetime \<times> datetime" where
  "claim_order r = (aware_utc (rjb_available_at r), aware_utc (rjb_created_at r))"

definition sql_claim_job :: "env \<Rightarrow> uuid \<Rightarrow> datetime \<Rightarrow> db \<Rightarrow> background_job option transaction" where
  [sql_ops]: "sql_claim_job e lease_id lease_expires_at d =
     (let now = naive_utc (clk e 0) in
      case find (claimable_job_row now) (sort_key claim_order (db_jobs d)) of
        None \<Rightarrow> (Inr None, d)
      | Some row \<Rightarrow>
          let claimed = row\<lparr>rjb_state := Job_RUNNING, rjb_attempt_count := rjb_attempt_count row + 1,
                rjb_lease_id := Some (uuid_text lease_id),
                rjb_lease_expires_at := Some (naive_utc lease_expires_at), rjb_updated_at := now\<rparr>;
              attempt = \<lparr>rat_id = uuid_text (gen e 0), rat_tenant_id = rjb_tenant_id row,
                rat_job_id = rjb_id row, rat_attempt = rjb_attempt_count claimed, rat_started_at = now,
                rat_finished_at = None, rat_error = JNull\<rparr>
          in transact d
               (ebind (background_job_of_row claimed) (\<lambda>j.
                ebind (insert_attempt attempt (set_job claimed d)) (\<lambda>d'.
                Inr (Some j, d')))))"

definition job_row_at :: "uuid \<Rightarrow> uuid \<Rightarrow> db \<Rightarrow> background_job_row option" where
  "job_row_at tenant_id job_id d =
     find (\<lambda>r. rjb_id r = uuid_text job_id \<and> rjb_tenant_id r = uuid_text tenant_id) (db_jobs d)"

definition sql_active_job :: "db \<Rightarrow> uuid \<Rightarrow> uuid \<Rightarrow> uuid \<Rightarrow> error + background_job_row" where
  "sql_active_job d tenant_id job_id lease_id =
     (case job_row_at tenant_id job_id d of
        None \<Rightarrow> Inl (LifecycleNotFoundError ''job not found'')
      | Some row \<Rightarrow>
          if rjb_state row \<noteq> Job_RUNNING \<or> rjb_lease_id row \<noteq> Some (uuid_text lease_id)
          then Inl (LifecycleConflictError ''job is not actively claimed'')
          else Inr row)"

definition sql_complete_job :: "env \<Rightarrow> uuid \<Rightarrow> uuid \<Rightarrow> uuid \<Rightarrow> db \<Rightarrow> background_job transaction" where
  [sql_ops]: "sql_complete_job e tenant_id job_id lease_id d =
     transact d (ebind (sql_active_job d tenant_id job_id lease_id) (\<lambda>row.
       let now = naive_utc (clk e 0);
           completed = row\<lparr>rjb_state := Job_COMPLETED, rjb_lease_id := None,
             rjb_lease_expires_at := None, rjb_completed_at := Some now, rjb_updated_at := now\<rparr>
       in ebind (background_job_of_row completed) (\<lambda>j.
          Inr (j, update_attempt completed (\<lambda>a. a\<lparr>rat_finished_at := Some now\<rparr>) (set_job completed d)))))"

definition sql_retry_job ::
  "env \<Rightarrow> uuid \<Rightarrow> uuid \<Rightarrow> uuid \<Rightarrow> job_error \<Rightarrow> datetime \<Rightarrow> db \<Rightarrow> background_job transaction" where
  [sql_ops]: "sql_retry_job e tenant_id job_id lease_id error available_at d =
     transact d (ebind (sql_active_job d tenant_id job_id lease_id) (\<lambda>row.
       let now = naive_utc (clk e 0);
           state = (if rjb_attempt_count row \<ge> rjb_max_attempts row then Job_FAILED else Job_RETRY);
           retried = row\<lparr>rjb_state := state, rjb_lease_id := None, rjb_lease_expires_at := None,
             rjb_last_error := job_error_dump error, rjb_available_at := naive_utc available_at,
             rjb_updated_at := now,
             rjb_completed_at := (if state = Job_FAILED then Some now else rjb_completed_at row)\<rparr>
       in ebind (background_job_of_row retried) (\<lambda>j.
          Inr (j, update_attempt retried
                    (\<lambda>a. a\<lparr>rat_finished_at := Some now, rat_error := job_error_dump error\<rparr>)
                    (set_job retried d)))))"

definition sql_list_jobs :: "uuid \<Rightarrow> db \<Rightarrow> error + background_job list" where
  "sql_list_jobs tenant_id d =
     emap background_job_of_row
       (filter (\<lambda>r. rjb_tenant_id r = uuid_text tenant_id)
          (sort_key (\<lambda>r. - aware_utc (rjb_created_at r)) (db_jobs d)))"

definition sql_list_job_attempts :: "uuid \<Rightarrow> uuid \<Rightarrow> db \<Rightarrow> error + job_attempt list" where
  "sql_list_job_attempts tenant_id job_id d =
     emap job_attempt_of_row
       (filter (\<lambda>a. rat_tenant_id a = uuid_text tenant_id \<and> rat_job_id a = uuid_text job_id)
          (sort_key rat_attempt (db_attempts d)))"

definition sql_requeue_job :: "env \<Rightarrow> uuid \<Rightarrow> uuid \<Rightarrow> uuid \<Rightarrow> db \<Rightarrow> background_job transaction" where
  [sql_ops]: "sql_requeue_job e tenant_id job_id actor_id d =
     transact d (case job_row_at tenant_id job_id d of
        None \<Rightarrow> Inl (LifecycleNotFoundError ''job not found'')
      | Some row \<Rightarrow>
          if rjb_state row \<noteq> Job_FAILED
          then Inl (LifecycleConflictError ''only failed jobs can be requeued'')
          else
            let now = naive_utc (clk e 0);
                requeued = row\<lparr>rjb_state := Job_PENDING, rjb_attempt_count := 0,
                  rjb_available_at := now, rjb_lease_id := None, rjb_lease_expires_at := None,
                  rjb_last_error := JNull, rjb_completed_at := None, rjb_updated_at := now\<rparr>
            in ebind (background_job_of_row requeued) (\<lambda>j.
               ebind (insert_event (AuditEvent e 0 tenant_id JOB_REQUEUED Actor_USER (Some actor_id) None
                        [(''job_id'', JId job_id)]) (set_job requeued d)) (\<lambda>d'.
               Inr (j, d'))))"

end
