(* ===== verification/SqlMemories.thy ===== *)
theory SqlMemories
  imports SqlTable StoreMemories
begin

text \<open>
  Memories, personas, adaptations and migration batches of \<^verbatim>\<open>MariaDBRuntimeStore\<close>. Texts are compared
  exactly, as under a binary collation.
\<close>

section \<open>Statements\<close>

text \<open>The text of an identifier as it appears in a payload.\<close>

definition json_text :: "string \<Rightarrow> json" where
  "json_text s = (case parse_uuid s of
     Some u \<Rightarrow> if uuid_text u = s then JId u else JStr s | None \<Rightarrow> JStr s)"

text \<open>
  The keys of \<^verbatim>\<open>memory_records\<close>: the primary key, one row per tenant and normalized content, and the
  references to the source message and to a contradicted memory.
\<close>

definition memory_references :: "memory_row \<Rightarrow> db \<Rightarrow> bool" where
  "memory_references row d \<longleftrightarrow>
     list_ex (\<lambda>m. rms_id m = rmr_source_message_id row) (db_messages d) \<and>
     (case rmr_contradiction_of row of None \<Rightarrow> True
      | Some k \<Rightarrow> list_ex (\<lambda>r. rmr_id r = k) (db_memories d))"

definition insert_memory :: "memory_row \<Rightarrow> db \<Rightarrow> error + db" where
  "insert_memory row d =
     (if \<not> memory_references row d then Inl IntegrityError
      else ebind (insert_row (\<lambda>r. rmr_id r = rmr_id row \<or>
                     (rmr_tenant_id r = rmr_tenant_id row \<and>
                      rmr_normalized_content r = rmr_normalized_content row)) row (db_memories d))
             (\<lambda>rows. Inr (d\<lparr>db_memories := rows\<rparr>)))"

definition set_memory :: "memory_row \<Rightarrow> db \<Rightarrow> db" where
  "set_memory row d = d\<lparr>db_memories := update_rows (\<lambda>r. rmr_id r = rmr_id row) (\<lambda>_. row) (db_memories d)\<rparr>"

definition memory_row_at :: "uuid \<Rightarrow> uuid \<Rightarrow> db \<Rightarrow> memory_row option" where
  "memory_row_at tenant_id memory_id d =
     find (\<lambda>r. rmr_id r = uuid_text memory_id \<and> rmr_tenant_id r = uuid_text tenant_id) (db_memories d)"

section \<open>Memories\<close>

text \<open>A deleted row with the content is revived: it takes these columns of the new record, no other.\<close>

definition revive :: "memory_row \<Rightarrow> memory_row \<Rightarrow> memory_row" where
  "revive row revived =
     row\<lparr>rmr_kind := rmr_kind revived, rmr_content := rmr_content revived,
       rmr_source_event_id := rmr_source_event_id revived,
       rmr_source_message_id := rmr_source_message_id revived, rmr_confidence := rmr_confidence revived,
       rmr_confirmed := rmr_confirmed revived, rmr_state := rmr_state revived,
       rmr_sensitivity := rmr_sensitivity revived, rmr_visibility := rmr_visibility revived,
       rmr_retention := rmr_retention revived, rmr_contradiction_of := rmr_contradiction_of revived,
       rmr_created_at := rmr_created_at revived, rmr_updated_at := rmr_updated_at revived,
       rmr_reviewed_at := rmr_reviewed_at revived, rmr_reviewed_by := rmr_reviewed_by revived,
       rmr_deleted_at := rmr_deleted_at revived\<rparr>"

definition upsert_existing ::
  "memory_record \<Rightarrow> audit_event list \<Rightarrow> memory_row \<Rightarrow> db \<Rightarrow> error + memory_record \<times> db" where
  "upsert_existing memory events row d =
     (if rmr_state row \<noteq> Mem_DELETED then ebind (memory_of_row row) (\<lambda>m. Inr (m, d))
      else
        let row' = revive row (row_of_memory memory)
        in if \<not> memory_references row' d then Inl IntegrityError
           else ebind (memory_of_row row') (\<lambda>m.
                ebind (insert_events events (set_memory row' d)) (\<lambda>d'. Inr (m, d'))))"

definition sql_upsert_memory :: "memory_record \<Rightarrow> audit_event list \<Rightarrow> db \<Rightarrow> memory_record transaction" where
  [sql_ops]: "sql_upsert_memory memory events d =
     (let same = (\<lambda>r. rmr_tenant_id r = uuid_text (mr_tenant_id memory) \<and>
                      rmr_normalized_content r = mr_normalized_content memory)
      in transact d (case find same (db_memories d) of
           Some row \<Rightarrow> upsert_existing memory events row d
         | None \<Rightarrow>
             (case insert_memory (row_of_memory memory) d of
                Inr d1 \<Rightarrow>
                  ebind (memory_of_row (row_of_memory memory)) (\<lambda>m.
                  ebind (insert_events events d1) (\<lambda>d'. Inr (m, d')))
              | Inl _ \<Rightarrow>
                  (case find same (db_memories d) of
                     None \<Rightarrow> Inl (LifecycleConflictError ''memory deduplication conflict'')
                   | Some row \<Rightarrow> upsert_existing memory events row d))))"

definition sql_get_memory :: "uuid \<Rightarrow> uuid \<Rightarrow> db \<Rightarrow> error + memory_record option" where
  "sql_get_memory tenant_id memory_id d =
     (case memory_row_at tenant_id memory_id d of
        None \<Rightarrow> Inr None | Some row \<Rightarrow> ebind (memory_of_row row) (\<lambda>m. Inr (Some m)))"

definition sql_list_memories :: "uuid \<Rightarrow> bool \<Rightarrow> db \<Rightarrow> error + memory_record list" where
  "sql_list_memories tenant_id include_candidates d =
     emap memory_of_row
       (filter (\<lambda>r. rmr_tenant_id r = uuid_text tenant_id \<and> rmr_state r \<noteq> Mem_DELETED \<and>
                    (include_candidates \<or> rmr_state r = Mem_PROMOTED))
          (sort_key (\<lambda>r. aware_utc (rmr_updated_at r)) (db_memories d)))"

definition sql_delete_memory :: "env \<Rightarrow> uuid \<Rightarrow> uuid \<Rightarrow> uuid \<Rightarrow> db \<Rightarrow> memory_record transaction" where
  [sql_ops]: "sql_delete_memory e tenant_id memory_id actor_id d =
     transact d (case memory_row_at tenant_id memory_id d of
        None \<Rightarrow> Inl (LifecycleNotFoundError ''memory not found'')
      | Some row \<Rightarrow>
          if rmr_state row = Mem_DELETED then Inl (LifecycleConflictError ''memory is already deleted'')
          else
            let now = naive_utc (clk e 0);
                deleted = row\<lparr>rmr_state := Mem_DELETED, rmr_deleted_at := Some now, rmr_updated_at := now\<rparr>
            in ebind (memory_of_row deleted) (\<lambda>m.
               ebind (insert_event (AuditEvent e 0 tenant_id MEMORY_DELETED Actor_USER (Some actor_id) None
                        [(''memory_id'', JId memory_id)]) (set_memory deleted d)) (\<lambda>d'.
               Inr (m, d'))))"

definition sql_pin_memory :: "env \<Rightarrow> uuid \<Rightarrow> uuid \<Rightarrow> bool \<Rightarrow> uuid \<Rightarrow> db \<Rightarrow> memory_record transaction" where
  [sql_ops]: "sql_pin_memory e tenant_id memory_id pinned actor_id d =
     transact d (case find (\<lambda>r. rmr_id r = uuid_text memory_id \<and> rmr_tenant_id r = uuid_text tenant_id \<and>
                              rmr_state r = Mem_PROMOTED) (db_memories d) of
        None \<Rightarrow> Inl (LifecycleNotFoundError ''promoted memory not found'')
      | Some row \<Rightarrow>
          let updated = row\<lparr>rmr_pinned := pinned, rmr_updated_at := naive_utc (clk e 0)\<rparr>
          in ebind (memory_of_row updated) (\<lambda>m.
             ebind (insert_event (AuditEvent e 0 tenant_id (if pinned then MEMORY_PINNED else MEMORY_UNPINNED)
                      Actor_USER (Some actor_id) None [(''memory_id'', JId memory_id)]) (set_memory updated d)) (\<lambda>d'.
             Inr (m, d'))))"

definition replacement_row ::
  "uuid \<Rightarrow> uuid \<Rightarrow> bool \<Rightarrow> uuid option \<Rightarrow> db \<Rightarrow> error + memory_row option" where
  "replacement_row tenant_id memory_id promote replaces_memory_id d =
     (case replaces_memory_id of
        None \<Rightarrow> Inr None
      | Some rid \<Rightarrow>
          (case find (\<lambda>r. rmr_id r = uuid_text rid \<and> rmr_id r \<noteq> uuid_text memory_id \<and>
                          rmr_tenant_id r = uuid_text tenant_id \<and> rmr_state r = Mem_PROMOTED) (db_memories d) of
             None \<Rightarrow> Inl (LifecycleNotFoundError ''replacement memory not found'')
           | Some r \<Rightarrow> if \<not> promote then Inl (LifecycleConflictError ''rejection cannot replace a memory'')
                       else Inr (Some r)))"

definition sql_review_memory ::
  "env \<Rightarrow> uuid \<Rightarrow> uuid \<Rightarrow> bool \<Rightarrow> uuid \<Rightarrow> uuid option \<Rightarrow> db \<Rightarrow> memory_record transaction" where
  [sql_ops]: "sql_review_memory e tenant_id memory_id promote actor_id replaces_memory_id d =
     transact d (case memory_row_at tenant_id memory_id d of
        None \<Rightarrow> Inl (LifecycleNotFoundError ''memory not found'')
      | Some row \<Rightarrow>
          if rmr_state row \<noteq> Mem_CANDIDATE
          then Inl (LifecycleConflictError ''only candidate memories can be reviewed'')
          else
            ebind (replacement_row tenant_id memory_id promote replaces_memory_id d) (\<lambda>replacement.
            let now = naive_utc (clk e 0);
                reviewed = row\<lparr>rmr_state := (if promote then Mem_PROMOTED else Mem_REJECTED),
                  rmr_confirmed := promote, rmr_contradiction_of := map_option uuid_text replaces_memory_id,
                  rmr_reviewed_at := Some now, rmr_reviewed_by := Some (uuid_text actor_id),
                  rmr_updated_at := now\<rparr>;
                event = AuditEvent e 0 tenant_id (if promote then MEMORY_PROMOTED else MEMORY_REJECTED)
                  Actor_USER (Some actor_id) None [(''memory_id'', JId memory_id)]
            in ebind (memory_of_row reviewed) (\<lambda>m.
               case replacement of
                 None \<Rightarrow> ebind (insert_events [event] (set_memory reviewed d)) (\<lambda>d'. Inr (m, d'))
               | Some r \<Rightarrow>
                   ebind (insert_events [event,
                       AuditEvent e 1 tenant_id MEMORY_CONTRADICTION_RESOLVED Actor_USER (Some actor_id) None
                         [(''memory_id'', JId memory_id), (''replaced_memory_id'', json_text (rmr_id r))]]
                     (set_memory (r\<lparr>rmr_state := Mem_DELETED, rmr_deleted_at := Some now, rmr_updated_at := now\<rparr>)
                        (set_memory reviewed d)))
                   (\<lambda>d'. Inr (m, d')))))"

section \<open>Personas\<close>

definition insert_persona :: "persona_profile_row \<Rightarrow> db \<Rightarrow> error + db" where
  "insert_persona row d =
     ebind (insert_row (\<lambda>r. rpp_id r = rpp_id row \<or>
              (rpp_tenant_id r = rpp_tenant_id row \<and> rpp_version r = rpp_version row)) row (db_personas d))
       (\<lambda>rows. Inr (d\<lparr>db_personas := rows\<rparr>))"

definition active_row_of :: "uuid \<Rightarrow> db \<Rightarrow> active_persona_row option" where
  "active_row_of tenant_id d = find (\<lambda>a. rac_tenant_id a = uuid_text tenant_id) (db_active_personas d)"

text \<open>The tenant's active row is added or pointed to the profile.\<close>

definition activate_profile :: "uuid \<Rightarrow> string \<Rightarrow> db \<Rightarrow> error + db" where
  "activate_profile tenant_id profile_id d =
     (case active_row_of tenant_id d of
        None \<Rightarrow>
          ebind (insert_row (\<lambda>a. rac_tenant_id a = uuid_text tenant_id \<or> rac_profile_id a = profile_id)
                   \<lparr>rac_tenant_id = uuid_text tenant_id, rac_profile_id = profile_id\<rparr> (db_active_personas d))
            (\<lambda>rows. Inr (d\<lparr>db_active_personas := rows\<rparr>))
      | Some _ \<Rightarrow>
          if list_ex (\<lambda>a. rac_tenant_id a \<noteq> uuid_text tenant_id \<and> rac_profile_id a = profile_id) (db_active_personas d)
          then Inl IntegrityError
          else Inr (d\<lparr>db_active_personas := update_rows (\<lambda>a. rac_tenant_id a = uuid_text tenant_id)
                  (\<lambda>a. a\<lparr>rac_profile_id := profile_id\<rparr>) (db_active_personas d)\<rparr>))"

text \<open>\<^verbatim>\<open>(latest or 0) + 1\<close>.\<close>

definition next_version :: "uuid \<Rightarrow> db \<Rightarrow> int" where
  "next_version tenant_id d =
     (case sort_key (\<lambda>v. - v) (map rpp_version (filter (\<lambda>r. rpp_tenant_id r = uuid_text tenant_id) (db_personas d))) of
        [] \<Rightarrow> 0 | v # _ \<Rightarrow> v) + 1"

definition sql_get_active_persona :: "uuid \<Rightarrow> db \<Rightarrow> error + persona_profile option" where
  "sql_get_active_persona tenant_id d =
     (case concat (map (\<lambda>p. map (\<lambda>a. p) (filter (\<lambda>a. rac_profile_id a = rpp_id p \<and>
                     rac_tenant_id a = uuid_text tenant_id) (db_active_personas d))) (db_personas d)) of
        [] \<Rightarrow> Inr None
      | row # _ \<Rightarrow> ebind (persona_profile_of_row row) (\<lambda>p. Inr (Some p)))"

definition sql_create_persona_profile :: "env \<Rightarrow> persona_profile \<Rightarrow> uuid \<Rightarrow> db \<Rightarrow> persona_profile transaction" where
  [sql_ops]: "sql_create_persona_profile e profile actor_id d =
     transact d
       (if pp_version profile \<noteq> next_version (pp_tenant_id profile) d
        then Inl (LifecycleConflictError ''persona version is not next for tenant'')
        else
          ebind (insert_persona (row_of_persona_profile profile) d) (\<lambda>d1.
          ebind (activate_profile (pp_tenant_id profile) (uuid_text (pp_id profile)) d1) (\<lambda>d2.
          ebind (insert_events
            [AuditEvent e 0 (pp_tenant_id profile) PERSONA_CREATED Actor_USER (Some actor_id) None
               [(''persona_id'', JId (pp_id profile)), (''version'', JInt (pp_version profile))],
             AuditEvent e 1 (pp_tenant_id profile) PERSONA_ACTIVATED Actor_USER (Some actor_id) None
               [(''persona_id'', JId (pp_id profile)), (''version'', JInt (pp_version profile))]] d2) (\<lambda>d'.
          Inr (profile, d')))))"

definition sql_revert_persona_profile :: "env \<Rightarrow> uuid \<Rightarrow> int \<Rightarrow> uuid \<Rightarrow> db \<Rightarrow> persona_profile transaction" where
  [sql_ops]: "sql_revert_persona_profile e tenant_id version actor_id d =
     transact d (case find (\<lambda>r. rpp_tenant_id r = uuid_text tenant_id \<and> rpp_version r = version) (db_personas d) of
        None \<Rightarrow> Inl (LifecycleNotFoundError ''persona version not found'')
      | Some profile \<Rightarrow>
          (case active_row_of tenant_id d of
             None \<Rightarrow> Inl (LifecycleNotFoundError ''active persona not found'')
           | Some _ \<Rightarrow>
               ebind (activate_profile tenant_id (rpp_id profile) d) (\<lambda>d1.
               ebind (insert_event (AuditEvent e 0 tenant_id PERSONA_REVERTED Actor_USER (Some actor_id) None
                        [(''persona_id'', json_text (rpp_id profile)), (''version'', JInt version)]) d1) (\<lambda>d'.
               ebind (persona_profile_of_row profile) (\<lambda>p. Inr (p, d'))))))"

definition sql_create_learned_persona_adaptation ::
  "learned_persona_adaptation \<Rightarrow> db \<Rightarrow> learned_persona_adaptation transaction" where
  [sql_ops]: "sql_create_learned_persona_adaptation adaptation d =
     transact d
       (if \<not> list_ex (\<lambda>r. rpp_id r = uuid_text (la_profile_id adaptation) \<and>
                          rpp_tenant_id r = uuid_text (la_tenant_id adaptation)) (db_personas d)
        then Inl (LifecycleNotFoundError ''persona profile not found'')
        else
          ebind (insert_row (\<lambda>r. rla_id r = uuid_text (la_id adaptation))
                   (row_of_learned_persona_adaptation adaptation) (db_adaptations d)) (\<lambda>rows.
          Inr (adaptation, d\<lparr>db_adaptations := rows\<rparr>)))"

definition sql_reverse_learned_persona_adaptation ::
  "env \<Rightarrow> uuid \<Rightarrow> uuid \<Rightarrow> db \<Rightarrow> learned_persona_adaptation transaction" where
  [sql_ops]: "sql_reverse_learned_persona_adaptation e tenant_id adaptation_id d =
     transact d (case find (\<lambda>r. rla_id r = uuid_text adaptation_id \<and> rla_tenant_id r = uuid_text tenant_id)
                       (db_adaptations d) of
        None \<Rightarrow> Inl (LifecycleNotFoundError ''learned persona adaptation not found'')
      | Some row \<Rightarrow>
          if rla_state row = Adapt_REVERSED
          then Inl (LifecycleConflictError ''learned persona adaptation is already reversed'')
          else
            let row' = row\<lparr>rla_state := Adapt_REVERSED, rla_reversed_at := Some (naive_utc (clk e 0))\<rparr>
            in ebind (learned_persona_adaptation_of_row row') (\<lambda>a.
               Inr (a, d\<lparr>db_adaptations := update_rows (\<lambda>r. rla_id r = rla_id row) (\<lambda>_. row') (db_adaptations d)\<rparr>)))"

section \<open>Import batches\<close>

text \<open>The import batches of \<^verbatim>\<open>MariaDBRuntimeStore\<close>: staging, activation and rollback.\<close>

definition batch_row_at :: "uuid \<Rightarrow> uuid \<Rightarrow> db \<Rightarrow> migration_batch_row option" where
  "batch_row_at tenant_id batch_id d =
     find (\<lambda>r. rmb_id r = uuid_text batch_id \<and> rmb_tenant_id r = uuid_text tenant_id) (db_migration_batches d)"

definition set_batch :: "migration_batch_row \<Rightarrow> db \<Rightarrow> db" where
  "set_batch row d = d\<lparr>db_migration_batches :=
     update_rows (\<lambda>r. rmb_id r = rmb_id row) (\<lambda>_. row) (db_migration_batches d)\<rparr>"

definition insert_batch :: "migration_batch_row \<Rightarrow> db \<Rightarrow> error + db" where
  "insert_batch row d =
     ebind (insert_row (\<lambda>r. rmb_id r = rmb_id row \<or>
              (rmb_tenant_id r = rmb_tenant_id row \<and> rmb_source_system r = rmb_source_system row \<and>
               rmb_source_database_fingerprint r = rmb_source_database_fingerprint row)) row
             (db_migration_batches d))
       (\<lambda>rows. Inr (d\<lparr>db_migration_batches := rows\<rparr>))"

definition insert_conversation :: "conversation_row \<Rightarrow> db \<Rightarrow> error + db" where
  "insert_conversation row d =
     ebind (insert_row (\<lambda>r. rcv_id r = rcv_id row) row (db_conversations d))
       (\<lambda>rows. Inr (d\<lparr>db_conversations := rows\<rparr>))"

definition insert_message :: "conversation_message_row \<Rightarrow> db \<Rightarrow> error + db" where
  "insert_message row d =
     (if \<not> list_ex (\<lambda>c. rcv_id c = rms_conversation_id row) (db_conversations d) then Inl IntegrityError
      else ebind (insert_row (\<lambda>r. rms_id r = rms_id row) row (db_messages d))
             (\<lambda>rows. Inr (d\<lparr>db_messages := rows\<rparr>)))"

text \<open>
  The loop over the imported memories: the look-up of a duplicate flushes the rows added before, so it
  sees them, and it is there that a row which clashes raises.
\<close>

fun stage_rows :: "migration_batch \<Rightarrow> uuid \<Rightarrow> memory_record list \<Rightarrow> db \<Rightarrow> error + db" where
  "stage_rows batch message_id [] d = Inr d"
| "stage_rows batch message_id (memory # memories) d =
     (if list_ex (\<lambda>r. rmr_tenant_id r = uuid_text (mb_tenant_id batch) \<and>
             rmr_source_system r = mr_source_system memory \<and>
             rmr_source_database_fingerprint r = mr_source_database_fingerprint memory \<and>
             rmr_source_external_id r = mr_source_external_id memory) (db_memories d)
      then stage_rows batch message_id memories d
      else ebind (insert_memory (row_of_memory (memory\<lparr>mr_source_message_id := message_id\<rparr>)) d)
             (stage_rows batch message_id memories))"

definition sql_stage_migration_batch ::
  "env \<Rightarrow> migration_batch \<Rightarrow> memory_record list \<Rightarrow> uuid \<Rightarrow> db \<Rightarrow> migration_batch transaction" where
  [sql_ops]: "sql_stage_migration_batch e batch memories actor_id d =
     transact d
       (case find (\<lambda>r. rmb_tenant_id r = uuid_text (mb_tenant_id batch) \<and>
                      rmb_source_system r = mb_source_system batch \<and>
                      rmb_source_database_fingerprint r = mb_source_database_fingerprint batch)
               (db_migration_batches d) of
          Some existing \<Rightarrow> ebind (migration_batch_of_row existing) (\<lambda>b. Inr (b, d))
        | None \<Rightarrow>
            let conversation = \<lparr>cv_id = gen e 0, cv_tenant_id = mb_tenant_id batch,
                  cv_user_id = actor_id,
                  cv_title = ''Imported '' @ mb_source_system batch @ '' migration'',
                  cv_created_at = clk e 0, cv_updated_at = clk e 1\<rparr>;
                message = \<lparr>ms_id = gen e 1, ms_tenant_id = mb_tenant_id batch,
                  ms_conversation_id = cv_id conversation, ms_role = Role_USER,
                  ms_content = ''Imported source provenance'', ms_created_at = clk e 2\<rparr>
            in ebind (insert_conversation (row_of_conversation conversation) d) (\<lambda>d1.
               ebind (insert_message (row_of_conversation_message message) d1) (\<lambda>d2.
               ebind (insert_batch (row_of_migration_batch batch) d2) (\<lambda>d3.
               ebind (stage_rows batch (ms_id message) memories d3) (\<lambda>d4.
               ebind (insert_event (AuditEvent e 0 (mb_tenant_id batch) MIGRATION_STAGED Actor_USER
                        (Some actor_id) None [(''batch_id'', JId (mb_id batch))]) d4) (\<lambda>d'.
               Inr (batch, d')))))))"

definition sql_get_migration_batch :: "uuid \<Rightarrow> uuid \<Rightarrow> db \<Rightarrow> error + migration_batch option" where
  "sql_get_migration_batch tenant_id batch_id d =
     (case batch_row_at tenant_id batch_id d of
        None \<Rightarrow> Inr None | Some row \<Rightarrow> ebind (migration_batch_of_row row) (\<lambda>b. Inr (Some b)))"

definition sql_list_migration_batches :: "uuid \<Rightarrow> db \<Rightarrow> error + migration_batch list" where
  "sql_list_migration_batches tenant_id d =
     emap migration_batch_of_row
       (filter (\<lambda>r. rmb_tenant_id r = uuid_text tenant_id)
          (sort_key (\<lambda>r. aware_utc (rmb_created_at r)) (db_migration_batches d)))"

definition promote_row :: "pydatetime \<Rightarrow> uuid \<Rightarrow> memory_row \<Rightarrow> memory_row" where
  "promote_row now actor_id r =
     r\<lparr>rmr_state := Mem_PROMOTED, rmr_confirmed := True, rmr_reviewed_at := Some now,
       rmr_reviewed_by := Some (uuid_text actor_id), rmr_updated_at := now\<rparr>"

definition imported_live :: "uuid \<Rightarrow> uuid \<Rightarrow> memory_row \<Rightarrow> bool" where
  "imported_live tenant_id batch_id r \<longleftrightarrow>
     rmr_tenant_id r = uuid_text tenant_id \<and> rmr_import_batch_id r = Some (uuid_text batch_id) \<and>
     rmr_state r \<in> {Mem_CANDIDATE, Mem_PROMOTED}"

definition sql_activate_migration_batch ::
  "env \<Rightarrow> uuid \<Rightarrow> uuid \<Rightarrow> uuid \<Rightarrow> persona_core option \<Rightarrow> db \<Rightarrow> migration_batch transaction" where
  [sql_ops]: "sql_activate_migration_batch e tenant_id batch_id actor_id authored_core d =
     transact d (case authored_core of
        None \<Rightarrow> Inl (LifecycleConflictError ''authored persona core is required'')
      | Some core \<Rightarrow>
          (case batch_row_at tenant_id batch_id d of
             None \<Rightarrow> Inl (LifecycleNotFoundError ''migration batch not found'')
           | Some batch \<Rightarrow>
               if rmb_state batch \<noteq> Batch_STAGED
               then Inl (LifecycleConflictError ''migration batch is not staged'')
               else if \<not> list_ex (imported_live tenant_id batch_id) (db_memories d)
               then Inl (LifecycleConflictError ''an approved imported fact is required'')
               else
                 let now = naive_utc (clk e 0);
                     fresh = (\<lambda>r. imported_live tenant_id batch_id r \<and> rmr_state r = Mem_CANDIDATE);
                     promoted = filter fresh (db_memories d);
                     profile = \<lparr>pp_id = gen e 0, pp_tenant_id = tenant_id,
                       pp_version = next_version tenant_id d, pp_authored_core = core,
                       pp_created_at = clk e 1\<rparr>;
                     active = batch\<lparr>rmb_state := Batch_ACTIVE,
                       rmb_persona_profile_id := Some (uuid_text (pp_id profile)),
                       rmb_activated_at := Some now\<rparr>;
                     d1 = d\<lparr>db_memories := update_rows fresh (promote_row now actor_id) (db_memories d)\<rparr>
                 in ebind (insert_persona (row_of_persona_profile profile) d1) (\<lambda>d2.
                    ebind (activate_profile tenant_id (uuid_text (pp_id profile)) d2) (\<lambda>d3.
                    ebind (insert_events
                      (map (\<lambda>(n, r). AuditEvent e n tenant_id MEMORY_PROMOTED Actor_USER (Some actor_id) None
                              [(''memory_id'', json_text (rmr_id r)), (''import_batch_id'', JId batch_id)])
                         (enumerate 0 promoted) @
                       [AuditEvent e (length promoted) tenant_id MIGRATION_ACTIVATED Actor_USER (Some actor_id)
                          None [(''batch_id'', JId batch_id)]]) (set_batch active d3)) (\<lambda>d'.
                    ebind (migration_batch_of_row active) (\<lambda>b. Inr (b, d')))))))"

text \<open>The rollback selects by the batch alone.\<close>

definition sql_rollback_migration_batch ::
  "env \<Rightarrow> uuid \<Rightarrow> uuid \<Rightarrow> uuid \<Rightarrow> db \<Rightarrow> (migration_batch \<times> memory_record list) transaction" where
  [sql_ops]: "sql_rollback_migration_batch e tenant_id batch_id actor_id d =
     transact d (case batch_row_at tenant_id batch_id d of
        None \<Rightarrow> Inl (LifecycleNotFoundError ''migration batch not found'')
      | Some batch \<Rightarrow>
          if rmb_state batch = Batch_ROLLED_BACK
          then Inl (LifecycleConflictError ''migration batch is already rolled back'')
          else
            let now = naive_utc (clk e 0);
                live = (\<lambda>r. rmr_import_batch_id r = Some (uuid_text batch_id) \<and> rmr_state r \<noteq> Mem_DELETED);
                delete = (\<lambda>r. r\<lparr>rmr_state := Mem_DELETED, rmr_deleted_at := Some now, rmr_updated_at := now\<rparr>);
                rolled = batch\<lparr>rmb_state := Batch_ROLLED_BACK, rmb_rolled_back_at := Some now\<rparr>
            in ebind (insert_event (AuditEvent e 0 tenant_id MIGRATION_ROLLED_BACK Actor_USER (Some actor_id) None
                        [(''batch_id'', JId batch_id)])
                        (set_batch rolled (d\<lparr>db_memories := update_rows live delete (db_memories d)\<rparr>))) (\<lambda>d'.
               ebind (migration_batch_of_row rolled) (\<lambda>b.
               ebind (emap memory_of_row (map delete (filter live (db_memories d)))) (\<lambda>ms.
               Inr ((b, ms), d')))))"

end
