(* ===== verification/SqlAgreement.thy ===== *)
theory SqlAgreement
  imports SqlTable SqlMemories Samples
begin

text \<open>
  The two stores side by side: \<open>tables_hold d s\<close> says that the tables hold the rows of the in-memory
  store's dictionaries, and each lemma that a method of one does to its tables what the method of the
  other does to its dictionaries, with the same result.
\<close>

definition tables_hold :: "db \<Rightarrow> store \<Rightarrow> bool" where
  "tables_hold d s \<longleftrightarrow>
     job_table.holds (db_jobs d) (st_jobs s) \<and> memory_table.holds (db_memories d) (st_memories s) \<and>
     db_events d = map row_of_audit_event (st_events s)"

definition agrees :: "'a transaction \<Rightarrow> 'a result \<Rightarrow> bool" where
  "agrees x y \<longleftrightarrow> fst x = fst y \<and> tables_hold (snd x) (snd y)"

text \<open>The identifiers of the call's audit events, two at most, are new to the table.\<close>

definition fresh_events :: "env \<Rightarrow> db \<Rightarrow> bool" where
  "fresh_events e d \<longleftrightarrow>
     uuid_text (ev_uuid e 0) \<noteq> uuid_text (ev_uuid e (Suc 0)) \<and>
     list_all (\<lambda>r. rev_id r \<noteq> uuid_text (ev_uuid e 0) \<and> rev_id r \<noteq> uuid_text (ev_uuid e (Suc 0))) (db_events d)"

lemma agreesI: "fst x = fst y \<Longrightarrow> tables_hold (snd x) (snd y) \<Longrightarrow> agrees x y"
  by (simp add: agrees_def)

lemma agrees_error [intro]: "tables_hold d s \<Longrightarrow> agrees (Inl err, d) (Inl err, s)"
  by (simp add: agrees_def)

section \<open>Statements on tables that hold\<close>

lemma insert_event_fresh:
  "list_all (\<lambda>r. rev_id r \<noteq> uuid_text (ev_id ev)) (db_events d) \<Longrightarrow>
     insert_event ev d = Inr (d\<lparr>db_events := db_events d @ [row_of_audit_event ev]\<rparr>)"
  by (auto simp: insert_event_def list_all_iff list_ex_iff insert_row_def)

lemma fresh_event:
  assumes "fresh_events e d"
  shows "list_all (\<lambda>r. rev_id r \<noteq> uuid_text (ev_uuid e 0)) (db_events d)"
    and "list_all (\<lambda>r. rev_id r \<noteq> uuid_text (ev_uuid e (Suc 0))) (db_events d)"
    and "uuid_text (ev_uuid e 0) \<noteq> uuid_text (ev_uuid e (Suc 0))"
  using assms by (simp_all add: fresh_events_def list_all_iff)

lemma rev_id_row [simp]: "rev_id (row_of_audit_event ev) = uuid_text (ev_id ev)"
  by (simp add: row_of_audit_event_def)

lemma db_fields [simp]:
  "db_events (set_memory row d) = db_events d" "db_events (set_job row' d) = db_events d"
  "db_memories (set_job row' d) = db_memories d"
  by (simp_all add: set_memory_def set_job_def)

lemma tables_hold_event:
  "tables_hold d s \<Longrightarrow>
     tables_hold (d\<lparr>db_events := db_events d @ [row_of_audit_event ev]\<rparr>) (s\<lparr>st_events := st_events s @ [ev]\<rparr>)"
  by (simp add: tables_hold_def)

lemma tables_hold_memory:
  assumes "tables_hold d s" and "map_of (st_memories s) k = Some m" and "mr_id m' = k" and "storable_memory m'"
  shows "tables_hold (set_memory (row_of_memory m') d) (s\<lparr>st_memories := AList.update k m' (st_memories s)\<rparr>)"
  using assms memory_table.update_row[of "db_memories d" "st_memories s" k m m' "\<lambda>_. row_of_memory m'"]
  by (simp add: tables_hold_def set_memory_def)

lemma tables_hold_job:
  assumes "tables_hold d s" and "map_of (st_jobs s) k = Some j" and "jb_id j' = k" and "storable_background_job j'"
  shows "tables_hold (set_job (row_of_background_job j') d) (s\<lparr>st_jobs := AList.update k j' (st_jobs s)\<rparr>)"
  using assms job_table.update_row[of "db_jobs d" "st_jobs s" k j j' "\<lambda>_. row_of_background_job j'"]
  by (simp add: tables_hold_def set_job_def)

text \<open>One changed row and the event that records it.\<close>

lemma agrees_memory:
  assumes "tables_hold d s" and "map_of (st_memories s) k = Some m" and "mr_id m' = k" and "storable_memory m'"
  shows "agrees (Inr x, (set_memory (row_of_memory m') d)\<lparr>db_events := db_events d @ [row_of_audit_event ev]\<rparr>)
    (Inr x, s\<lparr>st_memories := AList.update k m' (st_memories s), st_events := st_events s @ [ev]\<rparr>)"
  using tables_hold_event[OF tables_hold_memory[OF assms], of ev] by (simp add: agrees_def)

lemma agrees_job:
  assumes "tables_hold d s" and "map_of (st_jobs s) k = Some j" and "jb_id j' = k" and "storable_background_job j'"
  shows "agrees (Inr x, (set_job (row_of_background_job j') d)\<lparr>db_events := db_events d @ [row_of_audit_event ev]\<rparr>)
    (Inr x, s\<lparr>st_jobs := AList.update k j' (st_jobs s), st_events := st_events s @ [ev]\<rparr>)"
  using tables_hold_event[OF tables_hold_job[OF assms], of ev] by (simp add: agrees_def)

lemma memory_row_at_holds:
  "tables_hold d s \<Longrightarrow> is_uuid t \<Longrightarrow> is_uuid k \<Longrightarrow>
     memory_row_at t k d = map_option row_of_memory (scoped mr_tenant_id (st_memories s) t k)"
  unfolding memory_row_at_def tables_hold_def by (blast intro: memory_table.find_row)

lemma job_row_at_holds:
  "tables_hold d s \<Longrightarrow> is_uuid t \<Longrightarrow> is_uuid k \<Longrightarrow>
     job_row_at t k d = map_option row_of_background_job (scoped jb_tenant_id (st_jobs s) t k)"
  unfolding job_row_at_def tables_hold_def by (blast intro: job_table.find_row)

lemma held_memory: "tables_hold d s \<Longrightarrow> map_of (st_memories s) k = Some m \<Longrightarrow> storable_memory m \<and> mr_id m = k"
  unfolding tables_hold_def by (blast dest: memory_table.holds_storable)

lemma held_job: "tables_hold d s \<Longrightarrow> map_of (st_jobs s) k = Some j \<Longrightarrow> storable_background_job j \<and> jb_id j = k"
  unfolding tables_hold_def by (blast dest: job_table.holds_storable)

section \<open>Memories\<close>

lemma get_memory_agrees:
  "tables_hold d s \<Longrightarrow> is_uuid t \<Longrightarrow> is_uuid k \<Longrightarrow> sql_get_memory t k d = Inr (get_memory t k s)"
  using held_memory[of d s k]
  by (auto simp: sql_get_memory_def get_memory_def memory_row_at_holds memory_roundtrip scoped_def split: option.split)

lemma delete_memory_agrees:
  assumes h: "tables_hold d s" and u: "is_uuid t" "is_uuid k" and f: "fresh_events e d"
  shows "agrees (sql_delete_memory e t k a d) (delete_memory e t k a s)"
proof (cases "scoped mr_tenant_id (st_memories s) t k")
  case None
  with h u show ?thesis by (auto simp: sql_delete_memory_def delete_memory_def memory_row_at_holds simp del: not_None_eq)
next
  case (Some m)
  note at = memory_row_at_holds[OF h u, unfolded Some]
  show ?thesis
  proof (cases "mr_state m = Mem_DELETED")
    case True
    have "sql_delete_memory e t k a d = (Inl (LifecycleConflictError ''memory is already deleted''), d)"
      using True by (simp add: sql_delete_memory_def at) (simp add: row_of_memory_def)
    moreover have "delete_memory e t k a s = (Inl (LifecycleConflictError ''memory is already deleted''), s)"
      using Some True by (simp add: delete_memory_def del: scoped_Some_iff)
    ultimately show ?thesis using h by auto
  next
    case False
    let ?m = "m\<lparr>mr_state := Mem_DELETED, mr_deleted_at := Some (clk e 0), mr_updated_at := clk e 0\<rparr>"
    have m: "map_of (st_memories s) k = Some m" using Some by simp
    have row: "(row_of_memory m)\<lparr>rmr_state := Mem_DELETED, rmr_deleted_at := Some (naive_utc (clk e 0)),
        rmr_updated_at := naive_utc (clk e 0)\<rparr> = row_of_memory ?m"
      by (simp add: row_of_memory_def)
    have st: "mr_id ?m = k" "storable_memory ?m"
      using held_memory[OF h m] by (auto simp: storable_memory_def valid_memory_def)
    have "rmr_state (row_of_memory m) \<noteq> Mem_DELETED" using False by (simp add: row_of_memory_def)
    then show ?thesis
      using Some False fresh_event[OF f] agrees_memory[OF h m st]
      by (simp add: sql_delete_memory_def delete_memory_def at row Let_def memory_roundtrip[OF st(2)]
          insert_event_fresh del: scoped_Some_iff)
  qed
qed

lemma pin_row_at:
  assumes h: "tables_hold d s" and u: "is_uuid t" "is_uuid k"
  shows "find (\<lambda>r. rmr_id r = uuid_text k \<and> rmr_tenant_id r = uuid_text t \<and> rmr_state r = Mem_PROMOTED) (db_memories d) =
    (case scoped mr_tenant_id (st_memories s) t k of
       None \<Rightarrow> None | Some m \<Rightarrow> if mr_state m = Mem_PROMOTED then Some (row_of_memory m) else None)"
proof -
  have unique: "r = r'" if "r \<in> set (db_memories d)" "r' \<in> set (db_memories d)" "rmr_id r = rmr_id r'" for r r'
  proof -
    from that(1,2) h obtain i m j m' where m: "(i, m) \<in> set (st_memories s)" "r = row_of_memory m"
      "(j, m') \<in> set (st_memories s)" "r' = row_of_memory m'"
      by (auto simp: tables_hold_def memory_table.holds_def)
    then have "map_of (st_memories s) i = Some m" "map_of (st_memories s) j = Some m'"
      using h by (auto simp: tables_hold_def memory_table.holds_def keyed_def)
    with held_memory[OF h] m that(3) show ?thesis
      by (metis memory_table.row_key_of memory_table.storable_ids option.inject uuid_text_inj)
  qed
  have stronger: "find (\<lambda>r. P r \<and> Q r) rows = (case find P rows of None \<Rightarrow> None | Some r \<Rightarrow> if Q r then Some r else None)"
    if "\<And>r r'. r \<in> set rows \<Longrightarrow> r' \<in> set rows \<Longrightarrow> P r \<Longrightarrow> P r' \<Longrightarrow> r = r'" for P Q and rows :: "memory_row list"
    using that
  proof (induction rows)
    case (Cons r rows)
    have "find (\<lambda>r. P r \<and> Q r) rows = None" if "P r" "\<not> Q r"
      using Cons.prems[of r] that by (auto simp: find_None_iff)
    with Cons show ?case by auto
  qed simp
  have "find (\<lambda>r. (rmr_id r = uuid_text k \<and> rmr_tenant_id r = uuid_text t) \<and> rmr_state r = Mem_PROMOTED) (db_memories d) =
      (case memory_row_at t k d of None \<Rightarrow> None | Some r \<Rightarrow> if rmr_state r = Mem_PROMOTED then Some r else None)"
    unfolding memory_row_at_def by (rule stronger) (metis unique)
  then show ?thesis
    unfolding memory_row_at_holds[OF h u] conj_assoc
    by (cases "scoped mr_tenant_id (st_memories s) t k") (simp_all add: row_of_memory_def del: scoped_Some_iff)
qed

lemma pin_memory_agrees:
  assumes h: "tables_hold d s" and u: "is_uuid t" "is_uuid k" and f: "fresh_events e d"
  shows "agrees (sql_pin_memory e t k p a d) (pin_memory e t k p a s)"
proof (cases "scoped mr_tenant_id (st_memories s) t k")
  case None
  with h show ?thesis by (auto simp: sql_pin_memory_def pin_memory_def pin_row_at[OF h u] simp del: not_None_eq)
next
  case (Some m)
  show ?thesis
  proof (cases "mr_state m = Mem_PROMOTED")
    case False
    with Some h show ?thesis
      by (simp add: sql_pin_memory_def pin_memory_def pin_row_at[OF h u] agrees_error del: scoped_Some_iff)
  next
    case True
    let ?m = "m\<lparr>mr_pinned := p, mr_updated_at := clk e 0\<rparr>"
    have m: "map_of (st_memories s) k = Some m" using Some by simp
    have row: "(row_of_memory m)\<lparr>rmr_pinned := p, rmr_updated_at := naive_utc (clk e 0)\<rparr> = row_of_memory ?m"
      by (simp add: row_of_memory_def)
    have st: "mr_id ?m = k" "storable_memory ?m"
      using held_memory[OF h m] by (auto simp: storable_memory_def valid_memory_def)
    from Some True fresh_event[OF f] agrees_memory[OF h m st] show ?thesis
      by (simp add: sql_pin_memory_def pin_memory_def pin_row_at[OF h u] row Let_def memory_roundtrip[OF st(2)]
          insert_event_fresh del: scoped_Some_iff split del: if_split)
  qed
qed

lemma json_text_uuid [simp]: "is_uuid u \<Longrightarrow> json_text (uuid_text u) = JId u"
  by (simp add: json_text_def)

lemma replacement_row_agrees:
  assumes h: "tables_hold d s" and u: "is_uuid t" "is_uuid k" "pred_option is_uuid rep"
    and m: "map_of (st_memories s) k = Some m" "mr_state m = Mem_CANDIDATE"
  shows "replacement_row t k p rep d = map_sum id (map_option row_of_memory) (check_replacement s t p rep)"
proof (cases rep)
  case None
  then show ?thesis by (simp add: replacement_row_def check_replacement_def)
next
  case (Some rid)
  have rid: "is_uuid rid" using u(3) Some by simp
  let ?F = "\<lambda>r. rmr_id r = uuid_text rid \<and> rmr_id r \<noteq> uuid_text k \<and> rmr_tenant_id r = uuid_text t \<and> rmr_state r = Mem_PROMOTED"
  have "find ?F (db_memories d) = (case scoped mr_tenant_id (st_memories s) t rid of
       None \<Rightarrow> None | Some m \<Rightarrow> if mr_state m = Mem_PROMOTED then Some (row_of_memory m) else None)"
  proof (cases "rid = k")
    case True
    then have "find ?F (db_memories d) = None" by (auto simp: find_None_iff)
    with True m show ?thesis by (simp add: scoped_def)
  next
    case False
    then have "uuid_text rid \<noteq> uuid_text k" using rid u(2) by (simp add: uuid_text_inj)
    then have F: "?F = (\<lambda>r. rmr_id r = uuid_text rid \<and> rmr_tenant_id r = uuid_text t \<and> rmr_state r = Mem_PROMOTED)"
      by auto
    show ?thesis unfolding F by (rule pin_row_at[OF h u(1) rid])
  qed
  then show ?thesis
    unfolding replacement_row_def check_replacement_def Some
    by (cases "scoped mr_tenant_id (st_memories s) t rid") (simp_all del: scoped_Some_iff)
qed

lemma review_memory_agrees:
  assumes h: "tables_hold d s" and u: "is_uuid t" "is_uuid k" "is_uuid a" "pred_option is_uuid rep"
    and f: "fresh_events e d"
  shows "agrees (sql_review_memory e t k p a rep d) (review_memory e t k p a rep s)"
proof (cases "scoped mr_tenant_id (st_memories s) t k")
  case None
  with h u show ?thesis by (auto simp: sql_review_memory_def review_memory_def memory_row_at_holds simp del: not_None_eq)
next
  case (Some m)
  note at = memory_row_at_holds[OF h u(1,2), unfolded Some]
  have m: "map_of (st_memories s) k = Some m" using Some by simp
  have state: "rmr_state (row_of_memory m) = mr_state m" by (simp add: row_of_memory_def)
  show ?thesis
  proof (cases "mr_state m = Mem_CANDIDATE")
    case False
    with Some h show ?thesis
      by (simp add: sql_review_memory_def review_memory_def at state agrees_error del: scoped_Some_iff)
  next
    case True
    note rep = replacement_row_agrees[OF h u(1,2,4) m True, of p]
    let ?m = "m\<lparr>mr_state := (if p then Mem_PROMOTED else Mem_REJECTED), mr_confirmed := p, mr_contradiction_of := rep,
      mr_reviewed_at := Some (clk e 0), mr_reviewed_by := Some a, mr_updated_at := clk e 0\<rparr>"
    let ?ev = "AuditEvent e 0 t (if p then MEMORY_PROMOTED else MEMORY_REJECTED) Actor_USER (Some a) None
      [(''memory_id'', JId k)]"
    have row: "(row_of_memory m)\<lparr>rmr_state := (if p then Mem_PROMOTED else Mem_REJECTED), rmr_confirmed := p,
        rmr_contradiction_of := map_option uuid_text rep, rmr_reviewed_at := Some (naive_utc (clk e 0)),
        rmr_reviewed_by := Some (uuid_text a), rmr_updated_at := naive_utc (clk e 0)\<rparr> = row_of_memory ?m"
      by (simp add: row_of_memory_def)
    have st: "mr_id ?m = k" "storable_memory ?m"
      using held_memory[OF h m] u(3,4) by (auto simp: storable_memory_def valid_memory_def)
    show ?thesis
    proof (cases "check_replacement s t p rep")
      case (Inl err)
      with Some True h show ?thesis
        by (simp add: sql_review_memory_def review_memory_def at state rep agrees_error del: scoped_Some_iff)
    next
      case (Inr r0)
      show ?thesis
      proof (cases r0)
        case None
        with Inr Some True fresh_event[OF f] agrees_memory[OF h m st] show ?thesis
          by (simp add: sql_review_memory_def review_memory_def at state rep row Let_def memory_roundtrip[OF st(2)]
              insert_event_fresh del: scoped_Some_iff split del: if_split)
      next
        case (Some r)
        then obtain rid where rid: "rep = Some rid" "map_of (st_memories s) rid = Some r" "mr_state r = Mem_PROMOTED"
          using Inr by (auto simp: check_replacement_def split: option.splits if_splits)
        have r: "storable_memory r" "mr_id r = rid" "rid \<noteq> k" using held_memory[OF h rid(2)] rid m True by auto
        let ?r = "r\<lparr>mr_state := Mem_DELETED, mr_deleted_at := Some (clk e 0), mr_updated_at := clk e 0\<rparr>"
        let ?ev2 = "AuditEvent e 1 t MEMORY_CONTRADICTION_RESOLVED Actor_USER (Some a) None
          [(''memory_id'', JId k), (''replaced_memory_id'', JId rid)]"
        have rrow: "(row_of_memory r)\<lparr>rmr_state := Mem_DELETED, rmr_deleted_at := Some (naive_utc (clk e 0)),
            rmr_updated_at := naive_utc (clk e 0)\<rparr> = row_of_memory ?r" "rmr_id (row_of_memory r) = uuid_text rid"
          using r(2) by (simp_all add: row_of_memory_def)
        have rst: "mr_id ?r = rid" "storable_memory ?r" using r by (auto simp: storable_memory_def valid_memory_def)
        let ?s1 = "s\<lparr>st_memories := AList.update k ?m (st_memories s)\<rparr>"
        have "map_of (st_memories ?s1) rid = Some r" using rid(2) r(3) by (simp add: update_conv')
        from tables_hold_event[OF tables_hold_event[OF tables_hold_memory[OF tables_hold_memory[OF h m st] this rst]],
            of ?ev ?ev2]
        have hold: "tables_hold ((set_memory (row_of_memory ?r) (set_memory (row_of_memory ?m) d))
            \<lparr>db_events := db_events d @ [row_of_audit_event ?ev, row_of_audit_event ?ev2]\<rparr>)
          (s\<lparr>st_memories := AList.update rid ?r (AList.update k ?m (st_memories s)),
             st_events := st_events s @ [?ev, ?ev2]\<rparr>)"
          by (simp split del: if_split)
        have "is_uuid rid" using u(4) rid(1) by simp
        with hold Inr Some True \<open>scoped mr_tenant_id (st_memories s) t k = Some m\<close> fresh_event[OF f] r(2) show ?thesis
          by (simp add: sql_review_memory_def review_memory_def at state rep row rrow Let_def memory_roundtrip[OF st(2)]
              insert_event_fresh agrees_def del: scoped_Some_iff split del: if_split)
      qed
    qed
  qed
qed

section \<open>Jobs\<close>

lemma requeue_job_agrees:
  assumes h: "tables_hold d s" and u: "is_uuid t" "is_uuid k" and f: "fresh_events e d"
  shows "agrees (sql_requeue_job e t k a d) (requeue_job e t k a s)"
proof (cases "scoped jb_tenant_id (st_jobs s) t k")
  case None
  with h u show ?thesis by (auto simp: sql_requeue_job_def requeue_job_def job_row_at_holds simp del: not_None_eq)
next
  case (Some j)
  note at = job_row_at_holds[OF h u, unfolded Some]
  have state: "rjb_state (row_of_background_job j) = jb_state j" by (simp add: row_of_background_job_def)
  show ?thesis
  proof (cases "jb_state j = Job_FAILED")
    case False
    with Some h show ?thesis
      by (simp add: sql_requeue_job_def requeue_job_def at state agrees_error del: scoped_Some_iff)
  next
    case True
    let ?j = "j\<lparr>jb_state := Job_PENDING, jb_attempt_count := 0, jb_available_at := clk e 0, jb_lease_id := None,
      jb_lease_expires_at := None, jb_last_error := None, jb_completed_at := None, jb_updated_at := clk e 0\<rparr>"
    have j: "map_of (st_jobs s) k = Some j" using Some by simp
    have row: "(row_of_background_job j)\<lparr>rjb_state := Job_PENDING, rjb_attempt_count := 0,
        rjb_available_at := naive_utc (clk e 0), rjb_lease_id := None, rjb_lease_expires_at := None,
        rjb_last_error := JNull, rjb_completed_at := None, rjb_updated_at := naive_utc (clk e 0)\<rparr> = row_of_background_job ?j"
      by (simp add: row_of_background_job_def optional_dump_def)
    have st: "jb_id ?j = k" "storable_background_job ?j"
      using held_job[OF h j] by (auto simp: storable_background_job_def valid_job_def)
    from Some True fresh_event[OF f] agrees_job[OF h j st] show ?thesis
      by (simp add: sql_requeue_job_def requeue_job_def at state row Let_def background_job_roundtrip[OF st(2)]
          insert_event_fresh del: scoped_Some_iff)
  qed
qed

lemma enqueue_job_agrees:
  assumes h: "tables_hold d s" and j: "storable_background_job j" and new: "jb_id j \<notin> fst ` set (st_jobs s)"
  shows "agrees (sql_enqueue_job j d) (enqueue_job j s)"
proof -
  let ?P = "\<lambda>r. rjb_tenant_id r = uuid_text (jb_tenant_id j) \<and> rjb_kind r = jb_kind j \<and>
    rjb_source_id r = uuid_text (jb_source_id j)"
  let ?Q = "\<lambda>x. jb_tenant_id x = jb_tenant_id j \<and> jb_kind x = jb_kind j \<and> jb_source_id x = jb_source_id j"
  have jobs: "job_table.holds (db_jobs d) (st_jobs s)" using h by (simp add: tables_hold_def)
  have find: "find ?P (db_jobs d) = map_option row_of_background_job (find ?Q (dict_values (st_jobs s)))"
    by (rule job_table.find_image[OF jobs])
      (use j in \<open>auto simp: row_of_background_job_def storable_background_job_def uuid_text_inj\<close>)
  show ?thesis
  proof (cases "find ?Q (dict_values (st_jobs s))")
    case (Some x)
    then have "storable_background_job x"
      using jobs by (auto simp: find_Some_iff job_table.holds_def list_all_iff)
    with Some find h show ?thesis
      by (simp add: sql_enqueue_job_def enqueue_job_def agrees_def background_job_roundtrip)
  next
    case None
    with find have none: "find ?P (db_jobs d) = None" by simp
    have other: "rjb_id r \<noteq> uuid_text (jb_id j)" if "r \<in> set (db_jobs d)" for r
    proof -
      from that jobs obtain k x where x: "(k, x) \<in> set (st_jobs s)" "r = row_of_background_job x"
        by (auto simp: job_table.holds_def)
      then have "map_of (st_jobs s) k = Some x" using jobs by (auto simp: job_table.holds_def keyed_def)
      with held_job[OF h] have "storable_background_job x" "jb_id x = k" by auto
      with x new j show ?thesis
        by (metis fst_conv image_eqI job_table.row_key_of job_table.storable_ids uuid_text_inj)
    qed
    have "insert_job (row_of_background_job j) d = Inr (d\<lparr>db_jobs := db_jobs d @ [row_of_background_job j]\<rparr>)"
      using none other by (auto simp: insert_job_def list_ex_iff find_None_iff row_of_background_job_def insert_row_def)
    moreover have "job_table.holds (db_jobs d @ [row_of_background_job j]) (AList.update (jb_id j) j (st_jobs s))"
      by (rule job_table.append_row[OF jobs j new])
    ultimately show ?thesis
      using None none h by (simp add: sql_enqueue_job_def enqueue_job_def agrees_def background_job_roundtrip[OF j] tables_hold_def)
  qed
qed

lemma active_job_agrees:
  assumes h: "tables_hold d s" and u: "is_uuid t" "is_uuid k" "is_uuid lid"
  shows "sql_active_job d t k lid = map_sum id row_of_background_job (active_job s t k lid)"
proof (cases "scoped jb_tenant_id (st_jobs s) t k")
  case None
  then show ?thesis by (simp add: sql_active_job_def active_job_def job_row_at_holds[OF h u(1,2)])
next
  case (Some j)
  have "storable_background_job j" using held_job[OF h, of k] Some by auto
  then have "rjb_lease_id (row_of_background_job j) = Some (uuid_text lid) \<longleftrightarrow> jb_lease_id j = Some lid"
    using u(3) by (cases "jb_lease_id j") (auto simp: row_of_background_job_def storable_background_job_def uuid_text_inj)
  with Some show ?thesis
    by (simp add: sql_active_job_def active_job_def job_row_at_holds[OF h u(1,2)] del: scoped_Some_iff)
      (simp add: row_of_background_job_def)
qed

lemma tables_hold_attempts [simp]:
  "tables_hold (update_attempt row f d) s = tables_hold d s"
  "tables_hold d (s\<lparr>st_job_attempts := as\<rparr>) = tables_hold d s"
  by (simp_all add: tables_hold_def update_attempt_def)

text \<open>An active job of a well-formed store has an attempt to close.\<close>

lemma close_attempt:
  assumes "store_ok s" and "active_job s t k lid = Inr j"
  shows "map_of (st_jobs s) k = Some j \<and> (\<exists>as. update_last_attempt k f (st_job_attempts s) = Inr as)"
proof -
  from assms(2) have j: "map_of (st_jobs s) k = Some j" "jb_state j = Job_RUNNING"
    by (auto simp: active_job_def split: option.splits if_splits)
  with assms(1) obtain xs where "map_of (st_job_attempts s) k = Some xs" "xs \<noteq> []"
    unfolding store_ok_def attempts_ok_def by blast
  with j show ?thesis by (simp add: update_last_attempt_def)
qed

lemma complete_job_agrees:
  assumes h: "tables_hold d s" and ok: "store_ok s" and u: "is_uuid t" "is_uuid k" "is_uuid lid"
  shows "agrees (sql_complete_job e t k lid d) (complete_job e t k lid s)"
proof (cases "active_job s t k lid")
  case (Inl err)
  with h show ?thesis by (simp add: sql_complete_job_def complete_job_def active_job_agrees[OF h u] agrees_error)
next
  case (Inr j)
  let ?j = "j\<lparr>jb_state := Job_COMPLETED, jb_lease_id := None, jb_lease_expires_at := None,
    jb_completed_at := Some (clk e 0), jb_updated_at := clk e 0\<rparr>"
  obtain as where j: "map_of (st_jobs s) k = Some j"
    and as: "update_last_attempt k (\<lambda>a. a\<lparr>at_finished_at := Some (clk e 0)\<rparr>) (st_job_attempts s) = Inr as"
    using close_attempt[OF ok Inr] by blast
  have row: "(row_of_background_job j)\<lparr>rjb_state := Job_COMPLETED, rjb_lease_id := None, rjb_lease_expires_at := None,
      rjb_completed_at := Some (naive_utc (clk e 0)), rjb_updated_at := naive_utc (clk e 0)\<rparr> = row_of_background_job ?j"
    by (simp add: row_of_background_job_def)
  have st: "jb_id ?j = k" "storable_background_job ?j"
    using held_job[OF h j] by (auto simp: storable_background_job_def valid_job_def)
  from Inr as tables_hold_job[OF h j st] show ?thesis
    by (simp add: sql_complete_job_def complete_job_def active_job_agrees[OF h u] row Let_def agrees_def
        background_job_roundtrip[OF st(2)])
qed

text \<open>
  A retry differs in one field: the in-memory store clears the completion time of a job it retries,
  the tables keep it; a running job has none.
\<close>

lemma retry_job_agrees:
  assumes h: "tables_hold d s" and ok: "store_ok s" and u: "is_uuid t" "is_uuid k" "is_uuid lid"
    and err: "valid_job_error err" and running: "\<And>j. active_job s t k lid = Inr j \<Longrightarrow> jb_completed_at j = None"
  shows "agrees (sql_retry_job e t k lid err x d) (retry_job e t k lid err x s)"
proof (cases "active_job s t k lid")
  case (Inl er)
  with h show ?thesis by (simp add: sql_retry_job_def retry_job_def active_job_agrees[OF h u] agrees_error)
next
  case (Inr j)
  let ?st = "if jb_attempt_count j \<ge> jb_max_attempts j then Job_FAILED else Job_RETRY"
  let ?j = "j\<lparr>jb_state := ?st, jb_lease_id := None, jb_lease_expires_at := None, jb_last_error := Some err,
    jb_available_at := x, jb_completed_at := (if ?st = Job_FAILED then Some (clk e 0) else None),
    jb_updated_at := clk e 0\<rparr>"
  obtain as where j: "map_of (st_jobs s) k = Some j"
    and as: "update_last_attempt k (\<lambda>a. a\<lparr>at_finished_at := Some (clk e 0), at_error := Some err\<rparr>) (st_job_attempts s) = Inr as"
    using close_attempt[OF ok Inr] by blast
  have counts: "rjb_attempt_count (row_of_background_job j) = jb_attempt_count j"
    "rjb_max_attempts (row_of_background_job j) = jb_max_attempts j"
    by (simp_all add: row_of_background_job_def)
  have row: "(row_of_background_job j)\<lparr>rjb_state := ?st, rjb_lease_id := None, rjb_lease_expires_at := None,
      rjb_last_error := job_error_dump err, rjb_available_at := naive_utc x, rjb_updated_at := naive_utc (clk e 0),
      rjb_completed_at := (if ?st = Job_FAILED then Some (naive_utc (clk e 0)) else rjb_completed_at (row_of_background_job j))\<rparr>
      = row_of_background_job ?j"
    using running[OF Inr] by (simp add: row_of_background_job_def optional_dump_def)
  have st: "jb_id ?j = k" "storable_background_job ?j"
    using held_job[OF h j] err by (auto simp: storable_background_job_def valid_job_def)
  from Inr as tables_hold_job[OF h j st] show ?thesis
    by (simp add: sql_retry_job_def retry_job_def active_job_agrees[OF h u] counts row Let_def agrees_def
        background_job_roundtrip[OF st(2)] split del: if_split)
qed

section \<open>Listings\<close>

lemma list_memories_agrees:
  assumes "tables_hold d s" and "is_uuid t"
  shows "sql_list_memories t c d = Inr (list_memories t c s)"
  unfolding sql_list_memories_def list_memories_def
  by (rule memory_table.select_image)
    (use assms in \<open>auto simp: tables_hold_def row_of_memory_def storable_memory_def uuid_text_inj\<close>)

lemma list_jobs_agrees:
  assumes "tables_hold d s" and "is_uuid t"
  shows "sql_list_jobs t d = Inr (list_jobs t s)"
  unfolding sql_list_jobs_def list_jobs_def
  by (rule job_table.select_image)
    (use assms in \<open>auto simp: tables_hold_def row_of_background_job_def storable_background_job_def uuid_text_inj\<close>)

end
