(* ===== verification/SqlProperties.thy ===== *)
theory SqlProperties
  imports SqlAgreement
begin

text \<open>
  The MariaDB store against the in-memory store: where they agree, and two places where the tables'
  constraints and the columns a method leaves alone make it behave differently.
\<close>

section \<open>Agreement\<close>


text \<open>Tables that hold the sample store.\<close>

definition sample_db :: db where
  "sample_db = empty_db\<lparr>
     db_messages := [row_of_conversation_message sample_message],
     db_memories := [row_of_memory sample_memory],
     db_jobs := [row_of_background_job sample_job]\<rparr>"

lemma sample_tables: "tables_hold sample_db sample_store"
  by (simp add: tables_hold_def sample_db_def job_table.holds_def memory_table.holds_def keyed_def samples
      empty_store_def empty_db_def storable_background_job_def storable_memory_def valid_job_def valid_memory_def
      is_uuid_def str_between_def)

lemma sample_fresh_events: "fresh_events sample_env sample_db"
proof -
  have "uuid_text 800 \<noteq> uuid_text 801" by (simp add: uuid_text_inj is_uuid_def)
  then show ?thesis by (simp add: fresh_events_def sample_db_def empty_db_def samples)
qed


section \<open>A requeued job\<close>

text \<open>
  A job the operator requeues after its attempts failed can never be claimed from the tables: the
  requeue starts the count again, so the claim inserts an attempt with a number the job already has,
  the unique constraint rejects it and the transaction rolls back. Since nothing changes, every claim
  at which this job is the first in line fails in the same way, whatever other jobs wait behind it.
\<close>

theorem requeued_job_blocks_claims:
  assumes "job_row_at t k d = Some row" and "rjb_state row = Job_FAILED"
    and "sql_requeue_job e t k a d = (Inr j, d')"
    and "list_ex (\<lambda>r. rat_job_id r = rjb_id row \<and> rat_attempt r = 1) (db_attempts d)"
    and "find (claimable_job_row (naive_utc (clk e' 0))) (sort_key claim_order (db_jobs d')) = Some row'"
    and "rjb_id row' = rjb_id row" and "distinct (map rjb_id (db_jobs d))"
  shows "\<exists>err. sql_claim_job e' lid x d' = (Inl err, d')"
proof -
  let ?now = "naive_utc (clk e 0)"
  let ?q = "row\<lparr>rjb_state := Job_PENDING, rjb_attempt_count := 0, rjb_available_at := ?now, rjb_lease_id := None,
    rjb_lease_expires_at := None, rjb_last_error := JNull, rjb_completed_at := None, rjb_updated_at := ?now\<rparr>"
  from assms(1-3) have d': "db_attempts d' = db_attempts d" "db_jobs d' = db_jobs (set_job ?q d)"
    by (auto simp: sql_requeue_job_def Let_def transact_def ebind_Inr_iff insert_event_def set_job_def ebind_def
        split: sum.splits if_splits)
  have "row' \<in> set (db_jobs d')" using find_sort_key_least[OF assms(5)] by blast
  then have row': "row' = ?q" using assms(6) d'(2) by (auto simp: set_job_def update_rows_def)
  define claimed where "claimed = row'\<lparr>rjb_state := Job_RUNNING, rjb_attempt_count := rjb_attempt_count row' + 1,
    rjb_lease_id := Some (uuid_text lid), rjb_lease_expires_at := Some (naive_utc x),
    rjb_updated_at := naive_utc (clk e' 0)\<rparr>"
  have "insert_attempt \<lparr>rat_id = uuid_text (gen e' 0), rat_tenant_id = rjb_tenant_id row', rat_job_id = rjb_id row',
      rat_attempt = rjb_attempt_count claimed, rat_started_at = naive_utc (clk e' 0), rat_finished_at = None,
      rat_error = JNull\<rparr> (set_job claimed d') = Inl IntegrityError"
    using assms(4) d'(1) by (auto simp: insert_attempt_def insert_row_def list_ex_iff set_job_def claimed_def row')
  then show ?thesis
    unfolding sql_claim_job_def Let_def assms(5) option.case claimed_def [symmetric]
    by (cases "background_job_of_row claimed") (auto simp: claimed_def)
qed

definition failed_row :: background_job_row where
  "failed_row = row_of_background_job (sample_job\<lparr>jb_state := Job_FAILED, jb_attempt_count := 1, jb_max_attempts := 1\<rparr>)"

definition failed_db :: db where
  "failed_db = empty_db\<lparr>db_jobs := [failed_row],
     db_attempts := [row_of_job_attempt \<lparr>at_id = 45, at_tenant_id = 1, at_job_id = 40, at_attempt = 1,
       at_started_at = 8, at_finished_at = None, at_error = None\<rparr>]\<rparr>"

theorem requeued_job_blocks_claims_witness:
  "fst (sql_requeue_job sample_env 1 40 2 failed_db) \<noteq> Inl IntegrityError \<and>
   isl (fst (sql_claim_job (env_at 700) 44 900 (snd (sql_requeue_job sample_env 1 40 2 failed_db))))"
proof -
  let ?q = "sample_job\<lparr>jb_state := Job_PENDING, jb_max_attempts := 1, jb_available_at := 100, jb_updated_at := 100\<rparr>"
  have row: "job_row_at 1 40 failed_db = Some failed_row" "rjb_state failed_row = Job_FAILED"
    "rjb_id failed_row = uuid_text 40"
    by (simp_all add: job_row_at_def failed_db_def failed_row_def row_of_background_job_def samples)
  have q: "failed_row\<lparr>rjb_state := Job_PENDING, rjb_attempt_count := 0, rjb_available_at := naive_utc 100,
      rjb_lease_id := None, rjb_lease_expires_at := None, rjb_last_error := JNull, rjb_completed_at := None,
      rjb_updated_at := naive_utc 100\<rparr> = row_of_background_job ?q"
    by (simp add: failed_row_def row_of_background_job_def samples optional_dump_def)
  have st: "storable_background_job ?q"
    by (simp add: storable_background_job_def valid_job_def samples is_uuid_def)
  have now: "clk sample_env 0 = 100" by (simp add: samples)
  have no_events: "db_events (set_job (row_of_background_job ?q) failed_db) = []"
    by (simp add: failed_db_def empty_db_def)
  have "rjb_id (row_of_background_job ?q) = rjb_id failed_row"
    by (simp add: row row_of_background_job_def samples)
  then have jobs0: "db_jobs (set_job (row_of_background_job ?q) failed_db) = [row_of_background_job ?q]"
    by (simp add: set_job_def update_rows_def failed_db_def)
  obtain d' where requeue: "sql_requeue_job sample_env 1 40 2 failed_db = (Inr ?q, d')"
    and jobs: "db_jobs d' = [row_of_background_job ?q]"
    using jobs0 no_events
    by (simp add: sql_requeue_job_def Let_def row(1,2) now q background_job_roundtrip[OF st] insert_event_fresh
        del: One_nat_def)
  have claim: "find (claimable_job_row (naive_utc (clk (env_at 700) 0))) (sort_key claim_order (db_jobs d')) =
      Some (row_of_background_job ?q)"
    by (simp add: jobs claimable_job_row_def row_of_background_job_def samples)
  have "list_ex (\<lambda>r. rat_job_id r = rjb_id failed_row \<and> rat_attempt r = 1) (db_attempts failed_db)"
    by (simp add: failed_db_def row_of_job_attempt_def row)
  from requeued_job_blocks_claims[OF row(1,2) requeue this claim, of 44 900] requeue row(3) show ?thesis
    by (auto simp: row_of_background_job_def samples failed_db_def)
qed

section \<open>A revived memory\<close>

text \<open>
  Filing a memory whose content a deleted row of the tenant still has revives that row: it takes
  the new record's content and state but keeps its own identifier, its pin and its import batch, and
  the events of the call are stored as they came, although they name the new record, which is never
  stored.
\<close>

theorem upsert_revives_row:
  assumes "find (\<lambda>r. rmr_tenant_id r = uuid_text (mr_tenant_id m) \<and>
                     rmr_normalized_content r = mr_normalized_content m) (db_memories d) = Some row"
    and "rmr_state row = Mem_DELETED" and "sql_upsert_memory m evs d = (Inr r, d')"
  shows "parse_uuid (rmr_id row) = Some (mr_id r) \<and> mr_pinned r = rmr_pinned row \<and>
    mr_content r = mr_content m \<and> mr_state r = mr_state m \<and> mr_deleted_at r = mr_deleted_at m \<and>
    optional_id (rmr_import_batch_id row) = Inr (mr_import_batch_id r) \<and>
    db_events d' = db_events d @ map row_of_audit_event evs \<and>
    map rmr_id (db_memories d') = map rmr_id (db_memories d)"
proof -
  have events: "insert_events evs x = Inr y \<Longrightarrow> db_events y = db_events x @ map row_of_audit_event evs \<and>
      db_memories y = db_memories x" for x y
  proof (induction evs arbitrary: x)
    case (Cons ev evs)
    then obtain z where "insert_event ev x = Inr z" "insert_events evs z = Inr y" by (auto simp: ebind_Inr_iff)
    with Cons.IH[of z] show ?case
      by (auto simp: insert_event_def insert_row_def ebind_Inr_iff split: if_splits)
  qed simp
  let ?row = "revive row (row_of_memory m)"
  from assms have "\<exists>d1. memory_of_row ?row = Inr r \<and> insert_events evs (set_memory ?row d) = Inr d1 \<and> d' = d1"
    by (auto simp: sql_upsert_memory_def upsert_existing_def Let_def transact_def ebind_def
        split: sum.splits if_splits)
  then have r: "memory_of_row ?row = Inr r" and d': "insert_events evs (set_memory ?row d) = Inr d'" by auto
  have "map rmr_id (db_memories (set_memory ?row d)) = map rmr_id (db_memories d)"
    by (auto simp: set_memory_def update_rows_def)
  with events[OF d'] have d: "db_events d' = db_events d @ map row_of_audit_event evs"
    "map rmr_id (db_memories d') = map rmr_id (db_memories d)" by auto
  from r have "parse_id (rmr_id row) = Inr (mr_id r)" "optional_id (rmr_import_batch_id row) = Inr (mr_import_batch_id r)"
    "mr_pinned r = rmr_pinned row" "mr_content r = mr_content m" "mr_state r = mr_state m" "mr_deleted_at r = mr_deleted_at m"
    by (auto simp: memory_of_row_def ebind_Inr_iff revive_def row_of_memory_def)
  with d show ?thesis by (auto simp: parse_id_def split: option.splits)
qed

definition deleted_memory :: memory_record where
  "deleted_memory = sample_memory\<lparr>mr_state := Mem_DELETED, mr_pinned := True, mr_deleted_at := Some 9\<rparr>"

theorem upsert_revives_row_witness:
  "\<exists>r d'. sql_upsert_memory (sample_memory\<lparr>mr_id := 77\<rparr>) [sample_event] (sample_db\<lparr>db_memories := [row_of_memory deleted_memory]\<rparr>) =
       (Inr r, d') \<and> mr_id r = 50 \<and> mr_pinned r"
proof -
  let ?d = "sample_db\<lparr>db_memories := [row_of_memory deleted_memory]\<rparr>"
  let ?m = "sample_memory\<lparr>mr_id := 77\<rparr>"
  have found: "find (\<lambda>r. rmr_tenant_id r = uuid_text (mr_tenant_id ?m) \<and>
      rmr_normalized_content r = mr_normalized_content ?m) (db_memories ?d) = Some (row_of_memory deleted_memory)"
    and state: "rmr_state (row_of_memory deleted_memory) = Mem_DELETED"
    by (simp_all add: row_of_memory_def deleted_memory_def samples)
  have row: "revive (row_of_memory deleted_memory) (row_of_memory ?m) = row_of_memory (sample_memory\<lparr>mr_pinned := True\<rparr>)"
    by (simp add: revive_def row_of_memory_def deleted_memory_def samples)
  have st: "storable_memory (sample_memory\<lparr>mr_pinned := True\<rparr>)"
    by (simp add: storable_memory_def valid_memory_def samples is_uuid_def str_between_def)
  have refs: "memory_references (row_of_memory (sample_memory\<lparr>mr_pinned := True\<rparr>)) ?d"
    by (simp add: memory_references_def row_of_memory_def row_of_conversation_message_def samples sample_db_def)
  obtain d' where run: "sql_upsert_memory ?m [sample_event] ?d = (Inr (sample_memory\<lparr>mr_pinned := True\<rparr>), d')"
    using found state refs st
    by (auto simp: sql_upsert_memory_def upsert_existing_def Let_def row memory_roundtrip insert_event_def
        sample_db_def empty_db_def)
  from upsert_revives_row[OF found state run] run show ?thesis by (auto simp: samples)
qed

end
