(* ===== verification/SqlConversations.thy ===== *)
theory SqlConversations
  imports SqlMemories SqlTable StoreConversations
begin

text \<open>
  Conversations, messages, turns and tool invocations of \<^verbatim>\<open>MariaDBRuntimeStore\<close>. A clock reading of a
  method is the next point of its environment. Messages are kept in the order of their \<^verbatim>\<open>sequence\<close> column, which is
  the order of insertion.
\<close>

section \<open>Statements\<close>

text \<open>A foreign key that may be null.\<close>

definition refers_to :: "('r \<Rightarrow> string) \<Rightarrow> 'r list \<Rightarrow> string option \<Rightarrow> bool" where
  "refers_to key rows v \<longleftrightarrow> pred_option (\<lambda>k. list_ex (\<lambda>r. key r = k) rows) v"

definition insert_turn :: "conversation_turn_row \<Rightarrow> db \<Rightarrow> error + db" where
  "insert_turn row d =
     (if \<not> refers_to rcv_id (db_conversations d) (Some (rtn_conversation_id row)) \<or>
         \<not> refers_to rms_id (db_messages d) (Some (rtn_user_message_id row)) then Inl IntegrityError
      else ebind (insert_row (\<lambda>r. rtn_id r = rtn_id row \<or>
                     (rtn_tenant_id r = rtn_tenant_id row \<and>
                      rtn_client_request_id r = rtn_client_request_id row)) row (db_turns d))
             (\<lambda>rows. Inr (d\<lparr>db_turns := rows\<rparr>)))"

definition insert_invocation :: "tool_invocation_row \<Rightarrow> db \<Rightarrow> error + db" where
  "insert_invocation row d =
     (if \<not> refers_to rtn_id (db_turns d) (Some (riv_turn_id row)) \<or>
         \<not> refers_to rtk_id (db_tasks d) (riv_task_id row) then Inl IntegrityError
      else ebind (insert_row (\<lambda>r. riv_id r = riv_id row \<or>
                     (riv_turn_id r = riv_turn_id row \<and> riv_tool_call_id r = riv_tool_call_id row)) row
                   (db_tool_invocations d))
             (\<lambda>rows. Inr (d\<lparr>db_tool_invocations := rows\<rparr>)))"

definition set_conversation :: "conversation_row \<Rightarrow> db \<Rightarrow> db" where
  "set_conversation row d =
     d\<lparr>db_conversations := update_rows (\<lambda>r. rcv_id r = rcv_id row) (\<lambda>_. row) (db_conversations d)\<rparr>"

definition set_turn :: "conversation_turn_row \<Rightarrow> db \<Rightarrow> db" where
  "set_turn row d = d\<lparr>db_turns := update_rows (\<lambda>r. rtn_id r = rtn_id row) (\<lambda>_. row) (db_turns d)\<rparr>"

definition set_invocation :: "tool_invocation_row \<Rightarrow> db \<Rightarrow> db" where
  "set_invocation row d =
     d\<lparr>db_tool_invocations := update_rows (\<lambda>r. riv_id r = riv_id row) (\<lambda>_. row) (db_tool_invocations d)\<rparr>"

definition conversation_row_at :: "uuid \<Rightarrow> uuid \<Rightarrow> db \<Rightarrow> conversation_row option" where
  "conversation_row_at tenant_id conversation_id d =
     find (\<lambda>r. rcv_id r = uuid_text conversation_id \<and> rcv_tenant_id r = uuid_text tenant_id) (db_conversations d)"

definition turn_row_at :: "uuid \<Rightarrow> uuid \<Rightarrow> db \<Rightarrow> conversation_turn_row option" where
  "turn_row_at tenant_id turn_id d =
     find (\<lambda>r. rtn_id r = uuid_text turn_id \<and> rtn_tenant_id r = uuid_text tenant_id) (db_turns d)"

section \<open>Conversations and messages\<close>

definition sql_create_conversation :: "conversation \<Rightarrow> audit_event \<Rightarrow> db \<Rightarrow> conversation transaction" where
  [sql_ops]: "sql_create_conversation conversation event d =
     transact d (ebind (insert_conversation (row_of_conversation conversation) d) (\<lambda>d1.
       ebind (insert_event event d1) (\<lambda>d'. Inr (conversation, d'))))"

definition sql_get_conversation :: "uuid \<Rightarrow> uuid \<Rightarrow> db \<Rightarrow> error + conversation option" where
  "sql_get_conversation tenant_id conversation_id d =
     (case conversation_row_at tenant_id conversation_id d of
        None \<Rightarrow> Inr None | Some row \<Rightarrow> ebind (conversation_of_row row) (\<lambda>c. Inr (Some c)))"

definition sql_list_conversations :: "uuid \<Rightarrow> db \<Rightarrow> error + conversation list" where
  "sql_list_conversations tenant_id d =
     emap conversation_of_row
       (filter (\<lambda>r. rcv_tenant_id r = uuid_text tenant_id)
          (sort_key (\<lambda>r. - aware_utc (rcv_updated_at r)) (db_conversations d)))"

definition sql_append_message ::
  "conversation_message \<Rightarrow> audit_event list \<Rightarrow> db \<Rightarrow> conversation_message transaction" where
  [sql_ops]: "sql_append_message message events d =
     transact d (case conversation_row_at (ms_tenant_id message) (ms_conversation_id message) d of
        None \<Rightarrow> Inl (LifecycleNotFoundError ''conversation not found'')
      | Some conversation \<Rightarrow>
          ebind (insert_message (row_of_conversation_message message)
                   (set_conversation (conversation\<lparr>rcv_updated_at := naive_utc (ms_created_at message)\<rparr>) d)) (\<lambda>d1.
          ebind (insert_events events d1) (\<lambda>d'. Inr (message, d'))))"

text \<open>The newest messages, in the order they were filed; none for a limit that is not positive.\<close>

definition sql_list_messages :: "uuid \<Rightarrow> uuid \<Rightarrow> int \<Rightarrow> db \<Rightarrow> error + conversation_message list" where
  "sql_list_messages tenant_id conversation_id limit d =
     (case conversation_row_at tenant_id conversation_id d of
        None \<Rightarrow> Inl (LifecycleNotFoundError ''conversation not found'')
      | Some _ \<Rightarrow>
          if limit \<le> 0 then Inr []
          else emap conversation_message_of_row
                 (rev (take (nat limit) (rev (filter (\<lambda>r. rms_tenant_id r = uuid_text tenant_id \<and>
                    rms_conversation_id r = uuid_text conversation_id) (db_messages d))))))"

section \<open>Turns\<close>

definition sql_create_turn ::
  "conversation_message \<Rightarrow> conversation_turn \<Rightarrow> audit_event list \<Rightarrow> background_job \<Rightarrow> db \<Rightarrow>
   conversation_turn transaction" where
  [sql_ops]: "sql_create_turn user_message turn events extraction_job d =
     (let same = (\<lambda>r. rtn_tenant_id r = uuid_text (tn_tenant_id turn) \<and>
                      rtn_client_request_id r = uuid_text (tn_client_request_id turn));
          candidate = row_of_conversation_turn turn
      in transact d (case find same (db_turns d) of
           Some existing \<Rightarrow> ebind (conversation_turn_of_row existing) (\<lambda>t. Inr (t, d))
         | None \<Rightarrow>
             (case conversation_row_at (tn_tenant_id turn) (tn_conversation_id turn) d of
                None \<Rightarrow> Inl (LifecycleNotFoundError ''conversation not found'')
              | Some conversation \<Rightarrow>
                  if ms_tenant_id user_message \<noteq> tn_tenant_id turn \<or>
                     ms_conversation_id user_message \<noteq> tn_conversation_id turn \<or>
                     ms_id user_message \<noteq> tn_user_message_id turn \<or> ms_role user_message \<noteq> Role_USER
                  then Inl (LifecycleNotFoundError ''conversation not found'')
                  else
                    (case ebind (insert_message (row_of_conversation_message user_message) d) (\<lambda>d1.
                          ebind (insert_turn candidate d1) (insert_job (row_of_background_job extraction_job))) of
                       Inl _ \<Rightarrow>
                         (case find same (db_turns d) of
                            None \<Rightarrow> Inl (LifecycleConflictError ''turn creation conflict'')
                          | Some existing \<Rightarrow> ebind (conversation_turn_of_row existing) (\<lambda>t. Inr (t, d)))
                     | Inr d1 \<Rightarrow>
                         ebind (conversation_turn_of_row candidate) (\<lambda>t.
                         ebind (insert_events events (set_conversation
                           (conversation\<lparr>rcv_updated_at := naive_utc (ms_created_at user_message)\<rparr>) d1)) (\<lambda>d'.
                         Inr (t, d')))))))"

definition sql_get_turn :: "uuid \<Rightarrow> uuid \<Rightarrow> db \<Rightarrow> error + conversation_turn option" where
  "sql_get_turn tenant_id turn_id d =
     (case turn_row_at tenant_id turn_id d of
        None \<Rightarrow> Inr None | Some row \<Rightarrow> ebind (conversation_turn_of_row row) (\<lambda>t. Inr (Some t)))"

definition sql_list_conversation_turns :: "uuid \<Rightarrow> uuid \<Rightarrow> db \<Rightarrow> error + conversation_turn list" where
  "sql_list_conversation_turns tenant_id conversation_id d =
     emap conversation_turn_of_row
       (filter (\<lambda>r. rtn_tenant_id r = uuid_text tenant_id \<and> rtn_conversation_id r = uuid_text conversation_id)
          (sort_key (\<lambda>r. aware_utc (rtn_created_at r)) (db_turns d)))"

definition sql_validate_run_lease_expiry :: "datetime \<Rightarrow> datetime \<Rightarrow> error option" where
  "sql_validate_run_lease_expiry now expires_at =
     (if expires_at \<le> now \<or> expires_at > now + minutes 15
      then Some (LifecycleConflictError ''run lease must expire within 15 minutes'') else None)"

definition sql_active_turn ::
  "datetime \<Rightarrow> db \<Rightarrow> uuid \<Rightarrow> uuid \<Rightarrow> uuid \<Rightarrow> error + conversation_turn_row" where
  "sql_active_turn now d tenant_id turn_id run_lease_id =
     (case turn_row_at tenant_id turn_id d of
        None \<Rightarrow> Inl (LifecycleNotFoundError ''turn not found'')
      | Some row \<Rightarrow>
          if rtn_state row \<noteq> Turn_RUNNING \<or> rtn_run_lease_id row \<noteq> Some (uuid_text run_lease_id) \<or>
             \<not> null_or (\<lambda>t. aware_utc (naive_utc now) < aware_utc t) (rtn_run_lease_expires_at row)
          then Inl (LifecycleConflictError ''turn is not actively claimed'')
          else Inr row)"

definition claimable_turn_row :: "pydatetime \<Rightarrow> uuid \<Rightarrow> conversation_turn_row \<Rightarrow> bool" where
  "claimable_turn_row now tenant_id r \<longleftrightarrow>
     rtn_tenant_id r = uuid_text tenant_id \<and>
     (rtn_state r = Turn_PENDING \<or>
      (rtn_state r = Turn_RUNNING \<and> null_or (\<lambda>t. aware_utc t \<le> aware_utc now) (rtn_run_lease_expires_at r)))"

definition run_turn_row :: "uuid \<Rightarrow> datetime \<Rightarrow> pydatetime \<Rightarrow> conversation_turn_row \<Rightarrow> conversation_turn_row" where
  "run_turn_row run_lease_id expires_at now row =
     row\<lparr>rtn_state := Turn_RUNNING, rtn_run_lease_id := Some (uuid_text run_lease_id),
       rtn_run_lease_expires_at := Some (naive_utc expires_at), rtn_updated_at := now\<rparr>"

text \<open>The row is written, its event filed and the turn returned.\<close>

definition commit_turn ::
  "env \<Rightarrow> uuid \<Rightarrow> event_type \<Rightarrow> conversation_turn_row \<Rightarrow> db \<Rightarrow> error + conversation_turn \<times> db" where
  "commit_turn e tenant_id event_type row d =
     ebind (conversation_turn_of_row row) (\<lambda>t.
     ebind (insert_event (AuditEvent e 0 tenant_id event_type Actor_COORDINATOR None None
              [(''turn_id'', json_text (rtn_id row))]) (set_turn row d)) (\<lambda>d'.
     Inr (t, d')))"

definition sql_claim_pending_turn ::
  "env \<Rightarrow> uuid \<Rightarrow> uuid \<Rightarrow> datetime \<Rightarrow> db \<Rightarrow> conversation_turn option transaction" where
  [sql_ops]: "sql_claim_pending_turn e tenant_id run_lease_id run_lease_expires_at d =
     (case sql_validate_run_lease_expiry (clk e 0) run_lease_expires_at of
        Some err \<Rightarrow> (Inl err, d)
      | None \<Rightarrow>
          let now = naive_utc (clk e 1)
          in transact d (case find (claimable_turn_row now tenant_id)
                  (sort_key (\<lambda>r. aware_utc (rtn_created_at r)) (db_turns d)) of
               None \<Rightarrow> Inr (None, d)
             | Some row \<Rightarrow>
                 ebind (commit_turn e tenant_id CONVERSATION_TURN_RUNNING
                          (run_turn_row run_lease_id run_lease_expires_at now row) d)
                   (\<lambda>(t, d'). Inr (Some t, d'))))"

definition sql_claim_turn ::
  "env \<Rightarrow> uuid \<Rightarrow> uuid \<Rightarrow> uuid \<Rightarrow> datetime \<Rightarrow> db \<Rightarrow> conversation_turn option transaction" where
  [sql_ops]: "sql_claim_turn e tenant_id turn_id run_lease_id run_lease_expires_at d =
     (case sql_validate_run_lease_expiry (clk e 0) run_lease_expires_at of
        Some err \<Rightarrow> (Inl err, d)
      | None \<Rightarrow>
          transact d (case find (\<lambda>r. rtn_id r = uuid_text turn_id \<and> rtn_tenant_id r = uuid_text tenant_id \<and>
                             rtn_state r = Turn_PENDING) (db_turns d) of
               None \<Rightarrow> Inr (None, d)
             | Some row \<Rightarrow>
                 ebind (commit_turn e tenant_id CONVERSATION_TURN_RUNNING
                          (run_turn_row run_lease_id run_lease_expires_at (naive_utc (clk e 1)) row) d)
                   (\<lambda>(t, d'). Inr (Some t, d'))))"

definition sql_checkpoint_turn ::
  "env \<Rightarrow> uuid \<Rightarrow> uuid \<Rightarrow> uuid \<Rightarrow> (string, json) dict \<Rightarrow> db \<Rightarrow> conversation_turn transaction" where
  [sql_ops]: "sql_checkpoint_turn e tenant_id turn_id run_lease_id checkpoint d =
     transact d (ebind (sql_active_turn (clk e 0) d tenant_id turn_id run_lease_id) (\<lambda>row.
       let row' = row\<lparr>rtn_checkpoint := JObj checkpoint, rtn_updated_at := naive_utc (clk e 1)\<rparr>
       in ebind (conversation_turn_of_row row') (\<lambda>t. Inr (t, set_turn row' d))))"

definition sql_pause_turn ::
  "env \<Rightarrow> uuid \<Rightarrow> uuid \<Rightarrow> uuid \<Rightarrow> (string, json) dict \<Rightarrow> db \<Rightarrow> conversation_turn transaction" where
  [sql_ops]: "sql_pause_turn e tenant_id turn_id run_lease_id checkpoint d =
     transact d (ebind (sql_active_turn (clk e 0) d tenant_id turn_id run_lease_id) (\<lambda>row.
       commit_turn e tenant_id CONVERSATION_TURN_PAUSED
         (row\<lparr>rtn_state := Turn_PAUSED, rtn_checkpoint := JObj checkpoint, rtn_run_lease_id := None,
            rtn_run_lease_expires_at := None, rtn_updated_at := naive_utc (clk e 1)\<rparr>) d))"

definition sql_complete_turn ::
  "env \<Rightarrow> uuid \<Rightarrow> uuid \<Rightarrow> uuid \<Rightarrow> conversation_message \<Rightarrow> db \<Rightarrow> conversation_turn transaction" where
  [sql_ops]: "sql_complete_turn e tenant_id turn_id run_lease_id assistant_message d =
     transact d (ebind (sql_active_turn (clk e 0) d tenant_id turn_id run_lease_id) (\<lambda>row.
       if ms_tenant_id assistant_message \<noteq> tenant_id
       then Inl (LifecycleConflictError ''assistant message ownership mismatch'')
       else
         ebind (parse_id (rtn_conversation_id row)) (\<lambda>conversation_id.
         if ms_conversation_id assistant_message \<noteq> conversation_id \<or>
            ms_role assistant_message \<noteq> Role_ASSISTANT
         then Inl (LifecycleConflictError ''assistant message ownership mismatch'')
         else (case find (\<lambda>r. rcv_id r = rtn_conversation_id row) (db_conversations d) of
            None \<Rightarrow> Inl (LifecycleNotFoundError ''conversation not found'')
          | Some conversation \<Rightarrow>
              let now = naive_utc (clk e 1)
              in ebind (insert_message (row_of_conversation_message assistant_message)
                    (set_conversation
                      (conversation\<lparr>rcv_updated_at := naive_utc (ms_created_at assistant_message)\<rparr>) d)) (\<lambda>d1.
                 commit_turn e tenant_id CONVERSATION_TURN_COMPLETED
                   (row\<lparr>rtn_state := Turn_COMPLETED, rtn_run_lease_id := None,
                      rtn_run_lease_expires_at := None, rtn_updated_at := now,
                      rtn_completed_at := Some now\<rparr>) d1)))))"

section \<open>Tool invocations\<close>

definition sql_create_tool_invocation :: "env \<Rightarrow> tool_invocation \<Rightarrow> db \<Rightarrow> tool_invocation transaction" where
  [sql_ops]: "sql_create_tool_invocation e invocation d =
     transact d (case find (\<lambda>r. riv_turn_id r = uuid_text (iv_turn_id invocation) \<and>
                              riv_tool_call_id r = iv_tool_call_id invocation) (db_tool_invocations d) of
        Some existing \<Rightarrow> ebind (tool_invocation_of_row existing) (\<lambda>i. Inr (i, d))
      | None \<Rightarrow>
          (case turn_row_at (iv_tenant_id invocation) (iv_turn_id invocation) d of
             None \<Rightarrow> Inl (LifecycleNotFoundError ''turn not found'')
           | Some _ \<Rightarrow>
               let row = row_of_tool_invocation invocation
               in ebind (tool_invocation_of_row row) (\<lambda>i.
                  ebind (insert_invocation row d) (\<lambda>d1.
                  ebind (insert_event (AuditEvent e 0 (iv_tenant_id invocation) TOOL_INVOCATION_REQUESTED
                           Actor_COORDINATOR None None [(''invocation_id'', JId (iv_id invocation))]) d1) (\<lambda>d'.
                  Inr (i, d'))))))"

definition sql_get_tool_invocation ::
  "uuid \<Rightarrow> uuid \<Rightarrow> string \<Rightarrow> db \<Rightarrow> error + tool_invocation option" where
  "sql_get_tool_invocation tenant_id turn_id tool_call_id d =
     (case find (\<lambda>r. riv_tenant_id r = uuid_text tenant_id \<and> riv_turn_id r = uuid_text turn_id \<and>
                     riv_tool_call_id r = tool_call_id) (db_tool_invocations d) of
        None \<Rightarrow> Inr None | Some row \<Rightarrow> ebind (tool_invocation_of_row row) (\<lambda>i. Inr (Some i)))"

definition terminal_state :: "tool_invocation_state \<Rightarrow> bool" where
  "terminal_state st \<longleftrightarrow> st \<in> {Inv_COMPLETED, Inv_FAILED, Inv_DENIED}"

definition sql_finish_tool_invocation ::
  "env \<Rightarrow> uuid \<Rightarrow> uuid \<Rightarrow> tool_invocation_state \<Rightarrow> db \<Rightarrow> tool_invocation transaction" where
  [sql_ops]: "sql_finish_tool_invocation e tenant_id invocation_id state d =
     transact d (case find (\<lambda>r. riv_id r = uuid_text invocation_id \<and> riv_tenant_id r = uuid_text tenant_id)
                       (db_tool_invocations d) of
        None \<Rightarrow> Inl (LifecycleNotFoundError ''tool invocation not found'')
      | Some row \<Rightarrow>
          if terminal_state (riv_state row)
          then if riv_state row = state then ebind (tool_invocation_of_row row) (\<lambda>i. Inr (i, d))
               else Inl (LifecycleConflictError ''tool invocation is already finished'')
          else
            let now = naive_utc (clk e 0);
                row' = row\<lparr>riv_state := state, riv_updated_at := now, riv_completed_at := Some now\<rparr>
            in ebind (tool_invocation_of_row row') (\<lambda>i.
               ebind (insert_event (AuditEvent e 0 tenant_id
                        (if state = Inv_COMPLETED then TOOL_INVOCATION_COMPLETED else TOOL_INVOCATION_FAILED)
                        Actor_COORDINATOR None None [(''invocation_id'', JId invocation_id)])
                        (set_invocation row' d)) (\<lambda>d'.
               Inr (i, d'))))"

definition sql_complete_tool_invocation :: "env \<Rightarrow> uuid \<Rightarrow> uuid \<Rightarrow> db \<Rightarrow> tool_invocation transaction" where
  [sql_ops]: "sql_complete_tool_invocation e tenant_id invocation_id d =
     sql_finish_tool_invocation e tenant_id invocation_id Inv_COMPLETED d"

definition sql_fail_tool_invocation :: "env \<Rightarrow> uuid \<Rightarrow> uuid \<Rightarrow> db \<Rightarrow> tool_invocation transaction" where
  [sql_ops]: "sql_fail_tool_invocation e tenant_id invocation_id d =
     sql_finish_tool_invocation e tenant_id invocation_id Inv_FAILED d"

end
