(* ===== verification/SqlTasks.thy ===== *)
theory SqlTasks
  imports SqlConversations StoreTasks
begin

text \<open>
  Remote agents, tasks and leases of \<^verbatim>\<open>MariaDBRuntimeStore\<close>: registration and trust, leasing, the lease
  check every agent call passes, and the end of a task with its approval gate.
\<close>

section \<open>Statements\<close>

definition insert_agent :: "remote_agent_row \<Rightarrow> db \<Rightarrow> error + db" where
  "insert_agent row d =
     ebind (insert_row (\<lambda>r. rra_id r = rra_id row) row (db_remote_agents d))
       (\<lambda>rows. Inr (d\<lparr>db_remote_agents := rows\<rparr>))"

definition insert_task :: "task_row \<Rightarrow> db \<Rightarrow> error + db" where
  "insert_task row d =
     (if \<not> refers_to rra_id (db_remote_agents d) (rtk_target_ara_id row) \<or>
         \<not> refers_to rra_id (db_remote_agents d) (rtk_completed_by_ara_id row) then Inl IntegrityError
      else ebind (insert_row (\<lambda>r. rtk_id r = rtk_id row) row (db_tasks d))
             (\<lambda>rows. Inr (d\<lparr>db_tasks := rows\<rparr>)))"

definition insert_lease :: "lease_row \<Rightarrow> db \<Rightarrow> error + db" where
  "insert_lease row d =
     (if \<not> refers_to rtk_id (db_tasks d) (Some (rls_task_id row)) \<or>
         \<not> refers_to rra_id (db_remote_agents d) (Some (rls_ara_id row)) then Inl IntegrityError
      else ebind (insert_row (\<lambda>r. rls_id r = rls_id row \<or> rls_task_id r = rls_task_id row) row (db_leases d))
             (\<lambda>rows. Inr (d\<lparr>db_leases := rows\<rparr>)))"

definition insert_artifact :: "artifact_row \<Rightarrow> db \<Rightarrow> error + db" where
  "insert_artifact row d =
     (if \<not> refers_to rtk_id (db_tasks d) (Some (raf_task_id row)) then Inl IntegrityError
      else ebind (insert_row (\<lambda>r. raf_id r = raf_id row) row (db_artifacts d))
             (\<lambda>rows. Inr (d\<lparr>db_artifacts := rows\<rparr>)))"

definition set_agent :: "remote_agent_row \<Rightarrow> db \<Rightarrow> db" where
  "set_agent row d =
     d\<lparr>db_remote_agents := update_rows (\<lambda>r. rra_id r = rra_id row) (\<lambda>_. row) (db_remote_agents d)\<rparr>"

definition set_task :: "task_row \<Rightarrow> db \<Rightarrow> db" where
  "set_task row d = d\<lparr>db_tasks := update_rows (\<lambda>r. rtk_id r = rtk_id row) (\<lambda>_. row) (db_tasks d)\<rparr>"

definition agent_row_at :: "uuid \<Rightarrow> uuid \<Rightarrow> db \<Rightarrow> remote_agent_row option" where
  "agent_row_at tenant_id ara_id d =
     find (\<lambda>r. rra_id r = uuid_text ara_id \<and> rra_tenant_id r = uuid_text tenant_id) (db_remote_agents d)"

definition task_row_at :: "uuid \<Rightarrow> uuid \<Rightarrow> db \<Rightarrow> task_row option" where
  "task_row_at tenant_id task_id d =
     find (\<lambda>r. rtk_id r = uuid_text task_id \<and> rtk_tenant_id r = uuid_text tenant_id) (db_tasks d)"

section \<open>Remote agents\<close>

text \<open>\<^verbatim>\<open>merge\<close> overwrites the row of the identifier, whoever owns it.\<close>

definition sql_register_ara :: "remote_agent \<Rightarrow> audit_event \<Rightarrow> db \<Rightarrow> remote_agent transaction" where
  [sql_ops]: "sql_register_ara remote_agent event d =
     (let existing = find (\<lambda>r. rra_id r = uuid_text (ra_id remote_agent)) (db_remote_agents d);
          registered = (case existing of
             None \<Rightarrow> remote_agent
           | Some row \<Rightarrow>
               if rra_tenant_id row = uuid_text (ra_tenant_id remote_agent)
               then remote_agent\<lparr>ra_status := rra_status row, ra_trust_level := rra_trust_level row\<rparr>
               else remote_agent);
          row' = row_of_remote_agent registered
      in transact d
           (ebind (case existing of None \<Rightarrow> insert_agent row' d | Some _ \<Rightarrow> Inr (set_agent row' d)) (\<lambda>d1.
            ebind (insert_event event d1) (\<lambda>d'. Inr (registered, d')))))"

definition sql_list_remote_agents :: "env \<Rightarrow> uuid \<Rightarrow> db \<Rightarrow> error + remote_agent list" where
  "sql_list_remote_agents e tenant_id d =
     emap (\<lambda>row. ebind (remote_agent_of_row row) (\<lambda>a.
        Inr (if rra_status row = Ara_ACTIVE \<and> clk e 0 - aware_utc (rra_last_seen_at row) > minutes 2
             then a\<lparr>ra_status := Ara_OFFLINE\<rparr> else a)))
       (filter (\<lambda>r. rra_tenant_id r = uuid_text tenant_id) (db_remote_agents d))"

definition sql_set_remote_agent_trust ::
  "env \<Rightarrow> uuid \<Rightarrow> uuid \<Rightarrow> int \<Rightarrow> uuid \<Rightarrow> db \<Rightarrow> remote_agent transaction" where
  [sql_ops]: "sql_set_remote_agent_trust e tenant_id ara_id trust_level actor_id d =
     transact d (case agent_row_at tenant_id ara_id d of
        None \<Rightarrow> Inl (LifecycleNotFoundError ''ARA not found'')
      | Some row \<Rightarrow>
          if rra_status row = Ara_REVOKED
          then Inl (LifecycleConflictError ''revoked ARA cannot regain trust'')
          else
            let row' = row\<lparr>rra_trust_level := trust_level\<rparr>
            in ebind (remote_agent_of_row row') (\<lambda>a.
               ebind (insert_event (AuditEvent e 0 tenant_id ARA_TRUST_UPDATED Actor_USER (Some actor_id) None
                        [(''ara_id'', JId ara_id), (''trust_level'', JInt trust_level)]) (set_agent row' d)) (\<lambda>d'.
               Inr (a, d'))))"

text \<open>The leases of the agent expire with its trust.\<close>

definition sql_revoke_remote_agent :: "env \<Rightarrow> uuid \<Rightarrow> uuid \<Rightarrow> uuid \<Rightarrow> db \<Rightarrow> remote_agent transaction" where
  [sql_ops]: "sql_revoke_remote_agent e tenant_id ara_id actor_id d =
     transact d (case agent_row_at tenant_id ara_id d of
        None \<Rightarrow> Inl (LifecycleNotFoundError ''ARA not found'')
      | Some row \<Rightarrow>
          let row' = row\<lparr>rra_status := Ara_REVOKED, rra_trust_level := 0\<rparr>;
              d1 = (set_agent row' d)\<lparr>db_leases :=
                update_rows (\<lambda>l. rls_tenant_id l = uuid_text tenant_id \<and> rls_ara_id l = uuid_text ara_id)
                  (\<lambda>l. l\<lparr>rls_expires_at := naive_utc (clk e 0)\<rparr>) (db_leases d)\<rparr>
          in ebind (remote_agent_of_row row') (\<lambda>a.
             ebind (insert_event (AuditEvent e 0 tenant_id ARA_REVOKED Actor_USER (Some actor_id) None
                      [(''ara_id'', JId ara_id)]) d1) (\<lambda>d'.
             Inr (a, d'))))"

section \<open>Tasks\<close>

definition sql_add_task :: "task \<Rightarrow> audit_event \<Rightarrow> db \<Rightarrow> task transaction" where
  [sql_ops]: "sql_add_task task event d =
     transact d (ebind (insert_task (row_of_task task) d) (\<lambda>d1.
       ebind (insert_event event d1) (\<lambda>d'. Inr (task, d'))))"

definition sql_get_task :: "uuid \<Rightarrow> uuid \<Rightarrow> db \<Rightarrow> error + task option" where
  "sql_get_task tenant_id task_id d =
     (case task_row_at tenant_id task_id d of
        None \<Rightarrow> Inr None | Some row \<Rightarrow> ebind (task_of_row row) (\<lambda>t. Inr (Some t)))"

definition sql_list_tasks :: "uuid \<Rightarrow> db \<Rightarrow> error + task list" where
  "sql_list_tasks tenant_id d =
     emap task_of_row
       (filter (\<lambda>r. rtk_tenant_id r = uuid_text tenant_id)
          (sort_key (\<lambda>r. aware_utc (rtk_created_at r)) (db_tasks d)))"

definition sql_request_task_cancellation :: "env \<Rightarrow> uuid \<Rightarrow> uuid \<Rightarrow> uuid \<Rightarrow> db \<Rightarrow> task transaction" where
  [sql_ops]: "sql_request_task_cancellation e tenant_id task_id actor_id d =
     transact d (case task_row_at tenant_id task_id d of
        None \<Rightarrow> Inl (LifecycleNotFoundError ''task not found'')
      | Some row \<Rightarrow>
          if rtk_state row \<noteq> Task_LEASED then Inl (LifecycleConflictError ''task is not leased'')
          else
            let row' = row\<lparr>rtk_state := Task_CANCELLING\<rparr>
            in ebind (task_of_row row') (\<lambda>t.
               ebind (insert_event (AuditEvent e 0 tenant_id TASK_CANCELLED Actor_USER (Some actor_id)
                        (Some task_id) [(''requested'', JBool True)]) (set_task row' d)) (\<lambda>d'.
               Inr (t, d'))))"

section \<open>Leases\<close>

text \<open>Whether every required capability is one of the agent's; validation stops at the first that is not.\<close>

fun all_capable :: "capability list \<Rightarrow> json list \<Rightarrow> error + bool" where
  "all_capable caps [] = Inr True"
| "all_capable caps (item # items) =
     ebind (capability_of_json item) (\<lambda>c. if c \<in> set caps then all_capable caps items else Inr False)"

definition json_items :: "json \<Rightarrow> error + json list" where
  "json_items j = (case j of JList js \<Rightarrow> Inr js | _ \<Rightarrow> Inl (TypeError ''not iterable''))"

fun first_leasable :: "string \<Rightarrow> capability list \<Rightarrow> task_row list \<Rightarrow> error + task_row option" where
  "first_leasable ara_id caps [] = Inr None"
| "first_leasable ara_id caps (row # rows) =
     ebind (json_items (rtk_required_capabilities row)) (\<lambda>items.
     ebind (all_capable caps items) (\<lambda>capable.
     if capable \<and> (rtk_target_ara_id row = None \<or> rtk_target_ara_id row = Some ara_id) then Inr (Some row)
     else first_leasable ara_id caps rows))"

definition open_task_row :: "pydatetime \<Rightarrow> uuid \<Rightarrow> db \<Rightarrow> task_row \<Rightarrow> bool" where
  "open_task_row now tenant_id d t \<longleftrightarrow>
     rtk_tenant_id t = uuid_text tenant_id \<and>
     (rtk_state t = Task_PENDING \<or>
      list_ex (\<lambda>l. rls_task_id l = rtk_id t \<and> aware_utc (rls_expires_at l) \<le> aware_utc now) (db_leases d))"

text \<open>The lease row of the task is added, or takes the new lease's identifier, agent and times.\<close>

definition put_lease :: "lease \<Rightarrow> db \<Rightarrow> error + db" where
  "put_lease lease d =
     (let row = row_of_lease lease
      in case find (\<lambda>l. rls_task_id l = rls_task_id row) (db_leases d) of
           None \<Rightarrow> insert_lease row d
         | Some existing \<Rightarrow>
             if list_ex (\<lambda>l. rls_id l = rls_id row \<and> rls_id l \<noteq> rls_id existing) (db_leases d) then Inl IntegrityError
             else Inr (d\<lparr>db_leases := update_rows (\<lambda>l. rls_id l = rls_id existing)
                    (\<lambda>l. l\<lparr>rls_id := rls_id row, rls_ara_id := rls_ara_id row,
                          rls_acquired_at := rls_acquired_at row, rls_expires_at := rls_expires_at row\<rparr>)
                    (db_leases d)\<rparr>))"

text \<open>What a poll does with the task it found.\<close>

definition lease_found ::
  "env \<Rightarrow> uuid \<Rightarrow> uuid \<Rightarrow> datetime \<Rightarrow> db \<Rightarrow> task_row option \<Rightarrow> error + (task \<times> lease) option \<times> db" where
  "lease_found e tenant_id ara_id expires_at d found =
     (case found of
        None \<Rightarrow> Inr (None, d)
      | Some row \<Rightarrow>
          ebind (parse_id (rtk_id row)) (\<lambda>task_id.
          ebind (mk_lease (gen e 0) tenant_id task_id ara_id (clk e 3) (Aware expires_at)) (\<lambda>lease.
          let row' = row\<lparr>rtk_state := Task_LEASED\<rparr>
          in ebind (task_of_row row') (\<lambda>task.
             ebind (put_lease lease (set_task row' d)) (\<lambda>d2.
             ebind (insert_event (AuditEvent e 0 tenant_id TASK_LEASED Actor_ARA (Some ara_id)
                      (Some task_id) [(''lease_id'', JId (ls_id lease)), (''expires_at'', JTime expires_at)]) d2) (\<lambda>d'.
             Inr (Some (task, lease), d')))))))"

definition sql_lease_task ::
  "env \<Rightarrow> uuid \<Rightarrow> uuid \<Rightarrow> datetime \<Rightarrow> db \<Rightarrow> (task \<times> lease) option transaction" where
  [sql_ops]: "sql_lease_task e tenant_id ara_id expires_at d =
     (case find (\<lambda>r. rra_id r = uuid_text ara_id) (db_remote_agents d) of
        None \<Rightarrow> (Inr None, d)
      | Some agent \<Rightarrow>
          if rra_tenant_id agent \<noteq> uuid_text tenant_id then (Inr None, d)
          else
            let d1 = set_agent (agent\<lparr>rra_last_seen_at := naive_utc (clk e 0)\<rparr>) d
            in if rra_status agent \<noteq> Ara_ACTIVE \<or> rra_trust_level agent \<le> 0 then (Inr None, d1)
            else if clk e 1 - clk e 0 > minutes 2 then (Inr None, d1)
            else transact d
              (ebind (capabilities_of_json (rra_capabilities agent)) (\<lambda>caps.
               ebind (first_leasable (uuid_text ara_id) caps
                        (filter (open_task_row (naive_utc (clk e 2)) tenant_id d1)
                          (sort_key (\<lambda>r. aware_utc (rtk_created_at r)) (db_tasks d1))))
                 (lease_found e tenant_id ara_id expires_at d1))))"

text \<open>The join of a task, its lease and the lease's agent.\<close>

definition sql_active_lease ::
  "datetime \<Rightarrow> db \<Rightarrow> uuid \<Rightarrow> uuid \<Rightarrow> uuid \<Rightarrow> uuid \<Rightarrow> error + task_row \<times> lease_row" where
  "sql_active_lease now d tenant_id ara_id task_id lease_id =
     (case (task_row_at tenant_id task_id d,
            find (\<lambda>l. rls_id l = uuid_text lease_id \<and> rls_tenant_id l = uuid_text tenant_id \<and>
                      rls_task_id l = uuid_text task_id \<and> rls_ara_id l = uuid_text ara_id) (db_leases d),
            find (\<lambda>a. rra_id a = uuid_text ara_id \<and> rra_tenant_id a = uuid_text tenant_id \<and>
                      rra_status a = Ara_ACTIVE \<and> rra_trust_level a > 0) (db_remote_agents d)) of
        (Some task, Some lease, Some _) \<Rightarrow>
          if rtk_state task \<notin> {Task_LEASED, Task_CANCELLING}
          then Inl (LifecycleConflictError ''task is not leased'')
          else if aware_utc (rls_expires_at lease) \<le> aware_utc (naive_utc now)
          then Inl (LifecycleConflictError ''lease has expired'')
          else Inr (task, lease)
      | _ \<Rightarrow> Inl (LifecycleNotFoundError ''task or lease not found''))"

definition sql_heartbeat ::
  "env \<Rightarrow> uuid \<Rightarrow> uuid \<Rightarrow> uuid option \<Rightarrow> uuid option \<Rightarrow> db \<Rightarrow> task option transaction" where
  [sql_ops]: "sql_heartbeat e tenant_id ara_id task_id lease_id d =
     transact d (case agent_row_at tenant_id ara_id d of
        None \<Rightarrow> Inl (LifecycleNotFoundError ''ARA not found'')
      | Some agent \<Rightarrow>
          let d1 = set_agent (agent\<lparr>rra_last_seen_at := naive_utc (clk e 0)\<rparr>) d
          in ebind (case (task_id, lease_id) of
                (None, None) \<Rightarrow> Inr None
              | (Some tid, Some lid) \<Rightarrow>
                  ebind (sql_active_lease (clk e 1) d1 tenant_id ara_id tid lid) (\<lambda>(row, _).
                  if rtk_state row \<notin> {Task_LEASED, Task_CANCELLING}
                  then Inl (LifecycleConflictError ''task is not active'')
                  else ebind (task_of_row row) (\<lambda>t. Inr (Some t)))
              | _ \<Rightarrow> Inl (LifecycleConflictError ''task and lease are required together'')) (\<lambda>task.
             ebind (insert_event (AuditEvent e 0 tenant_id ARA_HEARTBEAT Actor_ARA (Some ara_id) task_id
                      [(''lease_id'', case lease_id of None \<Rightarrow> JNull | Some l \<Rightarrow> JId l)]) d1) (\<lambda>d'.
             Inr (task, d'))))"

definition sql_record_progress ::
  "env \<Rightarrow> uuid \<Rightarrow> uuid \<Rightarrow> uuid \<Rightarrow> uuid \<Rightarrow> string \<Rightarrow> int option \<Rightarrow> db \<Rightarrow> unit transaction" where
  [sql_ops]: "sql_record_progress e tenant_id ara_id task_id lease_id message progress_percent d =
     transact d (ebind (sql_active_lease (clk e 0) d tenant_id ara_id task_id lease_id) (\<lambda>_.
       ebind (insert_event (AuditEvent e 0 tenant_id ARA_PROGRESS Actor_ARA (Some ara_id) (Some task_id)
                [(''message'', JStr message),
                 (''progress_percent'', case progress_percent of None \<Rightarrow> JNull | Some p \<Rightarrow> JInt p)]) d) (\<lambda>d'.
       Inr ((), d'))))"

definition sql_renew_lease ::
  "env \<Rightarrow> uuid \<Rightarrow> uuid \<Rightarrow> uuid \<Rightarrow> uuid \<Rightarrow> datetime \<Rightarrow> db \<Rightarrow> lease transaction" where
  [sql_ops]: "sql_renew_lease e tenant_id ara_id task_id lease_id expires_at d =
     transact d (ebind (sql_active_lease (clk e 0) d tenant_id ara_id task_id lease_id) (\<lambda>(_, row).
       let row' = row\<lparr>rls_expires_at := naive_utc expires_at\<rparr>
       in ebind (lease_of_row row') (\<lambda>l.
          ebind (insert_event (AuditEvent e 0 tenant_id LEASE_RENEWED Actor_ARA (Some ara_id) (Some task_id)
                   [(''lease_id'', JId lease_id), (''expires_at'', JTime expires_at)])
                   (d\<lparr>db_leases := update_rows (\<lambda>r. rls_id r = rls_id row) (\<lambda>_. row') (db_leases d)\<rparr>)) (\<lambda>d'.
          Inr (l, d')))))"

section \<open>The end of a task\<close>

text \<open>The granted approvals that name the task.\<close>

definition sql_approval_gate :: "uuid \<Rightarrow> uuid \<Rightarrow> task_row \<Rightarrow> db \<Rightarrow> error + unit" where
  "sql_approval_gate tenant_id task_id row d =
     ebind (emap approval_of_row (filter (\<lambda>a. rap_tenant_id a = uuid_text tenant_id \<and>
              rap_task_id a = Some (uuid_text task_id) \<and> rap_state a = Appr_GRANTED) (db_approvals d))) (\<lambda>granted.
     ebind (capabilities_of_json (rtk_required_capabilities row)) (\<lambda>required.
     case approval_gate required granted required of
       None \<Rightarrow> Inr () | Some why \<Rightarrow> Inl (LifecycleConflictError why)))"

text \<open>The invocation behind the task ends with it, and the turn resumes when all its siblings are done.\<close>

definition sql_close_invocation ::
  "pydatetime \<Rightarrow> uuid \<Rightarrow> task_state \<Rightarrow> task_row \<Rightarrow> db \<Rightarrow> error + db" where
  "sql_close_invocation now tenant_id state row d =
     (case find (\<lambda>i. riv_task_id i = Some (rtk_id row) \<and> riv_tenant_id i = uuid_text tenant_id)
             (db_tool_invocations d) of
        None \<Rightarrow> Inr d
      | Some invocation \<Rightarrow>
          (case find (\<lambda>t. rtn_id t = riv_turn_id invocation) (db_turns d) of
             None \<Rightarrow> Inl (LifecycleNotFoundError ''turn not found'')
           | Some turn \<Rightarrow>
               let d1 = set_invocation (invocation\<lparr>
                     riv_state := (if state = Task_COMPLETED then Inv_COMPLETED else Inv_FAILED),
                     riv_updated_at := now, riv_completed_at := Some now\<rparr>) d;
                   siblings = filter (\<lambda>i. riv_turn_id i = riv_turn_id invocation \<and> riv_target i = Target_ARA)
                     (db_tool_invocations d1)
               in if siblings \<noteq> [] \<and> list_all (\<lambda>i. terminal_state (riv_state i)) siblings
                  then Inr (set_turn (turn\<lparr>rtn_state := Turn_PENDING, rtn_updated_at := now\<rparr>) d1)
                  else Inr d1))"

fun insert_artifacts :: "artifact list \<Rightarrow> db \<Rightarrow> error + db" where
  "insert_artifacts [] d = Inr d"
| "insert_artifacts (a # as) d = ebind (insert_artifact (row_of_artifact a) d) (insert_artifacts as)"

definition sql_finish_task ::
  "env \<Rightarrow> uuid \<Rightarrow> uuid \<Rightarrow> uuid \<Rightarrow> uuid \<Rightarrow> task_state \<Rightarrow> string \<Rightarrow> artifact list \<Rightarrow> db \<Rightarrow> task transaction" where
  [sql_ops]: "sql_finish_task e tenant_id ara_id task_id lease_id state detail artifacts d =
     transact d
       (if state \<notin> {Task_COMPLETED, Task_FAILED, Task_CANCELLED}
        then Inl (LifecycleConflictError ''invalid terminal task state'')
        else
          ebind (sql_active_lease (clk e 0) d tenant_id ara_id task_id lease_id) (\<lambda>(row, _).
          ebind (if state = Task_COMPLETED then sql_approval_gate tenant_id task_id row d else Inr ()) (\<lambda>_.
          if \<not> list_all (\<lambda>a. af_tenant_id a = tenant_id \<and> af_task_id a = task_id) artifacts
          then Inl (LifecycleConflictError ''artifact ownership mismatch'')
          else
            let now = naive_utc (clk e 1);
                row' = row\<lparr>rtk_state := state, rtk_result := Some detail, rtk_completed_at := Some now,
                  rtk_completed_by_ara_id := Some (uuid_text ara_id)\<rparr>
            in ebind (sql_close_invocation now tenant_id state row (set_task row' d)) (\<lambda>d1.
               ebind (task_of_row row') (\<lambda>task.
               ebind (insert_artifacts artifacts d1) (\<lambda>d2.
               ebind (insert_events
                 (AuditEvent e 0 tenant_id (task_event_type state) Actor_ARA (Some ara_id) (Some task_id)
                    [(''detail'', JStr detail)] # artifact_events e tenant_id ara_id task_id artifacts) d2) (\<lambda>d'.
               Inr (task, d'))))))))"

end
