(* ===== verification/SqlApprovals.thy ===== *)
theory SqlApprovals
  imports SqlTasks StoreApprovals "HOL-Library.List_Lexorder" "HOL-Library.Char_ord"
begin

text \<open>
  Delegation, approvals and artifacts of \<^verbatim>\<open>MariaDBRuntimeStore\<close>. Identifier columns are ordered as texts.
\<close>

section \<open>Delegation\<close>

definition eligible_rows :: "pydatetime \<Rightarrow> uuid \<Rightarrow> db \<Rightarrow> remote_agent_row list" where
  "eligible_rows now tenant_id d =
     sort_key (\<lambda>a. (- rra_trust_level a, rra_id a))
       (filter (\<lambda>a. rra_tenant_id a = uuid_text tenant_id \<and> rra_status a = Ara_ACTIVE \<and>
                    rra_trust_level a > 0 \<and> aware_utc now - minutes 2 \<le> aware_utc (rra_last_seen_at a))
         (db_remote_agents d))"

text \<open>\<^verbatim>\<open>item in candidate.capabilities\<close> compares the dumped capabilities.\<close>

definition json_member :: "json \<Rightarrow> json \<Rightarrow> bool" where
  "json_member item j = (case j of JList js \<Rightarrow> item \<in> set js | _ \<Rightarrow> False)"

fun sql_assign :: "remote_agent_row list \<Rightarrow> string set \<Rightarrow> task list \<Rightarrow> error + task list" where
  "sql_assign agents taken [] = Inr []"
| "sql_assign agents taken (task # tasks) =
     (case find (\<lambda>a. rra_id a \<notin> taken \<and>
              list_all (\<lambda>c. json_member (capability_dump c) (rra_capabilities a)) (tk_required_capabilities task))
            agents of
        None \<Rightarrow> Inl (LifecycleConflictError ''no eligible trusted ARA for planned task'')
      | Some agent \<Rightarrow>
          ebind (parse_id (rra_id agent)) (\<lambda>ara_id.
          ebind (sql_assign agents (insert (rra_id agent) taken) tasks) (\<lambda>assigned.
          Inr (task\<lparr>tk_target_ara_id := Some ara_id\<rparr> # assigned))))"

fun insert_tasks :: "task list \<Rightarrow> db \<Rightarrow> error + db" where
  "insert_tasks [] d = Inr d"
| "insert_tasks (t # ts) d = ebind (insert_task (row_of_task t) d) (insert_tasks ts)"

fun insert_invocations :: "tool_invocation list \<Rightarrow> db \<Rightarrow> error + db" where
  "insert_invocations [] d = Inr d"
| "insert_invocations (i # is) d = ebind (insert_invocation (row_of_tool_invocation i) d) (insert_invocations is)"

fun delegation_events :: "env \<Rightarrow> uuid \<Rightarrow> uuid \<Rightarrow> nat \<Rightarrow> (task \<times> tool_invocation) list \<Rightarrow> audit_event list" where
  "delegation_events e tenant_id turn_id n [] =
     [AuditEvent e n tenant_id CONVERSATION_TURN_PAUSED Actor_COORDINATOR None None [(''turn_id'', JId turn_id)]]"
| "delegation_events e tenant_id turn_id n ((task, invocation) # rest) =
     AuditEvent e n tenant_id TASK_CREATED Actor_COORDINATOR None (Some (tk_id task))
       [(''turn_id'', JId turn_id),
        (''target_ara_id'', case tk_target_ara_id task of None \<Rightarrow> JStr ''None'' | Some a \<Rightarrow> JId a)] #
     AuditEvent e (n + 1) tenant_id TOOL_INVOCATION_REQUESTED Actor_COORDINATOR None None
       [(''invocation_id'', JId (iv_id invocation))] #
     delegation_events e tenant_id turn_id (n + 2) rest"

text \<open>The rows are flushed at the end, the tasks before the invocations that refer to them.\<close>

definition sql_create_delegated_tasks ::
  "env \<Rightarrow> uuid \<Rightarrow> uuid \<Rightarrow> uuid \<Rightarrow> task list \<Rightarrow> tool_invocation list \<Rightarrow> (string, json) dict \<Rightarrow> db \<Rightarrow>
   task list transaction" where
  [sql_ops]: "sql_create_delegated_tasks e tenant_id turn_id run_lease_id tasks invocations checkpoint d =
     transact d
       (if length tasks \<noteq> length invocations \<or> tasks = []
        then Inl (LifecycleConflictError ''delegation tasks and invocations must match'')
        else
          ebind (sql_active_turn (clk e 0) d tenant_id turn_id run_lease_id) (\<lambda>turn.
          let now = naive_utc (clk e 1);
              busy = set (map rls_ara_id (filter (\<lambda>l. aware_utc now < aware_utc (rls_expires_at l)) (db_leases d)))
          in ebind (sql_assign (eligible_rows now tenant_id d) busy tasks) (\<lambda>assigned.
             if \<not> list_all (\<lambda>(task, i). iv_task_id i = Some (tk_id task) \<and> iv_turn_id i = turn_id)
                    (zip assigned invocations)
             then Inl (LifecycleConflictError ''delegation invocation ownership mismatch'')
             else
               ebind (insert_tasks assigned d) (\<lambda>d1.
               ebind (insert_invocations invocations d1) (\<lambda>d2.
               ebind (insert_events (delegation_events e tenant_id turn_id 0 (zip assigned invocations))
                 (set_turn (turn\<lparr>rtn_state := Turn_PAUSED, rtn_checkpoint := JObj checkpoint,
                    rtn_run_lease_id := None, rtn_run_lease_expires_at := None, rtn_updated_at := now\<rparr>) d2)) (\<lambda>d'.
               Inr (assigned, d')))))))"

section \<open>Approvals\<close>

definition insert_approval :: "approval_row \<Rightarrow> db \<Rightarrow> error + db" where
  "insert_approval row d =
     (if \<not> refers_to rtk_id (db_tasks d) (rap_task_id row) \<or>
         \<not> refers_to riv_id (db_tool_invocations d) (rap_tool_invocation_id row) \<or>
         \<not> refers_to rra_id (db_remote_agents d) (rap_requested_by row) then Inl IntegrityError
      else ebind (insert_row (\<lambda>r. rap_id r = rap_id row) row (db_approvals d))
             (\<lambda>rows. Inr (d\<lparr>db_approvals := rows\<rparr>)))"

definition sql_create_coordinator_approval :: "env \<Rightarrow> approval \<Rightarrow> db \<Rightarrow> approval transaction" where
  [sql_ops]: "sql_create_coordinator_approval e approval d =
     transact d (case (ap_requestor_type approval, ap_tool_invocation_id approval) of
        (Actor_COORDINATOR, Some invocation_id) \<Rightarrow>
          (case find (\<lambda>i. riv_id i = uuid_text invocation_id \<and>
                          riv_tenant_id i = uuid_text (ap_tenant_id approval)) (db_tool_invocations d) of
             None \<Rightarrow> Inl (LifecycleNotFoundError ''tool invocation not found'')
           | Some invocation \<Rightarrow>
               if riv_state invocation \<noteq> Inv_PENDING
               then Inl (LifecycleConflictError ''tool invocation cannot await approval'')
               else (case find (\<lambda>t. rtn_id t = riv_turn_id invocation) (db_turns d) of
                       None \<Rightarrow> Inl (LifecycleNotFoundError ''turn not found'')
                     | Some turn \<Rightarrow>
                         let now = naive_utc (clk e 0);
                             d1 = set_turn (turn\<lparr>rtn_state := Turn_PAUSED, rtn_run_lease_id := None,
                                    rtn_run_lease_expires_at := None, rtn_updated_at := now\<rparr>)
                                  (set_invocation (invocation\<lparr>riv_state := Inv_AWAITING_APPROVAL,
                                     riv_updated_at := now\<rparr>) d)
                         in ebind (insert_approval (row_of_approval approval) d1) (\<lambda>d2.
                            ebind (insert_event (AuditEvent e 0 (ap_tenant_id approval) APPROVAL_REQUESTED
                                     Actor_COORDINATOR None None [(''approval_id'', JId (ap_id approval))]) d2) (\<lambda>d'.
                            Inr (approval, d')))))
      | _ \<Rightarrow> Inl (LifecycleConflictError ''coordinator approval must reference a tool invocation''))"

definition sql_request_approval ::
  "env \<Rightarrow> uuid \<Rightarrow> uuid \<Rightarrow> uuid \<Rightarrow> uuid \<Rightarrow> approval \<Rightarrow> db \<Rightarrow> approval transaction" where
  [sql_ops]: "sql_request_approval e tenant_id ara_id task_id lease_id approval d =
     transact d (ebind (sql_active_lease (clk e 0) d tenant_id ara_id task_id lease_id) (\<lambda>(row, _).
       if ap_tenant_id approval \<noteq> tenant_id \<or> ap_task_id approval \<noteq> Some task_id \<or>
          ap_requested_by approval \<noteq> Some ara_id \<or> ap_requestor_type approval \<noteq> Actor_ARA
       then Inl (LifecycleConflictError ''approval ownership mismatch'')
       else
         ebind (capabilities_of_json (rtk_required_capabilities row)) (\<lambda>required.
         if ap_capability approval \<notin> set required
         then Inl (LifecycleConflictError ''capability is not part of the task'')
         else
           ebind (insert_approval (row_of_approval approval) d) (\<lambda>d1.
           ebind (insert_event (AuditEvent e 0 tenant_id APPROVAL_REQUESTED Actor_ARA (Some ara_id) (Some task_id)
                    [(''approval_id'', JId (ap_id approval)), (''reason'', JStr (ap_reason approval))]) d1) (\<lambda>d'.
           Inr (approval, d'))))))"

text \<open>The decision on a tool invocation: its row, its turn and the event of a denial.\<close>

definition sql_decide_invocation ::
  "env \<Rightarrow> uuid \<Rightarrow> approval_state \<Rightarrow> uuid \<Rightarrow> string \<Rightarrow> db \<Rightarrow> error + db" where
  "sql_decide_invocation e tenant_id state actor_id invocation_id d =
     (case find (\<lambda>i. riv_id i = invocation_id) (db_tool_invocations d) of
        None \<Rightarrow> Inl (LifecycleNotFoundError ''tool invocation not found'')
      | Some invocation \<Rightarrow>
          (case find (\<lambda>t. rtn_id t = riv_turn_id invocation) (db_turns d) of
             None \<Rightarrow> Inl (LifecycleNotFoundError ''turn not found'')
           | Some turn \<Rightarrow>
               let now = naive_utc (clk e 1);
                   d1 = set_turn (turn\<lparr>rtn_state := Turn_PENDING, rtn_updated_at := now\<rparr>)
                     (set_invocation (invocation\<lparr>
                        riv_state := (if state = Appr_GRANTED then Inv_PENDING else Inv_DENIED),
                        riv_updated_at := now,
                        riv_completed_at := (if state = Appr_DENIED then Some now else None)\<rparr>) d)
               in if state = Appr_DENIED
                  then insert_event (AuditEvent e 0 tenant_id TOOL_INVOCATION_DENIED Actor_USER (Some actor_id)
                         None [(''invocation_id'', json_text (riv_id invocation))]) d1
                  else Inr d1))"

definition sql_decide_approval ::
  "env \<Rightarrow> uuid \<Rightarrow> uuid \<Rightarrow> approval_state \<Rightarrow> uuid \<Rightarrow> db \<Rightarrow> approval transaction" where
  [sql_ops]: "sql_decide_approval e tenant_id approval_id state actor_id d =
     transact d
       (if state \<notin> {Appr_GRANTED, Appr_DENIED} then Inl (LifecycleConflictError ''invalid approval decision'')
        else case find (\<lambda>r. rap_id r = uuid_text approval_id \<and> rap_tenant_id r = uuid_text tenant_id)
                    (db_approvals d) of
          None \<Rightarrow> Inl (LifecycleNotFoundError ''approval not found'')
        | Some row \<Rightarrow>
            if rap_state row = state then ebind (approval_of_row row) (\<lambda>a. Inr (a, d))
            else if rap_state row \<noteq> Appr_PENDING
            then Inl (LifecycleConflictError ''approval is already decided'')
            else
              let row' = row\<lparr>rap_state := state, rap_decided_at := Some (naive_utc (clk e 0)),
                    rap_decided_by := Some (uuid_text actor_id)\<rparr>;
                  d1 = d\<lparr>db_approvals := update_rows (\<lambda>r. rap_id r = rap_id row) (\<lambda>_. row') (db_approvals d)\<rparr>
              in ebind (case rap_tool_invocation_id row of
                          None \<Rightarrow> Inr d1
                        | Some invocation_id \<Rightarrow>
                            sql_decide_invocation e tenant_id state actor_id invocation_id d1) (\<lambda>d2.
                 ebind (optional_id (rap_task_id row)) (\<lambda>task_id.
                 ebind (approval_of_row row') (\<lambda>a.
                 ebind (insert_event (AuditEvent e 1 tenant_id
                          (if state = Appr_GRANTED then APPROVAL_GRANTED else APPROVAL_DENIED)
                          Actor_USER (Some actor_id) task_id [(''approval_id'', JId approval_id)]) d2) (\<lambda>d'.
                 Inr (a, d'))))))"

definition sql_list_approvals :: "uuid \<Rightarrow> db \<Rightarrow> error + approval list" where
  "sql_list_approvals tenant_id d =
     emap approval_of_row
       (filter (\<lambda>r. rap_tenant_id r = uuid_text tenant_id)
          (sort_key (\<lambda>r. aware_utc (rap_created_at r)) (db_approvals d)))"

section \<open>Artifacts\<close>

definition artifact_row_at :: "uuid \<Rightarrow> uuid \<Rightarrow> db \<Rightarrow> artifact_row option" where
  "artifact_row_at tenant_id artifact_id d =
     find (\<lambda>r. raf_id r = uuid_text artifact_id \<and> raf_tenant_id r = uuid_text tenant_id) (db_artifacts d)"

definition sql_get_artifact :: "uuid \<Rightarrow> uuid \<Rightarrow> db \<Rightarrow> error + artifact option" where
  "sql_get_artifact tenant_id artifact_id d =
     (case artifact_row_at tenant_id artifact_id d of
        None \<Rightarrow> Inr None | Some row \<Rightarrow> ebind (artifact_of_row row) (\<lambda>a. Inr (Some a)))"

definition sql_list_artifacts :: "uuid \<Rightarrow> db \<Rightarrow> error + artifact list" where
  "sql_list_artifacts tenant_id d =
     emap artifact_of_row
       (filter (\<lambda>r. raf_tenant_id r = uuid_text tenant_id \<and> raf_deleted_at r = None) (db_artifacts d))"

definition sql_delete_artifact :: "env \<Rightarrow> uuid \<Rightarrow> uuid \<Rightarrow> uuid \<Rightarrow> datetime \<Rightarrow> db \<Rightarrow> artifact transaction" where
  [sql_ops]: "sql_delete_artifact e tenant_id artifact_id actor_id retention_until d =
     transact d (case artifact_row_at tenant_id artifact_id d of
        None \<Rightarrow> Inl (LifecycleNotFoundError ''artifact not found'')
      | Some row \<Rightarrow>
          if raf_deleted_at row \<noteq> None then Inl (LifecycleNotFoundError ''artifact not found'')
          else
            let row' = row\<lparr>raf_deleted_at := Some (naive_utc (clk e 0)),
                  raf_retention_until := Some (naive_utc retention_until)\<rparr>
            in ebind (parse_id (raf_task_id row)) (\<lambda>task_id.
               ebind (artifact_of_row row') (\<lambda>a.
               ebind (insert_event (AuditEvent e 0 tenant_id ARTIFACT_DELETED Actor_USER (Some actor_id)
                        (Some task_id) [(''artifact_id'', JId artifact_id),
                          (''retention_until'', JTime retention_until)])
                        (d\<lparr>db_artifacts := update_rows (\<lambda>r. raf_id r = raf_id row) (\<lambda>_. row') (db_artifacts d)\<rparr>)) (\<lambda>d'.
               Inr (a, d')))))"

end
