(* ===== verification/SqlSteps.thy ===== *)
theory SqlSteps
  imports SqlApprovals RowSpec
begin

text \<open>
  Runs of transactions on the tables: the declared keys stay unique and no row is ever dropped.
\<close>

section \<open>Keys and history\<close>

definition unique_keys :: "('r \<Rightarrow> 'k) \<Rightarrow> ('r \<Rightarrow> 'u) \<Rightarrow> 'r list \<Rightarrow> bool" where
  "unique_keys key ukey rows \<longleftrightarrow> distinct (map key rows) \<and> distinct (map ukey rows)"

text \<open>The primary keys and the unique constraints of the tables.\<close>

definition keys_unique :: "db \<Rightarrow> bool" where
  "keys_unique d \<longleftrightarrow>
     unique_keys rra_id rra_id (db_remote_agents d) \<and>
     unique_keys rcv_id rcv_id (db_conversations d) \<and>
     unique_keys rms_id rms_id (db_messages d) \<and>
     unique_keys rtn_id (\<lambda>r. (rtn_tenant_id r, rtn_client_request_id r)) (db_turns d) \<and>
     unique_keys riv_id (\<lambda>r. (riv_turn_id r, riv_tool_call_id r)) (db_tool_invocations d) \<and>
     unique_keys rmr_id (\<lambda>r. (rmr_tenant_id r, rmr_normalized_content r)) (db_memories d) \<and>
     unique_keys rmb_id (\<lambda>r. (rmb_tenant_id r, rmb_source_system r, rmb_source_database_fingerprint r)) (db_migration_batches d) \<and>
     unique_keys rpp_id (\<lambda>r. (rpp_tenant_id r, rpp_version r)) (db_personas d) \<and>
     unique_keys rac_tenant_id rac_profile_id (db_active_personas d) \<and>
     unique_keys rla_id rla_id (db_adaptations d) \<and>
     unique_keys rtk_id rtk_id (db_tasks d) \<and>
     unique_keys rls_id rls_task_id (db_leases d) \<and>
     unique_keys rev_id rev_id (db_events d) \<and>
     unique_keys rjb_id (\<lambda>r. (rjb_tenant_id r, rjb_kind r, rjb_source_id r)) (db_jobs d) \<and>
     unique_keys rat_id (\<lambda>r. (rat_job_id r, rat_attempt r)) (db_attempts d) \<and>
     unique_keys rap_id rap_id (db_approvals d) \<and>
     unique_keys raf_id raf_id (db_artifacts d)"

text \<open>
  Messages, persona profiles and events are only added; the rows of the other tables may change but
  keep their identifiers and their order, a lease the task it is for.
\<close>

definition grows :: "db \<Rightarrow> db \<Rightarrow> bool" where
  "grows d d' \<longleftrightarrow>
     prefix (map rra_id (db_remote_agents d)) (map rra_id (db_remote_agents d')) \<and>
     prefix (map rcv_id (db_conversations d)) (map rcv_id (db_conversations d')) \<and>
     prefix (db_messages d) (db_messages d') \<and>
     prefix (map rtn_id (db_turns d)) (map rtn_id (db_turns d')) \<and>
     prefix (map riv_id (db_tool_invocations d)) (map riv_id (db_tool_invocations d')) \<and>
     prefix (map rmr_id (db_memories d)) (map rmr_id (db_memories d')) \<and>
     prefix (map rmb_id (db_migration_batches d)) (map rmb_id (db_migration_batches d')) \<and>
     prefix (db_personas d) (db_personas d') \<and>
     prefix (map rac_tenant_id (db_active_personas d)) (map rac_tenant_id (db_active_personas d')) \<and>
     prefix (map rla_id (db_adaptations d)) (map rla_id (db_adaptations d')) \<and>
     prefix (map rtk_id (db_tasks d)) (map rtk_id (db_tasks d')) \<and>
     prefix (map rls_task_id (db_leases d)) (map rls_task_id (db_leases d')) \<and>
     prefix (db_events d) (db_events d') \<and>
     prefix (map rjb_id (db_jobs d)) (map rjb_id (db_jobs d')) \<and>
     prefix (map rat_id (db_attempts d)) (map rat_id (db_attempts d')) \<and>
     prefix (map rap_id (db_approvals d)) (map rap_id (db_approvals d')) \<and>
     prefix (map raf_id (db_artifacts d)) (map raf_id (db_artifacts d'))"

lemma grows_refl: "grows d d"
  by (simp add: grows_def)

lemma grows_trans: "grows a b \<Longrightarrow> grows b c \<Longrightarrow> grows a c"
  by (auto simp: grows_def intro: prefix_order.trans)

text \<open>Both at once, table by table: what a transaction begun on \<open>d0\<close> may have reached.\<close>

definition table_grown :: "('r \<Rightarrow> 'k) \<Rightarrow> ('r \<Rightarrow> 'u) \<Rightarrow> ('r \<Rightarrow> 'v) \<Rightarrow> 'r list \<Rightarrow> 'r list \<Rightarrow> bool" where
  "table_grown key ukey view rows0 rows \<longleftrightarrow>
     unique_keys key ukey rows \<and> prefix (map view rows0) (map view rows)"

definition grown :: "db \<Rightarrow> db \<Rightarrow> bool" where
  "grown d0 d \<longleftrightarrow>
     table_grown rra_id rra_id rra_id (db_remote_agents d0) (db_remote_agents d) \<and>
     table_grown rcv_id rcv_id rcv_id (db_conversations d0) (db_conversations d) \<and>
     table_grown rms_id rms_id id (db_messages d0) (db_messages d) \<and>
     table_grown rtn_id (\<lambda>r. (rtn_tenant_id r, rtn_client_request_id r)) rtn_id (db_turns d0) (db_turns d) \<and>
     table_grown riv_id (\<lambda>r. (riv_turn_id r, riv_tool_call_id r)) riv_id (db_tool_invocations d0) (db_tool_invocations d) \<and>
     table_grown rmr_id (\<lambda>r. (rmr_tenant_id r, rmr_normalized_content r)) rmr_id (db_memories d0) (db_memories d) \<and>
     table_grown rmb_id (\<lambda>r. (rmb_tenant_id r, rmb_source_system r, rmb_source_database_fingerprint r)) rmb_id (db_migration_batches d0) (db_migration_batches d) \<and>
     table_grown rpp_id (\<lambda>r. (rpp_tenant_id r, rpp_version r)) id (db_personas d0) (db_personas d) \<and>
     table_grown rac_tenant_id rac_profile_id rac_tenant_id (db_active_personas d0) (db_active_personas d) \<and>
     table_grown rla_id rla_id rla_id (db_adaptations d0) (db_adaptations d) \<and>
     table_grown rtk_id rtk_id rtk_id (db_tasks d0) (db_tasks d) \<and>
     table_grown rls_id rls_task_id rls_task_id (db_leases d0) (db_leases d) \<and>
     table_grown rev_id rev_id id (db_events d0) (db_events d) \<and>
     table_grown rjb_id (\<lambda>r. (rjb_tenant_id r, rjb_kind r, rjb_source_id r)) rjb_id (db_jobs d0) (db_jobs d) \<and>
     table_grown rat_id (\<lambda>r. (rat_job_id r, rat_attempt r)) rat_id (db_attempts d0) (db_attempts d) \<and>
     table_grown rap_id rap_id rap_id (db_approvals d0) (db_approvals d) \<and>
     table_grown raf_id raf_id raf_id (db_artifacts d0) (db_artifacts d)"

lemma grown_iff: "grown d0 d \<longleftrightarrow> keys_unique d \<and> grows d0 d"
  unfolding grown_def keys_unique_def grows_def table_grown_def list.map_id by blast

lemma grown_refl: "keys_unique d \<Longrightarrow> grown d d"
  by (simp add: grown_iff grows_refl)

section \<open>Statements\<close>

lemma table_grown_append:
  assumes "table_grown key ukey view rows0 rows" and "\<not> list_ex (\<lambda>r. key r = key row \<or> ukey r = ukey row) rows"
  shows "table_grown key ukey view rows0 (rows @ [row])"
  using assms by (auto simp: table_grown_def unique_keys_def list_ex_iff prefix_prefix)

lemma map_update_rows:
  "(\<And>r. r \<in> set rows \<Longrightarrow> P r \<Longrightarrow> g (f r) = g r) \<Longrightarrow> map g (update_rows P f rows) = map g rows"
  by (auto simp: update_rows_def)

lemma table_grown_update:
  assumes "table_grown key ukey view rows0 rows"
    and "\<And>r. r \<in> set rows \<Longrightarrow> P r \<Longrightarrow> key (f r) = key r \<and> ukey (f r) = ukey r \<and> view (f r) = view r"
  shows "table_grown key ukey view rows0 (update_rows P f rows)"
  using assms by (simp add: table_grown_def unique_keys_def map_update_rows)

lemma table_grown_set:
  assumes "table_grown key ukey view rows0 rows" and "row \<in> set rows"
    and "key row' = key row" and "ukey row' = ukey row" and "view row' = view row"
  shows "table_grown key ukey view rows0 (update_rows (\<lambda>r. key r = key row) (\<lambda>_. row') rows)"
proof (rule table_grown_update[OF assms(1)])
  fix r assume r: "r \<in> set rows" "key r = key row"
  with assms have "r = row" by (auto simp: table_grown_def unique_keys_def distinct_map dest: inj_onD)
  with assms show "key row' = key r \<and> ukey row' = ukey r \<and> view row' = view r" by simp
qed

lemma insert_row_iff: "insert_row clash row rows = Inr rows' \<longleftrightarrow> \<not> list_ex clash rows \<and> rows' = rows @ [row]"
  by (auto simp: insert_row_def)

named_theorems grown_inserts \<open>insertions keep the tables grown\<close>
named_theorems grown_sets \<open>rows written back keep the tables grown\<close>

lemma insert_agent_grown [grown_inserts]: "insert_agent row d = Inr d' \<Longrightarrow> grown d0 d \<Longrightarrow> grown d0 d'"
  unfolding insert_agent_def grown_def
  by (auto simp: ebind_Inr_iff insert_row_iff split: if_splits intro!: table_grown_append)

lemma insert_conversation_grown [grown_inserts]: "insert_conversation row d = Inr d' \<Longrightarrow> grown d0 d \<Longrightarrow> grown d0 d'"
  unfolding insert_conversation_def grown_def
  by (auto simp: ebind_Inr_iff insert_row_iff split: if_splits intro!: table_grown_append)

lemma insert_message_grown [grown_inserts]: "insert_message row d = Inr d' \<Longrightarrow> grown d0 d \<Longrightarrow> grown d0 d'"
  unfolding insert_message_def grown_def
  by (auto simp: ebind_Inr_iff insert_row_iff split: if_splits intro!: table_grown_append)

lemma insert_turn_grown [grown_inserts]: "insert_turn row d = Inr d' \<Longrightarrow> grown d0 d \<Longrightarrow> grown d0 d'"
  unfolding insert_turn_def grown_def
  by (auto simp: ebind_Inr_iff insert_row_iff split: if_splits intro!: table_grown_append)

lemma insert_invocation_grown [grown_inserts]: "insert_invocation row d = Inr d' \<Longrightarrow> grown d0 d \<Longrightarrow> grown d0 d'"
  unfolding insert_invocation_def grown_def
  by (auto simp: ebind_Inr_iff insert_row_iff split: if_splits intro!: table_grown_append)

lemma insert_memory_grown [grown_inserts]: "insert_memory row d = Inr d' \<Longrightarrow> grown d0 d \<Longrightarrow> grown d0 d'"
  unfolding insert_memory_def grown_def
  by (auto simp: ebind_Inr_iff insert_row_iff split: if_splits intro!: table_grown_append)

lemma insert_batch_grown [grown_inserts]: "insert_batch row d = Inr d' \<Longrightarrow> grown d0 d \<Longrightarrow> grown d0 d'"
  unfolding insert_batch_def grown_def
  by (auto simp: ebind_Inr_iff insert_row_iff split: if_splits intro!: table_grown_append)

lemma insert_persona_grown [grown_inserts]: "insert_persona row d = Inr d' \<Longrightarrow> grown d0 d \<Longrightarrow> grown d0 d'"
  unfolding insert_persona_def grown_def
  by (auto simp: ebind_Inr_iff insert_row_iff split: if_splits intro!: table_grown_append)

lemma insert_task_grown [grown_inserts]: "insert_task row d = Inr d' \<Longrightarrow> grown d0 d \<Longrightarrow> grown d0 d'"
  unfolding insert_task_def grown_def
  by (auto simp: ebind_Inr_iff insert_row_iff split: if_splits intro!: table_grown_append)

lemma insert_lease_grown [grown_inserts]: "insert_lease row d = Inr d' \<Longrightarrow> grown d0 d \<Longrightarrow> grown d0 d'"
  unfolding insert_lease_def grown_def
  by (auto simp: ebind_Inr_iff insert_row_iff split: if_splits intro!: table_grown_append)

lemma insert_job_grown [grown_inserts]: "insert_job row d = Inr d' \<Longrightarrow> grown d0 d \<Longrightarrow> grown d0 d'"
  unfolding insert_job_def grown_def
  by (auto simp: ebind_Inr_iff insert_row_iff split: if_splits intro!: table_grown_append)

lemma insert_attempt_grown [grown_inserts]: "insert_attempt row d = Inr d' \<Longrightarrow> grown d0 d \<Longrightarrow> grown d0 d'"
  unfolding insert_attempt_def grown_def
  by (auto simp: ebind_Inr_iff insert_row_iff split: if_splits intro!: table_grown_append)

lemma insert_approval_grown [grown_inserts]: "insert_approval row d = Inr d' \<Longrightarrow> grown d0 d \<Longrightarrow> grown d0 d'"
  unfolding insert_approval_def grown_def
  by (auto simp: ebind_Inr_iff insert_row_iff split: if_splits intro!: table_grown_append)

lemma insert_artifact_grown [grown_inserts]: "insert_artifact row d = Inr d' \<Longrightarrow> grown d0 d \<Longrightarrow> grown d0 d'"
  unfolding insert_artifact_def grown_def
  by (auto simp: ebind_Inr_iff insert_row_iff split: if_splits intro!: table_grown_append)

lemma insert_event_grown [grown_inserts]: "insert_event ev d = Inr d' \<Longrightarrow> grown d0 d \<Longrightarrow> grown d0 d'"
  unfolding insert_event_def grown_def
  by (auto simp: ebind_Inr_iff insert_row_iff row_of_audit_event_def intro!: table_grown_append)

text \<open>A row that is written back keeps its keys.\<close>

lemma set_agent_grown [grown_sets]:
  "row \<in> set (db_remote_agents d) \<Longrightarrow> rra_id row' = rra_id row \<Longrightarrow>
     grown d0 d \<Longrightarrow> grown d0 (set_agent row' d)"
  by (simp add: set_agent_def grown_def table_grown_set)

lemma set_conversation_grown [grown_sets]:
  "row \<in> set (db_conversations d) \<Longrightarrow> rcv_id row' = rcv_id row \<Longrightarrow>
     grown d0 d \<Longrightarrow> grown d0 (set_conversation row' d)"
  by (simp add: set_conversation_def grown_def table_grown_set)

lemma set_turn_grown [grown_sets]:
  "row \<in> set (db_turns d) \<Longrightarrow> rtn_id row' = rtn_id row \<Longrightarrow> rtn_tenant_id row' = rtn_tenant_id row \<Longrightarrow> rtn_client_request_id row' = rtn_client_request_id row \<Longrightarrow>
     grown d0 d \<Longrightarrow> grown d0 (set_turn row' d)"
  by (simp add: set_turn_def grown_def table_grown_set)

lemma set_invocation_grown [grown_sets]:
  "row \<in> set (db_tool_invocations d) \<Longrightarrow> riv_id row' = riv_id row \<Longrightarrow> riv_turn_id row' = riv_turn_id row \<Longrightarrow> riv_tool_call_id row' = riv_tool_call_id row \<Longrightarrow>
     grown d0 d \<Longrightarrow> grown d0 (set_invocation row' d)"
  by (simp add: set_invocation_def grown_def table_grown_set)

lemma set_memory_grown [grown_sets]:
  "row \<in> set (db_memories d) \<Longrightarrow> rmr_id row' = rmr_id row \<Longrightarrow> rmr_tenant_id row' = rmr_tenant_id row \<Longrightarrow> rmr_normalized_content row' = rmr_normalized_content row \<Longrightarrow>
     grown d0 d \<Longrightarrow> grown d0 (set_memory row' d)"
  by (simp add: set_memory_def grown_def table_grown_set)

lemma set_batch_grown [grown_sets]:
  "row \<in> set (db_migration_batches d) \<Longrightarrow> rmb_id row' = rmb_id row \<Longrightarrow> rmb_tenant_id row' = rmb_tenant_id row \<Longrightarrow> rmb_source_system row' = rmb_source_system row \<Longrightarrow> rmb_source_database_fingerprint row' = rmb_source_database_fingerprint row \<Longrightarrow>
     grown d0 d \<Longrightarrow> grown d0 (set_batch row' d)"
  by (simp add: set_batch_def grown_def table_grown_set)

lemma set_task_grown [grown_sets]:
  "row \<in> set (db_tasks d) \<Longrightarrow> rtk_id row' = rtk_id row \<Longrightarrow>
     grown d0 d \<Longrightarrow> grown d0 (set_task row' d)"
  by (simp add: set_task_def grown_def table_grown_set)

lemma set_job_grown [grown_sets]:
  "row \<in> set (db_jobs d) \<Longrightarrow> rjb_id row' = rjb_id row \<Longrightarrow> rjb_tenant_id row' = rjb_tenant_id row \<Longrightarrow> rjb_kind row' = rjb_kind row \<Longrightarrow> rjb_source_id row' = rjb_source_id row \<Longrightarrow>
     grown d0 d \<Longrightarrow> grown d0 (set_job row' d)"
  by (simp add: set_job_def grown_def table_grown_set)

lemma insert_events_grown [grown_inserts]: "insert_events evs d = Inr d' \<Longrightarrow> grown d0 d \<Longrightarrow> grown d0 d'"
  by (induction evs arbitrary: d) (auto simp: ebind_Inr_iff intro: insert_event_grown)

lemma insert_tasks_grown [grown_inserts]: "insert_tasks ts d = Inr d' \<Longrightarrow> grown d0 d \<Longrightarrow> grown d0 d'"
  by (induction ts arbitrary: d) (auto simp: ebind_Inr_iff intro: insert_task_grown)

lemma insert_invocations_grown [grown_inserts]: "insert_invocations is d = Inr d' \<Longrightarrow> grown d0 d \<Longrightarrow> grown d0 d'"
  by (induction "is" arbitrary: d) (auto simp: ebind_Inr_iff intro: insert_invocation_grown)

lemma insert_artifacts_grown [grown_inserts]: "insert_artifacts as d = Inr d' \<Longrightarrow> grown d0 d \<Longrightarrow> grown d0 d'"
  by (induction "as" arbitrary: d) (auto simp: ebind_Inr_iff intro: insert_artifact_grown)

lemma stage_rows_grown [grown_inserts]: "stage_rows b m ms d = Inr d' \<Longrightarrow> grown d0 d \<Longrightarrow> grown d0 d'"
  by (induction ms arbitrary: d) (auto simp: ebind_Inr_iff intro: insert_memory_grown split: if_splits)

lemma update_attempt_grown:
  "(\<And>a. rat_id (f a) = rat_id a \<and> rat_job_id (f a) = rat_job_id a \<and> rat_attempt (f a) = rat_attempt a) \<Longrightarrow>
     grown d0 d \<Longrightarrow> grown d0 (update_attempt row f d)"
  by (simp add: update_attempt_def grown_def table_grown_update)

text \<open>The one row that is selected may take any key that no other row has.\<close>

lemma distinct_update_one:
  assumes "distinct (map k rows)" and "distinct (map v rows)"
    and "\<And>x. x \<in> set rows \<Longrightarrow> v x = p \<Longrightarrow> k x = c" and "\<And>x. v (f x) = p"
  shows "distinct (map v (update_rows (\<lambda>x. k x = c) f rows))"
  using assms
proof (induction rows)
  case Nil
  then show ?case by (simp add: update_rows_def)
next
  case (Cons x rows)
  show ?case
  proof (cases "k x = c")
    case True
    with Cons.prems(1) have other: "\<And>r. r \<in> set rows \<Longrightarrow> k r \<noteq> c" by (auto simp: image_iff)
    then have "update_rows (\<lambda>x. k x = c) f rows = rows" by (intro update_rows_same) blast
    moreover have "p \<notin> v ` set rows" using Cons.prems(3) other by (auto simp: image_iff)
    ultimately show ?thesis using Cons.prems True by (simp add: update_rows_def)
  next
    case False
    then have "v x \<noteq> p" using Cons.prems(3)[of x] by auto
    then have "v x \<notin> v ` set (update_rows (\<lambda>x. k x = c) f rows)"
      using Cons.prems(2,4) by (auto simp: update_rows_def)
    moreover have "distinct (map v (update_rows (\<lambda>x. k x = c) f rows))" using Cons by auto
    moreover have "update_rows (\<lambda>x. k x = c) f (x # rows) = x # update_rows (\<lambda>x. k x = c) f rows"
      using False by (simp add: update_rows_def)
    ultimately show ?thesis by simp
  qed
qed

lemma activate_profile_grown [grown_inserts]: "activate_profile t p d = Inr d' \<Longrightarrow> grown d0 d \<Longrightarrow> grown d0 d'"
proof -
  assume a: "activate_profile t p d = Inr d'" and g: "grown d0 d"
  show "grown d0 d'"
  proof (cases "active_row_of t d")
    case None
    with a g show ?thesis
      unfolding activate_profile_def grown_def
      by (auto simp: ebind_Inr_iff insert_row_iff intro!: table_grown_append)
  next
    case (Some row)
    let ?rows = "db_active_personas d" and ?f = "\<lambda>a. a\<lparr>rac_profile_id := p\<rparr>"
    let ?new = "update_rows (\<lambda>a. rac_tenant_id a = uuid_text t) ?f ?rows"
    from Some a have new: "d' = d\<lparr>db_active_personas := ?new\<rparr>"
      and free: "\<And>x. x \<in> set ?rows \<Longrightarrow> rac_profile_id x = p \<Longrightarrow> rac_tenant_id x = uuid_text t"
      by (auto simp: activate_profile_def list_ex_iff split: if_splits)
    have tenants: "map rac_tenant_id ?new = map rac_tenant_id ?rows" by (simp add: map_update_rows)
    have "distinct (map rac_profile_id ?new)"
      by (rule distinct_update_one[where p = p])
        (use g free in \<open>auto simp: grown_def table_grown_def unique_keys_def\<close>)
    with g tenants show ?thesis by (simp add: new grown_def table_grown_def unique_keys_def)
  qed
qed

lemma put_lease_grown [grown_inserts]: "put_lease l d = Inr d' \<Longrightarrow> grown d0 d \<Longrightarrow> grown d0 d'"
proof -
  assume a: "put_lease l d = Inr d'" and g: "grown d0 d"
  show "grown d0 d'"
  proof (cases "find (\<lambda>r. rls_task_id r = rls_task_id (row_of_lease l)) (db_leases d)")
    case None
    with a g show ?thesis by (auto simp: put_lease_def Let_def elim: grown_inserts)
  next
    case (Some x)
    let ?rows = "db_leases d"
    let ?f = "\<lambda>r. r\<lparr>rls_id := rls_id (row_of_lease l), rls_ara_id := rls_ara_id (row_of_lease l),
      rls_acquired_at := rls_acquired_at (row_of_lease l), rls_expires_at := rls_expires_at (row_of_lease l)\<rparr>"
    let ?new = "update_rows (\<lambda>r. rls_id r = rls_id x) ?f ?rows"
    from Some a have new: "d' = d\<lparr>db_leases := ?new\<rparr>"
      and free: "\<And>r. r \<in> set ?rows \<Longrightarrow> rls_id r = rls_id (row_of_lease l) \<Longrightarrow> rls_id r = rls_id x"
      by (auto simp: put_lease_def Let_def list_ex_iff split: if_splits)
    have tasks: "map rls_task_id ?new = map rls_task_id ?rows" by (simp add: map_update_rows)
    have "distinct (map rls_id ?new)"
      by (rule distinct_update_one[where p = "rls_id (row_of_lease l)"])
        (use g free in \<open>auto simp: grown_def table_grown_def unique_keys_def\<close>)
    with g tasks show ?thesis by (simp add: new grown_def table_grown_def unique_keys_def)
  qed
qed

text \<open>A turn that is written after other tables.\<close>

lemma set_turn_after_invocation [grown_sets]:
  "row \<in> set (db_turns d) \<Longrightarrow> rtn_id row' = rtn_id row \<Longrightarrow> rtn_tenant_id row' = rtn_tenant_id row \<Longrightarrow>
     rtn_client_request_id row' = rtn_client_request_id row \<Longrightarrow> grown d0 (set_invocation i d) \<Longrightarrow>
     grown d0 (set_turn row' (set_invocation i d))"
  by (rule set_turn_grown[where row = row]) (simp_all add: set_invocation_def)

lemma insert_message_turns: "insert_message m d = Inr d' \<Longrightarrow> db_turns d' = db_turns d \<and> db_conversations d' = db_conversations d"
  by (auto simp: insert_message_def ebind_Inr_iff split: if_splits)

lemma insert_turn_conversations: "insert_turn m d = Inr d' \<Longrightarrow> db_conversations d' = db_conversations d"
  by (auto simp: insert_turn_def ebind_Inr_iff split: if_splits)

lemma insert_job_conversations: "insert_job m d = Inr d' \<Longrightarrow> db_conversations d' = db_conversations d"
  by (auto simp: insert_job_def ebind_Inr_iff split: if_splits)

lemma insert_task_turns: "insert_task m d = Inr d' \<Longrightarrow> db_turns d' = db_turns d"
  by (auto simp: insert_task_def ebind_Inr_iff split: if_splits)

lemma insert_invocation_turns: "insert_invocation m d = Inr d' \<Longrightarrow> db_turns d' = db_turns d"
  by (auto simp: insert_invocation_def ebind_Inr_iff split: if_splits)

lemma insert_tasks_turns: "insert_tasks ts d = Inr d' \<Longrightarrow> db_turns d' = db_turns d"
  by (induction ts arbitrary: d) (auto simp: ebind_Inr_iff dest: insert_task_turns)

lemma insert_invocations_turns: "insert_invocations is d = Inr d' \<Longrightarrow> db_turns d' = db_turns d"
  by (induction "is" arbitrary: d) (auto simp: ebind_Inr_iff dest: insert_invocation_turns)

section \<open>Transactions\<close>

lemma transact_grown:
  assumes "grown d0 d" and "\<And>x d'. grown d0 d \<Longrightarrow> r = Inr (x, d') \<Longrightarrow> grown d0 d'"
  shows "grown d0 (snd (transact d r))"
  using assms by (auto simp: transact_def split: sum.splits)

lemmas in_table = find_mem[THEN conjunct1]

text \<open>Tables that are written in place.\<close>

lemma update_approvals_grown [grown_sets]:
  "row \<in> set (db_approvals d) \<Longrightarrow> rap_id row' = rap_id row \<Longrightarrow> grown d0 d \<Longrightarrow>
     grown d0 (d\<lparr>db_approvals := update_rows (\<lambda>r. rap_id r = rap_id row) (\<lambda>_. row') (db_approvals d)\<rparr>)"
  by (simp add: grown_def table_grown_set)

lemma update_artifacts_grown [grown_sets]:
  "row \<in> set (db_artifacts d) \<Longrightarrow> raf_id row' = raf_id row \<Longrightarrow> grown d0 d \<Longrightarrow>
     grown d0 (d\<lparr>db_artifacts := update_rows (\<lambda>r. raf_id r = raf_id row) (\<lambda>_. row') (db_artifacts d)\<rparr>)"
  by (simp add: grown_def table_grown_set)

lemma update_adaptations_grown [grown_sets]:
  "row \<in> set (db_adaptations d) \<Longrightarrow> rla_id row' = rla_id row \<Longrightarrow> grown d0 d \<Longrightarrow>
     grown d0 (d\<lparr>db_adaptations := update_rows (\<lambda>r. rla_id r = rla_id row) (\<lambda>_. row') (db_adaptations d)\<rparr>)"
  by (simp add: grown_def table_grown_set)

lemma update_leases_grown [grown_sets]:
  "row \<in> set (db_leases d) \<Longrightarrow> rls_id row' = rls_id row \<Longrightarrow> rls_task_id row' = rls_task_id row \<Longrightarrow> grown d0 d \<Longrightarrow>
     grown d0 (d\<lparr>db_leases := update_rows (\<lambda>r. rls_id r = rls_id row) (\<lambda>_. row') (db_leases d)\<rparr>)"
  by (simp add: grown_def table_grown_set)

lemma expire_leases_grown:
  "grown d0 d' \<Longrightarrow> db_leases d' = db_leases d \<Longrightarrow> (\<And>r. rls_id (f r) = rls_id r \<and> rls_task_id (f r) = rls_task_id r) \<Longrightarrow>
     grown d0 (d'\<lparr>db_leases := update_rows P f (db_leases d)\<rparr>)"
  by (simp add: grown_def table_grown_update)

lemma insert_adaptation_grown:
  "\<not> list_ex (\<lambda>r. rla_id r = rla_id row) (db_adaptations d) \<Longrightarrow> grown d0 d \<Longrightarrow>
     grown d0 (d\<lparr>db_adaptations := db_adaptations d @ [row]\<rparr>)"
  by (simp add: grown_def table_grown_append)

lemma active_lease_rows:
  "sql_active_lease now d t a k l = Inr (task, lease) \<Longrightarrow> task \<in> set (db_tasks d) \<and> lease \<in> set (db_leases d)"
  by (auto simp: sql_active_lease_def task_row_at_def dest!: in_table split: option.splits if_splits)


lemma sql_append_event_grown: "grown d0 d \<Longrightarrow> grown d0 (snd (sql_append_event ev d))"
  unfolding sql_append_event_def  Let_def
  by (auto simp: ebind_Inr_iff dest!: in_table intro!: transact_grown split: option.splits sum.splits if_splits prod.splits actor_type.splits;
      (rule update_attempt_grown | erule grown_inserts | erule grown_sets | assumption | simp)+)

lemma sql_enqueue_job_grown: "grown d0 d \<Longrightarrow> grown d0 (snd (sql_enqueue_job j d))"
  unfolding sql_enqueue_job_def  Let_def
  by (auto simp: ebind_Inr_iff dest!: in_table intro!: transact_grown split: option.splits sum.splits if_splits prod.splits actor_type.splits;
      (rule update_attempt_grown | erule grown_inserts | erule grown_sets | assumption | simp)+)

lemma sql_claim_job_grown: "grown d0 d \<Longrightarrow> grown d0 (snd (sql_claim_job e l x d))"
  unfolding sql_claim_job_def claimable_job_row_def Let_def
  by (auto simp: ebind_Inr_iff dest!: in_table intro!: transact_grown split: option.splits sum.splits if_splits prod.splits actor_type.splits;
      (rule update_attempt_grown | erule grown_inserts | erule grown_sets | assumption | simp)+)

lemma sql_complete_job_grown: "grown d0 d \<Longrightarrow> grown d0 (snd (sql_complete_job e t k l d))"
  unfolding sql_complete_job_def sql_active_job_def job_row_at_def Let_def
  by (auto simp: ebind_Inr_iff dest!: in_table intro!: transact_grown split: option.splits sum.splits if_splits prod.splits actor_type.splits;
      (rule update_attempt_grown | erule grown_inserts | erule grown_sets | assumption | simp)+)

lemma sql_retry_job_grown: "grown d0 d \<Longrightarrow> grown d0 (snd (sql_retry_job e t k l er x d))"
  unfolding sql_retry_job_def sql_active_job_def job_row_at_def Let_def
  by (auto simp: ebind_Inr_iff dest!: in_table intro!: transact_grown split: option.splits sum.splits if_splits prod.splits actor_type.splits;
      (rule update_attempt_grown | erule grown_inserts | erule grown_sets | assumption | simp)+)

lemma sql_requeue_job_grown: "grown d0 d \<Longrightarrow> grown d0 (snd (sql_requeue_job e t k a d))"
  unfolding sql_requeue_job_def job_row_at_def Let_def
  by (auto simp: ebind_Inr_iff dest!: in_table intro!: transact_grown split: option.splits sum.splits if_splits prod.splits actor_type.splits;
      (rule update_attempt_grown | erule grown_inserts | erule grown_sets | assumption | simp)+)

lemma sql_delete_memory_grown: "grown d0 d \<Longrightarrow> grown d0 (snd (sql_delete_memory e t k a d))"
  unfolding sql_delete_memory_def memory_row_at_def Let_def
  by (auto simp: ebind_Inr_iff dest!: in_table intro!: transact_grown split: option.splits sum.splits if_splits prod.splits actor_type.splits;
      (rule update_attempt_grown | erule grown_inserts | erule grown_sets | assumption | simp)+)

lemma sql_pin_memory_grown: "grown d0 d \<Longrightarrow> grown d0 (snd (sql_pin_memory e t k p a d))"
  unfolding sql_pin_memory_def  Let_def
  by (auto simp: ebind_Inr_iff dest!: in_table intro!: transact_grown split: option.splits sum.splits if_splits prod.splits actor_type.splits;
      (rule update_attempt_grown | erule grown_inserts | erule grown_sets | assumption | simp)+)

lemma sql_create_persona_profile_grown: "grown d0 d \<Longrightarrow> grown d0 (snd (sql_create_persona_profile e p a d))"
  unfolding sql_create_persona_profile_def  Let_def
  by (auto simp: ebind_Inr_iff dest!: in_table intro!: transact_grown split: option.splits sum.splits if_splits prod.splits actor_type.splits;
      (rule update_attempt_grown | erule grown_inserts | erule grown_sets | assumption | simp)+)

lemma sql_revert_persona_profile_grown: "grown d0 d \<Longrightarrow> grown d0 (snd (sql_revert_persona_profile e t v a d))"
  unfolding sql_revert_persona_profile_def  Let_def
  by (auto simp: ebind_Inr_iff dest!: in_table intro!: transact_grown split: option.splits sum.splits if_splits prod.splits actor_type.splits;
      (rule update_attempt_grown | erule grown_inserts | erule grown_sets | assumption | simp)+)

lemma sql_create_conversation_grown: "grown d0 d \<Longrightarrow> grown d0 (snd (sql_create_conversation c ev d))"
  unfolding sql_create_conversation_def  Let_def
  by (auto simp: ebind_Inr_iff dest!: in_table intro!: transact_grown split: option.splits sum.splits if_splits prod.splits actor_type.splits;
      (rule update_attempt_grown | erule grown_inserts | erule grown_sets | assumption | simp)+)

lemma sql_append_message_grown: "grown d0 d \<Longrightarrow> grown d0 (snd (sql_append_message m evs d))"
  unfolding sql_append_message_def conversation_row_at_def Let_def
  by (auto simp: ebind_Inr_iff dest!: in_table intro!: transact_grown split: option.splits sum.splits if_splits prod.splits actor_type.splits;
      (rule update_attempt_grown | erule grown_inserts | erule grown_sets | assumption | simp)+)

lemma sql_claim_pending_turn_grown: "grown d0 d \<Longrightarrow> grown d0 (snd (sql_claim_pending_turn e t l x d))"
  unfolding sql_claim_pending_turn_def commit_turn_def run_turn_row_def Let_def
  by (auto simp: ebind_Inr_iff dest!: in_table intro!: transact_grown split: option.splits sum.splits if_splits prod.splits actor_type.splits;
      (rule update_attempt_grown | erule grown_inserts | erule grown_sets | assumption | simp)+)

lemma sql_claim_turn_grown: "grown d0 d \<Longrightarrow> grown d0 (snd (sql_claim_turn e t k l x d))"
  unfolding sql_claim_turn_def commit_turn_def run_turn_row_def Let_def
  by (auto simp: ebind_Inr_iff dest!: in_table intro!: transact_grown split: option.splits sum.splits if_splits prod.splits actor_type.splits;
      (rule update_attempt_grown | erule grown_inserts | erule grown_sets | assumption | simp)+)

lemma sql_checkpoint_turn_grown: "grown d0 d \<Longrightarrow> grown d0 (snd (sql_checkpoint_turn e t k l c d))"
  unfolding sql_checkpoint_turn_def sql_active_turn_def turn_row_at_def Let_def
  by (auto simp: ebind_Inr_iff dest!: in_table intro!: transact_grown split: option.splits sum.splits if_splits prod.splits actor_type.splits;
      (rule update_attempt_grown | erule grown_inserts | erule grown_sets | assumption | simp)+)

lemma sql_pause_turn_grown: "grown d0 d \<Longrightarrow> grown d0 (snd (sql_pause_turn e t k l c d))"
  unfolding sql_pause_turn_def sql_active_turn_def turn_row_at_def commit_turn_def Let_def
  by (auto simp: ebind_Inr_iff dest!: in_table intro!: transact_grown split: option.splits sum.splits if_splits prod.splits actor_type.splits;
      (rule update_attempt_grown | erule grown_inserts | erule grown_sets | assumption | simp)+)

lemma sql_create_tool_invocation_grown: "grown d0 d \<Longrightarrow> grown d0 (snd (sql_create_tool_invocation e i d))"
  unfolding sql_create_tool_invocation_def turn_row_at_def Let_def
  by (auto simp: ebind_Inr_iff dest!: in_table intro!: transact_grown split: option.splits sum.splits if_splits prod.splits actor_type.splits;
      (rule update_attempt_grown | erule grown_inserts | erule grown_sets | assumption | simp)+)

lemma sql_finish_tool_invocation_grown: "grown d0 d \<Longrightarrow> grown d0 (snd (sql_finish_tool_invocation e t k st d))"
  unfolding sql_finish_tool_invocation_def  Let_def
  by (auto simp: ebind_Inr_iff dest!: in_table intro!: transact_grown split: option.splits sum.splits if_splits prod.splits actor_type.splits;
      (rule update_attempt_grown | erule grown_inserts | erule grown_sets | assumption | simp)+)

lemma sql_register_ara_grown: "grown d0 d \<Longrightarrow> grown d0 (snd (sql_register_ara a ev d))"
  unfolding sql_register_ara_def row_of_remote_agent_def Let_def
  by (auto simp: ebind_Inr_iff dest!: find_mem intro!: transact_grown split: option.splits sum.splits if_splits prod.splits actor_type.splits;
      (rule update_attempt_grown | erule grown_inserts | erule grown_sets | assumption | simp)+)

lemma sql_set_remote_agent_trust_grown: "grown d0 d \<Longrightarrow> grown d0 (snd (sql_set_remote_agent_trust e t k l a d))"
  unfolding sql_set_remote_agent_trust_def agent_row_at_def Let_def
  by (auto simp: ebind_Inr_iff dest!: in_table intro!: transact_grown split: option.splits sum.splits if_splits prod.splits actor_type.splits;
      (rule update_attempt_grown | erule grown_inserts | erule grown_sets | assumption | simp)+)

lemma sql_add_task_grown: "grown d0 d \<Longrightarrow> grown d0 (snd (sql_add_task x ev d))"
  unfolding sql_add_task_def  Let_def
  by (auto simp: ebind_Inr_iff dest!: in_table intro!: transact_grown split: option.splits sum.splits if_splits prod.splits actor_type.splits;
      (rule update_attempt_grown | erule grown_inserts | erule grown_sets | assumption | simp)+)

lemma sql_request_task_cancellation_grown: "grown d0 d \<Longrightarrow> grown d0 (snd (sql_request_task_cancellation e t k a d))"
  unfolding sql_request_task_cancellation_def task_row_at_def Let_def
  by (auto simp: ebind_Inr_iff dest!: in_table intro!: transact_grown split: option.splits sum.splits if_splits prod.splits actor_type.splits;
      (rule update_attempt_grown | erule grown_inserts | erule grown_sets | assumption | simp)+)

lemma sql_heartbeat_grown: "grown d0 d \<Longrightarrow> grown d0 (snd (sql_heartbeat e t k tk l d))"
  unfolding sql_heartbeat_def agent_row_at_def Let_def
  by (auto simp: ebind_Inr_iff dest!: in_table intro!: transact_grown split: option.splits sum.splits if_splits prod.splits actor_type.splits;
      (rule update_attempt_grown | erule grown_inserts | erule grown_sets | assumption | simp)+)

lemma sql_record_progress_grown: "grown d0 d \<Longrightarrow> grown d0 (snd (sql_record_progress e t a k l m p d))"
  unfolding sql_record_progress_def  Let_def
  by (auto simp: ebind_Inr_iff dest!: in_table intro!: transact_grown split: option.splits sum.splits if_splits prod.splits actor_type.splits;
      (rule update_attempt_grown | erule grown_inserts | erule grown_sets | assumption | simp)+)

lemma sql_request_approval_grown: "grown d0 d \<Longrightarrow> grown d0 (snd (sql_request_approval e t a k l ap d))"
  unfolding sql_request_approval_def  Let_def
  by (auto simp: ebind_Inr_iff dest!: in_table intro!: transact_grown split: option.splits sum.splits if_splits prod.splits actor_type.splits;
      (rule update_attempt_grown | erule grown_inserts | erule grown_sets | assumption | simp)+)

lemma sql_create_coordinator_approval_grown: "grown d0 d \<Longrightarrow> grown d0 (snd (sql_create_coordinator_approval e ap d))"
  unfolding sql_create_coordinator_approval_def  Let_def
  by (auto simp: ebind_Inr_iff dest!: in_table intro!: transact_grown split: option.splits sum.splits if_splits prod.splits actor_type.splits;
      (rule update_attempt_grown | erule grown_inserts | erule grown_sets | assumption | simp)+)

lemma sql_stage_migration_batch_grown: "grown d0 d \<Longrightarrow> grown d0 (snd (sql_stage_migration_batch e b ms a d))"
  unfolding sql_stage_migration_batch_def  Let_def
  by (auto simp: ebind_Inr_iff dest!: in_table intro!: transact_grown split: option.splits sum.splits if_splits prod.splits actor_type.splits;
      (rule update_attempt_grown | erule grown_inserts | erule grown_sets | assumption | simp)+)

lemma sql_create_learned_persona_adaptation_grown:
  "grown d0 d \<Longrightarrow> grown d0 (snd (sql_create_learned_persona_adaptation a d))"
  unfolding sql_create_learned_persona_adaptation_def
  by (auto simp: ebind_Inr_iff insert_row_iff row_of_learned_persona_adaptation_def
      intro!: transact_grown insert_adaptation_grown split: if_splits)

lemma sql_reverse_learned_persona_adaptation_grown: "grown d0 d \<Longrightarrow> grown d0 (snd (sql_reverse_learned_persona_adaptation e t k d))"
  unfolding sql_reverse_learned_persona_adaptation_def  Let_def
  by (auto simp: ebind_Inr_iff dest!: in_table intro!: transact_grown split: option.splits sum.splits if_splits prod.splits actor_type.splits;
      (rule update_attempt_grown | erule grown_inserts | erule grown_sets | assumption | simp)+)

lemma sql_delete_artifact_grown: "grown d0 d \<Longrightarrow> grown d0 (snd (sql_delete_artifact e t k a x d))"
  unfolding sql_delete_artifact_def artifact_row_at_def Let_def
  by (auto simp: ebind_Inr_iff dest!: in_table intro!: transact_grown split: option.splits sum.splits if_splits prod.splits actor_type.splits;
      (rule update_attempt_grown | erule grown_inserts | erule grown_sets | assumption | simp)+)

lemma sql_revoke_remote_agent_grown: "grown d0 d \<Longrightarrow> grown d0 (snd (sql_revoke_remote_agent e t k a d))"
  unfolding sql_revoke_remote_agent_def agent_row_at_def Let_def
  by (auto simp: ebind_Inr_iff dest!: in_table intro!: transact_grown split: option.splits sum.splits if_splits prod.splits actor_type.splits;
      (rule expire_leases_grown | erule grown_inserts | erule grown_sets | assumption | rule expire_leases_grown | simp add: set_agent_def)+)

lemma sql_renew_lease_grown: "grown d0 d \<Longrightarrow> grown d0 (snd (sql_renew_lease e t a k l x d))"
  unfolding sql_renew_lease_def  Let_def
  by (auto simp: ebind_Inr_iff dest!: active_lease_rows intro!: transact_grown split: option.splits sum.splits if_splits prod.splits actor_type.splits;
      (rule update_attempt_grown | erule grown_inserts | erule grown_sets | assumption | simp)+)

lemma sql_close_invocation_grown [grown_inserts]:
  "sql_close_invocation now t st row d = Inr d' \<Longrightarrow> grown d0 d \<Longrightarrow> grown d0 d'"
  unfolding sql_close_invocation_def Let_def
  by (auto dest!: in_table split: option.splits if_splits; (erule grown_sets | assumption | simp)+)

lemma sql_decide_invocation_grown [grown_inserts]:
  "sql_decide_invocation e t st a k d = Inr d' \<Longrightarrow> grown d0 d \<Longrightarrow> grown d0 d'"
  unfolding sql_decide_invocation_def Let_def
  by (auto dest!: in_table split: option.splits if_splits; (erule grown_inserts | erule grown_sets | assumption | simp)+)

lemma sql_finish_task_grown: "grown d0 d \<Longrightarrow> grown d0 (snd (sql_finish_task e t a k l st x as d))"
  unfolding sql_finish_task_def sql_active_lease_def task_row_at_def Let_def
  by (auto simp: ebind_Inr_iff dest!: in_table intro!: transact_grown split: option.splits sum.splits if_splits prod.splits actor_type.splits;
      (rule update_attempt_grown | erule grown_inserts | erule grown_sets | assumption | simp)+)

lemma sql_decide_approval_grown: "grown d0 d \<Longrightarrow> grown d0 (snd (sql_decide_approval e t k st a d))"
  unfolding sql_decide_approval_def  Let_def
  by (auto simp: ebind_Inr_iff dest!: in_table intro!: transact_grown split: option.splits sum.splits if_splits prod.splits actor_type.splits;
      (rule update_attempt_grown | erule grown_inserts | erule grown_sets | assumption | simp)+)

text \<open>Writes that follow insertions into other tables.\<close>

lemma set_turn_frame:
  "db_turns d' = db_turns d \<Longrightarrow> row \<in> set (db_turns d) \<Longrightarrow> rtn_id row' = rtn_id row \<Longrightarrow> rtn_tenant_id row' = rtn_tenant_id row \<Longrightarrow>
     rtn_client_request_id row' = rtn_client_request_id row \<Longrightarrow> grown d0 d' \<Longrightarrow> grown d0 (set_turn row' d')"
  by (rule set_turn_grown[where row = row]) simp_all

lemma set_conversation_frame:
  "db_conversations d' = db_conversations d \<Longrightarrow> row \<in> set (db_conversations d) \<Longrightarrow> rcv_id row' = rcv_id row \<Longrightarrow>
     grown d0 d' \<Longrightarrow> grown d0 (set_conversation row' d')"
  by (rule set_conversation_grown[where row = row]) simp_all

lemma active_turn_row: "sql_active_turn now d t k l = Inr row \<Longrightarrow> row \<in> set (db_turns d)"
  by (auto simp: sql_active_turn_def turn_row_at_def dest!: in_table split: option.splits if_splits)

lemma sql_create_turn_grown: "grown d0 d \<Longrightarrow> grown d0 (snd (sql_create_turn m x evs j d))"
  unfolding sql_create_turn_def conversation_row_at_def Let_def
  by (auto simp: ebind_Inr_iff dest!: in_table intro!: transact_grown split: option.splits sum.splits if_splits;
      (erule grown_inserts | rule set_conversation_frame | assumption |
       simp add: insert_job_conversations insert_turn_conversations insert_message_turns)+)

lemma commit_turn_grown:
  "commit_turn e t ty row' d = Inr (x, d') \<Longrightarrow> row \<in> set (db_turns d) \<Longrightarrow> rtn_id row' = rtn_id row \<Longrightarrow>
     rtn_tenant_id row' = rtn_tenant_id row \<Longrightarrow> rtn_client_request_id row' = rtn_client_request_id row \<Longrightarrow>
     grown d0 d \<Longrightarrow> grown d0 d'"
  unfolding commit_turn_def
  by (auto simp: ebind_Inr_iff; (erule grown_inserts | erule grown_sets | assumption | simp)+)

lemma sql_complete_turn_grown: "grown d0 d \<Longrightarrow> grown d0 (snd (sql_complete_turn e t k l m d))"
proof -
  assume g: "grown d0 d"
  show ?thesis
    unfolding sql_complete_turn_def Let_def
  proof (rule transact_grown[OF g])
    fix x d' assume r: "ebind (sql_active_turn (clk e 0) d t k l) (\<lambda>row. if ms_tenant_id m \<noteq> t
        then Inl (LifecycleConflictError ''assistant message ownership mismatch'')
        else ebind (parse_id (rtn_conversation_id row)) (\<lambda>conversation_id.
          if ms_conversation_id m \<noteq> conversation_id \<or> ms_role m \<noteq> Role_ASSISTANT
          then Inl (LifecycleConflictError ''assistant message ownership mismatch'')
          else case find (\<lambda>r. rcv_id r = rtn_conversation_id row) (db_conversations d) of
              None \<Rightarrow> Inl (LifecycleNotFoundError ''conversation not found'')
            | Some conversation \<Rightarrow>
                ebind (insert_message (row_of_conversation_message m)
                  (set_conversation (conversation\<lparr>rcv_updated_at := naive_utc (ms_created_at m)\<rparr>) d)) (\<lambda>d1.
                commit_turn e t CONVERSATION_TURN_COMPLETED
                  (row\<lparr>rtn_state := Turn_COMPLETED, rtn_run_lease_id := None, rtn_run_lease_expires_at := None,
                     rtn_updated_at := naive_utc (clk e 1), rtn_completed_at := Some (naive_utc (clk e 1))\<rparr>) d1))) =
        Inr (x, d')"
    then obtain row c d1 where row: "row \<in> set (db_turns d)" and c: "c \<in> set (db_conversations d)"
      and d1: "insert_message (row_of_conversation_message m)
        (set_conversation (c\<lparr>rcv_updated_at := naive_utc (ms_created_at m)\<rparr>) d) = Inr d1"
      and d': "commit_turn e t CONVERSATION_TURN_COMPLETED
        (row\<lparr>rtn_state := Turn_COMPLETED, rtn_run_lease_id := None, rtn_run_lease_expires_at := None,
           rtn_updated_at := naive_utc (clk e 1), rtn_completed_at := Some (naive_utc (clk e 1))\<rparr>) d1 = Inr (x, d')"
      by (auto simp: ebind_Inr_iff dest!: in_table active_turn_row split: if_splits option.splits)
    from insert_message_grown[OF d1 set_conversation_grown[OF c _ g]] have "grown d0 d1" by simp
    moreover have "db_turns d1 = db_turns d" using insert_message_turns[OF d1] by (simp add: set_conversation_def)
    ultimately show "grown d0 d'" using row by (intro commit_turn_grown[OF d']) simp_all
  qed
qed

lemma sql_create_delegated_tasks_grown: "grown d0 d \<Longrightarrow> grown d0 (snd (sql_create_delegated_tasks e t k l ts is c d))"
  unfolding sql_create_delegated_tasks_def Let_def
  by (auto simp: ebind_Inr_iff dest!: active_turn_row intro!: transact_grown split: if_splits;
      (erule grown_inserts | rule set_turn_frame | assumption |
       simp add: insert_tasks_turns insert_invocations_turns)+)

lemma first_leasable_row: "first_leasable a caps rows = Inr (Some row) \<Longrightarrow> row \<in> set rows"
  by (induction rows) (auto simp: ebind_Inr_iff split: if_splits)

lemma lease_found_grown:
  assumes "lease_found e t a x d found = Inr (y, d')" and g: "grown d0 d"
    and mem: "\<And>row. found = Some row \<Longrightarrow> row \<in> set (db_tasks d)"
  shows "grown d0 d'"
proof (cases found)
  case None
  with assms show ?thesis by (simp add: lease_found_def)
next
  case (Some row)
  with assms(1) obtain l d2 ev where d2: "put_lease l (set_task (row\<lparr>rtk_state := Task_LEASED\<rparr>) d) = Inr d2"
    and d': "insert_event ev d2 = Inr d'"
    by (auto simp: lease_found_def ebind_Inr_iff Let_def)
  have "grown d0 (set_task (row\<lparr>rtk_state := Task_LEASED\<rparr>) d)"
    by (rule set_task_grown[OF mem[OF Some] _ g]) simp
  then show ?thesis by (rule insert_event_grown[OF d' put_lease_grown[OF d2]])
qed

lemma sql_lease_task_grown:
  assumes g: "grown d0 d"
  shows "grown d0 (snd (sql_lease_task e t a x d))"
proof (cases "find (\<lambda>r. rra_id r = uuid_text a) (db_remote_agents d)")
  case None
  with g show ?thesis by (simp add: sql_lease_task_def)
next
  case (Some agent)
  let ?d1 = "set_agent (agent\<lparr>rra_last_seen_at := naive_utc (clk e 0)\<rparr>) d"
  let ?r = "ebind (capabilities_of_json (rra_capabilities agent)) (\<lambda>caps.
      ebind (first_leasable (uuid_text a) caps (filter (open_task_row (naive_utc (clk e 2)) t ?d1)
        (sort_key (\<lambda>r. aware_utc (rtk_created_at r)) (db_tasks ?d1)))) (lease_found e t a x ?d1))"
  from set_agent_grown[OF in_table[OF Some] _ g] have g1: "grown d0 ?d1" by simp
  have "grown d0 d'" if r: "?r = Inr (y, d')" for y d'
  proof -
    from r obtain caps found where
      f: "first_leasable (uuid_text a) caps (filter (open_task_row (naive_utc (clk e 2)) t ?d1)
        (sort_key (\<lambda>r. aware_utc (rtk_created_at r)) (db_tasks ?d1))) = Inr found"
      and l: "lease_found e t a x ?d1 found = Inr (y, d')" by (auto simp: ebind_Inr_iff)
    show ?thesis
      by (rule lease_found_grown[OF l g1]) (use first_leasable_row f in force)
  qed
  with g have "grown d0 (snd (transact d ?r))" by (rule transact_grown)
  with g g1 show ?thesis
    unfolding sql_lease_task_def Some option.case Let_def by (simp split del: if_split split: if_split)
qed

lemma sql_upsert_memory_grown: "grown d0 d \<Longrightarrow> grown d0 (snd (sql_upsert_memory m evs d))"
  unfolding sql_upsert_memory_def upsert_existing_def Let_def
  by (auto simp: ebind_Inr_iff dest!: in_table intro!: transact_grown split: option.splits sum.splits if_splits;
      (erule grown_inserts | erule grown_sets | assumption | simp add: revive_def)+)

lemma sql_review_memory_grown:
  assumes g: "grown d0 d"
  shows "grown d0 (snd (sql_review_memory e t k p a rk d))"
proof (cases "memory_row_at t k d")
  case None
  with g show ?thesis by (simp add: sql_review_memory_def)
next
  case (Some row)
  then have row: "row \<in> set (db_memories d)" "rmr_id row = uuid_text k"
    unfolding memory_row_at_def by (auto dest: find_mem)
  let ?row' = "row\<lparr>rmr_state := (if p then Mem_PROMOTED else Mem_REJECTED), rmr_confirmed := p,
    rmr_contradiction_of := map_option uuid_text rk, rmr_reviewed_at := Some (naive_utc (clk e 0)),
    rmr_reviewed_by := Some (uuid_text a), rmr_updated_at := naive_utc (clk e 0)\<rparr>"
  have g1: "grown d0 (set_memory ?row' d)" by (rule set_memory_grown[OF row(1) _ _ _ g]) simp_all
  have g2: "grown d0 (set_memory (r\<lparr>rmr_state := Mem_DELETED, rmr_deleted_at := Some n, rmr_updated_at := n\<rparr>) (set_memory ?row' d))"
    if "replacement_row t k p rk d = Inr (Some r)" for r n
  proof -
    from that have r: "r \<in> set (db_memories d)" "rmr_id r \<noteq> uuid_text k"
      by (auto simp: replacement_row_def dest!: find_mem split: option.splits if_splits)
    then have "r \<in> set (db_memories (set_memory ?row' d))"
      using row(2) by (auto simp: set_memory_def update_rows_def image_iff)
    then show ?thesis by (rule set_memory_grown[OF _ _ _ _ g1]) simp_all
  qed
  have "\<forall>r n. replacement_row t k p rk d = Inr (Some r) \<longrightarrow>
      grown d0 (set_memory (r\<lparr>rmr_state := Mem_DELETED, rmr_deleted_at := Some n, rmr_updated_at := n\<rparr>) (set_memory ?row' d))"
    using g2 by blast
  with g g1 show ?thesis
    unfolding sql_review_memory_def Some option.case Let_def
    by (cases p) (auto simp: ebind_Inr_iff transact_def split: sum.splits if_splits option.splits;
        (erule insert_event_grown | blast)+)+
qed

lemma set_batch_frame:
  "db_migration_batches d' = db_migration_batches d \<Longrightarrow> row \<in> set (db_migration_batches d) \<Longrightarrow> rmb_id row' = rmb_id row \<Longrightarrow>
     rmb_tenant_id row' = rmb_tenant_id row \<Longrightarrow> rmb_source_system row' = rmb_source_system row \<Longrightarrow>
     rmb_source_database_fingerprint row' = rmb_source_database_fingerprint row \<Longrightarrow> grown d0 d' \<Longrightarrow> grown d0 (set_batch row' d')"
  by (rule set_batch_grown[where row = row]) simp_all

lemma insert_persona_batches: "insert_persona p d = Inr d' \<Longrightarrow> db_migration_batches d' = db_migration_batches d"
  by (auto simp: insert_persona_def ebind_Inr_iff)

lemma activate_profile_batches: "activate_profile t p d = Inr d' \<Longrightarrow> db_migration_batches d' = db_migration_batches d"
  by (auto simp: activate_profile_def ebind_Inr_iff split: option.splits if_splits)

lemma update_memories_grown:
  "(\<And>r. rmr_id (f r) = rmr_id r \<and> rmr_tenant_id (f r) = rmr_tenant_id r \<and>
      rmr_normalized_content (f r) = rmr_normalized_content r) \<Longrightarrow> grown d0 d \<Longrightarrow>
     grown d0 (d\<lparr>db_memories := update_rows P f (db_memories d)\<rparr>)"
  by (simp add: grown_def table_grown_update)

lemma sql_activate_migration_batch_grown: "grown d0 d \<Longrightarrow> grown d0 (snd (sql_activate_migration_batch e t k a c d))"
  unfolding sql_activate_migration_batch_def batch_row_at_def Let_def
  by (auto simp: ebind_Inr_iff promote_row_def dest!: in_table intro!: transact_grown split: option.splits if_splits;
      (erule grown_inserts | rule set_batch_frame | rule update_memories_grown | assumption |
       simp add: insert_persona_batches activate_profile_batches promote_row_def)+)

lemma sql_rollback_migration_batch_grown: "grown d0 d \<Longrightarrow> grown d0 (snd (sql_rollback_migration_batch e t k a d))"
  unfolding sql_rollback_migration_batch_def batch_row_at_def Let_def
  by (auto simp: ebind_Inr_iff dest!: in_table intro!: transact_grown split: option.splits if_splits;
      (erule grown_inserts | rule set_batch_frame | rule update_memories_grown | assumption | simp)+)

section \<open>Runs of calls\<close>

text \<open>
  Calls of the operations on the tables, one rule per operation, and runs of calls.
\<close>

text \<open>A call of any operation: how it ends and the tables after it.\<close>

definition failure :: "'a transaction \<Rightarrow> error option" where
  "failure r = (case fst r of Inl err \<Rightarrow> Some err | Inr _ \<Rightarrow> None)"

inductive db_call :: "db \<Rightarrow> error option \<Rightarrow> db \<Rightarrow> bool" where
  call_append_event: "db_call d (failure (sql_append_event ev d)) (snd (sql_append_event ev d))"
| call_enqueue_job: "db_call d (failure (sql_enqueue_job j d)) (snd (sql_enqueue_job j d))"
| call_claim_job: "db_call d (failure (sql_claim_job e l x d)) (snd (sql_claim_job e l x d))"
| call_complete_job: "db_call d (failure (sql_complete_job e t k l d)) (snd (sql_complete_job e t k l d))"
| call_retry_job: "db_call d (failure (sql_retry_job e t k l er x d)) (snd (sql_retry_job e t k l er x d))"
| call_requeue_job: "db_call d (failure (sql_requeue_job e t k a d)) (snd (sql_requeue_job e t k a d))"
| call_delete_memory: "db_call d (failure (sql_delete_memory e t k a d)) (snd (sql_delete_memory e t k a d))"
| call_pin_memory: "db_call d (failure (sql_pin_memory e t k p a d)) (snd (sql_pin_memory e t k p a d))"
| call_create_persona_profile: "db_call d (failure (sql_create_persona_profile e p a d)) (snd (sql_create_persona_profile e p a d))"
| call_revert_persona_profile: "db_call d (failure (sql_revert_persona_profile e t v a d)) (snd (sql_revert_persona_profile e t v a d))"
| call_create_conversation: "db_call d (failure (sql_create_conversation c ev d)) (snd (sql_create_conversation c ev d))"
| call_append_message: "db_call d (failure (sql_append_message m evs d)) (snd (sql_append_message m evs d))"
| call_claim_pending_turn: "db_call d (failure (sql_claim_pending_turn e t l x d)) (snd (sql_claim_pending_turn e t l x d))"
| call_claim_turn: "db_call d (failure (sql_claim_turn e t k l x d)) (snd (sql_claim_turn e t k l x d))"
| call_checkpoint_turn: "db_call d (failure (sql_checkpoint_turn e t k l c d)) (snd (sql_checkpoint_turn e t k l c d))"
| call_pause_turn: "db_call d (failure (sql_pause_turn e t k l c d)) (snd (sql_pause_turn e t k l c d))"
| call_create_tool_invocation: "db_call d (failure (sql_create_tool_invocation e i d)) (snd (sql_create_tool_invocation e i d))"
| call_register_ara: "db_call d (failure (sql_register_ara a ev d)) (snd (sql_register_ara a ev d))"
| call_set_remote_agent_trust: "db_call d (failure (sql_set_remote_agent_trust e t k l a d)) (snd (sql_set_remote_agent_trust e t k l a d))"
| call_add_task: "db_call d (failure (sql_add_task x ev d)) (snd (sql_add_task x ev d))"
| call_request_task_cancellation: "db_call d (failure (sql_request_task_cancellation e t k a d)) (snd (sql_request_task_cancellation e t k a d))"
| call_heartbeat: "db_call d (failure (sql_heartbeat e t k tk l d)) (snd (sql_heartbeat e t k tk l d))"
| call_record_progress: "db_call d (failure (sql_record_progress e t a k l m p d)) (snd (sql_record_progress e t a k l m p d))"
| call_request_approval: "db_call d (failure (sql_request_approval e t a k l ap d)) (snd (sql_request_approval e t a k l ap d))"
| call_create_coordinator_approval: "db_call d (failure (sql_create_coordinator_approval e ap d)) (snd (sql_create_coordinator_approval e ap d))"
| call_stage_migration_batch: "db_call d (failure (sql_stage_migration_batch e b ms a d)) (snd (sql_stage_migration_batch e b ms a d))"
| call_create_learned_persona_adaptation: "db_call d (failure (sql_create_learned_persona_adaptation a d)) (snd (sql_create_learned_persona_adaptation a d))"
| call_reverse_learned_persona_adaptation: "db_call d (failure (sql_reverse_learned_persona_adaptation e t k d)) (snd (sql_reverse_learned_persona_adaptation e t k d))"
| call_delete_artifact: "db_call d (failure (sql_delete_artifact e t k a x d)) (snd (sql_delete_artifact e t k a x d))"
| call_revoke_remote_agent: "db_call d (failure (sql_revoke_remote_agent e t k a d)) (snd (sql_revoke_remote_agent e t k a d))"
| call_renew_lease: "db_call d (failure (sql_renew_lease e t a k l x d)) (snd (sql_renew_lease e t a k l x d))"
| call_finish_task: "db_call d (failure (sql_finish_task e t a k l st x as d)) (snd (sql_finish_task e t a k l st x as d))"
| call_decide_approval: "db_call d (failure (sql_decide_approval e t k st a d)) (snd (sql_decide_approval e t k st a d))"
| call_create_turn: "db_call d (failure (sql_create_turn m x evs j d)) (snd (sql_create_turn m x evs j d))"
| call_complete_turn: "db_call d (failure (sql_complete_turn e t k l m d)) (snd (sql_complete_turn e t k l m d))"
| call_create_delegated_tasks: "db_call d (failure (sql_create_delegated_tasks e t k l ts is c d)) (snd (sql_create_delegated_tasks e t k l ts is c d))"
| call_lease_task: "db_call d (failure (sql_lease_task e t a x d)) (snd (sql_lease_task e t a x d))"
| call_upsert_memory: "db_call d (failure (sql_upsert_memory m evs d)) (snd (sql_upsert_memory m evs d))"
| call_review_memory: "db_call d (failure (sql_review_memory e t k p a rk d)) (snd (sql_review_memory e t k p a rk d))"
| call_activate_migration_batch: "db_call d (failure (sql_activate_migration_batch e t k a c d)) (snd (sql_activate_migration_batch e t k a c d))"
| call_rollback_migration_batch: "db_call d (failure (sql_rollback_migration_batch e t k a d)) (snd (sql_rollback_migration_batch e t k a d))"
| call_complete_invocation: "db_call d (failure (sql_complete_tool_invocation e t k d)) (snd (sql_complete_tool_invocation e t k d))"
| call_fail_invocation: "db_call d (failure (sql_fail_tool_invocation e t k d)) (snd (sql_fail_tool_invocation e t k d))"

lemma db_call_grown: "db_call d r d' \<Longrightarrow> keys_unique d \<Longrightarrow> grown d d'"
  by (induction rule: db_call.induct)
     (simp_all only: sql_complete_tool_invocation_def sql_fail_tool_invocation_def grown_refl
       sql_append_event_grown
       sql_enqueue_job_grown
       sql_claim_job_grown
       sql_complete_job_grown
       sql_retry_job_grown
       sql_requeue_job_grown
       sql_delete_memory_grown
       sql_pin_memory_grown
       sql_create_persona_profile_grown
       sql_revert_persona_profile_grown
       sql_create_conversation_grown
       sql_append_message_grown
       sql_claim_pending_turn_grown
       sql_claim_turn_grown
       sql_checkpoint_turn_grown
       sql_pause_turn_grown
       sql_create_tool_invocation_grown
       sql_finish_tool_invocation_grown
       sql_register_ara_grown
       sql_set_remote_agent_trust_grown
       sql_add_task_grown
       sql_request_task_cancellation_grown
       sql_heartbeat_grown
       sql_record_progress_grown
       sql_request_approval_grown
       sql_create_coordinator_approval_grown
       sql_stage_migration_batch_grown
       sql_create_learned_persona_adaptation_grown
       sql_reverse_learned_persona_adaptation_grown
       sql_delete_artifact_grown
       sql_revoke_remote_agent_grown
       sql_renew_lease_grown
       sql_finish_task_grown
       sql_decide_approval_grown
       sql_create_turn_grown
       sql_complete_turn_grown
       sql_create_delegated_tasks_grown
       sql_lease_task_grown
       sql_upsert_memory_grown
       sql_review_memory_grown
       sql_activate_migration_batch_grown
       sql_rollback_migration_batch_grown)

text \<open>A transaction that fails is rolled back.\<close>

lemma transact_failure: "failure (transact d r) = Some err \<Longrightarrow> snd (transact d r) = d"
  by (auto simp: failure_def transact_def split: sum.splits)

lemma failure_simps [simp]: "failure (Inl err, d) = Some err" "failure (Inr x, d) = None"
  by (simp_all add: failure_def)

lemma db_call_failed: "db_call d r d' \<Longrightarrow> r = Some err \<Longrightarrow> d' = d"
proof (induction rule: db_call.induct)
  case (call_enqueue_job d j)
  then show ?case
    by (auto simp: sql_enqueue_job_def Let_def transact_def failure_def split: option.splits sum.splits)
next
  case (call_claim_job d e l x)
  then show ?case
    by (auto simp: sql_claim_job_def Let_def transact_def failure_def split: option.splits sum.splits)
next
  case (call_claim_pending_turn d e t l x)
  then show ?case
    by (auto simp: sql_claim_pending_turn_def Let_def dest: transact_failure split: option.splits)
next
  case (call_claim_turn d e t k l x)
  then show ?case
    by (auto simp: sql_claim_turn_def Let_def dest: transact_failure split: option.splits)
next
  case (call_lease_task d e t a x)
  then show ?case
    by (auto simp: sql_lease_task_def Let_def transact_def failure_def split: option.splits if_splits sum.splits)
qed (unfold sql_ops Let_def, (erule transact_failure)+)

definition db_run :: "db \<Rightarrow> db \<Rightarrow> bool" where
  "db_run = (\<lambda>d d'. \<exists>r. db_call d r d')\<^sup>*\<^sup>*"

lemma db_run_grown: "db_run d d' \<Longrightarrow> keys_unique d \<Longrightarrow> grown d d'"
  unfolding db_run_def
proof (induction rule: rtranclp_induct)
  case base
  then show ?case by (rule grown_refl)
next
  case (step y z)
  then have y: "keys_unique y" "grows d y" by (simp_all add: grown_iff)
  from step(2) y(1) have "grown y z" using db_call_grown by blast
  with y(2) show ?case unfolding grown_iff using grows_trans by blast
qed

lemma empty_db_keys: "keys_unique empty_db"
  by (simp add: empty_db_def keys_unique_def unique_keys_def)

end
