(* ===== verification/SqlRunProperties.thy ===== *)
theory SqlRunProperties
  imports SqlSteps Samples
begin

text \<open>
  What the database store promises of every run of transactions, and the two guarantees agents live
  by: a lease is exclusive, and a revocation ends what the agent may do.
\<close>

lemma find_written:
  assumes "x \<in> set rows" and "key x = k" and "Q row'" and "\<And>r. Q r \<Longrightarrow> key r = k"
  shows "find Q (update_rows (\<lambda>r. key r = k) (\<lambda>_. row') rows) = Some row'"
  using assms by (induction rows) (auto simp: update_rows_def)

lemma find_filter: "(\<And>r. Q r \<Longrightarrow> P r) \<Longrightarrow> find Q (filter P rows) = find Q rows"
  by (induction rows) auto

text \<open>
  Along any run of transactions from the empty tables, whatever their order and outcome, every
  primary key and unique constraint holds, no row is ever dropped or renumbered, and messages, persona
  profiles and audit events are only appended.
\<close>

theorem sql_run_keeps_rows:
  assumes "db_run empty_db d" and "db_run d d'"
  shows "keys_unique d' \<and> grows d d'"
proof -
  from db_run_grown[OF assms(1) empty_db_keys] have "keys_unique d" by (simp add: grown_iff)
  from db_run_grown[OF assms(2) this] show ?thesis by (simp add: grown_iff)
qed

text \<open>
  A transaction that fails leaves every table as it was, whichever operation it was and at whatever
  statement it failed.
\<close>

theorem failed_call_rolls_back:
  assumes "db_call d (Some err) d'"
  shows "d' = d"
  using db_call_failed[OF assms refl] .

theorem failed_call_rolls_back_witness:
  "snd (sql_delete_memory sample_env 1 50 2 empty_db) = empty_db"
proof -
  have "failure (sql_delete_memory sample_env 1 50 2 empty_db) = Some (LifecycleNotFoundError ''memory not found'')"
    by (simp add: sql_delete_memory_def memory_row_at_def empty_db_def)
  with call_delete_memory[of empty_db sample_env 1 50 2]
  have "db_call empty_db (Some (LifecycleNotFoundError ''memory not found''))
      (snd (sql_delete_memory sample_env 1 50 2 empty_db))" by metis
  from failed_call_rolls_back[OF this] show ?thesis .
qed

text \<open>
  Once an agent is revoked its leases have expired and nothing it could do under them succeeds, at
  any time: no lease of it passes the check every agent call makes, a poll for work returns nothing, and
  its trust cannot be restored.
\<close>

theorem sql_revocation_cuts_off:
  assumes "sql_revoke_remote_agent e t a u d = (Inr r, d')"
  shows "ra_status r = Ara_REVOKED \<and> ra_trust_level r = 0 \<and>
    list_all (\<lambda>l. rls_expires_at l = naive_utc (clk e 0))
      (filter (\<lambda>l. rls_tenant_id l = uuid_text t \<and> rls_ara_id l = uuid_text a) (db_leases d')) \<and>
    sql_active_lease now d' t a k l = Inl (LifecycleNotFoundError ''task or lease not found'') \<and>
    fst (sql_lease_task e' t a x d') = Inr None \<and>
    fst (sql_set_remote_agent_trust e' t a n u' d') = Inl (LifecycleConflictError ''revoked ARA cannot regain trust'')"
proof -
  from assms obtain row where row: "agent_row_at t a d = Some row"
    and r: "remote_agent_of_row (row\<lparr>rra_status := Ara_REVOKED, rra_trust_level := 0\<rparr>) = Inr r"
    and ev: "insert_event (AuditEvent e 0 t ARA_REVOKED Actor_USER (Some u) None [(''ara_id'', JId a)])
      ((set_agent (row\<lparr>rra_status := Ara_REVOKED, rra_trust_level := 0\<rparr>) d)\<lparr>db_leases :=
         update_rows (\<lambda>l. rls_tenant_id l = uuid_text t \<and> rls_ara_id l = uuid_text a)
           (\<lambda>l. l\<lparr>rls_expires_at := naive_utc (clk e 0)\<rparr>) (db_leases d)\<rparr>) = Inr d'"
    by (auto simp: sql_revoke_remote_agent_def transact_def Let_def ebind_Inr_iff split: option.splits sum.splits)
  let ?row' = "row\<lparr>rra_status := Ara_REVOKED, rra_trust_level := 0\<rparr>"
  from row have ids: "rra_id row = uuid_text a" "rra_tenant_id row = uuid_text t" and mem: "row \<in> set (db_remote_agents d)"
    unfolding agent_row_at_def by (auto dest: find_mem)
  from ev have agents: "db_remote_agents d' = update_rows (\<lambda>r. rra_id r = uuid_text a) (\<lambda>_. ?row') (db_remote_agents d)"
    and leases: "db_leases d' = update_rows (\<lambda>l. rls_tenant_id l = uuid_text t \<and> rls_ara_id l = uuid_text a)
      (\<lambda>l. l\<lparr>rls_expires_at := naive_utc (clk e 0)\<rparr>) (db_leases d)"
    by (auto simp: insert_event_def ebind_Inr_iff set_agent_def ids(1))
  have all: "x \<in> set (db_remote_agents d') \<Longrightarrow> rra_id x = uuid_text a \<Longrightarrow> x = ?row'" for x
    unfolding agents by (auto simp: update_rows_def split: if_splits)
  have find_id: "find (\<lambda>r. rra_id r = uuid_text a) (db_remote_agents d') = Some ?row'"
    and find_at: "agent_row_at t a d' = Some ?row'"
    unfolding agent_row_at_def agents by (rule find_written[OF mem]; simp add: ids)+
  have "find (\<lambda>a'. rra_id a' = uuid_text a \<and> rra_tenant_id a' = uuid_text t \<and> rra_status a' = Ara_ACTIVE \<and>
      rra_trust_level a' > 0) (db_remote_agents d') = None"
    using all by (fastforce simp: find_None_iff)
  then have "sql_active_lease now d' t a k l = Inl (LifecycleNotFoundError ''task or lease not found'')"
    by (simp add: sql_active_lease_def split: option.split)
  moreover have "fst (sql_lease_task e' t a x d') = Inr None"
    by (simp add: sql_lease_task_def find_id ids Let_def)
  moreover have "fst (sql_set_remote_agent_trust e' t a n u' d') =
      Inl (LifecycleConflictError ''revoked ARA cannot regain trust'')"
    by (simp add: sql_set_remote_agent_trust_def find_at)
  moreover have "ra_status r = Ara_REVOKED \<and> ra_trust_level r = 0"
    using r by (auto simp: remote_agent_of_row_def ebind_Inr_iff checked_def split: if_splits)
  moreover have "list_all (\<lambda>l. rls_expires_at l = naive_utc (clk e 0))
      (filter (\<lambda>l. rls_tenant_id l = uuid_text t \<and> rls_ara_id l = uuid_text a) (db_leases d'))"
    unfolding leases by (auto simp: update_rows_def list_all_iff)
  ultimately show ?thesis by blast
qed

text \<open>Tables with an agent that holds a lease on a task.\<close>

definition lease_db :: db where
  [samples]: "lease_db = empty_db\<lparr>
     db_remote_agents := [row_of_remote_agent sample_ara],
     db_tasks := [row_of_task (sample_task\<lparr>tk_state := Task_LEASED\<rparr>)],
     db_leases := [row_of_lease sample_lease]\<rparr>"

lemma lease_db_keys: "keys_unique lease_db"
  by (simp add: samples empty_db_def keys_unique_def unique_keys_def)

theorem sql_revocation_cuts_off_witness:
  "\<exists>r d'. sql_revoke_remote_agent sample_env 1 60 2 lease_db = (Inr r, d') \<and>
     sql_active_lease 90 d' 1 60 70 80 = Inl (LifecycleNotFoundError ''task or lease not found'')"
proof -
  have ids: "uuid_text 60 \<noteq> uuid_text 1" by (simp add: uuid_text_inj is_uuid_def)
  have "remote_agent_of_row (row_of_remote_agent (sample_ara\<lparr>ra_status := Ara_REVOKED, ra_trust_level := 0\<rparr>)) =
      Inr (sample_ara\<lparr>ra_status := Ara_REVOKED, ra_trust_level := 0\<rparr>)"
    by (rule remote_agent_roundtrip)
      (simp add: samples storable_remote_agent_def valid_remote_agent_def valid_capability_def str_between_def is_uuid_def)
  then obtain r d' where "sql_revoke_remote_agent sample_env 1 60 2 lease_db = (Inr r, d')"
    by (simp add: sql_revoke_remote_agent_def agent_row_at_def Let_def insert_event_def set_agent_def samples
        row_of_remote_agent_def empty_db_def)
  from this sql_revocation_cuts_off[OF this, of 90 70 80] show ?thesis by blast
qed

theorem sql_run_keeps_rows_witness:
  "keys_unique (snd (sql_append_event sample_event empty_db)) \<and>
     grows empty_db (snd (sql_append_event sample_event empty_db))"
proof -
  have "db_run empty_db empty_db" by (simp add: db_run_def)
  moreover have "db_run empty_db (snd (sql_append_event sample_event empty_db))"
    unfolding db_run_def by (rule r_into_rtranclp) (blast intro: call_append_event)
  ultimately show ?thesis by (rule sql_run_keeps_rows)
qed

definition canonical :: "string \<Rightarrow> bool" where
  "canonical s \<longleftrightarrow> map_option uuid_text (parse_uuid s) = Some s"

text \<open>The lease of the task after a poll that found it.\<close>

lemma put_lease_only:
  assumes "put_lease l d = Inr d'" and "distinct (map rls_task_id (db_leases d))"
    and "list_all (\<lambda>r. rls_tenant_id r = uuid_text (ls_tenant_id l))
      (filter (\<lambda>r. rls_task_id r = uuid_text (ls_task_id l)) (db_leases d))"
  shows "filter (\<lambda>r. rls_task_id r = uuid_text (ls_task_id l)) (db_leases d') = [row_of_lease l] \<and>
    db_tasks d' = db_tasks d \<and> db_remote_agents d' = db_remote_agents d"
proof (cases "find (\<lambda>r. rls_task_id r = uuid_text (ls_task_id l)) (db_leases d)")
  case None
  then have "filter (\<lambda>r. rls_task_id r = uuid_text (ls_task_id l)) (db_leases d) = []"
    by (simp add: find_None_iff filter_empty_conv)
  with None assms(1) show ?thesis
    by (auto simp: put_lease_def Let_def row_of_lease_def insert_lease_def ebind_Inr_iff insert_row_iff split: if_splits)
next
  case (Some x)
  let ?n = "row_of_lease l"
  let ?f = "\<lambda>r. r\<lparr>rls_id := rls_id ?n, rls_ara_id := rls_ara_id ?n, rls_acquired_at := rls_acquired_at ?n,
    rls_expires_at := rls_expires_at ?n\<rparr>"
  have n: "rls_task_id ?n = uuid_text (ls_task_id l)" by (simp add: row_of_lease_def)
  from Some n assms(1) have d': "d' = d\<lparr>db_leases := update_rows (\<lambda>r. rls_id r = rls_id x) ?f (db_leases d)\<rparr>"
    by (auto simp: put_lease_def Let_def split: if_splits)
  from Some have x: "x \<in> set (db_leases d)" "rls_task_id x = uuid_text (ls_task_id l)" by (auto dest: find_mem)
  with assms(3) have fx: "?f x = ?n" by (cases x) (auto simp: list_all_iff row_of_lease_def)
  have "filter (\<lambda>r. rls_task_id r = uuid_text (ls_task_id l)) (update_rows (\<lambda>r. rls_id r = rls_id x) ?f rows) = [?n]"
    if "x \<in> set rows" "distinct (map rls_task_id rows)" for rows
    using that
  proof (induction rows)
    case (Cons y rows)
    have rest: "filter (\<lambda>r. rls_task_id r = uuid_text (ls_task_id l)) (update_rows P ?f rows) = []"
      if "y = x" for P
    proof -
      have "\<forall>r \<in> set rows. rls_task_id r \<noteq> uuid_text (ls_task_id l)" using that Cons.prems(2) x(2) by force
      then show ?thesis by (auto simp: filter_empty_conv update_rows_def)
    qed
    show ?case
    proof (cases "y = x")
      case True
      with rest[OF True] fx x(2) n show ?thesis by (simp add: update_rows_def)
    next
      case False
      with Cons.prems have "rls_task_id y \<noteq> uuid_text (ls_task_id l)" "x \<in> set rows" using x(2) by force+
      with Cons show ?thesis by (simp add: update_rows_def)
    qed
  qed simp
  with x(1) assms(2) show ?thesis by (simp add: d')
qed

text \<open>
  A poll that returns a task gives its agent the only lease on it: until the lease expires the agent
  can act under it, and no other lease, whoever held it before, passes the check for that task.
\<close>

theorem sql_lease_exclusive:
  assumes "keys_unique d" and "sql_lease_task e t a x d = (Inr (Some (task, lease)), d')"
    and "list_all (\<lambda>r. canonical (rtk_id r)) (db_tasks d)"
    and "list_all (\<lambda>r. rls_tenant_id r = uuid_text t) (db_leases d)"
  shows "tk_state task = Task_LEASED \<and> ls_task_id lease = tk_id task \<and> ls_ara_id lease = a \<and> ls_expires_at lease = x \<and>
    (\<forall>now < x. \<exists>row. sql_active_lease now d' t a (tk_id task) (ls_id lease) = Inr (row, row_of_lease lease)) \<and>
    (\<forall>now a' l. uuid_text l \<noteq> uuid_text (ls_id lease) \<longrightarrow>
       sql_active_lease now d' t a' (tk_id task) l = Inl (LifecycleNotFoundError ''task or lease not found''))"
proof -
  from assms(2) obtain agent where agent: "find (\<lambda>r. rra_id r = uuid_text a) (db_remote_agents d) = Some agent"
    "rra_tenant_id agent = uuid_text t" "rra_status agent = Ara_ACTIVE" "rra_trust_level agent > 0"
    by (auto simp: sql_lease_task_def Let_def split: option.splits if_splits)
  let ?agent = "agent\<lparr>rra_last_seen_at := naive_utc (clk e 0)\<rparr>"
  let ?d1 = "set_agent ?agent d"
  have d1: "db_tasks ?d1 = db_tasks d" "db_leases ?d1 = db_leases d" by (simp_all add: set_agent_def)
  from assms(2) agent obtain caps fo where
    fo: "first_leasable (uuid_text a) caps (filter (open_task_row (naive_utc (clk e 2)) t ?d1)
      (sort_key (\<lambda>r. aware_utc (rtk_created_at r)) (db_tasks ?d1))) = Inr fo"
    and lf: "lease_found e t a x ?d1 fo = Inr (Some (task, lease), d')"
    by (auto simp: sql_lease_task_def Let_def transact_def ebind_Inr_iff split: if_splits sum.splits)
  from lf obtain row where "fo = Some row" by (cases fo) (simp_all add: lease_found_def)
  with fo lf have
    row: "first_leasable (uuid_text a) caps (filter (open_task_row (naive_utc (clk e 2)) t ?d1)
      (sort_key (\<lambda>r. aware_utc (rtk_created_at r)) (db_tasks ?d1))) = Inr (Some row)"
    and found: "lease_found e t a x ?d1 (Some row) = Inr (Some (task, lease), d')"
    by simp_all
  from first_leasable_row[OF row] have mem: "row \<in> set (db_tasks d)" "rtk_tenant_id row = uuid_text t"
    by (auto simp: d1 open_task_row_def)
  let ?row' = "row\<lparr>rtk_state := Task_LEASED\<rparr>"
  from found obtain task_id d2 ev where task_id: "parse_id (rtk_id row) = Inr task_id"
    and l: "mk_lease (gen e 0) t task_id a (clk e 3) (Aware x) = Inr lease"
    and task: "task_of_row ?row' = Inr task"
    and d2: "put_lease lease (set_task ?row' ?d1) = Inr d2" and d': "insert_event ev d2 = Inr d'"
    by (auto simp: lease_found_def ebind_Inr_iff Let_def)
  from l have lease: "ls_task_id lease = task_id" "ls_ara_id lease = a" "ls_tenant_id lease = t" "ls_expires_at lease = x"
    by (auto simp: mk_lease_def split: if_splits)
  from task task_id have tk: "tk_id task = task_id" "tk_state task = Task_LEASED"
    by (auto simp: task_of_row_def ebind_Inr_iff checked_def split: if_splits)
  have id: "rtk_id row = uuid_text task_id"
    using assms(3) mem(1) task_id by (auto simp: list_all_iff canonical_def parse_id_def split: option.splits)
  have "distinct (map rls_task_id (db_leases d))" using assms(1) by (simp add: keys_unique_def unique_keys_def)
  with put_lease_only[OF d2] assms(4) have only:
    "filter (\<lambda>r. rls_task_id r = uuid_text task_id) (db_leases d2) = [row_of_lease lease]"
    "db_tasks d2 = db_tasks (set_task ?row' ?d1)" "db_remote_agents d2 = db_remote_agents ?d1"
    by (simp_all add: lease set_task_def d1 list_all_iff set_agent_def)
  from d' have tables: "db_leases d' = db_leases d2" "db_tasks d' = db_tasks d2" "db_remote_agents d' = db_remote_agents d2"
    by (auto simp: insert_event_def ebind_Inr_iff)
  have trow: "task_row_at t task_id d' = Some ?row'"
    unfolding task_row_at_def tables only set_task_def db.simps
    by (simp add: id d1, rule find_written[OF mem(1)]) (use mem(2) id in simp_all)
  have arow: "\<exists>y. find (\<lambda>a'. rra_id a' = uuid_text a \<and> rra_tenant_id a' = uuid_text t \<and> rra_status a' = Ara_ACTIVE \<and>
      rra_trust_level a' > 0) (db_remote_agents d') = Some y"
  proof -
    have aid: "agent \<in> set (db_remote_agents d)" "rra_id agent = uuid_text a" using find_mem[OF agent(1)] by simp_all
    then have "db_remote_agents d' = update_rows (\<lambda>r. rra_id r = uuid_text a) (\<lambda>_. ?agent) (db_remote_agents d)"
      by (simp add: tables only set_agent_def)
    with find_written[where key = rra_id, OF aid, of "\<lambda>a'. rra_id a' = uuid_text a \<and> rra_tenant_id a' = uuid_text t \<and>
        rra_status a' = Ara_ACTIVE \<and> rra_trust_level a' > 0" ?agent] agent aid
    show ?thesis by simp
  qed
  have lrow: "find (\<lambda>r. rls_id r = uuid_text k \<and> rls_tenant_id r = uuid_text t \<and> rls_task_id r = uuid_text task_id \<and>
      rls_ara_id r = uuid_text a') (db_leases d') =
      (if uuid_text k = uuid_text (ls_id lease) \<and> uuid_text a' = uuid_text a then Some (row_of_lease lease) else None)" for k a'
    by (subst find_filter[where P = "\<lambda>r. rls_task_id r = uuid_text task_id", symmetric])
      (auto simp: tables only row_of_lease_def lease)
  show ?thesis
    using trow arow lrow by (auto simp: sql_active_lease_def tk lease row_of_lease_def)
qed

lemma canonical_text [simp]: "is_uuid u \<Longrightarrow> canonical (uuid_text u)"
  by (simp add: canonical_def)

theorem sql_lease_exclusive_witness:
  "\<exists>task lease d'. sql_lease_task (env_at 600) 1 60 900 lease_db = (Inr (Some (task, lease)), d') \<and> ls_id lease = 900 \<and>
     sql_active_lease 700 d' 1 60 (tk_id task) 80 = Inl (LifecycleNotFoundError ''task or lease not found'')"
proof -
  have ids: "uuid_text 900 \<noteq> uuid_text 80" "uuid_text 80 \<noteq> uuid_text 900"
    by (simp_all add: uuid_text_inj is_uuid_def)
  have cap: "valid_capability sample_capability" by (simp add: samples valid_capability_def str_between_def)
  then have "capability_of_json (capability_dump sample_capability) = Inr sample_capability" by simp
  moreover from cap have "capabilities_of_json (JList (map capability_dump [sample_capability])) = Inr [sample_capability]"
    by (intro capabilities_of_dump) simp
  moreover have "task_of_row (row_of_task (sample_task\<lparr>tk_state := Task_LEASED\<rparr>)) = Inr (sample_task\<lparr>tk_state := Task_LEASED\<rparr>)"
    by (rule task_roundtrip)
      (simp add: samples storable_task_def valid_task_def valid_capability_def str_between_def is_uuid_def)
  ultimately obtain task lease d' where l: "sql_lease_task (env_at 600) 1 60 900 lease_db = (Inr (Some (task, lease)), d')"
    "ls_id lease = 900"
    using ids
    by (simp add: sql_lease_task_def Let_def set_agent_def set_task_def lease_found_def put_lease_def mk_lease_def open_task_row_def
        insert_event_def json_items_def update_rows_def samples row_of_remote_agent_def row_of_task_def row_of_lease_def
        empty_db_def parse_id_def is_uuid_def minutes_def seconds_def transact_def)
  have "list_all (\<lambda>r. canonical (rtk_id r)) (db_tasks lease_db)" "list_all (\<lambda>r. rls_tenant_id r = uuid_text 1) (db_leases lease_db)"
    by (simp_all add: samples row_of_task_def row_of_lease_def is_uuid_def)
  from sql_lease_exclusive[OF lease_db_keys l(1) this] l ids show ?thesis by auto
qed

end
