(* ===== verification/JobWorker.thy ===== *)
theory JobWorker
  imports Pipeline
begin

text \<open>
  The background job loop \<^verbatim>\<open>run_jobs\<close> of \<^verbatim>\<open>apps/astra-agent-api/src/astra_agent/app.py\<close> on the
  in-memory store: one pass claims a job, extracts or synchronises, and completes the job or files a
  retry. Parameters are the extractor, the vector index (which may raise), \<^verbatim>\<open>sha256\<close>, and the name
  and the text of an exception; the session audit is not modelled.
\<close>

text \<open>What a pass reads: its own clock readings, the lease it draws, and the environment of each call.\<close>

record worker_env =
  w_lease_id :: uuid
  w_now :: datetime
  w_claim :: env
  w_extract :: env
  w_enqueue :: "nat \<Rightarrow> env"
  w_complete :: env
  w_failure :: env
  w_retry :: env
  w_retry_now :: datetime

record worker =
  wk_extract :: "string \<Rightarrow> extracted_memory list"
  wk_index :: "vector_call \<Rightarrow> error + unit"
  wk_sha256 :: "string \<Rightarrow> nat list"
  wk_repr :: "json \<Rightarrow> string"
  wk_error_name :: "error \<Rightarrow> string"
  wk_error_text :: "error \<Rightarrow> string"

text \<open>\<^verbatim>\<open>BackgroundJob(tenant_id=..., kind=VECTOR_SYNC, source_id=record.id)\<close> with the defaults of the model.\<close>

definition vector_job :: "env \<Rightarrow> uuid \<Rightarrow> memory_record \<Rightarrow> background_job" where
  "vector_job e tenant_id memory =
     \<lparr>jb_id = gen e 0, jb_tenant_id = tenant_id, jb_kind = Job_VECTOR_SYNC, jb_source_id = mr_id memory,
      jb_payload = [], jb_state = Job_PENDING, jb_attempt_count = 0, jb_max_attempts = 8,
      jb_available_at = clk e 0, jb_lease_id = None, jb_lease_expires_at = None, jb_last_error = None,
      jb_created_at = clk e 1, jb_updated_at = clk e 2, jb_completed_at = None\<rparr>"

fun enqueue_vectors :: "(nat \<Rightarrow> env) \<Rightarrow> uuid \<Rightarrow> nat \<Rightarrow> memory_record list \<Rightarrow> store \<Rightarrow> unit result" where
  "enqueue_vectors E tenant_id i [] s = (Inr (), s)"
| "enqueue_vectors E tenant_id i (r # rs) s =
     (if mr_state r \<noteq> Mem_PROMOTED then enqueue_vectors E tenant_id (Suc i) rs s
      else case enqueue_job (vector_job (E i) tenant_id r) s of
             (Inl err, s1) \<Rightarrow> (Inl err, s1)
           | (Inr _, s1) \<Rightarrow> enqueue_vectors E tenant_id (Suc i) rs s1)"

definition extraction_job :: "worker \<Rightarrow> worker_env \<Rightarrow> background_job \<Rightarrow> store \<Rightarrow> unit result" where
  "extraction_job W w job s =
     (case map_of (jb_payload job) ''source_event_id'' of
        None \<Rightarrow> (Inl KeyError, s)
      | Some v \<Rightarrow>
          (case uuid_or_none (wk_repr W) v of
             None \<Rightarrow> (Inl (ValueError ''badly formed hexadecimal UUID string''), s)
           | Some source_event_id \<Rightarrow>
               (case map_of (jb_payload job) ''content'' of
                  None \<Rightarrow> (Inl KeyError, s)
                | Some c \<Rightarrow>
                    (case extract_message upsert_memory (wk_extract W) (w_extract w) (jb_tenant_id job)
                            source_event_id (jb_source_id job) (py_str (wk_repr W) c) s of
                       (Inl err, s1) \<Rightarrow> (Inl err, s1)
                     | (Inr records, s1) \<Rightarrow> enqueue_vectors (w_enqueue w) (jb_tenant_id job) 0 records s1))))"

definition vector_sync_job :: "worker \<Rightarrow> background_job \<Rightarrow> store \<Rightarrow> unit result" where
  "vector_sync_job W job s =
     (case get_memory (jb_tenant_id job) (jb_source_id job) s of
        None \<Rightarrow> (Inr (), s)
      | Some memory \<Rightarrow>
          (case sync_memory (wk_sha256 W) memory of
             None \<Rightarrow> (Inr (), s)
           | Some call \<Rightarrow> (wk_index W call, s)))"

definition process_job :: "worker \<Rightarrow> worker_env \<Rightarrow> background_job \<Rightarrow> uuid \<Rightarrow> store \<Rightarrow> unit result" where
  "process_job W w job lease_id s =
     (case (if jb_kind job = Job_MEMORY_EXTRACTION then extraction_job W w job s else vector_sync_job W job s) of
        (Inl err, s1) \<Rightarrow> (Inl err, s1)
      | (Inr _, s1) \<Rightarrow>
          (case complete_job (w_complete w) (jb_tenant_id job) (jb_id job) lease_id s1 of
             (Inl err, s2) \<Rightarrow> (Inl err, s2)
           | (Inr _, s2) \<Rightarrow> (Inr (), s2)))"

definition retry_delay :: "background_job \<Rightarrow> int" where
  "retry_delay job = min 300 (2 ^ nat (min (jb_attempt_count job) 8))"

definition error_message :: "worker \<Rightarrow> error \<Rightarrow> string" where
  "error_message W err = (if wk_error_text W err = [] then ''background job failed'' else wk_error_text W err)"

definition failure_event :: "worker \<Rightarrow> worker_env \<Rightarrow> background_job \<Rightarrow> error \<Rightarrow> audit_event" where
  "failure_event W w job err =
     AuditEvent (w_failure w) 0 (jb_tenant_id job) PIPELINE_FAILED Actor_COORDINATOR None None
       [(''stage'', JStr (background_job_kind_value (jb_kind job))), (''job_id'', JId (jb_id job)),
        (''attempt'', JInt (jb_attempt_count job + 1)), (''retry_in_seconds'', JInt (retry_delay job)),
        (''error_type'', JStr (wk_error_name W err)), (''error'', JStr (error_message W err))]"

text \<open>
  The handler of \<^verbatim>\<open>except Exception\<close>; what it raises itself leaves the loop, as nothing catches it there.
\<close>

definition job_failed :: "worker \<Rightarrow> worker_env \<Rightarrow> background_job \<Rightarrow> uuid \<Rightarrow> error \<Rightarrow> store \<Rightarrow> unit result" where
  "job_failed W w job lease_id err s =
     (let s1 = snd (append_event (failure_event W w job err) s);
          job_error = \<lparr>je_type = wk_error_name W err, je_message = error_message W err\<rparr>
      in if \<not> valid_job_error job_error then (Inl (ValidationError ''JobError''), s1)
         else
           (case retry_job (w_retry w) (jb_tenant_id job) (jb_id job) lease_id job_error
                   (w_retry_now w + seconds (retry_delay job)) s1 of
              (Inl e, s2) \<Rightarrow> (Inl e, s2)
            | (Inr _, s2) \<Rightarrow> (Inr (), s2)))"

text \<open>One pass: \<open>Inr False\<close> when there is nothing to do, \<open>Inl\<close> when the loop dies.\<close>

definition run_job_once :: "worker \<Rightarrow> worker_env \<Rightarrow> store \<Rightarrow> bool result" where
  "run_job_once W w s =
     (case claim_job (w_claim w) (w_lease_id w) (w_now w + minutes 5) s of
        (Inl err, s1) \<Rightarrow> (Inl err, s1)
      | (Inr None, s1) \<Rightarrow> (Inr False, s1)
      | (Inr (Some job), s1) \<Rightarrow>
          (case jb_lease_id job of
             None \<Rightarrow> (Inr True, s1)
           | Some lease_id \<Rightarrow>
               (case process_job W w job lease_id s1 of
                  (Inr _, s2) \<Rightarrow> (Inr True, s2)
                | (Inl err, s2) \<Rightarrow>
                    (case job_failed W w job lease_id err s2 of
                       (Inl e, s3) \<Rightarrow> (Inl e, s3)
                     | (Inr _, s3) \<Rightarrow> (Inr True, s3)))))"

text \<open>The loop over a sequence of passes.\<close>

fun run_jobs :: "worker \<Rightarrow> worker_env list \<Rightarrow> store \<Rightarrow> unit result" where
  "run_jobs W [] s = (Inr (), s)"
| "run_jobs W (w # ws) s =
     (case run_job_once W w s of
        (Inl err, s1) \<Rightarrow> (Inl err, s1)
      | (Inr _, s1) \<Rightarrow> run_jobs W ws s1)"

section \<open>A pass over a job that fails\<close>

definition claimed_job :: "worker_env \<Rightarrow> background_job \<Rightarrow> background_job" where
  "claimed_job w j = j\<lparr>jb_state := Job_RUNNING, jb_attempt_count := jb_attempt_count j + 1,
     jb_lease_id := Some (w_lease_id w), jb_lease_expires_at := Some (w_now w + minutes 5),
     jb_updated_at := clk (w_claim w) 0\<rparr>"

definition claimed_store :: "worker_env \<Rightarrow> background_job \<Rightarrow> store \<Rightarrow> store" where
  "claimed_store w j s = snd (claim_job (w_claim w) (w_lease_id w) (w_now w + minutes 5) s)"

definition first_claimable :: "datetime \<Rightarrow> store \<Rightarrow> background_job option" where
  "first_claimable now s = find (claimable_job now) (sort_key jb_created_at (dict_values (st_jobs s)))"

lemma claim_first:
  assumes "first_claimable (clk (w_claim w) 0) s = Some j"
  shows "claim_job (w_claim w) (w_lease_id w) (w_now w + minutes 5) s =
      (Inr (Some (claimed_job w j)), claimed_store w j s)"
    and "st_jobs (claimed_store w j s) = AList.update (jb_id j) (claimed_job w j) (st_jobs s)"
    and "st_memories (claimed_store w j s) = st_memories s"
    and "st_events (claimed_store w j s) = st_events s"
    and "\<exists>as a. map_of (st_job_attempts (claimed_store w j s)) (jb_id j) = Some (as @ [a])"
  using assms
  by (simp_all add: claim_job_def Let_def first_claimable_def claimed_job_def claimed_store_def append_attempt_def
      update_conv')

text \<open>What a failed attempt makes of the job.\<close>

definition failed_job :: "worker \<Rightarrow> worker_env \<Rightarrow> background_job \<Rightarrow> error \<Rightarrow> background_job" where
  "failed_job W w j err =
     (let job = claimed_job w j;
          state = (if jb_attempt_count job \<ge> jb_max_attempts job then Job_FAILED else Job_RETRY)
      in job\<lparr>jb_state := state, jb_lease_id := None, jb_lease_expires_at := None,
           jb_last_error := Some \<lparr>je_type = wk_error_name W err, je_message = error_message W err\<rparr>,
           jb_available_at := w_retry_now w + seconds (retry_delay job),
           jb_completed_at := (if state = Job_FAILED then Some (clk (w_retry w) 0) else None),
           jb_updated_at := clk (w_retry w) 0\<rparr>)"

lemma failing_pass:
  assumes first: "first_claimable (clk (w_claim w) 0) s = Some j"
    and process: "process_job W w (claimed_job w j) (w_lease_id w) (claimed_store w j s) = (Inl err, claimed_store w j s)"
    and err: "valid_job_error \<lparr>je_type = wk_error_name W err, je_message = error_message W err\<rparr>"
  shows "\<exists>s'. run_job_once W w s = (Inr True, s') \<and>
    map_of (st_jobs s') = (map_of (st_jobs s))(jb_id j \<mapsto> failed_job W w j err) \<and>
    st_jobs s' = AList.update (jb_id j) (failed_job W w j err) (AList.update (jb_id j) (claimed_job w j) (st_jobs s)) \<and>
    st_memories s' = st_memories s \<and>
    st_events s' = st_events s @ [failure_event W w (claimed_job w j) err]"
proof -
  let ?job = "claimed_job w j"
  let ?s1 = "claimed_store w j s"
  let ?s2 = "snd (append_event (failure_event W w ?job err) ?s1)"
  note c = claim_first[OF first]
  have s2: "st_jobs ?s2 = st_jobs ?s1" "st_memories ?s2 = st_memories s" "st_job_attempts ?s2 = st_job_attempts ?s1"
    "st_events ?s2 = st_events s @ [failure_event W w ?job err]"
    by (simp_all add: append_event_def c)
  have ids: "jb_id ?job = jb_id j" "jb_tenant_id ?job = jb_tenant_id j" "jb_lease_id ?job = Some (w_lease_id w)"
    "jb_state ?job = Job_RUNNING" by (simp_all add: claimed_job_def)
  have active: "active_job ?s2 (jb_tenant_id j) (jb_id j) (w_lease_id w) = Inr ?job"
    by (simp add: active_job_def scoped_def s2 c(2) update_conv' ids)
  obtain as a where att: "map_of (st_job_attempts ?s2) (jb_id j) = Some (as @ [a])"
    using c(5) s2(3) by metis
  obtain s3 where s3: "retry_job (w_retry w) (jb_tenant_id ?job) (jb_id ?job) (w_lease_id w)
      \<lparr>je_type = wk_error_name W err, je_message = error_message W err\<rparr>
      (w_retry_now w + seconds (retry_delay ?job)) ?s2 = (Inr (failed_job W w j err), s3)"
    "st_jobs s3 = AList.update (jb_id j) (failed_job W w j err) (st_jobs ?s2)"
    "st_memories s3 = st_memories ?s2" "st_events s3 = st_events ?s2"
    using active att by (simp add: retry_job_def Let_def ids update_last_attempt_def failed_job_def)
  then have "run_job_once W w s = (Inr True, s3)"
    using process err by (simp add: run_job_once_def c(1) ids job_failed_def Let_def)
  with s3 show ?thesis by (simp add: s2 c(2) update_conv')
qed

end
