(* ===== verification/JobWorkerProperties.thy ===== *)
theory JobWorkerProperties
  imports JobWorker Samples
begin

text \<open>
  What the background loop promises of one job: it is given up after its attempts, it survives fewer
  failures than it has attempts, and one kind of failure ends the loop itself.
\<close>

text \<open>The job is in the table under its own key and every other job is done.\<close>

definition lone_job :: "store \<Rightarrow> background_job \<Rightarrow> bool" where
  "lone_job s j \<longleftrightarrow> keyed jb_id (st_jobs s) \<and> map_of (st_jobs s) (jb_id j) = Some j \<and>
     list_all (\<lambda>x. x = j \<or> jb_state x \<in> {Job_COMPLETED, Job_FAILED}) (dict_values (st_jobs s))"

text \<open>Passes that each start when the longest delay after the one before them is over.\<close>

fun spaced :: "datetime \<Rightarrow> worker_env list \<Rightarrow> bool" where
  "spaced t [] = True"
| "spaced t (w # ws) = (t \<le> clk (w_claim w) 0 \<and> spaced (w_retry_now w + seconds 300) ws)"

lemma spaced_mono: "spaced t ws \<Longrightarrow> t' \<le> t \<Longrightarrow> spaced t' ws"
  by (cases ws) auto

lemma retry_delay_bounds: "0 < retry_delay j \<and> retry_delay j \<le> 300"
  by (simp add: retry_delay_def)

lemma lone_first:
  assumes "lone_job s j" and "claimable_job now j"
  shows "first_claimable now s = Some j"
proof -
  let ?xs = "dict_values (st_jobs s)"
  have j: "j \<in> set ?xs" using assms(1) by (force simp: lone_job_def dest: map_of_SomeD)
  then obtain x where x: "first_claimable now s = Some x"
    unfolding first_claimable_def using assms(2) find_sort_key_None by (metis not_None_eq)
  from find_sort_key_least[OF x[unfolded first_claimable_def]] assms(1) have "x = j"
    by (auto simp: lone_job_def list_all_iff claimable_job_def)
  with x show ?thesis by simp
qed

lemma lone_idle:
  assumes "lone_job s j" and "jb_state j = Job_FAILED \<or> jb_state j = Job_COMPLETED"
  shows "run_job_once W w s = (Inr False, s)"
proof -
  have "\<forall>x \<in> set (dict_values (st_jobs s)). \<not> claimable_job now x" for now
    using assms by (auto simp: lone_job_def list_all_iff claimable_job_def)
  then have "find (claimable_job now) (sort_key jb_created_at (dict_values (st_jobs s))) = None" for now
    by (simp add: find_sort_key_None)
  then show ?thesis by (simp add: run_job_once_def claim_job_def Let_def)
qed

lemma set_values_update:
  "x \<in> set (dict_values (AList.update k y tbl)) \<Longrightarrow> x = y \<or> x \<in> set (dict_values tbl)"
  by (induction tbl) (auto split: if_splits)

lemma values_update_old:
  assumes "keyed f tbl" and "x \<in> set (dict_values (AList.update k y tbl))"
  shows "x = y \<or> (x \<in> set (dict_values tbl) \<and> f x \<noteq> k)"
  using assms unfolding keyed_def by (induction tbl) (force split: if_splits)+

text \<open>A job that replaces the lone one under its key is the lone one.\<close>

lemma lone_update:
  assumes "lone_job s j" and "st_jobs s' = AList.update (jb_id j) j' (st_jobs s)" and "jb_id j' = jb_id j"
  shows "lone_job s' j'"
proof -
  have k: "keyed jb_id (st_jobs s)" and m: "map_of (st_jobs s) (jb_id j) = Some j"
    using assms(1) by (auto simp: lone_job_def)
  have "x = j' \<or> jb_state x \<in> {Job_COMPLETED, Job_FAILED}" if "x \<in> set (dict_values (st_jobs s'))" for x
    using values_update_old[OF k that[unfolded assms(2)]] assms(1)
    by (auto simp: lone_job_def list_all_iff)
  with k show ?thesis using assms(2,3)
    by (auto simp: lone_job_def list_all_iff update_conv' intro: keyed_update)
qed

text \<open>One failing pass over the lone job.\<close>

lemma claimed_job_simps [simp]:
  "jb_id (claimed_job w j) = jb_id j" "jb_tenant_id (claimed_job w j) = jb_tenant_id j"
  "jb_kind (claimed_job w j) = jb_kind j" "jb_source_id (claimed_job w j) = jb_source_id j"
  "jb_lease_id (claimed_job w j) = Some (w_lease_id w)"
  by (simp_all add: claimed_job_def)

lemma failed_job_simps [simp]:
  "jb_id (failed_job W w j err) = jb_id j" "jb_tenant_id (failed_job W w j err) = jb_tenant_id j"
  "jb_kind (failed_job W w j err) = jb_kind j" "jb_source_id (failed_job W w j err) = jb_source_id j"
  "jb_max_attempts (failed_job W w j err) = jb_max_attempts j"
  "jb_attempt_count (failed_job W w j err) = jb_attempt_count j + 1"
  "jb_lease_id (failed_job W w j err) = None"
  "jb_last_error (failed_job W w j err) = Some \<lparr>je_type = wk_error_name W err, je_message = error_message W err\<rparr>"
  "jb_state (failed_job W w j err) =
     (if jb_max_attempts j \<le> jb_attempt_count j + 1 then Job_FAILED else Job_RETRY)"
  "jb_available_at (failed_job W w j err) = w_retry_now w + seconds (retry_delay (claimed_job w j))"
  by (simp_all add: failed_job_def Let_def, simp_all add: claimed_job_def)

lemma vector_sync_local:
  assumes "vector_sync_job W j s = (r, s)" and "st_memories s' = st_memories s"
    and "jb_tenant_id j' = jb_tenant_id j" and "jb_source_id j' = jb_source_id j"
  shows "vector_sync_job W j' s' = (r, s')"
  using assms by (auto simp: vector_sync_job_def get_memory_def simp del: scoped_Some_iff split: option.splits)

definition waiting :: "background_job \<Rightarrow> bool" where
  "waiting j \<longleftrightarrow> jb_kind j = Job_VECTOR_SYNC \<and> jb_state j \<in> {Job_PENDING, Job_RETRY}"

lemma sync_failure_pass:
  assumes lone: "lone_job s j" and j: "waiting j" and due: "jb_available_at j \<le> clk (w_claim w) 0"
    and fails: "vector_sync_job W j s = (Inl err, s)"
    and err: "valid_job_error \<lparr>je_type = wk_error_name W err, je_message = error_message W err\<rparr>"
  shows "\<exists>s'. run_job_once W w s = (Inr True, s') \<and> lone_job s' (failed_job W w j err) \<and>
    st_memories s' = st_memories s \<and> length (st_events s') = Suc (length (st_events s))"
proof -
  from j due have first: "first_claimable (clk (w_claim w) 0) s = Some j"
    by (intro lone_first[OF lone]) (auto simp: waiting_def claimable_job_def)
  note c = claim_first[OF first]
  from vector_sync_local[OF fails c(3), of "claimed_job w j"]
  have "process_job W w (claimed_job w j) (w_lease_id w) (claimed_store w j s) = (Inl err, claimed_store w j s)"
    using j by (simp add: process_job_def waiting_def)
  from failing_pass[OF first this err] obtain s' where s': "run_job_once W w s = (Inr True, s')"
    "st_jobs s' = AList.update (jb_id j) (failed_job W w j err) (AList.update (jb_id j) (claimed_job w j) (st_jobs s))"
    "st_memories s' = st_memories s" "st_events s' = st_events s @ [failure_event W w (claimed_job w j) err]"
    by blast
  have "lone_job (claimed_store w j s) (claimed_job w j)"
    by (rule lone_update[OF lone c(2)]) simp
  then have "lone_job s' (failed_job W w j err)"
    by (rule lone_update) (use s'(2) c(2) in simp_all)
  with s' show ?thesis by auto
qed

text \<open>A pass that succeeds.\<close>

definition completed_job :: "worker_env \<Rightarrow> background_job \<Rightarrow> background_job" where
  "completed_job w j = (claimed_job w j)\<lparr>jb_state := Job_COMPLETED, jb_lease_id := None,
     jb_lease_expires_at := None, jb_completed_at := Some (clk (w_complete w) 0),
     jb_updated_at := clk (w_complete w) 0\<rparr>"

lemma sync_success_pass:
  assumes lone: "lone_job s j" and kind: "jb_kind j = Job_VECTOR_SYNC"
    and state: "jb_state j \<in> {Job_PENDING, Job_RETRY}" and due: "jb_available_at j \<le> clk (w_claim w) 0"
    and ok: "vector_sync_job W j s = (Inr (), s)"
  shows "\<exists>s'. run_job_once W w s = (Inr True, s') \<and> lone_job s' (completed_job w j) \<and>
    st_memories s' = st_memories s"
proof -
  from state due have first: "first_claimable (clk (w_claim w) 0) s = Some j"
    by (intro lone_first[OF lone]) (auto simp: claimable_job_def)
  note c = claim_first[OF first]
  let ?c = "claimed_job w j" and ?s1 = "claimed_store w j s"
  have sync: "vector_sync_job W ?c ?s1 = (Inr (), ?s1)"
    by (rule vector_sync_local[OF ok c(3)]) simp_all
  have "active_job ?s1 (jb_tenant_id j) (jb_id j) (w_lease_id w) = Inr ?c"
    by (simp add: active_job_def scoped_def c(2) update_conv' claimed_job_def)
  moreover obtain as a where "map_of (st_job_attempts ?s1) (jb_id j) = Some (as @ [a])"
    using c(5) by blast
  ultimately obtain s2 where s2:
    "complete_job (w_complete w) (jb_tenant_id j) (jb_id j) (w_lease_id w) ?s1 = (Inr (completed_job w j), s2)"
    "st_jobs s2 = AList.update (jb_id j) (completed_job w j) (st_jobs ?s1)" "st_memories s2 = st_memories s"
    by (simp add: complete_job_def Let_def update_last_attempt_def completed_job_def c(3))
  have "run_job_once W w s = (Inr True, s2)"
    using sync s2(1) kind by (simp add: run_job_once_def c(1) process_job_def)
  moreover have "lone_job s2 (completed_job w j)"
    by (rule lone_update[OF lone_update[OF lone c(2)]]) (use s2(2) in \<open>simp_all add: completed_job_def\<close>)
  ultimately show ?thesis using s2(3) by blast
qed

text \<open>A run of failing passes, as long as the attempts last.\<close>

lemma sync_failures:
  assumes "lone_job s j" and "waiting j" and "spaced (jb_available_at j) ws"
    and "int (length ws) \<le> jb_max_attempts j - jb_attempt_count j"
    and "vector_sync_job W j s = (Inl err, s)"
    and err: "valid_job_error \<lparr>je_type = wk_error_name W err, je_message = error_message W err\<rparr>"
  shows "\<exists>s' r. run_jobs W ws s = (Inr (), s') \<and> lone_job s' r \<and> jb_id r = jb_id j \<and>
    jb_tenant_id r = jb_tenant_id j \<and> jb_kind r = jb_kind j \<and> jb_source_id r = jb_source_id j \<and>
    jb_max_attempts r = jb_max_attempts j \<and> jb_attempt_count r = jb_attempt_count j + int (length ws) \<and>
    (ws = [] \<longrightarrow> r = j) \<and>
    (ws \<noteq> [] \<longrightarrow> jb_last_error r = Some \<lparr>je_type = wk_error_name W err, je_message = error_message W err\<rparr> \<and>
       jb_lease_id r = None \<and> jb_available_at r \<le> w_retry_now (last ws) + seconds 300 \<and>
       jb_state r = (if jb_max_attempts r \<le> jb_attempt_count r then Job_FAILED else Job_RETRY)) \<and>
    st_memories s' = st_memories s \<and> length (st_events s') = length (st_events s) + length ws"
  using assms(1-5)
proof (induction ws arbitrary: s j)
  case Nil
  then show ?case by auto
next
  case (Cons w ws)
  from Cons.prems(3) have due: "jb_available_at j \<le> clk (w_claim w) 0"
    and nxt: "spaced (w_retry_now w + seconds 300) ws" by auto
  from sync_failure_pass[OF Cons.prems(1,2) due Cons.prems(5) err] obtain s1 where
    s1: "run_job_once W w s = (Inr True, s1)" "lone_job s1 (failed_job W w j err)"
    "st_memories s1 = st_memories s" "length (st_events s1) = Suc (length (st_events s))" by blast
  let ?f = "failed_job W w j err"
  have avail: "jb_available_at ?f \<le> w_retry_now w + seconds 300"
    using retry_delay_bounds[of "claimed_job w j"] by (simp add: seconds_def)
  show ?case
  proof (cases "ws = []")
    case True
    with s1 avail show ?thesis by (intro exI[of _ s1] exI[of _ ?f]) (simp split del: if_split)
  next
    case False
    with Cons.prems(4) have "\<not> jb_max_attempts j \<le> jb_attempt_count j + 1" by (cases ws) simp_all
    then have w: "waiting ?f" using Cons.prems(2) by (simp add: waiting_def)
    have sp: "spaced (jb_available_at ?f) ws" using spaced_mono[OF nxt avail] .
    have n: "int (length ws) \<le> jb_max_attempts ?f - jb_attempt_count ?f" using Cons.prems(4) by simp
    have f: "vector_sync_job W ?f s1 = (Inl err, s1)"
      by (rule vector_sync_local[OF Cons.prems(5) s1(3)]) simp_all
    show ?thesis
      using Cons.IH[OF s1(2) w sp n f]
      apply (elim exE)
      subgoal for s' r
        by (intro exI[of _ s'] exI[of _ r]) (use False s1 in \<open>simp split del: if_split\<close>)
      done
  qed
qed

text \<open>A worker whose index is down, and one whose index answers.\<close>

definition down_worker :: "string \<Rightarrow> worker" where
  [samples]: "down_worker msg = \<lparr>wk_extract = (\<lambda>_. []), wk_index = (\<lambda>_. Inl (OSError ''down'')), wk_sha256 = (\<lambda>_. replicate 32 0),
     wk_repr = (\<lambda>_. []), wk_error_name = (\<lambda>_. ''OSError''), wk_error_text = (\<lambda>_. msg)\<rparr>"

definition pass_at :: "datetime \<Rightarrow> worker_env" where
  [samples]: "pass_at t = \<lparr>w_lease_id = 44, w_now = t, w_claim = env_at t, w_extract = env_at t, w_enqueue = (\<lambda>_. env_at t),
     w_complete = env_at t, w_failure = env_at t, w_retry = env_at t, w_retry_now = t\<rparr>"

definition sync_job :: background_job where
  [samples]: "sync_job = sample_job\<lparr>jb_kind := Job_VECTOR_SYNC, jb_source_id := 50\<rparr>"

definition sync_store :: store where
  [samples]: "sync_store = empty_store\<lparr>st_memories := [(50, sample_memory\<lparr>mr_state := Mem_PROMOTED\<rparr>)],
     st_jobs := [(40, sync_job)]\<rparr>"

lemma sync_store_waits: "lone_job sync_store sync_job" "waiting sync_job"
  by (simp_all add: samples empty_store_def lone_job_def keyed_def waiting_def)

lemma sync_store_fails: "vector_sync_job (down_worker msg) sync_job sync_store = (Inl (OSError ''down''), sync_store)"
  by (simp add: samples empty_store_def vector_sync_job_def get_memory_def scoped_def sync_memory_def)

lemma sync_store_works:
  "vector_sync_job (down_worker msg\<lparr>wk_index := (\<lambda>_. Inr ())\<rparr>) sync_job sync_store = (Inr (), sync_store)"
  by (simp add: samples empty_store_def vector_sync_job_def get_memory_def scoped_def sync_memory_def)



text \<open>
  Fewer failures than the attempts that are left do no harm: a pass after them, by which time the
  index answers, completes the job, and the loop then has nothing to do.
\<close>

theorem recovered_sync_completes:
  assumes "lone_job s j" and "waiting j" and "spaced (jb_available_at j) (ws @ [w])"
    and "int (length ws) < jb_max_attempts j - jb_attempt_count j"
    and "vector_sync_job W j s = (Inl err, s)"
    and "valid_job_error \<lparr>je_type = wk_error_name W err, je_message = error_message W err\<rparr>"
    and "vector_sync_job W' j s = (Inr (), s)"
  shows "\<exists>s1 s' r. run_jobs W ws s = (Inr (), s1) \<and> run_job_once W' w s1 = (Inr True, s') \<and>
    map_of (st_jobs s') (jb_id j) = Some r \<and> jb_state r = Job_COMPLETED \<and>
    jb_attempt_count r = jb_attempt_count j + int (length ws) + 1 \<and>
    (\<forall>w'. run_job_once W' w' s' = (Inr False, s'))"
proof -
  have split: "spaced t (xs @ [w]) \<Longrightarrow>
      spaced t xs \<and> (if xs = [] then t else w_retry_now (last xs) + seconds 300) \<le> clk (w_claim w) 0" for t xs
    by (induction xs arbitrary: t) auto
  note sp = split[OF assms(3)]
  from sync_failures[OF assms(1,2) conjunct1[OF sp] _ assms(5,6)] assms(4) obtain s1 r where
    r: "run_jobs W ws s = (Inr (), s1)" "lone_job s1 r" "jb_id r = jb_id j" "jb_tenant_id r = jb_tenant_id j"
    "jb_kind r = jb_kind j" "jb_source_id r = jb_source_id j"
    "jb_attempt_count r = jb_attempt_count j + int (length ws)" "ws = [] \<longrightarrow> r = j"
    "ws \<noteq> [] \<longrightarrow> jb_state r = Job_RETRY \<and> jb_available_at r \<le> w_retry_now (last ws) + seconds 300"
    "st_memories s1 = st_memories s" by fastforce
  have kind: "jb_kind r = Job_VECTOR_SYNC" using r(5) assms(2) by (simp add: waiting_def)
  have state: "jb_state r \<in> {Job_PENDING, Job_RETRY}"
    using r(8,9) assms(2) by (cases "ws = []") (simp_all add: waiting_def)
  have due: "jb_available_at r \<le> clk (w_claim w) 0"
    using r(8,9) sp by (cases "ws = []") simp_all
  from sync_success_pass[OF r(2) kind state due vector_sync_local[OF assms(7) r(10,4,6)]] obtain s' where
    "run_job_once W' w s1 = (Inr True, s')" "lone_job s' (completed_job w r)" by blast
  moreover from this have "map_of (st_jobs s') (jb_id j) = Some (completed_job w r)"
    using r(3) by (simp add: lone_job_def completed_job_def)
  moreover have "jb_state (completed_job w r) = Job_COMPLETED"
    "jb_attempt_count (completed_job w r) = jb_attempt_count j + int (length ws) + 1"
    by (simp_all add: completed_job_def claimed_job_def r(7))
  ultimately show ?thesis using r(1) lone_idle[of s' "completed_job w r"] by blast
qed

theorem recovered_sync_completes_witness:
  "\<exists>s1 s' r. run_jobs (down_worker ''down'') [pass_at 100] sync_store = (Inr (), s1) \<and>
     run_job_once (down_worker ''down''\<lparr>wk_index := (\<lambda>_. Inr ())\<rparr>) (pass_at 400000000) s1 = (Inr True, s') \<and>
     map_of (st_jobs s') 40 = Some r \<and> jb_state r = Job_COMPLETED \<and> jb_attempt_count r = 2"
proof -
  have "spaced (jb_available_at sync_job) ([pass_at 100] @ [pass_at 400000000])"
    by (simp add: samples seconds_def)
  from recovered_sync_completes[OF sync_store_waits this _ sync_store_fails[of "''down''"] _ sync_store_works[of "''down''"]]
  show ?thesis by (fastforce simp: samples error_message_def valid_job_error_def str_between_def)
qed

text \<open>
  The handler of a failure can fail itself: an exception whose text is longer than the 4,000
  characters a stored job error takes ends the loop, the remaining passes never run, and the job stays
  RUNNING under its lease with the failure reported in the audit log only.
\<close>

theorem long_error_ends_loop:
  assumes "lone_job s j" and "waiting j" and "jb_available_at j \<le> clk (w_claim w) 0"
    and "vector_sync_job W j s = (Inl err, s)" and "4000 < length (wk_error_text W err)"
  shows "\<exists>s' r. run_jobs W (w # ws) s = (Inl (ValidationError ''JobError''), s') \<and>
    map_of (st_jobs s') (jb_id j) = Some r \<and> jb_state r = Job_RUNNING \<and> jb_lease_id r = Some (w_lease_id w) \<and>
    jb_last_error r = jb_last_error j \<and> length (st_events s') = Suc (length (st_events s))"
proof -
  from assms(2,3) have first: "first_claimable (clk (w_claim w) 0) s = Some j"
    by (intro lone_first[OF assms(1)]) (auto simp: waiting_def claimable_job_def)
  note c = claim_first[OF first]
  have "vector_sync_job W (claimed_job w j) (claimed_store w j s) = (Inl err, claimed_store w j s)"
    by (rule vector_sync_local[OF assms(4) c(3)]) simp_all
  moreover from assms(5) have "\<not> valid_job_error \<lparr>je_type = wk_error_name W err, je_message = error_message W err\<rparr>"
    by (auto simp: valid_job_error_def str_between_def error_message_def)
  ultimately show ?thesis using assms(2)
    by (simp add: run_job_once_def c(1) process_job_def waiting_def job_failed_def Let_def append_event_def
        c(2,4) update_conv', simp add: claimed_job_def)
qed

theorem long_error_ends_loop_witness:
  "\<exists>s'. run_jobs (down_worker (replicate 4001 CHR ''x'')) [pass_at 100, pass_at 400000000] sync_store =
     (Inl (ValidationError ''JobError''), s')"
  using long_error_ends_loop[OF sync_store_waits _ sync_store_fails[of "replicate 4001 CHR ''x''"],
      of "pass_at 100" "[pass_at 400000000]"]
  by (fastforce simp: samples)

end
