(* ===== verification/Tools.thy ===== *)
theory Tools
  imports Context Uuid Policy "HOL-Library.List_Lexorder" "HOL-Library.Char_ord"
begin

text \<open>
  The local tools of \<^verbatim>\<open>apps/astra-agent-api/src/astra_agent/tools.py\<close>: the workspace-relative path check,
  the three file tools, the sandboxed command runner and the registry that dispatches a call under the
  tenant's grants. The file system is a tree (\<open>node\<close>), read as it is at the moment of the call; errors
  of the operating system on its entries are not modelled. Bytes are the characters of a \<open>string\<close>;
  \<open>decode\<close> is \<^verbatim>\<open>bytes.decode("utf-8", errors="replace")\<close>, and \<open>exec\<close> is the container engine.
\<close>

section \<open>Results and definitions\<close>

record tool_result =
  tr_success :: bool
  tr_content :: string
  tr_error :: "string option"
  tr_data :: "(string, json) dict"

definition failed_result :: "string \<Rightarrow> tool_result" where
  "failed_result err = \<lparr>tr_success = False, tr_content = [], tr_error = Some err, tr_data = []\<rparr>"

record tool_definition =
  td_name :: string
  td_description :: string
  td_parameters :: json

text \<open>A string of the arguments of a call, \<^verbatim>\<open>isinstance(v, str)\<close>; \<^verbatim>\<open>d.get(k)\<close> is \<open>JNull\<close> when there is none.\<close>

definition json_text :: "json \<Rightarrow> string option" where
  "json_text j = (case j of JStr s \<Rightarrow> Some s | JId u \<Rightarrow> Some (uuid_text u) | _ \<Rightarrow> None)"

definition get_or :: "json \<Rightarrow> (string, json) dict \<Rightarrow> string \<Rightarrow> json" where
  "get_or otherwise d k = (case map_of d k of None \<Rightarrow> otherwise | Some v \<Rightarrow> v)"

text \<open>\<^verbatim>\<open>str(n)\<close> of an integer.\<close>

fun nat_text :: "nat \<Rightarrow> string" where
  "nat_text n = (if n < 10 then [] else nat_text (n div 10)) @ [char_of (48 + n mod 10)]"

declare nat_text.simps [simp del]

definition int_text :: "int \<Rightarrow> string" where
  "int_text i = (if i < 0 then ''-'' @ nat_text (nat (- i)) else nat_text (nat i))"

section \<open>The file system\<close>

datatype node = File string | Directory "(string \<times> node) list" | Symlink string | Special

text \<open>The entry at an absolute path none of whose proper prefixes is a symbolic link.\<close>

fun entry_at :: "node \<Rightarrow> string list \<Rightarrow> node option" where
  "entry_at n [] = Some n"
| "entry_at (Directory es) (p # ps) = (case map_of es p of None \<Rightarrow> None | Some m \<Rightarrow> entry_at m ps)"
| "entry_at n (p # ps) = None"

definition is_symlink :: "node \<Rightarrow> string list \<Rightarrow> bool" where
  "is_symlink fs p = (case entry_at fs p of Some (Symlink _) \<Rightarrow> True | _ \<Rightarrow> False)"

text \<open>\<^verbatim>\<open>text.split("/")\<close>, \<^verbatim>\<open>PurePath(text).parts\<close> without the root, and \<^verbatim>\<open>is_absolute()\<close>.\<close>

fun path_split :: "string \<Rightarrow> string \<Rightarrow> string list" where
  "path_split acc [] = [rev acc]"
| "path_split acc (c # s) = (if c = CHR ''/'' then rev acc # path_split [] s else path_split (c # acc) s)"

definition pure_parts :: "string \<Rightarrow> string list" where
  "pure_parts s = filter (\<lambda>p. p \<noteq> [] \<and> p \<noteq> ''.'') (path_split [] s)"

definition is_absolute :: "string \<Rightarrow> bool" where
  "is_absolute s = (case s of c # _ \<Rightarrow> c = CHR ''/'' | [] \<Rightarrow> False)"

text \<open>
  \<^verbatim>\<open>os.path.realpath\<close>: \<open>seen\<close> maps the links met so far to what they resolve to, \<open>None\<close> while one is
  being resolved; meeting such a link again is a loop (\<open>False\<close>). The first argument bounds how many
  links are open at a time, so the number of links of the tree is enough.
\<close>

type_synonym seen_links = "(string list, string list option) dict"

fun realpath :: "nat \<Rightarrow> node \<Rightarrow> seen_links \<Rightarrow> string list \<Rightarrow> string list \<Rightarrow> string list \<times> bool \<times> seen_links" where
  "realpath d fs seen path [] = (path, True, seen)"
| "realpath d fs seen path (name # rest) =
     (if name = [] \<or> name = ''.'' then realpath d fs seen path rest
      else if name = ''..'' then realpath d fs seen (butlast path) rest
      else (case entry_at fs (path @ [name]) of
              Some (Symlink target) \<Rightarrow>
                (case map_of seen (path @ [name]) of
                   Some (Some p) \<Rightarrow> realpath d fs seen p rest
                 | Some None \<Rightarrow> (path @ [name] @ rest, False, seen)
                 | None \<Rightarrow>
                     (case d of
                        0 \<Rightarrow> (path @ [name] @ rest, False, seen)
                      | Suc d' \<Rightarrow>
                          (case realpath d' fs ((path @ [name], None) # seen)
                                  (if is_absolute target then [] else path) (path_split [] target) of
                             (p, ok, seen') \<Rightarrow>
                               if ok then realpath d fs ((path @ [name], Some p) # seen') p rest
                               else (p @ rest, False, seen'))))
            | _ \<Rightarrow> realpath d fs seen (path @ [name]) rest))"

fun symlinks :: "node \<Rightarrow> nat" where
  "symlinks (Symlink t) = 1"
| "symlinks (Directory es) = sum_list (map (\<lambda>(_, n). symlinks n) es)"
| "symlinks _ = 0"

text \<open>\<^verbatim>\<open>path.resolve(strict=False)\<close>, which raises \<^verbatim>\<open>RuntimeError\<close> on a loop.\<close>

definition resolve :: "node \<Rightarrow> string list \<Rightarrow> error + string list" where
  "resolve fs path = (case realpath (symlinks fs) fs [] [] path of
     (p, ok, _) \<Rightarrow> if ok then Inr p else Inl (RuntimeError ''Symlink loop''))"

section \<open>Paths of a workspace\<close>

fun has_symlink :: "node \<Rightarrow> string list \<Rightarrow> string list \<Rightarrow> bool" where
  "has_symlink fs current [] = False"
| "has_symlink fs current (component # parts) =
     (is_symlink fs (current @ [component]) \<or> has_symlink fs (current @ [component]) parts)"

definition relative_workspace_path :: "node \<Rightarrow> string list \<Rightarrow> json \<Rightarrow> error + string list" where
  "relative_workspace_path fs base value =
     (case json_text value of
        None \<Rightarrow> Inl (ValueError ''path must be a non-empty workspace-relative string'')
      | Some text \<Rightarrow>
          if text = [] then Inl (ValueError ''path must be a non-empty workspace-relative string'')
          else if is_absolute text \<or> ''..'' \<in> set (pure_parts text)
          then Inl (ValueError (''path must be workspace-relative and may not contain '' @ [CHR 0x27] @ ''..'' @ [CHR 0x27]))
          else if has_symlink fs base (pure_parts text)
          then Inl (ValueError ''symbolic links are not allowed in workspace paths'')
          else
            (case resolve fs (base @ pure_parts text) of
               Inl err \<Rightarrow> Inl err
             | Inr resolved \<Rightarrow>
                 if prefix base resolved then Inr resolved
                 else Inl (ValueError ''path escapes workspace'')))"

text \<open>\<^verbatim>\<open>str(path.relative_to(base))\<close>.\<close>

definition relative_text :: "string list \<Rightarrow> string list \<Rightarrow> string" where
  "relative_text base path =
     (case drop (length base) path of [] \<Rightarrow> ''.'' | ps \<Rightarrow> join ''/'' ps)"

text \<open>
  The handler \<^verbatim>\<open>except (OSError, ValueError)\<close> around the path check: \<open>Inr (Inl r)\<close> is the failed result,
  another exception leaves the tool.
\<close>

definition workspace_path :: "node \<Rightarrow> string list \<Rightarrow> json \<Rightarrow> error + (tool_result + string list)" where
  "workspace_path fs base value =
     (case relative_workspace_path fs base value of
        Inl (ValueError m) \<Rightarrow> Inr (Inl (failed_result m))
      | Inl (OSError m) \<Rightarrow> Inr (Inl (failed_result m))
      | Inl err \<Rightarrow> Inl err
      | Inr p \<Rightarrow> Inr (Inr p))"

section \<open>The file tools\<close>

definition read_file_execute ::
  "int \<Rightarrow> (string \<Rightarrow> string) \<Rightarrow> node \<Rightarrow> string list \<Rightarrow> (string, json) dict \<Rightarrow> error + tool_result" where
  "read_file_execute max_bytes decode fs base params =
     ebind (workspace_path fs base (get_or JNull params ''path'')) (\<lambda>checked_path.
     case checked_path of
       Inl r \<Rightarrow> Inr r
     | Inr path \<Rightarrow>
         (case entry_at fs path of
            Some (File bytes) \<Rightarrow>
              let content = slice_to (max_bytes + 1) bytes;
                  truncated = int (length content) > max_bytes
              in Inr \<lparr>tr_success = True, tr_content = decode (slice_to max_bytes content), tr_error = None,
                      tr_data = [(''path'', JStr (relative_text base path)), (''truncated'', JBool truncated)]\<rparr>
          | _ \<Rightarrow> Inr (failed_result ''path is not a regular file'')))"

fun entry_name :: "string \<times> node \<Rightarrow> string" where
  "entry_name (name, Directory _) = name @ ''/''"
| "entry_name (name, _) = name"

fun is_link_entry :: "string \<times> node \<Rightarrow> bool" where
  "is_link_entry (name, Symlink _) = True"
| "is_link_entry (name, _) = False"

definition list_directory_execute ::
  "int \<Rightarrow> node \<Rightarrow> string list \<Rightarrow> (string, json) dict \<Rightarrow> error + tool_result" where
  "list_directory_execute max_entries fs base params =
     ebind (workspace_path fs base (get_or (JStr ''.'') params ''path'')) (\<lambda>checked_path.
     case checked_path of
       Inl r \<Rightarrow> Inr r
     | Inr path \<Rightarrow>
         (case entry_at fs path of
            Some (Directory es) \<Rightarrow>
              let entries = sort_key casefold (map entry_name (filter (\<lambda>e. \<not> is_link_entry e) es));
                  truncated = int (length entries) > max_entries
              in Inr \<lparr>tr_success = True, tr_content = join newline (slice_to max_entries entries), tr_error = None,
                      tr_data = [(''path'', JStr (relative_text base path)), (''truncated'', JBool truncated)]\<rparr>
          | _ \<Rightarrow> Inr (failed_result ''path is not a directory'')))"

text \<open>
  \<^verbatim>\<open>os.walk(start, followlinks=False)\<close> with the links among the directories removed: each directory with
  the names of its other entries, a directory before what is below it. (A link to a directory counts as
  a file name here; the path check refuses it, so it makes no difference.)
\<close>

fun is_directory_entry :: "string \<times> node \<Rightarrow> bool" where
  "is_directory_entry (name, Directory _) = True"
| "is_directory_entry (name, _) = False"

fun walk :: "string list \<Rightarrow> node \<Rightarrow> (string list \<times> string list) list" where
  "walk dir (Directory es) =
     (dir, map fst (filter (\<lambda>e. \<not> is_directory_entry e) es)) #
     concat (map (\<lambda>(name, n). walk (dir @ [name]) n) es)"
| "walk dir _ = []"

record search_limits =
  sl_max_file_bytes :: int
  sl_max_files :: int
  sl_max_matches :: int
  sl_max_output_bytes :: int

definition output_size :: "string list \<Rightarrow> nat" where
  "output_size matches = sum_list (map (\<lambda>m. length m + 1) matches)"

text \<open>The lines of a file: \<open>True\<close> when the output limit ends the search.\<close>

fun search_lines ::
  "search_limits \<Rightarrow> string \<Rightarrow> string \<Rightarrow> nat \<Rightarrow> string list \<Rightarrow> string list \<Rightarrow> bool \<times> string list" where
  "search_lines L query_folded file n [] matches = (False, matches)"
| "search_lines L query_folded file n (line # lines) matches =
     (if \<not> contains query_folded (casefold line)
      then search_lines L query_folded file (Suc n) lines matches
      else
        let m = file @ '':'' @ nat_text n @ '':'' @ line in
        if int (output_size matches + length m) > sl_max_output_bytes L then (True, matches)
        else if int (length (matches @ [m])) \<ge> sl_max_matches L then (False, matches @ [m])
        else search_lines L query_folded file (Suc n) lines (matches @ [m]))"

definition search_full :: "search_limits \<Rightarrow> nat \<Rightarrow> string list \<Rightarrow> bool" where
  "search_full L scanned matches \<longleftrightarrow>
     int scanned \<ge> sl_max_files L \<or> int (length matches) \<ge> sl_max_matches L"

text \<open>The files of a directory, up to the limits.\<close>

fun search_names ::
  "search_limits \<Rightarrow> (string \<Rightarrow> string) \<Rightarrow> node \<Rightarrow> string list \<Rightarrow> string \<Rightarrow> string list \<Rightarrow> string list \<Rightarrow>
   nat \<Rightarrow> string list \<Rightarrow> error + (bool \<times> nat \<times> string list)" where
  "search_names L decode fs base query_folded dir [] scanned matches = Inr (False, scanned, matches)"
| "search_names L decode fs base query_folded dir (name # names) scanned matches =
     (if search_full L scanned matches then Inr (False, scanned, matches)
      else
        (case relative_workspace_path fs base (JStr (relative_text base (dir @ [name]))) of
           Inl (ValueError _) \<Rightarrow> search_names L decode fs base query_folded dir names scanned matches
         | Inl (OSError _) \<Rightarrow> search_names L decode fs base query_folded dir names scanned matches
         | Inl err \<Rightarrow> Inl err
         | Inr path \<Rightarrow>
             (case entry_at fs path of
                Some (File bytes) \<Rightarrow>
                  (case search_lines L query_folded (relative_text base path) 1
                          (splitlines (decode (slice_to (sl_max_file_bytes L) bytes))) matches of
                     (True, ms) \<Rightarrow> Inr (True, Suc scanned, ms)
                   | (False, ms) \<Rightarrow> search_names L decode fs base query_folded dir names (Suc scanned) ms)
              | _ \<Rightarrow> search_names L decode fs base query_folded dir names scanned matches)))"

fun search_walk ::
  "search_limits \<Rightarrow> (string \<Rightarrow> string) \<Rightarrow> node \<Rightarrow> string list \<Rightarrow> string \<Rightarrow>
   (string list \<times> string list) list \<Rightarrow> nat \<Rightarrow> string list \<Rightarrow> error + (bool \<times> nat \<times> string list)" where
  "search_walk L decode fs base query_folded [] scanned matches = Inr (False, scanned, matches)"
| "search_walk L decode fs base query_folded ((dir, names) # dirs) scanned matches =
     ebind (search_names L decode fs base query_folded dir names scanned matches)
       (\<lambda>(early, scanned1, matches1).
          if early then Inr (True, scanned1, matches1)
          else if search_full L scanned1 matches1 then Inr (False, scanned1, matches1)
          else search_walk L decode fs base query_folded dirs scanned1 matches1)"

definition search_files_execute ::
  "search_limits \<Rightarrow> (string \<Rightarrow> string) \<Rightarrow> node \<Rightarrow> string list \<Rightarrow> (string, json) dict \<Rightarrow> error + tool_result" where
  "search_files_execute L decode fs base params =
     (case json_text (get_or JNull params ''query'') of
        None \<Rightarrow> Inr (failed_result ''query must be a non-empty string'')
      | Some query \<Rightarrow>
          if query = [] then Inr (failed_result ''query must be a non-empty string'')
          else
            ebind (workspace_path fs base (get_or (JStr ''.'') params ''path'')) (\<lambda>checked_path.
            case checked_path of
              Inl r \<Rightarrow> Inr r
            | Inr start \<Rightarrow>
                (case entry_at fs start of
                   Some (Directory es) \<Rightarrow>
                     ebind (search_walk L decode fs base (casefold query) (walk start (Directory es)) 0 [])
                       (\<lambda>(early, scanned, matches).
                          Inr \<lparr>tr_success = True, tr_content = join newline matches, tr_error = None,
                               tr_data = [(''truncated'', JBool (early \<or> search_full L scanned matches)),
                                          (''scanned_files'', JInt (int scanned))]\<rparr>)
                 | _ \<Rightarrow> Inr (failed_result ''path is not a directory''))))"

section \<open>The sandbox\<close>

record sandbox =
  sb_executable :: string
  sb_image :: string
  sb_max_output_bytes :: int
  sb_memory_limit :: string
  sb_cpu_limit :: string
  sb_pids_limit :: int

text \<open>
  What becomes of a container: it does not start, it is killed after the timeout, or it ends with an
  exit code after writing these chunks to its standard output and error.
\<close>

datatype process_outcome = Not_started string | Timed_out | Exited int "string list" "string list"

definition sandbox_command :: "sandbox \<Rightarrow> string list \<Rightarrow> string list \<Rightarrow> string list" where
  "sandbox_command sb workspace argv =
     [sb_executable sb, ''run'', ''--rm'', ''--network'', ''none'', ''--read-only'', ''--tmpfs'',
      ''/tmp:rw,noexec,nosuid,size=64m'', ''--security-opt'', ''no-new-privileges'',
      ''--pids-limit'', int_text (sb_pids_limit sb), ''--memory'', sb_memory_limit sb,
      ''--cpus'', sb_cpu_limit sb, ''--volume'', ''/'' @ join ''/'' workspace @ '':/workspace:ro'',
      ''--workdir'', ''/workspace'', ''--env'', ''HOME=/tmp'', ''--env'', ''PATH=/usr/bin:/bin'',
      ''--env'', ''LANG=C'', ''--env'', ''LC_ALL=C'', sb_image sb] @ argv"

text \<open>\<^verbatim>\<open>_read_bounded\<close>: an empty chunk is the end of the stream.\<close>

fun read_bounded :: "int \<Rightarrow> string list \<Rightarrow> string list \<Rightarrow> int \<Rightarrow> bool \<Rightarrow> string \<times> bool" where
  "read_bounded max_output [] chunks used truncated = (concat chunks, truncated)"
| "read_bounded max_output (chunk # stream) chunks used truncated =
     (if chunk = [] then (concat chunks, truncated)
      else
        let remaining = max_output - used;
            truncated' = (truncated \<or> int (length chunk) > remaining)
        in if remaining > 0
           then read_bounded max_output stream (chunks @ [slice_to remaining chunk])
                  (used + min (int (length chunk)) remaining) truncated'
           else read_bounded max_output stream chunks used truncated')"

definition sandbox_result :: "sandbox \<Rightarrow> (string \<Rightarrow> string) \<Rightarrow> process_outcome \<Rightarrow> error + tool_result" where
  "sandbox_result sb decode outcome =
     (case outcome of
        Not_started m \<Rightarrow> Inl (OSError m)
      | Timed_out \<Rightarrow> Inr (failed_result ''sandbox command timed out'')
      | Exited code out err \<Rightarrow>
          let stdout = read_bounded (sb_max_output_bytes sb) out [] 0 False;
              stderr = read_bounded (sb_max_output_bytes sb) err [] 0 False
          in Inr \<lparr>tr_success = (code = 0), tr_content = decode (fst stdout),
                  tr_error = (if code = 0 then None else Some (decode (fst stderr))),
                  tr_data = [(''exit_code'', JInt code),
                             (''output_truncated'', JBool (snd stdout \<or> snd stderr))]\<rparr>)"

text \<open>\<^verbatim>\<open>argv\<close> as a non-empty list of non-empty strings.\<close>

definition argv_of :: "json \<Rightarrow> string list option" where
  "argv_of j = (case j of
     JList items \<Rightarrow>
       (case those (map json_text items) of
          Some argv \<Rightarrow> if argv \<noteq> [] \<and> [] \<notin> set argv then Some argv else None
        | None \<Rightarrow> None)
   | _ \<Rightarrow> None)"

text \<open>The result and, when a container is started, its command line.\<close>

definition run_command_execute ::
  "sandbox \<Rightarrow> (string \<Rightarrow> string) \<Rightarrow> (string list \<Rightarrow> process_outcome) \<Rightarrow> string list \<Rightarrow> (string, json) dict \<Rightarrow>
   string list option \<times> (error + tool_result)" where
  "run_command_execute sb decode exec base params =
     (case argv_of (get_or JNull params ''argv'') of
        None \<Rightarrow> (None, Inr (failed_result ''argv must be a non-empty array of non-empty strings''))
      | Some argv \<Rightarrow>
          (Some (sandbox_command sb base argv),
           sandbox_result sb decode (exec (sandbox_command sb base argv))))"

section \<open>The registry\<close>

record workspace =
  ws_root :: "string list"
  ws_grants :: "capability list"

record tool_settings =
  ts_workspaces :: "(uuid, workspace) dict"
  ts_read_max_bytes :: int
  ts_search_limits :: search_limits
  ts_sandbox :: "sandbox option"

text \<open>What the tools find outside the program at a moment.\<close>

record machine =
  mc_files :: node
  mc_exec :: "string list \<Rightarrow> process_outcome"

datatype local_tool = Read_file | List_directory | Search_files | Run_command sandbox

definition FILE_READ_CAPABILITY :: capability where
  "FILE_READ_CAPABILITY = \<lparr>cap_kind = FILE_READ, cap_scope = ''workspace''\<rparr>"

definition COMMAND_EXECUTE_CAPABILITY :: capability where
  "COMMAND_EXECUTE_CAPABILITY = \<lparr>cap_kind = COMMAND_EXECUTE, cap_scope = ''workspace''\<rparr>"

fun tool_capability :: "local_tool \<Rightarrow> capability" where
  "tool_capability (Run_command _) = COMMAND_EXECUTE_CAPABILITY"
| "tool_capability _ = FILE_READ_CAPABILITY"

definition object_schema :: "(string, json) dict \<Rightarrow> string list \<Rightarrow> json" where
  "object_schema properties required =
     JObj ([(''type'', JStr ''object''), (''properties'', JObj properties)] @
           (if required = [] then [] else [(''required'', JList (map JStr required))]) @
           [(''additionalProperties'', JBool False)])"

definition string_schema :: json where
  "string_schema = JObj [(''type'', JStr ''string'')]"

definition nonempty_string_schema :: json where
  "nonempty_string_schema = JObj [(''type'', JStr ''string''), (''minLength'', JInt 1)]"

definition path_schema :: json where
  "path_schema = JObj [(''type'', JStr ''string''), (''default'', JStr ''.'')]"

definition argv_schema :: json where
  "argv_schema = JObj [(''type'', JStr ''array''), (''items'', string_schema), (''minItems'', JInt 1)]"

fun tool_definition_of :: "local_tool \<Rightarrow> tool_definition" where
  "tool_definition_of Read_file =
     \<lparr>td_name = ''read_file'',
      td_description = ''Read a text file under /workspace, with a configured size limit. '' @
        ''Use paths relative to /workspace, for example downloads/notes.txt.'',
      td_parameters = object_schema [(''path'', string_schema)] [''path'']\<rparr>"
| "tool_definition_of List_directory =
     \<lparr>td_name = ''list_directory'',
      td_description = ''List immediate non-symlink entries under /workspace. Use paths relative to '' @
        ''/workspace, for example downloads/.'',
      td_parameters = object_schema [(''path'', path_schema)] []\<rparr>"
| "tool_definition_of Search_files =
     \<lparr>td_name = ''search_files'',
      td_description = ''Literal, case-insensitive search of text files under /workspace. Use paths '' @
        ''relative to /workspace, for example downloads/.'',
      td_parameters = object_schema [(''query'', nonempty_string_schema), (''path'', path_schema)] [''query'']\<rparr>"
| "tool_definition_of (Run_command _) =
     \<lparr>td_name = ''run_command'',
      td_description = ''Run an argv command in the configured isolated workspace sandbox.'',
      td_parameters = object_schema [(''argv'', argv_schema)] [''argv'']\<rparr>"

text \<open>\<^verbatim>\<open>LocalToolRegistry.__init__\<close>: the command tool exists only with a configured sandbox.\<close>

definition registry_tools :: "tool_settings \<Rightarrow> (string, local_tool) dict" where
  "registry_tools ts =
     [(''read_file'', Read_file), (''list_directory'', List_directory), (''search_files'', Search_files)] @
     (case ts_sandbox ts of None \<Rightarrow> [] | Some sb \<Rightarrow> [(''run_command'', Run_command sb)])"

definition offered :: "workspace \<Rightarrow> local_tool \<Rightarrow> bool" where
  "offered ws tool \<longleftrightarrow>
     allowed (evaluate_capability (tool_capability tool) (ws_grants ws) None) \<or>
     (cap_kind (tool_capability tool) = COMMAND_EXECUTE \<and>
      allowed (evaluate_capability (tool_capability tool) (ws_grants ws) (Some Appr_GRANTED)))"

definition tool_definitions :: "tool_settings \<Rightarrow> uuid \<Rightarrow> tool_definition list" where
  "tool_definitions ts tenant_id =
     (case map_of (ts_workspaces ts) tenant_id of
        None \<Rightarrow> []
      | Some ws \<Rightarrow> map tool_definition_of (filter (offered ws) (map snd (registry_tools ts))))"

fun tool_execute ::
  "tool_settings \<Rightarrow> (string \<Rightarrow> string) \<Rightarrow> machine \<Rightarrow> local_tool \<Rightarrow> string list \<Rightarrow> (string, json) dict \<Rightarrow>
   string list option \<times> (error + tool_result)" where
  "tool_execute ts decode mc Read_file base params =
     (None, read_file_execute (ts_read_max_bytes ts) decode (mc_files mc) base params)"
| "tool_execute ts decode mc List_directory base params =
     (None, list_directory_execute (sl_max_files (ts_search_limits ts)) (mc_files mc) base params)"
| "tool_execute ts decode mc Search_files base params =
     (None, search_files_execute (ts_search_limits ts) decode (mc_files mc) base params)"
| "tool_execute ts decode mc (Run_command sb) base params =
     run_command_execute sb decode (mc_exec mc) base params"

definition dispatch ::
  "tool_settings \<Rightarrow> (string \<Rightarrow> string) \<Rightarrow> machine \<Rightarrow> uuid \<Rightarrow> string \<Rightarrow> (string, json) dict \<Rightarrow>
   approval_state option \<Rightarrow> string list option \<times> (error + tool_result)" where
  "dispatch ts decode mc tenant_id name params approval_state =
     (case (map_of (ts_workspaces ts) tenant_id, map_of (registry_tools ts) name) of
        (Some ws, Some tool) \<Rightarrow>
          let decision = evaluate_capability (tool_capability tool) (ws_grants ws) approval_state in
          if \<not> allowed decision
          then (None, Inr \<lparr>tr_success = False, tr_content = [], tr_error = Some (reason decision),
                           tr_data = [(''requires_approval'', JBool (requires_approval decision))]\<rparr>)
          else tool_execute ts decode mc tool (ws_root ws) params
      | _ \<Rightarrow> (None, Inr (failed_result ''local tool is unavailable'')))"

text \<open>\<^verbatim>\<open>Path(s).name\<close>, the last part of a path.\<close>

definition path_name :: "string \<Rightarrow> string" where
  "path_name s = (case rev (pure_parts s) of [] \<Rightarrow> [] | p # _ \<Rightarrow> p)"

end
