(* ===== verification/PathResolution.thy ===== *)
theory PathResolution
  imports Tools
begin

text \<open>
  \<^verbatim>\<open>os.path.realpath\<close> ends on every tree, link loops included: the bound on nested links that \<open>resolve\<close> passes
  to \<open>realpath\<close> is never what stops it.
\<close>

definition links :: "node \<Rightarrow> string list set" where
  "links fs = {p. is_symlink fs p}"

fun link_list :: "node \<Rightarrow> string list list" where
  "link_list (Symlink t) = [[]]"
| "link_list (Directory es) = concat (map (\<lambda>(name, n). map ((#) name) (link_list n)) es)"
| "link_list _ = []"

lemma length_link_list: "length (link_list fs) = symlinks fs"
proof (induction fs)
  case (Directory es)
  have "length (concat (map (\<lambda>(name, n). map ((#) name) (link_list n)) es)) = (\<Sum>(_, n) \<leftarrow> es. symlinks n)"
  proof -
    have "\<forall>(name, n) \<in> set es. length (link_list n) = symlinks n" using Directory by auto
    then show ?thesis by (induction es) auto
  qed
  then show ?case by simp
qed simp_all

lemma link_in_list: "entry_at fs p = Some (Symlink t) \<Longrightarrow> p \<in> set (link_list fs)"
proof (induction p arbitrary: fs)
  case Nil
  then show ?case by simp
next
  case (Cons name p)
  then obtain es m where "fs = Directory es" "map_of es name = Some m" "entry_at m p = Some (Symlink t)"
    by (cases fs) (auto split: option.splits)
  with Cons.IH show ?case by (force dest: map_of_SomeD)
qed

lemma links_bounded: "finite (links fs)" "card (links fs) \<le> symlinks fs"
proof -
  have sub: "links fs \<subseteq> set (link_list fs)"
  proof
    fix p
    assume "p \<in> links fs"
    then obtain t where "entry_at fs p = Some (Symlink t)"
      by (cases "entry_at fs p"; cases "the (entry_at fs p)") (auto simp: links_def is_symlink_def)
    then show "p \<in> set (link_list fs)" by (rule link_in_list)
  qed
  then show "finite (links fs)" by (rule finite_subset) simp
  have "card (links fs) \<le> card (set (link_list fs))" by (rule card_mono[OF _ sub]) simp
  also have "\<dots> \<le> symlinks fs" using card_length[of "link_list fs"] by (simp add: length_link_list)
  finally show "card (links fs) \<le> symlinks fs" .
qed

text \<open>The links being resolved.\<close>

definition opened :: "seen_links \<Rightarrow> string list set" where
  "opened seen = {p. map_of seen p = Some None}"

text \<open>One equation of \<open>realpath\<close> per branch.\<close>

lemma realpath_skip: "name = [] \<or> name = ''.'' \<Longrightarrow> realpath d fs seen path (name # rest) = realpath d fs seen path rest"
  by simp

lemma realpath_up: "realpath d fs seen path (''..'' # rest) = realpath d fs seen (butlast path) rest"
  by simp

lemma realpath_entry:
  "name \<noteq> [] \<Longrightarrow> name \<noteq> ''.'' \<Longrightarrow> name \<noteq> ''..'' \<Longrightarrow> \<nexists>t. entry_at fs (path @ [name]) = Some (Symlink t) \<Longrightarrow>
     realpath d fs seen path (name # rest) = realpath d fs seen (path @ [name]) rest"
  by (cases "entry_at fs (path @ [name])"; cases "the (entry_at fs (path @ [name]))") auto

lemma realpath_link:
  "name \<noteq> [] \<Longrightarrow> name \<noteq> ''.'' \<Longrightarrow> name \<noteq> ''..'' \<Longrightarrow> entry_at fs (path @ [name]) = Some (Symlink t) \<Longrightarrow>
     realpath d fs seen path (name # rest) =
       (case map_of seen (path @ [name]) of
          Some (Some p) \<Rightarrow> realpath d fs seen p rest
        | Some None \<Rightarrow> (path @ [name] @ rest, False, seen)
        | None \<Rightarrow>
            (case d of
               0 \<Rightarrow> (path @ [name] @ rest, False, seen)
             | Suc d' \<Rightarrow>
                 (case realpath d' fs ((path @ [name], None) # seen) (if is_absolute t then [] else path) (path_split [] t) of
                    (p, ok, seen') \<Rightarrow>
                      if ok then realpath d fs ((path @ [name], Some p) # seen') p rest
                      else (p @ rest, False, seen'))))"
  by simp

declare realpath.simps(2) [simp del]

definition same_result :: "node \<Rightarrow> nat \<Rightarrow> nat \<Rightarrow> seen_links \<Rightarrow> string list \<Rightarrow> string list \<Rightarrow> bool" where
  "same_result fs d d' seen path rest \<longleftrightarrow> realpath d' fs seen path rest = realpath d fs seen path rest \<and>
     (\<forall>p seen'. realpath d fs seen path rest = (p, True, seen') \<longrightarrow> opened seen' = opened seen)"

lemma opened_enter: "map_of seen q = None \<Longrightarrow> opened ((q, None) # seen) = insert q (opened seen)"
  by (auto simp: opened_def)

lemma opened_leave: "opened seen' = insert q (opened seen) \<Longrightarrow> map_of seen q = None \<Longrightarrow>
    opened ((q, Some p) # seen') = opened seen"
  by (auto simp: opened_def set_eq_iff)

lemma new_link: "q \<in> links fs \<Longrightarrow> map_of seen q = None \<Longrightarrow>
    card (links fs - opened seen) = Suc (card (links fs - insert q (opened seen)))"
proof -
  assume "q \<in> links fs" "map_of seen q = None"
  then have "q \<in> links fs - opened seen" by (simp add: opened_def)
  moreover have "links fs - insert q (opened seen) = (links fs - opened seen) - {q}" by blast
  ultimately show ?thesis using card.remove[of "links fs - opened seen" q] links_bounded(1)[of fs] by simp
qed

lemma realpath_unbounded:
  "card (links fs - opened seen) \<le> d \<Longrightarrow> card (links fs - opened seen) \<le> d' \<Longrightarrow> same_result fs d d' seen path rest"
proof (induction d fs seen path rest arbitrary: d' rule: realpath.induct)
  case (1 d fs seen path)
  then show ?case by (simp add: same_result_def)
next
  case (2 d fs seen path name rest)
  let ?q = "path @ [name]"
  show ?case
  proof (cases "name = [] \<or> name = ''.''")
    case True
    from "2.IH"(1)[OF True "2.prems"] show ?thesis unfolding same_result_def realpath_skip[OF True] .
  next
    case False
    show ?thesis
    proof (cases "name = ''..''")
      case up: True
      from "2.IH"(2)[OF False up "2.prems"] show ?thesis unfolding same_result_def up realpath_up .
    next
      case named: False
      show ?thesis
      proof (cases "\<exists>t. entry_at fs ?q = Some (Symlink t)")
        case plain: False
        have "same_result fs d d' seen ?q rest"
        proof (cases "entry_at fs ?q")
          case None
          from "2.IH"(3)[OF False named None "2.prems"] show ?thesis .
        next
          case (Some n)
          with plain "2.IH"(4,5,9)[OF False named Some _ "2.prems"] show ?thesis by (cases n) auto
        qed
        then show ?thesis using False named plain by (simp add: same_result_def realpath_entry)
      next
        case True
        then obtain t where t: "entry_at fs ?q = Some (Symlink t)" by blast
        then have q: "?q \<in> links fs" by (simp add: links_def is_symlink_def)
        have nonempty: "name \<noteq> []" "name \<noteq> ''.''" using False by blast+
        note eq = realpath_link[OF nonempty named t]
        show ?thesis
        proof (cases "map_of seen ?q")
          case (Some target)
          show ?thesis
          proof (cases target)
            case None
            with Some show ?thesis by (simp add: same_result_def eq)
          next
            case resolved: (Some p)
            from "2.IH"(8)[OF False named t refl Some resolved "2.prems"] Some resolved show ?thesis
              by (simp add: same_result_def eq)
          qed
        next
          case None
          let ?seen = "(?q, None) # seen" and ?from = "if is_absolute t then [] else path"
          note k = new_link[OF q None] opened_enter[OF None]
          obtain n where n: "d = Suc n" using "2.prems"(1) k by (cases d) auto
          obtain n' where n': "d' = Suc n'" using "2.prems"(2) k by (cases d') auto
          have inner: "same_result fs n n' ?seen ?from (path_split [] t)"
            using "2.IH"(6)[OF False named t refl None n, of n'] "2.prems" k n n' by simp
          obtain p ok seen' where r: "realpath n fs ?seen ?from (path_split [] t) = (p, ok, seen')"
            by (cases "realpath n fs ?seen ?from (path_split [] t)")
          with inner have r': "realpath n' fs ?seen ?from (path_split [] t) = (p, ok, seen')"
            by (simp add: same_result_def)
          show ?thesis
          proof (cases ok)
            case True
            with inner r have "opened seen' = insert ?q (opened seen)" by (simp add: same_result_def k)
            then have o: "opened ((?q, Some p) # seen') = opened seen" by (rule opened_leave[OF _ None])
            have "same_result fs d d' ((?q, Some p) # seen') p rest"
              by (rule "2.IH"(7)[OF False named t refl None n r[symmetric] refl True]) (simp_all only: o "2.prems")
            then show ?thesis using True by (simp add: same_result_def eq None n n' r r' o)
          next
            case no: False
            then show ?thesis by (simp add: same_result_def eq None n n' r r')
          qed
        qed
      qed
    qed
  qed
qed

lemma opened_Nil [simp]: "opened [] = {}"
  by (simp add: opened_def)

text \<open>
  Resolving a path ends on every file tree, with cycles of symbolic links as well: the bound on nested links is
  never reached, a larger one gives the same result, so the resolution fails only on a link that is met again while it is
  being resolved.
\<close>

theorem resolution_needs_no_more_fuel:
  assumes "symlinks fs \<le> d"
  shows "realpath d fs [] [] path = realpath (symlinks fs) fs [] [] path \<and>
    resolve fs path = (case realpath d fs [] [] path of (p, ok, _) \<Rightarrow>
      if ok then Inr p else Inl (RuntimeError ''Symlink loop''))"
proof -
  have "card (links fs - opened []) \<le> symlinks fs" using links_bounded(2) by simp
  from realpath_unbounded[OF this order.trans[OF this assms]]
  have "realpath d fs [] [] path = realpath (symlinks fs) fs [] [] path" by (simp add: same_result_def)
  then show ?thesis by (simp add: resolve_def)
qed

text \<open>Two links that point at each other, and a link to a file.\<close>

definition linked_files :: node where
  "linked_files = Directory [(''a'', Symlink ''b''), (''b'', Symlink ''a''), (''c'', Symlink ''f''), (''f'', File ''x'')]"

theorem resolution_needs_no_more_fuel_witness:
  "realpath 50 linked_files [] [] [''a''] = realpath 3 linked_files [] [] [''a''] \<and>
   resolve linked_files [''a''] = Inl (RuntimeError ''Symlink loop'') \<and> resolve linked_files [''c''] = Inr [''f'']"
proof -
  have three: "symlinks linked_files = 3" by (simp add: linked_files_def)
  moreover have "resolve linked_files [''a''] = Inl (RuntimeError ''Symlink loop'')"
    "resolve linked_files [''c''] = Inr [''f'']"
    by (simp_all add: resolve_def three) (simp_all add: linked_files_def realpath.simps is_absolute_def numeral_3_eq_3)
  ultimately show ?thesis using resolution_needs_no_more_fuel[of linked_files 50 "[''a'']"] by simp
qed

end
