(* ===== verification/ToolProperties.thy ===== *)
theory ToolProperties
  imports Tools
begin

text \<open>
  What the local tools guarantee: nothing outside the tenant's workspace reaches a result, outputs stay
  within their limits, and a container is started only for a granted and approved call.
\<close>

section \<open>Paths\<close>

text \<open>A resolved workspace root, which \<^verbatim>\<open>TenantWorkspace.validate_root\<close> stores: no link on the way, no dots.\<close>

definition plain_root :: "node \<Rightarrow> string list \<Rightarrow> bool" where
  "plain_root fs base \<longleftrightarrow> \<not> has_symlink fs [] base \<and> [] \<notin> set base \<and> ''.'' \<notin> set base \<and> ''..'' \<notin> set base"

lemma entry_at_append:
  "entry_at n (p @ q) = (case entry_at n p of None \<Rightarrow> None | Some m \<Rightarrow> entry_at m q)"
  by (induction n p rule: entry_at.induct) (auto split: option.splits)

lemma entry_below:
  "entry_at fs1 base = entry_at fs2 base \<Longrightarrow> prefix base p \<Longrightarrow> entry_at fs1 p = entry_at fs2 p"
  by (auto simp: prefix_def entry_at_append)

lemma has_symlink_append:
  "has_symlink fs p (a @ b) \<longleftrightarrow> has_symlink fs p a \<or> has_symlink fs (p @ a) b"
  by (induction a arbitrary: p) auto

lemma has_symlink_below:
  "entry_at fs1 base = entry_at fs2 base \<Longrightarrow> prefix base p \<Longrightarrow> has_symlink fs1 p ps = has_symlink fs2 p ps"
proof (induction ps arbitrary: p)
  case Nil
  then show ?case by simp
next
  case (Cons c ps)
  then have "prefix base (p @ [c])" by (auto simp: prefix_def)
  then have "is_symlink fs1 (p @ [c]) = is_symlink fs2 (p @ [c])"
    unfolding is_symlink_def using entry_below[OF Cons.prems(1)] by simp
  then show ?case using Cons.IH[OF Cons.prems(1) \<open>prefix base (p @ [c])\<close>] by simp
qed

lemma realpath_plain:
  "\<not> has_symlink fs path ps \<Longrightarrow> [] \<notin> set ps \<Longrightarrow> ''.'' \<notin> set ps \<Longrightarrow> ''..'' \<notin> set ps \<Longrightarrow>
     realpath d fs seen path ps = (path @ ps, True, seen)"
  by (induction ps arbitrary: path) (auto simp: is_symlink_def split: option.splits node.splits)

lemma resolve_plain:
  assumes "plain_root fs base" "\<not> has_symlink fs base ps" "[] \<notin> set ps" "''.'' \<notin> set ps" "''..'' \<notin> set ps"
  shows "resolve fs (base @ ps) = Inr (base @ ps)"
  using assms by (simp add: resolve_def plain_root_def realpath_plain has_symlink_append)

lemma pure_parts_plain: "[] \<notin> set (pure_parts s)" "''.'' \<notin> set (pure_parts s)"
  by (auto simp: pure_parts_def)

text \<open>The outcome of the path check for a resolved root: the path itself, or one of four refusals.\<close>

lemma relative_workspace_path_plain:
  "plain_root fs base \<Longrightarrow> relative_workspace_path fs base value =
     (case json_text value of
        None \<Rightarrow> Inl (ValueError ''path must be a non-empty workspace-relative string'')
      | Some text \<Rightarrow>
          if text = [] then Inl (ValueError ''path must be a non-empty workspace-relative string'')
          else if is_absolute text \<or> ''..'' \<in> set (pure_parts text)
          then Inl (ValueError (''path must be workspace-relative and may not contain '' @ [CHR 0x27] @ ''..'' @ [CHR 0x27]))
          else if has_symlink fs base (pure_parts text)
          then Inl (ValueError ''symbolic links are not allowed in workspace paths'')
          else Inr (base @ pure_parts text))"
  by (auto simp: relative_workspace_path_def resolve_plain pure_parts_plain split: option.splits)

lemma relative_workspace_path_Inr:
  assumes "plain_root fs base" "relative_workspace_path fs base value = Inr p"
  obtains t where "json_text value = Some t" and "\<not> is_absolute t" and "p = base @ pure_parts t"
    and "''..'' \<notin> set (pure_parts t)" and "\<not> has_symlink fs base (pure_parts t)"
  using assms by (auto simp: relative_workspace_path_plain split: option.splits if_splits)

lemma relative_workspace_path_same:
  assumes "plain_root fs1 base" "plain_root fs2 base" "entry_at fs1 base = entry_at fs2 base"
  shows "relative_workspace_path fs1 base value = relative_workspace_path fs2 base value"
  using has_symlink_below[OF assms(3), of base]
  by (simp add: relative_workspace_path_plain[OF assms(1)] relative_workspace_path_plain[OF assms(2)]
      split: option.splits)

lemma accepted_path_below:
  "plain_root fs base \<Longrightarrow> relative_workspace_path fs base value = Inr p \<Longrightarrow> prefix base p"
  by (auto elim: relative_workspace_path_Inr)

section \<open>Confinement\<close>

text \<open>
  C23: Every path the tools accept lies below the workspace root, is reached without following a symbolic
  link and names no parent directory; it is the root followed by the parts of the relative path supplied.
\<close>

theorem accepted_paths_confined:
  assumes "plain_root fs base" and "relative_workspace_path fs base value = Inr p"
  shows "prefix base p \<and> \<not> has_symlink fs [] p \<and> ''..'' \<notin> set p \<and>
    (\<exists>text. json_text value = Some text \<and> \<not> is_absolute text \<and> p = base @ pure_parts text)"
proof -
  from relative_workspace_path_Inr[OF assms] obtain t where "json_text value = Some t" "\<not> is_absolute t"
    "p = base @ pure_parts t" "''..'' \<notin> set (pure_parts t)" "\<not> has_symlink fs base (pure_parts t)" .
  with assms(1) show ?thesis by (auto simp: plain_root_def has_symlink_append)
qed

definition sample_files :: node where
  "sample_files = Directory
     [(''w'', Directory [(''notes.txt'', File ''Plan''), (''out'', Symlink ''/etc'')]),
      (''etc'', Directory [(''passwd'', File ''secret'')])]"

theorem accepted_paths_confined_witness:
  "relative_workspace_path sample_files [''w''] (JStr ''./notes.txt'') = Inr [''w'', ''notes.txt''] \<and>
   prefix [''w''] [''w'', ''notes.txt'']"
proof -
  have ok: "relative_workspace_path sample_files [''w''] (JStr ''./notes.txt'') = Inr [''w'', ''notes.txt'']"
    by (simp add: relative_workspace_path_def sample_files_def json_text_def is_absolute_def pure_parts_def
        is_symlink_def resolve_def)
  have "plain_root sample_files [''w'']" by (simp add: plain_root_def sample_files_def is_symlink_def)
  from accepted_paths_confined[OF this ok] ok show ?thesis by blast
qed

lemma workspace_path_same:
  assumes "plain_root fs1 base" "plain_root fs2 base" "entry_at fs1 base = entry_at fs2 base"
  shows "workspace_path fs1 base value = workspace_path fs2 base value"
  unfolding workspace_path_def relative_workspace_path_same[OF assms] ..

lemma workspace_path_below:
  "plain_root fs base \<Longrightarrow> workspace_path fs base value = Inr (Inr p) \<Longrightarrow> prefix base p"
  unfolding workspace_path_def by (auto split: sum.splits error.splits intro: accepted_path_below)

lemma search_names_same:
  assumes "plain_root fs1 base" "plain_root fs2 base" "entry_at fs1 base = entry_at fs2 base"
  shows "search_names L decode fs1 base q dir names scanned matches =
    search_names L decode fs2 base q dir names scanned matches"
proof (induction names arbitrary: scanned matches)
  case Nil
  then show ?case by simp
next
  case (Cons name names)
  have "entry_at fs1 p = entry_at fs2 p"
    if "relative_workspace_path fs2 base v = Inr p" for v p
    by (rule entry_below[OF assms(3) accepted_path_below[OF assms(2) that]])
  then show ?case
    by (auto simp: Cons.IH relative_workspace_path_same[OF assms]
        split: sum.splits option.splits node.splits prod.splits bool.splits error.splits)
qed

lemma search_walk_same:
  assumes "plain_root fs1 base" "plain_root fs2 base" "entry_at fs1 base = entry_at fs2 base"
  shows "search_walk L decode fs1 base q dirs scanned matches =
    search_walk L decode fs2 base q dirs scanned matches"
  by (induction dirs arbitrary: scanned matches)
     (auto simp: ebind_def search_names_same[OF assms] split: sum.splits)

text \<open>
  C24: No tool call depends on a file outside the tenant's workspace: on two machines that agree below the
  workspace root, whatever else they hold, every call has the same result and starts the same container.
\<close>

theorem tools_confined:
  assumes "map_of (ts_workspaces ts) tenant_id = Some ws"
    and "plain_root (mc_files mc1) (ws_root ws)" and "plain_root (mc_files mc2) (ws_root ws)"
    and "entry_at (mc_files mc1) (ws_root ws) = entry_at (mc_files mc2) (ws_root ws)"
    and "mc_exec mc1 = mc_exec mc2"
  shows "dispatch ts decode mc1 tenant_id name params approval =
    dispatch ts decode mc2 tenant_id name params approval"
proof -
  note path = workspace_path_same[OF assms(2-4)]
  note below = entry_below[OF assms(4) workspace_path_below[OF assms(3)]]
  have "tool_execute ts decode mc1 tool (ws_root ws) params = tool_execute ts decode mc2 tool (ws_root ws) params" for tool
  proof (cases tool)
    case Read_file
    then show ?thesis
      using below by (auto simp: read_file_execute_def path ebind_def split: sum.splits)
  next
    case List_directory
    then show ?thesis
      using below by (auto simp: list_directory_execute_def path ebind_def split: sum.splits)
  next
    case Search_files
    then show ?thesis
      using below by (auto simp: search_files_execute_def path ebind_def search_walk_same[OF assms(2-4)]
          simp del: search_walk.simps walk.simps split: sum.splits option.splits node.splits)
  next
    case (Run_command sb)
    then show ?thesis by (simp add: assms(5))
  qed
  then show ?thesis by (simp add: dispatch_def assms(1) Let_def split: option.splits)
qed

definition sample_tools :: tool_settings where
  "sample_tools =
     \<lparr>ts_workspaces = [(1, \<lparr>ws_root = [''w''], ws_grants = [FILE_READ_CAPABILITY, COMMAND_EXECUTE_CAPABILITY]\<rparr>)],
      ts_read_max_bytes = 3,
      ts_search_limits = \<lparr>sl_max_file_bytes = 100, sl_max_files = 10, sl_max_matches = 5, sl_max_output_bytes = 80\<rparr>,
      ts_sandbox = Some \<lparr>sb_executable = ''/usr/bin/podman'', sb_image = ''img'', sb_max_output_bytes = 10,
        sb_memory_limit = ''512m'', sb_cpu_limit = ''1'', sb_pids_limit = 128\<rparr>\<rparr>"

definition sample_machine :: machine where
  "sample_machine = \<lparr>mc_files = sample_files, mc_exec = (\<lambda>_. Exited 0 [''ok''] [])\<rparr>"

text \<open>The same workspace beside another password file.\<close>

definition other_files :: node where
  "other_files = Directory
     [(''w'', Directory [(''notes.txt'', File ''Plan''), (''out'', Symlink ''/etc'')]),
      (''etc'', Directory [(''passwd'', File ''changed'')])]"

theorem tools_confined_witness:
  "dispatch sample_tools id sample_machine 1 ''read_file'' [(''path'', JStr ''notes.txt'')] None =
   dispatch sample_tools id (sample_machine\<lparr>mc_files := other_files\<rparr>) 1 ''read_file''
     [(''path'', JStr ''notes.txt'')] None"
  by (rule tools_confined[where ws = "\<lparr>ws_root = [''w''], ws_grants = [FILE_READ_CAPABILITY, COMMAND_EXECUTE_CAPABILITY]\<rparr>"])
     (simp_all add: sample_tools_def sample_machine_def plain_root_def sample_files_def other_files_def is_symlink_def)

section \<open>Limits\<close>

lemma length_join: "int (length (join [c] ms)) = (if ms = [] then 0 else int (output_size ms) - 1)"
  by (induction "[c]" ms rule: join.induct) (auto simp: output_size_def)

definition within_output :: "search_limits \<Rightarrow> string \<Rightarrow> string list \<Rightarrow> bool" where
  "within_output L q ms \<longleftrightarrow>
     (ms \<noteq> [] \<longrightarrow> int (output_size ms) \<le> sl_max_output_bytes L + 1) \<and>
     (\<forall>m \<in> set ms. \<exists>file n line. m = file @ '':'' @ nat_text n @ '':'' @ line \<and> contains q (casefold line))"

lemma within_output_Nil [simp]: "within_output L q []"
  by (simp add: within_output_def)

lemma search_lines_within:
  "search_lines L q f n lines ms = (early, ms') \<Longrightarrow> within_output L q ms \<Longrightarrow>
   int (length ms) < sl_max_matches L \<Longrightarrow>
   within_output L q ms' \<and> int (length ms') \<le> sl_max_matches L"
proof (induction L q f n lines ms rule: search_lines.induct)
  case (1 L q f n ms)
  then show ?case by simp
next
  case (2 L q f n line lines ms)
  let ?m = "f @ '':'' @ nat_text n @ '':'' @ line"
  show ?case
  proof (cases "contains q (casefold line)")
    case False
    with 2 show ?thesis by simp
  next
    case True
    show ?thesis
    proof (cases "int (output_size ms + length ?m) > sl_max_output_bytes L")
      case True
      with \<open>contains q (casefold line)\<close> 2 show ?thesis by (simp add: Let_def)
    next
      case False
      have new: "within_output L q (ms @ [?m])"
        using False True 2(4) by (fastforce simp: within_output_def output_size_def)
      show ?thesis
      proof (cases "int (length (ms @ [?m])) \<ge> sl_max_matches L")
        case True
        with \<open>contains q (casefold line)\<close> False 2 new show ?thesis by (auto simp: Let_def)
      next
        case small: False
        have "search_lines L q f (Suc n) lines (ms @ [?m]) = (early, ms')"
          using 2(3) True False small by (simp add: Let_def)
        from 2(2)[OF _ refl False small this new] True small show ?thesis by simp
      qed
    qed
  qed
qed

lemma search_names_within:
  "search_names L decode fs base q dir names scanned ms = Inr (early, scanned', ms') \<Longrightarrow>
   within_output L q ms \<Longrightarrow> int (length ms) \<le> sl_max_matches L \<Longrightarrow> int scanned \<le> sl_max_files L \<Longrightarrow>
   within_output L q ms' \<and> int (length ms') \<le> sl_max_matches L \<and> int scanned' \<le> sl_max_files L"
proof (induction names arbitrary: scanned ms)
  case Nil
  then show ?case by simp
next
  case (Cons name names)
  show ?case
  proof (cases "search_full L scanned ms")
    case True
    with Cons.prems show ?thesis by auto
  next
    case False
    then have room: "int (length ms) < sl_max_matches L" "int (Suc scanned) \<le> sl_max_files L"
      by (auto simp: search_full_def)
    have found: "within_output L q ms1 \<and> int (length ms1) \<le> sl_max_matches L"
      if "search_lines L q f (Suc 0) lines ms = (stop, ms1)" for f lines stop ms1
      by (rule search_lines_within[OF that Cons.prems(2) room(1)])
    show ?thesis
      using Cons.prems False room(2)
      by (auto split: sum.splits error.splits option.splits node.splits prod.splits bool.splits
          dest!: found dest: Cons.IH)
  qed
qed

lemma search_walk_within:
  "search_walk L decode fs base q dirs scanned ms = Inr (early, scanned', ms') \<Longrightarrow>
   within_output L q ms \<Longrightarrow> int (length ms) \<le> sl_max_matches L \<Longrightarrow> int scanned \<le> sl_max_files L \<Longrightarrow>
   within_output L q ms' \<and> int (length ms') \<le> sl_max_matches L \<and> int scanned' \<le> sl_max_files L"
proof (induction dirs arbitrary: scanned ms)
  case Nil
  then show ?case by simp
next
  case (Cons d dirs)
  obtain dir names where d: "d = (dir, names)" by (cases d)
  with Cons.prems(1) obtain e1 s1 m1 where
    n: "search_names L decode fs base q dir names scanned ms = Inr (e1, s1, m1)"
    by (auto simp: ebind_Inr_iff)
  from search_names_within[OF n Cons.prems(2-4)] Cons.prems(1) n d show ?case
    by (auto split: if_splits dest!: Cons.IH)
qed

text \<open>
  A search stays within its limits: its text has at most the configured number of characters, it
  reports at most the configured number of matches and scans at most the configured number of files,
  and every reported line contains the query up to case.
\<close>

theorem search_within_limits:
  assumes "search_files_execute L decode fs base params = Inr r" and "tr_success r"
    and "0 \<le> sl_max_output_bytes L" and "0 \<le> sl_max_matches L" and "0 \<le> sl_max_files L"
  shows "int (length (tr_content r)) \<le> sl_max_output_bytes L \<and>
    (\<exists>n. map_of (tr_data r) ''scanned_files'' = Some (JInt n) \<and> n \<le> sl_max_files L) \<and>
    (\<exists>matches query. tr_content r = join newline matches \<and> int (length matches) \<le> sl_max_matches L \<and>
       json_text (get_or JNull params ''query'') = Some query \<and>
       (\<forall>m \<in> set matches. \<exists>file n line. m = file @ '':'' @ nat_text n @ '':'' @ line \<and>
          contains (casefold query) (casefold line)))"
proof -
  from assms(1,2) obtain query where q: "json_text (get_or JNull params ''query'') = Some query" "query \<noteq> []"
    by (auto simp: search_files_execute_def failed_result_def split: option.splits if_splits)
  with assms(1) obtain checked_path where c: "workspace_path fs base (get_or (JStr ''.'') params ''path'') = Inr checked_path"
    by (auto simp: search_files_execute_def ebind_Inr_iff)
  obtain start es where e: "checked_path = Inr start" "entry_at fs start = Some (Directory es)"
  proof (cases checked_path)
    case (Inl x)
    with c assms(1,2) q have "workspace_path fs base (get_or (JStr ''.'') params ''path'') = Inr (Inl r)"
      by (simp add: search_files_execute_def)
    then have "\<not> tr_success r"
      by (auto simp: workspace_path_def failed_result_def split: sum.splits error.splits)
    with assms(2) show ?thesis by simp
  next
    case (Inr start)
    with c assms(1,2) q that show ?thesis
      by (cases "entry_at fs start") (auto simp: search_files_execute_def failed_result_def split: node.splits)
  qed
  from c e q assms(1) obtain early scanned matches where
    w: "search_walk L decode fs base (casefold query) (walk start (Directory es)) 0 [] = Inr (early, scanned, matches)" and
    r: "tr_content r = join newline matches" "map_of (tr_data r) ''scanned_files'' = Some (JInt (int scanned))"
    by (auto simp: search_files_execute_def ebind_Inr_iff simp del: search_walk.simps walk.simps)
  from search_walk_within[OF w] assms(4,5)
  have "within_output L (casefold query) matches" "int (length matches) \<le> sl_max_matches L"
    "int scanned \<le> sl_max_files L" by auto
  note w = this
  have "int (length (tr_content r)) \<le> sl_max_output_bytes L"
    using w(1) r(1) assms(3) by (auto simp: within_output_def newline_def length_join)
  moreover have "\<forall>m \<in> set matches. \<exists>file n line. m = file @ '':'' @ nat_text n @ '':'' @ line \<and>
      contains (casefold query) (casefold line)"
    using w(1) unfolding within_output_def by blast
  ultimately show ?thesis using q(1) r w(2,3) by blast
qed

theorem search_within_limits_witness:
  "\<exists>r. search_files_execute (ts_search_limits sample_tools) id sample_files [''w''] [(''query'', JStr ''PLAN'')] = Inr r \<and>
     tr_content r = ''notes.txt:1:Plan'' \<and> int (length (tr_content r)) \<le> 80"
proof -
  let ?L = "ts_search_limits sample_tools"
  let ?r = "\<lparr>tr_success = True, tr_content = ''notes.txt:1:Plan'', tr_error = None,
    tr_data = [(''truncated'', JBool False), (''scanned_files'', JInt 1)]\<rparr>"
  have r: "search_files_execute ?L id sample_files [''w''] [(''query'', JStr ''PLAN'')] = Inr ?r"
    by code_simp
  have "int (length (tr_content ?r)) \<le> sl_max_output_bytes ?L"
    using search_within_limits[OF r] by (simp add: sample_tools_def)
  with r show ?thesis by (auto simp: sample_tools_def)
qed

lemma read_bounded_cut:
  "0 \<le> used \<Longrightarrow> used \<le> max_output \<Longrightarrow> read_bounded max_output stream chunks used truncated =
     (let text = concat (takeWhile (\<lambda>c. c \<noteq> []) stream) in
      (concat chunks @ take (nat (max_output - used)) text,
       truncated \<or> int (length text) > max_output - used))"
proof (induction max_output stream chunks used truncated rule: read_bounded.induct)
  case (1 max_output chunks used truncated)
  then show ?case by simp
next
  case (2 max_output chunk stream chunks used truncated)
  show ?case
  proof (cases "chunk = []")
    case True
    then show ?thesis using "2.prems" by (simp add: Let_def)
  next
    case nonempty: False
    show ?thesis
    proof (cases "max_output - used > 0")
      case True
      then have "slice_to (max_output - used) chunk = take (nat (max_output - used)) chunk"
        by (simp add: slice_to_def)
      moreover have "nat (max_output - (used + min (int (length chunk)) (max_output - used))) =
          nat (max_output - used) - length chunk" using True by linarith
      ultimately show ?thesis using True nonempty 2 by (auto simp: Let_def min_def)
    next
      case False
      then have "int (length chunk) > max_output - used" using nonempty by (cases chunk) auto
      with 2(2)[OF nonempty refl refl False] False nonempty "2.prems" show ?thesis by (auto simp: Let_def)
    qed
  qed
qed

text \<open>
  Reading a stream of the sandbox chunk by chunk under the output limit gives exactly the first bytes
  of the whole stream, and reports a truncation exactly when there were more.
\<close>

theorem read_bounded_is_prefix:
  assumes "0 \<le> max_output"
  shows "read_bounded max_output stream [] 0 False =
    (take (nat max_output) (concat (takeWhile (\<lambda>c. c \<noteq> []) stream)),
     int (length (concat (takeWhile (\<lambda>c. c \<noteq> []) stream))) > max_output)"
  using read_bounded_cut[of 0 max_output stream "[]" False] assms by (simp add: Let_def)

theorem read_bounded_is_prefix_witness:
  "read_bounded 5 [''abc'', ''def'', [], ''g''] [] 0 False = (''abcde'', True)"
  using read_bounded_is_prefix[of 5 "[''abc'', ''def'', [], ''g'']"] by simp

section \<open>Default deny\<close>

lemma registry_run_command:
  "map_of (registry_tools ts) name = Some (Run_command sb) \<longleftrightarrow> name = ''run_command'' \<and> ts_sandbox ts = Some sb"
proof (cases "name \<in> {''read_file'', ''list_directory'', ''search_files''}")
  case True
  then show ?thesis by (auto simp: registry_tools_def)
next
  case False
  then have "map_of (registry_tools ts) name =
      map_of (case ts_sandbox ts of None \<Rightarrow> [] | Some sb \<Rightarrow> [(''run_command'', Run_command sb)]) name"
    unfolding registry_tools_def by (simp del: char.inject list.inject)
  then show ?thesis by (cases "ts_sandbox ts") simp_all
qed

text \<open>
  C22: A container is started only for the tool run_command of a tenant with a workspace that grants
  command execution, with a granted approval, a configured sandbox and an argument vector of non-empty
  strings; its command line is the fixed isolation (no network, read-only root and workspace, limits)
  followed by those arguments.
\<close>

theorem container_needs_grant_and_approval:
  assumes "fst (dispatch ts decode mc tenant_id name params approval) = Some command"
  shows "\<exists>ws sb argv. map_of (ts_workspaces ts) tenant_id = Some ws \<and> name = ''run_command'' \<and>
    ts_sandbox ts = Some sb \<and> COMMAND_EXECUTE_CAPABILITY \<in> set (ws_grants ws) \<and>
    approval = Some Appr_GRANTED \<and> argv_of (get_or JNull params ''argv'') = Some argv \<and>
    command = sandbox_command sb (ws_root ws) argv"
proof -
  from assms obtain ws tool where w: "map_of (ts_workspaces ts) tenant_id = Some ws"
    "map_of (registry_tools ts) name = Some tool"
    "allowed (evaluate_capability (tool_capability tool) (ws_grants ws) approval)"
    "fst (tool_execute ts decode mc tool (ws_root ws) params) = Some command"
    by (cases "map_of (ts_workspaces ts) tenant_id"; cases "map_of (registry_tools ts) name")
       (simp_all add: dispatch_def Let_def split: if_splits)
  from w(4) obtain sb where sb: "tool = Run_command sb" by (cases tool) auto
  with w(4) obtain argv where "argv_of (get_or JNull params ''argv'') = Some argv"
    "command = sandbox_command sb (ws_root ws) argv"
    by (auto simp: run_command_execute_def split: option.splits)
  moreover have "name = ''run_command''" "ts_sandbox ts = Some sb" using w(2) sb registry_run_command by auto
  moreover have "COMMAND_EXECUTE_CAPABILITY \<in> set (ws_grants ws) \<and> approval = Some Appr_GRANTED"
    using w(3) sb by (simp add: evaluate_capability_def COMMAND_EXECUTE_CAPABILITY_def split: if_splits)
  ultimately show ?thesis using w(1) by blast
qed

theorem container_needs_grant_and_approval_witness:
  "\<exists>command. fst (dispatch sample_tools id sample_machine 1 ''run_command''
      [(''argv'', JList [JStr ''ls''])] (Some Appr_GRANTED)) = Some command \<and> last command = ''ls''"
proof -
  obtain command where c: "fst (dispatch sample_tools id sample_machine 1 ''run_command''
      [(''argv'', JList [JStr ''ls''])] (Some Appr_GRANTED)) = Some command"
    by (simp add: dispatch_def sample_tools_def registry_tools_def evaluate_capability_def Let_def
        run_command_execute_def argv_of_def get_or_def json_text_def)
  from container_needs_grant_and_approval[OF c] obtain sb base where
    "command = sandbox_command sb base [''ls'']"
    by (auto simp: argv_of_def get_or_def json_text_def)
  then have "last command = ''ls''" by (simp add: sandbox_command_def)
  with c show ?thesis by blast
qed

end
