(* ===== verification/Actions.thy ===== *)
theory Actions
  imports StoreApprovals StoreMemories StoreJobs Pipeline Tools
begin

text \<open>
  What the conversation orchestrator is built from: the data of the model-provider interface
  (\<^verbatim>\<open>packages/model-providers/src/astra_model_providers/interfaces.py\<close>), the collaborators it is
  constructed with, and the actions it is a sequence of. An action is a coroutine: between any two of its
  calls to the store other tasks of the process run, so every call first lets \<open>oc_others\<close> change the
  store. The state counts the readings taken of the environment and records the effects the program has
  outside the store, in order.
\<close>

section \<open>Messages, calls and completions\<close>

record model_message =
  mm_role :: string
  mm_content :: string

record tool_call =
  tc_id :: string
  tc_name :: string
  tc_arguments :: "(string, json) dict"

record model_completion =
  cp_content :: "string option"
  cp_tool_calls :: "tool_call list"

text \<open>\<^verbatim>\<open>complete\<close> may return a \<^verbatim>\<open>ModelCompletion\<close> or a text.\<close>

datatype model_reply = Completion model_completion | Text string

record stream_event =
  se_kind :: string
  se_content :: string
  se_tool_call :: "tool_call option"

section \<open>Collaborators\<close>

text \<open>
  The parameters of the memory tools: the extractor, the vector index (which may raise), \<^verbatim>\<open>sha256\<close>, the
  limit of the recall and what the index ranks. The numbers are readings of the state.
\<close>

record memory_tools =
  mt_extract :: "nat \<Rightarrow> string \<Rightarrow> extracted_memory list"
  mt_index :: "nat \<Rightarrow> vector_call \<Rightarrow> error + unit"
  mt_sha256 :: "string \<Rightarrow> nat list"
  mt_memory_limit :: int
  mt_vector_ids :: "nat \<Rightarrow> uuid list option"

text \<open>
  The fields of \<^verbatim>\<open>ConversationOrchestrator\<close>, the environment of each call, what other tasks do to the
  store before it, and the standard library's \<^verbatim>\<open>json.dumps\<close> (with sorted keys or not), \<^verbatim>\<open>repr\<close> of JSON
  values, the digest of the compact dump, and the decoding of bytes. Each of the model's methods may
  answer differently at every reading; \<open>oc_plan\<close> and \<open>oc_stream\<close> are \<open>None\<close> when the provider has no such method.
\<close>

record orchestrator =
  oc_env :: "nat \<Rightarrow> env"
  oc_others :: "nat \<Rightarrow> store \<Rightarrow> store"
  oc_compile :: "nat \<Rightarrow> store \<Rightarrow> uuid \<Rightarrow> string \<Rightarrow> error + context_briefing"
  oc_complete :: "nat \<Rightarrow> model_message list \<Rightarrow> tool_definition list \<Rightarrow> error + model_reply"
  oc_plan :: "(nat \<Rightarrow> model_message list \<Rightarrow> int \<Rightarrow> error + planner_decision) option"
  oc_stream :: "(nat \<Rightarrow> model_message list \<Rightarrow> tool_definition list \<Rightarrow> stream_event list \<times> error option) option"
  oc_machine :: "nat \<Rightarrow> machine"
  oc_decode :: "string \<Rightarrow> string"
  oc_dumps :: "bool \<Rightarrow> json \<Rightarrow> string"
  oc_repr :: "json \<Rightarrow> string"
  oc_digest :: "json \<Rightarrow> string"
  oc_history_limit :: int
  oc_delegation_enabled :: bool
  oc_tools :: tool_settings
  oc_max_tool_iterations :: int
  oc_max_delegation_siblings :: int
  oc_memory_tools :: "memory_tools option"

section \<open>Actions\<close>

datatype effect =
    Model_asked "model_message list"
  | Sandbox_started "string list"
  | Vector_called vector_call
  | Event_streamed stream_event
  | Runner_requested uuid
  | Audit_begun uuid uuid string
  | Audit_attached uuid uuid
  | Artifact_deleted string

record agent_state =
  os_store :: store
  os_reading :: nat
  os_effects :: "effect list"

type_synonym 'a act = "agent_state \<Rightarrow> (error + 'a) \<times> agent_state"

definition ret :: "'a \<Rightarrow> 'a act" where
  "ret x st = (Inr x, st)"

definition raise :: "error \<Rightarrow> 'a act" where
  "raise err st = (Inl err, st)"

definition lift :: "error + 'a \<Rightarrow> 'a act" where
  "lift r st = (r, st)"

definition abind :: "'a act \<Rightarrow> ('a \<Rightarrow> 'b act) \<Rightarrow> 'b act" where
  "abind m f st = (case m st of (Inl err, st1) \<Rightarrow> (Inl err, st1) | (Inr x, st1) \<Rightarrow> f x st1)"

text \<open>\<^verbatim>\<open>try: m except ...: h\<close>; the handler raises what it does not catch again.\<close>

definition handle :: "'a act \<Rightarrow> (error \<Rightarrow> 'a act) \<Rightarrow> 'a act" where
  "handle m h st = (case m st of (Inl err, st1) \<Rightarrow> h err st1 | (Inr x, st1) \<Rightarrow> (Inr x, st1))"

definition effect :: "effect \<Rightarrow> unit act" where
  "effect x st = (Inr (), st\<lparr>os_effects := os_effects st @ [x]\<rparr>)"

text \<open>A fresh environment for the constructors of the program, and the number of the reading.\<close>

definition fresh :: "orchestrator \<Rightarrow> env act" where
  "fresh A st = (Inr (oc_env A (os_reading st)), st\<lparr>os_reading := Suc (os_reading st)\<rparr>)"

definition reading :: "nat act" where
  "reading st = (Inr (os_reading st), st\<lparr>os_reading := Suc (os_reading st)\<rparr>)"

text \<open>A call that changes the store, and one that only reads it.\<close>

definition call :: "orchestrator \<Rightarrow> (env \<Rightarrow> store \<Rightarrow> 'a result) \<Rightarrow> 'a act" where
  "call A f st =
     (case f (oc_env A (os_reading st)) (oc_others A (os_reading st) (os_store st)) of
        (r, s) \<Rightarrow> (r, st\<lparr>os_store := s, os_reading := Suc (os_reading st)\<rparr>))"

definition observe :: "orchestrator \<Rightarrow> (env \<Rightarrow> store \<Rightarrow> 'a) \<Rightarrow> 'a act" where
  "observe A f = call A (\<lambda>e s. (Inr (f e s), s))"

definition observe_or_raise :: "orchestrator \<Rightarrow> (env \<Rightarrow> store \<Rightarrow> error + 'a) \<Rightarrow> 'a act" where
  "observe_or_raise A f = call A (\<lambda>e s. (f e s, s))"

text \<open>A loop over a list that collects the results.\<close>

fun amap :: "('a \<Rightarrow> 'b act) \<Rightarrow> 'a list \<Rightarrow> 'b list act" where
  "amap f [] = ret []"
| "amap f (x # xs) = abind (f x) (\<lambda>y. abind (amap f xs) (\<lambda>ys. ret (y # ys)))"

section \<open>What an action guarantees\<close>

text \<open>
  \<open>yields P m Q\<close>: from a state with \<open>P\<close>, the result of \<open>m\<close> and the state it leaves satisfy \<open>Q\<close>, whether it
  returns or raises.
\<close>

definition yields :: "(agent_state \<Rightarrow> bool) \<Rightarrow> 'a act \<Rightarrow> (error + 'a \<Rightarrow> agent_state \<Rightarrow> bool) \<Rightarrow> bool" where
  "yields P m Q \<longleftrightarrow> (\<forall>st. P st \<longrightarrow> Q (fst (m st)) (snd (m st)))"

lemma yieldsI: "(\<And>st r st'. P st \<Longrightarrow> m st = (r, st') \<Longrightarrow> Q r st') \<Longrightarrow> yields P m Q"
  unfolding yields_def by (metis prod.collapse)

lemma yieldsD: "yields P m Q \<Longrightarrow> P st \<Longrightarrow> m st = (r, st') \<Longrightarrow> Q r st'"
  unfolding yields_def by (metis fst_conv snd_conv)

lemma yields_weaken:
  "yields P m Q \<Longrightarrow> (\<And>st. P' st \<Longrightarrow> P st) \<Longrightarrow> (\<And>r st. Q r st \<Longrightarrow> Q' r st) \<Longrightarrow> yields P' m Q'"
  unfolding yields_def by blast

lemma yields_abind:
  assumes "yields P m (\<lambda>r st. case r of Inl err \<Rightarrow> Q (Inl err) st | Inr x \<Rightarrow> R x st)"
    and "\<And>x. yields (R x) (f x) Q"
  shows "yields P (abind m f) Q"
proof (rule yieldsI)
  fix st r st'
  assume p: "P st" and run: "abind m f st = (r, st')"
  obtain r1 st1 where m: "m st = (r1, st1)" by (cases "m st")
  note q = yieldsD[OF assms(1) p m]
  show "Q r st'"
  proof (cases r1)
    case (Inl err)
    with run m q show ?thesis by (simp add: abind_def)
  next
    case (Inr x)
    with run m have "f x st1 = (r, st')" by (simp add: abind_def)
    with q Inr show ?thesis by (intro yieldsD[OF assms(2)]) simp_all
  qed
qed

lemma yields_handle:
  assumes "yields P m (\<lambda>r st. case r of Inl err \<Rightarrow> R err st | Inr x \<Rightarrow> Q (Inr x) st)"
    and "\<And>err. yields (R err) (h err) Q"
  shows "yields P (handle m h) Q"
proof (rule yieldsI)
  fix st r st'
  assume p: "P st" and run: "handle m h st = (r, st')"
  obtain r1 st1 where m: "m st = (r1, st1)" by (cases "m st")
  note q = yieldsD[OF assms(1) p m]
  show "Q r st'"
  proof (cases r1)
    case (Inl err)
    with run m have "h err st1 = (r, st')" by (simp add: handle_def)
    with q Inl show ?thesis by (intro yieldsD[OF assms(2)]) simp_all
  next
    case (Inr x)
    with run m q show ?thesis by (auto simp: handle_def)
  qed
qed

lemma yields_ret: "(\<And>st. P st \<Longrightarrow> Q (Inr x) st) \<Longrightarrow> yields P (ret x) Q"
  by (simp add: yields_def ret_def)

lemma yields_raise: "(\<And>st. P st \<Longrightarrow> Q (Inl err) st) \<Longrightarrow> yields P (raise err) Q"
  by (simp add: yields_def raise_def)

lemma yields_lift: "(\<And>st. P st \<Longrightarrow> Q r st) \<Longrightarrow> yields P (lift r) Q"
  by (simp add: yields_def lift_def)

text \<open>
  An invariant: every action that calls the store, reads the environment or has an effect keeps it.
\<close>

definition keeps :: "(agent_state \<Rightarrow> bool) \<Rightarrow> 'a act \<Rightarrow> bool" where
  "keeps P m \<longleftrightarrow> yields P m (\<lambda>_. P)"

lemma keepsD: "keeps P m \<Longrightarrow> P st \<Longrightarrow> m st = (r, st') \<Longrightarrow> P st'"
  unfolding keeps_def by (rule yieldsD)

lemma keeps_basic:
  "keeps P (ret x)" "keeps P (raise err)" "keeps P (lift r)"
  by (simp_all add: keeps_def yields_ret yields_raise yields_lift)

lemma keeps_abind: "keeps P m \<Longrightarrow> (\<And>x. keeps P (f x)) \<Longrightarrow> keeps P (abind m f)"
  unfolding keeps_def by (rule yields_abind[where R = "\<lambda>_. P"]) (auto split: sum.splits elim: yields_weaken)

lemma keeps_handle: "keeps P m \<Longrightarrow> (\<And>err. keeps P (h err)) \<Longrightarrow> keeps P (handle m h)"
  unfolding keeps_def by (rule yields_handle[where R = "\<lambda>_. P"]) (auto split: sum.splits elim: yields_weaken)

lemma keeps_if: "(b \<Longrightarrow> keeps P m) \<Longrightarrow> (\<not> b \<Longrightarrow> keeps P m') \<Longrightarrow> keeps P (if b then m else m')"
  by simp

lemma abind_ret [simp]: "abind (ret x) f = f x"
  by (rule ext) (simp add: abind_def ret_def)

end
