(* ===== verification/MemoryTools.thy ===== *)
theory MemoryTools
  imports Actions
begin

text \<open>
  \<^verbatim>\<open>ControllerMemoryTools\<close> of \<^verbatim>\<open>apps/astra-agent-api/src/astra_agent/memory_tools.py\<close>: recall of approved
  memories, extraction with immediate promotion, and the search of a user's conversations. Each returns
  the text that becomes the tool's result.
\<close>

section \<open>Memories as JSON\<close>

definition json_option :: "('a \<Rightarrow> json) \<Rightarrow> 'a option \<Rightarrow> json" where
  "json_option f x = (case x of None \<Rightarrow> JNull | Some y \<Rightarrow> f y)"

text \<open>\<^verbatim>\<open>record.model_dump(mode="json")\<close>.\<close>

definition memory_dump :: "memory_record \<Rightarrow> json" where
  "memory_dump m = JObj
     [(''tenant_id'', JId (mr_tenant_id m)), (''id'', JId (mr_id m)),
      (''kind'', JStr (memory_kind_value (mr_kind m))), (''content'', JStr (mr_content m)),
      (''normalized_content'', JStr (mr_normalized_content m)),
      (''source_event_id'', JId (mr_source_event_id m)),
      (''source_message_id'', JId (mr_source_message_id m)),
      (''confidence'', JFloat (mr_confidence m)), (''confirmed'', JBool (mr_confirmed m)),
      (''pinned'', JBool (mr_pinned m)), (''state'', JStr (memory_state_value (mr_state m))),
      (''sensitivity'', JStr (mr_sensitivity m)), (''visibility'', JStr (mr_visibility m)),
      (''retention'', JStr (mr_retention m)),
      (''contradiction_of'', json_option JId (mr_contradiction_of m)),
      (''created_at'', JTime (mr_created_at m)), (''updated_at'', JTime (mr_updated_at m)),
      (''reviewed_at'', json_option JTime (mr_reviewed_at m)),
      (''reviewed_by'', json_option JId (mr_reviewed_by m)),
      (''deleted_at'', json_option JTime (mr_deleted_at m)),
      (''import_batch_id'', json_option JId (mr_import_batch_id m)),
      (''source_system'', json_option JStr (mr_source_system m)),
      (''source_database_fingerprint'', json_option JStr (mr_source_database_fingerprint m)),
      (''source_external_id'', json_option JStr (mr_source_external_id m)),
      (''source_metadata'', JObj (mr_source_metadata m))]"

section \<open>The tools\<close>

text \<open>\<^verbatim>\<open>MemoryContextCompiler.recall\<close>: the memories are read, then the vector index is asked.\<close>

definition recall_memories :: "orchestrator \<Rightarrow> memory_tools \<Rightarrow> uuid \<Rightarrow> string \<Rightarrow> memory_record list act" where
  "recall_memories A mt tenant_id objective =
     abind (observe A (\<lambda>_. list_memories tenant_id False)) (\<lambda>authorized.
     abind reading (\<lambda>n.
     ret (fst (recall (mt_memory_limit mt) (mt_vector_ids mt n) objective authorized))))"

definition get_fact :: "orchestrator \<Rightarrow> memory_tools \<Rightarrow> uuid \<Rightarrow> string \<Rightarrow> string act" where
  "get_fact A mt tenant_id topic =
     abind (recall_memories A mt tenant_id topic) (\<lambda>records.
     ret (oc_dumps A False (JObj [(''topic'', JStr topic), (''facts'', JList (map memory_dump records))])))"

text \<open>The loop over \<^verbatim>\<open>sync_memory\<close>; an exception of the vector index ends it.\<close>

fun sync_records :: "memory_tools \<Rightarrow> memory_record list \<Rightarrow> unit act" where
  "sync_records mt [] = ret ()"
| "sync_records mt (record # records) =
     (case sync_memory (mt_sha256 mt) record of
        None \<Rightarrow> sync_records mt records
      | Some c \<Rightarrow>
          abind reading (\<lambda>n. abind (effect (Vector_called c)) (\<lambda>_.
          abind (lift (mt_index mt n c)) (\<lambda>_. sync_records mt records))))"

definition set_fact :: "orchestrator \<Rightarrow> memory_tools \<Rightarrow> uuid \<Rightarrow> uuid \<Rightarrow> string \<Rightarrow> string act" where
  "set_fact A mt tenant_id source_message_id content =
     abind (fresh A) (\<lambda>e. abind (fresh A) (\<lambda>e'. abind reading (\<lambda>n.
     abind (extract_content (\<lambda>m evs. call A (\<lambda>_. upsert_memory m evs)) (mt_extract mt n) e' tenant_id
              (gen e 0) source_message_id content True) (\<lambda>records.
     abind (sync_records mt records) (\<lambda>_.
     ret (oc_dumps A False (JObj [(''stored'', JList (map memory_dump records))])))))))"

record session_match =
  sm_conversation_id :: uuid
  sm_title :: string
  sm_role :: message_role
  sm_content :: string
  sm_created_at :: datetime
  sm_score :: nat

definition match_score :: "string \<Rightarrow> conversation_message \<Rightarrow> nat" where
  "match_score query message =
     card (set (word_runs (casefold query)) \<inter> set (word_runs (casefold (ms_content message))))"

definition message_matches :: "string \<Rightarrow> conversation \<Rightarrow> conversation_message list \<Rightarrow> session_match list" where
  "message_matches query conversation messages =
     map (\<lambda>m. \<lparr>sm_conversation_id = cv_id conversation, sm_title = cv_title conversation,
                sm_role = ms_role m, sm_content = ms_content m, sm_created_at = ms_created_at m,
                sm_score = match_score query m\<rparr>)
       (filter (\<lambda>m. match_score query m \<noteq> 0) messages)"

fun search_conversations ::
  "orchestrator \<Rightarrow> uuid \<Rightarrow> uuid \<Rightarrow> string \<Rightarrow> conversation list \<Rightarrow> session_match list act" where
  "search_conversations A tenant_id user_id query [] = ret []"
| "search_conversations A tenant_id user_id query (c # cs) =
     (if cv_user_id c \<noteq> user_id then search_conversations A tenant_id user_id query cs
      else
        abind (observe_or_raise A (\<lambda>_. list_messages tenant_id (cv_id c) 200)) (\<lambda>messages.
        abind (search_conversations A tenant_id user_id query cs) (\<lambda>rest.
        ret (message_matches query c messages @ rest))))"

definition match_dump :: "session_match \<Rightarrow> json" where
  "match_dump m = JObj
     [(''conversation_id'', JId (sm_conversation_id m)), (''title'', JStr (sm_title m)),
      (''role'', JStr (message_role_value (sm_role m))), (''content'', JStr (sm_content m)),
      (''created_at'', JTime (sm_created_at m)), (''score'', JInt (int (sm_score m)))]"

text \<open>
  Best score first, then the older message: the \<^verbatim>\<open>isoformat()\<close> texts of instants in UTC are ordered as
  the instants are.
\<close>

definition search_session :: "orchestrator \<Rightarrow> uuid \<Rightarrow> uuid \<Rightarrow> string \<Rightarrow> int \<Rightarrow> string act" where
  "search_session A tenant_id user_id query limit =
     abind (observe A (\<lambda>_. list_conversations tenant_id)) (\<lambda>conversations.
     abind (search_conversations A tenant_id user_id query conversations) (\<lambda>matches.
     let ranked = sort_key (\<lambda>m. (- int (sm_score m), sm_created_at m)) matches in
     ret (oc_dumps A False
       (JObj [(''query'', JStr query), (''matches'', JList (map match_dump (slice_to limit ranked)))]))))"

end
