(* ===== verification/Orchestrator.thy ===== *)
theory Orchestrator
  imports MemoryTools
begin

text \<open>
  \<^verbatim>\<open>ConversationOrchestrator\<close> of \<^verbatim>\<open>apps/astra-agent-api/src/astra_agent/conversations.py\<close>: how a turn is
  started, claimed and advanced. A turn is a loop of model requests; the calls a reply asks for are
  executed one by one, with a checkpoint after each, and a call may pause the turn instead (an approval, a
  delegation). Every method is an action; the Python list \<^verbatim>\<open>messages\<close> that the methods append to is passed
  along. The session audit is not modelled.
\<close>

section \<open>Constants\<close>

definition MAX_TOOL_RESULT_CHARS :: int where
  "MAX_TOOL_RESULT_CHARS = 12000"

definition ARA_FILE_READ_CAPABILITY :: capability where
  "ARA_FILE_READ_CAPABILITY = \<lparr>cap_kind = FILE_READ, cap_scope = ''repository''\<rparr>"

definition HOST_COMMAND_CAPABILITY :: capability where
  "HOST_COMMAND_CAPABILITY = \<lparr>cap_kind = COMMAND_EXECUTE_HOST, cap_scope = ''host''\<rparr>"

definition ARA_DELEGATE_TOOL :: tool_definition where
  "ARA_DELEGATE_TOOL =
     \<lparr>td_name = ''delegate_ara'',
      td_description = ''Send a bounded, read-only repository inspection to a connected Astra Remote Agent '' @
        ''(ARA). Use it when the user asks you to inspect, search, or analyze a remote repository. '' @
        ''The ARA cannot execute commands, call arbitrary remote services, modify files, or access '' @
        ''anything outside its configured repository.'',
      td_parameters = object_schema [(''objective'', nonempty_string_schema), (''context'', string_schema)]
        [''objective'']\<rparr>"

definition HOST_COMMAND_TOOL :: tool_definition where
  "HOST_COMMAND_TOOL =
     \<lparr>td_name = ''delegate_host_command'',
      td_description = ''Run a direct argv command on a separately registered privileged Host ARA. Use only when '' @
        ''the user has explicitly authorized host automation. The Host ARA independently enforces '' @
        ''its configured approval, allowlist, or unrestricted autonomy policy.'',
      td_parameters = object_schema
        [(''argv'', argv_schema),
         (''cwd'', JObj [(''type'', JList [JStr ''string'', JStr ''null''])]),
         (''reason'', nonempty_string_schema)] [''argv'', ''reason'']\<rparr>"

definition GET_FACT_TOOL :: tool_definition where
  "GET_FACT_TOOL =
     \<lparr>td_name = ''get_fact'',
      td_description = ''Retrieve approved private durable memories relevant to a topic.'',
      td_parameters = object_schema [(''topic'', nonempty_string_schema)] [''topic'']\<rparr>"

definition SET_FACT_TOOL :: tool_definition where
  "SET_FACT_TOOL =
     \<lparr>td_name = ''set_fact'',
      td_description = ''Extract and automatically promote durable facts from supplied conversation content.'',
      td_parameters = object_schema [(''content'', nonempty_string_schema)] [''content'']\<rparr>"

definition SEARCH_SESSION_TOOL :: tool_definition where
  "SEARCH_SESSION_TOOL =
     \<lparr>td_name = ''search_session'',
      td_description = ''Search the current user'' @ [CHR 0x27] @ ''s prior conversations for a query.'',
      td_parameters = object_schema
        [(''query'', nonempty_string_schema),
         (''limit'', JObj [(''type'', JStr ''integer''), (''minimum'', JInt 1), (''maximum'', JInt 20)])]
        [''query'']\<rparr>"

definition ARA_SYSTEM_GUIDANCE :: string where
  "ARA_SYSTEM_GUIDANCE =
     ''Remote repository capability: You can delegate bounded read-only repository inspection to '' @
     ''a connected Astra Remote Agent (ARA) with delegate_ara. Use it for remote repository '' @
     ''inspection, search, and analysis when useful. State this capability accurately: an ARA is '' @
     ''not a general remote-call mechanism. It cannot execute commands, make arbitrary network '' @
     ''calls, modify files, or access resources outside its configured repository.''"

section \<open>Texts and small steps\<close>

definition system_message :: "string \<Rightarrow> model_message" where
  "system_message content = \<lparr>mm_role = ''system'', mm_content = content\<rparr>"

definition tool_message :: "string \<Rightarrow> string \<Rightarrow> model_message" where
  "tool_message name content = system_message (''Tool result for '' @ name @ '':'' @ newline @ content)"

definition tool_call_summary :: "tool_call list \<Rightarrow> string option \<Rightarrow> string" where
  "tool_call_summary calls content =
     (case content of Some (c # cs) \<Rightarrow> c # cs | _ \<Rightarrow> ''The model requested local tools.'') @ newline @
     ''Tool calls: '' @ join '', '' (map tc_name calls)"

definition arguments_sha256 :: "orchestrator \<Rightarrow> (string, json) dict \<Rightarrow> string" where
  "arguments_sha256 A arguments = oc_digest A (JObj arguments)"

definition result_dump :: "tool_result \<Rightarrow> json" where
  "result_dump r = JObj
     [(''success'', JBool (tr_success r)), (''content'', JStr (tr_content r)),
      (''error'', json_option JStr (tr_error r)), (''data'', JObj (tr_data r))]"

definition bounded_result :: "orchestrator \<Rightarrow> tool_result \<Rightarrow> string" where
  "bounded_result A result = slice_to MAX_TOOL_RESULT_CHARS (oc_dumps A True (result_dump result))"

definition bounded_task_result :: "task \<Rightarrow> string" where
  "bounded_task_result task = slice_to MAX_TOOL_RESULT_CHARS
     (case tk_result task of Some (c # cs) \<Rightarrow> c # cs | _ \<Rightarrow> ''ARA completed without findings.'')"

definition capability_for :: "string \<Rightarrow> capability" where
  "capability_for name = (if name = ''run_command'' then COMMAND_EXECUTE_CAPABILITY else FILE_READ_CAPABILITY)"

definition file_event :: "orchestrator \<Rightarrow> uuid \<Rightarrow> event_type \<Rightarrow> (string, json) dict \<Rightarrow> unit act" where
  "file_event A tenant_id event_type payload =
     call A (\<lambda>e. append_event (AuditEvent e 0 tenant_id event_type Actor_COORDINATOR None None payload))"

definition repository_ara :: "remote_agent \<Rightarrow> bool" where
  "repository_ara ara \<longleftrightarrow> ra_status ara = Ara_ACTIVE \<and> ra_trust_level ara > 0 \<and>
     ARA_FILE_READ_CAPABILITY \<in> set (ra_capabilities ara)"

definition has_available_ara :: "orchestrator \<Rightarrow> uuid \<Rightarrow> bool act" where
  "has_available_ara A tenant_id =
     observe A (\<lambda>e s. list_ex repository_ara (list_remote_agents e tenant_id s))"

text \<open>\<^verbatim>\<open>return True  # DEBUG: force enable host commands\<close>: the store is not asked.\<close>

definition has_available_host_ara :: "orchestrator \<Rightarrow> uuid \<Rightarrow> bool act" where
  "has_available_host_ara A tenant_id = ret True"

text \<open>Invocations and assistant messages with the defaults of their models.\<close>

definition new_invocation ::
  "orchestrator \<Rightarrow> conversation_turn \<Rightarrow> uuid option \<Rightarrow> string \<Rightarrow> string \<Rightarrow> tool_invocation_target \<Rightarrow>
   (string, json) dict \<Rightarrow> tool_invocation act" where
  "new_invocation A turn task_id tool_call_id tool_name target arguments =
     abind (fresh A) (\<lambda>e. lift (checked valid_invocation
       \<lparr>iv_id = gen e 0, iv_tenant_id = tn_tenant_id turn, iv_turn_id = tn_id turn, iv_task_id = task_id,
        iv_tool_call_id = tool_call_id, iv_tool_name = tool_name, iv_target = target, iv_state = Inv_PENDING,
        iv_arguments = arguments, iv_arguments_sha256 = arguments_sha256 A arguments,
        iv_created_at = clk e 0, iv_updated_at = clk e 1, iv_completed_at = None\<rparr>))"

definition assistant_message :: "orchestrator \<Rightarrow> conversation_turn \<Rightarrow> string \<Rightarrow> conversation_message act" where
  "assistant_message A turn content =
     abind (fresh A) (\<lambda>e. lift (checked valid_message
       \<lparr>ms_id = gen e 0, ms_tenant_id = tn_tenant_id turn, ms_conversation_id = tn_conversation_id turn,
        ms_role = Role_ASSISTANT, ms_content = content, ms_created_at = clk e 0\<rparr>))"

definition new_task ::
  "orchestrator \<Rightarrow> uuid \<Rightarrow> string \<Rightarrow> string \<Rightarrow> capability list \<Rightarrow> string \<Rightarrow> task act" where
  "new_task A tenant_id objective task_context capabilities contract =
     abind (fresh A) (\<lambda>e. lift (checked valid_task
       \<lparr>tk_id = gen e 0, tk_tenant_id = tenant_id, tk_objective = objective, tk_context = task_context,
        tk_required_capabilities = capabilities, tk_deliverable_contract = contract,
        tk_state = Task_PENDING, tk_created_at = clk e 0, tk_deadline = None, tk_result = None,
        tk_completed_at = None, tk_target_ara_id = None, tk_completed_by_ara_id = None\<rparr>))"

section \<open>Checkpoints\<close>

definition message_dump :: "model_message \<Rightarrow> json" where
  "message_dump m = JObj [(''role'', JStr (mm_role m)), (''content'', JStr (mm_content m))]"

definition call_dump :: "tool_call \<Rightarrow> json" where
  "call_dump c = JObj [(''id'', JStr (tc_id c)), (''name'', JStr (tc_name c)), (''arguments'', JObj (tc_arguments c))]"

text \<open>\<^verbatim>\<open>model_validate\<close> with \<^verbatim>\<open>extra="forbid"\<close>: exactly the fields, with their types.\<close>

definition message_validate :: "json \<Rightarrow> error + model_message" where
  "message_validate j = (case j of
     JObj kvs \<Rightarrow>
       if set (map fst kvs) \<noteq> {''role'', ''content''} then Inl (ValidationError ''ModelMessage'')
       else (case (json_text (get_or JNull kvs ''role''), json_text (get_or JNull kvs ''content'')) of
               (Some r, Some c) \<Rightarrow> Inr \<lparr>mm_role = r, mm_content = c\<rparr>
             | _ \<Rightarrow> Inl (ValidationError ''ModelMessage''))
   | _ \<Rightarrow> Inl (ValidationError ''ModelMessage''))"

definition call_validate :: "json \<Rightarrow> error + tool_call" where
  "call_validate j = (case j of
     JObj kvs \<Rightarrow>
       if set (map fst kvs) \<noteq> {''id'', ''name'', ''arguments''} then Inl (ValidationError ''ToolCall'')
       else (case (json_text (get_or JNull kvs ''id''), json_text (get_or JNull kvs ''name''),
                   get_or JNull kvs ''arguments'') of
               (Some i, Some n, JObj args) \<Rightarrow> Inr \<lparr>tc_id = i, tc_name = n, tc_arguments = args\<rparr>
             | _ \<Rightarrow> Inl (ValidationError ''ToolCall''))
   | _ \<Rightarrow> Inl (ValidationError ''ToolCall''))"

definition checkpoint_of :: "model_message list \<Rightarrow> int \<Rightarrow> tool_call list \<Rightarrow> (string, json) dict" where
  "checkpoint_of messages iterations pending_calls =
     [(''messages'', JList (map message_dump messages)), (''iterations'', JInt iterations),
      (''pending_calls'', JList (map call_dump pending_calls))]"

definition checkpoint ::
  "orchestrator \<Rightarrow> conversation_turn \<Rightarrow> uuid \<Rightarrow> model_message list \<Rightarrow> int \<Rightarrow> tool_call list \<Rightarrow>
   conversation_turn act" where
  "checkpoint A turn run_lease_id messages iterations pending_calls =
     call A (\<lambda>e. checkpoint_turn e (tn_tenant_id turn) (tn_id turn) run_lease_id
       (checkpoint_of messages iterations pending_calls))"

text \<open>\<^verbatim>\<open>isinstance(x, int)\<close>: Python's booleans are integers.\<close>

definition json_int :: "json \<Rightarrow> int option" where
  "json_int j = (case j of JInt i \<Rightarrow> Some i | JBool b \<Rightarrow> Some (if b then 1 else 0) | _ \<Rightarrow> None)"

text \<open>The first half of \<^verbatim>\<open>_messages_for_turn\<close>: what a checkpoint holds, \<open>None\<close> without one.\<close>

definition restore_checkpoint ::
  "(string, json) dict \<Rightarrow> (error + (model_message list \<times> int \<times> tool_call list)) option" where
  "restore_checkpoint cp =
     (case get_or JNull cp ''messages'' of
        JList items \<Rightarrow> Some
          (ebind (emap message_validate items) (\<lambda>messages.
           case json_int (get_or (JInt 0) cp ''iterations'') of
             None \<Rightarrow> Inl (LifecycleConflictError ''turn checkpoint has invalid iteration count'')
           | Some iterations \<Rightarrow>
               if iterations < 0
               then Inl (LifecycleConflictError ''turn checkpoint has invalid iteration count'')
               else (case get_or (JList []) cp ''pending_calls'' of
                       JList calls \<Rightarrow>
                         ebind (emap call_validate calls) (\<lambda>pending. Inr (messages, iterations, pending))
                     | _ \<Rightarrow> Inl (LifecycleConflictError ''turn checkpoint has invalid pending calls''))))
      | _ \<Rightarrow> None)"

text \<open>The guidance on remote agents that ends the system message of a new turn.\<close>

definition ara_guidance :: "orchestrator \<Rightarrow> uuid \<Rightarrow> string act" where
  "ara_guidance A tenant_id =
     (if \<not> oc_delegation_enabled A then ret []
      else
        abind (has_available_ara A tenant_id) (\<lambda>has_repository_ara.
        abind (has_available_host_ara A tenant_id) (\<lambda>host.
        ret (newline @ newline @ ARA_SYSTEM_GUIDANCE @ newline @ newline @
             (if has_repository_ara
              then ''Current availability: A trusted ARA with repository access is connected. '' @
                   ''You may delegate an eligible repository inspection.''
              else ''No repository ARA is connected.'') @
             (if host then '' A host command ARA is available for executing approved host commands.''
              else [])))))"

definition messages_for_turn ::
  "orchestrator \<Rightarrow> conversation_turn \<Rightarrow> (model_message list \<times> int \<times> tool_call list) act" where
  "messages_for_turn A turn =
     (case restore_checkpoint (tn_checkpoint turn) of
        Some r \<Rightarrow> lift r
      | None \<Rightarrow>
          abind (observe_or_raise A (\<lambda>_. list_messages (tn_tenant_id turn) (tn_conversation_id turn)
                   (oc_history_limit A))) (\<lambda>history.
          case find (\<lambda>m. ms_id m = tn_user_message_id turn) history of
            None \<Rightarrow> raise (LifecycleConflictError ''turn user message is unavailable'')
          | Some user_message \<Rightarrow>
              abind reading (\<lambda>n.
              abind (observe_or_raise A (\<lambda>_ s. oc_compile A n s (tn_tenant_id turn) (ms_content user_message))) (\<lambda>briefing.
              abind (ara_guidance A (tn_tenant_id turn)) (\<lambda>guidance.
              abind (file_event A (tn_tenant_id turn) CONTEXT_COMPILED
                       [(''turn_id'', JId (tn_id turn)),
                        (''estimated_tokens'', JInt (cb_estimated_tokens briefing)),
                        (''source_memory_ids'', JList (map JId (cb_source_memory_ids briefing)))]) (\<lambda>_.
              ret (system_message (cb_content briefing @ guidance) #
                   map (\<lambda>m. \<lparr>mm_role = message_role_value (ms_role m), mm_content = ms_content m\<rparr>) history,
                   0, [])))))))"

section \<open>Starting a turn\<close>

definition start_turn ::
  "orchestrator \<Rightarrow> uuid \<Rightarrow> uuid \<Rightarrow> uuid \<Rightarrow> uuid \<Rightarrow> string \<Rightarrow> (conversation_message \<times> conversation_turn) act" where
  "start_turn A tenant_id user_id conversation_id client_request_id content =
     abind (fresh A) (\<lambda>e.
     abind (lift (checked valid_message
       \<lparr>ms_id = gen e 0, ms_tenant_id = tenant_id, ms_conversation_id = conversation_id,
        ms_role = Role_USER, ms_content = content, ms_created_at = clk e 0\<rparr>)) (\<lambda>user_message.
     let turn =
           \<lparr>tn_id = gen e 1, tn_tenant_id = tenant_id, tn_conversation_id = conversation_id,
            tn_user_message_id = ms_id user_message, tn_client_request_id = client_request_id,
            tn_state = Turn_PENDING, tn_checkpoint = [], tn_run_lease_id = None,
            tn_run_lease_expires_at = None, tn_created_at = clk e 1, tn_updated_at = clk e 2,
            tn_completed_at = None\<rparr>;
         received = AuditEvent e 0 tenant_id CONVERSATION_RECEIVED Actor_USER (Some user_id) None
           [(''conversation_id'', JId conversation_id), (''message_id'', JId (ms_id user_message))];
         created_event = AuditEvent e 1 tenant_id CONVERSATION_TURN_CREATED Actor_COORDINATOR None None
           [(''turn_id'', JId (tn_id turn))];
         job =
           \<lparr>jb_id = gen e 2, jb_tenant_id = tenant_id, jb_kind = Job_MEMORY_EXTRACTION,
            jb_source_id = ms_id user_message,
            jb_payload = [(''source_event_id'', JId (ev_id received)), (''content'', JStr content)],
            jb_state = Job_PENDING, jb_attempt_count = 0, jb_max_attempts = 8, jb_available_at = clk e 3,
            jb_lease_id = None, jb_lease_expires_at = None, jb_last_error = None,
            jb_created_at = clk e 4, jb_updated_at = clk e 5, jb_completed_at = None\<rparr>
     in
     abind (call A (\<lambda>_. create_turn user_message turn [received, created_event] job)) (\<lambda>created.
     if tn_id created \<noteq> tn_id turn
     then abind (observe_or_raise A (\<lambda>_. list_messages tenant_id conversation_id (oc_history_limit A))) (\<lambda>messages.
          case find (\<lambda>m. ms_id m = tn_user_message_id created) messages of
            None \<Rightarrow> raise (LifecycleConflictError ''turn user message is unavailable'')
          | Some existing \<Rightarrow> ret (existing, created))
     else ret (user_message, created))))"

section \<open>Executing a call\<close>

text \<open>
  Each of these returns the paused turn, if the call paused it, and the messages with what the call
  appended to them.
\<close>

type_synonym call_result = "conversation_turn option \<times> model_message list"

definition answered :: "model_message list \<Rightarrow> tool_call \<Rightarrow> string \<Rightarrow> call_result act" where
  "answered messages c content = ret (None, messages @ [tool_message (tc_name c) content])"

definition pause ::
  "orchestrator \<Rightarrow> conversation_turn \<Rightarrow> uuid \<Rightarrow> model_message list \<Rightarrow> call_result act" where
  "pause A turn run_lease_id messages =
     abind (call A (\<lambda>e. pause_turn e (tn_tenant_id turn) (tn_id turn) run_lease_id (tn_checkpoint turn)))
       (\<lambda>paused. ret (Some paused, messages))"

text \<open>The body of \<^verbatim>\<open>try\<close> in \<^verbatim>\<open>_execute_memory_tool\<close>.\<close>

definition memory_tool_result ::
  "orchestrator \<Rightarrow> memory_tools \<Rightarrow> conversation_turn \<Rightarrow> tool_call \<Rightarrow> string act" where
  "memory_tool_result A mt turn c =
     (if tc_name c = td_name GET_FACT_TOOL
      then (case json_text (get_or JNull (tc_arguments c) ''topic'') of
              Some (t # ts) \<Rightarrow> get_fact A mt (tn_tenant_id turn) (t # ts)
            | _ \<Rightarrow> raise (ValueError ''topic must be a non-empty string''))
      else if tc_name c = td_name SET_FACT_TOOL
      then (case json_text (get_or JNull (tc_arguments c) ''content'') of
              Some (t # ts) \<Rightarrow> set_fact A mt (tn_tenant_id turn) (tn_user_message_id turn) (t # ts)
            | _ \<Rightarrow> raise (ValueError ''content must be a non-empty string''))
      else (case (json_text (get_or JNull (tc_arguments c) ''query''),
                  json_int (get_or (JInt 8) (tc_arguments c) ''limit'')) of
              (Some (q # qs), Some limit) \<Rightarrow>
                abind (observe A (\<lambda>_. get_conversation (tn_tenant_id turn) (tn_conversation_id turn))) (\<lambda>conversation.
                case conversation of
                  None \<Rightarrow> raise (LifecycleConflictError ''conversation is unavailable'')
                | Some cv \<Rightarrow>
                    search_session A (tn_tenant_id turn) (cv_user_id cv) (q # qs) (min (max limit 1) 20))
            | _ \<Rightarrow> raise (ValueError ''query and limit are invalid'')))"

text \<open>\<^verbatim>\<open>except (ValueError, LifecycleConflictError)\<close>; pydantic's \<^verbatim>\<open>ValidationError\<close> is a \<^verbatim>\<open>ValueError\<close>.\<close>

fun memory_tool_error :: "error \<Rightarrow> bool" where
  "memory_tool_error (ValueError _) = True"
| "memory_tool_error (ValidationError _) = True"
| "memory_tool_error (LifecycleConflictError _) = True"
| "memory_tool_error _ = False"

definition execute_memory_tool ::
  "orchestrator \<Rightarrow> conversation_turn \<Rightarrow> tool_call \<Rightarrow> model_message list \<Rightarrow> call_result act" where
  "execute_memory_tool A turn c messages =
     (case oc_memory_tools A of
        None \<Rightarrow> answered messages c ''Memory tools are unavailable.''
      | Some mt \<Rightarrow>
          abind (new_invocation A turn None (tc_id c) (tc_name c) Target_LOCAL (tc_arguments c)) (\<lambda>new.
          abind (call A (\<lambda>e. create_tool_invocation e new)) (\<lambda>invocation.
          abind (handle (abind (memory_tool_result A mt turn c) (\<lambda>r. ret (Some r)))
                   (\<lambda>err. if memory_tool_error err then ret None else raise err)) (\<lambda>result.
          case result of
            None \<Rightarrow>
              abind (call A (\<lambda>e. fail_tool_invocation e (tn_tenant_id turn) (iv_id invocation))) (\<lambda>_.
              answered messages c ''Memory tool request could not be completed.'')
          | Some r \<Rightarrow>
              abind (call A (\<lambda>e. complete_tool_invocation e (tn_tenant_id turn) (iv_id invocation))) (\<lambda>_.
              answered messages c (slice_to MAX_TOOL_RESULT_CHARS r))))))"

definition finished_task :: "task \<Rightarrow> bool" where
  "finished_task task \<longleftrightarrow> tk_state task \<in> {Task_COMPLETED, Task_FAILED, Task_CANCELLED}"

definition delegate_ara ::
  "orchestrator \<Rightarrow> conversation_turn \<Rightarrow> uuid \<Rightarrow> tool_call \<Rightarrow> model_message list \<Rightarrow> call_result act" where
  "delegate_ara A turn run_lease_id c messages =
     (case (json_text (get_or JNull (tc_arguments c) ''objective''),
            json_text (get_or (JStr []) (tc_arguments c) ''context'')) of
        (Some (o1 # objective), Some task_context) \<Rightarrow>
          abind (observe A (\<lambda>_. get_tool_invocation (tn_tenant_id turn) (tn_id turn) (tc_id c))) (\<lambda>existing_invocation.
          case existing_invocation of
            Some invocation \<Rightarrow>
              (case iv_task_id invocation of
                 None \<Rightarrow> raise (LifecycleConflictError ''delegation invocation has no task'')
               | Some task_id \<Rightarrow>
                   abind (observe A (\<lambda>_. get_task (tn_tenant_id turn) task_id)) (\<lambda>existing.
                   case existing of
                     None \<Rightarrow> raise (LifecycleConflictError ''delegated task is unavailable'')
                   | Some task \<Rightarrow>
                       if finished_task task then answered messages c (bounded_task_result task)
                       else pause A turn run_lease_id messages))
          | None \<Rightarrow>
              abind (new_task A (tn_tenant_id turn) (slice_to 10000 (o1 # objective)) (slice_to 12000 task_context)
                       [ARA_FILE_READ_CAPABILITY]
                       ''Return bounded repository findings with file and line evidence.'') (\<lambda>task.
              abind (has_available_ara A (tn_tenant_id turn)) (\<lambda>available.
              if \<not> available
              then answered messages c
                (''No eligible connected ARA is available for read-only repository inspection. '' @
                 ''Explain that delegation cannot run until a trusted ARA with repository access '' @
                 ''connects; do not claim the inspection was started.'')
              else
                abind (call A (\<lambda>e. add_task task
                         (AuditEvent e 0 (tn_tenant_id turn) TASK_CREATED Actor_COORDINATOR None
                            (Some (tk_id task)) [(''turn_id'', JId (tn_id turn))]))) (\<lambda>_.
                abind (new_invocation A turn (Some (tk_id task)) (tc_id c) (tc_name c) Target_ARA (tc_arguments c)) (\<lambda>new.
                abind (call A (\<lambda>e. create_tool_invocation e new)) (\<lambda>_.
                pause A turn run_lease_id messages))))))
      | _ \<Rightarrow> answered messages c ''Invalid delegation arguments.'')"

text \<open>The arguments of a host command: \<^verbatim>\<open>argv\<close>, \<^verbatim>\<open>cwd\<close> and \<^verbatim>\<open>reason\<close>.\<close>

definition host_command_arguments ::
  "(string, json) dict \<Rightarrow> (string list \<times> string option \<times> string) option" where
  "host_command_arguments arguments =
     (case (argv_of (get_or JNull arguments ''argv''), get_or JNull arguments ''cwd'',
            json_text (get_or JNull arguments ''reason'')) of
        (Some argv, cwd, Some (r # rs)) \<Rightarrow>
          if cwd = JNull then Some (argv, None, r # rs)
          else (case json_text cwd of None \<Rightarrow> None | Some d \<Rightarrow> Some (argv, Some d, r # rs))
      | _ \<Rightarrow> None)"

text \<open>The branch for an approved command: its task is created and the turn paused again.\<close>

definition start_host_task ::
  "orchestrator \<Rightarrow> conversation_turn \<Rightarrow> uuid \<Rightarrow> tool_call \<Rightarrow> string list \<times> string option \<times> string \<Rightarrow>
   tool_invocation \<Rightarrow> model_message list \<Rightarrow> call_result act" where
  "start_host_task A turn run_lease_id c args existing messages =
     (case args of (argv, cwd, command_reason) \<Rightarrow>
        let argv_json = JList (map JStr argv); cwd_json = json_option JStr cwd in
        abind (has_available_host_ara A (tn_tenant_id turn)) (\<lambda>available.
        if \<not> available then answered messages c ''No active Host ARA available.''
        else
          abind (new_task A (tn_tenant_id turn) (slice_to 10000 command_reason)
                   (oc_dumps A False (JObj [(''argv'', argv_json), (''cwd'', cwd_json)]))
                   [HOST_COMMAND_CAPABILITY] ''Return bounded host command exit status and output.'') (\<lambda>task.
          abind (call A (\<lambda>e. add_task task
                   (AuditEvent e 0 (tn_tenant_id turn) TASK_CREATED Actor_COORDINATOR None (Some (tk_id task))
                      [(''turn_id'', JId (tn_id turn)), (''host_command'', JBool True),
                       (''argv'', argv_json), (''cwd'', cwd_json)]))) (\<lambda>_.
          abind (call A (\<lambda>e. complete_tool_invocation e (tn_tenant_id turn) (iv_id existing))) (\<lambda>_.
          abind (new_invocation A turn (Some (tk_id task)) (tc_id c) (tc_name c) Target_ARA (tc_arguments c)) (\<lambda>new.
          abind (call A (\<lambda>e. create_tool_invocation e new)) (\<lambda>_.
          pause A turn run_lease_id messages)))))))"

definition delegate_host_command ::
  "orchestrator \<Rightarrow> conversation_turn \<Rightarrow> uuid \<Rightarrow> tool_call \<Rightarrow> model_message list \<Rightarrow> call_result act" where
  "delegate_host_command A turn run_lease_id c messages =
     (case host_command_arguments (tc_arguments c) of
        None \<Rightarrow> answered messages c ''Invalid host command arguments.''
      | Some args \<Rightarrow>
          abind (observe A (\<lambda>_. get_tool_invocation (tn_tenant_id turn) (tn_id turn) (tc_id c))) (\<lambda>found.
          case found of
            Some existing \<Rightarrow>
              if iv_state existing = Inv_AWAITING_APPROVAL then pause A turn run_lease_id messages
              else if iv_state existing = Inv_DENIED
              then answered messages c ''Host command denied by operator.''
              else if iv_state existing \<in> {Inv_PENDING, Inv_COMPLETED}
              then
                (case iv_task_id existing of
                   None \<Rightarrow> start_host_task A turn run_lease_id c args existing messages
                 | Some task_id \<Rightarrow>
                     abind (observe A (\<lambda>_. get_task (tn_tenant_id turn) task_id)) (\<lambda>stored.
                     case stored of
                       None \<Rightarrow> start_host_task A turn run_lease_id c args existing messages
                     | Some task \<Rightarrow>
                         if finished_task task then answered messages c (bounded_task_result task)
                         else pause A turn run_lease_id messages))
              else ret (None, messages)
          | None \<Rightarrow>
              abind (has_available_host_ara A (tn_tenant_id turn)) (\<lambda>available.
              if \<not> available then answered messages c ''No active privileged Host ARA is available.''
              else
                abind (new_invocation A turn None (tc_id c) (tc_name c) Target_ARA (tc_arguments c)) (\<lambda>new.
                abind (call A (\<lambda>e. create_tool_invocation e new)) (\<lambda>_.
                abind (fresh A) (\<lambda>e'.
                abind (lift (checked valid_approval
                  \<lparr>ap_id = gen e' 0, ap_tenant_id = tn_tenant_id turn, ap_task_id = None,
                   ap_tool_invocation_id = Some (iv_id new), ap_capability = HOST_COMMAND_CAPABILITY,
                   ap_requested_by = None, ap_requestor_type = Actor_COORDINATOR, ap_state = Appr_PENDING,
                   ap_reason = ''Host command: '' @ slice_to 200 (snd (snd args)),
                   ap_created_at = clk e' 0, ap_decided_at = None, ap_decided_by = None\<rparr>)) (\<lambda>approval.
                abind (call A (\<lambda>e. create_coordinator_approval e approval)) (\<lambda>_.
                pause A turn run_lease_id messages))))))))"

text \<open>A local tool: the approval state handed to \<^verbatim>\<open>dispatch\<close> is granted for any invocation it did not just file.\<close>

definition run_local_tool ::
  "orchestrator \<Rightarrow> conversation_turn \<Rightarrow> tool_call \<Rightarrow> approval_state option \<Rightarrow> tool_result act" where
  "run_local_tool A turn c approval_state =
     abind reading (\<lambda>n.
     case dispatch (oc_tools A) (oc_decode A) (oc_machine A n) (tn_tenant_id turn) (tc_name c)
            (tc_arguments c) approval_state of
       (None, r) \<Rightarrow> lift r
     | (Some command, r) \<Rightarrow> abind (effect (Sandbox_started command)) (\<lambda>_. lift r))"

definition request_local_approval ::
  "orchestrator \<Rightarrow> conversation_turn \<Rightarrow> tool_call \<Rightarrow> tool_invocation \<Rightarrow> tool_result \<Rightarrow> model_message list \<Rightarrow>
   call_result act" where
  "request_local_approval A turn c invocation result messages =
     abind (fresh A) (\<lambda>e'.
     abind (lift (checked valid_approval
       \<lparr>ap_id = gen e' 0, ap_tenant_id = tn_tenant_id turn, ap_task_id = None,
        ap_tool_invocation_id = Some (iv_id invocation), ap_capability = capability_for (tc_name c),
        ap_requested_by = None, ap_requestor_type = Actor_COORDINATOR, ap_state = Appr_PENDING,
        ap_reason = (case tr_error result of Some (x # xs) \<Rightarrow> x # xs
                     | _ \<Rightarrow> ''Approval required to use '' @ tc_name c),
        ap_created_at = clk e' 0, ap_decided_at = None, ap_decided_by = None\<rparr>)) (\<lambda>approval.
     abind (call A (\<lambda>e. create_coordinator_approval e approval)) (\<lambda>_.
     abind (observe A (\<lambda>_. get_turn (tn_tenant_id turn) (tn_id turn))) (\<lambda>paused.
     case paused of
       None \<Rightarrow> raise (LifecycleConflictError ''paused turn is unavailable'')
     | Some t \<Rightarrow> ret (Some t, messages)))))"

definition execute_local_tool ::
  "orchestrator \<Rightarrow> conversation_turn \<Rightarrow> tool_call \<Rightarrow> string set \<Rightarrow> model_message list \<Rightarrow> call_result act" where
  "execute_local_tool A turn c known_tools messages =
     abind (new_invocation A turn None (tc_id c) (tc_name c) Target_LOCAL (tc_arguments c)) (\<lambda>new.
     abind (call A (\<lambda>e. create_tool_invocation e new)) (\<lambda>invocation.
     if iv_state invocation = Inv_DENIED then answered messages c ''Tool use was denied by policy.''
     else if tc_name c \<notin> known_tools
     then abind (call A (\<lambda>e. fail_tool_invocation e (tn_tenant_id turn) (iv_id invocation))) (\<lambda>_.
          answered messages c ''Unknown or unavailable local tool.'')
     else
       abind (run_local_tool A turn c (if iv_id invocation \<noteq> iv_id new then Some Appr_GRANTED else None)) (\<lambda>result.
       if map_of (tr_data result) ''requires_approval'' = Some (JBool True)
       then request_local_approval A turn c invocation result messages
       else if tr_success result
       then abind (call A (\<lambda>e. complete_tool_invocation e (tn_tenant_id turn) (iv_id invocation))) (\<lambda>_.
            answered messages c (bounded_result A result))
       else abind (call A (\<lambda>e. fail_tool_invocation e (tn_tenant_id turn) (iv_id invocation))) (\<lambda>_.
            answered messages c ''The tool request was denied or could not be completed.''))))"

definition execute_call ::
  "orchestrator \<Rightarrow> conversation_turn \<Rightarrow> uuid \<Rightarrow> tool_call \<Rightarrow> string set \<Rightarrow> model_message list \<Rightarrow> call_result act" where
  "execute_call A turn run_lease_id c known_tools messages =
     (if tc_name c = td_name ARA_DELEGATE_TOOL \<and> tc_name c \<in> known_tools
      then delegate_ara A turn run_lease_id c messages
      else if tc_name c = td_name HOST_COMMAND_TOOL \<and> tc_name c \<in> known_tools
      then delegate_host_command A turn run_lease_id c messages
      else if tc_name c \<in> {td_name GET_FACT_TOOL, td_name SET_FACT_TOOL, td_name SEARCH_SESSION_TOOL}
      then execute_memory_tool A turn c messages
      else execute_local_tool A turn c known_tools messages)"

end
