(* ===== verification/TurnLoop.thy ===== *)
theory TurnLoop
  imports Orchestrator
begin

text \<open>
  The turn itself, of the same \<^verbatim>\<open>conversations.py\<close>: planning and delegation at its start, the loop of model
  requests and calls, the streamed variant, and the callers \<^verbatim>\<open>advance_one\<close> and \<^verbatim>\<open>respond\<close>. The loops are
  functions with their termination proofs; \<^verbatim>\<open>respond\<close>, which polls the store, is a partial function.
\<close>

section \<open>Planned tasks\<close>

definition provenance_entry :: "task \<Rightarrow> json" where
  "provenance_entry task = JObj
     [(''task_id'', JId (tk_id task)), (''objective'', JStr (tk_objective task)),
      (''state'', JStr (task_state_value (tk_state task))), (''result'', json_option JStr (tk_result task)),
      (''target_ara_id'', json_option JId (tk_target_ara_id task)),
      (''completed_by_ara_id'', json_option JId (tk_completed_by_ara_id task))]"

definition planned_task :: "orchestrator \<Rightarrow> conversation_turn \<Rightarrow> json \<Rightarrow> task act" where
  "planned_task A turn raw_id =
     (case uuid_or_none (oc_repr A) raw_id of
        None \<Rightarrow> raise (ValueError ''badly formed hexadecimal UUID string'')
      | Some task_id \<Rightarrow>
          abind (observe A (\<lambda>_. get_task (tn_tenant_id turn) task_id)) (\<lambda>task.
          case task of
            None \<Rightarrow> raise (LifecycleConflictError ''planned task is unavailable'')
          | Some t \<Rightarrow> ret t))"

definition sibling_provenance :: "orchestrator \<Rightarrow> conversation_turn \<Rightarrow> model_message act" where
  "sibling_provenance A turn =
     (case get_or (JList []) (tn_checkpoint turn) ''planned_task_ids'' of
        JList raw_ids \<Rightarrow>
          abind (amap (planned_task A turn) raw_ids) (\<lambda>tasks.
          ret (system_message
            (''ARA sibling provenance (synthesize transparently; partial failures must be explicit):'' @ newline @
             oc_dumps A True (JObj
               [(''partial_failure'', JBool (list_ex (\<lambda>t. tk_state t \<noteq> Task_COMPLETED) tasks)),
                (''results'', JList (map provenance_entry tasks))]))))
      | _ \<Rightarrow> raise (LifecycleConflictError ''turn checkpoint has invalid planned task ids''))"

definition task_of_plan :: "orchestrator \<Rightarrow> uuid \<Rightarrow> planner_task \<Rightarrow> task act" where
  "task_of_plan A tenant_id item =
     (case those (map capability_model_validate (pt_required_capabilities item)) of
        None \<Rightarrow> raise (ValidationError ''Capability'')
      | Some capabilities \<Rightarrow>
          new_task A tenant_id (pt_objective item) (pt_context item) capabilities (pt_deliverable_contract item))"

definition plan_arguments :: "task \<Rightarrow> (string, json) dict" where
  "plan_arguments task = [(''objective'', JStr (tk_objective task)), (''context'', JStr (tk_context task))]"

definition plan_invocation ::
  "orchestrator \<Rightarrow> conversation_turn \<Rightarrow> nat \<times> task \<Rightarrow> tool_invocation act" where
  "plan_invocation A turn indexed =
     (case indexed of (i, task) \<Rightarrow>
        new_invocation A turn (Some (tk_id task)) (''planner-'' @ nat_text i) (td_name ARA_DELEGATE_TOOL)
          Target_ARA (plan_arguments task))"

definition plan_checkpoint :: "model_message list \<Rightarrow> int \<Rightarrow> task list \<Rightarrow> (string, json) dict" where
  "plan_checkpoint messages iterations tasks =
     checkpoint_of messages iterations [] @ [(''planned_task_ids'', JList (map (JId \<circ> tk_id) tasks))]"

text \<open>The tasks of an admitted plan are filed in one call, which pauses the turn.\<close>

definition delegate_plan ::
  "orchestrator \<Rightarrow> conversation_turn \<Rightarrow> uuid \<Rightarrow> model_message list \<Rightarrow> int \<Rightarrow> planner_decision \<Rightarrow>
   conversation_turn act" where
  "delegate_plan A turn run_lease_id messages iterations plan =
     abind (amap (task_of_plan A (tn_tenant_id turn)) plan) (\<lambda>tasks.
     abind (amap (plan_invocation A turn) (enumerate 0 tasks)) (\<lambda>invocations.
     abind (call A (\<lambda>e. create_delegated_tasks e (tn_tenant_id turn) (tn_id turn) run_lease_id tasks
              invocations (plan_checkpoint messages iterations tasks))) (\<lambda>stored.
     if stored = [] then ret turn
     else abind (observe A (\<lambda>_. get_turn (tn_tenant_id turn) (tn_id turn))) (\<lambda>refreshed.
          ret (case refreshed of None \<Rightarrow> turn | Some t \<Rightarrow> t)))))"

text \<open>The decision of the planner; a failing provider is recorded and counts as no plan.\<close>

definition planner_denied :: "orchestrator \<Rightarrow> conversation_turn \<Rightarrow> string \<Rightarrow> unit act" where
  "planner_denied A turn why =
     file_event A (tn_tenant_id turn) PLANNER_DENIED [(''turn_id'', JId (tn_id turn)), (''reason'', JStr why)]"

definition ask_planner ::
  "orchestrator \<Rightarrow> conversation_turn \<Rightarrow> model_message list \<Rightarrow> planner_decision act" where
  "ask_planner A turn messages =
     (case oc_plan A of
        None \<Rightarrow> ret []
      | Some plan \<Rightarrow>
          abind reading (\<lambda>n.
          handle (lift (plan n messages (oc_max_delegation_siblings A)))
            (\<lambda>err. case err of
               ModelProviderError _ \<Rightarrow>
                 abind (planner_denied A turn ''planner provider failed'') (\<lambda>_. ret [])
             | _ \<Rightarrow> raise err)))"

text \<open>The first part of \<^verbatim>\<open>run_turn\<close>: \<open>Inl\<close> of the turn that a plan paused, \<open>Inr\<close> of the messages to go on with.\<close>

definition plan_turn ::
  "orchestrator \<Rightarrow> conversation_turn \<Rightarrow> uuid \<Rightarrow> model_message list \<Rightarrow> int \<Rightarrow>
   (conversation_turn + model_message list) act" where
  "plan_turn A turn run_lease_id messages iterations =
     (if map_of (tn_checkpoint turn) ''planned_task_ids'' \<noteq> None
      then abind (sibling_provenance A turn) (\<lambda>m. ret (Inr (messages @ [m])))
      else if \<not> oc_delegation_enabled A then ret (Inr messages)
      else
        abind (has_available_ara A (tn_tenant_id turn)) (\<lambda>available.
        if \<not> available then ret (Inr messages)
        else
          abind (ask_planner A turn messages) (\<lambda>plan.
          let policy = validate_planner_decision plan (oc_max_delegation_siblings A) in
          if \<not> allowed policy
          then abind (planner_denied A turn (reason policy)) (\<lambda>_. ret (Inr messages))
          else if plan = [] then ret (Inr messages)
          else abind (delegate_plan A turn run_lease_id messages iterations plan) (\<lambda>t. ret (Inl t)))))"

section \<open>The loop of a turn\<close>

definition offered_tools :: "orchestrator \<Rightarrow> uuid \<Rightarrow> tool_definition list act" where
  "offered_tools A tenant_id =
     (let local = tool_definitions (oc_tools A) tenant_id @
            (if oc_memory_tools A = None then [] else [GET_FACT_TOOL, SET_FACT_TOOL, SEARCH_SESSION_TOOL]) in
      abind (if oc_delegation_enabled A then has_available_ara A tenant_id else ret False) (\<lambda>ara.
      abind (has_available_host_ara A tenant_id) (\<lambda>host.
      ret (local @ (if ara then [ARA_DELEGATE_TOOL] else []) @ (if host then [HOST_COMMAND_TOOL] else [])))))"

text \<open>
  The pending calls in order, each followed by a checkpoint: \<open>Inl\<close> of the paused turn, or \<open>Inr\<close> of the
  turn as last stored and the messages.
\<close>

fun run_calls ::
  "orchestrator \<Rightarrow> uuid \<Rightarrow> string set \<Rightarrow> int \<Rightarrow> tool_call list \<Rightarrow> conversation_turn \<Rightarrow> model_message list \<Rightarrow>
   (conversation_turn + conversation_turn \<times> model_message list) act" where
  "run_calls A run_lease_id known_tools iterations [] turn messages = ret (Inr (turn, messages))"
| "run_calls A run_lease_id known_tools iterations (c # calls) turn messages =
     abind (execute_call A turn run_lease_id c known_tools messages) (\<lambda>(paused, messages1).
     case paused of
       Some t \<Rightarrow> ret (Inl t)
     | None \<Rightarrow>
         abind (checkpoint A turn run_lease_id messages1 iterations calls) (\<lambda>turn1.
         run_calls A run_lease_id known_tools iterations calls turn1 messages1))"

text \<open>One request to the model with its events; a provider error is recorded and raised again.\<close>

definition request_model ::
  "orchestrator \<Rightarrow> conversation_turn \<Rightarrow> model_message list \<Rightarrow> tool_definition list \<Rightarrow> model_completion act" where
  "request_model A turn messages definitions =
     abind (file_event A (tn_tenant_id turn) MODEL_REQUEST
              [(''turn_id'', JId (tn_id turn)), (''message_count'', JInt (int (length messages)))]) (\<lambda>_.
     abind reading (\<lambda>n.
     abind (effect (Model_asked messages)) (\<lambda>_.
     abind (handle (lift (oc_complete A n messages definitions))
              (\<lambda>err. case err of
                 ModelProviderError m \<Rightarrow>
                   abind (file_event A (tn_tenant_id turn) MODEL_FAILED [(''turn_id'', JId (tn_id turn))])
                     (\<lambda>_. raise (ModelProviderError m))
               | _ \<Rightarrow> raise err)) (\<lambda>reply.
     case reply of
       Text _ \<Rightarrow> raise (TypeError ''tool-enabled model completion must return ModelCompletion'')
     | Completion completion \<Rightarrow>
         abind (file_event A (tn_tenant_id turn) MODEL_RESPONSE
                  [(''turn_id'', JId (tn_id turn)),
                   (''tool_call_count'', JInt (int (length (cp_tool_calls completion))))]) (\<lambda>_.
         ret completion)))))"

definition finish_turn :: "orchestrator \<Rightarrow> conversation_turn \<Rightarrow> uuid \<Rightarrow> string \<Rightarrow> conversation_turn act" where
  "finish_turn A turn run_lease_id content =
     abind (assistant_message A turn content) (\<lambda>message.
     call A (\<lambda>e. complete_turn e (tn_tenant_id turn) (tn_id turn) run_lease_id message))"

definition answer_text :: "string option \<Rightarrow> string" where
  "answer_text content = (case content of Some (c # cs) \<Rightarrow> c # cs | _ \<Rightarrow> ''I could not produce a response.'')"

definition stopped_text :: string where
  "stopped_text = ''I stopped after reaching the tool-call limit.''"

function model_loop ::
  "orchestrator \<Rightarrow> uuid \<Rightarrow> tool_definition list \<Rightarrow> int \<Rightarrow> conversation_turn \<Rightarrow> model_message list \<Rightarrow>
   conversation_turn act" where
  "model_loop A run_lease_id definitions iterations turn messages =
     (if iterations < oc_max_tool_iterations A
      then
        abind (request_model A turn messages definitions) (\<lambda>completion.
        if cp_tool_calls completion = []
        then finish_turn A turn run_lease_id (answer_text (cp_content completion))
        else
          let messages1 = messages @
                [system_message (tool_call_summary (cp_tool_calls completion) (cp_content completion))] in
          abind (checkpoint A turn run_lease_id messages1 (iterations + 1) (cp_tool_calls completion)) (\<lambda>turn1.
          abind (run_calls A run_lease_id (set (map td_name definitions)) (iterations + 1)
                   (cp_tool_calls completion) turn1 messages1) (\<lambda>progress.
          case progress of
            Inl paused \<Rightarrow> ret paused
          | Inr (turn2, messages2) \<Rightarrow> model_loop A run_lease_id definitions (iterations + 1) turn2 messages2)))
      else finish_turn A turn run_lease_id stopped_text)"
  by pat_completeness auto
termination
  by (relation "measure (\<lambda>(A, _, _, iterations, _). nat (oc_max_tool_iterations A - iterations))") auto

declare model_loop.simps [simp del]

definition run_turn :: "orchestrator \<Rightarrow> conversation_turn \<Rightarrow> uuid \<Rightarrow> conversation_turn act" where
  "run_turn A turn run_lease_id =
     abind (messages_for_turn A turn) (\<lambda>(messages, iterations, pending_calls).
     abind (plan_turn A turn run_lease_id messages iterations) (\<lambda>planned.
     case planned of
       Inl t \<Rightarrow> ret t
     | Inr messages1 \<Rightarrow>
         abind (offered_tools A (tn_tenant_id turn)) (\<lambda>definitions.
         abind (run_calls A run_lease_id (set (map td_name definitions)) iterations pending_calls turn messages1)
           (\<lambda>progress.
         case progress of
           Inl paused \<Rightarrow> ret paused
         | Inr (turn1, messages2) \<Rightarrow> model_loop A run_lease_id definitions iterations turn1 messages2))))"

section \<open>The streamed turn\<close>

text \<open>What is kept of the events of one request: the content and the tool calls, in order.\<close>

definition streamed_content :: "stream_event list \<Rightarrow> string" where
  "streamed_content events = concat (map se_content (filter (\<lambda>e. se_kind e = ''content'') events))"

definition streamed_calls :: "stream_event list \<Rightarrow> tool_call list" where
  "streamed_calls events = List.map_filter (\<lambda>e. if se_kind e = ''tool_call'' then se_tool_call e else None) events"

fun stream_events :: "stream_event list \<Rightarrow> unit act" where
  "stream_events [] = ret ()"
| "stream_events (ev # evs) = abind (effect (Event_streamed ev)) (\<lambda>_. stream_events evs)"

text \<open>The calls of a streamed reply: no checkpoint is taken; \<open>None\<close> when one of them paused the turn.\<close>

fun stream_calls ::
  "orchestrator \<Rightarrow> conversation_turn \<Rightarrow> uuid \<Rightarrow> string set \<Rightarrow> tool_call list \<Rightarrow> model_message list \<Rightarrow>
   model_message list option act" where
  "stream_calls A turn run_lease_id known_tools [] messages = ret (Some messages)"
| "stream_calls A turn run_lease_id known_tools (c # calls) messages =
     abind (execute_call A turn run_lease_id c known_tools messages) (\<lambda>(paused, messages1).
     case paused of
       Some _ \<Rightarrow> ret None
     | None \<Rightarrow> stream_calls A turn run_lease_id known_tools calls messages1)"

type_synonym streamer = "nat \<Rightarrow> model_message list \<Rightarrow> tool_definition list \<Rightarrow> stream_event list \<times> error option"

definition stream_request :: "streamer \<Rightarrow> model_message list \<Rightarrow> tool_definition list \<Rightarrow> stream_event list act" where
  "stream_request streamer messages definitions =
     abind reading (\<lambda>n.
     abind (effect (Model_asked messages)) (\<lambda>_.
     case streamer n messages definitions of
       (events, failed) \<Rightarrow>
         abind (stream_events events) (\<lambda>_.
         case failed of None \<Rightarrow> ret events | Some err \<Rightarrow> raise err)))"

function stream_loop ::
  "orchestrator \<Rightarrow> streamer \<Rightarrow> conversation_turn \<Rightarrow> uuid \<Rightarrow> tool_definition list \<Rightarrow> int \<Rightarrow> model_message list \<Rightarrow>
   unit act" where
  "stream_loop A streamer turn run_lease_id definitions iterations messages =
     (if iterations < oc_max_tool_iterations A
      then
        abind (stream_request streamer messages definitions) (\<lambda>events.
        if streamed_calls events = []
        then abind (finish_turn A turn run_lease_id
                      (if streamed_content events = [] then ''I could not produce a response.''
                       else streamed_content events)) (\<lambda>_. ret ())
        else
          abind (stream_calls A turn run_lease_id (set (map td_name definitions)) (streamed_calls events)
                   (messages @ [system_message (tool_call_summary (streamed_calls events)
                      (if streamed_content events = [] then None else Some (streamed_content events)))])) (\<lambda>progress.
          case progress of
            None \<Rightarrow> ret ()
          | Some messages1 \<Rightarrow> stream_loop A streamer turn run_lease_id definitions (iterations + 1) messages1))
      else abind (finish_turn A turn run_lease_id stopped_text) (\<lambda>_. ret ()))"
  by pat_completeness auto
termination
  by (relation "measure (\<lambda>(A, _, _, _, _, iterations, _). nat (oc_max_tool_iterations A - iterations))") auto

declare stream_loop.simps [simp del]

definition stream_turn :: "orchestrator \<Rightarrow> conversation_turn \<Rightarrow> uuid \<Rightarrow> unit act" where
  "stream_turn A turn run_lease_id =
     abind (messages_for_turn A turn) (\<lambda>(messages, iterations, _).
     abind (offered_tools A (tn_tenant_id turn)) (\<lambda>definitions.
     case oc_stream A of
       None \<Rightarrow> raise (ModelProviderError ''model provider does not support streaming'')
     | Some streamer \<Rightarrow>
         handle (stream_loop A streamer turn run_lease_id definitions iterations messages)
           (\<lambda>err. case err of
              ModelProviderError m \<Rightarrow>
                abind (file_event A (tn_tenant_id turn) MODEL_FAILED [(''turn_id'', JId (tn_id turn))])
                  (\<lambda>_. raise (ModelProviderError m))
            | _ \<Rightarrow> raise err)))"

section \<open>Advancing turns\<close>

definition advance_one :: "orchestrator \<Rightarrow> uuid \<Rightarrow> conversation_turn option act" where
  "advance_one A tenant_id =
     abind (fresh A) (\<lambda>e.
     abind (call A (\<lambda>e'. claim_pending_turn e' tenant_id (gen e 0) (clk e 0 + minutes 5))) (\<lambda>claimed.
     case claimed of
       None \<Rightarrow> ret None
     | Some turn \<Rightarrow> abind (run_turn A turn (gen e 0)) (\<lambda>t. ret (Some t))))"

text \<open>The loop of \<^verbatim>\<open>respond\<close>: it advances the tenant's oldest turn until its own is completed or paused.\<close>

partial_function (option) await_turn ::
  "orchestrator \<Rightarrow> uuid \<Rightarrow> conversation_turn \<Rightarrow> agent_state \<Rightarrow> ((error + conversation_turn) \<times> agent_state) option" where
  "await_turn A tenant_id turn st =
     (if tn_state turn = Turn_COMPLETED \<or> tn_state turn = Turn_PAUSED then Some (Inr turn, st)
      else (case advance_one A tenant_id st of
              (Inl err, st1) \<Rightarrow> Some (Inl err, st1)
            | (Inr _, st1) \<Rightarrow>
                (case observe A (\<lambda>_. get_turn tenant_id (tn_id turn)) st1 of
                   (Inl err, st2) \<Rightarrow> Some (Inl err, st2)
                 | (Inr None, st2) \<Rightarrow> Some (Inl (LifecycleConflictError ''turn is unavailable''), st2)
                 | (Inr (Some refreshed), st2) \<Rightarrow> await_turn A tenant_id refreshed st2)))"

definition last_answer ::
  "orchestrator \<Rightarrow> uuid \<Rightarrow> uuid \<Rightarrow> conversation_message \<Rightarrow> conversation_turn \<Rightarrow>
   (conversation_message \<times> conversation_message) act" where
  "last_answer A tenant_id conversation_id user_message turn =
     (if tn_state turn = Turn_PAUSED then raise (LifecycleConflictError ''turn is awaiting approval'')
      else
        abind (observe_or_raise A (\<lambda>_. list_messages tenant_id conversation_id (oc_history_limit A))) (\<lambda>messages.
        case find (\<lambda>m. ms_role m = Role_ASSISTANT) (rev messages) of
          None \<Rightarrow> raise (LifecycleConflictError ''completed turn has no assistant message'')
        | Some m \<Rightarrow> ret (user_message, m)))"

definition respond ::
  "orchestrator \<Rightarrow> uuid \<Rightarrow> uuid \<Rightarrow> uuid \<Rightarrow> string \<Rightarrow> agent_state \<Rightarrow>
   ((error + conversation_message \<times> conversation_message) \<times> agent_state) option" where
  "respond A tenant_id user_id conversation_id content st =
     (case abind (fresh A) (\<lambda>e. start_turn A tenant_id user_id conversation_id (gen e 0) content) st of
        (Inl err, st1) \<Rightarrow> Some (Inl err, st1)
      | (Inr (user_message, turn), st1) \<Rightarrow>
          (case await_turn A tenant_id turn st1 of
             None \<Rightarrow> None
           | Some (Inl err, st2) \<Rightarrow> Some (Inl err, st2)
           | Some (Inr finished, st2) \<Rightarrow>
               Some (last_answer A tenant_id conversation_id user_message finished st2)))"

section \<open>The runner of the application\<close>

text \<open>
  \<^verbatim>\<open>run_pending_turns\<close> of \<^verbatim>\<open>app.py\<close>: turns are advanced until none can be claimed; an exception is logged
  and ends the run.
\<close>

partial_function (option) run_pending_turns ::
  "orchestrator \<Rightarrow> uuid \<Rightarrow> agent_state \<Rightarrow> agent_state option" where
  "run_pending_turns A tenant_id st =
     (case advance_one A tenant_id st of
        (Inl err, st1) \<Rightarrow> Some st1
      | (Inr None, st1) \<Rightarrow> Some st1
      | (Inr (Some _), st1) \<Rightarrow> run_pending_turns A tenant_id st1)"

end
