(* ===== verification/AgentSamples.thy ===== *)
theory AgentSamples
  imports TurnLoop Samples "HOL-Library.Countable"
begin

text \<open>
  A concrete orchestrator and the state of a tenant with one pending turn, on which the properties of turns
  are instantiated; \<open>agent_eval\<close> are the equations that evaluate its actions.
\<close>

text \<open>Its environment draws new identifiers at every reading; the model answers every request alike.\<close>

definition sample_readings :: "nat \<Rightarrow> env" where
  "sample_readings n = \<lparr>clk = (\<lambda>_. 100), gen = (\<lambda>i. 1000 + prod_encode (n, i)),
     ev_uuid = (\<lambda>i. 5000 + i), ev_clock = (\<lambda>_. 100)\<rparr>"

definition sample_agent :: "model_completion \<Rightarrow> orchestrator" where
  "sample_agent answer =
     \<lparr>oc_env = sample_readings, oc_others = (\<lambda>_ s. s),
      oc_compile = (\<lambda>_ _ _ _. Inr \<lparr>cb_tenant_id = 1, cb_content = ''You are Astra.'', cb_source_memory_ids = [], cb_estimated_tokens = 4\<rparr>),
      oc_complete = (\<lambda>_ _ _. Inr (Completion answer)), oc_plan = None, oc_stream = None,
      oc_machine = (\<lambda>_. \<lparr>mc_files = Directory [], mc_exec = (\<lambda>_. Exited 0 [''ok''] [])\<rparr>),
      oc_decode = (\<lambda>s. s), oc_dumps = (\<lambda>_ _. ''{}''), oc_repr = (\<lambda>_. ''''),
      oc_digest = (\<lambda>_. replicate 64 CHR ''0''), oc_history_limit = 20, oc_delegation_enabled = False,
      oc_tools = \<lparr>ts_workspaces = [], ts_read_max_bytes = 100,
        ts_search_limits = \<lparr>sl_max_file_bytes = 100, sl_max_files = 10, sl_max_matches = 10, sl_max_output_bytes = 100\<rparr>,
        ts_sandbox = None\<rparr>,
      oc_max_tool_iterations = 4, oc_max_delegation_siblings = 2, oc_memory_tools = None\<rparr>"

definition sample_state :: agent_state where
  "sample_state = \<lparr>os_store = empty_store\<lparr>st_conversations := [(10, sample_conversation)],
     st_messages := [(20, sample_message)], st_turns := [(30, sample_turn)]\<rparr>, os_reading = 0, os_effects = []\<rparr>"

definition plain_answer :: model_completion where
  "plain_answer = \<lparr>cp_content = Some ''Hello!'', cp_tool_calls = []\<rparr>"

definition sample_claimed :: agent_state where
  "sample_claimed = sample_state\<lparr>os_store := (os_store sample_state)\<lparr>st_turns := [(30, sample_running_turn)]\<rparr>\<rparr>"

definition sample_call :: tool_call where
  "sample_call = \<lparr>tc_id = ''call-1'', tc_name = ''read_file'', tc_arguments = [(''path'', JStr ''notes.txt'')]\<rparr>"

lemmas agent_run = abind_def fresh_def reading_def call_def observe_def observe_or_raise_def lift_def ret_def
  raise_def effect_def handle_def ebind_def Let_def

lemmas agent_eval = agent_run samples sample_agent_def sample_readings_def empty_store_def minutes_def seconds_def
  claim_pending_turn_def claimable_turn_def validate_run_lease_expiry_def advance_one_def run_turn_def
  messages_for_turn_def restore_checkpoint_def get_or_def list_messages_def scoped_def slice_from_def
  ara_guidance_def file_event_def append_event_def plan_turn_def offered_tools_def has_available_host_ara_def
  tool_definitions_def AuditEvent_def request_model_def finish_turn_def answer_text_def assistant_message_def
  checked_def valid_message_def str_between_def complete_turn_def active_turn_def

lemma sample_advance:
  "\<exists>t st1. advance_one (sample_agent plain_answer) 1 sample_state = (Inr (Some t), st1) \<and>
     st_turns (os_store st1) = [(30, t)] \<and> tn_state t = Turn_COMPLETED"
  by (simp add: agent_eval sample_state_def plain_answer_def model_loop.simps del: One_nat_def)

lemma sample_idle:
  "st_turns (os_store st) = [(30, t)] \<Longrightarrow> tn_state t = Turn_COMPLETED \<Longrightarrow>
     \<exists>st2. advance_one (sample_agent answer) 1 st = (Inr None, st2)"
  by (simp add: agent_eval del: One_nat_def)

end
