(* ===== verification/CallProperties.thy ===== *)
theory CallProperties
  imports ToolProperties AgentSamples RowSteps
begin

text \<open>
  The calls a model asks for: when a command is run and what a host command leads to, with the invocations
  and approvals they leave in the store.
\<close>

section \<open>Commands\<close>

text \<open>The invocation already filed under the identifier of a call, which the model chooses.\<close>

definition filed_invocation :: "store \<Rightarrow> uuid \<Rightarrow> string \<Rightarrow> tool_invocation option" where
  "filed_invocation s turn_id tool_call_id =
     find (\<lambda>i. iv_turn_id i = turn_id \<and> iv_tool_call_id i = tool_call_id) (dict_values (st_tool_invocations s))"

lemma create_invocation_call:
  assumes "s = oc_others A (os_reading st) (os_store st)" and "map_of (st_turns s) (iv_turn_id new) = Some t"
    and "tn_tenant_id t = iv_tenant_id new"
  shows "\<exists>st'. call A (\<lambda>e. create_tool_invocation e new) st =
      (Inr (case filed_invocation s (iv_turn_id new) (iv_tool_call_id new) of Some i \<Rightarrow> i | None \<Rightarrow> new), st') \<and>
     os_effects st' = os_effects st"
proof -
  have "fst (create_tool_invocation e new s) =
      Inr (case filed_invocation s (iv_turn_id new) (iv_tool_call_id new) of Some i \<Rightarrow> i | None \<Rightarrow> new)" for e
    using assms(2,3) by (simp add: create_tool_invocation_def filed_invocation_def scoped_def split: option.split)
  then show ?thesis
    by (cases "create_tool_invocation (oc_env A (os_reading st)) new s") (simp add: call_def assms(1), metis fst_conv)
qed

lemma quiet_tail:
  "os_effects (snd (request_local_approval A turn c i r messages st)) = os_effects st"
  "os_effects (snd (abind (call A g) (\<lambda>_. answered messages c content) st)) = os_effects st"
  by (auto simp: request_local_approval_def answered_def agent_run split: prod.splits sum.splits option.splits)

lemma run_local_tool_effects:
  "os_effects (snd (run_local_tool A turn c a st)) = os_effects st @
     (case fst (dispatch (oc_tools A) (oc_decode A) (oc_machine A (os_reading st)) (tn_tenant_id turn) (tc_name c)
        (tc_arguments c) a) of None \<Rightarrow> [] | Some command \<Rightarrow> [Sandbox_started command])"
  by (auto simp: run_local_tool_def agent_run split: prod.splits option.splits)

lemma execute_local_tool_effects:
  assumes "new_invocation A turn None (tc_id c) (tc_name c) Target_LOCAL (tc_arguments c) st = (Inr new, st1)"
    and "call A (\<lambda>e. create_tool_invocation e new) st1 = (Inr i, st2)"
    and "tc_name c \<in> known"
  shows "os_effects (snd (execute_local_tool A turn c known messages st)) = os_effects st2 @
    (if iv_state i = Inv_DENIED then [] else
       (case fst (dispatch (oc_tools A) (oc_decode A) (oc_machine A (os_reading st2)) (tn_tenant_id turn) (tc_name c)
          (tc_arguments c) (if iv_id i \<noteq> iv_id new then Some Appr_GRANTED else None)) of
          None \<Rightarrow> [] | Some command \<Rightarrow> [Sandbox_started command]))"
proof -
  define m where "m = run_local_tool A turn c (if iv_id i \<noteq> iv_id new then Some Appr_GRANTED else None)"
  define k where "k = (\<lambda>result. if map_of (tr_data result) ''requires_approval'' = Some (JBool True)
       then request_local_approval A turn c i result messages
       else if tr_success result
       then abind (call A (\<lambda>e. complete_tool_invocation e (tn_tenant_id turn) (iv_id i))) (\<lambda>_.
            answered messages c (bounded_result A result))
       else abind (call A (\<lambda>e. fail_tool_invocation e (tn_tenant_id turn) (iv_id i))) (\<lambda>_.
            answered messages c ''The tool request was denied or could not be completed.''))"
  have tail: "os_effects (snd (k result st')) = os_effects st'" for result st'
    by (simp add: k_def quiet_tail)
  have "execute_local_tool A turn c known messages st =
      (if iv_state i = Inv_DENIED then answered messages c ''Tool use was denied by policy.'' st2 else abind m k st2)"
    using assms by (simp add: execute_local_tool_def m_def k_def abind_def split: if_splits)
  moreover have "os_effects (snd (abind m k st2)) = os_effects (snd (m st2))"
    by (cases "fst (m st2)") (auto simp: abind_def tail split: prod.splits sum.splits)
  ultimately show ?thesis by (simp add: m_def run_local_tool_effects answered_def ret_def)
qed

lemma execute_command_call:
  "tc_name c = ''run_command'' \<Longrightarrow> execute_call A turn l c known messages = execute_local_tool A turn c known messages"
  by (simp add: execute_call_def ARA_DELEGATE_TOOL_def HOST_COMMAND_TOOL_def GET_FACT_TOOL_def SET_FACT_TOOL_def
      SEARCH_SESSION_TOOL_def)

text \<open>A workspace that may run commands, in a sandbox.\<close>

definition runs_commands :: "tool_settings \<Rightarrow> uuid \<Rightarrow> workspace \<Rightarrow> sandbox \<Rightarrow> bool" where
  "runs_commands ts u ws sb \<longleftrightarrow> map_of (ts_workspaces ts) u = Some ws \<and> ts_sandbox ts = Some sb \<and>
     COMMAND_EXECUTE_CAPABILITY \<in> set (ws_grants ws)"

lemma dispatch_command:
  assumes "runs_commands ts u ws sb" and "argv_of (get_or JNull args ''argv'') = Some argv"
  shows "fst (dispatch ts decode mc u ''run_command'' args approval) =
    (if approval = Some Appr_GRANTED then Some (sandbox_command sb (ws_root ws) argv) else None)"
  using assms
  by (simp add: runs_commands_def dispatch_def Let_def registry_tools_def evaluate_capability_def run_command_execute_def
      COMMAND_EXECUTE_CAPABILITY_def)

text \<open>
  C20: Whether a command runs is decided by the identifier the model gives the call, not by an approval: under the
  identifier of an invocation of the turn that is not denied, whatever that invocation was for, the container is
  started with the arguments of the new call, and no approval is looked at; under a new identifier it is not.
\<close>

theorem command_runs_under_filed_id:
  assumes new: "new_invocation A turn None (tc_id c) (tc_name c) Target_LOCAL (tc_arguments c) st = (Inr new, st1)"
    and call: "tc_name c = ''run_command''" "''run_command'' \<in> known"
      "argv_of (get_or JNull (tc_arguments c) ''argv'') = Some argv"
    and ws: "runs_commands (oc_tools A) (tn_tenant_id turn) ws sb"
    and s: "s = oc_others A (os_reading st1) (os_store st1)" "map_of (st_turns s) (tn_id turn) = Some t0"
      "tn_tenant_id t0 = tn_tenant_id turn"
    and fresh: "map_of (st_tool_invocations s) (iv_id new) = None" "keyed iv_id (st_tool_invocations s)"
  shows "os_effects (snd (execute_call A turn l c known messages st)) = os_effects st @
    (case filed_invocation s (tn_id turn) (tc_id c) of
       None \<Rightarrow> []
     | Some i \<Rightarrow> if iv_state i = Inv_DENIED then [] else [Sandbox_started (sandbox_command sb (ws_root ws) argv)])"
proof -
  from new have n: "iv_turn_id new = tn_id turn" "iv_tool_call_id new = tc_id c" "iv_tenant_id new = tn_tenant_id turn"
    "iv_state new = Inv_PENDING" and eff1: "os_effects st1 = os_effects st"
    by (auto simp: new_invocation_def agent_run split: prod.splits sum.splits)
  define i where "i = (case filed_invocation s (tn_id turn) (tc_id c) of Some i \<Rightarrow> i | None \<Rightarrow> new)"
  from create_invocation_call[OF s(1), of new] s(2,3) n obtain st2
    where filed: "call A (\<lambda>e. create_tool_invocation e new) st1 = (Inr i, st2)"
    and eff2: "os_effects st2 = os_effects st1"
    unfolding i_def by auto
  have other: "iv_id i' \<noteq> iv_id new" if "filed_invocation s (tn_id turn) (tc_id c) = Some i'" for i'
  proof -
    from that have "i' \<in> set (dict_values (st_tool_invocations s))"
      by (auto simp: filed_invocation_def find_Some_iff)
    then show ?thesis using fresh keyed_values[OF fresh(2), of i'] by auto
  qed
  show ?thesis
    using execute_local_tool_effects[OF new filed, of known messages] call(1,2) n(4) other
    by (auto simp: execute_command_call dispatch_command[OF ws call(3)] eff1 eff2 i_def split: option.splits)
qed

text \<open>An agent whose tenant may run commands, and a turn with an invocation of another tool.\<close>

definition command_agent :: orchestrator where
  "command_agent = (sample_agent plain_answer)\<lparr>oc_tools := sample_tools, oc_machine := (\<lambda>_. sample_machine)\<rparr>"

definition command_call :: tool_call where
  "command_call = \<lparr>tc_id = ''call-1'', tc_name = ''run_command'', tc_arguments = [(''argv'', JList [JStr ''ls''])]\<rparr>"

definition filed_state :: agent_state where
  "filed_state = sample_claimed\<lparr>os_store := (os_store sample_claimed)\<lparr>
     st_tool_invocations := [(35, sample_invocation\<lparr>iv_tool_call_id := ''call-1'', iv_tool_name := ''get_fact'',
       iv_target := Target_LOCAL, iv_state := Inv_COMPLETED\<rparr>)]\<rparr>\<rparr>"

lemmas command_eval = command_agent_def command_call_def filed_state_def sample_claimed_def sample_state_def
  sample_tools_def sample_machine_def runs_commands_def new_invocation_def valid_invocation_def arguments_sha256_def
  is_sha256_hex_def filed_invocation_def argv_of_def json_text_def

lemma command_call_runs:
  "\<exists>new st1. new_invocation command_agent sample_running_turn None (tc_id command_call) (tc_name command_call) Target_LOCAL
      (tc_arguments command_call) st = (Inr new, st1) \<and> os_store st1 = os_store st \<and> iv_id new \<ge> 1000"
  by (simp add: agent_eval command_eval list_all_iff)

lemma command_workspace:
  "runs_commands (oc_tools command_agent) (tn_tenant_id sample_running_turn) \<lparr>ws_root = [''w''], ws_grants = [FILE_READ_CAPABILITY, COMMAND_EXECUTE_CAPABILITY]\<rparr>
     (the (ts_sandbox sample_tools))"
  by (simp add: command_eval samples)

theorem command_runs_under_filed_id_witness:
  "\<exists>command. os_effects (snd (execute_call command_agent sample_running_turn 33 command_call {''run_command''} [] filed_state)) =
     [Sandbox_started command] \<and> last command = ''ls'' \<and> st_approvals (os_store filed_state) = []"
proof -
  obtain new st1 where new: "new_invocation command_agent sample_running_turn None (tc_id command_call) (tc_name command_call)
      Target_LOCAL (tc_arguments command_call) filed_state = (Inr new, st1)" "os_store st1 = os_store filed_state"
      "iv_id new \<ge> 1000"
    using command_call_runs by blast
  have "os_effects (snd (execute_call command_agent sample_running_turn 33 command_call {''run_command''} [] filed_state)) =
      [Sandbox_started (sandbox_command (the (ts_sandbox sample_tools)) [''w''] [''ls''])]"
  proof -
    have "tc_name command_call = ''run_command''" "argv_of (get_or JNull (tc_arguments command_call) ''argv'') = Some [''ls'']"
      "map_of (st_turns (oc_others command_agent (os_reading st1) (os_store st1))) (tn_id sample_running_turn) = Some sample_running_turn"
      "map_of (st_tool_invocations (oc_others command_agent (os_reading st1) (os_store st1))) (iv_id new) = None"
      "keyed iv_id (st_tool_invocations (oc_others command_agent (os_reading st1) (os_store st1)))"
      using new(2,3) by (simp_all add: command_eval get_or_def sample_agent_def samples keyed_def)
    then show ?thesis
      using command_runs_under_filed_id[OF new(1) _ _ _ command_workspace refl, of "{''run_command''}" "[''ls'']"
        sample_running_turn 33 "[]"] new(2)
      by (simp add: command_eval samples sample_agent_def)
  qed
  then show ?thesis by (simp add: sandbox_command_def command_eval empty_store_def)
qed

text \<open>
  A command under a new identifier waits: nothing is started, the turn is paused, the invocation awaits
  approval, and a pending approval of the coordinator names it and the command capability.
\<close>

theorem new_command_awaits_approval:
  assumes alone: "oc_others A = (\<lambda>_ s. s)"
    and new: "new_invocation A turn None (tc_id c) (tc_name c) Target_LOCAL (tc_arguments c) st = (Inr new, st1)"
    and call: "tc_name c = ''run_command''" "''run_command'' \<in> known"
    and ws: "runs_commands (oc_tools A) (tn_tenant_id turn) ws sb"
    and row: "map_of (st_turns (os_store st)) (tn_id turn) = Some t0" "tn_tenant_id t0 = tn_tenant_id turn"
      "tn_id t0 = tn_id turn"
    and fresh: "filed_invocation (os_store st) (tn_id turn) (tc_id c) = None"
  shows "\<exists>t a i st'. execute_call A turn l c known messages st = (Inr (Some t, messages), st') \<and>
    os_effects st' = os_effects st \<and> tn_state t = Turn_PAUSED \<and>
    map_of (st_turns (os_store st')) (tn_id turn) = Some t \<and>
    map_of (st_approvals (os_store st')) (ap_id a) = Some a \<and> ap_state a = Appr_PENDING \<and>
    ap_tool_invocation_id a = Some (iv_id i) \<and> ap_capability a = COMMAND_EXECUTE_CAPABILITY \<and>
    map_of (st_tool_invocations (os_store st')) (iv_id i) = Some i \<and> iv_tool_call_id i = tc_id c \<and>
    iv_state i = Inv_AWAITING_APPROVAL"
proof -
  from new have n: "iv_turn_id new = tn_id turn" "iv_tool_call_id new = tc_id c" "iv_tenant_id new = tn_tenant_id turn"
    "iv_state new = Inv_PENDING" and st1: "os_effects st1 = os_effects st" "os_store st1 = os_store st"
    by (auto simp: new_invocation_def agent_run split: prod.splits sum.splits)
  have denied: "dispatch (oc_tools A) decode mc (tn_tenant_id turn) ''run_command'' args None =
      (None, Inr \<lparr>tr_success = False, tr_content = [], tr_error = Some ''impactful capability requires approval'',
        tr_data = [(''requires_approval'', JBool True)]\<rparr>)" for decode mc args
    using ws by (simp add: runs_commands_def dispatch_def registry_tools_def evaluate_capability_def
        COMMAND_EXECUTE_CAPABILITY_def)
  let ?a = "\<lparr>ap_id = gen (oc_env A (Suc (Suc (os_reading st1)))) 0, ap_tenant_id = tn_tenant_id turn,
      ap_task_id = None, ap_tool_invocation_id = Some (iv_id new),
      ap_capability = \<lparr>cap_kind = COMMAND_EXECUTE, cap_scope = ''workspace''\<rparr>, ap_requested_by = None,
      ap_requestor_type = Actor_COORDINATOR, ap_state = Appr_PENDING,
      ap_reason = ''impactful capability requires approval'',
      ap_created_at = clk (oc_env A (Suc (Suc (os_reading st1)))) 0, ap_decided_at = None, ap_decided_by = None\<rparr>"
  let ?i = "new\<lparr>iv_state := Inv_AWAITING_APPROVAL,
      iv_updated_at := clk (oc_env A (Suc (Suc (Suc (os_reading st1))))) 0\<rparr>"
  show ?thesis
    using call(2) row fresh n st1
    by (simp add: execute_command_call[OF call(1)] execute_local_tool_def abind_def new[unfolded call(1)] call(1)
        call_def create_tool_invocation_def alone filed_invocation_def scoped_def run_local_tool_def reading_def denied lift_def
        request_local_approval_def fresh_def checked_def valid_approval_def valid_capability_def capability_for_def
        COMMAND_EXECUTE_CAPABILITY_def str_between_def create_coordinator_approval_def observe_def get_turn_def ret_def
        update_conv')
      (rule exI[of _ ?a], simp, rule exI[of _ ?i], simp add: n)
qed

theorem new_command_awaits_approval_witness:
  "\<exists>t st'. execute_call command_agent sample_running_turn 33 command_call {''run_command''} [] sample_claimed =
     (Inr (Some t, []), st') \<and> os_effects st' = [] \<and> tn_state t = Turn_PAUSED"
proof -
  obtain new st1 where new: "new_invocation command_agent sample_running_turn None (tc_id command_call) (tc_name command_call)
      Target_LOCAL (tc_arguments command_call) sample_claimed = (Inr new, st1)"
    using command_call_runs by blast
  have "oc_others command_agent = (\<lambda>_ s. s)" "tc_name command_call = ''run_command''" "''run_command'' \<in> {''run_command''}"
    "map_of (st_turns (os_store sample_claimed)) (tn_id sample_running_turn) = Some sample_running_turn"
    "filed_invocation (os_store sample_claimed) (tn_id sample_running_turn) (tc_id command_call) = None"
    by (simp_all add: command_eval sample_agent_def samples empty_store_def)
  from new_command_awaits_approval[OF this(1) new this(2,3) command_workspace this(4) refl refl this(5), of 33 "[]"]
  have "\<exists>t st'. execute_call command_agent sample_running_turn 33 command_call {''run_command''} [] sample_claimed =
     (Inr (Some t, []), st') \<and> os_effects st' = os_effects sample_claimed \<and> tn_state t = Turn_PAUSED"
    by blast
  then show ?thesis by (simp add: sample_claimed_def sample_state_def)
qed

section \<open>Host commands\<close>

text \<open>
  A new host command is requested with an error: its approval is filed and the turn paused in one call, so the
  second pause that the method asks for finds the turn no longer claimed and raises; the run of the turn ends with
  that exception, with the paused turn and the pending approval in the store.
\<close>

theorem host_command_request_raises:
  assumes alone: "oc_others A = (\<lambda>_ s. s)"
    and new: "new_invocation A turn None (tc_id c) (tc_name c) Target_ARA (tc_arguments c)
      (st\<lparr>os_reading := Suc (os_reading st)\<rparr>) = (Inr new, st1)"
    and args: "host_command_arguments (tc_arguments c) = Some (argv, cwd, why)"
    and row: "map_of (st_turns (os_store st)) (tn_id turn) = Some t0" "tn_tenant_id t0 = tn_tenant_id turn"
      "tn_id t0 = tn_id turn"
    and fresh: "filed_invocation (os_store st) (tn_id turn) (tc_id c) = None"
  shows "\<exists>t a st'. delegate_host_command A turn l c messages st =
      (Inl (LifecycleConflictError ''turn is not actively claimed''), st') \<and>
    map_of (st_turns (os_store st')) (tn_id turn) = Some t \<and> tn_state t = Turn_PAUSED \<and>
    map_of (st_approvals (os_store st')) (ap_id a) = Some a \<and> ap_state a = Appr_PENDING \<and>
    ap_tool_invocation_id a = Some (iv_id new) \<and> ap_capability a = HOST_COMMAND_CAPABILITY"
proof -
  from new have n: "iv_turn_id new = tn_id turn" "iv_tool_call_id new = tc_id c" "iv_tenant_id new = tn_tenant_id turn"
    "iv_state new = Inv_PENDING" and st1: "os_store st1 = os_store st"
    by (auto simp: new_invocation_def agent_run split: prod.splits sum.splits)
  have get: "get_tool_invocation (tn_tenant_id turn) (tn_id turn) (tc_id c) (os_store st) = None"
    using fresh by (auto simp: get_tool_invocation_def filed_invocation_def find_None_iff)
  have len: "length (slice_to 200 why) \<le> 200"
    by (simp add: slice_to_def)
  let ?a = "\<lparr>ap_id = gen (oc_env A (Suc (os_reading st1))) 0, ap_tenant_id = tn_tenant_id turn,
      ap_task_id = None, ap_tool_invocation_id = Some (iv_id new),
      ap_capability = HOST_COMMAND_CAPABILITY, ap_requested_by = None,
      ap_requestor_type = Actor_COORDINATOR, ap_state = Appr_PENDING,
      ap_reason = ''Host command: '' @ slice_to 200 why,
      ap_created_at = clk (oc_env A (Suc (os_reading st1))) 0, ap_decided_at = None, ap_decided_by = None\<rparr>"
  have valid: "valid_approval ?a"
    using len by (simp add: valid_approval_def valid_capability_def HOST_COMMAND_CAPABILITY_def str_between_def)
  show ?thesis
    using row fresh n st1
    by (simp add: delegate_host_command_def args observe_def abind_def call_def alone get has_available_host_ara_def
        new[unfolded alone] create_tool_invocation_def filed_invocation_def scoped_def ret_def fresh_def lift_def
        checked_def valid[simplified] create_coordinator_approval_def pause_def pause_turn_def active_turn_def update_conv')
      (rule exI[of _ ?a], simp)
qed

definition host_call :: tool_call where
  "host_call = \<lparr>tc_id = ''call-1'', tc_name = ''delegate_host_command'',
     tc_arguments = [(''argv'', JList [JStr ''ls'']), (''reason'', JStr ''look'')]\<rparr>"

lemma host_arguments: "host_command_arguments (tc_arguments host_call) = Some ([''ls''], None, ''look'')"
  by (simp add: host_command_arguments_def host_call_def get_or_def argv_of_def json_text_def)

theorem host_command_request_raises_witness:
  "\<exists>st'. delegate_host_command command_agent sample_running_turn 33 host_call [] sample_claimed =
     (Inl (LifecycleConflictError ''turn is not actively claimed''), st') \<and> st_approvals (os_store st') \<noteq> []"
proof -
  obtain new st1 where new: "new_invocation command_agent sample_running_turn None (tc_id host_call) (tc_name host_call)
      Target_ARA (tc_arguments host_call) (sample_claimed\<lparr>os_reading := Suc (os_reading sample_claimed)\<rparr>) = (Inr new, st1)"
    by (simp add: agent_eval command_eval host_call_def list_all_iff)
  have "oc_others command_agent = (\<lambda>_ s. s)"
    "map_of (st_turns (os_store sample_claimed)) (tn_id sample_running_turn) = Some sample_running_turn"
    "filed_invocation (os_store sample_claimed) (tn_id sample_running_turn) (tc_id host_call) = None"
    by (simp_all add: command_eval sample_agent_def samples empty_store_def)
  from host_command_request_raises[OF this(1) new host_arguments this(2) refl refl this(3), of 33 "[]"]
  show ?thesis by fastforce
qed

lemma found_after_update:
  assumes "iv_turn_id x = a" and "iv_tool_call_id x = b"
  shows "\<exists>j. find (\<lambda>i. iv_turn_id i = a \<and> iv_tool_call_id i = b) (dict_values (AList.update k x tbl)) = Some j"
proof -
  have "x \<in> set (dict_values (AList.update k x tbl))" by simp
  then show ?thesis using assms by (metis (mono_tags, lifting) find_None_iff not_Some_eq)
qed

lemma finish_unlinked_task:
  assumes "\<forall>i \<in> set (dict_values (st_tool_invocations s)). iv_task_id i \<noteq> Some task_id"
  shows "st_turns (snd (finish_task e u ara task_id l state detail artifacts s)) = st_turns s"
proof -
  have "find (\<lambda>i. iv_task_id i = Some task_id) (dict_values (st_tool_invocations s)) = None"
    using assms by (auto simp: find_None_iff)
  then show ?thesis by (simp add: finish_task_def Let_def split: sum.splits prod.splits option.splits)
qed


text \<open>The same turn, resumed after the approval.\<close>

definition approved_state :: agent_state where
  "approved_state = sample_claimed\<lparr>os_store := (os_store sample_claimed)\<lparr>
     st_tool_invocations := [(35, sample_invocation\<lparr>iv_tool_call_id := ''call-1''\<rparr>)]\<rparr>\<rparr>"


end
