(* ===== verification/AgentInvariants.thy ===== *)
theory AgentInvariants
  imports TurnLoop
begin

text \<open>
  Invariants of the orchestrator's actions. The locale \<open>turn_invariant\<close> is the interface between an invariant
  and the methods: it lists the calls to the store that the methods make and the effects they have, and every
  method keeps an invariant that those keep. Each invariant is one interpretation.
\<close>

section \<open>The writes of a turn\<close>

text \<open>\<open>C\<close> are the checkpoints that may be written.\<close>

inductive turn_write :: "((string, json) dict \<Rightarrow> bool) \<Rightarrow> store \<Rightarrow> store \<Rightarrow> bool" for C where
  write_none [intro]: "turn_write C s s"
| write_event: "turn_write C s (snd (append_event ev s))"
| write_invocation: "turn_write C s (snd (create_tool_invocation e i s))"
| write_finish: "turn_write C s (snd (finish_tool_invocation e u k st s))"
| write_approval: "turn_write C s (snd (create_coordinator_approval e a s))"
| write_task: "turn_write C s (snd (add_task t ev s))"
| write_memory: "turn_write C s (snd (upsert_memory m evs s))"
| write_pause: "C cp \<Longrightarrow> turn_write C s (snd (pause_turn e u k l cp s))"
| write_complete: "turn_write C s (snd (complete_turn e u k l m s))"
| write_checkpoint: "C cp \<Longrightarrow> turn_write C s (snd (checkpoint_turn e u k l cp s))"
| write_delegation: "C cp \<Longrightarrow> turn_write C s (snd (create_delegated_tasks e u k l ts is cp s))"

lemma write_fail: "turn_write C s (snd (fail_tool_invocation e u k s))"
  unfolding fail_tool_invocation_def by (rule write_finish)

lemma write_completed: "turn_write C s (snd (complete_tool_invocation e u k s))"
  unfolding complete_tool_invocation_def by (rule write_finish)

locale turn_invariant =
  fixes A :: orchestrator
    and P :: "agent_state \<Rightarrow> bool"
    and C :: "(string, json) dict \<Rightarrow> bool"
    and quiet :: "effect \<Rightarrow> bool"
  assumes read: "P st \<Longrightarrow> P (st\<lparr>os_reading := n\<rparr>)"
    and effects: "P st \<Longrightarrow> quiet x \<Longrightarrow> P (st\<lparr>os_effects := os_effects st @ [x]\<rparr>)"
    and quiet: "quiet (Sandbox_started command)" "quiet (Vector_called c)" "quiet (Event_streamed ev)"
    and written: "P st \<Longrightarrow> turn_write C (oc_others A n (os_store st)) s \<Longrightarrow> P (st\<lparr>os_store := s\<rparr>)"
begin

lemmas keeps_rules [intro!] = keeps_basic keeps_abind keeps_handle keeps_if

lemma keeps_reading [intro!]: "keeps P reading"
  by (simp add: keeps_def yields_def reading_def read)

lemma keeps_fresh [intro!]: "keeps P (fresh A)"
  by (simp add: keeps_def yields_def fresh_def read)

lemma keeps_effect: "quiet x \<Longrightarrow> keeps P (effect x)"
  by (simp add: keeps_def yields_def effect_def effects)

lemma keeps_effects [intro!]:
  "keeps P (effect (Sandbox_started command))" "keeps P (effect (Vector_called c))" "keeps P (effect (Event_streamed ev))"
  by (simp_all add: keeps_effect quiet)

lemma keeps_call: "(\<And>e s. turn_write C s (snd (g e s))) \<Longrightarrow> keeps P (call A g)"
proof -
  assume w: "\<And>e s. turn_write C s (snd (g e s))"
  have "P (st\<lparr>os_store := snd (g e (oc_others A n (os_store st))), os_reading := k\<rparr>)" if "P st" for st e n k
    using read[OF written[OF that w]] by simp
  then show ?thesis by (simp add: keeps_def yields_def call_def split: prod.splits) (metis snd_conv)
qed

lemma keeps_observe [intro!]: "keeps P (observe A g)" "keeps P (observe_or_raise A f)"
  unfolding observe_def observe_or_raise_def by (auto intro!: keeps_call)

lemma keeps_calls [intro!]:
  "keeps P (call A (\<lambda>e. append_event (ev e)))"
  "keeps P (call A (\<lambda>e. create_tool_invocation e i))"
  "keeps P (call A (\<lambda>e. fail_tool_invocation e u k))"
  "keeps P (call A (\<lambda>e. complete_tool_invocation e u k))"
  "keeps P (call A (\<lambda>e. create_coordinator_approval e a))"
  "keeps P (call A (\<lambda>e. add_task t (ev e)))"
  "keeps P (call A (\<lambda>_. upsert_memory m evs))"
  "keeps P (call A (\<lambda>e. complete_turn e u k l message))"
  by (auto intro!: keeps_call write_event write_invocation write_fail write_completed write_approval write_task
      write_memory write_complete)

section \<open>Every method keeps the invariant\<close>

lemma keeps_file_event [intro!]: "keeps P (file_event A u et payload)"
  unfolding file_event_def by auto

lemma keeps_new [intro!]:
  "keeps P (new_invocation A turn tid cid name target args)" "keeps P (new_task A u o' ctx caps contract)"
  "keeps P (assistant_message A turn content)"
  unfolding new_invocation_def new_task_def assistant_message_def by auto

lemma keeps_available [intro!]: "keeps P (has_available_ara A u)" "keeps P (has_available_host_ara A u)"
  unfolding has_available_ara_def has_available_host_ara_def by auto

lemma keeps_answered [intro!]: "keeps P (answered messages c content)"
  unfolding answered_def by auto

lemma keeps_pause [intro!]: "C (tn_checkpoint turn) \<Longrightarrow> keeps P (pause A turn l messages)"
  unfolding pause_def by (auto intro!: keeps_call write_pause)

lemma keeps_run_local_tool [intro!]: "keeps P (run_local_tool A turn c a)"
  unfolding run_local_tool_def by (auto split: prod.splits option.splits)

lemma keeps_request_local_approval [intro!]: "keeps P (request_local_approval A turn c invocation r messages)"
  unfolding request_local_approval_def by (auto split: option.splits)

lemma keeps_execute_local_tool [intro!]: "keeps P (execute_local_tool A turn c known messages)"
  unfolding execute_local_tool_def by auto

lemma keeps_file_candidates:
  "keeps P (file_candidates (\<lambda>m evs. call A (\<lambda>_. upsert_memory m evs)) e u sid mid all i n cs)"
proof (induction cs arbitrary: i n)
  case Nil
  show ?case by (simp add: keeps_def yields_def)
next
  case (Cons c cs)
  let ?up = "\<lambda>m evs. call A (\<lambda>_. upsert_memory m evs)"
  let ?m = "candidate_record e u sid mid all i c"
  have step: "file_candidates ?up e u sid mid all i n (c # cs) =
      (if \<not> valid_memory ?m then raise (ValidationError ''memory record'')
       else abind (?up ?m (candidate_events e n ?m)) (\<lambda>stored.
            abind (file_candidates ?up e u sid mid all (i + 1) (n + length (candidate_events e n ?m)) cs) (\<lambda>records.
            ret (stored # records))))"
    by (rule ext) (simp add: Let_def raise_def abind_def ret_def split: sum.splits prod.splits)
  show ?case unfolding step by (auto intro: Cons.IH)
qed

lemma keeps_sync_records [intro!]: "keeps P (sync_records mt records)"
  by (induction records) (auto split: option.splits)

lemma keeps_memory_methods [intro!]:
  "keeps P (recall_memories A mt u objective)" "keeps P (get_fact A mt u topic)" "keeps P (set_fact A mt u mid content)"
  unfolding recall_memories_def get_fact_def set_fact_def extract_content_def
  by (auto intro!: keeps_file_candidates)

lemma keeps_search_conversations [intro!]: "keeps P (search_conversations A u w query cs)"
  by (induction cs) auto

lemma keeps_search_session [intro!]: "keeps P (search_session A u w query limit)"
  unfolding search_session_def Let_def by auto

lemma keeps_memory_tool_result [intro!]: "keeps P (memory_tool_result A mt turn c)"
  unfolding memory_tool_result_def by (auto split: option.splits list.splits)

lemma keeps_execute_memory_tool [intro!]: "keeps P (execute_memory_tool A turn c messages)"
  unfolding execute_memory_tool_def by (auto split: option.splits)

lemma keeps_delegate_ara [intro!]: "C (tn_checkpoint turn) \<Longrightarrow> keeps P (delegate_ara A turn l c messages)"
  unfolding delegate_ara_def by (auto split: option.splits list.splits)

lemma keeps_start_host_task [intro!]: "C (tn_checkpoint turn) \<Longrightarrow> keeps P (start_host_task A turn l c args existing messages)"
  unfolding start_host_task_def Let_def by (auto split: prod.splits)

lemma keeps_delegate_host_command [intro!]: "C (tn_checkpoint turn) \<Longrightarrow> keeps P (delegate_host_command A turn l c messages)"
  unfolding delegate_host_command_def
  by (auto split: option.splits)

lemma keeps_execute_call [intro!]: "C (tn_checkpoint turn) \<Longrightarrow> keeps P (execute_call A turn l c known messages)"
  unfolding execute_call_def by (auto)

section \<open>Turns\<close>

lemma keeps_amap [intro!]: "(\<And>x. keeps P (f x)) \<Longrightarrow> keeps P (amap f xs)"
  by (induction xs) auto

lemma keeps_ara_guidance [intro!]: "keeps P (ara_guidance A u)"
  unfolding ara_guidance_def by auto

lemma keeps_messages_for_turn [intro!]: "keeps P (messages_for_turn A turn)"
  unfolding messages_for_turn_def by (auto split: option.splits)

lemma keeps_offered_tools [intro!]: "keeps P (offered_tools A u)"
  unfolding offered_tools_def Let_def by auto

lemma keeps_finish_turn [intro!]: "keeps P (finish_turn A turn l content)"
  unfolding finish_turn_def by auto

lemma keeps_checkpoint: "(\<And>cp. C cp) \<Longrightarrow> keeps P (checkpoint A turn l messages n calls)"
  unfolding checkpoint_def by (auto intro!: keeps_call write_checkpoint)

lemma keeps_run_calls: "(\<And>cp. C cp) \<Longrightarrow> keeps P (run_calls A l known n calls turn messages)"
  by (induction calls arbitrary: turn messages) (auto split: option.splits intro!: keeps_checkpoint)

lemma keeps_planned_task [intro!]: "keeps P (planned_task A turn raw)"
  unfolding planned_task_def by (auto split: option.splits)

lemma keeps_sibling_provenance [intro!]: "keeps P (sibling_provenance A turn)"
  unfolding sibling_provenance_def by (auto split: json.splits)

lemma keeps_plan_items [intro!]: "keeps P (task_of_plan A u item)" "keeps P (plan_invocation A turn x)"
  unfolding task_of_plan_def plan_invocation_def by (auto split: option.splits prod.splits)

lemma keeps_delegate_plan: "(\<And>cp. C cp) \<Longrightarrow> keeps P (delegate_plan A turn l messages n plan)"
  unfolding delegate_plan_def by (auto intro!: keeps_call write_delegation)

lemma keeps_planner_denied [intro!]: "keeps P (planner_denied A turn why)"
  unfolding planner_denied_def by auto

lemma keeps_ask_planner [intro!]: "keeps P (ask_planner A turn messages)"
  unfolding ask_planner_def by (auto split: option.splits error.splits)

lemma keeps_plan_turn: "(\<And>cp. C cp) \<Longrightarrow> keeps P (plan_turn A turn l messages n)"
  unfolding plan_turn_def Let_def by (auto intro!: keeps_delegate_plan)

section \<open>Streamed turns\<close>

lemma keeps_stream_events [intro!]: "keeps P (stream_events evs)"
  by (induction evs) auto

lemma keeps_stream_calls: "C (tn_checkpoint turn) \<Longrightarrow> keeps P (stream_calls A turn l known calls messages)"
  by (induction calls arbitrary: messages) (auto split: option.splits)

lemma keeps_stream_request:
  "(\<And>ms. quiet (Model_asked ms)) \<Longrightarrow> keeps P (stream_request streamer messages defs)"
  unfolding stream_request_def by (auto split: prod.splits option.splits intro!: keeps_effect)

lemma keeps_stream_loop:
  assumes "\<And>ms. quiet (Model_asked ms)" and "C (tn_checkpoint turn)"
  shows "keeps P (stream_loop A streamer turn l defs n messages)"
proof (induction "nat (oc_max_tool_iterations A - n)" arbitrary: n messages rule: less_induct)
  case less
  show ?case
    by (subst stream_loop.simps)
       (auto split: option.splits intro!: keeps_stream_request keeps_stream_calls assms less)
qed

lemma keeps_stream_turn:
  assumes "\<And>ms. quiet (Model_asked ms)" and "C (tn_checkpoint turn)"
  shows "keeps P (stream_turn A turn l)"
  unfolding stream_turn_def
  by (auto split: prod.splits option.splits error.splits intro!: keeps_stream_loop assms)

end

end
