(* ===== verification/TurnLimits.thy ===== *)
theory TurnLimits
  imports AgentInvariants CallProperties
begin

text \<open>
  What bounds a turn, and what its checkpoints are worth: the model is asked a bounded number of times, a
  checkpoint resumes a turn exactly where it was taken, and a streamed turn takes none.
\<close>

section \<open>Requests to the model\<close>

fun is_asked :: "effect \<Rightarrow> bool" where
  "is_asked (Model_asked ms) = True"
| "is_asked _ = False"

definition requests :: "agent_state \<Rightarrow> nat" where
  "requests st = length (filter is_asked (os_effects st))"

text \<open>Everything but a request to the model keeps the number of requests.\<close>

interpretation requests: turn_invariant A "\<lambda>st. requests st \<le> k" "\<lambda>_. True" "\<lambda>x. \<not> is_asked x" for A k
  by unfold_locales (auto simp: requests_def)

definition asks :: "nat \<Rightarrow> 'a act \<Rightarrow> bool" where
  "asks n m \<longleftrightarrow> (\<forall>st. requests (snd (m st)) \<le> requests st + n)"

lemma asks_none: "(\<And>k. keeps (\<lambda>st. requests st \<le> k) m) \<Longrightarrow> asks 0 m"
  unfolding asks_def keeps_def yields_def by force

lemma asks_more: "asks a m \<Longrightarrow> a \<le> b \<Longrightarrow> asks b m"
  unfolding asks_def by (metis add_left_mono order_trans)

lemma asks_bind: "asks a m \<Longrightarrow> (\<And>x. asks b (f x)) \<Longrightarrow> asks (a + b) (abind m f)"
  unfolding asks_def abind_def
  by (auto split: prod.splits sum.splits) (metis add.assoc add_le_cancel_right le_add1 order_trans snd_conv)+

lemma asks_bind_none: "asks 0 m \<Longrightarrow> (\<And>x. asks b (f x)) \<Longrightarrow> asks b (abind m f)"
  using asks_bind[of 0 m b f] by simp

lemma asks_request_model: "asks 1 (request_model A turn messages defs)"
proof -
  have "asks (1 + (0 + 0)) (abind (effect (Model_asked messages)) (\<lambda>_.
      abind (handle (lift r) (\<lambda>err. case err of
        ModelProviderError m \<Rightarrow> abind (file_event A u et p) (\<lambda>_. raise (ModelProviderError m)) | _ \<Rightarrow> raise err))
      (\<lambda>reply. case reply of Text _ \<Rightarrow> raise other
      | Completion completion \<Rightarrow> abind (file_event A u et' (p' completion)) (\<lambda>_. ret completion))))"
    for r u et p other et' p'
  proof (intro asks_bind)
    show "asks 1 (effect (Model_asked messages))" by (simp add: asks_def effect_def requests_def)
  qed (auto intro!: asks_none split: error.splits model_reply.splits)
  note one = this[unfolded add_0_right]
  have "asks 1 (abind (file_event A u et0 p0) (\<lambda>_. abind reading (\<lambda>n. abind (effect (Model_asked messages)) (\<lambda>_.
      abind (handle (lift (r n)) (\<lambda>err. case err of
        ModelProviderError m \<Rightarrow> abind (file_event A u et p) (\<lambda>_. raise (ModelProviderError m)) | _ \<Rightarrow> raise err))
      (\<lambda>reply. case reply of Text _ \<Rightarrow> raise other
      | Completion completion \<Rightarrow> abind (file_event A u et' (p' completion)) (\<lambda>_. ret completion))))))"
    for r u et p other et' p' et0 p0
    by (rule asks_bind_none, rule asks_none, blast, rule asks_bind_none, rule asks_none, blast, rule one)
  then show ?thesis unfolding request_model_def .
qed

lemma asks_run_calls: "asks 0 (run_calls A l known n calls turn messages)"
  by (rule asks_none) (rule requests.keeps_run_calls, simp)

lemma asks_checkpoint: "asks 0 (checkpoint A turn l messages n calls)"
  by (rule asks_none) (rule requests.keeps_checkpoint, simp)

lemma asks_finish_turn: "asks n (finish_turn A turn l content)"
  by (rule asks_more[OF asks_none]) auto

lemma asks_ret: "asks n (ret x)" "asks n (raise err)"
  by (simp_all add: asks_def ret_def raise_def)

lemma asks_model_loop: "asks (nat (oc_max_tool_iterations A - n)) (model_loop A l defs n turn messages)"
proof (induction "nat (oc_max_tool_iterations A - n)" arbitrary: n turn messages rule: less_induct)
  case less
  show ?case
  proof (cases "n < oc_max_tool_iterations A")
    case False
    then show ?thesis by (subst model_loop.simps) (simp add: asks_finish_turn)
  next
    case True
    let ?k = "nat (oc_max_tool_iterations A - (n + 1))"
    have k: "nat (oc_max_tool_iterations A - n) = 1 + ?k" using True by linarith
    have "asks ?k (model_loop A l defs (n + 1) turn2 ms)" for turn2 ms by (rule less.hyps) (use True in simp)
    then have "asks ?k (case progress of Inl paused \<Rightarrow> ret paused
        | Inr (turn2, ms) \<Rightarrow> model_loop A l defs (n + 1) turn2 ms)" for progress
      by (auto split: sum.splits intro: asks_ret)
    then show ?thesis unfolding k
      by (subst model_loop.simps, simp only: True if_True)
         (auto simp del: One_nat_def simp: Let_def split del: if_split split: if_split
           intro!: asks_bind asks_request_model asks_finish_turn asks_bind_none[OF asks_checkpoint]
             asks_bind_none[OF asks_run_calls])
  qed
qed

text \<open>The iterations a turn starts with: those of its checkpoint.\<close>

definition used_iterations :: "conversation_turn \<Rightarrow> int" where
  "used_iterations turn = (case restore_checkpoint (tn_checkpoint turn) of Some (Inr (_, n, _)) \<Rightarrow> n | _ \<Rightarrow> 0)"

lemma messages_for_turn_iterations:
  "messages_for_turn A turn st = (Inr (messages, n, calls), st1) \<Longrightarrow> n = used_iterations turn"
  unfolding messages_for_turn_def used_iterations_def
  by (auto simp: abind_def lift_def ret_def raise_def split: option.splits prod.splits sum.splits)

lemma asks_bind_result:
  assumes "asks 0 m" and "\<And>st x st1. m st = (Inr x, st1) \<Longrightarrow> asks b (f x)"
  shows "asks b (abind m f)"
  unfolding asks_def
proof
  fix st
  obtain r st1 where m: "m st = (r, st1)" by fastforce
  with assms(1) have le: "requests st1 \<le> requests st" by (metis asks_def add_0_right snd_conv)
  show "requests (snd (abind m f st)) \<le> requests st + b"
  proof (cases r)
    case (Inl err)
    with m le show ?thesis by (simp add: abind_def)
  next
    case (Inr x)
    with assms(2) m have "requests (snd (f x st1)) \<le> requests st1 + b" by (simp add: asks_def)
    with m Inr le show ?thesis by (simp add: abind_def)
  qed
qed

lemma asks_run_turn: "asks (nat (oc_max_tool_iterations A - used_iterations turn)) (run_turn A turn l)"
proof -
  let ?k = "nat (oc_max_tool_iterations A - used_iterations turn)"
  have rest: "asks ?k (case progress of Inl paused \<Rightarrow> ret paused
      | Inr (turn1, ms) \<Rightarrow> model_loop A l defs (used_iterations turn) turn1 ms)" for progress defs
    by (auto split: sum.splits intro: asks_ret asks_model_loop)
  have tools: "asks ?k (abind (offered_tools A u) (\<lambda>defs. abind (run_calls A l (known defs) n cs turn1 ms)
      (\<lambda>progress. case progress of Inl paused \<Rightarrow> ret paused
       | Inr (turn1, ms) \<Rightarrow> model_loop A l defs (used_iterations turn) turn1 ms)))" for u known n cs turn1 ms
    by (rule asks_bind_none, rule asks_none, blast, rule asks_bind_none, rule asks_run_calls, rule rest)
  have planned: "asks ?k (abind (plan_turn A turn l ms (used_iterations turn)) (\<lambda>planned. case planned of Inl t \<Rightarrow> ret t
      | Inr messages1 \<Rightarrow> abind (offered_tools A (tn_tenant_id turn)) (\<lambda>defs.
        abind (run_calls A l (set (map td_name defs)) (used_iterations turn) cs turn messages1)
      (\<lambda>progress. case progress of Inl paused \<Rightarrow> ret paused
       | Inr (turn1, ms) \<Rightarrow> model_loop A l defs (used_iterations turn) turn1 ms))))" for ms cs
  proof (rule asks_bind_none)
    show "asks 0 (plan_turn A turn l ms (used_iterations turn))"
      by (rule asks_none, rule requests.keeps_plan_turn) simp
  qed (auto split: sum.splits simp del: list.set_map intro: asks_ret tools)
  show ?thesis unfolding run_turn_def
  proof (rule asks_bind_result)
    show "asks 0 (messages_for_turn A turn)" by (rule asks_none) blast
  next
    fix st x st1
    assume m: "messages_for_turn A turn st = (Inr x, st1)"
    obtain ms n cs where x: "x = (ms, n, cs)" by (cases x)
    with m have n: "n = used_iterations turn" by (simp add: messages_for_turn_iterations)
    show "asks ?k (case x of (messages, iterations, pending_calls) \<Rightarrow>
        abind (plan_turn A turn l messages iterations) (\<lambda>planned. case planned of Inl t \<Rightarrow> ret t
        | Inr messages1 \<Rightarrow> abind (offered_tools A (tn_tenant_id turn)) (\<lambda>definitions.
          abind (run_calls A l (set (map td_name definitions)) iterations pending_calls turn messages1)
          (\<lambda>progress. case progress of Inl paused \<Rightarrow> ret paused
           | Inr (turn1, messages2) \<Rightarrow> model_loop A l definitions iterations turn1 messages2))))"
      unfolding x prod.case n by (rule planned)
  qed
qed

lemma asks_stream_request: "asks 1 (stream_request streamer messages defs)"
proof -
  have "asks (1 + 0) (abind (effect (Model_asked messages)) (\<lambda>_. case r of (events, failed) \<Rightarrow>
      abind (stream_events events) (\<lambda>_. case failed of None \<Rightarrow> ret events | Some err \<Rightarrow> raise err)))" for r
  proof (intro asks_bind)
    show "asks 1 (effect (Model_asked messages))" by (simp add: asks_def effect_def requests_def)
  qed (auto intro!: asks_none split: option.splits prod.splits)
  then have one: "asks 1 (abind (effect (Model_asked messages)) (\<lambda>_. case r of (events, failed) \<Rightarrow>
      abind (stream_events events) (\<lambda>_. case failed of None \<Rightarrow> ret events | Some err \<Rightarrow> raise err)))" for r
    by simp
  show ?thesis unfolding stream_request_def
    by (rule asks_bind_none, rule asks_none, blast, rule one)
qed

lemma asks_stream_calls: "asks 0 (stream_calls A turn l known calls messages)"
  by (rule asks_none) (rule requests.keeps_stream_calls, simp)

lemma asks_stream_loop: "asks (nat (oc_max_tool_iterations A - n)) (stream_loop A streamer turn l defs n messages)"
proof (induction "nat (oc_max_tool_iterations A - n)" arbitrary: n messages rule: less_induct)
  case less
  have finish: "asks k (abind (finish_turn A turn l content) (\<lambda>_. ret ()))" for k content
    by (rule asks_bind_none[OF asks_finish_turn]) (rule asks_ret)
  show ?case
  proof (cases "n < oc_max_tool_iterations A")
    case False
    then show ?thesis by (subst stream_loop.simps) (simp add: finish)
  next
    case True
    let ?k = "nat (oc_max_tool_iterations A - (n + 1))"
    have k: "nat (oc_max_tool_iterations A - n) = 1 + ?k" using True by linarith
    have "asks ?k (stream_loop A streamer turn l defs (n + 1) ms)" for ms by (rule less.hyps) (use True in simp)
    then have calls: "asks ?k (abind (stream_calls A turn l known cs ms0) (\<lambda>progress. case progress of None \<Rightarrow> ret ()
        | Some ms \<Rightarrow> stream_loop A streamer turn l defs (n + 1) ms))" for known cs ms0
      by (intro asks_bind_none[OF asks_stream_calls]) (auto split: option.splits intro: asks_ret)
    show ?thesis unfolding k
      by (subst stream_loop.simps, simp only: True if_True, rule asks_bind[OF asks_stream_request])
         (auto intro: finish calls)
  qed
qed

lemma asks_handle: "asks n m \<Longrightarrow> (\<And>err. asks 0 (h err)) \<Longrightarrow> asks n (handle m h)"
  unfolding asks_def handle_def by (auto split: prod.splits sum.splits) (metis add_0_right order_trans snd_conv)+

lemma asks_stream_turn: "asks (nat (oc_max_tool_iterations A - used_iterations turn)) (stream_turn A turn l)"
proof -
  let ?k = "nat (oc_max_tool_iterations A - used_iterations turn)"
  have caught: "asks 0 (case err of ModelProviderError m \<Rightarrow> abind (file_event A u et p) (\<lambda>_. raise (ModelProviderError m))
      | _ \<Rightarrow> raise err)" for err u et p
    by (rule asks_none) (auto split: error.splits)
  have loop: "asks ?k (handle (stream_loop A streamer turn l defs (used_iterations turn) ms) (\<lambda>err. case err of
      ModelProviderError m \<Rightarrow> abind (file_event A u et p) (\<lambda>_. raise (ModelProviderError m)) | _ \<Rightarrow> raise err))"
    for streamer defs ms u et p
    by (rule asks_handle[OF asks_stream_loop caught])
  show ?thesis unfolding stream_turn_def
  proof (rule asks_bind_result)
    show "asks 0 (messages_for_turn A turn)" by (rule asks_none) blast
  next
    fix st x st1
    assume m: "messages_for_turn A turn st = (Inr x, st1)"
    obtain ms n cs where x: "x = (ms, n, cs)" by (cases x)
    with m have n: "n = used_iterations turn" by (simp add: messages_for_turn_iterations)
    show "asks ?k (case x of (messages, iterations, _) \<Rightarrow> abind (offered_tools A (tn_tenant_id turn)) (\<lambda>definitions.
        case oc_stream A of None \<Rightarrow> raise (ModelProviderError ''model provider does not support streaming'')
        | Some streamer \<Rightarrow> handle (stream_loop A streamer turn l definitions iterations messages) (\<lambda>err. case err of
            ModelProviderError m \<Rightarrow> abind (file_event A (tn_tenant_id turn) MODEL_FAILED [(''turn_id'', JId (tn_id turn))])
              (\<lambda>_. raise (ModelProviderError m)) | _ \<Rightarrow> raise err)))"
      unfolding x prod.case n
    proof (rule asks_bind_none)
      show "asks 0 (offered_tools A (tn_tenant_id turn))" by (rule asks_none) blast
    qed (auto split: option.splits intro: asks_ret loop)
  qed
qed


section \<open>Checkpoints\<close>

lemma emap_messages: "emap message_validate (map message_dump messages) = Inr messages"
  by (induction messages) (auto simp: message_validate_def message_dump_def get_or_def json_text_def)

lemma emap_calls: "emap call_validate (map call_dump calls) = Inr calls"
  by (induction calls) (auto simp: call_validate_def call_dump_def get_or_def json_text_def)

lemma restore_checkpoint_of: "0 \<le> n \<Longrightarrow> restore_checkpoint (checkpoint_of messages n calls @ rest) = Some (Inr (messages, n, calls))"
  by (simp add: restore_checkpoint_def checkpoint_of_def get_or_def emap_messages emap_calls json_int_def ebind_def)

text \<open>
  C28: A checkpoint resumes the turn where it was taken: the store holds the turn it returns, and the messages,
  the iteration count and the pending calls read back from it are those it was given.
\<close>

theorem checkpoint_resumes:
  assumes "checkpoint A turn l messages n calls st = (Inr t, st')" and "0 \<le> n"
  shows "map_of (st_turns (os_store st')) (tn_id turn) = Some t \<and> tn_state t = Turn_RUNNING \<and>
    messages_for_turn A t st'' = (Inr (messages, n, calls), st'')"
proof -
  from assms(1) have "tn_checkpoint t = checkpoint_of messages n calls"
    "map_of (st_turns (os_store st')) (tn_id turn) = Some t" "tn_state t = Turn_RUNNING"
    by (auto simp: checkpoint_def call_def checkpoint_turn_def active_turn_def Let_def update_conv'
        split: prod.splits sum.splits option.splits if_splits)
  with restore_checkpoint_of[OF assms(2), of messages calls "[]"] show ?thesis
    by (simp add: messages_for_turn_def lift_def)
qed

theorem checkpoint_resumes_witness:
  "\<exists>t st'. checkpoint (sample_agent plain_answer) sample_running_turn 33 [system_message ''hi''] 2 [sample_call]
       sample_claimed = (Inr t, st') \<and>
     messages_for_turn (sample_agent plain_answer) t st' = (Inr ([system_message ''hi''], 2, [sample_call]), st')"
proof -
  obtain t st' where c: "checkpoint (sample_agent plain_answer) sample_running_turn 33 [system_message ''hi''] 2 [sample_call]
      sample_claimed = (Inr t, st')"
    by (simp add: checkpoint_def checkpoint_turn_def agent_eval sample_claimed_def sample_state_def)
  with checkpoint_resumes[OF c] show ?thesis by auto
qed

text \<open>The rows of a turn have a given checkpoint.\<close>

definition checkpointed :: "uuid \<Rightarrow> (string, json) dict \<Rightarrow> store \<Rightarrow> bool" where
  "checkpointed k cp s \<longleftrightarrow> keyed tn_id (st_turns s) \<and>
     (\<forall>t. map_of (st_turns s) k = Some t \<longrightarrow> tn_checkpoint t = cp)"

text \<open>A call rewrites at most one row, found at its key, and gives it the old or the permitted checkpoint.\<close>

definition rewritten :: "(string, json) dict \<Rightarrow> (uuid, conversation_turn) dict \<Rightarrow> (uuid, conversation_turn) dict \<Rightarrow> bool" where
  "rewritten cp tbl tbl' \<longleftrightarrow> tbl' = tbl \<or> (\<exists>j t0 t. map_of tbl j = Some t0 \<and> tn_id t = tn_id t0 \<and>
     (tn_checkpoint t = tn_checkpoint t0 \<or> tn_checkpoint t = cp) \<and>
     (tbl' = AList.update j t tbl \<or> tbl' = AList.update (tn_id t0) t tbl))"

lemma rewritten_same [simp]: "rewritten cp tbl tbl"
  by (simp add: rewritten_def)

lemma rewritten_at:
  "map_of tbl j = Some t0 \<Longrightarrow> tn_id t = tn_id t0 \<Longrightarrow> tn_checkpoint t = tn_checkpoint t0 \<or> tn_checkpoint t = cp \<Longrightarrow>
     rewritten cp tbl (AList.update j t tbl)"
  "map_of tbl j = Some t0 \<Longrightarrow> tn_id t = tn_id t0 \<Longrightarrow> tn_checkpoint t = tn_checkpoint t0 \<or> tn_checkpoint t = cp \<Longrightarrow>
     rewritten cp tbl (AList.update (tn_id t0) t tbl)"
  unfolding rewritten_def by blast+

lemma rewritten_paused:
  "map_of tbl k = Some t \<Longrightarrow> rewritten cp tbl (AList.update k (t\<lparr>tn_state := a, tn_checkpoint := cp,
     tn_run_lease_id := b, tn_run_lease_expires_at := c, tn_updated_at := d\<rparr>) tbl)"
  by (rule rewritten_at(1)) simp_all

lemma checkpointed_rewritten:
  assumes "checkpointed k cp s" and "rewritten cp (st_turns s) (st_turns s')"
  shows "checkpointed k cp s'"
proof -
  have keyed: "keyed tn_id (st_turns s)" using assms(1) by (simp add: checkpointed_def)
  show ?thesis using assms keyed_mapof[OF keyed]
    by (auto simp: rewritten_def checkpointed_def update_conv' split: if_splits)
qed

lemma delegations_turns: "st_turns (snd (store_delegations e u k n xs s)) = st_turns s"
  by (induction e u k n xs s rule: store_delegations.induct) simp_all

lemma claimed_turn_row: "active_turn now s u k l = Inr t \<Longrightarrow> map_of (st_turns s) k = Some t"
  by (auto simp: active_turn_def split: option.splits if_splits)

lemma turn_write_rewritten:
  assumes "turn_write (\<lambda>c. c = cp) s s'"
  shows "rewritten cp (st_turns s) (st_turns s')"
  using assms
proof cases
  case (write_delegation c e u k l ts "is")
  then show ?thesis
    by (auto simp: create_delegated_tasks_def split: sum.splits prod.splits option.splits
        dest!: arg_cong[where f = "\<lambda>x. st_turns (snd x)"] simp: delegations_turns intro: rewritten_paused)
qed (auto simp: append_event_def create_tool_invocation_def finish_tool_invocation_def create_coordinator_approval_def
    add_task_def upsert_memory_def pause_turn_def complete_turn_def checkpoint_turn_def Let_def
    split: option.splits sum.splits actor_type.splits dest: claimed_turn_row intro: rewritten_at)

section \<open>Streamed turns\<close>

text \<open>
  A streamed turn takes no checkpoint: whatever calls it executes, and also when one of them pauses it for an
  approval, the stored checkpoint stays the one it was claimed with, so its messages and the call awaiting the
  approval are not there when it is resumed.
\<close>

theorem streamed_turn_takes_no_checkpoint:
  assumes "oc_others A = (\<lambda>_ s. s)" and "store_ok (os_store st)"
    and "map_of (st_turns (os_store st)) (tn_id turn) = Some turn"
    and "map_of (st_turns (os_store (snd (stream_turn A turn l st)))) (tn_id turn) = Some t"
  shows "tn_checkpoint t = tn_checkpoint turn"
proof -
  let ?P = "\<lambda>st. checkpointed (tn_id turn) (tn_checkpoint turn) (os_store st)"
  have "turn_invariant A ?P (\<lambda>c. c = tn_checkpoint turn) (\<lambda>_. True)"
    by unfold_locales (auto simp: assms(1) intro: checkpointed_rewritten turn_write_rewritten)
  then have "keeps ?P (stream_turn A turn l)" by (rule turn_invariant.keeps_stream_turn) simp_all
  moreover have "?P st"
    using assms(2,3) by (simp add: checkpointed_def store_ok_def keys_ok_def)
  ultimately have "?P (snd (stream_turn A turn l st))" by (metis keepsD prod.collapse)
  with assms(4) show ?thesis by (simp add: checkpointed_def)
qed

text \<open>A model that streams one call of a command, which needs an approval.\<close>

definition streaming_agent :: orchestrator where
  "streaming_agent = command_agent\<lparr>oc_stream := Some (\<lambda>_ _ _.
     ([\<lparr>se_kind = ''tool_call'', se_content = [], se_tool_call = Some command_call\<rparr>], None))\<rparr>"

lemma streamed_sample:
  "\<exists>t. map_of (st_turns (os_store (snd (stream_turn streaming_agent sample_running_turn 33 sample_claimed)))) 30 = Some t \<and>
     tn_state t = Turn_PAUSED"
  by (simp add: streaming_agent_def agent_eval command_eval stream_turn_def stream_loop.simps stream_request_def
      streamed_calls_def map_filter_simps streamed_content_def execute_command_call execute_local_tool_def list_all_iff
      create_tool_invocation_def run_local_tool_def dispatch_def registry_tools_def offered_def evaluate_capability_def
      COMMAND_EXECUTE_CAPABILITY_def FILE_READ_CAPABILITY_def request_local_approval_def capability_for_def
      valid_approval_def valid_capability_def create_coordinator_approval_def get_turn_def tool_call_summary_def
      del: One_nat_def)

theorem streamed_turn_takes_no_checkpoint_witness:
  "\<exists>t. map_of (st_turns (os_store (snd (stream_turn streaming_agent sample_running_turn 33 sample_claimed)))) 30 = Some t \<and>
     tn_state t = Turn_PAUSED \<and> tn_checkpoint t = []"
proof -
  obtain t where t: "map_of (st_turns (os_store (snd (stream_turn streaming_agent sample_running_turn 33 sample_claimed)))) 30 = Some t"
    "tn_state t = Turn_PAUSED"
    using streamed_sample by blast
  have "oc_others streaming_agent = (\<lambda>_ s. s)" "tn_id sample_running_turn = 30" "tn_checkpoint sample_running_turn = []"
    "map_of (st_turns (os_store sample_claimed)) (tn_id sample_running_turn) = Some sample_running_turn"
    by (simp_all add: streaming_agent_def command_eval sample_agent_def samples)
  moreover have "store_ok (os_store sample_claimed)"
    by (simp add: sample_claimed_def sample_state_def samples empty_store_def store_ok_def keys_ok_def
        refs_ok_def refers_def has_row_def leases_ok_def keyed_def turn_ok_def valid_turn_def attempts_ok_def ran_def)
  ultimately show ?thesis
    using streamed_turn_takes_no_checkpoint[of streaming_agent sample_claimed sample_running_turn 33 t] t by simp
qed

end
