(* ===== verification/OrchestratorContract.thy ===== *)
theory OrchestratorContract
  imports TurnLoop TaskRefinement
begin

text \<open>
  The orchestrator against the contract of the store: whatever the model, the tools and the other tasks of
  the process do, a turn changes the store only by calls that the step relation \<open>store_step\<close> allows, each
  for the turn's tenant. The identifiers it draws are new when they are used, which is what \<^verbatim>\<open>uuid4()\<close>
  provides; the rely on the other tasks is that they, too, make only such calls and draw identifiers of
  their own.
\<close>

section \<open>Runs of some tenants\<close>

definition runs_in :: "uuid set \<Rightarrow> store \<Rightarrow> store \<Rightarrow> bool" where
  "runs_in U = (\<lambda>s s'. \<exists>u \<in> U. store_step u s s')\<^sup>*\<^sup>*"

lemma runs_in_refl [simp]: "runs_in U s s"
  by (simp add: runs_in_def)

lemma runs_in_trans: "runs_in U a b \<Longrightarrow> runs_in U b c \<Longrightarrow> runs_in U a c"
  unfolding runs_in_def by (rule rtranclp_trans)

lemma runs_in_step: "u \<in> U \<Longrightarrow> store_step u s s' \<Longrightarrow> runs_in U s s'"
  unfolding runs_in_def by blast

lemma runs_in_run: "runs_in U s s' \<Longrightarrow> run s s'"
  unfolding runs_in_def run_def by (erule rtranclp_mono[THEN predicate2D, rotated]) blast

lemma runs_in_ok: "runs_in U s s' \<Longrightarrow> store_ok s \<Longrightarrow> store_ok s'"
  by (rule run_rows[OF runs_in_run, where P = "\<lambda>_ _. True", THEN conjunct2]) simp_all

lemma runs_in_evolves:
  assumes "runs_in U s s'" and "store_ok s"
  shows "store_evolves s s'"
  by (rule run_rows[OF runs_in_run[OF assms(1)] assms(2), THEN conjunct1])
     (auto intro: store_evolves_trans row_step_evolves)

lemma runs_in_has_task:
  assumes "runs_in U s s'" and "store_ok s" and "has_row tk_tenant_id u t (st_tasks s)"
  shows "has_row tk_tenant_id u t (st_tasks s')"
  using runs_in_evolves[OF assms(1,2)] assms(3) by (auto simp: store_evolves_def has_row_def dest: evolvesD)

lemma runs_in_isolated:
  "runs_in U s s' \<Longrightarrow> store_ok s \<Longrightarrow> v \<notin> U \<Longrightarrow> same_tenant_view v s s'"
  unfolding runs_in_def
proof (induction rule: rtranclp_induct)
  case base
  then show ?case by simp
next
  case (step y z)
  from step(2) obtain u where u: "u \<in> U" "store_step u y z" by blast
  have "store_ok y" using runs_in_ok[of U s y] step(1,4) by (simp add: runs_in_def)
  with u step(5) have "same_tenant_view v y z" by (intro row_steps_isolated[OF store_step_rows]) auto
  with step show ?case by (blast intro: same_tenant_view_trans)
qed

section \<open>Identifiers\<close>

definition ids_in :: "store \<Rightarrow> uuid set" where
  "ids_in s =
     fst ` set (st_remote_agents s) \<union> fst ` set (st_conversations s) \<union> fst ` set (st_messages s) \<union>
     fst ` set (st_turns s) \<union> fst ` set (st_tool_invocations s) \<union> fst ` set (st_memories s) \<union>
     fst ` set (st_migration_batches s) \<union> fst ` set (st_personas s) \<union> fst ` set (st_learned_adaptations s) \<union>
     fst ` set (st_tasks s) \<union> fst ` set (st_leases s) \<union> fst ` set (st_jobs s) \<union>
     fst ` set (st_approvals s) \<union> fst ` set (st_artifacts s)"

lemma not_in_ids:
  assumes "k \<notin> ids_in s"
  shows "map_of (st_messages s) k = None" "map_of (st_turns s) k = None"
    "map_of (st_tool_invocations s) k = None" "map_of (st_memories s) k = None"
    "map_of (st_tasks s) k = None" "map_of (st_leases s) k = None" "map_of (st_jobs s) k = None"
    "map_of (st_approvals s) k = None"
  using assms by (simp_all add: ids_in_def map_of_eq_None_iff)

lemma fst_update: "fst ` set (AList.update k v xs) = insert k (fst ` set xs)"
  by (induction xs) auto

lemma ids_in_events [simp]: "ids_in (s\<lparr>st_events := evs\<rparr>) = ids_in s"
  by (simp add: ids_in_def)

lemma ids_in_write:
  "t0 = st_conversations s \<Longrightarrow> ids_in (s\<lparr>st_conversations := AList.update k x0 t0\<rparr>) = insert k (ids_in s)"
  "t1 = st_messages s \<Longrightarrow> ids_in (s\<lparr>st_messages := AList.update k x1 t1\<rparr>) = insert k (ids_in s)"
  "t2 = st_turns s \<Longrightarrow> ids_in (s\<lparr>st_turns := AList.update k x2 t2\<rparr>) = insert k (ids_in s)"
  "t3 = st_tool_invocations s \<Longrightarrow> ids_in (s\<lparr>st_tool_invocations := AList.update k x3 t3\<rparr>) = insert k (ids_in s)"
  "t4 = st_memories s \<Longrightarrow> ids_in (s\<lparr>st_memories := AList.update k x4 t4\<rparr>) = insert k (ids_in s)"
  "t5 = st_tasks s \<Longrightarrow> ids_in (s\<lparr>st_tasks := AList.update k x5 t5\<rparr>) = insert k (ids_in s)"
  "t6 = st_jobs s \<Longrightarrow> ids_in (s\<lparr>st_jobs := AList.update k x6 t6\<rparr>) = insert k (ids_in s)"
  "t7 = st_approvals s \<Longrightarrow> ids_in (s\<lparr>st_approvals := AList.update k x7 t7\<rparr>) = insert k (ids_in s)"
  unfolding ids_in_def by (simp_all add: fst_update)

lemma ids_in_row:
  "map_of (st_conversations s) k = Some x0 \<Longrightarrow> k \<in> ids_in s"
  "map_of (st_messages s) k = Some x1 \<Longrightarrow> k \<in> ids_in s"
  "map_of (st_turns s) k = Some x2 \<Longrightarrow> k \<in> ids_in s"
  "map_of (st_tool_invocations s) k = Some x3 \<Longrightarrow> k \<in> ids_in s"
  "map_of (st_memories s) k = Some x4 \<Longrightarrow> k \<in> ids_in s"
  "map_of (st_tasks s) k = Some x5 \<Longrightarrow> k \<in> ids_in s"
  "map_of (st_jobs s) k = Some x6 \<Longrightarrow> k \<in> ids_in s"
  "map_of (st_approvals s) k = Some x7 \<Longrightarrow> k \<in> ids_in s"
  unfolding ids_in_def by (auto dest!: map_of_SomeD simp: rev_image_eqI)

lemma keyed_find: "keyed f tbl \<Longrightarrow> find P (sort_key g (dict_values tbl)) = Some x \<Longrightarrow> map_of tbl (f x) = Some x"
  using find_sort_key_least[of P g "dict_values tbl" x] keyed_values[of f tbl x] by blast

lemma store_ok_keyed:
  assumes "store_ok s"
  shows "keyed cv_id (st_conversations s)" "keyed tn_id (st_turns s)" "keyed iv_id (st_tool_invocations s)"
  using assms by (simp_all add: store_ok_def keys_ok_def)

text \<open>Which identifiers each call the orchestrator makes may add to the store.\<close>

lemma ids_append_event: "ids_in (snd (append_event ev s)) = ids_in s"
  by (simp add: append_event_def)

lemma ids_create_turn:
  assumes "store_ok s"
  shows "ids_in (snd (create_turn m t evs j s)) \<subseteq> ids_in s \<union> {ms_id m, tn_id t, jb_id j}"
proof -
  have "cv_id c \<in> ids_in s" if "map_of (st_conversations s) k = Some c" for k c
    using ids_in_row(1)[OF that] keyed_mapof[OF store_ok_keyed(1)[OF assms] that] by simp
  then show ?thesis by (auto simp: create_turn_def ids_in_write split: option.splits)
qed

lemma ids_claim_pending_turn:
  assumes "store_ok s"
  shows "ids_in (snd (claim_pending_turn e u l x s)) \<subseteq> ids_in s"
  using ids_in_row(3)[OF keyed_find[OF store_ok_keyed(2)[OF assms]]]
  by (auto simp: claim_pending_turn_def ids_in_write Let_def split: option.splits)

lemma active_turn_found: "active_turn now s u k l = Inr t \<Longrightarrow> map_of (st_turns s) k = Some t \<and> tn_tenant_id t = u"
  by (auto simp: active_turn_def split: option.splits if_splits)

lemma active_turn_id: "active_turn now s u k l = Inr t \<Longrightarrow> k \<in> ids_in s"
  using active_turn_found ids_in_row(3) by blast

lemma ids_checkpoint_turn: "ids_in (snd (checkpoint_turn e u k l cp s)) \<subseteq> ids_in s"
  by (auto simp: checkpoint_turn_def ids_in_write Let_def dest: active_turn_id split: sum.splits)

lemma ids_pause_turn: "ids_in (snd (pause_turn e u k l cp s)) \<subseteq> ids_in s"
  by (auto simp: pause_turn_def ids_in_write Let_def dest: active_turn_id split: sum.splits)

lemma ids_complete_turn:
  assumes "store_ok s"
  shows "ids_in (snd (complete_turn e u k l m s)) \<subseteq> ids_in s \<union> {ms_id m}"
proof -
  have "cv_id c \<in> ids_in s" if "map_of (st_conversations s) k = Some c" for k c
    using ids_in_row(1)[OF that] keyed_mapof[OF store_ok_keyed(1)[OF assms] that] by simp
  then show ?thesis
    by (auto simp: complete_turn_def ids_in_write Let_def dest: active_turn_id split: sum.splits option.splits)
qed

lemma ids_create_tool_invocation: "ids_in (snd (create_tool_invocation e i s)) \<subseteq> ids_in s \<union> {iv_id i}"
  by (auto simp: create_tool_invocation_def ids_in_write split: option.splits)

lemma ids_finish_tool_invocation: "ids_in (snd (finish_tool_invocation e u k st s)) \<subseteq> ids_in s"
  by (auto simp: finish_tool_invocation_def ids_in_write Let_def split: option.splits dest: ids_in_row(4))

lemma ids_create_coordinator_approval:
  assumes "store_ok s"
  shows "ids_in (snd (create_coordinator_approval e a s)) \<subseteq> ids_in s \<union> {ap_id a}"
proof -
  have "iv_id i \<in> ids_in s" if "map_of (st_tool_invocations s) k = Some i" for k i
    using ids_in_row(4)[OF that] keyed_mapof[OF store_ok_keyed(3)[OF assms] that] by simp
  moreover have "tn_id t \<in> ids_in s" if "map_of (st_turns s) k = Some t" for k t
    using ids_in_row(3)[OF that] keyed_mapof[OF store_ok_keyed(2)[OF assms] that] by simp
  ultimately show ?thesis
    by (auto simp: create_coordinator_approval_def ids_in_write split: option.splits actor_type.splits)
qed

lemma ids_add_task: "ids_in (snd (add_task t ev s)) \<subseteq> ids_in s \<union> {tk_id t}"
  by (simp add: add_task_def ids_in_write)

lemma ids_upsert_memory: "ids_in (snd (upsert_memory m evs s)) \<subseteq> ids_in s \<union> {mr_id m}"
  by (auto simp: upsert_memory_def ids_in_write split: option.splits)

lemma ids_store_delegations:
  "ids_in (snd (store_delegations e u k n xs s)) \<subseteq>
     ids_in s \<union> (\<lambda>x. tk_id (fst x)) ` set xs \<union> (\<lambda>x. iv_id (snd x)) ` set xs"
  by (induction e u k n xs s rule: store_delegations.induct) (auto simp: ids_in_write)

lemma assigned_ids: "assign_aras e u s i sel ts = Inr ts' \<Longrightarrow> map tk_id ts' = map tk_id ts"
  by (induction ts arbitrary: i sel ts') (auto split: list.splits sum.splits)

lemma ids_create_delegated_tasks:
  "ids_in (snd (create_delegated_tasks e u k l ts is cp s)) \<subseteq> ids_in s \<union> tk_id ` set ts \<union> iv_id ` set is"
proof -
  have stored: "ids_in (snd (store_delegations e u k 0 (zip ts' is) s)) \<subseteq>
      ids_in s \<union> tk_id ` set ts \<union> iv_id ` set is"
    if "assign_aras e u s 1 {} ts = Inr ts'" for ts'
  proof -
    have "(\<lambda>x. tk_id (fst x)) ` set (zip ts' is) \<subseteq> tk_id ` set ts'" by (auto dest: set_zip_leftD)
    also have "\<dots> = tk_id ` set ts" using assigned_ids[OF that] by (metis list.set_map)
    finally have tk: "(\<lambda>x. tk_id (fst x)) ` set (zip ts' is) \<subseteq> tk_id ` set ts" .
    have iv: "(\<lambda>x. iv_id (snd x)) ` set (zip ts' is) \<subseteq> iv_id ` set is" by (auto dest: set_zip_rightD)
    show ?thesis by (rule order.trans[OF ids_store_delegations Un_mono[OF Un_mono[OF subset_refl tk] iv]])
  qed
  have final: "ids_in (snd (create_delegated_tasks e u k l ts is cp s)) \<subseteq>
      ids_in (snd (store_delegations e u k 0 (zip ts' is) s)) \<union> ids_in s"
    if "assign_aras e u s 1 {} ts = Inr ts'" for ts'
  proof -
    obtain failed s1 where d: "store_delegations e u k 0 (zip ts' is) s = (failed, s1)" by fastforce
    consider "length ts \<noteq> length is \<or> ts = []" | err where "active_turn (clk e 0) s u k l = Inl err"
      | t where "\<not> (length ts \<noteq> length is \<or> ts = [])" "active_turn (clk e 0) s u k l = Inr t"
      by (cases "active_turn (clk e 0) s u k l") auto
    then show ?thesis
    proof cases
      case 1
      then show ?thesis by (auto simp: create_delegated_tasks_def)
    next
      case 2
      then show ?thesis by (auto simp: create_delegated_tasks_def)
    next
      case (3 t)
      with that d show ?thesis
        by (cases failed; cases "map_of (st_turns s1) k")
           (auto simp: create_delegated_tasks_def ids_in_write dest: ids_in_row(3) simp del: One_nat_def)
    qed
  qed
  have "ids_in (snd (create_delegated_tasks e u k l ts is cp s)) \<subseteq> ids_in s"
    if "assign_aras e u s 1 {} ts = Inl err" for err
    using that by (simp add: create_delegated_tasks_def del: One_nat_def split: sum.splits)
  then show ?thesis using stored final by (cases "assign_aras e u s 1 {} ts") blast+
qed

section \<open>Actions within the contract\<close>

text \<open>
  Rules for actions that keep to the contract of the store, and the proof, method by method, that those of
  the orchestrator do. \<open>good S X T m Q\<close>: started with identifiers \<open>X\<close> drawn and not yet used and with the
  tasks \<open>T\<close> of the tenant filed, \<open>m\<close> leaves a store that allowed calls lead to, and its result satisfies \<open>Q\<close>.
\<close>

section \<open>The judgement\<close>

record setting =
  sp_agent :: orchestrator
  sp_tenants :: "uuid set"
  sp_tenant :: uuid
  sp_start :: store

text \<open>
  The identifiers of all readings differ; between two calls other tasks make allowed calls for the tenants
  of the setting and draw identifiers of their own.
\<close>

definition served :: "setting \<Rightarrow> bool" where
  "served S \<longleftrightarrow>
     inj (\<lambda>(n, i). gen (oc_env (sp_agent S) n) i) \<and> sp_tenant S \<in> sp_tenants S \<and>
     (\<forall>n s. store_ok s \<longrightarrow>
        runs_in (sp_tenants S) s (oc_others (sp_agent S) n s) \<and>
        (\<forall>k \<in> ids_in (oc_others (sp_agent S) n s). k \<in> ids_in s \<or> (\<forall>m i. k \<noteq> gen (oc_env (sp_agent S) m) i)))"

definition drawn :: "setting \<Rightarrow> nat \<Rightarrow> uuid set" where
  "drawn S n = {gen (oc_env (sp_agent S) m) i | m i. m < n}"

definition undrawn :: "setting \<Rightarrow> nat \<Rightarrow> uuid set" where
  "undrawn S n = {gen (oc_env (sp_agent S) m) i | m i. n \<le> m}"

definition supplied :: "setting \<Rightarrow> uuid set \<Rightarrow> uuid set \<Rightarrow> agent_state \<Rightarrow> bool" where
  "supplied S X T st \<longleftrightarrow>
     runs_in (sp_tenants S) (sp_start S) (os_store st) \<and> store_ok (os_store st) \<and>
     X \<subseteq> drawn S (os_reading st) \<and>
     (X \<union> undrawn S (os_reading st)) \<inter> ids_in (os_store st) = {} \<and>
     (\<forall>t \<in> T. has_row tk_tenant_id (sp_tenant S) t (st_tasks (os_store st)))"

definition good :: "setting \<Rightarrow> uuid set \<Rightarrow> uuid set \<Rightarrow> 'a act \<Rightarrow> ('a \<Rightarrow> bool) \<Rightarrow> bool" where
  "good S X T m Q \<longleftrightarrow> (\<forall>st. supplied S X T st \<longrightarrow>
     supplied S {} {} (snd (m st)) \<and> (\<forall>x. fst (m st) = Inr x \<longrightarrow> Q x))"

lemma supplied_mono: "supplied S X T st \<Longrightarrow> X' \<subseteq> X \<Longrightarrow> T' \<subseteq> T \<Longrightarrow> supplied S X' T' st"
  unfolding supplied_def by blast

lemma supplied_none: "supplied S X T st \<Longrightarrow> supplied S {} {} st"
  by (erule supplied_mono) simp_all

lemma undrawn_Suc: "undrawn S n = range (gen (oc_env (sp_agent S) n)) \<union> undrawn S (Suc n)"
proof -
  have le: "n \<le> m \<longleftrightarrow> m = n \<or> Suc n \<le> m" for m by linarith
  show ?thesis unfolding undrawn_def le by auto
qed

lemma drawn_Suc: "drawn S (Suc n) = drawn S n \<union> range (gen (oc_env (sp_agent S) n))"
  unfolding drawn_def less_Suc_eq by auto

lemma gen_eq: "served S \<Longrightarrow> gen (oc_env (sp_agent S) n) i = gen (oc_env (sp_agent S) m) j \<longleftrightarrow> n = m \<and> i = j"
  unfolding served_def using inj_eq[of "\<lambda>(n, i). gen (oc_env (sp_agent S) n) i" "(n, i)" "(m, j)"] by simp

lemma drawn_undrawn: "served S \<Longrightarrow> drawn S n \<inter> undrawn S n = {}"
  by (auto simp: drawn_def undrawn_def gen_eq)

text \<open>One reading of the environment, without and with a call.\<close>

lemma supplied_reading:
  "supplied S X T st \<Longrightarrow> supplied S X T (st\<lparr>os_reading := Suc (os_reading st)\<rparr>)"
  by (auto simp: supplied_def drawn_Suc undrawn_Suc[of S "os_reading st"])

lemma supplied_fresh:
  assumes "supplied S X T st"
  shows "supplied S (X \<union> range (gen (oc_env (sp_agent S) (os_reading st)))) T
    (st\<lparr>os_reading := Suc (os_reading st)\<rparr>)"
  using assms by (auto simp: supplied_def drawn_Suc undrawn_Suc[of S "os_reading st"])

lemma supplied_others:
  assumes "served S" and "supplied S X T st"
  shows "supplied S X T (st\<lparr>os_store := oc_others (sp_agent S) (os_reading st) (os_store st)\<rparr>)"
proof -
  let ?s = "os_store st" and ?s' = "oc_others (sp_agent S) (os_reading st) (os_store st)"
  from assms(2) have ok: "store_ok ?s" by (simp add: supplied_def)
  with assms(1) have r: "runs_in (sp_tenants S) ?s ?s'" and
    k: "\<forall>k \<in> ids_in ?s'. k \<in> ids_in ?s \<or> (\<forall>m i. k \<noteq> gen (oc_env (sp_agent S) m) i)"
    by (simp_all add: served_def)
  have "k \<notin> ids_in ?s'" if "k \<in> X \<union> undrawn S (os_reading st)" for k
  proof -
    from that assms(2) have "k \<in> drawn S (os_reading st) \<union> undrawn S (os_reading st)" "k \<notin> ids_in ?s"
      by (auto simp: supplied_def)
    then show ?thesis using k unfolding drawn_def undrawn_def by blast
  qed
  then show ?thesis
    using assms(2) runs_in_trans[OF _ r] runs_in_ok[OF r ok] runs_in_has_task[OF r ok]
    unfolding supplied_def by auto
qed

definition allowed_call :: "setting \<Rightarrow> uuid set \<Rightarrow> uuid set \<Rightarrow> uuid set \<Rightarrow> uuid set \<Rightarrow>
    (env \<Rightarrow> store \<Rightarrow> 'a result) \<Rightarrow> ('a \<Rightarrow> bool) \<Rightarrow> bool" where
  "allowed_call S X T Y T' g P \<longleftrightarrow>
     (\<forall>e s. store_ok s \<longrightarrow> X \<inter> ids_in s = {} \<longrightarrow> (\<forall>t \<in> T. has_row tk_tenant_id (sp_tenant S) t (st_tasks s)) \<longrightarrow>
        runs_in (sp_tenants S) s (snd (g e s)) \<and> ids_in (snd (g e s)) \<subseteq> ids_in s \<union> Y \<and>
        (\<forall>t \<in> T'. has_row tk_tenant_id (sp_tenant S) t (st_tasks (snd (g e s)))) \<and>
        (\<forall>x. fst (g e s) = Inr x \<longrightarrow> P x))"

lemma supplied_call:
  assumes "served S" and "supplied S X T st" and "Y \<subseteq> X" and "allowed_call S X T Y T' g P"
    and "call (sp_agent S) g st = (r, st')"
  shows "supplied S (X - Y) (T \<union> T') st' \<and> (\<forall>x. r = Inr x \<longrightarrow> P x)"
proof -
  let ?e = "oc_env (sp_agent S) (os_reading st)"
  define s where "s = oc_others (sp_agent S) (os_reading st) (os_store st)"
  have sup: "supplied S X T (st\<lparr>os_store := s\<rparr>)" unfolding s_def by (rule supplied_others[OF assms(1,2)])
  then have ok: "store_ok s" and free: "X \<inter> ids_in s = {}" "undrawn S (os_reading st) \<inter> ids_in s = {}"
    and tasks: "\<forall>t \<in> T. has_row tk_tenant_id (sp_tenant S) t (st_tasks s)"
    and X: "X \<subseteq> drawn S (os_reading st)"
    by (auto simp: supplied_def)
  from assms(4) ok free(1) tasks have g: "runs_in (sp_tenants S) s (snd (g ?e s))"
    "ids_in (snd (g ?e s)) \<subseteq> ids_in s \<union> Y"
    "\<forall>t \<in> T'. has_row tk_tenant_id (sp_tenant S) t (st_tasks (snd (g ?e s)))"
    "\<forall>x. fst (g ?e s) = Inr x \<longrightarrow> P x"
    unfolding allowed_call_def by blast+
  have st': "st' = st\<lparr>os_store := snd (g ?e s), os_reading := Suc (os_reading st)\<rparr>" "r = fst (g ?e s)"
    using assms(5) by (auto simp: call_def s_def split: prod.splits)
  have "Y \<inter> undrawn S (os_reading st) = {}" using assms(3) X drawn_undrawn[OF assms(1)] by blast
  then have "(X - Y \<union> undrawn S (os_reading st)) \<inter> ids_in (snd (g ?e s)) = {}"
    using g(2) free by blast
  then have "supplied S (X - Y) (T \<union> T') (st\<lparr>os_store := snd (g ?e s)\<rparr>)"
    using sup X runs_in_trans[OF _ g(1)] runs_in_ok[OF g(1) ok] runs_in_has_task[OF g(1) ok] g(3)
    unfolding supplied_def by auto
  from supplied_reading[OF this] show ?thesis using st' g(4) by simp
qed

section \<open>Rules\<close>

named_theorems good_rules \<open>rules for actions that keep to the contract\<close>

lemma goodI:
  "(\<And>st r st'. supplied S X T st \<Longrightarrow> m st = (r, st') \<Longrightarrow>
      supplied S {} {} st' \<and> (\<forall>x. r = Inr x \<longrightarrow> Q x)) \<Longrightarrow> good S X T m Q"
  unfolding good_def by (metis prod.collapse)

lemma goodD:
  "good S X T m Q \<Longrightarrow> supplied S X T st \<Longrightarrow> m st = (r, st') \<Longrightarrow>
     supplied S {} {} st' \<and> (\<forall>x. r = Inr x \<longrightarrow> Q x)"
  unfolding good_def by (metis fst_conv snd_conv)

lemma good_weaken: "good S {} {} m Q \<Longrightarrow> good S X T m Q"
  unfolding good_def using supplied_none by blast

lemma good_mono: "good S X T m P \<Longrightarrow> (\<And>x. P x \<Longrightarrow> Q x) \<Longrightarrow> good S X T m Q"
  unfolding good_def by blast

lemma good_ret [good_rules]: "Q x \<Longrightarrow> good S X T (ret x) Q"
  unfolding good_def ret_def using supplied_none by auto

lemma good_raise [good_rules]: "good S X T (raise err) Q"
  unfolding good_def raise_def using supplied_none by auto

lemma good_lift [good_rules]: "(\<And>x. r = Inr x \<Longrightarrow> Q x) \<Longrightarrow> good S X T (lift r) Q"
  unfolding good_def lift_def using supplied_none by auto

lemma good_bind:
  assumes "good S X T m P" and "\<And>x. P x \<Longrightarrow> good S {} {} (f x) Q"
  shows "good S X T (abind m f) Q"
proof (rule goodI)
  fix st r st'
  assume s: "supplied S X T st" and run: "abind m f st = (r, st')"
  obtain r1 st1 where m: "m st = (r1, st1)" by (cases "m st")
  note q = goodD[OF assms(1) s m]
  show "supplied S {} {} st' \<and> (\<forall>x. r = Inr x \<longrightarrow> Q x)"
  proof (cases r1)
    case (Inl err)
    with run m q show ?thesis by (auto simp: abind_def)
  next
    case (Inr x)
    with run m have "f x st1 = (r, st')" by (simp add: abind_def)
    from goodD[OF assms(2) _ this] q Inr show ?thesis by blast
  qed
qed

lemma good_handle:
  assumes "good S X T m Q" and "\<And>err. good S {} {} (h err) Q"
  shows "good S X T (handle m h) Q"
proof (rule goodI)
  fix st r st'
  assume s: "supplied S X T st" and run: "handle m h st = (r, st')"
  obtain r1 st1 where m: "m st = (r1, st1)" by (cases "m st")
  note q = goodD[OF assms(1) s m]
  show "supplied S {} {} st' \<and> (\<forall>x. r = Inr x \<longrightarrow> Q x)"
  proof (cases r1)
    case (Inl err)
    with run m have "h err st1 = (r, st')" by (simp add: handle_def)
    from goodD[OF assms(2) _ this] q show ?thesis by blast
  next
    case (Inr x)
    with run m q show ?thesis by (auto simp: handle_def)
  qed
qed

text \<open>Steps that keep what is drawn and known.\<close>

lemma good_lift_bind: "(\<And>x. r = Inr x \<Longrightarrow> good S X T (f x) Q) \<Longrightarrow> good S X T (abind (lift r) f) Q"
  unfolding good_def abind_def lift_def by (cases r) (auto intro: supplied_none)

lemma good_step:
  assumes "\<And>st. supplied S X T st \<Longrightarrow> \<exists>x st1. m st = (Inr x, st1) \<and> supplied S X T st1"
    and "\<And>x. good S X T (f x) Q"
  shows "good S X T (abind m f) Q"
proof (rule goodI)
  fix st :: agent_state and r and st' :: agent_state
  assume s: "supplied S X T st" and run: "abind m f st = (r, st')"
  from assms(1)[OF s] obtain x st1 where m: "m st = (Inr x, st1)" "supplied S X T st1" by blast
  with run have "f x st1 = (r, st')" by (simp add: abind_def)
  from goodD[OF assms(2) m(2) this] show "supplied S {} {} st' \<and> (\<forall>x. r = Inr x \<longrightarrow> Q x)" .
qed

lemma good_reading_bind: "(\<And>n. good S X T (f n) Q) \<Longrightarrow> good S X T (abind reading f) Q"
  by (rule good_step) (simp_all add: reading_def supplied_reading)

lemma good_effect_bind: "good S X T (f ()) Q \<Longrightarrow> good S X T (abind (effect x) f) Q"
  by (rule good_step) (simp_all add: effect_def supplied_def)

lemma good_fresh_bind:
  assumes "served S"
    and "\<And>e. inj (gen e) \<Longrightarrow> X \<inter> range (gen e) = {} \<Longrightarrow> good S (X \<union> range (gen e)) T (f e) Q"
  shows "good S X T (abind (fresh (sp_agent S)) f) Q"
proof (rule goodI)
  fix st :: agent_state and r and st' :: agent_state
  let ?e = "oc_env (sp_agent S) (os_reading st)"
  assume s: "supplied S X T st" and run: "abind (fresh (sp_agent S)) f st = (r, st')"
  then have f: "f ?e (st\<lparr>os_reading := Suc (os_reading st)\<rparr>) = (r, st')"
    by (simp add: abind_def fresh_def)
  have "inj (gen ?e)" by (auto intro: injI simp: gen_eq[OF assms(1)])
  moreover have "X \<inter> range (gen ?e) = {}"
    using s unfolding supplied_def drawn_def by (auto simp: gen_eq[OF assms(1)])
  ultimately show "supplied S {} {} st' \<and> (\<forall>x. r = Inr x \<longrightarrow> Q x)"
    by (rule goodD[OF assms(2) supplied_fresh[OF s] f])
qed

lemma good_call_bind:
  assumes "served S" and "Y \<subseteq> X" and "allowed_call S X T Y T' g P"
    and "\<And>x. P x \<Longrightarrow> good S (X - Y) (T \<union> T') (f x) Q"
  shows "good S X T (abind (call (sp_agent S) g) f) Q"
proof (rule goodI)
  fix st r st'
  assume s: "supplied S X T st" and run: "abind (call (sp_agent S) g) f st = (r, st')"
  obtain r1 st1 where c: "call (sp_agent S) g st = (r1, st1)" by fastforce
  note q = supplied_call[OF assms(1) s assms(2,3) c]
  show "supplied S {} {} st' \<and> (\<forall>x. r = Inr x \<longrightarrow> Q x)"
  proof (cases r1)
    case (Inl err)
    with run c q show ?thesis by (auto simp: abind_def intro: supplied_none)
  next
    case (Inr x)
    with run c have "f x st1 = (r, st')" by (simp add: abind_def)
    from goodD[OF assms(4) _ this] q Inr show ?thesis by blast
  qed
qed

lemma good_call:
  assumes "served S" and "Y \<subseteq> X" and "allowed_call S X T Y {} g Q"
  shows "good S X T (call (sp_agent S) g) Q"
proof (rule goodI)
  fix st r st'
  assume "supplied S X T st" "call (sp_agent S) g st = (r, st')"
  from supplied_call[OF assms(1) this(1) assms(2,3) this(2)]
  show "supplied S {} {} st' \<and> (\<forall>x. r = Inr x \<longrightarrow> Q x)" using supplied_none by blast
qed

lemma allowed_read: "(\<And>e s x. g e s = Inr x \<Longrightarrow> P x) \<Longrightarrow> allowed_call S X T {} {} (\<lambda>e s. (g e s, s)) P"
  by (simp add: allowed_call_def)

lemma good_observe_bind:
  assumes "served S" and "\<And>e s. P (g e s)" and "\<And>x. P x \<Longrightarrow> good S X T (f x) Q"
  shows "good S X T (abind (observe (sp_agent S) g) f) Q"
  unfolding observe_def
  by (rule good_call_bind[OF assms(1), where Y = "{}" and T' = "{}" and P = P])
     (use assms in \<open>auto intro: allowed_read\<close>)

lemma good_observe_or_raise_bind:
  assumes "served S" and "\<And>x. good S X T (f x) Q"
  shows "good S X T (abind (observe_or_raise (sp_agent S) g) f) Q"
  unfolding observe_or_raise_def
  by (rule good_call_bind[OF assms(1), where Y = "{}" and T' = "{}" and P = "\<lambda>_. True"])
     (use assms in \<open>auto intro: allowed_read\<close>)

lemma abind_assoc: "abind (abind m f) g = abind m (\<lambda>x. abind (f x) g)"
  by (rule ext) (simp add: abind_def split: prod.splits sum.splits)

end
