(* ===== verification/OrchestratorGuarantee.thy ===== *)
theory OrchestratorGuarantee
  imports OrchestratorContract
begin

text \<open>
  Every method of the orchestrator is \<open>good\<close>: the proof follows the code, one lemma per method, with one
  lemma per kind of store call.
\<close>

section \<open>Calls\<close>

definition turn_of :: "setting \<Rightarrow> conversation_turn \<Rightarrow> bool" where
  "turn_of S t \<longleftrightarrow> tn_tenant_id t = sp_tenant S"

definition result_of :: "setting \<Rightarrow> call_result \<Rightarrow> bool" where
  "result_of S r \<longleftrightarrow> (\<forall>t. fst r = Some t \<longrightarrow> turn_of S t)"

lemma good_fewer: "good S X' T m Q \<Longrightarrow> X' \<subseteq> X \<Longrightarrow> good S X T m Q"
  unfolding good_def using supplied_mono[where T' = T] by blast

lemma allowed_step:
  assumes "served S"
    and "\<And>e s. store_ok s \<Longrightarrow> X \<inter> ids_in s = {} \<Longrightarrow>
       \<forall>t \<in> T. has_row tk_tenant_id (sp_tenant S) t (st_tasks s) \<Longrightarrow>
       store_step (sp_tenant S) s (snd (g e s))"
    and "\<And>e s. store_ok s \<Longrightarrow> ids_in (snd (g e s)) \<subseteq> ids_in s \<union> Y"
    and "\<And>e s t. t \<in> T' \<Longrightarrow> has_row tk_tenant_id (sp_tenant S) t (st_tasks (snd (g e s)))"
    and "\<And>e s x. fst (g e s) = Inr x \<Longrightarrow> P x"
  shows "allowed_call S X T Y T' g P"
proof -
  have "sp_tenant S \<in> sp_tenants S" using assms(1) by (simp add: served_def)
  then show ?thesis unfolding allowed_call_def using assms(2-5) by (blast intro: runs_in_step)
qed

text \<open>A call that draws on no identifier.\<close>

lemma good_plain_call_bind:
  assumes "served S" and "\<And>e s. store_step (sp_tenant S) s (snd (g e s))"
    and "\<And>e s. store_ok s \<Longrightarrow> ids_in (snd (g e s)) \<subseteq> ids_in s"
    and "\<And>e s x. fst (g e s) = Inr x \<Longrightarrow> P x" and "\<And>x. P x \<Longrightarrow> good S X T (f x) Q"
  shows "good S X T (abind (call (sp_agent S) g) f) Q"
proof (rule good_call_bind[OF assms(1), where Y = "{}" and T' = "{}" and P = P])
  show "allowed_call S X T {} {} g P" by (rule allowed_step[OF assms(1)]) (use assms in simp_all)
qed (use assms(5) in simp_all)

lemma good_file_event_bind:
  assumes "served S" and "\<And>x. good S X T (f x) Q"
  shows "good S X T (abind (file_event (sp_agent S) (sp_tenant S) et payload) f) Q"
  unfolding file_event_def
  by (rule good_plain_call_bind[OF assms(1), where P = "\<lambda>_. True"])
     (auto intro: step_append_event assms(2) simp: ids_append_event)

lemma good_new_invocation_bind:
  assumes "served S" and "turn_of S turn"
    and "\<And>i. iv_tenant_id i = sp_tenant S \<Longrightarrow> iv_task_id i = task_id \<Longrightarrow> iv_id i \<notin> X \<Longrightarrow>
      good S (insert (iv_id i) X) T (f i) Q"
  shows "good S X T (abind (new_invocation (sp_agent S) turn task_id cid name target args) f) Q"
  unfolding new_invocation_def abind_assoc
proof (rule good_fresh_bind[OF assms(1)])
  fix e :: env
  assume e: "X \<inter> range (gen e) = {}"
  let ?i = "\<lparr>iv_id = gen e 0, iv_tenant_id = tn_tenant_id turn, iv_turn_id = tn_id turn, iv_task_id = task_id,
        iv_tool_call_id = cid, iv_tool_name = name, iv_target = target, iv_state = Inv_PENDING,
        iv_arguments = args, iv_arguments_sha256 = arguments_sha256 (sp_agent S) args,
        iv_created_at = clk e 0, iv_updated_at = clk e 1, iv_completed_at = None\<rparr>"
  have "gen e 0 \<notin> X" using e by auto
  then have "good S (insert (gen e 0) X) T (f ?i) Q"
    using assms(3)[of ?i] assms(2) by (simp add: turn_of_def)
  then have "good S (X \<union> range (gen e)) T (f ?i) Q" by (rule good_fewer) auto
  then show "good S (X \<union> range (gen e)) T (abind (lift (checked valid_invocation ?i)) f) Q"
    by (intro good_lift_bind) simp
qed

lemma good_create_invocation_bind:
  assumes "served S" and "iv_tenant_id i = sp_tenant S" and "iv_id i \<in> X"
    and "\<And>t. iv_task_id i = Some t \<Longrightarrow> t \<in> T"
    and "\<And>x. good S (X - {iv_id i}) T (f x) Q"
  shows "good S X T (abind (call (sp_agent S) (\<lambda>e. create_tool_invocation e i)) f) Q"
proof (rule good_call_bind[OF assms(1), where Y = "{iv_id i}" and T' = "{}" and P = "\<lambda>_. True"])
  show "allowed_call S X T {iv_id i} {} (\<lambda>e. create_tool_invocation e i) (\<lambda>_. True)"
  proof (rule allowed_step[OF assms(1)])
    fix e s
    assume "X \<inter> ids_in s = {}" and t: "\<forall>t\<in>T. has_row tk_tenant_id (sp_tenant S) t (st_tasks s)"
    then have "iv_id i \<notin> ids_in s" using assms(3) by blast
    then show "store_step (sp_tenant S) s (snd (create_tool_invocation e i s))"
      using assms(2,4) t by (intro step_create_invocation) (auto intro: not_in_ids)
  qed (use ids_create_tool_invocation in auto)
qed (use assms in auto)

lemma good_fail_invocation_bind:
  assumes "served S" and "\<And>x. good S X T (f x) Q"
  shows "good S X T (abind (call (sp_agent S) (\<lambda>e. fail_tool_invocation e (sp_tenant S) k)) f) Q"
  by (rule good_plain_call_bind[OF assms(1), where P = "\<lambda>_. True"])
     (use assms ids_finish_tool_invocation in \<open>auto simp: fail_tool_invocation_def
        intro!: step_fail_invocation[unfolded fail_tool_invocation_def]\<close>)

lemma good_complete_invocation_bind:
  assumes "served S" and "\<And>x. good S X T (f x) Q"
  shows "good S X T (abind (call (sp_agent S) (\<lambda>e. complete_tool_invocation e (sp_tenant S) k)) f) Q"
  by (rule good_plain_call_bind[OF assms(1), where P = "\<lambda>_. True"])
     (use assms ids_finish_tool_invocation in \<open>auto simp: complete_tool_invocation_def
        intro!: step_complete_invocation[unfolded complete_tool_invocation_def]\<close>)

lemma good_approval_bind:
  assumes "served S" and "ap_tenant_id a = sp_tenant S" and "ap_id a \<in> X" and "approval_new a"
    and "\<And>x. good S (X - {ap_id a}) T (f x) Q"
  shows "good S X T (abind (call (sp_agent S) (\<lambda>e. create_coordinator_approval e a)) f) Q"
proof (rule good_call_bind[OF assms(1), where Y = "{ap_id a}" and T' = "{}" and P = "\<lambda>_. True"])
  show "allowed_call S X T {ap_id a} {} (\<lambda>e. create_coordinator_approval e a) (\<lambda>_. True)"
  proof (rule allowed_step[OF assms(1)])
    fix e s
    assume "X \<inter> ids_in s = {}"
    then have "ap_id a \<notin> ids_in s" using assms(3) by blast
    then show "store_step (sp_tenant S) s (snd (create_coordinator_approval e a s))"
      using assms(2,4) by (intro step_coordinator_approval) (auto intro: not_in_ids)
  qed (use ids_create_coordinator_approval in auto)
qed (use assms in auto)

lemma good_new_task_bind:
  assumes "served S"
    and "\<And>t. tk_tenant_id t = sp_tenant S \<Longrightarrow> task_new t \<Longrightarrow> tk_id t \<notin> X \<Longrightarrow>
      good S (insert (tk_id t) X) T (f t) Q"
  shows "good S X T (abind (new_task (sp_agent S) (sp_tenant S) objective ctx caps contract) f) Q"
  unfolding new_task_def abind_assoc
proof (rule good_fresh_bind[OF assms(1)])
  fix e :: env
  assume e: "X \<inter> range (gen e) = {}"
  let ?t = "\<lparr>tk_id = gen e 0, tk_tenant_id = sp_tenant S, tk_objective = objective, tk_context = ctx,
        tk_required_capabilities = caps, tk_deliverable_contract = contract,
        tk_state = Task_PENDING, tk_created_at = clk e 0, tk_deadline = None, tk_result = None,
        tk_completed_at = None, tk_target_ara_id = None, tk_completed_by_ara_id = None\<rparr>"
  have "gen e 0 \<notin> X" using e by auto
  then have "good S (insert (gen e 0) X) T (f ?t) Q"
    using assms(2)[of ?t] by (simp add: task_new_def)
  then have "good S (X \<union> range (gen e)) T (f ?t) Q" by (rule good_fewer) auto
  then show "good S (X \<union> range (gen e)) T (abind (lift (checked valid_task ?t)) f) Q"
    by (intro good_lift_bind) simp
qed

lemma good_add_task_bind:
  assumes "served S" and "tk_tenant_id t = sp_tenant S" and "task_new t" and "tk_id t \<in> X"
    and "\<And>e. ev_tenant_id (ev e) = sp_tenant S"
    and "\<And>x. good S (X - {tk_id t}) (insert (tk_id t) T) (f x) Q"
  shows "good S X T (abind (call (sp_agent S) (\<lambda>e. add_task t (ev e))) f) Q"
proof (rule good_call_bind[OF assms(1), where Y = "{tk_id t}" and T' = "{tk_id t}" and P = "\<lambda>_. True"])
  show "allowed_call S X T {tk_id t} {tk_id t} (\<lambda>e. add_task t (ev e)) (\<lambda>_. True)"
  proof (rule allowed_step[OF assms(1)])
    fix e s
    assume "X \<inter> ids_in s = {}"
    then have "tk_id t \<notin> ids_in s" using assms(4) by blast
    then show "store_step (sp_tenant S) s (snd (add_task t (ev e) s))"
      using assms by (intro step_add_task) (auto intro: not_in_ids)
  qed (use ids_add_task assms(2) in \<open>auto simp: add_task_def has_row_def update_conv'\<close>)
qed (use assms in auto)

lemma pause_turn_tenant: "fst (pause_turn e u k l cp s) = Inr t \<Longrightarrow> tn_tenant_id t = u"
  by (auto simp: pause_turn_def Let_def split: sum.splits dest: active_turn_found)

lemma checkpoint_turn_tenant: "fst (checkpoint_turn e u k l cp s) = Inr t \<Longrightarrow> tn_tenant_id t = u"
  by (auto simp: checkpoint_turn_def Let_def split: sum.splits dest: active_turn_found)

lemma complete_turn_tenant: "fst (complete_turn e u k l m s) = Inr t \<Longrightarrow> tn_tenant_id t = u"
  by (auto simp: complete_turn_def Let_def split: sum.splits option.splits if_splits dest: active_turn_found)

lemma claim_pending_turn_tenant:
  "fst (claim_pending_turn e u l x s) = Inr (Some t) \<Longrightarrow> tn_tenant_id t = u"
  using find_sort_key_least[of "claimable_turn (clk e 1) u" tn_created_at "dict_values (st_turns s)"]
  by (auto simp: claim_pending_turn_def Let_def claimable_turn_def split: option.splits simp del: One_nat_def)

lemma good_pause:
  assumes "served S" and "turn_of S turn"
  shows "good S X T (pause (sp_agent S) turn l messages) (result_of S)"
proof -
  have u: "tn_tenant_id turn = sp_tenant S" using assms(2) by (simp add: turn_of_def)
  show ?thesis unfolding pause_def u
    by (rule good_plain_call_bind[OF assms(1) step_pause_turn ids_pause_turn, where P = "turn_of S"])
       (auto simp: turn_of_def result_of_def intro: pause_turn_tenant good_ret)
qed

lemma good_answered: "good S X T (answered messages c content) (result_of S)"
  unfolding answered_def by (rule good_ret) (simp add: result_of_def)

section \<open>The tools\<close>

lemma good_run_local_tool_bind:
  assumes "\<And>x. good S X T (f x) Q"
  shows "good S X T (abind (run_local_tool A turn c a) f) Q"
  unfolding run_local_tool_def abind_assoc
  by (rule good_reading_bind)
     (auto split: prod.splits option.splits simp: abind_assoc intro!: good_lift_bind good_effect_bind assms)

lemma good_request_local_approval:
  assumes "served S" and "turn_of S turn"
  shows "good S X T (request_local_approval (sp_agent S) turn c invocation result messages) (result_of S)"
proof -
  have u: "tn_tenant_id turn = sp_tenant S" using assms(2) by (simp add: turn_of_def)
  have get: "good S X' T (abind (observe (sp_agent S) (\<lambda>_. get_turn (sp_tenant S) (tn_id turn)))
      (\<lambda>paused. case paused of None \<Rightarrow> raise err | Some t \<Rightarrow> ret (Some t, messages))) (result_of S)" for X' err
    by (rule good_observe_bind[OF assms(1), where P = "\<lambda>x. \<forall>t. x = Some t \<longrightarrow> turn_of S t"])
       (auto simp: get_turn_def turn_of_def result_of_def split: option.splits intro: good_raise good_ret)
  show ?thesis unfolding request_local_approval_def u
    by (rule good_fresh_bind[OF assms(1)], rule good_lift_bind, rule good_approval_bind[OF assms(1)])
       (auto simp: approval_new_def intro: get)
qed

lemma good_execute_local_tool:
  assumes "served S" and "turn_of S turn"
  shows "good S X T (execute_local_tool (sp_agent S) turn c known messages) (result_of S)"
proof -
  have u: "tn_tenant_id turn = sp_tenant S" using assms(2) by (simp add: turn_of_def)
  show ?thesis unfolding execute_local_tool_def u
    by (rule good_new_invocation_bind[OF assms], rule good_create_invocation_bind[OF assms(1)])
       (auto intro!: good_answered good_fail_invocation_bind[OF assms(1)]
          good_complete_invocation_bind[OF assms(1)] good_run_local_tool_bind
          good_request_local_approval[OF assms])
qed

lemma good_file_candidates:
  assumes "served S" and "inj (gen e)"
  shows "\<forall>j \<ge> i. gen e j \<in> X \<Longrightarrow>
    good S X T (file_candidates (\<lambda>m evs. call (sp_agent S) (\<lambda>_. upsert_memory m evs)) e (sp_tenant S) sid mid all i n cs)
      (\<lambda>_. True)"
proof (induction cs arbitrary: i n X)
  case Nil
  have "file_candidates (\<lambda>m evs. call (sp_agent S) (\<lambda>_. upsert_memory m evs)) e (sp_tenant S) sid mid all i n [] = ret []"
    by (rule ext) (simp add: ret_def)
  then show ?case by (simp add: good_ret)
next
  case (Cons c cs)
  let ?up = "\<lambda>m evs. call (sp_agent S) (\<lambda>_. upsert_memory m evs)"
  let ?m = "candidate_record e (sp_tenant S) sid mid all i c"
  let ?evs = "candidate_events e n ?m"
  have m: "mr_id ?m = gen e i" "mr_tenant_id ?m = sp_tenant S" "mr_import_batch_id ?m = None"
    by (simp_all add: candidate_record_def Let_def)
  have step: "file_candidates ?up e (sp_tenant S) sid mid all i n (c # cs) =
      (if \<not> valid_memory ?m then raise (ValidationError ''memory record'')
       else abind (?up ?m ?evs) (\<lambda>stored.
            abind (file_candidates ?up e (sp_tenant S) sid mid all (i + 1) (n + length ?evs) cs) (\<lambda>records.
            ret (stored # records))))"
    by (rule ext) (simp add: Let_def raise_def abind_def ret_def split: sum.splits prod.splits)
  have "allowed_call S X T {gen e i} {} (\<lambda>_. upsert_memory ?m ?evs) (\<lambda>_. True)"
  proof (rule allowed_step[OF assms(1)])
    fix s
    assume "X \<inter> ids_in s = {}"
    then have "gen e i \<notin> ids_in s" using Cons.prems by blast
    then show "store_step (sp_tenant S) s (snd (upsert_memory ?m ?evs s))"
      using m by (intro step_upsert_memory) (auto simp: candidate_events_def dest: not_in_ids)
  qed (use ids_upsert_memory[of ?m ?evs] m in auto)
  then have "good S X T (abind (?up ?m ?evs) (\<lambda>stored.
      abind (file_candidates ?up e (sp_tenant S) sid mid all (i + 1) (n + length ?evs) cs) (\<lambda>records.
      ret (stored # records)))) (\<lambda>_. True)"
  proof (rule good_call_bind[OF assms(1), rotated])
    fix stored
    have "\<forall>j \<ge> i + 1. gen e j \<in> X - {gen e i}"
      using Cons.prems injD[OF assms(2)] by fastforce
    from Cons.IH[OF this, of "n + length ?evs"]
    show "good S (X - {gen e i}) (T \<union> {}) (abind (file_candidates ?up e (sp_tenant S) sid mid all (i + 1)
        (n + length ?evs) cs) (\<lambda>records. ret (stored # records))) (\<lambda>_. True)"
      by (auto intro: good_bind good_ret)
  qed (use Cons.prems in auto)
  then show ?case unfolding step by (auto intro: good_raise)
qed

lemma good_sync_records: "good S X T (sync_records mt records) Q'" if "Q' ()"
  using that
  by (induction records arbitrary: X T)
     (auto split: option.splits intro!: good_ret good_reading_bind good_effect_bind good_lift_bind)

lemma good_recall_memories:
  "served S \<Longrightarrow> good S X T (recall_memories (sp_agent S) mt v objective) (\<lambda>_. True)"
  unfolding recall_memories_def
  by (rule good_observe_bind[where P = "\<lambda>_. True"]) (auto intro!: good_reading_bind good_ret)

lemma good_get_fact: "served S \<Longrightarrow> good S X T (get_fact (sp_agent S) mt v topic) (\<lambda>_. True)"
  unfolding get_fact_def by (rule good_bind[OF good_recall_memories]) (auto intro: good_ret)

lemma good_set_fact:
  assumes "served S"
  shows "good S X T (set_fact (sp_agent S) mt (sp_tenant S) mid content) (\<lambda>_. True)"
  unfolding set_fact_def extract_content_def
proof (rule good_fresh_bind[OF assms], rule good_fresh_bind[OF assms], rule good_reading_bind, rule good_bind)
  fix e e' :: env and n
  assume "inj (gen e')"
  then show "good S (X \<union> range (gen e) \<union> range (gen e')) T
      (file_candidates (\<lambda>m evs. call (sp_agent S) (\<lambda>_. upsert_memory m evs)) e' (sp_tenant S) (gen e 0) mid True 0 0
         (mt_extract mt n content)) (\<lambda>_. True)"
    by (intro good_file_candidates[OF assms]) auto
qed (auto intro!: good_bind[OF good_sync_records] good_ret)

lemma good_search_conversations:
  "served S \<Longrightarrow> good S X T (search_conversations (sp_agent S) v w query cs) (\<lambda>_. True)"
proof (induction cs arbitrary: X T)
  case Nil
  then show ?case by (simp add: good_ret)
next
  case (Cons c cs)
  have "good S X T (abind (search_conversations (sp_agent S) v w query cs) (\<lambda>rest. ret (ms @ rest))) (\<lambda>_. True)" for ms
    by (rule good_bind[OF Cons.IH[OF Cons.prems]]) (rule good_ret, simp)
  then have "good S X T (abind (observe_or_raise (sp_agent S) g) (\<lambda>messages.
      abind (search_conversations (sp_agent S) v w query cs) (\<lambda>rest.
      ret (message_matches query c messages @ rest)))) (\<lambda>_. True)" for g
    by (intro good_observe_or_raise_bind[OF Cons.prems])
  then show ?case using Cons by (simp split: if_split)
qed

lemma good_search_session: "served S \<Longrightarrow> good S X T (search_session (sp_agent S) v w query limit) (\<lambda>_. True)"
  unfolding search_session_def Let_def
  by (rule good_observe_bind[where P = "\<lambda>_. True"])
     (auto intro!: good_bind[OF good_search_conversations] good_ret)

lemma good_memory_tool_result:
  assumes "served S" and "turn_of S turn"
  shows "good S X T (memory_tool_result (sp_agent S) mt turn c) (\<lambda>_. True)"
proof -
  have u: "tn_tenant_id turn = sp_tenant S" using assms(2) by (simp add: turn_of_def)
  have conv: "good S X T (abind (observe (sp_agent S) g) (\<lambda>conversation. case conversation of
        None \<Rightarrow> raise err | Some cv \<Rightarrow> search_session (sp_agent S) (sp_tenant S) (cv_user_id cv) q limit)) (\<lambda>_. True)"
    for g err q limit
    by (rule good_observe_bind[OF assms(1), where P = "\<lambda>_. True"])
       (auto split: option.splits intro: good_raise good_search_session[OF assms(1)])
  show ?thesis unfolding memory_tool_result_def u
    by (auto split: option.splits list.splits
        intro: good_raise good_get_fact[OF assms(1)] good_set_fact[OF assms(1)] conv)
qed

lemma good_execute_memory_tool:
  assumes "served S" and "turn_of S turn"
  shows "good S X T (execute_memory_tool (sp_agent S) turn c messages) (result_of S)"
proof -
  have u: "tn_tenant_id turn = sp_tenant S" using assms(2) by (simp add: turn_of_def)
  have attempt: "good S X T (handle (abind (memory_tool_result (sp_agent S) mt turn c) (\<lambda>r. ret (Some r)))
      (\<lambda>err. if memory_tool_error err then ret None else raise err)) (\<lambda>_. True)" for X T mt
    by (rule good_handle) (auto intro!: good_bind[OF good_memory_tool_result[OF assms]] good_ret good_raise)
  show ?thesis unfolding execute_memory_tool_def u
    by (auto split: option.splits intro!: good_answered good_new_invocation_bind[OF assms]
        good_create_invocation_bind[OF assms(1)] good_bind[OF attempt]
        good_fail_invocation_bind[OF assms(1)] good_complete_invocation_bind[OF assms(1)])
qed

section \<open>Delegation\<close>

lemma good_has_available_ara_bind:
  "served S \<Longrightarrow> (\<And>x. good S X T (f x) Q) \<Longrightarrow> good S X T (abind (has_available_ara (sp_agent S) v) f) Q"
  unfolding has_available_ara_def by (rule good_observe_bind[where P = "\<lambda>_. True"]) auto

lemma good_delegate_ara:
  assumes "served S" and "turn_of S turn"
  shows "good S X T (delegate_ara (sp_agent S) turn l c messages) (result_of S)"
proof -
  have u: "tn_tenant_id turn = sp_tenant S" using assms(2) by (simp add: turn_of_def)
  have existing: "good S X T (abind (observe (sp_agent S) g) (\<lambda>existing. case existing of
        None \<Rightarrow> raise err
      | Some task \<Rightarrow> if finished_task task then answered messages c (bounded_task_result task)
                     else pause (sp_agent S) turn l messages)) (result_of S)" for g err
    by (rule good_observe_bind[OF assms(1), where P = "\<lambda>_. True"])
       (auto split: option.splits intro: good_raise good_answered good_pause[OF assms])
  have filing: "good S X T (abind (new_task (sp_agent S) (sp_tenant S) o' ctx caps contract) (\<lambda>task.
      abind (has_available_ara (sp_agent S) (sp_tenant S)) (\<lambda>available.
      if \<not> available then answered messages c why
      else abind (call (sp_agent S) (\<lambda>e. add_task task
             (AuditEvent e 0 (sp_tenant S) TASK_CREATED Actor_COORDINATOR None (Some (tk_id task)) payload))) (\<lambda>_.
           abind (new_invocation (sp_agent S) turn (Some (tk_id task)) (tc_id c) (tc_name c) Target_ARA (tc_arguments c)) (\<lambda>new.
           abind (call (sp_agent S) (\<lambda>e. create_tool_invocation e new)) (\<lambda>_.
           pause (sp_agent S) turn l messages)))))) (result_of S)" for o' ctx caps contract why payload
    by (rule good_new_task_bind[OF assms(1)], rule good_has_available_ara_bind[OF assms(1)])
       (auto intro!: good_answered good_add_task_bind[OF assms(1)] good_new_invocation_bind[OF assms]
          good_create_invocation_bind[OF assms(1)] good_pause[OF assms])
  have "good S X T (abind (observe (sp_agent S) g) (\<lambda>existing_invocation. case existing_invocation of
      Some invocation \<Rightarrow> (case iv_task_id invocation of None \<Rightarrow> raise err | Some task_id \<Rightarrow> k task_id)
    | None \<Rightarrow> m)) (result_of S)"
    if "\<And>i. good S X T (k i) (result_of S)" "good S X T m (result_of S)" for g err k m
    by (rule good_observe_bind[OF assms(1), where P = "\<lambda>_. True"])
       (auto split: option.splits intro: good_raise that)
  note found = this
  show ?thesis unfolding delegate_ara_def u
    by (auto split: option.splits list.splits intro!: good_answered found existing filing)
qed

lemma good_start_host_task:
  assumes "served S" and "turn_of S turn"
  shows "good S X T (start_host_task (sp_agent S) turn l c args existing messages) (result_of S)"
proof -
  have u: "tn_tenant_id turn = sp_tenant S" using assms(2) by (simp add: turn_of_def)
  show ?thesis unfolding start_host_task_def u has_available_host_ara_def Let_def
    by (auto split: prod.splits intro!: good_new_task_bind[OF assms(1)] good_add_task_bind[OF assms(1)]
        good_complete_invocation_bind[OF assms(1)] good_new_invocation_bind[OF assms]
        good_create_invocation_bind[OF assms(1)] good_pause[OF assms])
qed

lemma good_delegate_host_command:
  assumes "served S" and "turn_of S turn"
  shows "good S X T (delegate_host_command (sp_agent S) turn l c messages) (result_of S)"
proof -
  have u: "tn_tenant_id turn = sp_tenant S" using assms(2) by (simp add: turn_of_def)
  have existing: "good S X T (abind (observe (sp_agent S) g) (\<lambda>stored. case stored of
        None \<Rightarrow> start_host_task (sp_agent S) turn l c args invocation messages
      | Some task \<Rightarrow> if finished_task task then answered messages c (bounded_task_result task)
                     else pause (sp_agent S) turn l messages)) (result_of S)" for g args invocation
    by (rule good_observe_bind[OF assms(1), where P = "\<lambda>_. True"])
       (auto split: option.splits intro: good_start_host_task[OF assms] good_answered good_pause[OF assms])
  have approval: "good S X T (abind (new_invocation (sp_agent S) turn None (tc_id c) (tc_name c) Target_ARA (tc_arguments c)) (\<lambda>new.
      abind (call (sp_agent S) (\<lambda>e. create_tool_invocation e new)) (\<lambda>_.
      abind (fresh (sp_agent S)) (\<lambda>e'.
      abind (lift (checked valid_approval
        \<lparr>ap_id = gen e' 0, ap_tenant_id = sp_tenant S, ap_task_id = None,
         ap_tool_invocation_id = Some (iv_id new), ap_capability = HOST_COMMAND_CAPABILITY,
         ap_requested_by = None, ap_requestor_type = Actor_COORDINATOR, ap_state = Appr_PENDING,
         ap_reason = why, ap_created_at = clk e' 0, ap_decided_at = None, ap_decided_by = None\<rparr>)) (\<lambda>approval.
      abind (call (sp_agent S) (\<lambda>e. create_coordinator_approval e approval)) (\<lambda>_.
      pause (sp_agent S) turn l messages)))))) (result_of S)" for why
    by (rule good_new_invocation_bind[OF assms], rule good_create_invocation_bind[OF assms(1)])
       (auto simp: approval_new_def intro!: good_fresh_bind[OF assms(1)] good_lift_bind
          good_approval_bind[OF assms(1)] good_pause[OF assms])
  have found: "good S X T (abind (observe (sp_agent S) g) f) (result_of S)"
    if "\<And>x. good S X T (f x) (result_of S)" for g f
    by (rule good_observe_bind[OF assms(1), where P = "\<lambda>_. True"]) (auto intro: that)
  show ?thesis unfolding delegate_host_command_def u has_available_host_ara_def
    by (auto split: option.splits intro!: found good_answered good_ret good_pause[OF assms] existing
        good_start_host_task[OF assms] approval simp: result_of_def)
qed

lemma good_execute_call:
  assumes "served S" and "turn_of S turn"
  shows "good S X T (execute_call (sp_agent S) turn l c known messages) (result_of S)"
  unfolding execute_call_def
  by (auto intro: good_delegate_ara[OF assms] good_delegate_host_command[OF assms]
      good_execute_memory_tool[OF assms] good_execute_local_tool[OF assms])

end
