(* ===== verification/TurnGuarantee.thy ===== *)
theory TurnGuarantee
  imports OrchestratorGuarantee
begin

text \<open>
  The same for the methods of \<open>TurnLoop\<close>: planning, the loops, the streamed turn and the claim of a turn.
\<close>

section \<open>Planning\<close>

lemma abind_raise [simp]: "abind (raise err) f = raise err"
  by (rule ext) (simp add: abind_def raise_def)

lemma amap_Cons_bind: "abind (amap g (x # xs)) k = abind (g x) (\<lambda>y. abind (amap g xs) (\<lambda>ys. k (y # ys)))"
  by (simp add: abind_assoc)

lemma good_tasks_bind:
  assumes "served S"
  shows "(\<And>ts X'. X \<subseteq> X' \<Longrightarrow> distinct (map tk_id ts) \<Longrightarrow> tk_id ` set ts \<subseteq> X' \<Longrightarrow>
      tk_id ` set ts \<inter> X = {} \<Longrightarrow> (\<And>t. t \<in> set ts \<Longrightarrow> tk_tenant_id t = sp_tenant S \<and> task_new t) \<Longrightarrow>
      good S X' T (k ts) Q) \<Longrightarrow>
    good S X T (abind (amap (task_of_plan (sp_agent S) (sp_tenant S)) items) k) Q"
proof (induction items arbitrary: X k)
  case Nil
  show ?case using Nil[of X "[]"] by simp
next
  case (Cons item items)
  show ?case unfolding amap_Cons_bind task_of_plan_def[of _ _ item]
  proof (cases "those (map capability_model_validate (pt_required_capabilities item))")
    case None
    then show "good S X T (abind (case those (map capability_model_validate (pt_required_capabilities item)) of
        None \<Rightarrow> raise (ValidationError ''Capability'')
      | Some caps \<Rightarrow> new_task (sp_agent S) (sp_tenant S) (pt_objective item) (pt_context item) caps (pt_deliverable_contract item))
      (\<lambda>y. abind (amap (task_of_plan (sp_agent S) (sp_tenant S)) items) (\<lambda>ys. k (y # ys)))) Q"
      by (simp add: good_raise)
  next
    case (Some caps)
    have "good S X T (abind (new_task (sp_agent S) (sp_tenant S) (pt_objective item) (pt_context item) caps (pt_deliverable_contract item))
      (\<lambda>y. abind (amap (task_of_plan (sp_agent S) (sp_tenant S)) items) (\<lambda>ys. k (y # ys)))) Q"
    proof (rule good_new_task_bind[OF assms], rule Cons.IH)
      fix t ts X'
      assume t: "tk_tenant_id t = sp_tenant S" "task_new t" "tk_id t \<notin> X" and
        ts: "insert (tk_id t) X \<subseteq> X'" "distinct (map tk_id ts)" "tk_id ` set ts \<subseteq> X'"
          "tk_id ` set ts \<inter> insert (tk_id t) X = {}"
          "\<And>t'. t' \<in> set ts \<Longrightarrow> tk_tenant_id t' = sp_tenant S \<and> task_new t'"
      show "good S X' T (k (t # ts)) Q"
        by (rule Cons.prems) (use t ts in auto)
    qed
    with Some show "good S X T (abind (case those (map capability_model_validate (pt_required_capabilities item)) of
        None \<Rightarrow> raise (ValidationError ''Capability'')
      | Some caps \<Rightarrow> new_task (sp_agent S) (sp_tenant S) (pt_objective item) (pt_context item) caps (pt_deliverable_contract item))
      (\<lambda>y. abind (amap (task_of_plan (sp_agent S) (sp_tenant S)) items) (\<lambda>ys. k (y # ys)))) Q"
      by simp
  qed
qed

lemma good_invocations_bind:
  assumes "served S" and "turn_of S turn"
  shows "(\<And>is X'. X \<subseteq> X' \<Longrightarrow> distinct (map iv_id is) \<Longrightarrow> iv_id ` set is \<subseteq> X' \<Longrightarrow>
      iv_id ` set is \<inter> X = {} \<Longrightarrow> (\<And>i. i \<in> set is \<Longrightarrow> iv_tenant_id i = sp_tenant S) \<Longrightarrow>
      good S X' T (k is) Q) \<Longrightarrow>
    good S X T (abind (amap (plan_invocation (sp_agent S) turn) xs) k) Q"
proof (induction xs arbitrary: X k)
  case Nil
  show ?case using Nil[of X "[]"] by simp
next
  case (Cons x xs)
  obtain n task where x: "x = (n, task)" by (cases x)
  have step: "plan_invocation (sp_agent S) turn x = new_invocation (sp_agent S) turn (Some (tk_id task))
      (''planner-'' @ nat_text n) (td_name ARA_DELEGATE_TOOL) Target_ARA (plan_arguments task)"
    by (simp add: plan_invocation_def x)
  show ?case unfolding amap_Cons_bind step
  proof (rule good_new_invocation_bind[OF assms], rule Cons.IH)
    fix i :: tool_invocation and "is" :: "tool_invocation list" and X'
    assume i: "iv_tenant_id i = sp_tenant S" "iv_id i \<notin> X" and
      js: "insert (iv_id i) X \<subseteq> X'" "distinct (map iv_id is)" "iv_id ` set is \<subseteq> X'"
        "iv_id ` set is \<inter> insert (iv_id i) X = {}"
        "\<And>i'. i' \<in> set is \<Longrightarrow> iv_tenant_id i' = sp_tenant S"
    show "good S X' T (k (i # is)) Q"
      by (rule Cons.prems) (use i js in auto)
  qed
qed

lemma good_delegate_plan:
  assumes "served S" and "turn_of S turn"
  shows "good S X T (delegate_plan (sp_agent S) turn l messages n plan) (turn_of S)"
proof -
  have u: "tn_tenant_id turn = sp_tenant S" using assms(2) by (simp add: turn_of_def)
  have refreshed: "good S X T (if stored = [] then ret turn
      else abind (observe (sp_agent S) (\<lambda>_. get_turn (sp_tenant S) (tn_id turn))) (\<lambda>refreshed.
           ret (case refreshed of None \<Rightarrow> turn | Some t \<Rightarrow> t))) (turn_of S)" for X T and stored :: "task list"
  proof -
    have "good S X T (abind (observe (sp_agent S) (\<lambda>_. get_turn (sp_tenant S) (tn_id turn))) (\<lambda>refreshed.
        ret (case refreshed of None \<Rightarrow> turn | Some t \<Rightarrow> t))) (turn_of S)"
      by (rule good_observe_bind[OF assms(1), where P = "\<lambda>x. \<forall>t. x = Some t \<longrightarrow> turn_of S t"])
         (use assms(2) in \<open>auto simp: get_turn_def turn_of_def split: option.splits intro: good_ret\<close>)
    then show ?thesis using assms(2) by (simp add: good_ret)
  qed
  show ?thesis unfolding delegate_plan_def u
  proof (rule good_tasks_bind[OF assms(1)], rule good_invocations_bind[OF assms])
    fix ts :: "task list" and X' and "is" :: "tool_invocation list" and X''
    assume ts: "distinct (map tk_id ts)" "tk_id ` set ts \<subseteq> X'"
      "\<And>t. t \<in> set ts \<Longrightarrow> tk_tenant_id t = sp_tenant S \<and> task_new t" and
      js: "X' \<subseteq> X''" "distinct (map iv_id is)" "iv_id ` set is \<subseteq> X''"
      "\<And>i. i \<in> set is \<Longrightarrow> iv_tenant_id i = sp_tenant S"
    let ?Y = "tk_id ` set ts \<union> iv_id ` set is"
    have "allowed_call S X'' T ?Y {} (\<lambda>e. create_delegated_tasks e (sp_tenant S) (tn_id turn) l ts is
        (plan_checkpoint messages n ts)) (\<lambda>_. True)"
    proof (rule allowed_step[OF assms(1)])
      fix e s
      assume "X'' \<inter> ids_in s = {}"
      then have "k \<in> ?Y \<Longrightarrow> k \<notin> ids_in s" for k using ts(2) js(1,3) by blast
      then show "store_step (sp_tenant S) s (snd (create_delegated_tasks e (sp_tenant S) (tn_id turn) l ts is
          (plan_checkpoint messages n ts) s))"
        using ts js by (intro step_delegate) (auto simp: new_tasks_def new_invocations_def intro: not_in_ids)
    qed (use ids_create_delegated_tasks in blast)+
    then show "good S X'' T (abind (call (sp_agent S) (\<lambda>e. create_delegated_tasks e (sp_tenant S) (tn_id turn) l ts is
        (plan_checkpoint messages n ts))) (\<lambda>stored. if stored = [] then ret turn
      else abind (observe (sp_agent S) (\<lambda>_. get_turn (sp_tenant S) (tn_id turn))) (\<lambda>refreshed.
           ret (case refreshed of None \<Rightarrow> turn | Some t \<Rightarrow> t)))) (turn_of S)"
      by (rule good_call_bind[OF assms(1), rotated]) (use ts(2) js(1,3) refreshed in auto)
  qed
qed

lemma good_planned_tasks_bind:
  assumes "served S" and "\<And>ts. good S X T (k ts) Q"
  shows "good S X T (abind (amap (planned_task (sp_agent S) turn) raw_ids) k) Q"
  using assms(2)
proof (induction raw_ids arbitrary: k)
  case Nil
  then show ?case by simp
next
  case (Cons r rs)
  have "good S X T (abind (observe (sp_agent S) g) (\<lambda>task. abind (case task of None \<Rightarrow> raise err | Some t \<Rightarrow> ret t)
      (\<lambda>y. abind (amap (planned_task (sp_agent S) turn) rs) (\<lambda>ys. k (y # ys))))) Q" for g err
    by (rule good_observe_bind[OF assms(1), where P = "\<lambda>_. True"])
       (auto split: option.splits intro: good_raise Cons)
  then show ?case unfolding amap_Cons_bind planned_task_def[of _ _ r]
    by (auto split: option.splits simp: good_raise abind_assoc)
qed

lemma good_sibling_provenance: "served S \<Longrightarrow> good S X T (sibling_provenance (sp_agent S) turn) (\<lambda>_. True)"
  unfolding sibling_provenance_def
  by (auto split: json.splits intro!: good_raise good_planned_tasks_bind good_ret)

lemma good_planner_denied_bind:
  assumes "served S" and "turn_of S turn" and "\<And>x. good S X T (f x) Q"
  shows "good S X T (abind (planner_denied (sp_agent S) turn why) f) Q"
  using assms(2) unfolding planner_denied_def turn_of_def
  by (simp add: good_file_event_bind[OF assms(1,3)])

lemma good_ask_planner:
  assumes "served S" and "turn_of S turn"
  shows "good S X T (ask_planner (sp_agent S) turn messages) (\<lambda>_. True)"
  unfolding ask_planner_def
  by (auto split: option.splits error.splits intro!: good_ret good_reading_bind good_handle good_lift
      good_planner_denied_bind[OF assms] good_raise)

definition plan_of :: "setting \<Rightarrow> conversation_turn + model_message list \<Rightarrow> bool" where
  "plan_of S r \<longleftrightarrow> (\<forall>t. r = Inl t \<longrightarrow> turn_of S t)"

lemma good_plan_turn:
  assumes "served S" and "turn_of S turn"
  shows "good S X T (plan_turn (sp_agent S) turn l messages n) (plan_of S)"
proof -
  have delegate: "good S X T (abind (delegate_plan (sp_agent S) turn l messages n plan) (\<lambda>t. ret (Inl t))) (plan_of S)"
    for X T plan
    by (rule good_bind[OF good_delegate_plan[OF assms]]) (auto intro: good_ret simp: plan_of_def)
  have ask: "good S X T (abind (ask_planner (sp_agent S) turn messages) k) (plan_of S)"
    if "\<And>plan. good S {} {} (k plan) (plan_of S)" for k
    by (rule good_bind[OF good_ask_planner[OF assms]]) (rule that)
  have sib: "good S X T (abind (sibling_provenance (sp_agent S) turn) (\<lambda>m. ret (Inr (messages @ [m])))) (plan_of S)"
    by (rule good_bind[OF good_sibling_provenance[OF assms(1)]]) (auto intro: good_ret simp: plan_of_def)
  show ?thesis unfolding plan_turn_def Let_def
    by (auto intro!: sib good_has_available_ara_bind[OF assms(1)] ask good_planner_denied_bind[OF assms]
        delegate good_ret simp: plan_of_def)
qed

section \<open>The loops\<close>

lemma good_offered_tools: "served S \<Longrightarrow> good S X T (offered_tools (sp_agent S) v) (\<lambda>_. True)"
  unfolding offered_tools_def Let_def has_available_host_ara_def
  by (auto intro: good_has_available_ara_bind good_ret)

lemma good_checkpoint_bind:
  assumes "served S" and "turn_of S turn" and "\<And>t. turn_of S t \<Longrightarrow> good S X T (f t) Q"
  shows "good S X T (abind (checkpoint (sp_agent S) turn l messages n calls) f) Q"
proof -
  have u: "tn_tenant_id turn = sp_tenant S" using assms(2) by (simp add: turn_of_def)
  show ?thesis unfolding checkpoint_def u
    by (rule good_plain_call_bind[OF assms(1) step_checkpoint_turn ids_checkpoint_turn, where P = "turn_of S"])
       (auto simp: turn_of_def intro: checkpoint_turn_tenant assms(3)[unfolded turn_of_def])
qed

definition progress_of :: "setting \<Rightarrow> conversation_turn + conversation_turn \<times> model_message list \<Rightarrow> bool" where
  "progress_of S r \<longleftrightarrow> (case r of Inl t \<Rightarrow> turn_of S t | Inr (t, _) \<Rightarrow> turn_of S t)"

lemma paused_progress: "turn_of S t \<Longrightarrow> progress_of S (Inl t)"
  by (simp add: progress_of_def)

lemma good_run_calls:
  assumes "served S"
  shows "turn_of S turn \<Longrightarrow> good S {} {} (run_calls (sp_agent S) l known n calls turn messages) (progress_of S)"
proof (induction calls arbitrary: turn messages)
  case Nil
  then show ?case by (simp add: good_ret progress_of_def)
next
  case (Cons c calls)
  show ?case unfolding run_calls.simps
    by (rule good_bind[OF good_execute_call[OF assms Cons.prems]])
       (auto split: prod.splits option.splits simp: result_of_def
         intro!: good_ret paused_progress good_checkpoint_bind[OF assms Cons.prems] Cons.IH)
qed

lemma good_request_model:
  assumes "served S" and "turn_of S turn"
  shows "good S X T (request_model (sp_agent S) turn messages defs) (\<lambda>_. True)"
proof -
  have u: "tn_tenant_id turn = sp_tenant S" using assms(2) by (simp add: turn_of_def)
  have attempt: "good S X T (handle (lift r) (\<lambda>err. case err of
      ModelProviderError m \<Rightarrow> abind (file_event (sp_agent S) (sp_tenant S) et p) (\<lambda>_. raise (ModelProviderError m))
    | _ \<Rightarrow> raise err)) (\<lambda>_. True)" for X T et p and r :: "error + model_reply"
    by (rule good_handle)
       (auto intro!: good_lift good_file_event_bind[OF assms(1)] good_raise split: error.splits)
  show ?thesis unfolding request_model_def u
    by (rule good_file_event_bind[OF assms(1)], rule good_reading_bind, rule good_effect_bind, rule good_bind[OF attempt])
       (auto split: model_reply.splits intro!: good_raise good_file_event_bind[OF assms(1)] good_ret)
qed

lemma good_finish_turn:
  assumes "served S" and "turn_of S turn"
  shows "good S X T (finish_turn (sp_agent S) turn l content) (turn_of S)"
proof -
  have u: "tn_tenant_id turn = sp_tenant S" using assms(2) by (simp add: turn_of_def)
  show ?thesis unfolding finish_turn_def assistant_message_def abind_assoc u
  proof (rule good_fresh_bind[OF assms(1)], rule good_lift_bind)
    fix e :: env and m
    assume "checked valid_message
      \<lparr>ms_id = gen e 0, ms_tenant_id = sp_tenant S, ms_conversation_id = tn_conversation_id turn,
       ms_role = Role_ASSISTANT, ms_content = content, ms_created_at = clk e 0\<rparr> = Inr m"
    then have m: "ms_id m = gen e 0" by auto
    have "allowed_call S (X \<union> range (gen e)) T {ms_id m} {} (\<lambda>e. complete_turn e (sp_tenant S) (tn_id turn) l m) (turn_of S)"
    proof (rule allowed_step[OF assms(1)])
      fix e' s
      assume "(X \<union> range (gen e)) \<inter> ids_in s = {}"
      then have "ms_id m \<notin> ids_in s" using m by blast
      then show "store_step (sp_tenant S) s (snd (complete_turn e' (sp_tenant S) (tn_id turn) l m s))"
        by (intro step_complete_turn not_in_ids)
    qed (use ids_complete_turn complete_turn_tenant in \<open>auto simp: turn_of_def\<close>)
    then show "good S (X \<union> range (gen e)) T
        (call (sp_agent S) (\<lambda>e. complete_turn e (sp_tenant S) (tn_id turn) l m)) (turn_of S)"
      by (rule good_call[OF assms(1), rotated]) (simp add: m)
  qed
qed

lemma good_model_loop:
  assumes "served S"
  shows "turn_of S turn \<Longrightarrow> good S {} {} (model_loop (sp_agent S) l defs n turn messages) (turn_of S)"
proof (induction "nat (oc_max_tool_iterations (sp_agent S) - n)" arbitrary: n turn messages rule: less_induct)
  case less
  show ?case
  proof (cases "n < oc_max_tool_iterations (sp_agent S)")
    case False
    then show ?thesis by (subst model_loop.simps) (simp add: good_finish_turn[OF assms less.prems])
  next
    case True
    then have smaller: "nat (oc_max_tool_iterations (sp_agent S) - (n + 1)) < nat (oc_max_tool_iterations (sp_agent S) - n)"
      by simp
    have calls: "good S {} {} (abind (run_calls (sp_agent S) l known (n + 1) cs turn1 ms)
        (\<lambda>progress. case progress of Inl paused \<Rightarrow> ret paused
         | Inr (turn2, messages2) \<Rightarrow> model_loop (sp_agent S) l defs (n + 1) turn2 messages2)) (turn_of S)"
      if "turn_of S turn1" for known cs turn1 ms
      by (rule good_bind[OF good_run_calls[OF assms that]])
         (auto simp: progress_of_def split: sum.splits intro: good_ret less.hyps[OF smaller])
    show ?thesis
      by (subst model_loop.simps, simp only: True if_True, rule good_bind[OF good_request_model[OF assms less.prems]])
         (auto simp: Let_def split del: if_split split: if_split
           intro!: good_finish_turn[OF assms less.prems] good_checkpoint_bind[OF assms less.prems] calls)
  qed
qed

lemma good_messages_for_turn:
  assumes "served S" and "turn_of S turn"
  shows "good S X T (messages_for_turn (sp_agent S) turn) (\<lambda>_. True)"
proof -
  have u: "tn_tenant_id turn = sp_tenant S" using assms(2) by (simp add: turn_of_def)
  have guidance: "good S X T (ara_guidance (sp_agent S) v) (\<lambda>_. True)" for X T v
    unfolding ara_guidance_def has_available_host_ara_def
    by (auto intro: good_has_available_ara_bind[OF assms(1)] good_ret)
  show ?thesis unfolding messages_for_turn_def u
    by (auto split: option.splits intro!: good_lift good_observe_or_raise_bind[OF assms(1)] good_raise
        good_reading_bind good_bind[OF guidance] good_file_event_bind[OF assms(1)] good_ret)
qed

lemma good_run_turn:
  assumes "served S" and "turn_of S turn"
  shows "good S X T (run_turn (sp_agent S) turn l) (turn_of S)"
proof -
  have calls: "good S {} {} (abind (run_calls (sp_agent S) l known n cs turn ms)
      (\<lambda>progress. case progress of Inl paused \<Rightarrow> ret paused
       | Inr (turn1, messages2) \<Rightarrow> model_loop (sp_agent S) l defs n turn1 messages2)) (turn_of S)"
    for known n cs ms defs
    by (rule good_bind[OF good_run_calls[OF assms]])
       (auto simp: progress_of_def split: sum.splits intro: good_ret good_model_loop[OF assms(1)])
  have tools: "good S {} {} (abind (offered_tools (sp_agent S) v) (\<lambda>defs.
      abind (run_calls (sp_agent S) l (set (map td_name defs)) n cs turn ms)
      (\<lambda>progress. case progress of Inl paused \<Rightarrow> ret paused
       | Inr (turn1, messages2) \<Rightarrow> model_loop (sp_agent S) l defs n turn1 messages2))) (turn_of S)" for v n cs ms
    by (rule good_bind[OF good_offered_tools[OF assms(1)]]) (rule calls)
  have plan: "good S {} {} (abind (plan_turn (sp_agent S) turn l messages n) (\<lambda>planned. case planned of
      Inl t \<Rightarrow> ret t
    | Inr messages1 \<Rightarrow> abind (offered_tools (sp_agent S) (tn_tenant_id turn)) (\<lambda>defs.
      abind (run_calls (sp_agent S) l (set (map td_name defs)) n cs turn messages1)
      (\<lambda>progress. case progress of Inl paused \<Rightarrow> ret paused
       | Inr (turn1, messages2) \<Rightarrow> model_loop (sp_agent S) l defs n turn1 messages2)))) (turn_of S)" for messages n cs
  proof (rule good_bind[OF good_plan_turn[OF assms]])
    fix planned
    assume "plan_of S planned"
    then show "good S {} {} (case planned of
        Inl t \<Rightarrow> ret t
      | Inr messages1 \<Rightarrow> abind (offered_tools (sp_agent S) (tn_tenant_id turn)) (\<lambda>defs.
        abind (run_calls (sp_agent S) l (set (map td_name defs)) n cs turn messages1)
        (\<lambda>progress. case progress of Inl paused \<Rightarrow> ret paused
         | Inr (turn1, messages2) \<Rightarrow> model_loop (sp_agent S) l defs n turn1 messages2))) (turn_of S)"
      using tools by (cases planned) (simp_all add: plan_of_def good_ret)
  qed
  show ?thesis unfolding run_turn_def
    by (rule good_bind[OF good_messages_for_turn[OF assms]]) (clarify, rule plan)
qed

section \<open>Streaming, starting and claiming\<close>

lemma good_stream_events: "good S X T (stream_events evs) (\<lambda>_. True)"
  by (induction evs arbitrary: X T) (auto intro: good_ret good_effect_bind)

lemma good_stream_request: "good S X T (stream_request streamer messages defs) (\<lambda>_. True)"
  unfolding stream_request_def
  by (auto split: prod.splits option.splits intro!: good_reading_bind good_effect_bind
      good_bind[OF good_stream_events] good_raise good_ret)

lemma good_stream_calls:
  assumes "served S" and "turn_of S turn"
  shows "good S {} {} (stream_calls (sp_agent S) turn l known calls messages) (\<lambda>_. True)"
proof (induction calls arbitrary: messages)
  case Nil
  then show ?case by (simp add: good_ret)
next
  case (Cons c calls)
  show ?case unfolding stream_calls.simps
    by (rule good_bind[OF good_execute_call[OF assms]])
       (auto split: prod.splits option.splits intro!: good_ret Cons.IH)
qed

lemma good_stream_loop:
  assumes "served S" and "turn_of S turn"
  shows "good S {} {} (stream_loop (sp_agent S) streamer turn l defs n messages) (\<lambda>_. True)"
proof (induction "nat (oc_max_tool_iterations (sp_agent S) - n)" arbitrary: n messages rule: less_induct)
  case less
  have finish: "good S {} {} (abind (finish_turn (sp_agent S) turn l content) (\<lambda>_. ret ())) (\<lambda>_. True)" for content
    by (rule good_bind[OF good_finish_turn[OF assms]]) (auto intro: good_ret)
  show ?case
  proof (cases "n < oc_max_tool_iterations (sp_agent S)")
    case False
    then show ?thesis by (subst stream_loop.simps) (simp add: finish)
  next
    case True
    then have smaller: "nat (oc_max_tool_iterations (sp_agent S) - (n + 1)) < nat (oc_max_tool_iterations (sp_agent S) - n)"
      by simp
    have calls: "good S {} {} (abind (stream_calls (sp_agent S) turn l known cs ms)
        (\<lambda>progress. case progress of None \<Rightarrow> ret ()
         | Some messages1 \<Rightarrow> stream_loop (sp_agent S) streamer turn l defs (n + 1) messages1)) (\<lambda>_. True)"
      for known cs ms
      by (rule good_bind[OF good_stream_calls[OF assms]])
         (auto split: option.splits intro: good_ret less.hyps[OF smaller])
    show ?thesis using True
      by (subst stream_loop.simps)
         (auto intro!: good_bind[OF good_stream_request] finish calls)
  qed
qed

lemma good_stream_turn:
  assumes "served S" and "turn_of S turn"
  shows "good S X T (stream_turn (sp_agent S) turn l) (\<lambda>_. True)"
proof -
  have u: "tn_tenant_id turn = sp_tenant S" using assms(2) by (simp add: turn_of_def)
  have loop: "good S {} {} (handle (stream_loop (sp_agent S) streamer turn l defs n messages)
      (\<lambda>err. case err of
         ModelProviderError m \<Rightarrow> abind (file_event (sp_agent S) (sp_tenant S) et p) (\<lambda>_. raise (ModelProviderError m))
       | _ \<Rightarrow> raise err)) (\<lambda>_. True)" for streamer defs n messages et p
    by (rule good_handle[OF good_stream_loop[OF assms]])
       (auto split: error.splits intro!: good_file_event_bind[OF assms(1)] good_raise)
  have tools: "good S {} {} (abind (offered_tools (sp_agent S) v) k) (\<lambda>_. True)"
    if "\<And>defs. good S {} {} (k defs) (\<lambda>_. True)" for v k
    by (rule good_bind[OF good_offered_tools[OF assms(1)]]) (rule that)
  show ?thesis unfolding stream_turn_def u
    by (rule good_bind[OF good_messages_for_turn[OF assms]])
       (auto split: prod.splits option.splits intro!: tools good_raise loop)
qed

lemma create_turn_tenant:
  assumes "fst (create_turn m t evs j s) = Inr x"
  shows "tn_tenant_id x = tn_tenant_id t"
  using assms by (auto simp: create_turn_def find_Some_iff Let_def split: option.splits if_splits)

lemma list_messages_tenant: "list_messages u k n s = Inr ms \<Longrightarrow> m \<in> set ms \<Longrightarrow> ms_tenant_id m = u"
  by (auto simp: list_messages_def slice_from_def split: option.splits if_splits dest: in_set_dropD)

text \<open>The message and the turn that a start returns belong to the tenant.\<close>

definition started_for :: "setting \<Rightarrow> conversation_message \<times> conversation_turn \<Rightarrow> bool" where
  "started_for S r \<longleftrightarrow> ms_tenant_id (fst r) = sp_tenant S \<and> tn_tenant_id (snd r) = sp_tenant S"

lemma good_start_turn:
  assumes "served S"
  shows "good S X T (start_turn (sp_agent S) (sp_tenant S) user conv client content) (started_for S)"
  unfolding start_turn_def Let_def
proof (rule good_fresh_bind[OF assms], rule good_lift_bind)
  fix e :: env and m :: conversation_message
  let ?t = "\<lparr>tn_id = gen e 1, tn_tenant_id = sp_tenant S, tn_conversation_id = conv,
            tn_user_message_id = ms_id m, tn_client_request_id = client,
            tn_state = Turn_PENDING, tn_checkpoint = [], tn_run_lease_id = None,
            tn_run_lease_expires_at = None, tn_created_at = clk e 1, tn_updated_at = clk e 2,
            tn_completed_at = None\<rparr>"
  let ?r = "AuditEvent e 0 (sp_tenant S) CONVERSATION_RECEIVED Actor_USER (Some user) None
           [(''conversation_id'', JId conv), (''message_id'', JId (ms_id m))]"
  let ?c = "AuditEvent e 1 (sp_tenant S) CONVERSATION_TURN_CREATED Actor_COORDINATOR None None
           [(''turn_id'', JId (tn_id ?t))]"
  let ?j = "\<lparr>jb_id = gen e 2, jb_tenant_id = sp_tenant S, jb_kind = Job_MEMORY_EXTRACTION,
            jb_source_id = ms_id m,
            jb_payload = [(''source_event_id'', JId (ev_id ?r)), (''content'', JStr content)],
            jb_state = Job_PENDING, jb_attempt_count = 0, jb_max_attempts = 8, jb_available_at = clk e 3,
            jb_lease_id = None, jb_lease_expires_at = None, jb_last_error = None,
            jb_created_at = clk e 4, jb_updated_at = clk e 5, jb_completed_at = None\<rparr>"
  assume "checked valid_message
      \<lparr>ms_id = gen e 0, ms_tenant_id = sp_tenant S, ms_conversation_id = conv,
       ms_role = Role_USER, ms_content = content, ms_created_at = clk e 0\<rparr> = Inr m"
  then have m: "ms_id m = gen e 0" "ms_tenant_id m = sp_tenant S" by auto
  have "allowed_call S (X \<union> range (gen e)) T {ms_id m, tn_id ?t, jb_id ?j} {} (\<lambda>_. create_turn m ?t [?r, ?c] ?j)
      (\<lambda>t. tn_tenant_id t = sp_tenant S)"
  proof (rule allowed_step[OF assms])
    fix s
    assume "(X \<union> range (gen e)) \<inter> ids_in s = {}"
    then have "gen e i \<notin> ids_in s" for i by blast
    then show "store_step (sp_tenant S) s (snd (create_turn m ?t [?r, ?c] ?j s))"
      using m not_in_ids by (intro step_create_turn) (auto simp: turn_new_def job_new_def valid_job_def)
  next
    fix s
    assume "store_ok s"
    then show "ids_in (snd (create_turn m ?t [?r, ?c] ?j s)) \<subseteq> ids_in s \<union> {ms_id m, tn_id ?t, jb_id ?j}"
      by (rule ids_create_turn)
  qed (auto dest: create_turn_tenant)
  note allowed = this
  have reread: "good S Y T' (abind (observe_or_raise (sp_agent S)
          (\<lambda>_. list_messages (sp_tenant S) conv (oc_history_limit (sp_agent S)))) (\<lambda>messages.
        case find (\<lambda>m. ms_id m = tn_user_message_id created) messages of
          None \<Rightarrow> raise (LifecycleConflictError ''turn user message is unavailable'')
        | Some existing \<Rightarrow> ret (existing, created))) (started_for S)"
    if "tn_tenant_id created = sp_tenant S" for Y T' created
    unfolding observe_or_raise_def
    by (rule good_call_bind[OF assms, where Y = "{}" and T' = "{}" and P = "\<lambda>ms. \<forall>m \<in> set ms. ms_tenant_id m = sp_tenant S"])
       (auto simp: started_for_def that find_Some_iff split: option.splits intro!: allowed_read good_raise good_ret
         dest: list_messages_tenant)
  show "good S (X \<union> range (gen e)) T (abind (call (sp_agent S) (\<lambda>_. create_turn m ?t [?r, ?c] ?j)) (\<lambda>created.
     if tn_id created \<noteq> tn_id ?t
     then abind (observe_or_raise (sp_agent S) (\<lambda>_. list_messages (sp_tenant S) conv (oc_history_limit (sp_agent S)))) (\<lambda>messages.
          case find (\<lambda>m. ms_id m = tn_user_message_id created) messages of
            None \<Rightarrow> raise (LifecycleConflictError ''turn user message is unavailable'')
          | Some existing \<Rightarrow> ret (existing, created))
     else ret (m, created))) (started_for S)"
    by (rule good_call_bind[OF assms _ allowed]) (auto simp: m started_for_def intro!: good_ret reread)
qed

lemma good_advance_one:
  assumes "served S"
  shows "good S X T (advance_one (sp_agent S) (sp_tenant S)) (\<lambda>_. True)"
proof -
  have run: "good S X' T (abind (run_turn (sp_agent S) turn l) (\<lambda>t. ret (Some t))) (\<lambda>_. True)"
    if "turn_of S turn" for X' turn l
    by (rule good_bind[OF good_run_turn[OF assms that]]) (auto intro: good_ret)
  show ?thesis unfolding advance_one_def
    by (rule good_fresh_bind[OF assms], rule good_plain_call_bind[OF assms step_claim_pending_turn ids_claim_pending_turn,
          where P = "\<lambda>x. \<forall>t. x = Some t \<longrightarrow> turn_of S t"])
       (auto simp: turn_of_def split: option.splits intro: claim_pending_turn_tenant good_ret
         run[unfolded turn_of_def])
qed

end
