(* ===== verification/Messages.thy ===== *)
theory Messages
  imports Domain
begin

text \<open>
  The bodies of the requests, \<^verbatim>\<open>packages/protocol/src/astra_protocol/messages.py\<close> and the two models
  \<^verbatim>\<open>app.py\<close> adds, with the bounds of their fields as \<open>valid_...\<close> predicates. The messages an agent sends
  about a task it has leased extend \<open>lease_bound\<close>, as the classes extend \<^verbatim>\<open>LeaseBoundRequest\<close>.
\<close>

definition int_between :: "int \<Rightarrow> int \<Rightarrow> int \<Rightarrow> bool" where
  "int_between lo hi n \<longleftrightarrow> lo \<le> n \<and> n \<le> hi"

section \<open>Messages of remote agents\<close>

record register_request =
  rr_tenant_id :: uuid
  rr_name :: string
  rr_capabilities :: "capability list"
  rr_runtime_version :: string

definition valid_register_request :: "register_request \<Rightarrow> bool" where
  "valid_register_request r \<longleftrightarrow>
     str_between 1 200 (rr_name r) \<and> str_between 1 100 (rr_runtime_version r) \<and>
     list_all valid_capability (rr_capabilities r)"

record lease_request =
  lq_tenant_id :: uuid
  lq_ara_id :: uuid
  lq_duration_seconds :: int

definition valid_lease_request :: "lease_request \<Rightarrow> bool" where
  "valid_lease_request r \<longleftrightarrow> int_between 10 900 (lq_duration_seconds r)"

record lease_bound =
  lb_tenant_id :: uuid
  lb_ara_id :: uuid
  lb_task_id :: uuid
  lb_lease_id :: uuid

record ara_event_request = lease_bound +
  er_message :: string
  er_progress_percent :: "int option"

definition valid_ara_event_request :: "ara_event_request \<Rightarrow> bool" where
  "valid_ara_event_request r \<longleftrightarrow>
     str_between 1 5000 (er_message r) \<and> pred_option (int_between 0 100) (er_progress_percent r)"

record renew_lease_request = lease_bound +
  nr_duration_seconds :: int

definition valid_renew_lease_request :: "renew_lease_request \<Rightarrow> bool" where
  "valid_renew_lease_request r \<longleftrightarrow> int_between 10 900 (nr_duration_seconds r)"

record complete_task_request = lease_bound +
  cr_result :: string
  cr_artifacts :: "artifact list"

definition valid_complete_task_request :: "complete_task_request \<Rightarrow> bool" where
  "valid_complete_task_request r \<longleftrightarrow>
     str_between 1 50000 (cr_result r) \<and> list_all valid_artifact (cr_artifacts r)"

record cancel_task_request = lease_bound +
  kr_reason :: string

definition valid_cancel_task_request :: "cancel_task_request \<Rightarrow> bool" where
  "valid_cancel_task_request r \<longleftrightarrow> str_between 1 2000 (kr_reason r)"

record fail_task_request = lease_bound +
  fr_error :: string

definition valid_fail_task_request :: "fail_task_request \<Rightarrow> bool" where
  "valid_fail_task_request r \<longleftrightarrow> str_between 1 4000 (fr_error r)"

record approval_request = lease_bound +
  ar_capability :: capability
  ar_reason :: string

definition valid_approval_request :: "approval_request \<Rightarrow> bool" where
  "valid_approval_request r \<longleftrightarrow> valid_capability (ar_capability r) \<and> str_between 1 2000 (ar_reason r)"

record artifact_upload_request = lease_bound +
  ur_name :: string
  ur_media_type :: string
  ur_sha256 :: string

definition valid_artifact_upload_request :: "artifact_upload_request \<Rightarrow> bool" where
  "valid_artifact_upload_request r \<longleftrightarrow>
     str_between 1 500 (ur_name r) \<and> str_between 1 200 (ur_media_type r) \<and> is_sha256_hex (ur_sha256 r)"

record heartbeat_request =
  hr_tenant_id :: uuid
  hr_ara_id :: uuid
  hr_task_id :: "uuid option"
  hr_lease_id :: "uuid option"

record heartbeat_response =
  hs_task_state :: "task_state option"
  hs_cancellation_requested :: bool

record task_lifecycle_response =
  ts_task_id :: uuid
  ts_state :: task_state

section \<open>Messages of users\<close>

record approval_decision_request =
  dr_tenant_id :: uuid
  dr_granted :: bool

record create_conversation_request =
  nc_tenant_id :: uuid
  nc_title :: string

definition valid_create_conversation_request :: "create_conversation_request \<Rightarrow> bool" where
  "valid_create_conversation_request r \<longleftrightarrow> str_between 1 200 (nc_title r)"

record send_message_request =
  sm_tenant_id :: uuid
  sm_client_request_id :: uuid
  sm_content :: string

definition valid_send_message_request :: "send_message_request \<Rightarrow> bool" where
  "valid_send_message_request r \<longleftrightarrow> str_between 1 50000 (sm_content r)"

record memory_review_request =
  vr_tenant_id :: uuid
  vr_promote :: bool
  vr_replaces_memory_id :: "uuid option"

record memory_pin_request =
  pr_tenant_id :: uuid
  pr_pinned :: bool

record persona_update_request =
  pu_tenant_id :: uuid
  pu_authored_core :: persona_core

record persona_revert_request =
  pv_tenant_id :: uuid
  pv_version :: int

definition valid_persona_revert_request :: "persona_revert_request \<Rightarrow> bool" where
  "valid_persona_revert_request r \<longleftrightarrow> 1 \<le> pv_version r"

record migration_persona_request =
  mp_tenant_id :: uuid
  mp_authored_core :: persona_core

record trust_request =
  tr_trust_level :: int

definition valid_trust_request :: "trust_request \<Rightarrow> bool" where
  "valid_trust_request r \<longleftrightarrow> int_between 0 100 (tr_trust_level r)"

section \<open>What the answers hold\<close>

text \<open>\<^verbatim>\<open>ArtifactMetadataResponse\<close> and \<^verbatim>\<open>ArtifactDownloadResponse\<close>: an artifact without its tenant and its key.\<close>

record artifact_metadata =
  am_id :: uuid
  am_task_id :: uuid
  am_name :: string
  am_media_type :: string
  am_size_bytes :: int
  am_sha256 :: string
  am_created_at :: datetime
  am_retention_until :: "datetime option"

definition artifact_metadata_of :: "artifact \<Rightarrow> artifact_metadata" where
  "artifact_metadata_of a =
     \<lparr>am_id = af_id a, am_task_id = af_task_id a, am_name = af_name a, am_media_type = af_media_type a,
      am_size_bytes = af_size_bytes a, am_sha256 = af_sha256 a, am_created_at = af_created_at a,
      am_retention_until = af_retention_until a\<rparr>"

record artifact_download =
  ad_id :: uuid
  ad_task_id :: uuid
  ad_name :: string
  ad_media_type :: string
  ad_size_bytes :: int
  ad_sha256 :: string
  ad_created_at :: datetime
  ad_download_url :: string
  ad_expires_in_seconds :: int

text \<open>
  \<^verbatim>\<open>RemoteAgent(id=..., **body.model_dump())\<close>: the other fields have their defaults, the clock is read
  for each of the two instants. \<^verbatim>\<open>remote_agent_from_registration\<close> draws the identifier.
\<close>

definition agent_from_registration :: "uuid \<Rightarrow> datetime \<Rightarrow> datetime \<Rightarrow> register_request \<Rightarrow> remote_agent" where
  "agent_from_registration i registered_at last_seen_at r =
     \<lparr>ra_id = i, ra_tenant_id = rr_tenant_id r, ra_name = rr_name r, ra_capabilities = rr_capabilities r,
      ra_runtime_version = rr_runtime_version r, ra_status = Ara_ACTIVE, ra_trust_level = 1,
      ra_registered_at = registered_at, ra_last_seen_at = last_seen_at\<rparr>"

end
