(* ===== verification/Identity.thy ===== *)
theory Identity
  imports Uuid Pipeline Tools
begin

text \<open>
  Who sent a request, \<^verbatim>\<open>apps/astra-agent-api/src/astra_agent/auth.py\<close>: remote agents by the headers of the
  ingress that checked their certificate, users by development headers or by a bearer token of the OpenID
  provider. A function from names to values stands for the headers of a request. The decoding and checking
  of tokens and keys (\<^verbatim>\<open>jwt\<close>), the transport (\<^verbatim>\<open>httpx\<close>) and \<^verbatim>\<open>uuid5\<close> are parameters.
\<close>

type_synonym headers = "string \<Rightarrow> string option"

record ara_principal =
  apr_tenant_id :: uuid
  apr_ara_id :: uuid

record user_principal =
  upr_tenant_id :: uuid
  upr_user_id :: uuid
  upr_subject :: string
  upr_roles :: "string set"

definition unauthorized :: "string \<Rightarrow> error" where
  "unauthorized detail = HTTPException 401 detail"

section \<open>Remote agents\<close>

definition development_ara_principal :: "uuid option \<Rightarrow> uuid option \<Rightarrow> error + ara_principal" where
  "development_ara_principal tenant_id ara_id =
     (case (tenant_id, ara_id) of
        (Some t, Some a) \<Rightarrow> Inr \<lparr>apr_tenant_id = t, apr_ara_id = a\<rparr>
      | _ \<Rightarrow> Inl (unauthorized ''development ARA identity headers are required''))"

text \<open>\<^verbatim>\<open>UUID(request.headers[name])\<close> with its two exceptions.\<close>

definition uuid_header :: "headers \<Rightarrow> string \<Rightarrow> error + uuid" where
  "uuid_header h name =
     (case h name of
        None \<Rightarrow> Inl KeyError
      | Some text \<Rightarrow>
          (case parse_uuid text of
             None \<Rightarrow> Inl (ValueError ''badly formed hexadecimal UUID string'')
           | Some u \<Rightarrow> Inr u))"

definition trusted_mtls_ara_principal :: "string option \<Rightarrow> headers \<Rightarrow> error + ara_principal" where
  "trusted_mtls_ara_principal expected_secret h =
     (if expected_secret \<in> {None, Some []} \<or> h ''X-Astra-Proxy-Secret'' \<noteq> expected_secret
      then Inl (unauthorized ''untrusted mTLS ingress'')
      else if h ''X-Client-Verify'' \<noteq> Some ''SUCCESS''
      then Inl (unauthorized ''client certificate was not verified'')
      else case ebind (uuid_header h ''X-Astra-Cert-Tenant-ID'') (\<lambda>t.
                  ebind (uuid_header h ''X-Astra-Cert-ARA-ID'') (\<lambda>a.
                  Inr \<lparr>apr_tenant_id = t, apr_ara_id = a\<rparr>)) of
             Inr p \<Rightarrow> Inr p
           | Inl _ \<Rightarrow> Inl (unauthorized ''invalid certificate identity''))"

section \<open>Users by development headers\<close>

definition development_user :: "uuid \<Rightarrow> uuid \<Rightarrow> user_principal" where
  "development_user tenant_id user_id =
     \<lparr>upr_tenant_id = tenant_id, upr_user_id = user_id, upr_subject = uuid_text user_id,
      upr_roles = {''platform_operator''}\<rparr>"

definition development_user_principal :: "uuid option \<Rightarrow> uuid option \<Rightarrow> error + user_principal" where
  "development_user_principal tenant_id user_id =
     (case (tenant_id, user_id) of
        (Some t, Some u) \<Rightarrow> Inr (development_user t u)
      | _ \<Rightarrow> Inl (unauthorized ''development user headers are required''))"

definition development_authenticate :: "headers \<Rightarrow> error + user_principal" where
  "development_authenticate h =
     (case ebind (uuid_header h ''X-Astra-Tenant-ID'') (\<lambda>t.
             ebind (uuid_header h ''X-Astra-User-ID'') (\<lambda>u. Inr (development_user t u))) of
        Inr p \<Rightarrow> Inr p
      | Inl _ \<Rightarrow> Inl (unauthorized ''development user headers are required''))"

section \<open>Users by bearer token\<close>

text \<open>A signing key, \<^verbatim>\<open>PyJWK\<close>: its algorithm and what verifies a signature.\<close>

record jwk =
  jwk_algorithm_name :: string
  jwk_key :: nat

record oidc =
  od_issuer :: string
  od_audience :: string
  od_tenant_claim :: string
  od_cache_seconds :: int
  od_keys :: "(string, jwk) dict"
  od_cache_expires_at :: rat

text \<open>
  What a request reads: the \<open>n\<close>-th reading of the monotonic clock, the answer to the \<open>n\<close>-th request for the
  key set (its status and JSON body, or the exception of the transport or of the parser), \<^verbatim>\<open>PyJWK.from_dict\<close>, \<^verbatim>\<open>jwt.get_unverified_header\<close>, \<^verbatim>\<open>jwt.decode\<close> with
  key, algorithm, issuer, audience and required claims, and \<^verbatim>\<open>uuid5(NAMESPACE_URL, text)\<close>.
\<close>

record oidc_env =
  oe_monotonic :: "nat \<Rightarrow> rat"
  oe_get :: "nat \<Rightarrow> error + (int \<times> json)"
  oe_jwk :: "json \<Rightarrow> error + jwk"
  oe_header :: "string \<Rightarrow> error + (string, json) dict"
  oe_decode :: "string \<Rightarrow> nat \<Rightarrow> string \<Rightarrow> string \<Rightarrow> string \<Rightarrow> string list \<Rightarrow> error + (string, json) dict"
  oe_uuid5 :: "string \<Rightarrow> uuid"

text \<open>\<^verbatim>\<open>OIDCUserAuthenticator.__init__\<close>: the three settings are required, a final slash of the issuer goes.\<close>

definition oidc_init ::
  "string option \<Rightarrow> string option \<Rightarrow> string option \<Rightarrow> string \<Rightarrow> int \<Rightarrow> error + oidc" where
  "oidc_init issuer audience jwks_url tenant_claim cache_seconds =
     (case (issuer, audience, jwks_url) of
        (Some (i # is), Some (a # as), Some (u # us)) \<Rightarrow>
          Inr \<lparr>od_issuer = rstrip_chars ''/'' (i # is), od_audience = a # as, od_tenant_claim = tenant_claim,
               od_cache_seconds = cache_seconds, od_keys = [], od_cache_expires_at = 0\<rparr>
      | _ \<Rightarrow> Inl (RuntimeError ''ASTRA_OIDC_ISSUER, ASTRA_OIDC_AUDIENCE, and ASTRA_OIDC_JWKS_URL are required''))"

definition signing_algorithms :: "string set" where
  "signing_algorithms = {''RS256'', ''ES256''}"

text \<open>
  The comprehension over the key set; of two keys with one id the later stays. A list or a dictionary is
  not hashable, so asking whether it is one of the algorithms raises.
\<close>

definition signing_item :: "json \<Rightarrow> error + string option" where
  "signing_item item = (case item of
     JObj kvs \<Rightarrow>
       (case json_text (get_or JNull kvs ''kid'') of
          None \<Rightarrow> Inr None
        | Some kid \<Rightarrow>
            if json_text (get_or (JStr ''sig'') kvs ''use'') \<noteq> Some ''sig'' then Inr None
            else (case get_or JNull kvs ''alg'' of
                    JList _ \<Rightarrow> Inl (TypeError ''unhashable type'')
                  | JObj _ \<Rightarrow> Inl (TypeError ''unhashable type'')
                  | alg \<Rightarrow> Inr (if json_text alg \<in> Some ` signing_algorithms then Some kid else None)))
   | _ \<Rightarrow> Inr None)"

fun parse_keys :: "(json \<Rightarrow> error + jwk) \<Rightarrow> json list \<Rightarrow> (string, jwk) dict \<Rightarrow> error + (string, jwk) dict" where
  "parse_keys from_dict [] keys = Inr keys"
| "parse_keys from_dict (item # items) keys =
     ebind (signing_item item) (\<lambda>signing.
     case signing of
       None \<Rightarrow> parse_keys from_dict items keys
     | Some kid \<Rightarrow>
         ebind (from_dict item) (\<lambda>key. parse_keys from_dict items (AList.update kid key keys)))"

definition fetch_keys :: "oidc_env \<Rightarrow> nat \<Rightarrow> error + (string, jwk) dict" where
  "fetch_keys E n =
     ebind (oe_get E n) (\<lambda>response.
     ebind (raise_for_status response) (\<lambda>payload.
     ebind (json_get payload ''keys'' (JList [])) (\<lambda>listed.
     ebind (json_items listed) (\<lambda>items. parse_keys (oe_jwk E) items []))))"

text \<open>\<^verbatim>\<open>except (httpx.HTTPError, ValueError, KeyError)\<close>.\<close>

fun key_fetch_error :: "error \<Rightarrow> bool" where
  "key_fetch_error TransportError = True"
| "key_fetch_error HTTPStatusError = True"
| "key_fetch_error (ValueError _) = True"
| "key_fetch_error KeyError = True"
| "key_fetch_error _ = False"

definition keys_unavailable :: error where
  "keys_unavailable = HTTPException 503 ''OIDC signing keys unavailable''"

text \<open>\<^verbatim>\<open>_refresh_keys\<close>, the \<open>n\<close>-th of the request.\<close>

definition refresh_keys :: "oidc_env \<Rightarrow> nat \<Rightarrow> oidc \<Rightarrow> (unit, oidc) outcome" where
  "refresh_keys E n c =
     (if od_keys c \<noteq> [] \<and> oe_monotonic E (3 * n + 1) < od_cache_expires_at c then (Inr (), c)
      else case fetch_keys E n of
        Inl err \<Rightarrow> (Inl (if key_fetch_error err then keys_unavailable else err), c)
      | Inr keys \<Rightarrow>
          if keys = [] then (Inl keys_unavailable, c)
          else (Inr (), c\<lparr>od_keys := keys,
                  od_cache_expires_at := oe_monotonic E (3 * n + 2) + of_int (od_cache_seconds c)\<rparr>))"

text \<open>\<^verbatim>\<open>authorization.partition(" ")\<close>: the text before the first blank and the text after it.\<close>

definition partition_blank :: "string \<Rightarrow> string \<times> string" where
  "partition_blank s = (let scheme = takeWhile (\<lambda>c. c \<noteq> CHR '' '') s in
     (scheme, drop (Suc (length scheme)) s))"

definition is_bearer :: "string \<Rightarrow> bool" where
  "is_bearer scheme \<longleftrightarrow> casefold scheme = ''bearer''"

text \<open>The key for a token: a refresh when it is not cached, and a second one when it is still unknown.\<close>

definition find_key :: "oidc_env \<Rightarrow> string \<Rightarrow> oidc \<Rightarrow> (jwk option, oidc) outcome" where
  "find_key E kid c =
     (case (if map_of (od_keys c) kid = None \<or> od_cache_expires_at c \<le> oe_monotonic E 0
            then refresh_keys E 0 c else (Inr (), c)) of
        (Inl err, c1) \<Rightarrow> (Inl err, c1)
      | (Inr _, c1) \<Rightarrow>
          (case map_of (od_keys c1) kid of
             Some key \<Rightarrow> (Inr (Some key), c1)
           | None \<Rightarrow>
               (case refresh_keys E 1 (c1\<lparr>od_cache_expires_at := 0\<rparr>) of
                  (Inl err, c2) \<Rightarrow> (Inl err, c2)
                | (Inr _, c2) \<Rightarrow> (Inr (map_of (od_keys c2) kid), c2))))"

definition role_list :: "(string, json) dict \<Rightarrow> json" where
  "role_list claims = (case get_or (JObj []) claims ''realm_access'' of
     JObj kvs \<Rightarrow> get_or (JList []) kvs ''roles'' | _ \<Rightarrow> JList [])"

text \<open>What is read from the claims of a token that was decoded.\<close>

definition principal_of_claims :: "oidc_env \<Rightarrow> oidc \<Rightarrow> (string, json) dict \<Rightarrow> error + user_principal" where
  "principal_of_claims E c claims =
     (case (map_of claims ''sub'', map_of claims (od_tenant_claim c)) of
        (Some subject, Some tenant) \<Rightarrow>
          (case json_text tenant of
             None \<Rightarrow> Inl (if tenant = JNull then TypeError ''one of the arguments must be given'' else AttributeError)
           | Some text \<Rightarrow>
               (case parse_uuid text of
                  None \<Rightarrow> Inl (ValueError ''badly formed hexadecimal UUID string'')
                | Some tenant_id \<Rightarrow>
                    (case json_text subject of
                       Some (x # xs) \<Rightarrow>
                         (case role_list claims of
                            JList items \<Rightarrow>
                              (case those (map json_text items) of
                                 Some roles \<Rightarrow>
                                   Inr \<lparr>upr_tenant_id = tenant_id,
                                        upr_user_id = oe_uuid5 E (od_issuer c @ '':'' @ x # xs),
                                        upr_subject = x # xs, upr_roles = set roles\<rparr>
                               | None \<Rightarrow> Inl (InvalidTokenError ''invalid role claims''))
                          | _ \<Rightarrow> Inl (InvalidTokenError ''invalid role claims''))
                     | _ \<Rightarrow> Inl (InvalidTokenError ''invalid subject''))))
      | _ \<Rightarrow> Inl KeyError)"

definition verify_token :: "oidc_env \<Rightarrow> oidc \<Rightarrow> string \<Rightarrow> jwk option \<Rightarrow> error + user_principal" where
  "verify_token E c token key =
     (case key of
        None \<Rightarrow> Inl (InvalidTokenError ''unsupported signing key'')
      | Some k \<Rightarrow>
          if jwk_algorithm_name k \<notin> signing_algorithms
          then Inl (InvalidTokenError ''unsupported signing key'')
          else ebind (oe_decode E token (jwk_key k) (jwk_algorithm_name k) (od_issuer c) (od_audience c)
                        [''exp'', ''iss'', ''aud'', ''sub'', od_tenant_claim c])
                 (principal_of_claims E c))"

text \<open>\<^verbatim>\<open>except (InvalidTokenError, KeyError, TypeError, ValueError)\<close>.\<close>

fun token_error :: "error \<Rightarrow> bool" where
  "token_error (InvalidTokenError _) = True"
| "token_error KeyError = True"
| "token_error (TypeError _) = True"
| "token_error (ValueError _) = True"
| "token_error _ = False"

definition token_failure :: "error \<Rightarrow> error" where
  "token_failure err = (if token_error err then unauthorized ''invalid bearer token'' else err)"

definition oidc_authenticate :: "oidc_env \<Rightarrow> headers \<Rightarrow> oidc \<Rightarrow> (user_principal, oidc) outcome" where
  "oidc_authenticate E h c =
     (case partition_blank (case h ''Authorization'' of None \<Rightarrow> [] | Some a \<Rightarrow> a) of (scheme, token) \<Rightarrow>
        if \<not> is_bearer scheme \<or> token = []
        then (Inl (unauthorized ''bearer token is required''), c)
        else case oe_header E token of
          Inl err \<Rightarrow> (Inl (token_failure err), c)
        | Inr header \<Rightarrow>
            (case json_text (get_or JNull header ''kid'') of
               None \<Rightarrow> (Inl (unauthorized ''invalid bearer token''), c)
             | Some kid \<Rightarrow>
                 (case find_key E kid c of
                    (Inl err, c1) \<Rightarrow> (Inl (token_failure err), c1)
                  | (Inr key, c1) \<Rightarrow>
                      (case verify_token E c1 token key of
                         Inl err \<Rightarrow> (Inl (token_failure err), c1)
                       | Inr p \<Rightarrow> (Inr p, c1)))))"

end
