(* ===== verification/ArtifactStore.thy ===== *)
theory ArtifactStore
  imports Domain Uuid
begin

text \<open>
  \<^verbatim>\<open>S3ArtifactStore\<close> of \<^verbatim>\<open>apps/astra-agent-api/src/astra_agent/artifacts.py\<close>. The object storage is a
  parameter: what \<^verbatim>\<open>head_object\<close> tells of a key (nothing for a \<^verbatim>\<open>ClientError\<close>) and the presigned addresses.
\<close>

record object_metadata =
  om_content_length :: "int option"
  om_content_type :: "string option"
  om_sha256 :: "string option"

record object_storage =
  so_head :: "string \<Rightarrow> object_metadata option"
  so_put_url :: "string \<Rightarrow> string \<Rightarrow> string \<Rightarrow> int \<Rightarrow> string"
  so_get_url :: "string \<Rightarrow> int \<Rightarrow> string"

record upload_target =
  ut_object_key :: string
  ut_upload_url :: string
  ut_expires_in_seconds :: int

record download_target =
  dt_download_url :: string
  dt_expires_in_seconds :: int

text \<open>
  \<^verbatim>\<open>urllib.parse.quote(s, safe="._-")\<close>: letters, digits and \<^verbatim>\<open>_.-~\<close> stay, every other character becomes
  \<^verbatim>\<open>%XX\<close> for each byte of its UTF-8 encoding.
\<close>

definition utf8_bytes :: "char \<Rightarrow> nat list" where
  "utf8_bytes c = (let n = (of_char c :: nat) in
     if n < 128 then [n] else [192 + n div 64, 128 + n mod 64])"

definition upper_hex :: "nat \<Rightarrow> char" where
  "upper_hex d = ''0123456789ABCDEF'' ! d"

definition always_safe :: "char \<Rightarrow> bool" where
  "always_safe c \<longleftrightarrow> (let n = (of_char c :: nat) in
     (48 \<le> n \<and> n \<le> 57) \<or> (65 \<le> n \<and> n \<le> 90) \<or> (97 \<le> n \<and> n \<le> 122) \<or> c \<in> set ''_.-~'')"

definition quote_char :: "char \<Rightarrow> string" where
  "quote_char c = (if always_safe c then [c]
     else concat (map (\<lambda>b. [CHR ''%'', upper_hex (b div 16), upper_hex (b mod 16)]) (utf8_bytes c)))"

definition quote :: "string \<Rightarrow> string" where
  "quote s = concat (map quote_char s)"

definition safe_name :: "string \<Rightarrow> string" where
  "safe_name name = quote (map (\<lambda>c. if c = CHR ''/'' then CHR ''_'' else c) name)"

definition task_prefix :: "uuid \<Rightarrow> uuid \<Rightarrow> string" where
  "task_prefix tenant_id task_id =
     ''tenants/'' @ uuid_text tenant_id @ ''/tasks/'' @ uuid_text task_id @ ''/''"

text \<open>\<open>u\<close> is the \<^verbatim>\<open>uuid4()\<close> the key is made of.\<close>

definition prepare_upload ::
  "object_storage \<Rightarrow> uuid \<Rightarrow> uuid \<Rightarrow> uuid \<Rightarrow> string \<Rightarrow> string \<Rightarrow> string \<Rightarrow> upload_target" where
  "prepare_upload S u tenant_id task_id name media_type sha256 =
     (let key = task_prefix tenant_id task_id @ uuid_text u @ ''-'' @ safe_name name; expires = 900 in
      \<lparr>ut_object_key = key, ut_upload_url = so_put_url S key media_type sha256 expires,
       ut_expires_in_seconds = expires\<rparr>)"

definition verify_artifact :: "object_storage \<Rightarrow> artifact \<Rightarrow> error + unit" where
  "verify_artifact S artifact =
     (if \<not> prefix (task_prefix (af_tenant_id artifact) (af_task_id artifact)) (af_object_key artifact)
      then Inl (ValueError ''artifact object key is outside the task scope'')
      else case so_head S (af_object_key artifact) of
        None \<Rightarrow> Inl (ValueError ''artifact object does not exist'')
      | Some metadata \<Rightarrow>
          if om_content_length metadata \<noteq> Some (af_size_bytes artifact)
          then Inl (ValueError ''artifact size does not match object storage'')
          else if om_content_type metadata \<noteq> Some (af_media_type artifact)
          then Inl (ValueError ''artifact media type does not match object storage'')
          else if om_sha256 metadata \<noteq> Some (af_sha256 artifact)
          then Inl (ValueError ''artifact SHA-256 does not match object metadata'')
          else Inr ())"

definition prepare_download :: "object_storage \<Rightarrow> artifact \<Rightarrow> download_target" where
  "prepare_download S artifact =
     (let expires = 300 in
      \<lparr>dt_download_url = so_get_url S (af_object_key artifact) expires, dt_expires_in_seconds = expires\<rparr>)"

end
