(* ===== verification/SessionAudit.thy ===== *)
theory SessionAudit
  imports Prelude
begin

text \<open>
  The traces an interactive client asks for, \<^verbatim>\<open>apps/astra-agent-api/src/astra_agent/audit.py\<close>: three
  dictionaries in the memory of the process. A trace is named by the client.
\<close>

type_synonym audit_entry = "(string, json) dict"

record session_audit =
  sa_traces :: "(uuid, audit_entry list) dict"
  sa_message_traces :: "(uuid, uuid) dict"
  sa_tenants :: "(uuid, uuid) dict"

definition new_session_audit :: session_audit where
  "new_session_audit = \<lparr>sa_traces = [], sa_message_traces = [], sa_tenants = []\<rparr>"

text \<open>\<^verbatim>\<open>self._traces[trace_id]\<close> of a \<^verbatim>\<open>defaultdict(list)\<close>.\<close>

definition trace_entries :: "uuid \<Rightarrow> session_audit \<Rightarrow> audit_entry list" where
  "trace_entries trace_id a = (case map_of (sa_traces a) trace_id of None \<Rightarrow> [] | Some es \<Rightarrow> es)"

definition audit_record :: "datetime \<Rightarrow> uuid \<Rightarrow> string \<Rightarrow> (string, json) dict \<Rightarrow> session_audit \<Rightarrow> session_audit" where
  "audit_record now trace_id stage payload a =
     a\<lparr>sa_traces := AList.update trace_id
         (trace_entries trace_id a @
          [fold (\<lambda>(k, v). AList.update k v) payload [(''at'', JTime now), (''stage'', JStr stage)]]) (sa_traces a)\<rparr>"

definition audit_begin :: "datetime \<Rightarrow> uuid \<Rightarrow> uuid \<Rightarrow> string \<Rightarrow> session_audit \<Rightarrow> session_audit" where
  "audit_begin now trace_id tenant_id content a =
     audit_record now trace_id ''user.input'' [(''content'', JStr content)]
       (a\<lparr>sa_tenants := AList.update trace_id tenant_id (sa_tenants a)\<rparr>)"

definition attach_message :: "uuid \<Rightarrow> uuid \<Rightarrow> session_audit \<Rightarrow> session_audit" where
  "attach_message trace_id message_id a =
     a\<lparr>sa_message_traces := AList.update message_id trace_id (sa_message_traces a)\<rparr>"

definition for_message :: "uuid \<Rightarrow> session_audit \<Rightarrow> uuid option" where
  "for_message message_id a = map_of (sa_message_traces a) message_id"

text \<open>
  \<^verbatim>\<open>for_content\<close> looks at the attached messages from the last to the first; looking up a trace that has no
  entries yet creates its empty list.
\<close>

fun content_trace :: "string \<Rightarrow> (uuid \<times> uuid) list \<Rightarrow> session_audit \<Rightarrow> uuid option \<times> session_audit" where
  "content_trace content [] a = (None, a)"
| "content_trace content ((message_id, trace_id) # rest) a =
     (let events = trace_entries trace_id a;
          a1 = a\<lparr>sa_traces := AList.update trace_id events (sa_traces a)\<rparr> in
      case events of
        first # _ \<Rightarrow>
          if map_of first ''content'' = Some (JStr content) then (Some trace_id, a1)
          else content_trace content rest a1
      | [] \<Rightarrow> content_trace content rest a1)"

definition for_content :: "string \<Rightarrow> session_audit \<Rightarrow> uuid option \<times> session_audit" where
  "for_content content a = content_trace content (rev (sa_message_traces a)) a"

definition tenant_for_content :: "string \<Rightarrow> session_audit \<Rightarrow> uuid option \<times> session_audit" where
  "tenant_for_content content a =
     (case for_content content a of
        (None, a1) \<Rightarrow> (None, a1)
      | (Some trace_id, a1) \<Rightarrow> (map_of (sa_tenants a1) trace_id, a1))"

definition for_objective :: "string \<Rightarrow> session_audit \<Rightarrow> uuid option \<times> session_audit" where
  "for_objective objective a = for_content objective a"

definition audit_get :: "uuid \<Rightarrow> session_audit \<Rightarrow> audit_entry list" where
  "audit_get trace_id a = (case map_of (sa_traces a) trace_id of None \<Rightarrow> [] | Some es \<Rightarrow> es)"

definition belongs_to :: "uuid \<Rightarrow> uuid \<Rightarrow> session_audit \<Rightarrow> bool" where
  "belongs_to trace_id tenant_id a \<longleftrightarrow> map_of (sa_tenants a) trace_id = Some tenant_id"

text \<open>The route \<^verbatim>\<open>GET /audit/{trace_id}\<close> for a user of the tenant.\<close>

definition get_session_audit :: "uuid \<Rightarrow> uuid \<Rightarrow> session_audit \<Rightarrow> error + (uuid \<times> audit_entry list)" where
  "get_session_audit tenant_id trace_id a =
     (if \<not> belongs_to trace_id tenant_id a then Inl (HTTPException 404 ''audit trace not found'')
      else Inr (trace_id, audit_get trace_id a))"

end
