(* ===== verification/Requests.thy ===== *)
theory Requests
  imports TurnLoop Messages Identity ArtifactStore SessionAudit "HOL-Library.List_Lexorder" "HOL-Library.Char_ord"
begin

text \<open>
  What the routes of \<^verbatim>\<open>create_app\<close> (\<^verbatim>\<open>apps/astra-agent-api/src/astra_agent/app.py\<close>) share: the state of the
  application, the checks of the sender, the translation of the store's exceptions into statuses, and the
  small steps that several routes make. A route is an action like the methods of the orchestrator: other
  requests are served between its calls to the store. An \<^verbatim>\<open>HTTPException\<close> is the error \<open>HTTPException\<close>;
  any other error that leaves a route is answered with status 500 by the framework.
\<close>

section \<open>The application\<close>

text \<open>
  \<^verbatim>\<open>app.state\<close>: the orchestrator with the store's environment, the artifact store if there is one (what the
  object storage answers may differ from one reading to the next), and the settings the overview shows.
\<close>

record app =
  api_orchestrator :: orchestrator
  api_artifact_store :: "(nat \<Rightarrow> object_storage) option"
  api_delete_object :: "nat \<Rightarrow> string \<Rightarrow> error + unit"
  api_artifact_bucket :: "string option"
  api_memory_backend :: string
  api_model_backend :: string
  api_sandbox_executable :: "string option"
  api_sandbox_timeout_seconds :: int

section \<open>The sender\<close>

text \<open>The dependency that finds the agent of a request; a header that is not a UUID is answered with 422.\<close>

definition optional_uuid_header :: "headers \<Rightarrow> string \<Rightarrow> error + uuid option" where
  "optional_uuid_header h name =
     (case h name of
        None \<Rightarrow> Inr None
      | Some text \<Rightarrow>
          (case parse_uuid text of
             None \<Rightarrow> Inl (HTTPException 422 ''invalid header'')
           | Some u \<Rightarrow> Inr (Some u)))"

definition principal_dependency :: "string \<Rightarrow> string option \<Rightarrow> headers \<Rightarrow> error + ara_principal" where
  "principal_dependency auth_backend trusted_proxy_secret h =
     (if auth_backend = ''mtls'' then trusted_mtls_ara_principal trusted_proxy_secret h
      else ebind (optional_uuid_header h ''X-Astra-Tenant-ID'') (\<lambda>t.
           ebind (optional_uuid_header h ''X-Astra-ARA-ID'') (\<lambda>a. development_ara_principal t a)))"

definition require_operator :: "user_principal \<Rightarrow> unit act" where
  "require_operator p =
     (if upr_roles p \<inter> {''platform_operator'', ''tenant_admin'', ''auditor''} = {}
      then raise (HTTPException 403 ''an Astra operator role is required'') else ret ())"

definition mutating_roles :: "string set" where
  "mutating_roles = {''platform_operator'', ''tenant_admin''}"

definition require_operator_mutation :: "user_principal \<Rightarrow> unit act" where
  "require_operator_mutation p =
     (if upr_roles p \<inter> mutating_roles = {}
      then raise (HTTPException 403 ''a mutating operator role is required'') else ret ())"

definition tenant_mismatch :: error where
  "tenant_mismatch = HTTPException 403 ''tenant identity mismatch''"

definition require_tenant :: "uuid \<Rightarrow> user_principal \<Rightarrow> unit act" where
  "require_tenant tenant_id p = (if tenant_id \<noteq> upr_tenant_id p then raise tenant_mismatch else ret ())"

definition ara_mismatch :: error where
  "ara_mismatch = HTTPException 403 ''ARA identity mismatch''"

definition require_agent :: "uuid \<Rightarrow> uuid \<Rightarrow> ara_principal \<Rightarrow> unit act" where
  "require_agent tenant_id ara_id p =
     (if tenant_id \<noteq> apr_tenant_id p \<or> ara_id \<noteq> apr_ara_id p then raise ara_mismatch else ret ())"

definition verify_ara_message :: "'a lease_bound_scheme \<Rightarrow> ara_principal \<Rightarrow> unit act" where
  "verify_ara_message body p = require_agent (lb_tenant_id body) (lb_ara_id body) p"

section \<open>Errors of the store\<close>

fun lifecycle_status :: "error \<Rightarrow> error" where
  "lifecycle_status (LifecycleNotFoundError m) = HTTPException 404 m"
| "lifecycle_status (LifecycleConflictError m) = HTTPException 409 m"
| "lifecycle_status err = err"

text \<open>\<^verbatim>\<open>try: m except (LifecycleNotFoundError, LifecycleConflictError) as error: raise_lifecycle_error(error)\<close>.\<close>

definition or_lifecycle_error :: "'a act \<Rightarrow> 'a act" where
  "or_lifecycle_error m = handle m (\<lambda>err. raise (lifecycle_status err))"

text \<open>\<^verbatim>\<open>except LifecycleConflictError\<close> alone.\<close>

fun conflict_status :: "error \<Rightarrow> error" where
  "conflict_status (LifecycleConflictError m) = HTTPException 409 m"
| "conflict_status err = err"

definition or_conflict :: "'a act \<Rightarrow> 'a act" where
  "or_conflict m = handle m (\<lambda>err. raise (conflict_status err))"

text \<open>\<^verbatim>\<open>if x is None: raise HTTPException(404, detail)\<close>.\<close>

definition or_not_found :: "string \<Rightarrow> 'a option \<Rightarrow> 'a act" where
  "or_not_found detail x = (case x of None \<Rightarrow> raise (HTTPException 404 detail) | Some y \<Rightarrow> ret y)"

text \<open>\<^verbatim>\<open>try: m finally: f\<close>.\<close>

definition after_all :: "'a act \<Rightarrow> unit act \<Rightarrow> 'a act" where
  "after_all m f st =
     (case m st of (r, st1) \<Rightarrow> (case f st1 of (Inl err, st2) \<Rightarrow> (Inl err, st2) | (Inr _, st2) \<Rightarrow> (r, st2)))"

section \<open>Steps that routes share\<close>

text \<open>\<^verbatim>\<open>app.state.advance_turn(tenant_id)\<close> starts the runner of the tenant beside the request.\<close>

definition advance_turn :: "uuid \<Rightarrow> unit act" where
  "advance_turn tenant_id = effect (Runner_requested tenant_id)"

text \<open>\<^verbatim>\<open>enqueue_job(BackgroundJob(tenant_id=..., kind=VECTOR_SYNC, source_id=...))\<close>.\<close>

definition vector_sync :: "env \<Rightarrow> uuid \<Rightarrow> uuid \<Rightarrow> background_job" where
  "vector_sync e tenant_id source_id =
     \<lparr>jb_id = gen e 0, jb_tenant_id = tenant_id, jb_kind = Job_VECTOR_SYNC, jb_source_id = source_id,
      jb_payload = [], jb_state = Job_PENDING, jb_attempt_count = 0, jb_max_attempts = 8,
      jb_available_at = clk e 0, jb_lease_id = None, jb_lease_expires_at = None, jb_last_error = None,
      jb_created_at = clk e 1, jb_updated_at = clk e 2, jb_completed_at = None\<rparr>"

definition enqueue_vector_sync :: "orchestrator \<Rightarrow> uuid \<Rightarrow> uuid \<Rightarrow> unit act" where
  "enqueue_vector_sync A tenant_id source_id =
     abind (fresh A) (\<lambda>e.
     abind (call A (\<lambda>_. enqueue_job (vector_sync e tenant_id source_id))) (\<lambda>_. ret ()))"

fun enqueue_vector_syncs :: "orchestrator \<Rightarrow> uuid \<Rightarrow> uuid list \<Rightarrow> unit act" where
  "enqueue_vector_syncs A tenant_id [] = ret ()"
| "enqueue_vector_syncs A tenant_id (k # ks) =
     abind (enqueue_vector_sync A tenant_id k) (\<lambda>_. enqueue_vector_syncs A tenant_id ks)"

text \<open>\<^verbatim>\<open>_assistant_message_for_turn\<close>: the answer that follows the turn's message, before the next of the user.\<close>

fun first_answer :: "conversation_message list \<Rightarrow> conversation_message option" where
  "first_answer [] = None"
| "first_answer (m # ms) =
     (if ms_role m = Role_USER then None else if ms_role m = Role_ASSISTANT then Some m else first_answer ms)"

definition assistant_message_for_turn ::
  "conversation_message list \<Rightarrow> conversation_turn \<Rightarrow> conversation_message option" where
  "assistant_message_for_turn messages turn =
     (case dropWhile (\<lambda>m. ms_id m \<noteq> tn_user_message_id turn) messages of
        [] \<Rightarrow> None | _ # rest \<Rightarrow> first_answer rest)"

text \<open>\<^verbatim>\<open>list_messages(tenant_id, conversation_id)\<close> with its default limit.\<close>

definition recent_messages :: "orchestrator \<Rightarrow> uuid \<Rightarrow> uuid \<Rightarrow> conversation_message list act" where
  "recent_messages A tenant_id conversation_id =
     observe_or_raise A (\<lambda>_. list_messages tenant_id conversation_id 50)"

end
