(* ===== verification/AgentRoutes.thy ===== *)
theory AgentRoutes
  imports Requests
begin

text \<open>
  The routes \<^verbatim>\<open>/api/v1/aras/...\<close> of \<^verbatim>\<open>app.py\<close>, which remote agents call: registration, leasing, progress,
  heartbeats, renewal, the three ends of a task, approvals and uploads. Each takes the agent that was
  authenticated and the body it sent.
\<close>

definition register_route :: "app \<Rightarrow> ara_principal \<Rightarrow> register_request \<Rightarrow> remote_agent act" where
  "register_route P p body =
     (let A = api_orchestrator P in
      if rr_tenant_id body \<noteq> apr_tenant_id p then raise tenant_mismatch
      else
        abind (fresh A) (\<lambda>e.
        let ara = agent_from_registration (apr_ara_id p) (clk e 0) (clk e 1) body in
        call A (\<lambda>_. register_ara ara
          (AuditEvent e 0 (rr_tenant_id body) ARA_REGISTERED Actor_ARA (Some (ra_id ara)) None
             [(''ara_name'', JStr (ra_name ara))]))))"

text \<open>\<open>None\<close> is the answer 204 without a body.\<close>

definition lease_route :: "app \<Rightarrow> ara_principal \<Rightarrow> lease_request \<Rightarrow> (task \<times> lease) option act" where
  "lease_route P p body =
     (let A = api_orchestrator P in
      abind (require_agent (lq_tenant_id body) (lq_ara_id body) p) (\<lambda>_.
      abind (fresh A) (\<lambda>e.
      call A (\<lambda>e'. lease_task e' (lq_tenant_id body) (lq_ara_id body)
        (clk e 0 + seconds (lq_duration_seconds body))))))"

definition ara_event_route :: "app \<Rightarrow> ara_principal \<Rightarrow> ara_event_request \<Rightarrow> unit act" where
  "ara_event_route P p body =
     abind (verify_ara_message body p) (\<lambda>_.
     or_lifecycle_error (call (api_orchestrator P) (\<lambda>e. record_progress e (lb_tenant_id body) (lb_ara_id body)
       (lb_task_id body) (lb_lease_id body) (er_message body) (er_progress_percent body))))"

definition heartbeat_route :: "app \<Rightarrow> ara_principal \<Rightarrow> heartbeat_request \<Rightarrow> heartbeat_response act" where
  "heartbeat_route P p body =
     abind (require_agent (hr_tenant_id body) (hr_ara_id body) p) (\<lambda>_.
     abind (or_lifecycle_error (call (api_orchestrator P) (\<lambda>e. heartbeat e (hr_tenant_id body)
              (hr_ara_id body) (hr_task_id body) (hr_lease_id body)))) (\<lambda>task.
     ret \<lparr>hs_task_state = map_option tk_state task,
          hs_cancellation_requested = (case task of None \<Rightarrow> False | Some t \<Rightarrow> tk_state t = Task_CANCELLING)\<rparr>))"

text \<open>\<^verbatim>\<open>next(...)\<close> without a default in a coroutine raises \<^verbatim>\<open>RuntimeError\<close>.\<close>

definition renew_route :: "app \<Rightarrow> ara_principal \<Rightarrow> renew_lease_request \<Rightarrow> (task \<times> lease) act" where
  "renew_route P p body =
     (let A = api_orchestrator P in
      abind (verify_ara_message body p) (\<lambda>_.
      abind (fresh A) (\<lambda>e.
      or_lifecycle_error
        (abind (call A (\<lambda>e'. renew_lease e' (lb_tenant_id body) (lb_ara_id body) (lb_task_id body)
                  (lb_lease_id body) (clk e 0 + seconds (nr_duration_seconds body)))) (\<lambda>lease.
         abind (observe A (\<lambda>_. list_tasks (lb_tenant_id body))) (\<lambda>tasks.
         case find (\<lambda>t. tk_id t = lb_task_id body) tasks of
           None \<Rightarrow> raise (RuntimeError ''coroutine raised StopIteration'')
         | Some task \<Rightarrow> ret (task, lease)))))))"

section \<open>The ends of a task\<close>

text \<open>\<^verbatim>\<open>except ValueError\<close> around the verification of the artifacts.\<close>

fun value_conflict :: "error \<Rightarrow> error" where
  "value_conflict (ValueError m) = HTTPException 409 m"
| "value_conflict err = err"

definition verify_artifacts :: "(nat \<Rightarrow> object_storage) option \<Rightarrow> artifact list \<Rightarrow> unit act" where
  "verify_artifacts store artifacts =
     (if artifacts = [] then ret ()
      else case store of
        None \<Rightarrow> raise (HTTPException 503 ''artifact storage unavailable'')
      | Some S \<Rightarrow>
          abind reading (\<lambda>n.
          case emap (verify_artifact (S n)) artifacts of
            Inl err \<Rightarrow> raise (value_conflict err)
          | Inr _ \<Rightarrow> ret ()))"

definition finish_route ::
  "app \<Rightarrow> ara_principal \<Rightarrow> 'a lease_bound_scheme \<Rightarrow> artifact list \<Rightarrow> task_state \<Rightarrow> string \<Rightarrow>
   (nat \<Rightarrow> object_storage) option \<Rightarrow> bool \<Rightarrow> task_lifecycle_response act" where
  "finish_route P p body artifacts task_state detail artifact_store request =
     abind (verify_ara_message body p) (\<lambda>_.
     abind (verify_artifacts artifact_store artifacts) (\<lambda>_.
     after_all
       (or_lifecycle_error
         (abind (call (api_orchestrator P) (\<lambda>e. finish_task e (lb_tenant_id body) (lb_ara_id body)
                   (lb_task_id body) (lb_lease_id body) task_state detail artifacts)) (\<lambda>task.
          ret \<lparr>ts_task_id = tk_id task, ts_state = tk_state task\<rparr>)))
       (if request then advance_turn (lb_tenant_id body) else ret ())))"

definition complete_route :: "app \<Rightarrow> ara_principal \<Rightarrow> complete_task_request \<Rightarrow> task_lifecycle_response act" where
  "complete_route P p body =
     abind (finish_route P p body (cr_artifacts body) Task_COMPLETED (cr_result body) (api_artifact_store P) False)
       (\<lambda>result. abind (advance_turn (lb_tenant_id body)) (\<lambda>_. ret result))"

definition cancel_route :: "app \<Rightarrow> ara_principal \<Rightarrow> cancel_task_request \<Rightarrow> task_lifecycle_response act" where
  "cancel_route P p body = finish_route P p body [] Task_CANCELLED (kr_reason body) None True"

definition fail_route :: "app \<Rightarrow> ara_principal \<Rightarrow> fail_task_request \<Rightarrow> task_lifecycle_response act" where
  "fail_route P p body =
     abind (finish_route P p body [] Task_FAILED (fr_error body) None True)
       (\<lambda>result. abind (advance_turn (lb_tenant_id body)) (\<lambda>_. ret result))"

section \<open>Approvals and uploads\<close>

definition request_approval_route :: "app \<Rightarrow> ara_principal \<Rightarrow> approval_request \<Rightarrow> approval act" where
  "request_approval_route P p body =
     (let A = api_orchestrator P in
      abind (verify_ara_message body p) (\<lambda>_.
      abind (fresh A) (\<lambda>e.
      abind (lift (checked valid_approval
        \<lparr>ap_id = gen e 0, ap_tenant_id = lb_tenant_id body, ap_task_id = Some (lb_task_id body),
         ap_tool_invocation_id = None, ap_capability = ar_capability body,
         ap_requested_by = Some (lb_ara_id body), ap_requestor_type = Actor_ARA, ap_state = Appr_PENDING,
         ap_reason = ar_reason body, ap_created_at = clk e 0, ap_decided_at = None, ap_decided_by = None\<rparr>)) (\<lambda>approval.
      or_lifecycle_error (call A (\<lambda>e'. request_approval e' (lb_tenant_id body) (lb_ara_id body)
        (lb_task_id body) (lb_lease_id body) approval))))))"

definition artifact_upload_route :: "app \<Rightarrow> ara_principal \<Rightarrow> artifact_upload_request \<Rightarrow> upload_target act" where
  "artifact_upload_route P p body =
     (let A = api_orchestrator P in
      abind (verify_ara_message body p) (\<lambda>_.
      case api_artifact_store P of
        None \<Rightarrow> raise (HTTPException 503 ''artifact storage unavailable'')
      | Some S \<Rightarrow>
          abind (or_lifecycle_error (call A (\<lambda>e. record_progress e (lb_tenant_id body) (lb_ara_id body)
                   (lb_task_id body) (lb_lease_id body) (''Preparing artifact upload: '' @ ur_name body) None))) (\<lambda>_.
          abind (fresh A) (\<lambda>e.
          abind reading (\<lambda>n.
          ret (prepare_upload (S n) (gen e 0) (lb_tenant_id body) (lb_task_id body) (ur_name body)
                 (ur_media_type body) (ur_sha256 body)))))))"

end
