(* ===== verification/OperatorRoutes.thy ===== *)
theory OperatorRoutes
  imports Requests
begin

text \<open>
  The routes \<^verbatim>\<open>/api/v1/admin/...\<close> of \<^verbatim>\<open>app.py\<close>, for operators: an overview of the tenant, its rows, and the
  operations that change them, which need a mutating role.
\<close>

section \<open>Reading\<close>

record admin_identity_response =
  ai_tenant_id :: uuid
  ai_user_id :: uuid
  ai_subject :: string
  ai_roles :: "string list"

definition admin_identity :: "user_principal \<Rightarrow> admin_identity_response act" where
  "admin_identity p =
     abind (require_operator p) (\<lambda>_.
     ret \<lparr>ai_tenant_id = upr_tenant_id p, ai_user_id = upr_user_id p, ai_subject = upr_subject p,
          ai_roles = sorted_list_of_set (upr_roles p)\<rparr>)"

record admin_overview_response =
  ao_tenant_id :: uuid
  ao_tasks :: nat
  ao_pending_approvals :: nat
  ao_active_aras :: nat
  ao_failed_jobs :: nat
  ao_artifacts_enabled :: bool
  ao_qdrant_enabled :: bool
  ao_model_backend :: string
  ao_sandbox_enabled :: bool
  ao_sandbox_timeout_seconds :: int

definition count :: "('a \<Rightarrow> bool) \<Rightarrow> 'a list \<Rightarrow> nat" where
  "count Q xs = length (filter Q xs)"

definition admin_overview :: "app \<Rightarrow> user_principal \<Rightarrow> admin_overview_response act" where
  "admin_overview P p =
     (let A = api_orchestrator P; u = upr_tenant_id p in
      abind (require_operator p) (\<lambda>_.
      abind (observe A (\<lambda>_. list_tasks u)) (\<lambda>tasks.
      abind (observe A (\<lambda>_. list_approvals u)) (\<lambda>approvals.
      abind (observe A (\<lambda>e. list_remote_agents e u)) (\<lambda>aras.
      abind (observe A (\<lambda>_. list_jobs u)) (\<lambda>jobs.
      ret \<lparr>ao_tenant_id = u, ao_tasks = length tasks,
           ao_pending_approvals = count (\<lambda>a. ap_state a = Appr_PENDING) approvals,
           ao_active_aras = count (\<lambda>a. ra_status a = Ara_ACTIVE) aras,
           ao_failed_jobs = count (\<lambda>j. jb_state j = Job_FAILED) jobs,
           ao_artifacts_enabled = (api_artifact_bucket P \<notin> {None, Some []}),
           ao_qdrant_enabled = (api_memory_backend P = ''qdrant''), ao_model_backend = api_model_backend P,
           ao_sandbox_enabled = (api_sandbox_executable P \<noteq> None),
           ao_sandbox_timeout_seconds = api_sandbox_timeout_seconds P\<rparr>))))))"

record admin_operations_response =
  ax_tasks :: "task list"
  ax_approvals :: "approval list"
  ax_remote_agents :: "remote_agent list"
  ax_jobs :: "background_job list"
  ax_memories :: "memory_record list"
  ax_events :: "audit_event list"
  ax_artifacts :: "artifact_metadata list"

definition admin_operations :: "app \<Rightarrow> user_principal \<Rightarrow> admin_operations_response act" where
  "admin_operations P p =
     (let A = api_orchestrator P; u = upr_tenant_id p in
      abind (require_operator p) (\<lambda>_.
      abind (observe A (\<lambda>_. list_tasks u)) (\<lambda>tasks.
      abind (observe A (\<lambda>_. list_approvals u)) (\<lambda>approvals.
      abind (observe A (\<lambda>e. list_remote_agents e u)) (\<lambda>remote_agents.
      abind (observe A (\<lambda>_. list_jobs u)) (\<lambda>jobs.
      abind (observe A (\<lambda>_. list_memories u True)) (\<lambda>memories.
      abind (observe A (\<lambda>_. list_events u)) (\<lambda>events.
      abind (observe A (\<lambda>_. list_artifacts u)) (\<lambda>artifacts.
      ret \<lparr>ax_tasks = tasks, ax_approvals = approvals, ax_remote_agents = remote_agents, ax_jobs = jobs,
           ax_memories = memories, ax_events = events, ax_artifacts = map artifact_metadata_of artifacts\<rparr>)))))))))"

record admin_task_detail_response =
  at_task :: task
  at_events :: "audit_event list"
  at_artifacts :: "artifact_metadata list"
  at_progress :: "audit_event list"

definition admin_task_detail :: "app \<Rightarrow> user_principal \<Rightarrow> uuid \<Rightarrow> admin_task_detail_response act" where
  "admin_task_detail P p task_id =
     (let A = api_orchestrator P; u = upr_tenant_id p in
      abind (require_operator p) (\<lambda>_.
      abind (observe A (\<lambda>_. get_task u task_id)) (\<lambda>found.
      abind (or_not_found ''task not found'' found) (\<lambda>task.
      abind (observe A (\<lambda>_. list_events u)) (\<lambda>events.
      abind (observe A (\<lambda>_. list_artifacts u)) (\<lambda>artifacts.
      let task_events = filter (\<lambda>ev. ev_task_id ev = Some task_id) events in
      ret \<lparr>at_task = task, at_events = task_events,
           at_artifacts = map artifact_metadata_of (filter (\<lambda>a. af_task_id a = task_id) artifacts),
           at_progress = filter (\<lambda>ev. ev_event_type ev = ARA_PROGRESS) task_events\<rparr>))))))"

section \<open>Changing\<close>

definition admin_requeue_job :: "app \<Rightarrow> user_principal \<Rightarrow> uuid \<Rightarrow> background_job act" where
  "admin_requeue_job P p job_id =
     abind (require_operator_mutation p) (\<lambda>_.
     or_lifecycle_error (call (api_orchestrator P) (\<lambda>e. requeue_job e (upr_tenant_id p) job_id (upr_user_id p))))"

definition admin_set_ara_trust :: "app \<Rightarrow> user_principal \<Rightarrow> uuid \<Rightarrow> trust_request \<Rightarrow> remote_agent act" where
  "admin_set_ara_trust P p ara_id body =
     abind (require_operator_mutation p) (\<lambda>_.
     or_lifecycle_error (call (api_orchestrator P) (\<lambda>e.
       set_remote_agent_trust e (upr_tenant_id p) ara_id (tr_trust_level body) (upr_user_id p))))"

definition admin_revoke_ara :: "app \<Rightarrow> user_principal \<Rightarrow> uuid \<Rightarrow> remote_agent act" where
  "admin_revoke_ara P p ara_id =
     abind (require_operator_mutation p) (\<lambda>_.
     or_lifecycle_error (call (api_orchestrator P) (\<lambda>e.
       revoke_remote_agent e (upr_tenant_id p) ara_id (upr_user_id p))))"

text \<open>The part of the two decision routes after their checks.\<close>

definition decide :: "app \<Rightarrow> user_principal \<Rightarrow> uuid \<Rightarrow> approval_decision_request \<Rightarrow> approval act" where
  "decide P p approval_id body =
     or_lifecycle_error
       (abind (call (api_orchestrator P) (\<lambda>e. decide_approval e (dr_tenant_id body) approval_id
                 (if dr_granted body then Appr_GRANTED else Appr_DENIED) (upr_user_id p))) (\<lambda>approval.
        if ap_tool_invocation_id approval \<noteq> None
        then abind (advance_turn (dr_tenant_id body)) (\<lambda>_. ret approval)
        else ret approval))"

definition admin_decide_approval ::
  "app \<Rightarrow> user_principal \<Rightarrow> uuid \<Rightarrow> approval_decision_request \<Rightarrow> approval act" where
  "admin_decide_approval P p approval_id body =
     abind (require_operator_mutation p) (\<lambda>_.
     abind (require_tenant (dr_tenant_id body) p) (\<lambda>_. decide P p approval_id body))"

definition admin_cancel_task :: "app \<Rightarrow> user_principal \<Rightarrow> uuid \<Rightarrow> task_lifecycle_response act" where
  "admin_cancel_task P p task_id =
     abind (require_operator_mutation p) (\<lambda>_.
     or_lifecycle_error
       (abind (call (api_orchestrator P) (\<lambda>e. request_task_cancellation e (upr_tenant_id p) task_id (upr_user_id p)))
         (\<lambda>task. ret \<lparr>ts_task_id = tk_id task, ts_state = tk_state task\<rparr>)))"

text \<open>The index is told of the memory that was promoted, not of the one it replaces.\<close>

definition admin_review_memory ::
  "app \<Rightarrow> user_principal \<Rightarrow> uuid \<Rightarrow> memory_review_request \<Rightarrow> memory_record act" where
  "admin_review_memory P p memory_id body =
     (let A = api_orchestrator P in
      abind (require_operator_mutation p) (\<lambda>_.
      abind (require_tenant (vr_tenant_id body) p) (\<lambda>_.
      abind (or_lifecycle_error (call A (\<lambda>e. review_memory e (vr_tenant_id body) memory_id (vr_promote body)
               (upr_user_id p) (vr_replaces_memory_id body)))) (\<lambda>reviewed.
      if mr_state reviewed = Mem_PROMOTED
      then abind (enqueue_vector_sync A (vr_tenant_id body) (mr_id reviewed)) (\<lambda>_. ret reviewed)
      else ret reviewed))))"

end
