(* ===== verification/UserRoutes.thy ===== *)
theory UserRoutes
  imports OperatorRoutes
begin

text \<open>
  The routes of \<^verbatim>\<open>app.py\<close> for the users of a tenant: tasks, conversations and turns, the streamed turn,
  artifacts, personas, memories, imports and decisions. None of them looks at the roles of the user.
\<close>

section \<open>Tasks and listings\<close>

definition create_task_route :: "app \<Rightarrow> user_principal \<Rightarrow> task \<Rightarrow> task act" where
  "create_task_route P p task =
     (let A = api_orchestrator P in
      abind (require_tenant (tk_tenant_id task) p) (\<lambda>_.
      abind (fresh A) (\<lambda>e.
      call A (\<lambda>_. add_task task
        (AuditEvent e 0 (tk_tenant_id task) TASK_CREATED Actor_USER (Some (upr_user_id p)) (Some (tk_id task))
           [(''subject'', JStr (upr_subject p))])))))"

text \<open>A listing of one table for the tenant in the path.\<close>

definition listing :: "app \<Rightarrow> user_principal \<Rightarrow> uuid \<Rightarrow> (env \<Rightarrow> store \<Rightarrow> 'a) \<Rightarrow> 'a act" where
  "listing P p tenant_id f =
     abind (require_tenant tenant_id p) (\<lambda>_. observe (api_orchestrator P) f)"

definition list_conversations_route :: "app \<Rightarrow> user_principal \<Rightarrow> uuid \<Rightarrow> conversation list act" where
  "list_conversations_route P p tenant_id = listing P p tenant_id (\<lambda>_. list_conversations tenant_id)"

definition list_events_route :: "app \<Rightarrow> user_principal \<Rightarrow> uuid \<Rightarrow> audit_event list act" where
  "list_events_route P p tenant_id = listing P p tenant_id (\<lambda>_. list_events tenant_id)"

definition list_jobs_route :: "app \<Rightarrow> user_principal \<Rightarrow> uuid \<Rightarrow> background_job list act" where
  "list_jobs_route P p tenant_id = listing P p tenant_id (\<lambda>_. list_jobs tenant_id)"

definition list_aras_route :: "app \<Rightarrow> user_principal \<Rightarrow> uuid \<Rightarrow> remote_agent list act" where
  "list_aras_route P p tenant_id = listing P p tenant_id (\<lambda>e. list_remote_agents e tenant_id)"

definition list_artifacts_route :: "app \<Rightarrow> user_principal \<Rightarrow> uuid \<Rightarrow> artifact_metadata list act" where
  "list_artifacts_route P p tenant_id =
     abind (listing P p tenant_id (\<lambda>_. list_artifacts tenant_id)) (\<lambda>artifacts. ret (map artifact_metadata_of artifacts))"

definition list_memories_route :: "app \<Rightarrow> user_principal \<Rightarrow> uuid \<Rightarrow> memory_record list act" where
  "list_memories_route P p tenant_id = listing P p tenant_id (\<lambda>_. list_memories tenant_id True)"

definition list_migration_batches_route :: "app \<Rightarrow> user_principal \<Rightarrow> uuid \<Rightarrow> migration_batch list act" where
  "list_migration_batches_route P p tenant_id = listing P p tenant_id (\<lambda>_. list_migration_batches tenant_id)"

definition list_tasks_route :: "app \<Rightarrow> user_principal \<Rightarrow> uuid \<Rightarrow> task list act" where
  "list_tasks_route P p tenant_id = listing P p tenant_id (\<lambda>_. list_tasks tenant_id)"

definition list_approvals_route :: "app \<Rightarrow> user_principal \<Rightarrow> uuid \<Rightarrow> approval list act" where
  "list_approvals_route P p tenant_id = listing P p tenant_id (\<lambda>_. list_approvals tenant_id)"

section \<open>Conversations\<close>

definition create_conversation_route ::
  "app \<Rightarrow> user_principal \<Rightarrow> create_conversation_request \<Rightarrow> conversation act" where
  "create_conversation_route P p body =
     (let A = api_orchestrator P in
      abind (require_tenant (nc_tenant_id body) p) (\<lambda>_.
      abind (fresh A) (\<lambda>e.
      abind (lift (checked valid_conversation
        \<lparr>cv_id = gen e 0, cv_tenant_id = nc_tenant_id body, cv_user_id = upr_user_id p,
         cv_title = nc_title body, cv_created_at = clk e 0, cv_updated_at = clk e 1\<rparr>)) (\<lambda>conversation.
      abind (call A (\<lambda>_. create_conversation conversation
               (AuditEvent e 0 (nc_tenant_id body) CONVERSATION_CREATED Actor_USER (Some (upr_user_id p)) None
                  [(''conversation_id'', JId (cv_id conversation))]))) (\<lambda>_.
      ret conversation)))))"

definition get_conversation_route ::
  "app \<Rightarrow> user_principal \<Rightarrow> uuid \<Rightarrow> (conversation \<times> conversation_message list) act" where
  "get_conversation_route P p conversation_id =
     (let A = api_orchestrator P; u = upr_tenant_id p in
      abind (observe A (\<lambda>_. get_conversation u conversation_id)) (\<lambda>found.
      abind (or_not_found ''conversation not found'' found) (\<lambda>conversation.
      abind (recent_messages A u conversation_id) (\<lambda>messages. ret (conversation, messages)))))"

text \<open>What the two routes that query turns answer with, and the status of \<^verbatim>\<open>send_message\<close>.\<close>

record turn_response =
  tp_turn :: conversation_turn
  tp_user_message :: conversation_message
  tp_assistant_message :: "conversation_message option"

text \<open>\<^verbatim>\<open>except ModelProviderError\<close>.\<close>

fun provider_failure :: "error \<Rightarrow> error" where
  "provider_failure (ModelProviderError _) = HTTPException 502 ''model provider failed''"
| "provider_failure err = err"

definition send_message_route ::
  "app \<Rightarrow> user_principal \<Rightarrow> uuid \<Rightarrow> send_message_request \<Rightarrow> (int \<times> turn_response) act" where
  "send_message_route P p conversation_id body =
     (let A = api_orchestrator P; u = sm_tenant_id body in
      abind (require_tenant u p) (\<lambda>_.
      abind (observe A (\<lambda>_. get_conversation u conversation_id)) (\<lambda>found.
      abind (or_not_found ''conversation not found'' found) (\<lambda>_.
      abind (handle
               (abind (start_turn A u (upr_user_id p) conversation_id (sm_client_request_id body) (sm_content body))
                  (\<lambda>(user_message, turn). abind (advance_one A u) (\<lambda>_. ret (user_message, turn))))
               (\<lambda>err. raise (provider_failure err))) (\<lambda>(user_message, turn).
      abind (observe A (\<lambda>_. get_turn u (tn_id turn))) (\<lambda>current.
      abind (or_not_found ''conversation turn not found'' current) (\<lambda>refreshed.
      abind (recent_messages A u conversation_id) (\<lambda>messages.
      abind (advance_turn u) (\<lambda>_.
      ret (if tn_state refreshed \<noteq> Turn_COMPLETED then 202 else 200,
           \<lparr>tp_turn = refreshed, tp_user_message = user_message,
            tp_assistant_message = assistant_message_for_turn messages refreshed\<rparr>))))))))))"

text \<open>
  \<^verbatim>\<open>stream_message\<close> up to the response: the trace of the session audit is begun, the turn started and
  claimed. Then the events: the texts of the server-sent events, whose last one tells how the turn ended.
\<close>

definition claim_for_stream ::
  "app \<Rightarrow> user_principal \<Rightarrow> uuid \<Rightarrow> send_message_request \<Rightarrow> (conversation_turn \<times> uuid) act" where
  "claim_for_stream P p conversation_id body =
     (let A = api_orchestrator P; u = sm_tenant_id body in
      abind (require_tenant u p) (\<lambda>_.
      abind (observe A (\<lambda>_. get_conversation u conversation_id)) (\<lambda>found.
      abind (or_not_found ''conversation not found'' found) (\<lambda>_.
      abind (effect (Audit_begun (sm_client_request_id body) u (sm_content body))) (\<lambda>_.
      abind (start_turn A u (upr_user_id p) conversation_id (sm_client_request_id body) (sm_content body))
        (\<lambda>(user_message, turn).
      abind (effect (Audit_attached (sm_client_request_id body) (ms_id user_message))) (\<lambda>_.
      abind (fresh A) (\<lambda>e.
      abind (call A (\<lambda>e'. claim_turn e' u (tn_id turn) (gen e 0) (clk e 0 + minutes 5))) (\<lambda>claimed.
      case claimed of
        None \<Rightarrow> raise (HTTPException 409 ''conversation turn is already running'')
      | Some t \<Rightarrow>
          if tn_id t \<noteq> tn_id turn then raise (HTTPException 409 ''conversation turn is already running'')
          else ret (t, gen e 0))))))))))"

definition sse_text :: "string \<Rightarrow> string \<Rightarrow> string" where
  "sse_text kind data = ''event: '' @ kind @ newline @ ''data: '' @ data @ newline @ newline"

definition sse_event :: "orchestrator \<Rightarrow> stream_event \<Rightarrow> string" where
  "sse_event A ev = sse_text (se_kind ev) (oc_dumps A False (JObj
     ((''content'', JStr (se_content ev)) #
      (case se_tool_call ev of None \<Rightarrow> [] | Some c \<Rightarrow> [(''tool'', JStr (tc_name c))]))))"

fun streamed :: "effect list \<Rightarrow> stream_event list" where
  "streamed [] = []"
| "streamed (Event_streamed ev # xs) = ev # streamed xs"
| "streamed (_ # xs) = streamed xs"

definition sse_events :: "app \<Rightarrow> conversation_turn \<Rightarrow> uuid \<Rightarrow> string list act" where
  "sse_events P claimed run_lease_id st =
     (let A = api_orchestrator P;
          head = sse_text ''turn'' (oc_dumps A False (JObj [(''turn_id'', JId (tn_id claimed))])) in
      case stream_turn A claimed run_lease_id st of
        (r, st1) \<Rightarrow>
          let sent = map (sse_event A) (streamed (drop (length (os_effects st)) (os_effects st1))) in
          (case r of
             Inr _ \<Rightarrow> (Inr (head # sent @ [sse_text ''done'' ''{}'']), st1)
           | Inl (ModelProviderError _) \<Rightarrow>
               (Inr (head # sent @
                  [''event: error'' @ newline @ ''data: {'' @ [CHR 0x22] @ ''message'' @ [CHR 0x22] @ '': '' @
                   [CHR 0x22] @ ''model provider failed'' @ [CHR 0x22] @ ''}'' @ newline @ newline]), st1)
           | Inl err \<Rightarrow> (Inl err, st1)))"

definition stream_message_route ::
  "app \<Rightarrow> user_principal \<Rightarrow> uuid \<Rightarrow> send_message_request \<Rightarrow> string list act" where
  "stream_message_route P p conversation_id body =
     abind (claim_for_stream P p conversation_id body) (\<lambda>(claimed, l). sse_events P claimed l)"

definition list_conversation_turns_route ::
  "app \<Rightarrow> user_principal \<Rightarrow> uuid \<Rightarrow> conversation_turn list act" where
  "list_conversation_turns_route P p conversation_id =
     (let A = api_orchestrator P; u = upr_tenant_id p in
      abind (observe A (\<lambda>_. get_conversation u conversation_id)) (\<lambda>found.
      abind (or_not_found ''conversation not found'' found) (\<lambda>_.
      observe A (\<lambda>_. list_conversation_turns u conversation_id))))"

definition get_conversation_turn_route :: "app \<Rightarrow> user_principal \<Rightarrow> uuid \<Rightarrow> turn_response act" where
  "get_conversation_turn_route P p turn_id =
     (let A = api_orchestrator P; u = upr_tenant_id p in
      abind (observe A (\<lambda>_. get_turn u turn_id)) (\<lambda>found.
      abind (or_not_found ''conversation turn not found'' found) (\<lambda>turn.
      abind (recent_messages A u (tn_conversation_id turn)) (\<lambda>messages.
      abind (or_not_found ''turn user message not found''
               (find (\<lambda>m. ms_id m = tn_user_message_id turn) messages)) (\<lambda>user_message.
      ret \<lparr>tp_turn = turn, tp_user_message = user_message,
           tp_assistant_message = assistant_message_for_turn messages turn\<rparr>)))))"

section \<open>Artifacts and tasks\<close>

definition live_artifact :: "artifact option \<Rightarrow> artifact act" where
  "live_artifact found =
     or_not_found ''artifact not found''
       (case found of None \<Rightarrow> None | Some a \<Rightarrow> if af_deleted_at a \<noteq> None then None else Some a)"

definition get_artifact_route :: "app \<Rightarrow> user_principal \<Rightarrow> uuid \<Rightarrow> artifact_metadata act" where
  "get_artifact_route P p artifact_id =
     abind (observe (api_orchestrator P) (\<lambda>_. get_artifact (upr_tenant_id p) artifact_id)) (\<lambda>found.
     abind (live_artifact found) (\<lambda>artifact. ret (artifact_metadata_of artifact)))"

definition download_artifact_route :: "app \<Rightarrow> user_principal \<Rightarrow> uuid \<Rightarrow> artifact_download act" where
  "download_artifact_route P p artifact_id =
     (let A = api_orchestrator P in
      abind (observe A (\<lambda>_. get_artifact (upr_tenant_id p) artifact_id)) (\<lambda>found.
      abind (live_artifact found) (\<lambda>artifact.
      case api_artifact_store P of
        None \<Rightarrow> raise (HTTPException 503 ''artifact storage unavailable'')
      | Some S \<Rightarrow>
          abind reading (\<lambda>n.
          let target = prepare_download (S n) artifact in
          abind (call A (\<lambda>e. append_event (AuditEvent e 0 (af_tenant_id artifact) ARTIFACT_DOWNLOADED Actor_USER
                   (Some (upr_user_id p)) (Some (af_task_id artifact)) [(''artifact_id'', JId (af_id artifact))]))) (\<lambda>_.
          ret \<lparr>ad_id = af_id artifact, ad_task_id = af_task_id artifact, ad_name = af_name artifact,
               ad_media_type = af_media_type artifact, ad_size_bytes = af_size_bytes artifact,
               ad_sha256 = af_sha256 artifact, ad_created_at = af_created_at artifact,
               ad_download_url = dt_download_url target, ad_expires_in_seconds = dt_expires_in_seconds target\<rparr>)))))"

definition delete_artifact_route :: "app \<Rightarrow> user_principal \<Rightarrow> uuid \<Rightarrow> artifact_metadata act" where
  "delete_artifact_route P p artifact_id =
     (let A = api_orchestrator P in
      abind (fresh A) (\<lambda>e.
      abind (or_lifecycle_error (call A (\<lambda>e'. delete_artifact e' (upr_tenant_id p) artifact_id (upr_user_id p)
               (clk e 0 + minutes (30 * 24 * 60))))) (\<lambda>artifact.
      if api_artifact_store P = None then ret (artifact_metadata_of artifact)
      else
        abind reading (\<lambda>n.
        abind (effect (Artifact_deleted (af_object_key artifact))) (\<lambda>_.
        abind (lift (api_delete_object P n (af_object_key artifact))) (\<lambda>_.
        ret (artifact_metadata_of artifact)))))))"

definition request_task_cancellation_route :: "app \<Rightarrow> user_principal \<Rightarrow> uuid \<Rightarrow> task_lifecycle_response act" where
  "request_task_cancellation_route P p task_id =
     abind (or_lifecycle_error (call (api_orchestrator P) (\<lambda>e.
              request_task_cancellation e (upr_tenant_id p) task_id (upr_user_id p)))) (\<lambda>task.
     ret \<lparr>ts_task_id = tk_id task, ts_state = tk_state task\<rparr>)"

section \<open>Personas\<close>

definition get_persona_route :: "app \<Rightarrow> user_principal \<Rightarrow> uuid \<Rightarrow> persona_profile act" where
  "get_persona_route P p tenant_id =
     abind (require_tenant tenant_id p) (\<lambda>_.
     abind (observe (api_orchestrator P) (\<lambda>_. get_active_persona tenant_id))
       (or_not_found ''active persona not found''))"

definition update_persona_route ::
  "app \<Rightarrow> user_principal \<Rightarrow> uuid \<Rightarrow> persona_update_request \<Rightarrow> persona_profile act" where
  "update_persona_route P p tenant_id body =
     (let A = api_orchestrator P in
      abind (require_tenant tenant_id p) (\<lambda>_.
      abind (require_tenant (pu_tenant_id body) p) (\<lambda>_.
      abind (observe A (\<lambda>_. get_active_persona tenant_id)) (\<lambda>active.
      abind (fresh A) (\<lambda>e.
      abind (lift (checked valid_persona_profile
        \<lparr>pp_id = gen e 0, pp_tenant_id = tenant_id,
         pp_version = (case active of None \<Rightarrow> 0 | Some a \<Rightarrow> pp_version a) + 1,
         pp_authored_core = pu_authored_core body, pp_created_at = clk e 0\<rparr>)) (\<lambda>profile.
      or_conflict (call A (\<lambda>e'. create_persona_profile e' profile (upr_user_id p)))))))))"

definition revert_persona_route ::
  "app \<Rightarrow> user_principal \<Rightarrow> uuid \<Rightarrow> persona_revert_request \<Rightarrow> persona_profile act" where
  "revert_persona_route P p tenant_id body =
     abind (require_tenant tenant_id p) (\<lambda>_.
     abind (require_tenant (pv_tenant_id body) p) (\<lambda>_.
     or_lifecycle_error (call (api_orchestrator P) (\<lambda>e.
       revert_persona_profile e tenant_id (pv_version body) (upr_user_id p)))))"

section \<open>Imports\<close>

definition activate_migration_batch_route ::
  "app \<Rightarrow> user_principal \<Rightarrow> uuid \<Rightarrow> migration_persona_request \<Rightarrow> migration_batch act" where
  "activate_migration_batch_route P p batch_id body =
     (let A = api_orchestrator P; u = mp_tenant_id body in
      abind (require_tenant u p) (\<lambda>_.
      or_lifecycle_error
        (abind (call A (\<lambda>e. activate_migration_batch e u batch_id (upr_user_id p) (Some (mp_authored_core body)))) (\<lambda>batch.
         abind (observe A (\<lambda>_. list_memories u False)) (\<lambda>memories.
         abind (enqueue_vector_syncs A u
                  (map mr_id (filter (\<lambda>m. mr_import_batch_id m = Some batch_id) memories))) (\<lambda>_.
         ret batch))))))"

definition rollback_migration_batch_route ::
  "app \<Rightarrow> user_principal \<Rightarrow> uuid \<Rightarrow> migration_persona_request \<Rightarrow> migration_batch act" where
  "rollback_migration_batch_route P p batch_id body =
     (let A = api_orchestrator P; u = mp_tenant_id body in
      abind (require_tenant u p) (\<lambda>_.
      or_lifecycle_error
        (abind (call A (\<lambda>e. rollback_migration_batch e u batch_id (upr_user_id p))) (\<lambda>(batch, deleted).
         abind (enqueue_vector_syncs A u (map mr_id deleted)) (\<lambda>_.
         ret batch)))))"

section \<open>Memories and decisions\<close>

text \<open>\<^verbatim>\<open>f"{x:.2f}"\<close> of a number between 0 and 1, rounded half to even.\<close>

definition fixed2 :: "rat \<Rightarrow> string" where
  "fixed2 x =
     (let n = \<lfloor>100 * x\<rfloor>; r = 100 * x - of_int n;
          m = nat (if r < 1 / 2 \<or> (r = 1 / 2 \<and> even n) then n else n + 1) in
      nat_text (m div 100) @ ''.'' @ nat_text (m mod 100 div 10) @ nat_text (m mod 10))"

definition memory_explanation :: "memory_record \<Rightarrow> string" where
  "memory_explanation m =
     ''Extracted from message '' @ uuid_text (mr_source_message_id m) @ '' as '' @ memory_kind_value (mr_kind m) @
     ''; confidence '' @ fixed2 (mr_confidence m) @ '', state '' @ memory_state_value (mr_state m) @ ''.''"

definition explain_memory_route :: "app \<Rightarrow> user_principal \<Rightarrow> uuid \<Rightarrow> (memory_record \<times> string) act" where
  "explain_memory_route P p memory_id =
     abind (observe (api_orchestrator P) (\<lambda>_. get_memory (upr_tenant_id p) memory_id)) (\<lambda>found.
     abind (or_not_found ''memory not found''
              (case found of None \<Rightarrow> None | Some m \<Rightarrow> if mr_deleted_at m \<noteq> None then None else Some m)) (\<lambda>memory.
     ret (memory, memory_explanation memory)))"

definition delete_memory_route :: "app \<Rightarrow> user_principal \<Rightarrow> uuid \<Rightarrow> memory_record act" where
  "delete_memory_route P p memory_id =
     (let A = api_orchestrator P; u = upr_tenant_id p in
      abind (or_lifecycle_error (call A (\<lambda>e. delete_memory e u memory_id (upr_user_id p)))) (\<lambda>deleted.
      abind (enqueue_vector_sync A u (mr_id deleted)) (\<lambda>_. ret deleted)))"

definition review_memory_route ::
  "app \<Rightarrow> user_principal \<Rightarrow> uuid \<Rightarrow> memory_review_request \<Rightarrow> memory_record act" where
  "review_memory_route P p memory_id body =
     (let A = api_orchestrator P; u = vr_tenant_id body in
      abind (require_tenant u p) (\<lambda>_.
      abind (or_lifecycle_error (call A (\<lambda>e. review_memory e u memory_id (vr_promote body) (upr_user_id p)
               (vr_replaces_memory_id body)))) (\<lambda>reviewed.
      if mr_state reviewed = Mem_PROMOTED
      then abind (enqueue_vector_sync A u (mr_id reviewed)) (\<lambda>_.
           case vr_replaces_memory_id body of
             None \<Rightarrow> ret reviewed
           | Some replaced \<Rightarrow> abind (enqueue_vector_sync A u replaced) (\<lambda>_. ret reviewed))
      else ret reviewed)))"

definition pin_memory_route ::
  "app \<Rightarrow> user_principal \<Rightarrow> uuid \<Rightarrow> memory_pin_request \<Rightarrow> memory_record act" where
  "pin_memory_route P p memory_id body =
     abind (require_tenant (pr_tenant_id body) p) (\<lambda>_.
     or_lifecycle_error (call (api_orchestrator P) (\<lambda>e.
       pin_memory e (pr_tenant_id body) memory_id (pr_pinned body) (upr_user_id p))))"

definition decide_approval_route ::
  "app \<Rightarrow> user_principal \<Rightarrow> uuid \<Rightarrow> approval_decision_request \<Rightarrow> approval act" where
  "decide_approval_route P p approval_id body =
     abind (require_tenant (dr_tenant_id body) p) (\<lambda>_. decide P p approval_id body)"

end
