(* ===== verification/Routes.thy ===== *)
theory Routes
  imports AgentRoutes UserRoutes
begin

text \<open>
  The requests of users and of remote agents, one constructor per route with the parameters of its path and
  its body, and the routers that hand them to the routes. A body that violates the bounds of its model is
  answered with 422 before the route runs. The routes without a principal (\<^verbatim>\<open>/health\<close>) and the session audit,
  which is not in the store, are not among them.
\<close>

section \<open>Answers\<close>

datatype reply =
    Identity_reply admin_identity_response
  | Overview_reply admin_overview_response
  | Operations_reply admin_operations_response
  | Task_detail_reply admin_task_detail_response
  | Job_reply background_job
  | Jobs_reply "background_job list"
  | Agent_reply remote_agent
  | Agents_reply "remote_agent list"
  | Approval_reply approval
  | Approvals_reply "approval list"
  | Lifecycle_reply task_lifecycle_response
  | Task_reply task
  | Tasks_reply "task list"
  | Lease_reply task lease
  | Heartbeat_reply heartbeat_response
  | Memory_reply memory_record
  | Memories_reply "memory_record list"
  | Explanation_reply memory_record string
  | Conversation_reply conversation "conversation_message list"
  | Conversations_reply "conversation list"
  | Turn_reply int turn_response
  | Turns_reply "conversation_turn list"
  | Stream_reply "string list"
  | Events_reply "audit_event list"
  | Artifact_reply artifact_metadata
  | Artifacts_reply "artifact_metadata list"
  | Download_reply artifact_download
  | Upload_reply upload_target
  | Persona_reply persona_profile
  | Batch_reply migration_batch
  | Batches_reply "migration_batch list"
  | Empty_reply int

definition fmap :: "('a \<Rightarrow> 'b) \<Rightarrow> 'a act \<Rightarrow> 'b act" where
  "fmap f m = abind m (\<lambda>x. ret (f x))"

definition with_body :: "bool \<Rightarrow> 'a act \<Rightarrow> 'a act" where
  "with_body valid m = (if valid then m else raise (HTTPException 422 ''invalid request body''))"

section \<open>Users\<close>

datatype user_request =
    Admin_me
  | Admin_overview
  | Admin_operations
  | Admin_task uuid
  | Admin_requeue_job uuid
  | Admin_set_trust uuid trust_request
  | Admin_revoke uuid
  | Admin_decide uuid approval_decision_request
  | Admin_cancel uuid
  | Admin_review uuid memory_review_request
  | Create_task task
  | Create_conversation create_conversation_request
  | List_conversations uuid
  | Get_conversation uuid
  | Send_message uuid send_message_request
  | Stream_message uuid send_message_request
  | List_turns uuid
  | Get_turn uuid
  | List_events uuid
  | List_jobs uuid
  | List_aras uuid
  | List_artifacts uuid
  | Get_artifact uuid
  | Download_artifact uuid
  | Delete_artifact uuid
  | Cancel_task uuid
  | Get_persona uuid
  | Update_persona uuid persona_update_request
  | Revert_persona uuid persona_revert_request
  | List_memories uuid
  | List_batches uuid
  | Activate_batch uuid migration_persona_request
  | Rollback_batch uuid migration_persona_request
  | Explain_memory uuid
  | Delete_memory uuid
  | Review_memory uuid memory_review_request
  | Pin_memory uuid memory_pin_request
  | List_tasks uuid
  | List_approvals uuid
  | Decide_approval uuid approval_decision_request

primrec handle_user :: "app \<Rightarrow> user_principal \<Rightarrow> user_request \<Rightarrow> reply act" where
  "handle_user P p Admin_me = fmap Identity_reply (admin_identity p)"
| "handle_user P p Admin_overview = fmap Overview_reply (admin_overview P p)"
| "handle_user P p Admin_operations = fmap Operations_reply (admin_operations P p)"
| "handle_user P p (Admin_task k) = fmap Task_detail_reply (admin_task_detail P p k)"
| "handle_user P p (Admin_requeue_job k) = fmap Job_reply (admin_requeue_job P p k)"
| "handle_user P p (Admin_set_trust k b) =
     with_body (valid_trust_request b) (fmap Agent_reply (admin_set_ara_trust P p k b))"
| "handle_user P p (Admin_revoke k) = fmap Agent_reply (admin_revoke_ara P p k)"
| "handle_user P p (Admin_decide k b) = fmap Approval_reply (admin_decide_approval P p k b)"
| "handle_user P p (Admin_cancel k) = fmap Lifecycle_reply (admin_cancel_task P p k)"
| "handle_user P p (Admin_review k b) = fmap Memory_reply (admin_review_memory P p k b)"
| "handle_user P p (Create_task t) = with_body (valid_task t) (fmap Task_reply (create_task_route P p t))"
| "handle_user P p (Create_conversation b) =
     with_body (valid_create_conversation_request b)
       (fmap (\<lambda>c. Conversation_reply c []) (create_conversation_route P p b))"
| "handle_user P p (List_conversations t) = fmap Conversations_reply (list_conversations_route P p t)"
| "handle_user P p (Get_conversation k) =
     fmap (\<lambda>(c, ms). Conversation_reply c ms) (get_conversation_route P p k)"
| "handle_user P p (Send_message k b) =
     with_body (valid_send_message_request b) (fmap (\<lambda>(n, r). Turn_reply n r) (send_message_route P p k b))"
| "handle_user P p (Stream_message k b) =
     with_body (valid_send_message_request b) (fmap Stream_reply (stream_message_route P p k b))"
| "handle_user P p (List_turns k) = fmap Turns_reply (list_conversation_turns_route P p k)"
| "handle_user P p (Get_turn k) = fmap (Turn_reply 200) (get_conversation_turn_route P p k)"
| "handle_user P p (List_events t) = fmap Events_reply (list_events_route P p t)"
| "handle_user P p (List_jobs t) = fmap Jobs_reply (list_jobs_route P p t)"
| "handle_user P p (List_aras t) = fmap Agents_reply (list_aras_route P p t)"
| "handle_user P p (List_artifacts t) = fmap Artifacts_reply (list_artifacts_route P p t)"
| "handle_user P p (Get_artifact k) = fmap Artifact_reply (get_artifact_route P p k)"
| "handle_user P p (Download_artifact k) = fmap Download_reply (download_artifact_route P p k)"
| "handle_user P p (Delete_artifact k) = fmap Artifact_reply (delete_artifact_route P p k)"
| "handle_user P p (Cancel_task k) = fmap Lifecycle_reply (request_task_cancellation_route P p k)"
| "handle_user P p (Get_persona t) = fmap Persona_reply (get_persona_route P p t)"
| "handle_user P p (Update_persona t b) =
     with_body (valid_persona_core (pu_authored_core b)) (fmap Persona_reply (update_persona_route P p t b))"
| "handle_user P p (Revert_persona t b) =
     with_body (valid_persona_revert_request b) (fmap Persona_reply (revert_persona_route P p t b))"
| "handle_user P p (List_memories t) = fmap Memories_reply (list_memories_route P p t)"
| "handle_user P p (List_batches t) = fmap Batches_reply (list_migration_batches_route P p t)"
| "handle_user P p (Activate_batch k b) =
     with_body (valid_persona_core (mp_authored_core b)) (fmap Batch_reply (activate_migration_batch_route P p k b))"
| "handle_user P p (Rollback_batch k b) =
     with_body (valid_persona_core (mp_authored_core b)) (fmap Batch_reply (rollback_migration_batch_route P p k b))"
| "handle_user P p (Explain_memory k) =
     fmap (\<lambda>(m, text). Explanation_reply m text) (explain_memory_route P p k)"
| "handle_user P p (Delete_memory k) = fmap Memory_reply (delete_memory_route P p k)"
| "handle_user P p (Review_memory k b) = fmap Memory_reply (review_memory_route P p k b)"
| "handle_user P p (Pin_memory k b) = fmap Memory_reply (pin_memory_route P p k b)"
| "handle_user P p (List_tasks t) = fmap Tasks_reply (list_tasks_route P p t)"
| "handle_user P p (List_approvals t) = fmap Approvals_reply (list_approvals_route P p t)"
| "handle_user P p (Decide_approval k b) = fmap Approval_reply (decide_approval_route P p k b)"

section \<open>Remote agents\<close>

datatype ara_request =
    Register register_request
  | Lease lease_request
  | Ara_event ara_event_request
  | Heartbeat heartbeat_request
  | Renew renew_lease_request
  | Complete complete_task_request
  | Cancel cancel_task_request
  | Fail fail_task_request
  | Ask_approval approval_request
  | Upload artifact_upload_request

primrec handle_ara :: "app \<Rightarrow> ara_principal \<Rightarrow> ara_request \<Rightarrow> reply act" where
  "handle_ara P p (Register b) =
     with_body (valid_register_request b) (fmap Agent_reply (register_route P p b))"
| "handle_ara P p (Lease b) =
     with_body (valid_lease_request b)
       (fmap (\<lambda>r. case r of None \<Rightarrow> Empty_reply 204 | Some (t, l) \<Rightarrow> Lease_reply t l) (lease_route P p b))"
| "handle_ara P p (Ara_event b) =
     with_body (valid_ara_event_request b) (fmap (\<lambda>_. Empty_reply 202) (ara_event_route P p b))"
| "handle_ara P p (Heartbeat b) = fmap Heartbeat_reply (heartbeat_route P p b)"
| "handle_ara P p (Renew b) =
     with_body (valid_renew_lease_request b) (fmap (\<lambda>(t, l). Lease_reply t l) (renew_route P p b))"
| "handle_ara P p (Complete b) =
     with_body (valid_complete_task_request b) (fmap Lifecycle_reply (complete_route P p b))"
| "handle_ara P p (Cancel b) =
     with_body (valid_cancel_task_request b) (fmap Lifecycle_reply (cancel_route P p b))"
| "handle_ara P p (Fail b) =
     with_body (valid_fail_task_request b) (fmap Lifecycle_reply (fail_route P p b))"
| "handle_ara P p (Ask_approval b) =
     with_body (valid_approval_request b) (fmap Approval_reply (request_approval_route P p b))"
| "handle_ara P p (Upload b) =
     with_body (valid_artifact_upload_request b) (fmap Upload_reply (artifact_upload_route P p b))"

end
