(* ===== verification/RouteCalls.thy ===== *)
theory RouteCalls
  imports TurnGuarantee Routes
begin

text \<open>
  What the calls the routes make may add to the store, and whose rows they return: the facts from which the
  next theory proves that every request keeps to the contract of the store.
\<close>

section \<open>Identifiers\<close>

lemma ids_in_write_more:
  "t0 = st_remote_agents s \<Longrightarrow> ids_in (s\<lparr>st_remote_agents := AList.update k x0 t0\<rparr>) = insert k (ids_in s)"
  "t1 = st_personas s \<Longrightarrow> ids_in (s\<lparr>st_personas := AList.update k x1 t1\<rparr>) = insert k (ids_in s)"
  "t2 = st_migration_batches s \<Longrightarrow> ids_in (s\<lparr>st_migration_batches := AList.update k x2 t2\<rparr>) = insert k (ids_in s)"
  "t3 = st_artifacts s \<Longrightarrow> ids_in (s\<lparr>st_artifacts := AList.update k x3 t3\<rparr>) = insert k (ids_in s)"
  "t4 = st_leases s \<Longrightarrow> ids_in (s\<lparr>st_leases := AList.update k x4 t4\<rparr>) = insert k (ids_in s)"
  "ids_in (s\<lparr>st_active_persona_ids := ps\<rparr>) = ids_in s"
  unfolding ids_in_def by (simp_all add: fst_update)

lemma ids_in_row_more:
  "map_of (st_remote_agents s) k = Some x0 \<Longrightarrow> k \<in> ids_in s"
  "map_of (st_migration_batches s) k = Some x1 \<Longrightarrow> k \<in> ids_in s"
  "map_of (st_artifacts s) k = Some x2 \<Longrightarrow> k \<in> ids_in s"
  "map_of (st_leases s) k = Some x3 \<Longrightarrow> k \<in> ids_in s"
  unfolding ids_in_def by (auto dest!: map_of_SomeD simp: rev_image_eqI)

lemma not_in_ids_more:
  assumes "k \<notin> ids_in s"
  shows "map_of (st_remote_agents s) k = None" "map_of (st_conversations s) k = None"
    "map_of (st_personas s) k = None" "map_of (st_artifacts s) k = None"
  using assms by (simp_all add: ids_in_def map_of_eq_None_iff)

lemmas ids_writes = ids_in_write ids_in_write_more
lemmas ids_rows = ids_in_row ids_in_row_more

lemma fst_write_memories: "fst ` set (write_memories ms tbl) = fst ` set tbl \<union> mr_id ` set ms"
  unfolding write_memories_def by (induction ms arbitrary: tbl) (auto simp: fst_update)

lemma ids_write_memories:
  "t = st_memories s \<Longrightarrow> ids_in (s\<lparr>st_memories := write_memories ms t\<rparr>) = ids_in s \<union> mr_id ` set ms"
  unfolding ids_in_def by (auto simp: fst_write_memories)

lemma ids_write_artifacts:
  "t = st_artifacts s \<Longrightarrow>
     ids_in (s\<lparr>st_artifacts := fold (\<lambda>a. AList.update (af_id a) a) fs t\<rparr>) = ids_in s \<union> af_id ` set fs"
proof -
  have "fst ` set (fold (\<lambda>a. AList.update (af_id a) a) fs tbl) = fst ` set tbl \<union> af_id ` set fs" for tbl
    by (induction fs arbitrary: tbl) (auto simp: fst_update)
  then show "t = st_artifacts s \<Longrightarrow> ?thesis" unfolding ids_in_def by auto
qed

lemma memory_id_in:
  assumes "store_ok s" and "(k, m) \<in> set (st_memories s)"
  shows "mr_id m \<in> ids_in s"
proof -
  from assms(1) have "keyed mr_id (st_memories s)" by (simp add: store_ok_def keys_ok_def)
  moreover from assms(2) have "m \<in> set (dict_values (st_memories s))" by force
  ultimately have "map_of (st_memories s) (mr_id m) = Some m" using keyed_values[of mr_id "st_memories s" m] by blast
  then show ?thesis by (rule ids_in_row(5))
qed

lemma ids_memories: "ids_in (s\<lparr>st_memories := t\<rparr>) \<subseteq> ids_in s \<union> fst ` set t"
  unfolding ids_in_def by auto

text \<open>Calls of operators and users.\<close>

lemma ids_requeue_job: "ids_in (snd (requeue_job e u k a s)) \<subseteq> ids_in s"
  by (auto simp: requeue_job_def ids_writes Let_def split: option.splits dest: ids_rows)

lemma ids_enqueue_job: "ids_in (snd (enqueue_job j s)) \<subseteq> ids_in s \<union> {jb_id j}"
  by (auto simp: enqueue_job_def ids_writes Let_def split: option.splits)

lemma ids_set_trust: "ids_in (snd (set_remote_agent_trust e u k n a s)) \<subseteq> ids_in s"
  by (auto simp: set_remote_agent_trust_def ids_writes Let_def split: option.splits dest: ids_rows)

lemma ids_expire_leases:
  "fst ` set (expire_leases e u k n ls tbl) \<subseteq> fst ` set tbl \<union> ls_task_id ` set ls"
  by (induction e u k n ls tbl rule: expire_leases.induct) (auto simp: fst_update)

lemma lease_task_in:
  assumes "store_ok s" and "l \<in> snd ` set (st_leases s)"
  shows "ls_task_id l \<in> fst ` set (st_tasks s)"
proof -
  from assms obtain k where "map_of (st_leases s) k = Some l"
    by (auto simp: store_ok_def leases_ok_def)
  with assms(1) have "has_row tk_tenant_id (ls_tenant_id l) (ls_task_id l) (st_tasks s)"
    by (auto simp: store_ok_def leases_ok_def lease_ok_def)
  then show ?thesis by (auto simp: has_row_def dest!: map_of_SomeD simp: rev_image_eqI)
qed

lemma ids_revoke_ara:
  assumes "store_ok s"
  shows "ids_in (snd (revoke_remote_agent e u k a s)) \<subseteq> ids_in s"
proof -
  have "ls_task_id ` set (dict_values (st_leases s)) \<subseteq> fst ` set (st_tasks s)"
    using lease_task_in[OF assms] by auto
  then have "fst ` set (expire_leases e u k 0 (dict_values (st_leases s)) (st_leases s)) \<subseteq>
      fst ` set (st_leases s) \<union> fst ` set (st_tasks s)"
    using ids_expire_leases[of e u k 0 "dict_values (st_leases s)" "st_leases s"] by blast
  moreover have "k \<in> fst ` set (st_remote_agents s)" if "map_of (st_remote_agents s) k = Some x" for x
    using that by (metis map_of_eq_None_iff option.distinct(1))
  ultimately show ?thesis
    by (auto simp: revoke_remote_agent_def ids_in_def fst_update Let_def split: option.splits simp del: set_map)
qed

lemma ids_decide_approval:
  assumes "store_ok s"
  shows "ids_in (snd (decide_approval e u k st a s)) \<subseteq> ids_in s"
proof -
  have "iv_id i \<in> ids_in s" if "map_of (st_tool_invocations s) k = Some i" for k i
    using ids_in_row(4)[OF that] keyed_mapof[OF store_ok_keyed(3)[OF assms] that] by simp
  moreover have "tn_id t \<in> ids_in s" if "map_of (st_turns s) k = Some t" for k t
    using ids_in_row(3)[OF that] keyed_mapof[OF store_ok_keyed(2)[OF assms] that] by simp
  ultimately show ?thesis
    by (auto simp: decide_approval_def decide_invocation_def ids_writes Let_def
        split: option.splits prod.splits dest: ids_rows)
qed

lemma ids_request_cancellation: "ids_in (snd (request_task_cancellation e u k a s)) \<subseteq> ids_in s"
  by (auto simp: request_task_cancellation_def ids_writes Let_def split: option.splits dest: ids_rows)

lemma ids_delete_memory: "ids_in (snd (delete_memory e u k a s)) \<subseteq> ids_in s"
  by (auto simp: delete_memory_def ids_writes Let_def split: option.splits dest: ids_rows)

lemma ids_pin_memory: "ids_in (snd (pin_memory e u k b a s)) \<subseteq> ids_in s"
  by (auto simp: pin_memory_def ids_writes Let_def split: option.splits dest: ids_rows)

lemma replacement_in:
  "check_replacement s u promote rid = Inr (Some r) \<Longrightarrow>
     \<exists>k. rid = Some k \<and> map_of (st_memories s) k = Some r \<and> mr_tenant_id r = u"
  by (auto simp: check_replacement_def split: option.splits if_splits)

lemma ids_review_memory:
  assumes "store_ok s"
  shows "ids_in (snd (review_memory e u k promote a rid s)) \<subseteq> ids_in s"
proof -
  have rep: "mr_id r \<in> ids_in s" if "check_replacement s u promote rid = Inr (Some r)" for r :: memory_record
    using replacement_in[OF that] memory_id_in[OF assms] by (blast dest: map_of_SomeD)
  have two: "ids_in (s\<lparr>st_memories := AList.update i x (AList.update j y (st_memories s)), st_events := evs\<rparr>) \<subseteq> ids_in s"
    if "i \<in> ids_in s" "j \<in> ids_in s" for i j x y evs
  proof -
    have "fst ` set (st_memories s) \<subseteq> ids_in s" unfolding ids_in_def by blast
    then have "ids_in s \<union> fst ` set (AList.update i x (AList.update j y (st_memories s))) \<subseteq> ids_in s"
      using that by (simp add: fst_update)
    with ids_memories show ?thesis unfolding ids_in_events by (rule order.trans)
  qed
  show ?thesis
  proof (cases "map_of (st_memories s) k")
    case None
    then show ?thesis by (simp add: review_memory_def scoped_def)
  next
    case (Some m)
    then have k: "k \<in> ids_in s" by (rule ids_in_row(5))
    note written = two[OF _ k, unfolded ids_in_events]
    show ?thesis
      using Some k rep written
      by (cases "check_replacement s u promote rid"; cases "projr (check_replacement s u promote rid)")
         (auto simp: review_memory_def scoped_def ids_writes Let_def simp del: if_split split: if_split)
  qed
qed

lemma ids_create_persona: "ids_in (snd (create_persona_profile e p a s)) \<subseteq> ids_in s \<union> {pp_id p}"
  by (auto simp: create_persona_profile_def ids_writes)

lemma ids_revert_persona: "ids_in (snd (revert_persona_profile e u v a s)) \<subseteq> ids_in s"
  by (auto simp: revert_persona_profile_def ids_writes split: option.splits)

lemma ids_activate_batch:
  assumes "store_ok s"
  shows "ids_in (snd (activate_migration_batch e u k a core s)) \<subseteq> ids_in s \<union> range (gen e)"
  using memory_id_in[OF assms]
  by (auto simp: activate_migration_batch_def ids_writes ids_write_memories promote_imported_def Let_def
      split: option.splits dest: ids_rows)

lemma ids_rollback_batch:
  assumes "store_ok s"
  shows "ids_in (snd (rollback_migration_batch e u k a s)) \<subseteq> ids_in s"
  using memory_id_in[OF assms]
  by (auto simp: rollback_migration_batch_def ids_writes ids_write_memories delete_imported_def Let_def
      split: option.splits dest: ids_rows)

lemma ids_create_conversation: "ids_in (snd (create_conversation c ev s)) \<subseteq> ids_in s \<union> {cv_id c}"
  by (auto simp: create_conversation_def ids_writes)

lemma ids_delete_artifact: "ids_in (snd (delete_artifact e u k a x s)) \<subseteq> ids_in s"
  by (auto simp: delete_artifact_def ids_writes Let_def split: option.splits dest: ids_rows)

lemma ids_claim_turn:
  assumes "store_ok s"
  shows "ids_in (snd (claim_turn e u k l x s)) \<subseteq> ids_in s"
proof -
  have "tn_id t \<in> ids_in s" if "map_of (st_turns s) k = Some t" for k t
    using ids_in_row(3)[OF that] keyed_mapof[OF store_ok_keyed(2)[OF assms] that] by simp
  then show ?thesis by (auto simp: claim_turn_def ids_writes Let_def split: option.splits)
qed

text \<open>Calls of remote agents.\<close>

lemma ids_register_ara: "ids_in (snd (register_ara a ev s)) \<subseteq> ids_in s \<union> {ra_id a}"
  by (auto simp: register_ara_def ids_writes Let_def split: option.splits)

lemma active_lease_found:
  "active_lease now s u a k l = Inr (t, x) \<Longrightarrow>
     map_of (st_tasks s) k = Some t \<and> tk_tenant_id t = u \<and> map_of (st_leases s) l = Some x \<and> ls_tenant_id x = u"
  by (auto simp: active_lease_def split: option.splits if_splits)

lemma ids_heartbeat: "ids_in (snd (heartbeat e u a k l s)) \<subseteq> ids_in s"
  by (auto simp: heartbeat_def ids_writes Let_def split: option.splits sum.splits dest: ids_rows)

lemma ids_record_progress: "ids_in (snd (record_progress e u a k l m p s)) \<subseteq> ids_in s"
  by (auto simp: record_progress_def split: sum.splits)

lemma ids_renew_lease: "ids_in (snd (renew_lease e u a k l x s)) \<subseteq> ids_in s"
  by (auto simp: renew_lease_def ids_writes Let_def split: sum.splits dest!: active_lease_found dest: ids_rows)

lemma ids_request_approval: "ids_in (snd (request_approval e u a k l ap s)) \<subseteq> ids_in s \<union> {ap_id ap}"
  by (auto simp: request_approval_def ids_writes split: sum.splits)

section \<open>Rows of the tenant\<close>

text \<open>Whose rows the calls return.\<close>

lemma requeue_job_tenant: "fst (requeue_job e u k a s) = Inr x \<Longrightarrow> jb_tenant_id x = u"
  by (auto simp: requeue_job_def Let_def split: option.splits if_splits)

lemma set_trust_tenant: "fst (set_remote_agent_trust e u k n a s) = Inr x \<Longrightarrow> ra_tenant_id x = u"
  by (auto simp: set_remote_agent_trust_def Let_def split: option.splits if_splits)

lemma revoke_ara_tenant: "fst (revoke_remote_agent e u k a s) = Inr x \<Longrightarrow> ra_tenant_id x = u"
  by (auto simp: revoke_remote_agent_def Let_def split: option.splits if_splits)

lemma decide_approval_tenant: "fst (decide_approval e u k st a s) = Inr x \<Longrightarrow> ap_tenant_id x = u"
  by (auto simp: decide_approval_def Let_def split: option.splits if_splits prod.splits)

lemma delete_memory_tenant: "fst (delete_memory e u k a s) = Inr x \<Longrightarrow> mr_tenant_id x = u"
  by (auto simp: delete_memory_def Let_def split: option.splits if_splits)

lemma pin_memory_tenant: "fst (pin_memory e u k b a s) = Inr x \<Longrightarrow> mr_tenant_id x = u"
  by (auto simp: pin_memory_def Let_def split: option.splits if_splits)

lemma review_memory_tenant: "fst (review_memory e u k promote a rid s) = Inr x \<Longrightarrow> mr_tenant_id x = u"
  by (auto simp: review_memory_def Let_def split: option.splits if_splits sum.splits)

lemma create_persona_tenant: "fst (create_persona_profile e p a s) = Inr x \<Longrightarrow> pp_tenant_id x = pp_tenant_id p"
  by (auto simp: create_persona_profile_def split: if_splits)

lemma revert_persona_tenant: "fst (revert_persona_profile e u v a s) = Inr x \<Longrightarrow> pp_tenant_id x = u"
  by (auto simp: revert_persona_profile_def find_Some_iff split: option.splits)

lemma activate_batch_tenant: "fst (activate_migration_batch e u k a core s) = Inr x \<Longrightarrow> mb_tenant_id x = u"
  by (auto simp: activate_migration_batch_def Let_def split: option.splits if_splits)

lemma rollback_batch_tenant: "fst (rollback_migration_batch e u k a s) = Inr x \<Longrightarrow> mb_tenant_id (fst x) = u"
  by (auto simp: rollback_migration_batch_def Let_def split: option.splits if_splits)

lemma delete_artifact_tenant: "fst (delete_artifact e u k a x s) = Inr y \<Longrightarrow> af_tenant_id y = u"
  by (auto simp: delete_artifact_def Let_def split: option.splits if_splits)

lemma claim_turn_tenant: "fst (claim_turn e u k l x s) = Inr (Some t) \<Longrightarrow> tn_tenant_id t = u"
  by (auto simp: claim_turn_def Let_def split: option.splits if_splits)

lemma register_ara_tenant: "fst (register_ara a ev s) = Inr x \<Longrightarrow> ra_tenant_id x = ra_tenant_id a"
  by (auto simp: register_ara_def Let_def split: option.splits)

lemma mk_lease_tenant: "mk_lease i u k a now x = Inr l \<Longrightarrow> ls_tenant_id l = u"
  by (auto simp: mk_lease_def split: pydatetime.splits if_splits)

lemma lease_task_tenant:
  "fst (lease_task e u a x s) = Inr (Some (t, l)) \<Longrightarrow> tk_tenant_id t = u \<and> ls_tenant_id l = u"
  by (auto simp: lease_task_def Let_def find_Some_iff leasable_def split: option.splits sum.splits
      dest: mk_lease_tenant)

lemma renew_lease_tenant: "fst (renew_lease e u a k l x s) = Inr y \<Longrightarrow> ls_tenant_id y = u"
  by (auto simp: renew_lease_def Let_def split: sum.splits dest!: active_lease_found)

lemma request_approval_tenant: "fst (request_approval e u a k l ap s) = Inr y \<Longrightarrow> ap_tenant_id y = u"
  by (auto simp: request_approval_def split: sum.splits if_splits)

lemma active_persona_tenant: "store_ok s \<Longrightarrow> get_active_persona u s = Some p \<Longrightarrow> pp_tenant_id p = u"
  by (fastforce simp: get_active_persona_def store_ok_def refs_ok_def has_row_def split: option.splits)

section \<open>What routes keep\<close>

text \<open>
  Every route keeps to the contract of the store, and what it answers with belongs to the tenant of the
  sender. \<open>mine S f\<close> says that a row is of that tenant.
\<close>

section \<open>Rules for routes\<close>

text \<open>A call that may also draw identifiers itself.\<close>

definition drawing_call :: "setting \<Rightarrow> uuid set \<Rightarrow> (env \<Rightarrow> store \<Rightarrow> 'a result) \<Rightarrow> ('a \<Rightarrow> bool) \<Rightarrow> bool" where
  "drawing_call S X g P \<longleftrightarrow>
     (\<forall>e s. store_ok s \<longrightarrow> X \<inter> ids_in s = {} \<longrightarrow> range (gen e) \<inter> ids_in s = {} \<longrightarrow>
        runs_in (sp_tenants S) s (snd (g e s)) \<and> ids_in (snd (g e s)) \<subseteq> ids_in s \<union> X \<union> range (gen e) \<and>
        (\<forall>x. fst (g e s) = Inr x \<longrightarrow> P x))"

lemma good_drawing_call:
  assumes "served S" and "drawing_call S X g Q"
  shows "good S X T (call (sp_agent S) g) Q"
proof (rule goodI)
  fix st r st'
  assume sup0: "supplied S X T st" and run: "call (sp_agent S) g st = (r, st')"
  let ?n = "os_reading st"
  let ?e = "oc_env (sp_agent S) ?n"
  define s where "s = oc_others (sp_agent S) ?n (os_store st)"
  have sup: "supplied S X T (st\<lparr>os_store := s\<rparr>)" unfolding s_def by (rule supplied_others[OF assms(1) sup0])
  then have ok: "store_ok s" and free: "X \<inter> ids_in s = {}" "undrawn S ?n \<inter> ids_in s = {}"
    and X: "X \<subseteq> drawn S ?n" and start: "runs_in (sp_tenants S) (sp_start S) s"
    by (auto simp: supplied_def)
  have new: "range (gen ?e) \<inter> ids_in s = {}" using free(2) undrawn_Suc[of S ?n] by blast
  from assms(2) ok free(1) new have g: "runs_in (sp_tenants S) s (snd (g ?e s))"
    "ids_in (snd (g ?e s)) \<subseteq> ids_in s \<union> X \<union> range (gen ?e)" "\<forall>x. fst (g ?e s) = Inr x \<longrightarrow> Q x"
    unfolding drawing_call_def by blast+
  have st': "st' = st\<lparr>os_store := snd (g ?e s), os_reading := Suc ?n\<rparr>" "r = fst (g ?e s)"
    using run by (auto simp: call_def s_def split: prod.splits)
  have "X \<inter> undrawn S (Suc ?n) = {}" "range (gen ?e) \<inter> undrawn S (Suc ?n) = {}"
    using X drawn_undrawn[OF assms(1), of ?n] undrawn_Suc[of S ?n]
    by (blast, auto simp: undrawn_def gen_eq[OF assms(1)])
  then have "undrawn S (Suc ?n) \<inter> ids_in (snd (g ?e s)) = {}"
    using g(2) free(2) undrawn_Suc[of S ?n] by blast
  then show "supplied S {} {} st' \<and> (\<forall>x. r = Inr x \<longrightarrow> Q x)"
    using st' g(3) runs_in_trans[OF start g(1)] runs_in_ok[OF g(1) ok] by (simp add: supplied_def)
qed

lemma good_step_call:
  assumes "served S"
    and "\<And>(e :: env) s. store_ok s \<Longrightarrow> X \<inter> ids_in s = {} \<Longrightarrow> range (gen e) \<inter> ids_in s = {} \<Longrightarrow>
           store_step (sp_tenant S) s (snd (g e s))"
    and "\<And>(e :: env) s. store_ok s \<Longrightarrow> ids_in (snd (g e s)) \<subseteq> ids_in s \<union> X \<union> range (gen e)"
    and "\<And>e s x. store_ok s \<Longrightarrow> fst (g e s) = Inr x \<Longrightarrow> Q x"
  shows "good S X T (call (sp_agent S) g) Q"
proof (rule good_drawing_call[OF assms(1)], unfold drawing_call_def, intro allI impI conjI)
  fix e :: env and s
  assume ok: "store_ok s" and "X \<inter> ids_in s = {}" "range (gen e) \<inter> ids_in s = {}"
  then have "store_step (sp_tenant S) s (snd (g e s))" by (rule assms(2))
  moreover have "sp_tenant S \<in> sp_tenants S" using assms(1) by (simp add: served_def)
  ultimately show "runs_in (sp_tenants S) s (snd (g e s))" by (intro runs_in_step)
  show "ids_in (snd (g e s)) \<subseteq> ids_in s \<union> X \<union> range (gen e)" by (rule assms(3)[OF ok])
qed (rule assms(4))

lemma good_plain_call:
  assumes "served S" and "\<And>e s. store_step (sp_tenant S) s (snd (g e s))"
    and "\<And>e s. store_ok s \<Longrightarrow> ids_in (snd (g e s)) \<subseteq> ids_in s"
    and "\<And>e s x. store_ok s \<Longrightarrow> fst (g e s) = Inr x \<Longrightarrow> Q x"
  shows "good S X T (call (sp_agent S) g) Q"
  by (rule good_step_call[OF assms(1)]) (use assms in blast)+

lemma good_observe:
  assumes "served S" and "\<And>e s. store_ok s \<Longrightarrow> Q (f e s)"
  shows "good S X T (observe (sp_agent S) f) Q"
  unfolding observe_def
  by (rule good_drawing_call[OF assms(1)]) (use assms(2) in \<open>auto simp: drawing_call_def\<close>)

lemma good_observe_or_raise:
  assumes "served S" and "\<And>e s x. f e s = Inr x \<Longrightarrow> Q x"
  shows "good S X T (observe_or_raise (sp_agent S) f) Q"
  unfolding observe_or_raise_def
  by (rule good_drawing_call[OF assms(1)]) (use assms(2) in \<open>auto simp: drawing_call_def\<close>)

lemma good_or_lifecycle: "good S X T m Q \<Longrightarrow> good S X T (or_lifecycle_error m) Q"
  unfolding or_lifecycle_error_def by (rule good_handle) (auto intro: good_raise)

lemma good_or_conflict: "good S X T m Q \<Longrightarrow> good S X T (or_conflict m) Q"
  unfolding or_conflict_def by (rule good_handle) (auto intro: good_raise)

lemma good_after_all:
  assumes "good S X T m Q" and "good S {} {} f (\<lambda>_. True)"
  shows "good S X T (after_all m f) Q"
proof (rule goodI)
  fix st r st'
  assume s: "supplied S X T st" and run: "after_all m f st = (r, st')"
  obtain r1 st1 where m: "m st = (r1, st1)" by (cases "m st")
  obtain r2 st2 where f: "f st1 = (r2, st2)" by (cases "f st1")
  from goodD[OF assms(1) s m] have q: "supplied S {} {} st1" "\<forall>x. r1 = Inr x \<longrightarrow> Q x" by blast+
  from goodD[OF assms(2) q(1) f] have "supplied S {} {} st2" by blast
  then show "supplied S {} {} st' \<and> (\<forall>x. r = Inr x \<longrightarrow> Q x)"
    using run m f q(2) by (auto simp: after_all_def split: sum.splits)
qed

lemma good_require_operator: "good S X T m Q \<Longrightarrow> good S X T (abind (require_operator p) (\<lambda>_. m)) Q"
  by (simp add: require_operator_def good_raise)

lemma good_require_mutation: "good S X T m Q \<Longrightarrow> good S X T (abind (require_operator_mutation p) (\<lambda>_. m)) Q"
  by (simp add: require_operator_mutation_def good_raise)

lemma good_require_tenant:
  "(t = upr_tenant_id p \<Longrightarrow> good S X T m Q) \<Longrightarrow> good S X T (abind (require_tenant t p) (\<lambda>_. m)) Q"
  by (simp add: require_tenant_def good_raise)

lemma good_require_agent:
  "(t = apr_tenant_id p \<Longrightarrow> a = apr_ara_id p \<Longrightarrow> good S X T m Q) \<Longrightarrow>
     good S X T (abind (require_agent t a p) (\<lambda>_. m)) Q"
  by (simp add: require_agent_def good_raise)

lemma good_or_not_found: "(\<And>y. x = Some y \<Longrightarrow> good S X T (f y) Q) \<Longrightarrow> good S X T (abind (or_not_found d x) f) Q"
  by (cases x) (simp_all add: or_not_found_def good_raise)

lemma good_effect: "good S X T (effect x) (\<lambda>_. True)"
  by (rule goodI) (auto simp: effect_def supplied_def)

lemma good_advance_turn: "good S X T (advance_turn t) (\<lambda>_. True)"
  unfolding advance_turn_def by (rule good_effect)

lemma good_with_body: "(b \<Longrightarrow> good S X T m Q) \<Longrightarrow> good S X T (with_body b m) Q"
  by (simp add: with_body_def good_raise)

lemma good_fmap: "good S X T m (\<lambda>x. Q (f x)) \<Longrightarrow> good S X T (fmap f m) Q"
  unfolding fmap_def by (rule good_bind[where P = "\<lambda>x. Q (f x)"]) (auto intro: good_ret)

lemma good_enqueue_vector_sync:
  assumes "served S"
  shows "good S X T (enqueue_vector_sync (sp_agent S) (sp_tenant S) k) (\<lambda>_. True)"
  unfolding enqueue_vector_sync_def
proof (rule good_fresh_bind[OF assms])
  fix e :: env
  assume X: "X \<inter> range (gen e) = {}"
  let ?j = "vector_sync e (sp_tenant S) k"
  have "good S (X \<union> range (gen e)) T (call (sp_agent S) (\<lambda>_. enqueue_job ?j)) (\<lambda>_. True)"
  proof (rule good_step_call[OF assms])
    fix e' :: env and s
    assume "(X \<union> range (gen e)) \<inter> ids_in s = {}"
    then have "gen e 0 \<notin> ids_in s" by blast
    then show "store_step (sp_tenant S) s (snd (enqueue_job ?j s))"
      by (intro step_enqueue_job) (auto simp: vector_sync_def job_new_def valid_job_def dest: not_in_ids)
  next
    fix e' :: env and s
    have "jb_id ?j = gen e 0" by (simp add: vector_sync_def)
    with ids_enqueue_job[of ?j s]
    show "ids_in (snd (enqueue_job ?j s)) \<subseteq> ids_in s \<union> (X \<union> range (gen e)) \<union> range (gen e')" by auto
  qed simp
  then show "good S (X \<union> range (gen e)) T
      (abind (call (sp_agent S) (\<lambda>_. enqueue_job ?j)) (\<lambda>_. ret ())) (\<lambda>_. True)"
    by (rule good_bind) (auto intro: good_ret)
qed

lemma good_enqueue_vector_syncs:
  "served S \<Longrightarrow> good S X T (enqueue_vector_syncs (sp_agent S) (sp_tenant S) ks) (\<lambda>_. True)"
  by (induction ks arbitrary: X T) (auto intro: good_ret good_bind[OF good_enqueue_vector_sync])

section \<open>Answers\<close>

text \<open>
  Route by route: each keeps to the contract of the store for the tenant of the sender, and the rows in its
  answer are of that tenant.
\<close>

section \<open>Whose rows an answer shows\<close>

primrec reply_tenants :: "reply \<Rightarrow> uuid set" where
  "reply_tenants (Identity_reply r) = {ai_tenant_id r}"
| "reply_tenants (Overview_reply r) = {ao_tenant_id r}"
| "reply_tenants (Operations_reply r) =
     tk_tenant_id ` set (ax_tasks r) \<union> ap_tenant_id ` set (ax_approvals r) \<union>
     ra_tenant_id ` set (ax_remote_agents r) \<union> jb_tenant_id ` set (ax_jobs r) \<union>
     mr_tenant_id ` set (ax_memories r) \<union> ev_tenant_id ` set (ax_events r)"
| "reply_tenants (Task_detail_reply r) =
     {tk_tenant_id (at_task r)} \<union> ev_tenant_id ` set (at_events r) \<union> ev_tenant_id ` set (at_progress r)"
| "reply_tenants (Job_reply j) = {jb_tenant_id j}"
| "reply_tenants (Jobs_reply js) = jb_tenant_id ` set js"
| "reply_tenants (Agent_reply a) = {ra_tenant_id a}"
| "reply_tenants (Agents_reply as) = ra_tenant_id ` set as"
| "reply_tenants (Approval_reply a) = {ap_tenant_id a}"
| "reply_tenants (Approvals_reply as) = ap_tenant_id ` set as"
| "reply_tenants (Lifecycle_reply r) = {}"
| "reply_tenants (Task_reply t) = {tk_tenant_id t}"
| "reply_tenants (Tasks_reply ts) = tk_tenant_id ` set ts"
| "reply_tenants (Lease_reply t l) = {tk_tenant_id t, ls_tenant_id l}"
| "reply_tenants (Heartbeat_reply r) = {}"
| "reply_tenants (Memory_reply m) = {mr_tenant_id m}"
| "reply_tenants (Memories_reply ms) = mr_tenant_id ` set ms"
| "reply_tenants (Explanation_reply m text) = {mr_tenant_id m}"
| "reply_tenants (Conversation_reply c ms) = {cv_tenant_id c} \<union> ms_tenant_id ` set ms"
| "reply_tenants (Conversations_reply cs) = cv_tenant_id ` set cs"
| "reply_tenants (Turn_reply n r) =
     {tn_tenant_id (tp_turn r), ms_tenant_id (tp_user_message r)} \<union> ms_tenant_id ` set_option (tp_assistant_message r)"
| "reply_tenants (Turns_reply ts) = tn_tenant_id ` set ts"
| "reply_tenants (Stream_reply texts) = {}"
| "reply_tenants (Events_reply evs) = ev_tenant_id ` set evs"
| "reply_tenants (Artifact_reply a) = {}"
| "reply_tenants (Artifacts_reply as) = {}"
| "reply_tenants (Download_reply d) = {}"
| "reply_tenants (Upload_reply t) = {}"
| "reply_tenants (Persona_reply p) = {pp_tenant_id p}"
| "reply_tenants (Batch_reply b) = {mb_tenant_id b}"
| "reply_tenants (Batches_reply bs) = mb_tenant_id ` set bs"
| "reply_tenants (Empty_reply n) = {}"

definition own_reply :: "setting \<Rightarrow> reply \<Rightarrow> bool" where
  "own_reply S r \<longleftrightarrow> reply_tenants r \<subseteq> {sp_tenant S}"

definition for_user :: "setting \<Rightarrow> app \<Rightarrow> user_principal \<Rightarrow> bool" where
  "for_user S P p \<longleftrightarrow> served S \<and> api_orchestrator P = sp_agent S \<and> upr_tenant_id p = sp_tenant S"

definition for_agent :: "setting \<Rightarrow> app \<Rightarrow> ara_principal \<Rightarrow> bool" where
  "for_agent S P p \<longleftrightarrow> served S \<and> api_orchestrator P = sp_agent S \<and> apr_tenant_id p = sp_tenant S"

lemma good_read_bind:
  assumes "served S" and "\<And>e s. store_ok s \<Longrightarrow> R (f e s)" and "\<And>x. R x \<Longrightarrow> good S {} {} (k x) Q"
  shows "good S X T (abind (observe (sp_agent S) f) k) Q"
  by (rule good_bind[OF good_observe[OF assms(1), where Q = R]]) (use assms in blast)+

lemma good_list_bind:
  assumes "served S" and "\<And>e s x. x \<in> set (f e s) \<Longrightarrow> g x = u"
    and "\<And>xs. g ` set xs \<subseteq> {u} \<Longrightarrow> good S {} {} (k xs) Q"
  shows "good S X T (abind (observe (sp_agent S) f) k) Q"
  by (rule good_read_bind[OF assms(1), where R = "\<lambda>xs. g ` set xs \<subseteq> {u}"]) (use assms(2,3) in blast)+

lemma good_any_bind:
  "served S \<Longrightarrow> (\<And>x. good S {} {} (k x) Q) \<Longrightarrow> good S X T (abind (observe (sp_agent S) f) k) Q"
  by (rule good_read_bind[where R = "\<lambda>_. True"]) simp_all

lemma good_found_bind:
  assumes "served S" and "\<And>e s x. store_ok s \<Longrightarrow> f e s = Some x \<Longrightarrow> R x"
    and "\<And>x. R x \<Longrightarrow> good S {} {} (k x) Q"
  shows "good S X T (abind (observe (sp_agent S) f) (\<lambda>found. abind (or_not_found d found) k)) Q"
  by (rule good_read_bind[OF assms(1), where R = "\<lambda>found. \<forall>x. found = Some x \<longrightarrow> R x"])
     (use assms(2,3) in \<open>auto intro: good_or_not_found\<close>)

lemma good_recent_messages:
  "served S \<Longrightarrow> good S X T (recent_messages (sp_agent S) u k) (\<lambda>ms. \<forall>m \<in> set ms. ms_tenant_id m = u)"
  unfolding recent_messages_def by (rule good_observe_or_raise) (auto dest: list_messages_tenant)

lemma first_answer_in: "first_answer ms = Some m \<Longrightarrow> m \<in> set ms"
  by (induction ms) (auto split: if_splits)

lemma assistant_message_in:
  assumes "assistant_message_for_turn ms t = Some m"
  shows "m \<in> set ms"
proof -
  obtain x xs where "dropWhile (\<lambda>m. ms_id m \<noteq> tn_user_message_id t) ms = x # xs" "first_answer xs = Some m"
    using assms by (auto simp: assistant_message_for_turn_def split: list.splits)
  then show ?thesis using first_answer_in set_dropWhileD[of m] by (metis list.set_intros(2))
qed

section \<open>Operators\<close>

lemma list_tenants:
  "x \<in> set (list_tasks u s) \<Longrightarrow> tk_tenant_id x = u"
  "a \<in> set (list_approvals u s) \<Longrightarrow> ap_tenant_id a = u"
  "b \<in> set (list_remote_agents e u s) \<Longrightarrow> ra_tenant_id b = u"
  "j \<in> set (list_jobs u s) \<Longrightarrow> jb_tenant_id j = u"
  "m \<in> set (list_memories u all s) \<Longrightarrow> mr_tenant_id m = u"
  "ev \<in> set (list_events u s) \<Longrightarrow> ev_tenant_id ev = u"
  "c \<in> set (list_conversations u s) \<Longrightarrow> cv_tenant_id c = u"
  "t \<in> set (list_conversation_turns u k s) \<Longrightarrow> tn_tenant_id t = u"
  "mb \<in> set (list_migration_batches u s) \<Longrightarrow> mb_tenant_id mb = u"
  by (auto simp: list_tasks_def list_approvals_def list_remote_agents_def list_jobs_def list_memories_def
      list_events_def list_conversations_def list_conversation_turns_def list_migration_batches_def
      split: if_splits)

lemma good_overview:
  "for_user S P p \<Longrightarrow> good S X T (admin_overview P p) (\<lambda>r. ao_tenant_id r = sp_tenant S)"
  unfolding admin_overview_def Let_def for_user_def
  by (auto intro!: good_require_operator good_read_bind[where R = "\<lambda>_. True"] good_ret)

lemma good_operations:
  assumes "for_user S P p"
  shows "good S X T (admin_operations P p) (\<lambda>r. own_reply S (Operations_reply r))"
proof -
  have P: "served S" "api_orchestrator P = sp_agent S" "upr_tenant_id p = sp_tenant S"
    using assms by (simp_all add: for_user_def)
  show ?thesis unfolding admin_operations_def Let_def P
    by (rule good_require_operator, (rule good_list_bind[OF P(1)], erule list_tenants)+,
        rule good_any_bind[OF P(1)], rule good_ret)
       (simp add: own_reply_def)
qed

lemma good_task_detail:
  assumes "for_user S P p"
  shows "good S X T (admin_task_detail P p k) (\<lambda>r. own_reply S (Task_detail_reply r))"
proof -
  have P: "served S" "api_orchestrator P = sp_agent S" "upr_tenant_id p = sp_tenant S"
    using assms by (simp_all add: for_user_def)
  show ?thesis unfolding admin_task_detail_def Let_def P
    by (rule good_require_operator, rule good_found_bind[OF P(1), where R = "\<lambda>t. tk_tenant_id t = sp_tenant S"],
        simp add: get_task_def, rule good_list_bind[OF P(1)], erule list_tenants,
        rule good_any_bind[OF P(1)], rule good_ret)
       (auto simp: own_reply_def)
qed

lemma good_decide:
  assumes "for_user S P p" and "dr_tenant_id body = upr_tenant_id p"
  shows "good S X T (decide P p k body) (\<lambda>r. ap_tenant_id r = sp_tenant S)"
proof -
  have P: "served S" "api_orchestrator P = sp_agent S" "dr_tenant_id body = sp_tenant S"
    using assms by (simp_all add: for_user_def)
  show ?thesis unfolding decide_def P
    by (rule good_or_lifecycle,
        rule good_bind[OF good_plain_call[OF P(1) step_decide_approval ids_decide_approval decide_approval_tenant]])
       (auto intro!: good_ret good_bind[OF good_advance_turn])
qed

lemma good_review:
  assumes "served S"
  shows "good S X T (or_lifecycle_error (call (sp_agent S) (\<lambda>e. review_memory e (sp_tenant S) k promote a rid)))
    (\<lambda>r. mr_tenant_id r = sp_tenant S)"
  by (rule good_or_lifecycle, rule good_plain_call[OF assms step_review_memory ids_review_memory review_memory_tenant])

lemma good_cancellation:
  assumes "served S"
  shows "good S X T (call (sp_agent S) (\<lambda>e. request_task_cancellation e (sp_tenant S) k a)) (\<lambda>_. True)"
  by (rule good_plain_call[OF assms step_request_cancellation ids_request_cancellation]) simp

lemma good_admin_changes:
  assumes "for_user S P p"
  shows "good S X T (admin_requeue_job P p k) (\<lambda>r. jb_tenant_id r = sp_tenant S)"
    and "good S X T (admin_set_ara_trust P p k b) (\<lambda>r. ra_tenant_id r = sp_tenant S)"
    and "good S X T (admin_revoke_ara P p k) (\<lambda>r. ra_tenant_id r = sp_tenant S)"
    and "good S X T (admin_cancel_task P p k) (\<lambda>_. True)"
    and "good S X T (admin_decide_approval P p k d) (\<lambda>r. ap_tenant_id r = sp_tenant S)"
    and "good S X T (admin_review_memory P p k v) (\<lambda>r. mr_tenant_id r = sp_tenant S)"
proof -
  have P: "served S" "api_orchestrator P = sp_agent S" "upr_tenant_id p = sp_tenant S"
    using assms by (simp_all add: for_user_def)
  show "good S X T (admin_requeue_job P p k) (\<lambda>r. jb_tenant_id r = sp_tenant S)"
    unfolding admin_requeue_job_def P
    by (rule good_require_mutation, rule good_or_lifecycle,
        rule good_plain_call[OF P(1) step_requeue_job ids_requeue_job requeue_job_tenant])
  show "good S X T (admin_set_ara_trust P p k b) (\<lambda>r. ra_tenant_id r = sp_tenant S)"
    unfolding admin_set_ara_trust_def P
    by (rule good_require_mutation, rule good_or_lifecycle,
        rule good_plain_call[OF P(1) step_set_trust ids_set_trust set_trust_tenant])
  show "good S X T (admin_revoke_ara P p k) (\<lambda>r. ra_tenant_id r = sp_tenant S)"
    unfolding admin_revoke_ara_def P
    by (rule good_require_mutation, rule good_or_lifecycle,
        rule good_plain_call[OF P(1) step_revoke_ara ids_revoke_ara revoke_ara_tenant])
  show "good S X T (admin_cancel_task P p k) (\<lambda>_. True)"
    unfolding admin_cancel_task_def P
    by (rule good_require_mutation, rule good_or_lifecycle, rule good_bind[OF good_cancellation[OF P(1)]])
       (rule good_ret, simp)
  show "good S X T (admin_decide_approval P p k d) (\<lambda>r. ap_tenant_id r = sp_tenant S)"
    unfolding admin_decide_approval_def
    by (rule good_require_mutation, rule good_require_tenant, rule good_decide[OF assms])
  show "good S X T (admin_review_memory P p k v) (\<lambda>r. mr_tenant_id r = sp_tenant S)"
    unfolding admin_review_memory_def Let_def P
    by (rule good_require_mutation, rule good_require_tenant)
       (auto simp: P intro!: good_bind[OF good_review[OF P(1)]] good_bind[OF good_enqueue_vector_sync[OF P(1)]] good_ret)
qed

end
