(* ===== verification/AgentGuarantee.thy ===== *)
theory AgentGuarantee
  imports RouteCalls
begin

text \<open>
  The routes of remote agents: each keeps to the contract of the store
  for the tenant of the agent and is answered with rows of that tenant. The rows an agent names itself (its
  own, artifacts) must be new: their identifiers are among those drawn and not yet used.
\<close>

section \<open>Calls of remote agents that file rows\<close>

lemma find_in: "find P xs = Some x \<Longrightarrow> x \<in> set xs"
  by (auto simp: find_Some_iff)

lemma ids_of_tables:
  "ids_in (s\<lparr>st_remote_agents := as, st_tasks := ts, st_leases := ls, st_events := evs\<rparr>) \<subseteq>
     ids_in s \<union> fst ` set as \<union> fst ` set ts \<union> fst ` set ls"
  unfolding ids_in_def by auto

lemma keys_in_ids:
  "fst ` set (st_remote_agents s) \<subseteq> ids_in s" "fst ` set (st_tasks s) \<subseteq> ids_in s"
  "fst ` set (st_leases s) \<subseteq> ids_in s"
  unfolding ids_in_def by blast+

lemma task_id_in:
  assumes "store_ok s" and "t \<in> set (dict_values (st_tasks s))"
  shows "tk_id t \<in> ids_in s"
proof -
  have "keyed tk_id (st_tasks s)" using assms(1) by (simp add: store_ok_def keys_ok_def)
  then have "map_of (st_tasks s) (tk_id t) = Some t" using assms(2) keyed_values[of tk_id "st_tasks s" t] by blast
  then show ?thesis by (rule ids_in_row(6))
qed

lemma mk_lease_id: "mk_lease i u k a now x = Inr l \<Longrightarrow> ls_id l = i"
  by (auto simp: mk_lease_def split: pydatetime.splits if_splits)

lemma ids_lease_written:
  assumes "a \<in> ids_in s" and "k \<in> ids_in s"
  shows "ids_in (s\<lparr>st_remote_agents := AList.update a x (st_remote_agents s),
      st_tasks := AList.update k t (st_tasks s), st_leases := AList.update i l (filter P (st_leases s)),
      st_events := evs\<rparr>) \<subseteq> insert i (ids_in s)"
proof -
  have "fst ` set (filter P (st_leases s)) \<subseteq> fst ` set (st_leases s)" by auto
  with keys_in_ids[of s] assms
  have "ids_in s \<union> fst ` set (AList.update a x (st_remote_agents s)) \<union> fst ` set (AList.update k t (st_tasks s)) \<union>
      fst ` set (AList.update i l (filter P (st_leases s))) \<subseteq> insert i (ids_in s)"
    by (simp add: fst_update) blast
  with ids_of_tables show ?thesis by (rule order.trans)
qed

lemma ids_lease_task:
  assumes "store_ok s"
  shows "ids_in (snd (lease_task e u a x s)) \<subseteq> ids_in s \<union> range (gen e)"
proof (cases "scoped ra_tenant_id (st_remote_agents s) u a")
  case None
  then show ?thesis by (simp add: lease_task_def)
next
  case (Some ara)
  then have a: "a \<in> ids_in s" using ids_in_row_more(1)[of s a ara] by simp
  let ?s1 = "s\<lparr>st_remote_agents := AList.update a (ara\<lparr>ra_last_seen_at := clk e 0\<rparr>) (st_remote_agents s)\<rparr>"
  let ?f = "find (leasable (clk e 0) u a ara (expired_task_ids (clk e 0) ?s1)) (sort_key tk_created_at (dict_values (st_tasks s)))"
  have s1: "ids_in ?s1 \<subseteq> ids_in s" using a by (simp add: ids_in_write_more insert_absorb)
  note ran = lease_task_def Some option.case Let_def
  show ?thesis
  proof (cases ?f)
    case None
    with s1 show ?thesis unfolding ran by (simp add: le_supI1)
  next
    case (Some t)
    then have "t \<in> set (dict_values (st_tasks s))" using find_in by fastforce
    then have t: "tk_id t \<in> ids_in s" by (rule task_id_in[OF assms])
    show ?thesis
    proof (cases "mk_lease (gen e 0) u (tk_id t) a (clk e 1) (Aware x)")
      case (Inl err)
      with Some s1 show ?thesis unfolding ran by (simp add: le_supI1)
    next
      case (Inr l)
      have "insert (gen e 0) (ids_in s) \<subseteq> ids_in s \<union> range (gen e)" by blast
      with ids_lease_written[OF a t] have "ids_in (s\<lparr>st_remote_agents := AList.update a y (st_remote_agents s),
          st_tasks := AList.update (tk_id t) t' (st_tasks s), st_leases := AList.update (gen e 0) l (filter P (st_leases s)),
          st_events := evs\<rparr>) \<subseteq> ids_in s \<union> range (gen e)" for y t' P evs by (rule order.trans)
      with Some Inr mk_lease_id[OF Inr] show ?thesis unfolding ran by simp
    qed
  qed
qed

lemma ids_close_invocation:
  assumes "map_of (st_tool_invocations s) (iv_id i) = Some i" and "keyed tn_id (st_turns s)"
  shows "ids_in (snd (close_invocation e st i s)) \<subseteq> ids_in s"
proof -
  have "tn_id t \<in> ids_in s" if "map_of (st_turns s) k = Some t" for k t
    using ids_in_row(3)[OF that] keyed_mapof[OF assms(2) that] by simp
  then show ?thesis
    using ids_in_row(4)[OF assms(1)]
    by (auto simp: close_invocation_def ids_writes Let_def split: option.splits)
qed

lemma ids_finish_task:
  assumes "store_ok s"
  shows "ids_in (snd (finish_task e u a k l st detail fs s)) \<subseteq> ids_in s \<union> af_id ` set fs"
proof (cases "active_lease (clk e 0) s u a k l")
  case (Inl err)
  then show ?thesis by (simp add: finish_task_def)
next
  case (Inr x)
  obtain t y where x: "x = (t, y)" by (cases x)
  with Inr have t: "map_of (st_tasks s) k = Some t" using active_lease_found[of "clk e 0" s u a k l t y] by blast
  let ?s1 = "s\<lparr>st_tasks := AList.update k (t\<lparr>tk_state := st, tk_result := Some detail, tk_completed_at := Some (clk e 1),
     tk_completed_by_ara_id := Some a\<rparr>) (st_tasks s)\<rparr>"
  have s1: "ids_in ?s1 = ids_in s" using ids_in_row(6)[OF t] by (simp add: ids_writes insert_absorb)
  define c where "c = (case find (\<lambda>i. iv_task_id i = Some k) (dict_values (st_tool_invocations ?s1)) of
      None \<Rightarrow> (None, ?s1) | Some invocation \<Rightarrow> close_invocation e st invocation ?s1)"
  have "ids_in (snd (close_invocation e st i ?s1)) \<subseteq> ids_in ?s1"
    if "find (\<lambda>i. iv_task_id i = Some k) (dict_values (st_tool_invocations ?s1)) = Some i" for i
  proof (rule ids_close_invocation)
    from find_in[OF that] have "i \<in> set (dict_values (st_tool_invocations s))" by simp
    then show "map_of (st_tool_invocations ?s1) (iv_id i) = Some i"
      using keyed_values[of iv_id "st_tool_invocations s" i] store_ok_keyed(3)[OF assms] by simp
    show "keyed tn_id (st_turns ?s1)" using store_ok_keyed(2)[OF assms] by simp
  qed
  then have c: "ids_in (snd c) \<subseteq> ids_in s" unfolding c_def using s1 by (auto split: option.splits)
  have run: "\<exists>gate err evs. finish_task e u a k l st detail fs s = (if gate then (Inl err, s) else
      case c of (Some err', s2) \<Rightarrow> (Inl err', s2)
      | (None, s2) \<Rightarrow> (Inr (t\<lparr>tk_state := st, tk_result := Some detail, tk_completed_at := Some (clk e 1),
          tk_completed_by_ara_id := Some a\<rparr>),
          s2\<lparr>st_artifacts := fold (\<lambda>a. AList.update (af_id a) a) fs (st_artifacts s2), st_events := st_events s2 @ evs\<rparr>))"
  proof -
    consider "st \<notin> {Task_COMPLETED, Task_FAILED, Task_CANCELLED}"
      | why where "(if st = Task_COMPLETED then approval_gate (tk_required_capabilities t)
          (granted_approvals s u k) (tk_required_capabilities t) else None) = Some why"
      | "\<not> list_all (\<lambda>a. af_tenant_id a = u \<and> af_task_id a = k) fs"
      | "st \<in> {Task_COMPLETED, Task_FAILED, Task_CANCELLED}" "list_all (\<lambda>a. af_tenant_id a = u \<and> af_task_id a = k) fs"
        "(if st = Task_COMPLETED then approval_gate (tk_required_capabilities t)
          (granted_approvals s u k) (tk_required_capabilities t) else None) = None"
      by blast
    then show ?thesis
      unfolding finish_task_def Inr x sum.case prod.case Let_def c_def[symmetric]
      by cases (simp_all split: option.split prod.split, blast+)
  qed
  then obtain gate err evs where "finish_task e u a k l st detail fs s = (if gate then (Inl err, s) else
      case c of (Some err', s2) \<Rightarrow> (Inl err', s2)
      | (None, s2) \<Rightarrow> (Inr (t\<lparr>tk_state := st, tk_result := Some detail, tk_completed_at := Some (clk e 1),
          tk_completed_by_ara_id := Some a\<rparr>),
          s2\<lparr>st_artifacts := fold (\<lambda>a. AList.update (af_id a) a) fs (st_artifacts s2), st_events := st_events s2 @ evs\<rparr>))"
    by blast
  then show ?thesis using c by (cases c; cases "fst c") (auto simp: ids_write_artifacts)
qed

section \<open>Routes of remote agents\<close>

lemma good_register:
  assumes "for_agent S P p" and "apr_ara_id p \<in> X"
  shows "good S X T (register_route P p b) (\<lambda>r. ra_tenant_id r = sp_tenant S)"
proof -
  have P: "served S" "api_orchestrator P = sp_agent S" "apr_tenant_id p = sp_tenant S"
    using assms by (simp_all add: for_agent_def)
  have "good S (X \<union> range (gen e)) T (call (sp_agent S) (\<lambda>_. register_ara (agent_from_registration (apr_ara_id p) c0 c1 b) ev))
      (\<lambda>r. ra_tenant_id r = sp_tenant S)"
    if "rr_tenant_id b = sp_tenant S" "ev_tenant_id ev = sp_tenant S" for e :: env and c0 c1 ev
  proof (rule good_step_call[OF P(1)])
    fix e' :: env and s
    assume "(X \<union> range (gen e)) \<inter> ids_in s = {}"
    then have "apr_ara_id p \<notin> ids_in s" using assms(2) by blast
    then show "store_step (sp_tenant S) s (snd (register_ara (agent_from_registration (apr_ara_id p) c0 c1 b) ev s))"
      using that by (intro step_register_ara) (auto simp: agent_from_registration_def dest: not_in_ids_more)
  next
    fix e' :: env and s
    show "ids_in (snd (register_ara (agent_from_registration (apr_ara_id p) c0 c1 b) ev s)) \<subseteq>
        ids_in s \<union> (X \<union> range (gen e)) \<union> range (gen e')"
      using ids_register_ara[of "agent_from_registration (apr_ara_id p) c0 c1 b" ev s] assms(2)
      by (auto simp: agent_from_registration_def)
  qed (use that in \<open>auto simp: agent_from_registration_def dest: register_ara_tenant\<close>)
  note filed = this
  show ?thesis unfolding register_route_def Let_def P
    by (cases "rr_tenant_id b = sp_tenant S")
       (auto intro: good_raise intro!: good_fresh_bind[OF P(1)] filed)
qed

lemma good_lease:
  assumes "for_agent S P p"
  shows "good S X T (lease_route P p b)
    (\<lambda>r. \<forall>t l. r = Some (t, l) \<longrightarrow> tk_tenant_id t = sp_tenant S \<and> ls_tenant_id l = sp_tenant S)"
proof -
  have P: "served S" "api_orchestrator P = sp_agent S" "apr_tenant_id p = sp_tenant S"
    using assms by (simp_all add: for_agent_def)
  have "good S X' T (call (sp_agent S) (\<lambda>e. lease_task e (sp_tenant S) a x))
      (\<lambda>r. \<forall>t l. r = Some (t, l) \<longrightarrow> tk_tenant_id t = sp_tenant S \<and> ls_tenant_id l = sp_tenant S)" for X' a x
  proof (rule good_step_call[OF P(1)])
    fix e :: env and s
    assume "range (gen e) \<inter> ids_in s = {}"
    then have "gen e 0 \<notin> ids_in s" by blast
    then show "store_step (sp_tenant S) s (snd (lease_task e (sp_tenant S) a x s))"
      by (intro step_lease_task not_in_ids)
  next
    fix e :: env and s
    assume "store_ok s"
    then show "ids_in (snd (lease_task e (sp_tenant S) a x s)) \<subseteq> ids_in s \<union> X' \<union> range (gen e)"
      using ids_lease_task by blast
  qed (use lease_task_tenant in blast)
  then show ?thesis unfolding lease_route_def Let_def P
    by (intro good_require_agent good_fresh_bind[OF P(1)]) (simp add: P)
qed

lemma good_record_progress:
  "served S \<Longrightarrow>
     good S X T (or_lifecycle_error (call (sp_agent S) (\<lambda>e. record_progress e (sp_tenant S) a k l m n))) (\<lambda>_. True)"
  by (rule good_or_lifecycle, rule good_plain_call[OF _ step_record_progress ids_record_progress]) simp_all

lemma good_renew:
  assumes "served S"
  shows "good S X T (abind (call (sp_agent S) (\<lambda>e. renew_lease e (sp_tenant S) a k l x)) (\<lambda>lease.
       abind (observe (sp_agent S) (\<lambda>_. list_tasks (sp_tenant S))) (\<lambda>tasks.
       case find (\<lambda>t. tk_id t = k) tasks of None \<Rightarrow> raise err | Some task \<Rightarrow> ret (task, lease))))
     (\<lambda>r. tk_tenant_id (fst r) = sp_tenant S \<and> ls_tenant_id (snd r) = sp_tenant S)"
  by (rule good_bind[OF good_plain_call[OF assms step_renew_lease ids_renew_lease renew_lease_tenant]],
      assumption, rule good_list_bind[OF assms], erule list_tenants)
     (auto simp: image_subset_iff split: option.splits intro!: good_raise good_ret dest: find_in)

lemma good_agent_messages:
  assumes "for_agent S P p"
  shows "good S X T (ara_event_route P p eb) (\<lambda>_. True)"
    and "good S X T (heartbeat_route P p hb) (\<lambda>_. True)"
    and "good S X T (renew_route P p nb) (\<lambda>r. tk_tenant_id (fst r) = sp_tenant S \<and> ls_tenant_id (snd r) = sp_tenant S)"
    and "good S X T (artifact_upload_route P p ub) (\<lambda>_. True)"
proof -
  have P: "served S" "api_orchestrator P = sp_agent S" "apr_tenant_id p = sp_tenant S"
    using assms by (simp_all add: for_agent_def)
  show "good S X T (ara_event_route P p eb) (\<lambda>_. True)"
    unfolding ara_event_route_def verify_ara_message_def P
    by (rule good_require_agent) (simp add: P good_record_progress)
  show "good S X T (heartbeat_route P p hb) (\<lambda>_. True)"
    unfolding heartbeat_route_def P
    by (rule good_require_agent, rule good_bind[where P = "\<lambda>_. True"], rule good_or_lifecycle)
       (simp add: P good_plain_call[OF P(1) step_heartbeat ids_heartbeat], simp add: good_ret)
  show "good S X T (renew_route P p nb) (\<lambda>r. tk_tenant_id (fst r) = sp_tenant S \<and> ls_tenant_id (snd r) = sp_tenant S)"
    unfolding renew_route_def verify_ara_message_def Let_def P
    by (intro good_require_agent good_fresh_bind[OF P(1)] good_or_lifecycle) (simp add: P good_renew)
  show "good S X T (artifact_upload_route P p ub) (\<lambda>_. True)"
    unfolding artifact_upload_route_def verify_ara_message_def Let_def P
    by (rule good_require_agent)
       (auto simp: P split: option.splits intro!: good_raise good_bind[OF good_record_progress[OF P(1)]]
         good_fresh_bind[OF P(1)] good_reading_bind good_ret)
qed

lemma good_verify_artifacts_bind:
  "good S X T m Q \<Longrightarrow> good S X T (abind (verify_artifacts store fs) (\<lambda>_. m)) Q"
  by (auto simp: verify_artifacts_def good_raise abind_assoc split: option.splits sum.splits
      intro!: good_reading_bind)

lemma good_finish:
  assumes "for_agent S P p" and "distinct (map af_id fs)" and "af_id ` set fs \<subseteq> X"
  shows "good S X T (finish_route P p body fs st detail store request) (\<lambda>_. True)"
proof -
  have P: "served S" "api_orchestrator P = sp_agent S" "apr_tenant_id p = sp_tenant S"
    using assms by (simp_all add: for_agent_def)
  have "good S X T (call (sp_agent S) (\<lambda>e. finish_task e (sp_tenant S) a k l st detail fs)) (\<lambda>_. True)" for a k l
  proof (rule good_step_call[OF P(1)])
    fix e :: env and s
    assume "X \<inter> ids_in s = {}"
    then have "af_id f \<notin> ids_in s" if "f \<in> set fs" for f using assms(3) that by blast
    then show "store_step (sp_tenant S) s (snd (finish_task e (sp_tenant S) a k l st detail fs s))"
      using assms(2) by (intro step_finish_task) (auto simp: new_artifacts_def dest: not_in_ids_more)
  next
    fix e :: env and s
    assume "store_ok s"
    then show "ids_in (snd (finish_task e (sp_tenant S) a k l st detail fs s)) \<subseteq> ids_in s \<union> X \<union> range (gen e)"
      using ids_finish_task assms(3) by blast
  qed simp
  note finished = this
  show ?thesis unfolding finish_route_def verify_ara_message_def P
    by (rule good_require_agent, rule good_verify_artifacts_bind, rule good_after_all, rule good_or_lifecycle,
        rule good_bind[where P = "\<lambda>_. True"])
       (auto simp: P intro: finished good_ret good_advance_turn)
qed

lemma good_ends:
  assumes "for_agent S P p"
  shows "distinct (map af_id (cr_artifacts cb)) \<Longrightarrow> af_id ` set (cr_artifacts cb) \<subseteq> X \<Longrightarrow>
      good S X T (complete_route P p cb) (\<lambda>_. True)"
    and "good S X T (cancel_route P p kb) (\<lambda>_. True)"
    and "good S X T (fail_route P p fb) (\<lambda>_. True)"
  unfolding complete_route_def cancel_route_def fail_route_def
  by (auto intro!: good_finish[OF assms] good_bind[OF good_finish[OF assms]] good_bind[OF good_advance_turn] good_ret)

lemma good_request_approval:
  assumes "for_agent S P p"
  shows "good S X T (request_approval_route P p b) (\<lambda>r. ap_tenant_id r = sp_tenant S)"
proof -
  have P: "served S" "api_orchestrator P = sp_agent S" "apr_tenant_id p = sp_tenant S"
    using assms by (simp_all add: for_agent_def)
  have "good S (X \<union> range (gen e)) T (call (sp_agent S) (\<lambda>e'. request_approval e' (sp_tenant S) a k l ap))
      (\<lambda>r. ap_tenant_id r = sp_tenant S)"
    if "ap_id ap = gen e 0" "approval_new ap" for e a k l ap
  proof (rule good_step_call[OF P(1)])
    fix e' :: env and s
    assume "(X \<union> range (gen e)) \<inter> ids_in s = {}"
    then have "ap_id ap \<notin> ids_in s" using that(1) by blast
    then show "store_step (sp_tenant S) s (snd (request_approval e' (sp_tenant S) a k l ap s))"
      using that(2) by (intro step_request_approval not_in_ids)
  next
    fix e' :: env and s
    show "ids_in (snd (request_approval e' (sp_tenant S) a k l ap s)) \<subseteq> ids_in s \<union> (X \<union> range (gen e)) \<union> range (gen e')"
      using ids_request_approval[of e' "sp_tenant S" a k l ap s] that(1) by auto
  qed (rule request_approval_tenant)
  note filed = this
  show ?thesis unfolding request_approval_route_def verify_ara_message_def Let_def P
    by (rule good_require_agent, rule good_fresh_bind[OF P(1)], rule good_lift_bind, rule good_or_lifecycle)
       (auto simp: P approval_new_def intro!: filed)
qed

end
