(* ===== verification/UserGuarantee.thy ===== *)
theory UserGuarantee
  imports AgentGuarantee
begin

text \<open>
  The routes of users: each keeps to the contract of the store for the tenant of the user and is answered
  with rows of that tenant. A task that a user files must be new.
\<close>

section \<open>Rows a user files\<close>

lemma user_setting:
  assumes "for_user S P p"
  shows "served S" "api_orchestrator P = sp_agent S" "upr_tenant_id p = sp_tenant S"
  using assms by (simp_all add: for_user_def)

lemma good_create_task:
  assumes "for_user S P p" and "tk_id t \<in> X" and "task_new t"
  shows "good S X T (create_task_route P p t) (\<lambda>r. tk_tenant_id r = sp_tenant S)"
proof -
  note P = user_setting[OF assms(1)]
  have "good S (X \<union> range (gen e)) T (call (sp_agent S) (\<lambda>_. add_task t ev)) (\<lambda>r. tk_tenant_id r = sp_tenant S)"
    if "tk_tenant_id t = sp_tenant S" "ev_tenant_id ev = sp_tenant S" for e :: env and ev
  proof (rule good_step_call[OF P(1)])
    fix e' :: env and s
    assume "(X \<union> range (gen e)) \<inter> ids_in s = {}"
    then have "tk_id t \<notin> ids_in s" using assms(2) by blast
    then show "store_step (sp_tenant S) s (snd (add_task t ev s))"
      using that assms(3) by (intro step_add_task not_in_ids)
  next
    fix e' :: env and s
    show "ids_in (snd (add_task t ev s)) \<subseteq> ids_in s \<union> (X \<union> range (gen e)) \<union> range (gen e')"
      using ids_add_task[of t ev s] assms(2) by auto
  qed (use that in \<open>simp add: add_task_def\<close>)
  then show ?thesis unfolding create_task_route_def Let_def P
    by (intro good_require_tenant good_fresh_bind[OF P(1)]) (simp add: P)
qed

lemma good_create_conversation:
  assumes "for_user S P p"
  shows "good S X T (create_conversation_route P p b) (\<lambda>r. cv_tenant_id r = sp_tenant S)"
proof -
  note P = user_setting[OF assms]
  have "good S (X \<union> range (gen e)) T (abind (call (sp_agent S) (\<lambda>_. create_conversation c ev)) (\<lambda>_. ret c))
      (\<lambda>r. cv_tenant_id r = sp_tenant S)"
    if "cv_id c = gen e 0" "cv_tenant_id c = sp_tenant S" "ev_tenant_id ev = sp_tenant S" for e c ev
  proof (rule good_bind[OF good_step_call[OF P(1), where Q = "\<lambda>_. True"]])
    fix e' :: env and s
    assume "(X \<union> range (gen e)) \<inter> ids_in s = {}"
    then have "cv_id c \<notin> ids_in s" using that(1) by blast
    then show "store_step (sp_tenant S) s (snd (create_conversation c ev s))"
      using that by (intro step_create_conversation not_in_ids_more)
  next
    fix e' :: env and s
    show "ids_in (snd (create_conversation c ev s)) \<subseteq> ids_in s \<union> (X \<union> range (gen e)) \<union> range (gen e')"
      using ids_create_conversation[of c ev s] that(1) by auto
  qed (use that in \<open>auto intro: good_ret\<close>)
  note filed = this
  show ?thesis unfolding create_conversation_route_def Let_def P
    by (rule good_require_tenant, rule good_fresh_bind[OF P(1)], rule good_lift_bind) (auto simp: P intro!: filed)
qed

lemma good_update_persona:
  assumes "for_user S P p"
  shows "good S X T (update_persona_route P p t b) (\<lambda>r. pp_tenant_id r = sp_tenant S)"
proof -
  note P = user_setting[OF assms]
  have "good S (range (gen e)) T' (call (sp_agent S) (\<lambda>e'. create_persona_profile e' pp a)) (\<lambda>r. pp_tenant_id r = sp_tenant S)"
    if "pp_id pp = gen e 0" "pp_tenant_id pp = sp_tenant S" for T' e pp a
  proof (rule good_step_call[OF P(1)])
    fix e' :: env and s
    assume "range (gen e) \<inter> ids_in s = {}"
    then have "pp_id pp \<notin> ids_in s" using that(1) by blast
    then show "store_step (sp_tenant S) s (snd (create_persona_profile e' pp a s))"
      using that by (intro step_create_persona not_in_ids_more)
  next
    fix e' :: env and s
    show "ids_in (snd (create_persona_profile e' pp a s)) \<subseteq> ids_in s \<union> range (gen e) \<union> range (gen e')"
      using ids_create_persona[of e' pp a s] that(1) by auto
  qed (use that in \<open>auto dest: create_persona_tenant\<close>)
  note filed = this
  show ?thesis unfolding update_persona_route_def Let_def P
    by (rule good_require_tenant, rule good_require_tenant, rule good_any_bind[OF P(1)],
        rule good_fresh_bind[OF P(1)], rule good_lift_bind, rule good_or_conflict)
       (auto simp: P intro!: filed)
qed

section \<open>Listings and queries\<close>

lemma good_listing:
  assumes "for_user S P p" and "\<And>e s. store_ok s \<Longrightarrow> t = sp_tenant S \<Longrightarrow> Q (f e s)"
  shows "good S X T (listing P p t f) Q"
  unfolding listing_def user_setting(2)[OF assms(1)]
  by (rule good_require_tenant, rule good_observe) (use assms user_setting[OF assms(1)] in auto)

lemma good_listings:
  assumes "for_user S P p"
  shows "good S X T (list_conversations_route P p t) (\<lambda>xs. cv_tenant_id ` set xs \<subseteq> {sp_tenant S})"
    and "good S X T (list_events_route P p t) (\<lambda>xs. ev_tenant_id ` set xs \<subseteq> {sp_tenant S})"
    and "good S X T (list_jobs_route P p t) (\<lambda>xs. jb_tenant_id ` set xs \<subseteq> {sp_tenant S})"
    and "good S X T (list_aras_route P p t) (\<lambda>xs. ra_tenant_id ` set xs \<subseteq> {sp_tenant S})"
    and "good S X T (list_artifacts_route P p t) (\<lambda>_. True)"
    and "good S X T (list_memories_route P p t) (\<lambda>xs. mr_tenant_id ` set xs \<subseteq> {sp_tenant S})"
    and "good S X T (list_migration_batches_route P p t) (\<lambda>xs. mb_tenant_id ` set xs \<subseteq> {sp_tenant S})"
    and "good S X T (list_tasks_route P p t) (\<lambda>xs. tk_tenant_id ` set xs \<subseteq> {sp_tenant S})"
    and "good S X T (list_approvals_route P p t) (\<lambda>xs. ap_tenant_id ` set xs \<subseteq> {sp_tenant S})"
  unfolding list_conversations_route_def list_events_route_def list_jobs_route_def list_aras_route_def
    list_artifacts_route_def list_memories_route_def list_migration_batches_route_def list_tasks_route_def
    list_approvals_route_def
  subgoal by (rule good_listing[OF assms]) (auto dest: list_tenants)
  subgoal by (rule good_listing[OF assms]) (auto dest: list_tenants)
  subgoal by (rule good_listing[OF assms]) (auto dest: list_tenants)
  subgoal by (rule good_listing[OF assms]) (auto dest: list_tenants)
  subgoal
    by (rule good_bind[OF good_listing[OF assms, where Q = "\<lambda>_. True"]]) (simp_all add: good_ret)
  subgoal by (rule good_listing[OF assms]) (auto dest: list_tenants)
  subgoal by (rule good_listing[OF assms]) (auto dest: list_tenants)
  subgoal by (rule good_listing[OF assms]) (auto dest: list_tenants)
  subgoal by (rule good_listing[OF assms]) (auto dest: list_tenants)
  done

lemma good_get_conversation:
  assumes "for_user S P p"
  shows "good S X T (get_conversation_route P p k)
    (\<lambda>r. cv_tenant_id (fst r) = sp_tenant S \<and> (\<forall>m \<in> set (snd r). ms_tenant_id m = sp_tenant S))"
proof -
  note P = user_setting[OF assms]
  show ?thesis unfolding get_conversation_route_def Let_def P
    by (rule good_found_bind[OF P(1), where R = "\<lambda>c. cv_tenant_id c = sp_tenant S"], simp add: get_conversation_def,
        rule good_bind[OF good_recent_messages[OF P(1)]])
       (auto intro: good_ret)
qed

lemma good_list_turns:
  assumes "for_user S P p"
  shows "good S X T (list_conversation_turns_route P p k) (\<lambda>xs. tn_tenant_id ` set xs \<subseteq> {sp_tenant S})"
proof -
  note P = user_setting[OF assms]
  show ?thesis unfolding list_conversation_turns_route_def Let_def P
    by (rule good_found_bind[OF P(1), where R = "\<lambda>_. True"], simp, rule good_observe[OF P(1)])
       (use list_tenants(8) in blast)
qed

definition own_turn :: "setting \<Rightarrow> turn_response \<Rightarrow> bool" where
  "own_turn S r \<longleftrightarrow> tn_tenant_id (tp_turn r) = sp_tenant S \<and> ms_tenant_id (tp_user_message r) = sp_tenant S \<and>
     (\<forall>m. tp_assistant_message r = Some m \<longrightarrow> ms_tenant_id m = sp_tenant S)"

lemma good_get_turn:
  assumes "for_user S P p"
  shows "good S X T (get_conversation_turn_route P p k) (own_turn S)"
proof -
  note P = user_setting[OF assms]
  show ?thesis unfolding get_conversation_turn_route_def Let_def P
    by (rule good_found_bind[OF P(1), where R = "\<lambda>t. tn_tenant_id t = sp_tenant S"], simp add: get_turn_def,
        rule good_bind[OF good_recent_messages[OF P(1)]], rule good_or_not_found, rule good_ret)
       (auto simp: own_turn_def dest!: find_in assistant_message_in)
qed

section \<open>Messages\<close>

lemma good_send_message:
  assumes "for_user S P p"
  shows "good S X T (send_message_route P p k b) (\<lambda>r. own_turn S (snd r))"
proof -
  note P = user_setting[OF assms]
  have advanced: "good S X T (abind (advance_one (sp_agent S) (sp_tenant S)) (\<lambda>_. ret x)) (started_for S)"
    if "started_for S x" for X T x
    by (rule good_bind[OF good_advance_one[OF P(1)]]) (rule good_ret, rule that)
  have start: "good S X T (handle (abind (start_turn (sp_agent S) (sp_tenant S) user conv client content)
      (\<lambda>(user_message, turn). abind (advance_one (sp_agent S) (sp_tenant S)) (\<lambda>_. ret (user_message, turn))))
      (\<lambda>err. raise (provider_failure err))) (started_for S)" for X T user conv client content
    by (rule good_handle[OF good_bind[OF good_start_turn[OF P(1)]]]) (auto intro: advanced good_raise)
  show ?thesis unfolding send_message_route_def Let_def P
  proof (rule good_require_tenant)
    assume "sm_tenant_id b = upr_tenant_id p"
    with P(3) have u: "sm_tenant_id b = sp_tenant S" by simp
    show "good S X T (abind (observe (sp_agent S) (\<lambda>_. get_conversation (sm_tenant_id b) k)) (\<lambda>found.
      abind (or_not_found ''conversation not found'' found) (\<lambda>_.
      abind (handle
               (abind (start_turn (sp_agent S) (sm_tenant_id b) (upr_user_id p) k (sm_client_request_id b) (sm_content b))
                  (\<lambda>(user_message, turn). abind (advance_one (sp_agent S) (sm_tenant_id b)) (\<lambda>_. ret (user_message, turn))))
               (\<lambda>err. raise (provider_failure err))) (\<lambda>(user_message, turn).
      abind (observe (sp_agent S) (\<lambda>_. get_turn (sm_tenant_id b) (tn_id turn))) (\<lambda>current.
      abind (or_not_found ''conversation turn not found'' current) (\<lambda>refreshed.
      abind (recent_messages (sp_agent S) (sm_tenant_id b) k) (\<lambda>messages.
      abind (advance_turn (sm_tenant_id b)) (\<lambda>_.
      ret (if tn_state refreshed \<noteq> Turn_COMPLETED then 202 else 200,
           \<lparr>tp_turn = refreshed, tp_user_message = user_message,
            tp_assistant_message = assistant_message_for_turn messages refreshed\<rparr>)))))))))
      (\<lambda>r. own_turn S (snd r))"
      unfolding u
      by (rule good_found_bind[OF P(1), where R = "\<lambda>_. True"], simp, rule good_bind[OF start], clarify,
          rule good_found_bind[OF P(1), where R = "\<lambda>t. tn_tenant_id t = sp_tenant S"], simp add: get_turn_def,
          rule good_bind[OF good_recent_messages[OF P(1)]], rule good_bind[OF good_advance_turn], rule good_ret)
         (auto simp: own_turn_def started_for_def dest!: assistant_message_in)
  qed
qed

lemma good_claim_for_stream:
  assumes "for_user S P p"
  shows "good S X T (claim_for_stream P p k b) (\<lambda>r. turn_of S (fst r))"
proof -
  note P = user_setting[OF assms]
  have claim: "good S X T (call (sp_agent S) (\<lambda>e'. claim_turn e' (sp_tenant S) i l x))
      (\<lambda>c. \<forall>t. c = Some t \<longrightarrow> tn_tenant_id t = sp_tenant S)" for X T i l x
    by (rule good_plain_call[OF P(1) step_claim_turn ids_claim_turn]) (auto dest: claim_turn_tenant)
  show ?thesis unfolding claim_for_stream_def Let_def P
    by (rule good_require_tenant, rule good_found_bind[OF P(1), where R = "\<lambda>_. True"], simp,
        rule good_bind[OF good_effect])
       (auto simp: P turn_of_def split: option.splits intro!: good_raise good_ret good_bind[OF good_effect]
         good_bind[OF good_start_turn[OF P(1)]] good_fresh_bind[OF P(1)] good_bind[OF claim])
qed

lemma good_sse_events:
  assumes "for_user S P p" and "turn_of S t"
  shows "good S X T (sse_events P t l) (\<lambda>_. True)"
proof (rule goodI)
  note P = user_setting[OF assms(1)]
  fix st r st'
  assume sup: "supplied S X T st" and run: "sse_events P t l st = (r, st')"
  obtain r1 st1 where s: "stream_turn (sp_agent S) t l st = (r1, st1)" by (cases "stream_turn (sp_agent S) t l st")
  have "st' = st1" using run by (auto simp: sse_events_def Let_def P s split: sum.splits error.splits)
  then show "supplied S {} {} st' \<and> (\<forall>x. r = Inr x \<longrightarrow> True)"
    using goodD[OF good_stream_turn[OF P(1) assms(2)] sup s] by simp
qed

lemma good_stream_message:
  assumes "for_user S P p"
  shows "good S X T (stream_message_route P p k b) (\<lambda>_. True)"
  unfolding stream_message_route_def
  by (rule good_bind[OF good_claim_for_stream[OF assms]]) (auto intro: good_sse_events[OF assms])

section \<open>Artifacts and tasks\<close>

lemma good_live_artifact_bind:
  assumes "for_user S P p" and "\<And>a. af_tenant_id a = sp_tenant S \<Longrightarrow> good S {} {} (f a) Q"
  shows "good S X T (abind (observe (sp_agent S) (\<lambda>_. get_artifact (sp_tenant S) k))
    (\<lambda>found. abind (live_artifact found) f)) Q"
  unfolding live_artifact_def
  by (rule good_read_bind[OF user_setting(1)[OF assms(1)],
        where R = "\<lambda>found. \<forall>a. found = Some a \<longrightarrow> af_tenant_id a = sp_tenant S"])
     (auto simp: get_artifact_def intro!: good_or_not_found assms(2) split: option.splits if_splits)

lemma good_artifact_queries:
  assumes "for_user S P p"
  shows "good S X T (get_artifact_route P p k) (\<lambda>_. True)"
    and "good S X T (download_artifact_route P p k) (\<lambda>_. True)"
proof -
  note P = user_setting[OF assms]
  show "good S X T (get_artifact_route P p k) (\<lambda>_. True)"
    unfolding get_artifact_route_def P by (rule good_live_artifact_bind[OF assms]) (auto intro: good_ret)
  have logged: "good S X T (call (sp_agent S) (\<lambda>e. append_event (ev e))) (\<lambda>_. True)"
    if "\<And>e. ev_tenant_id (ev e) = sp_tenant S" for X T ev
    by (rule good_plain_call[OF P(1)]) (simp_all add: that step_append_event ids_append_event)
  show "good S X T (download_artifact_route P p k) (\<lambda>_. True)"
    unfolding download_artifact_route_def Let_def P
    by (rule good_live_artifact_bind[OF assms])
       (auto split: option.splits intro!: good_raise good_reading_bind good_bind[OF logged] good_ret)
qed

lemma good_delete_artifact:
  assumes "for_user S P p"
  shows "good S X T (delete_artifact_route P p k) (\<lambda>_. True)"
proof -
  note P = user_setting[OF assms]
  have deleted: "good S X T (or_lifecycle_error (call (sp_agent S) (\<lambda>e. delete_artifact e (sp_tenant S) k a x))) (\<lambda>_. True)"
    for X T a x
    by (rule good_or_lifecycle, rule good_plain_call[OF P(1) step_delete_artifact ids_delete_artifact]) simp
  show ?thesis unfolding delete_artifact_route_def Let_def P
    by (rule good_fresh_bind[OF P(1)], rule good_bind[OF deleted])
       (auto intro!: good_ret good_reading_bind good_bind[OF good_effect] good_lift_bind)
qed

lemma good_cancel_task:
  assumes "for_user S P p"
  shows "good S X T (request_task_cancellation_route P p k) (\<lambda>_. True)"
proof -
  note P = user_setting[OF assms]
  show ?thesis unfolding request_task_cancellation_route_def P
    by (rule good_bind[OF good_or_lifecycle[OF good_cancellation[OF P(1)]]]) (rule good_ret, simp)
qed

section \<open>Personas, imports and memories\<close>

lemma good_persona_queries:
  assumes "for_user S P p"
  shows "good S X T (get_persona_route P p t) (\<lambda>r. pp_tenant_id r = sp_tenant S)"
    and "good S X T (revert_persona_route P p t b) (\<lambda>r. pp_tenant_id r = sp_tenant S)"
proof -
  note P = user_setting[OF assms]
  have found: "good S X T (abind (observe (sp_agent S) (\<lambda>_. get_active_persona (sp_tenant S))) (or_not_found d))
      (\<lambda>r. pp_tenant_id r = sp_tenant S)" for X T d
    by (rule good_read_bind[OF P(1), where R = "\<lambda>x. \<forall>p. x = Some p \<longrightarrow> pp_tenant_id p = sp_tenant S"])
       (auto simp: or_not_found_def intro: active_persona_tenant good_ret good_raise split: option.splits)
  show "good S X T (get_persona_route P p t) (\<lambda>r. pp_tenant_id r = sp_tenant S)"
    unfolding get_persona_route_def P by (rule good_require_tenant) (simp add: P found)
  have reverted: "good S X T (or_lifecycle_error (call (sp_agent S) (\<lambda>e. revert_persona_profile e (sp_tenant S) v a)))
      (\<lambda>r. pp_tenant_id r = sp_tenant S)" for X T v a
    by (rule good_or_lifecycle, rule good_plain_call[OF P(1) step_revert_persona ids_revert_persona revert_persona_tenant])
  show "good S X T (revert_persona_route P p t b) (\<lambda>r. pp_tenant_id r = sp_tenant S)"
    unfolding revert_persona_route_def P
    by (rule good_require_tenant, rule good_require_tenant) (simp add: P reverted)
qed

lemma good_activate_batch:
  assumes "for_user S P p"
  shows "good S X T (activate_migration_batch_route P p k b) (\<lambda>r. mb_tenant_id r = sp_tenant S)"
proof -
  note P = user_setting[OF assms]
  have activated: "good S X T (call (sp_agent S) (\<lambda>e. activate_migration_batch e (sp_tenant S) k a core))
      (\<lambda>r. mb_tenant_id r = sp_tenant S)" for X T a core
  proof (rule good_step_call[OF P(1)])
    fix e :: env and s
    assume "range (gen e) \<inter> ids_in s = {}"
    then have "gen e 0 \<notin> ids_in s" by blast
    then show "store_step (sp_tenant S) s (snd (activate_migration_batch e (sp_tenant S) k a core s))"
      by (intro step_activate_batch not_in_ids_more)
  next
    fix e :: env and s
    assume "store_ok s"
    then show "ids_in (snd (activate_migration_batch e (sp_tenant S) k a core s)) \<subseteq> ids_in s \<union> X \<union> range (gen e)"
      using ids_activate_batch by blast
  qed (rule activate_batch_tenant)
  have synced: "good S X T (abind (enqueue_vector_syncs (sp_agent S) (sp_tenant S) ks) (\<lambda>_. ret r))
      (\<lambda>r. mb_tenant_id r = sp_tenant S)" if "mb_tenant_id r = sp_tenant S" for X T ks r
    by (rule good_bind[OF good_enqueue_vector_syncs[OF P(1)]]) (rule good_ret, rule that)
  show ?thesis unfolding activate_migration_batch_route_def Let_def P
    by (rule good_require_tenant)
       (auto simp: P intro!: good_or_lifecycle good_bind[OF activated] good_any_bind[OF P(1)] synced)
qed

lemma good_rollback_batch:
  assumes "for_user S P p"
  shows "good S X T (rollback_migration_batch_route P p k b) (\<lambda>r. mb_tenant_id r = sp_tenant S)"
proof -
  note P = user_setting[OF assms]
  have rolled: "good S X T (call (sp_agent S) (\<lambda>e. rollback_migration_batch e (sp_tenant S) k a))
      (\<lambda>r. mb_tenant_id (fst r) = sp_tenant S)" for X T a
    by (rule good_plain_call[OF P(1) step_rollback_batch ids_rollback_batch rollback_batch_tenant])
  have synced: "good S X T (abind (enqueue_vector_syncs (sp_agent S) (sp_tenant S) ks) (\<lambda>_. ret r))
      (\<lambda>r. mb_tenant_id r = sp_tenant S)" if "mb_tenant_id r = sp_tenant S" for X T ks r
    by (rule good_bind[OF good_enqueue_vector_syncs[OF P(1)]]) (rule good_ret, rule that)
  show ?thesis unfolding rollback_migration_batch_route_def Let_def P
    by (rule good_require_tenant) (auto simp: P intro!: good_or_lifecycle good_bind[OF rolled] synced)
qed

lemma good_memory_changes:
  assumes "for_user S P p"
  shows "good S X T (delete_memory_route P p k) (\<lambda>r. mr_tenant_id r = sp_tenant S)"
    and "good S X T (review_memory_route P p k rb) (\<lambda>r. mr_tenant_id r = sp_tenant S)"
    and "good S X T (pin_memory_route P p k nb) (\<lambda>r. mr_tenant_id r = sp_tenant S)"
proof -
  note P = user_setting[OF assms]
  have deleted: "good S X T (or_lifecycle_error (call (sp_agent S) (\<lambda>e. delete_memory e (sp_tenant S) k a)))
      (\<lambda>r. mr_tenant_id r = sp_tenant S)" for X T a
    by (rule good_or_lifecycle, rule good_plain_call[OF P(1) step_delete_memory ids_delete_memory delete_memory_tenant])
  have pinned: "good S X T (or_lifecycle_error (call (sp_agent S) (\<lambda>e. pin_memory e (sp_tenant S) k v a)))
      (\<lambda>r. mr_tenant_id r = sp_tenant S)" for X T v a
    by (rule good_or_lifecycle, rule good_plain_call[OF P(1) step_pin_memory ids_pin_memory pin_memory_tenant])
  show "good S X T (delete_memory_route P p k) (\<lambda>r. mr_tenant_id r = sp_tenant S)"
    unfolding delete_memory_route_def Let_def P
    by (rule good_bind[OF deleted], rule good_bind[OF good_enqueue_vector_sync[OF P(1)]]) (rule good_ret)
  show "good S X T (review_memory_route P p k rb) (\<lambda>r. mr_tenant_id r = sp_tenant S)"
    unfolding review_memory_route_def Let_def P
    by (rule good_require_tenant)
       (auto simp: P intro!: good_bind[OF good_review[OF P(1)]] good_bind[OF good_enqueue_vector_sync[OF P(1)]] good_ret
         split: option.splits)
  show "good S X T (pin_memory_route P p k nb) (\<lambda>r. mr_tenant_id r = sp_tenant S)"
    unfolding pin_memory_route_def P by (rule good_require_tenant) (simp add: P pinned)
qed

lemma good_explain_memory:
  assumes "for_user S P p"
  shows "good S X T (explain_memory_route P p k) (\<lambda>r. mr_tenant_id (fst r) = sp_tenant S)"
proof -
  note P = user_setting[OF assms]
  show ?thesis unfolding explain_memory_route_def P
    by (rule good_read_bind[OF P(1), where R = "\<lambda>x. \<forall>m. x = Some m \<longrightarrow> mr_tenant_id m = sp_tenant S"])
       (auto simp: get_memory_def intro!: good_or_not_found good_ret split: option.splits if_splits)
qed

lemma good_decide_approval:
  assumes "for_user S P p"
  shows "good S X T (decide_approval_route P p k b) (\<lambda>r. ap_tenant_id r = sp_tenant S)"
  unfolding decide_approval_route_def by (rule good_require_tenant) (rule good_decide[OF assms])

end
