(* ===== verification/OrchestratorProperties.thy ===== *)
theory OrchestratorProperties
  imports TurnGuarantee AgentSamples
begin

text \<open>
  What holds of every turn, from the guarantees of the methods: the store is changed only as its contract
  allows, and other tenants see nothing of it.
\<close>

section \<open>The sample setting\<close>

definition sample_setting :: "model_completion \<Rightarrow> setting" where
  "sample_setting answer =
     \<lparr>sp_agent = sample_agent answer, sp_tenants = {1}, sp_tenant = 1, sp_start = os_store sample_state\<rparr>"

lemma sample_setting_simps [simp]:
  "sp_agent (sample_setting answer) = sample_agent answer" "sp_tenants (sample_setting answer) = {1}"
  "sp_tenant (sample_setting answer) = 1"
  by (simp_all add: sample_setting_def)

lemma sample_gen: "gen (oc_env (sample_agent answer) n) i = 1000 + prod_encode (n, i)"
  by (simp add: sample_agent_def sample_readings_def)

lemma sample_served: "served (sample_setting answer)"
proof -
  have "oc_others (sample_agent answer) n s = s" for n s by (simp add: sample_agent_def)
  moreover have "inj (\<lambda>(n, i). gen (oc_env (sample_agent answer) n) i)"
    by (rule injI) (auto simp: sample_gen)
  ultimately show ?thesis by (simp add: served_def)
qed

lemma sample_state_ok: "store_ok (os_store sample_state)"
  by (simp add: sample_state_def samples empty_store_def store_ok_def keys_ok_def refs_ok_def refers_def has_row_def
      leases_ok_def lease_ok_def keyed_def turn_ok_def valid_turn_def job_ok_def valid_job_def
      valid_approval_def valid_capability_def str_between_def attempts_ok_def ran_def)

lemma sample_undrawn: "undrawn (sample_setting answer) 0 \<inter> ids_in (os_store sample_state) = {}"
proof -
  have "k < 1000" if "k \<in> ids_in (os_store sample_state)" for k
    using that by (auto simp: ids_in_def sample_state_def samples empty_store_def)
  moreover have "1000 \<le> k" if "k \<in> undrawn (sample_setting answer) 0" for k
    using that by (auto simp: undrawn_def sample_gen)
  ultimately show ?thesis by fastforce
qed

section \<open>Turns keep to the contract of the store\<close>

text \<open>What it takes to start: a well-formed store that holds none of the identifiers still to be drawn.\<close>

definition ready :: "setting \<Rightarrow> agent_state \<Rightarrow> bool" where
  "ready S st \<longleftrightarrow> store_ok (os_store st) \<and> undrawn S (os_reading st) \<inter> ids_in (os_store st) = {}"

lemma ready_supplied: "ready S st \<Longrightarrow> supplied (S\<lparr>sp_start := os_store st\<rparr>) {} {} st"
  by (simp add: ready_def supplied_def undrawn_def drawn_def)

lemma supplied_ready: "supplied S X T st \<Longrightarrow> ready S st"
  by (auto simp: ready_def supplied_def)

lemma served_start [simp]: "served (S\<lparr>sp_start := s\<rparr>) = served S"
  by (simp add: served_def)

lemma ready_start [simp]: "ready (S\<lparr>sp_start := s\<rparr>) st = ready S st"
  by (simp add: ready_def undrawn_def)

lemma turn_of_start [simp]: "turn_of (S\<lparr>sp_start := s\<rparr>) t = turn_of S t"
  by (simp add: turn_of_def)

lemma good_runs:
  assumes "good (S\<lparr>sp_start := os_store st\<rparr>) {} {} m Q" and "ready S st"
  shows "runs_in (sp_tenants S) (os_store st) (os_store (snd (m st))) \<and> ready S (snd (m st))"
proof -
  have "supplied (S\<lparr>sp_start := os_store st\<rparr>) {} {} (snd (m st))"
    using assms(1) ready_supplied[OF assms(2)] by (simp add: good_def)
  from this supplied_ready[OF this] show ?thesis by (simp add: supplied_def)
qed

text \<open>
  C4: Refinement: whatever the model, the planner, the tools and the other tasks of the process do, starting,
  advancing, running and streaming a turn change the store only by the calls its contract allows, made for the
  turn's tenant, and leave it well formed.
\<close>

theorem turns_refine_store_contract:
  assumes "served S" and "ready S st" and "tn_tenant_id turn = sp_tenant S"
  shows "runs_in (sp_tenants S) (os_store st) (os_store (snd (run_turn (sp_agent S) turn l st))) \<and>
    runs_in (sp_tenants S) (os_store st) (os_store (snd (stream_turn (sp_agent S) turn l st))) \<and>
    runs_in (sp_tenants S) (os_store st) (os_store (snd (advance_one (sp_agent S) (sp_tenant S) st))) \<and>
    runs_in (sp_tenants S) (os_store st)
      (os_store (snd (start_turn (sp_agent S) (sp_tenant S) user conv client content st))) \<and>
    store_ok (os_store (snd (run_turn (sp_agent S) turn l st)))"
proof -
  let ?S = "S\<lparr>sp_start := os_store st\<rparr>"
  from assms have S: "served ?S" and t: "turn_of ?S turn" by (simp_all add: turn_of_def)
  show ?thesis
    using good_runs[OF _ assms(2), OF good_run_turn[OF S t, simplified]]
      good_runs[OF _ assms(2), OF good_stream_turn[OF S t, simplified]]
      good_runs[OF _ assms(2), OF good_advance_one[OF S, simplified]]
      good_runs[OF _ assms(2), OF good_start_turn[OF S, simplified]]
    by (simp add: ready_def)
qed

lemma sample_ready: "ready (sample_setting answer) sample_state"
  using sample_state_ok sample_undrawn by (simp add: ready_def) (simp add: sample_state_def)

theorem turns_refine_store_contract_witness:
  "runs_in {1} (os_store sample_state) (os_store (snd (advance_one (sample_agent plain_answer) 1 sample_state)))"
  using turns_refine_store_contract[OF sample_served sample_ready, of sample_turn plain_answer]
  by (simp add: samples)

section \<open>The runner\<close>

text \<open>
  The runner of a tenant, however many turns it advances until none is left or one raises, is invisible
  to every tenant that neither it nor the tasks beside it work for, and leaves the store well formed.
\<close>

theorem runner_isolates_tenants:
  assumes "served S" and "ready S st" and "v \<notin> sp_tenants S"
    and "run_pending_turns (sp_agent S) (sp_tenant S) st = Some st'"
  shows "same_tenant_view v (os_store st) (os_store st') \<and> store_ok (os_store st')"
proof -
  have step: "runs_in (sp_tenants S) (os_store a) (os_store b) \<and> ready S b"
    if "ready S a" "advance_one (sp_agent S) (sp_tenant S) a = (r, b)" for a b r
  proof -
    have "served (S\<lparr>sp_start := os_store a\<rparr>)" using assms(1) by simp
    from good_runs[OF _ that(1), OF good_advance_one[OF this, simplified]] that(2) show ?thesis by simp
  qed
  have "sp_agent S = sp_agent S \<longrightarrow> sp_tenant S = sp_tenant S \<longrightarrow> ready S st \<longrightarrow>
      runs_in (sp_tenants S) (os_store st) (os_store st') \<and> ready S st'"
  proof (rule run_pending_turns.raw_induct[where P = "\<lambda>A u a b. A = sp_agent S \<longrightarrow> u = sp_tenant S \<longrightarrow>
      ready S a \<longrightarrow> runs_in (sp_tenants S) (os_store a) (os_store b) \<and> ready S b", OF _ assms(4)], intro impI)
    fix rest A u a b
    assume IH: "\<And>A u a b. rest A u a = Some b \<Longrightarrow> A = sp_agent S \<longrightarrow> u = sp_tenant S \<longrightarrow>
        ready S a \<longrightarrow> runs_in (sp_tenants S) (os_store a) (os_store b) \<and> ready S b"
      and body: "(case advance_one A u a of (Inl err, st1) \<Rightarrow> Some st1 | (Inr None, st1) \<Rightarrow> Some st1
        | (Inr (Some _), st1) \<Rightarrow> rest A u st1) = Some b"
      and eqs: "A = sp_agent S" "u = sp_tenant S" and r: "ready S a"
    obtain res a1 where adv: "advance_one A u a = (res, a1)" by fastforce
    with step[OF r] eqs have a1: "runs_in (sp_tenants S) (os_store a) (os_store a1)" "ready S a1" by blast+
    consider "b = a1" | "rest A u a1 = Some b"
      using body unfolding adv prod.case by (cases res; cases "projr res") auto
    then show "runs_in (sp_tenants S) (os_store a) (os_store b) \<and> ready S b"
    proof cases
      case 1
      with a1 show ?thesis by simp
    next
      case 2
      from IH[OF this] eqs a1(2) have "runs_in (sp_tenants S) (os_store a1) (os_store b)" "ready S b" by simp_all
      with runs_in_trans[OF a1(1)] show ?thesis by simp
    qed
  qed
  with assms(2) have "runs_in (sp_tenants S) (os_store st) (os_store st') \<and> ready S st'" by blast
  then show ?thesis using runs_in_isolated[OF _ _ assms(3)] assms(2) by (simp add: ready_def)
qed

theorem runner_isolates_tenants_witness:
  "\<exists>st'. run_pending_turns (sample_agent plain_answer) 1 sample_state = Some st' \<and>
     same_tenant_view 2 (os_store sample_state) (os_store st') \<and> store_ok (os_store st')"
proof -
  obtain t st1 where one: "advance_one (sample_agent plain_answer) 1 sample_state = (Inr (Some t), st1)"
    "st_turns (os_store st1) = [(30, t)]" "tn_state t = Turn_COMPLETED"
    using sample_advance by blast
  obtain st2 where two: "advance_one (sample_agent plain_answer) 1 st1 = (Inr None, st2)"
    using sample_idle[OF one(2,3)] by blast
  have "run_pending_turns (sample_agent plain_answer) 1 sample_state = Some st2"
    by (subst run_pending_turns.simps, simp add: one del: One_nat_def,
        subst run_pending_turns.simps, simp add: two del: One_nat_def)
  then show ?thesis
    using runner_isolates_tenants[OF sample_served sample_ready, of 2 plain_answer] by auto
qed

end
