(* ===== verification/RouteProperties.thy ===== *)
theory RouteProperties
  imports UserGuarantee OrchestratorProperties
begin

text \<open>
  What holds of the application as a whole: every request keeps to the tenant of its sender, requests for
  another tenant are refused, and no sequence of requests and turns shows in the view of a tenant none of
  them is for.
\<close>

section \<open>Requests that name identifiers\<close>

text \<open>
  An identifier that a client chose: one that was drawn before and is in no table. The other identifiers are
  drawn by the routes.
\<close>

definition new_id :: "setting \<Rightarrow> agent_state \<Rightarrow> uuid \<Rightarrow> bool" where
  "new_id S st k \<longleftrightarrow> k \<in> drawn S (os_reading st) \<and> k \<notin> ids_in (os_store st)"

definition admitted_user :: "setting \<Rightarrow> agent_state \<Rightarrow> user_request \<Rightarrow> bool" where
  "admitted_user S st q \<longleftrightarrow> (\<forall>t. q = Create_task t \<longrightarrow> task_new t \<and> new_id S st (tk_id t))"

definition admitted_ara :: "setting \<Rightarrow> agent_state \<Rightarrow> ara_principal \<Rightarrow> ara_request \<Rightarrow> bool" where
  "admitted_ara S st p q \<longleftrightarrow>
     (\<forall>b. q = Register b \<longrightarrow> new_id S st (apr_ara_id p) \<or>
        has_row ra_tenant_id (sp_tenant S) (apr_ara_id p) (st_remote_agents (os_store st))) \<and>
     (\<forall>b. q = Complete b \<longrightarrow> distinct (map af_id (cr_artifacts b)) \<and>
        (\<forall>a \<in> set (cr_artifacts b). new_id S st (af_id a)))"

section \<open>Every route is good\<close>

lemma good_answer:
  assumes "good S X T m R" and "\<And>x. R x \<Longrightarrow> reply_tenants (f x) \<subseteq> {sp_tenant S}"
  shows "good S X T (fmap f m) (own_reply S)"
  by (rule good_fmap, rule good_mono[OF assms(1)]) (use assms(2) in \<open>auto simp: own_reply_def\<close>)

lemma good_identity: "for_user S P p \<Longrightarrow> good S X T (admin_identity p) (\<lambda>r. ai_tenant_id r = sp_tenant S)"
  unfolding admin_identity_def by (auto simp: for_user_def intro!: good_require_operator good_ret)

lemmas good_user_answers =
  good_answer[OF good_identity] good_answer[OF good_overview] good_answer[OF good_operations]
  good_answer[OF good_task_detail] good_answer[OF good_admin_changes(1)]
  good_answer[OF good_admin_changes(2)] good_answer[OF good_admin_changes(3)]
  good_answer[OF good_admin_changes(4)] good_answer[OF good_admin_changes(5)]
  good_answer[OF good_admin_changes(6)] good_answer[OF good_create_conversation]
  good_answer[OF good_get_conversation] good_answer[OF good_send_message]
  good_answer[OF good_stream_message] good_answer[OF good_list_turns] good_answer[OF good_get_turn]
  good_answer[OF good_listings(1)] good_answer[OF good_listings(2)] good_answer[OF good_listings(3)]
  good_answer[OF good_listings(4)] good_answer[OF good_listings(5)] good_answer[OF good_listings(6)]
  good_answer[OF good_listings(7)] good_answer[OF good_listings(8)] good_answer[OF good_listings(9)]
  good_answer[OF good_artifact_queries(1)] good_answer[OF good_artifact_queries(2)]
  good_answer[OF good_delete_artifact] good_answer[OF good_cancel_task]
  good_answer[OF good_persona_queries(1)] good_answer[OF good_persona_queries(2)]
  good_answer[OF good_update_persona] good_answer[OF good_activate_batch]
  good_answer[OF good_rollback_batch] good_answer[OF good_memory_changes(1)]
  good_answer[OF good_memory_changes(2)] good_answer[OF good_memory_changes(3)]
  good_answer[OF good_explain_memory] good_answer[OF good_decide_approval]

lemma good_for_user:
  assumes "for_user S P p" and "\<And>t. q = Create_task t \<Longrightarrow> task_new t \<and> tk_id t \<in> X"
  shows "good S X {} (handle_user P p q) (own_reply S)"
proof (cases q)
  case (Create_task t)
  with assms show ?thesis
    by (auto intro!: good_with_body good_answer[OF good_create_task])
qed (use assms(1) in \<open>auto simp: own_turn_def own_reply_def image_subset_iff
       intro!: good_with_body good_user_answers\<close>)

lemmas good_ara_answers =
  good_answer[OF good_lease] good_answer[OF good_agent_messages(1)]
  good_answer[OF good_agent_messages(2)] good_answer[OF good_agent_messages(3)]
  good_answer[OF good_agent_messages(4)] good_answer[OF good_ends(2)] good_answer[OF good_ends(3)]
  good_answer[OF good_request_approval]

lemma good_for_ara:
  assumes "for_agent S P p" and "\<And>b. q = Register b \<Longrightarrow> apr_ara_id p \<in> X"
    and "\<And>b. q = Complete b \<Longrightarrow> distinct (map af_id (cr_artifacts b)) \<and> af_id ` set (cr_artifacts b) \<subseteq> X"
  shows "good S X {} (handle_ara P p q) (own_reply S)"
proof (cases q)
  case (Register b)
  with assms show ?thesis by (auto intro!: good_with_body good_answer[OF good_register])
next
  case (Complete b)
  with assms show ?thesis by (auto intro!: good_with_body good_answer[OF good_ends(1)])
qed (use assms(1) in \<open>auto simp: image_subset_iff case_prod_beta intro!: good_with_body good_ara_answers
       split: option.splits\<close>)

section \<open>Registering again\<close>

lemma runs_in_has_agent:
  assumes "runs_in U s s'" and "store_ok s" and "has_row ra_tenant_id u k (st_remote_agents s)"
  shows "has_row ra_tenant_id u k (st_remote_agents s')"
  using runs_in_evolves[OF assms(1,2)] assms(3) by (auto simp: store_evolves_def has_row_def dest: evolvesD)

text \<open>An agent of the tenant may register again: its row is still there when the call is made.\<close>

lemma good_register_call:
  assumes "served S" and "ra_tenant_id a = sp_tenant S" and "ev_tenant_id ev = sp_tenant S"
  shows "good S X T (call (sp_agent S) (\<lambda>_ s. if has_row ra_tenant_id (sp_tenant S) (ra_id a) (st_remote_agents s)
      then register_ara a ev s else (Inl KeyError, s))) (\<lambda>r. ra_tenant_id r = sp_tenant S)"
proof (rule good_drawing_call[OF assms(1)], unfold drawing_call_def, intro allI impI conjI)
  fix e :: env and s :: store
  let ?own = "has_row ra_tenant_id (sp_tenant S) (ra_id a) (st_remote_agents s)"
  let ?g = "if ?own then register_ara a ev s else (Inl KeyError, s)"
  have "store_step (sp_tenant S) s (snd (register_ara a ev s))" if "?own"
    by (rule step_register_ara) (use that assms in \<open>auto simp: has_row_def\<close>)
  moreover have "sp_tenant S \<in> sp_tenants S" using assms(1) by (simp add: served_def)
  ultimately show "runs_in (sp_tenants S) s (snd ?g)" by (auto intro: runs_in_step)
  have "ra_id a \<in> ids_in s" if "?own" using that by (auto simp: has_row_def intro: ids_in_row_more)
  then show "ids_in (snd ?g) \<subseteq> ids_in s \<union> X \<union> range (gen e)" using ids_register_ara[of a ev s] by auto
  show "ra_tenant_id x = sp_tenant S" if "fst ?g = Inr x" for x
    using that assms(2) by (auto split: if_splits dest: register_ara_tenant)
qed

lemma register_again:
  assumes "for_agent S P p" and "supplied S {} {} st"
    and "has_row ra_tenant_id (sp_tenant S) (apr_ara_id p) (st_remote_agents (os_store st))"
  shows "supplied S {} {} (snd (register_route P p b st)) \<and>
    (\<forall>x. fst (register_route P p b st) = Inr x \<longrightarrow> ra_tenant_id x = sp_tenant S)"
proof (cases "rr_tenant_id b = sp_tenant S")
  case False
  with assms show ?thesis by (simp add: register_route_def for_agent_def raise_def)
next
  case True
  have P: "served S" "api_orchestrator P = sp_agent S" "apr_tenant_id p = sp_tenant S"
    using assms by (simp_all add: for_agent_def)
  let ?a = "\<lambda>e. agent_from_registration (apr_ara_id p) (clk e 0) (clk e 1) b"
  let ?ev = "\<lambda>e. AuditEvent e 0 (sp_tenant S) ARA_REGISTERED Actor_ARA (Some (ra_id (?a e))) None
      [(''ara_name'', JStr (ra_name (?a e)))]"
  let ?g = "\<lambda>e. call (sp_agent S) (\<lambda>_ s. if has_row ra_tenant_id (sp_tenant S) (ra_id (?a e)) (st_remote_agents s)
      then register_ara (?a e) (?ev e) s else (Inl KeyError, s))"
  have "store_ok (os_store st)" using assms(2) by (simp add: supplied_def)
  then have "has_row ra_tenant_id (sp_tenant S) (apr_ara_id p)
      (st_remote_agents (oc_others (sp_agent S) n (os_store st)))" for n
    using P(1) assms(3) by (auto simp: served_def intro: runs_in_has_agent)
  then have same: "register_route P p b st = abind (fresh (sp_agent S)) ?g st"
    by (simp add: register_route_def P True agent_run agent_from_registration_def)
  have "good S {} {} (abind (fresh (sp_agent S)) ?g) (\<lambda>r. ra_tenant_id r = sp_tenant S)"
    by (rule good_fresh_bind[OF P(1)], rule good_register_call[OF P(1)])
       (simp_all add: agent_from_registration_def True)
  from this assms(2) show ?thesis unfolding good_def same by blast
qed

section \<open>Requests\<close>

lemma new_supplied:
  assumes "ready S st" and "\<And>k. k \<in> X \<Longrightarrow> new_id S st k"
  shows "supplied (S\<lparr>sp_start := os_store st\<rparr>) X {} st"
  using assms by (auto simp: ready_def supplied_def undrawn_def drawn_def new_id_def)

lemma good_serves:
  assumes "good (S\<lparr>sp_start := os_store st\<rparr>) X {} m Q" and "ready S st" and "\<And>k. k \<in> X \<Longrightarrow> new_id S st k"
  shows "runs_in (sp_tenants S) (os_store st) (os_store (snd (m st))) \<and> ready S (snd (m st)) \<and>
    (\<forall>x. fst (m st) = Inr x \<longrightarrow> Q x)"
proof -
  have "supplied (S\<lparr>sp_start := os_store st\<rparr>) {} {} (snd (m st)) \<and> (\<forall>x. fst (m st) = Inr x \<longrightarrow> Q x)"
    using assms(1) new_supplied[OF assms(2,3), of X] unfolding good_def by blast
  with supplied_ready[of "S\<lparr>sp_start := os_store st\<rparr>"] show ?thesis by (simp add: supplied_def) blast
qed

lemma own_reply_start [simp]: "own_reply (S\<lparr>sp_start := s\<rparr>) = own_reply S"
  by (simp add: own_reply_def fun_eq_iff)

lemma for_start [simp]:
  "for_user (S\<lparr>sp_start := s\<rparr>) P p = for_user S P p" "for_agent (S\<lparr>sp_start := s\<rparr>) P q = for_agent S P q"
  by (simp_all add: for_user_def for_agent_def)

lemma user_requests_keep:
  assumes "for_user S P p" and "ready S st" and "admitted_user S st q"
  shows "runs_in (sp_tenants S) (os_store st) (os_store (snd (handle_user P p q st))) \<and>
    ready S (snd (handle_user P p q st)) \<and>
    (\<forall>answer. fst (handle_user P p q st) = Inr answer \<longrightarrow> own_reply S answer)"
proof -
  have "good (S\<lparr>sp_start := os_store st\<rparr>) {k. new_id S st k} {} (handle_user P p q)
      (own_reply (S\<lparr>sp_start := os_store st\<rparr>))"
    by (rule good_for_user) (use assms(1,3) in \<open>auto simp: admitted_user_def\<close>)
  from good_serves[OF this assms(2)] show ?thesis by simp
qed

lemma agent_requests_keep:
  assumes "for_agent S P p" and "ready S st" and "admitted_ara S st p q"
  shows "runs_in (sp_tenants S) (os_store st) (os_store (snd (handle_ara P p q st))) \<and>
    ready S (snd (handle_ara P p q st)) \<and>
    (\<forall>answer. fst (handle_ara P p q st) = Inr answer \<longrightarrow> own_reply S answer)"
proof (cases "\<exists>b. q = Register b \<and> \<not> new_id S st (apr_ara_id p)")
  case True
  let ?S = "S\<lparr>sp_start := os_store st\<rparr>"
  from True obtain b where b: "q = Register b" "\<not> new_id S st (apr_ara_id p)" by blast
  with assms(3) have row: "has_row ra_tenant_id (sp_tenant S) (apr_ara_id p) (st_remote_agents (os_store st))"
    by (auto simp: admitted_ara_def)
  have again: "supplied ?S {} {} (snd (register_route P p b st)) \<and>
      (\<forall>x. fst (register_route P p b st) = Inr x \<longrightarrow> ra_tenant_id x = sp_tenant S)"
    using register_again[of ?S P p st b] assms(1) ready_supplied[OF assms(2)] row by simp
  show ?thesis
  proof (cases "valid_register_request b")
    case False
    with b assms(2) show ?thesis by (simp add: with_body_def raise_def)
  next
    case ok: True
    have "fst (handle_ara P p q st) = Inr x \<longrightarrow> own_reply S x" for x
      using again b ok by (auto simp: with_body_def fmap_def abind_def ret_def own_reply_def split: prod.splits sum.splits)
    moreover have "snd (handle_ara P p q st) = snd (register_route P p b st)"
      using b ok by (auto simp: with_body_def fmap_def abind_def ret_def split: prod.splits sum.splits)
    ultimately show ?thesis
      using again supplied_ready[of ?S "{}" "{}" "snd (register_route P p b st)"] by (auto simp: supplied_def)
  qed
next
  case False
  have "good (S\<lparr>sp_start := os_store st\<rparr>) {k. new_id S st k} {} (handle_ara P p q)
      (own_reply (S\<lparr>sp_start := os_store st\<rparr>))"
    by (rule good_for_ara) (use assms(1,3) False in \<open>auto simp: admitted_ara_def\<close>)
  from good_serves[OF this assms(2)] show ?thesis by simp
qed



section \<open>Samples\<close>

definition sample_app :: "model_completion \<Rightarrow> app" where
  "sample_app answer =
     \<lparr>api_orchestrator = sample_agent answer, api_artifact_store = None, api_delete_object = (\<lambda>_ _. Inr ()),
      api_artifact_bucket = None, api_memory_backend = ''null'', api_model_backend = ''fake'',
      api_sandbox_executable = None, api_sandbox_timeout_seconds = 30\<rparr>"

definition sample_user :: user_principal where
  "sample_user = \<lparr>upr_tenant_id = 1, upr_user_id = 2, upr_subject = ''alice'', upr_roles = {}\<rparr>"

definition sample_device :: ara_principal where
  "sample_device = \<lparr>apr_tenant_id = 1, apr_ara_id = 60\<rparr>"

text \<open>A reading later, when the first draw is an identifier a client may have.\<close>

definition sample_later :: agent_state where
  "sample_later = sample_state\<lparr>os_reading := 1\<rparr>"

lemma sample_later_ready: "ready (sample_setting answer) sample_later"
proof -
  have "undrawn (sample_setting answer) 1 \<subseteq> undrawn (sample_setting answer) 0" by (auto simp: undrawn_def)
  with sample_ready[of answer] show ?thesis by (auto simp: ready_def sample_later_def sample_state_def)
qed

lemma sample_new_id: "new_id (sample_setting answer) sample_later 1000"
proof -
  have "gen (oc_env (sample_agent answer) 0) 0 = 1000" by (simp add: sample_gen prod_encode_def)
  then have "1000 \<in> drawn (sample_setting answer) 1" unfolding drawn_def by force
  then show ?thesis
    by (simp add: new_id_def sample_later_def ids_in_def sample_state_def samples empty_store_def)
qed

lemma sample_principals:
  "for_user (sample_setting answer) (sample_app answer) sample_user"
  "for_agent (sample_setting answer) (sample_app answer) sample_device"
  using sample_served by (simp_all add: for_user_def for_agent_def sample_app_def sample_user_def sample_device_def)


definition sample_registration :: register_request where
  "sample_registration = \<lparr>rr_tenant_id = 1, rr_name = ''laptop'', rr_capabilities = [], rr_runtime_version = ''1''\<rparr>"


section \<open>Sequences of requests\<close>

text \<open>
  What an instance of the application does from a state: requests of users and agents of the tenants, and
  turns its runners advance, one after another. Other instances of the process act between the calls.
\<close>

inductive service :: "setting \<Rightarrow> app \<Rightarrow> agent_state \<Rightarrow> agent_state \<Rightarrow> bool" for S P where
  service_start: "service S P st st"
| service_user:
    "service S P st st1 \<Longrightarrow> upr_tenant_id p \<in> sp_tenants S \<Longrightarrow> admitted_user S st1 q \<Longrightarrow>
     service S P st (snd (handle_user P p q st1))"
| service_ara:
    "service S P st st1 \<Longrightarrow> apr_tenant_id p \<in> sp_tenants S \<Longrightarrow>
     admitted_ara (S\<lparr>sp_tenant := apr_tenant_id p\<rparr>) st1 p q \<Longrightarrow> service S P st (snd (handle_ara P p q st1))"
| service_turn:
    "service S P st st1 \<Longrightarrow> u \<in> sp_tenants S \<Longrightarrow> service S P st (snd (advance_one (sp_agent S) u st1))"

lemma served_tenant: "served S \<Longrightarrow> u \<in> sp_tenants S \<Longrightarrow> served (S\<lparr>sp_tenant := u\<rparr>)"
  by (simp add: served_def)

lemma tenant_simps [simp]:
  "ready (S\<lparr>sp_tenant := u\<rparr>) st = ready S st" "admitted_user (S\<lparr>sp_tenant := u\<rparr>) st q = admitted_user S st q"
  by (simp_all add: ready_def undrawn_def admitted_user_def new_id_def drawn_def)

lemma service_runs:
  assumes "service S P st st'" and "served S" and "api_orchestrator P = sp_agent S"
  shows "ready S st \<Longrightarrow> runs_in (sp_tenants S) (os_store st) (os_store st') \<and> ready S st'"
  using assms(1)
proof (induction rule: service.induct)
  case (service_user st st1 p q)
  let ?S = "S\<lparr>sp_tenant := upr_tenant_id p\<rparr>"
  have "for_user ?S P p" using assms service_user.hyps served_tenant by (simp add: for_user_def)
  from user_requests_keep[OF this, of st1 q] service_user show ?case by (auto intro: runs_in_trans)
next
  case (service_ara st st1 p q)
  let ?S = "S\<lparr>sp_tenant := apr_tenant_id p\<rparr>"
  have "for_agent ?S P p" using assms service_ara.hyps served_tenant by (simp add: for_agent_def)
  from agent_requests_keep[OF this, of st1 q] service_ara show ?case by (auto intro: runs_in_trans)
next
  case (service_turn st st1 u)
  let ?S = "S\<lparr>sp_tenant := u, sp_start := os_store st1\<rparr>"
  have "served ?S" using assms(2) service_turn.hyps served_tenant by simp
  from good_runs[OF _ _, OF good_advance_one[OF this, simplified]] service_turn
  show ?case by (auto intro: runs_in_trans)
qed simp



end
