(* ===== verification/RequestProperties.thy ===== *)
theory RequestProperties
  imports RouteProperties
begin

text \<open>
  Which requests are refused before they reach the store, and how the routes of users differ from those of
  operators.
\<close>

section \<open>Refusals\<close>

text \<open>The tenants that the path and the body of a request name.\<close>

primrec named_tenants :: "user_request \<Rightarrow> uuid list" where
  "named_tenants Admin_me = []"
| "named_tenants Admin_overview = []"
| "named_tenants Admin_operations = []"
| "named_tenants (Admin_task k) = []"
| "named_tenants (Admin_requeue_job k) = []"
| "named_tenants (Admin_set_trust k b) = []"
| "named_tenants (Admin_revoke k) = []"
| "named_tenants (Admin_decide k b) = [dr_tenant_id b]"
| "named_tenants (Admin_cancel k) = []"
| "named_tenants (Admin_review k b) = [vr_tenant_id b]"
| "named_tenants (Create_task t) = [tk_tenant_id t]"
| "named_tenants (Create_conversation b) = [nc_tenant_id b]"
| "named_tenants (List_conversations t) = [t]"
| "named_tenants (Get_conversation k) = []"
| "named_tenants (Send_message k b) = [sm_tenant_id b]"
| "named_tenants (Stream_message k b) = [sm_tenant_id b]"
| "named_tenants (List_turns k) = []"
| "named_tenants (Get_turn k) = []"
| "named_tenants (List_events t) = [t]"
| "named_tenants (List_jobs t) = [t]"
| "named_tenants (List_aras t) = [t]"
| "named_tenants (List_artifacts t) = [t]"
| "named_tenants (Get_artifact k) = []"
| "named_tenants (Download_artifact k) = []"
| "named_tenants (Delete_artifact k) = []"
| "named_tenants (Cancel_task k) = []"
| "named_tenants (Get_persona t) = [t]"
| "named_tenants (Update_persona t b) = [t, pu_tenant_id b]"
| "named_tenants (Revert_persona t b) = [t, pv_tenant_id b]"
| "named_tenants (List_memories t) = [t]"
| "named_tenants (List_batches t) = [t]"
| "named_tenants (Activate_batch k b) = [mp_tenant_id b]"
| "named_tenants (Rollback_batch k b) = [mp_tenant_id b]"
| "named_tenants (Explain_memory k) = []"
| "named_tenants (Delete_memory k) = []"
| "named_tenants (Review_memory k b) = [vr_tenant_id b]"
| "named_tenants (Pin_memory k b) = [pr_tenant_id b]"
| "named_tenants (List_tasks t) = [t]"
| "named_tenants (List_approvals t) = [t]"
| "named_tenants (Decide_approval k b) = [dr_tenant_id b]"

definition console_reads :: "user_request \<Rightarrow> bool" where
  "console_reads q \<longleftrightarrow> (case q of Admin_me \<Rightarrow> True | Admin_overview \<Rightarrow> True | Admin_operations \<Rightarrow> True
     | Admin_task _ \<Rightarrow> True | _ \<Rightarrow> False)"

definition console_acts :: "user_request \<Rightarrow> bool" where
  "console_acts q \<longleftrightarrow> (case q of Admin_requeue_job _ \<Rightarrow> True | Admin_set_trust _ _ \<Rightarrow> True | Admin_revoke _ \<Rightarrow> True
     | Admin_decide _ _ \<Rightarrow> True | Admin_cancel _ \<Rightarrow> True | Admin_review _ _ \<Rightarrow> True | _ \<Rightarrow> False)"

text \<open>A request of a user that may not make it: it names another tenant, or lacks the role for the console.\<close>

definition forbidden :: "user_principal \<Rightarrow> user_request \<Rightarrow> bool" where
  "forbidden p q \<longleftrightarrow>
     \<not> set (named_tenants q) \<subseteq> {upr_tenant_id p} \<or>
     console_acts q \<and> upr_roles p \<inter> mutating_roles = {} \<or>
     console_reads q \<and> upr_roles p \<inter> {''platform_operator'', ''tenant_admin'', ''auditor''} = {}"

text \<open>Answered with 403, or with 422 when the body is invalid, and nothing has happened.\<close>

definition refused :: "(error + 'a) \<times> agent_state \<Rightarrow> agent_state \<Rightarrow> bool" where
  "refused outcome st \<longleftrightarrow> snd outcome = st \<and>
     (\<exists>detail. fst outcome = Inl (HTTPException 403 detail) \<or> fst outcome = Inl (HTTPException 422 detail))"

lemma refused_simps [simp]:
  "refused (raise (HTTPException 403 d) st) st" "refused (raise (HTTPException 422 d) st) st"
  by (simp_all add: refused_def raise_def)

lemma refused_fmap: "refused (m st) st \<Longrightarrow> refused (fmap f m st) st"
  by (cases "m st") (auto simp: refused_def fmap_def abind_def)

lemma refused_with_body: "refused (m st) st \<Longrightarrow> refused (with_body b m st) st"
  by (simp add: with_body_def)

lemma refused_require_tenant:
  "(t = upr_tenant_id p \<Longrightarrow> refused (m st) st) \<Longrightarrow> refused (abind (require_tenant t p) (\<lambda>_. m) st) st"
  by (simp add: require_tenant_def tenant_mismatch_def)

lemma refused_require_mutation:
  "(upr_roles p \<inter> mutating_roles \<noteq> {} \<Longrightarrow> refused (m st) st) \<Longrightarrow>
     refused (abind (require_operator_mutation p) (\<lambda>_. m) st) st"
  by (simp add: require_operator_mutation_def)

lemma refused_require_operator:
  "(upr_roles p \<inter> {''platform_operator'', ''tenant_admin'', ''auditor''} \<noteq> {} \<Longrightarrow> refused (m st) st) \<Longrightarrow>
     refused (abind (require_operator p) (\<lambda>_. m) st) st"
  by (simp add: require_operator_def)

lemma refused_listing: "t \<noteq> upr_tenant_id p \<Longrightarrow> refused (listing P p t f st) st"
  unfolding listing_def by (rule refused_require_tenant) simp

lemma refused_abind: "refused (m st) st \<Longrightarrow> refused (abind m f st) st"
  by (cases "m st") (auto simp: refused_def abind_def)

lemma refused_list_artifacts: "t \<noteq> upr_tenant_id p \<Longrightarrow> refused (list_artifacts_route P p t st) st"
  unfolding list_artifacts_route_def by (rule refused_abind, rule refused_listing)

lemma refused_stream: "sm_tenant_id b \<noteq> upr_tenant_id p \<Longrightarrow> refused (stream_message_route P p k b st) st"
  unfolding stream_message_route_def claim_for_stream_def Let_def
  by (rule refused_abind, rule refused_require_tenant) simp

lemmas operator_routes = admin_identity_def admin_overview_def admin_operations_def admin_task_detail_def
  admin_requeue_job_def admin_set_ara_trust_def admin_revoke_ara_def admin_decide_approval_def
  admin_cancel_task_def admin_review_memory_def

lemmas tenant_routes = create_task_route_def create_conversation_route_def send_message_route_def
  get_persona_route_def update_persona_route_def revert_persona_route_def activate_migration_batch_route_def
  rollback_migration_batch_route_def review_memory_route_def pin_memory_route_def decide_approval_route_def

lemmas listing_routes = list_conversations_route_def list_events_route_def list_jobs_route_def list_aras_route_def
  list_memories_route_def list_migration_batches_route_def list_tasks_route_def list_approvals_route_def

text \<open>
  C9: A request that names another tenant in its path or body, or that needs a role of the console which the
  user does not have, is answered with 403 or 422 before anything is read, written or started.
\<close>

theorem forbidden_requests_refused:
  assumes "forbidden p q"
  shows "refused (handle_user P p q st) st"
  using assms
  by (cases q)
     (auto simp: forbidden_def console_acts_def console_reads_def operator_routes tenant_routes listing_routes Let_def
       intro!: refused_fmap refused_with_body refused_require_tenant refused_require_mutation
         refused_require_operator refused_listing refused_list_artifacts refused_stream)

definition sample_auditor :: user_principal where
  "sample_auditor = sample_user\<lparr>upr_roles := {''auditor''}\<rparr>"

theorem forbidden_requests_refused_witness:
  "refused (handle_user (sample_app plain_answer) sample_auditor (Admin_revoke 60) sample_state) sample_state"
  by (rule forbidden_requests_refused)
     (simp add: forbidden_def console_acts_def sample_auditor_def mutating_roles_def)

definition named_agent :: "ara_request \<Rightarrow> uuid \<times> uuid option" where
  "named_agent q = (case q of
     Register b \<Rightarrow> (rr_tenant_id b, None)
   | Lease b \<Rightarrow> (lq_tenant_id b, Some (lq_ara_id b))
   | Ara_event b \<Rightarrow> (lb_tenant_id b, Some (lb_ara_id b))
   | Heartbeat b \<Rightarrow> (hr_tenant_id b, Some (hr_ara_id b))
   | Renew b \<Rightarrow> (lb_tenant_id b, Some (lb_ara_id b))
   | Complete b \<Rightarrow> (lb_tenant_id b, Some (lb_ara_id b))
   | Cancel b \<Rightarrow> (lb_tenant_id b, Some (lb_ara_id b))
   | Fail b \<Rightarrow> (lb_tenant_id b, Some (lb_ara_id b))
   | Ask_approval b \<Rightarrow> (lb_tenant_id b, Some (lb_ara_id b))
   | Upload b \<Rightarrow> (lb_tenant_id b, Some (lb_ara_id b)))"

lemma refused_require_agent:
  "(t = apr_tenant_id p \<Longrightarrow> a = apr_ara_id p \<Longrightarrow> refused (m st) st) \<Longrightarrow>
     refused (abind (require_agent t a p) (\<lambda>_. m) st) st"
  by (simp add: require_agent_def ara_mismatch_def)

lemmas agent_routes = register_route_def lease_route_def ara_event_route_def heartbeat_route_def renew_route_def
  cancel_route_def artifact_upload_route_def request_approval_route_def verify_ara_message_def

lemma refused_finish:
  "lb_tenant_id b \<noteq> apr_tenant_id p \<or> lb_ara_id b \<noteq> apr_ara_id p \<Longrightarrow>
     refused (finish_route P p b fs s d store request st) st"
  unfolding finish_route_def verify_ara_message_def by (rule refused_require_agent) simp

lemma refused_ends:
  assumes "lb_tenant_id b \<noteq> apr_tenant_id p \<or> lb_ara_id b \<noteq> apr_ara_id p"
  shows "refused (finish_route P p b fs s d store request st) st"
    and "refused (abind (finish_route P p b fs s d store request) f st) st"
  using refused_finish[OF assms] by (auto intro: refused_abind)

text \<open>
  C10: A message of a remote agent about another tenant, or in the name of another agent, is answered with 403
  or 422, and nothing has happened: no lease is taken, renewed or ended.
\<close>

theorem foreign_agent_messages_refused:
  assumes "fst (named_agent q) \<noteq> apr_tenant_id p \<or> snd (named_agent q) \<notin> {None, Some (apr_ara_id p)}"
  shows "refused (handle_ara P p q st) st"
  using assms
  by (cases q)
     (auto simp: named_agent_def agent_routes Let_def complete_route_def fail_route_def tenant_mismatch_def
       intro!: refused_fmap refused_with_body refused_require_agent refused_ends)

theorem foreign_agent_messages_refused_witness:
  "refused (handle_ara (sample_app plain_answer) sample_device
     (Lease \<lparr>lq_tenant_id = 1, lq_ara_id = 61, lq_duration_seconds = 60\<rparr>) sample_state) sample_state"
  by (rule foreign_agent_messages_refused) (simp add: named_agent_def sample_device_def)

section \<open>Users and operators\<close>

lemma or_lifecycle_ret:
  "or_lifecycle_error (abind m (\<lambda>x. ret (f x))) = abind (or_lifecycle_error m) (\<lambda>x. ret (f x))"
  by (rule ext) (simp add: or_lifecycle_error_def handle_def abind_def ret_def raise_def split: prod.split sum.split)

lemma abind_if: "abind (if c then m else n) f = (if c then abind m f else abind n f)"
  by simp

text \<open>
  The routes with which users decide approvals and cancel tasks are those of the console without its check
  of roles: they do what the console does for a tenant administrator, whatever the roles of the user.
\<close>

theorem users_act_as_operators:
  "handle_user P p (Decide_approval k b) st =
     handle_user P (p\<lparr>upr_roles := {''tenant_admin''}\<rparr>) (Admin_decide k b) st \<and>
   handle_user P p (Cancel_task t) st =
     handle_user P (p\<lparr>upr_roles := {''tenant_admin''}\<rparr>) (Admin_cancel t) st"
  by (simp add: fmap_def decide_approval_route_def admin_decide_approval_def admin_cancel_task_def
      request_task_cancellation_route_def require_operator_mutation_def mutating_roles_def require_tenant_def decide_def or_lifecycle_ret)

text \<open>
  The console reviews a memory as the route of the user does, except that it files no synchronisation of
  the memory a promotion replaces.
\<close>

theorem console_review_skips_replaced:
  "handle_user P p (Review_memory k b) st =
     abind (handle_user P (p\<lparr>upr_roles := {''tenant_admin''}\<rparr>) (Admin_review k b)) (\<lambda>answer.
       case answer of
         Memory_reply m \<Rightarrow>
           (case vr_replaces_memory_id b of
              Some replaced \<Rightarrow>
                if mr_state m = Mem_PROMOTED
                then abind (enqueue_vector_sync (api_orchestrator P) (vr_tenant_id b) replaced) (\<lambda>_. ret answer)
                else ret answer
            | None \<Rightarrow> ret answer)
       | _ \<Rightarrow> ret answer) st"
  by (cases "vr_tenant_id b = upr_tenant_id p"; cases "vr_replaces_memory_id b")
     (simp_all add: fmap_def review_memory_route_def admin_review_memory_def require_operator_mutation_def
        mutating_roles_def require_tenant_def Let_def abind_assoc abind_if cong: if_cong)

section \<open>Personas and tasks\<close>

lemma fold_max: "x \<in> set (v # vs) \<Longrightarrow> x \<le> fold max vs (v :: int)"
  unfolding Max.set_eq_fold[symmetric] by (rule Max_ge) simp

lemma next_version_greater:
  assumes "q \<in> set (dict_values (st_personas s))" and "pp_tenant_id q = u"
  shows "pp_version q < next_persona_version u s"
proof -
  have "pp_version q \<in> set (map pp_version (filter (\<lambda>p. pp_tenant_id p = u) (dict_values (st_personas s))))"
    using assms by auto
  then obtain v vs where "map pp_version (filter (\<lambda>p. pp_tenant_id p = u) (dict_values (st_personas s))) = v # vs"
    "pp_version q \<in> set (v # vs)"
    by (metis list.exhaust list.set_cases)
  with fold_max[of "pp_version q" v vs] show ?thesis by (simp add: next_persona_version_def)
qed

text \<open>
  While the active persona is not the newest of the tenant, as after a revert, the persona cannot be
  updated: every update is answered with 409 and leaves the store as it was.
\<close>

theorem update_after_revert_conflicts:
  assumes "oc_others (api_orchestrator P) = (\<lambda>_ s. s)"
    and "get_active_persona (upr_tenant_id p) (os_store st) = Some active" and "0 \<le> pp_version active"
    and "newer \<in> set (dict_values (st_personas (os_store st)))" and "pp_tenant_id newer = upr_tenant_id p"
    and "pp_version active < pp_version newer"
    and "pu_tenant_id b = upr_tenant_id p" and "valid_persona_core (pu_authored_core b)"
  shows "\<exists>st'. handle_user P p (Update_persona (upr_tenant_id p) b) st =
      (Inl (HTTPException 409 ''persona version is not next for tenant''), st') \<and> os_store st' = os_store st"
proof -
  have "pp_version active + 1 \<noteq> next_persona_version (upr_tenant_id p) (os_store st)"
    using next_version_greater[OF assms(4,5)] assms(6) by simp
  then show ?thesis
    using assms(1-3,7,8)
    by (simp add: with_body_def fmap_def update_persona_route_def require_tenant_def or_conflict_def agent_run
        checked_def valid_persona_profile_def create_persona_profile_def)
qed

definition sample_reverted :: agent_state where
  "sample_reverted = sample_state\<lparr>os_store := (os_store sample_state)\<lparr>
     st_personas := [(65, sample_persona), (66, sample_persona\<lparr>pp_id := 66, pp_version := 2\<rparr>)],
     st_active_persona_ids := [(1, 66)]\<rparr>\<rparr>"

text \<open>Two personas; the user goes back to the first and then writes a third.\<close>

theorem update_after_revert_conflicts_witness:
  "\<exists>st1 st2. handle_user (sample_app plain_answer) sample_user
       (Revert_persona 1 \<lparr>pv_tenant_id = 1, pv_version = 1\<rparr>) sample_reverted = (Inr (Persona_reply sample_persona), st1) \<and>
     handle_user (sample_app plain_answer) sample_user (Update_persona 1 \<lparr>pu_tenant_id = 1, pu_authored_core = sample_core\<rparr>) st1 =
       (Inl (HTTPException 409 ''persona version is not next for tenant''), st2)"
proof -
  let ?P = "sample_app plain_answer" and ?b = "\<lparr>pu_tenant_id = 1, pu_authored_core = sample_core\<rparr>"
  obtain st1 where one: "handle_user ?P sample_user (Revert_persona 1 \<lparr>pv_tenant_id = 1, pv_version = 1\<rparr>) sample_reverted =
      (Inr (Persona_reply sample_persona), st1)"
    "st_active_persona_ids (os_store st1) = [(1, 65)]"
    "st_personas (os_store st1) = [(65, sample_persona), (66, sample_persona\<lparr>pp_id := 66, pp_version := 2\<rparr>)]"
    by (simp add: sample_app_def sample_user_def sample_reverted_def with_body_def valid_persona_revert_request_def
        fmap_def revert_persona_route_def require_tenant_def or_lifecycle_error_def revert_persona_profile_def
        sample_persona_def agent_eval sample_state_def)
  have "\<exists>st2. handle_user ?P sample_user (Update_persona (upr_tenant_id sample_user) ?b) st1 =
      (Inl (HTTPException 409 ''persona version is not next for tenant''), st2) \<and> os_store st2 = os_store st1"
    by (rule update_after_revert_conflicts[where active = sample_persona and
          newer = "sample_persona\<lparr>pp_id := 66, pp_version := 2\<rparr>"])
       (simp_all add: one get_active_persona_def sample_app_def sample_agent_def sample_user_def sample_persona_def
          sample_core_def valid_persona_core_def str_between_def)
  then have "\<exists>st2. handle_user ?P sample_user (Update_persona 1 ?b) st1 =
      (Inl (HTTPException 409 ''persona version is not next for tenant''), st2)"
    by (simp add: sample_user_def) blast
  with one(1) show ?thesis by blast
qed

text \<open>
  A posted task that carries the identifier of a task of another tenant replaces it in the in-memory store:
  the other tenant's task is gone and the sender's stands in its place. This is why a posted task has to be new
  in the theorems above.
\<close>

theorem posted_task_takes_over:
  assumes "oc_others (api_orchestrator P) = (\<lambda>_ s. s)" and "tk_tenant_id t = upr_tenant_id p" and "valid_task t"
    and "get_task v (tk_id t) (os_store st) = Some old" and "v \<noteq> tk_tenant_id t"
  shows "fst (handle_user P p (Create_task t) st) = Inr (Task_reply t) \<and>
    get_task v (tk_id t) (os_store (snd (handle_user P p (Create_task t) st))) = None \<and>
    get_task (tk_tenant_id t) (tk_id t) (os_store (snd (handle_user P p (Create_task t) st))) = Some t"
  using assms
  by (simp add: with_body_def fmap_def create_task_route_def require_tenant_def agent_run add_task_def
      get_task_def scoped_def update_conv' split: option.splits if_splits)

definition sample_foreign_task :: agent_state where
  "sample_foreign_task = sample_state\<lparr>os_store := (os_store sample_state)\<lparr>
     st_tasks := [(70, sample_task\<lparr>tk_tenant_id := 2\<rparr>)]\<rparr>\<rparr>"

theorem posted_task_takes_over_witness:
  "get_task 2 70 (os_store sample_foreign_task) = Some (sample_task\<lparr>tk_tenant_id := 2\<rparr>) \<and>
   get_task 2 70 (os_store (snd (handle_user (sample_app plain_answer) sample_user
     (Create_task sample_task) sample_foreign_task))) = None"
proof -
  have old: "get_task 2 (tk_id sample_task) (os_store sample_foreign_task) = Some (sample_task\<lparr>tk_tenant_id := 2\<rparr>)"
    by (simp add: get_task_def scoped_def sample_foreign_task_def sample_task_def)
  have "valid_task sample_task" by (simp add: samples valid_task_def valid_capability_def str_between_def)
  from posted_task_takes_over[OF _ _ this old, of "sample_app plain_answer" sample_user] old show ?thesis
    by (simp add: sample_app_def sample_agent_def sample_user_def sample_task_def)
qed

end
