(* ===== verification/AccessProperties.thy ===== *)
theory AccessProperties
  imports RequestProperties
begin

text \<open>
  Authentication, the object storage and the session audit: who a bearer token makes the sender, which
  artifacts a completion may name, and who sees a trace.
\<close>

section \<open>Artifacts\<close>

lemma task_prefix_prefix:
  assumes "prefix (task_prefix t k) (task_prefix t' k' @ rest)" and "is_uuid t" "is_uuid t'" "is_uuid k" "is_uuid k'"
  shows "t = t' \<and> k = k'"
proof -
  from assms(1) obtain more where "task_prefix t k @ more = task_prefix t' k' @ rest" by (auto simp: prefix_def)
  then have "uuid_text t = uuid_text t'" "uuid_text k = uuid_text k'"
    by (simp_all add: task_prefix_def)
  with assms(2-) uuid_text_inj show ?thesis by blast
qed

lemma upload_verifies:
  assumes "so_head S (ut_object_key (prepare_upload S u tenant_id task_id name media_type sha256)) =
      Some \<lparr>om_content_length = Some (af_size_bytes a), om_content_type = Some media_type, om_sha256 = Some sha256\<rparr>"
    and "af_object_key a = ut_object_key (prepare_upload S u tenant_id task_id name media_type sha256)"
    and "af_media_type a = media_type" and "af_sha256 a = sha256"
    and "is_uuid (af_tenant_id a)" "is_uuid (af_task_id a)" "is_uuid tenant_id" "is_uuid task_id"
  shows "verify_artifact S a = Inr () \<longleftrightarrow> af_tenant_id a = tenant_id \<and> af_task_id a = task_id"
proof -
  have key: "af_object_key a = task_prefix tenant_id task_id @ uuid_text u @ ''-'' @ safe_name name"
    using assms(2) by (simp add: prepare_upload_def Let_def)
  then have "prefix (task_prefix (af_tenant_id a) (af_task_id a)) (af_object_key a) \<longleftrightarrow>
      af_tenant_id a = tenant_id \<and> af_task_id a = task_id"
    using task_prefix_prefix assms(5-) by auto
  then show ?thesis using assms(1,3,4) unfolding assms(2)[symmetric] by (simp add: verify_artifact_def)
qed

text \<open>
  An object uploaded to the key and with the content type and digest that an agent was given verifies as an
  artifact of that task with the size the storage reports, and as an artifact of no other task or tenant.
\<close>

theorem prepared_upload_verifies:
  assumes "so_head S (ut_object_key (prepare_upload S u tenant_id task_id name media_type sha256)) =
      Some \<lparr>om_content_length = Some (af_size_bytes a), om_content_type = Some media_type, om_sha256 = Some sha256\<rparr>"
    and "af_object_key a = ut_object_key (prepare_upload S u tenant_id task_id name media_type sha256)"
    and "af_media_type a = media_type" and "af_sha256 a = sha256"
    and "is_uuid (af_tenant_id a)" "is_uuid (af_task_id a)" "is_uuid tenant_id" "is_uuid task_id"
  shows "verify_artifact S a = Inr () \<longleftrightarrow> af_tenant_id a = tenant_id \<and> af_task_id a = task_id"
  using assms by (rule upload_verifies)

definition sample_storage :: object_storage where
  "sample_storage = \<lparr>so_head = (\<lambda>_. Some \<lparr>om_content_length = Some 3, om_content_type = Some ''text/plain'',
       om_sha256 = Some (replicate 64 CHR ''0'')\<rparr>),
     so_put_url = (\<lambda>_ _ _ _. ''put''), so_get_url = (\<lambda>_ _. ''get'')\<rparr>"

definition sample_upload :: artifact where
  "sample_upload = \<lparr>af_id = 1000, af_tenant_id = 1, af_task_id = 70, af_name = ''notes'', af_media_type = ''text/plain'',
     af_object_key = ut_object_key (prepare_upload sample_storage 5 1 70 ''notes'' ''text/plain'' (replicate 64 CHR ''0'')),
     af_size_bytes = 3, af_sha256 = replicate 64 CHR ''0'', af_created_at = 60, af_deleted_at = None, af_retention_until = None\<rparr>"

theorem prepared_upload_verifies_witness: "verify_artifact sample_storage sample_upload = Inr ()"
  using prepared_upload_verifies[of sample_storage 5 1 70 "''notes''" "''text/plain''" "replicate 64 CHR ''0''" sample_upload]
  by (simp add: sample_storage_def sample_upload_def is_uuid_def)

text \<open>What a completion that was answered with success had to pass.\<close>

definition backed :: "object_storage \<Rightarrow> uuid \<Rightarrow> uuid \<Rightarrow> artifact \<Rightarrow> bool" where
  "backed S tenant_id task_id a \<longleftrightarrow>
     af_tenant_id a = tenant_id \<and> af_task_id a = task_id \<and>
     prefix (task_prefix tenant_id task_id) (af_object_key a) \<and>
     so_head S (af_object_key a) = Some \<lparr>om_content_length = Some (af_size_bytes a),
       om_content_type = Some (af_media_type a), om_sha256 = Some (af_sha256 a)\<rparr>"

lemma verified_backed:
  "verify_artifact S a = Inr () \<Longrightarrow> backed S (af_tenant_id a) (af_task_id a) a"
  by (auto simp: verify_artifact_def backed_def split: if_splits option.splits)

lemma emap_unit: "emap f xs = Inr ys \<Longrightarrow> x \<in> set xs \<Longrightarrow> f x = Inr ()"
  by (induction xs arbitrary: ys) (auto simp: ebind_Inr_iff)

lemma finish_artifacts_scope:
  "finish_task e u a k l st d fs s = (Inr t, s') \<Longrightarrow> list_all (\<lambda>f. af_tenant_id f = u \<and> af_task_id f = k) fs"
  by (auto simp: finish_task_def Let_def split: sum.splits option.splits if_splits prod.splits)

lemma abind_InrE:
  assumes "abind m f st = (Inr y, st')"
  obtains x st1 where "m st = (Inr x, st1)" "f x st1 = (Inr y, st')"
  using assms by (auto simp: abind_def split: prod.splits sum.splits)

lemma or_lifecycle_InrE:
  assumes "or_lifecycle_error m st = (Inr y, st')"
  shows "m st = (Inr y, st')"
  using assms by (auto simp: or_lifecycle_error_def handle_def raise_def split: prod.splits sum.splits)

lemma finish_route_success:
  assumes "finish_route P p b fs s d store request st = (Inr answer, st')"
  shows "list_all (\<lambda>f. af_tenant_id f = apr_tenant_id p \<and> af_task_id f = lb_task_id b) fs \<and>
    (fs = [] \<or> (\<exists>S n. store = Some S \<and> (\<forall>f \<in> set fs. verify_artifact (S n) f = Inr ())))"
proof -
  from assms obtain st1 st2 where own: "lb_tenant_id b = apr_tenant_id p"
    and verified: "verify_artifacts store fs st1 = (Inr (), st2)"
    and rest: "after_all (or_lifecycle_error (abind (call (api_orchestrator P) (\<lambda>e. finish_task e (lb_tenant_id b)
        (lb_ara_id b) (lb_task_id b) (lb_lease_id b) s d fs)) (\<lambda>task. ret \<lparr>ts_task_id = tk_id task, ts_state = tk_state task\<rparr>)))
       (if request then advance_turn (lb_tenant_id b) else ret ()) st2 = (Inr answer, st')"
    unfolding finish_route_def
    by (auto elim!: abind_InrE simp: verify_ara_message_def require_agent_def raise_def split: if_splits)
  from rest obtain st3 where "abind (call (api_orchestrator P) (\<lambda>e. finish_task e (lb_tenant_id b)
        (lb_ara_id b) (lb_task_id b) (lb_lease_id b) s d fs)) (\<lambda>task. ret \<lparr>ts_task_id = tk_id task, ts_state = tk_state task\<rparr>)
      st2 = (Inr answer, st3)"
    by (auto simp: after_all_def split: prod.splits sum.splits dest!: or_lifecycle_InrE)
  then obtain t st4 where "call (api_orchestrator P) (\<lambda>e. finish_task e (lb_tenant_id b)
        (lb_ara_id b) (lb_task_id b) (lb_lease_id b) s d fs) st2 = (Inr t, st4)"
    by (auto elim!: abind_InrE)
  then have "list_all (\<lambda>f. af_tenant_id f = apr_tenant_id p \<and> af_task_id f = lb_task_id b) fs"
    unfolding own call_def by (auto split: prod.splits dest: finish_artifacts_scope)
  moreover have "fs = [] \<or> (\<exists>S n. store = Some S \<and> (\<forall>f \<in> set fs. verify_artifact (S n) f = Inr ()))"
    using verified
    by (auto simp: verify_artifacts_def agent_run split: if_splits option.splits sum.splits dest: emap_unit)
  ultimately show ?thesis by blast
qed

text \<open>
  C11: A completion is answered with success only when the object storage held every artifact it names, below
  the prefix of the sender's tenant and the task, with the size, media type and digest it claims.
\<close>

theorem completed_artifacts_backed:
  assumes "handle_ara P p (Complete b) st = (Inr answer, st')" and "a \<in> set (cr_artifacts b)"
  shows "\<exists>S n. api_artifact_store P = Some S \<and> backed (S n) (apr_tenant_id p) (lb_task_id b) a"
proof -
  from assms(1) obtain r st1 where "finish_route P p b (cr_artifacts b) Task_COMPLETED (cr_result b)
      (api_artifact_store P) False st = (Inr r, st1)"
    by (auto simp: with_body_def fmap_def complete_route_def raise_def split: if_splits elim!: abind_InrE)
  from finish_route_success[OF this] assms(2) obtain S n where
    "api_artifact_store P = Some S" "verify_artifact (S n) a = Inr ()"
    "af_tenant_id a = apr_tenant_id p" "af_task_id a = lb_task_id b"
    by (auto simp: list_all_iff)
  with verified_backed[of "S n" a] show ?thesis by auto
qed

definition sample_storing :: app where
  "sample_storing = (sample_app plain_answer)\<lparr>api_artifact_store := Some (\<lambda>_. sample_storage)\<rparr>"

definition sample_working :: agent_state where
  "sample_working = sample_state\<lparr>os_store := (os_store sample_state)\<lparr>
     st_tasks := [(70, sample_task\<lparr>tk_required_capabilities := [], tk_state := Task_LEASED\<rparr>)],
     st_leases := [(80, sample_lease)], st_remote_agents := [(60, sample_ara)]\<rparr>\<rparr>"

definition sample_completion :: complete_task_request where
  "sample_completion = \<lparr>lb_tenant_id = 1, lb_ara_id = 60, lb_task_id = 70, lb_lease_id = 80,
     cr_result = ''done'', cr_artifacts = [sample_upload]\<rparr>"

lemma sample_key: "af_object_key sample_upload = task_prefix 1 70 @ uuid_text 5 @ ''-notes''"
  by (simp add: sample_upload_def prepare_upload_def safe_name_def quote_def quote_char_def always_safe_def Let_def)

lemma sample_upload_scope: "af_tenant_id sample_upload = 1" "af_task_id sample_upload = 70"
  by (simp_all add: sample_upload_def)

lemma sample_completed:
  "\<exists>answer st. handle_ara sample_storing sample_device (Complete sample_completion) sample_working = (Inr answer, st)"
proof -
  have "verify_artifact sample_storage sample_upload = Inr ()"
    using upload_verifies[of sample_storage 5 1 70 "''notes''" "''text/plain''" "replicate 64 CHR ''0''" sample_upload]
    by (simp add: sample_storage_def sample_upload_def is_uuid_def)
  moreover have "valid_complete_task_request sample_completion"
    by (simp add: valid_complete_task_request_def sample_completion_def valid_artifact_def sample_key
        str_between_def task_prefix_def is_sha256_hex_def list_all_iff sample_upload_def[THEN arg_cong, of af_name]
        sample_upload_def[THEN arg_cong, of af_media_type] sample_upload_def[THEN arg_cong, of af_size_bytes]
        sample_upload_def[THEN arg_cong, of af_sha256])
  ultimately show ?thesis
    by (simp add: with_body_def fmap_def complete_route_def finish_route_def verify_ara_message_def require_agent_def
      verify_artifacts_def after_all_def or_lifecycle_error_def advance_turn_def agent_eval sample_storing_def
      sample_app_def sample_device_def sample_completion_def sample_working_def sample_state_def finish_task_def active_lease_def
      granted_approvals_def sample_upload_scope)
qed

theorem completed_artifacts_backed_witness:
  "\<exists>answer st S n. handle_ara sample_storing sample_device (Complete sample_completion) sample_working = (Inr answer, st) \<and>
     api_artifact_store sample_storing = Some S \<and> backed (S n) 1 70 sample_upload"
proof -
  obtain answer st where run: "handle_ara sample_storing sample_device (Complete sample_completion) sample_working = (Inr answer, st)"
    using sample_completed by blast
  from completed_artifacts_backed[OF this, of sample_upload] run show ?thesis
    by (simp add: sample_completion_def sample_device_def)
qed

text \<open>
  A name of more than 309 blanks, which an upload may have, gives a key that no artifact may have: every blank
  takes three characters of it.
\<close>

theorem long_name_unusable:
  assumes "309 < n"
  shows "\<not> valid_artifact (a\<lparr>af_object_key := ut_object_key
    (prepare_upload S u tenant_id task_id (replicate n CHR '' '') media_type sha256)\<rparr>)"
proof -
  have "quote_char CHR '' '' = ''%20''" by code_simp
  then have "length (safe_name (replicate n CHR '' '')) = 3 * n"
    by (simp add: safe_name_def quote_def length_concat comp_def sum_list_replicate)
  with assms show ?thesis
    by (simp add: valid_artifact_def str_between_def prepare_upload_def task_prefix_def Let_def)
qed

theorem long_name_unusable_witness:
  "valid_artifact_upload_request \<lparr>lb_tenant_id = 1, lb_ara_id = 60, lb_task_id = 70, lb_lease_id = 80,
     ur_name = replicate 400 CHR '' '', ur_media_type = ''text/plain'', ur_sha256 = replicate 64 CHR ''0''\<rparr> \<and>
   \<not> valid_artifact (sample_upload\<lparr>af_object_key := ut_object_key
     (prepare_upload sample_storage 5 1 70 (replicate 400 CHR '' '') ''text/plain'' (replicate 64 CHR ''0''))\<rparr>)"
  using long_name_unusable[where n = 400]
  by (simp add: valid_artifact_upload_request_def str_between_def is_sha256_hex_def list_all_iff)

section \<open>The session audit\<close>

text \<open>
  A trace is shown to the tenant that last began it, and to no other. The client names the trace, so a
  tenant that begins it again takes over what the tenant before it recorded.
\<close>

theorem audit_trace_shown_to_last:
  "get_session_audit v k (audit_begin now k u content a) =
     (if v = u then Inr (k, trace_entries k a @ [[(''at'', JTime now), (''stage'', JStr ''user.input''), (''content'', JStr content)]])
      else Inl (HTTPException 404 ''audit trace not found''))"
  by (simp add: get_session_audit_def belongs_to_def audit_begin_def audit_record_def audit_get_def trace_entries_def
      update_conv')

section \<open>Bearer tokens\<close>

lemma refresh_keys_error: "refresh_keys E n c = (Inl err, c') \<Longrightarrow> c' = c"
  by (auto simp: refresh_keys_def split: if_splits sum.splits)

lemma refresh_keys_settings:
  "refresh_keys E n c = (r, c') \<Longrightarrow> od_issuer c' = od_issuer c \<and> od_audience c' = od_audience c \<and>
     od_tenant_claim c' = od_tenant_claim c"
  by (auto simp: refresh_keys_def split: if_splits sum.splits)

lemma find_key_known:
  "find_key E kid c = (Inr key, c') \<Longrightarrow> key = map_of (od_keys c') kid \<and> od_issuer c' = od_issuer c \<and>
     od_audience c' = od_audience c \<and> od_tenant_claim c' = od_tenant_claim c"
  by (auto simp: find_key_def split: if_splits sum.splits prod.splits option.splits dest!: refresh_keys_settings)

text \<open>What the sender of a request is read from: a token that the key the provider lists under its id verified.\<close>

definition token_names :: "oidc_env \<Rightarrow> oidc \<Rightarrow> string \<Rightarrow> user_principal \<Rightarrow> bool" where
  "token_names E c token p \<longleftrightarrow> (\<exists>header kid key claims tenant.
     oe_header E token = Inr header \<and> json_text (get_or JNull header ''kid'') = Some kid \<and>
     map_of (od_keys c) kid = Some key \<and> jwk_algorithm_name key \<in> signing_algorithms \<and>
     oe_decode E token (jwk_key key) (jwk_algorithm_name key) (od_issuer c) (od_audience c)
       [''exp'', ''iss'', ''aud'', ''sub'', od_tenant_claim c] = Inr claims \<and>
     map_of claims (od_tenant_claim c) = Some tenant \<and> json_text tenant \<noteq> None \<and>
     parse_uuid (the (json_text tenant)) = Some (upr_tenant_id p) \<and>
     upr_subject p \<noteq> [] \<and> (\<exists>s. map_of claims ''sub'' = Some s \<and> json_text s = Some (upr_subject p)) \<and>
     upr_user_id p = oe_uuid5 E (od_issuer c @ '':'' @ upr_subject p))"

lemma claims_name:
  assumes "principal_of_claims E c claims = Inr p"
  shows "\<exists>tenant. map_of claims (od_tenant_claim c) = Some tenant \<and> json_text tenant \<noteq> None \<and>
     parse_uuid (the (json_text tenant)) = Some (upr_tenant_id p) \<and>
     upr_subject p \<noteq> [] \<and> (\<exists>s. map_of claims ''sub'' = Some s \<and> json_text s = Some (upr_subject p)) \<and>
     upr_user_id p = oe_uuid5 E (od_issuer c @ '':'' @ upr_subject p)"
  using assms by (auto simp: principal_of_claims_def split: option.splits list.splits json.splits if_splits)

text \<open>
  C12: Whoever a bearer token makes the sender, the token was verified with the key listed under its key id, by
  an asymmetric algorithm, for the issuer and audience of the settings, with an expiry; the tenant and the
  subject are the claims of that token.
\<close>

theorem bearer_names_sender:
  assumes "oidc_authenticate E h c = (Inr p, c')"
  shows "\<exists>authorization token. h ''Authorization'' = Some authorization \<and>
    partition_blank authorization = (takeWhile (\<lambda>x. x \<noteq> CHR '' '') authorization, token) \<and>
    is_bearer (takeWhile (\<lambda>x. x \<noteq> CHR '' '') authorization) \<and> token_names E c' token p \<and>
    od_issuer c' = od_issuer c \<and> od_audience c' = od_audience c"
proof -
  obtain authorization where a: "h ''Authorization'' = Some authorization"
    using assms by (auto simp: oidc_authenticate_def partition_blank_def Let_def split: option.splits if_splits)
  let ?scheme = "takeWhile (\<lambda>x. x \<noteq> CHR '' '') authorization"
  obtain token where t: "partition_blank authorization = (?scheme, token)" by (simp add: partition_blank_def Let_def)
  from assms a t have bearer: "is_bearer ?scheme" by (auto simp: oidc_authenticate_def split: if_splits)
  from assms a t obtain header kid key where k: "oe_header E token = Inr header"
    "json_text (get_or JNull header ''kid'') = Some kid" "find_key E kid c = (Inr key, c')"
    "verify_token E c' token key = Inr p"
    by (auto simp: oidc_authenticate_def split: if_splits sum.splits option.splits prod.splits)
  from find_key_known[OF k(3)] have known: "key = map_of (od_keys c') kid"
    "od_issuer c' = od_issuer c" "od_audience c' = od_audience c" by simp_all
  from k(4) obtain x claims where x: "key = Some x" "jwk_algorithm_name x \<in> signing_algorithms"
    "oe_decode E token (jwk_key x) (jwk_algorithm_name x) (od_issuer c') (od_audience c')
       [''exp'', ''iss'', ''aud'', ''sub'', od_tenant_claim c'] = Inr claims"
    "principal_of_claims E c' claims = Inr p"
    by (auto simp: verify_token_def ebind_Inr_iff split: option.splits if_splits)
  have "token_names E c' token p"
    unfolding token_names_def using k(1,2) x(1-3) known(1) claims_name[OF x(4)] by metis
  with a t bearer known show ?thesis by blast
qed

definition sample_oidc :: oidc where
  "sample_oidc = \<lparr>od_issuer = ''https://id'', od_audience = ''astra'', od_tenant_claim = ''tenant'', od_cache_seconds = 300,
     od_keys = [(''k1'', \<lparr>jwk_algorithm_name = ''RS256'', jwk_key = 7\<rparr>)], od_cache_expires_at = 500\<rparr>"

text \<open>The provider cannot be reached; the token is one for the first user of the first tenant.\<close>

definition sample_oidc_env :: "string \<Rightarrow> oidc_env" where
  "sample_oidc_env kid = \<lparr>oe_monotonic = (\<lambda>_. 100), oe_get = (\<lambda>_. Inl TransportError), oe_jwk = (\<lambda>_. Inl KeyError),
     oe_header = (\<lambda>_. Inr [(''kid'', JStr kid)]),
     oe_decode = (\<lambda>_ _ _ _ _ _. Inr [(''sub'', JStr ''alice''), (''tenant'', JId 1)]), oe_uuid5 = (\<lambda>_. 2)\<rparr>"

definition sample_headers :: headers where
  "sample_headers = [''Authorization'' \<mapsto> ''Bearer abc'']"

lemma is_bearer_capital: "is_bearer ''Bearer''"
  by code_simp

lemma partition_bearer: "partition_blank (''Bearer '' @ token) = (''Bearer'', token)"
  by (simp add: partition_blank_def)

lemma sample_signed_in:
  "\<exists>p. oidc_authenticate (sample_oidc_env ''k1'') sample_headers sample_oidc = (Inr p, sample_oidc)"
proof -
  have "find_key (sample_oidc_env ''k1'') ''k1'' sample_oidc =
      (Inr (Some \<lparr>jwk_algorithm_name = ''RS256'', jwk_key = 7\<rparr>), sample_oidc)"
    by (simp add: find_key_def sample_oidc_def sample_oidc_env_def)
  moreover have "verify_token (sample_oidc_env ''k1'') sample_oidc ''abc'' (Some \<lparr>jwk_algorithm_name = ''RS256'', jwk_key = 7\<rparr>) =
      Inr \<lparr>upr_tenant_id = 1, upr_user_id = 2, upr_subject = ''alice'', upr_roles = {}\<rparr>"
    by (simp add: verify_token_def signing_algorithms_def sample_oidc_def sample_oidc_env_def principal_of_claims_def
        json_text_def role_list_def get_or_def is_uuid_def)
  moreover have "oe_header (sample_oidc_env ''k1'') t = Inr [(''kid'', JStr ''k1'')]" for t
    by (simp add: sample_oidc_env_def)
  ultimately show ?thesis
    using partition_bearer[of "''abc''"] is_bearer_capital
    by (simp add: oidc_authenticate_def sample_headers_def get_or_def json_text_def)
qed

theorem bearer_names_sender_witness:
  "\<exists>p. oidc_authenticate (sample_oidc_env ''k1'') sample_headers sample_oidc = (Inr p, sample_oidc) \<and>
     token_names (sample_oidc_env ''k1'') sample_oidc ''abc'' p"
proof -
  obtain p where run: "oidc_authenticate (sample_oidc_env ''k1'') sample_headers sample_oidc = (Inr p, sample_oidc)"
    using sample_signed_in by blast
  from bearer_names_sender[OF run] run show ?thesis
    by (auto simp: sample_headers_def partition_blank_def)
qed

text \<open>A request with a token, signed or not, whose header names a key.\<close>

definition bears_key :: "oidc_env \<Rightarrow> headers \<Rightarrow> string \<Rightarrow> bool" where
  "bears_key E h kid \<longleftrightarrow> (\<exists>x token header. h ''Authorization'' = Some (''Bearer '' @ x # token) \<and>
     oe_header E (x # token) = Inr header \<and> json_text (get_or JNull header ''kid'') = Some kid)"

definition provider_down :: "oidc_env \<Rightarrow> bool" where
  "provider_down E \<longleftrightarrow> (\<forall>n. oe_get E n = Inl TransportError)"

lemma no_key_no_user:
  assumes "bears_key E h kid" and "find_key E kid c = (Inl keys_unavailable, c1)"
  shows "oidc_authenticate E h c = (Inl keys_unavailable, c1)"
proof -
  obtain x token header where h: "h ''Authorization'' = Some (''Bearer '' @ x # token)"
    "oe_header E (x # token) = Inr header" "json_text (get_or JNull header ''kid'') = Some kid"
    using assms(1) unfolding bears_key_def by blast
  have "token_failure keys_unavailable = keys_unavailable" by (simp add: token_failure_def keys_unavailable_def)
  with h assms(2) is_bearer_capital show ?thesis
    unfolding oidc_authenticate_def h(1) option.case partition_bearer by simp
qed

lemma refresh_fails:
  "provider_down E \<Longrightarrow> od_keys c = [] \<or> od_cache_expires_at c \<le> oe_monotonic E (3 * n + 1) \<Longrightarrow>
     refresh_keys E n c = (Inl keys_unavailable, c)"
  by (auto simp: refresh_keys_def fetch_keys_def provider_down_def)

text \<open>
  While the provider cannot be reached, one request with a token that names an unknown key, signed by nobody,
  empties the time left of the cached keys: it and every later request, also those whose key is cached, are
  answered with 503.
\<close>

theorem unknown_key_locks_users_out:
  assumes "provider_down E" and "bears_key E h kid" and "map_of (od_keys c) kid = None"
    and "od_keys c \<noteq> []" and "oe_monotonic E 1 < od_cache_expires_at c" and "\<And>i. 0 \<le> oe_monotonic E i"
    and "oidc_authenticate E h c = (r, c')"
    and "provider_down E'" and "bears_key E' h' kid'" and "\<And>i. 0 \<le> oe_monotonic E' i"
  shows "r = Inl keys_unavailable \<and> oidc_authenticate E' h' c' = (Inl keys_unavailable, c')"
proof -
  let ?c = "c\<lparr>od_cache_expires_at := 0\<rparr>"
  have "refresh_keys E 0 c = (Inr (), c)" using assms(4,5) by (simp add: refresh_keys_def)
  moreover have "refresh_keys E 1 ?c = (Inl keys_unavailable, ?c)" by (rule refresh_fails) (simp_all add: assms(1,6))
  ultimately have "find_key E kid c = (Inl keys_unavailable, ?c)" using assms(3) by (simp add: find_key_def)
  from no_key_no_user[OF assms(2) this] assms(7) have r: "r = Inl keys_unavailable" "c' = ?c" by simp_all
  have "refresh_keys E' 0 ?c = (Inl keys_unavailable, ?c)" by (rule refresh_fails) (simp_all add: assms(8,10))
  then have "find_key E' kid' ?c = (Inl keys_unavailable, ?c)" using assms(10) by (simp add: find_key_def)
  from no_key_no_user[OF assms(9) this] r show ?thesis by simp
qed

theorem unknown_key_locks_users_out_witness:
  "\<exists>c. oidc_authenticate (sample_oidc_env ''kx'') sample_headers sample_oidc = (Inl keys_unavailable, c) \<and>
     oidc_authenticate (sample_oidc_env ''k1'') sample_headers c = (Inl keys_unavailable, c)"
proof -
  have bears: "bears_key (sample_oidc_env kid) sample_headers kid" for kid
    by (auto simp: bears_key_def sample_oidc_env_def sample_headers_def get_or_def json_text_def)
  obtain r c where run: "oidc_authenticate (sample_oidc_env ''kx'') sample_headers sample_oidc = (r, c)" by fastforce
  have "r = Inl keys_unavailable \<and> oidc_authenticate (sample_oidc_env ''k1'') sample_headers c = (Inl keys_unavailable, c)"
    by (rule unknown_key_locks_users_out[OF _ bears _ _ _ _ run _ bears])
       (simp_all add: provider_down_def sample_oidc_env_def sample_oidc_def)
  with run show ?thesis by blast
qed

end
