(* ===== verification/AgentClient.thy ===== *)
theory AgentClient
  imports Routes
begin

text \<open>
  The process of a remote agent: \<^verbatim>\<open>ARAClient\<close> of \<^verbatim>\<open>packages/ara-sdk/src/astra_ara_sdk/client.py\<close> and the loop
  \<^verbatim>\<open>serve\<close>, which \<^verbatim>\<open>apps/ara/src/astra_ara/main.py\<close> and \<^verbatim>\<open>host_main.py\<close> share. The network is a parameter: a
  function from a request and the state of the world to the answer, a status and a body or an exception of
  the transport, and the world after it. The pauses between attempts and rounds are not modelled.
\<close>

section \<open>The client\<close>

type_synonym 'w network = "ara_request \<Rightarrow> 'w \<Rightarrow> (error + int \<times> reply) \<times> 'w"

text \<open>\<^verbatim>\<open>_post\<close>: up to three attempts, another one after a status from 500 on or a failure of the transport.\<close>

fun post_attempts :: "nat \<Rightarrow> 'w network \<Rightarrow> ara_request \<Rightarrow> 'w \<Rightarrow> (error + int \<times> reply) \<times> 'w" where
  "post_attempts 0 net q w = (Inl (RuntimeError ''unreachable''), w)"
| "post_attempts (Suc n) net q w =
     (case net q w of
        (Inr (status, body), w1) \<Rightarrow>
          if status < 500 \<or> n = 0 then (Inr (status, body), w1) else post_attempts n net q w1
      | (Inl TransportError, w1) \<Rightarrow> if n = 0 then (Inl TransportError, w1) else post_attempts n net q w1
      | (Inl err, w1) \<Rightarrow> (Inl err, w1))"

definition post :: "'w network \<Rightarrow> ara_request \<Rightarrow> 'w \<Rightarrow> (error + int \<times> reply) \<times> 'w" where
  "post net = post_attempts 3 net"

definition raise_for_reply :: "int \<times> reply \<Rightarrow> error + reply" where
  "raise_for_reply r = (if 200 \<le> fst r \<and> fst r < 300 then Inr (snd r) else Inl HTTPStatusError)"

text \<open>Post, raise for the status and read the body with \<open>decode\<close>.\<close>

definition exchange :: "(reply \<Rightarrow> error + 'a) \<Rightarrow> 'w network \<Rightarrow> ara_request \<Rightarrow> 'w \<Rightarrow> (error + 'a) \<times> 'w" where
  "exchange decode net q w =
     (case post net q w of
        (Inl err, w1) \<Rightarrow> (Inl err, w1)
      | (Inr r, w1) \<Rightarrow> (ebind (raise_for_reply r) decode, w1))"

definition no_body :: "reply \<Rightarrow> error + unit" where
  "no_body r = Inr ()"

fun lease_body :: "reply \<Rightarrow> error + task \<times> lease" where
  "lease_body (Lease_reply t l) = Inr (t, l)"
| "lease_body _ = Inl (ValidationError ''LeaseResponse'')"

fun heartbeat_body :: "reply \<Rightarrow> error + heartbeat_response" where
  "heartbeat_body (Heartbeat_reply h) = Inr h"
| "heartbeat_body _ = Inl (ValidationError ''HeartbeatResponse'')"

fun lifecycle_body :: "reply \<Rightarrow> error + task_lifecycle_response" where
  "lifecycle_body (Lifecycle_reply r) = Inr r"
| "lifecycle_body _ = Inl (ValidationError ''TaskLifecycleResponse'')"

fun approval_body :: "reply \<Rightarrow> error + approval" where
  "approval_body (Approval_reply a) = Inr a"
| "approval_body _ = Inl (ValidationError ''ApprovalResponse'')"

definition client_register :: "'w network \<Rightarrow> register_request \<Rightarrow> 'w \<Rightarrow> (error + unit) \<times> 'w" where
  "client_register net b = exchange no_body net (Register b)"

definition client_progress :: "'w network \<Rightarrow> ara_event_request \<Rightarrow> 'w \<Rightarrow> (error + unit) \<times> 'w" where
  "client_progress net b = exchange no_body net (Ara_event b)"

definition client_heartbeat :: "'w network \<Rightarrow> heartbeat_request \<Rightarrow> 'w \<Rightarrow> (error + heartbeat_response) \<times> 'w" where
  "client_heartbeat net b = exchange heartbeat_body net (Heartbeat b)"

definition client_renew :: "'w network \<Rightarrow> renew_lease_request \<Rightarrow> 'w \<Rightarrow> (error + task \<times> lease) \<times> 'w" where
  "client_renew net b = exchange lease_body net (Renew b)"

definition client_complete :: "'w network \<Rightarrow> complete_task_request \<Rightarrow> 'w \<Rightarrow> (error + task_lifecycle_response) \<times> 'w" where
  "client_complete net b = exchange lifecycle_body net (Complete b)"

definition client_cancel :: "'w network \<Rightarrow> cancel_task_request \<Rightarrow> 'w \<Rightarrow> (error + task_lifecycle_response) \<times> 'w" where
  "client_cancel net b = exchange lifecycle_body net (Cancel b)"

definition client_fail :: "'w network \<Rightarrow> fail_task_request \<Rightarrow> 'w \<Rightarrow> (error + task_lifecycle_response) \<times> 'w" where
  "client_fail net b = exchange lifecycle_body net (Fail b)"

definition client_request_approval :: "'w network \<Rightarrow> approval_request \<Rightarrow> 'w \<Rightarrow> (error + approval) \<times> 'w" where
  "client_request_approval net b = exchange approval_body net (Ask_approval b)"

text \<open>\<^verbatim>\<open>lease\<close>: whatever goes wrong is read as no task.\<close>

definition client_lease :: "'w network \<Rightarrow> uuid \<Rightarrow> uuid \<Rightarrow> int \<Rightarrow> 'w \<Rightarrow> (task \<times> lease) option \<times> 'w" where
  "client_lease net tenant_id ara_id duration_seconds w =
     (let b = \<lparr>lq_tenant_id = tenant_id, lq_ara_id = ara_id, lq_duration_seconds = duration_seconds\<rparr> in
      if \<not> valid_lease_request b then (None, w)
      else case post net (Lease b) w of
        (Inl err, w1) \<Rightarrow> (None, w1)
      | (Inr (status, body), w1) \<Rightarrow>
          if status = 204 then (None, w1)
          else (case ebind (raise_for_reply (status, body)) lease_body of
                  Inl err \<Rightarrow> (None, w1)
                | Inr leased \<Rightarrow> (Some leased, w1)))"

section \<open>The loop\<close>

text \<open>The two programs differ in the capability they register and the text of their first message.\<close>

record agent_worker =
  wr_tenant_id :: uuid
  wr_ara_id :: uuid
  wr_name :: string
  wr_runtime_version :: string
  wr_capability :: capability
  wr_message :: string
  wr_once :: bool

definition repository_worker :: "uuid \<Rightarrow> uuid \<Rightarrow> string \<Rightarrow> bool \<Rightarrow> agent_worker" where
  "repository_worker tenant_id ara_id name once =
     \<lparr>wr_tenant_id = tenant_id, wr_ara_id = ara_id, wr_name = name, wr_runtime_version = ''0.1.0'',
      wr_capability = \<lparr>cap_kind = FILE_READ, cap_scope = ''repository''\<rparr>, wr_message = ''Inspecting repository'', wr_once = once\<rparr>"

definition host_worker :: "uuid \<Rightarrow> uuid \<Rightarrow> string \<Rightarrow> bool \<Rightarrow> agent_worker" where
  "host_worker tenant_id ara_id name once =
     \<lparr>wr_tenant_id = tenant_id, wr_ara_id = ara_id, wr_name = name, wr_runtime_version = ''0.1.0-host'',
      wr_capability = \<lparr>cap_kind = COMMAND_EXECUTE_HOST, cap_scope = ''host''\<rparr>, wr_message = ''Executing host command'', wr_once = once\<rparr>"

text \<open>
  The thread that executes a task: at how many checks of \<^verbatim>\<open>execution.done()\<close> it is still running, whether it is
  done when a cancellation arrives after the last of them, and what it returns or raises.
\<close>

record execution =
  ex_running :: nat
  ex_late :: bool
  ex_result :: "error + string"

definition cancellation_reason :: string where
  "cancellation_reason = ''Cancellation requested by control plane''"

text \<open>
  \<^verbatim>\<open>while not execution.done()\<close>: heartbeats and renewals. The value is whether the execution was cancelled,
  beside it the bound with the lease of the last renewal.
\<close>

fun watch :: "'w network \<Rightarrow> nat \<Rightarrow> bool \<Rightarrow> lease_bound \<Rightarrow> 'w \<Rightarrow> (error + bool) \<times> lease_bound \<times> 'w" where
  "watch net 0 late b w = (Inr False, b, w)"
| "watch net (Suc n) late b w =
     (case client_heartbeat net \<lparr>hr_tenant_id = lb_tenant_id b, hr_ara_id = lb_ara_id b,
             hr_task_id = Some (lb_task_id b), hr_lease_id = Some (lb_lease_id b)\<rparr> w of
        (Inl err, w1) \<Rightarrow> (Inl err, b, w1)
      | (Inr health, w1) \<Rightarrow>
          if hs_cancellation_requested health then
            (case client_cancel net (lease_bound.extend b (cancel_task_request.fields cancellation_reason)) w1 of
               (Inl err, w2) \<Rightarrow> (Inl err, b, w2)
             | (Inr _, w2) \<Rightarrow> (Inr (\<not> (n = 0 \<and> late)), b, w2))
          else
            (case client_renew net (lease_bound.extend b (renew_lease_request.fields 120)) w1 of
               (Inl err, w2) \<Rightarrow> (Inl err, b, w2)
             | (Inr (t, l), w2) \<Rightarrow> watch net n late (b\<lparr>lb_lease_id := ls_id l\<rparr>) w2))"

text \<open>The body of the \<^verbatim>\<open>try\<close>: \<open>describe\<close> is \<^verbatim>\<open>f"{type(error).__name__}: {error}"\<close>.\<close>

definition attempt_task ::
  "'w network \<Rightarrow> execution \<Rightarrow> lease_bound \<Rightarrow> 'w \<Rightarrow> (error + unit) \<times> lease_bound \<times> 'w" where
  "attempt_task net ex b w =
     (case watch net (ex_running ex) (ex_late ex) b w of
        (Inl err, b1, w1) \<Rightarrow> (Inl err, b1, w1)
      | (Inr True, b1, w1) \<Rightarrow> (Inr (), b1, w1)
      | (Inr False, b1, w1) \<Rightarrow>
          (case ebind (ex_result ex) (\<lambda>result. checked valid_complete_task_request
                  (lease_bound.extend b1 (complete_task_request.fields result []))) of
             Inl err \<Rightarrow> (Inl err, b1, w1)
           | Inr body \<Rightarrow>
               (case client_complete net body w1 of (r, w2) \<Rightarrow> (ebind r (\<lambda>_. Inr ()), b1, w2))))"

definition report_failure :: "'w network \<Rightarrow> string \<Rightarrow> lease_bound \<Rightarrow> 'w \<Rightarrow> (error + unit) \<times> 'w" where
  "report_failure net text b w =
     (case checked valid_fail_task_request (lease_bound.extend b (fail_task_request.fields text)) of
        Inl err \<Rightarrow> (Inl err, w)
      | Inr body \<Rightarrow> (case client_fail net body w of (r, w1) \<Rightarrow> (ebind r (\<lambda>_. Inr ()), w1)))"

definition serve_task ::
  "'w network \<Rightarrow> agent_worker \<Rightarrow> (error \<Rightarrow> string) \<Rightarrow> execution \<Rightarrow> task \<times> lease \<Rightarrow> 'w \<Rightarrow> (error + unit) \<times> 'w" where
  "serve_task net W describe ex leased w =
     (let b = \<lparr>lb_tenant_id = wr_tenant_id W, lb_ara_id = wr_ara_id W, lb_task_id = tk_id (fst leased),
               lb_lease_id = ls_id (snd leased)\<rparr> in
      case client_progress net (lease_bound.extend b (ara_event_request.fields (wr_message W) (Some 10))) w of
        (Inl err, w1) \<Rightarrow> (Inl err, w1)
      | (Inr _, w1) \<Rightarrow>
          (case attempt_task net ex b w1 of
             (Inr _, b1, w2) \<Rightarrow> (Inr (), w2)
           | (Inl CancelledError, b1, w2) \<Rightarrow> (Inl CancelledError, w2)
           | (Inl err, b1, w2) \<Rightarrow> report_failure net (describe err) b1 w2))"

text \<open>One round of \<^verbatim>\<open>while True\<close>; the value is whether another one follows.\<close>

definition serve_round ::
  "'w network \<Rightarrow> agent_worker \<Rightarrow> (error \<Rightarrow> string) \<Rightarrow> (task \<Rightarrow> 'w \<Rightarrow> execution) \<Rightarrow> 'w \<Rightarrow> (error + bool) \<times> 'w" where
  "serve_round net W describe exec w =
     (case client_lease net (wr_tenant_id W) (wr_ara_id W) 120 w of
        (None, w1) \<Rightarrow> (Inr (\<not> wr_once W), w1)
      | (Some leased, w1) \<Rightarrow>
          (case serve_task net W describe (exec (fst leased) w1) leased w1 of
             (Inl err, w2) \<Rightarrow> (Inl err, w2)
           | (Inr _, w2) \<Rightarrow> (Inr (\<not> wr_once W), w2)))"

partial_function (option) serve_loop ::
  "'w network \<Rightarrow> agent_worker \<Rightarrow> (error \<Rightarrow> string) \<Rightarrow> (task \<Rightarrow> 'w \<Rightarrow> execution) \<Rightarrow> 'w \<Rightarrow> ((error + unit) \<times> 'w) option" where
  "serve_loop net W describe exec w =
     (case serve_round net W describe exec w of
        (Inl err, w1) \<Rightarrow> Some (Inl err, w1)
      | (Inr continues, w1) \<Rightarrow>
          if continues then serve_loop net W describe exec w1 else Some (Inr (), w1))"

definition serve ::
  "'w network \<Rightarrow> agent_worker \<Rightarrow> (error \<Rightarrow> string) \<Rightarrow> (task \<Rightarrow> 'w \<Rightarrow> execution) \<Rightarrow> 'w \<Rightarrow> ((error + unit) \<times> 'w) option" where
  "serve net W describe exec w =
     (case checked valid_register_request
             \<lparr>rr_tenant_id = wr_tenant_id W, rr_name = wr_name W, rr_capabilities = [wr_capability W],
              rr_runtime_version = wr_runtime_version W\<rparr> of
        Inl err \<Rightarrow> Some (Inl err, w)
      | Inr body \<Rightarrow>
          (case client_register net body w of
             (Inl err, w1) \<Rightarrow> Some (Inl err, w1)
           | (Inr _, w1) \<Rightarrow> serve_loop net W describe exec w1))"

end
