(* ===== verification/HostCommand.thy ===== *)
theory HostCommand
  imports AgentClient Tools
begin

text \<open>
  \<^verbatim>\<open>apps/ara/src/astra_ara/host_executor.py\<close> and the settings of the host agent in \<^verbatim>\<open>settings.py\<close>: the agent
  that runs commands on its host under a policy of its own. A resolved path is the list of its parts. The
  file system, the process and \<^verbatim>\<open>json\<close> are parameters.
\<close>

section \<open>Settings\<close>

datatype execution_mode = Approval_required | Autonomous_allowlist | Unrestricted_autonomous

record host_settings =
  hst_enabled :: bool
  hst_execution_mode :: execution_mode
  hst_confirm_unrestricted_autonomy :: bool
  hst_command_allowlist :: "string list"
  hst_working_directory_allowlist :: "string list"
  hst_command_timeout_seconds :: int
  hst_command_max_output_bytes :: int

definition default_host_settings :: host_settings where
  "default_host_settings =
     \<lparr>hst_enabled = False, hst_execution_mode = Approval_required, hst_confirm_unrestricted_autonomy = False,
      hst_command_allowlist = [], hst_working_directory_allowlist = [], hst_command_timeout_seconds = 120,
      hst_command_max_output_bytes = 65536\<rparr>"

definition validate_privileged_mode :: "host_settings \<Rightarrow> error + host_settings" where
  "validate_privileged_mode S =
     (if \<not> (int_between 1 3600 (hst_command_timeout_seconds S) \<and> int_between 1024 10485760 (hst_command_max_output_bytes S))
      then Inl (ValidationError ''HostARASettings'')
      else if \<not> hst_enabled S then Inl (ValidationError ''ASTRA_HOST_ARA_ENABLED=true is required'')
      else if hst_execution_mode S = Unrestricted_autonomous \<and> \<not> hst_confirm_unrestricted_autonomy S
      then Inl (ValidationError ''ASTRA_HOST_ARA_CONFIRM_UNRESTRICTED_AUTONOMY=true is required'')
      else if hst_execution_mode S = Autonomous_allowlist \<and> hst_command_allowlist S = []
      then Inl (ValidationError ''ASTRA_HOST_ARA_COMMAND_ALLOWLIST is required for allowlist mode'')
      else Inr S)"

section \<open>The host\<close>

text \<open>
  What the code asks of the host: \<^verbatim>\<open>json.loads\<close> and \<^verbatim>\<open>json.dumps\<close>, \<^verbatim>\<open>expanduser\<close>, \<^verbatim>\<open>resolve(strict=True)\<close>, the value
  of \<^verbatim>\<open>PATH\<close>, whether a path is an executable file and what it resolves to, the process and the decoding of
  bytes.
\<close>

datatype host_outcome = Host_timeout | Host_exited int string string

record host =
  ho_loads :: "string \<Rightarrow> error + json"
  ho_dumps :: "json \<Rightarrow> string"
  ho_expand :: "string \<Rightarrow> error + string"
  ho_resolve :: "string \<Rightarrow> error + string list"
  ho_path :: string
  ho_executable :: "string \<Rightarrow> bool"
  ho_realpath :: "string \<Rightarrow> string list"
  ho_run :: "string list \<Rightarrow> string list \<Rightarrow> string list option \<Rightarrow> int \<Rightarrow> error + host_outcome"
  ho_decode :: "nat list \<Rightarrow> string"

record host_command =
  hc_executable :: "string list"
  hc_arguments :: "string list"
  hc_cwd :: "string list option"

text \<open>\<^verbatim>\<open>Path(directory) / name\<close>.\<close>

definition join_path :: "string \<Rightarrow> string \<Rightarrow> string" where
  "join_path directory name = (if directory = [] then name else directory @ ''/'' @ name)"

text \<open>\<^verbatim>\<open>path.split(":")\<close>.\<close>

fun split_colon :: "string \<Rightarrow> string list" where
  "split_colon [] = [[]]"
| "split_colon (c # s) =
     (if c = CHR '':'' then [] # split_colon s
      else case split_colon s of [] \<Rightarrow> [[c]] | d # ds \<Rightarrow> (c # d) # ds)"

definition which :: "host \<Rightarrow> string \<Rightarrow> string list option" where
  "which H name =
     map_option (\<lambda>directory. ho_realpath H (join_path directory name))
       (find (\<lambda>directory. ho_executable H (join_path directory name)) (split_colon (ho_path H)))"

section \<open>The executor\<close>

definition argv_of_payload :: "json \<Rightarrow> string list option" where
  "argv_of_payload argv = (case argv of
     JList items \<Rightarrow>
       (case those (map json_text items) of
          None \<Rightarrow> None | Some texts \<Rightarrow> if texts = [] \<or> [] \<in> set texts then None else Some texts)
   | _ \<Rightarrow> None)"

text \<open>The outer \<open>None\<close> is a value that is neither missing nor a text.\<close>

definition cwd_of_payload :: "json \<Rightarrow> string option option" where
  "cwd_of_payload cwd = (if cwd = JNull then Some None else map_option Some (json_text cwd))"

definition payload_of :: "host \<Rightarrow> task \<Rightarrow> error + string list \<times> string option" where
  "payload_of H task =
     (case ho_loads H (tk_context task) of
        Inl err \<Rightarrow> Inl (ValueError ''host command task has invalid payload'')
      | Inr payload \<Rightarrow>
          ebind (json_get payload ''argv'' JNull) (\<lambda>argv.
          ebind (json_get payload ''cwd'' JNull) (\<lambda>cwd.
          case (argv_of_payload argv, cwd_of_payload cwd) of
            (Some texts, Some directory) \<Rightarrow> Inr (texts, directory)
          | _ \<Rightarrow> Inl (ValueError ''host command task has invalid argv or cwd''))))"

definition executable_of :: "host \<Rightarrow> string \<Rightarrow> error + string list" where
  "executable_of H command =
     ebind (ho_expand H command) (\<lambda>executable.
     if is_absolute executable then ho_resolve H executable
     else case which H (path_name executable) of
       None \<Rightarrow> Inl (FileNotFoundError (''command not found: '' @ command))
     | Some resolved \<Rightarrow> Inr resolved)"

definition strict_path :: "host \<Rightarrow> string \<Rightarrow> error + string list" where
  "strict_path H text = ebind (ho_expand H text) (ho_resolve H)"

definition working_directory :: "host \<Rightarrow> string option \<Rightarrow> error + string list option" where
  "working_directory H cwd =
     (case cwd of
        None \<Rightarrow> Inr None
      | Some text \<Rightarrow> if text = [] then Inr None else ebind (strict_path H text) (\<lambda>p. Inr (Some p)))"

definition authorize :: "host_settings \<Rightarrow> host \<Rightarrow> string list \<Rightarrow> string list option \<Rightarrow> error + unit" where
  "authorize S H executable cwd =
     (case hst_execution_mode S of
        Unrestricted_autonomous \<Rightarrow> Inr ()
      | Approval_required \<Rightarrow>
          Inl (PermissionError ''host ARA is configured to require approval for every command'')
      | Autonomous_allowlist \<Rightarrow>
          ebind (emap (strict_path H) (hst_command_allowlist S)) (\<lambda>allowed.
          if executable \<notin> set allowed then Inl (PermissionError ''command is not in the host ARA allowlist'')
          else case cwd of
            None \<Rightarrow> Inr ()
          | Some directory \<Rightarrow>
              if hst_working_directory_allowlist S = [] then Inr ()
              else
                ebind (emap (strict_path H) (hst_working_directory_allowlist S)) (\<lambda>roots.
                if list_ex (\<lambda>root. prefix root directory) roots then Inr ()
                else Inl (PermissionError ''working directory is not in the host ARA allowlist''))))"

definition planned_command :: "host_settings \<Rightarrow> host \<Rightarrow> task \<Rightarrow> error + string list \<times> host_command" where
  "planned_command S H task =
     ebind (payload_of H task) (\<lambda>(argv, cwd).
     ebind (executable_of H (hd argv)) (\<lambda>executable.
     ebind (working_directory H cwd) (\<lambda>directory.
     ebind (authorize S H executable directory) (\<lambda>_.
     Inr (argv, \<lparr>hc_executable = executable, hc_arguments = tl argv, hc_cwd = directory\<rparr>)))))"

definition absolute_text :: "string list \<Rightarrow> string" where
  "absolute_text p = ''/'' @ join ''/'' p"

definition command_report :: "host_settings \<Rightarrow> host \<Rightarrow> string list \<Rightarrow> string list option \<Rightarrow> int \<Rightarrow> string \<Rightarrow> json" where
  "command_report S H argv directory code text =
     (let raw_output = concat (map utf8_bytes text);
          output = take (nat (hst_command_max_output_bytes S)) raw_output in
      JObj [(''argv'', JList (map JStr argv)),
            (''cwd'', case directory of None \<Rightarrow> JNull | Some p \<Rightarrow> JStr (absolute_text p)),
            (''exit_code'', JInt code),
            (''output'', JStr (ho_decode H output)),
            (''output_truncated'', JBool (length output < length raw_output))])"

text \<open>The value beside the commands that were started.\<close>

definition host_execute :: "host_settings \<Rightarrow> host \<Rightarrow> task \<Rightarrow> (error + string) \<times> host_command list" where
  "host_execute S H task =
     (case planned_command S H task of
        Inl err \<Rightarrow> (Inl err, [])
      | Inr (argv, c) \<Rightarrow>
          (case ho_run H (hc_executable c) (hc_arguments c) (hc_cwd c) (hst_command_timeout_seconds S) of
             Inl err \<Rightarrow> (Inl err, [c])
           | Inr Host_timeout \<Rightarrow> (Inl (RuntimeError ''host command timed out''), [c])
           | Inr (Host_exited code out err_text) \<Rightarrow>
               (Inr (ho_dumps H (command_report S H argv (hc_cwd c) code (out @ err_text))), [c])))"

section \<open>The process\<close>

text \<open>
  \<^verbatim>\<open>run\<close> of \<^verbatim>\<open>host_main.py\<close>: the settings are validated, then the loop runs commands. \<open>timing\<close> says how long the
  thread of a task runs, as in \<open>execution\<close>.
\<close>

definition host_execution :: "host_settings \<Rightarrow> host \<Rightarrow> nat \<times> bool \<Rightarrow> task \<Rightarrow> execution" where
  "host_execution S H timing task =
     \<lparr>ex_running = fst timing, ex_late = snd timing, ex_result = fst (host_execute S H task)\<rparr>"

definition host_run ::
  "'w network \<Rightarrow> host_settings \<Rightarrow> host \<Rightarrow> agent_worker \<Rightarrow> (error \<Rightarrow> string) \<Rightarrow> (task \<Rightarrow> 'w \<Rightarrow> nat \<times> bool) \<Rightarrow> 'w \<Rightarrow>
     ((error + unit) \<times> 'w) option" where
  "host_run net S H W describe timing w =
     (case validate_privileged_mode S of
        Inl err \<Rightarrow> Some (Inl err, w)
      | Inr S' \<Rightarrow>
          serve net (host_worker (wr_tenant_id W) (wr_ara_id W) (wr_name W) (wr_once W)) describe
            (\<lambda>task v. host_execution S' H (timing task v) task) w)"

end
