(* ===== verification/RepositoryAgent.thy ===== *)
theory RepositoryAgent
  imports HostCommand
begin

text \<open>
  \<^verbatim>\<open>apps/ara/src/astra_ara/executor.py\<close>: the agent that reads a repository and reports the lines its task
  asks about. What \<^verbatim>\<open>root.rglob("*")\<close> yields is a parameter, in its order: each entry with its path, what it
  resolves to, its size and its text. Paths are lists of their parts.
\<close>

record entry =
  en_parts :: "string list"
  en_is_file :: bool
  en_resolved :: "string list"
  en_size :: "int option"
  en_text :: "string option"

record repository =
  rp_root :: "string list"
  rp_max_files :: nat
  rp_max_bytes :: int

definition ignored_parts :: "string set" where
  "ignored_parts = {''.git'', ''.mypy_cache'', ''.pytest_cache'', ''.ruff_cache'', ''.venv'', ''__pycache__'', ''dist'',
     ''build'', ''node_modules'', ''vendor''}"

definition text_suffixes :: "string set" where
  "text_suffixes = {''.c'', ''.cpp'', ''.css'', ''.go'', ''.h'', ''.html'', ''.java'', ''.js'', ''.json'', ''.jsx'', ''.md'',
     ''.php'', ''.py'', ''.rb'', ''.rs'', ''.sh'', ''.sql'', ''.toml'', ''.ts'', ''.tsx'', ''.txt'', ''.yaml'', ''.yml''}"

definition stopwords :: "string set" where
  "stopwords = {''about'', ''analyze'', ''and'', ''code'', ''find'', ''flow'', ''for'', ''how'', ''inspect'', ''repository'',
     ''repo'', ''research'', ''the'', ''this'', ''understand'', ''what''}"

section \<open>Search terms\<close>

definition starts_token :: "char \<Rightarrow> bool" where
  "starts_token c \<longleftrightarrow> (let n = (of_char c :: nat) in (97 \<le> n \<and> n \<le> 122) \<or> (65 \<le> n \<and> n \<le> 90) \<or> n = 95)"

definition in_token :: "char \<Rightarrow> bool" where
  "in_token c \<longleftrightarrow> starts_token c \<or> (let n = (of_char c :: nat) in (48 \<le> n \<and> n \<le> 57) \<or> n = 45)"

text \<open>\<^verbatim>\<open>re.findall(r"[a-zA-Z_][a-zA-Z0-9_-]{2,}", text)\<close>: the longest match at each place, then what follows it.\<close>

function find_tokens :: "string \<Rightarrow> string list" where
  "find_tokens [] = []"
| "find_tokens (c # s) =
     (if starts_token c \<and> 2 \<le> length (takeWhile in_token s)
      then (c # takeWhile in_token s) # find_tokens (dropWhile in_token s)
      else find_tokens s)"
  by pat_completeness auto
termination
  by (relation "measure length") (auto simp: le_imp_less_Suc length_dropWhile_le)

text \<open>\<^verbatim>\<open>dict.fromkeys\<close>: the first of equal elements stays.\<close>

definition first_of_each :: "'a list \<Rightarrow> 'a list" where
  "first_of_each xs = rev (remdups (rev xs))"

definition search_terms :: "string \<Rightarrow> string list" where
  "search_terms objective =
     (let tokens = filter (\<lambda>t. t \<notin> stopwords) (find_tokens (casefold objective));
          terms = (if contains ''auth'' (casefold objective) \<or> contains ''login'' (casefold objective)
                   then tokens @ [''auth'', ''login'', ''token'', ''session'', ''jwt'', ''password''] else tokens);
          distinct_terms = take 12 (first_of_each terms) in
      if distinct_terms = [] then [''readme''] else distinct_terms)"

section \<open>The search\<close>

text \<open>\<^verbatim>\<open>Path(name).suffix\<close> and \<^verbatim>\<open>str.lower\<close>.\<close>

definition path_suffix :: "string \<Rightarrow> string" where
  "path_suffix name =
     (let after = takeWhile (\<lambda>c. c \<noteq> CHR ''.'') (rev name) in
      if length after + 1 < length name \<and> after \<noteq> [] then CHR ''.'' # rev after else [])"

definition lower :: "string \<Rightarrow> string" where
  "lower s = map casefold_char s"

text \<open>The first three lines that hold one of the terms.\<close>

definition excerpt :: "nat \<times> string \<Rightarrow> string" where
  "excerpt numbered = newline @ ''  L'' @ nat_text (fst numbered) @ '': '' @ take 180 (strip (snd numbered))"

definition matching_lines :: "string \<Rightarrow> string list \<Rightarrow> string" where
  "matching_lines content terms =
     concat (map excerpt (take 3 (filter (\<lambda>(number, line). list_ex (\<lambda>t. contains t (casefold line)) terms)
       (enumerate 1 (splitlines content)))))"

record findings =
  fi_files :: "string list list"
  fi_suffixes :: "(string \<times> nat) list"
  fi_matches :: "string list"

definition counted :: "repository \<Rightarrow> entry \<Rightarrow> bool" where
  "counted R en \<longleftrightarrow>
     en_is_file en \<and> set (en_parts en) \<inter> ignored_parts = {} \<and> prefix (rp_root R) (en_resolved en)"

definition entry_suffix :: "entry \<Rightarrow> string" where
  "entry_suffix en = path_suffix (last ([] # en_parts en))"

text \<open>The text that is searched: of a text file within the limit that can be read.\<close>

definition readable_text :: "repository \<Rightarrow> entry \<Rightarrow> string option" where
  "readable_text R en =
     (if lower (entry_suffix en) \<notin> text_suffixes then None
      else case en_size en of
        None \<Rightarrow> None
      | Some n \<Rightarrow> if n > rp_max_bytes R then None else en_text en)"

definition hit_terms :: "string list \<Rightarrow> string \<Rightarrow> string \<Rightarrow> string list" where
  "hit_terms terms content relative =
     filter (\<lambda>t. contains t (casefold content) \<or> contains t (casefold relative)) terms"

definition match_of :: "repository \<Rightarrow> string list \<Rightarrow> entry \<Rightarrow> string option" where
  "match_of R terms en =
     (case readable_text R en of
        None \<Rightarrow> None
      | Some content \<Rightarrow>
          let relative = relative_text (rp_root R) (en_resolved en);
              hits = hit_terms terms content relative in
          if hits = [] then None
          else Some (''- '' @ relative @ '' ['' @ join '', '' hits @ '']'' @ matching_lines content hits))"

definition count_suffix :: "string \<Rightarrow> (string \<times> nat) list \<Rightarrow> (string \<times> nat) list" where
  "count_suffix sx counts =
     AList.update sx (Suc (case map_of counts sx of None \<Rightarrow> 0 | Some n \<Rightarrow> n)) counts"

definition note_file :: "repository \<Rightarrow> entry \<Rightarrow> findings \<Rightarrow> findings" where
  "note_file R en f =
     f\<lparr>fi_files := fi_files f @ [drop (length (rp_root R)) (en_resolved en)],
       fi_suffixes := count_suffix (if entry_suffix en = [] then ''[none]'' else entry_suffix en) (fi_suffixes f)\<rparr>"

text \<open>
  The loop over the entries. The second limit is looked at only after a text was searched, which is when the
  number of matches may have changed.
\<close>

fun inspect :: "repository \<Rightarrow> string list \<Rightarrow> entry list \<Rightarrow> findings \<Rightarrow> findings" where
  "inspect R terms [] f = f"
| "inspect R terms (en # ens) f =
     (if rp_max_files R \<le> length (fi_files f) then f
      else if \<not> counted R en then inspect R terms ens f
      else
        let f1 = note_file R en f in
        case readable_text R en of
          None \<Rightarrow> inspect R terms ens f1
        | Some _ \<Rightarrow>
            let f2 = (case match_of R terms en of None \<Rightarrow> f1 | Some m \<Rightarrow> f1\<lparr>fi_matches := fi_matches f1 @ [m]\<rparr>) in
            if 40 \<le> length (fi_matches f2) then f2 else inspect R terms ens f2)"

definition most_common :: "(string \<times> nat) list \<Rightarrow> (string \<times> nat) list" where
  "most_common counts = take 10 (sort_key (\<lambda>(_, n). - int n) counts)"

definition inspected :: "repository \<Rightarrow> task \<Rightarrow> entry list \<Rightarrow> findings" where
  "inspected R task ens =
     inspect R (search_terms (tk_objective task)) ens \<lparr>fi_files = [], fi_suffixes = [], fi_matches = []\<rparr>"

definition repository_report :: "repository \<Rightarrow> task \<Rightarrow> findings \<Rightarrow> string" where
  "repository_report R task f =
     (let summary = join '', '' (map (\<lambda>(sx, n). sx @ '': '' @ nat_text n) (most_common (fi_suffixes f)));
          found = (if fi_matches f = [] then ''- No keyword matches found.'' else join newline (fi_matches f)) in
      ''Repository: '' @ last ([] # rp_root R) @ newline @
      ''Files inspected: '' @ nat_text (length (fi_files f)) @ newline @
      ''File types: '' @ (if summary = [] then ''none'' else summary) @ newline @
      ''Search terms: '' @ join '', '' (search_terms (tk_objective task)) @ newline @ newline @
      ''Relevant findings:'' @ newline @ found)"

definition repository_execute :: "repository \<Rightarrow> task \<Rightarrow> entry list \<Rightarrow> string" where
  "repository_execute R task ens = repository_report R task (inspected R task ens)"

section \<open>The process\<close>

text \<open>
  \<^verbatim>\<open>__init__\<close> with its default limits; \<open>resolved\<close> is what \<^verbatim>\<open>expanduser().resolve(strict=True)\<close> makes of the
  configured root.
\<close>

definition repository_executor :: "error + string list \<Rightarrow> (string list \<Rightarrow> bool) \<Rightarrow> error + repository" where
  "repository_executor resolved is_dir =
     ebind resolved (\<lambda>root.
       if is_dir root then Inr \<lparr>rp_root = root, rp_max_files = 2000, rp_max_bytes = 256000\<rparr>
       else Inl (ValueError ''ARA repository root must be a directory''))"

definition repository_execution :: "repository \<Rightarrow> nat \<times> bool \<Rightarrow> entry list \<Rightarrow> task \<Rightarrow> execution" where
  "repository_execution R timing ens task =
     \<lparr>ex_running = fst timing, ex_late = snd timing, ex_result = Inr (repository_execute R task ens)\<rparr>"

text \<open>\<^verbatim>\<open>run\<close> of \<^verbatim>\<open>main.py\<close>; \<open>tree\<close> is what the directory holds when the task is executed.\<close>

definition repository_run ::
  "'w network \<Rightarrow> error + string list \<Rightarrow> (string list \<Rightarrow> bool) \<Rightarrow> agent_worker \<Rightarrow> (error \<Rightarrow> string) \<Rightarrow> (task \<Rightarrow> 'w \<Rightarrow> nat \<times> bool) \<Rightarrow>
     (task \<Rightarrow> 'w \<Rightarrow> entry list) \<Rightarrow> 'w \<Rightarrow> ((error + unit) \<times> 'w) option" where
  "repository_run net resolved is_dir W describe timing tree w =
     (case repository_executor resolved is_dir of
        Inl err \<Rightarrow> Some (Inl err, w)
      | Inr R \<Rightarrow>
          serve net (repository_worker (wr_tenant_id W) (wr_ara_id W) (wr_name W) (wr_once W)) describe
            (\<lambda>task v. repository_execution R (timing task v) (tree task v) task) w)"

end
