(* ===== verification/HostProperties.thy ===== *)
theory HostProperties
  imports RepositoryAgent
begin

text \<open>
  Which commands the host agent runs, what the repository agent reads, and how a task ends that the agent
  cannot report.
\<close>

section \<open>Host commands\<close>

text \<open>What the settings permit, said without the order of the checks.\<close>

definition permitted :: "host_settings \<Rightarrow> host \<Rightarrow> host_command \<Rightarrow> bool" where
  "permitted S H c \<longleftrightarrow>
     hst_execution_mode S = Unrestricted_autonomous \<and> hst_confirm_unrestricted_autonomy S \<or>
     hst_execution_mode S = Autonomous_allowlist \<and>
       (\<exists>text \<in> set (hst_command_allowlist S). strict_path H text = Inr (hc_executable c)) \<and>
       (\<forall>directory. hc_cwd c = Some directory \<longrightarrow> hst_working_directory_allowlist S = [] \<or>
          (\<exists>text \<in> set (hst_working_directory_allowlist S). \<exists>root.
             strict_path H text = Inr root \<and> prefix root directory))"

lemma emap_member: "emap f xs = Inr ys \<Longrightarrow> y \<in> set ys \<Longrightarrow> \<exists>x \<in> set xs. f x = Inr y"
  by (induction xs arbitrary: ys) (auto simp: ebind_Inr_iff)

lemma authorized_permitted:
  assumes "authorize S H (hc_executable c) (hc_cwd c) = Inr ()"
    and "hst_execution_mode S = Unrestricted_autonomous \<Longrightarrow> hst_confirm_unrestricted_autonomy S"
  shows "permitted S H c"
proof (cases "hst_execution_mode S")
  case Autonomous_allowlist
  with assms(1) obtain allowed where a: "emap (strict_path H) (hst_command_allowlist S) = Inr allowed"
    "hc_executable c \<in> set allowed" and
    w: "(case hc_cwd c of None \<Rightarrow> Inr () | Some directory \<Rightarrow>
      if hst_working_directory_allowlist S = [] then Inr ()
      else ebind (emap (strict_path H) (hst_working_directory_allowlist S)) (\<lambda>roots.
        if list_ex (\<lambda>root. prefix root directory) roots then Inr ()
        else Inl (PermissionError ''working directory is not in the host ARA allowlist''))) = Inr ()"
    by (auto simp: authorize_def ebind_Inr_iff split: if_splits)
  have "\<exists>text \<in> set (hst_working_directory_allowlist S). \<exists>root. strict_path H text = Inr root \<and> prefix root directory"
    if "hc_cwd c = Some directory" "hst_working_directory_allowlist S \<noteq> []" for directory
    using w that by (auto simp: ebind_Inr_iff list_ex_iff split: if_splits dest!: emap_member)
  with emap_member[OF a] Autonomous_allowlist show ?thesis by (auto simp: permitted_def)
qed (use assms in \<open>auto simp: authorize_def permitted_def\<close>)

lemma executed_authorized:
  assumes "c \<in> set (snd (host_execute S H task))"
  shows "authorize S H (hc_executable c) (hc_cwd c) = Inr ()"
  using assms
  by (auto simp: host_execute_def planned_command_def ebind_Inr_iff split: sum.splits prod.splits host_outcome.splits)

text \<open>
  C13: With settings that were validated, the host agent starts at most one command for a task, and only one its
  settings permit: any command when unrestricted autonomy was confirmed, otherwise an executable that an entry
  of the allowlist resolves to, in a working directory below one of those allowed. An agent that requires
  approval starts none.
\<close>

theorem host_command_permitted:
  assumes "validate_privileged_mode S = Inr S'"
  shows "length (snd (host_execute S' H task)) \<le> 1 \<and> (\<forall>c \<in> set (snd (host_execute S' H task)). permitted S' H c) \<and>
    (hst_execution_mode S' = Approval_required \<longrightarrow> snd (host_execute S' H task) = [])"
proof -
  have S: "S' = S" "hst_execution_mode S' = Unrestricted_autonomous \<Longrightarrow> hst_confirm_unrestricted_autonomy S'"
    using assms by (auto simp: validate_privileged_mode_def split: if_splits)
  have "permitted S' H c" if "c \<in> set (snd (host_execute S' H task))" for c
    using authorized_permitted[OF executed_authorized[OF that]] S(2) by simp
  moreover have "length (snd (host_execute S' H task)) \<le> 1"
    by (auto simp: host_execute_def split: sum.split prod.split host_outcome.split)
  moreover have "snd (host_execute S' H task) = []" if "hst_execution_mode S' = Approval_required"
  proof -
    have "c \<notin> set (snd (host_execute S' H task))" for c
      using executed_authorized[of c S' H task] that by (auto simp: authorize_def)
    then show ?thesis by (cases "snd (host_execute S' H task)") auto
  qed
  ultimately show ?thesis by blast
qed

section \<open>Samples\<close>

definition sample_host :: host where
  "sample_host =
     \<lparr>ho_loads = (\<lambda>_. Inr (JObj [(''argv'', JList [JStr ''/usr/bin/make'', JStr ''test''])])), ho_dumps = (\<lambda>_. ''{}''),
      ho_expand = Inr, ho_resolve = (\<lambda>s. Inr (pure_parts s)), ho_path = ''/usr/bin'', ho_executable = (\<lambda>_. True),
      ho_realpath = pure_parts, ho_run = (\<lambda>_ _ _ _. Inr (Host_exited 0 ''ok'' '''')), ho_decode = map char_of\<rparr>"

definition sample_allowlist :: host_settings where
  "sample_allowlist = default_host_settings\<lparr>hst_enabled := True, hst_execution_mode := Autonomous_allowlist,
     hst_command_allowlist := [''/usr/bin/make''], hst_working_directory_allowlist := [''/srv/work'']\<rparr>"

lemma sample_allowed: "validate_privileged_mode sample_allowlist = Inr sample_allowlist"
  by (simp add: validate_privileged_mode_def sample_allowlist_def default_host_settings_def int_between_def)

theorem host_command_permitted_witness:
  "permitted sample_allowlist sample_host \<lparr>hc_executable = [''usr'', ''bin'', ''make''], hc_arguments = [''test''], hc_cwd = None\<rparr>"
proof -
  have "snd (host_execute sample_allowlist sample_host sample_task) =
      [\<lparr>hc_executable = [''usr'', ''bin'', ''make''], hc_arguments = [''test''], hc_cwd = None\<rparr>]"
    by (simp add: host_execute_def planned_command_def payload_of_def sample_host_def json_get_def argv_of_payload_def
        cwd_of_payload_def json_text_def executable_of_def is_absolute_def pure_parts_def working_directory_def
        authorize_def sample_allowlist_def default_host_settings_def strict_path_def)
  with host_command_permitted[OF sample_allowed, of sample_host sample_task] show ?thesis by simp
qed

text \<open>
  A task that names no working directory runs its command in the directory of the agent itself, whatever the
  allowlist of working directories holds.
\<close>

theorem no_directory_no_check:
  assumes "payload_of H task = Inr (command # args, None)" and "executable_of H command = Inr executable"
    and "hst_execution_mode S = Autonomous_allowlist" and "emap (strict_path H) (hst_command_allowlist S) = Inr cmds"
    and "executable \<in> set cmds"
  shows "snd (host_execute S H task) = [\<lparr>hc_executable = executable, hc_arguments = args, hc_cwd = None\<rparr>]"
  using assms
  by (auto simp: host_execute_def planned_command_def working_directory_def authorize_def split: sum.split host_outcome.split)

text \<open>A relative path to a command is looked up in \<^verbatim>\<open>PATH\<close> by its last part alone.\<close>

theorem relative_command_by_name:
  assumes "ho_expand H command = Inr command" and "ho_expand H (path_name command) = Inr (path_name command)"
    and "\<not> is_absolute command" and "\<not> is_absolute (path_name command)"
    and "path_name (path_name command) = path_name command" and "executable_of H (path_name command) = Inr p"
  shows "executable_of H command = Inr p"
  using assms by (auto simp: executable_of_def split: option.splits)

section \<open>Reports that cannot be sent\<close>

lemma post_answered: "net q w = (Inr (status, body), w1) \<Longrightarrow> status < 500 \<Longrightarrow> post net q w = (Inr (status, body), w1)"
  by (simp add: post_def eval_nat_numeral)

lemma exchange_sent:
  "net q w = (Inr (status, body), w1) \<Longrightarrow> status < 500 \<Longrightarrow>
     exchange decode net q w = (ebind (raise_for_reply (status, body)) decode, w1)"
  by (simp add: exchange_def post_answered)

lemma exchange_answered:
  assumes "fst (net q w) = Inr (status, body)" and "status < 500"
  shows "fst (exchange decode net q w) = ebind (raise_for_reply (status, body)) decode"
  using assms by (cases "net q w") (simp add: exchange_sent)

text \<open>
  A task that ran to its end but returned more than 50,000 characters is reported as failed: no completion
  is sent, and the text of the failure is that of the validation of the report.
\<close>

theorem long_result_reported_failed:
  assumes "ex_running ex = 0" and "ex_result ex = Inr result" and "50000 < length result"
    and "client_progress net (lease_bound.extend
        \<lparr>lb_tenant_id = wr_tenant_id W, lb_ara_id = wr_ara_id W, lb_task_id = tk_id (fst leased), lb_lease_id = ls_id (snd leased)\<rparr>
        (ara_event_request.fields (wr_message W) (Some 10))) w = (Inr (), w1)"
  shows "serve_task net W describe ex leased w =
    report_failure net (describe (ValidationError ''invalid field''))
      \<lparr>lb_tenant_id = wr_tenant_id W, lb_ara_id = wr_ara_id W, lb_task_id = tk_id (fst leased), lb_lease_id = ls_id (snd leased)\<rparr> w1"
  using assms
  by (simp add: serve_task_def Let_def attempt_task_def checked_def valid_complete_task_request_def str_between_def
      lease_bound.defs complete_task_request.defs)

text \<open>A network that remembers what was sent: it grants one lease and accepts or refuses reports.\<close>

definition sample_network :: "int \<Rightarrow> ara_request list network" where
  "sample_network status q sent =
     (Inr (case q of
        Lease _ \<Rightarrow> (200, Lease_reply sample_task sample_lease)
      | Complete _ \<Rightarrow> (status, Lifecycle_reply \<lparr>ts_task_id = 70, ts_state = Task_COMPLETED\<rparr>)
      | Fail _ \<Rightarrow> (status, Lifecycle_reply \<lparr>ts_task_id = 70, ts_state = Task_FAILED\<rparr>)
      | _ \<Rightarrow> (202, Empty_reply 202)), sent @ [q])"

definition sample_worker :: agent_worker where
  "sample_worker = host_worker 1 60 ''host'' True"

definition finished :: "string \<Rightarrow> execution" where
  "finished result = \<lparr>ex_running = 0, ex_late = False, ex_result = Inr result\<rparr>"

lemma sample_sent:
  "client_progress (sample_network 200) b sent = (Inr (), sent @ [Ara_event b])"
  "client_fail (sample_network 200) f sent = (Inr \<lparr>ts_task_id = 70, ts_state = Task_FAILED\<rparr>, sent @ [Fail f])"
  by (simp_all add: client_progress_def client_fail_def sample_network_def raise_for_reply_def no_body_def
      exchange_sent[where status = 202 and body = "Empty_reply 202"]
      exchange_sent[where status = 200 and body = "Lifecycle_reply \<lparr>ts_task_id = 70, ts_state = Task_FAILED\<rparr>"])

theorem long_result_reported_failed_witness:
  "\<exists>sent. serve_task (sample_network 200) sample_worker (\<lambda>_. ''ValidationError'') (finished (replicate 50001 CHR ''a''))
     (sample_task, sample_lease) [] = (Inr (), sent) \<and> (\<forall>b. Complete b \<notin> set sent)"
proof -
  have "50000 < length (replicate 50001 CHR ''a'')" by simp
  from long_result_reported_failed[of "finished (replicate 50001 CHR ''a'')", OF _ _ this sample_sent(1)]
  have "serve_task (sample_network 200) sample_worker (\<lambda>_. ''ValidationError'') (finished (replicate 50001 CHR ''a''))
      (sample_task, sample_lease) [] = report_failure (sample_network 200) ''ValidationError''
        \<lparr>lb_tenant_id = wr_tenant_id sample_worker, lb_ara_id = wr_ara_id sample_worker, lb_task_id = tk_id (fst (sample_task, sample_lease)),
         lb_lease_id = ls_id (snd (sample_task, sample_lease))\<rparr>
        [Ara_event (lease_bound.extend \<lparr>lb_tenant_id = wr_tenant_id sample_worker, lb_ara_id = wr_ara_id sample_worker,
           lb_task_id = tk_id (fst (sample_task, sample_lease)), lb_lease_id = ls_id (snd (sample_task, sample_lease))\<rparr>
           (ara_event_request.fields (wr_message sample_worker) (Some 10)))]"
    by (simp only: finished_def execution.simps append_Nil)
  then show ?thesis
    by (simp add: report_failure_def checked_def valid_fail_task_request_def str_between_def lease_bound.defs
        fail_task_request.defs sample_sent)
qed

lemma refused_complete: "fst (net (Complete b) w) = Inr (409, r) \<Longrightarrow> fst (client_complete net b w) = Inl HTTPStatusError"
  by (simp add: client_complete_def exchange_answered raise_for_reply_def)

lemma refused_failure:
  assumes "\<And>b v. \<exists>r. fst (net (Fail b) v) = Inr (409, r)" and "str_between 1 4000 text"
  shows "fst (report_failure net text b w) = Inl HTTPStatusError"
proof -
  let ?b = "lease_bound.extend b (fail_task_request.fields text)"
  obtain r where "fst (net (Fail ?b) w) = Inr (409, r)" using assms(1) by blast
  then have "fst (client_fail net ?b w) = Inl HTTPStatusError"
    by (simp add: client_fail_def exchange_answered raise_for_reply_def)
  moreover have "valid_fail_task_request ?b"
    using assms(2) by (simp add: valid_fail_task_request_def lease_bound.defs fail_task_request.defs)
  ultimately show ?thesis by (cases "client_fail net ?b w") (simp add: report_failure_def checked_def)
qed

text \<open>
  An agent whose report the coordinator refuses ends: when a completion is answered with a client error, as
  after the lease has expired or the task was cancelled, and so is the report of that error as a failure, the
  loop ends with the exception of the second report, also when it was to run for ever.
\<close>

theorem refused_report_ends_agent:
  assumes "client_lease net (wr_tenant_id W) (wr_ara_id W) 120 w = (Some leased, w1)"
    and "exec (fst leased) w1 = finished result" and "str_between 1 50000 result"
    and "\<And>b v. fst (net (Ara_event b) v) = Inr (202, Empty_reply 202)"
    and "\<And>b v. \<exists>r. fst (net (Complete b) v) = Inr (409, r)" and "\<And>b v. \<exists>r. fst (net (Fail b) v) = Inr (409, r)"
    and "str_between 1 4000 (describe HTTPStatusError)"
  shows "\<exists>w2. serve_loop net W describe exec w = Some (Inl HTTPStatusError, w2)"
proof -
  let ?b = "\<lparr>lb_tenant_id = wr_tenant_id W, lb_ara_id = wr_ara_id W, lb_task_id = tk_id (fst leased), lb_lease_id = ls_id (snd leased)\<rparr>"
  let ?c = "lease_bound.extend ?b (complete_task_request.fields result [])"
  let ?e = "lease_bound.extend ?b (ara_event_request.fields (wr_message W) (Some 10))"
  obtain r2 w2 where p: "client_progress net ?e w1 = (r2, w2)" by fastforce
  have "fst (exchange no_body net (Ara_event ?e) w1) = Inr ()"
    by (subst exchange_answered[where status = 202 and body = "Empty_reply 202"])
       (simp_all add: assms(4) raise_for_reply_def no_body_def)
  with p have r2: "r2 = Inr ()" by (simp add: client_progress_def)
  obtain r3 w3 where c: "client_complete net ?c w2 = (r3, w3)" by fastforce
  with refused_complete[of net ?c w2] assms(5)[of ?c w2] have r3: "r3 = Inl HTTPStatusError" by auto
  have "valid_complete_task_request ?c"
    using assms(3) by (simp add: valid_complete_task_request_def lease_bound.defs complete_task_request.defs)
  with c r3 have "attempt_task net (exec (fst leased) w1) ?b w2 = (Inl HTTPStatusError, ?b, w3)"
    by (simp add: attempt_task_def assms(2) finished_def checked_def)
  with p r2 have "serve_task net W describe (exec (fst leased) w1) leased w1 =
      report_failure net (describe HTTPStatusError) ?b w3"
    by (simp add: serve_task_def)
  moreover have "fst (report_failure net (describe HTTPStatusError) ?b w3) = Inl HTTPStatusError"
    by (rule refused_failure, rule assms(6), rule assms(7))
  ultimately obtain w4 where "serve_round net W describe exec w = (Inl HTTPStatusError, w4)"
    by (cases "report_failure net (describe HTTPStatusError) ?b w3") (simp add: serve_round_def assms(1))
  then show ?thesis by (subst serve_loop.simps) simp
qed

theorem refused_report_ends_agent_witness:
  "\<exists>sent. serve_loop (sample_network 409) (sample_worker\<lparr>wr_once := False\<rparr>) (\<lambda>_. ''HTTPStatusError'')
     (\<lambda>_ _. finished ''done'') [] = Some (Inl HTTPStatusError, sent)"
proof -
  have "client_lease (sample_network 409) u a 120 sent =
      (Some (sample_task, sample_lease), sent @ [Lease \<lparr>lq_tenant_id = u, lq_ara_id = a, lq_duration_seconds = 120\<rparr>])" for u a sent
    by (simp add: client_lease_def Let_def valid_lease_request_def int_between_def raise_for_reply_def
        post_answered[where status = 200 and body = "Lease_reply sample_task sample_lease"] sample_network_def)
  then show ?thesis
    by (rule refused_report_ends_agent[where result = "''done''"]) (simp_all add: sample_network_def str_between_def)
qed

section \<open>What the repository agent reads\<close>

text \<open>
  What the agent may look at, said without its checks: files of the repository itself that lie in no directory to
  be ignored, and the texts of those of a known type that are not too large.
\<close>

definition belongs :: "repository \<Rightarrow> entry \<Rightarrow> bool" where
  "belongs R en \<longleftrightarrow>
     en_is_file en \<and> (\<forall>part \<in> set (en_parts en). part \<notin> ignored_parts) \<and> (\<exists>rest. en_resolved en = rp_root R @ rest)"

definition visible :: "repository \<Rightarrow> entry \<Rightarrow> entry" where
  "visible R en = en\<lparr>en_text :=
     (if lower (path_suffix (last ([] # en_parts en))) \<in> text_suffixes \<and> (\<exists>n. en_size en = Some n \<and> n \<le> rp_max_bytes R)
      then en_text en else None)\<rparr>"

lemma counted_belongs: "counted R = belongs R"
  by (rule ext) (auto simp: counted_def belongs_def prefix_def)

lemma readable_visible: "readable_text R (visible R en) = readable_text R en"
  by (auto simp: readable_text_def visible_def entry_suffix_def split: option.splits)

lemma inspect_visible: "inspect R terms (map (visible R) (filter (counted R) ens)) f = inspect R terms ens f"
proof (induction ens arbitrary: f)
  case (Cons en ens)
  have "counted R (visible R en) = counted R en" by (simp add: counted_def visible_def)
  moreover have "note_file R (visible R en) f = note_file R en f"
    by (simp add: note_file_def visible_def entry_suffix_def)
  moreover have "match_of R terms (visible R en) = match_of R terms en"
    unfolding match_of_def readable_visible by (simp add: visible_def split: option.split)
  moreover have "inspect R terms ens' f = f" if "rp_max_files R \<le> length (fi_files f)" for ens'
    using that by (cases ens') simp_all
  ultimately show ?case using Cons.IH
    by (auto simp: readable_visible Let_def split: option.split)
qed simp

text \<open>
  C33: The report of the repository agent depends on nothing outside the repository: neither on a file that
  resolves to a place outside the root, nor on one in a directory to be ignored, nor on the text of a file that
  is too large or of another type.
\<close>

theorem repository_report_confined:
  assumes "map (visible R) (filter (belongs R) ens) = map (visible R) (filter (belongs R) ens')"
  shows "repository_execute R task ens = repository_execute R task ens'"
  using inspect_visible[of R "search_terms (tk_objective task)" ens] inspect_visible[of R "search_terms (tk_objective task)" ens']
    assms by (simp add: repository_execute_def inspected_def counted_belongs)

definition sample_repository :: repository where
  "sample_repository = \<lparr>rp_root = [''srv'', ''code''], rp_max_files = 10, rp_max_bytes = 100\<rparr>"

definition sample_entry :: "string list \<Rightarrow> entry" where
  "sample_entry resolved = \<lparr>en_parts = [''srv'', ''code'', ''login.py''], en_is_file = True, en_resolved = resolved,
     en_size = Some 5, en_text = Some ''login''\<rparr>"

text \<open>A link in the repository that leads to a file of the system.\<close>

theorem repository_report_confined_witness:
  "repository_execute sample_repository sample_task [sample_entry [''etc'', ''passwd''], sample_entry [''srv'', ''code'', ''login.py'']] =
   repository_execute sample_repository sample_task [sample_entry [''srv'', ''code'', ''login.py'']]"
  by (rule repository_report_confined) (simp add: belongs_def sample_repository_def sample_entry_def)

lemma inspect_bounds:
  "length (fi_files f) \<le> rp_max_files R \<Longrightarrow> length (fi_matches f) < 40 \<Longrightarrow>
     length (fi_files (inspect R terms ens f)) \<le> rp_max_files R \<and> length (fi_matches (inspect R terms ens f)) \<le> 40"
proof (induction ens arbitrary: f)
  case (Cons en ens)
  have "length (fi_files (note_file R en f)) = Suc (length (fi_files f))"
    "fi_matches (note_file R en f) = fi_matches f" by (simp_all add: note_file_def)
  with Cons show ?case by (auto simp: Let_def split: option.split)
qed simp

lemma first_of_each_simps [simp]: "distinct (first_of_each xs)" "set (first_of_each xs) = set xs"
  by (simp_all add: first_of_each_def)

text \<open>
  A report counts at most the allowed number of files, holds at most 40 findings, and looks for at most twelve different terms.
\<close>

theorem repository_report_bounded:
  "length (fi_files (inspected R task ens)) \<le> rp_max_files R \<and> length (fi_matches (inspected R task ens)) \<le> 40 \<and>
   length (search_terms (tk_objective task)) \<le> 12 \<and> search_terms (tk_objective task) \<noteq> [] \<and>
   distinct (search_terms (tk_objective task))"
  using inspect_bounds[of "\<lparr>fi_files = [], fi_suffixes = [], fi_matches = []\<rparr>" R]
  by (auto simp: inspected_def search_terms_def Let_def)

text \<open>
  The directories to be ignored are looked for in the whole path, so a repository below a directory named, say,
  \<^verbatim>\<open>build\<close> is reported as empty.
\<close>

theorem root_below_ignored_is_empty:
  assumes "set (rp_root R) \<inter> ignored_parts \<noteq> {}" and "\<And>en. en \<in> set ens \<Longrightarrow> prefix (rp_root R) (en_parts en)"
  shows "fi_files (inspected R task ens) = [] \<and> fi_matches (inspected R task ens) = []"
proof -
  have "\<not> counted R en" if "en \<in> set ens" for en
    using assms(2)[OF that] assms(1) set_mono_prefix[of "rp_root R" "en_parts en"] by (auto simp: counted_def)
  then have "filter (counted R) ens = []" by (simp add: filter_empty_conv)
  with inspect_visible[of R "search_terms (tk_objective task)" ens] show ?thesis
    by (simp add: inspected_def)
qed

end
