(* ===== verification/AgentProperties.thy ===== *)
theory AgentProperties
  imports AccessProperties HostProperties
begin

text \<open>
  The process of a remote agent beside the coordinator: whatever its tasks return, its loop keeps to the tenant
  of the agent.
\<close>

section \<open>Agents and the store\<close>

text \<open>
  What the loop sends once it has registered: no registration and no artifacts. A network that keeps an
  invariant on such requests keeps it through the whole loop.
\<close>

definition loop_request :: "ara_request \<Rightarrow> bool" where
  "loop_request q \<longleftrightarrow> (\<forall>b. q \<noteq> Register b) \<and> (\<forall>b. q = Complete b \<longrightarrow> cr_artifacts b = [])"

locale kept_network =
  fixes net :: "'w network" and I :: "'w \<Rightarrow> bool"
  assumes net_keeps: "I w \<Longrightarrow> loop_request q \<Longrightarrow> I (snd (net q w))"
begin

lemma attempts_keep: "I w \<Longrightarrow> loop_request q \<Longrightarrow> I (snd (post_attempts n net q w))"
proof (induction n arbitrary: w)
  case (Suc n)
  obtain r w1 where r: "net q w = (r, w1)" by fastforce
  with net_keeps[OF Suc.prems] have "I w1" by simp
  with Suc r show ?case by (auto split: sum.split error.split prod.split)
qed simp

lemma exchange_keeps:
  assumes "I w" and "loop_request q"
  shows "I (snd (exchange decode net q w))"
  using attempts_keep[OF assms, of 3] by (auto simp: exchange_def post_def split: prod.split sum.split)

lemma client_keeps:
  assumes "I w"
  shows "I (snd (client_progress net eb w))" and "I (snd (client_heartbeat net hb w))" and "I (snd (client_renew net nb w))"
    and "I (snd (client_cancel net kb w))" and "I (snd (client_fail net fb w))"
    and "cr_artifacts cb = [] \<Longrightarrow> I (snd (client_complete net cb w))"
  unfolding client_progress_def client_heartbeat_def client_renew_def client_cancel_def client_fail_def client_complete_def
  by (auto intro!: exchange_keeps[OF assms] simp: loop_request_def)

lemma lease_keeps: "I w \<Longrightarrow> I (snd (client_lease net u a d w))"
proof -
  assume "I w"
  let ?b = "\<lparr>lq_tenant_id = u, lq_ara_id = a, lq_duration_seconds = d\<rparr>"
  obtain r w1 where p: "post net (Lease ?b) w = (r, w1)" by fastforce
  have "I w1" using attempts_keep[OF \<open>I w\<close>, of "Lease ?b" 3] p by (simp add: post_def loop_request_def)
  with \<open>I w\<close> show ?thesis by (auto simp: client_lease_def Let_def p split: sum.split prod.split)
qed

lemma watch_keeps: "I w \<Longrightarrow> I (snd (snd (watch net n late b w)))"
proof (induction n arbitrary: b w)
  case (Suc n)
  let ?q = "\<lparr>hr_tenant_id = lb_tenant_id b, hr_ara_id = lb_ara_id b, hr_task_id = Some (lb_task_id b),
    hr_lease_id = Some (lb_lease_id b)\<rparr>"
  obtain r1 w1 where h: "client_heartbeat net ?q w = (r1, w1)" by fastforce
  obtain r2 w2 where c: "client_cancel net (lease_bound.extend b (cancel_task_request.fields cancellation_reason)) w1 = (r2, w2)"
    by fastforce
  obtain r3 w3 where n: "client_renew net (lease_bound.extend b (renew_lease_request.fields 120)) w1 = (r3, w3)" by fastforce
  have "I w1" using client_keeps(2)[OF Suc.prems, of ?q] h by simp
  then have "I w2" "I w3" using client_keeps(3,4)[of w1] c n by (metis snd_conv)+
  with \<open>I w1\<close> h c n Suc.IH show ?case by (auto split: sum.split prod.split)
qed simp

lemma attempt_keeps: "I w \<Longrightarrow> I (snd (snd (attempt_task net ex b w)))"
proof -
  assume "I w"
  obtain r b1 w1 where r: "watch net (ex_running ex) (ex_late ex) b w = (r, b1, w1)" by (cases "watch net (ex_running ex) (ex_late ex) b w") auto
  with watch_keeps[OF \<open>I w\<close>, of "ex_running ex" "ex_late ex" b] have "I w1" by simp
  let ?body = "\<lambda>result. lease_bound.extend b1 (complete_task_request.fields result [])"
  have "cr_artifacts (?body result) = []" for result by (simp add: lease_bound.defs complete_task_request.defs)
  with client_keeps(6)[OF \<open>I w1\<close>] have "I (snd (client_complete net (?body result) w1))" for result by blast
  with \<open>I w1\<close> show ?thesis
    by (cases r; cases "ex_result ex")
       (auto simp: attempt_task_def r checked_def split: bool.split prod.split, (metis snd_conv)+)
qed

lemma failure_keeps: "I w \<Longrightarrow> I (snd (report_failure net text b w))"
  using client_keeps(5)[of w] by (auto simp: report_failure_def split: sum.split prod.split) (metis snd_conv)

lemma task_keeps:
  assumes "I w" shows "I (snd (serve_task net W describe ex leased w))"
proof -
  let ?b = "\<lparr>lb_tenant_id = wr_tenant_id W, lb_ara_id = wr_ara_id W, lb_task_id = tk_id (fst leased),
    lb_lease_id = ls_id (snd leased)\<rparr>"
  obtain r1 w1 where p: "client_progress net (lease_bound.extend ?b (ara_event_request.fields (wr_message W) (Some 10))) w = (r1, w1)"
    by fastforce
  obtain r2 b2 w2 where t: "attempt_task net ex ?b w1 = (r2, b2, w2)" by (cases "attempt_task net ex ?b w1") auto
  have "I w1" using client_keeps(1)[OF assms] p by (metis snd_conv)
  with attempt_keeps[of w1 ex ?b] t have "I w2" by simp
  with \<open>I w1\<close> failure_keeps[of w2] show ?thesis
    by (auto simp: serve_task_def Let_def p t split: sum.split error.split)
qed

lemma round_keeps:
  assumes "I w" shows "I (snd (serve_round net W describe exec w))"
proof -
  obtain r w1 where l: "client_lease net (wr_tenant_id W) (wr_ara_id W) 120 w = (r, w1)" by fastforce
  with lease_keeps[OF assms, of "wr_tenant_id W" "wr_ara_id W" 120] have "I w1" by simp
  then show ?thesis
    using task_keeps[of w1]
    by (auto simp: serve_round_def l split: option.split sum.split prod.split) (metis snd_conv)+
qed

lemma loop_keeps: "serve_loop net W describe exec w = Some out \<Longrightarrow> I w \<longrightarrow> I (snd out)"
proof (rule serve_loop.raw_induct[where P = "\<lambda>n W d x w out. n = net \<longrightarrow> I w \<longrightarrow> I (snd out)", THEN mp, OF _ _ refl])
  fix rest n W' d x w' out'
  assume IH: "\<And>n W d x w out. rest n W d x w = Some out \<Longrightarrow> n = net \<longrightarrow> I w \<longrightarrow> I (snd out)"
    and body: "(case serve_round n W' d x w' of (Inl err, w1) \<Rightarrow> Some (Inl err, w1)
      | (Inr continues, w1) \<Rightarrow> if continues then rest n W' d x w1 else Some (Inr (), w1)) = Some out'"
  show "n = net \<longrightarrow> I w' \<longrightarrow> I (snd out')"
  proof (intro impI)
    assume n: "n = net" and w': "I w'"
    obtain r w1 where r: "serve_round n W' d x w' = (r, w1)" by fastforce
    have "I w1" using round_keeps[OF w'] r n by (metis snd_conv)
    with body n IH[of n W' d x w1] r show "I (snd out')" by (auto split: sum.splits if_splits)
  qed
qed

end

section \<open>On the coordinator\<close>

text \<open>The statuses the coordinator answers with, and what its answer is on the network.\<close>

definition status_of :: "reply \<Rightarrow> int" where
  "status_of r = (case r of Empty_reply n \<Rightarrow> n | Approval_reply _ \<Rightarrow> 201 | _ \<Rightarrow> 200)"

definition server_answer :: "error + reply \<Rightarrow> error + int \<times> reply" where
  "server_answer r = (case r of
     Inr reply \<Rightarrow> Inr (status_of reply, reply)
   | Inl (HTTPException n _) \<Rightarrow> Inr (n, Empty_reply n)
   | Inl _ \<Rightarrow> Inr (500, Empty_reply 500))"

definition server_network :: "app \<Rightarrow> ara_principal \<Rightarrow> agent_state network" where
  "server_network P p q st = (case handle_ara P p q st of (r, st1) \<Rightarrow> (server_answer r, st1))"

definition agent_keeps :: "setting \<Rightarrow> app \<Rightarrow> ara_principal \<Rightarrow> store \<Rightarrow> agent_state \<Rightarrow> bool" where
  "agent_keeps S P p s st \<longleftrightarrow> for_agent S P p \<and> ready S st \<and> runs_in (sp_tenants S) s (os_store st)"

interpretation on_server: kept_network "server_network P p" "agent_keeps S P p s" for S P p s
proof (unfold_locales)
  fix st q
  assume st: "agent_keeps S P p s st" and q: "loop_request q"
  from st have a: "for_agent S P p" "ready S st" "runs_in (sp_tenants S) s (os_store st)"
    by (simp_all add: agent_keeps_def)
  have "admitted_ara S st p q" using q by (auto simp: admitted_ara_def loop_request_def)
  from agent_requests_keep[OF a(1,2) this] have
    "runs_in (sp_tenants S) (os_store st) (os_store (snd (handle_ara P p q st)))" "ready S (snd (handle_ara P p q st))"
    by blast+
  with a runs_in_trans[OF a(3)] show "agent_keeps S P p s (snd (server_network P p q st))"
    by (auto simp: agent_keeps_def server_network_def split: prod.split)
qed



end
