(* ===== verification/Hermes.thy ===== *)
theory Hermes
  imports Tools Pipeline SqlMemories
begin

text \<open>
  The import from Hermes: \<^verbatim>\<open>hermes.py\<close>, which reads Markdown profiles and a SQLite database, and what
  \<^verbatim>\<open>hermes_cli.py\<close> stages. Files, \<^verbatim>\<open>sha256\<close>, the decoding of UTF-8 and SQLite are parameters. A
  \<^verbatim>\<open>HermesSchemaError\<close> is a \<^verbatim>\<open>ValueError\<close>.
\<close>

section \<open>Words and lines\<close>

text \<open>\<^verbatim>\<open>\w\<close> on the code points below 256.\<close>

definition word_char :: "char \<Rightarrow> bool" where
  "word_char c \<longleftrightarrow> (let n = (of_char c :: nat) in
     (48 \<le> n \<and> n \<le> 57) \<or> (65 \<le> n \<and> n \<le> 90) \<or> n = 95 \<or> (97 \<le> n \<and> n \<le> 122) \<or>
     n \<in> {170, 178, 179, 181, 185, 186, 188, 189, 190} \<or> (192 \<le> n \<and> n \<noteq> 215 \<and> n \<noteq> 247))"

text \<open>\<^verbatim>\<open>re.search(r"\b(?:...)\b", s, re.IGNORECASE)\<close> for words that begin and end with a \<^verbatim>\<open>\w\<close>.\<close>

definition begins_with_word :: "string \<Rightarrow> string \<Rightarrow> bool" where
  "begins_with_word s w \<longleftrightarrow> prefix w (map casefold_char s) \<and>
     (case drop (length w) s of [] \<Rightarrow> True | d # _ \<Rightarrow> \<not> word_char d)"

fun mentions_after :: "string list \<Rightarrow> bool \<Rightarrow> string \<Rightarrow> bool" where
  "mentions_after ws inside [] = False"
| "mentions_after ws inside (c # s) =
     (\<not> inside \<and> list_ex (begins_with_word (c # s)) ws \<or> mentions_after ws (word_char c) s)"

definition mentions :: "string list \<Rightarrow> string \<Rightarrow> bool" where
  "mentions ws s = mentions_after ws False s"

definition sensitive_words :: "string list" where
  "sensitive_words = [''security'', ''secret'', ''secrets'', ''password'', ''credential'', ''credentials'', ''token'',
     ''tokens'', ''apikey'', ''apikeys'', ''api key'', ''api keys'', ''api-key'', ''api-keys'', ''address'', ''private'',
     ''privacy'', ''intimate'']"

definition project_words :: "string list" where
  "project_words = [''project'', ''projects'', ''work'', ''repositories'', ''repository'', ''repo'', ''repos'']"

definition fact_words :: "string list" where
  "fact_words = [''fact'', ''facts'', ''about'', ''profile'', ''profiles'', ''identity'', ''bio'']"

definition preference_words :: "string list" where
  "preference_words = [''preference'', ''preferences'', ''prefer'', ''style'', ''styles'', ''communication'',
     ''convention'', ''conventions'', ''privacy'', ''boundaries'', ''boundary'']"

text \<open>\<^verbatim>\<open>(.+?)\<close> before the rest of a pattern: the shortest non-empty text that the rest can follow.\<close>

fun shortest :: "(string \<Rightarrow> bool) \<Rightarrow> string \<Rightarrow> string" where
  "shortest follows [] = []"
| "shortest follows (c # s) = (if follows s then [c] else c # shortest follows s)"

text \<open>\<^verbatim>\<open>\s*#*\s*$\<close>.\<close>

definition closes_heading :: "string \<Rightarrow> bool" where
  "closes_heading s \<longleftrightarrow> list_all is_space (dropWhile (\<lambda>c. c = CHR ''#'') (dropWhile is_space s))"

text \<open>
  \<^verbatim>\<open>_HEADING\<close>: the text of the heading in the line, stripped. When nothing follows the white space, the last
  blank of it is the text, so there has to be another one before.
\<close>

definition heading_text :: "string \<Rightarrow> string option" where
  "heading_text line =
     (let hashes = takeWhile (\<lambda>c. c = CHR ''#'') line;
          after = dropWhile (\<lambda>c. c = CHR ''#'') line;
          gap = takeWhile is_space after;
          body = dropWhile is_space after in
      if hashes = [] \<or> 6 < length hashes \<or> gap = [] then None
      else if body = [] then (if length gap = 1 then None else Some [])
      else Some (strip (shortest closes_heading body)))"

text \<open>What follows \<^verbatim>\<open>[-+*]\<close> or \<^verbatim>\<open>\d+[.)]\<close>.\<close>

definition is_digit :: "char \<Rightarrow> bool" where
  "is_digit c \<longleftrightarrow> c \<in> set ''0123456789''"

definition after_marker :: "string \<Rightarrow> string option" where
  "after_marker s = (case s of
     [] \<Rightarrow> None
   | c # rest \<Rightarrow>
       if c \<in> set ''-+*'' then Some rest
       else if is_digit c then
         (case dropWhile is_digit s of
            [] \<Rightarrow> None | d # tail \<Rightarrow> if d \<in> set ''.)'' then Some tail else None)
       else None)"

text \<open>\<^verbatim>\<open>_BULLET\<close> with the test that the content is not empty.\<close>

definition bullet_text :: "string \<Rightarrow> string option" where
  "bullet_text line =
     (case after_marker (lstrip line) of
        None \<Rightarrow> None
      | Some [] \<Rightarrow> None
      | Some (c # s) \<Rightarrow> if is_space c \<and> strip s \<noteq> [] then Some (strip s) else None)"

section \<open>Profiles\<close>

text \<open>\<^verbatim>\<open>is_file\<close>, \<^verbatim>\<open>read_bytes\<close>, \<^verbatim>\<open>sha256(...).hexdigest()\<close> and \<^verbatim>\<open>decode("utf-8")\<close>.\<close>

record files =
  fs_is_file :: "string \<Rightarrow> bool"
  fs_read :: "string \<Rightarrow> error + nat list"
  fs_sha256 :: "nat list \<Rightarrow> string"
  fs_decode :: "nat list \<Rightarrow> string option"

record profile_item =
  pi_role :: string
  pi_filename :: string
  pi_heading :: "string option"
  pi_line_number :: nat
  pi_content :: string

fun profile_lines :: "string \<Rightarrow> string \<Rightarrow> string option \<Rightarrow> (nat \<times> string) list \<Rightarrow> profile_item list" where
  "profile_lines role filename heading [] = []"
| "profile_lines role filename heading ((number, line) # lines) =
     (case heading_text line of
        Some h \<Rightarrow> profile_lines role filename (Some h) lines
      | None \<Rightarrow>
          (case bullet_text line of
             None \<Rightarrow> profile_lines role filename heading lines
           | Some content \<Rightarrow>
               \<lparr>pi_role = role, pi_filename = filename, pi_heading = heading, pi_line_number = number,
                pi_content = content\<rparr> # profile_lines role filename heading lines))"

definition read_profile :: "files \<Rightarrow> string \<Rightarrow> string \<Rightarrow> error + nat list \<times> profile_item list" where
  "read_profile F path role =
     (if \<not> fs_is_file F path then Inl (ValueError (''Hermes '' @ role @ '' path is not a readable file''))
      else ebind (fs_read F path) (\<lambda>raw.
        case fs_decode F raw of
          None \<Rightarrow> Inl (ValueError (''Hermes '' @ role @ '' file must be UTF-8 Markdown''))
        | Some text \<Rightarrow> Inr (raw, profile_lines role (path_name path) None (enumerate 1 (splitlines text)))))"

text \<open>\<^verbatim>\<open>n.to_bytes(k, "big")\<close>, and what a file adds to the digest. Both roles are ASCII.\<close>

definition big_endian :: "nat \<Rightarrow> nat \<Rightarrow> nat list" where
  "big_endian k n = map (\<lambda>i. n div 256 ^ (k - 1 - i) mod 256) [0..<k]"

definition profile_frame :: "string \<Rightarrow> nat list \<Rightarrow> nat list" where
  "profile_frame role raw =
     big_endian 2 (length role) @ map of_char role @ big_endian 8 (length raw) @ raw"

definition profile_bytes :: "(string \<times> nat list) list \<Rightarrow> nat list" where
  "profile_bytes sources = concat (map (\<lambda>(role, raw). profile_frame role raw) sources)"

definition roles_of :: "string option \<Rightarrow> string option \<Rightarrow> (string \<times> string) list" where
  "roles_of user_path memory_path =
     (case user_path of None \<Rightarrow> [] | Some p \<Rightarrow> [(''user'', p)]) @ (case memory_path of None \<Rightarrow> [] | Some p \<Rightarrow> [(''memory'', p)])"

definition profile_sources ::
  "files \<Rightarrow> string option \<Rightarrow> string option \<Rightarrow> error + string \<times> profile_item list \<times> (string, string) dict" where
  "profile_sources F user_path memory_path =
     (if user_path = None \<and> memory_path = None
      then Inl (ValueError ''at least one Hermes USER.md or MEMORY.md path is required'')
      else
        let sources = roles_of user_path memory_path in
        ebind (emap (\<lambda>(role, path). read_profile F path role) sources) (\<lambda>parsed.
        Inr (fs_sha256 F (profile_bytes (zip (map fst sources) (map fst parsed))),
             concat (map snd parsed),
             map (\<lambda>(role, path). (role, path_name path)) sources)))"

definition profile_kind :: "profile_item \<Rightarrow> memory_kind" where
  "profile_kind item =
     (let heading = (case pi_heading item of None \<Rightarrow> [] | Some h \<Rightarrow> h) in
      if mentions project_words heading then Mem_PROJECT
      else if pi_role item = ''user'' then
        (if mentions [''private'', ''privacy''] (pi_content item) then Mem_PREFERENCE
         else if mentions fact_words heading then Mem_FACT
         else if mentions preference_words heading \<or> heading = [] then Mem_PREFERENCE
         else Mem_PREFERENCE)
      else Mem_FACT)"

record profile_dry_run =
  pd_fingerprint :: string
  pd_user_count :: nat
  pd_memory_count :: nat
  pd_sensitive_count :: nat
  pd_candidate_count :: nat

definition dry_run_profiles :: "files \<Rightarrow> string option \<Rightarrow> string option \<Rightarrow> error + profile_dry_run" where
  "dry_run_profiles F user_path memory_path =
     ebind (profile_sources F user_path memory_path) (\<lambda>(fingerprint, items, _).
     Inr \<lparr>pd_fingerprint = fingerprint,
          pd_user_count = length (filter (\<lambda>i. pi_role i = ''user'') items),
          pd_memory_count = length (filter (\<lambda>i. pi_role i = ''memory'') items),
          pd_sensitive_count = length (filter (\<lambda>i. mentions sensitive_words (pi_content i)) items),
          pd_candidate_count = length items\<rparr>)"

section \<open>Staged records\<close>

text \<open>
  The readings of one call: the batch takes the first identifier and instant, the \<open>i\<close>-th record the next three
  and two, in the order in which its arguments and defaults are evaluated.
\<close>

definition staged_batch ::
  "env \<Rightarrow> uuid \<Rightarrow> string \<Rightarrow> string \<Rightarrow> (string, json) dict \<Rightarrow> persona_core option \<Rightarrow> migration_batch" where
  "staged_batch e tenant_id source_system fingerprint metadata persona_draft =
     \<lparr>mb_id = gen e 0, mb_tenant_id = tenant_id, mb_source_system = source_system,
      mb_source_database_fingerprint = fingerprint, mb_state = Batch_STAGED, mb_source_metadata = metadata,
      mb_persona_draft = persona_draft, mb_persona_profile_id = None, mb_created_at = clk e 0,
      mb_activated_at = None, mb_rolled_back_at = None\<rparr>"

definition staged_memory :: "env \<Rightarrow> migration_batch \<Rightarrow> nat \<Rightarrow> memory_kind \<Rightarrow> string \<Rightarrow> string \<Rightarrow> memory_record" where
  "staged_memory e batch i kind content external_id =
     \<lparr>mr_id = gen e (3 * i + 3), mr_tenant_id = mb_tenant_id batch, mr_kind = kind, mr_content = content,
      mr_normalized_content = join '' '' (split (casefold content)),
      mr_source_event_id = gen e (3 * i + 1), mr_source_message_id = gen e (3 * i + 2),
      mr_confidence = 1 / 2, mr_confirmed = False, mr_pinned = False, mr_state = Mem_CANDIDATE,
      mr_sensitivity = ''normal'', mr_visibility = ''private'', mr_retention = ''durable'', mr_contradiction_of = None,
      mr_created_at = clk e (2 * i + 1), mr_updated_at = clk e (2 * i + 2), mr_reviewed_at = None,
      mr_reviewed_by = None, mr_deleted_at = None, mr_import_batch_id = Some (mb_id batch),
      mr_source_system = Some (mb_source_system batch),
      mr_source_database_fingerprint = Some (mb_source_database_fingerprint batch),
      mr_source_external_id = Some external_id, mr_source_metadata = []\<rparr>"

definition profile_metadata :: "profile_item \<Rightarrow> (string, json) dict" where
  "profile_metadata item =
     [(''wave'', JInt 2), (''source_role'', JStr (pi_role item)), (''source_filename'', JStr (pi_filename item)),
      (''heading'', case pi_heading item of None \<Rightarrow> JNull | Some h \<Rightarrow> JStr h),
      (''line_number'', JInt (int (pi_line_number item))), (''source_created_at'', JNull),
      (''source_updated_at'', JNull), (''data_only'', JBool True)]"

definition profile_external_id :: "profile_item \<Rightarrow> string" where
  "profile_external_id item = pi_role item @ '':'' @ nat_text (pi_line_number item)"

definition profile_record :: "env \<Rightarrow> migration_batch \<Rightarrow> nat \<times> profile_item \<Rightarrow> memory_record" where
  "profile_record e batch = (\<lambda>(i, item).
     (staged_memory e batch i (profile_kind item) (pi_content item) (profile_external_id item))
       \<lparr>mr_sensitivity := (if mentions sensitive_words (pi_content item) then ''high'' else ''normal''),
        mr_source_metadata := profile_metadata item\<rparr>)"

definition stage_profile_records ::
  "env \<Rightarrow> files \<Rightarrow> uuid \<Rightarrow> string option \<Rightarrow> string option \<Rightarrow> error + migration_batch \<times> memory_record list" where
  "stage_profile_records e F tenant_id user_path memory_path =
     ebind (profile_sources F user_path memory_path) (\<lambda>(fingerprint, items, filenames).
     ebind (checked valid_migration_batch (staged_batch e tenant_id ''hermes_profile_files'' fingerprint
              [(''wave'', JInt 2), (''format'', JStr ''markdown-bullets-v1''),
               (''files'', JObj (map (\<lambda>(role, name). (role, JStr name)) filenames))] None)) (\<lambda>batch.
     ebind (emap (\<lambda>x. checked valid_memory (profile_record e batch x)) (enumerate 0 items)) (\<lambda>records.
     Inr (batch, records))))"

section \<open>The database\<close>

text \<open>
  A cell of a column that is read: blobs in them are not modelled. \<open>hd_facts\<close> is the table of facts in the order of
  \<^verbatim>\<open>fact_id\<close>, \<open>hd_links\<close> the answer to the query that joins facts and entities: the fact, the name and the type.
\<close>

datatype cell = Cell_null | Cell_int int | Cell_real rat | Cell_text string

record fact_row =
  fr_fact_id :: cell
  fr_content :: cell
  fr_category :: cell
  fr_tags :: cell
  fr_trust_score :: cell
  fr_retrieval_count :: cell
  fr_helpful_count :: cell
  fr_created_at :: cell
  fr_updated_at :: cell

record hermes_db =
  hd_tables :: "string list"
  hd_columns :: "string \<Rightarrow> string list"
  hd_facts :: "fact_row list"
  hd_entity_count :: nat
  hd_links :: "(cell \<times> cell \<times> cell) list"

text \<open>\<^verbatim>\<open>sqlite3.connect\<close>, and \<^verbatim>\<open>str\<close> and \<^verbatim>\<open>float\<close> where they are not spelled out here.\<close>

record sqlite =
  sq_open :: "string \<Rightarrow> error + hermes_db"
  sq_real_text :: "rat \<Rightarrow> string"
  sq_float :: "string \<Rightarrow> error + rat"

definition cell_text :: "sqlite \<Rightarrow> cell \<Rightarrow> string" where
  "cell_text Q c = (case c of
     Cell_null \<Rightarrow> ''None'' | Cell_int i \<Rightarrow> int_text i | Cell_real r \<Rightarrow> sq_real_text Q r | Cell_text s \<Rightarrow> s)"

definition cell_float :: "sqlite \<Rightarrow> cell \<Rightarrow> error + rat" where
  "cell_float Q c = (case c of
     Cell_null \<Rightarrow> Inl (TypeError ''float'') | Cell_int i \<Rightarrow> Inr (of_int i) | Cell_real r \<Rightarrow> Inr r
   | Cell_text s \<Rightarrow> sq_float Q s)"

definition cell_true :: "cell \<Rightarrow> bool" where
  "cell_true c \<longleftrightarrow> c \<noteq> Cell_null \<and> c \<noteq> Cell_int 0 \<and> c \<noteq> Cell_real 0 \<and> c \<noteq> Cell_text []"

definition cell_json :: "cell \<Rightarrow> json" where
  "cell_json c = (case c of
     Cell_null \<Rightarrow> JNull | Cell_int i \<Rightarrow> JInt i | Cell_real r \<Rightarrow> JFloat r | Cell_text s \<Rightarrow> JStr s)"

definition hermes_tables :: "(string \<times> string list) list" where
  "hermes_tables =
     [(''facts'', [''fact_id'', ''content'', ''category'', ''tags'', ''trust_score'', ''retrieval_count'', ''helpful_count'',
        ''created_at'', ''updated_at'', ''hrr_vector'']),
      (''entities'', [''entity_id'', ''name'', ''entity_type'', ''aliases'', ''created_at'']),
      (''fact_entities'', [''fact_id'', ''entity_id'']),
      (''memory_banks'', [''bank_id'', ''bank_name'', ''vector'', ''dim'', ''fact_count'', ''updated_at''])]"

definition allowed_tables :: "string list" where
  "allowed_tables = map fst hermes_tables @
     [''sqlite_sequence'', ''facts_fts'', ''facts_fts_config'', ''facts_fts_data'', ''facts_fts_docsize'', ''facts_fts_idx'']"

definition verify_schema :: "hermes_db \<Rightarrow> error + unit" where
  "verify_schema D =
     (if \<not> (set (map fst hermes_tables) \<subseteq> set (hd_tables D) \<and> set (hd_tables D) \<subseteq> set allowed_tables) \<or>
         list_ex (\<lambda>(table, required). set (hd_columns D table) \<noteq> set required) hermes_tables
      then Inl (ValueError ''unsupported Hermes SQLite schema'') else Inr ())"

text \<open>The source is read for its fingerprint before \<^verbatim>\<open>_connect\<close> looks whether it is a file.\<close>

definition open_hermes :: "files \<Rightarrow> sqlite \<Rightarrow> string \<Rightarrow> error + string \<times> hermes_db" where
  "open_hermes F Q path =
     ebind (fs_read F path) (\<lambda>raw.
     if \<not> fs_is_file F path then Inl (ValueError ''Hermes database path is not a readable file'')
     else ebind (sq_open Q path) (\<lambda>D.
          ebind (verify_schema D) (\<lambda>_. Inr (fs_sha256 F raw, D))))"

record hermes_dry_run =
  hr_fingerprint :: string
  hr_fact_count :: nat
  hr_entity_count :: nat
  hr_trust_min :: "rat option"
  hr_trust_max :: "rat option"
  hr_candidate_count :: nat

definition dry_run :: "files \<Rightarrow> sqlite \<Rightarrow> string \<Rightarrow> error + hermes_dry_run" where
  "dry_run F Q path =
     ebind (open_hermes F Q path) (\<lambda>(fingerprint, D).
     ebind (emap (cell_float Q) (filter (\<lambda>c. c \<noteq> Cell_null) (map fr_trust_score (hd_facts D)))) (\<lambda>scores.
     Inr \<lparr>hr_fingerprint = fingerprint, hr_fact_count = length (hd_facts D), hr_entity_count = hd_entity_count D,
          hr_trust_min = (if scores = [] then None else Some (foldr min scores (hd scores))),
          hr_trust_max = (if scores = [] then None else Some (foldr max scores (hd scores))),
          hr_candidate_count = length (filter (\<lambda>s. s < 4 / 5) scores)\<rparr>))"

text \<open>\<^verbatim>\<open>float(row[4] or 0)\<close> and \<^verbatim>\<open>str(row[2] or "")\<close>.\<close>

definition fact_score :: "sqlite \<Rightarrow> fact_row \<Rightarrow> error + rat" where
  "fact_score Q r = (if cell_true (fr_trust_score r) then cell_float Q (fr_trust_score r) else Inr 0)"

definition fact_category :: "sqlite \<Rightarrow> fact_row \<Rightarrow> string" where
  "fact_category Q r = (if cell_true (fr_category r) then cell_text Q (fr_category r) else [])"

definition fact_kind :: "sqlite \<Rightarrow> fact_row \<Rightarrow> memory_kind" where
  "fact_kind Q r =
     (if fact_category Q r = ''user_pref'' then Mem_PREFERENCE
      else if fact_category Q r = ''project'' then Mem_PROJECT else Mem_FACT)"

text \<open>The dictionary \<^verbatim>\<open>entities\<close>, read at the text of a fact's identifier.\<close>

definition fact_entities :: "sqlite \<Rightarrow> hermes_db \<Rightarrow> fact_row \<Rightarrow> json list" where
  "fact_entities Q D r =
     map (\<lambda>(f, name, kind). JObj [(''name'', cell_json name), (''type'', cell_json kind)])
       (filter (\<lambda>(f, _). cell_text Q f = cell_text Q (fr_fact_id r)) (hd_links D))"

definition fact_metadata :: "sqlite \<Rightarrow> hermes_db \<Rightarrow> fact_row \<Rightarrow> (string, json) dict" where
  "fact_metadata Q D r =
     [(''category'', JStr (fact_category Q r)), (''tags'', cell_json (fr_tags r)),
      (''retrieval_count'', cell_json (fr_retrieval_count r)), (''helpful_count'', cell_json (fr_helpful_count r)),
      (''source_created_at'', cell_json (fr_created_at r)), (''source_updated_at'', cell_json (fr_updated_at r)),
      (''entities'', JList (fact_entities Q D r))]"

definition fact_record ::
  "env \<Rightarrow> sqlite \<Rightarrow> hermes_db \<Rightarrow> migration_batch \<Rightarrow> nat \<times> fact_row \<Rightarrow> error + memory_record" where
  "fact_record e Q D batch = (\<lambda>(i, r).
     ebind (fact_score Q r) (\<lambda>score.
     Inr ((staged_memory e batch i (fact_kind Q r) (strip (cell_text Q (fr_content r))) (cell_text Q (fr_fact_id r)))
       \<lparr>mr_confidence := max 0 (min 1 score),
        mr_state := (if 4 / 5 \<le> score then Mem_PROMOTED else Mem_CANDIDATE),
        mr_source_metadata := fact_metadata Q D r\<rparr>)))"

definition stage_records ::
  "env \<Rightarrow> files \<Rightarrow> sqlite \<Rightarrow> string \<Rightarrow> uuid \<Rightarrow> persona_core option \<Rightarrow> error + migration_batch \<times> memory_record list" where
  "stage_records e F Q path tenant_id persona_draft =
     ebind (open_hermes F Q path) (\<lambda>(fingerprint, D).
     ebind (checked valid_migration_batch (staged_batch e tenant_id ''hermes_holographic'' fingerprint
              [(''layout'', JStr ''supported-v1'')] persona_draft)) (\<lambda>batch.
     ebind (emap (\<lambda>x. ebind (fact_record e Q D batch x) (checked valid_memory)) (enumerate 0 (hd_facts D))) (\<lambda>records.
     Inr (batch, records))))"

section \<open>The command line\<close>

definition soul_inventory :: "files \<Rightarrow> string \<Rightarrow> error + (string, json) dict" where
  "soul_inventory F path =
     (if \<not> fs_is_file F path then Inl (ValueError ''Hermes SOUL.md path is not a readable file'')
      else ebind (fs_read F path) (\<lambda>raw.
        if fs_decode F raw = None then Inl (ValueError ''utf-8'')
        else Inr [(''filename'', JStr (path_name path)), (''bytes'', JInt (int (length raw))),
          (''fingerprint'', JStr (fs_sha256 F raw)), (''status'', JStr ''manual_persona_review_required''),
          (''required_authored_core_fields'', JList (map JStr [''identity'', ''values'', ''boundaries'', ''tone'',
             ''initiative'', ''emotional_range'', ''disagreement'']))]))"

text \<open>
  \<^verbatim>\<open>_stage\<close> on the tables of the database: the two sources are two transactions, and the first stays when the second
  fails. \<open>e\<close> gives the readings of its four calls.
\<close>

definition stage_source ::
  "env \<Rightarrow> uuid \<Rightarrow> error + migration_batch \<times> memory_record list \<Rightarrow> db \<Rightarrow> (error + json) \<times> db" where
  "stage_source e tenant_id source d =
     (case source of
        Inl err \<Rightarrow> (Inl err, d)
      | Inr (batch, records) \<Rightarrow>
          (case sql_stage_migration_batch e batch records tenant_id d of
             (Inl err, d1) \<Rightarrow> (Inl err, d1)
           | (Inr stored, d1) \<Rightarrow>
               (Inr (JObj [(''batch_id'', JId (mb_id stored)), (''source_system'', JStr (mb_source_system stored))]), d1)))"

fun stage_sources ::
  "(env \<times> (error + migration_batch \<times> memory_record list)) list \<Rightarrow> uuid \<Rightarrow> db \<Rightarrow> (error + json list) \<times> db" where
  "stage_sources [] tenant_id d = (Inr [], d)"
| "stage_sources ((e, source) # sources) tenant_id d =
     (case stage_source e tenant_id source d of
        (Inl err, d1) \<Rightarrow> (Inl err, d1)
      | (Inr x, d1) \<Rightarrow>
          (case stage_sources sources tenant_id d1 of
             (Inl err, d2) \<Rightarrow> (Inl err, d2)
           | (Inr xs, d2) \<Rightarrow> (Inr (x # xs), d2)))"

definition cli_stage ::
  "(nat \<Rightarrow> env) \<Rightarrow> files \<Rightarrow> sqlite \<Rightarrow> uuid \<Rightarrow> string option \<Rightarrow> string option \<Rightarrow> string option \<Rightarrow> db \<Rightarrow> (error + json list) \<times> db" where
  "cli_stage e F Q tenant_id database user_path memory_path d =
     stage_sources
       ((case database of None \<Rightarrow> [] | Some path \<Rightarrow> [(e 1, stage_records (e 0) F Q path tenant_id None)]) @
        (if user_path = None \<and> memory_path = None then []
         else [(e 3, stage_profile_records (e 2) F tenant_id user_path memory_path)])) tenant_id d"

end
