(* ===== verification/HermesProperties.thy ===== *)
theory HermesProperties
  imports Hermes Samples
begin

text \<open>
  What an import files: the fingerprint of profiles, staging twice, what is recalled before the activation, and
  what the dry run counts.
\<close>

section \<open>Fingerprints\<close>

lemma length_big_endian [simp]: "length (big_endian k n) = k"
  by (simp add: big_endian_def)

lemma big_endian_Suc: "big_endian (Suc k) n = big_endian k (n div 256) @ [n mod 256]"
proof -
  have "n div 256 ^ (k - i) mod 256 = n div 256 div 256 ^ (k - 1 - i) mod 256" if "i < k" for i
  proof -
    from that have "k - i = Suc (k - 1 - i)" by simp
    then show ?thesis by (simp add: div_mult2_eq)
  qed
  then show ?thesis by (simp add: big_endian_def)
qed

lemma big_endian_inject: "big_endian k m = big_endian k n \<Longrightarrow> m < 256 ^ k \<Longrightarrow> n < 256 ^ k \<Longrightarrow> m = n"
proof (induction k arbitrary: m n)
  case (Suc k)
  then have "m div 256 = n div 256" "m mod 256 = n mod 256"
    by (auto simp: big_endian_Suc less_mult_imp_div_less mult.commute)
  then show ?case by (metis div_mult_mod_eq)
qed simp

lemma profile_frame_cancel:
  assumes "profile_frame r x @ xs = profile_frame r' x' @ ys"
    and "length r < 256 ^ 2" "length r' < 256 ^ 2" "length x < 256 ^ 8" "length x' < 256 ^ 8"
  shows "r = r' \<and> x = x' \<and> xs = ys"
proof -
  from assms(1) have "big_endian 2 (length r) = big_endian 2 (length r')"
    and rest: "map of_char r @ big_endian 8 (length x) @ x @ xs = map of_char r' @ big_endian 8 (length x') @ x' @ (ys :: nat list)"
    by (simp_all add: profile_frame_def)
  with assms(2,3) have "length r = length r'" by (blast intro: big_endian_inject)
  with rest have r: "map of_char r = (map of_char r' :: nat list)"
    and len: "big_endian 8 (length x) = big_endian 8 (length x')" and x: "x @ xs = x' @ ys" by simp_all
  from r have "r = r'" by (simp add: inj_map_eq_map inj_of_char)
  moreover from len assms(4,5) have "length x = length x'" by (blast intro: big_endian_inject)
  with x have "x = x'" "xs = ys" by simp_all
  ultimately show ?thesis by simp
qed

text \<open>
  The bytes a profile import is fingerprinted by determine the files: which roles were given, in which order,
  and what each file holds. A text moved from one file to the other changes the fingerprint's input.
\<close>

theorem profile_bytes_determine_files:
  assumes "profile_bytes xs = profile_bytes ys"
    and "\<And>role raw. (role, raw) \<in> set xs \<union> set ys \<Longrightarrow> length role < 65536 \<and> length raw < 2 ^ 64"
  shows "xs = ys"
  using assms
proof (induction xs arbitrary: ys)
  case Nil
  then show ?case by (cases ys) (auto simp: profile_bytes_def profile_frame_def big_endian_def)
next
  case (Cons x xs)
  obtain role raw where x: "x = (role, raw)" by fastforce
  show ?case
  proof (cases ys)
    case Nil
    with Cons.prems(1) show ?thesis by (auto simp: x profile_bytes_def profile_frame_def big_endian_def)
  next
    case (Cons y ys')
    obtain role' raw' where y: "y = (role', raw')" by fastforce
    have "profile_frame role raw @ profile_bytes xs = profile_frame role' raw' @ profile_bytes ys'"
      using Cons.prems(1) by (simp add: local.Cons x y profile_bytes_def)
    moreover have "length role < 65536" "length role' < 65536" "length raw < 2 ^ 64" "length raw' < 2 ^ 64"
      using Cons.prems(2) by (auto simp: local.Cons x y)
    ultimately have eq: "role = role'" "raw = raw'" "profile_bytes xs = profile_bytes ys'"
      using profile_frame_cancel[of role raw "profile_bytes xs" role' raw' "profile_bytes ys'"] by simp_all
    from Cons.prems(2) have "length r < 65536 \<and> length w < 2 ^ 64" if "(r, w) \<in> set xs \<union> set ys'" for r w
      using that by (auto simp: local.Cons)
    with Cons.IH[OF eq(3)] eq show ?thesis by (simp add: local.Cons x y)
  qed
qed

theorem profile_bytes_determine_files_witness:
  "profile_bytes [(''user'', [45, 32, 97]), (''memory'', [])] \<noteq> profile_bytes [(''user'', []), (''memory'', [45, 32, 97])]"
proof
  assume "profile_bytes [(''user'', [45, 32, 97]), (''memory'', [])] = profile_bytes [(''user'', []), (''memory'', [45, 32, 97])]"
  then have "[(''user'', [45, 32, 97]), (''memory'', [])] = [(''user'', []), (''memory'', [45, 32, 97 :: nat])]"
    by (rule profile_bytes_determine_files) auto
  then show False by simp
qed

section \<open>Staging\<close>

lemma emap_checked: "emap (\<lambda>x. checked ok (f x)) xs = Inr ys \<Longrightarrow> ys = map f xs \<and> (\<forall>y \<in> set ys. ok y)"
  by (induction xs arbitrary: ys) (auto simp: checked_def ebind_Inr_iff split: if_splits)

text \<open>What staging reads of a batch and its records.\<close>

definition staged_as :: "string \<Rightarrow> uuid \<Rightarrow> string \<Rightarrow> migration_batch \<Rightarrow> memory_record list \<Rightarrow> bool" where
  "staged_as source_system tenant_id fingerprint batch records \<longleftrightarrow>
     mb_tenant_id batch = tenant_id \<and> mb_source_system batch = source_system \<and>
     mb_source_database_fingerprint batch = fingerprint \<and> mb_state batch = Batch_STAGED \<and>
     (\<forall>m \<in> set records. valid_memory m \<and> mr_tenant_id m = tenant_id \<and> mr_import_batch_id m = Some (mb_id batch) \<and>
        mr_source_system m = Some source_system \<and> mr_source_database_fingerprint m = Some fingerprint \<and> \<not> mr_confirmed m)"

lemma stage_profiles_Inr:
  assumes "stage_profile_records e F tenant_id user_path memory_path = Inr (batch, records)"
  obtains fingerprint items filenames where
    "profile_sources F user_path memory_path = Inr (fingerprint, items, filenames)"
    and "records = map (profile_record e batch) (enumerate 0 items)"
    and "staged_as ''hermes_profile_files'' tenant_id fingerprint batch records"
proof -
  from assms obtain fingerprint items filenames where
    src: "profile_sources F user_path memory_path = Inr (fingerprint, items, filenames)" and
    b: "mb_tenant_id batch = tenant_id" "mb_source_system batch = ''hermes_profile_files''"
      "mb_source_database_fingerprint batch = fingerprint" "mb_state batch = Batch_STAGED" and
    r: "emap (\<lambda>x. checked valid_memory (profile_record e batch x)) (enumerate 0 items) = Inr records"
    by (auto simp: stage_profile_records_def ebind_Inr_iff checked_def staged_batch_def split: if_splits)
  have "staged_as ''hermes_profile_files'' tenant_id fingerprint batch records"
    using emap_checked[OF r] b by (auto simp: staged_as_def profile_record_def staged_memory_def)
  with src emap_checked[OF r] show thesis by (intro that) auto
qed

lemma emap_facts:
  "emap (\<lambda>x. ebind (f x) (checked ok)) xs = Inr ys \<Longrightarrow>
     list_all2 (\<lambda>x y. f x = Inr y) xs ys \<and> (\<forall>y \<in> set ys. ok y)"
  by (induction xs arbitrary: ys) (auto simp: checked_def ebind_Inr_iff split: if_splits)

lemma stage_records_Inr:
  assumes "stage_records e F Q path tenant_id persona_draft = Inr (batch, records)"
  obtains fingerprint D where
    "open_hermes F Q path = Inr (fingerprint, D)"
    and "list_all2 (\<lambda>x m. fact_record e Q D batch x = Inr m) (enumerate 0 (hd_facts D)) records"
    and "staged_as ''hermes_holographic'' tenant_id fingerprint batch records"
proof -
  from assms obtain fingerprint D where
    src: "open_hermes F Q path = Inr (fingerprint, D)" and
    b: "mb_tenant_id batch = tenant_id" "mb_source_system batch = ''hermes_holographic''"
      "mb_source_database_fingerprint batch = fingerprint" "mb_state batch = Batch_STAGED" and
    r: "emap (\<lambda>x. ebind (fact_record e Q D batch x) (checked valid_memory)) (enumerate 0 (hd_facts D)) = Inr records"
    by (auto simp: stage_records_def ebind_Inr_iff checked_def staged_batch_def split: if_splits)
  have "\<exists>x. fact_record e Q D batch x = Inr m" if "m \<in> set records" for m
    using conjunct1[OF emap_facts[OF r]] that unfolding list_all2_conv_all_nth in_set_conv_nth by metis
  then have "staged_as ''hermes_holographic'' tenant_id fingerprint batch records"
    using emap_facts[OF r] b
    by (fastforce simp: staged_as_def fact_record_def staged_memory_def ebind_Inr_iff split: prod.splits)
  with src emap_facts[OF r] show thesis by (intro that) auto
qed

text \<open>The batch of a fingerprint that has been staged, whatever became of it since.\<close>

definition known_batch :: "uuid \<Rightarrow> string \<Rightarrow> string \<Rightarrow> store \<Rightarrow> migration_batch option" where
  "known_batch tenant_id source_system fingerprint s =
     find (\<lambda>b. mb_tenant_id b = tenant_id \<and> mb_source_system b = source_system \<and>
               mb_source_database_fingerprint b = fingerprint) (dict_values (st_migration_batches s))"

lemma stage_memories_batches [simp]: "st_migration_batches (snd (stage_memories e b u a n ms s)) = st_migration_batches s"
  by (induction ms arbitrary: n s) (auto split: option.split simp: Let_def)

text \<open>Staging an unknown batch: the batch is filed, then the loop runs over the memories.\<close>

lemma stage_unknown:
  assumes "known_batch (mb_tenant_id batch) (mb_source_system batch) (mb_source_database_fingerprint batch) s = None"
  obtains s1 u where "st_memories s1 = st_memories s"
    and "st_migration_batches (snd (stage_migration_batch e batch records a s)) =
      AList.update (mb_id batch) batch (st_migration_batches s)"
    and "st_memories (snd (stage_migration_batch e batch records a s)) =
      st_memories (snd (stage_memories e batch u a 0 records s1))"
proof -
  let ?conversation = "\<lparr>cv_id = gen e 0, cv_tenant_id = mb_tenant_id batch, cv_user_id = a,
    cv_title = ''Imported '' @ mb_source_system batch @ '' migration'', cv_created_at = clk e 0, cv_updated_at = clk e 1\<rparr>"
  let ?message = "\<lparr>ms_id = gen e 1, ms_tenant_id = mb_tenant_id batch, ms_conversation_id = gen e 0, ms_role = Role_USER,
    ms_content = ''Imported source provenance'', ms_created_at = clk e 2\<rparr>"
  show thesis
    by (rule that[of "s\<lparr>st_conversations := AList.update (gen e 0) ?conversation (st_conversations s),
          st_messages := AList.update (gen e 1) ?message (st_messages s),
          st_migration_batches := AList.update (mb_id batch) batch (st_migration_batches s)\<rparr>" "gen e 1"])
       (use assms in \<open>simp_all add: stage_migration_batch_def known_batch_def Let_def split_beta\<close>)
qed

lemma batch_known:
  assumes "staged_as y tenant_id fingerprint batch records"
  shows "known_batch tenant_id y fingerprint (snd (stage_migration_batch e batch records a s)) \<noteq> None"
proof (cases "known_batch tenant_id y fingerprint s")
  case None
  with assms have "known_batch (mb_tenant_id batch) (mb_source_system batch) (mb_source_database_fingerprint batch) s = None"
    by (simp add: staged_as_def)
  then obtain s1 u where "st_migration_batches (snd (stage_migration_batch e batch records a s)) =
      AList.update (mb_id batch) batch (st_migration_batches s)"
    by (rule stage_unknown)
  with None assms show ?thesis by (simp add: known_batch_def staged_as_def find_update)
next
  case (Some b)
  with assms show ?thesis by (auto simp: known_batch_def stage_migration_batch_def staged_as_def)
qed

lemma staged_again:
  assumes "staged_as y tenant_id fingerprint batch records" "staged_as y tenant_id fingerprint batch' records'"
  shows "\<exists>b. stage_migration_batch e' batch' records' a' (snd (stage_migration_batch e batch records a s)) =
      (Inr b, snd (stage_migration_batch e batch records a s)) \<and>
    mb_tenant_id b = tenant_id \<and> mb_source_system b = y \<and> mb_source_database_fingerprint b = fingerprint"
proof -
  obtain b where "known_batch tenant_id y fingerprint (snd (stage_migration_batch e batch records a s)) = Some b"
    using batch_known[OF assms(1)] by blast
  moreover from this have "mb_tenant_id b = tenant_id \<and> mb_source_system b = y \<and> mb_source_database_fingerprint b = fingerprint"
    by (auto simp: known_batch_def find_Some_iff)
  ultimately show ?thesis
    using assms(2) by (auto simp: stage_migration_batch_def[of e' batch'] staged_as_def known_batch_def)
qed


text \<open>What the import stores: records whose source is new are appended in their order.\<close>

definition new_source :: "migration_batch \<Rightarrow> memory_record list \<Rightarrow> store \<Rightarrow> bool" where
  "new_source batch records s \<longleftrightarrow>
     known_batch (mb_tenant_id batch) (mb_source_system batch) (mb_source_database_fingerprint batch) s = None \<and>
     (\<forall>m \<in> set (dict_values (st_memories s)).
        mr_source_database_fingerprint m \<noteq> Some (mb_source_database_fingerprint batch)) \<and>
     distinct (map mr_source_external_id records) \<and> distinct (map mr_id records) \<and>
     (\<forall>m \<in> set records. mr_id m \<notin> set (map fst (st_memories s)))"

lemma update_absent: "k \<notin> set (map fst al) \<Longrightarrow> AList.update k v al = al @ [(k, v)]"
  by (induction al) auto

lemma stage_memories_new:
  assumes "find (\<lambda>r. mr_tenant_id r = mb_tenant_id b \<and> mr_source_system r = mr_source_system m \<and>
      mr_source_database_fingerprint r = mr_source_database_fingerprint m \<and>
      mr_source_external_id r = mr_source_external_id m) (dict_values (st_memories s)) = None"
    and "mr_id m \<notin> set (map fst (st_memories s))"
  obtains n' t where "stage_memories e b u a n (m # ms) s = stage_memories e b u a n' ms t"
    and "st_memories t = st_memories s @ [(mr_id m, m\<lparr>mr_source_message_id := u\<rparr>)]"
  by (rule that, use assms(1) in \<open>simp add: Let_def\<close>, use assms(2) in \<open>simp add: update_absent\<close>)

lemma stage_memories_append:
  assumes "\<forall>m \<in> set (dict_values (st_memories s)). \<forall>r \<in> set ms.
      \<not> (mr_source_database_fingerprint m = mr_source_database_fingerprint r \<and> mr_source_external_id m = mr_source_external_id r)"
    and "distinct (map mr_source_external_id ms)" and "distinct (map mr_id ms)"
    and "\<forall>m \<in> set ms. mr_id m \<notin> set (map fst (st_memories s))"
  shows "st_memories (snd (stage_memories e b u a n ms s)) =
    st_memories s @ map (\<lambda>m. (mr_id m, m\<lparr>mr_source_message_id := u\<rparr>)) ms"
  using assms
proof (induction ms arbitrary: n s)
  case (Cons m ms)
  have none: "find (\<lambda>r. mr_tenant_id r = mb_tenant_id b \<and> mr_source_system r = mr_source_system m \<and>
      mr_source_database_fingerprint r = mr_source_database_fingerprint m \<and>
      mr_source_external_id r = mr_source_external_id m) (dict_values (st_memories s)) = None"
    using Cons.prems(1) by (auto simp: find_None_iff)
  obtain n' t where t: "stage_memories e b u a n (m # ms) s = stage_memories e b u a n' ms t"
    "st_memories t = st_memories s @ [(mr_id m, m\<lparr>mr_source_message_id := u\<rparr>)]"
    by (rule stage_memories_new[OF none]) (use Cons.prems(4) in auto)
  then show ?case
    unfolding t(1) using Cons.prems by (subst Cons.IH) (auto, (metis imageI)+)
qed simp

lemma staged_memories:
  assumes "staged_as y tenant_id fingerprint batch records" and "new_source batch records s"
  shows "\<exists>u. st_memories (snd (stage_migration_batch e batch records a s)) =
    st_memories s @ map (\<lambda>m. (mr_id m, m\<lparr>mr_source_message_id := u\<rparr>)) records"
proof -
  have fp: "mr_source_database_fingerprint r = Some (mb_source_database_fingerprint batch)" if "r \<in> set records" for r
    using assms(1) that by (auto simp: staged_as_def)
  obtain s1 u where s1: "st_memories s1 = st_memories s" and
    m: "st_memories (snd (stage_migration_batch e batch records a s)) =
      st_memories (snd (stage_memories e batch u a 0 records s1))"
    by (rule stage_unknown[of batch s e records a]) (use assms(2) in \<open>simp_all add: new_source_def\<close>)
  show ?thesis
    unfolding m using assms(2) fp by (subst stage_memories_append) (auto simp: new_source_def s1)
qed

lemma stage_candidates:
  assumes "\<forall>m \<in> set ms. mr_state m = Mem_CANDIDATE \<and> mr_id m \<notin> set (map fst (st_memories s))" and "distinct (map mr_id ms)"
  shows "\<exists>added. st_memories (snd (stage_memories e b u a n ms s)) = st_memories s @ added \<and>
    (\<forall>m \<in> set (dict_values added). mr_state m = Mem_CANDIDATE)"
  using assms
proof (induction ms arbitrary: n s)
  case (Cons m ms)
  let ?found = "find (\<lambda>r. mr_tenant_id r = mb_tenant_id b \<and> mr_source_system r = mr_source_system m \<and>
      mr_source_database_fingerprint r = mr_source_database_fingerprint m \<and>
      mr_source_external_id r = mr_source_external_id m) (dict_values (st_memories s))"
  show ?case
  proof (cases ?found)
    case None
    have "\<exists>added. st_memories (snd (stage_memories e b u a n' ms t)) = st_memories t @ added \<and>
        (\<forall>m \<in> set (dict_values added). mr_state m = Mem_CANDIDATE)"
      if "st_memories t = st_memories s @ [(mr_id m, m\<lparr>mr_source_message_id := u\<rparr>)]" for n' t
      using Cons.prems that by (intro Cons.IH) (auto, metis imageI)
    moreover obtain n' t where t: "stage_memories e b u a n (m # ms) s = stage_memories e b u a n' ms t"
      "st_memories t = st_memories s @ [(mr_id m, m\<lparr>mr_source_message_id := u\<rparr>)]"
      by (rule stage_memories_new[OF None]) (use Cons.prems(1) in auto)
    ultimately obtain added where
      "st_memories (snd (stage_memories e b u a n (m # ms) s)) = st_memories s @ (mr_id m, m\<lparr>mr_source_message_id := u\<rparr>) # added"
      "\<forall>m \<in> set (dict_values added). mr_state m = Mem_CANDIDATE"
      by fastforce
    then show ?thesis using Cons.prems(1) by (intro exI[of _ "(mr_id m, m\<lparr>mr_source_message_id := u\<rparr>) # added"]) simp
  next
    case (Some r)
    with Cons show ?thesis by simp
  qed
qed simp

text \<open>
  C15: Importing profiles leaves what is recalled as it was, for every tenant: their records are candidates until
  the batch is activated.
\<close>

theorem profiles_await_activation:
  assumes "stage_profile_records e' F tenant_id user_path memory_path = Inr (batch, records)"
    and "distinct (map mr_id records)" and "\<And>m. m \<in> set records \<Longrightarrow> mr_id m \<notin> set (map fst (st_memories s))"
  shows "list_memories v False (snd (stage_migration_batch e batch records actor_id s)) = list_memories v False s"
proof (cases "known_batch (mb_tenant_id batch) (mb_source_system batch) (mb_source_database_fingerprint batch) s")
  case None
  have "\<forall>m \<in> set records. mr_state m = Mem_CANDIDATE"
    using assms(1) by (auto elim!: stage_profiles_Inr simp: profile_record_def staged_memory_def)
  with assms(2,3) None obtain added where
    "st_memories (snd (stage_migration_batch e batch records actor_id s)) = st_memories s @ added"
    "\<forall>m \<in> set (dict_values added). mr_state m = Mem_CANDIDATE"
    by (metis (no_types, lifting) stage_candidates stage_unknown)
  then show ?thesis by (simp add: list_memories_def filter_sort filter_empty_conv)
next
  case (Some b)
  then show ?thesis by (simp add: known_batch_def stage_migration_batch_def)
qed

lemma stage_memories_personas [simp]:
  "st_personas (snd (stage_memories e b u a n ms s)) = st_personas s"
  "st_active_persona_ids (snd (stage_memories e b u a n ms s)) = st_active_persona_ids s"
  by (induction ms arbitrary: n s) (auto split: option.split simp: Let_def)

lemma stage_keeps_persona:
  "get_active_persona v (snd (stage_migration_batch e batch records a s)) = get_active_persona v s"
  by (simp add: stage_migration_batch_def get_active_persona_def Let_def split_beta split: option.split)

lemma trusted_fact_promoted:
  assumes "fact_record e Q D batch x = Inr m" and "4 / 5 \<le> mr_confidence m"
  shows "mr_state m = Mem_PROMOTED"
  using assms by (auto simp: fact_record_def staged_memory_def ebind_Inr_iff split: prod.splits)

text \<open>
  C16: Importing a database does not wait: a fact whose trust is at least 0.8 is recalled as soon as it is staged,
  while the batch is not activated and the active persona is the one of before.
\<close>

theorem trusted_facts_precede_activation:
  assumes "stage_records e' F Q path tenant_id draft = Inr (batch, records)" and "new_source batch records s"
    and "m \<in> set records" and "4 / 5 \<le> mr_confidence m"
    and "s' = snd (stage_migration_batch e batch records actor_id s)"
  shows "(\<exists>r \<in> set (list_memories tenant_id False s'). mr_id r = mr_id m \<and> mr_content r = mr_content m \<and> \<not> mr_confirmed r) \<and>
    (\<exists>b. get_migration_batch tenant_id (mb_id batch) s' = Some b \<and> mb_state b = Batch_STAGED) \<and>
    get_active_persona tenant_id s' = get_active_persona tenant_id s"
proof -
  obtain fingerprint D where
    r: "list_all2 (\<lambda>x m. fact_record e' Q D batch x = Inr m) (enumerate 0 (hd_facts D)) records"
    and b: "staged_as ''hermes_holographic'' tenant_id fingerprint batch records"
    using assms(1) by (rule stage_records_Inr)
  from r assms(3) obtain x where "fact_record e' Q D batch x = Inr m"
    unfolding list_all2_conv_all_nth in_set_conv_nth by metis
  then have "mr_state m = Mem_PROMOTED" using assms(4) by (rule trusted_fact_promoted)
  moreover obtain u where "st_memories s' = st_memories s @ map (\<lambda>m. (mr_id m, m\<lparr>mr_source_message_id := u\<rparr>)) records"
    using staged_memories[OF b assms(2), of e actor_id] assms(5) by blast
  ultimately have "m\<lparr>mr_source_message_id := u\<rparr> \<in> set (list_memories tenant_id False s')"
    using assms(3) b by (force simp: list_memories_def staged_as_def)
  moreover have "known_batch (mb_tenant_id batch) (mb_source_system batch) (mb_source_database_fingerprint batch) s = None"
    using assms(2) by (simp add: new_source_def)
  from stage_unknown[OF this, of e records actor_id]
  have "st_migration_batches s' = AList.update (mb_id batch) batch (st_migration_batches s)"
    unfolding assms(5) by metis
  then have "get_migration_batch tenant_id (mb_id batch) s' = Some batch"
    using b by (simp add: get_migration_batch_def scoped_def staged_as_def update_conv')
  moreover have "get_active_persona tenant_id s' = get_active_persona tenant_id s"
    unfolding assms(5) by (rule stage_keeps_persona)
  ultimately show ?thesis
    using b by (intro conjI bexI[of _ "m\<lparr>mr_source_message_id := u\<rparr>"]) (use assms(3) in \<open>auto simp: staged_as_def\<close>)
qed

section \<open>Samples\<close>

definition sample_sources :: files where
  "sample_sources = \<lparr>fs_is_file = (\<lambda>_. True), fs_read = (\<lambda>_. Inr [45, 32, 97]), fs_sha256 = (\<lambda>_. replicate 64 CHR ''0''),
     fs_decode = (\<lambda>_. Some ''- a'')\<rparr>"

definition sample_fact :: "cell \<Rightarrow> cell \<Rightarrow> fact_row" where
  "sample_fact content trust = \<lparr>fr_fact_id = Cell_text ''a'', fr_content = content, fr_category = Cell_text ''user_pref'',
     fr_tags = Cell_null, fr_trust_score = trust, fr_retrieval_count = Cell_int 2, fr_helpful_count = Cell_int 1,
     fr_created_at = Cell_text ''old'', fr_updated_at = Cell_text ''new''\<rparr>"

definition sample_hermes :: "fact_row list \<Rightarrow> hermes_db" where
  "sample_hermes facts = \<lparr>hd_tables = map fst hermes_tables,
     hd_columns = (\<lambda>t. case map_of hermes_tables t of None \<Rightarrow> [] | Some cs \<Rightarrow> cs), hd_facts = facts, hd_entity_count = 0,
     hd_links = []\<rparr>"

definition sample_sqlite :: "fact_row list \<Rightarrow> sqlite" where
  "sample_sqlite facts = \<lparr>sq_open = (\<lambda>_. Inr (sample_hermes facts)), sq_real_text = (\<lambda>_. ''0.9''),
     sq_float = (\<lambda>_. Inl (ValueError ''float''))\<rparr>"

lemma sample_opened:
  "open_hermes sample_sources (sample_sqlite facts) ''m.db'' = Inr (replicate 64 CHR ''0'', sample_hermes facts)"
  by (auto simp: open_hermes_def sample_sources_def sample_sqlite_def verify_schema_def sample_hermes_def hermes_tables_def
      allowed_tables_def)

lemma sample_batch_valid [simp]: "valid_migration_batch (staged_batch e u ''hermes_holographic'' (replicate 64 CHR ''0'') x None)"
  "valid_migration_batch (staged_batch e u ''hermes_profile_files'' (replicate 64 CHR ''0'') x None)"
  by (simp_all add: valid_migration_batch_def staged_batch_def str_between_def is_sha256_hex_def list_all_iff)

definition sample_staged :: "cell \<Rightarrow> cell \<Rightarrow> memory_record" where
  "sample_staged content trust =
     (case fact_record sample_env (sample_sqlite [sample_fact content trust]) (sample_hermes [sample_fact content trust])
        (staged_batch sample_env 1 ''hermes_holographic'' (replicate 64 CHR ''0'') [(''layout'', JStr ''supported-v1'')] None)
        (0, sample_fact content trust) of Inr m \<Rightarrow> m | Inl _ \<Rightarrow> sample_memory)"

lemma sample_staged_records:
  "stage_records sample_env sample_sources (sample_sqlite [sample_fact (Cell_text ''My password is x'') (Cell_real (9 / 10))]) ''m.db'' 1 None =
     Inr (staged_batch sample_env 1 ''hermes_holographic'' (replicate 64 CHR ''0'') [(''layout'', JStr ''supported-v1'')] None,
       [sample_staged (Cell_text ''My password is x'') (Cell_real (9 / 10))])"
  by (simp add: stage_records_def sample_opened checked_def sample_hermes_def fact_record_def fact_score_def cell_true_def
      sample_fact_def cell_float_def sample_staged_def staged_memory_def staged_batch_def valid_memory_def str_between_def
      cell_text_def strip_def lstrip_def rstrip_def is_space_def split_def casefold_def casefold_char_def
      valid_migration_batch_def is_sha256_hex_def list_all_iff)

theorem trusted_facts_precede_activation_witness:
  "\<exists>r \<in> set (list_memories 1 False (snd (stage_migration_batch sample_env
      (staged_batch sample_env 1 ''hermes_holographic'' (replicate 64 CHR ''0'') [(''layout'', JStr ''supported-v1'')] None)
      [sample_staged (Cell_text ''My password is x'') (Cell_real (9 / 10))] 1 empty_store))).
    mr_content r = ''My password is x''"
  using trusted_facts_precede_activation[OF sample_staged_records, of empty_store
      "sample_staged (Cell_text ''My password is x'') (Cell_real (9 / 10))" _ sample_env 1, OF _ _ _ refl]
  by (auto simp: new_source_def known_batch_def empty_store_def sample_staged_def fact_record_def fact_score_def cell_true_def
      sample_fact_def cell_float_def staged_memory_def cell_text_def strip_def lstrip_def rstrip_def is_space_def)

definition sample_profile_record :: memory_record where
  "sample_profile_record =
     profile_record sample_env (staged_batch sample_env 1 ''hermes_profile_files'' (replicate 64 CHR ''0'')
       [(''wave'', JInt 2), (''format'', JStr ''markdown-bullets-v1''), (''files'', JObj [(''user'', JStr ''USER.md'')])] None)
       (0, \<lparr>pi_role = ''user'', pi_filename = ''USER.md'', pi_heading = None, pi_line_number = 1, pi_content = ''a''\<rparr>)"

lemma sample_profile_records:
  "stage_profile_records sample_env sample_sources 1 (Some ''USER.md'') None =
     Inr (staged_batch sample_env 1 ''hermes_profile_files'' (replicate 64 CHR ''0'')
       [(''wave'', JInt 2), (''format'', JStr ''markdown-bullets-v1''), (''files'', JObj [(''user'', JStr ''USER.md'')])] None,
       [sample_profile_record])"
proof -
  have "profile_sources sample_sources (Some ''USER.md'') None =
      Inr (replicate 64 CHR ''0'', [\<lparr>pi_role = ''user'', pi_filename = ''USER.md'', pi_heading = None, pi_line_number = 1,
        pi_content = ''a''\<rparr>], [(''user'', ''USER.md'')])"
    by (simp add: profile_sources_def roles_of_def read_profile_def sample_sources_def splitlines_def is_line_break_def
        heading_text_def bullet_text_def after_marker_def lstrip_def strip_def rstrip_def is_space_def path_name_def pure_parts_def)
  moreover have "valid_memory sample_profile_record"
    by (simp add: sample_profile_record_def profile_record_def staged_memory_def staged_batch_def valid_memory_def
        str_between_def split_def casefold_def casefold_char_def is_space_def profile_external_id_def nat_text.simps)
  ultimately show ?thesis
    by (simp add: stage_profile_records_def checked_def) (simp add: sample_profile_record_def)
qed


theorem profiles_await_activation_witness:
  "list_memories 1 False (snd (stage_migration_batch sample_env
     (staged_batch sample_env 1 ''hermes_profile_files'' (replicate 64 CHR ''0'')
       [(''wave'', JInt 2), (''format'', JStr ''markdown-bullets-v1''), (''files'', JObj [(''user'', JStr ''USER.md'')])] None)
     [sample_profile_record] 1 empty_store)) = []"
  using profiles_await_activation[OF sample_profile_records, of empty_store 1 sample_env 1]
  by (simp add: empty_store_def list_memories_def)

section \<open>The dry run\<close>

lemma scores_of_facts:
  assumes "emap (cell_float Q) (filter (\<lambda>c. c \<noteq> Cell_null) (map fr_trust_score facts)) = Inr scores"
    and "list_all2 (\<lambda>x m. fact_record e Q D batch x = Inr m) (enumerate i facts) ms"
    and "sq_float Q [] = Inl err"
  shows "length (filter (\<lambda>m. mr_state m = Mem_CANDIDATE) ms) =
    length (filter (\<lambda>s. s < 4 / 5) scores) + length (filter (\<lambda>r. fr_trust_score r = Cell_null) facts)"
  using assms(1,2)
proof (induction facts arbitrary: i ms scores)
  case (Cons r facts)
  obtain m ms' where ms: "ms = m # ms'" "fact_record e Q D batch (i, r) = Inr m"
    "list_all2 (\<lambda>x m. fact_record e Q D batch x = Inr m) (enumerate (Suc i) facts) ms'"
    using Cons.prems(2) by (auto simp: list_all2_Cons1)
  show ?case
  proof (cases "fr_trust_score r = Cell_null")
    case True
    then have "mr_state m = Mem_CANDIDATE"
      using ms(2) by (auto simp: fact_record_def fact_score_def cell_true_def staged_memory_def)
    with Cons.IH[OF _ ms(3)] Cons.prems(1) True show ?thesis by (simp add: ms(1))
  next
    case False
    with Cons.prems(1) obtain s ss where s: "scores = s # ss" "cell_float Q (fr_trust_score r) = Inr s"
      "emap (cell_float Q) (filter (\<lambda>c. c \<noteq> Cell_null) (map fr_trust_score facts)) = Inr ss"
      by (auto simp: ebind_Inr_iff)
    have "fact_score Q r = Inr s"
      using False s(2) assms(3) by (auto simp: fact_score_def cell_true_def cell_float_def)
    with ms(2) have "mr_state m = (if 4 / 5 \<le> s then Mem_PROMOTED else Mem_CANDIDATE)"
      by (auto simp: fact_record_def)
    with Cons.IH[OF s(3) ms(3)] False show ?thesis by (auto simp: ms(1) s(1))
  qed
qed simp

text \<open>
  The dry run announces every fact that staging files, but of the candidates only those with a score: facts
  without one are staged as candidates too, and the count leaves them out.
\<close>

theorem dry_run_leaves_out_unrated:
  assumes "dry_run F Q path = Inr R" and "stage_records e F Q path tenant_id draft = Inr (batch, records)"
    and "sq_open Q path = Inr D" and "sq_float Q [] = Inl err"
  shows "hr_fingerprint R = mb_source_database_fingerprint batch \<and> length records = hr_fact_count R \<and>
    length (filter (\<lambda>m. mr_state m = Mem_CANDIDATE) records) =
      hr_candidate_count R + length (filter (\<lambda>r. fr_trust_score r = Cell_null) (hd_facts D))"
proof -
  obtain fingerprint D' where
    o: "open_hermes F Q path = Inr (fingerprint, D')"
    and r: "list_all2 (\<lambda>x m. fact_record e Q D' batch x = Inr m) (enumerate 0 (hd_facts D')) records"
    and b: "staged_as ''hermes_holographic'' tenant_id fingerprint batch records"
    using assms(2) by (rule stage_records_Inr)
  from o assms(3) have D: "D' = D" by (auto simp: open_hermes_def ebind_Inr_iff split: if_splits)
  obtain scores where "emap (cell_float Q) (filter (\<lambda>c. c \<noteq> Cell_null) (map fr_trust_score (hd_facts D))) = Inr scores"
    and "hr_candidate_count R = length (filter (\<lambda>s. s < 4 / 5) scores)" and "hr_fact_count R = length (hd_facts D)"
    and "hr_fingerprint R = fingerprint"
    using assms(1) by (auto simp: dry_run_def o D ebind_Inr_iff)
  with scores_of_facts[OF _ r[unfolded D] assms(4)] list_all2_lengthD[OF r] b show ?thesis
    by (simp add: D staged_as_def)
qed

theorem dry_run_leaves_out_unrated_witness:
  "mr_state (sample_staged (Cell_text ''x'') Cell_null) = Mem_CANDIDATE \<and>
   map_sum id hr_candidate_count (dry_run sample_sources (sample_sqlite [sample_fact (Cell_text ''x'') Cell_null]) ''m.db'') = Inr 0"
proof -
  let ?Q = "sample_sqlite [sample_fact (Cell_text ''x'') Cell_null]"
  obtain R where R: "dry_run sample_sources ?Q ''m.db'' = Inr R" "hr_candidate_count R = 0"
    by (simp add: dry_run_def sample_opened sample_hermes_def sample_fact_def)
  moreover obtain batch where S: "stage_records sample_env sample_sources ?Q ''m.db'' 1 None =
      Inr (batch, [sample_staged (Cell_text ''x'') Cell_null])"
    by (simp add: stage_records_def sample_opened checked_def sample_hermes_def fact_record_def fact_score_def cell_true_def
      sample_fact_def sample_staged_def staged_memory_def staged_batch_def valid_memory_def str_between_def
      cell_text_def strip_def lstrip_def rstrip_def is_space_def split_def casefold_def casefold_char_def
      valid_migration_batch_def is_sha256_hex_def list_all_iff)
  ultimately show ?thesis
    using dry_run_leaves_out_unrated[OF R(1) S, of "sample_hermes [sample_fact (Cell_text ''x'') Cell_null]" "ValueError ''float''"]
    by (simp add: sample_sqlite_def sample_hermes_def sample_fact_def split: if_splits)
qed

text \<open>A fact without content is staged as the memory \<^verbatim>\<open>None\<close>.\<close>

theorem missing_content_staged:
  assumes "fr_content r = Cell_null" and "fact_record e Q D batch (i, r) = Inr m"
  shows "mr_content m = ''None''"
  using assms by (auto simp: fact_record_def staged_memory_def ebind_Inr_iff cell_text_def strip_def lstrip_def rstrip_def is_space_def)

text \<open>The list of sensitive words has no plural of \<^verbatim>\<open>password\<close>.\<close>

theorem passwords_not_sensitive: "\<not> mentions sensitive_words ''passwords''"
  by code_simp

text \<open>
  After a change of the source, however small, its fingerprint is another one, and every fact in it is filed again
  beside the memory it was filed as before.
\<close>

theorem changed_source_filed_again:
  assumes "stage_records e' F Q path tenant_id draft = Inr (batch, records)" and "new_source batch records s"
  shows "length (list_memories tenant_id True (snd (stage_migration_batch e batch records a s))) =
    length (list_memories tenant_id True s) + length records"
proof -
  obtain fingerprint D where
    r: "list_all2 (\<lambda>x m. fact_record e' Q D batch x = Inr m) (enumerate 0 (hd_facts D)) records"
    and b: "staged_as ''hermes_holographic'' tenant_id fingerprint batch records"
    using assms(1) by (rule stage_records_Inr)
  have "mr_state m \<noteq> Mem_DELETED" if "m \<in> set records" for m
  proof -
    from r that obtain x where "fact_record e' Q D batch x = Inr m"
      unfolding list_all2_conv_all_nth in_set_conv_nth by metis
    then show ?thesis by (auto simp: fact_record_def ebind_Inr_iff split: prod.splits if_splits)
  qed
  with b staged_memories[OF b assms(2), of e a] show ?thesis
    by (auto simp: list_memories_def filter_sort staged_as_def filter_map o_def)
qed

section \<open>Markdown\<close>

text \<open>A text that Markdown keeps: one line without white space around it and no hash at its end.\<close>

definition plain_text :: "string \<Rightarrow> bool" where
  "plain_text s \<longleftrightarrow> s \<noteq> [] \<and> \<not> is_space (hd s) \<and> \<not> is_space (last s) \<and> last s \<noteq> CHR ''#'' \<and>
     list_all (\<lambda>c. \<not> is_line_break c) s"

lemma strip_plain: "s \<noteq> [] \<Longrightarrow> \<not> is_space (hd s) \<Longrightarrow> \<not> is_space (last s) \<Longrightarrow> strip s = s"
  by (simp add: strip_def lstrip_def rstrip_def dropWhile_eq_self_iff[THEN iffD2] hd_rev)

lemma closes_heading_last:
  assumes "closes_heading s" and "s \<noteq> []"
  shows "is_space (last s) \<or> last s = CHR ''#''"
proof -
  let ?t = "dropWhile (\<lambda>c. c = CHR ''#'') (dropWhile is_space s)"
  have s: "s = takeWhile is_space s @ takeWhile (\<lambda>c. c = CHR ''#'') (dropWhile is_space s) @ ?t" by simp
  from assms(1) have t: "\<forall>c \<in> set ?t. is_space c" by (simp add: closes_heading_def list_all_iff)
  have "last s \<in> set (takeWhile is_space s) \<union> set (takeWhile (\<lambda>c. c = CHR ''#'') (dropWhile is_space s)) \<union> set ?t"
    using assms(2) s by (metis UnCI last_in_set set_append Un_assoc)
  with t show ?thesis by (auto dest: set_takeWhileD)
qed

lemma shortest_whole:
  "(\<And>t. suffix t s \<Longrightarrow> t \<noteq> [] \<Longrightarrow> \<not> follows t) \<Longrightarrow> follows [] \<Longrightarrow> shortest follows s = s"
proof (induction s)
  case (Cons c s)
  have "shortest follows s = s" using Cons.prems by (intro Cons.IH) (auto intro: suffix_ConsI)
  with Cons.prems(1)[of s] Cons.prems(2) show ?case by (cases "s = []") (auto simp: suffix_def)
qed simp

lemma heading_plain:
  assumes "plain_text h"
  shows "heading_text (''# '' @ h) = Some h"
proof -
  have "\<not> closes_heading t" if "suffix t h" "t \<noteq> []" for t
    using closes_heading_last[of t] that assms by (auto simp: plain_text_def suffix_def)
  then have "shortest closes_heading h = h"
    by (intro shortest_whole) (auto simp: closes_heading_def)
  with assms strip_plain[of h] show ?thesis
    by (cases h) (auto simp: heading_text_def plain_text_def is_space_def[of "CHR '' ''"])
qed

lemma bullet_plain:
  assumes "plain_text c"
  shows "heading_text (''- '' @ c) = None" and "bullet_text (''- '' @ c) = Some c"
  using assms strip_plain[of c]
  by (auto simp: heading_text_def bullet_text_def after_marker_def lstrip_def plain_text_def is_space_def[of "CHR ''-''"]
      is_space_def[of "CHR '' ''"])

lemma splitlines_line:
  "list_all (\<lambda>c. \<not> is_line_break c) l \<Longrightarrow> splitlines_acc acc (l @ CHR 0x0A # rest) = rev (rev l @ acc) # splitlines_acc [] rest"
proof (induction l arbitrary: acc)
  case Nil
  show ?case by (cases rest) (simp_all add: is_line_break_def)
next
  case (Cons c l)
  then show ?case by (cases l) (auto simp: is_line_break_def)
qed

lemma splitlines_lines:
  "\<forall>l \<in> set ls. list_all (\<lambda>c. \<not> is_line_break c) l \<Longrightarrow> splitlines (concat (map (\<lambda>l. l @ [CHR 0x0A]) ls)) = ls"
  unfolding splitlines_def by (induction ls) (simp_all add: splitlines_line)

fun markdown :: "(string \<times> string list) list \<Rightarrow> string list" where
  "markdown [] = []"
| "markdown ((h, cs) # sections) = (''# '' @ h) # map (\<lambda>c. ''- '' @ c) cs @ markdown sections"

lemma profile_bullets:
  "list_all plain_text cs \<Longrightarrow>
     map (\<lambda>i. (pi_heading i, pi_content i)) (profile_lines role filename heading (enumerate n (map (\<lambda>c. ''- '' @ c) cs @ ls))) =
     map (Pair heading) cs @
     map (\<lambda>i. (pi_heading i, pi_content i)) (profile_lines role filename heading (enumerate (n + length cs) ls))"
  by (induction cs arbitrary: n) (simp_all add: bullet_plain[simplified])

lemma profile_sections:
  "list_all (\<lambda>(h, cs). plain_text h \<and> list_all plain_text cs) sections \<Longrightarrow>
     map (\<lambda>i. (pi_heading i, pi_content i)) (profile_lines role filename heading (enumerate n (markdown sections))) =
     concat (map (\<lambda>(h, cs). map (Pair (Some h)) cs) sections)"
  by (induction sections arbitrary: n heading) (auto simp: heading_plain[simplified] profile_bullets)

text \<open>
  C32: Parsing a profile is the inverse of writing one: from the Markdown of sections with their bullets the import
  reads exactly the bullets, in order, each under its heading.
\<close>

theorem profile_roundtrip:
  assumes "list_all (\<lambda>(h, cs). plain_text h \<and> list_all plain_text cs) sections"
  shows "map (\<lambda>i. (pi_heading i, pi_content i)) (profile_lines role filename None
      (enumerate 1 (splitlines (concat (map (\<lambda>l. l @ [CHR 0x0A]) (markdown sections)))))) =
    concat (map (\<lambda>(h, cs). map (Pair (Some h)) cs) sections)"
proof -
  have "\<forall>l \<in> set (markdown sections). list_all (\<lambda>c. \<not> is_line_break c) l"
    using assms by (induction sections) (auto simp: plain_text_def is_line_break_def list_all_iff)
  then show ?thesis using profile_sections[OF assms] by (simp add: splitlines_lines)
qed

theorem profile_roundtrip_witness:
  "map (\<lambda>i. (pi_heading i, pi_content i)) (profile_lines ''user'' ''USER.md'' None
      (enumerate 1 (splitlines (concat (map (\<lambda>l. l @ [CHR 0x0A]) (markdown [(''Style'', [''be brief'', ''no #1''])])))))) =
    [(Some ''Style'', ''be brief''), (Some ''Style'', ''no #1'')]"
  by (subst profile_roundtrip) (simp_all add: plain_text_def is_space_def is_line_break_def)

end
