(* ===== verification/Providers.thy ===== *)
theory Providers
  imports Orchestrator Context
begin

text \<open>
  \<^verbatim>\<open>packages/model-providers/src/astra_model_providers/providers.py\<close>: the model of the development setting, the client
  of OpenRouter and the local model. The service is a parameter: from the body of a request to its answer, the
  status and what \<^verbatim>\<open>json()\<close> makes of the body, or an error of the transport. \<open>loads\<close> is \<^verbatim>\<open>json.loads\<close>. A value read
  from the service holds texts only as \<open>JStr\<close>.
\<close>

section \<open>Development\<close>

definition last_user_request :: "model_message list \<Rightarrow> string" where
  "last_user_request messages =
     (case find (\<lambda>m. mm_role m = ''user'') (rev messages) of None \<Rightarrow> [] | Some m \<Rightarrow> mm_content m)"

definition development_plan :: "planner_decision option \<Rightarrow> model_message list \<Rightarrow> planner_decision" where
  "development_plan fixed messages =
     (case fixed of
        Some decision \<Rightarrow> decision
      | None \<Rightarrow>
          let request = last_user_request messages in
          if \<not> contains ''inspect'' (map casefold_char request) \<and> \<not> contains ''repository'' (map casefold_char request) then []
          else [\<lparr>pt_objective = request, pt_context = [],
                 pt_required_capabilities = [[(''kind'', ''file.read''), (''scope'', ''repository'')]],
                 pt_deliverable_contract = ''Return bounded repository findings with file and line evidence.''\<rparr>])"

text \<open>\<^verbatim>\<open>content.split("\n\n", 1)[-1]\<close>.\<close>

fun after_blank_line :: "string \<Rightarrow> string option" where
  "after_blank_line (c # d # s) =
     (if c = CHR 0x0A \<and> d = CHR 0x0A then Some s else after_blank_line (d # s))"
| "after_blank_line s = None"

definition development_text :: "model_message list \<Rightarrow> string" where
  "development_text messages =
     (let finding = find (\<lambda>m. mm_role m = ''system'' \<and> prefix ''ARA findings follow'' (mm_content m)) (rev messages);
          pending = find (\<lambda>m. mm_role m = ''system'' \<and> prefix ''Repository task'' (mm_content m)) (rev messages);
          findings_text = (case finding of
            None \<Rightarrow> []
          | Some m \<Rightarrow> (case after_blank_line (mm_content m) of None \<Rightarrow> mm_content m | Some s \<Rightarrow> s)) in
      if findings_text \<noteq> [] then ''Repository inspection completed:'' @ newline @ newline @ findings_text
      else case pending of
        Some m \<Rightarrow> mm_content m
      | None \<Rightarrow> ''Development model received: '' @ last_user_request messages)"

definition development_complete :: "model_message list \<Rightarrow> tool_definition list option \<Rightarrow> model_reply" where
  "development_complete messages tools =
     (case tools of
        None \<Rightarrow> Text (development_text messages)
      | Some _ \<Rightarrow> Completion \<lparr>cp_content = Some (development_text messages), cp_tool_calls = []\<rparr>)"

definition content_event :: "string \<Rightarrow> string \<Rightarrow> stream_event" where
  "content_event kind content = \<lparr>se_kind = kind, se_content = content, se_tool_call = None\<rparr>"

definition development_stream :: "model_message list \<Rightarrow> stream_event list \<times> error option" where
  "development_stream messages = ([content_event ''content'' (development_text messages)], None)"

section \<open>Reading JSON\<close>

text \<open>\<^verbatim>\<open>j[k]\<close>, \<^verbatim>\<open>j[0]\<close> and what a loop over \<^verbatim>\<open>j\<close> runs through.\<close>

definition json_at :: "json \<Rightarrow> string \<Rightarrow> error + json" where
  "json_at j k = (case j of
     JObj kvs \<Rightarrow> (case map_of kvs k of None \<Rightarrow> Inl KeyError | Some v \<Rightarrow> Inr v)
   | _ \<Rightarrow> Inl (TypeError ''indices''))"

definition json_first :: "json \<Rightarrow> error + json" where
  "json_first j = (case j of
     JList [] \<Rightarrow> Inl IndexError | JList (x # _) \<Rightarrow> Inr x
   | JStr [] \<Rightarrow> Inl IndexError | JStr (c # _) \<Rightarrow> Inr (JStr [c])
   | JObj _ \<Rightarrow> Inl KeyError | _ \<Rightarrow> Inl (TypeError ''not subscriptable''))"

definition json_iterate :: "json \<Rightarrow> error + json list" where
  "json_iterate j = (case j of
     JList xs \<Rightarrow> Inr xs | JObj kvs \<Rightarrow> Inr (map (\<lambda>(k, _). JStr k) kvs) | JStr s \<Rightarrow> Inr (map (\<lambda>c. JStr [c]) s)
   | _ \<Rightarrow> Inl (TypeError ''not iterable''))"

definition loads_value :: "(string \<Rightarrow> error + json) \<Rightarrow> json \<Rightarrow> error + json" where
  "loads_value loads j = (case json_text j of None \<Rightarrow> Inl (TypeError ''loads'') | Some s \<Rightarrow> loads s)"

section \<open>Requests\<close>

type_synonym model_service = "json \<Rightarrow> error + int \<times> (error + json)"

definition answer_of :: "model_service \<Rightarrow> json \<Rightarrow> error + json" where
  "answer_of service request =
     ebind (service request) (\<lambda>(status, body). if 200 \<le> status \<and> status < 300 then body else Inl HTTPStatusError)"

text \<open>The exceptions the handlers name, \<^verbatim>\<open>ValidationError\<close> being a \<^verbatim>\<open>ValueError\<close>.\<close>

fun provider_fault :: "error \<Rightarrow> bool" where
  "provider_fault TransportError = True"
| "provider_fault HTTPStatusError = True"
| "provider_fault KeyError = True"
| "provider_fault IndexError = True"
| "provider_fault (TypeError _) = True"
| "provider_fault (ValueError _) = True"
| "provider_fault (ValidationError _) = True"
| "provider_fault _ = False"

definition provider_error :: "string \<Rightarrow> error \<Rightarrow> error" where
  "provider_error text err = (if provider_fault err then ModelProviderError text else err)"

definition wrapped :: "string \<Rightarrow> error + 'a \<Rightarrow> error + 'a" where
  "wrapped text r = (case r of Inl err \<Rightarrow> Inl (provider_error text err) | Inr x \<Rightarrow> Inr x)"

definition function_tool :: "tool_definition \<Rightarrow> json" where
  "function_tool t =
     JObj [(''type'', JStr ''function''),
           (''function'', JObj [(''name'', JStr (td_name t)), (''description'', JStr (td_description t)),
              (''parameters'', td_parameters t)])]"

definition completion_request :: "string \<Rightarrow> model_message list \<Rightarrow> tool_definition list option \<Rightarrow> json" where
  "completion_request model messages tools =
     JObj ([(''model'', JStr model), (''messages'', JList (map message_dump messages))] @
       (case tools of None \<Rightarrow> [] | Some ts \<Rightarrow> [(''tools'', JList (map function_tool ts))]))"

section \<open>Completions\<close>

definition tool_call_of :: "json \<Rightarrow> json \<Rightarrow> json \<Rightarrow> error + tool_call" where
  "tool_call_of i name arguments =
     (case (json_text i, json_text name, arguments) of
        (Some i', Some n, JObj args) \<Rightarrow> Inr \<lparr>tc_id = i', tc_name = n, tc_arguments = args\<rparr>
      | _ \<Rightarrow> Inl (ValidationError ''ToolCall''))"

definition completed_call :: "(string \<Rightarrow> error + json) \<Rightarrow> json \<Rightarrow> error + tool_call" where
  "completed_call loads item =
     ebind (json_at item ''id'') (\<lambda>i.
     ebind (ebind (json_at item ''function'') (\<lambda>f. json_at f ''name'')) (\<lambda>name.
     ebind (ebind (json_at item ''function'') (\<lambda>f. json_at f ''arguments'')) (\<lambda>text.
     ebind (loads_value loads text) (\<lambda>arguments. tool_call_of i name arguments))))"

definition read_completion :: "(string \<Rightarrow> error + json) \<Rightarrow> bool \<Rightarrow> json \<Rightarrow> error + model_reply" where
  "read_completion loads with_tools payload =
     ebind (ebind (ebind (json_at payload ''choices'') json_first) (\<lambda>choice. json_at choice ''message'')) (\<lambda>message.
     ebind (json_get message ''content'' JNull) (\<lambda>content.
     if \<not> with_tools then
       (case json_text content of
          None \<Rightarrow> Inl (ValueError ''model returned empty content'')
        | Some s \<Rightarrow> if s = [] then Inl (ValueError ''model returned empty content'') else Inr (Text s))
     else if content \<noteq> JNull \<and> json_text content = None then Inl (ValueError ''model returned invalid content'')
     else
       ebind (json_get message ''tool_calls'' (JList [])) (\<lambda>listed.
       ebind (json_iterate listed) (\<lambda>items.
       ebind (emap (completed_call loads) items) (\<lambda>calls.
       if content = JNull \<and> calls = [] then Inl (ValueError ''model returned empty content'')
       else Inr (Completion \<lparr>cp_content = json_text content, cp_tool_calls = calls\<rparr>))))))"

definition openrouter_complete ::
  "model_service \<Rightarrow> (string \<Rightarrow> error + json) \<Rightarrow> string \<Rightarrow> model_message list \<Rightarrow> tool_definition list option \<Rightarrow> error + model_reply" where
  "openrouter_complete service loads model messages tools =
     wrapped ''OpenRouter request failed''
       (ebind (answer_of service (completion_request model messages tools)) (read_completion loads (tools \<noteq> None)))"

section \<open>Streams\<close>

record buffered_call =
  bc_id :: "string option"
  bc_name :: "string option"
  bc_arguments :: "string option"

type_synonym call_buffer = "(int, buffered_call) dict"

definition keep_text :: "json \<Rightarrow> string option \<Rightarrow> string option" where
  "keep_text j old = (case json_text j of None \<Rightarrow> old | Some s \<Rightarrow> Some s)"

definition append_text :: "json \<Rightarrow> string option \<Rightarrow> string option" where
  "append_text j old =
     (case json_text j of
        None \<Rightarrow> old | Some s \<Rightarrow> Some ((case old of None \<Rightarrow> [] | Some t \<Rightarrow> t) @ s))"

text \<open>One item of \<^verbatim>\<open>delta.get("tool_calls", [])\<close>.\<close>

definition buffer_call :: "json \<Rightarrow> call_buffer \<Rightarrow> error + call_buffer" where
  "buffer_call item buffer =
     ebind (json_get item ''index'' JNull) (\<lambda>index.
     case json_int index of
       None \<Rightarrow> Inr buffer
     | Some i \<Rightarrow>
         ebind (json_get item ''id'' JNull) (\<lambda>call_id.
         ebind (json_get item ''function'' JNull) (\<lambda>function.
         let b = (case map_of buffer i of
               None \<Rightarrow> \<lparr>bc_id = None, bc_name = None, bc_arguments = None\<rparr> | Some b \<Rightarrow> b);
             b1 = b\<lparr>bc_id := keep_text call_id (bc_id b)\<rparr>;
             b2 = (case function of
               JObj kvs \<Rightarrow>
                 b1\<lparr>bc_name := keep_text (get_or JNull kvs ''name'') (bc_name b1),
                    bc_arguments := append_text (get_or JNull kvs ''arguments'') (bc_arguments b1)\<rparr>
             | _ \<Rightarrow> b1) in
         Inr (AList.update i b2 buffer))))"

fun buffer_calls :: "json list \<Rightarrow> call_buffer \<Rightarrow> error + call_buffer" where
  "buffer_calls [] buffer = Inr buffer"
| "buffer_calls (c # cs) buffer = ebind (buffer_call c buffer) (buffer_calls cs)"

definition text_event :: "string \<Rightarrow> json \<Rightarrow> stream_event list" where
  "text_event kind j =
     (case json_text j of None \<Rightarrow> [] | Some s \<Rightarrow> if s = [] then [] else [content_event kind s])"

text \<open>What a chunk yields before it raises or leaves the calls buffered.\<close>

definition read_delta :: "json \<Rightarrow> call_buffer \<Rightarrow> stream_event list \<times> (error + call_buffer)" where
  "read_delta delta buffer =
     (case ebind (json_get delta ''reasoning'' JNull) (\<lambda>r.
             if py_bool r then Inr r else json_get delta ''reasoning_content'' JNull) of
        Inl err \<Rightarrow> ([], Inl err)
      | Inr reasoning \<Rightarrow>
          (case json_get delta ''content'' JNull of
             Inl err \<Rightarrow> (text_event ''reasoning'' reasoning, Inl err)
           | Inr content \<Rightarrow>
               (text_event ''reasoning'' reasoning @ text_event ''content'' content,
                ebind (json_get delta ''tool_calls'' (JList [])) (\<lambda>listed.
                ebind (json_iterate listed) (\<lambda>items. buffer_calls items buffer)))))"

definition chunk_delta :: "json \<Rightarrow> error + json" where
  "chunk_delta payload =
     ebind (ebind (json_at payload ''choices'') json_first) (\<lambda>choice. json_get choice ''delta'' (JObj []))"

definition buffered_event :: "(string \<Rightarrow> error + json) \<Rightarrow> buffered_call \<Rightarrow> error + stream_event" where
  "buffered_event loads b =
     (case (bc_id b, bc_name b) of
        (Some i, Some name) \<Rightarrow>
          ebind (loads (case bc_arguments b of None \<Rightarrow> ''{}'' | Some s \<Rightarrow> s)) (\<lambda>arguments.
          ebind (tool_call_of (JStr i) (JStr name) arguments) (\<lambda>c.
          Inr \<lparr>se_kind = ''tool_call'', se_content = [], se_tool_call = Some c\<rparr>))
      | _ \<Rightarrow> Inl KeyError)"

text \<open>\<^verbatim>\<open>for call in tool_calls.values(): yield\<close>.\<close>

fun yield_calls :: "(string \<Rightarrow> error + json) \<Rightarrow> buffered_call list \<Rightarrow> stream_event list \<times> error option" where
  "yield_calls loads [] = ([], None)"
| "yield_calls loads (b # bs) =
     (case buffered_event loads b of
        Inl err \<Rightarrow> ([], Some err)
      | Inr ev \<Rightarrow> (case yield_calls loads bs of (evs, failed) \<Rightarrow> (ev # evs, failed)))"

text \<open>The loop over the lines; \<open>broken\<close> is the error of the transport after the last line that arrived.\<close>

fun read_lines ::
  "(string \<Rightarrow> error + json) \<Rightarrow> error option \<Rightarrow> string list \<Rightarrow> call_buffer \<Rightarrow> stream_event list \<times> error option" where
  "read_lines loads broken [] buffer =
     (case broken of Some err \<Rightarrow> ([], Some err) | None \<Rightarrow> yield_calls loads (dict_values buffer))"
| "read_lines loads broken (line # lines) buffer =
     (if \<not> prefix ''data: '' line then read_lines loads broken lines buffer
      else if drop 6 line = ''[DONE]'' then yield_calls loads (dict_values buffer)
      else case ebind (loads (drop 6 line)) chunk_delta of
        Inl err \<Rightarrow> ([], Some err)
      | Inr delta \<Rightarrow>
          (case read_delta delta buffer of
             (evs, Inl err) \<Rightarrow> (evs, Some err)
           | (evs, Inr buffer1) \<Rightarrow>
               (case read_lines loads broken lines buffer1 of (evs1, failed) \<Rightarrow> (evs @ evs1, failed))))"

definition stream_body :: "string \<Rightarrow> model_message list \<Rightarrow> tool_definition list \<Rightarrow> json" where
  "stream_body model messages tools =
     JObj ([(''model'', JStr model), (''messages'', JList (map message_dump messages)), (''stream'', JBool True)] @
       (if tools = [] then [] else [(''tools'', JList (map function_tool tools))]))"

definition openrouter_stream ::
  "(json \<Rightarrow> error + int \<times> string list \<times> error option) \<Rightarrow> (string \<Rightarrow> error + json) \<Rightarrow> string \<Rightarrow>
     model_message list \<Rightarrow> tool_definition list \<Rightarrow> stream_event list \<times> error option" where
  "openrouter_stream service loads model messages tools =
     map_prod id (map_option (provider_error ''OpenRouter streaming request failed''))
       (case service (stream_body model messages tools) of
          Inl err \<Rightarrow> ([], Some err)
        | Inr (status, lines, broken) \<Rightarrow>
            if 200 \<le> status \<and> status < 300 then read_lines loads broken lines [] else ([], Some HTTPStatusError))"

section \<open>Plans\<close>

definition text_dict :: "json \<Rightarrow> (string, string) dict option" where
  "text_dict j = (case j of
     JObj kvs \<Rightarrow> those (map (\<lambda>(k, v). map_option (Pair k) (json_text v)) kvs) | _ \<Rightarrow> None)"

definition text_dicts :: "json \<Rightarrow> (string, string) dict list option" where
  "text_dicts j = (case j of JList xs \<Rightarrow> those (map text_dict xs) | _ \<Rightarrow> None)"

text \<open>\<^verbatim>\<open>model_validate\<close>: no other fields, those without a default present, each of its type.\<close>

definition planner_task_of :: "json \<Rightarrow> planner_task option" where
  "planner_task_of j = (case j of
     JObj kvs \<Rightarrow>
       if \<not> set (map fst kvs) \<subseteq> {''objective'', ''context'', ''required_capabilities'', ''deliverable_contract''} then None
       else (case (json_text (get_or JNull kvs ''objective''), json_text (get_or (JStr []) kvs ''context''),
                   text_dicts (get_or JNull kvs ''required_capabilities''),
                   json_text (get_or JNull kvs ''deliverable_contract'')) of
               (Some objective, Some ctx, Some capabilities, Some contract) \<Rightarrow>
                 Some \<lparr>pt_objective = objective, pt_context = ctx, pt_required_capabilities = capabilities,
                       pt_deliverable_contract = contract\<rparr>
             | _ \<Rightarrow> None)
   | _ \<Rightarrow> None)"

definition planner_decision_of :: "json \<Rightarrow> error + planner_decision" where
  "planner_decision_of j = (case j of
     JObj kvs \<Rightarrow>
       if \<not> set (map fst kvs) \<subseteq> {''tasks''} then Inl (ValidationError ''PlannerDecision'')
       else (case get_or (JList []) kvs ''tasks'' of
               JList xs \<Rightarrow>
                 (case those (map planner_task_of xs) of
                    None \<Rightarrow> Inl (ValidationError ''PlannerDecision'') | Some tasks \<Rightarrow> Inr tasks)
             | _ \<Rightarrow> Inl (ValidationError ''PlannerDecision''))
   | _ \<Rightarrow> Inl (ValidationError ''PlannerDecision''))"

definition plan_request :: "json \<Rightarrow> string \<Rightarrow> model_message list \<Rightarrow> int \<Rightarrow> json" where
  "plan_request schema model messages max_siblings =
     JObj [(''model'', JStr model),
           (''messages'', JList (message_dump \<lparr>mm_role = ''system'',
              mm_content = ''Return only the planner_decision function call. Propose at most '' @ int_text max_siblings @
                '' independent read-only repository inspections.''\<rparr> # map message_dump messages)),
           (''tools'', JList [function_tool \<lparr>td_name = ''planner_decision'',
              td_description = ''Return a bounded ARA delegation plan.'', td_parameters = schema\<rparr>]),
           (''tool_choice'', JObj [(''type'', JStr ''function''), (''function'', JObj [(''name'', JStr ''planner_decision'')])])]"

definition read_plan :: "(string \<Rightarrow> error + json) \<Rightarrow> json \<Rightarrow> error + planner_decision" where
  "read_plan loads payload =
     ebind (ebind (ebind (ebind (json_at payload ''choices'') json_first) (\<lambda>choice. json_at choice ''message''))
        (\<lambda>message. json_at message ''tool_calls'')) (\<lambda>calls.
     case calls of
       JList [item] \<Rightarrow>
         ebind (ebind (json_at item ''function'') (\<lambda>f. json_at f ''name'')) (\<lambda>name.
         if json_text name \<noteq> Some ''planner_decision'' then Inl (ValueError ''planner returned an unexpected function'')
         else ebind (ebind (json_at item ''function'') (\<lambda>f. json_at f ''arguments'')) (\<lambda>text.
              ebind (loads_value loads text) planner_decision_of))
     | _ \<Rightarrow> Inl (ValueError ''planner returned an invalid function call count''))"

definition openrouter_plan ::
  "model_service \<Rightarrow> (string \<Rightarrow> error + json) \<Rightarrow> json \<Rightarrow> string \<Rightarrow> model_message list \<Rightarrow> int \<Rightarrow> error + planner_decision" where
  "openrouter_plan service loads schema model messages max_siblings =
     wrapped ''OpenRouter planner request failed''
       (ebind (answer_of service (plan_request schema model messages max_siblings)) (read_plan loads))"

section \<open>The local model\<close>

definition local_request :: "string \<Rightarrow> string \<Rightarrow> string \<Rightarrow> json" where
  "local_request model instruction content =
     JObj [(''model'', JStr model), (''temperature'', JInt 0),
           (''messages'', JList [message_dump \<lparr>mm_role = ''system'', mm_content = instruction\<rparr>,
              message_dump \<lparr>mm_role = ''user'', mm_content = content\<rparr>])]"

definition local_process :: "model_service \<Rightarrow> string \<Rightarrow> string \<Rightarrow> string \<Rightarrow> error + string" where
  "local_process service model instruction content =
     ebind (answer_of service (local_request model instruction content)) (\<lambda>payload.
     ebind (ebind (ebind (ebind (json_at payload ''choices'') json_first) (\<lambda>choice. json_at choice ''message''))
        (\<lambda>message. json_at message ''content'')) (\<lambda>result.
     case json_text result of None \<Rightarrow> Inl (ValueError ''local model returned invalid content'') | Some s \<Rightarrow> Inr s))"

end
