(* ===== verification/ProviderProperties.thy ===== *)
theory ProviderProperties
  imports Providers TurnLoop
begin

text \<open>How streamed calls are assembled, which failures of a model service are reported as such, and the plans.\<close>

section \<open>Streamed calls\<close>

text \<open>A chunk as the service documents it: a piece of content and fragments of calls, each with its index.\<close>

record fragment =
  fg_index :: int
  fg_id :: "string option"
  fg_name :: "string option"
  fg_arguments :: "string option"

record chunk =
  ck_content :: "string option"
  ck_fragments :: "fragment list"

definition given :: "string \<Rightarrow> string option \<Rightarrow> (string, json) dict" where
  "given k v = (case v of None \<Rightarrow> [] | Some s \<Rightarrow> [(k, JStr s)])"

definition fragment_json :: "fragment \<Rightarrow> json" where
  "fragment_json f =
     JObj ((''index'', JInt (fg_index f)) # given ''id'' (fg_id f) @
       [(''function'', JObj (given ''name'' (fg_name f) @ given ''arguments'' (fg_arguments f)))])"

definition chunk_json :: "chunk \<Rightarrow> json" where
  "chunk_json c =
     JObj [(''choices'', JList [JObj [(''delta'', JObj (given ''content'' (ck_content c) @
       [(''tool_calls'', JList (map fragment_json (ck_fragments c)))]))]])]"

text \<open>The call with an index, read off all fragments: the last identifier and name, all the pieces of its arguments.\<close>

definition assembled :: "fragment list \<Rightarrow> int \<Rightarrow> buffered_call" where
  "assembled fs i =
     (let mine = filter (\<lambda>f. fg_index f = i) fs;
          pieces = List.map_filter fg_arguments mine;
          latest = (\<lambda>xs. if xs = [] then None else Some (last xs)) in
      \<lparr>bc_id = latest (List.map_filter fg_id mine), bc_name = latest (List.map_filter fg_name mine),
       bc_arguments = (if pieces = [] then None else Some (concat pieces))\<rparr>)"

text \<open>The indices in the order in which they first occur.\<close>

definition call_indices :: "fragment list \<Rightarrow> int list" where
  "call_indices fs = rev (remdups (rev (map fg_index fs)))"

definition assembled_buffer :: "fragment list \<Rightarrow> call_buffer" where
  "assembled_buffer fs = map (\<lambda>i. (i, assembled fs i)) (call_indices fs)"

lemma update_mapped:
  assumes "distinct js" and "\<And>j. j \<noteq> i \<Longrightarrow> g j = h j"
  shows "AList.update i (h i) (map (\<lambda>j. (j, g j)) js) = map (\<lambda>j. (j, h j)) (if i \<in> set js then js else js @ [i])"
  using assms(1)
proof (induction js)
  case (Cons j js)
  then show ?case
  proof (cases "j = i")
    case True
    with Cons.prems assms(2) have "map (\<lambda>j. (j, g j)) js = map (\<lambda>j. (j, h j)) js" by (auto intro!: assms(2))
    with True show ?thesis by simp
  qed (use Cons assms(2) in auto)
qed simp

lemma call_indices_snoc:
  "call_indices (fs @ [f]) =
     (if fg_index f \<in> set (call_indices fs) then call_indices fs else call_indices fs @ [fg_index f])"
  by (simp add: call_indices_def)

lemma distinct_call_indices [simp]: "distinct (call_indices fs)"
  by (simp add: call_indices_def)

lemma map_filter_snoc: "List.map_filter f (xs @ [x]) = List.map_filter f xs @ (case f x of None \<Rightarrow> [] | Some y \<Rightarrow> [y])"
  by (simp add: List.map_filter_def split: option.split)

lemma buffered_or_new:
  "(case map_of (assembled_buffer fs) i of None \<Rightarrow> \<lparr>bc_id = None, bc_name = None, bc_arguments = None\<rparr> | Some b \<Rightarrow> b) =
     assembled fs i"
proof (cases "i \<in> set (call_indices fs)")
  case True
  then have "map_of (assembled_buffer fs) i = Some (assembled fs i)"
    unfolding assembled_buffer_def by (simp add: map_of_map_restrict)
  then show ?thesis by simp
next
  case False
  then have "map_of (assembled_buffer fs) i = None" "filter (\<lambda>f. fg_index f = i) fs = []"
    by (auto simp: assembled_buffer_def call_indices_def map_of_eq_None_iff filter_empty_conv)
  then show ?thesis by (simp add: assembled_def List.map_filter_def)
qed

lemma buffer_fragment:
  "buffer_call (fragment_json f) (assembled_buffer fs) = Inr (assembled_buffer (fs @ [f]))"
proof -
  let ?b = "assembled fs (fg_index f)"
  have new: "assembled (fs @ [f]) (fg_index f) =
      ?b\<lparr>bc_id := (case fg_id f of None \<Rightarrow> bc_id ?b | Some s \<Rightarrow> Some s),
         bc_name := (case fg_name f of None \<Rightarrow> bc_name ?b | Some s \<Rightarrow> Some s),
         bc_arguments := (case fg_arguments f of None \<Rightarrow> bc_arguments ?b
           | Some s \<Rightarrow> Some ((case bc_arguments ?b of None \<Rightarrow> [] | Some t \<Rightarrow> t) @ s))\<rparr>"
    by (auto simp: assembled_def Let_def map_filter_snoc split: option.split)
  have "AList.update (fg_index f) (assembled (fs @ [f]) (fg_index f)) (assembled_buffer fs) = assembled_buffer (fs @ [f])"
    unfolding assembled_buffer_def call_indices_snoc by (rule update_mapped) (simp_all add: assembled_def)
  moreover have "buffer_call (fragment_json f) (assembled_buffer fs) =
      Inr (AList.update (fg_index f) (assembled (fs @ [f]) (fg_index f)) (assembled_buffer fs))"
    unfolding new
    by (cases "fg_id f"; cases "fg_name f"; cases "fg_arguments f")
       (simp_all add: buffer_call_def fragment_json_def json_get_def json_int_def buffered_or_new given_def keep_text_def
        append_text_def get_or_def json_text_def Let_def)
  ultimately show ?thesis by simp
qed

lemma buffer_fragments:
  "buffer_calls (map fragment_json gs) (assembled_buffer fs) = Inr (assembled_buffer (fs @ gs))"
  by (induction gs arbitrary: fs) (simp_all add: buffer_fragment)

definition content_events :: "chunk \<Rightarrow> stream_event list" where
  "content_events c =
     (case ck_content c of None \<Rightarrow> [] | Some s \<Rightarrow> if s = [] then [] else [content_event ''content'' s])"

lemma read_chunk:
  "chunk_delta (chunk_json c) = Inr (JObj (given ''content'' (ck_content c) @
     [(''tool_calls'', JList (map fragment_json (ck_fragments c)))]))"
  "read_delta (JObj (given ''content'' (ck_content c) @ [(''tool_calls'', JList (map fragment_json (ck_fragments c)))]))
     (assembled_buffer fs) = (content_events c, Inr (assembled_buffer (fs @ ck_fragments c)))"
  by (auto simp: chunk_delta_def chunk_json_def json_at_def json_first_def json_get_def read_delta_def given_def py_bool_def
      text_event_def json_text_def json_iterate_def buffer_fragments content_events_def split: option.split)

lemma read_chunks:
  assumes "\<And>c. c \<in> set chunks \<Longrightarrow> loads (encode c) = Inr (chunk_json c) \<and> encode c \<noteq> ''[DONE]''"
  shows "read_lines loads broken (map (\<lambda>c. ''data: '' @ encode c) chunks @ ''data: [DONE]'' # rest) (assembled_buffer fs) =
    (case yield_calls loads (dict_values (assembled_buffer (fs @ concat (map ck_fragments chunks)))) of
       (evs, failed) \<Rightarrow> (concat (map content_events chunks) @ evs, failed))"
  using assms
  by (induction chunks arbitrary: fs) (simp_all add: read_chunk split: prod.split)

text \<open>
  C17: The streamed answer of the model is read as the reference reading of its chunks: the pieces of content in
  order, then one call for each index in the order of first occurrence, with the identifier and name given last and
  the concatenation of all pieces of its arguments, however the fragments are spread over chunks and interleaved.
\<close>

theorem streamed_calls_assembled:
  assumes "\<And>c. c \<in> set chunks \<Longrightarrow> loads (encode c) = Inr (chunk_json c) \<and> encode c \<noteq> ''[DONE]''"
    and "fs = concat (map ck_fragments chunks)"
  shows "read_lines loads broken (map (\<lambda>c. ''data: '' @ encode c) chunks @ ''data: [DONE]'' # rest) [] =
    (case yield_calls loads (map (assembled fs) (call_indices fs)) of
       (evs, failed) \<Rightarrow> (concat (map content_events chunks) @ evs, failed))"
proof -
  have start: "assembled_buffer [] = []" by (simp add: assembled_buffer_def call_indices_def)
  have "dict_values (assembled_buffer fs) = map (assembled fs) (call_indices fs)" by (simp add: assembled_buffer_def)
  with read_chunks[where fs = "[]" and loads = loads and encode = encode, OF assms(1)] show ?thesis
    by (simp add: start assms(2))
qed

definition sample_fragment :: "int \<Rightarrow> string option \<Rightarrow> string \<Rightarrow> fragment" where
  "sample_fragment i name piece = \<lparr>fg_index = i, fg_id = name, fg_name = name, fg_arguments = Some piece\<rparr>"

definition sample_chunks :: "chunk list" where
  "sample_chunks =
     [\<lparr>ck_content = Some ''On it'', ck_fragments = [sample_fragment 0 (Some ''f'') ''{'']\<rparr>,
      \<lparr>ck_content = None, ck_fragments = [sample_fragment 1 (Some ''g'') ''{}'', sample_fragment 0 None ''}'']\<rparr>]"

theorem streamed_calls_assembled_witness:
  "read_lines (\<lambda>s. if s = ''1'' then Inr (chunk_json (sample_chunks ! 0)) else if s = ''2'' then Inr (chunk_json (sample_chunks ! 1))
       else if s = ''{}'' then Inr (JObj []) else Inl (ValueError ''JSON'')) None [''data: 1'', ''data: 2'', ''data: [DONE]''] [] =
    ([content_event ''content'' ''On it'',
      \<lparr>se_kind = ''tool_call'', se_content = [], se_tool_call = Some \<lparr>tc_id = ''f'', tc_name = ''f'', tc_arguments = []\<rparr>\<rparr>,
      \<lparr>se_kind = ''tool_call'', se_content = [], se_tool_call = Some \<lparr>tc_id = ''g'', tc_name = ''g'', tc_arguments = []\<rparr>\<rparr>], None)"
proof -
  let ?loads = "\<lambda>s. if s = ''1'' then Inr (chunk_json (sample_chunks ! 0)) else if s = ''2'' then Inr (chunk_json (sample_chunks ! 1))
       else if s = ''{}'' then Inr (JObj []) else Inl (ValueError ''JSON'')"
  let ?encode = "\<lambda>c. if c = sample_chunks ! 0 then ''1'' else ''2''"
  have "?loads (?encode c) = Inr (chunk_json c) \<and> ?encode c \<noteq> ''[DONE]''" if "c \<in> set sample_chunks" for c
    using that by (auto simp: sample_chunks_def)
  from streamed_calls_assembled[where loads = ?loads and encode = ?encode and chunks = sample_chunks and broken = None and rest = "[]",
      OF this refl] show ?thesis
    by (simp add: sample_chunks_def sample_fragment_def call_indices_def assembled_def List.map_filter_def buffered_event_def
        tool_call_of_def json_text_def content_events_def)
qed

section \<open>Failures\<close>

lemma wrapped_Inl: "wrapped text r = Inl err \<Longrightarrow> \<exists>err'. r = Inl err' \<and> err = provider_error text err'"
  by (auto simp: wrapped_def split: sum.splits)

text \<open>Errors that a handler of the client does not turn into a \<^verbatim>\<open>ModelProviderError\<close> come from a value that is no object.\<close>

definition fault_or_attribute :: "error + 'a \<Rightarrow> bool" where
  "fault_or_attribute r \<longleftrightarrow> (\<forall>err. r = Inl err \<longrightarrow> provider_fault err \<or> err = AttributeError)"

lemma faults_bind:
  "fault_or_attribute r \<Longrightarrow> (\<And>x. r = Inr x \<Longrightarrow> fault_or_attribute (f x)) \<Longrightarrow> fault_or_attribute (ebind r f)"
  by (cases r) (auto simp: fault_or_attribute_def)

lemma faults_map: "(\<And>x. fault_or_attribute (f x)) \<Longrightarrow> fault_or_attribute (emap f xs)"
  by (induction xs) (auto intro!: faults_bind simp: fault_or_attribute_def[of "Inr _"])

lemma faults_basic [intro!]:
  "fault_or_attribute (Inr x)" "fault_or_attribute (json_at j k)" "fault_or_attribute (json_first j)"
  "fault_or_attribute (json_iterate j)" "fault_or_attribute (json_get j k d)" "fault_or_attribute (tool_call_of j j1 j2)"
  "fault_or_attribute (Inl (ValueError m))" "fault_or_attribute (Inl (TypeError m))" "fault_or_attribute (planner_decision_of j)"
  by (auto simp: fault_or_attribute_def json_at_def json_first_def json_iterate_def json_get_def tool_call_of_def
      planner_decision_of_def split: json.splits list.splits option.splits if_splits)

text \<open>What the environment raises: the transport and \<^verbatim>\<open>json\<close> only errors of their own.\<close>

definition regular :: "model_service \<Rightarrow> (string \<Rightarrow> error + json) \<Rightarrow> bool" where
  "regular service loads \<longleftrightarrow>
     (\<forall>q err. service q = Inl err \<longrightarrow> provider_fault err) \<and>
     (\<forall>q status err. service q = Inr (status, Inl err) \<longrightarrow> provider_fault err) \<and>
     (\<forall>s err. loads s = Inl err \<longrightarrow> provider_fault err)"

lemma faults_answer: "regular service loads \<Longrightarrow> fault_or_attribute (answer_of service q)"
  by (auto simp: answer_of_def regular_def fault_or_attribute_def ebind_def split: sum.splits if_splits)

lemma faults_loads: "regular service loads \<Longrightarrow> fault_or_attribute (loads_value loads j)"
  by (auto simp: loads_value_def regular_def fault_or_attribute_def split: option.splits)

lemma faults_completion:
  assumes "regular service loads" shows "fault_or_attribute (read_completion loads b payload)"
  unfolding read_completion_def completed_call_def
  by (intro faults_bind faults_map faults_loads[OF assms] faults_basic | simp split: option.split | intro conjI impI allI)+

lemma faults_plan:
  assumes "regular service loads" shows "fault_or_attribute (read_plan loads payload)"
  unfolding read_plan_def
  by (auto intro!: faults_bind faults_loads[OF assms] split: json.split list.split)

text \<open>
  Whatever the model service answers, a request for a completion or a plan returns or raises
  \<^verbatim>\<open>ModelProviderError\<close>, which the orchestrator records; the one exception is \<^verbatim>\<open>AttributeError\<close>.
\<close>

theorem failures_are_provider_errors:
  assumes "regular service loads"
    and "openrouter_complete service loads model messages tools = Inl err \<or>
      openrouter_plan service loads schema model messages n = Inl err"
  shows "(\<exists>text. err = ModelProviderError text) \<or> err = AttributeError"
proof -
  have "fault_or_attribute (ebind (answer_of service (completion_request model messages tools)) (read_completion loads (tools \<noteq> None)))"
    and "fault_or_attribute (ebind (answer_of service (plan_request schema model messages n)) (read_plan loads))"
    by (intro faults_bind faults_answer[OF assms(1)] faults_completion[OF assms(1)] faults_plan[OF assms(1)])+
  with assms(2) show ?thesis
    unfolding openrouter_complete_def openrouter_plan_def
    by (auto dest!: wrapped_Inl simp: fault_or_attribute_def provider_error_def)
qed

definition sample_answer :: "json \<Rightarrow> model_service" where
  "sample_answer message q = Inr (200, Inr (JObj [(''choices'', JList [JObj [(''message'', message)]])]))"

lemma sample_answer_of: "answer_of (sample_answer message) q = Inr (JObj [(''choices'', JList [JObj [(''message'', message)]])])"
  by (simp add: answer_of_def sample_answer_def)

theorem failures_are_provider_errors_witness:
  "\<exists>text. openrouter_complete (sample_answer (JObj [])) (\<lambda>_. Inl (ValueError ''JSON'')) ''m'' [] None = Inl (ModelProviderError text)"
proof -
  have "regular (sample_answer (JObj [])) (\<lambda>_. Inl (ValueError ''JSON''))" by (simp add: regular_def sample_answer_def)
  moreover obtain err where err: "openrouter_complete (sample_answer (JObj [])) (\<lambda>_. Inl (ValueError ''JSON'')) ''m'' [] None = Inl err"
    "err \<noteq> AttributeError"
    by (simp add: openrouter_complete_def sample_answer_of read_completion_def json_at_def json_first_def json_get_def
        json_text_def wrapped_def provider_error_def)
  ultimately have "(\<exists>text. err = ModelProviderError text) \<or> err = AttributeError"
    using failures_are_provider_errors by blast
  with err show ?thesis by simp
qed

text \<open>
  An answer whose message is a text ends a turn with \<^verbatim>\<open>AttributeError\<close>, which neither the orchestrator nor a route
  handles, instead of a failure of the model.
\<close>

theorem malformed_message_escapes:
  assumes "oc_complete A = (\<lambda>n messages tools. openrouter_complete (sample_answer (JStr text)) loads model messages (Some tools))"
  shows "fst (request_model A turn messages definitions st) = Inl AttributeError"
  by (simp add: request_model_def assms openrouter_complete_def sample_answer_of read_completion_def json_at_def json_first_def
      json_get_def wrapped_def provider_error_def file_event_def call_def abind_def reading_def effect_def handle_def lift_def
      raise_def append_event_def split: prod.split)

text \<open>A message with an answer and \<^verbatim>\<open>"tool_calls": null\<close> is accepted without tools but a failure with tools offered.\<close>

theorem null_tool_calls_fail:
  assumes "answer \<noteq> []"
  shows "openrouter_complete (sample_answer (JObj [(''content'', JStr answer), (''tool_calls'', JNull)])) loads model messages None =
      Inr (Text answer)"
    and "openrouter_complete (sample_answer (JObj [(''content'', JStr answer), (''tool_calls'', JNull)])) loads model messages (Some tools) =
      Inl (ModelProviderError ''OpenRouter request failed'')"
  using assms
  by (simp_all add: openrouter_complete_def sample_answer_of read_completion_def json_at_def json_first_def json_get_def
      json_text_def json_iterate_def wrapped_def provider_error_def)

section \<open>Plans\<close>

definition planner_task_json :: "planner_task \<Rightarrow> json" where
  "planner_task_json t =
     JObj [(''objective'', JStr (pt_objective t)), (''context'', JStr (pt_context t)),
           (''required_capabilities'', JList (map (\<lambda>d. JObj (map (\<lambda>(k, v). (k, JStr v)) d)) (pt_required_capabilities t))),
           (''deliverable_contract'', JStr (pt_deliverable_contract t))]"

lemma text_dict_dump: "text_dict (JObj (map (\<lambda>(k, v). (k, JStr v)) d)) = Some d"
  by (induction d) (auto simp: text_dict_def json_text_def o_def split: prod.splits)

lemma those_map_Some: "(\<And>x. f (g x) = Some x) \<Longrightarrow> those (map (f \<circ> g) xs) = Some xs"
  by (induction xs) simp_all

lemma planner_task_dump: "planner_task_of (planner_task_json t) = Some t"
  by (simp add: planner_task_of_def planner_task_json_def get_or_def json_text_def text_dicts_def
      those_map_Some[where f = text_dict, OF text_dict_dump])

text \<open>
  A plan the model returns as the arguments of the one call of \<^verbatim>\<open>planner_decision\<close> is read back as it was meant,
  whatever the objectives and capabilities in it are; what becomes of it is the policy's decision.
\<close>

theorem plan_roundtrip:
  assumes "loads text = Inr (JObj [(''tasks'', JList (map planner_task_json plan))])"
  shows "openrouter_plan (sample_answer (JObj [(''tool_calls'', JList [JObj [(''function'',
      JObj [(''name'', JStr ''planner_decision''), (''arguments'', JStr text)])]])])) loads schema model messages n = Inr plan"
  using assms
  by (simp add: openrouter_plan_def sample_answer_of read_plan_def json_at_def json_first_def json_text_def loads_value_def
      planner_decision_of_def get_or_def those_map_Some[where f = planner_task_of, OF planner_task_dump] wrapped_def)

text \<open>The plans of the development model are always admitted, as long as the request is not too long.\<close>

theorem development_plan_admitted:
  assumes "length (last_user_request messages) \<le> 10000" and "1 \<le> max_siblings"
  shows "allowed (validate_planner_decision (development_plan None messages) max_siblings)"
  using assms
  by (auto simp: development_plan_def Let_def validate_planner_decision_def repository_contract_def capability_model_validate_def
      expected_capabilities_def capability_kind_of_def all_capability_kinds_def str_between_def)

end
