(* ===== verification/Terminal.thy ===== *)
theory Terminal
  imports Providers
begin

text \<open>
  The terminal client, \<^verbatim>\<open>apps/astra-tui/src/astra_tui/app.py\<close>, as what its methods do to the fields of the
  application, to the texts and states of its widgets and to the log. The network, the token decoder and \<^verbatim>\<open>json\<close> are
  parameters, and a method that awaits runs to its end before the next begins. The layout and the spinner are not
  modelled.
\<close>

section \<open>State\<close>

text \<open>A field that holds an identifier taken from an answer is a JSON value, \<open>JNull\<close> for \<^verbatim>\<open>None\<close>.\<close>

record terminal =
  tm_audit :: bool
  tm_tenant_id :: "string option"
  tm_user_id :: "string option"
  tm_access_token :: "string option"
  tm_pending_approval_id :: json
  tm_conversation_id :: json
  tm_candidate_memory_id :: json
  tm_promoted_memory_id :: json
  tm_active_turn_id :: json
  tm_active_turn_paused :: bool
  tm_latest_artifact_id :: json
  tm_is_submitting :: bool
  tm_log :: "string list"
  tm_texts :: "(string, string) dict"
  tm_disabled :: "(string, bool) dict"
  tm_hidden :: "(string, bool) dict"

definition new_terminal :: "bool \<Rightarrow> terminal" where
  "new_terminal audit =
     \<lparr>tm_audit = audit, tm_tenant_id = None, tm_user_id = None, tm_access_token = None, tm_pending_approval_id = JNull,
      tm_conversation_id = JNull, tm_candidate_memory_id = JNull, tm_promoted_memory_id = JNull,
      tm_active_turn_id = JNull, tm_active_turn_paused = False, tm_latest_artifact_id = JNull, tm_is_submitting = False,
      tm_log = [], tm_texts = [],
      tm_disabled = map (\<lambda>k. (k, True)) [''grant-inline'', ''deny-inline'', ''grant'', ''deny'', ''promote-memory'',
        ''reject-memory'', ''pin-memory'', ''download-artifact'', ''message-input''],
      tm_hidden = map (\<lambda>k. (k, True)) [''thinking'', ''turn-approval'', ''side'', ''memory-actions'']\<rparr>"

record tui_settings =
  tu_tenant_id :: "uuid option"
  tu_user_id :: "uuid option"
  tu_access_token :: "string option"
  tu_conversation_id :: "uuid option"
  tu_dev_login :: bool
  tu_token_url :: string
  tu_client_id :: string
  tu_username :: string
  tu_password :: string

section \<open>Actions\<close>

record http_request =
  hq_get :: bool
  hq_url :: string
  hq_headers :: "(string, string) dict"
  hq_json :: json

text \<open>
  The environment: an answer is a status and what \<^verbatim>\<open>json()\<close> makes of the body, a streamed one its lines and the
  error of the transport that ends it; \<^verbatim>\<open>str(error)\<close>, \<^verbatim>\<open>str\<close> of a value that is no text, \<^verbatim>\<open>json\<close>, \<^verbatim>\<open>jwt.decode\<close> without
  verification and \<^verbatim>\<open>uuid4()\<close>.
\<close>

record 'w console =
  cn_send :: "http_request \<Rightarrow> 'w \<Rightarrow> (error + int \<times> (error + json)) \<times> 'w"
  cn_stream :: "http_request \<Rightarrow> 'w \<Rightarrow> (error + int \<times> string list \<times> error option) \<times> 'w"
  cn_describe :: "error \<Rightarrow> string"
  cn_repr :: "json \<Rightarrow> string"
  cn_loads :: "string \<Rightarrow> error + json"
  cn_dumps :: "json \<Rightarrow> string"
  cn_claims :: "string \<Rightarrow> error + json"
  cn_uuid :: "'w \<Rightarrow> uuid \<times> 'w"

type_synonym ('w, 'a) tui = "terminal \<times> 'w \<Rightarrow> (error + 'a) \<times> terminal \<times> 'w"

definition done_with :: "'a \<Rightarrow> ('w, 'a) tui" where
  "done_with x st = (Inr x, st)"

definition outcome_of :: "error + 'a \<Rightarrow> ('w, 'a) tui" where
  "outcome_of r st = (r, st)"

definition andthen :: "('w, 'a) tui \<Rightarrow> ('a \<Rightarrow> ('w, 'b) tui) \<Rightarrow> ('w, 'b) tui" where
  "andthen m f st = (case m st of (Inl err, st1) \<Rightarrow> (Inl err, st1) | (Inr x, st1) \<Rightarrow> f x st1)"

definition excepting :: "(error \<Rightarrow> bool) \<Rightarrow> ('w, 'a) tui \<Rightarrow> (error \<Rightarrow> ('w, 'a) tui) \<Rightarrow> ('w, 'a) tui" where
  "excepting caught m h st =
     (case m st of (Inl err, st1) \<Rightarrow> if caught err then h err st1 else (Inl err, st1) | (Inr x, st1) \<Rightarrow> (Inr x, st1))"

definition finally_do :: "('w, 'a) tui \<Rightarrow> ('w, unit) tui \<Rightarrow> ('w, 'a) tui" where
  "finally_do m f st =
     (case m st of (r, st1) \<Rightarrow> (case f st1 of (Inl err, st2) \<Rightarrow> (Inl err, st2) | (Inr _, st2) \<Rightarrow> (r, st2)))"

definition self :: "('w, terminal) tui" where
  "self = (\<lambda>(t, w). (Inr t, t, w))"

definition change :: "(terminal \<Rightarrow> terminal) \<Rightarrow> ('w, unit) tui" where
  "change f = (\<lambda>(t, w). (Inr (), f t, w))"

definition set_text :: "string \<Rightarrow> string \<Rightarrow> ('w, unit) tui" where
  "set_text k s = change (\<lambda>t. t\<lparr>tm_texts := AList.update k s (tm_texts t)\<rparr>)"

definition set_disabled :: "string \<Rightarrow> bool \<Rightarrow> ('w, unit) tui" where
  "set_disabled k b = change (\<lambda>t. t\<lparr>tm_disabled := AList.update k b (tm_disabled t)\<rparr>)"

definition set_hidden :: "string \<Rightarrow> bool \<Rightarrow> ('w, unit) tui" where
  "set_hidden k b = change (\<lambda>t. t\<lparr>tm_hidden := AList.update k b (tm_hidden t)\<rparr>)"

definition write_log :: "string \<Rightarrow> ('w, unit) tui" where
  "write_log s = change (\<lambda>t. t\<lparr>tm_log := tm_log t @ [s]\<rparr>)"

text \<open>What an \<^verbatim>\<open>except\<close> clause names.\<close>

fun http_fault :: "error \<Rightarrow> bool" where
  "http_fault TransportError = True"
| "http_fault HTTPStatusError = True"
| "http_fault _ = False"

fun http_or_value_fault :: "error \<Rightarrow> bool" where
  "http_or_value_fault (ValueError _) = True"
| "http_or_value_fault err = http_fault err"

fun key_or_value_fault :: "error \<Rightarrow> bool" where
  "key_or_value_fault KeyError = True"
| "key_or_value_fault (ValueError _) = True"
| "key_or_value_fault err = http_fault err"

fun any_fault :: "error \<Rightarrow> bool" where
  "any_fault (TypeError _) = True"
| "any_fault err = key_or_value_fault err"

section \<open>Requests\<close>

definition has_text :: "string option \<Rightarrow> bool" where
  "has_text s \<longleftrightarrow> s \<noteq> None \<and> s \<noteq> Some []"

definition user_headers :: "terminal \<Rightarrow> (string, string) dict" where
  "user_headers t =
     (if has_text (tm_access_token t) then [(''Authorization'', ''Bearer '' @ the (tm_access_token t))]
      else if has_text (tm_tenant_id t) \<and> has_text (tm_user_id t)
      then [(''X-Astra-Tenant-ID'', the (tm_tenant_id t)), (''X-Astra-User-ID'', the (tm_user_id t))]
      else [])"

definition is_authenticated :: "terminal \<Rightarrow> bool" where
  "is_authenticated t \<longleftrightarrow> has_text (tm_tenant_id t) \<and> (has_text (tm_user_id t) \<or> has_text (tm_access_token t))"

definition may_act :: "terminal \<Rightarrow> bool" where
  "may_act t \<longleftrightarrow> has_text (tm_user_id t) \<or> has_text (tm_access_token t)"

definition send :: "'w console \<Rightarrow> bool \<Rightarrow> string \<Rightarrow> json \<Rightarrow> ('w, int \<times> (error + json)) tui" where
  "send N get url body = (\<lambda>(t, w).
     case cn_send N \<lparr>hq_get = get, hq_url = url, hq_headers = user_headers t, hq_json = body\<rparr> w of
       (r, w1) \<Rightarrow> (r, t, w1))"

definition require_success :: "int \<Rightarrow> ('w, unit) tui" where
  "require_success status = outcome_of (if 200 \<le> status \<and> status < 300 then Inr () else Inl HTTPStatusError)"

text \<open>A request, \<^verbatim>\<open>raise_for_status\<close> and the body.\<close>

definition fetch :: "'w console \<Rightarrow> bool \<Rightarrow> string \<Rightarrow> json \<Rightarrow> ('w, error + json) tui" where
  "fetch N get url body =
     andthen (send N get url body) (\<lambda>(status, answer). andthen (require_success status) (\<lambda>_. done_with answer))"

definition id_text :: "'w console \<Rightarrow> json \<Rightarrow> string" where
  "id_text N j = py_str (cn_repr N) j"

definition tenant_text :: "terminal \<Rightarrow> string" where
  "tenant_text t = (case tm_tenant_id t of None \<Rightarrow> ''None'' | Some s \<Rightarrow> s)"

section \<open>The activity panels\<close>

text \<open>The path below \<^verbatim>\<open>/api/v1/tenants/{tenant_id}\<close> of each request, in order.\<close>

definition activity_paths :: "string list" where
  "activity_paths = [''tasks'', ''conversations'', ''approvals'', ''memories'', ''jobs'', ''events'', ''persona'', ''aras'', ''artifacts'']"

definition panel_url :: "string \<Rightarrow> string \<Rightarrow> string" where
  "panel_url tenant path = ''/api/v1/tenants/'' @ tenant @ ''/'' @ path"

fun send_all :: "'w console \<Rightarrow> string \<Rightarrow> string list \<Rightarrow> ('w, (int \<times> (error + json)) list) tui" where
  "send_all N tenant [] = done_with []"
| "send_all N tenant (path # paths) =
     andthen (send N True (panel_url tenant path) JNull) (\<lambda>answer.
     andthen (send_all N tenant paths) (\<lambda>answers. done_with (answer # answers)))"

fun require_all :: "(int \<times> (error + json)) list \<Rightarrow> ('w, unit) tui" where
  "require_all [] = done_with ()"
| "require_all ((status, _) # answers) = andthen (require_success status) (\<lambda>_. require_all answers)"

definition json_is :: "json \<Rightarrow> string \<Rightarrow> bool" where
  "json_is j s \<longleftrightarrow> json_text j = Some s"

text \<open>\<^verbatim>\<open>[item for item in items if item[key] == value]\<close>, and with \<^verbatim>\<open>in {...}\<close>, which needs a hashable value.\<close>

fun keep_if :: "(json \<Rightarrow> error + bool) \<Rightarrow> string \<Rightarrow> json list \<Rightarrow> error + json list" where
  "keep_if p key [] = Inr []"
| "keep_if p key (x # xs) =
     ebind (json_at x key) (\<lambda>v. ebind (p v) (\<lambda>b.
     ebind (keep_if p key xs) (\<lambda>ys. Inr (if b then x # ys else ys))))"

definition items_with :: "string \<Rightarrow> string \<Rightarrow> json \<Rightarrow> error + json list" where
  "items_with value key j = ebind (json_iterate j) (keep_if (\<lambda>v. Inr (json_is v value)) key)"

definition items_among :: "string list \<Rightarrow> string \<Rightarrow> json \<Rightarrow> error + json list" where
  "items_among values key j =
     ebind (json_iterate j) (keep_if (\<lambda>v. case v of
       JList _ \<Rightarrow> Inl (TypeError ''unhashable'') | JObj _ \<Rightarrow> Inl (TypeError ''unhashable'')
     | _ \<Rightarrow> Inr (list_ex (json_is v) values)) key)"

text \<open>\<^verbatim>\<open>items[-n:]\<close>.\<close>

definition last_items :: "nat \<Rightarrow> json \<Rightarrow> error + json list" where
  "last_items n j = (case j of
     JList xs \<Rightarrow> Inr (drop (length xs - n) xs) | JStr s \<Rightarrow> Inr (map (\<lambda>c. JStr [c]) (drop (length s - n) s))
   | _ \<Rightarrow> Inl (TypeError ''slice''))"

text \<open>\<^verbatim>\<open>f"{value}"\<close> and \<^verbatim>\<open>f"{value:>n}"\<close>, which a list, a dictionary and \<^verbatim>\<open>None\<close> refuse.\<close>

definition padded :: "nat \<Rightarrow> string \<Rightarrow> string" where
  "padded n s = replicate (n - length s) (CHR '' '') @ s"

definition aligned :: "'w console \<Rightarrow> nat \<Rightarrow> json \<Rightarrow> error + string" where
  "aligned N n j = (case j of
     JNull \<Rightarrow> Inl (TypeError ''format'') | JList _ \<Rightarrow> Inl (TypeError ''format'') | JObj _ \<Rightarrow> Inl (TypeError ''format'')
   | JBool b \<Rightarrow> Inr (padded n (if b then ''1'' else ''0'')) | _ \<Rightarrow> Inr (padded n (id_text N j)))"

definition first_id :: "json list \<Rightarrow> error + json" where
  "first_id xs = (case xs of [] \<Rightarrow> Inr JNull | x # _ \<Rightarrow> json_at x ''id'')"

definition last_id :: "json list \<Rightarrow> error + json" where
  "last_id xs = (if xs = [] then Inr JNull else json_at (last xs) ''id'')"

definition lines_or :: "string \<Rightarrow> string list \<Rightarrow> string" where
  "lines_or otherwise lines = (if join newline lines = [] then otherwise else join newline lines)"

definition task_line :: "'w console \<Rightarrow> json \<Rightarrow> error + string" where
  "task_line N item =
     ebind (ebind (json_at item ''state'') (aligned N 9)) (\<lambda>state.
     ebind (json_at item ''objective'') (\<lambda>objective.
     ebind (json_get item ''target_ara_id'' JNull) (\<lambda>target.
     ebind (if \<not> py_bool target then Inr []
            else case json_text target of
              None \<Rightarrow> Inl (TypeError ''slice'') | Some s \<Rightarrow> Inr ('' ['' @ take 8 s @ '']'')) (\<lambda>ara.
     ebind (json_at item ''state'') (\<lambda>v.
     Inr (state @ ''  '' @ id_text N objective @ ara @
       (if json_is v ''failed'' \<or> json_is v ''cancelled'' then '' [partial failure]'' else [])))))))"

definition conversation_line :: "'w console \<Rightarrow> json \<Rightarrow> json \<Rightarrow> error + string" where
  "conversation_line N current item =
     ebind (json_at item ''id'') (\<lambda>i.
     ebind (json_at item ''title'') (\<lambda>title.
     Inr ((if i = current then ''* '' else ''  '') @ id_text N title)))"

definition recalled_line :: "'w console \<Rightarrow> json \<Rightarrow> error + string" where
  "recalled_line N item =
     ebind (json_at item ''pinned'') (\<lambda>pinned.
     ebind (if py_bool pinned then Inr (JStr ''pinned'') else json_at item ''state'') (\<lambda>label.
     ebind (aligned N 9 label) (\<lambda>text.
     ebind (json_at item ''content'') (\<lambda>content. Inr (text @ ''  '' @ id_text N content)))))"

definition event_line :: "'w console \<Rightarrow> json \<Rightarrow> error + string" where
  "event_line N item =
     ebind (json_at item ''event_type'') (\<lambda>kind.
     ebind (json_at item ''payload'') (\<lambda>payload.
     ebind (json_at payload ''stage'') (\<lambda>stage.
     ebind (json_get payload ''error'' JNull) (\<lambda>err.
     Inr (id_text N kind @ '': '' @ id_text N stage @ (if py_bool err then '' - '' @ id_text N err else []))))))"

definition failure_line :: "'w console \<Rightarrow> json \<Rightarrow> error + string" where
  "failure_line N item =
     ebind (json_at item ''kind'') (\<lambda>kind.
     ebind (json_get item ''last_error'' (JObj [])) (\<lambda>err.
     ebind (json_get err ''message'' (JStr ''failed'')) (\<lambda>text.
     Inr (id_text N kind @ '': '' @ id_text N text))))"

definition ara_line :: "'w console \<Rightarrow> json \<Rightarrow> error + string" where
  "ara_line N item =
     ebind (ebind (json_at item ''status'') (aligned N 8)) (\<lambda>status.
     ebind (json_at item ''name'') (\<lambda>name. Inr (status @ ''  '' @ id_text N name)))"

definition show_lines :: "string \<Rightarrow> string \<Rightarrow> error + string list \<Rightarrow> ('w, unit) tui" where
  "show_lines panel otherwise r = andthen (outcome_of r) (\<lambda>lines. set_text panel (lines_or otherwise lines))"

text \<open>\<^verbatim>\<open>str.join\<close> needs texts.\<close>

definition name_text :: "json \<Rightarrow> error + string" where
  "name_text item = ebind (json_at item ''name'') (\<lambda>n. case json_text n of None \<Rightarrow> Inl (TypeError ''join'') | Some s \<Rightarrow> Inr s)"

record activity =
  ac_tasks :: json
  ac_conversations :: json
  ac_approvals :: "json list"
  ac_memories :: json
  ac_failures :: "json list"
  ac_events :: "json list"
  ac_persona :: json
  ac_aras :: json
  ac_artifacts :: json
  ac_candidates :: "json list"
  ac_promoted :: "json list"

text \<open>Everything up to the first assignment of a field.\<close>

definition read_activity :: "(int \<times> (error + json)) list \<Rightarrow> error + activity" where
  "read_activity answers =
     (case map snd answers of
        [tasks_r, conversations_r, approvals_r, memories_r, jobs_r, events_r, persona_r, aras_r, artifacts_r] \<Rightarrow>
          ebind tasks_r (\<lambda>tasks.
          ebind conversations_r (\<lambda>conversations.
          ebind (ebind approvals_r (items_with ''pending'' ''state'')) (\<lambda>approvals.
          ebind (ebind memories_r (\<lambda>j. json_at j ''memories'')) (\<lambda>memories.
          ebind (ebind jobs_r (items_with ''failed'' ''state'')) (\<lambda>failures.
          ebind (ebind events_r (items_among [''pipeline.failed'', ''pipeline.recovered''] ''event_type'')) (\<lambda>events.
          ebind (ebind persona_r (\<lambda>j. json_at j ''persona'')) (\<lambda>persona.
          ebind aras_r (\<lambda>aras.
          ebind artifacts_r (\<lambda>artifacts.
          ebind (items_with ''candidate'' ''state'' memories) (\<lambda>candidates.
          ebind (items_with ''promoted'' ''state'' memories) (\<lambda>promoted.
          Inr \<lparr>ac_tasks = tasks, ac_conversations = conversations, ac_approvals = approvals, ac_memories = memories,
               ac_failures = failures, ac_events = events, ac_persona = persona, ac_aras = aras, ac_artifacts = artifacts,
               ac_candidates = candidates, ac_promoted = promoted\<rparr>)))))))))))
      | _ \<Rightarrow> Inl KeyError)"

definition show_approvals :: "'w console \<Rightarrow> json list \<Rightarrow> ('w, unit) tui" where
  "show_approvals N approvals =
     (case approvals of
        [] \<Rightarrow> set_text ''approval-list'' ''No pending approvals''
      | pending # _ \<Rightarrow>
          andthen (outcome_of (ebind (ebind (json_at pending ''capability'') (\<lambda>c. json_at c ''kind'')) (\<lambda>kind.
            ebind (json_at pending ''reason'') (\<lambda>reason. Inr (id_text N kind @ newline @ id_text N reason)))))
            (set_text ''approval-list''))"

definition show_issues :: "'w console \<Rightarrow> activity \<Rightarrow> ('w, unit) tui" where
  "show_issues N a =
     show_lines ''job-list'' ''No pipeline issues''
       (ebind (emap (event_line N) (drop (length (ac_events a) - 3) (ac_events a))) (\<lambda>events.
        ebind (emap (failure_line N) (take 3 (ac_failures a))) (\<lambda>failures. Inr (events @ failures))))"

definition show_activity :: "'w console \<Rightarrow> activity \<Rightarrow> ('w, bool) tui" where
  "show_activity N a =
     andthen (outcome_of (first_id (ac_candidates a))) (\<lambda>candidate.
     andthen (change (\<lambda>t. t\<lparr>tm_candidate_memory_id := candidate\<rparr>)) (\<lambda>_.
     andthen (outcome_of (last_id (ac_promoted a))) (\<lambda>promoted.
     andthen (change (\<lambda>t. t\<lparr>tm_promoted_memory_id := promoted\<rparr>)) (\<lambda>_.
     andthen (show_lines ''task-list'' ''No tasks'' (ebind (last_items 8 (ac_tasks a)) (emap (task_line N)))) (\<lambda>_.
     andthen self (\<lambda>t.
     andthen (show_lines ''conversation-list'' ''New conversation''
       (ebind (last_items 8 (ac_conversations a)) (emap (conversation_line N (tm_conversation_id t))))) (\<lambda>_.
     andthen (outcome_of (first_id (ac_approvals a))) (\<lambda>approval.
     andthen (change (\<lambda>t. t\<lparr>tm_pending_approval_id := approval\<rparr>)) (\<lambda>_.
     andthen (show_approvals N (ac_approvals a)) (\<lambda>_.
     andthen (show_lines ''memory-list'' ''No approved memory'' (ebind (last_items 5 (ac_memories a)) (emap (recalled_line N)))) (\<lambda>_.
     andthen (show_issues N a) (\<lambda>_.
     andthen (outcome_of (json_at (ac_persona a) ''version'')) (\<lambda>version.
     andthen (set_text ''persona-list'' (''Version '' @ id_text N version)) (\<lambda>_.
     andthen (show_lines ''ara-list'' ''No registered ARAs'' (ebind (last_items 5 (ac_aras a)) (emap (ara_line N)))) (\<lambda>_.
     andthen (outcome_of (if py_bool (ac_artifacts a)
                    then ebind (last_items 1 (ac_artifacts a)) (\<lambda>xs. json_at (last xs) ''id'') else Inr JNull)) (\<lambda>artifact.
     andthen (change (\<lambda>t. t\<lparr>tm_latest_artifact_id := artifact\<rparr>)) (\<lambda>_.
     andthen (show_lines ''artifact-list'' ''No artifacts'' (ebind (last_items 5 (ac_artifacts a)) (emap name_text))) (\<lambda>_.
     andthen (set_disabled ''download-artifact'' (artifact = JNull)) (\<lambda>_.
     andthen self (\<lambda>t.
     let can_review = (py_bool candidate \<and> may_act t) in
     andthen (set_disabled ''promote-memory'' (\<not> can_review)) (\<lambda>_.
     andthen (set_disabled ''reject-memory'' (\<not> can_review)) (\<lambda>_.
     andthen (set_disabled ''pin-memory'' (\<not> (py_bool promoted \<and> may_act t))) (\<lambda>_.
     andthen (set_hidden ''memory-actions'' (\<not> can_review)) (\<lambda>_.
     let enabled = (py_bool approval \<and> may_act t) in
     andthen (set_disabled ''grant'' (\<not> enabled)) (\<lambda>_.
     andthen (set_disabled ''deny'' (\<not> enabled)) (\<lambda>_.
     done_with enabled))))))))))))))))))))))))))"

text \<open>\<^verbatim>\<open>_refresh_active_turn\<close>.\<close>

definition refresh_active_turn :: "'w console \<Rightarrow> ('w, unit) tui" where
  "refresh_active_turn N =
     andthen self (\<lambda>t.
     if \<not> py_bool (tm_active_turn_id t) then done_with ()
     else excepting key_or_value_fault
       (andthen (fetch N True (''/api/v1/conversation-turns/'' @ id_text N (tm_active_turn_id t)) JNull) (\<lambda>answer.
        andthen (outcome_of answer) (\<lambda>payload.
        andthen (outcome_of (ebind (json_at payload ''turn'') (\<lambda>turn. json_at turn ''state''))) (\<lambda>state.
        andthen (change (\<lambda>t. t\<lparr>tm_active_turn_paused := json_is state ''paused''\<rparr>)) (\<lambda>_.
        if \<not> json_is state ''completed'' then done_with ()
        else
          andthen (outcome_of (json_get payload ''assistant_message'' JNull)) (\<lambda>assistant.
          andthen (case assistant of
              JObj kvs \<Rightarrow>
                (case json_text (get_or JNull kvs ''content'') of
                   None \<Rightarrow> done_with () | Some s \<Rightarrow> write_log (''[bold #86efac]Astra[/]: '' @ s))
            | _ \<Rightarrow> done_with ()) (\<lambda>_.
          change (\<lambda>t. t\<lparr>tm_active_turn_id := JNull, tm_active_turn_paused := False\<rparr>))))))))
       (\<lambda>_. done_with ()))"

definition refresh_panels :: "'w console \<Rightarrow> ('w, bool) tui" where
  "refresh_panels N =
     andthen self (\<lambda>t.
     excepting any_fault
       (andthen (send_all N (tenant_text t) activity_paths) (\<lambda>answers.
        andthen (require_all answers) (\<lambda>_.
        andthen (outcome_of (read_activity answers)) (show_activity N))))
       (\<lambda>err. andthen (set_text ''job-list'' (''Status unavailable: '' @ cn_describe N err)) (\<lambda>_. done_with False)))"

definition refresh_activity :: "'w console \<Rightarrow> ('w, unit) tui" where
  "refresh_activity N =
     andthen self (\<lambda>t.
     if \<not> has_text (tm_tenant_id t) then set_text ''task-list'' ''Set ASTRA_TENANT_ID to view tasks''
     else
       andthen (refresh_panels N) (\<lambda>enabled.
       andthen (refresh_active_turn N) (\<lambda>_.
       andthen self (\<lambda>t1.
       let inline_enabled = (enabled \<and> tm_active_turn_paused t1) in
       andthen (set_disabled ''grant-inline'' (\<not> inline_enabled)) (\<lambda>_.
       andthen (set_disabled ''deny-inline'' (\<not> inline_enabled)) (\<lambda>_.
       andthen (set_hidden ''turn-approval'' (\<not> inline_enabled)) (\<lambda>_.
       set_text ''turn-approval-text'' (if inline_enabled then ''Approval required for this turn'' else []))))))))"

section \<open>Keys and buttons\<close>

definition render_welcome :: "('w, unit) tui" where
  "render_welcome = change (\<lambda>t. t\<lparr>tm_log := [''[bold #e2e8f0]Astra Agent[/]'',
     ''[#64748b]Ask Astra to investigate, coordinate, or act. Press Enter to send.[/]'', []]\<rparr>)"

text \<open>The status line begins with the name and a middle dot.\<close>

definition set_status :: "string \<Rightarrow> ('w, unit) tui" where
  "set_status s = set_text ''status'' (''Astra Agent '' @ [CHR 0xB7] @ '' '' @ s)"

definition toggle_activity :: "('w, unit) tui" where
  "toggle_activity =
     change (\<lambda>t. t\<lparr>tm_hidden := AList.update ''side'' (map_of (tm_hidden t) ''side'' \<noteq> Some True) (tm_hidden t)\<rparr>)"

definition new_conversation :: "('w, unit) tui" where
  "new_conversation =
     andthen (change (\<lambda>t. t\<lparr>tm_conversation_id := JNull, tm_active_turn_id := JNull, tm_active_turn_paused := False\<rparr>)) (\<lambda>_.
     andthen render_welcome (\<lambda>_. set_status ''new conversation''))"

definition clear_conversation :: "('w, unit) tui" where
  "clear_conversation = render_welcome"

definition tenant_json :: "terminal \<Rightarrow> json" where
  "tenant_json t = (case tm_tenant_id t of None \<Rightarrow> JNull | Some s \<Rightarrow> JStr s)"

text \<open>\<^verbatim>\<open>UUID(text)\<close>, asked only whether it raises.\<close>

definition require_uuid :: "string option \<Rightarrow> ('w, unit) tui" where
  "require_uuid s = outcome_of (case s of
     None \<Rightarrow> Inl (TypeError ''UUID'')
   | Some text \<Rightarrow> (case parse_uuid text of None \<Rightarrow> Inl (ValueError ''badly formed hexadecimal UUID string'') | Some _ \<Rightarrow> Inr ()))"

definition decide_pending :: "'w console \<Rightarrow> bool \<Rightarrow> ('w, unit) tui" where
  "decide_pending N granted =
     andthen self (\<lambda>t.
     if \<not> py_bool (tm_pending_approval_id t) \<or> \<not> has_text (tm_tenant_id t) then done_with ()
     else excepting http_or_value_fault
       (andthen (require_uuid (tm_tenant_id t)) (\<lambda>_.
        andthen (if has_text (tm_user_id t) then require_uuid (tm_user_id t) else done_with ()) (\<lambda>_.
        andthen (fetch N False (''/api/v1/approvals/'' @ id_text N (tm_pending_approval_id t) @ ''/decision'')
          (JObj [(''tenant_id'', tenant_json t), (''granted'', JBool granted)])) (\<lambda>_.
        refresh_activity N))))
       (\<lambda>_. done_with ()))"

definition review_candidate :: "'w console \<Rightarrow> bool \<Rightarrow> ('w, unit) tui" where
  "review_candidate N promote =
     andthen self (\<lambda>t.
     if \<not> py_bool (tm_candidate_memory_id t) \<or> \<not> has_text (tm_tenant_id t) then done_with ()
     else excepting http_fault
       (andthen (fetch N False (''/api/v1/memories/'' @ id_text N (tm_candidate_memory_id t) @ ''/review'')
          (JObj [(''tenant_id'', tenant_json t), (''promote'', JBool promote)])) (\<lambda>_. refresh_activity N))
       (\<lambda>_. done_with ()))"

definition pin_promoted :: "'w console \<Rightarrow> ('w, unit) tui" where
  "pin_promoted N =
     andthen self (\<lambda>t.
     if \<not> py_bool (tm_promoted_memory_id t) \<or> \<not> has_text (tm_tenant_id t) then done_with ()
     else excepting http_fault
       (andthen (fetch N False (''/api/v1/memories/'' @ id_text N (tm_promoted_memory_id t) @ ''/pin'')
          (JObj [(''tenant_id'', tenant_json t), (''pinned'', JBool True)])) (\<lambda>_. refresh_activity N))
       (\<lambda>_. done_with ()))"

definition download_latest :: "'w console \<Rightarrow> ('w, unit) tui" where
  "download_latest N =
     andthen self (\<lambda>t.
     if \<not> py_bool (tm_latest_artifact_id t) then done_with ()
     else excepting key_or_value_fault
       (andthen (fetch N False (''/api/v1/artifacts/'' @ id_text N (tm_latest_artifact_id t) @ ''/download'') JNull) (\<lambda>answer.
        andthen (outcome_of (ebind answer (\<lambda>payload.
          ebind (json_at payload ''expires_in_seconds'') (\<lambda>seconds.
          ebind (json_at payload ''download_url'') (\<lambda>url.
          Inr (''[bold #86efac]Artifact URL ('' @ id_text N seconds @ ''s)[/]: '' @ id_text N url)))))) write_log))
       (\<lambda>err. set_text ''artifact-list'' (''Download failed: '' @ cn_describe N err)))"

datatype button =
    New_button | Download_button | Promote_button | Reject_button | Pin_button
  | Grant_button | Deny_button | Grant_inline_button | Deny_inline_button

fun press :: "'w console \<Rightarrow> button \<Rightarrow> ('w, unit) tui" where
  "press N New_button = new_conversation"
| "press N Download_button = download_latest N"
| "press N Promote_button = review_candidate N True"
| "press N Reject_button = review_candidate N False"
| "press N Pin_button = pin_promoted N"
| "press N Grant_button = decide_pending N True"
| "press N Deny_button = decide_pending N False"
| "press N Grant_inline_button = decide_pending N True"
| "press N Deny_inline_button = decide_pending N False"

section \<open>Messages\<close>

text \<open>
  The loop over the lines of the stream: the name of the current event, what was read of the reasoning and of the
  answer, and what is shown live.
\<close>

record live =
  lv_event :: string
  lv_reasoning :: string
  lv_answer :: string
  lv_shown :: "string option"

definition shown_text :: "string \<Rightarrow> string \<Rightarrow> string" where
  "shown_text reasoning answer =
     (if reasoning = [] then [] else ''Thinking'' @ newline @ reasoning @ newline @ newline) @
     (if answer = [] then ''Working...'' else answer)"

definition read_line :: "'w console \<Rightarrow> string \<Rightarrow> live \<Rightarrow> error + live" where
  "read_line N line l =
     (if prefix ''event: '' line then Inr (l\<lparr>lv_event := drop 7 line\<rparr>)
      else if prefix ''data: '' line \<and> lv_event l \<in> {''reasoning'', ''content''} then
        ebind (ebind (cn_loads N (drop 6 line)) (\<lambda>payload. json_at payload ''content'')) (\<lambda>chunk.
        case json_text chunk of
          None \<Rightarrow> Inl (TypeError ''concatenate'')
        | Some s \<Rightarrow>
            let l1 = (if lv_event l = ''reasoning'' then l\<lparr>lv_reasoning := lv_reasoning l @ s\<rparr>
                      else l\<lparr>lv_answer := lv_answer l @ s\<rparr>) in
            Inr (l1\<lparr>lv_shown := Some (shown_text (lv_reasoning l1) (lv_answer l1))\<rparr>))
      else if prefix ''data: '' line \<and> lv_event l = ''tool_call'' then
        ebind (ebind (cn_loads N (drop 6 line)) (\<lambda>payload. json_get payload ''tool'' (JStr ''tool''))) (\<lambda>tool.
        Inr (l\<lparr>lv_shown := Some (''Using '' @ id_text N tool @ ''...'')\<rparr>))
      else Inr l)"

text \<open>The lines up to an error; the live state is what was reached before it.\<close>

fun read_stream :: "'w console \<Rightarrow> error option \<Rightarrow> string list \<Rightarrow> live \<Rightarrow> error option \<times> live" where
  "read_stream N broken [] l = (broken, l)"
| "read_stream N broken (line # lines) l =
     (case read_line N line l of Inl err \<Rightarrow> (Some err, l) | Inr l1 \<Rightarrow> read_stream N broken lines l1)"

definition show_live :: "live \<Rightarrow> ('w, unit) tui" where
  "show_live l =
     (case lv_shown l of
        None \<Rightarrow> done_with () | Some s \<Rightarrow> andthen (set_hidden ''thinking'' True) (\<lambda>_. set_text ''live-response'' s))"

definition no_live :: live where
  "no_live = \<lparr>lv_event = [], lv_reasoning = [], lv_answer = [], lv_shown = None\<rparr>"

definition show_stream :: "'w console \<Rightarrow> error option \<Rightarrow> string list \<Rightarrow> ('w, string) tui" where
  "show_stream N broken lines =
     (case read_stream N broken lines no_live of
        (failed, l) \<Rightarrow>
          andthen (show_live l) (\<lambda>_. outcome_of (case failed of None \<Rightarrow> Inr (lv_answer l) | Some err \<Rightarrow> Inl err)))"

definition stream_answer :: "'w console \<Rightarrow> string \<Rightarrow> uuid \<Rightarrow> ('w, string) tui" where
  "stream_answer N content trace_id = (\<lambda>(t, w).
     case cn_stream N \<lparr>hq_get = False,
         hq_url = ''/api/v1/conversations/'' @ id_text N (tm_conversation_id t) @ ''/messages/stream'',
         hq_headers = user_headers t,
         hq_json = JObj [(''tenant_id'', tenant_json t), (''client_request_id'', JId trace_id), (''content'', JStr content)]\<rparr> w of
       (Inl err, w1) \<Rightarrow> (Inl err, t, w1)
     | (Inr (status, lines, broken), w1) \<Rightarrow>
         andthen (require_success status) (\<lambda>_. show_stream N broken lines) (t, w1))"

text \<open>\<^verbatim>\<open>_render_audit\<close>: each event without its stage and instant.\<close>

definition audit_line :: "'w console \<Rightarrow> json \<Rightarrow> error + string" where
  "audit_line N ev = (case ev of
     JObj kvs \<Rightarrow>
       (case map_of kvs ''stage'' of
          None \<Rightarrow> Inl KeyError
        | Some stage \<Rightarrow>
            Inr (id_text N stage @ '': '' @
              cn_dumps N (JObj (filter (\<lambda>(k, _). k \<noteq> ''stage'' \<and> k \<noteq> ''at'') kvs))))
   | JList _ \<Rightarrow> Inl (TypeError ''pop'') | _ \<Rightarrow> Inl AttributeError)"

fun write_events :: "'w console \<Rightarrow> json list \<Rightarrow> ('w, unit) tui" where
  "write_events N [] = done_with ()"
| "write_events N (ev # evs) =
     andthen (outcome_of (audit_line N ev)) (\<lambda>line. andthen (write_log line) (\<lambda>_. write_events N evs))"

definition render_audit :: "'w console \<Rightarrow> uuid \<Rightarrow> ('w, unit) tui" where
  "render_audit N trace_id =
     excepting key_or_value_fault
       (andthen (fetch N True (''/api/v1/audit/'' @ uuid_text trace_id) JNull) (\<lambda>answer.
        andthen (outcome_of (ebind answer (\<lambda>j. json_at j ''events''))) (\<lambda>events.
        andthen (write_log ''[bold #fbbf24]Audit[/]'') (\<lambda>_.
        andthen (outcome_of (json_iterate events)) (write_events N)))))
       (\<lambda>_. done_with ())"

definition start_conversation :: "'w console \<Rightarrow> string \<Rightarrow> ('w, unit) tui" where
  "start_conversation N content =
     andthen self (\<lambda>t.
     if py_bool (tm_conversation_id t) then done_with ()
     else
       andthen (fetch N False ''/api/v1/conversations''
         (JObj [(''tenant_id'', tenant_json t), (''title'', JStr (take 80 content))])) (\<lambda>answer.
       andthen (outcome_of (ebind answer (\<lambda>j. ebind (json_at j ''conversation'') (\<lambda>c. json_at c ''id'')))) (\<lambda>i.
       change (\<lambda>t. t\<lparr>tm_conversation_id := i\<rparr>))))"

definition draw_uuid :: "'w console \<Rightarrow> ('w, uuid) tui" where
  "draw_uuid N = (\<lambda>(t, w). case cn_uuid N w of (u, w1) \<Rightarrow> (Inr u, t, w1))"

definition submit_message :: "'w console \<Rightarrow> string \<Rightarrow> ('w, unit) tui" where
  "submit_message N content =
     andthen (change (\<lambda>t. t\<lparr>tm_is_submitting := True\<rparr>)) (\<lambda>_.
     andthen (set_disabled ''message-input'' True) (\<lambda>_.
     andthen (set_hidden ''thinking'' False) (\<lambda>_.
     andthen (set_status ''working'') (\<lambda>_.
     finally_do
       (excepting key_or_value_fault
         (andthen (start_conversation N content) (\<lambda>_.
          andthen (draw_uuid N) (\<lambda>trace_id.
          andthen (stream_answer N content trace_id) (\<lambda>answer.
          andthen (if answer = [] then done_with () else write_log (''[bold #86efac]Astra[/]: '' @ answer)) (\<lambda>_.
          andthen self (\<lambda>t.
          andthen (if tm_audit t then render_audit N trace_id else done_with ()) (\<lambda>_.
          set_text ''live-response'' [])))))))
         (\<lambda>err. write_log (''[bold #fca5a5]Error[/]: '' @ cn_describe N err)))
       (andthen (change (\<lambda>t. t\<lparr>tm_is_submitting := False\<rparr>)) (\<lambda>_.
        andthen (set_hidden ''thinking'' True) (\<lambda>_.
        andthen self (\<lambda>t.
        andthen (set_disabled ''message-input'' (\<not> is_authenticated t)) (\<lambda>_.
        set_status ''ready''))))))))) "

text \<open>\<^verbatim>\<open>on_input_submitted\<close> with the worker it starts.\<close>

definition submit_input :: "'w console \<Rightarrow> string \<Rightarrow> ('w, unit) tui" where
  "submit_input N value =
     andthen self (\<lambda>t.
     let content = strip value in
     if content = [] \<or> \<not> has_text (tm_tenant_id t) \<or> tm_is_submitting t then done_with ()
     else
       andthen (set_text ''message-input'' []) (\<lambda>_.
       andthen (write_log (''[bold #93c5fd]You[/]: '' @ content)) (\<lambda>_. submit_message N content)))"

section \<open>Start\<close>

definition development_login :: "'w console \<Rightarrow> tui_settings \<Rightarrow> ('w, string) tui" where
  "development_login N S = (\<lambda>(t, w).
     case cn_send N \<lparr>hq_get = False, hq_url = tu_token_url S, hq_headers = [],
         hq_json = JObj [(''client_id'', JStr (tu_client_id S)), (''username'', JStr (tu_username S)),
           (''password'', JStr (tu_password S)), (''grant_type'', JStr ''password'')]\<rparr> w of
       (Inl err, w1) \<Rightarrow> (Inl err, t, w1)
     | (Inr (status, answer), w1) \<Rightarrow>
         andthen (require_success status) (\<lambda>_.
         andthen (outcome_of (ebind answer (\<lambda>j. json_at j ''access_token''))) (\<lambda>token.
         outcome_of (case json_text token of
             Some (c # cs) \<Rightarrow> Inr (c # cs) | _ \<Rightarrow> Inl (ValueError ''identity provider returned no access token'')))) (t, w1))"

text \<open>\<^verbatim>\<open>UUID(x)\<close> of a value that is no text has no \<^verbatim>\<open>replace\<close>.\<close>

definition tenant_from_token :: "'w console \<Rightarrow> string \<Rightarrow> error + string" where
  "tenant_from_token N token =
     ebind (cn_claims N token) (\<lambda>claims.
     ebind (json_at claims ''tenant_id'') (\<lambda>v.
     case v of
       JNull \<Rightarrow> Inl (TypeError ''one of the hex, bytes, bytes_le, fields, or int arguments must be given'')
     | _ \<Rightarrow>
         (case json_text v of
            None \<Rightarrow> Inl AttributeError
          | Some s \<Rightarrow> (case parse_uuid s of
              None \<Rightarrow> Inl (ValueError ''badly formed hexadecimal UUID string'') | Some u \<Rightarrow> Inr (uuid_text u)))))"

definition log_in :: "'w console \<Rightarrow> tui_settings \<Rightarrow> ('w, unit) tui" where
  "log_in N S =
     andthen self (\<lambda>t.
     if has_text (tm_access_token t) \<or> \<not> tu_dev_login S then done_with ()
     else excepting key_or_value_fault
       (andthen (development_login N S) (\<lambda>token. change (\<lambda>t. t\<lparr>tm_access_token := Some token\<rparr>)))
       (\<lambda>err. set_status (''local login failed '' @ [CHR 0xB7] @ '' '' @ cn_describe N err)))"

definition check_health :: "'w console \<Rightarrow> ('w, unit) tui" where
  "check_health N =
     excepting any_fault
       (andthen (fetch N True ''/health'' JNull) (\<lambda>answer.
        andthen (outcome_of (ebind answer (\<lambda>health. ebind (json_at health ''version'') (\<lambda>version.
          ebind (json_at health ''persistence'') (\<lambda>persistence.
          Inr (''online '' @ [CHR 0xB7] @ '' API '' @ id_text N version @ '' '' @ [CHR 0xB7] @ '' '' @ id_text N persistence))))))
          set_status))
       (\<lambda>err. set_status (''unavailable '' @ [CHR 0xB7] @ '' '' @ cn_describe N err))"

definition on_mount :: "'w console \<Rightarrow> tui_settings \<Rightarrow> ('w, unit) tui" where
  "on_mount N S =
     andthen render_welcome (\<lambda>_.
     andthen (change (\<lambda>t. t\<lparr>tm_tenant_id := map_option uuid_text (tu_tenant_id S),
        tm_user_id := map_option uuid_text (tu_user_id S), tm_access_token := tu_access_token S,
        tm_conversation_id := (case tu_conversation_id S of None \<Rightarrow> JNull | Some u \<Rightarrow> JStr (uuid_text u))\<rparr>)) (\<lambda>_.
     andthen (log_in N S) (\<lambda>_.
     andthen self (\<lambda>t.
     andthen (if has_text (tm_access_token t) \<and> \<not> has_text (tm_tenant_id t)
              then andthen (outcome_of (tenant_from_token N (the (tm_access_token t))))
                     (\<lambda>u. change (\<lambda>t. t\<lparr>tm_tenant_id := Some u\<rparr>))
              else done_with ()) (\<lambda>_.
     andthen (check_health N) (\<lambda>_.
     andthen (refresh_activity N) (\<lambda>_.
     andthen self (\<lambda>t1.
     andthen (set_disabled ''message-input'' (\<not> is_authenticated t1)) (\<lambda>_.
     if is_authenticated t1 then done_with ()
     else set_text ''message-placeholder''
            ''Authentication required: configure ASTRA_ACCESS_TOKEN or ASTRA_TUI_DEV_LOGIN'')))))))))"

section \<open>Runs\<close>

datatype user_event =
    Mounted tui_settings | Refreshed | Toggled | Begun_anew | Cleared | Pressed button | Submitted string

fun react :: "'w console \<Rightarrow> user_event \<Rightarrow> ('w, unit) tui" where
  "react N (Mounted S) = on_mount N S"
| "react N Refreshed = refresh_activity N"
| "react N Toggled = toggle_activity"
| "react N Begun_anew = new_conversation"
| "react N Cleared = clear_conversation"
| "react N (Pressed b) = press N b"
| "react N (Submitted s) = submit_input N s"

text \<open>The states of the application in a session whose network behaves as \<open>ok\<close> says, and otherwise as it likes.\<close>

inductive session_state :: "('w console \<Rightarrow> bool) \<Rightarrow> bool \<Rightarrow> terminal \<Rightarrow> bool" for ok audit where
  session_start: "session_state ok audit (new_terminal audit)"
| session_event: "session_state ok audit t \<Longrightarrow> ok N \<Longrightarrow> react N ev (t, w) = (r, t', w') \<Longrightarrow> session_state ok audit t'"

end
