(* ===== verification/TerminalProperties.thy ===== *)
theory TerminalProperties
  imports Terminal HermesProperties RouteProperties
begin

text \<open>
  What the terminal client shows and sends: invariants of a session, and the stream of an answer from the route to
  the screen.
\<close>

section \<open>Invariants of a session\<close>

text \<open>An action keeps \<open>I\<close> when it leads from a state with \<open>I\<close> to one with \<open>I\<close>, also when it raises.\<close>

definition stays :: "(terminal \<Rightarrow> bool) \<Rightarrow> ('w, 'a) tui \<Rightarrow> bool" where
  "stays I m \<longleftrightarrow> (\<forall>t w. I t \<longrightarrow> I (fst (snd (m (t, w)))))"

lemma stays_andthen: "stays I m \<Longrightarrow> (\<And>x. stays I (f x)) \<Longrightarrow> stays I (andthen m f)"
  unfolding stays_def andthen_def by (auto split: prod.splits sum.splits) (metis fst_conv snd_conv)+

lemma stays_excepting: "stays I m \<Longrightarrow> (\<And>err. stays I (h err)) \<Longrightarrow> stays I (excepting c m h)"
  unfolding stays_def excepting_def by (auto split: prod.splits sum.splits) (metis fst_conv snd_conv)+

lemma stays_finally: "stays I m \<Longrightarrow> stays I f \<Longrightarrow> stays I (finally_do m f)"
  unfolding stays_def finally_do_def by (auto split: prod.splits sum.splits) (metis fst_conv snd_conv)+

lemma stays_change: "(\<And>t. I t \<Longrightarrow> I (f t)) \<Longrightarrow> stays I (change f)"
  by (simp add: stays_def change_def)

lemma stays_basic [simp]:
  "stays I (done_with x)" "stays I (outcome_of r)" "stays I self" "stays I (require_success n)"
  by (auto simp: stays_def done_with_def outcome_of_def self_def require_success_def)

lemma stays_network [simp]: "stays I (send N g url body)" "stays I (draw_uuid N)"
  by (auto simp: stays_def send_def draw_uuid_def split: prod.splits)

lemma stays_fetch [simp]: "stays I (fetch N g url body)"
  unfolding fetch_def by (intro stays_andthen) (auto intro!: stays_andthen split: prod.split)

lemma stays_send_all [simp]: "stays I (send_all N u paths)"
  by (induction paths) (auto intro!: stays_andthen)

lemma stays_require_all [simp]: "stays I (require_all answers)"
  by (induction answers rule: require_all.induct) (auto intro!: stays_andthen)

lemma stays_self: "(\<And>t. I t \<Longrightarrow> stays I (f t)) \<Longrightarrow> stays I (andthen self f)"
  unfolding stays_def andthen_def self_def by simp

lemma stays_let: "(\<And>x. x = y \<Longrightarrow> stays I (f x)) \<Longrightarrow> stays I (Let y f)"
  by simp

lemma stays_if: "(b \<Longrightarrow> stays I m) \<Longrightarrow> (\<not> b \<Longrightarrow> stays I m') \<Longrightarrow> stays I (if b then m else m')"
  by simp

text \<open>
  The interface between an invariant and the methods: it may speak about the turn and its approval, must be kept by
  the refreshing of the panels, and by everything else that is never written there.
\<close>

locale screen_invariant =
  fixes I :: "terminal \<Rightarrow> bool" and ok :: "'w console \<Rightarrow> bool"
  assumes free_fields: "I t \<Longrightarrow> I (t\<lparr>tm_texts := x\<rparr>)" "I t \<Longrightarrow> I (t\<lparr>tm_log := l\<rparr>)" "I t \<Longrightarrow> I (t\<lparr>tm_is_submitting := b\<rparr>)"
      "I t \<Longrightarrow> I (t\<lparr>tm_conversation_id := j\<rparr>)" "I t \<Longrightarrow> I (t\<lparr>tm_tenant_id := u\<rparr>)" "I t \<Longrightarrow> I (t\<lparr>tm_access_token := u\<rparr>)"
      "I t \<Longrightarrow> I (t\<lparr>tm_user_id := u\<rparr>)"
    and no_turn: "I t \<Longrightarrow> I (t\<lparr>tm_active_turn_id := JNull, tm_active_turn_paused := False\<rparr>)"
    and other_buttons: "I t \<Longrightarrow> k \<noteq> ''grant-inline'' \<Longrightarrow> k \<noteq> ''deny-inline'' \<Longrightarrow> I (t\<lparr>tm_disabled := AList.update k b (tm_disabled t)\<rparr>)"
    and other_rows: "I t \<Longrightarrow> k \<noteq> ''turn-approval'' \<Longrightarrow> I (t\<lparr>tm_hidden := AList.update k b (tm_hidden t)\<rparr>)"
    and refreshing: "ok N \<Longrightarrow> stays I (refresh_activity N)"
    and start: "I (new_terminal audit)"
begin

lemma stays_widgets:
  "stays I (set_text k s)" "stays I (write_log s)" "stays I render_welcome" "stays I (set_status s)"
  "k \<noteq> ''grant-inline'' \<Longrightarrow> k \<noteq> ''deny-inline'' \<Longrightarrow> stays I (set_disabled k b)" "k \<noteq> ''turn-approval'' \<Longrightarrow> stays I (set_hidden k b)"
  by (auto simp: set_text_def write_log_def render_welcome_def set_status_def set_disabled_def set_hidden_def
      intro!: stays_change free_fields other_buttons other_rows)

lemma stays_new_conversation: "stays I new_conversation"
proof -
  have "I (t\<lparr>tm_conversation_id := JNull, tm_active_turn_id := JNull, tm_active_turn_paused := False\<rparr>)" if "I t" for t
    using no_turn[OF free_fields(4)[OF that, of JNull]] by simp
  then show ?thesis unfolding new_conversation_def by (auto intro!: stays_andthen stays_change simp: stays_widgets)
qed

lemma stays_buttons:
  assumes "ok N" shows "stays I (press N b)"
  by (cases b)
     (auto simp: decide_pending_def review_candidate_def pin_promoted_def download_latest_def stays_widgets require_uuid_def
        intro!: stays_andthen stays_excepting stays_self stays_if refreshing[OF assms] stays_new_conversation)

lemma stays_write_events: "stays I (write_events N evs)"
  by (induction evs) (auto intro!: stays_andthen simp: stays_widgets)

lemma stays_stream_answer: "stays I (stream_answer N content u)"
proof -
  have "stays I (show_stream N broken lines)" for broken lines
    unfolding show_stream_def by (auto simp: show_live_def stays_widgets intro!: stays_andthen split: prod.split option.split)
  then have "stays I (andthen (require_success status) (\<lambda>_. show_stream N broken lines))" for status broken lines
    by (intro stays_andthen) simp_all
  then show ?thesis by (auto simp: stays_def stream_answer_def split: prod.splits sum.splits)
qed

lemma stays_submit: "stays I (submit_input N value)"
  unfolding submit_input_def submit_message_def start_conversation_def render_audit_def
  by (auto simp: stays_widgets stays_write_events stays_stream_answer intro!: stays_andthen stays_excepting stays_finally
      stays_self stays_let stays_if stays_change free_fields)

lemma stays_mount:
  assumes "ok N" shows "stays I (on_mount N S)"
proof -
  have "stays I (development_login N S)"
    by (auto simp: stays_def development_login_def andthen_def require_success_def outcome_of_def split: prod.splits sum.splits)
  moreover have "I (t\<lparr>tm_tenant_id := a, tm_user_id := b, tm_access_token := c, tm_conversation_id := d\<rparr>)" if "I t" for t a b c d
    using free_fields(4)[OF free_fields(6)[OF free_fields(7)[OF free_fields(5)[OF that]]]] .
  ultimately show ?thesis
    unfolding on_mount_def log_in_def check_health_def
    by (auto simp: stays_widgets intro!: stays_andthen stays_excepting stays_self stays_if stays_change free_fields
        refreshing[OF assms])
qed

lemma stays_react: "ok N \<Longrightarrow> stays I (react N ev)"
  by (cases ev)
     (auto simp: toggle_activity_def clear_conversation_def stays_widgets
        intro!: stays_mount refreshing stays_new_conversation stays_buttons stays_submit stays_change other_rows)

lemma session_invariant: "session_state ok audit t \<Longrightarrow> I t"
proof (induction rule: session_state.induct)
  case (session_event t N ev w r t' w')
  with stays_react[of N ev] show ?case by (auto simp: stays_def) (metis fst_conv snd_conv)
qed (rule start)

end

section \<open>Approvals beside the message\<close>

text \<open>No turn is active, and the row beside the conversation that asks for its approval is hidden.\<close>

definition idle :: "terminal \<Rightarrow> bool" where
  "idle t \<longleftrightarrow> tm_active_turn_id t = JNull \<and> \<not> tm_active_turn_paused t \<and>
     map_of (tm_disabled t) ''grant-inline'' = Some True \<and> map_of (tm_disabled t) ''deny-inline'' = Some True \<and>
     map_of (tm_hidden t) ''turn-approval'' = Some True"

lemma idle_widgets [simp]:
  "stays idle (set_text k s)" "k \<noteq> ''grant-inline'' \<Longrightarrow> k \<noteq> ''deny-inline'' \<Longrightarrow> stays idle (set_disabled k b)"
  "k \<noteq> ''turn-approval'' \<Longrightarrow> stays idle (set_hidden k b)"
  "stays idle (set_disabled k True)" "stays idle (set_hidden k True)"
  by (auto simp: set_text_def set_disabled_def set_hidden_def idle_def update_conv' intro!: stays_change)

lemma idle_fields [simp]:
  "stays idle (change (\<lambda>t. t\<lparr>tm_candidate_memory_id := j\<rparr>))" "stays idle (change (\<lambda>t. t\<lparr>tm_promoted_memory_id := j\<rparr>))"
  "stays idle (change (\<lambda>t. t\<lparr>tm_pending_approval_id := j\<rparr>))" "stays idle (change (\<lambda>t. t\<lparr>tm_latest_artifact_id := j\<rparr>))"
  by (auto simp: idle_def intro!: stays_change)

lemma idle_show_lines [simp]: "stays idle (show_lines p s r)"
  unfolding show_lines_def by (auto intro!: stays_andthen)

lemma idle_show_activity: "stays idle (show_activity N a)"
  unfolding show_activity_def show_approvals_def show_issues_def
  by (intro stays_andthen stays_let) (auto intro!: stays_andthen stays_let split: list.split)

lemma idle_refresh_panels: "stays idle (refresh_panels N)"
  unfolding refresh_panels_def by (auto intro!: stays_andthen stays_excepting idle_show_activity)

lemma idle_refresh: "stays idle (refresh_activity N)"
proof -
  have "stays idle (refresh_active_turn N)"
    unfolding refresh_active_turn_def by (intro stays_self) (simp add: idle_def py_bool_def)
  then show ?thesis
    unfolding refresh_activity_def
    by (intro stays_self stays_andthen stays_if idle_refresh_panels stays_let) (auto simp: idle_def)
qed

interpretation idle_screen: screen_invariant idle ok for ok
  by unfold_locales (auto simp: idle_def update_conv' new_terminal_def intro: idle_refresh)

text \<open>A network on which an approval is pending and there is no persona.\<close>

definition sample_console :: "unit console" where
  "sample_console =
     \<lparr>cn_send = (\<lambda>q w. (Inr (if suffix ''/persona'' (hq_url q) then (404, Inr (JObj []))
          else if suffix ''/approvals'' (hq_url q) then (200, Inr (JList [JObj [(''id'', JId 90), (''state'', JStr ''pending''),
            (''capability'', JObj [(''kind'', JStr ''command.execute'')]), (''reason'', JStr ''r'')]]))
          else (200, Inr (JList []))), w)),
      cn_stream = (\<lambda>_ w. (Inl TransportError, w)), cn_describe = (\<lambda>_. ''failed''), cn_repr = (\<lambda>_. ''{}''),
      cn_loads = (\<lambda>_. Inl (ValueError ''json'')), cn_dumps = (\<lambda>_. ''{}''), cn_claims = (\<lambda>_. Inl (ValueError ''token'')),
      cn_uuid = (\<lambda>w. (7, w))\<rparr>"

definition sample_tui_settings :: tui_settings where
  "sample_tui_settings =
     \<lparr>tu_tenant_id = Some 1, tu_user_id = Some 2, tu_access_token = None, tu_conversation_id = None, tu_dev_login = False,
      tu_token_url = [], tu_client_id = [], tu_username = [], tu_password = []\<rparr>"

definition sample_mounted :: terminal where
  "sample_mounted = fst (snd (react sample_console (Mounted sample_tui_settings) (new_terminal False, ())))"

lemma sample_session: "ok sample_console \<Longrightarrow> session_state ok False sample_mounted"
  unfolding sample_mounted_def
  using session_event[OF session_start, of ok sample_console "Mounted sample_tui_settings" False "()"]
  by (cases "react sample_console (Mounted sample_tui_settings) (new_terminal False, ())") simp

text \<open>
  C25: The controls for an approval beside the conversation are never shown: whatever the user does and the network
  answers, no turn is ever active in the terminal, the row stays hidden and its two buttons disabled. So an answer
  that a turn gives after it was paused is not fetched either.
\<close>

theorem inline_approval_never_shown:
  assumes "session_state ok audit t"
  shows "map_of (tm_hidden t) ''turn-approval'' = Some True \<and> map_of (tm_disabled t) ''grant-inline'' = Some True \<and>
    map_of (tm_disabled t) ''deny-inline'' = Some True \<and> refresh_active_turn N (t, w) = (Inr (), t, w)"
proof -
  from assms have "idle t" by (rule idle_screen.session_invariant)
  then show ?thesis by (simp add: idle_def refresh_active_turn_def andthen_def self_def py_bool_def done_with_def)
qed

theorem inline_approval_never_shown_witness:
  "map_of (tm_hidden sample_mounted) ''turn-approval'' = Some True \<and> refresh_active_turn sample_console (sample_mounted, ()) = (Inr (), sample_mounted, ())"
  using inline_approval_never_shown[OF sample_session[of "\<lambda>_. True"], of sample_console "()"] by blast

section \<open>Approvals without a persona\<close>

text \<open>A network whose answer to the request for the persona is 404, as the coordinator's is while there is none.\<close>

definition without_persona :: "'w console \<Rightarrow> bool" where
  "without_persona N \<longleftrightarrow>
     (\<forall>q w. hq_get q \<longrightarrow> suffix ''/persona'' (hq_url q) \<longrightarrow> (\<exists>body w'. cn_send N q w = (Inr (404, body), w')))"

definition nothing_pending :: "terminal \<Rightarrow> bool" where
  "nothing_pending t \<longleftrightarrow> tm_pending_approval_id t = JNull"

definition got_answer :: "'w console \<Rightarrow> string \<Rightarrow> string \<Rightarrow> int \<times> (error + json) \<Rightarrow> bool" where
  "got_answer N u path answer \<longleftrightarrow>
     (\<exists>q w w'. hq_get q \<and> hq_url q = panel_url u path \<and> cn_send N q w = (Inr answer, w'))"

lemma send_all_answers: "send_all N u paths st = (Inr answers, st') \<Longrightarrow> list_all2 (got_answer N u) paths answers"
proof (induction paths arbitrary: st answers)
  case (Cons path paths)
  obtain t w where st: "st = (t, w)" by fastforce
  let ?q = "\<lparr>hq_get = True, hq_url = panel_url u path, hq_headers = user_headers t, hq_json = JNull\<rparr>"
  obtain r w1 where r: "cn_send N ?q w = (r, w1)" by fastforce
  obtain rest st1 where s: "send_all N u paths (t, w1) = (rest, st1)" by (rule prod.exhaust)
  from Cons.prems r s obtain answer rest' where a: "r = Inr answer" "rest = Inr rest'" "answers = answer # rest'" "st1 = st'"
    by (auto simp: st andthen_def send_def done_with_def split: sum.splits)
  have "got_answer N u path answer"
    unfolding got_answer_def using r a(1) by (intro exI[of _ ?q] exI[of _ w] exI[of _ w1]) simp
  with Cons.IH[of "(t, w1)" rest'] s a show ?case by simp
qed (simp add: done_with_def)

lemma require_all_raises: "(404, body) \<in> set answers \<Longrightarrow> require_all answers st = (Inl HTTPStatusError, st)"
  by (induction answers arbitrary: st rule: require_all.induct)
     (auto simp: andthen_def require_success_def outcome_of_def)

lemma persona_missing:
  assumes "without_persona N" and "got_answer N u ''persona'' answer"
  shows "fst answer = 404"
proof -
  have "suffix ''/persona'' (panel_url u ''persona'')" by (simp add: panel_url_def suffix_def)
  with assms show ?thesis unfolding without_persona_def got_answer_def by (metis Pair_inject fst_conv sum.inject(2))
qed

lemma panels_without_persona:
  assumes "without_persona N"
  shows "tm_pending_approval_id (fst (snd (refresh_panels N (t, w)))) = tm_pending_approval_id t"
proof -
  obtain r st where s: "send_all N (tenant_text t) activity_paths (t, w) = (r, st)" by (rule prod.exhaust)
  obtain t1 w1 where st: "st = (t1, w1)" by fastforce
  have keep: "tm_pending_approval_id t1 = tm_pending_approval_id t"
    using stays_send_all[of "\<lambda>x. tm_pending_approval_id x = tm_pending_approval_id t" N "tenant_text t" activity_paths] s
    unfolding stays_def st by (metis fst_conv snd_conv)
  show ?thesis
  proof (cases r)
    case (Inl err)
    with s keep show ?thesis
      by (auto simp: refresh_panels_def andthen_def excepting_def self_def set_text_def change_def done_with_def st)
  next
    case (Inr answers)
    with s have l: "list_all2 (got_answer N (tenant_text t)) activity_paths answers" by (blast intro: send_all_answers)
    then have n: "length answers = 9" by (auto simp: activity_paths_def dest: list_all2_lengthD)
    have "got_answer N (tenant_text t) ''persona'' (answers ! 6)"
      using list_all2_nthD[OF l, of 6] by (simp add: activity_paths_def)
    with assms have "fst (answers ! 6) = 404" by (rule persona_missing)
    moreover have "answers ! 6 \<in> set answers" using n by simp
    ultimately have "require_all answers st = (Inl HTTPStatusError, st)"
      using require_all_raises[of "snd (answers ! 6)"] by (metis prod.collapse)
    with s Inr keep show ?thesis
      by (auto simp: refresh_panels_def andthen_def excepting_def self_def set_text_def change_def done_with_def st)
  qed
qed

interpretation persona_screen: screen_invariant nothing_pending without_persona
proof unfold_locales
  fix N :: "'w console" assume N: "without_persona N"
  have turn: "stays nothing_pending (refresh_active_turn N)"
    unfolding refresh_active_turn_def
    by (intro stays_self stays_if stays_excepting stays_andthen)
       (auto simp: nothing_pending_def write_log_def split: json.split option.split intro!: stays_change stays_andthen stays_if)
  have "stays nothing_pending (refresh_panels N)"
    using panels_without_persona[OF N] by (simp add: stays_def nothing_pending_def)
  with turn show "stays nothing_pending (refresh_activity N)"
    unfolding refresh_activity_def
    by (auto simp: nothing_pending_def set_text_def set_disabled_def set_hidden_def
        intro!: stays_self stays_if stays_andthen stays_let stays_change)
qed (auto simp: nothing_pending_def new_terminal_def)

text \<open>
  C26: While the tenant has no active persona, so that the coordinator answers the request for it with 404, a session
  never sees an approval: none becomes the pending one, and pressing Grant or Deny, in the panel or beside the message,
  sends nothing.
\<close>

theorem approvals_need_persona:
  assumes "session_state without_persona audit t"
    and "b \<in> {Grant_button, Deny_button, Grant_inline_button, Deny_inline_button}"
  shows "tm_pending_approval_id t = JNull \<and> press N b (t, w) = (Inr (), t, w)"
proof -
  from assms(1) have "tm_pending_approval_id t = JNull"
    using persona_screen.session_invariant unfolding nothing_pending_def by blast
  with assms(2) show ?thesis by (auto simp: decide_pending_def andthen_def self_def py_bool_def done_with_def)
qed

theorem approvals_need_persona_witness:
  "press sample_console Grant_button (sample_mounted, ()) = (Inr (), sample_mounted, ())"
proof -
  have "without_persona sample_console" unfolding without_persona_def by (simp add: sample_console_def)
  from approvals_need_persona[OF sample_session[of without_persona, OF this], of Grant_button sample_console "()"] show ?thesis by blast
qed

text \<open>
  An access token that cannot be decoded, given without a tenant, ends the start with that exception: nothing catches it.
\<close>

lemma undecodable_token_ends_start:
  assumes "tu_access_token S = Some (c # cs)" and "tu_tenant_id S = None" and "cn_claims N (c # cs) = Inl err"
  shows "fst (on_mount N S (t, w)) = Inl err"
  using assms
  by (simp add: on_mount_def render_welcome_def change_def andthen_def log_in_def self_def has_text_def done_with_def
      tenant_from_token_def outcome_of_def ebind_def)

section \<open>A streamed answer\<close>

text \<open>The data of an event, and what \<^verbatim>\<open>json\<close> does with it: one line that is read back as it was.\<close>

definition event_data :: "stream_event \<Rightarrow> json" where
  "event_data ev = JObj ((''content'', JStr (se_content ev)) #
     (case se_tool_call ev of None \<Rightarrow> [] | Some c \<Rightarrow> [(''tool'', JStr (tc_name c))]))"

definition one_line :: "string \<Rightarrow> bool" where
  "one_line s \<longleftrightarrow> list_all (\<lambda>c. \<not> is_line_break c) s"

definition travels :: "orchestrator \<Rightarrow> 'w console \<Rightarrow> stream_event \<Rightarrow> bool" where
  "travels A N ev \<longleftrightarrow> one_line (se_kind ev) \<and> one_line (oc_dumps A False (event_data ev)) \<and>
     cn_loads N (oc_dumps A False (event_data ev)) = Inr (event_data ev)"

definition frame_lines :: "string \<Rightarrow> string \<Rightarrow> string list" where
  "frame_lines kind data = [''event: '' @ kind, ''data: '' @ data, []]"

lemma one_line_parts [simp]: "one_line []" "one_line (''event: '' @ s) = one_line s" "one_line (''data: '' @ s) = one_line s"
  by (simp_all add: one_line_def is_line_break_def)

lemma frames_split:
  "\<forall>(k, d) \<in> set frames. one_line k \<and> one_line d \<Longrightarrow>
     splitlines (concat (map (\<lambda>(k, d). sse_text k d) frames)) = concat (map (\<lambda>(k, d). frame_lines k d) frames)"
proof -
  assume frames: "\<forall>(k, d) \<in> set frames. one_line k \<and> one_line d"
  have "concat (map (\<lambda>(k, d). sse_text k d) frames) =
      concat (map (\<lambda>l. l @ [CHR 0x0A]) (concat (map (\<lambda>(k, d). frame_lines k d) frames)))"
    by (induction frames) (auto simp: sse_text_def frame_lines_def newline_def)
  moreover have "\<forall>l \<in> set (concat (map (\<lambda>(k, d). frame_lines k d) frames)). one_line l"
    using frames by (auto simp: frame_lines_def simp del: append.simps)
  ultimately show ?thesis by (simp add: splitlines_lines one_line_def)
qed

lemma read_stream_append:
  "read_stream N broken (ls @ ls') l =
     (case read_stream N None ls l of (None, l1) \<Rightarrow> read_stream N broken ls' l1 | (Some err, l1) \<Rightarrow> (Some err, l1))"
  by (induction ls arbitrary: l) (auto split: sum.split)

lemma read_line_parts [simp]:
  "read_line N [] l = Inr l" "read_line N (''event: '' @ kind) l = Inr (l\<lparr>lv_event := kind\<rparr>)"
  by (simp_all add: read_line_def)

lemma read_stream_frame:
  "read_stream N None (frame_lines kind data) l =
     (case read_line N (''data: '' @ data) (l\<lparr>lv_event := kind\<rparr>) of
        Inl err \<Rightarrow> (Some err, l\<lparr>lv_event := kind\<rparr>) | Inr l1 \<Rightarrow> (None, l1))"
  unfolding frame_lines_def read_stream.simps read_line_parts by (simp only: sum.simps read_line_parts split: sum.split)

text \<open>A frame of another kind than the three that are read leaves what was read as it was.\<close>

lemma read_other_frame:
  "kind \<notin> {''reasoning'', ''content'', ''tool_call''} \<Longrightarrow>
     read_stream N None (frame_lines kind data) l = (None, l\<lparr>lv_event := kind\<rparr>)"
  by (simp add: read_stream_frame read_line_def)

lemma read_event_frame:
  assumes "travels A N ev"
  shows "\<exists>l1. read_stream N None (frame_lines (se_kind ev) (oc_dumps A False (event_data ev))) l = (None, l1) \<and>
     lv_answer l1 = lv_answer l @ streamed_content [ev]"
proof -
  from assms have "cn_loads N (oc_dumps A False (event_data ev)) = Inr (event_data ev)" by (simp add: travels_def)
  then show ?thesis
    by (auto simp: read_stream_frame read_line_def streamed_content_def json_at_def json_get_def
        Tools.json_text_def ebind_def Let_def event_data_def)
qed

lemma read_events:
  "\<forall>ev \<in> set evs. travels A N ev \<Longrightarrow>
     \<exists>l1. read_stream N None (concat (map (\<lambda>ev. frame_lines (se_kind ev) (oc_dumps A False (event_data ev))) evs)) l = (None, l1) \<and>
       lv_answer l1 = lv_answer l @ streamed_content evs"
proof (induction evs arbitrary: l)
  case (Cons ev evs)
  then obtain l1 where l1: "read_stream N None (frame_lines (se_kind ev) (oc_dumps A False (event_data ev))) l = (None, l1)"
      "lv_answer l1 = lv_answer l @ streamed_content [ev]"
    using read_event_frame[of A N ev l] by auto
  with Cons.IH[of l1] Cons.prems show ?case by (auto simp: read_stream_append streamed_content_def)
qed (simp add: streamed_content_def)

text \<open>The frames of a stream end with one that is not read, whether the turn ended or the model failed.\<close>

lemma sse_frames:
  assumes "sse_events P claimed l st = (Inr frames, st1)"
  defines "A \<equiv> api_orchestrator P"
  shows "\<exists>kind data. kind \<in> {''done'', ''error''} \<and> one_line data \<and>
     frames = map (\<lambda>(k, d). sse_text k d)
       ((''turn'', oc_dumps A False (JObj [(''turn_id'', JId (tn_id claimed))])) #
        map (\<lambda>ev. (se_kind ev, oc_dumps A False (event_data ev))) (streamed (drop (length (os_effects st)) (os_effects st1))) @
        [(kind, data)])"
proof -
  obtain r st2 where r: "stream_turn A claimed l st = (r, st2)" by fastforce
  let ?message = "''{'' @ [CHR 0x22] @ ''message'' @ [CHR 0x22] @ '': '' @ [CHR 0x22] @ ''model provider failed'' @ [CHR 0x22] @ ''}''"
  show ?thesis
  proof (cases r)
    case (Inr u)
    with assms r have "st1 = st2" by (simp add: sse_events_def Let_def)
    with assms r Inr show ?thesis
      by - (rule exI[of _ "''done''"], rule exI[of _ "''{}''"],
         auto simp: sse_events_def Let_def sse_event_def event_data_def one_line_def is_line_break_def comp_def)
  next
    case (Inl err)
    with assms r have "st1 = st2" "\<exists>m. err = ModelProviderError m"
      by (auto simp: sse_events_def Let_def split: error.splits)
    with assms r Inl show ?thesis
      by - (rule exI[of _ "''error''"], rule exI[of _ ?message],
         auto simp: sse_events_def Let_def sse_event_def sse_text_def event_data_def one_line_def is_line_break_def comp_def)
  qed
qed

lemma stream_read:
  assumes "sse_events P claimed l st = (Inr frames, st1)"
    and "one_line (oc_dumps (api_orchestrator P) False (JObj [(''turn_id'', JId (tn_id claimed))]))"
    and "\<forall>ev \<in> set (streamed (drop (length (os_effects st)) (os_effects st1))). travels (api_orchestrator P) N ev"
  shows "\<exists>l1. read_stream N None (splitlines (concat frames)) no_live = (None, l1) \<and>
     lv_answer l1 = streamed_content (streamed (drop (length (os_effects st)) (os_effects st1)))"
proof -
  let ?A = "api_orchestrator P" and ?sent = "streamed (drop (length (os_effects st)) (os_effects st1))"
  let ?turn = "oc_dumps ?A False (JObj [(''turn_id'', JId (tn_id claimed))])"
  from sse_frames[OF assms(1)] obtain kind data where k: "kind \<in> {''done'', ''error''}" "one_line data"
    and f: "frames = map (\<lambda>(k, d). sse_text k d)
       ((''turn'', ?turn) # map (\<lambda>ev. (se_kind ev, oc_dumps ?A False (event_data ev))) ?sent @ [(kind, data)])"
    by blast
  have "one_line ''turn''" "one_line kind" using k(1) by (auto simp: one_line_def is_line_break_def)
  with k assms(2,3) have s: "splitlines (concat frames) = frame_lines ''turn'' ?turn @
      concat (map (\<lambda>ev. frame_lines (se_kind ev) (oc_dumps ?A False (event_data ev))) ?sent) @ frame_lines kind data"
    unfolding f by (subst frames_split) (auto simp: travels_def comp_def)
  obtain l1 where "read_stream N None (concat (map (\<lambda>ev. frame_lines (se_kind ev) (oc_dumps ?A False (event_data ev))) ?sent))
        (no_live\<lparr>lv_event := ''turn''\<rparr>) = (None, l1)" "lv_answer l1 = streamed_content ?sent"
    using read_events[OF assms(3), of "no_live\<lparr>lv_event := ''turn''\<rparr>"] by (auto simp: no_live_def)
  with k(1) show ?thesis by (auto simp: s read_stream_append read_other_frame)
qed

lemma shown_live_log: "\<exists>t1. show_live l (t, w) = (Inr (), t1, w) \<and> tm_log t1 = tm_log t \<and> tm_audit t1 = tm_audit t"
  by (auto simp: show_live_def set_hidden_def set_text_def andthen_def change_def done_with_def split: option.split)

text \<open>
  C18: What the coordinator streams is what the terminal shows: when a turn is streamed to a message of a session without
  the audit, the log grows by the content of the events that the turn sent, in order and nothing else, and by nothing when
  they had none. So a turn in which the model fails is shown like one that ended: the event of the error is not read.
\<close>

theorem streamed_answer_shown:
  assumes "sse_events P claimed l st = (Inr frames, st1)"
    and "one_line (oc_dumps (api_orchestrator P) False (JObj [(''turn_id'', JId (tn_id claimed))]))"
    and "\<forall>ev \<in> set (streamed (drop (length (os_effects st)) (os_effects st1))). travels (api_orchestrator P) N ev"
    and "py_bool (tm_conversation_id t)" and "\<not> tm_audit t" and "cn_uuid N w = (trace_id, w1)"
    and "\<And>q. cn_stream N q w1 = (Inr (200, splitlines (concat frames), None), w2)"
  defines "answer \<equiv> streamed_content (streamed (drop (length (os_effects st)) (os_effects st1)))"
  shows "\<exists>t'. submit_message N content (t, w) = (Inr (), t', w2) \<and>
     tm_log t' = tm_log t @ (if answer = [] then [] else [''[bold #86efac]Astra[/]: '' @ answer])"
proof -
  obtain l1 where l1: "read_stream N None (splitlines (concat frames)) no_live = (None, l1)" "lv_answer l1 = answer"
    using stream_read[OF assms(1-3)] by (auto simp: answer_def)
  have stream: "\<exists>t1. stream_answer N content trace_id (t0, w1) = (Inr answer, t1, w2) \<and> tm_log t1 = tm_log t0 \<and> tm_audit t1 = tm_audit t0" for t0
    using shown_live_log[of l1 t0 w2] l1
    by (auto simp: stream_answer_def assms(7) require_success_def outcome_of_def andthen_def show_stream_def)
  let ?t0 = "t\<lparr>tm_is_submitting := True, tm_disabled := AList.update ''message-input'' True (tm_disabled t),
    tm_hidden := AList.update ''thinking'' False (tm_hidden t),
    tm_texts := AList.update ''status'' (''Astra Agent '' @ [CHR 0xB7] @ '' '' @ ''working'') (tm_texts t)\<rparr>"
  from stream[of ?t0] obtain t1 where "stream_answer N content trace_id (?t0, w1) = (Inr answer, t1, w2)"
      "tm_log t1 = tm_log t" "\<not> tm_audit t1" using assms(5) by auto
  with assms(4,6) show ?thesis
    by (simp add: submit_message_def andthen_def change_def set_disabled_def set_hidden_def set_status_def set_text_def
        finally_do_def excepting_def start_conversation_def self_def done_with_def draw_uuid_def write_log_def)
qed

text \<open>A model that fails after a first piece of its answer.\<close>

definition first_piece :: stream_event where
  "first_piece = \<lparr>se_kind = ''content'', se_content = ''Hello'', se_tool_call = None\<rparr>"

definition breaking_app :: app where
  "breaking_app = (sample_app plain_answer)\<lparr>api_orchestrator :=
     (sample_agent plain_answer)\<lparr>oc_stream := Some (\<lambda>_ _ _. ([first_piece], Some (ModelProviderError ''down'')))\<rparr>\<rparr>"

definition listening_console :: "unit console" where
  "listening_console = sample_console\<lparr>cn_loads := (\<lambda>_. Inr (event_data first_piece)),
     cn_stream := (\<lambda>_ w. (Inr (200, splitlines (concat (case sse_events breaking_app sample_running_turn 33 sample_claimed of
       (Inr frames, _) \<Rightarrow> frames | _ \<Rightarrow> [])), None), w))\<rparr>"

lemma breaking_stream:
  "\<exists>frames st. sse_events breaking_app sample_running_turn 33 sample_claimed = (Inr frames, st) \<and>
     streamed (drop (length (os_effects sample_claimed)) (os_effects st)) = [first_piece]"
  by (simp add: sse_events_def breaking_app_def sample_app_def agent_eval sample_claimed_def sample_state_def stream_turn_def
      stream_loop.simps stream_request_def del: One_nat_def)

theorem streamed_answer_shown_witness:
  "\<exists>t. submit_message listening_console ''Hi'' (new_terminal False\<lparr>tm_conversation_id := JId 10\<rparr>, ()) = (Inr (), t, ()) \<and>
     tm_log t = [''[bold #86efac]Astra[/]: Hello'']"
proof -
  obtain frames st where s: "sse_events breaking_app sample_running_turn 33 sample_claimed = (Inr frames, st)"
    "streamed (drop (length (os_effects sample_claimed)) (os_effects st)) = [first_piece]"
    using breaking_stream by blast
  have "oc_dumps (api_orchestrator breaking_app) b j = ''{}''" for b j
    by (simp add: breaking_app_def sample_app_def sample_agent_def)
  then have "travels (api_orchestrator breaking_app) listening_console first_piece"
    and "one_line (oc_dumps (api_orchestrator breaking_app) False (JObj [(''turn_id'', JId (tn_id sample_running_turn))]))"
    by (simp_all add: travels_def listening_console_def one_line_def is_line_break_def first_piece_def)
  then show ?thesis
    using streamed_answer_shown[OF s(1), of listening_console "new_terminal False\<lparr>tm_conversation_id := JId 10\<rparr>" "()" 7 "()" "()" "''Hi''"] s
    by (simp add: listening_console_def sample_console_def py_bool_def new_terminal_def streamed_content_def first_piece_def)
qed

end
