(* ===== verification/Spec2Isabelle.thy ===== *)
theory Spec2Isabelle
  imports Policy TurnProperties JobProperties MemoryProperties TaskProperties RunProperties
    Context PipelineProperties SqlRowProperties SqlProperties SqlRunProperties JobWorkerProperties
    PathResolution ToolProperties CallProperties TurnLimits AgentProperties HermesProperties ProviderProperties TerminalProperties
begin

text \<open>
  A verification library of the Astra agent runtime.

  \<^bold>\<open>The program.\<close> \<^verbatim>\<open>astra-agent\<close> is a coordinator that answers conversation turns with a language
  model, runs tools under a default-deny policy, delegates bounded work to remote agents (ARAs) and
  keeps durable memories. Its parts share one runtime store: the API process files turns and
  background jobs, a worker claims them under leases, agents lease tasks and report results, and an
  operator decides approvals. Everything a part does to another part it does through the store.

  \<^bold>\<open>Theories and code.\<close>
  \<^item> \<open>Prelude\<close>, \<open>PyString\<close>, \<open>Uuid\<close>: dictionaries, outcomes, Python's text methods and \<^verbatim>\<open>uuid.UUID\<close>.
  \<^item> \<open>Domain\<close>: \<^verbatim>\<open>packages/domain/src/astra_domain/models.py\<close>, every enumeration and model with its
    field bounds and validators as \<open>valid_...\<close> predicates.
  \<^item> \<open>Policy\<close>: \<^verbatim>\<open>packages/policy/src/astra_policy/engine.py\<close> and the plan models of the provider
    interface.
  \<^item> \<open>Store\<close>, \<open>StoreConversations\<close>, \<open>StoreJobs\<close>, \<open>StoreMemories\<close>, \<open>StoreTasks\<close>, \<open>StoreApprovals\<close>:
    \<^verbatim>\<open>packages/runtime/src/astra_runtime/memory.py\<close>. The record \<open>store\<close> has one field per dictionary of
    \<^verbatim>\<open>InMemoryRuntimeStore\<close>; each method is a function from its arguments and the store to an outcome and
    the store after it, one atomic step because each method holds the store's lock throughout.
  \<^item> \<open>RowSpec\<close>, \<open>RowSteps\<close>, \<open>StoreRefinement\<close>, \<open>TaskRefinement\<close>: the abstract
    specification of the store, legal changes of single rows, and the proof that every operation
    refines it; \<open>store_step\<close> is the labelled step relation of the whole store, \<open>reachable\<close> its runs.
  \<^item> \<open>TurnProperties\<close>, \<open>JobProperties\<close>, \<open>MemoryProperties\<close>, \<open>TaskProperties\<close>, \<open>RunProperties\<close>: the
    functional behaviour of the operations and the invariants of runs.
  \<^item> \<open>Context\<close>: \<^verbatim>\<open>packages/memory/src/astra_memory/compiler.py\<close> and \<^verbatim>\<open>MemoryContextCompiler\<close>; the locale
    \<open>context_compiler\<close> is the contract of the three compilers.
  \<^item> \<open>Pipeline\<close>, \<open>PipelineProperties\<close>: the extractors, the filing of memories and the vector indexes of
    \<^verbatim>\<open>packages/memory/src/astra_memory/pipeline.py\<close>; the locale \<open>memory_repository\<close> is what the pipeline
    relies on, interpreted by the in-memory store.
  \<^item> \<open>JobWorker\<close>, \<open>JobWorkerProperties\<close>: the background loop \<^verbatim>\<open>run_jobs\<close> of
    \<^verbatim>\<open>apps/astra-agent-api/src/astra_agent/app.py\<close>, which claims, processes and retries jobs.
  \<^item> \<open>SqlTable\<close>, \<open>SqlMemories\<close>, \<open>SqlConversations\<close>, \<open>SqlTasks\<close>,
    \<open>SqlApprovals\<close>: the record \<open>db\<close> has one list of rows per table of
    \<^verbatim>\<open>sql.py\<close>; each method is a transaction that commits or leaves the tables as they were. The locale
    \<open>sql_table\<close> is the correspondence of a table with a dictionary.
  \<^item> \<open>SqlSteps\<close>, \<open>SqlRunProperties\<close>: runs of transactions, the keys and the history they keep,
    and the guarantees of leases and revocations.
  \<^item> \<open>SqlAgreement\<close>, \<open>SqlProperties\<close>: the two stores agree on jobs and memories, and where they do not.
  \<^item> \<open>SqlRows\<close>, \<open>SqlRowProperties\<close>: the row classes and conversions of
    \<^verbatim>\<open>packages/runtime/src/astra_runtime/sql.py\<close>.
  \<^item> \<open>Samples\<close>: concrete rows on which the properties with hypotheses are instantiated.

  \<^item> \<open>Tools\<close>, \<open>ToolProperties\<close>, \<open>PathResolution\<close>: the local tools of
    \<^verbatim>\<open>apps/astra-agent-api/src/astra_agent/tools.py\<close> on a tree of files: the path check, reading, listing and
    searching, the sandbox command and the registry that dispatches under the tenant's grants.
  \<^item> \<open>Actions\<close>, \<open>MemoryTools\<close>, \<open>Orchestrator\<close>, \<open>TurnLoop\<close>: \<^verbatim>\<open>ConversationOrchestrator\<close> of
    \<^verbatim>\<open>conversations.py\<close> with \<^verbatim>\<open>memory_tools.py\<close> and \<^verbatim>\<open>run_pending_turns\<close> of \<^verbatim>\<open>app.py\<close>. A method is an
    action on a store, a count of readings of the environment and a list of effects; it is a coroutine,
    so before each of its store calls \<open>oc_others\<close> lets the other tasks of the process change the store.
  \<^item> \<open>OrchestratorContract\<close>, \<open>OrchestratorGuarantee\<close>, \<open>TurnGuarantee\<close>,
    \<open>OrchestratorProperties\<close>: a rely-guarantee proof, method by method, that a turn only makes calls the
    contract \<open>store_step\<close> allows, whatever the model answers and the others do within that contract.
  \<^item> \<open>AgentInvariants\<close>, \<open>TurnLimits\<close>: the locale \<open>turn_invariant\<close>, between an invariant and the methods
    that keep it; the bound on model requests, and what checkpoints are worth.
  \<^item> \<open>CallProperties\<close>: when a command is run, and what becomes of host commands.
  \<^item> \<open>AgentSamples\<close>: a concrete orchestrator on which the properties of turns are instantiated.

  \<^item> \<open>Messages\<close>: the bodies of requests, \<^verbatim>\<open>packages/protocol/src/astra_protocol/messages.py\<close>.
  \<^item> \<open>Identity\<close>: \<^verbatim>\<open>auth.py\<close>, who sent a request: development headers, the ingress that checks certificates,
    bearer tokens with the cache of signing keys.
  \<^item> \<open>ArtifactStore\<close>, \<open>SessionAudit\<close>: \<^verbatim>\<open>artifacts.py\<close> and \<^verbatim>\<open>audit.py\<close>.
  \<^item> \<open>Requests\<close>, \<open>AgentRoutes\<close>, \<open>OperatorRoutes\<close>, \<open>UserRoutes\<close>, \<open>Routes\<close>: the routes of \<^verbatim>\<open>app.py\<close>, actions like
    the methods of the orchestrator; \<open>handle_user\<close> and \<open>handle_ara\<close> hand a request to its route, and an
    \<^verbatim>\<open>HTTPException\<close> is an error value.
  \<^item> \<open>RouteCalls\<close>, \<open>AgentGuarantee\<close>, \<open>UserGuarantee\<close>: the rely-guarantee
    proof continued, route by route: each makes only calls the contract allows for the tenant of the sender,
    and is answered with rows of that tenant.
  \<^item> \<open>RouteProperties\<close>: the same for every request and every sequence of requests and turns.
  \<^item> \<open>RequestProperties\<close>: the requests that are refused, and how the routes of users differ from the console.
  \<^item> \<open>AccessProperties\<close>: bearer tokens, artifacts of completions, and the session audit.

  \<^item> \<open>AgentClient\<close>, \<open>HostCommand\<close>, \<open>RepositoryAgent\<close>: the processes of the remote agents,
    \<^verbatim>\<open>packages/ara-sdk/src/astra_ara_sdk/client.py\<close> and \<^verbatim>\<open>apps/ara/src/astra_ara\<close>: the client, the loop, the agent
    that runs commands on its host and the agent that searches a repository. The network is a parameter.
  \<^item> \<open>HostProperties\<close>: which commands are run, what a report may depend on, what becomes of a report that is
    refused. \<open>AgentProperties\<close>: the locale \<open>kept_network\<close>, a network that keeps an invariant, interpreted by the
    routes of the coordinator.

  \<^item> \<open>Hermes\<close>, \<open>HermesProperties\<close>: the import of an earlier agent's memories, \<^verbatim>\<open>hermes.py\<close> and the
    staging of \<^verbatim>\<open>hermes_cli.py\<close>; what is parsed, fingerprinted, staged and recalled before the activation.
  \<^item> \<open>Providers\<close>, \<open>ProviderProperties\<close>: \<^verbatim>\<open>packages/model-providers/src/astra_model_providers/providers.py\<close>, the
    clients of the language models, whose answers the orchestrator takes as parameters; how a stream is
    assembled and which failures are reported.

  \<^item> \<open>Terminal\<close>, \<open>TerminalProperties\<close>: \<^verbatim>\<open>apps/astra-tui/src/astra_tui/app.py\<close>, the terminal client: a method is an
    action on the fields of the application, the widgets and the log. The locale \<open>screen_invariant\<close> gives what
    holds in every state of a session; a streamed answer is followed from the route to the log.

  \<^bold>\<open>Bounds.\<close> Only \<open>realpath\<close> carries fuel: the links being resolved are distinct links of the tree, so the
  number of links is enough (\<open>resolution_needs_no_more_fuel\<close>). The loops of a turn are total functions:
  each round uses one of \<open>oc_max_tool_iterations\<close>. \<^verbatim>\<open>respond\<close> and \<^verbatim>\<open>run_pending_turns\<close>, which wait on the store,
  are partial functions with value \<open>None\<close> where they do not return.

  \<^bold>\<open>Conventions.\<close> Clock readings and fresh identifiers are an argument of type \<open>env\<close>. An exception is
  the left summand of a result, the state beside it is the state Python leaves behind. Real numbers
  (confidences, vectors) are rationals, so rounding is not modelled. Texts range over code points
  below 256. The models, the container engine, the vector index, \<^verbatim>\<open>json\<close> and the digests are parameters of
  the definitions that use them.

  \<^bold>\<open>Not modelled.\<close> FastAPI and the assembly of the application at startup; the callbacks that record into
  the session audit. Of the terminal client, the layout, the focus and the spinner, and methods that run while
  another waits for an answer; settings are read from the environment; the repositories are signatures; the
  migrations only create the tables. Of the remote agents the set-up of TLS and the pauses between requests are
  left out; of the MariaDB store, row locks and the driver; of the file tools, errors of the operating system and
  changes of the tree during a call.
\<close>

end
